(* ===== verification/Prelude.thy ===== *)
theory Prelude
  imports Main "HOL-Library.Word" "HOL-Library.Monad_Syntax"
begin

text \<open>
  Shared vocabulary of the development: the machine types and error codes the C sources use, the
  result type of a modelled call, \<open>memcpy\<close> on byte lists, case-insensitive string comparison,
  and the generic lemmas on lists, options and words that the component theories rely on.

  A modelled C function takes the state explicitly and returns \<open>('a \<times> 'w) option\<close>; \<open>None\<close> is a
  call that does not return a value the C standard defines (it dereferences \<open>NULL\<close> or freed
  memory, copies outside an object, or never returns).
\<close>

unbundle bit_operations_syntax

section \<open>Machine types, ticks and error codes\<close>

type_synonym u8 = "8 word"
type_synonym u32 = "32 word"
type_synonym u64 = "64 word"
type_synonym tick = u32
type_synonym esp_err = int
type_synonym addr = nat

abbreviation ESP_OK :: esp_err where "ESP_OK \<equiv> 0"
abbreviation ESP_FAIL :: esp_err where "ESP_FAIL \<equiv> -1"
abbreviation ESP_ERR_NO_MEM :: esp_err where "ESP_ERR_NO_MEM \<equiv> 0x101"
abbreviation ESP_ERR_INVALID_ARG :: esp_err where "ESP_ERR_INVALID_ARG \<equiv> 0x102"
abbreviation ESP_ERR_INVALID_STATE :: esp_err where "ESP_ERR_INVALID_STATE \<equiv> 0x103"
abbreviation ESP_ERR_NOT_FOUND :: esp_err where "ESP_ERR_NOT_FOUND \<equiv> 0x105"

abbreviation portMAX_DELAY :: tick where "portMAX_DELAY \<equiv> 0xFFFFFFFF"

section \<open>Collections of rewrite rules\<close>

named_theorems platform_laws \<open>equations of the reference platform\<close>
named_theorems heap_simps \<open>reading and writing the object stores\<close>
named_theorems frame \<open>what an operation leaves unchanged\<close>

section \<open>Memory blocks as byte lists\<close>

text \<open>
  \<open>mem_read b off n\<close> is the source side of a \<open>memcpy\<close> of \<open>n\<close> bytes from \<open>b + off\<close>, and
  \<open>mem_write b off xs\<close> the destination side; both are undefined outside the block.
\<close>

definition mem_read :: "'a list \<Rightarrow> nat \<Rightarrow> nat \<Rightarrow> 'a list option" where
  "mem_read b off n = (if off + n \<le> length b then Some (take n (drop off b)) else None)"

definition mem_write :: "'a list \<Rightarrow> nat \<Rightarrow> 'a list \<Rightarrow> 'a list option" where
  "mem_write b off xs =
     (if off + length xs \<le> length b then Some (take off b @ xs @ drop (off + length xs) b)
      else None)"

lemma mem_read_Some [simp]: "off + n \<le> length b \<Longrightarrow> mem_read b off n = Some (take n (drop off b))"
  by (simp add: mem_read_def)

lemma mem_write_Some [simp]:
  "off + length xs \<le> length b \<Longrightarrow>
   mem_write b off xs = Some (take off b @ xs @ drop (off + length xs) b)"
  by (simp add: mem_write_def)

lemma mem_write_length: "mem_write b off xs = Some b' \<Longrightarrow> length b' = length b"
  by (auto simp: mem_write_def split: if_splits)

section \<open>Circular views of a list\<close>

text \<open>\<open>circ b r n\<close>: the \<open>n\<close> elements read from \<open>b\<close> starting at index \<open>r\<close>, going round at the end.\<close>

definition circ :: "'a list \<Rightarrow> nat \<Rightarrow> nat \<Rightarrow> 'a list" where
  "circ b r n = map (\<lambda>i. b ! ((r + i) mod length b)) [0..<n]"

lemma length_circ [simp]: "length (circ b r n) = n"
  by (simp add: circ_def)

lemma circ_0 [simp]: "circ b r 0 = []"
  by (simp add: circ_def)

lemma circ_append: "circ b r (m + n) = circ b r m @ circ b ((r + m) mod length b) n"
  by (rule nth_equalityI)
    (auto simp: circ_def nth_append mod_simps add.assoc)

lemma circ_start_wrap: "circ b (length b) n = circ b 0 n"
  by (simp add: circ_def)

lemma circ_linear: "r + n \<le> length b \<Longrightarrow> circ b r n = take n (drop r b)"
  by (rule nth_equalityI) (auto simp: circ_def)

lemma circ_wrap:
  assumes "r \<le> length b" "length b \<le> r + n" "n \<le> length b"
  shows "circ b r n = drop r b @ take (r + n - length b) b"
proof -
  have "circ b r n = circ b r (length b - r) @ circ b (length b mod length b) (r + n - length b)"
    using assms circ_append[of b r "length b - r" "r + n - length b"] by simp
  then show ?thesis
    using assms by (simp add: circ_linear)
qed

lemma circ_cong:
  "length b' = length b \<Longrightarrow>
   (\<And>i. i < n \<Longrightarrow> b' ! ((r + i) mod length b) = b ! ((r + i) mod length b)) \<Longrightarrow>
   circ b' r n = circ b r n"
  by (simp add: circ_def)

lemma circ_mod [simp]: "circ b (r mod length b) n = circ b r n"
  by (simp add: circ_def mod_simps)

lemma mod_shift_neq:
  fixes r s :: nat
  assumes "i < k" "k < i + s"
  shows "(r + i) mod s \<noteq> (r + k) mod s"
proof
  assume "(r + i) mod s = (r + k) mod s"
  then have "s dvd (r + k) - (r + i)"
    using assms mod_eq_dvd_iff_nat[of "r + i" "r + k" s] by simp
  with assms show False by (auto dest: dvd_imp_le)
qed

text \<open>\<open>b'\<close> is \<open>b\<close> with \<open>xs\<close> stored from index \<open>w\<close> on, going round at the end.\<close>

definition circ_stored :: "'a list \<Rightarrow> nat \<Rightarrow> 'a list \<Rightarrow> 'a list \<Rightarrow> bool" where
  "circ_stored b w xs b' \<longleftrightarrow>
     length b' = length b \<and> (\<forall>i < length xs. b' ! ((w + i) mod length b) = xs ! i) \<and>
     (\<forall>j < length b. (\<forall>i < length xs. j \<noteq> (w + i) mod length b) \<longrightarrow> b' ! j = b ! j)"

lemma circ_stored_linear:
  assumes "w + length xs \<le> length b"
  shows "circ_stored b w xs (take w b @ xs @ drop (w + length xs) b)" (is "circ_stored b w xs ?b")
proof -
  have wr: "(w + i) mod length b = w + i" if "i < length xs" for i
    using that assms by simp
  have "?b ! j = b ! j" if "j < length b" "\<forall>i < length xs. j \<noteq> (w + i) mod length b" for j
  proof -
    have "j < w \<or> w + length xs \<le> j"
    proof (rule ccontr)
      assume "\<not> ?thesis"
      then have "j - w < length xs" "w + (j - w) = j" by auto
      with that(2) wr[of "j - w"] show False by auto
    qed
    then show ?thesis using that(1) assms by (auto simp: nth_append)
  qed
  then show ?thesis
    using assms wr by (auto simp: circ_stored_def nth_append)
qed

lemma circ_stored_wrap:
  assumes w: "w \<le> length b" and xs: "length xs = length b - w" and ys: "length ys \<le> w"
    and pos: "0 < length ys"
  shows "circ_stored b w (xs @ ys) (ys @ drop (length ys) (take w b) @ xs)" (is "circ_stored b w _ ?b")
proof -
  have wr: "(w + i) mod length b = (if i < length xs then w + i else i - length xs)"
    if "i < length (xs @ ys)" for i
  proof (cases "i < length xs")
    case False
    then have "w + i = (i - length xs) + length b" using w xs by simp
    then have "(w + i) mod length b = (i - length xs) mod length b" by (metis mod_add_self2)
    also have "\<dots> = i - length xs" using that ys w False by (intro mod_less) simp
    finally show ?thesis using False by simp
  qed (use xs in simp)
  have "?b ! ((w + i) mod length b) = (xs @ ys) ! i" if "i < length (xs @ ys)" for i
    using that w xs ys by (auto simp: wr[OF that] nth_append)
  moreover have "?b ! j = b ! j"
    if "j < length b" and neq: "\<forall>i < length (xs @ ys). j \<noteq> (w + i) mod length b" for j
  proof -
    have "\<not> j < length ys"
      using neq[rule_format, of "j + length xs"] wr[of "j + length xs"] by auto
    moreover have "\<not> w \<le> j"
    proof
      assume "w \<le> j"
      then have "j - w < length xs" using that(1) xs by simp
      then show False using neq[rule_format, of "j - w"] wr[of "j - w"] \<open>w \<le> j\<close> by auto
    qed
    ultimately show ?thesis using w xs ys by (auto simp: nth_append)
  qed
  ultimately show ?thesis
    using w xs ys by (simp add: circ_stored_def)
qed

lemma circ_store:
  assumes st: "circ_stored b w xs b'" and fit: "f + length xs \<le> length b"
    and pos: "(r + f) mod length b = w mod length b"
  shows "circ b' r (f + length xs) = circ b r f @ xs"
proof -
  have len: "length b' = length b"
    and new: "\<And>i. i < length xs \<Longrightarrow> b' ! ((w + i) mod length b) = xs ! i"
    and old: "\<And>j. j < length b \<Longrightarrow> (\<And>i. i < length xs \<Longrightarrow> j \<noteq> (w + i) mod length b) \<Longrightarrow> b' ! j = b ! j"
    using st by (auto simp: circ_stored_def)
  have w: "(w + i) mod length b = (r + (f + i)) mod length b" for i
    by (metis pos mod_add_left_eq add.assoc)
  have "circ b' r f = circ b r f"
  proof (rule circ_cong[OF len])
    fix i assume i: "i < f"
    then have "0 < length b" using fit by linarith
    moreover have "(r + i) mod length b \<noteq> (w + j) mod length b" if "j < length xs" for j
      unfolding w using mod_shift_neq[of i "f + j" "length b" r] i that fit by simp
    ultimately show "b' ! ((r + i) mod length b) = b ! ((r + i) mod length b)"
      by (intro old) auto
  qed
  moreover have "circ b' ((r + f) mod length b') (length xs) = xs"
    using new pos by (auto simp: circ_def len mod_simps w[symmetric] add.assoc intro!: nth_equalityI)
  ultimately show ?thesis
    by (simp add: circ_append)
qed

section \<open>Signed and unsigned readings of a 32-bit word\<close>

lemma sint_small:
  assumes "unat (x :: u32) < 2 ^ 31"
  shows "sint x = int (unat x)"
proof -
  have "int (unat x) < int (2 ^ 31)" using assms by (simp only: of_nat_less_iff)
  then have "uint x < 2 ^ 31" by simp
  moreover have "sint x = signed_take_bit 31 (uint x)" by (simp add: sint_uint)
  moreover have "0 \<le> uint x" by simp
  ultimately show ?thesis
    using signed_take_bit_int_eq_self[of 31 "uint x"] by simp
qed

lemma word_sless_small:
  "unat (x :: u32) < 2 ^ 31 \<Longrightarrow> unat y < 2 ^ 31 \<Longrightarrow> x <s y \<longleftrightarrow> unat x < unat y"
  by (simp only: word_sless_alt sint_small of_nat_less_iff)

section \<open>Stores of objects by handle\<close>

text \<open>The contract of the stores of live objects and of writing through a handle: it succeeds exactly
  on live objects and changes that object alone.\<close>

locale object_store =
  fixes fetch :: "'w \<Rightarrow> addr \<Rightarrow> 'o option"
    and upd :: "addr \<Rightarrow> ('o \<Rightarrow> 'o) \<Rightarrow> 'w \<Rightarrow> 'w option"
  assumes upd_dead: "fetch w h = None \<Longrightarrow> upd h f w = None"
    and upd_live: "fetch w h = Some e \<Longrightarrow> \<exists>w'. upd h f w = Some w' \<and> fetch w' = (fetch w)(h \<mapsto> f e)"
begin

lemma updD: "upd h f w = Some w' \<Longrightarrow> \<exists>e. fetch w h = Some e \<and> fetch w' = (fetch w)(h \<mapsto> f e)"
  using upd_dead[of w h f] upd_live[of w h _ f] by (cases "fetch w h") auto

lemma upd_dom: "upd h f w = Some w' \<Longrightarrow> dom (fetch w') = dom (fetch w)"
  by (drule updD) (auto split: if_splits)

lemma upd_other: "upd h f w = Some w' \<Longrightarrow> k \<noteq> h \<Longrightarrow> fetch w' k = fetch w k"
  by (drule updD) auto

lemma upd_twice:
  "upd h f w = Some w1 \<Longrightarrow> upd h g w1 = Some w2 \<Longrightarrow>
   \<exists>w'. upd h (g \<circ> f) w = Some w' \<and> fetch w' = fetch w2"
  using updD[of h f w w1] updD[of h g w1 w2] upd_live[of w h _ "g \<circ> f"] by fastforce

end

section \<open>C strings\<close>

text \<open>\<open>tolower\<close> in the C locale and \<open>strcasecmp(s, t) == 0\<close>.\<close>

definition tolower :: "char \<Rightarrow> char" where
  "tolower c = (let n = of_char c :: nat in if 65 \<le> n \<and> n \<le> 90 then char_of (n + 32) else c)"

definition strcaseeq :: "string \<Rightarrow> string \<Rightarrow> bool" where
  "strcaseeq s t \<longleftrightarrow> map tolower s = map tolower t"

lemma strcaseeq_refl [simp]: "strcaseeq s s"
  by (simp add: strcaseeq_def)

lemma strcaseeq_sym: "strcaseeq s t \<Longrightarrow> strcaseeq t s"
  by (simp add: strcaseeq_def)

lemma strcaseeq_trans: "strcaseeq s t \<Longrightarrow> strcaseeq t u \<Longrightarrow> strcaseeq s u"
  by (simp add: strcaseeq_def)

section \<open>Printed numbers\<close>

text \<open>The decimal digits \<open>printf\<close> writes.\<close>

fun nat_dec :: "nat \<Rightarrow> string" where
  "nat_dec n = (if n < 10 then [char_of (48 + n)] else nat_dec (n div 10) @ [char_of (48 + n mod 10)])"

declare nat_dec.simps [simp del]

definition int_dec :: "int \<Rightarrow> string" where
  "int_dec i = (if i < 0 then CHR ''-'' # nat_dec (nat (- i)) else nat_dec (nat i))"

text \<open>The hexadecimal digits of a number, at least \<open>k\<close> of them, in lower case.\<close>

function nat_hex :: "nat \<Rightarrow> nat \<Rightarrow> string" where
  "nat_hex k n = (if n < 16 \<and> k \<le> 1 then [''0123456789abcdef'' ! n] else nat_hex (k - 1) (n div 16) @ [''0123456789abcdef'' ! (n mod 16)])"
  by pat_completeness auto
termination
proof (relation "measure (\<lambda>(k, n). k + n)", goal_cases)
  case (2 k n)
  have "n div 16 \<le> n" by simp
  moreover have "n div 16 < n" if "16 \<le> n" using that by simp
  ultimately show ?case using 2 by (cases "n < 16") auto
qed simp

declare nat_hex.simps [simp del]

section \<open>Single-precision products\<close>

text \<open>
  A finite \<open>float\<close> is \<open>m * 2 ^ e\<close> with a 24-bit significand, written as the pair of both. The operations
  are the ones the sources use: conversion of an \<open>int\<close>, product (rounded to nearest, ties to even),
  conversion to \<open>int\<close> (towards zero) and comparison with 0 and 1.
\<close>

type_synonym f32 = "int \<times> int"

fun bitlen :: "nat \<Rightarrow> nat" where
  "bitlen n = (if n = 0 then 0 else Suc (bitlen (n div 2)))"

declare bitlen.simps [simp del]

definition f32_round :: "int \<Rightarrow> int \<Rightarrow> f32" where
  "f32_round m e =
     (let k = bitlen (nat \<bar>m\<bar>) - 24; q = \<bar>m\<bar> div 2 ^ k; r = \<bar>m\<bar> mod 2 ^ k;
          up = (k \<noteq> 0 \<and> (2 * r > 2 ^ k \<or> (2 * r = 2 ^ k \<and> odd q))) in
      (sgn m * (if up then q + 1 else q), e + int k))"

definition f32_of_int :: "int \<Rightarrow> f32" where "f32_of_int n = f32_round n 0"

definition f32_mul :: "f32 \<Rightarrow> f32 \<Rightarrow> f32" where
  "f32_mul x y = f32_round (fst x * fst y) (snd x + snd y)"

definition f32_to_int :: "f32 \<Rightarrow> int" where
  "f32_to_int x =
     (if 0 \<le> snd x then fst x * 2 ^ nat (snd x) else sgn (fst x) * (\<bar>fst x\<bar> div 2 ^ nat (- snd x)))"

definition f32_gt_1 :: "f32 \<Rightarrow> bool" where
  "f32_gt_1 x = (if 0 \<le> snd x then fst x * 2 ^ nat (snd x) > 1 else fst x > 2 ^ nat (- snd x))"

definition f32_lt_0 :: "f32 \<Rightarrow> bool" where "f32_lt_0 x = (fst x < 0)"

definition f32_eq_0 :: "f32 \<Rightarrow> bool" where "f32_eq_0 x = (fst x = 0)"

abbreviation f32_zero :: f32 where "f32_zero \<equiv> (0, 0)"

end
