(* ===== verification/Platform.thy ===== *)
theory Platform
  imports Prelude
begin

text \<open>
  The services the sources call but do not contain: FreeRTOS semaphores, queues, queue sets, event
  groups and tasks, the C heap's choice of an address, and the callbacks the application registers.
  They are parameters of the model, collected in the record \<open>platform\<close>, whose functions act on the
  whole modelled state \<open>'w\<close>: while a task is blocked in one of them other tasks run and may change
  any part of the state. What a theorem needs of them is a hypothesis of that theorem. The size passed
  to \<open>heap_alloc\<close> for a struct is its \<open>sizeof\<close> on the 32-bit target.

  \<open>audio_event_iface_msg\<close> (\<open>audio_event_iface.h\<close>) is here because queues carry it.
\<close>

type_synonym sem = addr
type_synonym qhandle = addr
type_synonym egroup = addr
type_synonym fnptr = addr
type_synonym el_handle = addr
type_synonym rb_handle = addr
type_synonym iface_handle = addr

text \<open>\<open>typedef struct {...} audio_event_iface_msg_t\<close>; \<open>void *data\<close> is the value it is cast from.\<close>

record audio_event_iface_msg =
  msg_cmd :: int
  msg_data :: int
  msg_data_len :: int
  msg_source :: "addr option"
  msg_source_type :: int
  msg_need_free_data :: bool

record 'w platform =
  portTICK_RATE_MS :: nat
  heap_alloc :: "nat \<Rightarrow> 'w \<Rightarrow> addr option \<times> 'w"
  xSemaphoreCreateBinary :: "'w \<Rightarrow> sem option \<times> 'w"
  xSemaphoreCreateMutex :: "'w \<Rightarrow> sem option \<times> 'w"
  vSemaphoreDelete :: "sem \<Rightarrow> 'w \<Rightarrow> 'w"
  xSemaphoreTake :: "sem \<Rightarrow> tick \<Rightarrow> 'w \<Rightarrow> bool \<times> 'w"
  xSemaphoreGive :: "sem \<Rightarrow> 'w \<Rightarrow> 'w"
  xQueueCreate :: "int \<Rightarrow> 'w \<Rightarrow> qhandle option \<times> 'w"
  vQueueDelete :: "qhandle \<Rightarrow> 'w \<Rightarrow> 'w"
  xQueueSend :: "qhandle \<Rightarrow> audio_event_iface_msg \<Rightarrow> 'w \<Rightarrow> bool \<times> 'w"
  xQueueSendFromISR :: "qhandle \<Rightarrow> audio_event_iface_msg \<Rightarrow> 'w \<Rightarrow> bool \<times> 'w"
  xQueueReceive :: "qhandle \<Rightarrow> tick \<Rightarrow> 'w \<Rightarrow> audio_event_iface_msg option \<times> 'w"
  xQueueCreateSet :: "int \<Rightarrow> 'w \<Rightarrow> qhandle option \<times> 'w"
  xQueueAddToSet :: "qhandle \<Rightarrow> qhandle \<Rightarrow> 'w \<Rightarrow> bool \<times> 'w"
  xQueueRemoveFromSet :: "qhandle \<Rightarrow> qhandle \<Rightarrow> 'w \<Rightarrow> bool \<times> 'w"
  xQueueSelectFromSet :: "qhandle \<Rightarrow> tick \<Rightarrow> 'w \<Rightarrow> qhandle option \<times> 'w"
  xEventGroupCreate :: "'w \<Rightarrow> egroup option \<times> 'w"
  vEventGroupDelete :: "egroup \<Rightarrow> 'w \<Rightarrow> 'w"
  xEventGroupSetBits :: "egroup \<Rightarrow> u32 \<Rightarrow> 'w \<Rightarrow> 'w"
  xEventGroupClearBits :: "egroup \<Rightarrow> u32 \<Rightarrow> 'w \<Rightarrow> 'w"
  xEventGroupWaitBits :: "egroup \<Rightarrow> u32 \<Rightarrow> tick \<Rightarrow> 'w \<Rightarrow> u32 \<times> 'w"
  xTaskCreate :: "addr \<Rightarrow> int \<Rightarrow> int \<Rightarrow> int \<Rightarrow> 'w \<Rightarrow> bool \<times> 'w"
  call_io :: "fnptr \<Rightarrow> addr \<Rightarrow> 'w \<Rightarrow> esp_err \<times> 'w"
  call_process :: "fnptr \<Rightarrow> el_handle \<Rightarrow> addr option \<Rightarrow> int \<Rightarrow> 'w \<Rightarrow> int \<times> 'w"
  call_read :: "fnptr \<Rightarrow> el_handle \<Rightarrow> int \<Rightarrow> tick \<Rightarrow> addr \<Rightarrow> 'w \<Rightarrow> (int \<times> u8 list) \<times> 'w"
  call_write :: "fnptr \<Rightarrow> el_handle \<Rightarrow> u8 list \<Rightarrow> int \<Rightarrow> tick \<Rightarrow> addr \<Rightarrow> 'w \<Rightarrow> int \<times> 'w"
  call_event :: "fnptr \<Rightarrow> el_handle \<Rightarrow> audio_event_iface_msg \<Rightarrow> addr \<Rightarrow> 'w \<Rightarrow> esp_err \<times> 'w"
  call_cmd :: "fnptr \<Rightarrow> audio_event_iface_msg \<Rightarrow> addr \<Rightarrow> 'w \<Rightarrow> esp_err \<times> 'w"

text \<open>
  A platform with a single task, for evaluating the model on concrete inputs: an unbounded wait is
  granted at once, a bounded one times out, allocation yields the given address, queues accept and
  hold nothing, and callbacks succeed without effect.
\<close>

definition seq_platform :: "addr option \<Rightarrow> 'w platform" where
  "seq_platform a = \<lparr>
     portTICK_RATE_MS = 10,
     heap_alloc = (\<lambda>n w. (a, w)),
     xSemaphoreCreateBinary = (\<lambda>w. (a, w)),
     xSemaphoreCreateMutex = (\<lambda>w. (a, w)),
     vSemaphoreDelete = (\<lambda>s w. w),
     xSemaphoreTake = (\<lambda>s t w. (t = portMAX_DELAY, w)),
     xSemaphoreGive = (\<lambda>s w. w),
     xQueueCreate = (\<lambda>n w. (a, w)),
     vQueueDelete = (\<lambda>q w. w),
     xQueueSend = (\<lambda>q m w. (True, w)),
     xQueueSendFromISR = (\<lambda>q m w. (True, w)),
     xQueueReceive = (\<lambda>q t w. (None, w)),
     xQueueCreateSet = (\<lambda>n w. (a, w)),
     xQueueAddToSet = (\<lambda>q s w. (True, w)),
     xQueueRemoveFromSet = (\<lambda>q s w. (True, w)),
     xQueueSelectFromSet = (\<lambda>s t w. (None, w)),
     xEventGroupCreate = (\<lambda>w. (a, w)),
     vEventGroupDelete = (\<lambda>g w. w),
     xEventGroupSetBits = (\<lambda>g b w. w),
     xEventGroupClearBits = (\<lambda>g b w. w),
     xEventGroupWaitBits = (\<lambda>g b t w. (b, w)),
     xTaskCreate = (\<lambda>e st pr co w. (True, w)),
     call_io = (\<lambda>f e w. (ESP_OK, w)),
     call_process = (\<lambda>f e b n w. (n, w)),
     call_read = (\<lambda>f e n t c w. ((0, []), w)),
     call_write = (\<lambda>f e d n t c w. (n, w)),
     call_event = (\<lambda>f e m c w. (ESP_OK, w)),
     call_cmd = (\<lambda>f m c w. (ESP_OK, w))\<rparr>"

lemma seq_platform_simps [simp, platform_laws]:
  "portTICK_RATE_MS (seq_platform a) = 10"
  "heap_alloc (seq_platform a) n w = (a, w)"
  "xSemaphoreCreateBinary (seq_platform a) w = (a, w)"
  "xSemaphoreCreateMutex (seq_platform a) w = (a, w)"
  "vSemaphoreDelete (seq_platform a) s w = w"
  "xSemaphoreTake (seq_platform a) s t w = (t = portMAX_DELAY, w)"
  "xSemaphoreGive (seq_platform a) s w = w"
  "xQueueCreate (seq_platform a) i w = (a, w)"
  "vQueueDelete (seq_platform a) q w = w"
  "xQueueSend (seq_platform a) q m w = (True, w)"
  "xQueueSendFromISR (seq_platform a) q m w = (True, w)"
  "xQueueReceive (seq_platform a) q t w = (None, w)"
  "xQueueCreateSet (seq_platform a) i w = (a, w)"
  "xQueueAddToSet (seq_platform a) q s w = (True, w)"
  "xQueueRemoveFromSet (seq_platform a) q s w = (True, w)"
  "xQueueSelectFromSet (seq_platform a) s t w = (None, w)"
  "xEventGroupCreate (seq_platform a) w = (a, w)"
  "vEventGroupDelete (seq_platform a) g w = w"
  "xEventGroupSetBits (seq_platform a) g b w = w"
  "xEventGroupClearBits (seq_platform a) g b w = w"
  "xEventGroupWaitBits (seq_platform a) g b t w = (b, w)"
  "xTaskCreate (seq_platform a) e i j k w = (True, w)"
  "call_io (seq_platform a) f e w = (ESP_OK, w)"
  "call_process (seq_platform a) f e bf i w = (i, w)"
  "call_read (seq_platform a) f e i t c w = ((0, []), w)"
  "call_write (seq_platform a) f e d i t c w = (i, w)"
  "call_event (seq_platform a) f e m c w = (ESP_OK, w)"
  "call_cmd (seq_platform a) f m c w = (ESP_OK, w)"
  by (simp_all add: seq_platform_def)

text \<open>A platform whose queues hold up to \<open>n\<close> messages each, kept in a part of the state that \<open>getq\<close> reads
  and \<open>setq\<close> writes.\<close>

definition with_queues ::
  "('w \<Rightarrow> qhandle \<Rightarrow> audio_event_iface_msg list) \<Rightarrow>
   ((qhandle \<Rightarrow> audio_event_iface_msg list) \<Rightarrow> 'w \<Rightarrow> 'w) \<Rightarrow> nat \<Rightarrow> 'w platform \<Rightarrow> 'w platform" where
  "with_queues getq setq n R =
     (let send = (\<lambda>q m w. if length (getq w q) < n
                          then (True, setq ((getq w)(q := getq w q @ [m])) w) else (False, w)) in
      R\<lparr>xQueueSend := send, xQueueSendFromISR := send,
        xQueueReceive := (\<lambda>q t w. case getq w q of
            [] \<Rightarrow> (None, w) | m # ms \<Rightarrow> (Some m, setq ((getq w)(q := ms)) w))\<rparr>)"

lemma with_queues_simps [simp]:
  "xQueueSend (with_queues getq setq n R) q m w =
     (if length (getq w q) < n then (True, setq ((getq w)(q := getq w q @ [m])) w) else (False, w))"
  "xQueueReceive (with_queues getq setq n R) q t w =
     (case getq w q of [] \<Rightarrow> (None, w) | m # ms \<Rightarrow> (Some m, setq ((getq w)(q := ms)) w))"
  "heap_alloc (with_queues getq setq n R) = heap_alloc R"
  "portTICK_RATE_MS (with_queues getq setq n R) = portTICK_RATE_MS R"
  "xSemaphoreTake (with_queues getq setq n R) = xSemaphoreTake R"
  "xSemaphoreGive (with_queues getq setq n R) = xSemaphoreGive R"
  "vQueueDelete (with_queues getq setq n R) = vQueueDelete R"
  "xQueueCreateSet (with_queues getq setq n R) = xQueueCreateSet R"
  "xQueueAddToSet (with_queues getq setq n R) = xQueueAddToSet R"
  "xQueueRemoveFromSet (with_queues getq setq n R) = xQueueRemoveFromSet R"
  "xQueueSelectFromSet (with_queues getq setq n R) = xQueueSelectFromSet R"
  "xEventGroupSetBits (with_queues getq setq n R) = xEventGroupSetBits R"
  "xEventGroupClearBits (with_queues getq setq n R) = xEventGroupClearBits R"
  "xEventGroupWaitBits (with_queues getq setq n R) = xEventGroupWaitBits R"
  "xQueueCreate (with_queues getq setq n R) = xQueueCreate R"
  "xSemaphoreCreateBinary (with_queues getq setq n R) = xSemaphoreCreateBinary R"
  "xSemaphoreCreateMutex (with_queues getq setq n R) = xSemaphoreCreateMutex R"
  "vSemaphoreDelete (with_queues getq setq n R) = vSemaphoreDelete R"
  "xEventGroupCreate (with_queues getq setq n R) = xEventGroupCreate R"
  "vEventGroupDelete (with_queues getq setq n R) = vEventGroupDelete R"
  "xTaskCreate (with_queues getq setq n R) = xTaskCreate R"
  "call_io (with_queues getq setq n R) = call_io R"
  "call_process (with_queues getq setq n R) = call_process R"
  "call_read (with_queues getq setq n R) = call_read R"
  "call_write (with_queues getq setq n R) = call_write R"
  "call_event (with_queues getq setq n R) = call_event R"
  "call_cmd (with_queues getq setq n R) = call_cmd R"
  by (simp_all add: with_queues_def Let_def)

text \<open>A platform whose allocations succeed.\<close>

definition allocates :: "'w platform \<Rightarrow> bool" where
  "allocates R \<longleftrightarrow> (\<forall>n w. fst (heap_alloc R n w) \<noteq> None)"

lemma allocatesD: "allocates R \<Longrightarrow> \<exists>a w'. heap_alloc R n w = (Some a, w')"
  unfolding allocates_def by (metis not_None_eq prod.collapse)

end
