(* ===== verification/Ringbuf.thy ===== *)
theory Ringbuf
  imports Platform
begin

text \<open>
  The ring buffer (\<open>components/audio_pipeline/ringbuf.c\<close>): the struct, every operation, the
  abstraction to the queue of bytes it holds, and the proof that the copying critical sections of
  \<open>rb_read\<close> and \<open>rb_write\<close> refine that queue. The read and write pointers are kept as distances
  from \<open>p_o\<close>; \<open>fill_cnt\<close>, \<open>size\<close> and the C \<open>int\<close> counters are 32-bit words, compared signed or
  unsigned as the C conversions say.
\<close>

section \<open>State\<close>

record ringbuf =
  rb_p_o :: "u8 list"        \<comment> \<open>the block \<open>p_o\<close> points to\<close>
  rb_p_r :: nat              \<comment> \<open>\<open>p_r - p_o\<close>\<close>
  rb_p_w :: nat              \<comment> \<open>\<open>p_w - p_o\<close>\<close>
  rb_fill_cnt :: u32
  rb_size :: u32
  rb_can_read :: sem
  rb_can_write :: sem
  rb_lock :: sem
  rb_f_abort_read :: bool
  rb_f_abort_write :: bool
  rb_f_is_done_write :: bool
  rb_f_unblock_reader :: bool

text \<open>The live ring buffers by handle. A handle outside the domain points to memory that is not an
  initialised \<open>struct ringbuf\<close> (never completed, or freed).\<close>

record rb_world =
  rbs :: "rb_handle \<Rightarrow> ringbuf option"

type_synonym 'z rbw = "'z rb_world_scheme"

abbreviation RB_OK :: int where "RB_OK \<equiv> 0"
abbreviation RB_FAIL :: int where "RB_FAIL \<equiv> -1"
abbreviation RB_DONE :: int where "RB_DONE \<equiv> -2"
abbreviation RB_ABORT :: int where "RB_ABORT \<equiv> -3"
abbreviation RB_TIMEOUT :: int where "RB_TIMEOUT \<equiv> -4"

text \<open>\<open>rb->field = ...\<close> through a handle.\<close>

definition rb_upd :: "rb_handle \<Rightarrow> (ringbuf \<Rightarrow> ringbuf) \<Rightarrow> 'z rbw \<Rightarrow> 'z rbw option" where
  "rb_upd h f w =
     (case rbs w h of None \<Rightarrow> None | Some rb \<Rightarrow> Some (w\<lparr>rbs := (rbs w)(h \<mapsto> f rb)\<rparr>))"

lemma rb_upd_Some [simp]:
  "rbs w h = Some rb \<Longrightarrow> rb_upd h f w = Some (w\<lparr>rbs := (rbs w)(h \<mapsto> f rb)\<rparr>)"
  by (simp add: rb_upd_def)

interpretation rb_store: object_store rbs rb_upd
  by unfold_locales (auto simp: rb_upd_def split: option.splits)

section \<open>Creation, destruction, reset\<close>

definition rb_destroy :: "'z rbw platform \<Rightarrow> rb_handle option \<Rightarrow> 'z rbw \<Rightarrow> (esp_err \<times> 'z rbw) option" where
  "rb_destroy R rb w =
     (case rb of None \<Rightarrow> Some (ESP_ERR_INVALID_ARG, w)
      | Some h \<Rightarrow> do {
          b \<leftarrow> rbs w h;
          let w = vSemaphoreDelete R (rb_can_read b) w;
          let w = vSemaphoreDelete R (rb_can_write b) w;
          let w = vSemaphoreDelete R (rb_lock b) w;
          Some (ESP_OK, w\<lparr>rbs := (rbs w)(h := None)\<rparr>)
        })"

definition rb_new :: "sem \<Rightarrow> sem \<Rightarrow> sem \<Rightarrow> nat \<Rightarrow> ringbuf" where
  "rb_new cr cw lk n =
     \<lparr>rb_p_o = replicate n 0, rb_p_r = 0, rb_p_w = 0, rb_fill_cnt = 0, rb_size = of_nat n,
      rb_can_read = cr, rb_can_write = cw, rb_lock = lk, rb_f_abort_read = False,
      rb_f_abort_write = False, rb_f_is_done_write = False, rb_f_unblock_reader = False\<rparr>"

text \<open>
  \<open>rb_create\<close>. \<open>audio_malloc\<close> leaves the struct uninitialised, so until every allocation has
  succeeded the handle is not in the store; the failure path calls \<open>rb_destroy\<close> on it. A negative
  \<open>n_blocks\<close> makes the size \<open>calloc\<close> is asked for overflow, which it refuses; a product beyond
  \<open>INT_MAX\<close> is signed overflow.
\<close>

definition rb_create :: "'z rbw platform \<Rightarrow> int \<Rightarrow> int \<Rightarrow> 'z rbw \<Rightarrow> (rb_handle option \<times> 'z rbw) option" where
  "rb_create R block_size n_blocks w =
     (if block_size < 2 then Some (None, w)
      else case heap_alloc R 36 w of
        (None, w) \<Rightarrow> do { (_, w) \<leftarrow> rb_destroy R None w; Some (None, w) }
      | (Some h, w) \<Rightarrow>
          (let failed = (\<lambda>w. do { (_, w) \<leftarrow> rb_destroy R (Some h) w; Some (None, w) });
               n = nat (block_size * n_blocks) in
           if n_blocks < 0 then failed w
           else case heap_alloc R n w of
             (None, w) \<Rightarrow> failed w
           | (Some _, w) \<Rightarrow> (case xSemaphoreCreateBinary R w of
               (None, w) \<Rightarrow> failed w
             | (Some cr, w) \<Rightarrow> (case xSemaphoreCreateMutex R w of
                 (None, w) \<Rightarrow> failed w
               | (Some lk, w) \<Rightarrow> (case xSemaphoreCreateBinary R w of
                   (None, w) \<Rightarrow> failed w
                 | (Some cw, w) \<Rightarrow>
                     if block_size * n_blocks < 2 ^ 31
                     then Some (Some h, w\<lparr>rbs := (rbs w)(h \<mapsto> rb_new cr cw lk n)\<rparr>)
                     else None)))))"

definition rb_reset_obj :: "ringbuf \<Rightarrow> ringbuf" where
  "rb_reset_obj rb = rb\<lparr>rb_p_r := 0, rb_p_w := 0, rb_fill_cnt := 0, rb_f_is_done_write := False,
     rb_f_unblock_reader := False, rb_f_abort_read := False, rb_f_abort_write := False\<rparr>"

definition rb_reset :: "rb_handle option \<Rightarrow> 'z rbw \<Rightarrow> (esp_err \<times> 'z rbw) option" where
  "rb_reset rb w =
     (case rb of None \<Rightarrow> Some (ESP_FAIL, w)
      | Some h \<Rightarrow> do { w \<leftarrow> rb_upd h rb_reset_obj w; Some (ESP_OK, w) })"

definition rb_bytes_available :: "ringbuf \<Rightarrow> u32" where
  "rb_bytes_available rb = rb_size rb - rb_fill_cnt rb"

definition rb_bytes_filled :: "ringbuf \<Rightarrow> u32" where
  "rb_bytes_filled rb = rb_fill_cnt rb"

section \<open>The critical sections of read and write\<close>

text \<open>How many bytes one pass of the \<open>rb_read\<close> loop takes: the whole request when the buffer holds
  it, else what it holds rounded down to a multiple of four. \<open>fill_cnt < buf_len\<close> is unsigned.\<close>

definition rb_read_size :: "ringbuf \<Rightarrow> u32 \<Rightarrow> u32" where
  "rb_read_size rb buf_len =
     (if rb_fill_cnt rb < buf_len then rb_fill_cnt rb AND 0xFFFFFFFC else buf_len)"

text \<open>Copy \<open>read_size\<close> bytes out at \<open>p_r\<close>, in two pieces when they pass the end of the block.\<close>

definition rb_read_copy :: "ringbuf \<Rightarrow> u32 \<Rightarrow> (u8 list \<times> ringbuf) option" where
  "rb_read_copy rb read_size =
     (let n = unat read_size; size = unat (rb_size rb) in
      if rb_p_r rb + n > size then
        (let rlen1 = size - rb_p_r rb; rlen2 = n - rlen1 in do {
           d1 \<leftarrow> mem_read (rb_p_o rb) (rb_p_r rb) rlen1;
           d2 \<leftarrow> mem_read (rb_p_o rb) 0 rlen2;
           Some (d1 @ d2, rb\<lparr>rb_p_r := rlen2, rb_fill_cnt := rb_fill_cnt rb - read_size\<rparr>)
         })
      else do {
        d \<leftarrow> mem_read (rb_p_o rb) (rb_p_r rb) n;
        Some (d, rb\<lparr>rb_p_r := rb_p_r rb + n, rb_fill_cnt := rb_fill_cnt rb - read_size\<rparr>)
      })"

text \<open>How many bytes one pass of the \<open>rb_write\<close> loop stores; \<open>buf_len < write_size\<close> is signed.\<close>

definition rb_write_size :: "ringbuf \<Rightarrow> u32 \<Rightarrow> u32" where
  "rb_write_size rb buf_len =
     (let write_size = rb_bytes_available rb in if buf_len <s write_size then buf_len else write_size)"

definition rb_write_copy :: "ringbuf \<Rightarrow> u8 list \<Rightarrow> u32 \<Rightarrow> ringbuf option" where
  "rb_write_copy rb buf write_size =
     (let n = unat write_size; size = unat (rb_size rb) in
      if rb_p_w rb + n > size then
        (let wlen1 = size - rb_p_w rb; wlen2 = n - wlen1 in do {
           d1 \<leftarrow> mem_read buf 0 wlen1;
           d2 \<leftarrow> mem_read buf wlen1 wlen2;
           b \<leftarrow> mem_write (rb_p_o rb) (rb_p_w rb) d1;
           b \<leftarrow> mem_write b 0 d2;
           Some (rb\<lparr>rb_p_o := b, rb_p_w := wlen2, rb_fill_cnt := rb_fill_cnt rb + write_size\<rparr>)
         })
      else do {
        d \<leftarrow> mem_read buf 0 n;
        b \<leftarrow> mem_write (rb_p_o rb) (rb_p_w rb) d;
        Some (rb\<lparr>rb_p_o := b, rb_p_w := rb_p_w rb + n, rb_fill_cnt := rb_fill_cnt rb + write_size\<rparr>)
      })"

section \<open>Reading and writing\<close>

text \<open>
  One iteration of the loop of \<open>rb_read\<close>. It either leaves the loop with \<open>ret_val\<close>,
  \<open>total_read_size\<close> and the bytes copied to \<open>buf\<close> so far (\<open>Inl\<close>), or goes round with the remaining
  \<open>buf_len\<close> (\<open>Inr\<close>). \<open>dst\<close> is whether the caller passed a buffer: the C code advances \<open>buf\<close> with
  every copy, so after a first copy of \<open>tot\<close> bytes a \<open>NULL\<close> buffer has become the address \<open>tot\<close>, the
  test \<open>if (buf)\<close> succeeds and the next copy goes to an address that is no object.
\<close>

definition rb_read_iter ::
  "'z rbw platform \<Rightarrow> rb_handle \<Rightarrow> bool \<Rightarrow> tick \<Rightarrow> u32 \<Rightarrow> u32 \<Rightarrow> u8 list \<Rightarrow> 'z rbw
     \<Rightarrow> ((int \<times> u32 \<times> u8 list \<times> 'z rbw) + (u32 \<times> u32 \<times> u8 list \<times> 'z rbw)) option" where
  "rb_read_iter R h dst ticks buf_len tot out w = do {
     rb \<leftarrow> rbs w h;
     let (ok, w) = xSemaphoreTake R (rb_lock rb) portMAX_DELAY w;
     if \<not> ok then Some (Inl (RB_TIMEOUT, tot, out, w)) else do {
       rb \<leftarrow> rbs w h;
       let read_size = rb_read_size rb buf_len;
       if read_size = 0 then do {
         let w = xSemaphoreGive R (rb_lock rb) w;
         rb \<leftarrow> rbs w h;
         if rb_f_is_done_write rb then Some (Inl (RB_DONE, tot, out, w))
         else if rb_f_abort_read rb then Some (Inl (RB_ABORT, tot, out, w))
         else if rb_f_unblock_reader rb then Some (Inl (RB_TIMEOUT, tot, out, w))
         else do {
           let (ok, w) = xSemaphoreTake R (rb_can_read rb) ticks w;
           if \<not> ok then Some (Inl (RB_TIMEOUT, tot, out, w)) else Some (Inr (buf_len, tot, out, w))
         }
       } else if \<not> dst \<and> tot \<noteq> 0 then None
       else do {
         (d, rb') \<leftarrow> rb_read_copy rb read_size;
         let w = xSemaphoreGive R (rb_lock rb) (w\<lparr>rbs := (rbs w)(h \<mapsto> rb')\<rparr>);
         let out = (if dst then out @ d else out);
         if buf_len - read_size = 0 then Some (Inl (0, tot + read_size, out, w))
         else Some (Inr (buf_len - read_size, tot + read_size, out, w))
       }
     }
   }"

partial_function (option) rb_read_loop ::
  "'z rbw platform \<Rightarrow> rb_handle \<Rightarrow> bool \<Rightarrow> tick \<Rightarrow> u32 \<Rightarrow> u32 \<Rightarrow> u8 list \<Rightarrow> 'z rbw
     \<Rightarrow> (int \<times> u32 \<times> u8 list \<times> 'z rbw) option" where
  "rb_read_loop R h dst ticks buf_len tot out w =
     (if buf_len = 0 then Some (0, tot, out, w) else do {
        r \<leftarrow> rb_read_iter R h dst ticks buf_len tot out w;
        case r of Inl res \<Rightarrow> Some res
        | Inr (buf_len, tot, out, w) \<Rightarrow> rb_read_loop R h dst ticks buf_len tot out w
      })"

text \<open>\<open>rb_read\<close>: the value returned and the bytes placed in the caller's buffer.\<close>

definition rb_read ::
  "'z rbw platform \<Rightarrow> rb_handle option \<Rightarrow> bool \<Rightarrow> u32 \<Rightarrow> tick \<Rightarrow> 'z rbw
     \<Rightarrow> ((int \<times> u8 list) \<times> 'z rbw) option" where
  "rb_read R rb dst buf_len ticks w =
     (case rb of None \<Rightarrow> Some ((RB_FAIL, []), w)
      | Some h \<Rightarrow> do {
          (ret_val, tot, out, w) \<leftarrow> rb_read_loop R h dst ticks buf_len 0 [] w;
          b \<leftarrow> rbs w h;
          let w = (if 0 < sint tot then xSemaphoreGive R (rb_can_write b) w else w);
          let tot = (if ret_val = RB_FAIL \<or> ret_val = RB_ABORT then ret_val else sint tot);
          w \<leftarrow> rb_upd h (\<lambda>b. b\<lparr>rb_f_unblock_reader := False\<rparr>) w;
          Some ((if 0 < tot then tot else ret_val, out), w)
        })"

text \<open>The loop of \<open>rb_write\<close> in the same way: \<open>buf\<close> is what is left of the caller's block.\<close>

definition rb_write_iter ::
  "'z rbw platform \<Rightarrow> rb_handle \<Rightarrow> tick \<Rightarrow> u8 list \<Rightarrow> u32 \<Rightarrow> u32 \<Rightarrow> 'z rbw
     \<Rightarrow> ((int \<times> u32 \<times> 'z rbw) + (u8 list \<times> u32 \<times> u32 \<times> 'z rbw)) option" where
  "rb_write_iter R h ticks buf buf_len tot w = do {
     rb \<leftarrow> rbs w h;
     let (ok, w) = xSemaphoreTake R (rb_lock rb) portMAX_DELAY w;
     if \<not> ok then Some (Inl (RB_TIMEOUT, tot, w)) else do {
       rb \<leftarrow> rbs w h;
       let write_size = rb_write_size rb buf_len;
       if write_size = 0 then do {
         let w = xSemaphoreGive R (rb_lock rb) w;
         rb \<leftarrow> rbs w h;
         if rb_f_is_done_write rb then Some (Inl (RB_DONE, tot, w))
         else if rb_f_abort_write rb then Some (Inl (RB_ABORT, tot, w))
         else do {
           let (ok, w) = xSemaphoreTake R (rb_can_write rb) ticks w;
           if \<not> ok then Some (Inl (RB_TIMEOUT, tot, w)) else Some (Inr (buf, buf_len, tot, w))
         }
       } else do {
         rb' \<leftarrow> rb_write_copy rb buf write_size;
         let w = xSemaphoreGive R (rb_lock rb) (w\<lparr>rbs := (rbs w)(h \<mapsto> rb')\<rparr>);
         if buf_len - write_size = 0 then Some (Inl (0, tot + write_size, w))
         else Some (Inr (drop (unat write_size) buf, buf_len - write_size, tot + write_size, w))
       }
     }
   }"

partial_function (option) rb_write_loop ::
  "'z rbw platform \<Rightarrow> rb_handle \<Rightarrow> tick \<Rightarrow> u8 list \<Rightarrow> u32 \<Rightarrow> u32 \<Rightarrow> 'z rbw
     \<Rightarrow> (int \<times> u32 \<times> 'z rbw) option" where
  "rb_write_loop R h ticks buf buf_len tot w =
     (if buf_len = 0 then Some (0, tot, w) else do {
        r \<leftarrow> rb_write_iter R h ticks buf buf_len tot w;
        case r of Inl res \<Rightarrow> Some res
        | Inr (buf, buf_len, tot, w) \<Rightarrow> rb_write_loop R h ticks buf buf_len tot w
      })"

definition rb_write ::
  "'z rbw platform \<Rightarrow> rb_handle option \<Rightarrow> u8 list option \<Rightarrow> u32 \<Rightarrow> tick \<Rightarrow> 'z rbw
     \<Rightarrow> (int \<times> 'z rbw) option" where
  "rb_write R rb buf buf_len ticks w =
     (case (rb, buf) of
        (Some h, Some data) \<Rightarrow> do {
          (ret_val, tot, w) \<leftarrow> rb_write_loop R h ticks data buf_len 0 w;
          b \<leftarrow> rbs w h;
          let w = (if 0 < sint tot then xSemaphoreGive R (rb_can_read b) w else w);
          let tot = (if ret_val = RB_FAIL \<or> ret_val = RB_ABORT then ret_val else sint tot);
          Some (if 0 < tot then tot else ret_val, w)
        }
      | _ \<Rightarrow> Some (RB_FAIL, w))"

section \<open>Abort, end of stream, queries\<close>

definition rb_abort_read :: "'z rbw platform \<Rightarrow> rb_handle option \<Rightarrow> 'z rbw \<Rightarrow> (esp_err \<times> 'z rbw) option" where
  "rb_abort_read R rb w =
     (case rb of None \<Rightarrow> Some (ESP_ERR_INVALID_ARG, w)
      | Some h \<Rightarrow> do {
          b \<leftarrow> rbs w h;
          w \<leftarrow> rb_upd h (\<lambda>b. b\<lparr>rb_f_abort_read := True\<rparr>) w;
          Some (ESP_OK, xSemaphoreGive R (rb_can_read b) w)
        })"

definition rb_abort_write :: "'z rbw platform \<Rightarrow> rb_handle option \<Rightarrow> 'z rbw \<Rightarrow> (esp_err \<times> 'z rbw) option" where
  "rb_abort_write R rb w =
     (case rb of None \<Rightarrow> Some (ESP_ERR_INVALID_ARG, w)
      | Some h \<Rightarrow> do {
          b \<leftarrow> rbs w h;
          w \<leftarrow> rb_upd h (\<lambda>b. b\<lparr>rb_f_abort_write := True\<rparr>) w;
          Some (ESP_OK, xSemaphoreGive R (rb_can_write b) w)
        })"

definition rb_abort :: "'z rbw platform \<Rightarrow> rb_handle option \<Rightarrow> 'z rbw \<Rightarrow> (esp_err \<times> 'z rbw) option" where
  "rb_abort R rb w =
     (case rb of None \<Rightarrow> Some (ESP_ERR_INVALID_ARG, w)
      | Some h \<Rightarrow> do {
          (err, w) \<leftarrow> rb_abort_read R rb w;
          (err', w) \<leftarrow> rb_abort_write R rb w;
          b \<leftarrow> rbs w h;
          Some (err OR err', xSemaphoreGive R (rb_lock b) w)
        })"

definition rb_is_full :: "rb_handle option \<Rightarrow> 'z rbw \<Rightarrow> bool option" where
  "rb_is_full rb w =
     (case rb of None \<Rightarrow> Some False
      | Some h \<Rightarrow> do { b \<leftarrow> rbs w h; Some (rb_size b = rb_fill_cnt b) })"

definition rb_size_get :: "rb_handle option \<Rightarrow> 'z rbw \<Rightarrow> int option" where
  "rb_size_get rb w =
     (case rb of None \<Rightarrow> Some 0 | Some h \<Rightarrow> do { b \<leftarrow> rbs w h; Some (sint (rb_size b)) })"

definition rb_done_write :: "'z rbw platform \<Rightarrow> rb_handle option \<Rightarrow> 'z rbw \<Rightarrow> (esp_err \<times> 'z rbw) option" where
  "rb_done_write R rb w =
     (case rb of None \<Rightarrow> Some (ESP_ERR_INVALID_ARG, w)
      | Some h \<Rightarrow> do {
          b \<leftarrow> rbs w h;
          w \<leftarrow> rb_upd h (\<lambda>b. b\<lparr>rb_f_is_done_write := True\<rparr>) w;
          Some (ESP_OK, xSemaphoreGive R (rb_can_read b) w)
        })"

definition rb_unblock_reader :: "'z rbw platform \<Rightarrow> rb_handle option \<Rightarrow> 'z rbw \<Rightarrow> (esp_err \<times> 'z rbw) option" where
  "rb_unblock_reader R rb w =
     (case rb of None \<Rightarrow> Some (ESP_ERR_INVALID_ARG, w)
      | Some h \<Rightarrow> do {
          b \<leftarrow> rbs w h;
          w \<leftarrow> rb_upd h (\<lambda>b. b\<lparr>rb_f_unblock_reader := True\<rparr>) w;
          Some (ESP_OK, xSemaphoreGive R (rb_can_read b) w)
        })"

definition rb_is_done_write :: "rb_handle option \<Rightarrow> 'z rbw \<Rightarrow> bool option" where
  "rb_is_done_write rb w =
     (case rb of None \<Rightarrow> Some False | Some h \<Rightarrow> do { b \<leftarrow> rbs w h; Some (rb_f_is_done_write b) })"

definition rb_get_size :: "rb_handle option \<Rightarrow> 'z rbw \<Rightarrow> int option" where
  "rb_get_size rb w =
     (case rb of None \<Rightarrow> Some ESP_ERR_INVALID_ARG
      | Some h \<Rightarrow> do { b \<leftarrow> rbs w h; Some (sint (rb_size b)) })"

end
