(* ===== verification/Ringbuf_Correct.thy ===== *)
theory Ringbuf_Correct
  imports Ringbuf
begin

text \<open>
  What the ring buffer promises. \<open>rb_inv\<close> is the invariant between its counters and pointers,
  \<open>rb_content\<close> the queue of bytes it holds; the locale \<open>byte_fifo\<close> is the contract of a bounded byte
  queue, which the copying critical sections implement, and its clients' lemmas are proved once in it.
\<close>

section \<open>Invariant and abstraction\<close>

definition rb_inv :: "ringbuf \<Rightarrow> bool" where
  "rb_inv rb \<longleftrightarrow>
     length (rb_p_o rb) = unat (rb_size rb) \<and> unat (rb_size rb) < 2 ^ 31 \<and>
     rb_fill_cnt rb \<le> rb_size rb \<and> rb_p_r rb \<le> unat (rb_size rb) \<and> rb_p_w rb \<le> unat (rb_size rb) \<and>
     (rb_p_r rb + unat (rb_fill_cnt rb)) mod unat (rb_size rb) = rb_p_w rb mod unat (rb_size rb)"

definition rb_content :: "ringbuf \<Rightarrow> u8 list" where
  "rb_content rb = circ (rb_p_o rb) (rb_p_r rb) (unat (rb_fill_cnt rb))"

definition rb_cap :: "ringbuf \<Rightarrow> nat" where
  "rb_cap rb = unat (rb_size rb)"

lemma length_rb_content [simp]: "length (rb_content rb) = unat (rb_fill_cnt rb)"
  by (simp add: rb_content_def)

lemma rb_inv_fill: "rb_inv rb \<Longrightarrow> unat (rb_fill_cnt rb) \<le> rb_cap rb"
  by (simp add: rb_inv_def rb_cap_def word_le_nat_alt)

lemma rb_inv_cap: "rb_inv rb \<Longrightarrow> rb_cap rb < 2 ^ 31"
  by (simp add: rb_inv_def rb_cap_def)

lemma rb_new_inv: "n < 2 ^ 31 \<Longrightarrow> rb_inv (rb_new cr cw lk n)"
  by (simp add: rb_inv_def rb_new_def unat_of_nat)

lemma rb_new_content [simp]: "rb_content (rb_new cr cw lk n) = []"
  by (simp add: rb_content_def rb_new_def)

lemma rb_reset_obj_inv: "rb_inv rb \<Longrightarrow> rb_inv (rb_reset_obj rb)"
  by (simp add: rb_inv_def rb_reset_obj_def)

lemma rb_reset_obj_content [simp]: "rb_content (rb_reset_obj rb) = []"
  by (simp add: rb_content_def rb_reset_obj_def)

text \<open>The flags are no part of the queue.\<close>

lemma rb_flags_inv [simp]:
  "rb_inv (rb\<lparr>rb_f_abort_read := a\<rparr>) = rb_inv rb"
  "rb_inv (rb\<lparr>rb_f_abort_write := a\<rparr>) = rb_inv rb"
  "rb_inv (rb\<lparr>rb_f_is_done_write := a\<rparr>) = rb_inv rb"
  "rb_inv (rb\<lparr>rb_f_unblock_reader := a\<rparr>) = rb_inv rb"
  by (simp_all add: rb_inv_def)

lemma rb_flags_content [simp]:
  "rb_content (rb\<lparr>rb_f_abort_read := a\<rparr>) = rb_content rb"
  "rb_content (rb\<lparr>rb_f_abort_write := a\<rparr>) = rb_content rb"
  "rb_content (rb\<lparr>rb_f_is_done_write := a\<rparr>) = rb_content rb"
  "rb_content (rb\<lparr>rb_f_unblock_reader := a\<rparr>) = rb_content rb"
  by (simp_all add: rb_content_def)

section \<open>The copying critical sections\<close>

lemma rb_read_copy_ok:
  assumes inv: "rb_inv rb" and n: "read_size \<le> rb_fill_cnt rb"
  shows "\<exists>d rb'. rb_read_copy rb read_size = Some (d, rb') \<and> rb_inv rb' \<and>
           rb_content rb = d @ rb_content rb' \<and> length d = unat read_size \<and>
           rb_size rb' = rb_size rb"
proof -
  let ?b = "rb_p_o rb" and ?r = "rb_p_r rb" and ?n = "unat read_size" and ?f = "unat (rb_fill_cnt rb)"
  let ?s = "unat (rb_size rb)"
  from inv have len: "length ?b = ?s" and r: "?r \<le> ?s" and f: "?f \<le> ?s" and w: "rb_p_w rb \<le> ?s"
    and eq: "(?r + ?f) mod ?s = rb_p_w rb mod ?s"
    by (auto simp: rb_inv_def word_le_nat_alt)
  have nf: "?n \<le> ?f" using n by (simp add: word_le_nat_alt)
  have fill: "unat (rb_fill_cnt rb - read_size) = ?f - ?n"
    using n by (simp add: unat_sub)
  have split: "circ ?b ?r ?f = circ ?b ?r ?n @ circ ?b ((?r + ?n) mod ?s) (?f - ?n)"
    using circ_append[of ?b ?r ?n "?f - ?n"] nf len by simp
  show ?thesis
  proof (cases "?r + ?n > ?s")
    case True
    define rb' where "rb' = rb\<lparr>rb_p_r := ?n - (?s - ?r), rb_fill_cnt := rb_fill_cnt rb - read_size\<rparr>"
    have copy: "rb_read_copy rb read_size = Some (drop ?r ?b @ take (?n - (?s - ?r)) ?b, rb')"
      using True r nf f len by (simp add: rb_read_copy_def Let_def rb'_def)
    have d: "drop ?r ?b @ take (?n - (?s - ?r)) ?b = circ ?b ?r ?n"
      using circ_wrap[of ?r ?b ?n] True r nf f len by (simp add: algebra_simps)
    have md: "(?r + ?n) mod ?s = (?n - (?s - ?r)) mod ?s"
      using True r mod_add_self2[of "?n - (?s - ?r)" ?s] by (simp add: algebra_simps)
    have c: "circ ?b ((?n - (?s - ?r)) mod ?s) k = circ ?b (?n - (?s - ?r)) k" for k
      by (simp flip: len)
    have "rb_inv rb'"
    proof -
      have "(?n - (?s - ?r) + (?f - ?n)) + ?s = ?r + ?f"
        using True r nf by simp
      then have "(?n - (?s - ?r) + (?f - ?n)) mod ?s = (?r + ?f) mod ?s"
        by (metis mod_add_self2)
      then show ?thesis
        using inv eq True r nf f fill by (auto simp: rb_inv_def rb'_def word_le_nat_alt)
    qed
    moreover have "rb_content rb = (drop ?r ?b @ take (?n - (?s - ?r)) ?b) @ rb_content rb'"
      using split unfolding d by (simp add: rb_content_def rb'_def fill md c)
    ultimately show ?thesis
      using copy d by (auto simp: rb'_def)
  next
    case False
    define rb' where "rb' = rb\<lparr>rb_p_r := ?r + ?n, rb_fill_cnt := rb_fill_cnt rb - read_size\<rparr>"
    have copy: "rb_read_copy rb read_size = Some (take ?n (drop ?r ?b), rb')"
      using False len by (simp add: rb_read_copy_def Let_def rb'_def)
    have d: "take ?n (drop ?r ?b) = circ ?b ?r ?n"
      using False len by (simp add: circ_linear)
    have c: "circ ?b ((?r + ?n) mod ?s) k = circ ?b (?r + ?n) k" for k
      by (simp flip: len)
    have "rb_inv rb'"
      using inv eq nf f fill False by (auto simp: rb_inv_def rb'_def word_le_nat_alt)
    moreover have "rb_content rb = take ?n (drop ?r ?b) @ rb_content rb'"
      using split unfolding d by (simp add: rb_content_def rb'_def fill c)
    ultimately show ?thesis
      using copy d by (auto simp: rb'_def)
  qed
qed

text \<open>What \<open>rb_write_copy\<close> leaves in the block: the bytes stored from \<open>p_w\<close> on.\<close>

lemma rb_write_copy_block:
  assumes inv: "rb_inv rb" and n: "unat n \<le> unat (rb_size rb)" and buf: "unat n \<le> length buf"
  shows "\<exists>b p. rb_write_copy rb buf n =
             Some (rb\<lparr>rb_p_o := b, rb_p_w := p, rb_fill_cnt := rb_fill_cnt rb + n\<rparr>) \<and>
           circ_stored (rb_p_o rb) (rb_p_w rb) (take (unat n) buf) b \<and> p \<le> unat (rb_size rb) \<and>
           p mod unat (rb_size rb) = (rb_p_w rb + unat n) mod unat (rb_size rb)"
proof -
  let ?o = "rb_p_o rb" and ?w = "rb_p_w rb" and ?n = "unat n" and ?s = "unat (rb_size rb)"
  from inv have len: "length ?o = ?s" and w: "?w \<le> ?s" by (auto simp: rb_inv_def)
  show ?thesis
  proof (cases "?w + ?n > ?s")
    case True
    let ?l1 = "?s - ?w" and ?l2 = "?n - (?s - ?w)"
    define d1 d2 where "d1 = take ?l1 buf" and "d2 = take ?l2 (drop ?l1 buf)"
    have ld: "length d1 = ?l1" "length d2 = ?l2" using True w buf n by (auto simp: d1_def d2_def)
    have d: "take ?n buf = d1 @ d2"
      using True w take_add[of ?l1 ?l2 buf] by (simp add: d1_def d2_def)
    have "mem_read buf 0 ?l1 = Some d1" "mem_read buf ?l1 ?l2 = Some d2"
      using True w buf n by (auto simp: d1_def d2_def)
    moreover have "mem_write ?o ?w d1 = Some (take ?w ?o @ d1)"
      using ld len w by simp
    moreover have "mem_write (take ?w ?o @ d1) 0 d2 = Some (d2 @ drop (length d2) (take ?w ?o) @ d1)"
      using ld len w n True by simp
    ultimately have "rb_write_copy rb buf n = Some (rb\<lparr>rb_p_o := d2 @ drop (length d2) (take ?w ?o) @ d1,
        rb_p_w := ?l2, rb_fill_cnt := rb_fill_cnt rb + n\<rparr>)"
      using True by (simp add: rb_write_copy_def Let_def)
    moreover have "?l2 mod ?s = (?w + ?n) mod ?s"
      using True w mod_add_self2[of ?l2 ?s] by (simp add: algebra_simps)
    moreover have "circ_stored ?o ?w (d1 @ d2) (d2 @ drop (length d2) (take ?w ?o) @ d1)"
      using ld len w n True by (intro circ_stored_wrap) auto
    ultimately show ?thesis using n w d
      by (intro exI[of _ "d2 @ drop (length d2) (take ?w ?o) @ d1"] exI[of _ ?l2]) auto
  next
    case False
    have l: "length (take ?n buf) = ?n" using buf by simp
    have "rb_write_copy rb buf n = Some (rb\<lparr>rb_p_o := take ?w ?o @ take ?n buf @ drop (?w + ?n) ?o,
        rb_p_w := ?w + ?n, rb_fill_cnt := rb_fill_cnt rb + n\<rparr>)"
      using False buf len l by (simp add: rb_write_copy_def Let_def)
    moreover have "circ_stored ?o ?w (take ?n buf) (take ?w ?o @ take ?n buf @ drop (?w + ?n) ?o)"
      using circ_stored_linear[of ?w "take ?n buf" ?o] l False len by simp
    ultimately show ?thesis using False
      by (intro exI[of _ "take ?w ?o @ take ?n buf @ drop (?w + ?n) ?o"] exI[of _ "?w + ?n"]) auto
  qed
qed

lemma rb_write_copy_ok:
  assumes inv: "rb_inv rb" and n: "unat n \<le> unat (rb_size rb) - unat (rb_fill_cnt rb)"
    and buf: "unat n \<le> length buf"
  shows "\<exists>rb'. rb_write_copy rb buf n = Some rb' \<and> rb_inv rb' \<and>
           rb_content rb' = rb_content rb @ take (unat n) buf \<and> rb_size rb' = rb_size rb"
proof -
  let ?s = "unat (rb_size rb)" and ?f = "unat (rb_fill_cnt rb)"
  from inv have len: "length (rb_p_o rb) = ?s" and s: "?s < 2 ^ 31" and f: "?f \<le> ?s"
    and eq: "(rb_p_r rb + ?f) mod ?s = rb_p_w rb mod ?s"
    by (auto simp: rb_inv_def word_le_nat_alt)
  obtain b p where c: "rb_write_copy rb buf n =
             Some (rb\<lparr>rb_p_o := b, rb_p_w := p, rb_fill_cnt := rb_fill_cnt rb + n\<rparr>)"
    and st: "circ_stored (rb_p_o rb) (rb_p_w rb) (take (unat n) buf) b"
    and p: "p \<le> ?s" "p mod ?s = (rb_p_w rb + unat n) mod ?s"
    using rb_write_copy_block[OF inv le_trans[OF n diff_le_self] buf] by blast
  have fill: "unat (rb_fill_cnt rb + n) = ?f + unat n"
    using n f s by (intro unat_add_lem[THEN iffD1]) simp
  have lt: "length (take (unat n) buf) = unat n" using buf by simp
  have "circ b (rb_p_r rb) (?f + unat n) = circ (rb_p_o rb) (rb_p_r rb) ?f @ take (unat n) buf"
    using circ_store[OF st, of ?f "rb_p_r rb"] n f eq lt len by simp
  moreover have "(rb_p_r rb + (?f + unat n)) mod ?s = p mod ?s"
    using p(2) eq by (metis add.assoc mod_add_left_eq)
  ultimately show ?thesis
    using c inv st p(1) n f len
    by (auto simp: rb_inv_def rb_content_def fill word_le_nat_alt circ_stored_def)
qed

lemma rb_read_size_le: "rb_read_size rb len \<le> rb_fill_cnt rb"
  by (auto simp: rb_read_size_def word_and_le2 not_less)

lemma rb_read_size_len: "rb_read_size rb len \<le> len"
  using word_and_le2[of "rb_fill_cnt rb" "0xFFFFFFFC"]
  by (auto simp: rb_read_size_def intro: order.trans less_imp_le)

lemma rb_read_size_whole: "len \<le> rb_fill_cnt rb \<Longrightarrow> rb_read_size rb len = len"
  by (simp add: rb_read_size_def leD)

lemma rb_write_size_min:
  assumes "rb_inv rb" "unat len < 2 ^ 31"
  shows "unat (rb_write_size rb len) = min (unat len) (rb_cap rb - unat (rb_fill_cnt rb))"
proof -
  have a: "unat (rb_bytes_available rb) = rb_cap rb - unat (rb_fill_cnt rb)"
    using assms(1) by (simp add: rb_bytes_available_def rb_cap_def rb_inv_def unat_sub)
  moreover have "\<dots> < 2 ^ 31" using rb_inv_cap[OF assms(1)] by linarith
  ultimately have "len <s rb_bytes_available rb \<longleftrightarrow> unat len < rb_cap rb - unat (rb_fill_cnt rb)"
    using word_sless_small[of len "rb_bytes_available rb"] assms(2) by simp
  with a show ?thesis by (simp add: rb_write_size_def Let_def min_def)
qed

section \<open>The contract of a bounded byte queue\<close>

datatype 'b fifo_op = Put "'b list" | Get nat

text \<open>Run a sequence of operations, collecting what was accepted and what was delivered.\<close>

fun fifo_run :: "('s \<Rightarrow> 'b list \<Rightarrow> (nat \<times> 's) option) \<Rightarrow> ('s \<Rightarrow> nat \<Rightarrow> ('b list \<times> 's) option) \<Rightarrow>
    's \<Rightarrow> 'b fifo_op list \<Rightarrow> ('b list \<times> 'b list \<times> 's) option" where
  "fifo_run put get s [] = Some ([], [], s)"
| "fifo_run put get s (Put xs # ops) = do {
     (k, s) \<leftarrow> put s xs; (i, d, s) \<leftarrow> fifo_run put get s ops; Some (take k xs @ i, d, s) }"
| "fifo_run put get s (Get n # ops) = do {
     (x, s) \<leftarrow> get s n; (i, d, s) \<leftarrow> fifo_run put get s ops; Some (i, x @ d, s) }"

fun fifo_op_small :: "'b fifo_op \<Rightarrow> bool" where
  "fifo_op_small (Put xs) = (length xs < 2 ^ 31)"
| "fifo_op_small (Get n) = (n < 2 ^ 31)"

locale byte_fifo =
  fixes inv :: "'s \<Rightarrow> bool"
    and content :: "'s \<Rightarrow> 'b list"
    and cap :: "'s \<Rightarrow> nat"
    and put :: "'s \<Rightarrow> 'b list \<Rightarrow> (nat \<times> 's) option"
    and get :: "'s \<Rightarrow> nat \<Rightarrow> ('b list \<times> 's) option"
  assumes bounded: "inv s \<Longrightarrow> length (content s) \<le> cap s \<and> cap s < 2 ^ 31"
    and put_ok: "inv s \<Longrightarrow> length xs < 2 ^ 31 \<Longrightarrow>
      \<exists>s'. put s xs = Some (min (length xs) (cap s - length (content s)), s') \<and> inv s' \<and> cap s' = cap s \<and>
        content s' = content s @ take (min (length xs) (cap s - length (content s))) xs"
    and get_ok: "inv s \<Longrightarrow> n < 2 ^ 31 \<Longrightarrow>
      \<exists>d s'. get s n = Some (d, s') \<and> inv s' \<and> cap s' = cap s \<and> content s = d @ content s' \<and>
        length d \<le> n \<and> (n \<le> length (content s) \<longrightarrow> length d = n)"
begin

lemma putD:
  assumes "inv s" "length xs < 2 ^ 31" "put s xs = Some (k, s')"
  shows "inv s' \<and> cap s' = cap s \<and> k = min (length xs) (cap s - length (content s)) \<and>
    content s' = content s @ take k xs"
  using put_ok[OF assms(1,2)] assms(3) by auto

lemma getD:
  assumes "inv s" "n < 2 ^ 31" "get s n = Some (d, s')"
  shows "inv s' \<and> cap s' = cap s \<and> content s = d @ content s' \<and> length d \<le> n"
  using get_ok[OF assms(1,2)] assms(3) by auto

text \<open>No operation faults, and what went in is what came out followed by what is still inside.\<close>

lemma run_conserves:
  "inv s \<Longrightarrow> list_all fifo_op_small ops \<Longrightarrow>
   \<exists>i d s'. fifo_run put get s ops = Some (i, d, s') \<and> inv s' \<and> content s @ i = d @ content s'"
proof (induction ops arbitrary: s)
  case (Cons op ops)
  show ?case
  proof (cases op)
    case (Put xs)
    then obtain k t where t: "put s xs = Some (k, t)" "inv t" "content t = content s @ take k xs"
      using Cons.prems put_ok[of s xs] by auto
    then obtain i d s' where "fifo_run put get t ops = Some (i, d, s')" "inv s'"
      "content t @ i = d @ content s'"
      using Cons.IH[of t] Cons.prems by auto
    with t Put show ?thesis by simp
  next
    case (Get n)
    then obtain x t where t: "get s n = Some (x, t)" "inv t" "content s = x @ content t"
      using Cons.prems get_ok[of s n] by auto
    then obtain i d s' where "fifo_run put get t ops = Some (i, d, s')" "inv s'"
      "content t @ i = d @ content s'"
      using Cons.IH[of t] Cons.prems by auto
    with t Get show ?thesis by simp
  qed
qed simp

lemma round_trip:
  assumes "inv s" "content s = []" "length xs \<le> cap s"
  shows "\<exists>t s'. put s xs = Some (length xs, t) \<and> get t (length xs) = Some (xs, s') \<and> inv s' \<and> content s' = []"
proof -
  have small: "length xs < 2 ^ 31" using assms(3) bounded[OF assms(1)] by linarith
  then obtain t where t: "put s xs = Some (length xs, t)" "inv t" "content t = xs"
    using put_ok[OF assms(1), of xs] assms by (auto simp: min_def)
  obtain d s' where g: "get t (length xs) = Some (d, s')" "inv s'" "xs = d @ content s'" "length d = length xs"
    using get_ok[OF t(2) small] unfolding t(3) by blast
  from g(3,4) have "content s' = []" and "d = xs"
    by (metis append_eq_append_conv append.right_neutral)+
  with t(1) g(1,2) show ?thesis by blast
qed

end

section \<open>The ring buffer implements it\<close>

text \<open>One pass of the write loop and of the read loop under the lock, as queue operations.\<close>

definition rb_write_pass :: "ringbuf \<Rightarrow> u8 list \<Rightarrow> (nat \<times> ringbuf) option" where
  "rb_write_pass rb xs =
     (let n = rb_write_size rb (of_nat (length xs)) in
      map_option (\<lambda>rb'. (unat n, rb')) (rb_write_copy rb xs n))"

definition rb_read_pass :: "ringbuf \<Rightarrow> nat \<Rightarrow> (u8 list \<times> ringbuf) option" where
  "rb_read_pass rb n = rb_read_copy rb (rb_read_size rb (of_nat n))"

lemma unat_of_nat_small: "n < 2 ^ 31 \<Longrightarrow> unat (of_nat n :: u32) = n"
  by (simp add: unat_of_nat)

interpretation rb: byte_fifo rb_inv rb_content rb_cap rb_write_pass rb_read_pass
proof
  show "length (rb_content s) \<le> rb_cap s \<and> rb_cap s < 2 ^ 31" if "rb_inv s" for s
    using rb_inv_fill[OF that] rb_inv_cap[OF that] by simp
next
  fix s :: ringbuf and xs :: "u8 list"
  assume inv: "rb_inv s" and l: "length xs < 2 ^ 31"
  have n: "unat (rb_write_size s (of_nat (length xs))) = min (length xs) (rb_cap s - length (rb_content s))"
    using rb_write_size_min[OF inv, of "of_nat (length xs)"] l by (simp add: unat_of_nat_small)
  then obtain s' where "rb_write_copy s xs (rb_write_size s (of_nat (length xs))) = Some s'" "rb_inv s'"
    "rb_content s' = rb_content s @ take (min (length xs) (rb_cap s - length (rb_content s))) xs"
    "rb_size s' = rb_size s"
    using rb_write_copy_ok[OF inv, of "rb_write_size s (of_nat (length xs))" xs]
    by (auto simp: rb_cap_def)
  with n show "\<exists>s'. rb_write_pass s xs = Some (min (length xs) (rb_cap s - length (rb_content s)), s') \<and>
      rb_inv s' \<and> rb_cap s' = rb_cap s \<and>
      rb_content s' = rb_content s @ take (min (length xs) (rb_cap s - length (rb_content s))) xs"
    by (simp add: rb_write_pass_def Let_def rb_cap_def)
next
  fix s :: ringbuf and n :: nat
  assume inv: "rb_inv s" and l: "n < 2 ^ 31"
  let ?m = "rb_read_size s (of_nat n)"
  have le: "unat ?m \<le> n"
    using rb_read_size_len[of s "of_nat n"] l by (simp add: word_le_nat_alt unat_of_nat_small)
  have eq: "n \<le> length (rb_content s) \<Longrightarrow> unat ?m = n"
    using rb_read_size_whole[of "of_nat n" s] l by (simp add: word_le_nat_alt unat_of_nat_small)
  show "\<exists>d s'. rb_read_pass s n = Some (d, s') \<and> rb_inv s' \<and> rb_cap s' = rb_cap s \<and>
      rb_content s = d @ rb_content s' \<and> length d \<le> n \<and> (n \<le> length (rb_content s) \<longrightarrow> length d = n)"
    using rb_read_copy_ok[OF inv rb_read_size_le[of s "of_nat n"]] le eq
    by (fastforce simp: rb_read_pass_def rb_cap_def)
qed

end
