(* ===== verification/Ringbuf_Tasks.thy ===== *)
theory Ringbuf_Tasks
  imports Ringbuf_Correct
begin

text \<open>
  The ring buffer shared between tasks. First as a step relation: any interleaving of the passes of
  a writing and a reading task and of the calls that set the flags. Then the whole loops of
  \<open>rb_read\<close> and \<open>rb_write\<close>, in an environment that may run other tasks at every semaphore
  operation.
\<close>

section \<open>Interleavings of passes\<close>

text \<open>\<open>rb_reach rb0 rb sent recvd\<close>: from \<open>rb0\<close> some interleaving leads to \<open>rb\<close>, having stored the bytes
  \<open>sent\<close> and delivered the bytes \<open>recvd\<close>.\<close>

inductive rb_reach :: "ringbuf \<Rightarrow> ringbuf \<Rightarrow> u8 list \<Rightarrow> u8 list \<Rightarrow> bool" for rb0 where
  start: "rb_reach rb0 rb0 [] []"
| write_pass: "rb_reach rb0 rb sent recvd \<Longrightarrow> length xs < 2 ^ 31 \<Longrightarrow> rb_write_pass rb xs = Some (k, rb') \<Longrightarrow>
    rb_reach rb0 rb' (sent @ take k xs) recvd"
| read_pass: "rb_reach rb0 rb sent recvd \<Longrightarrow> n < 2 ^ 31 \<Longrightarrow> rb_read_pass rb n = Some (d, rb') \<Longrightarrow>
    rb_reach rb0 rb' sent (recvd @ d)"
| abort_read: "rb_reach rb0 rb sent recvd \<Longrightarrow> rb_reach rb0 (rb\<lparr>rb_f_abort_read := b\<rparr>) sent recvd"
| abort_write: "rb_reach rb0 rb sent recvd \<Longrightarrow> rb_reach rb0 (rb\<lparr>rb_f_abort_write := b\<rparr>) sent recvd"
| done_write: "rb_reach rb0 rb sent recvd \<Longrightarrow> rb_reach rb0 (rb\<lparr>rb_f_is_done_write := b\<rparr>) sent recvd"
| unblock: "rb_reach rb0 rb sent recvd \<Longrightarrow> rb_reach rb0 (rb\<lparr>rb_f_unblock_reader := b\<rparr>) sent recvd"

lemma rb_reach_conserves:
  "rb_reach rb0 rb sent recvd \<Longrightarrow> rb_inv rb0 \<Longrightarrow>
   rb_inv rb \<and> rb_content rb0 @ sent = recvd @ rb_content rb"
proof (induction rule: rb_reach.induct)
  case (write_pass rb sent recvd xs k rb')
  then show ?case using rb.putD[of rb xs k rb'] by auto
next
  case (read_pass rb sent recvd n d rb')
  then show ?case using rb.getD[of rb n d rb'] by auto
qed auto

section \<open>Flow of bytes through the loops\<close>

text \<open>From \<open>w\<close> to \<open>w'\<close> the bytes \<open>i\<close> went into ring buffer \<open>h\<close> and the bytes \<open>d\<close> came out.\<close>

definition rb_flow :: "rb_handle \<Rightarrow> 'z rbw \<Rightarrow> u8 list \<Rightarrow> u8 list \<Rightarrow> 'z rbw \<Rightarrow> bool" where
  "rb_flow h w i d w' \<longleftrightarrow>
     (\<exists>rb rb'. rbs w h = Some rb \<and> rbs w' h = Some rb' \<and> rb_inv rb \<and> rb_inv rb' \<and>
        rb_content rb @ i = d @ rb_content rb')"

definition rb_live :: "rb_handle \<Rightarrow> 'z rbw \<Rightarrow> bool" where
  "rb_live h w \<longleftrightarrow> (\<exists>rb. rbs w h = Some rb \<and> rb_inv rb)"

text \<open>What a task may rely on while it reads: other tasks only add bytes (one reader); and while it
  writes: other tasks only remove bytes (one writer).\<close>

definition only_reader :: "'z rbw platform \<Rightarrow> rb_handle \<Rightarrow> bool" where
  "only_reader R h \<longleftrightarrow>
     (\<forall>w s t. rb_live h w \<longrightarrow> (\<exists>i. rb_flow h w i [] (snd (xSemaphoreTake R s t w)))) \<and>
     (\<forall>w s. rb_live h w \<longrightarrow> (\<exists>i. rb_flow h w i [] (xSemaphoreGive R s w)))"

definition only_writer :: "'z rbw platform \<Rightarrow> rb_handle \<Rightarrow> bool" where
  "only_writer R h \<longleftrightarrow>
     (\<forall>w s t. rb_live h w \<longrightarrow> (\<exists>d. rb_flow h w [] d (snd (xSemaphoreTake R s t w)))) \<and>
     (\<forall>w s. rb_live h w \<longrightarrow> (\<exists>d. rb_flow h w [] d (xSemaphoreGive R s w)))"

lemma rb_flow_refl: "rb_live h w \<Longrightarrow> rb_flow h w [] [] w"
  by (auto simp: rb_flow_def rb_live_def)

lemma rb_flow_trans: "rb_flow h w i d w' \<Longrightarrow> rb_flow h w' i' d' w'' \<Longrightarrow> rb_flow h w (i @ i') (d @ d') w''"
  by (auto simp: rb_flow_def) (metis append.assoc)

lemma rb_flow_live: "rb_flow h w i d w' \<Longrightarrow> rb_live h w \<and> rb_live h w'"
  by (auto simp: rb_flow_def rb_live_def)

lemma rb_flow_out: "rb_flow h w i [] w' \<Longrightarrow> rb_flow h w' i' d w'' \<Longrightarrow> rb_flow h w (i @ i') d w''"
  using rb_flow_trans[of h w i "[]" w' i' d w''] by simp

lemma rb_flow_in: "rb_flow h w [] d w' \<Longrightarrow> rb_flow h w' i d' w'' \<Longrightarrow> rb_flow h w i (d @ d') w''"
  using rb_flow_trans[of h w "[]" d w' i d' w''] by simp

lemma rb_read_copy_flow:
  assumes "rbs w h = Some rb" "rb_live h w" "n \<le> rb_fill_cnt rb" "rb_read_copy rb n = Some (d, rb')"
  shows "rb_flow h w [] d (w\<lparr>rbs := (rbs w)(h \<mapsto> rb')\<rparr>) \<and> length d = unat n"
  using assms rb_read_copy_ok[of rb n] by (auto simp: rb_flow_def rb_live_def)

lemma rb_write_copy_flow:
  assumes "rbs w h = Some rb" "rb_live h w" "unat len < 2 ^ 31" "unat len \<le> length buf"
    "rb_write_copy rb buf (rb_write_size rb len) = Some rb'"
  shows "rb_flow h w (take (unat (rb_write_size rb len)) buf) [] (w\<lparr>rbs := (rbs w)(h \<mapsto> rb')\<rparr>)"
proof -
  from assms have "rb_inv rb" by (simp add: rb_live_def)
  with assms show ?thesis
    using rb_write_copy_ok[of rb "rb_write_size rb len" buf] rb_write_size_min[of rb len]
    by (auto simp: rb_flow_def rb_cap_def)
qed

text \<open>The read loop delivers, in order and without gaps, bytes the buffer held or was given.\<close>

definition read_post :: "rb_handle \<Rightarrow> u32 \<Rightarrow> u32 \<Rightarrow> u8 list \<Rightarrow> 'z rbw \<Rightarrow> int \<times> u32 \<times> u8 list \<times> 'z rbw \<Rightarrow> bool" where
  "read_post h len tot out w r = (case r of (rv, tot', out', w') \<Rightarrow>
     \<exists>i d. rb_flow h w i d w' \<and> out' = out @ d \<and> length d \<le> unat len \<and> tot' = tot + of_nat (length d) \<and>
       rv \<in> {0, RB_DONE, RB_ABORT, RB_TIMEOUT} \<and> (rv = 0 \<longrightarrow> length d = unat len))"

lemma read_post_done: "rb_live h w \<Longrightarrow> read_post h 0 tot out w (0, tot, out, w)"
  using rb_flow_refl[of h w] by (auto simp: read_post_def)

lemma read_post_stop:
  "rb_flow h w i [] w' \<Longrightarrow> rv \<in> {RB_DONE, RB_ABORT, RB_TIMEOUT} \<Longrightarrow> read_post h len tot out w (rv, tot, out, w')"
  by (auto simp: read_post_def)

lemma read_post_more:
  assumes "rb_flow h w i d w'" "length d = unat n" "n \<le> len" "read_post h (len - n) (tot + n) (out @ d) w' r"
  shows "read_post h len tot out w r"
proof -
  obtain rv tot' out' w'' where r: "r = (rv, tot', out', w'')" by (cases r) auto
  obtain j e where "rb_flow h w' j e w''" "out' = out @ d @ e" "length e \<le> unat (len - n)"
    "tot' = tot + n + of_nat (length e)" "rv \<in> {0, RB_DONE, RB_ABORT, RB_TIMEOUT}"
    "rv = 0 \<longrightarrow> length e = unat (len - n)"
    using assms(4) by (auto simp: read_post_def r)
  then show ?thesis
    using rb_flow_trans[OF assms(1)] assms(2,3)
    by (fastforce simp: read_post_def r unat_sub word_le_nat_alt add.assoc)
qed

lemma only_readerD:
  assumes "only_reader R h" "rb_live h w"
  shows "xSemaphoreTake R s t w = (ok, w') \<Longrightarrow> \<exists>i. rb_flow h w i [] w'"
    and "\<exists>i. rb_flow h w i [] (xSemaphoreGive R s w)"
  using assms unfolding only_reader_def by (metis snd_conv)+

text \<open>One iteration: it does not fault, and either it is finished or it has made some progress that
  the rest of the loop completes.\<close>

definition read_iter_post where
  "read_iter_post h len tot out w x = (case x of
     Inl r \<Rightarrow> read_post h len tot out w r
   | Inr (len', tot', out', w') \<Rightarrow>
       rb_live h w' \<and> (\<forall>r. read_post h len' tot' out' w' r \<longrightarrow> read_post h len tot out w r))"

lemma rb_read_iter_ok:
  assumes env: "only_reader R h" and live: "rb_live h w"
  shows "\<exists>x. rb_read_iter R h True t len tot out w = Some x \<and> read_iter_post h len tot out w x"
proof -
  obtain rb where rb: "rbs w h = Some rb" using live by (auto simp: rb_live_def)
  obtain ok w1 where tk: "xSemaphoreTake R (rb_lock rb) portMAX_DELAY w = (ok, w1)" by fastforce
  obtain i1 where f1: "rb_flow h w i1 [] w1" using only_readerD(1)[OF env live tk] by blast
  then obtain rb1 where rb1: "rbs w1 h = Some rb1" "rb_inv rb1" and live1: "rb_live h w1"
    using rb_flow_live rb_live_def by blast
  let ?n = "rb_read_size rb1 len"
  consider "\<not> ok" | "ok" "?n = 0" | "ok" "?n \<noteq> 0" by blast
  then show ?thesis
  proof cases
    case 1
    then show ?thesis using rb tk read_post_stop[OF f1] by (simp add: rb_read_iter_def read_iter_post_def)
  next
    case 2
    let ?w2 = "xSemaphoreGive R (rb_lock rb1) w1"
    obtain i2 where "rb_flow h w1 i2 [] ?w2" using only_readerD(2)[OF env live1] by blast
    then have f2: "rb_flow h w (i1 @ i2) [] ?w2" using rb_flow_trans[OF f1] by force
    then obtain rb2 where rb2: "rbs ?w2 h = Some rb2" and live2: "rb_live h ?w2"
      using rb_flow_live rb_live_def by blast
    obtain ok' w3 where tk': "xSemaphoreTake R (rb_can_read rb2) t ?w2 = (ok', w3)" by fastforce
    then obtain i3 where "rb_flow h ?w2 i3 [] w3" using only_readerD(1)[OF env live2] by blast
    then have f3: "rb_flow h w ((i1 @ i2) @ i3) [] w3" using rb_flow_out[OF f2] by blast
    have "read_post h len tot out w3 r \<Longrightarrow> read_post h len tot out w r" for r
      using read_post_more[OF f3, of 0 len tot out r] by simp
    then show ?thesis
      using 2 rb tk rb1 rb2 tk' read_post_stop[OF f2] read_post_stop[OF f3] rb_flow_live[OF f3]
      by (simp add: rb_read_iter_def read_iter_post_def Let_def)
  next
    case 3
    obtain d rb' where cp: "rb_read_copy rb1 ?n = Some (d, rb')"
      using rb_read_copy_ok[OF rb1(2) rb_read_size_le] by blast
    let ?w2 = "w1\<lparr>rbs := (rbs w1)(h \<mapsto> rb')\<rparr>"
    let ?w3 = "xSemaphoreGive R (rb_lock rb1) ?w2"
    have f2: "rb_flow h w1 [] d ?w2" and ld: "length d = unat ?n"
      using rb_read_copy_flow[OF rb1(1) live1 rb_read_size_le cp] by auto
    obtain i3 where f3: "rb_flow h ?w2 i3 [] ?w3"
      using only_readerD(2)[OF env] f2 rb_flow_live by blast
    have fl: "rb_flow h w (i1 @ i3) d ?w3"
      using rb_flow_out[OF f1 rb_flow_trans[OF f2 f3]] by simp
    note more = read_post_more[OF fl ld rb_read_size_len, of tot out]
    show ?thesis
      using 3 rb tk rb1 cp more read_post_done[of h ?w3] rb_flow_live[OF fl]
      by (cases "len = ?n") (simp_all add: rb_read_iter_def read_iter_post_def Let_def)
  qed
qed

lemma rb_read_loop_flow:
  assumes ret: "rb_read_loop R h dst t len tot out w = Some r"
  shows "only_reader R h \<longrightarrow> rb_live h w \<longrightarrow> dst \<longrightarrow> read_post h len tot out w r"
proof (rule rb_read_loop.raw_induct[where P = "\<lambda>R h dst t len tot out w r.
       only_reader R h \<longrightarrow> rb_live h w \<longrightarrow> dst \<longrightarrow> read_post h len tot out w r", OF _ ret],
    intro impI, goal_cases)
  case (1 f R h dst t len tot out w r)
  obtain x where "rb_read_iter R h dst t len tot out w = Some x" "read_iter_post h len tot out w x"
    using rb_read_iter_ok[OF 1(3,4)] 1(5) by fastforce
  then show ?case
    using 1(2) 1(1)[rule_format, OF _ 1(3) _ 1(5)] read_post_done[OF 1(4)]
    by (cases r) (auto simp: read_iter_post_def split: if_splits sum.splits)
qed

section \<open>The write loop\<close>

definition write_post :: "rb_handle \<Rightarrow> u8 list \<Rightarrow> u32 \<Rightarrow> u32 \<Rightarrow> 'z rbw \<Rightarrow> int \<times> u32 \<times> 'z rbw \<Rightarrow> bool" where
  "write_post h buf len tot w r = (case r of (rv, tot', w') \<Rightarrow>
     \<exists>k d. rb_flow h w (take k buf) d w' \<and> k \<le> unat len \<and> tot' = tot + of_nat k \<and>
       rv \<in> {0, RB_DONE, RB_ABORT, RB_TIMEOUT} \<and> (rv = 0 \<longrightarrow> k = unat len))"

lemma write_post_done: "rb_live h w \<Longrightarrow> write_post h buf 0 tot w (0, tot, w)"
  using rb_flow_refl[of h w] by (auto simp: write_post_def)

lemma write_post_stop:
  "rb_flow h w [] d w' \<Longrightarrow> rv \<in> {RB_DONE, RB_ABORT, RB_TIMEOUT} \<Longrightarrow> write_post h buf len tot w (rv, tot, w')"
  unfolding write_post_def by (intro case_prodI exI[of _ "0::nat"] exI[of _ d]) auto

lemma write_post_more:
  assumes "rb_flow h w (take (unat n) buf) d w'" "n \<le> len"
    "write_post h (drop (unat n) buf) (len - n) (tot + n) w' r"
  shows "write_post h buf len tot w r"
proof -
  obtain rv tot' w'' where r: "r = (rv, tot', w'')" by (cases r) auto
  obtain k e where "rb_flow h w' (take k (drop (unat n) buf)) e w''" "k \<le> unat (len - n)"
    "tot' = tot + n + of_nat k" "rv \<in> {0, RB_DONE, RB_ABORT, RB_TIMEOUT}"
    "rv = 0 \<longrightarrow> k = unat (len - n)"
    using assms(3) by (auto simp: write_post_def r)
  moreover have "rb_flow h w (take (unat n + k) buf) (d @ e) w''"
    using rb_flow_trans[OF assms(1) calculation(1)] by (simp add: take_add)
  moreover have "unat (len - n) = unat len - unat n" "unat n \<le> unat len"
    using assms(2) by (simp_all add: unat_sub word_le_nat_alt)
  ultimately show ?thesis
    unfolding write_post_def r by (intro case_prodI exI[of _ "unat n + k"] exI[of _ "d @ e"]) auto
qed

lemma only_writerD:
  assumes "only_writer R h" "rb_live h w"
  shows "xSemaphoreTake R s t w = (ok, w') \<Longrightarrow> \<exists>d. rb_flow h w [] d w'"
    and "\<exists>d. rb_flow h w [] d (xSemaphoreGive R s w)"
  using assms unfolding only_writer_def by (metis snd_conv)+

definition write_iter_post where
  "write_iter_post h buf len tot w x = (case x of
     Inl r \<Rightarrow> write_post h buf len tot w r
   | Inr (buf', len', tot', w') \<Rightarrow>
       rb_live h w' \<and> unat len' < 2 ^ 31 \<and> unat len' \<le> length buf' \<and>
       (\<forall>r. write_post h buf' len' tot' w' r \<longrightarrow> write_post h buf len tot w r))"

lemma rb_write_iter_ok:
  assumes env: "only_writer R h" and live: "rb_live h w"
    and len: "unat len < 2 ^ 31" "unat len \<le> length buf"
  shows "\<exists>x. rb_write_iter R h t buf len tot w = Some x \<and> write_iter_post h buf len tot w x"
proof -
  obtain rb where rb: "rbs w h = Some rb" using live by (auto simp: rb_live_def)
  obtain ok w1 where tk: "xSemaphoreTake R (rb_lock rb) portMAX_DELAY w = (ok, w1)" by fastforce
  obtain d1 where f1: "rb_flow h w [] d1 w1" using only_writerD(1)[OF env live tk] by blast
  then obtain rb1 where rb1: "rbs w1 h = Some rb1" "rb_inv rb1" and live1: "rb_live h w1"
    using rb_flow_live rb_live_def by blast
  let ?n = "rb_write_size rb1 len"
  have nmin: "unat ?n = min (unat len) (rb_cap rb1 - unat (rb_fill_cnt rb1))"
    using rb_write_size_min[OF rb1(2) len(1)] .
  consider "\<not> ok" | "ok" "?n = 0" | "ok" "?n \<noteq> 0" by blast
  then show ?thesis
  proof cases
    case 1
    then show ?thesis using rb tk write_post_stop[OF f1] by (simp add: rb_write_iter_def write_iter_post_def)
  next
    case 2
    let ?w2 = "xSemaphoreGive R (rb_lock rb1) w1"
    obtain d2 where "rb_flow h w1 [] d2 ?w2" using only_writerD(2)[OF env live1] by blast
    then have f2: "rb_flow h w [] (d1 @ d2) ?w2" using rb_flow_trans[OF f1] by force
    then obtain rb2 where rb2: "rbs ?w2 h = Some rb2" and live2: "rb_live h ?w2"
      using rb_flow_live rb_live_def by blast
    obtain ok' w3 where tk': "xSemaphoreTake R (rb_can_write rb2) t ?w2 = (ok', w3)" by fastforce
    then obtain d3 where "rb_flow h ?w2 [] d3 w3" using only_writerD(1)[OF env live2] by blast
    then have f3: "rb_flow h w [] ((d1 @ d2) @ d3) w3" using rb_flow_in[OF f2] by blast
    have "write_post h buf len tot w3 r \<Longrightarrow> write_post h buf len tot w r" for r
      using write_post_more[of h w 0 buf _ w3 len tot r] f3 by auto
    then show ?thesis
      using 2 rb tk rb1 rb2 tk' write_post_stop[OF f2] write_post_stop[OF f3] rb_flow_live[OF f3] len
      by (simp add: rb_write_iter_def write_iter_post_def Let_def)
  next
    case 3
    have "unat ?n \<le> unat (rb_size rb1) - unat (rb_fill_cnt rb1)" "unat ?n \<le> length buf"
      using nmin len by (auto simp: rb_cap_def)
    then obtain rb' where cp: "rb_write_copy rb1 buf ?n = Some rb'"
      using rb_write_copy_ok[OF rb1(2)] by blast
    let ?w2 = "w1\<lparr>rbs := (rbs w1)(h \<mapsto> rb')\<rparr>"
    let ?w3 = "xSemaphoreGive R (rb_lock rb1) ?w2"
    have f2: "rb_flow h w1 (take (unat ?n) buf) [] ?w2"
      using rb_write_copy_flow[OF rb1(1) live1 len cp] .
    obtain d3 where f3: "rb_flow h ?w2 [] d3 ?w3"
      using only_writerD(2)[OF env] f2 rb_flow_live by blast
    have fl: "rb_flow h w (take (unat ?n) buf) (d1 @ d3) ?w3"
      using rb_flow_in[OF f1 rb_flow_trans[OF f2 f3]] by simp
    have le: "?n \<le> len" using nmin by (simp add: word_le_nat_alt)
    have small: "unat (len - ?n) < 2 ^ 31" "unat (len - ?n) \<le> length (drop (unat ?n) buf)"
      using le len by (simp_all add: unat_sub)
    show ?thesis
      using 3 rb tk rb1 cp write_post_more[OF fl le] write_post_done[of h ?w3] rb_flow_live[OF fl] small
      by (cases "len = ?n") (simp_all add: rb_write_iter_def write_iter_post_def Let_def)
  qed
qed

lemma rb_write_loop_flow:
  assumes ret: "rb_write_loop R h t buf len tot w = Some r"
  shows "only_writer R h \<longrightarrow> rb_live h w \<longrightarrow> unat len < 2 ^ 31 \<longrightarrow> unat len \<le> length buf \<longrightarrow>
    write_post h buf len tot w r"
proof (rule rb_write_loop.raw_induct[where P = "\<lambda>R h t buf len tot w r. only_writer R h \<longrightarrow> rb_live h w \<longrightarrow>
       unat len < 2 ^ 31 \<longrightarrow> unat len \<le> length buf \<longrightarrow> write_post h buf len tot w r", OF _ ret],
    intro impI, goal_cases)
  case (1 f R h t buf len tot w r)
  obtain x where "rb_write_iter R h t buf len tot w = Some x" "write_iter_post h buf len tot w x"
    using rb_write_iter_ok[OF 1(3-6)] by blast
  then show ?case
    using 1(2) 1(1)[rule_format, OF _ 1(3)] write_post_done[OF 1(4)]
    by (cases r) (auto simp: write_iter_post_def split: if_splits sum.splits)
qed

section \<open>Termination of the read loop\<close>

text \<open>\<open>m\<close> bounds how often the reader can still be woken through \<open>can_read\<close>.\<close>

definition finite_wakeups :: "'z rbw platform \<Rightarrow> rb_handle \<Rightarrow> tick \<Rightarrow> ('z rbw \<Rightarrow> nat) \<Rightarrow> bool" where
  "finite_wakeups R h t m \<longleftrightarrow>
     (\<forall>w f. m (w\<lparr>rbs := f\<rparr>) = m w) \<and> (\<forall>w s. m (xSemaphoreGive R s w) \<le> m w) \<and>
     (\<forall>w s. m (snd (xSemaphoreTake R s portMAX_DELAY w)) \<le> m w) \<and>
     (\<forall>w rb w'. rbs w h = Some rb \<and> xSemaphoreTake R (rb_can_read rb) t w = (True, w') \<longrightarrow> m w' < m w)"

lemma finite_wakeupsD:
  assumes "finite_wakeups R h t m"
  shows "m (xSemaphoreGive R s (w\<lparr>rbs := f\<rparr>)) \<le> m w" "m (xSemaphoreGive R s w) \<le> m w"
    and "xSemaphoreTake R s portMAX_DELAY w = (ok, w') \<Longrightarrow> m w' \<le> m w"
    and "rbs w h = Some rb \<Longrightarrow> xSemaphoreTake R (rb_can_read rb) t w = (True, w') \<Longrightarrow> m w' < m w"
  using assms unfolding finite_wakeups_def by (metis snd_conv)+

lemma rb_read_iter_progress:
  assumes "rb_read_iter R h True t len tot out w = Some (Inr (len', tot', out', w'))" "finite_wakeups R h t m"
  shows "m w' < m w \<or> m w' \<le> m w \<and> unat len' < unat len"
proof -
  note fw = finite_wakeupsD[OF assms(2)]
  obtain rb where rb: "rbs w h = Some rb"
    using assms(1) by (auto simp: rb_read_iter_def bind_eq_Some_conv)
  obtain ok w1 where tk: "xSemaphoreTake R (rb_lock rb) portMAX_DELAY w = (ok, w1)" by fastforce
  have m1: "m w1 \<le> m w" using fw(3)[OF tk] .
  obtain rb1 where rb1: "rbs w1 h = Some rb1" and ok: ok
    using assms(1) rb tk by (auto simp: rb_read_iter_def bind_eq_Some_conv split: if_splits)
  let ?n = "rb_read_size rb1 len"
  show ?thesis
  proof (cases "?n = 0")
    case True
    let ?w2 = "xSemaphoreGive R (rb_lock rb1) w1"
    obtain rb2 where rb2: "rbs ?w2 h = Some rb2" "xSemaphoreTake R (rb_can_read rb2) t ?w2 = (True, w')"
      using assms(1) rb tk rb1 ok True
      by (auto simp: rb_read_iter_def Let_def bind_eq_Some_conv split: if_splits prod.splits)
    have "m w' < m ?w2" using fw(4)[OF rb2] .
    then show ?thesis using fw(2)[of "rb_lock rb1" w1] m1 by linarith
  next
    case False
    then obtain d rb' where "rb_read_copy rb1 ?n = Some (d, rb')" "len' = len - ?n"
      "w' = xSemaphoreGive R (rb_lock rb1) (w1\<lparr>rbs := (rbs w1)(h \<mapsto> rb')\<rparr>)"
      using assms(1) rb tk rb1 ok
      by (auto simp: rb_read_iter_def Let_def bind_eq_Some_conv split: if_splits)
    moreover have "unat (len - ?n) < unat len"
    proof -
      have "0 < unat ?n" using False by (simp add: unat_gt_0)
      then show ?thesis
        using rb_read_size_len[of rb1 len] by (simp add: unat_sub word_le_nat_alt)
    qed
    ultimately show ?thesis using fw(1)[where s = "rb_lock rb1" and w = w1] m1 by (metis le_trans)
  qed
qed

lemma less_induct_pair [case_names less]:
  assumes "\<And>a b. (\<And>a' b'. a' < a \<or> a' \<le> a \<and> b' < b \<Longrightarrow> P a' b') \<Longrightarrow> P a b"
  shows "P (a :: nat) (b :: nat)"
proof (induction a arbitrary: b rule: less_induct)
  case outer: (less a)
  show ?case
  proof (induction b rule: less_induct)
    case (less b)
    then show ?case using assms outer by (metis le_neq_implies_less)
  qed
qed

lemma rb_read_loop_returns:
  assumes "only_reader R h" "finite_wakeups R h t m"
  shows "rb_live h w \<longrightarrow> (\<exists>r. rb_read_loop R h True t len tot out w = Some r)"
proof (induction "m w" "unat len" arbitrary: w len tot out rule: less_induct_pair)
  case (less w len tot out)
  show ?case
  proof (intro impI, cases "len = 0")
    case True
    then show "\<exists>r. rb_read_loop R h True t len tot out w = Some r"
      by (subst rb_read_loop.simps) simp
  next
    case False
    assume "rb_live h w"
    then obtain x where x: "rb_read_iter R h True t len tot out w = Some x" "read_iter_post h len tot out w x"
      using rb_read_iter_ok[OF assms(1)] by blast
    have "\<exists>r. rb_read_loop R h True t len' tot' out' w' = Some r" if i: "x = Inr (len', tot', out', w')" for len' tot' out' w'
      using rb_read_iter_progress[OF x(1)[unfolded i] assms(2)] less x(2)
      by (auto simp: i read_iter_post_def)
    then show "\<exists>r. rb_read_loop R h True t len tot out w = Some r"
      using False x(1) by (subst rb_read_loop.simps) (auto split: sum.splits)
  qed
qed

section \<open>Properties\<close>

lemma rb_live_I: "rbs w h = Some rb \<Longrightarrow> rb_inv rb \<Longrightarrow> rb_live h w"
  by (auto simp: rb_live_def)

lemma seq_only_reader: "only_reader (seq_platform a) h"
  using rb_flow_refl by (auto simp: only_reader_def)

lemma seq_only_writer: "only_writer (seq_platform a) h"
  using rb_flow_refl by (auto simp: only_writer_def)

lemma seq_finite_wakeups: "t \<noteq> portMAX_DELAY \<Longrightarrow> finite_wakeups (seq_platform a) h t (\<lambda>_. 0)"
  by (auto simp: finite_wakeups_def)

text \<open>A ring buffer of eight bytes holding six, wrapped round its end.\<close>

definition ex_rb :: ringbuf where
  "ex_rb = (rb_new 1 2 3 8)\<lparr>rb_p_o := [15, 16, 0, 0, 11, 12, 13, 14], rb_p_r := 4, rb_p_w := 2, rb_fill_cnt := 6\<rparr>"

lemma ex_rb_inv: "rb_inv ex_rb"
  by (simp add: ex_rb_def rb_inv_def rb_new_def)

lemma ex_rb_sizes [simp]: "rb_fill_cnt ex_rb = 6" "rb_size ex_rb = 8"
  by (simp_all add: ex_rb_def rb_new_def)

lemma ex_rb_content: "rb_content ex_rb = [11, 12, 13, 14, 15, 16]"
  by (simp add: ex_rb_def rb_content_def rb_new_def circ_def upt_rec)

definition ex_rbw :: rb_world where
  "ex_rbw = \<lparr>rbs = [7 \<mapsto> ex_rb]\<rparr>"

lemma ex_rbw_live: "rb_live 7 ex_rbw"
  by (rule rb_live_I[of _ _ ex_rb]) (simp_all add: ex_rbw_def ex_rb_inv)

text \<open>C1. In every interleaving of passes of \<open>rb_write\<close> and \<open>rb_read\<close> and of the flag-setting
  calls, for requests below 2 GiB, on a ring buffer of less than 2 GiB made by \<open>rb_create\<close>, the ring buffer
  invariant holds and the bytes stored are exactly the bytes delivered followed by the bytes still inside: nothing is lost,
  duplicated or reordered, and no more than the size is held.\<close>

theorem rb_interleaving_fifo:
  assumes "n < 2 ^ 31" "rb_reach (rb_new cr cw lk n) rb sent recvd"
  shows "rb_inv rb \<and> sent = recvd @ rb_content rb \<and> length (rb_content rb) \<le> n"
proof -
  have inv: "rb_inv rb" and eq: "sent = recvd @ rb_content rb"
    using rb_reach_conserves[OF assms(2) rb_new_inv[OF assms(1)]] by auto
  have "rb_size rb = of_nat n"
    using assms(2) by (induction rule: rb_reach.induct)
      (auto simp: rb_new_def rb_write_pass_def rb_read_pass_def Let_def rb_write_copy_def rb_read_copy_def
        bind_eq_Some_conv split: if_splits)
  then have "rb_cap rb = n" using assms(1) by (simp add: rb_cap_def unat_of_nat)
  then show ?thesis using rb.bounded[OF inv] inv eq by simp
qed

theorem rb_interleaving_fifo_witness:
  "\<exists>rb sent recvd. rb_reach (rb_new 1 2 3 8) rb sent recvd \<and> sent = [1, 2, 3] \<and> rb_inv rb \<and>
     sent = recvd @ rb_content rb"
proof -
  obtain rb where w: "rb_write_pass (rb_new 1 2 3 8) [1, 2, 3] = Some (3, rb)"
    using rb.put_ok[OF rb_new_inv[of 8], of "[1, 2, 3]" 1 2 3] by (auto simp: rb_cap_def rb_new_def)
  have r: "rb_reach (rb_new 1 2 3 8) rb [1, 2, 3] []"
    using rb_reach.write_pass[OF rb_reach.start, of "[1, 2, 3]" _ 3 rb] w by simp
  then show ?thesis using rb_interleaving_fifo[OF _ r] by auto
qed

text \<open>C2. The critical sections refine a bounded byte queue: no sequence of write and read passes on a
  well-formed ring buffer touches memory outside its block, and the bytes accepted, prefixed by the
  initial contents, are the bytes delivered followed by the final contents.\<close>

theorem rb_passes_refine_queue:
  assumes "rb_inv rb" "list_all fifo_op_small ops"
  shows "\<exists>i d rb'. fifo_run rb_write_pass rb_read_pass rb ops = Some (i, d, rb') \<and> rb_inv rb' \<and>
    rb_content rb @ i = d @ rb_content rb'"
  using assms by (rule rb.run_conserves)

theorem rb_passes_refine_queue_witness:
  "\<exists>i d rb'. fifo_run rb_write_pass rb_read_pass ex_rb [Put [21, 22, 23], Get 5] = Some (i, d, rb') \<and>
     [11, 12, 13, 14, 15, 16] @ i = d @ rb_content rb'"
  using rb_passes_refine_queue[OF ex_rb_inv, of "[Put [21, 22, 23], Get 5]"] by (auto simp: ex_rb_content)

text \<open>Round trip: a block no larger than the buffer that is written to an empty ring buffer is
  accepted whole by one pass, and the same number of bytes read back is the same block.\<close>

theorem rb_write_read_round_trip:
  assumes "rb_inv rb" "rb_content rb = []" "length xs \<le> unat (rb_size rb)"
  shows "\<exists>rb' rb''. rb_write_pass rb xs = Some (length xs, rb') \<and>
    rb_read_pass rb' (length xs) = Some (xs, rb'') \<and> rb_inv rb'' \<and> rb_content rb'' = []"
  using rb.round_trip assms by (simp add: rb_cap_def)

theorem rb_write_read_round_trip_witness:
  "\<exists>rb' rb''. rb_write_pass (rb_reset_obj ex_rb) [1, 2, 3, 4, 5] = Some (5, rb') \<and>
     rb_read_pass rb' 5 = Some ([1, 2, 3, 4, 5], rb'')"
proof -
  have len: "length [1, 2, 3, 4, 5 :: u8] = 5" by simp
  have "length [1, 2, 3, 4, 5 :: u8] \<le> unat (rb_size (rb_reset_obj ex_rb))"
    by (simp add: rb_reset_obj_def)
  from rb_write_read_round_trip[OF rb_reset_obj_inv[OF ex_rb_inv] rb_reset_obj_content this]
  show ?thesis unfolding len by blast
qed

text \<open>C3. \<open>rb_read\<close> by the only reader of a well-formed ring buffer, for a request below 2 GiB and while
  other tasks write: whatever its result, what it has placed in the caller's buffer is the front of
  the queue, no longer than requested. The result is the number of these bytes, or an error code with
  nothing placed, or zero for a zero request; on \<open>RB_ABORT\<close> alone it does not tell how many bytes
  were placed.\<close>

theorem rb_read_delivers:
  assumes "only_reader R h" "rb_live h w" "unat len < 2 ^ 31"
    and "rb_read R (Some h) True len t w = Some ((ret, out), w')"
  shows "\<exists>i. rb_flow h w i out w' \<and> length out \<le> unat len \<and>
    (ret = RB_ABORT \<or> out \<noteq> [] \<and> ret = int (length out) \<or>
     out = [] \<and> (ret = RB_DONE \<or> ret = RB_TIMEOUT \<or> ret = 0 \<and> len = 0))"
proof -
  obtain rv tot o' w1 b where l: "rb_read_loop R h True t len 0 [] w = Some (rv, tot, o', w1)"
    and b: "rbs w1 h = Some b"
    using assms(4) by (auto simp: rb_read_def bind_eq_Some_conv)
  obtain i d where f: "rb_flow h w i d w1" and d: "o' = d" "length d \<le> unat len" "tot = of_nat (length d)"
    and rv: "rv \<in> {0, RB_DONE, RB_ABORT, RB_TIMEOUT}" "rv = 0 \<longrightarrow> length d = unat len"
    using rb_read_loop_flow[OF l] assms(1,2) by (auto simp: read_post_def)
  have tot: "sint tot = int (length d)"
    using d assms(3) by (simp add: sint_small unat_of_nat_small)
  define w2 where "w2 = (if 0 < sint tot then xSemaphoreGive R (rb_can_write b) w1 else w1)"
  obtain j where "rb_flow h w1 j [] w2"
    using only_readerD(2)[OF assms(1)] rb_flow_refl rb_flow_live[OF f] unfolding w2_def by (metis (full_types))
  then have f2: "rb_flow h w (i @ j) d w2" using rb_flow_trans[OF f] by force
  have "rb_upd h (\<lambda>b. b\<lparr>rb_f_unblock_reader := False\<rparr>) w2 = Some w'" and "out = d"
    using assms(4) l b d(1) by (auto simp: rb_read_def Let_def bind_eq_Some_conv w2_def)
  have ret: "ret = (if rv = RB_ABORT then RB_ABORT else if d = [] then rv else int (length d))"
    using assms(4) l b rv(1) tot by (auto simp: rb_read_def Let_def bind_eq_Some_conv)
  have "rb_flow h w (i @ j) out w'"
    using f2 \<open>rb_upd h _ w2 = Some w'\<close> \<open>out = d\<close> by (auto simp: rb_flow_def rb_upd_def split: option.splits)
  with ret rv d \<open>out = d\<close> show ?thesis by (auto simp: unat_eq_0 intro!: exI[of _ "i @ j"])
qed

theorem rb_read_delivers_witness:
  "\<exists>ret out w' i. rb_read (seq_platform None) (Some 7) True 5 0 ex_rbw = Some ((ret, out), w') \<and>
     ret = 5 \<and> out = [11, 12, 13, 14, 15] \<and> rb_flow 7 ex_rbw i out w'"
proof -
  obtain d rb' where r: "rb_read_copy ex_rb 5 = Some (d, rb')" "rb_content ex_rb = d @ rb_content rb'" "length d = 5"
    using rb_read_copy_ok[OF ex_rb_inv, of 5] by auto
  then have d: "d = [11, 12, 13, 14, 15]"
    by (auto simp: ex_rb_content append_eq_Cons_conv numeral_eq_Suc length_Suc_conv)
  have "\<exists>w'. rb_read (seq_platform None) (Some 7) True 5 0 ex_rbw = Some ((5, d), w')"
    using r(1) by (simp add: rb_read_def rb_read_loop.simps rb_read_iter_def rb_read_size_def ex_rbw_def)
  then show ?thesis
    using rb_read_delivers[OF seq_only_reader ex_rbw_live, of 5 None 0] d by fastforce
qed

text \<open>\<open>rb_write\<close> by the only writer, while other tasks read: a prefix of the caller's block, no longer
  than asked, is appended to the queue; the result is its length, or an error code when nothing was
  stored, or \<open>RB_ABORT\<close>.\<close>

theorem rb_write_stores:
  assumes "only_writer R h" "rb_live h w" "unat len < 2 ^ 31" "unat len \<le> length buf"
    and "rb_write R (Some h) (Some buf) len t w = Some (ret, w')"
  shows "\<exists>k d. rb_flow h w (take k buf) d w' \<and> k \<le> unat len \<and>
    (ret = RB_ABORT \<or> 0 < k \<and> ret = int k \<or>
     k = 0 \<and> (ret = RB_DONE \<or> ret = RB_TIMEOUT \<or> ret = 0 \<and> len = 0))"
proof -
  obtain rv tot w1 b where l: "rb_write_loop R h t buf len 0 w = Some (rv, tot, w1)" and b: "rbs w1 h = Some b"
    using assms(5) by (auto simp: rb_write_def bind_eq_Some_conv)
  obtain k d where f: "rb_flow h w (take k buf) d w1" and k: "k \<le> unat len" "tot = of_nat k"
    and rv: "rv \<in> {0, RB_DONE, RB_ABORT, RB_TIMEOUT}" "rv = 0 \<longrightarrow> k = unat len"
    using rb_write_loop_flow[OF l] assms(1-4) by (auto simp: write_post_def)
  have tot: "sint tot = int k"
    using k assms(3) by (simp add: sint_small unat_of_nat_small)
  have w': "w' = (if 0 < sint tot then xSemaphoreGive R (rb_can_read b) w1 else w1)"
    using assms(5) l b by (auto simp: rb_write_def Let_def)
  obtain e where "rb_flow h w1 [] e w'"
    using only_writerD(2)[OF assms(1)] rb_flow_refl rb_flow_live[OF f] unfolding w' by (metis (full_types))
  then have "rb_flow h w (take k buf) (d @ e) w'" using rb_flow_trans[OF f] by force
  moreover have "ret = (if rv = RB_ABORT then RB_ABORT else if k = 0 then rv else int k)"
    using assms(5) l b rv(1) tot by (auto simp: rb_write_def Let_def)
  ultimately show ?thesis using rv k by (auto simp: unat_eq_0 intro!: exI[of _ k] exI[of _ "d @ e"])
qed

theorem rb_write_stores_witness:
  "\<exists>w' k d. rb_write (seq_platform None) (Some 7) (Some [21, 22, 23]) 3 0 ex_rbw = Some (2, w') \<and>
     rb_flow 7 ex_rbw (take k [21, 22, 23]) d w' \<and> k = 2"
proof -
  have n: "rb_write_size ex_rb 3 = 2"
    by (simp add: rb_write_size_def rb_bytes_available_def word_sless_alt)
  obtain rb' where r: "rb_write_copy ex_rb [21, 22, 23] 2 = Some rb'" "rb_inv rb'"
    "rb_content rb' = [11, 12, 13, 14, 15, 16, 21, 22]" "rb_size rb' = 8"
    using rb_write_copy_ok[OF ex_rb_inv, of 2 "[21, 22, 23]"] by (auto simp: ex_rb_content)
  have fill: "rb_fill_cnt rb' = 8"
    using r(1) by (auto simp: rb_write_copy_def Let_def bind_eq_Some_conv split: if_splits)
  have n': "rb_write_size rb' 1 = 0"
    by (simp add: rb_write_size_def rb_bytes_available_def word_sless_alt fill r)
  have flags: "\<not> rb_f_is_done_write rb'" "\<not> rb_f_abort_write rb'"
    using r(1) by (auto simp: ex_rb_def rb_new_def rb_write_copy_def Let_def bind_eq_Some_conv split: if_splits)
  have "\<exists>w'. rb_write (seq_platform None) (Some 7) (Some [21, 22, 23]) 3 0 ex_rbw = Some (2, w')"
    by (simp add: rb_write_def rb_write_loop.simps rb_write_iter_def ex_rbw_def n n' r flags)
  then obtain w' where w': "rb_write (seq_platform None) (Some 7) (Some [21, 22, 23]) 3 0 ex_rbw = Some (2, w')" ..
  then show ?thesis
    using rb_write_stores[OF seq_only_writer ex_rbw_live _ _ w'] by auto
qed

text \<open>C4. Liveness of \<open>rb_read\<close>: by the only reader of a well-formed buffer it returns a value (no fault,
  no endless loop), provided its waits on \<open>can_read\<close> succeed only finitely often.\<close>

theorem rb_read_returns:
  assumes "only_reader R h" "finite_wakeups R h t m" "rb_live h w"
  shows "\<exists>ret out w'. rb_read R (Some h) True len t w = Some ((ret, out), w')"
proof -
  obtain rv tot d w1 where l: "rb_read_loop R h True t len 0 [] w = Some (rv, tot, d, w1)"
    using rb_read_loop_returns[OF assms(1,2)] assms(3) by (metis prod_cases4)
  then have live: "rb_live h w1"
    using rb_read_loop_flow[OF l] assms(1,3) by (auto simp: read_post_def dest: rb_flow_live)
  then have "rb_live h (if c then xSemaphoreGive R s w1 else w1)" for c s
    using only_readerD(2)[OF assms(1)] rb_flow_live by (metis (full_types))
  then have upd: "\<exists>w2. rb_upd h f (if c then xSemaphoreGive R s w1 else w1) = Some w2" for c s f
    by (meson rb_live_def rb_upd_Some)
  obtain b where b: "rbs w1 h = Some b" using live by (auto simp: rb_live_def)
  obtain w2 where "rb_upd h (\<lambda>b. b\<lparr>rb_f_unblock_reader := False\<rparr>)
      (if 0 < sint tot then xSemaphoreGive R (rb_can_write b) w1 else w1) = Some w2"
    using upd by blast
  with l b show ?thesis by (simp add: rb_read_def Let_def del: rb_upd_Some)
qed

theorem rb_read_returns_witness:
  "\<exists>ret out w'. rb_read (seq_platform None) (Some 7) True 100 0 ex_rbw = Some ((ret, out), w')"
  by (rule rb_read_returns[OF seq_only_reader seq_finite_wakeups ex_rbw_live]) simp

text \<open>End of stream: once writing is marked done, up to three remaining bytes are never delivered to a
  reader that asks for more than is left. \<open>rb_read\<close> rounds the amount down to a multiple of four,
  finds nothing to take, and reports \<open>RB_DONE\<close> with the bytes still in the buffer.\<close>

theorem rb_read_drops_tail:
  assumes "rbs w h = Some rb" "rb_fill_cnt rb < 4" "rb_fill_cnt rb < len" "rb_f_is_done_write rb"
  shows "rb_read (seq_platform a) (Some h) True len t w =
    Some ((RB_DONE, []), w\<lparr>rbs := (rbs w)(h \<mapsto> rb\<lparr>rb_f_unblock_reader := False\<rparr>)\<rparr>)"
proof -
  have "unat (rb_fill_cnt rb) < 4" using assms(2) by (simp add: word_less_nat_alt)
  then have "rb_fill_cnt rb = 0 \<or> rb_fill_cnt rb = 1 \<or> rb_fill_cnt rb = 2 \<or> rb_fill_cnt rb = 3"
    by unat_arith
  then have "rb_read_size rb len = 0"
    using assms(3) by (auto simp: rb_read_size_def)
  moreover have "len \<noteq> 0" using assms(3) by (auto simp: word_less_nat_alt)
  ultimately show ?thesis
    using assms(1,4) by (simp add: rb_read_def rb_read_loop.simps rb_read_iter_def)
qed

theorem rb_read_drops_tail_witness:
  "rb_read (seq_platform None) (Some 7) True 16 0
     \<lparr>rbs = [7 \<mapsto> ex_rb\<lparr>rb_fill_cnt := 3, rb_f_is_done_write := True\<rparr>]\<rparr> =
   Some ((RB_DONE, []),
     \<lparr>rbs = [7 \<mapsto> ex_rb\<lparr>rb_fill_cnt := 3, rb_f_is_done_write := True, rb_f_unblock_reader := False\<rparr>]\<rparr>)"
  using rb_read_drops_tail[of "\<lparr>rbs = [7 \<mapsto> ex_rb\<lparr>rb_fill_cnt := 3, rb_f_is_done_write := True\<rparr>]\<rparr>" 7
    "ex_rb\<lparr>rb_fill_cnt := 3, rb_f_is_done_write := True\<rparr>" 16 None 0] by simp

lemma rb_create_ok:
  assumes "2 \<le> block_size" "0 \<le> n_blocks" "block_size * n_blocks < 2 ^ 31"
    and "heap_alloc R 36 w = (Some h, w1)" "heap_alloc R (nat (block_size * n_blocks)) w1 = (Some b, w2)"
    and "xSemaphoreCreateBinary R w2 = (Some cr, w3)" "xSemaphoreCreateMutex R w3 = (Some lk, w4)"
    and "xSemaphoreCreateBinary R w4 = (Some cw, w5)"
  shows "\<exists>rb. rb_create R block_size n_blocks w = Some (Some h, w5\<lparr>rbs := (rbs w5)(h \<mapsto> rb)\<rparr>) \<and>
    rb_inv rb \<and> rb_content rb = [] \<and> int (unat (rb_size rb)) = block_size * n_blocks"
proof -
  have n: "nat (block_size * n_blocks) < 2 ^ 31" using assms(1-3) by (simp add: nat_less_iff)
  have "int (unat (rb_size (rb_new cr cw lk (nat (block_size * n_blocks))))) = block_size * n_blocks"
    using assms(1,2) unat_of_nat_small[OF n] by (simp add: rb_new_def del: of_nat_nat of_nat_mult)
  then show ?thesis
    using assms rb_new_inv[OF n] by (intro exI[of _ "rb_new cr cw lk (nat (block_size * n_blocks))"])
      (simp add: rb_create_def Let_def)
qed

text \<open>\<open>rb_create\<close>: when every allocation succeeds and the size fits an \<open>int\<close>, the handle points to a
  well-formed, empty ring buffer of exactly \<open>block_size * n_blocks\<close> bytes.\<close>

theorem rb_create_makes_empty:
  assumes "2 \<le> block_size" "0 \<le> n_blocks" "block_size * n_blocks < 2 ^ 31"
    and "heap_alloc R 36 w = (Some h, w1)" "heap_alloc R (nat (block_size * n_blocks)) w1 = (Some b, w2)"
    and "xSemaphoreCreateBinary R w2 = (Some cr, w3)" "xSemaphoreCreateMutex R w3 = (Some lk, w4)"
    and "xSemaphoreCreateBinary R w4 = (Some cw, w5)"
  shows "\<exists>rb. rb_create R block_size n_blocks w = Some (Some h, w5\<lparr>rbs := (rbs w5)(h \<mapsto> rb)\<rparr>) \<and>
    rb_inv rb \<and> rb_content rb = [] \<and> int (unat (rb_size rb)) = block_size * n_blocks"
  using rb_create_ok[OF assms] .

theorem rb_create_makes_empty_witness:
  "\<exists>rb. rb_create (seq_platform (Some 9)) 8 1 ex_rbw = Some (Some 9, ex_rbw\<lparr>rbs := (rbs ex_rbw)(9 \<mapsto> rb)\<rparr>) \<and>
     rb_inv rb \<and> int (unat (rb_size rb)) = 8"
  using rb_create_makes_empty[of 8 1 "seq_platform (Some 9)" ex_rbw 9 ex_rbw 9 ex_rbw 9 ex_rbw 9 ex_rbw 9 ex_rbw]
  by auto

text \<open>\<open>rb_create\<close> when the buffer cannot be allocated: the struct came from \<open>audio_malloc\<close>, so the
  \<open>rb_destroy\<close> of the failure path reads its uninitialised pointers and the call has no defined
  result.\<close>

theorem rb_create_failure_undefined:
  assumes "2 \<le> block_size" "0 \<le> n_blocks" "heap_alloc R 36 w = (Some h, w1)"
    and "heap_alloc R (nat (block_size * n_blocks)) w1 = (None, w2)" "rbs w2 h = None"
  shows "rb_create R block_size n_blocks w = None"
  using assms by (simp add: rb_create_def rb_destroy_def Let_def)

theorem rb_create_failure_undefined_witness:
  "rb_create ((seq_platform (Some 9))\<lparr>heap_alloc := (\<lambda>n w. (if n = 36 then Some 9 else None, w))\<rparr>) 8 1 ex_rbw = None"
  by (rule rb_create_failure_undefined[of 8 1 _ _ 9 ex_rbw ex_rbw]) (simp_all add: ex_rbw_def)

end
