(* ===== verification/Event_Iface.thy ===== *)
theory Event_Iface
  imports Ringbuf
begin

text \<open>
  The event interface (\<open>components/audio_pipeline/audio_event_iface.c\<close>): an internal queue of commands
  with a handler, an external queue of events, and for listeners a queue set over the external queues
  they listen to. Queues and queue sets are the platform's; the list of listened queues is the code's
  own tail queue.
\<close>

section \<open>State\<close>

record audio_event_iface_item =
  it_queue :: "qhandle option"
  it_queue_size :: int
  it_mark_to_remove :: int

record audio_event_iface =
  ev_internal_queue :: "qhandle option"
  ev_external_queue :: "qhandle option"
  ev_queue_set :: "qhandle option"
  ev_internal_queue_size :: int
  ev_external_queue_size :: int
  ev_queue_set_size :: int
  ev_listening_queues :: "audio_event_iface_item list"
  ev_context :: addr
  ev_on_cmd :: "fnptr option"
  ev_wait_time :: tick
  ev_type :: int

record audio_event_iface_cfg =
  ec_internal_queue_size :: int
  ec_external_queue_size :: int
  ec_queue_set_size :: int
  ec_on_cmd :: "fnptr option"
  ec_context :: addr
  ec_wait_time :: tick
  ec_type :: int

definition AUDIO_EVENT_IFACE_DEFAULT_CFG :: audio_event_iface_cfg where
  "AUDIO_EVENT_IFACE_DEFAULT_CFG = \<lparr>ec_internal_queue_size = 5, ec_external_queue_size = 5,
     ec_queue_set_size = 5, ec_on_cmd = None, ec_context = 0, ec_wait_time = portMAX_DELAY, ec_type = 0\<rparr>"

record ev_world = rb_world +
  ifs :: "iface_handle \<Rightarrow> audio_event_iface option"

type_synonym 'z evw = "'z ev_world_scheme"

definition ev_upd :: "iface_handle \<Rightarrow> (audio_event_iface \<Rightarrow> audio_event_iface) \<Rightarrow> 'z evw \<Rightarrow> 'z evw option" where
  "ev_upd h f w =
     (case ifs w h of None \<Rightarrow> None | Some e \<Rightarrow> Some (w\<lparr>ifs := (ifs w)(h \<mapsto> f e)\<rparr>))"

lemma ev_upd_Some [simp]:
  "ifs w h = Some e \<Longrightarrow> ev_upd h f w = Some (w\<lparr>ifs := (ifs w)(h \<mapsto> f e)\<rparr>)"
  by (simp add: ev_upd_def)

interpretation ev_store: object_store ifs ev_upd
  by unfold_locales (auto simp: ev_upd_def split: option.splits)

section \<open>Creation\<close>

text \<open>\<open>calloc\<close> zeroes the struct; \<open>config->wait_time\<close> is not copied. The failure path deletes the queues
  made so far but neither the queue set nor the struct.\<close>

definition audio_event_iface_init ::
  "'z evw platform \<Rightarrow> audio_event_iface_cfg \<Rightarrow> 'z evw \<Rightarrow> (iface_handle option \<times> 'z evw) option" where
  "audio_event_iface_init R c w =
     (case heap_alloc R 48 w of
        (None, w) \<Rightarrow> Some (None, w)
      | (Some h, w) \<Rightarrow>
          (let (qset, w) = (if ec_queue_set_size c \<noteq> 0 then xQueueCreateSet R (ec_queue_set_size c) w
                            else (None, w));
               (iq, w) = (if ec_internal_queue_size c \<noteq> 0 then xQueueCreate R (ec_internal_queue_size c) w
                          else (None, w));
               del = (\<lambda>q w. case q of None \<Rightarrow> w | Some q \<Rightarrow> vQueueDelete R q w) in
           if ec_internal_queue_size c \<noteq> 0 \<and> iq = None then Some (None, w)
           else let (eq, w) = (if ec_external_queue_size c \<noteq> 0 then xQueueCreate R (ec_external_queue_size c) w
                               else (None, w)) in
           if ec_external_queue_size c \<noteq> 0 \<and> eq = None then Some (None, del iq w)
           else Some (Some h, w\<lparr>ifs := (ifs w)(h \<mapsto>
             \<lparr>ev_internal_queue = iq, ev_external_queue = eq, ev_queue_set = qset,
              ev_internal_queue_size = ec_internal_queue_size c,
              ev_external_queue_size = ec_external_queue_size c,
              ev_queue_set_size = ec_queue_set_size c, ev_listening_queues = [],
              ev_context = ec_context c, ev_on_cmd = ec_on_cmd c, ev_wait_time = 0,
              ev_type = ec_type c\<rparr>)\<rparr>)))"

section \<open>Reading and draining\<close>

definition audio_event_iface_read ::
  "'z evw platform \<Rightarrow> iface_handle \<Rightarrow> tick \<Rightarrow> 'z evw
     \<Rightarrow> ((esp_err \<times> audio_event_iface_msg option) \<times> 'z evw) option" where
  "audio_event_iface_read R evt wait_time w = do {
     e \<leftarrow> ifs w evt;
     case ev_queue_set e of None \<Rightarrow> Some ((ESP_FAIL, None), w)
     | Some s \<Rightarrow> (case xQueueSelectFromSet R s wait_time w of
         (None, w) \<Rightarrow> Some ((ESP_FAIL, None), w)
       | (Some q, w) \<Rightarrow> (case xQueueReceive R q 0 w of
           (None, w) \<Rightarrow> Some ((ESP_FAIL, None), w)
         | (Some m, w) \<Rightarrow> Some ((ESP_OK, Some m), w)))
   }"

text \<open>\<open>while (xQueueReceive(q, &msg, 0) == pdTRUE);\<close>\<close>

partial_function (option) queue_drain :: "'w platform \<Rightarrow> qhandle \<Rightarrow> 'w \<Rightarrow> 'w option" where
  "queue_drain R q w =
     (case xQueueReceive R q 0 w of (None, w) \<Rightarrow> Some w | (Some m, w) \<Rightarrow> queue_drain R q w)"

partial_function (option) iface_drain :: "'z evw platform \<Rightarrow> iface_handle \<Rightarrow> 'z evw \<Rightarrow> 'z evw option" where
  "iface_drain R evt w = do {
     ((err, m), w) \<leftarrow> audio_event_iface_read R evt 0 w;
     if err = ESP_OK then iface_drain R evt w else Some w
   }"

definition audio_event_iface_discard ::
  "'z evw platform \<Rightarrow> iface_handle \<Rightarrow> 'z evw \<Rightarrow> (esp_err \<times> 'z evw) option" where
  "audio_event_iface_discard R evt w = do {
     e \<leftarrow> ifs w evt;
     w \<leftarrow> (case ev_external_queue e of
        Some q \<Rightarrow> if ev_external_queue_size e \<noteq> 0 then queue_drain R q w else Some w
      | None \<Rightarrow> Some w);
     e \<leftarrow> ifs w evt;
     w \<leftarrow> (case ev_internal_queue e of
        Some q \<Rightarrow> if ev_internal_queue_size e \<noteq> 0 then queue_drain R q w else Some w
      | None \<Rightarrow> Some w);
     e \<leftarrow> ifs w evt;
     w \<leftarrow> (if ev_queue_set e \<noteq> None \<and> ev_queue_set_size e \<noteq> 0 then iface_drain R evt w else Some w);
     Some (ESP_OK, w)
   }"

section \<open>Listeners\<close>

fun listener_remove_queues ::
  "'z evw platform \<Rightarrow> qhandle option \<Rightarrow> audio_event_iface_item list \<Rightarrow> 'z evw \<Rightarrow> (bool \<times> 'z evw) option" where
  "listener_remove_queues R qset [] w = Some (True, w)"
| "listener_remove_queues R qset (it # its) w =
     (case qset of None \<Rightarrow> listener_remove_queues R qset its w
      | Some s \<Rightarrow> do {
          q \<leftarrow> it_queue it;
          let (ok, w) = xQueueRemoveFromSet R q s w;
          if ok then listener_remove_queues R qset its w else Some (False, w)
        })"

definition audio_event_iface_cleanup_listener ::
  "'z evw platform \<Rightarrow> iface_handle \<Rightarrow> 'z evw \<Rightarrow> (esp_err \<times> 'z evw) option" where
  "audio_event_iface_cleanup_listener R listen w = do {
     (_, w) \<leftarrow> audio_event_iface_discard R listen w;
     e \<leftarrow> ifs w listen;
     (ok, w) \<leftarrow> listener_remove_queues R (ev_queue_set e) (ev_listening_queues e) w;
     if \<not> ok then Some (ESP_FAIL, w) else do {
       e \<leftarrow> ifs w listen;
       case ev_queue_set e of None \<Rightarrow> Some (ESP_OK, w)
       | Some s \<Rightarrow> do {
           w \<leftarrow> ev_upd listen (\<lambda>e. e\<lparr>ev_queue_set := None\<rparr>) (vQueueDelete R s w);
           Some (ESP_OK, w)
         }
     }
   }"

fun listener_add_queues ::
  "'z evw platform \<Rightarrow> qhandle option \<Rightarrow> audio_event_iface_item list \<Rightarrow> 'z evw \<Rightarrow> (esp_err \<times> 'z evw) option" where
  "listener_add_queues R qset [] w = Some (ESP_OK, w)"
| "listener_add_queues R qset (it # its) w = do {
     w \<leftarrow> (case it_queue it of None \<Rightarrow> Some w | Some q \<Rightarrow> queue_drain R q w);
     case (qset, it_queue it) of
       (Some s, Some q) \<Rightarrow> (let (ok, w) = xQueueAddToSet R q s w in
          if ok then listener_add_queues R qset its w else Some (ESP_FAIL, w))
     | _ \<Rightarrow> listener_add_queues R qset its w
   }"

definition audio_event_iface_update_listener ::
  "'z evw platform \<Rightarrow> iface_handle \<Rightarrow> 'z evw \<Rightarrow> (esp_err \<times> 'z evw) option" where
  "audio_event_iface_update_listener R listen w = do {
     e \<leftarrow> ifs w listen;
     let queue_size = sum_list (map it_queue_size (ev_listening_queues e));
     w \<leftarrow> (if queue_size \<noteq> 0
        then (let (s, w) = xQueueCreateSet R queue_size w in ev_upd listen (\<lambda>e. e\<lparr>ev_queue_set := s\<rparr>) w)
        else Some w);
     e \<leftarrow> ifs w listen;
     listener_add_queues R (ev_queue_set e) (ev_listening_queues e) w
   }"

text \<open>The common body of \<open>audio_event_iface_set_listener\<close> and \<open>audio_event_iface_set_msg_listener\<close>: append
  an item for \<open>queue\<close> to the listener.\<close>

definition iface_listen_to ::
  "'z evw platform \<Rightarrow> qhandle option \<Rightarrow> int \<Rightarrow> iface_handle \<Rightarrow> 'z evw \<Rightarrow> (esp_err \<times> 'z evw) option" where
  "iface_listen_to R queue queue_size listener w =
     (if queue = None \<or> queue_size = 0 then Some (ESP_ERR_INVALID_ARG, w)
      else case heap_alloc R 16 w of
        (None, w) \<Rightarrow> Some (ESP_ERR_NO_MEM, w)
      | (Some _, w) \<Rightarrow> do {
          (err, w) \<leftarrow> audio_event_iface_cleanup_listener R listener w;
          if err \<noteq> ESP_OK then Some (ESP_FAIL, w) else do {
            w \<leftarrow> ev_upd listener (\<lambda>e. e\<lparr>ev_listening_queues := ev_listening_queues e @
                   [\<lparr>it_queue = queue, it_queue_size = queue_size, it_mark_to_remove = 0\<rparr>]\<rparr>) w;
            audio_event_iface_update_listener R listener w
          }
        })"

definition audio_event_iface_set_listener ::
  "'z evw platform \<Rightarrow> iface_handle \<Rightarrow> iface_handle \<Rightarrow> 'z evw \<Rightarrow> (esp_err \<times> 'z evw) option" where
  "audio_event_iface_set_listener R evt listener w = do {
     e \<leftarrow> ifs w evt;
     iface_listen_to R (ev_external_queue e) (ev_external_queue_size e) listener w
   }"

definition audio_event_iface_set_msg_listener ::
  "'z evw platform \<Rightarrow> iface_handle \<Rightarrow> iface_handle \<Rightarrow> 'z evw \<Rightarrow> (esp_err \<times> 'z evw) option" where
  "audio_event_iface_set_msg_listener R evt listener w = do {
     e \<leftarrow> ifs w evt;
     iface_listen_to R (ev_internal_queue e) (ev_internal_queue_size e) listener w
   }"

definition audio_event_iface_remove_listener ::
  "'z evw platform \<Rightarrow> iface_handle \<Rightarrow> iface_handle \<Rightarrow> 'z evw \<Rightarrow> (esp_err \<times> 'z evw) option" where
  "audio_event_iface_remove_listener R listen evt w = do {
     e \<leftarrow> ifs w evt;
     if ev_external_queue e = None \<or> ev_external_queue_size e = 0 then Some (ESP_ERR_INVALID_ARG, w)
     else do {
       (err, w) \<leftarrow> audio_event_iface_cleanup_listener R listen w;
       if err \<noteq> ESP_OK then Some (ESP_FAIL, w) else do {
         e \<leftarrow> ifs w evt;
         w \<leftarrow> ev_upd listen (\<lambda>l. l\<lparr>ev_listening_queues :=
                filter (\<lambda>it. ev_external_queue e \<noteq> it_queue it) (ev_listening_queues l)\<rparr>) w;
         audio_event_iface_update_listener R listen w
       }
     }
   }"

section \<open>Commands and events\<close>

definition audio_event_iface_set_cmd_waiting_timeout ::
  "iface_handle \<Rightarrow> tick \<Rightarrow> 'z evw \<Rightarrow> (esp_err \<times> 'z evw) option" where
  "audio_event_iface_set_cmd_waiting_timeout evt wait_time w = do {
     w \<leftarrow> ev_upd evt (\<lambda>e. e\<lparr>ev_wait_time := wait_time\<rparr>) w; Some (ESP_OK, w) }"

text \<open>\<open>call f msg context\<close> is the call through the pointer \<open>evt->on_cmd\<close>.\<close>

definition audio_event_iface_waiting_cmd_msg ::
  "'z evw platform \<Rightarrow> (fnptr \<Rightarrow> audio_event_iface_msg \<Rightarrow> addr \<Rightarrow> 'z evw \<Rightarrow> (esp_err \<times> 'z evw) option) \<Rightarrow>
   iface_handle \<Rightarrow> 'z evw \<Rightarrow> (esp_err \<times> 'z evw) option" where
  "audio_event_iface_waiting_cmd_msg R call evt w = do {
     e \<leftarrow> ifs w evt;
     case ev_internal_queue e of None \<Rightarrow> Some (ESP_OK, w)
     | Some q \<Rightarrow> (case xQueueReceive R q (ev_wait_time e) w of
         (None, w) \<Rightarrow> Some (ESP_OK, w)
       | (Some m, w) \<Rightarrow> do {
           e \<leftarrow> ifs w evt;
           case ev_on_cmd e of None \<Rightarrow> Some (ESP_OK, w)
           | Some f \<Rightarrow> do {
               (err, w) \<leftarrow> call f m (ev_context e) w;
               Some (if err \<noteq> ESP_OK then ESP_FAIL else ESP_OK, w)
             }
         })
   }"

definition audio_event_iface_cmd ::
  "'z evw platform \<Rightarrow> iface_handle \<Rightarrow> audio_event_iface_msg \<Rightarrow> 'z evw \<Rightarrow> (esp_err \<times> 'z evw) option" where
  "audio_event_iface_cmd R evt msg w = do {
     e \<leftarrow> ifs w evt;
     case ev_internal_queue e of None \<Rightarrow> Some (ESP_OK, w)
     | Some q \<Rightarrow> (let (ok, w) = xQueueSend R q msg w in Some (if ok then ESP_OK else ESP_FAIL, w))
   }"

definition audio_event_iface_cmd_from_isr ::
  "'z evw platform \<Rightarrow> iface_handle \<Rightarrow> audio_event_iface_msg \<Rightarrow> 'z evw \<Rightarrow> (esp_err \<times> 'z evw) option" where
  "audio_event_iface_cmd_from_isr R evt msg w = do {
     e \<leftarrow> ifs w evt;
     case ev_internal_queue e of None \<Rightarrow> Some (ESP_OK, w)
     | Some q \<Rightarrow> (let (ok, w) = xQueueSendFromISR R q msg w in Some (if ok then ESP_OK else ESP_FAIL, w))
   }"

definition audio_event_iface_sendout ::
  "'z evw platform \<Rightarrow> iface_handle \<Rightarrow> audio_event_iface_msg \<Rightarrow> 'z evw \<Rightarrow> (esp_err \<times> 'z evw) option" where
  "audio_event_iface_sendout R evt msg w = do {
     e \<leftarrow> ifs w evt;
     case ev_external_queue e of None \<Rightarrow> Some (ESP_OK, w)
     | Some q \<Rightarrow> (let (ok, w) = xQueueSend R q msg w in Some (if ok then ESP_OK else ESP_FAIL, w))
   }"

definition audio_event_iface_listen ::
  "'z evw platform \<Rightarrow> iface_handle option \<Rightarrow> tick \<Rightarrow> 'z evw
     \<Rightarrow> ((esp_err \<times> audio_event_iface_msg option) \<times> 'z evw) option" where
  "audio_event_iface_listen R evt wait_time w =
     (case evt of None \<Rightarrow> Some ((ESP_FAIL, None), w)
      | Some h \<Rightarrow> do {
          ((err, m), w) \<leftarrow> audio_event_iface_read R h wait_time w;
          Some (if err \<noteq> ESP_OK then ((ESP_FAIL, None), w) else ((ESP_OK, m), w))
        })"

definition audio_event_iface_get_queue_handle :: "iface_handle option \<Rightarrow> 'z evw \<Rightarrow> qhandle option option" where
  "audio_event_iface_get_queue_handle evt w =
     (case evt of None \<Rightarrow> Some None | Some h \<Rightarrow> do { e \<leftarrow> ifs w h; Some (ev_external_queue e) })"

definition audio_event_iface_get_msg_queue_handle :: "iface_handle option \<Rightarrow> 'z evw \<Rightarrow> qhandle option option" where
  "audio_event_iface_get_msg_queue_handle evt w =
     (case evt of None \<Rightarrow> Some None | Some h \<Rightarrow> do { e \<leftarrow> ifs w h; Some (ev_internal_queue e) })"

section \<open>Destruction\<close>

definition queue_delete_opt :: "'w platform \<Rightarrow> qhandle option \<Rightarrow> 'w \<Rightarrow> 'w" where
  "queue_delete_opt R q w = (case q of None \<Rightarrow> w | Some q \<Rightarrow> vQueueDelete R q w)"

definition audio_event_iface_destroy ::
  "'z evw platform \<Rightarrow> iface_handle \<Rightarrow> 'z evw \<Rightarrow> (esp_err \<times> 'z evw) option" where
  "audio_event_iface_destroy R evt w = do {
     (_, w) \<leftarrow> audio_event_iface_cleanup_listener R evt w;
     w \<leftarrow> ev_upd evt (\<lambda>e. e\<lparr>ev_listening_queues := []\<rparr>) w;
     e \<leftarrow> ifs w evt;
     w \<leftarrow> (case ev_internal_queue e of None \<Rightarrow> Some w
        | Some q \<Rightarrow> do {
            (_, w) \<leftarrow> audio_event_iface_set_cmd_waiting_timeout evt 0 w;
            Some (vQueueDelete R q w)
          });
     e \<leftarrow> ifs w evt;
     let w = queue_delete_opt R (ev_external_queue e) w;
     e \<leftarrow> ifs w evt;
     let w = queue_delete_opt R (ev_queue_set e) w;
     Some (ESP_OK, w\<lparr>ifs := (ifs w)(evt := None)\<rparr>)
   }"

end
