(* ===== verification/Event_Iface_Correct.thy ===== *)
theory Event_Iface_Correct
  imports Event_Iface
begin

text \<open>
  What the event interface guarantees: commands reach the handler in the order they were accepted,
  draining ends with empty queues, and the listener list is exactly what was registered.

  The hypotheses on the platform are the documented behaviour of FreeRTOS queues used without waiting,
  stated over a view \<open>qv\<close> of the queues' contents.
\<close>

section \<open>The queue contract\<close>

text \<open>\<open>qv w q\<close> are the messages in \<open>q\<close>, \<open>cap q\<close> its length and \<open>mem s\<close> the queues added to the set \<open>s\<close>.\<close>

definition send_law ::
  "('z evw \<Rightarrow> qhandle \<Rightarrow> audio_event_iface_msg list) \<Rightarrow> (qhandle \<Rightarrow> nat) \<Rightarrow>
   (qhandle \<Rightarrow> audio_event_iface_msg \<Rightarrow> 'z evw \<Rightarrow> bool \<times> 'z evw) \<Rightarrow> bool" where
  "send_law qv cap send \<longleftrightarrow>
     (\<forall>q m w. ifs (snd (send q m w)) = ifs w \<and>
        (if length (qv w q) < cap q
         then fst (send q m w) \<and> qv (snd (send q m w)) = (qv w)(q := qv w q @ [m])
         else \<not> fst (send q m w) \<and> qv (snd (send q m w)) = qv w))"

definition recv_law ::
  "('z evw \<Rightarrow> qhandle \<Rightarrow> audio_event_iface_msg list) \<Rightarrow>
   (qhandle \<Rightarrow> tick \<Rightarrow> 'z evw \<Rightarrow> audio_event_iface_msg option \<times> 'z evw) \<Rightarrow> bool" where
  "recv_law qv recv \<longleftrightarrow>
     (\<forall>q w. ifs (snd (recv q 0 w)) = ifs w \<and>
        (case qv w q of
           [] \<Rightarrow> fst (recv q 0 w) = None \<and> qv (snd (recv q 0 w)) = qv w
         | m # ms \<Rightarrow> fst (recv q 0 w) = Some m \<and> qv (snd (recv q 0 w)) = (qv w)(q := ms)))"

definition keeps :: "('z evw \<Rightarrow> qhandle \<Rightarrow> audio_event_iface_msg list) \<Rightarrow> ('z evw \<Rightarrow> 'z evw) \<Rightarrow> bool" where
  "keeps qv f \<longleftrightarrow> (\<forall>w. ifs (f w) = ifs w \<and> qv (f w) = qv w)"

definition queue_model ::
  "'z evw platform \<Rightarrow> ('z evw \<Rightarrow> qhandle \<Rightarrow> audio_event_iface_msg list) \<Rightarrow> (qhandle \<Rightarrow> nat) \<Rightarrow>
   (qhandle \<Rightarrow> qhandle set) \<Rightarrow> bool" where
  "queue_model R qv cap mem \<longleftrightarrow>
     send_law qv cap (xQueueSend R) \<and> recv_law qv (xQueueReceive R) \<and>
     (\<forall>s. finite (mem s)) \<and>
     (\<forall>s w q. fst (xQueueSelectFromSet R s 0 w) = Some q \<longrightarrow> q \<in> mem s) \<and>
     (\<forall>s. keeps qv (\<lambda>w. snd (xQueueSelectFromSet R s 0 w))) \<and>
     (\<forall>n. keeps qv (\<lambda>w. snd (heap_alloc R n w))) \<and>
     (\<forall>n. keeps qv (\<lambda>w. snd (xQueueCreateSet R n w))) \<and>
     (\<forall>q s. keeps qv (\<lambda>w. snd (xQueueAddToSet R q s w))) \<and>
     (\<forall>q s. keeps qv (\<lambda>w. snd (xQueueRemoveFromSet R q s w))) \<and>
     (\<forall>s. keeps qv (vQueueDelete R s)) \<and>
     (\<forall>w x. qv (w\<lparr>ifs := x\<rparr>) = qv w)"

lemma qm_recv:
  assumes "queue_model R qv cap mem" "xQueueReceive R q 0 w = (r, w')"
  shows "ifs w' = ifs w \<and> (case qv w q of [] \<Rightarrow> r = None \<and> qv w' = qv w
           | m # ms \<Rightarrow> r = Some m \<and> qv w' = (qv w)(q := ms))"
  using assms unfolding queue_model_def recv_law_def by (metis fst_conv snd_conv)

lemma qm_send:
  assumes "queue_model R qv cap mem" "xQueueSend R q m w = (ok, w')"
  shows "ifs w' = ifs w \<and> (if length (qv w q) < cap q then ok \<and> qv w' = (qv w)(q := qv w q @ [m])
           else \<not> ok \<and> qv w' = qv w)"
  using assms unfolding queue_model_def send_law_def by (metis fst_conv snd_conv)

lemma qm_keeps:
  assumes "queue_model R qv cap mem"
  shows "xQueueSelectFromSet R s 0 w = (r, w') \<Longrightarrow> ifs w' = ifs w \<and> qv w' = qv w"
    and "xQueueSelectFromSet R s 0 w = (Some q, w') \<Longrightarrow> q \<in> mem s"
    and "heap_alloc R n w = (a, w') \<Longrightarrow> ifs w' = ifs w \<and> qv w' = qv w"
    and "xQueueCreateSet R k w = (a, w') \<Longrightarrow> ifs w' = ifs w \<and> qv w' = qv w"
    and "xQueueAddToSet R q s w = (ok, w') \<Longrightarrow> ifs w' = ifs w \<and> qv w' = qv w"
    and "xQueueRemoveFromSet R q s w = (ok, w') \<Longrightarrow> ifs w' = ifs w \<and> qv w' = qv w"
    and "ifs (vQueueDelete R s w) = ifs w" "qv (vQueueDelete R s w) = qv w"
    and "qv (w\<lparr>ifs := x\<rparr>) = qv w" "finite (mem s)"
  using assms unfolding queue_model_def keeps_def by (metis fst_conv snd_conv)+

section \<open>Draining\<close>

lemma queue_drain_empties:
  assumes qm: "queue_model R qv cap mem"
  shows "\<exists>w'. queue_drain R q w = Some w' \<and> ifs w' = ifs w \<and> qv w' = (qv w)(q := [])"
proof (induction "qv w q" arbitrary: w)
  case Nil
  obtain r w1 where r: "xQueueReceive R q 0 w = (r, w1)" by fastforce
  with qm_recv[OF qm r] Nil have "r = None" "ifs w1 = ifs w" "qv w1 = qv w" by (auto split: list.splits)
  moreover have "qv w = (qv w)(q := [])" using Nil by (metis fun_upd_triv)
  ultimately show ?case using r by (subst queue_drain.simps) auto
next
  case (Cons m ms)
  obtain r w1 where r: "xQueueReceive R q 0 w = (r, w1)" by fastforce
  with qm_recv[OF qm r] Cons(2) have s: "r = Some m" "ifs w1 = ifs w" "qv w1 = (qv w)(q := ms)"
    by (auto split: list.splits)
  then obtain w' where "queue_drain R q w1 = Some w'" "ifs w' = ifs w1" "qv w' = (qv w1)(q := [])"
    using Cons(1)[of w1] by auto
  then show ?case using r s by (subst queue_drain.simps) auto
qed

lemma iface_read_step:
  assumes qm: "queue_model R qv cap mem" and e: "ifs w h = Some e" "ev_queue_set e = Some s"
    and rd: "audio_event_iface_read R h 0 w = Some ((err, m), w')"
  shows "ifs w' = ifs w \<and>
     (err = ESP_OK \<longrightarrow> (\<exists>q x xs. q \<in> mem s \<and> m = Some x \<and> qv w q = x # xs \<and> qv w' = (qv w)(q := xs))) \<and>
     (err \<noteq> ESP_OK \<longrightarrow> qv w' = qv w)"
proof -
  obtain r w1 where s: "xQueueSelectFromSet R s 0 w = (r, w1)" by fastforce
  note k = qm_keeps(1)[OF qm s]
  show ?thesis
  proof (cases r)
    case None
    then show ?thesis using rd e s k by (auto simp: audio_event_iface_read_def)
  next
    case (Some q)
    obtain x w2 where x: "xQueueReceive R q 0 w1 = (x, w2)" by fastforce
    show ?thesis
      using rd e s k x qm_recv[OF qm x] qm_keeps(2)[OF qm s[unfolded Some]] Some
      by (auto simp: audio_event_iface_read_def split: option.splits list.splits)
  qed
qed

lemma iface_read_total:
  assumes "ifs w h = Some e"
  shows "\<exists>err m w1. audio_event_iface_read R h t w = Some ((err, m), w1)"
proof -
  have "\<exists>r. audio_event_iface_read R h t w = Some r"
    using assms by (auto simp: audio_event_iface_read_def split: option.splits prod.splits)
  then show ?thesis by (metis surj_pair)
qed

text \<open>Draining a queue set takes messages from the front of its members only.\<close>

lemma iface_drain_ends:
  assumes qm: "queue_model R qv cap mem" and "ifs w h = Some e" "ev_queue_set e = Some s"
  shows "\<exists>w'. iface_drain R h w = Some w' \<and> ifs w' = ifs w \<and>
     (\<forall>q. \<exists>k. qv w' q = drop k (qv w q) \<and> (k = 0 \<or> q \<in> mem s))"
  using assms(2)
proof (induction "\<Sum>q\<in>mem s. length (qv w q)" arbitrary: w rule: less_induct)
  case (less w)
  obtain err m w1 where rd: "audio_event_iface_read R h 0 w = Some ((err, m), w1)"
    using iface_read_total[OF less(2)] by blast
  note st = iface_read_step[OF qm less(2) assms(3) rd]
  show ?case
  proof (cases "err = ESP_OK")
    case False
    then have "iface_drain R h w = Some w1" using rd by (subst iface_drain.simps) auto
    then show ?thesis using False st by (intro exI[of _ w1]) (auto intro!: exI[of _ 0])
  next
    case True
    then obtain q x xs where q: "q \<in> mem s" "qv w q = x # xs" "qv w1 = (qv w)(q := xs)" "ifs w1 = ifs w"
      using st by blast
    have "(\<Sum>q\<in>mem s. length (qv w1 q)) < (\<Sum>q\<in>mem s. length (qv w q))"
      by (rule sum_strict_mono_ex1) (use q qm_keeps(10)[OF qm] in \<open>auto\<close>)
    from less(1)[OF this] less(2) q(4) obtain w' where
      w': "iface_drain R h w1 = Some w'" "ifs w' = ifs w1"
      "\<And>q. \<exists>k. qv w' q = drop k (qv w1 q) \<and> (k = 0 \<or> q \<in> mem s)"
      by auto
    have "\<exists>k. qv w' p = drop k (qv w p) \<and> (k = 0 \<or> p \<in> mem s)" for p
    proof -
      obtain k where k: "qv w' p = drop k (qv w1 p)" "k = 0 \<or> p \<in> mem s" using w'(3) by blast
      show ?thesis
        by (rule exI[of _ "if p = q then Suc k else k"]) (use k q in auto)
    qed
    moreover have "iface_drain R h w = Some w'" using True rd w'(1) by (subst iface_drain.simps) auto
    moreover have "ifs w' = ifs w" using q(4) w'(2) by simp
    ultimately show ?thesis by blast
  qed
qed

lemma opt_drain:
  assumes qm: "queue_model R qv cap mem"
  shows "\<exists>w'. (case qo of Some q \<Rightarrow> if n \<noteq> (0 :: int) then queue_drain R q w else Some w | None \<Rightarrow> Some w) = Some w'
     \<and> ifs w' = ifs w \<and> (\<forall>q. qv w' q = (if qo = Some q \<and> n \<noteq> 0 then [] else qv w q))"
proof (cases qo)
  case (Some q)
  then show ?thesis using queue_drain_empties[OF qm, of q w] by (cases "n = 0") auto
qed simp

text \<open>The queues that the queue set of an interface reaches.\<close>

definition in_queue_set :: "(qhandle \<Rightarrow> qhandle set) \<Rightarrow> audio_event_iface \<Rightarrow> qhandle \<Rightarrow> bool" where
  "in_queue_set mem e q \<longleftrightarrow> ev_queue_set_size e \<noteq> 0 \<and> (\<exists>s. ev_queue_set e = Some s \<and> q \<in> mem s)"

lemma set_drain:
  assumes qm: "queue_model R qv cap mem" and e: "ifs w h = Some e"
  shows "\<exists>w'. (if ev_queue_set e \<noteq> None \<and> ev_queue_set_size e \<noteq> 0 then iface_drain R h w else Some w) = Some w'
     \<and> ifs w' = ifs w \<and> (\<forall>q. \<exists>k. qv w' q = drop k (qv w q) \<and> (k = 0 \<or> in_queue_set mem e q))"
proof (cases "ev_queue_set e \<noteq> None \<and> ev_queue_set_size e \<noteq> 0")
  case True
  then obtain s where s: "ev_queue_set e = Some s" by blast
  from iface_drain_ends[OF qm e this] obtain w' where w': "iface_drain R h w = Some w'" "ifs w' = ifs w"
    "\<forall>q. \<exists>k. qv w' q = drop k (qv w q) \<and> (k = 0 \<or> q \<in> mem s)" by blast
  show ?thesis by (rule exI[of _ w']) (use True s w' in \<open>auto simp: in_queue_set_def\<close>)
next
  case False
  then show ?thesis by (intro exI[of _ w]) (auto intro!: exI[of _ 0])
qed

text \<open>The queues of an interface that \<open>audio_event_iface_discard\<close> empties.\<close>

definition own_queue :: "audio_event_iface \<Rightarrow> qhandle \<Rightarrow> bool" where
  "own_queue e q \<longleftrightarrow> (ev_external_queue e = Some q \<and> ev_external_queue_size e \<noteq> 0) \<or>
     (ev_internal_queue e = Some q \<and> ev_internal_queue_size e \<noteq> 0)"

lemma discard_empties_aux:
  assumes qm: "queue_model R qv cap mem" and e: "ifs w evt = Some e"
  shows "\<exists>w'. audio_event_iface_discard R evt w = Some (ESP_OK, w') \<and> ifs w' = ifs w \<and>
     (\<forall>q. if own_queue e q then qv w' q = []
          else if in_queue_set mem e q then \<exists>k. qv w' q = drop k (qv w q)
          else qv w' q = qv w q)"
proof -
  obtain w1 where 1: "(case ev_external_queue e of
        Some q \<Rightarrow> if ev_external_queue_size e \<noteq> 0 then queue_drain R q w else Some w
      | None \<Rightarrow> Some w) = Some w1" "ifs w1 = ifs w"
      "\<And>q. qv w1 q = (if ev_external_queue e = Some q \<and> ev_external_queue_size e \<noteq> 0 then [] else qv w q)"
    using opt_drain[OF qm] by blast
  obtain w2 where 2: "(case ev_internal_queue e of
        Some q \<Rightarrow> if ev_internal_queue_size e \<noteq> 0 then queue_drain R q w1 else Some w1
      | None \<Rightarrow> Some w1) = Some w2" "ifs w2 = ifs w1"
      "\<And>q. qv w2 q = (if ev_internal_queue e = Some q \<and> ev_internal_queue_size e \<noteq> 0 then [] else qv w1 q)"
    using opt_drain[OF qm] by blast
  have e2: "ifs w2 evt = Some e" using e 1(2) 2(2) by simp
  obtain w3 where 3: "(if ev_queue_set e \<noteq> None \<and> ev_queue_set_size e \<noteq> 0 then iface_drain R evt w2 else Some w2)
      = Some w3" "ifs w3 = ifs w2"
      "\<And>q. \<exists>k. qv w3 q = drop k (qv w2 q) \<and> (k = 0 \<or> in_queue_set mem e q)"
    using set_drain[OF qm e2] by blast
  have "audio_event_iface_discard R evt w = Some (ESP_OK, w3)"
    unfolding audio_event_iface_discard_def using e 1(1,2) 2(1,2) 3(1) by simp
  moreover have "if own_queue e q then qv w3 q = []
      else if in_queue_set mem e q then \<exists>k. qv w3 q = drop k (qv w q) else qv w3 q = qv w q" for q
  proof -
    obtain k where k: "qv w3 q = drop k (qv w2 q)" "k = 0 \<or> in_queue_set mem e q" using 3(3) by blast
    have "qv w2 q = (if own_queue e q then [] else qv w q)" using 1(3) 2(3) by (auto simp: own_queue_def)
    then show ?thesis using k by auto
  qed
  ultimately show ?thesis using 1(2) 2(2) 3(2) by auto
qed

section \<open>Listeners\<close>

text \<open>Every queue in the list of a listener is a live queue.\<close>

definition listener_ok :: "audio_event_iface \<Rightarrow> bool" where
  "listener_ok l \<longleftrightarrow> (\<forall>it \<in> set (ev_listening_queues l). it_queue it \<noteq> None)"

lemma remove_queues_frame:
  assumes qm: "queue_model R qv cap mem" and "\<forall>it \<in> set its. it_queue it \<noteq> None"
  shows "\<exists>ok w'. listener_remove_queues R qset its w = Some (ok, w') \<and> ifs w' = ifs w \<and> qv w' = qv w"
  using assms(2)
proof (induction its arbitrary: w)
  case (Cons it its)
  then obtain q where q: "it_queue it = Some q" by auto
  show ?case
  proof (cases qset)
    case (Some s)
    obtain ok w1 where r: "xQueueRemoveFromSet R q s w = (ok, w1)" by fastforce
    show ?thesis using Cons q Some r qm_keeps(6)[OF qm r] Cons(1)[of w1] by (cases ok) auto
  qed (use Cons in auto)
qed auto

lemma add_queues_frame:
  assumes qm: "queue_model R qv cap mem"
  shows "\<exists>err w'. listener_add_queues R qset its w = Some (err, w') \<and> ifs w' = ifs w"
proof (induction its arbitrary: w)
  case (Cons it its)
  obtain w1 where 1: "(case it_queue it of None \<Rightarrow> Some w | Some q \<Rightarrow> queue_drain R q w) = Some w1" "ifs w1 = ifs w"
    using queue_drain_empties[OF qm] by (cases "it_queue it") (simp, fastforce)
  show ?case
  proof (cases "\<exists>s q. qset = Some s \<and> it_queue it = Some q")
    case True
    then obtain s q where sq: "qset = Some s" "it_queue it = Some q" by blast
    obtain ok w2 where r: "xQueueAddToSet R q s w1 = (ok, w2)" by fastforce
    show ?thesis using Cons[of w2] sq 1 r qm_keeps(5)[OF qm r] by (cases ok) auto
  next
    case False
    then show ?thesis using Cons[of w1] 1 by (auto split: option.splits)
  qed
qed simp

lemma cleanup_frame:
  assumes qm: "queue_model R qv cap mem" and l: "ifs w l = Some e" "listener_ok e"
  shows "\<exists>err w'. audio_event_iface_cleanup_listener R l w = Some (err, w') \<and>
     ((err = ESP_FAIL \<and> ifs w' = ifs w) \<or>
      (err = ESP_OK \<and> ifs w' = (ifs w)(l \<mapsto> e\<lparr>ev_queue_set := None\<rparr>)))"
proof -
  obtain w1 where 1: "audio_event_iface_discard R l w = Some (ESP_OK, w1)" "ifs w1 = ifs w"
    using discard_empties_aux[OF qm l(1)] by blast
  obtain ok w2 where 2: "listener_remove_queues R (ev_queue_set e) (ev_listening_queues e) w1 = Some (ok, w2)"
      "ifs w2 = ifs w1"
    using remove_queues_frame[OF qm] l(2) by (metis listener_ok_def)
  have nq: "ev_queue_set e = None \<Longrightarrow> e\<lparr>ev_queue_set := None\<rparr> = e" by (cases e) simp
  show ?thesis
    using l(1) 1 2 qm_keeps(7)[OF qm] nq
    by (auto simp: audio_event_iface_cleanup_listener_def fun_upd_idem split: option.splits)
qed

lemma update_listener_frame:
  assumes qm: "queue_model R qv cap mem" and l: "ifs w l = Some e"
  shows "\<exists>err w' s. audio_event_iface_update_listener R l w = Some (err, w') \<and>
     ifs w' = (ifs w)(l \<mapsto> e\<lparr>ev_queue_set := s\<rparr>)"
proof -
  let ?n = "sum_list (map it_queue_size (ev_listening_queues e))"
  obtain s w0 where r: "xQueueCreateSet R ?n w = (s, w0)" by fastforce
  have k: "ifs w0 = ifs w" using qm_keeps(4)[OF qm r] by simp
  show ?thesis
  proof (cases "?n = 0")
    case True
    obtain err w' where "listener_add_queues R (ev_queue_set e) (ev_listening_queues e) w = Some (err, w')"
        "ifs w' = ifs w"
      using add_queues_frame[OF qm] by blast
    moreover have "e\<lparr>ev_queue_set := ev_queue_set e\<rparr> = e" by simp
    ultimately show ?thesis using True l
      by (intro exI[of _ err] exI[of _ w'] exI[of _ "ev_queue_set e"])
        (simp add: audio_event_iface_update_listener_def fun_upd_idem)
  next
    case False
    let ?w = "w0\<lparr>ifs := (ifs w0)(l \<mapsto> e\<lparr>ev_queue_set := s\<rparr>)\<rparr>"
    obtain err w' where "listener_add_queues R s (ev_listening_queues e) ?w = Some (err, w')" "ifs w' = ifs ?w"
      using add_queues_frame[OF qm] by blast
    then show ?thesis using False l k r
      by (intro exI[of _ err] exI[of _ w'] exI[of _ s]) (simp add: audio_event_iface_update_listener_def)
  qed
qed

section \<open>A platform that satisfies the contract\<close>

record q_world = ev_world +
  wq :: "qhandle \<Rightarrow> audio_event_iface_msg list"
  wlog :: "audio_event_iface_msg list"

definition fifo_platform :: "nat \<Rightarrow> q_world platform" where
  "fifo_platform n = with_queues wq (\<lambda>x w. w\<lparr>wq := x\<rparr>) n (seq_platform (Some 7))"

lemma fifo_model: "queue_model (fifo_platform n) wq (\<lambda>q. n) (\<lambda>s. {})"
  by (auto simp: queue_model_def send_law_def recv_law_def keeps_def fifo_platform_def split: list.splits)

definition ex_msg :: "int \<Rightarrow> audio_event_iface_msg" where
  "ex_msg c = \<lparr>msg_cmd = c, msg_data = 0, msg_data_len = 0, msg_source = None, msg_source_type = 0,
     msg_need_free_data = False\<rparr>"

definition ex_iface :: "nat \<Rightarrow> audio_event_iface" where
  "ex_iface q = \<lparr>ev_internal_queue = Some q, ev_external_queue = Some (q + 1), ev_queue_set = None,
     ev_internal_queue_size = 5, ev_external_queue_size = 5, ev_queue_set_size = 0,
     ev_listening_queues = [], ev_context = 0, ev_on_cmd = Some 9, ev_wait_time = 0, ev_type = 0\<rparr>"

definition ex_qw :: q_world where
  "ex_qw = \<lparr>rbs = Map.empty, ifs = [1 \<mapsto> ex_iface 10, 2 \<mapsto> ex_iface 20],
     wq = (\<lambda>q. if q = 10 then [ex_msg 1, ex_msg 2] else []), wlog = []\<rparr>"

section \<open>Properties\<close>

text \<open>A listener whose queue set watches the queue 30, with two messages pending there.\<close>

definition set_platform :: "q_world platform" where
  "set_platform = (fifo_platform 5)
     \<lparr>xQueueSelectFromSet := \<lambda>s t w. (if s = 7 \<and> wq w 30 \<noteq> [] then Some 30 else None, w)\<rparr>"

lemma set_model: "queue_model set_platform wq (\<lambda>q. 5) (\<lambda>s. if s = 7 then {30} else {})"
  using fifo_model[of 5] by (auto simp: queue_model_def set_platform_def keeps_def)

definition ex_listener_w :: q_world where
  "ex_listener_w = \<lparr>rbs = Map.empty,
     ifs = [1 \<mapsto> ex_iface 10, 3 \<mapsto> (ex_iface 20)\<lparr>ev_queue_set := Some 7, ev_queue_set_size := 5\<rparr>],
     wq = (\<lambda>q. if q = 10 then [ex_msg 1, ex_msg 2] else if q = 20 then [ex_msg 3]
           else if q = 30 then [ex_msg 4, ex_msg 5] else []), wlog = []\<rparr>"

text \<open>C6. \<open>audio_event_iface_discard\<close> on a live interface returns and reports success. Its own internal and
  external queues are empty afterwards; a queue of its queue set loses only messages from the front;
  every other queue and every interface is as it was.\<close>

theorem discard_empties:
  assumes "queue_model R qv cap mem" "ifs w evt = Some e"
  shows "\<exists>w'. audio_event_iface_discard R evt w = Some (ESP_OK, w') \<and> ifs w' = ifs w \<and>
     (\<forall>q. if own_queue e q then qv w' q = []
          else if in_queue_set mem e q then \<exists>k. qv w' q = drop k (qv w q)
          else qv w' q = qv w q)"
  using discard_empties_aux[OF assms] .

theorem discard_empties_witness:
  "\<exists>w' k. audio_event_iface_discard set_platform 3 ex_listener_w = Some (ESP_OK, w') \<and>
     wq w' 20 = [] \<and> wq w' 30 = drop k [ex_msg 4, ex_msg 5] \<and> wq w' 10 = [ex_msg 1, ex_msg 2]"
proof -
  let ?e = "(ex_iface 20)\<lparr>ev_queue_set := Some 7, ev_queue_set_size := 5\<rparr>"
  let ?mem = "\<lambda>s. if s = 7 then {30} else {} :: qhandle set"
  obtain w' where w': "audio_event_iface_discard set_platform 3 ex_listener_w = Some (ESP_OK, w')"
    "\<And>q. if own_queue ?e q then wq w' q = []
          else if in_queue_set ?mem ?e q then \<exists>k. wq w' q = drop k (wq ex_listener_w q)
          else wq w' q = wq ex_listener_w q"
    using discard_empties[OF set_model, of ex_listener_w 3 ?e] by (auto simp: ex_listener_w_def)
  show ?thesis using w'(1) w'(2)[of 10] w'(2)[of 20] w'(2)[of 30]
    by (auto simp: own_queue_def in_queue_set_def ex_iface_def ex_listener_w_def)
qed

lemma set_listener_appends_aux:
  assumes qm: "queue_model R qv cap mem" and e: "ifs w evt = Some e" "ev_external_queue e = Some q"
    "ev_external_queue_size e = n" "n \<noteq> 0" and l: "ifs w listener = Some l" "listener_ok l"
  shows "\<exists>err w'. audio_event_iface_set_listener R evt listener w = Some (err, w') \<and>
     (\<forall>h. h \<noteq> listener \<longrightarrow> ifs w' h = ifs w h) \<and>
     (err = ESP_OK \<longrightarrow> (\<exists>l'. ifs w' listener = Some l' \<and> listener_ok l' \<and>
        ev_listening_queues l' = ev_listening_queues l @
          [\<lparr>it_queue = Some q, it_queue_size = n, it_mark_to_remove = 0\<rparr>]))"
proof -
  obtain a w1 where a: "heap_alloc R 16 w = (a, w1)" by fastforce
  note k1 = qm_keeps(3)[OF qm a]
  show ?thesis
  proof (cases a)
    case None
    then show ?thesis using e a k1 by (simp add: audio_event_iface_set_listener_def iface_listen_to_def)
  next
    case (Some x)
    have l1: "ifs w1 listener = Some l" using k1 l by simp
    obtain err w2 where 2: "audio_event_iface_cleanup_listener R listener w1 = Some (err, w2)"
      "(err = ESP_FAIL \<and> ifs w2 = ifs w1) \<or> (err = ESP_OK \<and> ifs w2 = (ifs w1)(listener \<mapsto> l\<lparr>ev_queue_set := None\<rparr>))"
      using cleanup_frame[OF qm l1 l(2)] by blast
    show ?thesis
    proof (cases "err = ESP_OK")
      case False
      then show ?thesis using e a k1 2 Some
        by (simp add: audio_event_iface_set_listener_def iface_listen_to_def)
    next
      case True
      let ?it = "\<lparr>it_queue = Some q, it_queue_size = n, it_mark_to_remove = 0\<rparr>"
      let ?l = "l\<lparr>ev_queue_set := None, ev_listening_queues := ev_listening_queues l @ [?it]\<rparr>"
      let ?w = "w2\<lparr>ifs := (ifs w2)(listener \<mapsto> ?l)\<rparr>"
      have "ifs ?w listener = Some ?l" by simp
      from update_listener_frame[OF qm this] obtain err' w' s where
        "audio_event_iface_update_listener R listener ?w = Some (err', w')"
        "ifs w' = (ifs ?w)(listener \<mapsto> ?l\<lparr>ev_queue_set := s\<rparr>)" by blast
      then show ?thesis using True e a k1 2 Some l(2)
        by (auto simp: audio_event_iface_set_listener_def iface_listen_to_def listener_ok_def)
    qed
  qed
qed

text \<open>Registering a listener on an interface with an external queue returns; unless it reports an error
  the listener's list is the old one with the item for that queue appended, and no other interface
  changes.\<close>

theorem set_listener_appends:
  assumes qm: "queue_model R qv cap mem" and e: "ifs w evt = Some e" "ev_external_queue e = Some q"
    "ev_external_queue_size e = n" "n \<noteq> 0" and l: "ifs w listener = Some l" "listener_ok l"
  shows "\<exists>err w'. audio_event_iface_set_listener R evt listener w = Some (err, w') \<and>
     (\<forall>h. h \<noteq> listener \<longrightarrow> ifs w' h = ifs w h) \<and>
     (err = ESP_OK \<longrightarrow> (\<exists>l'. ifs w' listener = Some l' \<and> listener_ok l' \<and>
        ev_listening_queues l' = ev_listening_queues l @
          [\<lparr>it_queue = Some q, it_queue_size = n, it_mark_to_remove = 0\<rparr>]))"
  using set_listener_appends_aux[OF assms] .

theorem set_listener_appends_witness:
  "\<exists>err w'. audio_event_iface_set_listener (fifo_platform 5) 1 2 ex_qw = Some (err, w') \<and>
     ifs w' 1 = Some (ex_iface 10)"
  using set_listener_appends[OF fifo_model, of ex_qw 1 "ex_iface 10" 11 5 2 "ex_iface 20" 5]
  by (auto simp: ex_qw_def ex_iface_def listener_ok_def)

lemma remove_listener_filters:
  assumes qm: "queue_model R qv cap mem" and e: "ifs w evt = Some e" "ev_external_queue e = Some q"
    "ev_external_queue_size e \<noteq> 0" and l: "ifs w listener = Some l" "listener_ok l" and "evt \<noteq> listener"
  shows "\<exists>err w'. audio_event_iface_remove_listener R listener evt w = Some (err, w') \<and>
     (\<forall>h. h \<noteq> listener \<longrightarrow> ifs w' h = ifs w h) \<and>
     (err = ESP_OK \<longrightarrow> (\<exists>l'. ifs w' listener = Some l' \<and>
        ev_listening_queues l' = filter (\<lambda>it. Some q \<noteq> it_queue it) (ev_listening_queues l)))"
proof -
  obtain err w2 where 2: "audio_event_iface_cleanup_listener R listener w = Some (err, w2)"
    "(err = ESP_FAIL \<and> ifs w2 = ifs w) \<or> (err = ESP_OK \<and> ifs w2 = (ifs w)(listener \<mapsto> l\<lparr>ev_queue_set := None\<rparr>))"
    using cleanup_frame[OF qm l] by blast
  show ?thesis
  proof (cases "err = ESP_OK")
    case False
    then show ?thesis using e 2 by (simp add: audio_event_iface_remove_listener_def)
  next
    case True
    let ?l = "l\<lparr>ev_queue_set := None,
       ev_listening_queues := filter (\<lambda>it. Some q \<noteq> it_queue it) (ev_listening_queues l)\<rparr>"
    let ?w = "w2\<lparr>ifs := (ifs w2)(listener \<mapsto> ?l)\<rparr>"
    have "ifs ?w listener = Some ?l" by simp
    from update_listener_frame[OF qm this] obtain err' w' s where
      "audio_event_iface_update_listener R listener ?w = Some (err', w')"
      "ifs w' = (ifs ?w)(listener \<mapsto> ?l\<lparr>ev_queue_set := s\<rparr>)" by blast
    then show ?thesis using True e 2 assms(7)
      by (auto simp: audio_event_iface_remove_listener_def)
  qed
qed

text \<open>Registering and then removing a listener, both reported successful, restores the listener's list of
  queues when it did not hold the queue before.\<close>

theorem listener_round_trip:
  assumes qm: "queue_model R qv cap mem" and e: "ifs w evt = Some e" "ev_external_queue e = Some q"
    "ev_external_queue_size e \<noteq> 0" and l: "ifs w listener = Some l" "listener_ok l"
    and neq: "evt \<noteq> listener" and fresh: "\<forall>it \<in> set (ev_listening_queues l). it_queue it \<noteq> Some q"
    and set: "audio_event_iface_set_listener R evt listener w = Some (ESP_OK, w1)"
    and rem: "audio_event_iface_remove_listener R listener evt w1 = Some (ESP_OK, w2)"
  shows "map_option ev_listening_queues (ifs w2 listener) = Some (ev_listening_queues l) \<and>
     (\<forall>h. h \<noteq> listener \<longrightarrow> ifs w2 h = ifs w h)"
proof -
  obtain l1 where 1: "\<forall>h. h \<noteq> listener \<longrightarrow> ifs w1 h = ifs w h" "ifs w1 listener = Some l1" "listener_ok l1"
    "ev_listening_queues l1 = ev_listening_queues l @
      [\<lparr>it_queue = Some q, it_queue_size = ev_external_queue_size e, it_mark_to_remove = 0\<rparr>]"
    using set_listener_appends_aux[OF qm e(1,2) refl e(3) l] set by auto
  have "ifs w1 evt = Some e" using 1(1) neq e(1) by simp
  from remove_listener_filters[OF qm this e(2,3) 1(2,3) neq] rem obtain l2 where
    "\<forall>h. h \<noteq> listener \<longrightarrow> ifs w2 h = ifs w1 h" "ifs w2 listener = Some l2"
    "ev_listening_queues l2 = filter (\<lambda>it. Some q \<noteq> it_queue it) (ev_listening_queues l1)" by auto
  moreover have "filter (\<lambda>it. Some q \<noteq> it_queue it) (ev_listening_queues l) = ev_listening_queues l"
    by (intro filter_True) (use fresh in auto)
  ultimately show ?thesis using 1 by auto
qed

lemmas listen_defs = audio_event_iface_set_listener_def audio_event_iface_remove_listener_def
  iface_listen_to_def audio_event_iface_cleanup_listener_def audio_event_iface_update_listener_def
  audio_event_iface_discard_def

lemma fifo_drain_nil [simp]: "wq w q = [] \<Longrightarrow> queue_drain (fifo_platform n) q w = Some w"
  by (subst queue_drain.simps) (simp add: fifo_platform_def)

lemma fifo_iface_drain [simp]: "ifs w h = Some e \<Longrightarrow> iface_drain (fifo_platform n) h w = Some w"
  by (subst iface_drain.simps) (simp add: audio_event_iface_read_def fifo_platform_def split: option.splits)

lemma fifo_set_ops [simp]:
  "heap_alloc (fifo_platform n) k w = (Some 7, w)"
  "xQueueCreateSet (fifo_platform n) i w = (Some 7, w)"
  "xQueueAddToSet (fifo_platform n) q s w = (True, w)"
  "xQueueRemoveFromSet (fifo_platform n) q s w = (True, w)"
  "vQueueDelete (fifo_platform n) q w = w"
  by (simp_all add: fifo_platform_def)

lemma ex_set_listener:
  "audio_event_iface_set_listener (fifo_platform 5) 1 2 ex_qw = Some (ESP_OK,
     ex_qw\<lparr>ifs := (ifs ex_qw)(2 \<mapsto> (ex_iface 20)\<lparr>ev_queue_set := Some 7, ev_listening_queues :=
       [\<lparr>it_queue = Some 11, it_queue_size = 5, it_mark_to_remove = 0\<rparr>]\<rparr>)\<rparr>)"
  by (simp add: listen_defs ex_qw_def ex_iface_def)

lemma ex_listen:
  "\<exists>w1 w2. audio_event_iface_set_listener (fifo_platform 5) 1 2 ex_qw = Some (ESP_OK, w1) \<and>
     audio_event_iface_remove_listener (fifo_platform 5) 2 1 w1 = Some (ESP_OK, w2)"
  by (simp add: ex_set_listener) (simp add: listen_defs ex_qw_def ex_iface_def)

theorem listener_round_trip_witness:
  "\<exists>w1 w2. audio_event_iface_set_listener (fifo_platform 5) 1 2 ex_qw = Some (ESP_OK, w1) \<and>
     audio_event_iface_remove_listener (fifo_platform 5) 2 1 w1 = Some (ESP_OK, w2) \<and>
     map_option ev_listening_queues (ifs w2 2) = Some []"
proof -
  obtain w1 w2 where r: "audio_event_iface_set_listener (fifo_platform 5) 1 2 ex_qw = Some (ESP_OK, w1)"
    "audio_event_iface_remove_listener (fifo_platform 5) 2 1 w1 = Some (ESP_OK, w2)"
    using ex_listen by blast
  have "ifs ex_qw 1 = Some (ex_iface 10)" "ifs ex_qw 2 = Some (ex_iface 20)" by (simp_all add: ex_qw_def)
  from listener_round_trip[OF fifo_model this(1) _ _ this(2) _ _ _ r] r show ?thesis
    by (auto simp: ex_iface_def listener_ok_def)
qed

section \<open>Commands and dispatch\<close>

datatype ev_op = Send audio_event_iface_msg | Dispatch

text \<open>A sequence of commands sent to an interface and of turns of the task that serves it; the result
  lists the messages \<open>audio_event_iface_cmd\<close> accepted.\<close>

fun ev_run ::
  "'z evw platform \<Rightarrow> (fnptr \<Rightarrow> audio_event_iface_msg \<Rightarrow> addr \<Rightarrow> 'z evw \<Rightarrow> (esp_err \<times> 'z evw) option) \<Rightarrow>
   iface_handle \<Rightarrow> ev_op list \<Rightarrow> 'z evw \<Rightarrow> (audio_event_iface_msg list \<times> 'z evw) option" where
  "ev_run R call evt [] w = Some ([], w)"
| "ev_run R call evt (Send m # ops) w = do {
     (err, w) \<leftarrow> audio_event_iface_cmd R evt m w;
     (acc, w) \<leftarrow> ev_run R call evt ops w;
     Some (if err = ESP_OK then m # acc else acc, w)
   }"
| "ev_run R call evt (Dispatch # ops) w = do {
     (_, w) \<leftarrow> audio_event_iface_waiting_cmd_msg R call evt w;
     ev_run R call evt ops w
   }"

text \<open>\<open>lg\<close> is the record a handler keeps of its calls.\<close>

definition logging_handler ::
  "'z evw platform \<Rightarrow> ('z evw \<Rightarrow> qhandle \<Rightarrow> audio_event_iface_msg list) \<Rightarrow> ('z evw \<Rightarrow> audio_event_iface_msg list) \<Rightarrow>
   (audio_event_iface_msg \<Rightarrow> 'z evw \<Rightarrow> (esp_err \<times> 'z evw) option) \<Rightarrow> bool" where
  "logging_handler R qv lg h \<longleftrightarrow>
     (\<forall>m w. \<exists>err w'. h m w = Some (err, w') \<and> ifs w' = ifs w \<and> qv w' = qv w \<and> lg w' = lg w @ [m]) \<and>
     (\<forall>q m w. lg (snd (xQueueSend R q m w)) = lg w) \<and>
     (\<forall>q t w. lg (snd (xQueueReceive R q t w)) = lg w)"

lemma cmd_step:
  assumes qm: "queue_model R qv cap mem" and e: "ifs w evt = Some e" "ev_internal_queue e = Some q"
    and lh: "logging_handler R qv lg h"
  shows "\<exists>err w'. audio_event_iface_cmd R evt m w = Some (err, w') \<and> ifs w' = ifs w \<and> lg w' = lg w \<and>
     (err = ESP_OK \<longleftrightarrow> length (qv w q) < cap q) \<and> qv w' q = qv w q @ (if err = ESP_OK then [m] else [])"
proof -
  obtain ok w1 where s: "xQueueSend R q m w = (ok, w1)" by fastforce
  then have "lg w1 = lg w" using lh by (metis logging_handler_def snd_conv)
  then show ?thesis
    using e s qm_send[OF qm s] by (auto simp: audio_event_iface_cmd_def split: if_splits)
qed

lemma dispatch_step:
  assumes qm: "queue_model R qv cap mem" and e: "ifs w evt = Some e" "ev_internal_queue e = Some q"
    "ev_on_cmd e = Some f" "ev_wait_time e = 0"
    and lh: "logging_handler R qv lg (\<lambda>m. call f m (ev_context e))"
  shows "\<exists>err w'. audio_event_iface_waiting_cmd_msg R call evt w = Some (err, w') \<and> ifs w' = ifs w \<and>
     lg w' @ qv w' q = lg w @ qv w q \<and> length (lg w') = length (lg w) + (if qv w q = [] then 0 else 1)"
proof -
  obtain r w1 where s: "xQueueReceive R q 0 w = (r, w1)" by fastforce
  have lg: "lg w1 = lg w" using s lh by (metis logging_handler_def snd_conv)
  note rc = qm_recv[OF qm s]
  show ?thesis
  proof (cases r)
    case None
    then show ?thesis using e s rc lg
      by (auto simp: audio_event_iface_waiting_cmd_msg_def split: list.splits)
  next
    case (Some m)
    then obtain ms where q: "qv w q = m # ms" "qv w1 q = ms" using rc by (auto split: list.splits)
    obtain err w' where "call f m (ev_context e) w1 = Some (err, w')" "ifs w' = ifs w1" "qv w' = qv w1"
      "lg w' = lg w1 @ [m]"
      using lh unfolding logging_handler_def by blast
    then show ?thesis using Some e s rc lg q by (auto simp: audio_event_iface_waiting_cmd_msg_def)
  qed
qed

text \<open>C5. Whatever the order of sends and dispatches, every run returns, and the commands the handler was
  called with, followed by those still queued, are the ones there before followed by the accepted
  ones: none is lost, duplicated or reordered.\<close>

theorem commands_in_order:
  assumes "queue_model R qv cap mem" "ifs w evt = Some e" "ev_internal_queue e = Some q"
    "ev_on_cmd e = Some f" "ev_wait_time e = 0"
    "logging_handler R qv lg (\<lambda>m. call f m (ev_context e))"
  shows "\<exists>acc w'. ev_run R call evt ops w = Some (acc, w') \<and> lg w' @ qv w' q = lg w @ qv w q @ acc"
  using assms(2)
proof (induction ops arbitrary: w)
  case (Cons op ops)
  show ?case
  proof (cases op)
    case (Send m)
    from cmd_step[OF assms(1) Cons(2) assms(3,6)] obtain err w1 where
      "audio_event_iface_cmd R evt m w = Some (err, w1)" "ifs w1 = ifs w" "lg w1 = lg w"
      "qv w1 q = qv w q @ (if err = ESP_OK then [m] else [])" by blast
    then show ?thesis using Cons(1)[of w1] Cons(2) Send by auto
  next
    case Dispatch
    from dispatch_step[where call = call and lg = lg, OF assms(1) Cons(2) assms(3-6)] obtain err w1 where
      "audio_event_iface_waiting_cmd_msg R call evt w = Some (err, w1)" "ifs w1 = ifs w"
      "lg w1 @ qv w1 q = lg w @ qv w q" by blast
    then show ?thesis using Cons(1)[of w1] Cons(2) Dispatch by (auto simp flip: append_assoc)
  qed
qed simp

definition ex_handler :: "fnptr \<Rightarrow> audio_event_iface_msg \<Rightarrow> addr \<Rightarrow> q_world \<Rightarrow> (esp_err \<times> q_world) option" where
  "ex_handler f m c w = Some (ESP_OK, w\<lparr>wlog := wlog w @ [m]\<rparr>)"

lemma ex_handler_logs: "logging_handler (fifo_platform n) wq wlog (\<lambda>m. ex_handler f m c)"
  by (auto simp: logging_handler_def fifo_platform_def ex_handler_def split: list.splits)

theorem commands_in_order_witness:
  "\<exists>acc w'. ev_run (fifo_platform 2) ex_handler 1 [Send (ex_msg 3), Dispatch, Send (ex_msg 4)] ex_qw
       = Some (acc, w') \<and> wlog w' @ wq w' 10 = [ex_msg 1, ex_msg 2] @ acc"
  using commands_in_order[OF fifo_model[of 2], where w = ex_qw and evt = 1 and e = "ex_iface 10" and q = 10
      and f = 9 and lg = wlog and call = ex_handler and ops = "[Send (ex_msg 3), Dispatch, Send (ex_msg 4)]"]
    ex_handler_logs
  by (auto simp: ex_qw_def ex_iface_def)

text \<open>\<open>audio_event_iface_cmd\<close> never blocks: it returns \<open>ESP_OK\<close> exactly when the internal queue has room,
  and then the message is at its end; otherwise it returns \<open>ESP_FAIL\<close> and the queue is unchanged.\<close>

theorem cmd_accepts_iff_room:
  assumes "queue_model R qv cap mem" "ifs w evt = Some e" "ev_internal_queue e = Some q"
  shows "\<exists>w'. audio_event_iface_cmd R evt m w =
       Some (if length (qv w q) < cap q then ESP_OK else ESP_FAIL, w') \<and> ifs w' = ifs w \<and>
     qv w' q = (if length (qv w q) < cap q then qv w q @ [m] else qv w q)"
proof -
  obtain ok w1 where s: "xQueueSend R q m w = (ok, w1)" by fastforce
  show ?thesis using assms(2,3) s qm_send[OF assms(1) s]
    by (auto simp: audio_event_iface_cmd_def split: if_splits)
qed

theorem cmd_accepts_iff_room_witness:
  "\<exists>w'. audio_event_iface_cmd (fifo_platform 2) 1 (ex_msg 3) ex_qw = Some (ESP_FAIL, w') \<and>
     wq w' 10 = [ex_msg 1, ex_msg 2]"
  using cmd_accepts_iff_room[OF fifo_model[of 2], where w = ex_qw and evt = 1 and e = "ex_iface 10" and q = 10
      and m = "ex_msg 3"]
  by (auto simp: ex_qw_def ex_iface_def)

section \<open>Creation\<close>

text \<open>A successful \<open>audio_event_iface_init\<close> has exactly the queues the configuration asks for and copies
  its sizes, context and handler, but not its \<open>wait_time\<close>: the interface starts with zero, so
  \<open>audio_event_iface_waiting_cmd_msg\<close> polls until \<open>audio_event_iface_set_cmd_waiting_timeout\<close> is called.\<close>

theorem init_ignores_wait_time:
  assumes "audio_event_iface_init R c w = Some (Some h, w')"
  shows "\<exists>e. ifs w' h = Some e \<and> ev_wait_time e = 0 \<and> ev_context e = ec_context c \<and> ev_on_cmd e = ec_on_cmd c \<and>
     (ev_internal_queue e = None \<longleftrightarrow> ec_internal_queue_size c = 0) \<and>
     (ev_external_queue e = None \<longleftrightarrow> ec_external_queue_size c = 0) \<and> ev_listening_queues e = []"
  using assms by (auto simp: audio_event_iface_init_def Let_def split: option.splits prod.splits if_splits)

theorem init_ignores_wait_time_witness:
  "ec_wait_time AUDIO_EVENT_IFACE_DEFAULT_CFG = portMAX_DELAY \<and>
   (\<exists>w' e. audio_event_iface_init (fifo_platform 2) AUDIO_EVENT_IFACE_DEFAULT_CFG ex_qw = Some (Some 7, w') \<and>
      ifs w' 7 = Some e \<and> ev_wait_time e = 0)"
proof -
  have "\<exists>w'. audio_event_iface_init (fifo_platform 2) AUDIO_EVENT_IFACE_DEFAULT_CFG ex_qw = Some (Some 7, w')"
    by (simp add: audio_event_iface_init_def AUDIO_EVENT_IFACE_DEFAULT_CFG_def fifo_platform_def)
  then show ?thesis using init_ignores_wait_time
    by (fastforce simp: AUDIO_EVENT_IFACE_DEFAULT_CFG_def)
qed

end
