(* ===== verification/Audio_Element.thy ===== *)
theory Audio_Element
  imports Event_Iface
begin

text \<open>
  The audio element (\<open>components/audio_pipeline/audio_element.c\<close>): the processing stage of a pipeline.
  It owns an event interface whose commands drive a state machine, reads from and writes to ring
  buffers or callbacks, and runs in a task of its own. The callbacks, the task and the event group
  are the platform's.
\<close>

section \<open>Types\<close>

datatype audio_element_state =
  AEL_STATE_NONE | AEL_STATE_INIT | AEL_STATE_RUNNING | AEL_STATE_PAUSED | AEL_STATE_STOPPED
| AEL_STATE_FINISHED | AEL_STATE_ERROR

text \<open>The enumerators are ordered as the code compares them.\<close>

fun state_num :: "audio_element_state \<Rightarrow> nat" where
  "state_num AEL_STATE_NONE = 0"
| "state_num AEL_STATE_INIT = 1"
| "state_num AEL_STATE_RUNNING = 2"
| "state_num AEL_STATE_PAUSED = 3"
| "state_num AEL_STATE_STOPPED = 4"
| "state_num AEL_STATE_FINISHED = 5"
| "state_num AEL_STATE_ERROR = 6"

lemma state_num_inj: "state_num s = state_num t \<Longrightarrow> s = t"
  by (cases s; cases t) simp_all

instantiation audio_element_state :: linorder
begin
definition less_eq_audio_element_state_def: "(s :: audio_element_state) \<le> t \<longleftrightarrow> state_num s \<le> state_num t"
definition less_audio_element_state_def: "(s :: audio_element_state) < t \<longleftrightarrow> state_num s < state_num t"
instance
  by standard (auto simp: less_eq_audio_element_state_def less_audio_element_state_def dest: state_num_inj)
end

lemmas state_order = less_eq_audio_element_state_def less_audio_element_state_def

abbreviation AEL_IO_OK :: int where "AEL_IO_OK \<equiv> 0"
abbreviation AEL_IO_FAIL :: int where "AEL_IO_FAIL \<equiv> -1"
abbreviation AEL_IO_DONE :: int where "AEL_IO_DONE \<equiv> -2"
abbreviation AEL_IO_ABORT :: int where "AEL_IO_ABORT \<equiv> -3"
abbreviation AEL_IO_TIMEOUT :: int where "AEL_IO_TIMEOUT \<equiv> -4"
abbreviation AEL_PROCESS_FAIL :: int where "AEL_PROCESS_FAIL \<equiv> -5"

abbreviation AEL_MSG_CMD_ERROR :: int where "AEL_MSG_CMD_ERROR \<equiv> 1"
abbreviation AEL_MSG_CMD_FINISH :: int where "AEL_MSG_CMD_FINISH \<equiv> 2"
abbreviation AEL_MSG_CMD_STOP :: int where "AEL_MSG_CMD_STOP \<equiv> 3"
abbreviation AEL_MSG_CMD_PAUSE :: int where "AEL_MSG_CMD_PAUSE \<equiv> 4"
abbreviation AEL_MSG_CMD_RESUME :: int where "AEL_MSG_CMD_RESUME \<equiv> 5"
abbreviation AEL_MSG_CMD_DESTROY :: int where "AEL_MSG_CMD_DESTROY \<equiv> 6"
abbreviation AEL_MSG_CMD_REPORT_STATUS :: int where "AEL_MSG_CMD_REPORT_STATUS \<equiv> 8"
abbreviation AEL_MSG_CMD_REPORT_MUSIC_INFO :: int where "AEL_MSG_CMD_REPORT_MUSIC_INFO \<equiv> 9"
abbreviation AEL_MSG_CMD_REPORT_CODEC_FMT :: int where "AEL_MSG_CMD_REPORT_CODEC_FMT \<equiv> 10"

abbreviation AEL_STATUS_NONE :: int where "AEL_STATUS_NONE \<equiv> 0"
abbreviation AEL_STATUS_ERROR_OPEN :: int where "AEL_STATUS_ERROR_OPEN \<equiv> 1"
abbreviation AEL_STATUS_ERROR_INPUT :: int where "AEL_STATUS_ERROR_INPUT \<equiv> 2"
abbreviation AEL_STATUS_ERROR_PROCESS :: int where "AEL_STATUS_ERROR_PROCESS \<equiv> 3"
abbreviation AEL_STATUS_ERROR_OUTPUT :: int where "AEL_STATUS_ERROR_OUTPUT \<equiv> 4"
abbreviation AEL_STATUS_STATE_RUNNING :: int where "AEL_STATUS_STATE_RUNNING \<equiv> 12"
abbreviation AEL_STATUS_STATE_PAUSED :: int where "AEL_STATUS_STATE_PAUSED \<equiv> 13"
abbreviation AEL_STATUS_STATE_STOPPED :: int where "AEL_STATUS_STATE_STOPPED \<equiv> 14"

abbreviation AUDIO_ELEMENT_TYPE_ELEMENT :: int where "AUDIO_ELEMENT_TYPE_ELEMENT \<equiv> 0x20000"

datatype io_type = IO_TYPE_RB | IO_TYPE_CB
datatype events_type = EVENTS_TYPE_Q | EVENTS_TYPE_CB

record audio_element_info =
  info_sample_rates :: int
  info_channels :: int
  info_bits :: int
  info_volume :: int
  info_mute :: bool
  info_byte_pos :: u64
  info_total_bytes :: u64
  info_uri :: "addr option"
  info_codec_fmt :: int
  info_user_data_0 :: int
  info_user_data_1 :: int

definition AUDIO_ELEMENT_INFO_ZERO :: audio_element_info where
  "AUDIO_ELEMENT_INFO_ZERO =
     \<lparr>info_sample_rates = 0, info_channels = 0, info_bits = 0, info_volume = 0, info_mute = False,
      info_byte_pos = 0, info_total_bytes = 0, info_uri = None, info_codec_fmt = 0,
      info_user_data_0 = 0, info_user_data_1 = 0\<rparr>"

definition AUDIO_ELEMENT_INFO_DEFAULT :: audio_element_info where
  "AUDIO_ELEMENT_INFO_DEFAULT =
     AUDIO_ELEMENT_INFO_ZERO\<lparr>info_sample_rates := 44100, info_channels := 2, info_bits := 16\<rparr>"

text \<open>
  \<open>struct audio_element\<close>. Each of the unions \<open>in\<close> and \<open>out\<close> overlays the ring buffer handle with the
  callback pointer in its first word (\<open>el_in\<close>, \<open>el_out\<close>); the second word holds the callback's context.
  The wait times are stored as \<open>int\<close> and passed on as \<open>TickType_t\<close>: the same 32 bits.
\<close>

record audio_element =
  el_open :: "fnptr option"
  el_seek :: "fnptr option"
  el_process :: "fnptr option"
  el_close :: "fnptr option"
  el_destroy :: "fnptr option"
  el_read_type :: "io_type option"
  el_in :: "addr option"
  el_in_ctx :: addr
  el_write_type :: "io_type option"
  el_out :: "addr option"
  el_out_ctx :: addr
  el_multi_in_rb :: "rb_handle option list"
  el_multi_out_rb :: "rb_handle option list"
  el_is_open :: bool
  el_state :: audio_element_state
  el_events_type :: "events_type option"
  el_iface_event :: "iface_handle option"
  el_cb_event :: "fnptr option"
  el_cb_event_ctx :: addr
  el_buf_size :: int
  el_buf :: "addr option"
  el_tag :: "addr option"
  el_task_stack :: int
  el_task_prio :: int
  el_task_core :: int
  el_lock :: "sem option"
  el_info :: audio_element_info
  el_data :: addr
  el_state_event :: "egroup option"
  el_input_wait_time :: tick
  el_output_wait_time :: tick
  el_out_buf_size_expect :: int
  el_out_rb_size :: int
  el_is_running :: bool
  el_task_run :: bool
  el_enable_multi_io :: bool

abbreviation NUMBER_OF_MULTI_RINGBUF :: nat where "NUMBER_OF_MULTI_RINGBUF \<equiv> 1"

text \<open>The struct as \<open>calloc\<close> leaves it.\<close>

definition el_zero :: audio_element where
  "el_zero =
     \<lparr>el_open = None, el_seek = None, el_process = None, el_close = None, el_destroy = None,
      el_read_type = None, el_in = None, el_in_ctx = 0, el_write_type = None, el_out = None,
      el_out_ctx = 0, el_multi_in_rb = replicate NUMBER_OF_MULTI_RINGBUF None,
      el_multi_out_rb = replicate NUMBER_OF_MULTI_RINGBUF None, el_is_open = False,
      el_state = AEL_STATE_NONE, el_events_type = None, el_iface_event = None, el_cb_event = None,
      el_cb_event_ctx = 0, el_buf_size = 0, el_buf = None, el_tag = None, el_task_stack = 0,
      el_task_prio = 0, el_task_core = 0, el_lock = None, el_info = AUDIO_ELEMENT_INFO_ZERO,
      el_data = 0, el_state_event = None, el_input_wait_time = 0, el_output_wait_time = 0,
      el_out_buf_size_expect = 0, el_out_rb_size = 0, el_is_running = False, el_task_run = False,
      el_enable_multi_io = False\<rparr>"

record audio_element_cfg =
  cfg_open :: "fnptr option"
  cfg_seek :: "fnptr option"
  cfg_process :: "fnptr option"
  cfg_close :: "fnptr option"
  cfg_destroy :: "fnptr option"
  cfg_read :: "fnptr option"
  cfg_write :: "fnptr option"
  cfg_buffer_len :: int
  cfg_task_stack :: int
  cfg_task_prio :: int
  cfg_task_core :: int
  cfg_out_rb_size :: int
  cfg_data :: addr
  cfg_tag :: "string option"
  cfg_enable_multi_io :: bool

definition DEFAULT_AUDIO_ELEMENT_CONFIG :: audio_element_cfg where
  "DEFAULT_AUDIO_ELEMENT_CONFIG =
     \<lparr>cfg_open = None, cfg_seek = None, cfg_process = None, cfg_close = None, cfg_destroy = None,
      cfg_read = None, cfg_write = None, cfg_buffer_len = 1024, cfg_task_stack = 2048,
      cfg_task_prio = 5, cfg_task_core = 0, cfg_out_rb_size = 0, cfg_data = 0, cfg_tag = None,
      cfg_enable_multi_io = False\<rparr>"

abbreviation STOPPED_BIT :: u32 where "STOPPED_BIT \<equiv> 1"
abbreviation STARTED_BIT :: u32 where "STARTED_BIT \<equiv> 2"
abbreviation BUFFER_REACH_LEVEL_BIT :: u32 where "BUFFER_REACH_LEVEL_BIT \<equiv> 4"
abbreviation TASK_CREATED_BIT :: u32 where "TASK_CREATED_BIT \<equiv> 8"
abbreviation TASK_DESTROYED_BIT :: u32 where "TASK_DESTROYED_BIT \<equiv> 16"
abbreviation PAUSED_BIT :: u32 where "PAUSED_BIT \<equiv> 32"

definition DEFAULT_MAX_WAIT_TIME :: "'w platform \<Rightarrow> tick" where
  "DEFAULT_MAX_WAIT_TIME R = of_nat (2000 div portTICK_RATE_MS R)"

text \<open>The live elements, and the heap cells that hold C strings the elements own.\<close>

record el_world = ev_world +
  els :: "el_handle \<Rightarrow> audio_element option"
  strs :: "addr \<Rightarrow> string option"

type_synonym 'z elw = "'z el_world_scheme"

definition el_upd :: "el_handle \<Rightarrow> (audio_element \<Rightarrow> audio_element) \<Rightarrow> 'z elw \<Rightarrow> 'z elw option" where
  "el_upd h f w =
     (case els w h of None \<Rightarrow> None | Some e \<Rightarrow> Some (w\<lparr>els := (els w)(h \<mapsto> f e)\<rparr>))"

lemma el_upd_Some [simp]:
  "els w h = Some e \<Longrightarrow> el_upd h f w = Some (w\<lparr>els := (els w)(h \<mapsto> f e)\<rparr>)"
  by (simp add: el_upd_def)

interpretation el_store: object_store els el_upd
  by unfold_locales (auto simp: el_upd_def split: option.splits)

text \<open>\<open>strdup\<close> and \<open>free\<close> of a string; freeing what is not allocated is undefined.\<close>

definition str_dup :: "'z elw platform \<Rightarrow> string \<Rightarrow> 'z elw \<Rightarrow> addr option \<times> 'z elw" where
  "str_dup R s w =
     (case heap_alloc R (length s + 1) w of
        (None, w) \<Rightarrow> (None, w)
      | (Some a, w) \<Rightarrow> (Some a, w\<lparr>strs := (strs w)(a \<mapsto> s)\<rparr>))"

definition str_free :: "addr option \<Rightarrow> 'z elw \<Rightarrow> 'z elw option" where
  "str_free p w =
     (case p of None \<Rightarrow> Some w
      | Some a \<Rightarrow> do { _ \<leftarrow> strs w a; Some (w\<lparr>strs := (strs w)(a := None)\<rparr>) })"

text \<open>\<open>mutex_lock\<close> (\<open>audio_sal/include/audio_mutex.h\<close>): take until it is granted.\<close>

partial_function (option) mutex_lock :: "'w platform \<Rightarrow> sem \<Rightarrow> 'w \<Rightarrow> 'w option" where
  "mutex_lock R s w =
     (case xSemaphoreTake R s portMAX_DELAY w of (ok, w) \<Rightarrow> if ok then Some w else mutex_lock R s w)"

section \<open>Messages, status and properties\<close>

definition el_set_bits :: "'z elw platform \<Rightarrow> el_handle \<Rightarrow> u32 \<Rightarrow> 'z elw \<Rightarrow> 'z elw option" where
  "el_set_bits R el bits w = do {
     e \<leftarrow> els w el; g \<leftarrow> el_state_event e; Some (xEventGroupSetBits R g bits w) }"

definition el_clear_bits :: "'z elw platform \<Rightarrow> el_handle \<Rightarrow> u32 \<Rightarrow> 'z elw \<Rightarrow> 'z elw option" where
  "el_clear_bits R el bits w = do {
     e \<leftarrow> els w el; g \<leftarrow> el_state_event e; Some (xEventGroupClearBits R g bits w) }"

definition el_wait_bits :: "'z elw platform \<Rightarrow> el_handle \<Rightarrow> u32 \<Rightarrow> tick \<Rightarrow> 'z elw \<Rightarrow> (bool \<times> 'z elw) option" where
  "el_wait_bits R el bits t w = do {
     e \<leftarrow> els w el;
     g \<leftarrow> el_state_event e;
     let (ux, w) = xEventGroupWaitBits R g bits t w;
     Some (ux AND bits \<noteq> 0, w)
   }"

definition el_cmd_timeout :: "el_handle \<Rightarrow> tick \<Rightarrow> 'z elw \<Rightarrow> 'z elw option" where
  "el_cmd_timeout el t w = do {
     e \<leftarrow> els w el;
     i \<leftarrow> el_iface_event e;
     (_, w) \<leftarrow> audio_event_iface_set_cmd_waiting_timeout i t w;
     Some w
   }"

definition audio_element_force_set_state ::
  "el_handle \<Rightarrow> audio_element_state \<Rightarrow> 'z elw \<Rightarrow> (esp_err \<times> 'z elw) option" where
  "audio_element_force_set_state el new_state w = do {
     w \<leftarrow> el_upd el (\<lambda>e. e\<lparr>el_state := new_state\<rparr>) w; Some (ESP_OK, w) }"

definition audio_element_cmd_send ::
  "'z elw platform \<Rightarrow> el_handle \<Rightarrow> int \<Rightarrow> 'z elw \<Rightarrow> (esp_err \<times> 'z elw) option" where
  "audio_element_cmd_send R el state w = do {
     e \<leftarrow> els w el;
     i \<leftarrow> el_iface_event e;
     audio_event_iface_cmd R i
       \<lparr>msg_cmd = state, msg_data = 0, msg_data_len = 0, msg_source = Some el,
        msg_source_type = AUDIO_ELEMENT_TYPE_ELEMENT, msg_need_free_data = False\<rparr> w
   }"

definition audio_element_msg_sendout ::
  "'z elw platform \<Rightarrow> el_handle \<Rightarrow> audio_event_iface_msg \<Rightarrow> 'z elw \<Rightarrow> (esp_err \<times> 'z elw) option" where
  "audio_element_msg_sendout R el msg w = do {
     let msg = msg\<lparr>msg_source := Some el, msg_source_type := AUDIO_ELEMENT_TYPE_ELEMENT\<rparr>;
     e \<leftarrow> els w el;
     case (el_events_type e, el_cb_event e) of
       (Some EVENTS_TYPE_CB, Some f) \<Rightarrow> Some (call_event R f el msg (el_cb_event_ctx e) w)
     | _ \<Rightarrow> do { i \<leftarrow> el_iface_event e; audio_event_iface_sendout R i msg w }
   }"

definition report_msg :: "int \<Rightarrow> int \<Rightarrow> int \<Rightarrow> audio_event_iface_msg" where
  "report_msg cmd data len =
     \<lparr>msg_cmd = cmd, msg_data = data, msg_data_len = len, msg_source = None, msg_source_type = 0,
      msg_need_free_data = False\<rparr>"

definition audio_element_report_status ::
  "'z elw platform \<Rightarrow> el_handle \<Rightarrow> int \<Rightarrow> 'z elw \<Rightarrow> (esp_err \<times> 'z elw) option" where
  "audio_element_report_status R el status w =
     audio_element_msg_sendout R el (report_msg AEL_MSG_CMD_REPORT_STATUS status 4) w"

definition audio_element_report_info ::
  "'z elw platform \<Rightarrow> el_handle option \<Rightarrow> 'z elw \<Rightarrow> (esp_err \<times> 'z elw) option" where
  "audio_element_report_info R el w =
     (case el of None \<Rightarrow> Some (ESP_FAIL, w)
      | Some h \<Rightarrow> do {
          (_, w) \<leftarrow> audio_element_msg_sendout R h (report_msg AEL_MSG_CMD_REPORT_MUSIC_INFO 0 0) w;
          Some (ESP_OK, w)
        })"

definition audio_element_report_codec_fmt ::
  "'z elw platform \<Rightarrow> el_handle option \<Rightarrow> 'z elw \<Rightarrow> (esp_err \<times> 'z elw) option" where
  "audio_element_report_codec_fmt R el w =
     (case el of None \<Rightarrow> Some (ESP_FAIL, w)
      | Some h \<Rightarrow> do {
          (_, w) \<leftarrow> audio_element_msg_sendout R h (report_msg AEL_MSG_CMD_REPORT_CODEC_FMT 0 0) w;
          Some (ESP_OK, w)
        })"

definition audio_element_reset_state :: "el_handle \<Rightarrow> 'z elw \<Rightarrow> (esp_err \<times> 'z elw) option" where
  "audio_element_reset_state el w = audio_element_force_set_state el AEL_STATE_INIT w"

definition audio_element_get_state :: "el_handle \<Rightarrow> 'z elw \<Rightarrow> audio_element_state option" where
  "audio_element_get_state el w = do { e \<leftarrow> els w el; Some (el_state e) }"

definition audio_element_get_event_queue :: "el_handle option \<Rightarrow> 'z elw \<Rightarrow> qhandle option option" where
  "audio_element_get_event_queue el w =
     (case el of None \<Rightarrow> Some None
      | Some h \<Rightarrow> do { e \<leftarrow> els w h; audio_event_iface_get_queue_handle (el_iface_event e) w })"

definition audio_element_setdata :: "el_handle \<Rightarrow> addr \<Rightarrow> 'z elw \<Rightarrow> (esp_err \<times> 'z elw) option" where
  "audio_element_setdata el data w = do { w \<leftarrow> el_upd el (\<lambda>e. e\<lparr>el_data := data\<rparr>) w; Some (ESP_OK, w) }"

definition audio_element_getdata :: "el_handle \<Rightarrow> 'z elw \<Rightarrow> addr option" where
  "audio_element_getdata el w = do { e \<leftarrow> els w el; Some (el_data e) }"

definition audio_element_set_tag ::
  "'z elw platform \<Rightarrow> el_handle \<Rightarrow> string option \<Rightarrow> 'z elw \<Rightarrow> (esp_err \<times> 'z elw) option" where
  "audio_element_set_tag R el tag w = do {
     e \<leftarrow> els w el;
     w \<leftarrow> str_free (el_tag e) w;
     w \<leftarrow> el_upd el (\<lambda>e. e\<lparr>el_tag := None\<rparr>) w;
     case tag of None \<Rightarrow> Some (ESP_OK, w)
     | Some s \<Rightarrow> do {
         let (p, w) = str_dup R s w;
         w \<leftarrow> el_upd el (\<lambda>e. e\<lparr>el_tag := p\<rparr>) w;
         Some (if p = None then ESP_ERR_NO_MEM else ESP_OK, w)
       }
   }"

definition audio_element_get_tag :: "el_handle \<Rightarrow> 'z elw \<Rightarrow> addr option option" where
  "audio_element_get_tag el w = do { e \<leftarrow> els w el; Some (el_tag e) }"

definition audio_element_set_uri ::
  "'z elw platform \<Rightarrow> el_handle \<Rightarrow> string option \<Rightarrow> 'z elw \<Rightarrow> (esp_err \<times> 'z elw) option" where
  "audio_element_set_uri R el uri w = do {
     e \<leftarrow> els w el;
     w \<leftarrow> str_free (info_uri (el_info e)) w;
     w \<leftarrow> el_upd el (\<lambda>e. e\<lparr>el_info := (el_info e)\<lparr>info_uri := None\<rparr>\<rparr>) w;
     case uri of None \<Rightarrow> Some (ESP_OK, w)
     | Some s \<Rightarrow> do {
         let (p, w) = str_dup R s w;
         w \<leftarrow> el_upd el (\<lambda>e. e\<lparr>el_info := (el_info e)\<lparr>info_uri := p\<rparr>\<rparr>) w;
         Some (if p = None then ESP_ERR_NO_MEM else ESP_OK, w)
       }
   }"

definition audio_element_get_uri :: "el_handle \<Rightarrow> 'z elw \<Rightarrow> addr option option" where
  "audio_element_get_uri el w = do { e \<leftarrow> els w el; Some (info_uri (el_info e)) }"

definition audio_element_set_event_callback ::
  "el_handle \<Rightarrow> fnptr option \<Rightarrow> addr \<Rightarrow> 'z elw \<Rightarrow> (esp_err \<times> 'z elw) option" where
  "audio_element_set_event_callback el cb_func ctx w = do {
     w \<leftarrow> el_upd el (\<lambda>e. e\<lparr>el_events_type := Some EVENTS_TYPE_CB, el_cb_event := cb_func,
                          el_cb_event_ctx := ctx\<rparr>) w;
     Some (ESP_OK, w)
   }"

definition audio_element_msg_set_listener ::
  "'z elw platform \<Rightarrow> el_handle \<Rightarrow> iface_handle \<Rightarrow> 'z elw \<Rightarrow> (esp_err \<times> 'z elw) option" where
  "audio_element_msg_set_listener R el listener w = do {
     e \<leftarrow> els w el; i \<leftarrow> el_iface_event e; audio_event_iface_set_listener R i listener w }"

definition audio_element_msg_remove_listener ::
  "'z elw platform \<Rightarrow> el_handle \<Rightarrow> iface_handle \<Rightarrow> 'z elw \<Rightarrow> (esp_err \<times> 'z elw) option" where
  "audio_element_msg_remove_listener R el listener w = do {
     e \<leftarrow> els w el; i \<leftarrow> el_iface_event e; audio_event_iface_remove_listener R listener i w }"

definition audio_element_setinfo ::
  "'z elw platform \<Rightarrow> el_handle option \<Rightarrow> audio_element_info option \<Rightarrow> 'z elw \<Rightarrow> (esp_err \<times> 'z elw) option" where
  "audio_element_setinfo R el info w =
     (case (info, el) of
        (Some i, Some h) \<Rightarrow> do {
          e \<leftarrow> els w h;
          l \<leftarrow> el_lock e;
          w \<leftarrow> mutex_lock R l w;
          w \<leftarrow> el_upd h (\<lambda>e. e\<lparr>el_info := i\<rparr>) w;
          e \<leftarrow> els w h;
          l \<leftarrow> el_lock e;
          Some (ESP_OK, xSemaphoreGive R l w)
        }
      | _ \<Rightarrow> Some (ESP_FAIL, w))"

definition audio_element_getinfo ::
  "'z elw platform \<Rightarrow> el_handle option \<Rightarrow> bool \<Rightarrow> 'z elw
     \<Rightarrow> ((esp_err \<times> audio_element_info option) \<times> 'z elw) option" where
  "audio_element_getinfo R el dst w =
     (case el of
        Some h \<Rightarrow> if \<not> dst then Some ((ESP_FAIL, None), w) else do {
          e \<leftarrow> els w h;
          l \<leftarrow> el_lock e;
          w \<leftarrow> mutex_lock R l w;
          e \<leftarrow> els w h;
          l \<leftarrow> el_lock e;
          Some ((ESP_OK, Some (el_info e)), xSemaphoreGive R l w)
        }
      | None \<Rightarrow> Some ((ESP_FAIL, None), w))"

section \<open>Ring buffers\<close>

text \<open>\<open>for (i = 0; i < NUMBER_OF_MULTI_RINGBUF; ++i) if (rbs[i]) ret |= op(rbs[i]);\<close>\<close>

fun multi_rb_do ::
  "(rb_handle option \<Rightarrow> 'w \<Rightarrow> (esp_err \<times> 'w) option) \<Rightarrow> rb_handle option list \<Rightarrow> esp_err \<Rightarrow> 'w
     \<Rightarrow> (esp_err \<times> 'w) option" where
  "multi_rb_do op [] ret w = Some (ret, w)"
| "multi_rb_do op (None # hs) ret w = multi_rb_do op hs ret w"
| "multi_rb_do op (Some h # hs) ret w = do {
     (err, w) \<leftarrow> op (Some h) w; multi_rb_do op hs (ret OR err) w }"

definition audio_element_reset_input_ringbuf :: "el_handle \<Rightarrow> 'z elw \<Rightarrow> (esp_err \<times> 'z elw) option" where
  "audio_element_reset_input_ringbuf el w = do {
     e \<leftarrow> els w el;
     if el_read_type e \<noteq> Some IO_TYPE_RB then Some (ESP_FAIL, w)
     else if el_in e = None then Some (ESP_OK, w)
     else do {
       (err, w) \<leftarrow> rb_reset (el_in e) w;
       e \<leftarrow> els w el;
       multi_rb_do rb_reset (el_multi_in_rb e) (ESP_OK OR err) w
     }
   }"

definition audio_element_reset_output_ringbuf :: "el_handle \<Rightarrow> 'z elw \<Rightarrow> (esp_err \<times> 'z elw) option" where
  "audio_element_reset_output_ringbuf el w = do {
     e \<leftarrow> els w el;
     if el_write_type e \<noteq> Some IO_TYPE_RB then Some (ESP_FAIL, w)
     else if el_out e = None then Some (ESP_OK, w)
     else do {
       (err, w) \<leftarrow> rb_reset (el_out e) w;
       e \<leftarrow> els w el;
       (_, w) \<leftarrow> (if el_enable_multi_io e then multi_rb_do rb_reset (el_multi_out_rb e) (ESP_OK OR err) w
                  else Some (ESP_OK OR err, w));
       Some (ESP_OK, w)
     }
   }"

definition audio_element_abort_input_ringbuf ::
  "'z elw platform \<Rightarrow> el_handle \<Rightarrow> 'z elw \<Rightarrow> (esp_err \<times> 'z elw) option" where
  "audio_element_abort_input_ringbuf R el w = do {
     e \<leftarrow> els w el;
     if el_read_type e \<noteq> Some IO_TYPE_RB then Some (ESP_FAIL, w)
     else if el_in e = None then Some (ESP_OK, w)
     else do {
       (err, w) \<leftarrow> rb_abort R (el_in e) w;
       e \<leftarrow> els w el;
       (_, w) \<leftarrow> (if el_enable_multi_io e then multi_rb_do (rb_abort R) (el_multi_in_rb e) (ESP_OK OR err) w
                  else Some (ESP_OK OR err, w));
       Some (ESP_OK, w)
     }
   }"

definition audio_element_abort_output_ringbuf ::
  "'z elw platform \<Rightarrow> el_handle \<Rightarrow> 'z elw \<Rightarrow> (esp_err \<times> 'z elw) option" where
  "audio_element_abort_output_ringbuf R el w = do {
     e \<leftarrow> els w el;
     if el_write_type e \<noteq> Some IO_TYPE_RB then Some (ESP_FAIL, w)
     else if el_out e = None then Some (ESP_OK, w)
     else do {
       (err, w) \<leftarrow> rb_abort R (el_out e) w;
       e \<leftarrow> els w el;
       (_, w) \<leftarrow> (if el_enable_multi_io e then multi_rb_do (rb_abort R) (el_multi_out_rb e) (ESP_OK OR err) w
                  else Some (ESP_OK OR err, w));
       Some (ESP_OK, w)
     }
   }"

definition audio_element_set_ringbuf_done ::
  "'z elw platform \<Rightarrow> el_handle option \<Rightarrow> 'z elw \<Rightarrow> (esp_err \<times> 'z elw) option" where
  "audio_element_set_ringbuf_done R el w =
     (case el of None \<Rightarrow> Some (ESP_FAIL, w)
      | Some h \<Rightarrow> do {
          e \<leftarrow> els w h;
          if el_out e \<noteq> None \<and> el_write_type e = Some IO_TYPE_RB then do {
            (err, w) \<leftarrow> rb_done_write R (el_out e) w;
            e \<leftarrow> els w h;
            if el_enable_multi_io e then multi_rb_do (rb_done_write R) (el_multi_out_rb e) (ESP_OK OR err) w
            else Some (ESP_OK OR err, w)
          } else Some (ESP_OK, w)
        })"

definition audio_element_set_input_ringbuf ::
  "el_handle \<Rightarrow> rb_handle option \<Rightarrow> 'z elw \<Rightarrow> (esp_err \<times> 'z elw) option" where
  "audio_element_set_input_ringbuf el rb w =
     (case rb of None \<Rightarrow> Some (ESP_OK, w)
      | Some _ \<Rightarrow> do {
          w \<leftarrow> el_upd el (\<lambda>e. e\<lparr>el_in := rb, el_read_type := Some IO_TYPE_RB\<rparr>) w; Some (ESP_OK, w) })"

definition audio_element_get_input_ringbuf :: "el_handle \<Rightarrow> 'z elw \<Rightarrow> rb_handle option option" where
  "audio_element_get_input_ringbuf el w = do {
     e \<leftarrow> els w el; Some (if el_read_type e = Some IO_TYPE_RB then el_in e else None) }"

definition audio_element_set_output_ringbuf ::
  "el_handle \<Rightarrow> rb_handle option \<Rightarrow> 'z elw \<Rightarrow> (esp_err \<times> 'z elw) option" where
  "audio_element_set_output_ringbuf el rb w =
     (case rb of None \<Rightarrow> Some (ESP_OK, w)
      | Some _ \<Rightarrow> do {
          w \<leftarrow> el_upd el (\<lambda>e. e\<lparr>el_out := rb, el_write_type := Some IO_TYPE_RB\<rparr>) w; Some (ESP_OK, w) })"

definition audio_element_get_output_ringbuf :: "el_handle \<Rightarrow> 'z elw \<Rightarrow> rb_handle option option" where
  "audio_element_get_output_ringbuf el w = do {
     e \<leftarrow> els w el; Some (if el_write_type e = Some IO_TYPE_RB then el_out e else None) }"

definition audio_element_set_input_timeout ::
  "el_handle option \<Rightarrow> tick \<Rightarrow> 'z elw \<Rightarrow> (esp_err \<times> 'z elw) option" where
  "audio_element_set_input_timeout el timeout w =
     (case el of None \<Rightarrow> Some (ESP_FAIL, w)
      | Some h \<Rightarrow> do { w \<leftarrow> el_upd h (\<lambda>e. e\<lparr>el_input_wait_time := timeout\<rparr>) w; Some (ESP_OK, w) })"

definition audio_element_set_output_timeout ::
  "el_handle option \<Rightarrow> tick \<Rightarrow> 'z elw \<Rightarrow> (esp_err \<times> 'z elw) option" where
  "audio_element_set_output_timeout el timeout w =
     (case el of None \<Rightarrow> Some (ESP_FAIL, w)
      | Some h \<Rightarrow> do { w \<leftarrow> el_upd h (\<lambda>e. e\<lparr>el_output_wait_time := timeout\<rparr>) w; Some (ESP_OK, w) })"

definition audio_element_get_output_ringbuf_size :: "el_handle option \<Rightarrow> 'z elw \<Rightarrow> int option" where
  "audio_element_get_output_ringbuf_size el w =
     (case el of None \<Rightarrow> Some 0 | Some h \<Rightarrow> do { e \<leftarrow> els w h; Some (el_out_rb_size e) })"

definition audio_element_set_read_cb ::
  "el_handle option \<Rightarrow> fnptr option \<Rightarrow> addr \<Rightarrow> 'z elw \<Rightarrow> (esp_err \<times> 'z elw) option" where
  "audio_element_set_read_cb el fn context w =
     (case el of None \<Rightarrow> Some (ESP_FAIL, w)
      | Some h \<Rightarrow> do {
          w \<leftarrow> el_upd h (\<lambda>e. e\<lparr>el_in := fn, el_in_ctx := context, el_read_type := Some IO_TYPE_CB\<rparr>) w;
          Some (ESP_OK, w)
        })"

definition audio_element_set_write_cb ::
  "el_handle option \<Rightarrow> fnptr option \<Rightarrow> addr \<Rightarrow> 'z elw \<Rightarrow> (esp_err \<times> 'z elw) option" where
  "audio_element_set_write_cb el fn context w =
     (case el of None \<Rightarrow> Some (ESP_FAIL, w)
      | Some h \<Rightarrow> do {
          w \<leftarrow> el_upd h (\<lambda>e. e\<lparr>el_out := fn, el_out_ctx := context, el_write_type := Some IO_TYPE_CB\<rparr>) w;
          Some (ESP_OK, w)
        })"

definition audio_element_wait_for_stop ::
  "'z elw platform \<Rightarrow> el_handle \<Rightarrow> 'z elw \<Rightarrow> (esp_err \<times> 'z elw) option" where
  "audio_element_wait_for_stop R el w = do {
     (hit, w) \<leftarrow> el_wait_bits R el STOPPED_BIT (DEFAULT_MAX_WAIT_TIME R) w;
     Some (if hit then ESP_OK else ESP_FAIL, w)
   }"

definition audio_element_wait_for_buffer ::
  "'z elw platform \<Rightarrow> el_handle \<Rightarrow> int \<Rightarrow> tick \<Rightarrow> 'z elw \<Rightarrow> (esp_err \<times> 'z elw) option" where
  "audio_element_wait_for_buffer R el size_expect timeout w = do {
     w \<leftarrow> el_upd el (\<lambda>e. e\<lparr>el_out_buf_size_expect := size_expect\<rparr>) w;
     e \<leftarrow> els w el;
     if el_out e = None then Some (ESP_FAIL, w) else do {
       w \<leftarrow> el_clear_bits R el BUFFER_REACH_LEVEL_BIT w;
       (hit, w) \<leftarrow> el_wait_bits R el BUFFER_REACH_LEVEL_BIT timeout w;
       Some (if hit then ESP_OK else ESP_FAIL, w)
     }
   }"

section \<open>Control operations\<close>

definition audio_element_resume ::
  "'z elw platform \<Rightarrow> el_handle \<Rightarrow> f32 \<Rightarrow> tick \<Rightarrow> 'z elw \<Rightarrow> (esp_err \<times> 'z elw) option" where
  "audio_element_resume R el wait_for_rb_threshold timeout w = do {
     e \<leftarrow> els w el;
     if \<not> el_task_run e then Some (ESP_FAIL, w)
     else if el_is_running e \<or> el_state e = AEL_STATE_RUNNING then Some (ESP_OK, w)
     else if el_task_stack e \<le> 0 then do {
       w \<leftarrow> el_upd el (\<lambda>e. e\<lparr>el_is_running := True\<rparr>) w;
       (_, w) \<leftarrow> audio_element_force_set_state el AEL_STATE_RUNNING w;
       Some (ESP_OK, w)
     }
     else if el_state e = AEL_STATE_ERROR then Some (ESP_FAIL, w)
     else if el_state e = AEL_STATE_FINISHED then Some (ESP_OK, w)
     else if f32_gt_1 wait_for_rb_threshold \<or> f32_lt_0 wait_for_rb_threshold then Some (ESP_FAIL, w)
     else do {
       (_, w) \<leftarrow> audio_element_cmd_send R el AEL_MSG_CMD_RESUME w;
       e \<leftarrow> els w el;
       if \<not> f32_eq_0 wait_for_rb_threshold \<and> el_read_type e = Some IO_TYPE_RB then do {
         n \<leftarrow> rb_get_size (el_in e) w;
         audio_element_wait_for_buffer R el
           (f32_to_int (f32_mul (f32_of_int n) wait_for_rb_threshold)) timeout w
       } else Some (ESP_OK, w)
     }
   }"

definition audio_element_stop ::
  "'z elw platform \<Rightarrow> el_handle \<Rightarrow> 'z elw \<Rightarrow> (esp_err \<times> 'z elw) option" where
  "audio_element_stop R el w = do {
     e \<leftarrow> els w el;
     if \<not> el_task_run e then Some (ESP_FAIL, w)
     else if el_task_stack e \<le> 0 then do {
       w \<leftarrow> el_upd el (\<lambda>e. e\<lparr>el_is_running := False\<rparr>) w;
       w \<leftarrow> el_set_bits R el STOPPED_BIT w;
       Some (ESP_OK, w)
     }
     else if el_state e = AEL_STATE_STOPPED then Some (ESP_OK, w)
     else do {
       (err, w) \<leftarrow> audio_element_cmd_send R el AEL_MSG_CMD_STOP w;
       Some (if err \<noteq> ESP_OK then ESP_FAIL else ESP_OK, w)
     }
   }"

definition audio_element_pause ::
  "'z elw platform \<Rightarrow> el_handle \<Rightarrow> 'z elw \<Rightarrow> (esp_err \<times> 'z elw) option" where
  "audio_element_pause R el w = do {
     e \<leftarrow> els w el;
     if \<not> el_task_run e then Some (ESP_FAIL, w)
     else if AEL_STATE_PAUSED \<le> el_state e then Some (ESP_OK, w)
     else do {
       w \<leftarrow> el_clear_bits R el PAUSED_BIT w;
       e \<leftarrow> els w el;
       if el_task_stack e \<le> 0 then do {
         w \<leftarrow> el_upd el (\<lambda>e. e\<lparr>el_is_running := False\<rparr>) w;
         (_, w) \<leftarrow> audio_element_force_set_state el AEL_STATE_PAUSED w;
         Some (ESP_OK, w)
       } else do {
         (err, w) \<leftarrow> audio_element_cmd_send R el AEL_MSG_CMD_PAUSE w;
         if err \<noteq> ESP_OK then Some (ESP_FAIL, w) else do {
           (hit, w) \<leftarrow> el_wait_bits R el PAUSED_BIT (DEFAULT_MAX_WAIT_TIME R) w;
           Some (if hit then ESP_OK else ESP_FAIL, w)
         }
       }
     }
   }"

definition audio_element_terminate ::
  "'z elw platform \<Rightarrow> el_handle \<Rightarrow> 'z elw \<Rightarrow> (esp_err \<times> 'z elw) option" where
  "audio_element_terminate R el w = do {
     e \<leftarrow> els w el;
     if \<not> el_task_run e then Some (ESP_OK, w)
     else if el_task_stack e \<le> 0 then do {
       w \<leftarrow> el_upd el (\<lambda>e. e\<lparr>el_task_run := False, el_is_running := False\<rparr>) w;
       Some (ESP_OK, w)
     } else do {
       w \<leftarrow> el_clear_bits R el TASK_DESTROYED_BIT w;
       (err, w) \<leftarrow> audio_element_cmd_send R el AEL_MSG_CMD_DESTROY w;
       if err \<noteq> ESP_OK then Some (ESP_FAIL, w) else do {
         (hit, w) \<leftarrow> el_wait_bits R el TASK_DESTROYED_BIT (DEFAULT_MAX_WAIT_TIME R) w;
         Some (if hit then ESP_OK else ESP_FAIL, w)
       }
     }
   }"

definition audio_element_run ::
  "'z elw platform \<Rightarrow> el_handle \<Rightarrow> 'z elw \<Rightarrow> (esp_err \<times> 'z elw) option" where
  "audio_element_run R el w = do {
     e \<leftarrow> els w el;
     if el_task_run e then Some (ESP_OK, w) else do {
       i \<leftarrow> el_iface_event e;
       (_, w) \<leftarrow> audio_event_iface_discard R i w;
       w \<leftarrow> el_clear_bits R el TASK_CREATED_BIT w;
       w \<leftarrow> el_clear_bits R el STOPPED_BIT w;
       e \<leftarrow> els w el;
       if 0 < el_task_stack e then
         (let (ok, w) = xTaskCreate R el (el_task_stack e) (el_task_prio e) (el_task_core e) w in
          if \<not> ok then Some (ESP_FAIL, w) else do {
            (hit, w) \<leftarrow> el_wait_bits R el TASK_CREATED_BIT (DEFAULT_MAX_WAIT_TIME R) w;
            Some (if hit then ESP_OK else ESP_FAIL, w)
          })
       else do {
         w \<leftarrow> el_upd el (\<lambda>e. e\<lparr>el_task_run := True, el_is_running := True\<rparr>) w;
         (_, w) \<leftarrow> audio_element_force_set_state el AEL_STATE_RUNNING w;
         Some (ESP_FAIL, w)
       }
     }
   }"

section \<open>The command handler\<close>

definition audio_element_process_state_init ::
  "'z elw platform \<Rightarrow> el_handle \<Rightarrow> 'z elw \<Rightarrow> (esp_err \<times> 'z elw) option" where
  "audio_element_process_state_init R el w = do {
     e \<leftarrow> els w el;
     w \<leftarrow> el_upd el (\<lambda>e. e\<lparr>el_is_open := True\<rparr>) w;
     case el_open e of
       None \<Rightarrow> do { w \<leftarrow> el_set_bits R el STARTED_BIT w; Some (ESP_OK, w) }
     | Some f \<Rightarrow>
         (let (err, w) = call_io R f el w in
          if err = ESP_OK then do {
            (_, w) \<leftarrow> audio_element_force_set_state el AEL_STATE_RUNNING w;
            (_, w) \<leftarrow> audio_element_report_status R el AEL_STATUS_STATE_RUNNING w;
            w \<leftarrow> el_set_bits R el STARTED_BIT w;
            Some (ESP_OK, w)
          } else do {
            (_, w) \<leftarrow> audio_element_report_status R el AEL_STATUS_ERROR_OPEN w;
            (_, w) \<leftarrow> audio_element_cmd_send R el AEL_MSG_CMD_ERROR w;
            Some (ESP_FAIL, w)
          })
   }"

text \<open>\<open>if (el->is_open && el->close) { el->close(el); el->is_open = false; }\<close>\<close>

definition el_do_close :: "'z elw platform \<Rightarrow> el_handle \<Rightarrow> 'z elw \<Rightarrow> 'z elw option" where
  "el_do_close R el w = do {
     e \<leftarrow> els w el;
     case (el_is_open e, el_close e) of
       (True, Some f) \<Rightarrow> (let (_, w) = call_io R f el w in el_upd el (\<lambda>e. e\<lparr>el_is_open := False\<rparr>) w)
     | _ \<Rightarrow> Some w
   }"

text \<open>The cases of the handler's \<open>switch\<close>.\<close>

definition on_cmd_error :: "'z elw platform \<Rightarrow> el_handle \<Rightarrow> 'z elw \<Rightarrow> (esp_err \<times> 'z elw) option" where
  "on_cmd_error R el w = do {
     w \<leftarrow> el_do_close R el w;
     w \<leftarrow> el_upd el (\<lambda>e. e\<lparr>el_state := AEL_STATE_ERROR\<rparr>) w;
     w \<leftarrow> el_cmd_timeout el portMAX_DELAY w;
     (_, w) \<leftarrow> audio_element_abort_input_ringbuf R el w;
     (_, w) \<leftarrow> audio_element_abort_output_ringbuf R el w;
     w \<leftarrow> el_upd el (\<lambda>e. e\<lparr>el_is_running := False\<rparr>) w;
     w \<leftarrow> el_set_bits R el STOPPED_BIT w;
     Some (ESP_OK, w)
   }"

definition on_cmd_finish :: "'z elw platform \<Rightarrow> el_handle \<Rightarrow> 'z elw \<Rightarrow> (esp_err \<times> 'z elw) option" where
  "on_cmd_finish R el w = do {
     w \<leftarrow> el_do_close R el w;
     w \<leftarrow> el_upd el (\<lambda>e. e\<lparr>el_state := AEL_STATE_FINISHED\<rparr>) w;
     w \<leftarrow> el_cmd_timeout el portMAX_DELAY w;
     (_, w) \<leftarrow> audio_element_report_status R el AEL_STATUS_STATE_STOPPED w;
     w \<leftarrow> el_set_bits R el STOPPED_BIT w;
     w \<leftarrow> el_upd el (\<lambda>e. e\<lparr>el_is_running := False\<rparr>) w;
     Some (ESP_OK, w)
   }"

definition on_cmd_stop :: "'z elw platform \<Rightarrow> el_handle \<Rightarrow> 'z elw \<Rightarrow> (esp_err \<times> 'z elw) option" where
  "on_cmd_stop R el w = do {
     e \<leftarrow> els w el;
     if el_state e \<noteq> AEL_STATE_FINISHED \<and> el_state e \<noteq> AEL_STATE_STOPPED then do {
       w \<leftarrow> el_do_close R el w;
       (_, w) \<leftarrow> audio_element_abort_output_ringbuf R el w;
       (_, w) \<leftarrow> audio_element_abort_input_ringbuf R el w;
       w \<leftarrow> el_upd el (\<lambda>e. e\<lparr>el_state := AEL_STATE_STOPPED\<rparr>) w;
       w \<leftarrow> el_cmd_timeout el portMAX_DELAY w;
       (_, w) \<leftarrow> audio_element_report_status R el AEL_STATUS_STATE_STOPPED w;
       w \<leftarrow> el_set_bits R el STOPPED_BIT w;
       w \<leftarrow> el_upd el (\<lambda>e. e\<lparr>el_is_running := False\<rparr>) w;
       Some (ESP_OK, w)
     } else do {
       w \<leftarrow> el_upd el (\<lambda>e. e\<lparr>el_state := AEL_STATE_STOPPED\<rparr>) w;
       w \<leftarrow> el_set_bits R el STOPPED_BIT w;
       Some (ESP_OK, w)
     }
   }"

definition on_cmd_pause :: "'z elw platform \<Rightarrow> el_handle \<Rightarrow> 'z elw \<Rightarrow> (esp_err \<times> 'z elw) option" where
  "on_cmd_pause R el w = do {
     w \<leftarrow> el_upd el (\<lambda>e. e\<lparr>el_state := AEL_STATE_PAUSED\<rparr>) w;
     w \<leftarrow> el_do_close R el w;
     w \<leftarrow> el_cmd_timeout el portMAX_DELAY w;
     (_, w) \<leftarrow> audio_element_report_status R el AEL_STATUS_STATE_PAUSED w;
     w \<leftarrow> el_upd el (\<lambda>e. e\<lparr>el_is_running := False\<rparr>) w;
     w \<leftarrow> el_set_bits R el PAUSED_BIT w;
     Some (ESP_OK, w)
   }"

definition on_cmd_resume :: "'z elw platform \<Rightarrow> el_handle \<Rightarrow> 'z elw \<Rightarrow> (esp_err \<times> 'z elw) option" where
  "on_cmd_resume R el w = do {
     e \<leftarrow> els w el;
     if el_state e = AEL_STATE_RUNNING then do {
       w \<leftarrow> el_upd el (\<lambda>e. e\<lparr>el_is_running := True\<rparr>) w;
       Some (ESP_OK, w)
     } else do {
       (_, w) \<leftarrow> (if el_state e \<noteq> AEL_STATE_INIT \<and> el_state e \<noteq> AEL_STATE_RUNNING
                     \<and> el_state e \<noteq> AEL_STATE_PAUSED
                  then audio_element_reset_output_ringbuf el w else Some (ESP_OK, w));
       (err, w) \<leftarrow> audio_element_process_state_init R el w;
       if err \<noteq> ESP_OK then do {
         (_, w) \<leftarrow> audio_element_abort_output_ringbuf R el w;
         (_, w) \<leftarrow> audio_element_abort_input_ringbuf R el w;
         Some (ESP_FAIL, w)
       } else do {
         w \<leftarrow> el_cmd_timeout el 0 w;
         w \<leftarrow> el_clear_bits R el STOPPED_BIT w;
         w \<leftarrow> el_upd el (\<lambda>e. e\<lparr>el_is_running := True\<rparr>) w;
         Some (ESP_OK, w)
       }
     }
   }"

definition on_cmd_destroy :: "el_handle \<Rightarrow> 'z elw \<Rightarrow> (esp_err \<times> 'z elw) option" where
  "on_cmd_destroy el w = do {
     w \<leftarrow> el_upd el (\<lambda>e. e\<lparr>el_task_run := False, el_is_running := False\<rparr>) w;
     Some (ESP_FAIL, w)
   }"

definition audio_element_on_cmd ::
  "'z elw platform \<Rightarrow> audio_event_iface_msg \<Rightarrow> addr \<Rightarrow> 'z elw \<Rightarrow> (esp_err \<times> 'z elw) option" where
  "audio_element_on_cmd R msg context w =
     (if msg_source_type msg \<noteq> AUDIO_ELEMENT_TYPE_ELEMENT then Some (ESP_FAIL, w)
      else if msg_cmd msg = AEL_MSG_CMD_ERROR then on_cmd_error R context w
      else if msg_cmd msg = AEL_MSG_CMD_FINISH then on_cmd_finish R context w
      else if msg_cmd msg = AEL_MSG_CMD_STOP then on_cmd_stop R context w
      else if msg_cmd msg = AEL_MSG_CMD_PAUSE then on_cmd_pause R context w
      else if msg_cmd msg = AEL_MSG_CMD_RESUME then on_cmd_resume R context w
      else if msg_cmd msg = AEL_MSG_CMD_DESTROY then on_cmd_destroy context w
      else Some (ESP_OK, w))"

section \<open>Input, output and processing\<close>

definition audio_element_input ::
  "'z elw platform \<Rightarrow> el_handle \<Rightarrow> int \<Rightarrow> 'z elw \<Rightarrow> ((int \<times> u8 list) \<times> 'z elw) option" where
  "audio_element_input R el wanted_size w = do {
     e \<leftarrow> els w el;
     case (el_read_type e, el_in e) of
       (None, _) \<Rightarrow> Some ((ESP_FAIL, []), w)
     | (Some _, None) \<Rightarrow> Some ((ESP_FAIL, []), w)
     | (Some ty, Some p) \<Rightarrow> do {
         ((in_len, data), w) \<leftarrow> (case ty of
            IO_TYPE_CB \<Rightarrow> Some (call_read R p el wanted_size (el_input_wait_time e) (el_in_ctx e) w)
          | IO_TYPE_RB \<Rightarrow> rb_read R (Some p) True (word_of_int wanted_size) (el_input_wait_time e) w);
         w \<leftarrow>
          (if 0 < in_len then Some w
           else if in_len = AEL_IO_ABORT then do {
             (_, w) \<leftarrow> audio_element_set_ringbuf_done R (Some el) w;
             (_, w) \<leftarrow> audio_element_stop R el w;
             Some w
           }
           else if in_len = AEL_IO_DONE \<or> in_len = AEL_IO_OK then Some w
           else if in_len = AEL_IO_FAIL then do {
             (_, w) \<leftarrow> audio_element_report_status R el AEL_STATUS_ERROR_INPUT w;
             (_, w) \<leftarrow> audio_element_cmd_send R el AEL_MSG_CMD_ERROR w;
             Some w
           }
           else if in_len = AEL_IO_TIMEOUT then Some w
           else do { (_, w) \<leftarrow> audio_element_cmd_send R el AEL_MSG_CMD_PAUSE w; Some w });
         Some ((in_len, data), w)
       }
   }"

definition audio_element_output ::
  "'z elw platform \<Rightarrow> el_handle \<Rightarrow> u8 list \<Rightarrow> int \<Rightarrow> 'z elw \<Rightarrow> (int \<times> 'z elw) option" where
  "audio_element_output R el buffer write_size w = do {
     e \<leftarrow> els w el;
     (output_len, w) \<leftarrow> (case (el_write_type e, el_out e) of
        (Some IO_TYPE_CB, Some f) \<Rightarrow>
          if write_size \<noteq> 0
          then Some (call_write R f el buffer write_size (el_output_wait_time e) (el_out_ctx e) w)
          else Some (0, w)
      | (Some IO_TYPE_RB, Some h) \<Rightarrow>
          if write_size \<noteq> 0 then do {
            (n, w) \<leftarrow> rb_write R (Some h) (Some buffer) (word_of_int write_size) (el_output_wait_time e) w;
            e \<leftarrow> els w el;
            h \<leftarrow> el_out e;
            b \<leftarrow> rbs w h;
            w \<leftarrow> (if sint (rb_bytes_filled b) > el_out_buf_size_expect e \<or> n < 0
                  then el_set_bits R el BUFFER_REACH_LEVEL_BIT w else Some w);
            Some (n, w)
          } else Some (0, w)
      | _ \<Rightarrow> Some (0, w));
     w \<leftarrow>
      (if 0 < output_len then Some w
       else if output_len = AEL_IO_ABORT then do {
         (_, w) \<leftarrow> audio_element_set_ringbuf_done R (Some el) w;
         (_, w) \<leftarrow> audio_element_stop R el w;
         Some w
       }
       else if output_len = AEL_IO_DONE \<or> output_len = AEL_IO_OK then Some w
       else if output_len = AEL_IO_FAIL then do {
         (_, w) \<leftarrow> audio_element_report_status R el AEL_STATUS_ERROR_OUTPUT w;
         (_, w) \<leftarrow> audio_element_cmd_send R el AEL_MSG_CMD_ERROR w;
         Some w
       }
       else do { (_, w) \<leftarrow> audio_element_cmd_send R el AEL_MSG_CMD_PAUSE w; Some w });
     Some (output_len, w)
   }"

definition audio_element_process_state_running ::
  "'z elw platform \<Rightarrow> el_handle \<Rightarrow> 'z elw \<Rightarrow> (esp_err \<times> 'z elw) option" where
  "audio_element_process_state_running R el w = do {
     e \<leftarrow> els w el;
     if el_state e < AEL_STATE_RUNNING \<or> \<not> el_is_open e then Some (ESP_ERR_INVALID_STATE, w)
     else do {
       f \<leftarrow> el_process e;
       let (process_len, w) = call_process R f el (el_buf e) (el_buf_size e) w;
       if process_len = AEL_IO_DONE \<or> process_len = AEL_IO_OK then do {
         st \<leftarrow> audio_element_get_state el w;
         if st = AEL_STATE_INIT then do {
           w \<leftarrow> el_upd el (\<lambda>e. e\<lparr>el_is_open := False, el_is_running := False\<rparr>) w;
           (_, w) \<leftarrow> audio_element_resume R el f32_zero 0 w;
           Some (ESP_OK, w)
         } else do {
           (_, w) \<leftarrow> audio_element_set_ringbuf_done R (Some el) w;
           (_, w) \<leftarrow> audio_element_cmd_send R el AEL_MSG_CMD_FINISH w;
           Some (ESP_OK, w)
         }
       }
       else if process_len = AEL_IO_FAIL \<or> process_len = AEL_PROCESS_FAIL then do {
         (_, w) \<leftarrow> audio_element_report_status R el AEL_STATUS_ERROR_PROCESS w;
         (_, w) \<leftarrow> audio_element_cmd_send R el AEL_MSG_CMD_ERROR w;
         Some (ESP_OK, w)
       }
       else Some (ESP_OK, w)
     }
   }"

section \<open>The element task\<close>

text \<open>The code address of \<open>audio_element_on_cmd\<close>, which \<open>audio_element_init\<close> stores in the event interface;
  every other address is a handler of the application.\<close>

definition audio_element_on_cmd_ptr :: fnptr where "audio_element_on_cmd_ptr = 1"

definition el_call_cmd ::
  "'z elw platform \<Rightarrow> fnptr \<Rightarrow> audio_event_iface_msg \<Rightarrow> addr \<Rightarrow> 'z elw \<Rightarrow> (esp_err \<times> 'z elw) option" where
  "el_call_cmd R f msg ctx w =
     (if f = audio_element_on_cmd_ptr then audio_element_on_cmd R msg ctx w
      else Some (call_cmd R f msg ctx w))"

text \<open>One pass of the task's loop: \<open>Inl\<close> when the loop ends.\<close>

definition el_task_iter :: "'z elw platform \<Rightarrow> el_handle \<Rightarrow> 'z elw \<Rightarrow> ('z elw + 'z elw) option" where
  "el_task_iter R el w = do {
     e \<leftarrow> els w el;
     if \<not> el_task_run e then Some (Inl w) else do {
       i \<leftarrow> el_iface_event e;
       (err, w) \<leftarrow> audio_event_iface_waiting_cmd_msg R (el_call_cmd R) i w;
       if err \<noteq> ESP_OK then Some (Inl w) else do {
         (_, w) \<leftarrow> audio_element_process_state_running R el w;
         Some (Inr w)
       }
     }
   }"

partial_function (option) el_task_loop :: "'z elw platform \<Rightarrow> el_handle \<Rightarrow> 'z elw \<Rightarrow> 'z elw option" where
  "el_task_loop R el w = do {
     r \<leftarrow> el_task_iter R el w;
     case r of Inl w \<Rightarrow> Some w | Inr w \<Rightarrow> el_task_loop R el w
   }"

definition el_task_start :: "'z elw platform \<Rightarrow> el_handle \<Rightarrow> 'z elw \<Rightarrow> 'z elw option" where
  "el_task_start R el w = do {
     w \<leftarrow> el_upd el (\<lambda>e. e\<lparr>el_task_run := True\<rparr>) w;
     w \<leftarrow> el_set_bits R el TASK_CREATED_BIT w;
     (_, w) \<leftarrow> audio_element_force_set_state el AEL_STATE_INIT w;
     w \<leftarrow> el_cmd_timeout el portMAX_DELAY w;
     e \<leftarrow> els w el;
     w \<leftarrow> (if 0 < el_buf_size e then
             (let (p, w) = heap_alloc R (nat (el_buf_size e)) w in do {
                w \<leftarrow> el_upd el (\<lambda>e. e\<lparr>el_buf := p\<rparr>) w;
                if p = None then el_upd el (\<lambda>e. e\<lparr>el_task_run := False\<rparr>) w else Some w
              })
           else Some w);
     el_clear_bits R el STOPPED_BIT w
   }"

definition el_task_end :: "'z elw platform \<Rightarrow> el_handle \<Rightarrow> 'z elw \<Rightarrow> 'z elw option" where
  "el_task_end R el w = do {
     w \<leftarrow> el_do_close R el w;
     w \<leftarrow> el_set_bits R el TASK_DESTROYED_BIT w;
     el_upd el (\<lambda>e. e\<lparr>el_task_run := False\<rparr>) w
   }"

definition audio_element_task :: "'z elw platform \<Rightarrow> el_handle \<Rightarrow> 'z elw \<Rightarrow> 'z elw option" where
  "audio_element_task R el w = do {
     w \<leftarrow> el_task_start R el w;
     w \<leftarrow> el_task_loop R el w;
     el_task_end R el w
   }"

section \<open>Creation and destruction\<close>

text \<open>The fields \<open>audio_element_init\<close> takes from the configuration; \<open>config->seek\<close> is not among them.\<close>

definition el_configure :: "audio_element_cfg \<Rightarrow> audio_element \<Rightarrow> audio_element" where
  "el_configure c e = e\<lparr>
     el_open := cfg_open c, el_process := cfg_process c, el_close := cfg_close c,
     el_destroy := cfg_destroy c, el_enable_multi_io := cfg_enable_multi_io c,
     el_task_stack := (if 0 < cfg_task_stack c then cfg_task_stack c else el_task_stack e),
     el_task_prio := (if cfg_task_prio c \<noteq> 0 then cfg_task_prio c else 5),
     el_task_core := (if cfg_task_core c \<noteq> 0 then cfg_task_core c else 0),
     el_out_rb_size := (if 0 < cfg_out_rb_size c then cfg_out_rb_size c else 8 * 1024),
     el_data := cfg_data c, el_state := AEL_STATE_INIT, el_buf_size := cfg_buffer_len c\<rparr>"

definition el_configure_io :: "audio_element_cfg \<Rightarrow> audio_element \<Rightarrow> audio_element" where
  "el_configure_io c e =
     (let e = (case cfg_read c of None \<Rightarrow> e\<lparr>el_read_type := Some IO_TYPE_RB\<rparr>
               | Some f \<Rightarrow> e\<lparr>el_read_type := Some IO_TYPE_CB, el_in := Some f\<rparr>);
          e = (case cfg_write c of None \<Rightarrow> e\<lparr>el_write_type := Some IO_TYPE_RB\<rparr>
               | Some f \<Rightarrow> e\<lparr>el_write_type := Some IO_TYPE_CB, el_out := Some f\<rparr>) in
      e\<lparr>el_events_type := Some EVENTS_TYPE_Q\<rparr>)"

definition el_init_failed ::
  "'z elw platform \<Rightarrow> el_handle \<Rightarrow> 'z elw \<Rightarrow> (el_handle option \<times> 'z elw) option" where
  "el_init_failed R el w = do {
     e \<leftarrow> els w el;
     let w = (case el_lock e of None \<Rightarrow> w | Some l \<Rightarrow> vSemaphoreDelete R l w);
     let w = (case el_state_event e of None \<Rightarrow> w | Some g \<Rightarrow> vEventGroupDelete R g w);
     w \<leftarrow> (case el_iface_event e of None \<Rightarrow> Some w
           | Some i \<Rightarrow> do { (_, w) \<leftarrow> audio_event_iface_destroy R i w; Some w });
     w \<leftarrow> (if el_tag e = None then Some w
           else do { (_, w) \<leftarrow> audio_element_set_tag R el None w; Some w });
     (_, w) \<leftarrow> audio_element_set_uri R el None w;
     Some (None, w\<lparr>els := (els w)(el := None)\<rparr>)
   }"

definition audio_element_init ::
  "'z elw platform \<Rightarrow> audio_element_cfg \<Rightarrow> 'z elw \<Rightarrow> (el_handle option \<times> 'z elw) option" where
  "audio_element_init R config w =
     (case heap_alloc R 192 w of
        (None, w) \<Rightarrow> Some (None, w)
      | (Some el, w) \<Rightarrow> do {
          let w = w\<lparr>els := (els w)(el \<mapsto> el_zero)\<rparr>;
          let evt_cfg = AUDIO_EVENT_IFACE_DEFAULT_CFG\<lparr>ec_on_cmd := Some audio_element_on_cmd_ptr,
                          ec_context := el, ec_queue_set_size := 0\<rparr>;
          (err, w) \<leftarrow> audio_element_set_tag R el
             (Some (case cfg_tag config of Some t \<Rightarrow> t | None \<Rightarrow> ''unknown'')) w;
          if err \<noteq> ESP_OK then el_init_failed R el w else do {
          let (l, w) = xSemaphoreCreateMutex R w;
          w \<leftarrow> el_upd el (\<lambda>e. e\<lparr>el_lock := l\<rparr>) w;
          if l = None then el_init_failed R el w else do {
          (i, w) \<leftarrow> audio_event_iface_init R evt_cfg w;
          w \<leftarrow> el_upd el (\<lambda>e. e\<lparr>el_iface_event := i\<rparr>) w;
          if i = None then el_init_failed R el w else do {
          let (g, w) = xEventGroupCreate R w;
          w \<leftarrow> el_upd el (\<lambda>e. e\<lparr>el_state_event := g\<rparr>) w;
          if g = None then el_init_failed R el w else do {
          w \<leftarrow> el_upd el (el_configure config) w;
          (_, w) \<leftarrow> audio_element_setinfo R (Some el) (Some AUDIO_ELEMENT_INFO_DEFAULT) w;
          (_, w) \<leftarrow> audio_element_set_input_timeout (Some el) portMAX_DELAY w;
          (_, w) \<leftarrow> audio_element_set_output_timeout (Some el) portMAX_DELAY w;
          w \<leftarrow> el_upd el (el_configure_io config) w;
          Some (Some el, w)
          }}}}
        })"

definition audio_element_deinit ::
  "'z elw platform \<Rightarrow> el_handle \<Rightarrow> 'z elw \<Rightarrow> (esp_err \<times> 'z elw) option" where
  "audio_element_deinit R el w = do {
     (_, w) \<leftarrow> audio_element_stop R el w;
     (_, w) \<leftarrow> audio_element_wait_for_stop R el w;
     (_, w) \<leftarrow> audio_element_terminate R el w;
     e \<leftarrow> els w el;
     g \<leftarrow> el_state_event e;
     l \<leftarrow> el_lock e;
     i \<leftarrow> el_iface_event e;
     let w = vSemaphoreDelete R l (vEventGroupDelete R g w);
     (_, w) \<leftarrow> audio_event_iface_destroy R i w;
     e \<leftarrow> els w el;
     let w = (case el_destroy e of None \<Rightarrow> w | Some f \<Rightarrow> snd (call_io R f el w));
     (_, w) \<leftarrow> audio_element_set_tag R el None w;
     (_, w) \<leftarrow> audio_element_set_uri R el None w;
     Some (ESP_OK, w\<lparr>els := (els w)(el := None)\<rparr>)
   }"

section \<open>Additional ring buffers\<close>

text \<open>Reading \<open>multi_in_rb[index]\<close> outside the array is undefined; the code guards only the upper bound.\<close>

definition multi_get :: "'a list \<Rightarrow> int \<Rightarrow> 'a option" where
  "multi_get xs index = (if 0 \<le> index \<and> nat index < length xs then Some (xs ! nat index) else None)"

definition audio_element_multi_input ::
  "'z elw platform \<Rightarrow> el_handle \<Rightarrow> int \<Rightarrow> int \<Rightarrow> tick \<Rightarrow> 'z elw \<Rightarrow> ((int \<times> u8 list) \<times> 'z elw) option" where
  "audio_element_multi_input R el wanted_size index ticks_to_wait w =
     (if index \<ge> int NUMBER_OF_MULTI_RINGBUF then Some ((ESP_ERR_INVALID_ARG, []), w)
      else do {
        e \<leftarrow> els w el;
        if \<not> el_enable_multi_io e then Some ((ESP_OK, []), w) else do {
          rb \<leftarrow> multi_get (el_multi_in_rb e) index;
          if rb = None then Some ((ESP_OK, []), w)
          else rb_read R rb True (word_of_int wanted_size) ticks_to_wait w
        }
      })"

definition audio_element_multi_output ::
  "'z elw platform \<Rightarrow> el_handle \<Rightarrow> u8 list \<Rightarrow> int \<Rightarrow> tick \<Rightarrow> 'z elw \<Rightarrow> (esp_err \<times> 'z elw) option" where
  "audio_element_multi_output R el buffer wanted_size ticks_to_wait w = do {
     e \<leftarrow> els w el;
     if el_enable_multi_io e
     then multi_rb_do (\<lambda>rb. rb_write R rb (Some buffer) (word_of_int wanted_size) ticks_to_wait)
            (el_multi_out_rb e) ESP_OK w
     else Some (ESP_OK, w)
   }"

definition audio_element_set_multi_input_ringbuf ::
  "el_handle \<Rightarrow> rb_handle option \<Rightarrow> int \<Rightarrow> 'z elw \<Rightarrow> (esp_err \<times> 'z elw) option" where
  "audio_element_set_multi_input_ringbuf el rb index w =
     (if index < int NUMBER_OF_MULTI_RINGBUF \<and> rb \<noteq> None then do {
        e \<leftarrow> els w el;
        _ \<leftarrow> multi_get (el_multi_in_rb e) index;
        w \<leftarrow> el_upd el (\<lambda>e. e\<lparr>el_multi_in_rb := (el_multi_in_rb e)[nat index := rb]\<rparr>) w;
        Some (ESP_OK, w)
      } else Some (ESP_ERR_INVALID_ARG, w))"

definition audio_element_set_multi_output_ringbuf ::
  "el_handle \<Rightarrow> rb_handle option \<Rightarrow> int \<Rightarrow> 'z elw \<Rightarrow> (esp_err \<times> 'z elw) option" where
  "audio_element_set_multi_output_ringbuf el rb index w =
     (if index < int NUMBER_OF_MULTI_RINGBUF \<and> rb \<noteq> None then do {
        e \<leftarrow> els w el;
        _ \<leftarrow> multi_get (el_multi_out_rb e) index;
        w \<leftarrow> el_upd el (\<lambda>e. e\<lparr>el_multi_out_rb := (el_multi_out_rb e)[nat index := rb]\<rparr>) w;
        Some (ESP_OK, w)
      } else Some (ESP_ERR_INVALID_ARG, w))"

definition audio_element_get_multi_input_ringbuf ::
  "el_handle \<Rightarrow> int \<Rightarrow> 'z elw \<Rightarrow> rb_handle option option" where
  "audio_element_get_multi_input_ringbuf el index w =
     (if index < int NUMBER_OF_MULTI_RINGBUF then do { e \<leftarrow> els w el; multi_get (el_multi_in_rb e) index }
      else Some None)"

definition audio_element_get_multi_output_ringbuf ::
  "el_handle \<Rightarrow> int \<Rightarrow> 'z elw \<Rightarrow> rb_handle option option" where
  "audio_element_get_multi_output_ringbuf el index w =
     (if index < int NUMBER_OF_MULTI_RINGBUF then do { e \<leftarrow> els w el; multi_get (el_multi_out_rb e) index }
      else Some None)"

end
