(* ===== verification/Audio_Element_Correct.thy ===== *)
theory Audio_Element_Correct
  imports Audio_Element
begin

text \<open>
  The command handler of an audio element as a state machine: \<open>audio_element_on_cmd\<close> refines a small
  abstract machine on the element's control state, whatever its callbacks and the platform do to the
  rest of the state, and the invariants of that machine.

  The hypothesis on the platform and the callbacks is \<open>el_platform\<close>: they leave the control fields of
  the element, the event interfaces and the set of live ring buffers alone. They may change the
  element's info, data and tag, the contents of ring buffers, queues and event groups, and everything
  that belongs to other components.
\<close>

section \<open>The control view of an element\<close>

definition el_ctl :: "audio_element \<Rightarrow> audio_element" where
  "el_ctl e = e\<lparr>el_info := AUDIO_ELEMENT_INFO_ZERO, el_data := 0, el_tag := None\<rparr>"

lemma el_ctl_simps [simp]:
  "el_open (el_ctl e) = el_open e" "el_process (el_ctl e) = el_process e" "el_close (el_ctl e) = el_close e"
  "el_read_type (el_ctl e) = el_read_type e" "el_in (el_ctl e) = el_in e"
  "el_write_type (el_ctl e) = el_write_type e" "el_out (el_ctl e) = el_out e"
  "el_multi_in_rb (el_ctl e) = el_multi_in_rb e" "el_multi_out_rb (el_ctl e) = el_multi_out_rb e"
  "el_is_open (el_ctl e) = el_is_open e" "el_state (el_ctl e) = el_state e"
  "el_iface_event (el_ctl e) = el_iface_event e" "el_state_event (el_ctl e) = el_state_event e"
  "el_is_running (el_ctl e) = el_is_running e" "el_task_run (el_ctl e) = el_task_run e"
  "el_enable_multi_io (el_ctl e) = el_enable_multi_io e" "el_task_stack (el_ctl e) = el_task_stack e"
  by (simp_all add: el_ctl_def)

type_synonym el_view = "audio_element option \<times> (iface_handle \<Rightarrow> audio_event_iface option) \<times> rb_handle set"

definition el_view :: "el_handle \<Rightarrow> 'z elw \<Rightarrow> el_view" where
  "el_view el w = (map_option el_ctl (els w el), ifs w, dom (rbs w))"

text \<open>A view of an initialised element: its interface, event group and ring buffers are live.\<close>

definition rb_slot_ok :: "rb_handle set \<Rightarrow> io_type option \<Rightarrow> addr option \<Rightarrow> rb_handle option list \<Rightarrow> bool" where
  "rb_slot_ok D ty slot multi \<longleftrightarrow>
     (ty = Some IO_TYPE_RB \<longrightarrow> (\<forall>h. slot = Some h \<longrightarrow> h \<in> D)) \<and> (\<forall>h. Some h \<in> set multi \<longrightarrow> h \<in> D)"

definition el_ok :: "audio_element \<Rightarrow> (iface_handle \<Rightarrow> audio_event_iface option) \<Rightarrow> rb_handle set \<Rightarrow> bool" where
  "el_ok e f D \<longleftrightarrow> (\<exists>i. el_iface_event e = Some i \<and> i \<in> dom f) \<and> el_state_event e \<noteq> None \<and>
     rb_slot_ok D (el_read_type e) (el_in e) (el_multi_in_rb e) \<and>
     rb_slot_ok D (el_write_type e) (el_out e) (el_multi_out_rb e)"

definition wf_view :: "el_view \<Rightarrow> bool" where
  "wf_view v = (case v of (c, f, D) \<Rightarrow> (case c of None \<Rightarrow> False | Some e \<Rightarrow> el_ok e f D))"

lemma el_ok_ctl [simp]: "el_ok (el_ctl e) f D = el_ok e f D"
  by (simp add: el_ok_def)

lemma wf_viewE:
  assumes "wf_view (el_view el w)"
  obtains e i v g where "els w el = Some e" "el_iface_event e = Some i" "ifs w i = Some v"
    "el_state_event e = Some g" "el_ok e (ifs w) (dom (rbs w))"
proof -
  obtain e where e: "els w el = Some e" "el_ok e (ifs w) (dom (rbs w))"
    using assms by (auto simp: wf_view_def el_view_def split: option.splits)
  then obtain i v g where "el_iface_event e = Some i" "ifs w i = Some v" "el_state_event e = Some g"
    by (auto simp: el_ok_def)
  with e show ?thesis by (intro that)
qed

text \<open>\<open>quiet el f\<close>: \<open>f\<close> leaves the control view alone.\<close>

definition quiet :: "el_handle \<Rightarrow> ('z elw \<Rightarrow> 'z elw) \<Rightarrow> bool" where
  "quiet el f \<longleftrightarrow> (\<forall>w. el_view el (f w) = el_view el w)"

definition el_platform :: "'z elw platform \<Rightarrow> el_handle \<Rightarrow> bool" where
  "el_platform R el \<longleftrightarrow>
     (\<forall>g b. quiet el (xEventGroupSetBits R g b)) \<and> (\<forall>g b. quiet el (xEventGroupClearBits R g b)) \<and>
     (\<forall>q m. quiet el (\<lambda>w. snd (xQueueSend R q m w))) \<and> (\<forall>s. quiet el (xSemaphoreGive R s)) \<and>
     (\<forall>f m c. quiet el (\<lambda>w. snd (call_event R f el m c w))) \<and>
     (\<forall>f. quiet el (\<lambda>w. snd (call_io R f el w)))"

lemma platform_quiet:
  assumes "el_platform R el"
  shows "el_view el (xEventGroupSetBits R g b w) = el_view el w"
    and "el_view el (xEventGroupClearBits R g b w) = el_view el w"
    and "el_view el (snd (xQueueSend R q m w)) = el_view el w"
    and "el_view el (xSemaphoreGive R s w) = el_view el w"
    and "el_view el (snd (call_event R f el m c w)) = el_view el w"
    and "el_view el (snd (call_io R f el w)) = el_view el w"
  using assms by (simp_all add: el_platform_def quiet_def)

section \<open>Effects of operations on the view\<close>

text \<open>\<open>acts el op F\<close>: on an initialised element \<open>op\<close> returns, and its effect on the view is \<open>F\<close>.\<close>

definition acts :: "el_handle \<Rightarrow> ('z elw \<Rightarrow> 'z elw option) \<Rightarrow> (el_view \<Rightarrow> el_view) \<Rightarrow> bool" where
  "acts el op F \<longleftrightarrow>
     (\<forall>w. wf_view (el_view el w) \<longrightarrow>
        (\<exists>w'. op w = Some w' \<and> el_view el w' = F (el_view el w) \<and> wf_view (F (el_view el w))))"

lemma actsI:
  assumes "\<And>w. wf_view (el_view el w) \<Longrightarrow>
     \<exists>w'. op w = Some w' \<and> el_view el w' = F (el_view el w) \<and> wf_view (F (el_view el w))"
  shows "acts el op F"
  using assms by (simp add: acts_def)

definition run :: "(esp_err \<times> 'w) option \<Rightarrow> 'w option" where
  "run r = map_option snd r"

lemma run_Some [simp]: "run (Some (e, w)) = Some w"
  by (simp add: run_def)

lemma actsD:
  "acts el op F \<Longrightarrow> wf_view (el_view el w) \<Longrightarrow>
   \<exists>w'. op w = Some w' \<and> el_view el w' = F (el_view el w) \<and> wf_view (el_view el w')"
  by (fastforce simp: acts_def)

lemma acts_runD:
  "acts el (\<lambda>w. run (op w)) F \<Longrightarrow> wf_view (el_view el w) \<Longrightarrow>
   \<exists>err w'. op w = Some (err, w') \<and> el_view el w' = F (el_view el w) \<and> wf_view (el_view el w')"
  by (drule (1) actsD) (auto simp: run_def)

lemma acts_seq:
  assumes "acts el f F" "acts el (\<lambda>w. run (g w)) G"
  shows "acts el (\<lambda>w. run (f w \<bind> g)) (G \<circ> F)"
proof (rule actsI, goal_cases)
  case wf: (1 w)
  from actsD[OF assms(1) wf] obtain w1 where
    "f w = Some w1" "el_view el w1 = F (el_view el w)" "wf_view (el_view el w1)" by blast
  moreover from acts_runD[OF assms(2) this(3)] obtain err w2 where
    "g w1 = Some (err, w2)" "el_view el w2 = G (el_view el w1)" "wf_view (el_view el w2)" by blast
  ultimately show "\<exists>w'. run (f w \<bind> g) = Some w' \<and>
      el_view el w' = (G \<circ> F) (el_view el w) \<and> wf_view ((G \<circ> F) (el_view el w))" by auto
qed

lemma acts_seq_run:
  assumes "acts el (\<lambda>w. run (f w)) F" "acts el (\<lambda>w. run (g w)) G"
  shows "acts el (\<lambda>w. run (f w \<bind> (\<lambda>(_, w). g w))) (G \<circ> F)"
proof (rule actsI, goal_cases)
  case wf: (1 w)
  from acts_runD[OF assms(1) wf] obtain e1 w1 where
    "f w = Some (e1, w1)" "el_view el w1 = F (el_view el w)" "wf_view (el_view el w1)" by blast
  moreover from acts_runD[OF assms(2) this(3)] obtain err w2 where
    "g w1 = Some (err, w2)" "el_view el w2 = G (el_view el w1)" "wf_view (el_view el w2)" by blast
  ultimately show "\<exists>w'. run (f w \<bind> (\<lambda>(_, w). g w)) = Some w' \<and>
      el_view el w' = (G \<circ> F) (el_view el w) \<and> wf_view ((G \<circ> F) (el_view el w))" by auto
qed

lemma acts_return: "acts el (\<lambda>w. run (Some (r, w))) id"
  by (simp add: acts_def)

text \<open>Effects: writing control fields, and setting the interface's waiting time.\<close>

definition on_ctl :: "(audio_element \<Rightarrow> audio_element) \<Rightarrow> el_view \<Rightarrow> el_view" where
  "on_ctl f v = (case v of (c, i, D) \<Rightarrow> (map_option f c, i, D))"

definition set_wait :: "tick \<Rightarrow> el_view \<Rightarrow> el_view" where
  "set_wait t v = (case v of (c, f, D) \<Rightarrow> (c, (case c of None \<Rightarrow> f | Some e \<Rightarrow> (case el_iface_event e of
      None \<Rightarrow> f | Some i \<Rightarrow> f(i := map_option (\<lambda>v. v\<lparr>ev_wait_time := t\<rparr>) (f i)))), D))"

lemma acts_upd:
  assumes "\<And>e. el_ctl (f e) = f (el_ctl e)" "\<And>e F D. el_ok (f e) F D = el_ok e F D"
  shows "acts el (el_upd el f) (on_ctl f)"
proof (rule actsI, goal_cases)
  case wf: (1 w)
  then obtain e where e: "els w el = Some e" by (rule wf_viewE)
  then show "\<exists>w'. el_upd el f w = Some w' \<and> el_view el w' = on_ctl f (el_view el w) \<and>
      wf_view (on_ctl f (el_view el w))"
    using wf assms by (auto simp: el_view_def on_ctl_def wf_view_def simp flip: assms(1))
qed

lemma acts_quiet:
  assumes "\<And>e g w. els w el = Some e \<Longrightarrow> el_state_event e = Some g \<Longrightarrow> op w = Some (h g w)"
    "\<And>g w. el_view el (h g w) = el_view el w"
  shows "acts el op id"
  unfolding acts_def by (metis assms id_apply wf_viewE)

lemma acts_set_bits: "el_platform R el \<Longrightarrow> acts el (el_set_bits R el b) id"
  by (rule acts_quiet[where h = "\<lambda>g. xEventGroupSetBits R g b"]) (auto simp: el_set_bits_def platform_quiet)

lemma acts_clear_bits: "el_platform R el \<Longrightarrow> acts el (el_clear_bits R el b) id"
  by (rule acts_quiet[where h = "\<lambda>g. xEventGroupClearBits R g b"]) (auto simp: el_clear_bits_def platform_quiet)

lemma acts_timeout: "acts el (el_cmd_timeout el t) (set_wait t)"
proof (rule actsI, goal_cases)
  case wf: (1 w)
  then obtain e i v g where e: "els w el = Some e" "el_iface_event e = Some i" "ifs w i = Some v"
    "el_ok e (ifs w) (dom (rbs w))" by (rule wf_viewE)
  then show "\<exists>w'. el_cmd_timeout el t w = Some w' \<and> el_view el w' = set_wait t (el_view el w) \<and>
      wf_view (set_wait t (el_view el w))"
    by (auto simp: el_cmd_timeout_def audio_event_iface_set_cmd_waiting_timeout_def el_view_def set_wait_def
        wf_view_def el_ok_def)
qed

lemma acts_report:
  assumes "el_platform R el"
  shows "acts el (\<lambda>w. run (audio_element_report_status R el s w)) id"
proof (rule actsI, goal_cases)
  case wf: (1 w)
  then obtain e i v where e: "els w el = Some e" "el_iface_event e = Some i" "ifs w i = Some v"
    by (rule wf_viewE)
  let ?m = "(report_msg AEL_MSG_CMD_REPORT_STATUS s 4)\<lparr>msg_source := Some el,
    msg_source_type := AUDIO_ELEMENT_TYPE_ELEMENT\<rparr>"
  have "\<exists>w'. run (audio_event_iface_sendout R i ?m w) = Some w' \<and> el_view el w' = el_view el w"
    using e(3) platform_quiet(3)[OF assms, of _ ?m w]
    by (auto simp: audio_event_iface_sendout_def split: option.splits prod.splits) (metis snd_conv)
  moreover have "run (Some (call_event R f el ?m c w)) = Some (snd (call_event R f el ?m c w))" for f c
    by (simp add: run_def)
  ultimately show "\<exists>w'. run (audio_element_report_status R el s w) = Some w' \<and>
      el_view el w' = id (el_view el w) \<and> wf_view (id (el_view el w))"
    using e wf platform_quiet(5)[OF assms]
    by (simp add: audio_element_report_status_def audio_element_msg_sendout_def Let_def
        split: option.splits events_type.splits)
qed

lemma acts_cmd_send:
  assumes "el_platform R el"
  shows "acts el (\<lambda>w. run (audio_element_cmd_send R el s w)) id"
proof (rule actsI, goal_cases)
  case wf: (1 w)
  then obtain e i v where e: "els w el = Some e" "el_iface_event e = Some i" "ifs w i = Some v"
    by (rule wf_viewE)
  then show "\<exists>w'. run (audio_element_cmd_send R el s w) = Some w' \<and>
      el_view el w' = id (el_view el w) \<and> wf_view (id (el_view el w))"
    using wf platform_quiet(3)[OF assms]
    by (auto simp: audio_element_cmd_send_def audio_event_iface_cmd_def split: option.splits prod.splits)
      (metis snd_conv)
qed

lemma el_view_rbs:
  "el_view el (w\<lparr>rbs := x\<rparr>) = (fst (el_view el w), fst (snd (el_view el w)), dom x)"
  by (simp add: el_view_def)

lemma rb_upd_view:
  assumes "h \<in> dom (rbs w)"
  shows "\<exists>w'. rb_upd h f w = Some w' \<and> el_view el w' = el_view el w"
  using assms by (auto simp: el_view_def)

lemma view_dom: "el_view el w' = el_view el w \<Longrightarrow> dom (rbs w') = dom (rbs w)"
  by (simp add: el_view_def)

text \<open>Operations of a ring buffer leave the view alone.\<close>

definition rb_quiet :: "el_handle \<Rightarrow> (rb_handle option \<Rightarrow> 'z elw \<Rightarrow> (esp_err \<times> 'z elw) option) \<Rightarrow> bool" where
  "rb_quiet el op \<longleftrightarrow>
     (\<forall>h w. h \<in> dom (rbs w) \<longrightarrow> (\<exists>err w'. op (Some h) w = Some (err, w') \<and> el_view el w' = el_view el w))"

lemma rb_signal_quiet:
  assumes pf: "el_platform R el" and h: "h \<in> dom (rbs w)"
  shows "\<exists>w'. rb_upd h f w = Some w' \<and> el_view el (xSemaphoreGive R s w') = el_view el w"
  using rb_upd_view[OF h, of f el] platform_quiet(4)[OF pf] by auto

lemma rb_done_quiet: "el_platform R el \<Longrightarrow> rb_quiet el (rb_done_write R)"
  unfolding rb_quiet_def rb_done_write_def using rb_signal_quiet by fastforce

lemma rb_abort_read_quiet: "el_platform R el \<Longrightarrow> rb_quiet el (rb_abort_read R)"
  unfolding rb_quiet_def rb_abort_read_def using rb_signal_quiet by fastforce

lemma rb_abort_write_quiet: "el_platform R el \<Longrightarrow> rb_quiet el (rb_abort_write R)"
  unfolding rb_quiet_def rb_abort_write_def using rb_signal_quiet by fastforce

lemma rb_reset_quiet: "rb_quiet el rb_reset"
  unfolding rb_quiet_def rb_reset_def using rb_upd_view by fastforce

lemma rb_abort_quiet:
  assumes pf: "el_platform R el"
  shows "rb_quiet el (rb_abort R)"
  unfolding rb_quiet_def
proof (intro allI impI, goal_cases)
  case h: (1 h w)
  obtain e1 w1 where 1: "rb_abort_read R (Some h) w = Some (e1, w1)" "el_view el w1 = el_view el w"
    using rb_abort_read_quiet[OF pf] h unfolding rb_quiet_def by blast
  then have "h \<in> dom (rbs w1)" using h view_dom by blast
  then obtain e2 w2 where 2: "rb_abort_write R (Some h) w1 = Some (e2, w2)" "el_view el w2 = el_view el w1"
    using rb_abort_write_quiet[OF pf] unfolding rb_quiet_def by blast
  then have "h \<in> dom (rbs w2)" using \<open>h \<in> dom (rbs w1)\<close> view_dom by blast
  then show "\<exists>err w'. rb_abort R (Some h) w = Some (err, w') \<and> el_view el w' = el_view el w"
    using 1 2 platform_quiet(4)[OF pf] by (auto simp: rb_abort_def)
qed

lemma multi_quiet:
  assumes q: "rb_quiet el op" and "\<forall>h. Some h \<in> set hs \<longrightarrow> h \<in> dom (rbs w)"
  shows "\<exists>err w'. multi_rb_do op hs ret w = Some (err, w') \<and> el_view el w' = el_view el w"
  using assms(2)
proof (induction hs arbitrary: ret w)
  case (Cons s hs)
  show ?case
  proof (cases s)
    case (Some h)
    then have "h \<in> dom (rbs w)" using Cons(2) by auto
    then obtain err w1 where 1: "op (Some h) w = Some (err, w1)" "el_view el w1 = el_view el w"
      using q unfolding rb_quiet_def by blast
    then have "\<forall>h. Some h \<in> set hs \<longrightarrow> h \<in> dom (rbs w1)" using Cons(2) view_dom by (metis list.set_intros(2))
    from Cons(1)[OF this] show ?thesis using 1 Some by auto
  qed (use Cons in auto)
qed simp

lemma view_els: "el_view el w' = el_view el w \<Longrightarrow> els w el = Some e \<Longrightarrow> \<exists>e'. els w' el = Some e' \<and> el_ctl e' = el_ctl e"
  by (auto simp: el_view_def)

lemma ctl_multi: "el_ctl e' = el_ctl e \<Longrightarrow> el_multi_in_rb e' = el_multi_in_rb e \<and>
    el_multi_out_rb e' = el_multi_out_rb e \<and> el_enable_multi_io e' = el_enable_multi_io e"
  by (metis el_ctl_simps)

text \<open>The pattern the element's ring buffer operations share: the operation on the main buffer, then on the
  additional ones.\<close>

lemma slot_then_multi:
  assumes q: "rb_quiet el op" and wf: "wf_view (el_view el w)" and e: "els w el = Some e"
    and h: "h \<in> dom (rbs w)" and ms: "ms = el_multi_in_rb \<or> ms = el_multi_out_rb"
  shows "\<exists>err w1 e1 err' w2. op (Some h) w = Some (err, w1) \<and> els w1 el = Some e1 \<and> el_ctl e1 = el_ctl e \<and>
     el_view el w1 = el_view el w \<and>
     multi_rb_do op (ms e1) (ESP_OK OR err) w1 = Some (err', w2) \<and> el_view el w2 = el_view el w"
proof -
  obtain err w1 where 1: "op (Some h) w = Some (err, w1)" "el_view el w1 = el_view el w"
    using q h unfolding rb_quiet_def by blast
  obtain e1 where e1: "els w1 el = Some e1" "el_ctl e1 = el_ctl e" using view_els[OF 1(2) e] by blast
  have "el_ok e (ifs w) (dom (rbs w))" using wf e by (auto elim: wf_viewE)
  then have "\<forall>h. Some h \<in> set (ms e1) \<longrightarrow> h \<in> dom (rbs w1)"
    using ms ctl_multi[OF e1(2)] view_dom[OF 1(2)] by (auto simp: el_ok_def rb_slot_ok_def)
  from multi_quiet[OF q this] 1 e1 show ?thesis by fastforce
qed

lemma slot_live:
  assumes "wf_view (el_view el w)" "els w el = Some e"
  shows "el_read_type e = Some IO_TYPE_RB \<Longrightarrow> el_in e = Some h \<Longrightarrow> h \<in> dom (rbs w)"
    and "el_write_type e = Some IO_TYPE_RB \<Longrightarrow> el_out e = Some h \<Longrightarrow> h \<in> dom (rbs w)"
  using assms by (auto elim!: wf_viewE simp: el_ok_def rb_slot_ok_def)

lemma acts_abort_input:
  assumes pf: "el_platform R el"
  shows "acts el (\<lambda>w. run (audio_element_abort_input_ringbuf R el w)) id"
proof (rule actsI, goal_cases)
  case wf: (1 w)
  then obtain e where e: "els w el = Some e" by (rule wf_viewE)
  show ?case
  proof (cases "\<exists>h. el_read_type e = Some IO_TYPE_RB \<and> el_in e = Some h")
    case True
    then obtain h where h: "el_read_type e = Some IO_TYPE_RB" "el_in e = Some h" by blast
    from slot_then_multi[OF rb_abort_quiet[OF pf] wf e slot_live(1)[OF wf e h], of el_multi_in_rb] h e wf
    show ?thesis by (auto simp: audio_element_abort_input_ringbuf_def)
  qed (use e wf in \<open>auto simp: audio_element_abort_input_ringbuf_def\<close>)
qed

lemma acts_abort_output:
  assumes pf: "el_platform R el"
  shows "acts el (\<lambda>w. run (audio_element_abort_output_ringbuf R el w)) id"
proof (rule actsI, goal_cases)
  case wf: (1 w)
  then obtain e where e: "els w el = Some e" by (rule wf_viewE)
  show ?case
  proof (cases "\<exists>h. el_write_type e = Some IO_TYPE_RB \<and> el_out e = Some h")
    case True
    then obtain h where h: "el_write_type e = Some IO_TYPE_RB" "el_out e = Some h" by blast
    from slot_then_multi[OF rb_abort_quiet[OF pf] wf e slot_live(2)[OF wf e h], of el_multi_out_rb] h e wf
    show ?thesis by (auto simp: audio_element_abort_output_ringbuf_def)
  qed (use e wf in \<open>auto simp: audio_element_abort_output_ringbuf_def\<close>)
qed

lemma acts_reset_output: "acts el (\<lambda>w. run (audio_element_reset_output_ringbuf el w)) id"
proof (rule actsI, goal_cases)
  case wf: (1 w)
  then obtain e where e: "els w el = Some e" by (rule wf_viewE)
  show ?case
  proof (cases "\<exists>h. el_write_type e = Some IO_TYPE_RB \<and> el_out e = Some h")
    case True
    then obtain h where h: "el_write_type e = Some IO_TYPE_RB" "el_out e = Some h" by blast
    from slot_then_multi[OF rb_reset_quiet wf e slot_live(2)[OF wf e h], of el_multi_out_rb] h e wf
    show ?thesis by (auto simp: audio_element_reset_output_ringbuf_def)
  qed (use e wf in \<open>auto simp: audio_element_reset_output_ringbuf_def\<close>)
qed

lemma acts_done:
  assumes pf: "el_platform R el"
  shows "acts el (\<lambda>w. run (audio_element_set_ringbuf_done R (Some el) w)) id"
proof (rule actsI, goal_cases)
  case wf: (1 w)
  then obtain e where e: "els w el = Some e" by (rule wf_viewE)
  show ?case
  proof (cases "\<exists>h. el_write_type e = Some IO_TYPE_RB \<and> el_out e = Some h")
    case True
    then obtain h where h: "el_write_type e = Some IO_TYPE_RB" "el_out e = Some h" by blast
    from slot_then_multi[OF rb_done_quiet[OF pf] wf e slot_live(2)[OF wf e h], of el_multi_out_rb] h e wf
    show ?thesis by (auto simp: audio_element_set_ringbuf_done_def)
  qed (use e wf in \<open>auto simp: audio_element_set_ringbuf_done_def\<close>)
qed

definition do_close :: "audio_element \<Rightarrow> audio_element" where
  "do_close e = (if el_is_open e \<and> el_close e \<noteq> None then e\<lparr>el_is_open := False\<rparr> else e)"

lemma acts_close:
  assumes pf: "el_platform R el"
  shows "acts el (el_do_close R el) (on_ctl do_close)"
proof (rule actsI, goal_cases)
  case wf: (1 w)
  then obtain e where e: "els w el = Some e" "el_ok e (ifs w) (dom (rbs w))" by (rule wf_viewE)
  show ?case
  proof (cases "\<exists>f. el_is_open e \<and> el_close e = Some f")
    case True
    then obtain f where f: "el_is_open e" "el_close e = Some f" by blast
    obtain r w1 where c: "call_io R f el w = (r, w1)" by fastforce
    have v: "el_view el w1 = el_view el w" using platform_quiet(6)[OF pf, of f w] c by simp
    obtain e1 where e1: "els w1 el = Some e1" "el_ctl e1 = el_ctl e" using view_els[OF v e(1)] by blast
    have "el_ctl (e1\<lparr>el_is_open := False\<rparr>) = (el_ctl e)\<lparr>el_is_open := False\<rparr>"
      unfolding e1(2)[symmetric] by (simp add: el_ctl_def)
    then show ?thesis using e f c v e1 wf
      by (auto simp: el_do_close_def el_view_def on_ctl_def do_close_def wf_view_def el_ok_def)
  next
    case False
    then show ?thesis using e wf
      by (auto simp: el_do_close_def el_view_def on_ctl_def do_close_def split: bool.splits option.splits)
  qed
qed

section \<open>The abstract machine\<close>

text \<open>What the rest of the system can rely on: the state, whether the element is open and running, whether
  its task runs, and how long the task waits for the next command.\<close>

record el_abs =
  ab_state :: audio_element_state
  ab_open :: bool
  ab_running :: bool
  ab_task :: bool
  ab_wait :: tick

definition abs_of :: "el_view \<Rightarrow> el_abs" where
  "abs_of v = (case v of (c, f, D) \<Rightarrow> (let e = the c in
     \<lparr>ab_state = el_state e, ab_open = el_is_open e, ab_running = el_is_running e, ab_task = el_task_run e,
      ab_wait = ev_wait_time (the (f (the (el_iface_event e))))\<rparr>))"

definition el_abs :: "el_handle \<Rightarrow> 'z elw \<Rightarrow> el_abs" where
  "el_abs el w = abs_of (el_view el w)"

definition halt :: "bool \<Rightarrow> audio_element_state \<Rightarrow> el_abs \<Rightarrow> el_abs" where
  "halt has_close s a = a\<lparr>ab_state := s, ab_open := ab_open a \<and> \<not> has_close, ab_running := False,
     ab_wait := portMAX_DELAY\<rparr>"

text \<open>The reaction to a command, given whether the element has the callbacks \<open>open\<close> and \<open>close\<close> and whether
  \<open>open\<close> succeeds: the handler's result and the next state.\<close>

definition el_spec :: "bool \<Rightarrow> bool \<Rightarrow> bool \<Rightarrow> int \<Rightarrow> el_abs \<Rightarrow> esp_err \<times> el_abs" where
  "el_spec has_open has_close open_ok cmd a =
     (if cmd = AEL_MSG_CMD_ERROR then (ESP_OK, halt has_close AEL_STATE_ERROR a)
      else if cmd = AEL_MSG_CMD_FINISH then (ESP_OK, halt has_close AEL_STATE_FINISHED a)
      else if cmd = AEL_MSG_CMD_STOP then
        (ESP_OK, if ab_state a = AEL_STATE_FINISHED \<or> ab_state a = AEL_STATE_STOPPED
                 then a\<lparr>ab_state := AEL_STATE_STOPPED\<rparr> else halt has_close AEL_STATE_STOPPED a)
      else if cmd = AEL_MSG_CMD_PAUSE then (ESP_OK, halt has_close AEL_STATE_PAUSED a)
      else if cmd = AEL_MSG_CMD_RESUME then
        (if ab_state a = AEL_STATE_RUNNING then (ESP_OK, a\<lparr>ab_running := True\<rparr>)
         else if \<not> has_open then (ESP_OK, a\<lparr>ab_open := True, ab_running := True, ab_wait := 0\<rparr>)
         else if open_ok then
           (ESP_OK, a\<lparr>ab_state := AEL_STATE_RUNNING, ab_open := True, ab_running := True, ab_wait := 0\<rparr>)
         else (ESP_FAIL, a\<lparr>ab_open := True\<rparr>))
      else if cmd = AEL_MSG_CMD_DESTROY then (ESP_FAIL, a\<lparr>ab_task := False, ab_running := False\<rparr>)
      else (ESP_OK, a))"

section \<open>Refinement\<close>

lemma upd_state: "acts el (el_upd el (\<lambda>e. e\<lparr>el_state := s\<rparr>)) (on_ctl (\<lambda>e. e\<lparr>el_state := s\<rparr>))"
  and upd_running: "acts el (el_upd el (\<lambda>e. e\<lparr>el_is_running := b\<rparr>)) (on_ctl (\<lambda>e. e\<lparr>el_is_running := b\<rparr>))"
  and upd_open: "acts el (el_upd el (\<lambda>e. e\<lparr>el_is_open := b\<rparr>)) (on_ctl (\<lambda>e. e\<lparr>el_is_open := b\<rparr>))"
  and upd_destroy: "acts el (el_upd el (\<lambda>e. e\<lparr>el_task_run := b, el_is_running := c\<rparr>))
         (on_ctl (\<lambda>e. e\<lparr>el_task_run := b, el_is_running := c\<rparr>))"
  by (rule acts_upd; simp add: el_ctl_def el_ok_def)+

text \<open>A handler that always succeeds.\<close>

definition handles :: "el_handle \<Rightarrow> ('z elw \<Rightarrow> (esp_err \<times> 'z elw) option) \<Rightarrow> esp_err \<Rightarrow> (el_view \<Rightarrow> el_view) \<Rightarrow> bool" where
  "handles el op r F \<longleftrightarrow>
     (\<forall>w. wf_view (el_view el w) \<longrightarrow>
        (\<exists>w'. op w = Some (r, w') \<and> el_view el w' = F (el_view el w) \<and> wf_view (el_view el w')))"

lemma handles_return: "handles el (\<lambda>w. Some (r, w)) r id"
  by (simp add: handles_def)

lemma handles_seq: "acts el f F \<Longrightarrow> handles el g r G \<Longrightarrow> handles el (\<lambda>w. f w \<bind> g) r (G \<circ> F)"
  unfolding handles_def by (auto dest!: actsD)

lemma handles_seq_run:
  "acts el (\<lambda>w. run (f w)) F \<Longrightarrow> handles el g r G \<Longrightarrow> handles el (\<lambda>w. f w \<bind> (\<lambda>(_, w). g w)) r (G \<circ> F)"
  unfolding handles_def by (auto dest!: acts_runD)

lemma handles_branch:
  assumes "\<And>e. P (el_ctl e) = P e" "handles el f r F" "handles el g r G"
  shows "handles el (\<lambda>w. els w el \<bind> (\<lambda>e. if P e then f w else g w)) r
     (\<lambda>v. if P (the (fst v)) then F v else G v)"
  unfolding handles_def
proof (intro allI impI, goal_cases)
  case wf: (1 w)
  then obtain e where e: "els w el = Some e" by (rule wf_viewE)
  then have "P (the (fst (el_view el w))) = P e" by (simp add: el_view_def assms(1))
  then show ?case using e wf assms(2,3) by (simp add: handles_def)
qed

lemma handles_eq: "handles el op r F \<Longrightarrow> F = G \<Longrightarrow> handles el op r G"
  by simp

lemmas handler_steps = handles_seq handles_seq_run handles_return acts_close acts_timeout acts_report
  acts_cmd_send acts_abort_input acts_abort_output acts_set_bits acts_clear_bits acts_reset_output
  upd_state upd_running upd_open upd_destroy

abbreviation halts :: "audio_element_state \<Rightarrow> el_view \<Rightarrow> el_view" where
  "halts s \<equiv> on_ctl (\<lambda>e. e\<lparr>el_is_running := False\<rparr>) \<circ> set_wait portMAX_DELAY \<circ>
     on_ctl (\<lambda>e. e\<lparr>el_state := s\<rparr>) \<circ> on_ctl do_close"

lemma handles_error: "el_platform R el \<Longrightarrow> handles el (on_cmd_error R el) ESP_OK (halts AEL_STATE_ERROR)"
  unfolding on_cmd_error_def by (rule handles_eq, (rule handler_steps | assumption)+) (simp add: comp_def id_def)

lemma handles_finish: "el_platform R el \<Longrightarrow> handles el (on_cmd_finish R el) ESP_OK (halts AEL_STATE_FINISHED)"
  unfolding on_cmd_finish_def by (rule handles_eq, (rule handler_steps | assumption)+) (simp add: comp_def id_def)

lemma handles_pause:
  "el_platform R el \<Longrightarrow> handles el (on_cmd_pause R el) ESP_OK
     (on_ctl (\<lambda>e. e\<lparr>el_is_running := False\<rparr>) \<circ> set_wait portMAX_DELAY \<circ> on_ctl do_close \<circ>
      on_ctl (\<lambda>e. e\<lparr>el_state := AEL_STATE_PAUSED\<rparr>))"
  unfolding on_cmd_pause_def by (rule handles_eq, (rule handler_steps | assumption)+) (simp add: comp_def id_def)

lemma handles_stop:
  assumes "el_platform R el"
  shows "handles el (on_cmd_stop R el) ESP_OK
     (\<lambda>v. if el_state (the (fst v)) \<noteq> AEL_STATE_FINISHED \<and> el_state (the (fst v)) \<noteq> AEL_STATE_STOPPED
          then halts AEL_STATE_STOPPED v else on_ctl (\<lambda>e. e\<lparr>el_state := AEL_STATE_STOPPED\<rparr>) v)"
  unfolding on_cmd_stop_def
  by (rule handles_eq, rule handles_branch[where P = "\<lambda>e. el_state e \<noteq> AEL_STATE_FINISHED \<and>
        el_state e \<noteq> AEL_STATE_STOPPED"], simp, (rule handler_steps assms)+)
    (simp add: fun_eq_iff)

lemma handles_destroy:
  "handles el (on_cmd_destroy el) ESP_FAIL (on_ctl (\<lambda>e. e\<lparr>el_task_run := False, el_is_running := False\<rparr>))"
  unfolding on_cmd_destroy_def by (rule handles_eq, (rule handler_steps)+) (simp add: comp_def)

text \<open>Opening, with the result of the callback.\<close>

lemma open_view:
  assumes pf: "el_platform R el" and wf: "wf_view (el_view el w)" and e: "els w el = Some e"
  shows "\<exists>ok w'. audio_element_process_state_init R el w = Some (if ok then ESP_OK else ESP_FAIL, w') \<and>
     wf_view (el_view el w') \<and>
     el_view el w' = (if ok \<and> el_open e \<noteq> None then on_ctl (\<lambda>e. e\<lparr>el_state := AEL_STATE_RUNNING\<rparr>) else id)
       (on_ctl (\<lambda>e. e\<lparr>el_is_open := True\<rparr>) (el_view el w)) \<and>
     (el_open e = None \<longrightarrow> ok) \<and>
     (\<forall>f. el_open e = Some f \<longrightarrow> (ok \<longleftrightarrow> fst (call_io R f el (w\<lparr>els := (els w)(el \<mapsto> e\<lparr>el_is_open := True\<rparr>)\<rparr>)) = ESP_OK))"
proof -
  obtain w1 where w1: "el_upd el (\<lambda>e. e\<lparr>el_is_open := True\<rparr>) w = Some w1"
    "el_view el w1 = on_ctl (\<lambda>e. e\<lparr>el_is_open := True\<rparr>) (el_view el w)" "wf_view (el_view el w1)"
    using actsD[OF upd_open wf] by blast
  have w1_eq: "w1 = w\<lparr>els := (els w)(el \<mapsto> e\<lparr>el_is_open := True\<rparr>)\<rparr>" using w1(1) e by simp
  show ?thesis
  proof (cases "el_open e")
    case None
    obtain w2 where "el_set_bits R el STARTED_BIT w1 = Some w2" "el_view el w2 = el_view el w1" "wf_view (el_view el w2)"
      using actsD[OF acts_set_bits[OF pf, of STARTED_BIT] w1(3)] by auto
    then show ?thesis using None e w1
      by (intro exI[of _ True] exI[of _ w2]) (simp add: audio_element_process_state_init_def)
  next
    case (Some f)
    obtain err w2 where c: "call_io R f el w1 = (err, w2)" by fastforce
    have v2: "el_view el w2 = el_view el w1" "wf_view (el_view el w2)"
      using platform_quiet(6)[OF pf, of f w1] c w1(3) by simp_all
    show ?thesis
    proof (cases "err = ESP_OK")
      case True
      have "handles el (\<lambda>w. audio_element_force_set_state el AEL_STATE_RUNNING w \<bind> (\<lambda>(_, w).
            audio_element_report_status R el AEL_STATUS_STATE_RUNNING w \<bind> (\<lambda>(_, w).
            el_set_bits R el STARTED_BIT w \<bind> (\<lambda>w. Some (ESP_OK, w))))) ESP_OK
          (on_ctl (\<lambda>e. e\<lparr>el_state := AEL_STATE_RUNNING\<rparr>))"
        unfolding audio_element_force_set_state_def
        by (rule handles_eq, (rule handler_steps acts_seq acts_return pf)+) (simp add: comp_def id_def)
      then obtain w3 where "audio_element_force_set_state el AEL_STATE_RUNNING w2 \<bind> (\<lambda>(_, w).
            audio_element_report_status R el AEL_STATUS_STATE_RUNNING w \<bind> (\<lambda>(_, w).
            el_set_bits R el STARTED_BIT w \<bind> (\<lambda>w. Some (ESP_OK, w)))) = Some (ESP_OK, w3)"
          "el_view el w3 = on_ctl (\<lambda>e. e\<lparr>el_state := AEL_STATE_RUNNING\<rparr>) (el_view el w2)" "wf_view (el_view el w3)"
        using v2(2) unfolding handles_def by blast
      then show ?thesis using Some e w1 c v2 True w1_eq
        by (intro exI[of _ True] exI[of _ w3]) (simp add: audio_element_process_state_init_def)
    next
      case False
      have "handles el (\<lambda>w. audio_element_report_status R el AEL_STATUS_ERROR_OPEN w \<bind> (\<lambda>(_, w).
            audio_element_cmd_send R el AEL_MSG_CMD_ERROR w \<bind> (\<lambda>(_, w). Some (ESP_FAIL, w)))) ESP_FAIL id"
        by (rule handles_eq, (rule handler_steps pf)+) (simp add: comp_def id_def)
      then obtain w3 where "audio_element_report_status R el AEL_STATUS_ERROR_OPEN w2 \<bind> (\<lambda>(_, w).
            audio_element_cmd_send R el AEL_MSG_CMD_ERROR w \<bind> (\<lambda>(_, w). Some (ESP_FAIL, w))) = Some (ESP_FAIL, w3)"
          "el_view el w3 = el_view el w2" "wf_view (el_view el w3)"
        using v2(2) unfolding handles_def by auto
      then show ?thesis using Some e w1 c v2 False w1_eq
        by (intro exI[of _ False] exI[of _ w3]) (simp add: audio_element_process_state_init_def)
    qed
  qed
qed

lemma view_e: "el_view el w' = el_view el w \<Longrightarrow> els w el = Some e \<Longrightarrow>
    \<exists>e'. els w' el = Some e' \<and> el_open e' = el_open e"
  by (drule (1) view_els) (metis el_ctl_simps(1))

lemma acts_reset_if:
  "acts el (\<lambda>w. run (if b then audio_element_reset_output_ringbuf el w else Some (ESP_OK, w))) id"
  using acts_reset_output acts_return by (cases b) auto

text \<open>\<open>ok\<close> tells whether the element's \<open>open\<close> callback succeeds.\<close>

definition opens :: "'z elw platform \<Rightarrow> el_handle \<Rightarrow> fnptr option \<Rightarrow> bool \<Rightarrow> bool" where
  "opens R el fo ok \<longleftrightarrow> (case fo of None \<Rightarrow> ok | Some f \<Rightarrow> (\<exists>w. ok \<longleftrightarrow> fst (call_io R f el w) = ESP_OK))"

lemma resume_view:
  assumes pf: "el_platform R el" and wf: "wf_view (el_view el w)" and e: "els w el = Some e"
    and nr: "el_state e \<noteq> AEL_STATE_RUNNING"
  shows "\<exists>ok w'. on_cmd_resume R el w = Some (if ok then ESP_OK else ESP_FAIL, w') \<and> opens R el (el_open e) ok \<and>
     wf_view (el_view el w') \<and>
     el_view el w' = (if ok then (on_ctl (\<lambda>e. e\<lparr>el_is_running := True\<rparr>) \<circ> set_wait 0) else id)
       ((if ok \<and> el_open e \<noteq> None then on_ctl (\<lambda>e. e\<lparr>el_state := AEL_STATE_RUNNING\<rparr>) else id)
         (on_ctl (\<lambda>e. e\<lparr>el_is_open := True\<rparr>) (el_view el w)))"
proof -
  let ?reset = "if el_state e \<noteq> AEL_STATE_INIT \<and> el_state e \<noteq> AEL_STATE_RUNNING \<and> el_state e \<noteq> AEL_STATE_PAUSED
                then audio_element_reset_output_ringbuf el w else Some (ESP_OK, w)"
  obtain e0 w1 where 1: "?reset = Some (e0, w1)" "el_view el w1 = el_view el w"
    using acts_runD[OF acts_reset_if wf] by (metis id_apply)
  have wf1: "wf_view (el_view el w1)" using wf 1(2) by simp
  obtain e1 where e1: "els w1 el = Some e1" "el_open e1 = el_open e" using view_e[OF 1(2) e] by blast
  obtain ok w2 where 2: "audio_element_process_state_init R el w1 = Some (if ok then ESP_OK else ESP_FAIL, w2)"
    "wf_view (el_view el w2)"
    "el_view el w2 = (if ok \<and> el_open e \<noteq> None then on_ctl (\<lambda>e. e\<lparr>el_state := AEL_STATE_RUNNING\<rparr>) else id)
       (on_ctl (\<lambda>e. e\<lparr>el_is_open := True\<rparr>) (el_view el w))" "opens R el (el_open e) ok"
    using open_view[OF pf wf1 e1(1)] unfolding e1(2) 1(2) opens_def by (fastforce split: option.splits)
  show ?thesis
  proof (cases ok)
    case True
    have "handles el (\<lambda>w. el_cmd_timeout el 0 w \<bind> (\<lambda>w. el_clear_bits R el STOPPED_BIT w \<bind>
        (\<lambda>w. el_upd el (\<lambda>e. e\<lparr>el_is_running := True\<rparr>) w \<bind> (\<lambda>w. Some (ESP_OK, w))))) ESP_OK
        (on_ctl (\<lambda>e. e\<lparr>el_is_running := True\<rparr>) \<circ> set_wait 0)"
      by (rule handles_eq, (rule handler_steps pf)+) (simp add: comp_def id_def)
    then obtain w3 where "el_cmd_timeout el 0 w2 \<bind> (\<lambda>w. el_clear_bits R el STOPPED_BIT w \<bind>
        (\<lambda>w. el_upd el (\<lambda>e. e\<lparr>el_is_running := True\<rparr>) w \<bind> (\<lambda>w. Some (ESP_OK, w)))) = Some (ESP_OK, w3)"
      "el_view el w3 = (on_ctl (\<lambda>e. e\<lparr>el_is_running := True\<rparr>) \<circ> set_wait 0) (el_view el w2)" "wf_view (el_view el w3)"
      using 2(2) unfolding handles_def by blast
    then show ?thesis using True e nr 1(1) 2
      by (intro exI[of _ True] exI[of _ w3]) (simp add: on_cmd_resume_def)
  next
    case False
    have "handles el (\<lambda>w. audio_element_abort_output_ringbuf R el w \<bind> (\<lambda>(_, w).
        audio_element_abort_input_ringbuf R el w \<bind> (\<lambda>(_, w). Some (ESP_FAIL, w)))) ESP_FAIL id"
      by (rule handles_eq, (rule handler_steps pf)+) (simp add: comp_def id_def)
    then obtain w3 where "audio_element_abort_output_ringbuf R el w2 \<bind> (\<lambda>(_, w).
        audio_element_abort_input_ringbuf R el w \<bind> (\<lambda>(_, w). Some (ESP_FAIL, w))) = Some (ESP_FAIL, w3)"
      "el_view el w3 = el_view el w2" "wf_view (el_view el w3)"
      using 2(2) unfolding handles_def by auto
    then show ?thesis using False e nr 1(1) 2
      by (intro exI[of _ False] exI[of _ w3]) (simp add: on_cmd_resume_def)
  qed
qed

text \<open>The abstract state after each effect.\<close>

lemma abs_upd:
  assumes "wf_view (c, f, D)"
  shows "abs_of (on_ctl (\<lambda>e. e\<lparr>el_state := s\<rparr>) (c, f, D)) = (abs_of (c, f, D))\<lparr>ab_state := s\<rparr>"
    "abs_of (on_ctl (\<lambda>e. e\<lparr>el_is_running := b\<rparr>) (c, f, D)) = (abs_of (c, f, D))\<lparr>ab_running := b\<rparr>"
    "abs_of (on_ctl (\<lambda>e. e\<lparr>el_is_open := b\<rparr>) (c, f, D)) = (abs_of (c, f, D))\<lparr>ab_open := b\<rparr>"
    "abs_of (set_wait t (c, f, D)) = (abs_of (c, f, D))\<lparr>ab_wait := t\<rparr>"
  using assms by (auto simp: wf_view_def abs_of_def on_ctl_def set_wait_def el_ok_def Let_def split: option.splits)

lemma abs_halts:
  assumes "wf_view (Some e, f, D)"
  shows "abs_of (halts s (Some e, f, D)) = halt (el_close e \<noteq> None) s (abs_of (Some e, f, D))"
  using assms
  by (auto simp: wf_view_def abs_of_def on_ctl_def set_wait_def el_ok_def Let_def halt_def do_close_def
      split: option.splits)

lemma wf_view_ctl:
  assumes "wf_view (el_view el w)" "els w el = Some e"
  shows "el_view el w = (Some (el_ctl e), ifs w, dom (rbs w))"
  using assms by (simp add: el_view_def)

text \<open>What no effect changes: the callbacks, the interface and its queues and handler.\<close>

definition el_fixed :: "audio_element \<Rightarrow> fnptr option \<times> fnptr option \<times> fnptr option \<times> iface_handle option" where
  "el_fixed e = (el_open e, el_close e, el_process e, el_iface_event e)"

definition statics :: "el_view \<Rightarrow> (fnptr option \<times> fnptr option \<times> fnptr option \<times> iface_handle option) option \<times>
    (iface_handle \<Rightarrow> audio_event_iface option)" where
  "statics v = (map_option el_fixed (fst v),
     \<lambda>i. map_option (\<lambda>x. x\<lparr>ev_wait_time := 0\<rparr>) (fst (snd v) i))"

lemma statics_el:
  assumes "statics (el_view el w') = statics (el_view el w)" "els w el = Some e"
  shows "\<exists>e'. els w' el = Some e' \<and> el_open e' = el_open e \<and> el_close e' = el_close e \<and>
     el_process e' = el_process e \<and> el_iface_event e' = el_iface_event e"
  using assms by (auto simp: statics_def el_view_def el_fixed_def)

lemma statics_iface:
  assumes "statics (el_view el w') = statics (el_view el w)" "ifs w i = Some v"
  shows "\<exists>t. ifs w' i = Some (v\<lparr>ev_wait_time := t\<rparr>)"
proof -
  have "map_option (\<lambda>x. x\<lparr>ev_wait_time := 0\<rparr>) (ifs w' i) = Some (v\<lparr>ev_wait_time := 0\<rparr>)"
    using assms by (auto simp: statics_def el_view_def dest: fun_cong[where x = i])
  then obtain v' where v': "ifs w' i = Some v'" "v'\<lparr>ev_wait_time := 0\<rparr> = v\<lparr>ev_wait_time := 0\<rparr>" by auto
  then have "v' = v\<lparr>ev_wait_time := ev_wait_time v'\<rparr>" by (cases v; cases v') simp
  with v'(1) show ?thesis by metis
qed

lemma F_statics [simp]:
  "statics (on_ctl (\<lambda>e. e\<lparr>el_state := s\<rparr>) v) = statics v"
  "statics (on_ctl (\<lambda>e. e\<lparr>el_is_running := b\<rparr>) v) = statics v"
  "statics (on_ctl (\<lambda>e. e\<lparr>el_is_open := b\<rparr>) v) = statics v"
  "statics (on_ctl (\<lambda>e. e\<lparr>el_task_run := b, el_is_running := c\<rparr>) v) = statics v"
  "statics (on_ctl do_close v) = statics v"
  "statics (set_wait t v) = statics v"
  by (auto simp: statics_def on_ctl_def set_wait_def do_close_def el_fixed_def[abs_def] option.map_comp comp_def if_distrib
      fun_eq_iff cong: if_cong split: prod.splits option.splits)

text \<open>What one command does, as the refinement states it.\<close>

definition refines_cmd :: "'z elw platform \<Rightarrow> el_handle \<Rightarrow> int \<Rightarrow> audio_element \<Rightarrow> 'z elw \<Rightarrow> (esp_err \<times> 'z elw) option \<Rightarrow> bool" where
  "refines_cmd R el cmd e w r \<longleftrightarrow>
     (\<exists>ok w' e'. r = Some (fst (el_spec (el_open e \<noteq> None) (el_close e \<noteq> None) ok cmd (el_abs el w)), w') \<and>
        el_abs el w' = snd (el_spec (el_open e \<noteq> None) (el_close e \<noteq> None) ok cmd (el_abs el w)) \<and>
        opens R el (el_open e) ok \<and> wf_view (el_view el w') \<and>
        statics (el_view el w') = statics (el_view el w) \<and>
        els w' el = Some e' \<and> el_open e' = el_open e \<and> el_close e' = el_close e)"

lemma opens_ex: "\<exists>ok. opens R el fo ok"
  by (auto simp: opens_def split: option.splits)

lemma handles_refines:
  assumes h: "handles el op r F" and wf: "wf_view (el_view el w)" and e: "els w el = Some e"
    and spec: "\<And>ok. el_spec (el_open e \<noteq> None) (el_close e \<noteq> None) ok cmd (el_abs el w) = (r, abs_of (F (el_view el w)))"
    and F: "\<And>v. statics (F v) = statics v"
  shows "refines_cmd R el cmd e w (op w)"
proof -
  obtain w' where w': "op w = Some (r, w')" "el_view el w' = F (el_view el w)" "wf_view (el_view el w')"
    using h wf unfolding handles_def by blast
  moreover obtain ok where "opens R el (el_open e) ok" using opens_ex by blast
  moreover have st: "statics (el_view el w') = statics (el_view el w)" by (simp add: w'(2) F)
  moreover from statics_el[OF st e] have
    "\<exists>e'. els w' el = Some e' \<and> el_open e' = el_open e \<and> el_close e' = el_close e" by blast
  ultimately show ?thesis using spec unfolding refines_cmd_def el_abs_def by fastforce
qed

lemma abs_fields:
  assumes "wf_view (el_view el w)" "els w el = Some e"
  shows "ab_state (el_abs el w) = el_state e" "ab_open (el_abs el w) = el_is_open e"
    "ab_running (el_abs el w) = el_is_running e" "ab_task (el_abs el w) = el_task_run e"
  using assms by (simp_all add: el_abs_def abs_of_def el_view_def Let_def)

lemma abs_halts_w:
  assumes "wf_view (el_view el w)" "els w el = Some e"
  shows "abs_of (halts s (el_view el w)) = halt (el_close e \<noteq> None) s (el_abs el w)"
  using abs_halts[of "el_ctl e" "ifs w" "dom (rbs w)" s] assms by (simp add: el_abs_def el_view_def)

lemma on_cmd_refines_aux:
  assumes pf: "el_platform R el" and wf: "wf_view (el_view el w)" and e: "els w el = Some e"
    and m: "msg_source_type m = AUDIO_ELEMENT_TYPE_ELEMENT"
  shows "refines_cmd R el (msg_cmd m) e w (audio_element_on_cmd R m el w)"
proof -
  note ab = abs_fields[OF wf e] abs_halts_w[OF wf e, unfolded comp_apply]
  note v = wf_view_ctl[OF wf e]
  have wf': "wf_view (Some (el_ctl e), ifs w, dom (rbs w))" using wf v by simp
  consider "msg_cmd m = AEL_MSG_CMD_ERROR" | "msg_cmd m = AEL_MSG_CMD_FINISH" | "msg_cmd m = AEL_MSG_CMD_STOP"
    | "msg_cmd m = AEL_MSG_CMD_PAUSE" | "msg_cmd m = AEL_MSG_CMD_RESUME" "el_state e = AEL_STATE_RUNNING"
    | "msg_cmd m = AEL_MSG_CMD_RESUME" "el_state e \<noteq> AEL_STATE_RUNNING"
    | "msg_cmd m = AEL_MSG_CMD_DESTROY" | "msg_cmd m \<notin> {1, 2, 3, 4, 5, 6}" by auto
  then show ?thesis
  proof cases
    case 1
    then show ?thesis using handles_refines[OF handles_error[OF pf] wf e, of "msg_cmd m"] m
      by (simp add: audio_element_on_cmd_def el_spec_def ab)
  next
    case 2
    then show ?thesis using handles_refines[OF handles_finish[OF pf] wf e, of "msg_cmd m"] m
      by (simp add: audio_element_on_cmd_def el_spec_def ab)
  next
    case 3
    have "abs_of (on_ctl (\<lambda>e. e\<lparr>el_state := AEL_STATE_STOPPED\<rparr>) (el_view el w)) =
        (el_abs el w)\<lparr>ab_state := AEL_STATE_STOPPED\<rparr>"
      using abs_upd(1)[OF wf'] v by (simp add: el_abs_def)
    moreover have "el_state (the (fst (el_view el w))) = el_state e" by (simp add: v)
    ultimately show ?thesis using 3 handles_refines[OF handles_stop[OF pf] wf e, of "msg_cmd m"] m
      by (simp add: audio_element_on_cmd_def el_spec_def ab)
  next
    case 4
    have "abs_of ((on_ctl (\<lambda>e. e\<lparr>el_is_running := False\<rparr>) \<circ> set_wait portMAX_DELAY \<circ> on_ctl do_close \<circ>
        on_ctl (\<lambda>e. e\<lparr>el_state := AEL_STATE_PAUSED\<rparr>)) (el_view el w)) =
        halt (el_close e \<noteq> None) AEL_STATE_PAUSED (el_abs el w)"
      using wf' unfolding el_abs_def v
      by (auto simp: wf_view_def abs_of_def on_ctl_def set_wait_def el_ok_def Let_def halt_def do_close_def)
    then show ?thesis using 4 handles_refines[OF handles_pause[OF pf] wf e, of "msg_cmd m"] m
      by (simp add: audio_element_on_cmd_def el_spec_def ab)
  next
    case 5
    have h: "handles el (\<lambda>w. el_upd el (\<lambda>e. e\<lparr>el_is_running := True\<rparr>) w \<bind> (\<lambda>w. Some (ESP_OK, w))) ESP_OK
        (on_ctl (\<lambda>e. e\<lparr>el_is_running := True\<rparr>))"
      by (rule handles_eq, (rule handler_steps)+) (simp add: comp_def)
    have "abs_of (on_ctl (\<lambda>e. e\<lparr>el_is_running := True\<rparr>) (el_view el w)) = (el_abs el w)\<lparr>ab_running := True\<rparr>"
      using abs_upd(2)[OF wf'] v by (simp add: el_abs_def)
    then show ?thesis using 5 e handles_refines[OF h wf e, of "msg_cmd m"] m
      by (simp add: audio_element_on_cmd_def on_cmd_resume_def el_spec_def ab)
  next
    case 6
    obtain ok w' where r: "on_cmd_resume R el w = Some (if ok then ESP_OK else ESP_FAIL, w')"
      "opens R el (el_open e) ok" "wf_view (el_view el w')"
      "el_view el w' = (if ok then (on_ctl (\<lambda>e. e\<lparr>el_is_running := True\<rparr>) \<circ> set_wait 0) else id)
       ((if ok \<and> el_open e \<noteq> None then on_ctl (\<lambda>e. e\<lparr>el_state := AEL_STATE_RUNNING\<rparr>) else id)
         (on_ctl (\<lambda>e. e\<lparr>el_is_open := True\<rparr>) (el_view el w)))"
      using resume_view[OF pf wf e 6(2)] by blast
    have "ok" if "el_open e = None" using r(2) that by (simp add: opens_def)
    then have "el_abs el w' = snd (el_spec (el_open e \<noteq> None) (el_close e \<noteq> None) ok (msg_cmd m) (el_abs el w)) \<and>
        (if ok then ESP_OK else ESP_FAIL) = fst (el_spec (el_open e \<noteq> None) (el_close e \<noteq> None) ok (msg_cmd m) (el_abs el w))"
      using 6 wf' r(4) unfolding el_spec_def ab el_abs_def v
      by (auto simp: wf_view_def abs_of_def on_ctl_def set_wait_def el_ok_def Let_def)
    moreover have st: "statics (el_view el w') = statics (el_view el w)" by (simp add: r(4))
    moreover from statics_el[OF st e] have
      "\<exists>e'. els w' el = Some e' \<and> el_open e' = el_open e \<and> el_close e' = el_close e" by blast
    ultimately show ?thesis using 6 r(1-3) m by (auto simp: audio_element_on_cmd_def refines_cmd_def)
  next
    case 7
    have "abs_of (on_ctl (\<lambda>e. e\<lparr>el_task_run := False, el_is_running := False\<rparr>) (el_view el w)) =
        (el_abs el w)\<lparr>ab_task := False, ab_running := False\<rparr>"
      using wf' unfolding el_abs_def v by (simp add: abs_of_def on_ctl_def Let_def)
    then show ?thesis using 7 handles_refines[OF handles_destroy wf e, of "msg_cmd m"] m
      by (simp add: audio_element_on_cmd_def el_spec_def)
  next
    case 8
    then show ?thesis using handles_refines[OF handles_return wf e, of "msg_cmd m" ESP_OK] m
      by (simp add: audio_element_on_cmd_def el_spec_def el_abs_def)
  qed
qed

section \<open>An element to evaluate\<close>

definition ex_el :: "fnptr option \<Rightarrow> audio_element" where
  "ex_el fo = el_configure_io DEFAULT_AUDIO_ELEMENT_CONFIG
     (el_configure (DEFAULT_AUDIO_ELEMENT_CONFIG\<lparr>cfg_open := fo, cfg_close := Some 12, cfg_process := Some 13\<rparr>)
       (el_zero\<lparr>el_iface_event := Some 1, el_state_event := Some 3, el_lock := Some 4, el_task_run := True\<rparr>))"

definition ex_el_iface :: audio_event_iface where
  "ex_el_iface = \<lparr>ev_internal_queue = Some 10, ev_external_queue = Some 11, ev_queue_set = None,
     ev_internal_queue_size = 5, ev_external_queue_size = 5, ev_queue_set_size = 0,
     ev_listening_queues = [], ev_context = 2, ev_on_cmd = Some audio_element_on_cmd_ptr,
     ev_wait_time = portMAX_DELAY, ev_type = 0\<rparr>"

definition ex_elw :: "fnptr option \<Rightarrow> el_world" where
  "ex_elw fo = \<lparr>rbs = Map.empty, ifs = [1 \<mapsto> ex_el_iface], els = [2 \<mapsto> ex_el fo], strs = Map.empty\<rparr>"

definition el_cmd :: "int \<Rightarrow> audio_event_iface_msg" where
  "el_cmd c = \<lparr>msg_cmd = c, msg_data = 0, msg_data_len = 0, msg_source = Some 2,
     msg_source_type = AUDIO_ELEMENT_TYPE_ELEMENT, msg_need_free_data = False\<rparr>"

lemmas ex_el_defs = ex_el_def ex_el_iface_def ex_elw_def el_configure_def el_configure_io_def el_zero_def
  DEFAULT_AUDIO_ELEMENT_CONFIG_def

lemma ex_elw_wf: "wf_view (el_view 2 (ex_elw fo))"
  by (simp add: wf_view_def el_view_def el_ok_def rb_slot_ok_def ex_el_defs)

lemma ex_elw_abs: "el_abs 2 (ex_elw fo) = \<lparr>ab_state = AEL_STATE_INIT, ab_open = False, ab_running = False,
    ab_task = True, ab_wait = portMAX_DELAY\<rparr>"
  by (simp add: el_abs_def abs_of_def el_view_def ex_el_defs Let_def)

lemma ex_elw_el: "els (ex_elw fo) 2 = Some (ex_el fo)" "el_open (ex_el fo) = fo" "el_close (ex_el fo) = Some 12"
    "el_process (ex_el fo) = Some 13"
  by (simp_all add: ex_el_defs)

lemma seq_el_platform: "el_platform (seq_platform a) el"
  by (simp add: el_platform_def quiet_def)

section \<open>Properties\<close>

text \<open>C7. The command handler refines the abstract machine \<open>el_spec\<close> on every command and in every state of an
  initialised element: it returns, with the result and the control state the machine gives, keeps the
  element initialised and its callbacks in place, and its only freedom is whether the \<open>open\<close>
  callback succeeds.\<close>

theorem on_cmd_refines:
  assumes "el_platform R el" "wf_view (el_view el w)" "els w el = Some e"
    "msg_source_type m = AUDIO_ELEMENT_TYPE_ELEMENT"
  shows "\<exists>ok w' e'. audio_element_on_cmd R m el w =
       Some (fst (el_spec (el_open e \<noteq> None) (el_close e \<noteq> None) ok (msg_cmd m) (el_abs el w)), w') \<and>
     el_abs el w' = snd (el_spec (el_open e \<noteq> None) (el_close e \<noteq> None) ok (msg_cmd m) (el_abs el w)) \<and>
     opens R el (el_open e) ok \<and> wf_view (el_view el w') \<and>
     els w' el = Some e' \<and> el_open e' = el_open e \<and> el_close e' = el_close e"
  using on_cmd_refines_aux[OF assms] unfolding refines_cmd_def by blast

theorem on_cmd_refines_witness:
  "\<exists>w'. audio_element_on_cmd (seq_platform None) (el_cmd AEL_MSG_CMD_RESUME) 2 (ex_elw (Some 11)) = Some (ESP_OK, w') \<and>
     el_abs 2 w' = \<lparr>ab_state = AEL_STATE_RUNNING, ab_open = True, ab_running = True, ab_task = True, ab_wait = 0\<rparr>"
  using on_cmd_refines[OF seq_el_platform ex_elw_wf ex_elw_el(1), of "el_cmd AEL_MSG_CMD_RESUME" None "Some 11"]
  by (auto simp: el_cmd_def el_spec_def ex_elw_abs ex_elw_el opens_def)

text \<open>Executions of an element: commands the handler accepts, with anything in between that respects the
  control view.\<close>

inductive el_run :: "'z elw platform \<Rightarrow> el_handle \<Rightarrow> 'z elw \<Rightarrow> 'z elw \<Rightarrow> bool" for R el w where
  el_run_start: "el_run R el w w"
| el_run_cmd: "el_run R el w w1 \<Longrightarrow> msg_source_type m = AUDIO_ELEMENT_TYPE_ELEMENT \<Longrightarrow>
    audio_element_on_cmd R m el w1 = Some (ESP_OK, w2) \<Longrightarrow> el_run R el w w2"
| el_run_other: "el_run R el w w1 \<Longrightarrow> el_view el w2 = el_view el w1 \<Longrightarrow> el_run R el w w2"

definition halted :: "audio_element_state \<Rightarrow> bool" where
  "halted s \<longleftrightarrow> s \<in> {AEL_STATE_PAUSED, AEL_STATE_STOPPED, AEL_STATE_FINISHED, AEL_STATE_ERROR}"

text \<open>A running element is open and polls for commands; a halted one does not run, waits for commands
  without limit and, if it has a \<open>close\<close> callback, is closed.\<close>

definition el_inv :: "bool \<Rightarrow> el_abs \<Rightarrow> bool" where
  "el_inv has_close a \<longleftrightarrow>
     (ab_state a = AEL_STATE_RUNNING \<longrightarrow> ab_open a \<and> ab_wait a = 0) \<and>
     (halted (ab_state a) \<longrightarrow> \<not> ab_running a \<and> ab_wait a = portMAX_DELAY \<and> (has_close \<longrightarrow> \<not> ab_open a))"

lemma spec_inv:
  "el_inv hc a \<Longrightarrow> fst (el_spec True hc ok cmd a) = ESP_OK \<Longrightarrow> el_inv hc (snd (el_spec True hc ok cmd a))"
  by (auto simp: el_inv_def el_spec_def halt_def halted_def split: if_splits)

lemma el_run_inv_aux:
  assumes pf: "el_platform R el" and run: "el_run R el w w'" and wf: "wf_view (el_view el w)"
    and e: "els w el = Some e" "el_open e \<noteq> None" and inv: "el_inv (el_close e \<noteq> None) (el_abs el w)"
  shows "wf_view (el_view el w') \<and> el_inv (el_close e \<noteq> None) (el_abs el w') \<and>
     (\<exists>e'. els w' el = Some e' \<and> el_open e' = el_open e \<and> el_close e' = el_close e)"
  using run
proof (induction rule: el_run.induct)
  case (el_run_cmd w1 m w2)
  then obtain e1 where e1: "els w1 el = Some e1" "el_open e1 = el_open e" "el_close e1 = el_close e" by blast
  from on_cmd_refines_aux[OF pf _ e1(1) el_run_cmd(2)] el_run_cmd.IH el_run_cmd.hyps(3) obtain ok e2 where
    "fst (el_spec True (el_close e \<noteq> None) ok (msg_cmd m) (el_abs el w1)) = ESP_OK"
    "el_abs el w2 = snd (el_spec True (el_close e \<noteq> None) ok (msg_cmd m) (el_abs el w1))"
    "wf_view (el_view el w2)" "els w2 el = Some e2" "el_open e2 = el_open e" "el_close e2 = el_close e"
    using e(2) unfolding refines_cmd_def e1(2,3) by fastforce
  then show ?case using el_run_cmd.IH spec_inv by auto
next
  case (el_run_other w1 w2)
  then obtain e1 where "els w1 el = Some e1" "el_open e1 = el_open e" "el_close e1 = el_close e" by blast
  moreover from this view_els[OF el_run_other.hyps(2)] have
    "\<exists>e'. els w2 el = Some e' \<and> el_open e' = el_open e \<and> el_close e' = el_close e"
    by (metis el_ctl_simps(1,3))
  ultimately show ?case using el_run_other by (simp add: el_abs_def)
qed (use wf e inv in auto)

text \<open>C8. For an element with an \<open>open\<close> callback, in executions whose commands all return
  \<open>ESP_OK\<close>, the invariant \<open>el_inv\<close>, once it holds, is kept: running implies open and polling;
  paused, stopped, finished or failed implies not running and waiting for commands without limit, and closed when there is a
  \<open>close\<close> callback. A command that fails ends the loop of the task
  (\<open>open_failure_keeps_state\<close>).\<close>

theorem el_run_keeps_inv:
  assumes "el_platform R el" "el_run R el w w'" "wf_view (el_view el w)" "els w el = Some e"
    "el_open e \<noteq> None" "el_inv (el_close e \<noteq> None) (el_abs el w)"
  shows "wf_view (el_view el w') \<and> el_inv (el_close e \<noteq> None) (el_abs el w')"
  using el_run_inv_aux[OF assms] by blast

lemma ex_run_stop:
  "\<exists>w1 w2. audio_element_on_cmd (seq_platform None) (el_cmd AEL_MSG_CMD_RESUME) 2 (ex_elw (Some 11)) = Some (ESP_OK, w1) \<and>
     audio_element_on_cmd (seq_platform None) (el_cmd AEL_MSG_CMD_STOP) 2 w1 = Some (ESP_OK, w2) \<and>
     el_run (seq_platform None) 2 (ex_elw (Some 11)) w2 \<and> ab_state (el_abs 2 w2) = AEL_STATE_STOPPED"
proof -
  let ?R = "seq_platform None :: el_world platform"
  from on_cmd_refines_aux[OF seq_el_platform ex_elw_wf ex_elw_el(1), of "el_cmd AEL_MSG_CMD_RESUME" None "Some 11"]
  obtain w1 e1 where 1: "audio_element_on_cmd ?R (el_cmd AEL_MSG_CMD_RESUME) 2 (ex_elw (Some 11)) = Some (ESP_OK, w1)"
    "wf_view (el_view 2 w1)" "els w1 2 = Some e1" "ab_state (el_abs 2 w1) = AEL_STATE_RUNNING"
    by (auto simp: refines_cmd_def el_cmd_def el_spec_def ex_elw_abs ex_elw_el opens_def)
  from on_cmd_refines_aux[OF seq_el_platform 1(2,3), of "el_cmd AEL_MSG_CMD_STOP" None] 1(4)
  obtain w2 where 2: "audio_element_on_cmd ?R (el_cmd AEL_MSG_CMD_STOP) 2 w1 = Some (ESP_OK, w2)"
    "ab_state (el_abs 2 w2) = AEL_STATE_STOPPED"
    by (auto simp: refines_cmd_def el_cmd_def el_spec_def halt_def)
  have "el_run ?R 2 (ex_elw (Some 11)) w2"
    by (rule el_run_cmd[OF el_run_cmd[OF el_run_start _ 1(1)] _ 2(1)]) (simp_all add: el_cmd_def)
  then show ?thesis using 1(1) 2 by blast
qed

theorem el_run_keeps_inv_witness:
  "\<exists>w2. el_run (seq_platform None) 2 (ex_elw (Some 11)) w2 \<and> ab_state (el_abs 2 w2) = AEL_STATE_STOPPED \<and>
     \<not> ab_running (el_abs 2 w2) \<and> \<not> ab_open (el_abs 2 w2)"
proof -
  obtain w2 where w2: "el_run (seq_platform None) 2 (ex_elw (Some 11)) w2" "ab_state (el_abs 2 w2) = AEL_STATE_STOPPED"
    using ex_run_stop by blast
  from el_run_keeps_inv[OF seq_el_platform w2(1) ex_elw_wf ex_elw_el(1)] show ?thesis
    using w2 by (auto simp: ex_elw_el ex_elw_abs el_inv_def halted_def)
qed

text \<open>C9. In executions that start with this invariant and whose commands all return \<open>ESP_OK\<close>, of an
  element that has both an \<open>open\<close> and a \<open>close\<close> callback: once it is paused, stopped, finished or
  failed its task does not call \<open>process\<close>, the processing step returns \<open>ESP_ERR_INVALID_STATE\<close> and
  changes nothing.\<close>

theorem halted_not_processed:
  assumes "el_platform R el" "el_run R el w w'" "wf_view (el_view el w)" "els w el = Some e"
    "el_open e \<noteq> None" "el_close e \<noteq> None" "el_inv True (el_abs el w)" "halted (ab_state (el_abs el w'))"
  shows "audio_element_process_state_running R el w' = Some (ESP_ERR_INVALID_STATE, w')"
proof -
  from el_run_inv_aux[OF assms(1-5)] assms(6,7) obtain e' where
    "wf_view (el_view el w')" "els w' el = Some e'" "el_inv True (el_abs el w')" by auto
  then show ?thesis using assms(8) abs_fields[of el w' e']
    by (simp add: el_inv_def audio_element_process_state_running_def)
qed

theorem halted_not_processed_witness:
  "\<exists>w2. el_run (seq_platform None) 2 (ex_elw (Some 11)) w2 \<and>
     audio_element_process_state_running (seq_platform None) 2 w2 = Some (ESP_ERR_INVALID_STATE, w2)"
proof -
  obtain w2 where w2: "el_run (seq_platform None) 2 (ex_elw (Some 11)) w2" "ab_state (el_abs 2 w2) = AEL_STATE_STOPPED"
    using ex_run_stop by blast
  from halted_not_processed[OF seq_el_platform w2(1) ex_elw_wf ex_elw_el(1)] show ?thesis
    using w2 by (auto simp: ex_elw_el ex_elw_abs el_inv_def halted_def)
qed

text \<open>When the \<open>open\<close> callback of an element fails, the handler of the resume command returns \<open>ESP_FAIL\<close> with
  the state unchanged. The task leaves its loop on this result, so the error command the handler
  posts to itself is not processed and the element does not reach \<open>AEL_STATE_ERROR\<close>.\<close>

theorem open_failure_keeps_state:
  assumes "el_platform R el" "wf_view (el_view el w)" "els w el = Some e" "el_open e = Some f"
    "el_state e \<noteq> AEL_STATE_RUNNING" "\<forall>w. fst (call_io R f el w) \<noteq> ESP_OK"
    "msg_source_type m = AUDIO_ELEMENT_TYPE_ELEMENT" "msg_cmd m = AEL_MSG_CMD_RESUME"
  shows "\<exists>w'. audio_element_on_cmd R m el w = Some (ESP_FAIL, w') \<and>
     ab_state (el_abs el w') = el_state e \<and> ab_running (el_abs el w') = el_is_running e"
  using on_cmd_refines_aux[OF assms(1-3,7)] assms(4-6,8) abs_fields[OF assms(2,3)]
  by (auto simp: refines_cmd_def el_spec_def opens_def)

theorem open_failure_keeps_state_witness:
  "\<exists>w'. audio_element_on_cmd ((seq_platform None)\<lparr>call_io := (\<lambda>f e w. (ESP_FAIL, w))\<rparr>) (el_cmd AEL_MSG_CMD_RESUME) 2
     (ex_elw (Some 11)) = Some (ESP_FAIL, w') \<and> ab_state (el_abs 2 w') = AEL_STATE_INIT"
proof -
  let ?R = "(seq_platform None)\<lparr>call_io := (\<lambda>f e w. (ESP_FAIL, w))\<rparr>"
  have "el_platform ?R 2" by (simp add: el_platform_def quiet_def seq_platform_def)
  from open_failure_keeps_state[OF this ex_elw_wf ex_elw_el(1), of "Some 11" 11 "el_cmd AEL_MSG_CMD_RESUME"]
  show ?thesis using ex_elw_abs by (auto simp: el_cmd_def ex_el_defs)
qed

text \<open>An element without an \<open>open\<close> callback accepts the resume command, which marks it open and running, but
  its state stays \<open>AEL_STATE_INIT\<close> and the processing step refuses: its \<open>process\<close> is never called.\<close>

theorem no_open_never_processes:
  assumes "el_platform R el" "wf_view (el_view el w)" "els w el = Some e" "el_open e = None"
    "el_state e = AEL_STATE_INIT" "msg_source_type m = AUDIO_ELEMENT_TYPE_ELEMENT" "msg_cmd m = AEL_MSG_CMD_RESUME"
  shows "\<exists>w'. audio_element_on_cmd R m el w = Some (ESP_OK, w') \<and> ab_running (el_abs el w') \<and>
     audio_element_process_state_running R el w' = Some (ESP_ERR_INVALID_STATE, w')"
proof -
  from on_cmd_refines_aux[OF assms(1-3,6)] assms(4,5,7) abs_fields[OF assms(2,3)] obtain w' e' where
    "audio_element_on_cmd R m el w = Some (ESP_OK, w')" "wf_view (el_view el w')" "els w' el = Some e'"
    "ab_state (el_abs el w') = AEL_STATE_INIT" "ab_running (el_abs el w')"
    by (auto simp: refines_cmd_def el_spec_def opens_def)
  then show ?thesis using abs_fields[of el w' e']
    by (auto simp: audio_element_process_state_running_def state_order)
qed

theorem no_open_never_processes_witness:
  "\<exists>w'. audio_element_on_cmd (seq_platform None) (el_cmd AEL_MSG_CMD_RESUME) 2 (ex_elw None) = Some (ESP_OK, w') \<and>
     audio_element_process_state_running (seq_platform None) 2 w' = Some (ESP_ERR_INVALID_STATE, w')"
  using no_open_never_processes[OF seq_el_platform ex_elw_wf ex_elw_el(1), of None "el_cmd AEL_MSG_CMD_RESUME" None]
  by (auto simp: el_cmd_def ex_el_defs)

end
