(* ===== verification/Audio_Element_Task.thy ===== *)
theory Audio_Element_Task
  imports Audio_Element_Correct
begin

text \<open>
  The element's task: once a destroy command is in its queue the task returns, whatever else is queued
  before it or added behind it. The platform hypotheses are those of the command handler, the same for
  \<open>process\<close>, allocation and the queue, and that nobody but the task removes commands.
\<close>

section \<open>The queue only grows behind\<close>

text \<open>\<open>qv\<close> is the content of the element's command queue.\<close>

definition grows :: "('w \<Rightarrow> 'a list) \<Rightarrow> ('w \<Rightarrow> 'w option) \<Rightarrow> bool" where
  "grows qv op \<longleftrightarrow> (\<forall>w w'. op w = Some w' \<longrightarrow> (\<exists>ys. qv w' = qv w @ ys))"

lemma growsD: "grows qv (\<lambda>w. run (op w)) \<Longrightarrow> op w = Some (r, w') \<Longrightarrow> \<exists>ys. qv w' = qv w @ ys"
  by (metis grows_def run_Some)

lemma grows_return: "grows qv (\<lambda>w. run (Some (r, w)))" "grows qv (\<lambda>w. Some w)" "grows qv (\<lambda>w. run None)"
  by (auto simp: grows_def run_def)

lemma grows_seq: "grows qv f \<Longrightarrow> grows qv (\<lambda>w. run (g w)) \<Longrightarrow> grows qv (\<lambda>w. run (f w \<bind> g))"
  unfolding grows_def by (auto simp: run_def bind_eq_Some_conv) (metis append_assoc)

lemma grows_seq_run:
  "grows qv (\<lambda>w. run (f w)) \<Longrightarrow> (\<And>r. grows qv (\<lambda>w. run (g r w))) \<Longrightarrow>
   grows qv (\<lambda>w. run (f w \<bind> (\<lambda>(r, w). g r w)))"
  unfolding grows_def by (auto simp: run_def bind_eq_Some_conv) (metis append_assoc snd_conv)

lemma grows_fetch: "(\<And>e. grows qv (\<lambda>w. run (g e w))) \<Longrightarrow> grows qv (\<lambda>w. run (x w \<bind> (\<lambda>e. g e w)))"
  unfolding grows_def by (auto simp: run_def bind_eq_Some_conv) blast

lemma grows_fetch_state: "(\<And>e. grows qv (g e)) \<Longrightarrow> grows qv (\<lambda>w. x w \<bind> (\<lambda>e. g e w))"
  unfolding grows_def by (auto simp: bind_eq_Some_conv)

lemma grows_if:
  "grows qv (\<lambda>w. run (f w)) \<Longrightarrow> grows qv (\<lambda>w. run (g w)) \<Longrightarrow> grows qv (\<lambda>w. run (if b then f w else g w))"
  "grows qv f' \<Longrightarrow> grows qv g' \<Longrightarrow> grows qv (\<lambda>w. if b then f' w else g' w)"
  by (cases b; simp)+

lemma grows_prim:
  "(\<And>w. \<exists>ys. qv (snd (f w)) = qv w @ ys) \<Longrightarrow> (\<And>r. grows qv (\<lambda>w. run (g r w))) \<Longrightarrow>
   grows qv (\<lambda>w. run (let (r, w) = f w in g r w))"
  unfolding grows_def by (auto simp: run_def split: prod.splits) (metis append_assoc snd_conv)

lemma grows_unit: "(\<And>w. \<exists>ys. qv (f w) = qv w @ ys) \<Longrightarrow> grows qv (\<lambda>w. Some (f w))"
  unfolding grows_def by auto

lemma grows_case_option:
  "grows qv (\<lambda>w. run (f w)) \<Longrightarrow> (\<And>x. grows qv (\<lambda>w. run (g x w))) \<Longrightarrow>
   grows qv (\<lambda>w. run (case z of None \<Rightarrow> f w | Some x \<Rightarrow> g x w))"
  by (cases z) auto

definition pushes :: "('w \<Rightarrow> 'a list) \<Rightarrow> ('w \<Rightarrow> 'w) \<Rightarrow> bool" where
  "pushes qv f \<longleftrightarrow> (\<forall>w. \<exists>ys. qv (f w) = qv w @ ys)"

text \<open>The environment of a task.\<close>

definition task_env ::
  "'z elw platform \<Rightarrow> el_handle \<Rightarrow> qhandle \<Rightarrow> ('z elw \<Rightarrow> audio_event_iface_msg list) \<Rightarrow> bool" where
  "task_env R el q qv \<longleftrightarrow> el_platform R el \<and>
     (\<forall>f b n. quiet el (\<lambda>w. snd (call_process R f el b n w))) \<and>
     (\<forall>n. quiet el (\<lambda>w. snd (heap_alloc R n w))) \<and>
     (\<forall>w x. qv (w\<lparr>els := x\<rparr>) = qv w) \<and> (\<forall>w x. qv (w\<lparr>ifs := x\<rparr>) = qv w) \<and> (\<forall>w x. qv (w\<lparr>rbs := x\<rparr>) = qv w) \<and>
     (\<forall>g b. pushes qv (xEventGroupSetBits R g b)) \<and> (\<forall>g b. pushes qv (xEventGroupClearBits R g b)) \<and>
     (\<forall>q m. pushes qv (\<lambda>w. snd (xQueueSend R q m w))) \<and> (\<forall>s. pushes qv (xSemaphoreGive R s)) \<and>
     (\<forall>f m c. pushes qv (\<lambda>w. snd (call_event R f el m c w))) \<and>
     (\<forall>f. pushes qv (\<lambda>w. snd (call_io R f el w))) \<and>
     (\<forall>f b n. pushes qv (\<lambda>w. snd (call_process R f el b n w))) \<and>
     (\<forall>n. pushes qv (\<lambda>w. snd (heap_alloc R n w))) \<and>
     (\<forall>w m ms t. qv w = m # ms \<longrightarrow> fst (xQueueReceive R q t w) = Some m \<and>
        qv (snd (xQueueReceive R q t w)) = ms \<and> el_view el (snd (xQueueReceive R q t w)) = el_view el w)"

lemma env_platform: "task_env R el q qv \<Longrightarrow> el_platform R el"
  by (simp add: task_env_def)

lemma env_pushes:
  assumes "task_env R el q qv"
  shows "\<exists>ys. qv (xEventGroupSetBits R g b w) = qv w @ ys" "\<exists>ys. qv (xEventGroupClearBits R g b w) = qv w @ ys"
    "\<exists>ys. qv (snd (xQueueSend R k m w)) = qv w @ ys" "\<exists>ys. qv (xSemaphoreGive R s w) = qv w @ ys"
    "\<exists>ys. qv (snd (call_event R f el m c w)) = qv w @ ys" "\<exists>ys. qv (snd (call_io R f el w)) = qv w @ ys"
    "\<exists>ys. qv (snd (call_process R f el bf n w)) = qv w @ ys" "\<exists>ys. qv (snd (heap_alloc R n' w)) = qv w @ ys"
  using assms by (simp_all add: task_env_def pushes_def)

lemma env_upd:
  assumes "task_env R el q qv"
  shows "grows qv (el_upd h f)" "grows qv (ev_upd h f')" "grows qv (rb_upd h f'')"
  using assms by (auto simp: grows_def task_env_def el_upd_def ev_upd_def rb_upd_def split: option.splits)

lemmas grow_rules = grows_return grows_seq grows_seq_run grows_fetch grows_if

section \<open>Every operation of the handler\<close>

lemma grows_bits:
  assumes "task_env R el q qv"
  shows "grows qv (el_set_bits R el b)" "grows qv (el_clear_bits R el b)"
  unfolding el_set_bits_def el_clear_bits_def
  by (intro grows_fetch_state grows_unit env_pushes[OF assms])+

lemma grows_timeout: "task_env R el q qv \<Longrightarrow> grows qv (el_cmd_timeout el t)"
  unfolding el_cmd_timeout_def audio_event_iface_set_cmd_waiting_timeout_def
  using env_upd(2)[of R el q qv] unfolding grows_def by (auto simp: bind_eq_Some_conv)

lemma grows_cmd:
  assumes "task_env R el q qv"
  shows "grows qv (\<lambda>w. run (audio_event_iface_cmd R i m w))"
    "grows qv (\<lambda>w. run (audio_event_iface_sendout R i m w))"
  unfolding audio_event_iface_cmd_def audio_event_iface_sendout_def
  by (intro grow_rules grows_case_option grows_prim env_pushes[OF assms])+

lemma grows_cmd_send: "task_env R el q qv \<Longrightarrow> grows qv (\<lambda>w. run (audio_element_cmd_send R el s w))"
  unfolding audio_element_cmd_send_def by (intro grow_rules grows_cmd)

lemma grows_call:
  assumes "\<And>w. \<exists>ys. qv (snd (f w)) = qv w @ ys"
  shows "grows qv (\<lambda>w. run (Some (f w)))"
  using assms by (auto simp: grows_def run_def)

lemma grows_event:
  assumes env: "task_env R el q qv"
  shows "grows qv (\<lambda>w. run (Some (call_event R f el m c w)))"
  by (intro grows_call env_pushes[OF env])

lemma grows_report:
  assumes env: "task_env R el q qv"
  shows "grows qv (\<lambda>w. run (audio_element_report_status R el s w))"
proof -
  have send: "grows qv (\<lambda>w. run (z \<bind> (\<lambda>i. audio_event_iface_sendout R i msg w)))" for z msg
    by (intro grows_fetch grows_cmd[OF env])
  have "grows qv (\<lambda>w. run (case (x, y) of
       (Some EVENTS_TYPE_CB, Some f) \<Rightarrow> Some (call_event R f el msg c w)
     | _ \<Rightarrow> z \<bind> (\<lambda>i. audio_event_iface_sendout R i msg w)))" for x y z msg c
  proof (cases "x = Some EVENTS_TYPE_CB \<and> y \<noteq> None")
    case True
    then show ?thesis using grows_event[OF env] by auto
  next
    case False
    then have "(case (x, y) of (Some EVENTS_TYPE_CB, Some f) \<Rightarrow> Some (call_event R f el msg c w)
       | _ \<Rightarrow> z \<bind> (\<lambda>i. audio_event_iface_sendout R i msg w)) = z \<bind> (\<lambda>i. audio_event_iface_sendout R i msg w)" for w
      by (auto split: option.splits events_type.splits)
    then show ?thesis using send by simp
  qed
  then show ?thesis
    unfolding audio_element_report_status_def audio_element_msg_sendout_def Let_def by (intro grows_fetch)
qed

lemma grows_give:
  assumes env: "task_env R el q qv"
  shows "grows qv (\<lambda>w. run (Some (r, xSemaphoreGive R s w)))"
  unfolding run_Some by (intro grows_unit env_pushes[OF env])

lemma grows_rb:
  assumes env: "task_env R el q qv"
  shows "grows qv (\<lambda>w. run (rb_abort_read R rb w))" "grows qv (\<lambda>w. run (rb_abort_write R rb w))"
    "grows qv (\<lambda>w. run (rb_done_write R rb w))" "grows qv (\<lambda>w. run (rb_reset rb w))"
  unfolding rb_abort_read_def rb_abort_write_def rb_done_write_def rb_reset_def
  by (intro grow_rules grows_case_option grows_give[OF env] env_upd[OF env])+

lemma grows_rb_abort:
  assumes env: "task_env R el q qv"
  shows "grows qv (\<lambda>w. run (rb_abort R rb w))"
  unfolding rb_abort_def by (intro grow_rules grows_case_option grows_rb[OF env] grows_give[OF env])

lemma grows_multi:
  assumes "\<And>rb. grows qv (\<lambda>w. run (op rb w))"
  shows "grows qv (\<lambda>w. run (multi_rb_do op hs ret w))"
proof (induction hs arbitrary: ret)
  case (Cons s hs)
  show ?case
  proof (cases s)
    case (Some h)
    then show ?thesis using grows_seq_run[OF assms Cons] by simp
  qed (use Cons in simp)
qed (simp add: grows_return)

lemma grows_slots:
  assumes env: "task_env R el q qv"
  shows "grows qv (\<lambda>w. run (audio_element_abort_input_ringbuf R el w))"
    "grows qv (\<lambda>w. run (audio_element_abort_output_ringbuf R el w))"
    "grows qv (\<lambda>w. run (audio_element_reset_output_ringbuf el w))"
    "grows qv (\<lambda>w. run (audio_element_set_ringbuf_done R (Some el) w))"
  unfolding audio_element_abort_input_ringbuf_def audio_element_abort_output_ringbuf_def
    audio_element_reset_output_ringbuf_def audio_element_set_ringbuf_done_def option.case
  by (intro grow_rules grows_multi grows_rb[OF env] grows_rb_abort[OF env])+

lemma grows_close:
  assumes env: "task_env R el q qv"
  shows "grows qv (el_do_close R el)"
proof -
  have "grows qv (\<lambda>w. let (_, w) = call_io R f el w in el_upd el u w)" for f u
    using env_upd(1)[OF env, of el u] env_pushes(6)[OF env, of f] unfolding grows_def
    by (auto split: prod.splits) (metis append_assoc snd_conv)
  then have "grows qv (\<lambda>w. case (x, y) of (True, Some f) \<Rightarrow> (let (_, w) = call_io R f el w in
      el_upd el (\<lambda>e. e\<lparr>el_is_open := False\<rparr>) w) | _ \<Rightarrow> Some w)" for x y
    using grows_return(2) by (cases x; cases y) simp_all
  then show ?thesis unfolding el_do_close_def by (intro grows_fetch_state)
qed

lemmas env_ops = grows_bits grows_timeout grows_cmd_send grows_report grows_slots grows_close env_upd(1)

lemma grows_open:
  assumes env: "task_env R el q qv"
  shows "grows qv (\<lambda>w. run (audio_element_process_state_init R el w))"
  unfolding audio_element_process_state_init_def audio_element_force_set_state_def
  by (intro grow_rules env_ops[OF env] grows_case_option grows_prim env_pushes[OF env])

lemma grows_handlers:
  assumes env: "task_env R el q qv"
  shows "grows qv (\<lambda>w. run (on_cmd_error R el w))" "grows qv (\<lambda>w. run (on_cmd_finish R el w))"
    "grows qv (\<lambda>w. run (on_cmd_stop R el w))" "grows qv (\<lambda>w. run (on_cmd_pause R el w))"
    "grows qv (\<lambda>w. run (on_cmd_resume R el w))" "grows qv (\<lambda>w. run (on_cmd_destroy el w))"
  unfolding on_cmd_error_def on_cmd_finish_def on_cmd_stop_def on_cmd_pause_def on_cmd_resume_def
    on_cmd_destroy_def
  by (intro grow_rules env_ops[OF env] grows_open[OF env])+

lemma grows_on_cmd:
  assumes env: "task_env R el q qv"
  shows "grows qv (\<lambda>w. run (audio_element_on_cmd R m el w))"
  unfolding audio_element_on_cmd_def by (intro grow_rules grows_handlers[OF env])

lemma grows_resume:
  assumes env: "task_env R el q qv"
  shows "grows qv (\<lambda>w. run (audio_element_resume R el f32_zero 0 w))"
proof -
  have z: "f32_eq_0 f32_zero = True" by (simp add: f32_eq_0_def)
  show ?thesis
    unfolding audio_element_resume_def audio_element_force_set_state_def z simp_thms if_False
    by (intro grow_rules env_ops[OF env])
qed

lemma grows_process:
  assumes env: "task_env R el q qv"
  shows "grows qv (\<lambda>w. run (audio_element_process_state_running R el w))"
  unfolding audio_element_process_state_running_def
  by (intro grow_rules env_ops[OF env] grows_resume[OF env] grows_prim env_pushes[OF env])

section \<open>The processing step keeps the view\<close>

lemma process_view:
  assumes env: "task_env R el q qv" and wf: "wf_view (el_view el w)" and e: "els w el = Some e"
    and f: "el_process e = Some f"
  shows "\<exists>err w'. audio_element_process_state_running R el w = Some (err, w') \<and> el_view el w' = el_view el w"
proof (cases "el_state e < AEL_STATE_RUNNING \<or> \<not> el_is_open e")
  case True
  then show ?thesis using e by (auto simp: audio_element_process_state_running_def)
next
  case False
  note pf = env_platform[OF env]
  obtain n w1 where c: "call_process R f el (el_buf e) (el_buf_size e) w = (n, w1)" by fastforce
  have v: "el_view el w1 = el_view el w"
    using env c unfolding task_env_def quiet_def by (metis snd_conv)
  then have wf1: "wf_view (el_view el w1)" using wf by simp
  obtain e1 where e1: "els w1 el = Some e1" "el_state e1 = el_state e"
    using view_els[OF v e] by (metis el_ctl_simps(11))
  have ni: "el_state e1 \<noteq> AEL_STATE_INIT" using False e1(2) by (auto simp: state_order)
  have "handles el (\<lambda>w. audio_element_set_ringbuf_done R (Some el) w \<bind> (\<lambda>(_, w).
      audio_element_cmd_send R el AEL_MSG_CMD_FINISH w \<bind> (\<lambda>(_, w). Some (ESP_OK, w)))) ESP_OK id"
    by (rule handles_eq, (rule handler_steps acts_done pf)+) (simp add: comp_def id_def)
  then obtain w2 where 2: "audio_element_set_ringbuf_done R (Some el) w1 \<bind> (\<lambda>(_, w).
      audio_element_cmd_send R el AEL_MSG_CMD_FINISH w \<bind> (\<lambda>(_, w). Some (ESP_OK, w))) = Some (ESP_OK, w2)"
      "el_view el w2 = el_view el w1" using wf1 unfolding handles_def by auto
  have "handles el (\<lambda>w. audio_element_report_status R el AEL_STATUS_ERROR_PROCESS w \<bind> (\<lambda>(_, w).
      audio_element_cmd_send R el AEL_MSG_CMD_ERROR w \<bind> (\<lambda>(_, w). Some (ESP_OK, w)))) ESP_OK id"
    by (rule handles_eq, (rule handler_steps pf)+) (simp add: comp_def id_def)
  then obtain w3 where 3: "audio_element_report_status R el AEL_STATUS_ERROR_PROCESS w1 \<bind> (\<lambda>(_, w).
      audio_element_cmd_send R el AEL_MSG_CMD_ERROR w \<bind> (\<lambda>(_, w). Some (ESP_OK, w))) = Some (ESP_OK, w3)"
      "el_view el w3 = el_view el w1" using wf1 unfolding handles_def by auto
  show ?thesis using False e f c e1 ni 2 3 v
    by (auto simp: audio_element_process_state_running_def audio_element_get_state_def)
qed

section \<open>The loop\<close>

text \<open>What the loop relies on: an initialised element with a \<open>process\<close> callback whose interface has the
  queue \<open>q\<close> and the element's handler.\<close>

definition task_ready :: "el_handle \<Rightarrow> qhandle \<Rightarrow> 'z elw \<Rightarrow> bool" where
  "task_ready el q w \<longleftrightarrow> wf_view (el_view el w) \<and>
     (\<exists>e i v. els w el = Some e \<and> el_process e \<noteq> None \<and> el_iface_event e = Some i \<and> ifs w i = Some v \<and>
        ev_internal_queue v = Some q \<and> ev_on_cmd v = Some audio_element_on_cmd_ptr \<and> ev_context v = el)"

lemma task_ready_statics:
  assumes "task_ready el q w" "statics (el_view el w') = statics (el_view el w)" "wf_view (el_view el w')"
  shows "task_ready el q w'"
proof -
  obtain e i v where e: "els w el = Some e" "el_process e \<noteq> None" "el_iface_event e = Some i" "ifs w i = Some v"
    "ev_internal_queue v = Some q" "ev_on_cmd v = Some audio_element_on_cmd_ptr" "ev_context v = el"
    using assms(1) by (auto simp: task_ready_def)
  from statics_el[OF assms(2) e(1)] statics_iface[OF assms(2) e(4)] e assms(3) show ?thesis
    by (fastforce simp: task_ready_def)
qed

lemma task_ready_view:
  "task_ready el q w \<Longrightarrow> el_view el w' = el_view el w \<Longrightarrow> task_ready el q w'"
  by (rule task_ready_statics) (auto simp: task_ready_def)

text \<open>One turn with a command in the queue: the loop ends, or the queue has lost its head.\<close>

lemma task_turn:
  assumes env: "task_env R el q qv" and rdy: "task_ready el q w" and qw: "qv w = m # ms"
  shows "\<exists>r w'. el_task_iter R el w = Some r \<and> task_ready el q w' \<and>
     statics (el_view el w') = statics (el_view el w) \<and>
     (r = Inl w' \<or> (r = Inr w' \<and> msg_cmd m \<noteq> AEL_MSG_CMD_DESTROY \<and> (\<exists>ys. qv w' = ms @ ys)))"
proof -
  obtain e i v where e: "els w el = Some e" "el_process e \<noteq> None" "el_iface_event e = Some i" "ifs w i = Some v"
    "ev_internal_queue v = Some q" "ev_on_cmd v = Some audio_element_on_cmd_ptr" "ev_context v = el"
    using rdy by (auto simp: task_ready_def)
  obtain r w1 where c: "xQueueReceive R q (ev_wait_time v) w = (r, w1)" by fastforce
  have w1: "r = Some m" "qv w1 = ms" "el_view el w1 = el_view el w"
    using env qw c unfolding task_env_def by (metis fst_conv snd_conv)+
  have rdy1: "task_ready el q w1" by (rule task_ready_view[OF rdy w1(3)])
  have i1: "ifs w1 i = Some v" using w1(3) e(4) by (simp add: el_view_def)
  obtain err w2 where h: "audio_element_on_cmd R m el w1 = Some (err, w2)" "task_ready el q w2"
    "statics (el_view el w2) = statics (el_view el w)" "msg_cmd m = AEL_MSG_CMD_DESTROY \<longrightarrow> err = ESP_FAIL"
  proof (cases "msg_source_type m = AUDIO_ELEMENT_TYPE_ELEMENT")
    case True
    obtain e1 where e1: "els w1 el = Some e1" "wf_view (el_view el w1)" using rdy1 by (auto simp: task_ready_def)
    from on_cmd_refines_aux[OF env_platform[OF env] e1(2,1) True] show ?thesis
      using that task_ready_statics[OF rdy1] w1(3) by (fastforce simp: refines_cmd_def el_spec_def)
  next
    case False
    then show ?thesis using that[of ESP_FAIL w1] rdy1 w1(3) by (simp add: audio_element_on_cmd_def)
  qed
  have q2: "\<exists>ys. qv w2 = ms @ ys" using growsD[OF grows_on_cmd[OF env] h(1)] w1(2) by simp
  have wait: "audio_event_iface_waiting_cmd_msg R (el_call_cmd R) i w =
      Some (if err \<noteq> ESP_OK then ESP_FAIL else ESP_OK, w2)"
    using e c w1(1) i1 h(1) by (simp add: audio_event_iface_waiting_cmd_msg_def el_call_cmd_def)
  show ?thesis
  proof (cases "el_task_run e \<and> err = ESP_OK")
    case False
    then show ?thesis using e rdy h wait by (auto simp: el_task_iter_def)
  next
    case True
    obtain e2 where e2: "els w2 el = Some e2" "wf_view (el_view el w2)" "el_process e2 \<noteq> None"
      using h(2) by (auto simp: task_ready_def)
    then obtain f where "el_process e2 = Some f" by blast
    from process_view[OF env e2(2,1) this] obtain err' w3 where
      p: "audio_element_process_state_running R el w2 = Some (err', w3)" "el_view el w3 = el_view el w2" by blast
    have "\<exists>ys. qv w3 = ms @ ys" using growsD[OF grows_process[OF env] p(1)] q2 by auto
    then show ?thesis using True e wait p h task_ready_view[OF h(2) p(2)]
      by (auto simp: el_task_iter_def)
  qed
qed

lemma task_loop_ends:
  assumes env: "task_env R el q qv" and d: "msg_cmd d = AEL_MSG_CMD_DESTROY"
  shows "task_ready el q w \<Longrightarrow> qv w = pre @ d # post \<Longrightarrow>
     \<exists>w'. el_task_loop R el w = Some w' \<and> task_ready el q w' \<and> statics (el_view el w') = statics (el_view el w)"
proof (induction pre arbitrary: w post)
  case Nil
  from task_turn[OF env Nil(1), of d post] Nil(2) d show ?case
    by (subst el_task_loop.simps) auto
next
  case (Cons m pre)
  from task_turn[OF env Cons(2), of m "pre @ d # post"] Cons(3) obtain r w1 where
    t: "el_task_iter R el w = Some r" "task_ready el q w1" "statics (el_view el w1) = statics (el_view el w)"
    "r = Inl w1 \<or> (r = Inr w1 \<and> (\<exists>ys. qv w1 = (pre @ d # post) @ ys))" by auto
  then show ?case
  proof (cases "r = Inl w1")
    case True
    then show ?thesis using t by (subst el_task_loop.simps) auto
  next
    case False
    then obtain ys where ys: "r = Inr w1" "qv w1 = pre @ d # (post @ ys)" using t(4) by auto
    from Cons.IH[OF t(2) ys(2)] show ?thesis using t(1,3) ys(1) by (subst el_task_loop.simps) auto
  qed
qed

section \<open>Start and end of the task\<close>

definition steps :: "el_handle \<Rightarrow> qhandle \<Rightarrow> ('z elw \<Rightarrow> audio_event_iface_msg list) \<Rightarrow> ('z elw \<Rightarrow> 'z elw option) \<Rightarrow> bool" where
  "steps el q qv op \<longleftrightarrow>
     (\<forall>w. task_ready el q w \<longrightarrow>
        (\<exists>w'. op w = Some w' \<and> task_ready el q w' \<and> (\<exists>ys. qv w' = qv w @ ys) \<and>
           statics (el_view el w') = statics (el_view el w)))"

lemma steps_acts:
  assumes a: "acts el op F" and F: "\<And>v. statics (F v) = statics v" and g: "grows qv op"
  shows "steps el q qv op"
  unfolding steps_def
proof (intro allI impI, goal_cases)
  case rdy: (1 w)
  then obtain w' where w': "op w = Some w'" "el_view el w' = F (el_view el w)" "wf_view (el_view el w')"
    using actsD[OF a, of w] by (auto simp: task_ready_def)
  then have st: "statics (el_view el w') = statics (el_view el w)" by (simp add: F)
  then show ?case using w' task_ready_statics[OF rdy st] g unfolding grows_def by blast
qed

lemma steps_seq: "steps el q qv f \<Longrightarrow> steps el q qv g \<Longrightarrow> steps el q qv (\<lambda>w. f w \<bind> g)"
  unfolding steps_def by (metis append.assoc bind.bind_lunit)

lemma acts_force: "acts el (\<lambda>w. run (audio_element_force_set_state el s w)) (on_ctl (\<lambda>e. e\<lparr>el_state := s\<rparr>))"
  using acts_seq[OF upd_state acts_return] by (simp add: audio_element_force_set_state_def comp_def)

lemma force_run: "(audio_element_force_set_state el s w \<bind> (\<lambda>(_, w). f w)) = run (audio_element_force_set_state el s w) \<bind> f"
  by (simp add: run_def audio_element_force_set_state_def bind_map_option comp_def split_def)

lemma upd_misc:
  "acts el (el_upd el (\<lambda>e. e\<lparr>el_task_run := b\<rparr>)) (on_ctl (\<lambda>e. e\<lparr>el_task_run := b\<rparr>))"
  "acts el (el_upd el (\<lambda>e. e\<lparr>el_buf := p\<rparr>)) (on_ctl (\<lambda>e. e\<lparr>el_buf := p\<rparr>))"
  by (rule acts_upd; simp add: el_ctl_def el_ok_def)+

lemma misc_statics:
  "statics (on_ctl (\<lambda>e. e\<lparr>el_task_run := b\<rparr>) v) = statics v"
  "statics (on_ctl (\<lambda>e. e\<lparr>el_buf := p\<rparr>) v) = statics v"
  by (auto simp: statics_def on_ctl_def el_fixed_def[abs_def] option.map_comp comp_def split: prod.splits)

lemma steps_alloc:
  assumes env: "task_env R el q qv"
  shows "steps el q qv (\<lambda>w. let (p, w) = heap_alloc R n w in do {
     w \<leftarrow> el_upd el (\<lambda>e. e\<lparr>el_buf := p\<rparr>) w;
     if p = None then el_upd el (\<lambda>e. e\<lparr>el_task_run := False\<rparr>) w else Some w })"
  unfolding steps_def
proof (intro allI impI, goal_cases)
  case rdy: (1 w)
  obtain p w1 where a: "heap_alloc R n w = (p, w1)" by fastforce
  have v: "el_view el w1 = el_view el w" using env a unfolding task_env_def quiet_def by (metis snd_conv)
  have g: "\<exists>ys. qv w1 = qv w @ ys" using env_pushes(8)[OF env, of n w] a by simp
  have "steps el q qv (\<lambda>w. el_upd el (\<lambda>e. e\<lparr>el_buf := p\<rparr>) w \<bind>
      (\<lambda>w. if p = None then el_upd el (\<lambda>e. e\<lparr>el_task_run := False\<rparr>) w else Some w))"
  proof (cases p)
    case None
    then show ?thesis
      using steps_seq[OF steps_acts[OF upd_misc(2) misc_statics(2) env_upd(1)[OF env]]
          steps_acts[OF upd_misc(1) misc_statics(1) env_upd(1)[OF env]]] by simp
  next
    case (Some a)
    then show ?thesis using steps_acts[OF upd_misc(2) misc_statics(2) env_upd(1)[OF env]] by simp
  qed
  moreover have "task_ready el q w1" by (rule task_ready_view[OF rdy v])
  ultimately obtain w2 ys where "el_upd el (\<lambda>e. e\<lparr>el_buf := p\<rparr>) w1 \<bind>
      (\<lambda>w. if p = None then el_upd el (\<lambda>e. e\<lparr>el_task_run := False\<rparr>) w else Some w) = Some w2"
      "task_ready el q w2" "qv w2 = qv w1 @ ys" "statics (el_view el w2) = statics (el_view el w1)"
    unfolding steps_def by blast
  then show ?case using a g v by (simp del: bind_eq_Some_conv) (metis append_assoc)
qed

lemma steps_start:
  assumes env: "task_env R el q qv"
  shows "steps el q qv (el_task_start R el)"
proof -
  note pf = env_platform[OF env]
  have 1: "steps el q qv (\<lambda>w. els w el \<bind> (\<lambda>e. if 0 < el_buf_size e then
             (let (p, w) = heap_alloc R (nat (el_buf_size e)) w in do {
                w \<leftarrow> el_upd el (\<lambda>e. e\<lparr>el_buf := p\<rparr>) w;
                if p = None then el_upd el (\<lambda>e. e\<lparr>el_task_run := False\<rparr>) w else Some w
              }) else Some w))"
    unfolding steps_def
  proof (intro allI impI, goal_cases)
    case rdy: (1 w)
    then obtain e where e: "els w el = Some e" by (auto simp: task_ready_def)
    show ?case
    proof (cases "0 < el_buf_size e")
      case True
      then show ?thesis using e rdy steps_alloc[OF env, of "nat (el_buf_size e)"] unfolding steps_def by simp
    qed (use e rdy in simp)
  qed
  have 2: "el_task_start R el = (\<lambda>w. el_upd el (\<lambda>e. e\<lparr>el_task_run := True\<rparr>) w \<bind> (\<lambda>w.
      el_set_bits R el TASK_CREATED_BIT w \<bind> (\<lambda>w. run (audio_element_force_set_state el AEL_STATE_INIT w) \<bind> (\<lambda>w.
      el_cmd_timeout el portMAX_DELAY w \<bind> (\<lambda>w. (els w el \<bind> (\<lambda>e. if 0 < el_buf_size e then
             (let (p, w) = heap_alloc R (nat (el_buf_size e)) w in do {
                w \<leftarrow> el_upd el (\<lambda>e. e\<lparr>el_buf := p\<rparr>) w;
                if p = None then el_upd el (\<lambda>e. e\<lparr>el_task_run := False\<rparr>) w else Some w
              }) else Some w)) \<bind> el_clear_bits R el STOPPED_BIT)))))"
    by (simp add: el_task_start_def force_run fun_eq_iff)
  have f: "grows qv (\<lambda>w. run (audio_element_force_set_state el AEL_STATE_INIT w))"
    unfolding audio_element_force_set_state_def by (intro grow_rules env_upd[OF env])
  show ?thesis unfolding 2
    by (intro steps_seq 1 steps_acts[OF upd_misc(1) misc_statics(1) env_upd(1)[OF env]]
        steps_acts[OF acts_set_bits[OF pf] _ grows_bits(1)[OF env]]
        steps_acts[OF acts_force _ f] steps_acts[OF acts_timeout _ grows_timeout[OF env]]
        steps_acts[OF acts_clear_bits[OF pf] _ grows_bits(2)[OF env]]) simp_all
qed

lemma task_end_view:
  assumes pf: "el_platform R el" and wf: "wf_view (el_view el w)"
  shows "\<exists>w'. el_task_end R el w = Some w' \<and>
     el_view el w' = on_ctl (\<lambda>e. e\<lparr>el_task_run := False\<rparr>) (on_ctl do_close (el_view el w))"
proof -
  obtain w1 where 1: "el_do_close R el w = Some w1" "el_view el w1 = on_ctl do_close (el_view el w)"
    "wf_view (el_view el w1)" using actsD[OF acts_close[OF pf] wf] by blast
  obtain w2 where 2: "el_set_bits R el TASK_DESTROYED_BIT w1 = Some w2" "el_view el w2 = el_view el w1"
    using actsD[OF acts_set_bits[OF pf, of TASK_DESTROYED_BIT] 1(3)] by auto
  obtain w3 where 3: "el_upd el (\<lambda>e. e\<lparr>el_task_run := False\<rparr>) w2 = Some w3"
    "el_view el w3 = on_ctl (\<lambda>e. e\<lparr>el_task_run := False\<rparr>) (el_view el w2)"
    using actsD[OF upd_misc(1), of el w2] 1(3) 2(2) by auto
  show ?thesis using 1 2 3 by (simp add: el_task_end_def)
qed

text \<open>C10. The element's task returns once a destroy command is in its command queue, whatever commands precede it
  and whatever the handlers and callbacks append: the loop ends at the latest with that command, the
  task flag is cleared, and an element with a \<open>close\<close> callback is closed.\<close>

theorem task_ends_after_destroy:
  assumes env: "task_env R el q qv" and rdy: "task_ready el q w" and e: "els w el = Some e"
    and qd: "qv w = pre @ d # post" and d: "msg_cmd d = AEL_MSG_CMD_DESTROY"
  shows "\<exists>w' e'. audio_element_task R el w = Some w' \<and> els w' el = Some e' \<and> \<not> el_task_run e' \<and>
     (el_close e \<noteq> None \<longrightarrow> \<not> el_is_open e')"
proof -
  obtain w1 ys where 1: "el_task_start R el w = Some w1" "task_ready el q w1" "qv w1 = qv w @ ys"
    "statics (el_view el w1) = statics (el_view el w)"
    using steps_start[OF env] rdy unfolding steps_def by blast
  have "qv w1 = pre @ d # (post @ ys)" using 1(3) qd by simp
  from task_loop_ends[OF env d 1(2) this] obtain w2 where 2: "el_task_loop R el w1 = Some w2" "task_ready el q w2"
    "statics (el_view el w2) = statics (el_view el w1)" by blast
  from statics_el[OF trans[OF 2(3) 1(4)] e] obtain e2 where e2: "els w2 el = Some e2" "el_close e2 = el_close e"
    by blast
  have "wf_view (el_view el w2)" using 2(2) by (simp add: task_ready_def)
  from task_end_view[OF env_platform[OF env] this] obtain w3 where 3: "el_task_end R el w2 = Some w3"
    "el_view el w3 = on_ctl (\<lambda>e. e\<lparr>el_task_run := False\<rparr>) (on_ctl do_close (el_view el w2))" by blast
  from 3(2) e2 obtain e3 where e3: "els w3 el = Some e3" "el_ctl e3 = (do_close (el_ctl e2))\<lparr>el_task_run := False\<rparr>"
    by (auto simp: el_view_def on_ctl_def)
  have "el_task_run e3 = el_task_run (el_ctl e3)" "el_is_open e3 = el_is_open (el_ctl e3)" by simp_all
  then have "\<not> el_task_run e3" "el_close e \<noteq> None \<longrightarrow> \<not> el_is_open e3"
    unfolding e3(2) using e2(2) by (auto simp: do_close_def)
  then show ?thesis using 1(1) 2(1) 3(1) e3(1) by (simp add: audio_element_task_def)
qed

record elq_world = el_world +
  eq :: "qhandle \<Rightarrow> audio_event_iface_msg list"

definition queue_platform :: "elq_world platform" where
  "queue_platform = with_queues eq (\<lambda>x w. w\<lparr>eq := x\<rparr>) 5 (seq_platform (Some 50))"

definition ex_elq :: elq_world where
  "ex_elq = \<lparr>rbs = Map.empty, ifs = [1 \<mapsto> ex_el_iface], els = [2 \<mapsto> ex_el (Some 11)], strs = Map.empty,
     eq = (\<lambda>q. if q = 10 then [el_cmd AEL_MSG_CMD_RESUME, el_cmd AEL_MSG_CMD_DESTROY] else [])\<rparr>"

lemma queue_platform_env: "task_env queue_platform 2 10 (\<lambda>w. eq w 10)"
  by (auto simp: task_env_def el_platform_def quiet_def pushes_def queue_platform_def el_view_def
      split: list.splits)

lemma ex_elq_ready: "task_ready 2 10 ex_elq"
  by (simp add: task_ready_def wf_view_def el_view_def el_ok_def rb_slot_ok_def ex_elq_def ex_el_defs)

theorem task_ends_after_destroy_witness:
  "\<exists>w' e'. audio_element_task queue_platform 2 ex_elq = Some w' \<and> els w' 2 = Some e' \<and> \<not> el_is_open e'"
  using task_ends_after_destroy[OF queue_platform_env ex_elq_ready, of "ex_el (Some 11)"
      "[el_cmd AEL_MSG_CMD_RESUME]" "el_cmd AEL_MSG_CMD_DESTROY" "[]"]
  by (auto simp: ex_elq_def ex_elw_el el_cmd_def)

section \<open>Creation of an element\<close>

definition stores :: "'z elw \<Rightarrow> _" where "stores w = (rbs w, ifs w, els w, strs w)"

text \<open>Allocation and creation of kernel objects succeed and leave the modelled objects alone; a wait without
  limit for a mutex ends.\<close>

definition supplies :: "('z elw \<Rightarrow> addr option \<times> 'z elw) \<Rightarrow> bool" where
  "supplies f \<longleftrightarrow> (\<forall>w. \<exists>a w'. f w = (Some a, w') \<and> stores w' = stores w)"

definition alloc_ok :: "'z elw platform \<Rightarrow> bool" where
  "alloc_ok R \<longleftrightarrow> (\<forall>n. supplies (heap_alloc R n)) \<and> supplies (xSemaphoreCreateMutex R) \<and>
     supplies (xEventGroupCreate R) \<and> (\<forall>n. supplies (xQueueCreate R n)) \<and>
     (\<forall>s w. \<exists>w'. xSemaphoreTake R s portMAX_DELAY w = (True, w') \<and> stores w' = stores w) \<and>
     (\<forall>s w. stores (xSemaphoreGive R s w) = stores w)"

lemma supplyD: "supplies f \<Longrightarrow> \<exists>a w'. f w = (Some a, w') \<and> rbs w' = rbs w \<and> ifs w' = ifs w \<and> els w' = els w \<and> strs w' = strs w"
  by (simp add: supplies_def stores_def)

lemma alloc_steps:
  assumes "alloc_ok R"
  shows "\<exists>a w'. heap_alloc R n w = (Some a, w') \<and> rbs w' = rbs w \<and> ifs w' = ifs w \<and> els w' = els w \<and> strs w' = strs w"
    and "\<exists>a w'. xSemaphoreCreateMutex R w = (Some a, w') \<and> rbs w' = rbs w \<and> ifs w' = ifs w \<and> els w' = els w \<and> strs w' = strs w"
    and "\<exists>a w'. xEventGroupCreate R w = (Some a, w') \<and> rbs w' = rbs w \<and> ifs w' = ifs w \<and> els w' = els w \<and> strs w' = strs w"
    and "\<exists>a w'. xQueueCreate R k w = (Some a, w') \<and> rbs w' = rbs w \<and> ifs w' = ifs w \<and> els w' = els w \<and> strs w' = strs w"
  using assms by (intro supplyD; simp add: alloc_ok_def)+

lemma new_tag:
  assumes ok: "alloc_ok R" and e: "els w el = Some e" "el_tag e = None"
  shows "\<exists>a w'. audio_element_set_tag R el (Some t) w = Some (ESP_OK, w') \<and> strs w' a = Some t \<and>
     rbs w' = rbs w \<and> ifs w' = ifs w \<and> els w' = (els w)(el \<mapsto> e\<lparr>el_tag := Some a\<rparr>)"
proof -
  let ?w = "w\<lparr>els := (els w)(el \<mapsto> e\<lparr>el_tag := None\<rparr>)\<rparr>"
  obtain a w1 where "heap_alloc R (length t + 1) ?w = (Some a, w1)" "rbs w1 = rbs ?w" "ifs w1 = ifs ?w"
    "els w1 = els ?w" "strs w1 = strs ?w" using alloc_steps(1)[OF ok] by blast
  then show ?thesis using e
    by (intro exI[of _ a]) (simp add: audio_element_set_tag_def str_free_def str_dup_def)
qed

lemma new_iface:
  assumes ok: "alloc_ok R"
  shows "\<exists>i w' v. audio_event_iface_init R (AUDIO_EVENT_IFACE_DEFAULT_CFG\<lparr>ec_on_cmd := f, ec_context := c,
        ec_queue_set_size := 0\<rparr>) w = Some (Some i, w') \<and> rbs w' = rbs w \<and> els w' = els w \<and> strs w' = strs w \<and>
     ifs w' = (ifs w)(i \<mapsto> v) \<and> ev_internal_queue v \<noteq> None \<and> ev_external_queue v \<noteq> None \<and>
     ev_on_cmd v = f \<and> ev_context v = c \<and> ev_wait_time v = 0"
proof -
  obtain i w1 where 1: "heap_alloc R 48 w = (Some i, w1)" "rbs w1 = rbs w" "ifs w1 = ifs w" "els w1 = els w"
    "strs w1 = strs w" using alloc_steps(1)[OF ok] by blast
  obtain a w2 where 2: "xQueueCreate R 5 w1 = (Some a, w2)" "rbs w2 = rbs w1" "ifs w2 = ifs w1" "els w2 = els w1"
    "strs w2 = strs w1" using alloc_steps(4)[OF ok] by blast
  obtain b w3 where 3: "xQueueCreate R 5 w2 = (Some b, w3)" "rbs w3 = rbs w2" "ifs w3 = ifs w2" "els w3 = els w2"
    "strs w3 = strs w2" using alloc_steps(4)[OF ok] by blast
  show ?thesis using 1 2 3
    by (simp add: audio_event_iface_init_def AUDIO_EVENT_IFACE_DEFAULT_CFG_def)
      (rule exI, intro conjI, rule refl, simp_all)
qed

lemma setinfo_ok:
  assumes ok: "alloc_ok R" and e: "els w el = Some e" "el_lock e = Some l"
  shows "\<exists>w'. audio_element_setinfo R (Some el) (Some i) w = Some (ESP_OK, w') \<and> rbs w' = rbs w \<and> ifs w' = ifs w \<and>
     strs w' = strs w \<and> els w' = (els w)(el \<mapsto> e\<lparr>el_info := i\<rparr>)"
proof -
  obtain w1 where 1: "xSemaphoreTake R l portMAX_DELAY w = (True, w1)" "stores w1 = stores w"
    using ok unfolding alloc_ok_def by metis
  have "mutex_lock R l w = Some w1" using 1(1) by (subst mutex_lock.simps) simp
  moreover have "stores (xSemaphoreGive R l w') = stores w'" for w' using ok by (simp add: alloc_ok_def)
  ultimately show ?thesis using e 1(2) by (simp add: audio_element_setinfo_def stores_def)
qed

text \<open>When allocation succeeds, \<open>audio_element_init\<close> returns a handle of an initialised, idle element: its
  interface has both queues and the element's own handler with the element as context, its tag is a
  copy of the configured one, and its state is \<open>AEL_STATE_INIT\<close>, closed and without a task, so the
  invariant of its state machine holds. The \<open>seek\<close> callback of the configuration is dropped.\<close>

theorem element_init_ready:
  assumes ok: "alloc_ok R"
  shows "\<exists>el w' e i v a. audio_element_init R c w = Some (Some el, w') \<and> els w' el = Some e \<and>
     wf_view (el_view el w') \<and> el_inv (el_close e \<noteq> None) (el_abs el w') \<and>
     el_iface_event e = Some i \<and> ifs w' i = Some v \<and> ev_internal_queue v \<noteq> None \<and>
     ev_on_cmd v = Some audio_element_on_cmd_ptr \<and> ev_context v = el \<and>
     el_state e = AEL_STATE_INIT \<and> \<not> el_is_open e \<and> \<not> el_task_run e \<and> el_process e = cfg_process c \<and>
     el_open e = cfg_open c \<and> el_close e = cfg_close c \<and> el_seek e = None \<and>
     el_tag e = Some a \<and> strs w' a = Some (case cfg_tag c of Some t \<Rightarrow> t | None \<Rightarrow> ''unknown'')"
proof -
  let ?t = "case cfg_tag c of Some t \<Rightarrow> t | None \<Rightarrow> ''unknown''"
  obtain el w0 where 0: "heap_alloc R 192 w = (Some el, w0)" using alloc_steps(1)[OF ok] by blast
  let ?w0 = "w0\<lparr>els := (els w0)(el \<mapsto> el_zero)\<rparr>"
  have "els ?w0 el = Some el_zero" "el_tag el_zero = None" by (simp_all add: el_zero_def)
  from new_tag[OF ok this] obtain a w1 where 1: "audio_element_set_tag R el (Some ?t) ?w0 = Some (ESP_OK, w1)"
    "strs w1 a = Some ?t" "els w1 el = Some (el_zero\<lparr>el_tag := Some a\<rparr>)" by force
  obtain l w2 where 2: "xSemaphoreCreateMutex R w1 = (Some l, w2)" "els w2 = els w1" "strs w2 = strs w1"
    using alloc_steps(2)[OF ok] by blast
  let ?e2 = "el_zero\<lparr>el_tag := Some a, el_lock := Some l\<rparr>"
  let ?w2 = "w2\<lparr>els := (els w2)(el \<mapsto> ?e2)\<rparr>"
  obtain i w3 v where 3: "audio_event_iface_init R (AUDIO_EVENT_IFACE_DEFAULT_CFG\<lparr>ec_on_cmd := Some audio_element_on_cmd_ptr,
      ec_context := el, ec_queue_set_size := 0\<rparr>) ?w2 = Some (Some i, w3)" "els w3 = els ?w2" "strs w3 = strs ?w2"
    "ifs w3 i = Some v" "ev_internal_queue v \<noteq> None" "ev_on_cmd v = Some audio_element_on_cmd_ptr" "ev_context v = el"
    using new_iface[OF ok, where f = "Some audio_element_on_cmd_ptr" and c = el and w = ?w2] by auto
  let ?e3 = "?e2\<lparr>el_iface_event := Some i\<rparr>"
  let ?w3 = "w3\<lparr>els := (els w3)(el \<mapsto> ?e3)\<rparr>"
  obtain g w4 where 4: "xEventGroupCreate R ?w3 = (Some g, w4)" "ifs w4 = ifs ?w3" "els w4 = els ?w3" "strs w4 = strs ?w3"
    using alloc_steps(3)[OF ok] by blast
  let ?e4 = "el_configure c (?e3\<lparr>el_state_event := Some g\<rparr>)"
  let ?w4 = "w4\<lparr>els := (els w4)(el \<mapsto> ?e4)\<rparr>"
  have "els ?w4 el = Some ?e4" "el_lock ?e4 = Some l" by (simp_all add: el_configure_def)
  from setinfo_ok[OF ok this] obtain w5 where 5: "audio_element_setinfo R (Some el) (Some AUDIO_ELEMENT_INFO_DEFAULT) ?w4
      = Some (ESP_OK, w5)" "ifs w5 = ifs w4" "strs w5 = strs w4"
    "els w5 = (els w4)(el \<mapsto> ?e4\<lparr>el_info := AUDIO_ELEMENT_INFO_DEFAULT\<rparr>)" by force
  let ?e5 = "el_configure_io c (?e4\<lparr>el_info := AUDIO_ELEMENT_INFO_DEFAULT, el_input_wait_time := portMAX_DELAY,
      el_output_wait_time := portMAX_DELAY\<rparr>)"
  let ?w5 = "w5\<lparr>els := (els w5)(el \<mapsto> ?e5)\<rparr>"
  have init: "audio_element_init R c w = Some (Some el, ?w5)"
    using 0 1(1,3) 2 3(1,2) 4(1,3) 5
    by (simp add: audio_element_init_def audio_element_set_input_timeout_def audio_element_set_output_timeout_def)
  have e5: "el_iface_event ?e5 = Some i" "el_state ?e5 = AEL_STATE_INIT" "\<not> el_is_open ?e5" "\<not> el_is_running ?e5"
    "\<not> el_task_run ?e5" "el_process ?e5 = cfg_process c" "el_open ?e5 = cfg_open c" "el_close ?e5 = cfg_close c"
    "el_seek ?e5 = None" "el_tag ?e5 = Some a" "el_state_event ?e5 = Some g"
    "rb_slot_ok (dom (rbs ?w5)) (el_read_type ?e5) (el_in ?e5) (el_multi_in_rb ?e5)"
    "rb_slot_ok (dom (rbs ?w5)) (el_write_type ?e5) (el_out ?e5) (el_multi_out_rb ?e5)"
    by (auto simp: el_configure_def el_configure_io_def el_zero_def rb_slot_ok_def Let_def split: option.splits)
  have iv: "ifs ?w5 i = Some v" using 3(4) 4(2) 5(2) by simp
  have wf: "wf_view (el_view el ?w5)" using e5 iv by (auto simp: wf_view_def el_view_def el_ok_def)
  have "el_inv (el_close ?e5 \<noteq> None) (el_abs el ?w5)"
    using abs_fields[OF wf, of ?e5] e5(2) by (simp add: el_inv_def halted_def)
  moreover have "strs ?w5 a = Some ?t" using 1(2) 2(3) 3(3) 4(4) 5(3) by simp
  ultimately show ?thesis using init wf e5 iv 3(5-7)
    by (intro exI[of _ el] exI[of _ ?w5] exI[of _ ?e5] exI[of _ i] exI[of _ v] exI[of _ a]) simp
qed

lemma seq_alloc_ok: "alloc_ok (seq_platform (Some a))"
  by (simp add: alloc_ok_def supplies_def)

theorem element_init_ready_witness:
  "\<exists>el w' e. audio_element_init (seq_platform (Some 7))
       (DEFAULT_AUDIO_ELEMENT_CONFIG\<lparr>cfg_seek := Some 5, cfg_tag := Some ''dec''\<rparr>) (ex_elw None) = Some (Some el, w') \<and>
     els w' el = Some e \<and> el_seek e = None"
  using element_init_ready[OF seq_alloc_ok, of 7 "DEFAULT_AUDIO_ELEMENT_CONFIG\<lparr>cfg_seek := Some 5, cfg_tag := Some ''dec''\<rparr>"
      "ex_elw None"] by blast

end
