(* ===== verification/Audio_Pipeline.thy ===== *)
theory Audio_Pipeline
  imports Audio_Element
begin

text \<open>
  The audio pipeline (\<open>components/audio_pipeline/audio_pipeline.c\<close>): a list of registered elements and a
  list of the ring buffers that connect consecutive linked ones. The items of both tail queues are
  list entries; a pointer to an item is its index. Only the controlling task changes the lists, so a
  \<open>STAILQ_FOREACH\<close> runs over the list it finds.
\<close>

section \<open>State\<close>

record ringbuf_item =
  ri_rb :: rb_handle
  ri_host_el :: "el_handle option"
  ri_linked :: bool
  ri_kept_ctx :: bool

record audio_element_item =
  ai_el :: el_handle
  ai_linked :: bool
  ai_kept_ctx :: bool
  ai_el_state :: int

record audio_pipeline =
  pl_el_list :: "audio_element_item list"
  pl_rb_list :: "ringbuf_item list"
  pl_state :: audio_element_state
  pl_lock :: "sem option"
  pl_linked :: bool
  pl_listener :: "iface_handle option"

type_synonym pl_handle = addr

record pl_world = el_world +
  pls :: "pl_handle \<Rightarrow> audio_pipeline option"

type_synonym 'z plw = "'z pl_world_scheme"

definition pl_upd :: "pl_handle \<Rightarrow> (audio_pipeline \<Rightarrow> audio_pipeline) \<Rightarrow> 'z plw \<Rightarrow> 'z plw option" where
  "pl_upd h f w =
     (case pls w h of None \<Rightarrow> None | Some p \<Rightarrow> Some (w\<lparr>pls := (pls w)(h \<mapsto> f p)\<rparr>))"

lemma pl_upd_Some [simp]:
  "pls w h = Some p \<Longrightarrow> pl_upd h f w = Some (w\<lparr>pls := (pls w)(h \<mapsto> f p)\<rparr>)"
  by (simp add: pl_upd_def)

interpretation pl_store: object_store pls pl_upd
  by unfold_locales (auto simp: pl_upd_def split: option.splits)

text \<open>Writing through an item pointer.\<close>

definition upd_el_item :: "nat \<Rightarrow> (audio_element_item \<Rightarrow> audio_element_item) \<Rightarrow> audio_pipeline \<Rightarrow> audio_pipeline" where
  "upd_el_item j f p = p\<lparr>pl_el_list := (pl_el_list p)[j := f (pl_el_list p ! j)]\<rparr>"

definition upd_rb_item :: "nat \<Rightarrow> (ringbuf_item \<Rightarrow> ringbuf_item) \<Rightarrow> audio_pipeline \<Rightarrow> audio_pipeline" where
  "upd_rb_item j f p = p\<lparr>pl_rb_list := (pl_rb_list p)[j := f (pl_rb_list p ! j)]\<rparr>"

definition new_el_item :: "el_handle \<Rightarrow> bool \<Rightarrow> audio_element_item" where
  "new_el_item el linked = \<lparr>ai_el = el, ai_linked = linked, ai_kept_ctx = False, ai_el_state = AEL_STATUS_NONE\<rparr>"

section \<open>Finding elements by tag\<close>

text \<open>Comparing with a \<open>NULL\<close> tag is undefined once an element has a tag.\<close>

fun find_tag :: "'z plw \<Rightarrow> string option \<Rightarrow> audio_element_item list \<Rightarrow> nat \<Rightarrow> nat option option" where
  "find_tag w tag [] i = Some None"
| "find_tag w tag (it # its) i = do {
     t \<leftarrow> audio_element_get_tag (ai_el it) w;
     case t of None \<Rightarrow> find_tag w tag its (Suc i)
     | Some a \<Rightarrow> do {
         s \<leftarrow> strs w a;
         t \<leftarrow> tag;
         if strcaseeq s t then Some (Some i) else find_tag w tag its (Suc i)
       }
   }"

definition audio_pipeline_get_el_item_by_tag ::
  "pl_handle \<Rightarrow> string option \<Rightarrow> 'z plw \<Rightarrow> nat option option" where
  "audio_pipeline_get_el_item_by_tag pipeline tag w = do {
     p \<leftarrow> pls w pipeline; find_tag w tag (pl_el_list p) 0 }"

definition audio_pipeline_get_el_by_tag ::
  "pl_handle option \<Rightarrow> string option \<Rightarrow> 'z plw \<Rightarrow> el_handle option option" where
  "audio_pipeline_get_el_by_tag pipeline tag w =
     (case (tag, pipeline) of
        (Some _, Some h) \<Rightarrow> do {
          p \<leftarrow> pls w h;
          j \<leftarrow> find_tag w tag (pl_el_list p) 0;
          Some (case j of None \<Rightarrow> None | Some j \<Rightarrow> Some (ai_el (pl_el_list p ! j)))
        }
      | _ \<Rightarrow> Some None)"

definition audio_pipeline_change_state ::
  "pl_handle \<Rightarrow> audio_element_state \<Rightarrow> 'z plw \<Rightarrow> (esp_err \<times> 'z plw) option" where
  "audio_pipeline_change_state pipeline new_state w = do {
     w \<leftarrow> pl_upd pipeline (\<lambda>p. p\<lparr>pl_state := new_state\<rparr>) w; Some (ESP_OK, w) }"

section \<open>Registration\<close>

definition audio_pipeline_register_element ::
  "'z plw platform \<Rightarrow> pl_handle \<Rightarrow> el_handle \<Rightarrow> 'z plw \<Rightarrow> 'z plw option" where
  "audio_pipeline_register_element R pipeline el w =
     (case heap_alloc R 16 w of
        (None, w) \<Rightarrow> Some w
      | (Some _, w) \<Rightarrow> pl_upd pipeline (\<lambda>p. p\<lparr>pl_el_list := pl_el_list p @ [new_el_item el True]\<rparr>) w)"

definition audio_pipeline_unregister_element :: "pl_handle \<Rightarrow> el_handle \<Rightarrow> 'z plw \<Rightarrow> 'z plw option" where
  "audio_pipeline_unregister_element pipeline el w =
     pl_upd pipeline (\<lambda>p. p\<lparr>pl_el_list := filter (\<lambda>it. ai_el it \<noteq> el) (pl_el_list p)\<rparr>) w"

definition add_rb_to_audio_pipeline ::
  "'z plw platform \<Rightarrow> pl_handle \<Rightarrow> rb_handle \<Rightarrow> el_handle \<Rightarrow> 'z plw \<Rightarrow> 'z plw option" where
  "add_rb_to_audio_pipeline R pipeline rb host_el w =
     (case heap_alloc R 16 w of
        (None, w) \<Rightarrow> Some w
      | (Some _, w) \<Rightarrow> pl_upd pipeline (\<lambda>p. p\<lparr>pl_rb_list := pl_rb_list p @
          [\<lparr>ri_rb = rb, ri_host_el = Some host_el, ri_linked = True, ri_kept_ctx = True\<rparr>]\<rparr>) w)"

text \<open>Removing the first item of an element.\<close>

fun remove_el :: "el_handle \<Rightarrow> audio_element_item list \<Rightarrow> audio_element_item list option" where
  "remove_el el [] = None"
| "remove_el el (it # its) =
     (if ai_el it = el then Some its else do { its' \<leftarrow> remove_el el its; Some (it # its') })"

definition audio_pipeline_unregister ::
  "'z plw platform \<Rightarrow> pl_handle \<Rightarrow> el_handle \<Rightarrow> 'z plw \<Rightarrow> (esp_err \<times> 'z plw) option" where
  "audio_pipeline_unregister R pipeline el w = do {
     (_, w) \<leftarrow> audio_element_set_tag R el None w;
     p \<leftarrow> pls w pipeline;
     case remove_el el (pl_el_list p) of
       None \<Rightarrow> Some (ESP_FAIL, w)
     | Some its \<Rightarrow> do { w \<leftarrow> pl_upd pipeline (\<lambda>p. p\<lparr>pl_el_list := its\<rparr>) w; Some (ESP_OK, w) }
   }"

definition audio_pipeline_register ::
  "'z plw platform \<Rightarrow> pl_handle \<Rightarrow> el_handle \<Rightarrow> string option \<Rightarrow> 'z plw \<Rightarrow> (esp_err \<times> 'z plw) option" where
  "audio_pipeline_register R pipeline el name w = do {
     (_, w) \<leftarrow> audio_pipeline_unregister R pipeline el w;
     (_, w) \<leftarrow> audio_element_set_tag R el name w;
     case heap_alloc R 16 w of
       (None, w) \<Rightarrow> Some (ESP_ERR_NO_MEM, w)
     | (Some _, w) \<Rightarrow> do {
         w \<leftarrow> pl_upd pipeline (\<lambda>p. p\<lparr>pl_el_list := pl_el_list p @ [new_el_item el False]\<rparr>) w;
         Some (ESP_OK, w)
       }
   }"

text \<open>The variadic functions take the elements before the terminating \<open>NULL\<close> as a list.\<close>

fun audio_pipeline_register_more ::
  "'z plw platform \<Rightarrow> pl_handle \<Rightarrow> el_handle list \<Rightarrow> 'z plw \<Rightarrow> (esp_err \<times> 'z plw) option" where
  "audio_pipeline_register_more R pipeline [] w = Some (ESP_OK, w)"
| "audio_pipeline_register_more R pipeline (el # rest) w = do {
     w \<leftarrow> audio_pipeline_register_element R pipeline el w;
     audio_pipeline_register_more R pipeline rest w
   }"

fun audio_pipeline_unregister_more ::
  "pl_handle \<Rightarrow> el_handle list \<Rightarrow> 'z plw \<Rightarrow> (esp_err \<times> 'z plw) option" where
  "audio_pipeline_unregister_more pipeline [] w = Some (ESP_OK, w)"
| "audio_pipeline_unregister_more pipeline (el # rest) w = do {
     w \<leftarrow> audio_pipeline_unregister_element pipeline el w;
     audio_pipeline_unregister_more pipeline rest w
   }"

section \<open>Listeners\<close>

text \<open>The loops over the linked items, up to the first failure.\<close>

fun remove_listener_loop ::
  "'z plw platform \<Rightarrow> iface_handle \<Rightarrow> audio_element_item list \<Rightarrow> 'z plw \<Rightarrow> (bool \<times> 'z plw) option" where
  "remove_listener_loop R l [] w = Some (True, w)"
| "remove_listener_loop R l (it # its) w =
     (if \<not> ai_linked it then remove_listener_loop R l its w else do {
        (err, w) \<leftarrow> audio_element_msg_remove_listener R (ai_el it) l w;
        if err \<noteq> ESP_OK then Some (False, w) else remove_listener_loop R l its w
      })"

definition audio_pipeline_remove_listener ::
  "'z plw platform \<Rightarrow> pl_handle \<Rightarrow> 'z plw \<Rightarrow> (esp_err \<times> 'z plw) option" where
  "audio_pipeline_remove_listener R pipeline w = do {
     p \<leftarrow> pls w pipeline;
     case pl_listener p of None \<Rightarrow> Some (ESP_FAIL, w)
     | Some l \<Rightarrow> do {
         (ok, w) \<leftarrow> remove_listener_loop R l (pl_el_list p) w;
         if \<not> ok then Some (ESP_FAIL, w) else do {
           w \<leftarrow> pl_upd pipeline (\<lambda>p. p\<lparr>pl_listener := None\<rparr>) w; Some (ESP_OK, w) }
       }
   }"

fun set_listener_loop ::
  "'z plw platform \<Rightarrow> iface_handle \<Rightarrow> audio_element_item list \<Rightarrow> 'z plw \<Rightarrow> (bool \<times> 'z plw) option" where
  "set_listener_loop R l [] w = Some (True, w)"
| "set_listener_loop R l (it # its) w =
     (if \<not> ai_linked it then set_listener_loop R l its w else do {
        (err, w) \<leftarrow> audio_element_msg_set_listener R (ai_el it) l w;
        if err \<noteq> ESP_OK then Some (False, w) else set_listener_loop R l its w
      })"

definition audio_pipeline_set_listener ::
  "'z plw platform \<Rightarrow> pl_handle \<Rightarrow> iface_handle \<Rightarrow> 'z plw \<Rightarrow> (esp_err \<times> 'z plw) option" where
  "audio_pipeline_set_listener R pipeline listener w = do {
     p \<leftarrow> pls w pipeline;
     (_, w) \<leftarrow> (if pl_listener p \<noteq> None then audio_pipeline_remove_listener R pipeline w else Some (ESP_OK, w));
     p \<leftarrow> pls w pipeline;
     (ok, w) \<leftarrow> set_listener_loop R listener (pl_el_list p) w;
     if \<not> ok then Some (ESP_FAIL, w) else do {
       w \<leftarrow> pl_upd pipeline (\<lambda>p. p\<lparr>pl_listener := Some listener\<rparr>) w; Some (ESP_OK, w) }
   }"

fun audio_pipeline_listen_more :: "'z plw platform \<Rightarrow> el_handle list \<Rightarrow> 'z plw \<Rightarrow> (esp_err \<times> 'z plw) option" where
  "audio_pipeline_listen_more R [] w = Some (ESP_OK, w)"
| "audio_pipeline_listen_more R (el # rest) w = do {
     que \<leftarrow> audio_element_get_event_queue (Some el) w;
     q \<leftarrow> que;
     w \<leftarrow> queue_drain R q w;
     audio_pipeline_listen_more R rest w
   }"

section \<open>Running and stopping\<close>

text \<open>\<open>STAILQ_FOREACH(...) if (el_item->linked) f(el_item->el);\<close>\<close>

fun for_linked ::
  "(el_handle \<Rightarrow> 'w \<Rightarrow> 'w option) \<Rightarrow> audio_element_item list \<Rightarrow> 'w \<Rightarrow> 'w option" where
  "for_linked f [] w = Some w"
| "for_linked f (it # its) w =
     (if ai_linked it then do { w \<leftarrow> f (ai_el it) w; for_linked f its w } else for_linked f its w)"

definition ignore_err :: "(esp_err \<times> 'w) option \<Rightarrow> 'w option" where
  "ignore_err r = map_option snd r"

fun resume_loop ::
  "'z plw platform \<Rightarrow> audio_element_item list \<Rightarrow> bool \<Rightarrow> esp_err \<Rightarrow> 'z plw \<Rightarrow> (esp_err \<times> 'z plw) option" where
  "resume_loop R [] wait_first_el ret w = Some (ret, w)"
| "resume_loop R (it # its) wait_first_el ret w =
     (if \<not> ai_linked it then resume_loop R its wait_first_el ret w else do {
        (err, w) \<leftarrow> audio_element_resume R (ai_el it) f32_zero (if wait_first_el then portMAX_DELAY else 0) w;
        resume_loop R its False (ret OR err) w
      })"

definition audio_pipeline_resume :: "'z plw platform \<Rightarrow> pl_handle \<Rightarrow> 'z plw \<Rightarrow> (esp_err \<times> 'z plw) option" where
  "audio_pipeline_resume R pipeline w = do {
     p \<leftarrow> pls w pipeline; resume_loop R (pl_el_list p) True ESP_OK w }"

definition audio_pipeline_pause :: "'z plw platform \<Rightarrow> pl_handle \<Rightarrow> 'z plw \<Rightarrow> (esp_err \<times> 'z plw) option" where
  "audio_pipeline_pause R pipeline w = do {
     p \<leftarrow> pls w pipeline;
     w \<leftarrow> for_linked (\<lambda>el w. ignore_err (audio_element_pause R el w)) (pl_el_list p) w;
     Some (ESP_OK, w)
   }"

definition audio_pipeline_stop :: "'z plw platform \<Rightarrow> pl_handle \<Rightarrow> 'z plw \<Rightarrow> (esp_err \<times> 'z plw) option" where
  "audio_pipeline_stop R pipeline w = do {
     p \<leftarrow> pls w pipeline;
     w \<leftarrow> for_linked (\<lambda>el w. ignore_err (audio_element_stop R el w)) (pl_el_list p) w;
     Some (ESP_OK, w)
   }"

definition audio_pipeline_wait_for_stop ::
  "'z plw platform \<Rightarrow> pl_handle \<Rightarrow> 'z plw \<Rightarrow> (esp_err \<times> 'z plw) option" where
  "audio_pipeline_wait_for_stop R pipeline w = do {
     p \<leftarrow> pls w pipeline;
     if pl_state p \<noteq> AEL_STATE_RUNNING then Some (ESP_FAIL, w) else do {
       w \<leftarrow> for_linked (\<lambda>el w. do {
              w \<leftarrow> ignore_err (audio_element_wait_for_stop R el w);
              w \<leftarrow> ignore_err (audio_element_reset_input_ringbuf el w);
              ignore_err (audio_element_reset_output_ringbuf el w)
            }) (pl_el_list p) w;
       (_, w) \<leftarrow> audio_pipeline_change_state pipeline AEL_STATE_INIT w;
       Some (ESP_OK, w)
     }
   }"

definition audio_pipeline_terminate ::
  "'z plw platform \<Rightarrow> pl_handle \<Rightarrow> 'z plw \<Rightarrow> (esp_err \<times> 'z plw) option" where
  "audio_pipeline_terminate R pipeline w = do {
     (_, w) \<leftarrow> audio_pipeline_stop R pipeline w;
     (_, w) \<leftarrow> audio_pipeline_wait_for_stop R pipeline w;
     p \<leftarrow> pls w pipeline;
     w \<leftarrow> for_linked (\<lambda>el w. ignore_err (audio_element_terminate R el w)) (pl_el_list p) w;
     Some (ESP_OK, w)
   }"

definition audio_pipeline_run :: "'z plw platform \<Rightarrow> pl_handle \<Rightarrow> 'z plw \<Rightarrow> (esp_err \<times> 'z plw) option" where
  "audio_pipeline_run R pipeline w = do {
     p \<leftarrow> pls w pipeline;
     if pl_state p \<noteq> AEL_STATE_INIT then Some (ESP_OK, w) else do {
       w \<leftarrow> for_linked (\<lambda>el w. do {
              st \<leftarrow> audio_element_get_state el w;
              if st = AEL_STATE_INIT \<or> st = AEL_STATE_STOPPED \<or> st = AEL_STATE_FINISHED \<or> st = AEL_STATE_ERROR
              then ignore_err (audio_element_run R el w) else Some w
            }) (pl_el_list p) w;
       (err, w) \<leftarrow> audio_pipeline_resume R pipeline w;
       if err = ESP_FAIL then do {
         (_, w) \<leftarrow> audio_pipeline_change_state pipeline AEL_STATE_ERROR w;
         (_, w) \<leftarrow> audio_pipeline_terminate R pipeline w;
         Some (ESP_FAIL, w)
       } else do {
         (_, w) \<leftarrow> audio_pipeline_change_state pipeline AEL_STATE_RUNNING w;
         Some (ESP_OK, w)
       }
     }
   }"

section \<open>Linking\<close>

fun destroy_rbs :: "'z plw platform \<Rightarrow> rb_handle list \<Rightarrow> 'z plw \<Rightarrow> 'z plw option" where
  "destroy_rbs R [] w = Some w"
| "destroy_rbs R (h # hs) w = do { (_, w) \<leftarrow> rb_destroy R (Some h) w; destroy_rbs R hs w }"

definition audio_pipeline_unlink :: "'z plw platform \<Rightarrow> pl_handle \<Rightarrow> 'z plw \<Rightarrow> (esp_err \<times> 'z plw) option" where
  "audio_pipeline_unlink R pipeline w = do {
     p \<leftarrow> pls w pipeline;
     if \<not> pl_linked p then Some (ESP_OK, w) else do {
       (_, w) \<leftarrow> audio_pipeline_remove_listener R pipeline w;
       p \<leftarrow> pls w pipeline;
       w \<leftarrow> for_linked (\<lambda>el w. do {
              (_, w) \<leftarrow> audio_element_set_output_ringbuf el None w;
              (_, w) \<leftarrow> audio_element_set_input_ringbuf el None w;
              Some w
            }) (pl_el_list p) w;
       w \<leftarrow> pl_upd pipeline (\<lambda>p. p\<lparr>pl_el_list := map (\<lambda>it. if ai_linked it
              then it\<lparr>ai_linked := False, ai_kept_ctx := False\<rparr> else it) (pl_el_list p)\<rparr>) w;
       w \<leftarrow> destroy_rbs R (map ri_rb (pl_rb_list p)) w;
       w \<leftarrow> pl_upd pipeline (\<lambda>p. p\<lparr>pl_rb_list := [], pl_linked := False\<rparr>) w;
       Some (ESP_OK, w)
     }
   }"

text \<open>The ring buffer \<open>audio_pipeline_link\<close> and \<open>audio_pipeline_relink\<close> make behind an element: its item,
  then the buffer, of the element's configured output size.\<close>

definition make_rb ::
  "'z plw platform \<Rightarrow> el_handle \<Rightarrow> 'z plw \<Rightarrow> (rb_handle option \<times> 'z plw) option" where
  "make_rb R el w =
     (case heap_alloc R 16 w of
        (None, w) \<Rightarrow> Some (None, w)
      | (Some _, w) \<Rightarrow> do {
          n \<leftarrow> audio_element_get_output_ringbuf_size (Some el) w;
          rb_create R n 1 w
        })"

text \<open>The loop of \<open>audio_pipeline_link\<close> from index \<open>i\<close>, where \<open>tags\<close> is the rest of the array.\<close>

fun link_loop ::
  "'z plw platform \<Rightarrow> pl_handle \<Rightarrow> int \<Rightarrow> int \<Rightarrow> string list \<Rightarrow> rb_handle option \<Rightarrow> 'z plw
     \<Rightarrow> (esp_err \<times> 'z plw) option" where
  "link_loop R pipeline link_num i [] rb w = (if i < link_num then None else Some (ESP_OK, w))"
| "link_loop R pipeline link_num i (tag # tags) rb w =
     (if \<not> i < link_num then Some (ESP_OK, w) else do {
        item \<leftarrow> audio_pipeline_get_el_item_by_tag pipeline (Some tag) w;
        case item of None \<Rightarrow> Some (ESP_FAIL, w)
        | Some j \<Rightarrow> do {
            w \<leftarrow> pl_upd pipeline (upd_el_item j (\<lambda>it. it\<lparr>ai_linked := True, ai_kept_ctx := True\<rparr>)) w;
            p \<leftarrow> pls w pipeline;
            let el = ai_el (pl_el_list p ! j);
            if i = link_num - 1 then do {
              (_, w) \<leftarrow> audio_element_set_input_ringbuf el rb w;
              link_loop R pipeline link_num (i + 1) tags rb w
            } else do {
              (_, w) \<leftarrow> (if i \<noteq> 0 then audio_element_set_input_ringbuf el rb w else Some (ESP_OK, w));
              (rb, w) \<leftarrow> make_rb R el w;
              case rb of None \<Rightarrow> Some (ESP_ERR_NO_MEM, w)
              | Some h \<Rightarrow> do {
                  w \<leftarrow> pl_upd pipeline (\<lambda>p. p\<lparr>pl_rb_list := pl_rb_list p @
                    [\<lparr>ri_rb = h, ri_host_el = Some el, ri_linked = True, ri_kept_ctx = True\<rparr>]\<rparr>) w;
                  (_, w) \<leftarrow> audio_element_set_output_ringbuf el rb w;
                  link_loop R pipeline link_num (i + 1) tags rb w
                }
            }
          }
      })"

definition audio_pipeline_link ::
  "'z plw platform \<Rightarrow> pl_handle \<Rightarrow> string list \<Rightarrow> int \<Rightarrow> 'z plw \<Rightarrow> (esp_err \<times> 'z plw) option" where
  "audio_pipeline_link R pipeline link_tag link_num w = do {
     p \<leftarrow> pls w pipeline;
     (_, w) \<leftarrow> (if pl_linked p then audio_pipeline_unlink R pipeline w else Some (ESP_OK, w));
     (err, w) \<leftarrow> link_loop R pipeline link_num 0 link_tag None w;
     if err \<noteq> ESP_OK then Some (err, w) else do {
       w \<leftarrow> pl_upd pipeline (\<lambda>p. p\<lparr>pl_linked := True\<rparr>) w; Some (ESP_OK, w) }
   }"

fun link_more_loop ::
  "'z plw platform \<Rightarrow> pl_handle \<Rightarrow> nat \<Rightarrow> el_handle list \<Rightarrow> rb_handle option \<Rightarrow> 'z plw
     \<Rightarrow> (esp_err \<times> 'z plw) option" where
  "link_more_loop R pipeline idx [] rb w = Some (ESP_OK, w)"
| "link_more_loop R pipeline idx (el # rest) rb w =
     (case heap_alloc R 16 w of
        (None, w) \<Rightarrow> Some (ESP_ERR_NO_MEM, w)
      | (Some _, w) \<Rightarrow> do {
          w \<leftarrow> pl_upd pipeline (\<lambda>p. p\<lparr>pl_el_list := pl_el_list p @ [new_el_item el True]\<rparr>) w;
          let idx = idx + 1;
          if rest = [] then do {
            (_, w) \<leftarrow> audio_element_set_input_ringbuf el rb w;
            link_more_loop R pipeline idx rest rb w
          } else do {
            (_, w) \<leftarrow> (if idx \<noteq> 1 then audio_element_set_input_ringbuf el rb w else Some (ESP_OK, w));
            n \<leftarrow> audio_element_get_output_ringbuf_size (Some el) w;
            (rb, w) \<leftarrow> rb_create R n 1 w;
            case rb of None \<Rightarrow> Some (ESP_ERR_NO_MEM, w)
            | Some h \<Rightarrow> do {
                w \<leftarrow> add_rb_to_audio_pipeline R pipeline h el w;
                (_, w) \<leftarrow> audio_element_set_output_ringbuf el rb w;
                link_more_loop R pipeline idx rest rb w
              }
          }
        })"

definition audio_pipeline_link_more ::
  "'z plw platform \<Rightarrow> pl_handle \<Rightarrow> el_handle list \<Rightarrow> 'z plw \<Rightarrow> (esp_err \<times> 'z plw) option" where
  "audio_pipeline_link_more R pipeline elements w = do {
     p \<leftarrow> pls w pipeline;
     (_, w) \<leftarrow> (if pl_linked p then audio_pipeline_unlink R pipeline w else Some (ESP_OK, w));
     (err, w) \<leftarrow> link_more_loop R pipeline 0 elements None w;
     if err \<noteq> ESP_OK then Some (err, w) else do {
       w \<leftarrow> pl_upd pipeline (\<lambda>p. p\<lparr>pl_linked := True\<rparr>) w; Some (ESP_OK, w) }
   }"

definition audio_pipeline_link_insert ::
  "'z plw platform \<Rightarrow> pl_handle \<Rightarrow> bool \<Rightarrow> el_handle \<Rightarrow> rb_handle \<Rightarrow> el_handle \<Rightarrow> 'z plw
     \<Rightarrow> (esp_err \<times> 'z plw) option" where
  "audio_pipeline_link_insert R pipeline first prev conect_rb next_el w = do {
     w \<leftarrow> (if first then audio_pipeline_register_element R pipeline prev w else Some w);
     w \<leftarrow> audio_pipeline_register_element R pipeline next_el w;
     (_, w) \<leftarrow> audio_element_set_output_ringbuf prev (Some conect_rb) w;
     (_, w) \<leftarrow> audio_element_set_input_ringbuf next_el (Some conect_rb) w;
     w \<leftarrow> add_rb_to_audio_pipeline R pipeline conect_rb prev w;
     w \<leftarrow> pl_upd pipeline (\<lambda>p. p\<lparr>pl_linked := True\<rparr>) w;
     Some (ESP_OK, w)
   }"

section \<open>Reported states\<close>

definition audio_pipeline_check_items_state ::
  "pl_handle \<Rightarrow> el_handle \<Rightarrow> int \<Rightarrow> 'z plw \<Rightarrow> (esp_err \<times> 'z plw) option" where
  "audio_pipeline_check_items_state pipeline el status w = do {
     t \<leftarrow> audio_element_get_tag el w;
     tag \<leftarrow> (case t of None \<Rightarrow> Some None | Some a \<Rightarrow> do { s \<leftarrow> strs w a; Some (Some s) });
     it \<leftarrow> audio_pipeline_get_el_item_by_tag pipeline tag w;
     j \<leftarrow> it;
     w \<leftarrow> pl_upd pipeline (upd_el_item j (\<lambda>it. it\<lparr>ai_el_state := status\<rparr>)) w;
     p \<leftarrow> pls w pipeline;
     let el_cnt = length (filter ai_linked (pl_el_list p));
     let el_sta_cnt = length (filter (\<lambda>it. ai_linked it \<and> ai_el_state it \<noteq> AEL_STATUS_NONE
                                        \<and> status = ai_el_state it) (pl_el_list p));
     Some (if el_cnt \<noteq> 0 \<and> el_sta_cnt = el_cnt then ESP_OK else ESP_FAIL, w)
   }"

definition audio_pipeline_reset_items_state :: "pl_handle \<Rightarrow> 'z plw \<Rightarrow> (esp_err \<times> 'z plw) option" where
  "audio_pipeline_reset_items_state pipeline w = do {
     w \<leftarrow> pl_upd pipeline (\<lambda>p. p\<lparr>pl_el_list := map (\<lambda>it. if ai_linked it
            then it\<lparr>ai_el_state := AEL_STATUS_NONE\<rparr> else it) (pl_el_list p)\<rparr>) w;
     Some (ESP_OK, w)
   }"

definition audio_pipeline_reset_ringbuffer :: "pl_handle \<Rightarrow> 'z plw \<Rightarrow> (esp_err \<times> 'z plw) option" where
  "audio_pipeline_reset_ringbuffer pipeline w = do {
     p \<leftarrow> pls w pipeline;
     w \<leftarrow> for_linked (\<lambda>el w. do {
            w \<leftarrow> ignore_err (audio_element_reset_input_ringbuf el w);
            ignore_err (audio_element_reset_output_ringbuf el w)
          }) (pl_el_list p) w;
     Some (ESP_OK, w)
   }"

section \<open>Breaking up and relinking\<close>

text \<open>The index of the first item that satisfies a condition, as the \<open>STAILQ_FOREACH\<close> loops search.\<close>

fun first_idx :: "('a \<Rightarrow> bool) \<Rightarrow> 'a list \<Rightarrow> nat option" where
  "first_idx P [] = None"
| "first_idx P (x # xs) = (if P x then Some 0 else map_option Suc (first_idx P xs))"

text \<open>The loop over the elements from index \<open>i\<close>, with the flag \<open>kept\<close>.\<close>

fun breakup_loop ::
  "pl_handle \<Rightarrow> el_handle option \<Rightarrow> audio_element_item list \<Rightarrow> nat \<Rightarrow> bool \<Rightarrow> 'z plw \<Rightarrow> 'z plw option" where
  "breakup_loop pipeline kept_ctx_el [] i kept w = Some w"
| "breakup_loop pipeline kept_ctx_el (it # its) i kept w =
     (if \<not> ai_linked it then breakup_loop pipeline kept_ctx_el its (Suc i) kept w
      else do {
        p \<leftarrow> pls w pipeline;
        out \<leftarrow> audio_element_get_output_ringbuf (ai_el it) w;
        let found = first_idx (\<lambda>r. Some (ri_rb r) = out) (pl_rb_list p);
        if \<not> kept \<and> Some (ai_el it) \<noteq> kept_ctx_el then do {
          w \<leftarrow> (if pl_rb_list p = [] then Some w
                else if out = None then
                  pl_upd pipeline (upd_el_item i (\<lambda>it. it\<lparr>ai_linked := False, ai_kept_ctx := False\<rparr>)) w
                else case found of None \<Rightarrow> Some w
                | Some k \<Rightarrow>
                    pl_upd pipeline (upd_el_item i (\<lambda>it. it\<lparr>ai_linked := False, ai_kept_ctx := False\<rparr>) \<circ>
                                     upd_rb_item k (\<lambda>r. r\<lparr>ri_kept_ctx := False\<rparr>)) w);
          breakup_loop pipeline kept_ctx_el its (Suc i) kept w
        } else (case found of
            None \<Rightarrow> breakup_loop pipeline kept_ctx_el its (Suc i) kept w
          | Some k \<Rightarrow> do {
              w \<leftarrow> pl_upd pipeline (upd_el_item i (\<lambda>it. it\<lparr>ai_linked := False, ai_kept_ctx := True\<rparr>) \<circ>
                                    upd_rb_item k (\<lambda>r. r\<lparr>ri_kept_ctx := True\<rparr>)) w;
              breakup_loop pipeline kept_ctx_el its (Suc i) False w
            })
      })"

fun breakup_reset_rbs :: "ringbuf_item list \<Rightarrow> 'z plw \<Rightarrow> 'z plw option" where
  "breakup_reset_rbs [] w = Some w"
| "breakup_reset_rbs (r # rs) w =
     (if ri_kept_ctx r then breakup_reset_rbs rs w
      else do { (_, w) \<leftarrow> rb_reset (Some (ri_rb r)) w; breakup_reset_rbs rs w })"

definition audio_pipeline_breakup_elements ::
  "'z plw platform \<Rightarrow> pl_handle option \<Rightarrow> el_handle option \<Rightarrow> 'z plw \<Rightarrow> (esp_err \<times> 'z plw) option" where
  "audio_pipeline_breakup_elements R pl kept_ctx_el w =
     (case pl of None \<Rightarrow> Some (ESP_ERR_INVALID_ARG, w)
      | Some pipeline \<Rightarrow> do {
          (_, w) \<leftarrow> audio_pipeline_remove_listener R pipeline w;
          p \<leftarrow> pls w pipeline;
          w \<leftarrow> breakup_loop pipeline kept_ctx_el (pl_el_list p) 0 True w;
          p \<leftarrow> pls w pipeline;
          w \<leftarrow> breakup_reset_rbs (pl_rb_list p) w;
          w \<leftarrow> pl_upd pipeline (\<lambda>p. p\<lparr>pl_rb_list := map (\<lambda>r. if ri_kept_ctx r then r
                 else r\<lparr>ri_linked := False\<rparr>) (pl_rb_list p), pl_linked := False\<rparr>) w;
          (_, w) \<leftarrow> audio_pipeline_change_state pipeline AEL_STATE_INIT w;
          Some (ESP_OK, w)
        })"

text \<open>Which ring buffer item an element of the relinked chain reuses.\<close>

definition relink_find_rb :: "bool \<Rightarrow> el_handle \<Rightarrow> ringbuf_item list \<Rightarrow> nat option" where
  "relink_find_rb kept_ctx el rs =
     (if kept_ctx then first_idx (\<lambda>r. ri_host_el r = Some el) rs
      else first_idx (\<lambda>r. \<not> ri_linked r \<and> \<not> ri_kept_ctx r) rs)"

fun relink_loop ::
  "'z plw platform \<Rightarrow> pl_handle \<Rightarrow> int \<Rightarrow> int \<Rightarrow> string list \<Rightarrow> rb_handle option \<Rightarrow> 'z plw
     \<Rightarrow> (esp_err \<times> 'z plw) option" where
  "relink_loop R pipeline link_num i [] rb w = (if i < link_num then None else Some (ESP_OK, w))"
| "relink_loop R pipeline link_num i (tag # tags) rb w =
     (if \<not> i < link_num then Some (ESP_OK, w) else do {
        item \<leftarrow> audio_pipeline_get_el_item_by_tag pipeline (Some tag) w;
        case item of None \<Rightarrow> Some (ESP_FAIL, w)
        | Some j \<Rightarrow> do {
            w \<leftarrow> pl_upd pipeline (upd_el_item j (\<lambda>it. it\<lparr>ai_linked := True\<rparr>)) w;
            p \<leftarrow> pls w pipeline;
            let src = pl_el_list p ! j;
            let el = ai_el src;
            let cur = relink_find_rb (ai_kept_ctx src) el (pl_rb_list p);
            w \<leftarrow> (case cur of None \<Rightarrow> Some w
                  | Some k \<Rightarrow> pl_upd pipeline (upd_rb_item k (\<lambda>r. r\<lparr>ri_linked := True\<rparr>)) w);
            let last = (i = link_num - 1);
            (cur_rb, w) \<leftarrow> (case cur of
                Some k \<Rightarrow> Some (Some (ri_rb (pl_rb_list p ! k)), w)
              | None \<Rightarrow> if last then Some (None, w) else make_rb R el w);
            w \<leftarrow> (case (cur, cur_rb) of
                (None, Some h) \<Rightarrow> pl_upd pipeline (\<lambda>p. p\<lparr>pl_rb_list := pl_rb_list p @
                    [\<lparr>ri_rb = h, ri_host_el = Some el, ri_linked = True, ri_kept_ctx = False\<rparr>]\<rparr>) w
              | _ \<Rightarrow> Some w);
            if last then do {
              (_, w) \<leftarrow> audio_element_set_input_ringbuf el rb w;
              relink_loop R pipeline link_num (i + 1) tags rb w
            } else if cur_rb = None then Some (ESP_ERR_NO_MEM, w)
            else do {
              (_, w) \<leftarrow> (if i \<noteq> 0 then audio_element_set_input_ringbuf el rb w else Some (ESP_OK, w));
              (_, w) \<leftarrow> audio_element_set_output_ringbuf el cur_rb w;
              relink_loop R pipeline link_num (i + 1) tags cur_rb w
            }
          }
      })"

definition audio_pipeline_relink ::
  "'z plw platform \<Rightarrow> pl_handle option \<Rightarrow> string list option \<Rightarrow> int \<Rightarrow> 'z plw \<Rightarrow> (esp_err \<times> 'z plw) option" where
  "audio_pipeline_relink R pl link_tag link_num w =
     (case (pl, link_tag) of
        (Some pipeline, Some tags) \<Rightarrow> do {
          p \<leftarrow> pls w pipeline;
          if pl_linked p then Some (ESP_FAIL, w)
          else relink_loop R pipeline link_num 0 tags None w
        }
      | _ \<Rightarrow> Some (ESP_ERR_INVALID_ARG, w))"

section \<open>Creation and destruction\<close>

definition audio_pipeline_init :: "'z plw platform \<Rightarrow> 'z plw \<Rightarrow> pl_handle option \<times> 'z plw" where
  "audio_pipeline_init R w =
     (case heap_alloc R 32 w of
        (None, w) \<Rightarrow> (None, w)
      | (Some h, w) \<Rightarrow> (case xSemaphoreCreateMutex R w of
          (None, w) \<Rightarrow> (None, w)
        | (Some l, w) \<Rightarrow> (Some h, w\<lparr>pls := (pls w)(h \<mapsto>
            \<lparr>pl_el_list = [], pl_rb_list = [], pl_state = AEL_STATE_INIT, pl_lock = Some l,
             pl_linked = False, pl_listener = None\<rparr>)\<rparr>)))"

definition audio_pipeline_deinit :: "'z plw platform \<Rightarrow> pl_handle \<Rightarrow> 'z plw \<Rightarrow> (esp_err \<times> 'z plw) option" where
  "audio_pipeline_deinit R pipeline w = do {
     (_, w) \<leftarrow> audio_pipeline_terminate R pipeline w;
     (_, w) \<leftarrow> audio_pipeline_unlink R pipeline w;
     p \<leftarrow> pls w pipeline;
     l \<leftarrow> pl_lock p;
     let w = vSemaphoreDelete R l w;
     Some (ESP_OK, w\<lparr>pls := (pls w)(pipeline := None)\<rparr>)
   }"

end
