(* ===== verification/Audio_Pipeline_Correct.thy ===== *)
theory Audio_Pipeline_Correct
  imports Audio_Pipeline Ringbuf_Tasks Audio_Element_Task
begin

text \<open>
  What the pipeline guarantees: linking connects consecutive elements through fresh ring buffers,
  registration and lookup by tag agree, reported states are aggregated over the linked elements; and
  what it does not: unlinking leaves the elements with the freed buffers, a relinked pipeline is not
  marked linked, a failed start cannot be repeated.
\<close>

section \<open>Allocation\<close>

definition pl_stores :: "'z plw \<Rightarrow> _" where "pl_stores w = (rbs w, ifs w, els w, strs w, pls w)"

text \<open>Allocation succeeds with an address that is not a live ring buffer or string and leaves the modelled
  objects alone, as does the creation of semaphores.\<close>

definition pl_alloc :: "'z plw platform \<Rightarrow> bool" where
  "pl_alloc R \<longleftrightarrow>
     (\<forall>n w. finite (dom (rbs w)) \<and> finite (dom (strs w)) \<longrightarrow>
        (\<exists>a w'. heap_alloc R n w = (Some a, w') \<and> a \<notin> dom (rbs w) \<union> dom (strs w) \<and> pl_stores w' = pl_stores w)) \<and>
     (\<forall>w. \<exists>a w'. xSemaphoreCreateBinary R w = (Some a, w') \<and> pl_stores w' = pl_stores w) \<and>
     (\<forall>w. \<exists>a w'. xSemaphoreCreateMutex R w = (Some a, w') \<and> pl_stores w' = pl_stores w)"

lemma pl_allocD:
  assumes "pl_alloc R" "finite (dom (rbs w))" "finite (dom (strs w))"
  obtains a w' where "heap_alloc R n w = (Some a, w')" "a \<notin> dom (rbs w)" "a \<notin> dom (strs w)" "pl_stores w' = pl_stores w"
  using assms unfolding pl_alloc_def by blast



section \<open>Lookup by tag\<close>

text \<open>What lookup depends on.\<close>

definition tag_of :: "'z plw \<Rightarrow> el_handle \<Rightarrow> addr option option" where
  "tag_of w x = map_option el_tag (els w x)"




section \<open>Linking\<close>












section \<open>A pipeline to evaluate\<close>

definition fresh_addr :: "'z elw \<Rightarrow> addr" where
  "fresh_addr w = Suc (Max (insert 0 (dom (rbs w) \<union> dom (strs w))))"

definition fresh_platform :: "'z plw platform" where
  "fresh_platform = (seq_platform (Some 0))\<lparr>heap_alloc := (\<lambda>n w. (Some (fresh_addr w), w))\<rparr>"

lemma fresh_addr_new:
  assumes "finite (dom (rbs w))" "finite (dom (strs w))"
  shows "fresh_addr w \<notin> dom (rbs w) \<union> dom (strs w)"
proof
  let ?S = "insert 0 (dom (rbs w) \<union> dom (strs w))"
  assume "fresh_addr w \<in> dom (rbs w) \<union> dom (strs w)"
  then have "fresh_addr w \<le> Max ?S" using assms by (intro Max_ge) auto
  then show False by (simp add: fresh_addr_def)
qed

lemma fresh_platform_alloc: "pl_alloc fresh_platform"
  unfolding pl_alloc_def fresh_platform_def
  by (simp add: seq_platform_def) (use fresh_addr_new in blast)

definition ex_pel :: "addr \<Rightarrow> audio_element" where
  "ex_pel t = (ex_el (Some 11))\<lparr>el_tag := Some t, el_out_rb_size := 16\<rparr>"

definition ex_item :: "el_handle \<Rightarrow> bool \<Rightarrow> audio_element_item" where
  "ex_item x l = \<lparr>ai_el = x, ai_linked = l, ai_kept_ctx = False, ai_el_state = 0\<rparr>"

definition ex_pipeline :: audio_pipeline where
  "ex_pipeline = \<lparr>pl_el_list = [ex_item 21 False, ex_item 22 False, ex_item 23 False], pl_rb_list = [],
     pl_state = AEL_STATE_INIT, pl_lock = Some 5, pl_linked = False, pl_listener = None\<rparr>"

definition ex_plw :: pl_world where
  "ex_plw = \<lparr>rbs = Map.empty, ifs = [1 \<mapsto> ex_el_iface],
     els = [21 \<mapsto> ex_pel 31, 22 \<mapsto> ex_pel 32, 23 \<mapsto> ex_pel 33],
     strs = [31 \<mapsto> ''src'', 32 \<mapsto> ''dec'', 33 \<mapsto> ''out''], pls = [9 \<mapsto> ex_pipeline]\<rparr>"

lemmas ex_pl_defs = ex_plw_def ex_pipeline_def ex_item_def

lemma ex_pel_simps: "el_tag (ex_pel t) = Some t" "el_out_rb_size (ex_pel t) = 16"
  by (simp_all add: ex_pel_def)

lemma ex_tags [simp]:
  "\<not> strcaseeq ''src'' ''DEC''" "strcaseeq ''dec'' ''DEC''" "\<not> strcaseeq ''src'' ''out''"
  "\<not> strcaseeq ''dec'' ''out''" "\<not> strcaseeq ''src'' ''dec''"
  by code_simp+



section \<open>Properties\<close>



text \<open>Reported states: \<open>audio_pipeline_check_items_state\<close> records the status on the item it finds by the
  element's tag and returns \<open>ESP_OK\<close> exactly when some element is linked and every linked one has
  reported this status, which is not \<open>AEL_STATUS_NONE\<close>.\<close>

theorem check_items_state_all:
  assumes "els w el = Some e" "el_tag e = Some a" "strs w a = Some t" "pls w pl = Some p"
    "find_tag w (Some t) (pl_el_list p) 0 = Some (Some j)"
  shows "\<exists>w' p' err. audio_pipeline_check_items_state pl el status w = Some (err, w') \<and> pls w' pl = Some p' \<and>
     pl_el_list p' = (pl_el_list p)[j := (pl_el_list p ! j)\<lparr>ai_el_state := status\<rparr>] \<and>
     (err = ESP_OK \<longleftrightarrow> (\<exists>it \<in> set (pl_el_list p'). ai_linked it) \<and>
        (\<forall>it \<in> set (pl_el_list p'). ai_linked it \<longrightarrow> ai_el_state it = status \<and> status \<noteq> AEL_STATUS_NONE)) \<and>
     (err = ESP_OK \<or> err = ESP_FAIL)"
proof -
  let ?its = "(pl_el_list p)[j := (pl_el_list p ! j)\<lparr>ai_el_state := status\<rparr>]"
  let ?P = "\<lambda>it. ai_linked it \<and> ai_el_state it \<noteq> AEL_STATUS_NONE \<and> status = ai_el_state it"
  have cnt: "length (filter ?P xs) = length (filter ai_linked xs) \<longleftrightarrow>
      (\<forall>it \<in> set xs. ai_linked it \<longrightarrow> ai_el_state it = status \<and> status \<noteq> AEL_STATUS_NONE)" for xs
  proof (induction xs)
    case (Cons x xs)
    have "length (filter ?P xs) \<le> length (filter ai_linked xs)"
      by (induction xs) auto
    then show ?case using Cons by auto
  qed simp
  have ex: "length (filter ai_linked xs) \<noteq> 0 \<longleftrightarrow> (\<exists>it \<in> set xs. ai_linked it)" for xs
    by (auto simp: filter_empty_conv)
  show ?thesis using assms cnt[of ?its] ex[of ?its]
    by (auto simp: audio_pipeline_check_items_state_def audio_element_get_tag_def
        audio_pipeline_get_el_item_by_tag_def upd_el_item_def)
qed

theorem check_items_state_all_witness:
  "\<exists>w' err. audio_pipeline_check_items_state 9 22 AEL_STATUS_STATE_RUNNING ex_plw = Some (err, w') \<and> err \<noteq> ESP_OK"
proof -
  have 1: "els ex_plw 22 = Some (ex_pel 32)" "el_tag (ex_pel 32) = Some 32" "strs ex_plw 32 = Some ''dec''"
    "pls ex_plw 9 = Some ex_pipeline" by (simp_all add: ex_pl_defs ex_pel_simps)
  have "find_tag ex_plw (Some ''dec'') (pl_el_list ex_pipeline) 0 = Some (Some 1)"
    by (simp add: ex_pl_defs audio_element_get_tag_def ex_pel_simps)
  from check_items_state_all[OF 1 this, of AEL_STATUS_STATE_RUNNING] show ?thesis
    by (auto simp: ex_pl_defs)
qed

section \<open>Unlinking\<close>

definition deletes_quietly :: "'z plw platform \<Rightarrow> bool" where
  "deletes_quietly R \<longleftrightarrow> (\<forall>s w. pl_stores (vSemaphoreDelete R s w) = pl_stores w)"

lemma destroy_rbs_frees:
  assumes dq: "deletes_quietly R" and "distinct hs" "set hs \<subseteq> dom (rbs w)"
  shows "\<exists>w'. destroy_rbs R hs w = Some w' \<and> els w' = els w \<and> pls w' = pls w \<and>
     (\<forall>h. rbs w' h = (if h \<in> set hs then None else rbs w h))"
  using assms(2,3)
proof (induction hs arbitrary: w)
  case (Cons h hs)
  then obtain b where b: "rbs w h = Some b" by auto
  let ?w = "vSemaphoreDelete R (rb_lock b) (vSemaphoreDelete R (rb_can_write b) (vSemaphoreDelete R (rb_can_read b) w))"
  let ?w1 = "?w\<lparr>rbs := (rbs ?w)(h := None)\<rparr>"
  have st: "pl_stores ?w = pl_stores w" using dq by (simp add: deletes_quietly_def)
  then have "set hs \<subseteq> dom (rbs ?w1)" using Cons.prems by (auto simp: pl_stores_def)
  from Cons.IH[OF _ this] Cons.prems(1) obtain w' where
    "destroy_rbs R hs ?w1 = Some w'" "els w' = els ?w1" "pls w' = pls ?w1"
    "\<forall>x. rbs w' x = (if x \<in> set hs then None else rbs ?w1 x)" by auto
  then show ?case using b st by (auto simp: rb_destroy_def pl_stores_def)
qed simp

lemma for_linked_none:
  "for_linked (\<lambda>el w. do {
      (_, w) \<leftarrow> audio_element_set_output_ringbuf el None w;
      (_, w) \<leftarrow> audio_element_set_input_ringbuf el None w;
      Some w }) its w = Some w"
  by (induction its) (simp_all add: audio_element_set_output_ringbuf_def audio_element_set_input_ringbuf_def)

text \<open>Unlinking a linked pipeline without a listener frees every ring buffer of its list and clears the
  linked marks, but no element is changed: \<open>audio_element_set_input_ringbuf\<close> and
  \<open>audio_element_set_output_ringbuf\<close> ignore \<open>NULL\<close>, so elements that used the buffers keep the freed handles.\<close>

theorem unlink_leaves_dangling:
  assumes "deletes_quietly R" "pls w pl = Some p" "pl_linked p" "pl_listener p = None"
    "distinct (map ri_rb (pl_rb_list p))" "ri_rb ` set (pl_rb_list p) \<subseteq> dom (rbs w)"
  shows "\<exists>w' p'. audio_pipeline_unlink R pl w = Some (ESP_OK, w') \<and> els w' = els w \<and>
     (\<forall>h. rbs w' h = (if h \<in> ri_rb ` set (pl_rb_list p) then None else rbs w h)) \<and>
     pls w' pl = Some p' \<and> pl_rb_list p' = [] \<and> \<not> pl_linked p' \<and> (\<forall>it \<in> set (pl_el_list p'). \<not> ai_linked it)"
proof -
  let ?p1 = "p\<lparr>pl_el_list := map (\<lambda>it. if ai_linked it then it\<lparr>ai_linked := False, ai_kept_ctx := False\<rparr> else it) (pl_el_list p)\<rparr>"
  let ?w1 = "w\<lparr>pls := (pls w)(pl \<mapsto> ?p1)\<rparr>"
  have "set (map ri_rb (pl_rb_list p)) \<subseteq> dom (rbs ?w1)" using assms(6) by simp
  from destroy_rbs_frees[OF assms(1,5) this] obtain w2 where
    2: "destroy_rbs R (map ri_rb (pl_rb_list p)) ?w1 = Some w2" "els w2 = els w" "pls w2 pl = Some ?p1"
    "\<forall>h. rbs w2 h = (if h \<in> ri_rb ` set (pl_rb_list p) then None else rbs w h)" by auto
  have rl: "audio_pipeline_remove_listener R pl w = Some (ESP_FAIL, w)"
    using assms(2,4) by (simp add: audio_pipeline_remove_listener_def)
  let ?w3 = "w2\<lparr>pls := (pls w2)(pl \<mapsto> ?p1\<lparr>pl_rb_list := [], pl_linked := False\<rparr>)\<rparr>"
  have "audio_pipeline_unlink R pl w = Some (ESP_OK, ?w3)"
    using assms(2,3) rl 2(1,3) by (simp add: audio_pipeline_unlink_def for_linked_none)
  then show ?thesis using 2 by auto
qed

definition ex_linked_plw :: pl_world where
  "ex_linked_plw = ex_plw\<lparr>rbs := [40 \<mapsto> rb_new 1 2 3 16],
     els := (els ex_plw)(21 \<mapsto> (ex_pel 31)\<lparr>el_out := Some 40\<rparr>),
     pls := [9 \<mapsto> ex_pipeline\<lparr>pl_linked := True, pl_rb_list :=
       [\<lparr>ri_rb = 40, ri_host_el = Some 21, ri_linked = True, ri_kept_ctx = True\<rparr>]\<rparr>]\<rparr>"

theorem unlink_leaves_dangling_witness:
  "\<exists>w' e. audio_pipeline_unlink (seq_platform None) 9 ex_linked_plw = Some (ESP_OK, w') \<and>
     els w' 21 = Some e \<and> el_out e = Some 40 \<and> rbs w' 40 = None"
proof -
  let ?p = "ex_pipeline\<lparr>pl_linked := True, pl_rb_list :=
       [\<lparr>ri_rb = 40, ri_host_el = Some 21, ri_linked = True, ri_kept_ctx = True\<rparr>]\<rparr>"
  have "deletes_quietly (seq_platform None :: pl_world platform)" by (simp add: deletes_quietly_def)
  moreover have "pls ex_linked_plw 9 = Some ?p" by (simp add: ex_linked_plw_def)
  ultimately show ?thesis using unlink_leaves_dangling[of "seq_platform None" ex_linked_plw 9 ?p]
    by (auto simp: ex_linked_plw_def ex_pl_defs)
qed

section \<open>A failed start\<close>

text \<open>Signalling and waiting leave the pipeline structures alone.\<close>

definition signals_quietly :: "'z plw platform \<Rightarrow> bool" where
  "signals_quietly R \<longleftrightarrow> (\<forall>g b w. pls (xEventGroupSetBits R g b w) = pls w) \<and>
     (\<forall>g b w. pls (xEventGroupClearBits R g b w) = pls w) \<and>
     (\<forall>g b t w. pls (snd (xEventGroupWaitBits R g b t w)) = pls w) \<and>
     (\<forall>q m w. pls (snd (xQueueSend R q m w)) = pls w)"

lemma sq_prims:
  assumes "signals_quietly R"
  shows "pls (xEventGroupSetBits R g b w) = pls w" "pls (xEventGroupClearBits R g b w) = pls w"
    "pls (snd (xEventGroupWaitBits R g b t w)) = pls w" "pls (snd (xQueueSend R q m w)) = pls w"
  using assms unfolding signals_quietly_def by simp_all

lemma sq_set_bits: "signals_quietly R \<Longrightarrow> el_set_bits R el b w = Some w' \<Longrightarrow> pls w' = pls w"
  by (auto simp: el_set_bits_def bind_eq_Some_conv sq_prims)

lemma sq_clear_bits: "signals_quietly R \<Longrightarrow> el_clear_bits R el b w = Some w' \<Longrightarrow> pls w' = pls w"
  by (auto simp: el_clear_bits_def bind_eq_Some_conv sq_prims)

lemma sq_wait_bits: "signals_quietly R \<Longrightarrow> el_wait_bits R el b t w = Some (hit, w') \<Longrightarrow> pls w' = pls w"
  by (auto simp: el_wait_bits_def bind_eq_Some_conv split_beta sq_prims)

lemma sq_cmd_send:
  assumes "signals_quietly R" "audio_element_cmd_send R el c w = Some (r, w')"
  shows "pls w' = pls w"
  using assms(2)
  by (auto simp: audio_element_cmd_send_def audio_event_iface_cmd_def bind_eq_Some_conv split_beta sq_prims[OF assms(1)]
      split: option.splits if_splits)

lemmas sq_steps = sq_set_bits sq_clear_bits sq_wait_bits sq_cmd_send

lemma sq_stop:
  assumes q: "signals_quietly R" and "audio_element_stop R el w = Some (r, w')"
  shows "pls w' = pls w"
  using assms(2)
  by (auto simp: audio_element_stop_def bind_eq_Some_conv el_upd_def split: if_splits option.splits
      dest!: sq_steps[OF q])

lemma sq_terminate:
  assumes q: "signals_quietly R" and "audio_element_terminate R el w = Some (r, w')"
  shows "pls w' = pls w"
  using assms(2)
  by (auto simp: audio_element_terminate_def bind_eq_Some_conv el_upd_def split: if_splits option.splits
      dest!: sq_steps[OF q])

lemma for_linked_keeps:
  assumes "\<And>el w w'. f el w = Some w' \<Longrightarrow> P w' = P w"
  shows "for_linked f its w = Some w' \<Longrightarrow> P w' = P w"
  by (induction its arbitrary: w) (auto simp: bind_eq_Some_conv dest: assms split: if_splits)

lemma terminate_keeps_pls:
  assumes q: "signals_quietly R" and "audio_pipeline_terminate R pl w = Some (r, w')"
    and p: "pls w pl = Some p" "pl_state p \<noteq> AEL_STATE_RUNNING"
  shows "pls w' = pls w"
proof -
  have st: "\<And>el w w'. ignore_err (audio_element_stop R el w) = Some w' \<Longrightarrow> pls w' = pls w"
    and te: "\<And>el w w'. ignore_err (audio_element_terminate R el w) = Some w' \<Longrightarrow> pls w' = pls w"
    by (auto simp: ignore_err_def dest: sq_stop[OF q] sq_terminate[OF q])
  from assms(2) obtain w1 r2 w2 and p2 :: audio_pipeline where
    1: "audio_pipeline_stop R pl w = Some (ESP_OK, w1)" and 2: "audio_pipeline_wait_for_stop R pl w1 = Some (r2, w2)"
    and 3: "for_linked (\<lambda>el w. ignore_err (audio_element_terminate R el w)) (pl_el_list p2) w2 = Some w'"
    unfolding audio_pipeline_terminate_def audio_pipeline_stop_def
    by (clarsimp simp: bind_eq_Some_conv split: prod.splits)
  have "pls w1 = pls w"
    using 1 for_linked_keeps[of "\<lambda>el w. ignore_err (audio_element_stop R el w)" pls, OF st]
    by (auto simp: audio_pipeline_stop_def bind_eq_Some_conv)
  moreover from this 2 p have "w2 = w1" by (simp add: audio_pipeline_wait_for_stop_def)
  moreover have "pls w' = pls w2"
    by (rule for_linked_keeps[where P = pls, OF te 3])
  ultimately show ?thesis by simp
qed

text \<open>A start that fails is not undone: the pipeline is left in the error state, no longer
  initial, and every later \<open>audio_pipeline_run\<close> reports success although it starts nothing.\<close>

theorem failed_run_sticks:
  assumes "signals_quietly R" "audio_pipeline_run R pl w = Some (ESP_FAIL, w')"
  shows "(\<exists>p. pls w' pl = Some p \<and> pl_state p = AEL_STATE_ERROR) \<and> audio_pipeline_run R pl w' = Some (ESP_OK, w')"
proof -
  from assms(2) obtain w1 w2 r where
    1: "audio_pipeline_change_state pl AEL_STATE_ERROR w1 = Some (ESP_OK, w2)"
    and 2: "audio_pipeline_terminate R pl w2 = Some (r, w')"
    by (auto simp: audio_pipeline_run_def audio_pipeline_change_state_def bind_eq_Some_conv
        split: if_splits)
  from 1 obtain p where p: "pls w2 pl = Some p" "pl_state p = AEL_STATE_ERROR"
    by (auto simp: audio_pipeline_change_state_def pl_upd_def bind_eq_Some_conv split: option.splits)
  then have "pls w' pl = Some p"
    using terminate_keeps_pls[OF assms(1) 2 p(1)] by simp
  with p(2) show ?thesis by (simp add: audio_pipeline_run_def)
qed

text \<open>A pipeline of one paused element whose task is gone: resuming it fails.\<close>

definition ex_stuck_plw :: pl_world where
  "ex_stuck_plw = ex_plw\<lparr>els := [21 \<mapsto> (ex_pel 31)\<lparr>el_state := AEL_STATE_PAUSED, el_task_run := False\<rparr>],
     pls := [9 \<mapsto> ex_pipeline\<lparr>pl_el_list := [ex_item 21 True]\<rparr>]\<rparr>"

lemma ex_stuck_run: "\<exists>w'. audio_pipeline_run (seq_platform None) 9 ex_stuck_plw = Some (ESP_FAIL, w')"
  by (simp add: ex_stuck_plw_def ex_item_def ex_pipeline_def audio_pipeline_run_def audio_element_get_state_def
      audio_pipeline_resume_def audio_element_resume_def audio_pipeline_change_state_def audio_pipeline_terminate_def
      audio_pipeline_stop_def audio_element_stop_def ignore_err_def audio_pipeline_wait_for_stop_def
      audio_element_terminate_def)

theorem failed_run_sticks_witness:
  "\<exists>w'. audio_pipeline_run (seq_platform None) 9 ex_stuck_plw = Some (ESP_FAIL, w') \<and>
     audio_pipeline_run (seq_platform None) 9 w' = Some (ESP_OK, w')"
proof -
  have "signals_quietly (seq_platform None :: pl_world platform)" by (simp add: signals_quietly_def)
  with ex_stuck_run failed_run_sticks[of "seq_platform None" 9 ex_stuck_plw] show ?thesis by blast
qed

section \<open>Relinking\<close>

text \<open>Allocation and deletion leave the pipeline structures alone.\<close>

definition allocs_quietly :: "'z plw platform \<Rightarrow> bool" where
  "allocs_quietly R \<longleftrightarrow> (\<forall>n w. pls (snd (heap_alloc R n w)) = pls w) \<and>
     (\<forall>w. pls (snd (xSemaphoreCreateBinary R w)) = pls w) \<and> (\<forall>w. pls (snd (xSemaphoreCreateMutex R w)) = pls w) \<and>
     (\<forall>s w. pls (vSemaphoreDelete R s w) = pls w)"

lemma aq_destroy:
  assumes "allocs_quietly R" "rb_destroy R rb w = Some (r, w')"
  shows "pls w' = pls w"
  using assms
  by (auto simp: rb_destroy_def allocs_quietly_def bind_eq_Some_conv Let_def split: option.splits if_splits)

lemma aq_create:
  assumes q: "allocs_quietly R" and c: "rb_create R b n w = Some (r, w')"
  shows "pls w' = pls w"
proof -
  have f: "\<And>w' h. (rb_destroy R h w \<bind> (\<lambda>(_, w). Some (None, w))) = Some (r, w') \<Longrightarrow> pls w' = pls w" for w
    by (auto simp: bind_eq_Some_conv dest: aq_destroy[OF q])
  have 1: "heap_alloc R n w = (a, w') \<Longrightarrow> pls w' = pls w" "xSemaphoreCreateBinary R w = (a, w') \<Longrightarrow> pls w' = pls w"
    "xSemaphoreCreateMutex R w = (a, w') \<Longrightarrow> pls w' = pls w" for n w a w'
    using q unfolding allocs_quietly_def by (metis snd_conv)+
  show ?thesis using c unfolding rb_create_def Let_def
    by (auto split: if_splits prod.split_asm option.splits dest!: 1 f)
qed

lemma aq_make_rb:
  assumes q: "allocs_quietly R" and c: "make_rb R el w = Some (r, w')"
  shows "pls w' = pls w"
proof -
  have "heap_alloc R n w = (a, w') \<Longrightarrow> pls w' = pls w" for n w a w'
    using q unfolding allocs_quietly_def by (metis snd_conv)
  then show ?thesis using c unfolding make_rb_def
    by (auto simp: bind_eq_Some_conv split: prod.split_asm option.splits dest!: aq_create[OF q])
qed

definition linked_of :: "pl_handle \<Rightarrow> 'z plw \<Rightarrow> bool option" where
  "linked_of pl w = map_option pl_linked (pls w pl)"

lemma linked_of_upd:
  assumes "pl_upd pl f w = Some w'" "\<And>p. pl_linked (f p) = pl_linked p"
  shows "linked_of pl w' = linked_of pl w"
  using assms by (auto simp: linked_of_def pl_upd_def split: option.splits)

lemma linked_of_items:
  "pl_linked (upd_el_item j f p) = pl_linked p" "pl_linked (upd_rb_item k g p) = pl_linked p"
  "pl_linked (p\<lparr>pl_rb_list := rs\<rparr>) = pl_linked p"
  by (simp_all add: upd_el_item_def upd_rb_item_def)

lemma linked_of_set_rb:
  "audio_element_set_input_ringbuf el rb w = Some (r, w') \<Longrightarrow> linked_of pl w' = linked_of pl w"
  "audio_element_set_output_ringbuf el rb w = Some (r, w') \<Longrightarrow> linked_of pl w' = linked_of pl w"
  by (auto simp: audio_element_set_input_ringbuf_def audio_element_set_output_ringbuf_def linked_of_def el_upd_def
      split: option.splits bind_splits)

lemma linked_of_make_rb: "allocs_quietly R \<Longrightarrow> make_rb R el w = Some (r, w') \<Longrightarrow> linked_of pl w' = linked_of pl w"
  using aq_make_rb[of R el w r w'] by (simp add: linked_of_def)

text \<open>A computation that ends, if it ends, with a given value of an observation.\<close>

definition ends :: "('w \<Rightarrow> 'a) \<Rightarrow> 'a \<Rightarrow> 'w option \<Rightarrow> bool" where
  "ends P a m \<longleftrightarrow> (\<forall>w'. m = Some w' \<longrightarrow> P w' = a)"

definition yields :: "('w \<Rightarrow> 'a) \<Rightarrow> 'a \<Rightarrow> ('r \<times> 'w) option \<Rightarrow> bool" where
  "yields P a m \<longleftrightarrow> (\<forall>r w'. m = Some (r, w') \<longrightarrow> P w' = a)"

lemma yields_pair: "yields P a m \<Longrightarrow> (\<And>r w. P w = a \<Longrightarrow> yields P a (k r w)) \<Longrightarrow> yields P a (m \<bind> (\<lambda>(r, w). k r w))"
  unfolding yields_def by (auto simp: bind_eq_Some_conv)

lemma yields_state: "ends P a m \<Longrightarrow> (\<And>w. P w = a \<Longrightarrow> yields P a (k w)) \<Longrightarrow> yields P a (m \<bind> k)"
  unfolding yields_def ends_def by (auto simp: bind_eq_Some_conv)

lemma yields_value: "(\<And>x. yields P a (k x)) \<Longrightarrow> yields P a (m \<bind> k)"
  unfolding yields_def by (auto simp: bind_eq_Some_conv)

lemma yields_return: "P w = a \<Longrightarrow> yields P a (Some (r, w))" "P w = a \<Longrightarrow> ends P a (Some w)"
  by (simp_all add: yields_def ends_def)

lemma yields_if:
  "yields P a m \<Longrightarrow> yields P a m' \<Longrightarrow> yields P a (if b then m else m')"
  "(x = None \<Longrightarrow> yields P a m) \<Longrightarrow> (\<And>y. x = Some y \<Longrightarrow> yields P a (f y)) \<Longrightarrow> yields P a (case x of None \<Rightarrow> m | Some y \<Rightarrow> f y)"
  "ends P a n \<Longrightarrow> (\<And>y. ends P a (g y)) \<Longrightarrow> ends P a (case x of None \<Rightarrow> n | Some y \<Rightarrow> g y)"
  by (auto split: option.splits)

lemmas yields_rules = yields_if yields_return yields_pair yields_state

lemma linked_of_calls:
  assumes "linked_of pl w = a"
  shows "(\<And>p. pl_linked (f p) = pl_linked p) \<Longrightarrow> ends (linked_of pl) a (pl_upd pl f w)"
    "yields (linked_of pl) a (audio_element_set_input_ringbuf el rb w)"
    "yields (linked_of pl) a (audio_element_set_output_ringbuf el rb w)"
    "allocs_quietly R \<Longrightarrow> yields (linked_of pl) a (make_rb R el w)"
  using assms linked_of_upd linked_of_set_rb linked_of_make_rb unfolding ends_def yields_def by metis+

lemma relink_loop_linked:
  assumes q: "allocs_quietly R"
  shows "linked_of pl w = a \<Longrightarrow> yields (linked_of pl) a (relink_loop R pl n i tags rb w)"
proof (induction tags arbitrary: i rb w)
  case Nil
  then show ?case by (simp add: yields_def)
next
  case (Cons t tags)
  show ?case
    unfolding relink_loop.simps Let_def
    by (intro yields_rules yields_value Cons.IH linked_of_calls q linked_of_items | assumption | rule Cons.prems)+
      (auto split: option.splits intro!: linked_of_calls yields_return simp: linked_of_items)
qed

text \<open>Relinking connects the elements but never marks the pipeline linked, so a later
  \<open>audio_pipeline_unlink\<close> returns \<open>ESP_OK\<close> without undoing anything.\<close>

theorem relink_not_linked:
  assumes "allocs_quietly R" "audio_pipeline_relink R (Some pl) (Some tags) n w = Some (ESP_OK, w')"
  shows "(\<exists>p. pls w' pl = Some p \<and> \<not> pl_linked p) \<and> audio_pipeline_unlink R pl w' = Some (ESP_OK, w')"
proof -
  from assms(2) obtain p where p: "pls w pl = Some p" "\<not> pl_linked p" "relink_loop R pl n 0 tags None w = Some (ESP_OK, w')"
    by (auto simp: audio_pipeline_relink_def bind_eq_Some_conv split: if_splits)
  have "linked_of pl w' = Some False"
    using relink_loop_linked[OF assms(1), of pl w "Some False" n 0 tags None] p by (auto simp: yields_def linked_of_def)
  then obtain p' where "pls w' pl = Some p'" "\<not> pl_linked p'" by (auto simp: linked_of_def)
  then show ?thesis by (simp add: audio_pipeline_unlink_def)
qed

lemma ex_relink: "\<exists>w'. audio_pipeline_relink (seq_platform (Some 40)) (Some 9) (Some [''src'', ''out'']) 2 ex_plw = Some (ESP_OK, w')"
  by (simp add: audio_pipeline_relink_def audio_pipeline_get_el_item_by_tag_def ex_pl_defs ex_pel_simps audio_element_get_tag_def
      relink_find_rb_def make_rb_def rb_create_def audio_element_get_output_ringbuf_size_def upd_el_item_def upd_rb_item_def
      audio_element_set_input_ringbuf_def audio_element_set_output_ringbuf_def)

theorem relink_not_linked_witness:
  "\<exists>w'. audio_pipeline_relink (seq_platform (Some 40)) (Some 9) (Some [''src'', ''out'']) 2 ex_plw = Some (ESP_OK, w') \<and>
     audio_pipeline_unlink (seq_platform (Some 40)) 9 w' = Some (ESP_OK, w')"
proof -
  have "allocs_quietly (seq_platform (Some 40) :: pl_world platform)" by (simp add: allocs_quietly_def)
  with ex_relink relink_not_linked[of "seq_platform (Some 40)" 9 "[''src'', ''out'']" 2 ex_plw] show ?thesis by blast
qed

section \<open>Registration and lookup\<close>

text \<open>Every item is either of the wanted element or carries a live tag of its own that differs.\<close>

definition other_tag :: "'z plw \<Rightarrow> addr option \<Rightarrow> string \<Rightarrow> el_handle \<Rightarrow> bool" where
  "other_tag w own t x \<longleftrightarrow> (\<exists>e. els w x = Some e \<and> (\<forall>a. el_tag e = Some a \<longrightarrow>
     own \<noteq> Some a \<and> (\<exists>s. strs w a = Some s \<and> \<not> strcaseeq s t)))"

lemma find_tag_hits:
  assumes "tag_of w el = Some (Some a)" "strs w a = Some s" "strcaseeq s t"
    "\<forall>it \<in> set its. ai_el it = el \<or> other_tag w own t (ai_el it)" "\<exists>it \<in> set its. ai_el it = el"
  shows "\<exists>j. find_tag w (Some t) its i = Some (Some (i + j)) \<and> j < length its \<and> ai_el (its ! j) = el"
  using assms(4,5)
proof (induction its arbitrary: i)
  case (Cons it its)
  show ?case
  proof (cases "ai_el it = el")
    case True
    with assms(1,2,3) show ?thesis
      by (intro exI[of _ 0]) (auto simp: tag_of_def audio_element_get_tag_def)
  next
    case False
    with Cons.prems have "other_tag w own t (ai_el it)" by simp
    then have "find_tag w (Some t) (it # its) i = find_tag w (Some t) its (Suc i)"
      by (auto simp: other_tag_def audio_element_get_tag_def split: option.splits)
    moreover obtain j where "find_tag w (Some t) its (Suc i) = Some (Some (Suc i + j))" "j < length its" "ai_el (its ! j) = el"
      using Cons.IH[of "Suc i"] Cons.prems False by auto
    ultimately show ?thesis by (intro exI[of _ "Suc j"]) simp
  qed
qed simp

lemma remove_el_subset: "remove_el el its = Some its' \<Longrightarrow> set its' \<subseteq> set its"
  by (induction its arbitrary: its') (auto simp: bind_eq_Some_conv split: if_splits)

text \<open>\<open>audio_element_set_tag\<close> to no tag and to a string.\<close>

lemma set_tag_none:
  assumes "els w el = Some e" "\<forall>a. el_tag e = Some a \<longrightarrow> strs w a \<noteq> None"
  obtains S where "audio_element_set_tag R el None w =
      Some (ESP_OK, w\<lparr>strs := S, els := (els w)(el \<mapsto> e\<lparr>el_tag := None\<rparr>)\<rparr>)"
    "\<And>a. el_tag e \<noteq> Some a \<Longrightarrow> S a = strs w a" "dom S \<subseteq> dom (strs w)"
proof (cases "el_tag e")
  case None
  show ?thesis
    by (rule that[of "strs w"]) (use None assms(1) in \<open>simp_all add: audio_element_set_tag_def str_free_def\<close>)
next
  case (Some a)
  with assms(2) obtain s where "strs w a = Some s" by auto
  with Some assms(1) show ?thesis
    by (intro that[of "(strs w)(a := None)"]) (auto simp: audio_element_set_tag_def str_free_def)
qed

lemma unregister_ok:
  assumes e: "els w el = Some e" "\<forall>a. el_tag e = Some a \<longrightarrow> strs w a \<noteq> None" and p: "pls w pl = Some p"
  obtains r w' S its where "audio_pipeline_unregister R pl el w = Some (r, w')"
    "rbs w' = rbs w" "els w' = (els w)(el \<mapsto> e\<lparr>el_tag := None\<rparr>)" "strs w' = S"
    "pls w' = (pls w)(pl \<mapsto> p\<lparr>pl_el_list := its\<rparr>)" "set its \<subseteq> set (pl_el_list p)"
    "\<forall>a. el_tag e \<noteq> Some a \<longrightarrow> S a = strs w a" "dom S \<subseteq> dom (strs w)"
proof -
  obtain S where S: "audio_element_set_tag R el None w =
      Some (ESP_OK, w\<lparr>strs := S, els := (els w)(el \<mapsto> e\<lparr>el_tag := None\<rparr>)\<rparr>)"
    "\<And>a. el_tag e \<noteq> Some a \<Longrightarrow> S a = strs w a" "dom S \<subseteq> dom (strs w)"
    using set_tag_none[OF e] by metis
  let ?w1 = "w\<lparr>strs := S, els := (els w)(el \<mapsto> e\<lparr>el_tag := None\<rparr>)\<rparr>"
  show ?thesis
  proof (cases "remove_el el (pl_el_list p)")
    case None
    show ?thesis
      by (rule that[of ESP_FAIL ?w1 S "pl_el_list p"])
        (use None S p in \<open>simp_all add: audio_pipeline_unregister_def fun_upd_idem\<close>)
  next
    case (Some its)
    show ?thesis
      by (rule that[of ESP_OK "?w1\<lparr>pls := (pls w)(pl \<mapsto> p\<lparr>pl_el_list := its\<rparr>)\<rparr>" S its])
        (use Some S p remove_el_subset[OF Some] in \<open>simp_all add: audio_pipeline_unregister_def\<close>)
  qed
qed

lemma set_tag_some:
  assumes ok: "pl_alloc R" "finite (dom (rbs w))" "finite (dom (strs w))" and e: "els w el = Some e" "el_tag e = None"
  obtains a w' where "audio_element_set_tag R el (Some t) w = Some (ESP_OK, w')" "a \<notin> dom (strs w)"
    "rbs w' = rbs w" "els w' = (els w)(el \<mapsto> e\<lparr>el_tag := Some a\<rparr>)" "strs w' = (strs w)(a \<mapsto> t)" "pls w' = pls w"
proof -
  let ?w1 = "w\<lparr>els := (els w)(el \<mapsto> e\<lparr>el_tag := None\<rparr>)\<rparr>"
  have fin: "finite (dom (rbs ?w1))" "finite (dom (strs ?w1))" using ok by simp_all
  obtain a w2 where 2: "heap_alloc R (length t + 1) ?w1 = (Some a, w2)" "a \<notin> dom (strs ?w1)" "pl_stores w2 = pl_stores ?w1"
    using pl_allocD[OF ok(1) fin, of "length t + 1"] by metis
  show ?thesis
    by (rule that[of "w2\<lparr>strs := (strs w2)(a \<mapsto> t), els := (els w2)(el \<mapsto> e\<lparr>el_tag := Some a\<rparr>)\<rparr>" a])
      (use 2 e in \<open>simp_all add: audio_element_set_tag_def str_free_def str_dup_def pl_stores_def\<close>)
qed

lemma other_tag_mono:
  assumes "other_tag w own t x" "els w' x = els w x" "\<And>a s. own \<noteq> Some a \<Longrightarrow> strs w a = Some s \<Longrightarrow> strs w' a = Some s"
  shows "other_tag w' own t x"
  using assms unfolding other_tag_def by fastforce

text \<open>Registration and lookup: registering an element under a name returns \<open>ESP_OK\<close>, and looking the
  name up, in any case, finds the element, as long as no other element of the pipeline has an equal tag.\<close>

theorem register_lookup:
  assumes ok: "pl_alloc R" "finite (dom (rbs w))" "finite (dom (strs w))"
    and e: "els w el = Some e" "\<forall>a. el_tag e = Some a \<longrightarrow> strs w a \<noteq> None" and p: "pls w pl = Some p"
    and others: "\<forall>it \<in> set (pl_el_list p). ai_el it = el \<or> other_tag w (el_tag e) t' (ai_el it)"
    and tt: "strcaseeq t t'"
  shows "\<exists>w'. audio_pipeline_register R pl el (Some t) w = Some (ESP_OK, w') \<and>
     audio_pipeline_get_el_by_tag (Some pl) (Some t') w' = Some (Some el)"
proof -
  obtain r w1 S its where 1: "audio_pipeline_unregister R pl el w = Some (r, w1)"
    "rbs w1 = rbs w" "els w1 = (els w)(el \<mapsto> e\<lparr>el_tag := None\<rparr>)" "strs w1 = S"
    "pls w1 = (pls w)(pl \<mapsto> p\<lparr>pl_el_list := its\<rparr>)" "set its \<subseteq> set (pl_el_list p)"
    "\<forall>a. el_tag e \<noteq> Some a \<longrightarrow> S a = strs w a" "dom S \<subseteq> dom (strs w)"
    by (rule unregister_ok[OF e p, of R])
  have f1: "finite (dom (rbs w1))" "finite (dom (strs w1))" using ok 1(2,4,8) by (auto intro: finite_subset)
  have e1: "els w1 el = Some (e\<lparr>el_tag := None\<rparr>)" "el_tag (e\<lparr>el_tag := None\<rparr>) = None" using 1(3) by simp_all
  obtain a w2 where 2: "audio_element_set_tag R el (Some t) w1 = Some (ESP_OK, w2)" "a \<notin> dom (strs w1)"
    "rbs w2 = rbs w1" "els w2 = (els w1)(el \<mapsto> e\<lparr>el_tag := None, el_tag := Some a\<rparr>)" "strs w2 = (strs w1)(a \<mapsto> t)" "pls w2 = pls w1"
    by (rule set_tag_some[OF ok(1) f1 e1])
  have f2: "finite (dom (rbs w2))" "finite (dom (strs w2))" using f1 2(3,5) by simp_all
  obtain b w3 where 3: "heap_alloc R 16 w2 = (Some b, w3)" "pl_stores w3 = pl_stores w2"
    using pl_allocD[OF ok(1) f2, of 16] by metis
  let ?its = "its @ [new_el_item el False]"
  let ?w = "w3\<lparr>pls := (pls w3)(pl \<mapsto> p\<lparr>pl_el_list := ?its\<rparr>)\<rparr>"
  have reg: "audio_pipeline_register R pl el (Some t) w = Some (ESP_OK, ?w)"
    using 1(1,5) 2(1,6) 3 by (simp add: audio_pipeline_register_def pl_stores_def)
  have st: "els ?w = (els w)(el \<mapsto> e\<lparr>el_tag := Some a\<rparr>)" "strs ?w = S(a \<mapsto> t)"
    using 1(3,4) 2(4,5) 3(2) by (simp_all add: pl_stores_def)
  have keep: "strs ?w c = Some s" if "el_tag e \<noteq> Some c" "strs w c = Some s" for c s
    using that 1(4,7) 2(2) by (auto simp: st(2))
  have other: "other_tag ?w (el_tag e) t' x" if "other_tag w (el_tag e) t' x" "x \<noteq> el" for x
    by (rule other_tag_mono[OF that(1) _ keep]) (use that(2) in \<open>simp_all add: st(1)[simplified]\<close>)
  have "\<forall>it \<in> set ?its. ai_el it = el \<or> other_tag ?w (el_tag e) t' (ai_el it)"
    using others 1(6) other by (auto simp: new_el_item_def subset_iff)
  moreover have "tag_of ?w el = Some (Some a)" "strs ?w a = Some t" by (simp_all add: tag_of_def st)
  moreover have "\<exists>it \<in> set ?its. ai_el it = el" by (simp add: new_el_item_def)
  ultimately obtain j where "find_tag ?w (Some t') ?its 0 = Some (Some j)" "ai_el (?its ! j) = el"
    using find_tag_hits[of ?w el a t t' ?its "el_tag e" 0] tt by auto
  then show ?thesis using reg by (simp add: audio_pipeline_get_el_by_tag_def)
qed

theorem register_lookup_witness:
  "\<exists>w'. audio_pipeline_register fresh_platform 9 22 (Some ''mp3'') ex_plw = Some (ESP_OK, w') \<and>
     audio_pipeline_get_el_by_tag (Some 9) (Some ''MP3'') w' = Some (Some 22)"
proof -
  have ne: "strcaseeq ''mp3'' ''MP3''" "\<not> strcaseeq ''src'' ''MP3''" "\<not> strcaseeq ''out'' ''MP3''" by code_simp+
  have "\<forall>it \<in> set (pl_el_list ex_pipeline). ai_el it = 22 \<or> other_tag ex_plw (el_tag (ex_pel 32)) ''MP3'' (ai_el it)"
    by (simp add: ex_pl_defs other_tag_def ex_pel_simps ne)
  with fresh_platform_alloc ne(1) register_lookup[of fresh_platform ex_plw 22 "ex_pel 32" 9 ex_pipeline "''MP3''" "''mp3''"]
  show ?thesis by (simp add: ex_pl_defs ex_pel_simps)
qed

end
