(* ===== verification/Http_Header.thy ===== *)
theory Http_Header
  imports Platform
begin

text \<open>
  The header dictionary of the HTTP client (\<open>components/esp_http_client/lib/http_header.c\<close>) and the string
  helpers it rests on (\<open>lib/http_utils.c\<close>). A header is the list of its items. Every item owns copies of its
  strings, so a \<open>char *\<close> is the text before the terminator; \<open>None\<close> is \<open>NULL\<close>. \<open>mem_check\<close> is \<open>assert\<close>,
  so an allocation that fails there does not return.
\<close>

section \<open>String helpers\<close>

definition isspace :: "char \<Rightarrow> bool" where
  "isspace c = (let n = of_char c :: nat in n = 32 \<or> 9 \<le> n \<and> n \<le> 13)"

abbreviation NUL :: char where "NUL \<equiv> CHR 0x00"

text \<open>The number of bytes a length argument stands for: itself when positive, else \<open>strlen\<close>.\<close>

definition given_len :: "string \<Rightarrow> int \<Rightarrow> nat" where
  "given_len s len = (if len > 0 then nat len else length s)"

definition http_utils_join_string ::
  "'w platform \<Rightarrow> string \<Rightarrow> int \<Rightarrow> string \<Rightarrow> int \<Rightarrow> 'w \<Rightarrow> (string option \<times> 'w) option" where
  "http_utils_join_string R first_str len_first second_str len_second w =
     (let n1 = given_len first_str len_first; n2 = given_len second_str len_second in
      if n1 + n2 > 0 then
        (case heap_alloc R (n1 + n2 + 1) w of
           (None, w) \<Rightarrow> None
         | (Some _, w) \<Rightarrow> do {
             a \<leftarrow> mem_read (first_str @ [NUL]) 0 n1;
             b \<leftarrow> mem_read (second_str @ [NUL]) 0 n2;
             Some (Some (a @ b), w)
           })
      else Some (None, w))"

text \<open>The result is the returned pointer and the string variable the first argument points to. \<open>realloc\<close> and
  \<open>calloc\<close> both need the whole new length.\<close>

definition http_utils_assign_string ::
  "'w platform \<Rightarrow> string option \<Rightarrow> string option \<Rightarrow> int \<Rightarrow> 'w \<Rightarrow> (string option \<times> string option \<times> 'w) option" where
  "http_utils_assign_string R str new_str len w =
     (case new_str of None \<Rightarrow> Some (None, str, w)
      | Some s \<Rightarrow>
          (let l = (if len \<le> 0 then length s else nat len) in
           case heap_alloc R (l + 1) w of
             (None, w) \<Rightarrow> None
           | (Some _, w) \<Rightarrow> do { t \<leftarrow> mem_read (s @ [NUL]) 0 l; Some (Some t, Some t, w) }))"

text \<open>The trailing loop: \<open>e\<close> is \<open>end - start\<close>.\<close>

fun trim_end :: "string \<Rightarrow> nat \<Rightarrow> nat" where
  "trim_end t 0 = 0"
| "trim_end t (Suc e) = (if isspace (t ! Suc e) then trim_end t e else Suc e)"

definition http_utils_trim_whitespace :: "string \<Rightarrow> string" where
  "http_utils_trim_whitespace str =
     (let start = dropWhile isspace str in
      if start = [] then [] else take (trim_end start (length start - 1) + 1) start)"

text \<open>\<open>strstr\<close>: the offset of the first occurrence.\<close>

fun strstr :: "string \<Rightarrow> string \<Rightarrow> nat option" where
  "strstr [] pat = (if pat = [] then Some 0 else None)"
| "strstr (c # s) pat = (if take (length pat) (c # s) = pat then Some 0 else map_option Suc (strstr s pat))"

definition http_utils_get_string_between ::
  "'w platform \<Rightarrow> string \<Rightarrow> string \<Rightarrow> string \<Rightarrow> 'w \<Rightarrow> (string option \<times> 'w) option" where
  "http_utils_get_string_between R str bgn fin w =
     (case strstr str bgn of None \<Rightarrow> Some (None, w)
      | Some k \<Rightarrow>
          (let found = drop (k + length bgn) str in
           case strstr found fin of None \<Rightarrow> Some (None, w)
           | Some m \<Rightarrow> (case heap_alloc R (m + 1) w of
               (None, w) \<Rightarrow> None
             | (Some _, w) \<Rightarrow> Some (Some (take m found), w))))"

text \<open>The loop compares from index \<open>i\<close>.\<close>

function starts_loop :: "string \<Rightarrow> string \<Rightarrow> nat \<Rightarrow> int" where
  "starts_loop str start i =
     (if i < length start then (if str ! i \<noteq> start ! i then 1 else starts_loop str start (i + 1)) else 0)"
  by pat_completeness auto
termination by (relation "measure (\<lambda>(_, s, i). length s - i)") auto

declare starts_loop.simps [simp del]

definition http_utils_str_starts_with :: "string \<Rightarrow> string \<Rightarrow> int" where
  "http_utils_str_starts_with str start =
     (if length start > length str then -1 else starts_loop str start 0)"

section \<open>The dictionary\<close>

record http_header_item =
  hi_key :: string
  hi_value :: "string option"

type_synonym http_header = "http_header_item list"

definition http_header_init :: "'w platform \<Rightarrow> 'w \<Rightarrow> http_header option \<times> 'w" where
  "http_header_init R w =
     (case heap_alloc R 8 w of (None, w) \<Rightarrow> (None, w) | (Some _, w) \<Rightarrow> (Some [], w))"

definition http_header_clean :: "http_header option \<Rightarrow> (esp_err \<times> http_header) option" where
  "http_header_clean header = do { _ \<leftarrow> header; Some (ESP_OK, []) }"

text \<open>The header is freed, whatever it held.\<close>

definition http_header_destroy :: "http_header option \<Rightarrow> esp_err option" where
  "http_header_destroy header = do { (err, _) \<leftarrow> http_header_clean header; Some err }"

text \<open>An item pointer is the index of the item.\<close>

fun find_item :: "http_header \<Rightarrow> string \<Rightarrow> nat option" where
  "find_item [] key = None"
| "find_item (it # its) key = (if strcaseeq (hi_key it) key then Some 0 else map_option Suc (find_item its key))"

definition http_header_get_item :: "http_header option \<Rightarrow> string option \<Rightarrow> nat option" where
  "http_header_get_item header key =
     (case (header, key) of (Some h, Some k) \<Rightarrow> find_item h k | _ \<Rightarrow> None)"

definition http_header_get :: "http_header option \<Rightarrow> string option \<Rightarrow> esp_err \<times> string option" where
  "http_header_get header key =
     (ESP_OK, case http_header_get_item header key of None \<Rightarrow> None | Some i \<Rightarrow> hi_value (the header ! i))"

text \<open>The first trim works on the assigned key; the value is never \<open>NULL\<close> here. A missing key ends at the exit
  label, which frees both strings but not the item.\<close>

definition http_header_new_item ::
  "'w platform \<Rightarrow> http_header option \<Rightarrow> string option \<Rightarrow> string \<Rightarrow> 'w \<Rightarrow> (esp_err \<times> http_header option \<times> 'w) option" where
  "http_header_new_item R header key value w =
     (case heap_alloc R 12 w of
        (None, w) \<Rightarrow> Some (ESP_ERR_NO_MEM, header, w)
      | (Some _, w) \<Rightarrow> do {
          (k, _, w) \<leftarrow> http_utils_assign_string R None key 0 w;
          case k of None \<Rightarrow> Some (ESP_ERR_NO_MEM, header, w)
          | Some k \<Rightarrow> do {
              let k = http_utils_trim_whitespace k;
              (v, _, w) \<leftarrow> http_utils_assign_string R None (Some value) 0 w;
              case v of None \<Rightarrow> Some (ESP_ERR_NO_MEM, header, w)
              | Some v \<Rightarrow> do {
                  let v = http_utils_trim_whitespace v;
                  h \<leftarrow> header;
                  Some (ESP_OK, Some (h @ [\<lparr>hi_key = k, hi_value = Some v\<rparr>]), w)
                }
            }
        })"

definition http_header_delete :: "http_header option \<Rightarrow> string option \<Rightarrow> esp_err \<times> http_header option" where
  "http_header_delete header key =
     (case http_header_get_item header key of
        None \<Rightarrow> (ESP_ERR_NOT_FOUND, header)
      | Some i \<Rightarrow> (ESP_OK, map_option (\<lambda>h. take i h @ drop (Suc i) h) header))"

text \<open>\<open>strdup\<close> of the new value may fail, which leaves the item without a value.\<close>

definition http_header_set ::
  "'w platform \<Rightarrow> http_header option \<Rightarrow> string option \<Rightarrow> string option \<Rightarrow> 'w \<Rightarrow> (esp_err \<times> http_header option \<times> 'w) option" where
  "http_header_set R header key value w =
     (case value of
        None \<Rightarrow> (let (err, header) = http_header_delete header key in Some (err, header, w))
      | Some v \<Rightarrow> (case http_header_get_item header key of
          Some i \<Rightarrow>
            (let (p, w) = heap_alloc R (length v + 1) w;
                 v' = (case p of None \<Rightarrow> None | Some _ \<Rightarrow> Some (http_utils_trim_whitespace v)) in
             Some (ESP_OK, map_option (\<lambda>h. h[i := (h ! i)\<lparr>hi_value := v'\<rparr>]) header, w))
        | None \<Rightarrow> http_header_new_item R header key v w))"

text \<open>The text before and after the first \<open>:\<close>. The result of \<open>http_header_set\<close> is dropped.\<close>

definition http_header_set_from_string ::
  "'w platform \<Rightarrow> http_header option \<Rightarrow> string \<Rightarrow> 'w \<Rightarrow> (esp_err \<times> http_header option \<times> 'w) option" where
  "http_header_set_from_string R header key_value_data w =
     (case heap_alloc R (length key_value_data + 1) w of
        (None, w) \<Rightarrow> Some (ESP_ERR_NO_MEM, header, w)
      | (Some _, w) \<Rightarrow>
          (case dropWhile (\<lambda>c. c \<noteq> CHR '':'') key_value_data of
             [] \<Rightarrow> Some (ESP_ERR_INVALID_ARG, header, w)
           | _ # v \<Rightarrow> do {
               (_, header, w) \<leftarrow> http_header_set R header
                  (Some (takeWhile (\<lambda>c. c \<noteq> CHR '':'') key_value_data)) (Some v) w;
               Some (ESP_OK, header, w)
             }))"

text \<open>\<open>buf\<close> and \<open>len\<close> are what \<open>vasprintf\<close> returns for the format and its arguments.\<close>

definition http_header_set_format ::
  "'w platform \<Rightarrow> http_header option \<Rightarrow> string option \<Rightarrow> string option \<Rightarrow> int \<Rightarrow> 'w \<Rightarrow> (int \<times> http_header option \<times> 'w) option" where
  "http_header_set_format R header key buf len w =
     (case buf of None \<Rightarrow> Some (0, header, w)
      | Some b \<Rightarrow> do { (_, header, w) \<leftarrow> http_header_set R header key (Some b) w; Some (len, header, w) })"

definition http_header_count :: "http_header option \<Rightarrow> int option" where
  "http_header_count header = do { h \<leftarrow> header; Some (int (length h)) }"

section \<open>Printing\<close>

text \<open>\<open>snprintf(buffer + off, size, ...)\<close> for the text \<open>s\<close>: at most \<open>size - 1\<close> characters and a terminator, and
  the length of the whole text. \<open>size\<close> is unsigned, so a negative difference is huge; writing outside the
  buffer is undefined.\<close>

definition snprintf :: "string \<Rightarrow> int \<Rightarrow> int \<Rightarrow> string \<Rightarrow> (int \<times> string) option" where
  "snprintf buffer off sz s =
     (let n = uint (word_of_int sz :: u32) in
      if n = 0 then Some (int (length s), buffer)
      else do {
        b \<leftarrow> mem_write buffer (nat off) (take (nat (n - 1)) s @ [NUL]);
        Some (int (length s), b)
      })"

definition header_line :: "string \<Rightarrow> string \<Rightarrow> string" where
  "header_line k v = k @ '': '' @ v @ [CHR 0x0D, CHR 0x0A]"

text \<open>The first loop: the printed size and the last index at which it no longer fits.\<close>

fun gen_size :: "http_header \<Rightarrow> int \<Rightarrow> int \<Rightarrow> int \<Rightarrow> int \<Rightarrow> int \<Rightarrow> int \<times> int \<times> int" where
  "gen_size [] index buffer_len siz idx ret_idx = (siz, idx, ret_idx)"
| "gen_size (it # its) index buffer_len siz idx ret_idx =
     (let siz = (case hi_value it of
            Some v \<Rightarrow> if idx \<ge> index then siz + int (length (hi_key it)) + int (length v) + 4 else siz
          | None \<Rightarrow> siz);
          idx = idx + 1;
          ret_idx = (if siz + 1 > buffer_len - 2 then idx - 1 else ret_idx) in
      gen_size its index buffer_len siz idx ret_idx)"

fun gen_print :: "http_header \<Rightarrow> int \<Rightarrow> int \<Rightarrow> int \<Rightarrow> int \<Rightarrow> int \<Rightarrow> string \<Rightarrow> (int \<times> string) option" where
  "gen_print [] index ret_idx buffer_len idx str_len buffer = Some (str_len, buffer)"
| "gen_print (it # its) index ret_idx buffer_len idx str_len buffer =
     (case hi_value it of
        Some v \<Rightarrow>
          if idx \<ge> index \<and> idx < ret_idx then do {
            (n, buffer) \<leftarrow> snprintf buffer str_len (buffer_len - str_len) (header_line (hi_key it) v);
            gen_print its index ret_idx buffer_len (idx + 1) (str_len + n) buffer
          } else gen_print its index ret_idx buffer_len (idx + 1) str_len buffer
      | None \<Rightarrow> gen_print its index ret_idx buffer_len (idx + 1) str_len buffer)"

text \<open>The result: the index to continue with, the buffer and \<open>*buffer_len\<close>.\<close>

definition http_header_generate_string ::
  "http_header option \<Rightarrow> int \<Rightarrow> string \<Rightarrow> int \<Rightarrow> (int \<times> string \<times> int) option" where
  "http_header_generate_string header index buffer buffer_len = do {
     h \<leftarrow> header;
     let (siz, idx, ret_idx) = gen_size h index buffer_len 0 0 (-1);
     if siz = 0 then Some (0, buffer, buffer_len)
     else do {
       let is_end = ret_idx < 0;
       let ret_idx = (if is_end then idx else ret_idx);
       (str_len, buffer) \<leftarrow> gen_print h index ret_idx buffer_len 0 0 buffer;
       (str_len, buffer) \<leftarrow> (if is_end then do {
            (n, b) \<leftarrow> snprintf buffer str_len (buffer_len - str_len) [CHR 0x0D, CHR 0x0A];
            Some (str_len + n, b) } else Some (str_len, buffer));
       Some (ret_idx, buffer, str_len)
     }
   }"

end
