(* ===== verification/Http_Header_Correct.thy ===== *)
theory Http_Header_Correct
  imports Http_Header
begin

text \<open>
  Correctness of the HTTP header: trimming against a reference, the dictionary laws of set, get and delete
  (the last value set under a key wins, in any case of letters), parsing of a header line, and printing:
  the printed text when the header fits, and what goes wrong when it does not.
\<close>

section \<open>Strings\<close>

definition trim :: "string \<Rightarrow> string" where
  "trim s = rev (dropWhile isspace (rev (dropWhile isspace s)))"

lemma trim_end_take:
  "e < length t \<Longrightarrow> \<not> isspace (t ! 0) \<Longrightarrow> take (trim_end t e + 1) t = rev (dropWhile isspace (rev (take (e + 1) t)))"
proof (induction e)
  case 0
  then show ?case by (cases t) simp_all
next
  case (Suc e)
  from Suc.prems(1) have "take (Suc e + 1) t = take (e + 1) t @ [t ! Suc e]"
    by (simp add: take_Suc_conv_app_nth)
  with Suc show ?case by simp
qed

lemma trim_whitespace_eq: "http_utils_trim_whitespace s = trim s"
proof (cases "dropWhile isspace s")
  case (Cons c t)
  then have "\<not> isspace c" by (metis hd_dropWhile list.distinct(1) list.sel(1))
  with trim_end_take[of "length t" "c # t"] Cons show ?thesis
    by (simp add: http_utils_trim_whitespace_def trim_def)
qed (auto simp: http_utils_trim_whitespace_def trim_def dest: set_dropWhileD)

definition trimmed :: "string \<Rightarrow> bool" where
  "trimmed s \<longleftrightarrow> s = [] \<or> \<not> isspace (hd s) \<and> \<not> isspace (last s)"

lemma dropWhile_id: "(xs \<noteq> [] \<Longrightarrow> \<not> P (hd xs)) \<Longrightarrow> dropWhile P xs = xs"
  by (cases xs) simp_all

lemma trimmed_trim: "trimmed (trim s)"
proof (cases "trim s = []")
  case False
  let ?t = "dropWhile isspace s"
  obtain u where u: "?t = trim s @ u"
    unfolding trim_def by (metis append_Nil2 rev_append rev_rev_ident takeWhile_dropWhile_id)
  then have "?t \<noteq> []" "hd ?t = hd (trim s)" using False by simp_all
  then have "\<not> isspace (hd (trim s))" using hd_dropWhile[of isspace s] by simp
  moreover have "\<not> isspace (last (trim s))"
    using False hd_dropWhile[of isspace "rev ?t"] by (simp add: trim_def last_rev)
  ultimately show ?thesis by (simp add: trimmed_def)
qed (simp add: trimmed_def)

lemma trim_id [simp]: "trimmed s \<Longrightarrow> trim s = s"
  by (auto simp: trim_def trimmed_def dropWhile_id hd_rev)

lemma trimmed_iff: "trimmed s \<longleftrightarrow> trim s = s"
  using trimmed_trim[of s] by auto

lemma isspace_tolower: "isspace (tolower c) = isspace c"
  by (auto simp: isspace_def tolower_def Let_def)

lemma trimmed_cong: "strcaseeq s t \<Longrightarrow> trimmed s = trimmed t"
proof -
  assume st: "strcaseeq s t"
  have "trimmed (map tolower u) = trimmed u" for u
    by (cases "u = []") (simp_all add: trimmed_def hd_map last_map isspace_tolower)
  with st show ?thesis unfolding strcaseeq_def by metis
qed

text \<open>\<open>http_utils_trim_whitespace\<close>, with its two pointer loops, removes exactly the leading and trailing
  white space: the result begins and ends with no space and the text is the result between spaces.\<close>

theorem trim_removes_surrounding:
  "trimmed (http_utils_trim_whitespace s) \<and>
   (\<exists>a b. s = a @ http_utils_trim_whitespace s @ b \<and> list_all isspace a \<and> list_all isspace b)"
proof -
  let ?t = "dropWhile isspace s"
  have "s = takeWhile isspace s @ ?t" by simp
  moreover have "?t = trim s @ rev (takeWhile isspace (rev ?t))"
    unfolding trim_def by (metis rev_append rev_rev_ident takeWhile_dropWhile_id)
  moreover have "list_all isspace (takeWhile isspace s)" "list_all isspace (rev (takeWhile isspace (rev ?t)))"
    by (auto simp: list_all_iff dest: set_takeWhileD)
  ultimately show ?thesis unfolding trim_whitespace_eq using trimmed_trim by metis
qed

section \<open>Dictionaries\<close>

text \<open>What a client of a dictionary relies on. \<open>put\<close> relates a dictionary to the one after a value is stored,
  \<open>remove\<close> to the one after a key is deleted; values are stored normalised, and the laws hold for acceptable
  keys.\<close>

locale dictionary =
  fixes inv :: "'d \<Rightarrow> bool" and accept :: "'k \<Rightarrow> bool" and same :: "'k \<Rightarrow> 'k \<Rightarrow> bool" and norm :: "'v \<Rightarrow> 'v"
    and lookup :: "'d \<Rightarrow> 'k \<Rightarrow> 'v option" and put :: "'d \<Rightarrow> 'k \<Rightarrow> 'v \<Rightarrow> 'd \<Rightarrow> bool" and remove :: "'d \<Rightarrow> 'k \<Rightarrow> 'd \<Rightarrow> bool"
  assumes put_inv: "inv d \<Longrightarrow> accept k \<Longrightarrow> put d k v d' \<Longrightarrow> inv d'"
    and put_lookup: "inv d \<Longrightarrow> accept k \<Longrightarrow> put d k v d' \<Longrightarrow> lookup d' j = (if same k j then Some (norm v) else lookup d j)"
    and remove_inv: "inv d \<Longrightarrow> remove d k d' \<Longrightarrow> inv d'"
    and remove_lookup: "inv d \<Longrightarrow> remove d k d' \<Longrightarrow> lookup d' j = (if same k j then None else lookup d j)"
begin

inductive puts :: "'d \<Rightarrow> ('k \<times> 'v) list \<Rightarrow> 'd \<Rightarrow> bool" where
  puts_Nil: "puts d [] d"
| puts_Cons: "put d k v d1 \<Longrightarrow> puts d1 kvs d' \<Longrightarrow> puts d ((k, v) # kvs) d'"

definition last_value :: "('k \<times> 'v) list \<Rightarrow> 'k \<Rightarrow> 'v option" where
  "last_value kvs j = map_option snd (find (\<lambda>(k, v). same k j) (rev kvs))"

lemma find_append: "find P (xs @ ys) = (case find P xs of None \<Rightarrow> find P ys | Some x \<Rightarrow> Some x)"
  by (induction xs) simp_all

lemma last_value_Cons:
  "last_value ((k, v) # kvs) j =
     (case last_value kvs j of None \<Rightarrow> if same k j then Some v else None | Some u \<Rightarrow> Some u)"
  by (simp add: last_value_def find_append split: option.splits)

lemma puts_last_wins:
  "puts d kvs d' \<Longrightarrow> inv d \<Longrightarrow> (\<forall>(k, v) \<in> set kvs. accept k) \<Longrightarrow>
   inv d' \<and> lookup d' j = (case last_value kvs j of None \<Rightarrow> lookup d j | Some v \<Rightarrow> Some (norm v))"
proof (induction rule: puts.induct)
  case (puts_Cons d k v d1 kvs d')
  then show ?case
    using put_inv[of d k v d1] put_lookup[of d k v d1 j] by (auto simp: last_value_Cons split: option.splits)
qed (simp add: last_value_def)

lemma remove_after_put:
  "inv d \<Longrightarrow> accept k \<Longrightarrow> put d k v d1 \<Longrightarrow> remove d1 k d2 \<Longrightarrow>
   lookup d2 j = (if same k j then None else lookup d j)"
  by (metis put_inv put_lookup remove_lookup)

end

section \<open>The header is a dictionary\<close>

text \<open>Stored keys are trimmed, differ in more than the case of letters, and have a value.\<close>

definition header_inv :: "http_header \<Rightarrow> bool" where
  "header_inv h \<longleftrightarrow> (\<forall>it \<in> set h. trimmed (hi_key it) \<and> hi_value it \<noteq> None) \<and>
     distinct (map (map tolower \<circ> hi_key) h)"

definition header_lookup :: "http_header \<Rightarrow> string \<Rightarrow> string option" where
  "header_lookup h k = snd (http_header_get (Some h) (Some k))"

lemma find_item_None: "find_item h k = None \<longleftrightarrow> (\<forall>it \<in> set h. \<not> strcaseeq (hi_key it) k)"
  by (induction h) auto

lemma find_item_bound: "find_item h k = Some i \<Longrightarrow> i < length h"
  by (induction h arbitrary: i) (auto split: if_splits)

lemma header_lookup_simps [simp]:
  "header_lookup [] j = None"
  "header_lookup (it # h) j = (if strcaseeq (hi_key it) j then hi_value it else header_lookup h j)"
  by (simp_all add: header_lookup_def http_header_get_def http_header_get_item_def split: option.splits)

text \<open>\<open>http_header_set\<close> when memory is available: an item's value is replaced or an item is added.\<close>

definition header_put :: "http_header \<Rightarrow> string \<Rightarrow> string \<Rightarrow> http_header" where
  "header_put h k v = (case find_item h k of
     Some i \<Rightarrow> h[i := (h ! i)\<lparr>hi_value := Some (trim v)\<rparr>]
   | None \<Rightarrow> h @ [\<lparr>hi_key = trim k, hi_value = Some (trim v)\<rparr>])"

lemma header_put_simps [simp]:
  "header_put [] k v = [\<lparr>hi_key = trim k, hi_value = Some (trim v)\<rparr>]"
  "header_put (it # h) k v =
     (if strcaseeq (hi_key it) k then it\<lparr>hi_value := Some (trim v)\<rparr> # h else it # header_put h k v)"
  by (simp_all add: header_put_def split: option.splits)

text \<open>\<open>http_header_delete\<close> removes the first item with the key.\<close>

fun header_del :: "http_header \<Rightarrow> string \<Rightarrow> http_header" where
  "header_del [] k = []"
| "header_del (it # h) k = (if strcaseeq (hi_key it) k then h else it # header_del h k)"

lemma header_delete_eq:
  "http_header_delete (Some h) (Some k) = (if find_item h k = None then ESP_ERR_NOT_FOUND else ESP_OK, Some (header_del h k))"
proof -
  have "find_item h k = None \<Longrightarrow> header_del h k = h" by (induction h) (auto split: if_splits)
  moreover have "find_item h k = Some i \<Longrightarrow> take i h @ drop (Suc i) h = header_del h k" for i
    by (induction h arbitrary: i) (auto split: if_splits)
  ultimately show ?thesis by (cases "find_item h k") (simp_all add: http_header_delete_def http_header_get_item_def)
qed

lemma assign_string_ok:
  "allocates R \<Longrightarrow> \<exists>w'. http_utils_assign_string R str (Some s) 0 w = Some (Some s, Some s, w')"
  using allocatesD[of R "length s + 1" w] by (auto simp: http_utils_assign_string_def)

lemma header_set_ok:
  assumes ok: "allocates R"
  shows "\<exists>w'. http_header_set R (Some h) (Some k) (Some v) w = Some (ESP_OK, Some (header_put h k v), w')"
proof (cases "find_item h k")
  case None
  obtain a w1 where 1: "heap_alloc R 12 w = (Some a, w1)" using allocatesD[OF ok] by blast
  obtain w2 where 2: "http_utils_assign_string R None (Some k) 0 w1 = Some (Some k, Some k, w2)"
    using assign_string_ok[OF ok] by blast
  obtain w3 where 3: "http_utils_assign_string R None (Some v) 0 w2 = Some (Some v, Some v, w3)"
    using assign_string_ok[OF ok] by blast
  show ?thesis using None 1 2 3
    by (simp add: http_header_set_def http_header_get_item_def http_header_new_item_def header_put_def trim_whitespace_eq)
next
  case (Some i)
  obtain a w1 where "heap_alloc R (length v + 1) w = (Some a, w1)" using allocatesD[OF ok] by blast
  with Some show ?thesis
    by (simp add: http_header_set_def http_header_get_item_def header_put_def trim_whitespace_eq)
qed

definition low_key :: "http_header_item \<Rightarrow> string" where
  "low_key it = map tolower (hi_key it)"

lemma put_keys: "set (map low_key (header_put h k v)) \<subseteq> insert (map tolower (trim k)) (set (map low_key h))"
  by (induction h) (auto simp: low_key_def)

lemma header_inv_Cons:
  "header_inv (it # h) \<longleftrightarrow> trimmed (hi_key it) \<and> hi_value it \<noteq> None \<and> low_key it \<notin> set (map low_key h) \<and> header_inv h"
  by (auto simp: header_inv_def low_key_def comp_def)

lemma header_put_inv: "header_inv h \<Longrightarrow> trimmed k \<Longrightarrow> header_inv (header_put h k v)"
proof (induction h)
  case (Cons it h)
  show ?case
  proof (cases "strcaseeq (hi_key it) k")
    case True
    with Cons show ?thesis by (simp add: header_inv_Cons low_key_def)
  next
    case False
    then have "low_key it \<noteq> map tolower (trim k)" using Cons.prems(2) by (simp add: low_key_def strcaseeq_def)
    with Cons False put_keys[of h k v] show ?thesis by (auto simp: header_inv_Cons)
  qed
qed (simp add: header_inv_def trimmed_trim)

lemma header_put_lookup:
  "trimmed k \<Longrightarrow> header_lookup (header_put h k v) j = (if strcaseeq k j then Some (trim v) else header_lookup h j)"
proof (induction h)
  case (Cons it h)
  then show ?case by (simp add: strcaseeq_def)
qed simp

lemma del_keys: "set (map low_key (header_del h k)) \<subseteq> set (map low_key h)"
  by (induction h) auto

lemma header_del_inv: "header_inv h \<Longrightarrow> header_inv (header_del h k)"
  using del_keys by (induction h) (auto simp: header_inv_Cons)

lemma header_lookup_absent: "map tolower j \<notin> set (map low_key h) \<Longrightarrow> header_lookup h j = None"
  by (induction h) (auto simp: low_key_def strcaseeq_def)

lemma header_del_lookup:
  "header_inv h \<Longrightarrow> header_lookup (header_del h k) j = (if strcaseeq k j then None else header_lookup h j)"
proof (induction h)
  case (Cons it h)
  then show ?case using header_lookup_absent[of j h]
    by (auto simp: header_inv_Cons low_key_def strcaseeq_def)
qed simp

lemma header_set_put:
  "allocates R \<Longrightarrow> http_header_set R (Some h) (Some k) (Some v) w = Some (e, Some h', w') \<Longrightarrow> h' = header_put h k v"
  using header_set_ok[of R h k v w] by auto

text \<open>The dictionary the header code implements: the effects of successful \<open>http_header_set\<close> calls and of
  \<open>http_header_delete\<close>.\<close>

definition set_effect :: "'w platform \<Rightarrow> http_header \<Rightarrow> string \<Rightarrow> string \<Rightarrow> http_header \<Rightarrow> bool" where
  "set_effect R h k v h' \<longleftrightarrow> allocates R \<and> (\<exists>w e w'. http_header_set R (Some h) (Some k) (Some v) w = Some (e, Some h', w'))"

definition delete_effect :: "http_header \<Rightarrow> string \<Rightarrow> http_header \<Rightarrow> bool" where
  "delete_effect h k h' \<longleftrightarrow> (\<exists>err. http_header_delete (Some h) (Some k) = (err, Some h'))"

interpretation hd_dict: dictionary header_inv trimmed strcaseeq trim header_lookup "set_effect R" delete_effect
  for R :: "'w platform"
proof unfold_locales
  show "header_inv d \<Longrightarrow> trimmed k \<Longrightarrow> set_effect R d k v d' \<Longrightarrow> header_inv d'" for d k v d'
    by (auto simp: set_effect_def header_put_inv dest!: header_set_put)
  show "header_inv d \<Longrightarrow> trimmed k \<Longrightarrow> set_effect R d k v d' \<Longrightarrow>
      header_lookup d' j = (if strcaseeq k j then Some (trim v) else header_lookup d j)" for d k v d' j
    by (auto simp: set_effect_def header_put_lookup dest!: header_set_put)
  show "header_inv d \<Longrightarrow> delete_effect d k d' \<Longrightarrow> header_inv d'" for d k d'
    by (auto simp: delete_effect_def header_delete_eq header_del_inv)
  show "header_inv d \<Longrightarrow> delete_effect d k d' \<Longrightarrow>
      header_lookup d' j = (if strcaseeq k j then None else header_lookup d j)" for d k d' j
    by (auto simp: delete_effect_def header_delete_eq header_del_lookup)
qed

text \<open>A sequence of \<open>http_header_set\<close> calls, as \<open>esp_http_client\<close> makes them.\<close>

fun header_sets :: "'w platform \<Rightarrow> http_header option \<Rightarrow> (string \<times> string) list \<Rightarrow> 'w \<Rightarrow> (http_header option \<times> 'w) option" where
  "header_sets R h [] w = Some (h, w)"
| "header_sets R h ((k, v) # kvs) w = do {
     (_, h, w) \<leftarrow> http_header_set R h (Some k) (Some v) w; header_sets R h kvs w }"

lemma header_sets_puts:
  fixes R :: "'w platform"
  assumes ok: "allocates R"
  shows "\<exists>h' w'. header_sets R (Some h) kvs w = Some (Some h', w') \<and> hd_dict.puts TYPE('w) R h kvs h'"
proof (induction kvs arbitrary: h w)
  case Nil
  then show ?case by (auto intro: hd_dict.puts.intros)
next
  case (Cons kv kvs)
  obtain k v where kv: "kv = (k, v)" by (cases kv)
  obtain w1 where 1: "http_header_set R (Some h) (Some k) (Some v) w = Some (ESP_OK, Some (header_put h k v), w1)"
    using header_set_ok[OF ok] by blast
  then have "set_effect R h k v (header_put h k v)" using ok unfolding set_effect_def by blast
  then show ?case using Cons.IH[of "header_put h k v" w1] 1 kv by (auto intro: hd_dict.puts.intros)
qed

text \<open>C12. The header is a dictionary for keys without surrounding white space: when memory is available, then on a
  header with distinct keys of this kind, after any sequence of \<open>http_header_set\<close> calls with such keys,
  \<open>http_header_get\<close> returns the trimmed value of the last call whose key equals the wanted one up to the case of
  letters, and what it returned before when there is none. The keys stay distinct. Keys with white space around them break
  this (\<open>padded_key_shadowed\<close>).\<close>

theorem header_last_set_wins:
  fixes R :: "'w platform"
  assumes "allocates R" "header_inv h" "\<forall>(k, v) \<in> set kvs. trimmed k"
  shows "\<exists>h' w'. header_sets R (Some h) kvs w = Some (Some h', w') \<and> header_inv h' \<and>
     (\<forall>j. http_header_get (Some h') (Some j) = (ESP_OK,
        case find (\<lambda>(k, v). strcaseeq k j) (rev kvs) of
          None \<Rightarrow> snd (http_header_get (Some h) (Some j)) | Some (k, v) \<Rightarrow> Some (trim v)))"
proof -
  obtain h' w' where h': "header_sets R (Some h) kvs w = Some (Some h', w')" "hd_dict.puts TYPE('w) R h kvs h'"
    using header_sets_puts[OF assms(1)] by blast
  have 1: "http_header_get (Some g) (Some j) = (ESP_OK, header_lookup g j)" for g j
    by (simp add: header_lookup_def http_header_get_def)
  show ?thesis using h' hd_dict.puts_last_wins[OF h'(2) assms(2,3)]
    by (auto simp: 1 hd_dict.last_value_def split: option.splits prod.splits)
qed

theorem header_last_set_wins_witness:
  "\<exists>h' w'. header_sets (seq_platform (Some 1) :: unit platform) (Some [])
      [(''Host'', ''a.org''), (''Range'', ''0-9''), (''HOST'', '' b.org '')] () = Some (Some h', w') \<and>
     http_header_get (Some h') (Some ''host'') = (ESP_OK, Some ''b.org'')"
proof -
  let ?kvs = "[(''Host'', ''a.org''), (''Range'', ''0-9''), (''HOST'', '' b.org '')]"
  have 1: "allocates (seq_platform (Some 1) :: unit platform)" by (simp add: allocates_def)
  have 2: "header_inv []" by (simp add: header_inv_def)
  have 3: "\<forall>(k, v) \<in> set ?kvs. trimmed k" by code_simp
  have 4: "strcaseeq ''HOST'' ''host''" "trim '' b.org '' = ''b.org''" by code_simp+
  from header_last_set_wins[OF 1 2 3, of "()"] 4 show ?thesis by fastforce
qed

section \<open>Deleting, padded keys, header lines\<close>

lemma find_item_lookup: "header_inv h \<Longrightarrow> find_item h k = None \<longleftrightarrow> header_lookup h k = None"
  by (induction h) (auto simp: header_inv_Cons)

lemma header_get_eq: "http_header_get (Some h) (Some k) = (ESP_OK, header_lookup h k)"
  by (simp add: header_lookup_def http_header_get_def)

text \<open>\<open>http_header_delete\<close> returns \<open>ESP_ERR_NOT_FOUND\<close> exactly when the key has no value; afterwards the key has
  none, every other key keeps its value, and the keys are still distinct.\<close>

theorem header_delete_removes:
  assumes "header_inv h"
  shows "\<exists>h'. http_header_delete (Some h) (Some k) =
       (if snd (http_header_get (Some h) (Some k)) = None then ESP_ERR_NOT_FOUND else ESP_OK, Some h') \<and> header_inv h' \<and>
     (\<forall>j. snd (http_header_get (Some h') (Some j)) = (if strcaseeq k j then None else snd (http_header_get (Some h) (Some j))))"
proof -
  have "delete_effect h k (header_del h k)" by (simp add: delete_effect_def header_delete_eq)
  from hd_dict.remove_lookup[OF assms this] hd_dict.remove_inv[OF assms this] show ?thesis
    by (simp add: header_get_eq header_delete_eq find_item_lookup[OF assms])
qed

definition ex_header :: http_header where
  "ex_header = [\<lparr>hi_key = ''Host'', hi_value = Some ''a.org''\<rparr>, \<lparr>hi_key = ''Range'', hi_value = Some ''0-9''\<rparr>]"

lemma ex_header_inv: "header_inv ex_header"
  by code_simp

theorem header_delete_removes_witness:
  "\<exists>h'. http_header_delete (Some ex_header) (Some ''HOST'') = (ESP_OK, Some h') \<and>
     snd (http_header_get (Some h') (Some ''host'')) = None"
proof -
  have 1: "snd (http_header_get (Some ex_header) (Some ''HOST'')) = Some ''a.org''" "strcaseeq ''HOST'' ''host''" by code_simp+
  from header_delete_removes[OF ex_header_inv, of "''HOST''"] show ?thesis unfolding 1(1) using 1(2) by auto
qed

lemma untrimmed_not_found:
  assumes "header_inv h" "\<not> trimmed k"
  shows "find_item h k = None"
proof -
  have "\<not> strcaseeq (hi_key it) k" if "it \<in> set h" for it
    using that assms trimmed_cong[of "hi_key it" k] by (auto simp: header_inv_def)
  then show ?thesis by (simp add: find_item_None)
qed

text \<open>A key with surrounding white space is looked up as given but stored trimmed: setting it adds a further
  item even when its trimmed form already has a value, \<open>http_header_set\<close> returns \<open>ESP_OK\<close>, and
  \<open>http_header_get\<close> still returns the old value.\<close>

theorem padded_key_shadowed:
  assumes "allocates R" "header_inv h" "\<not> trimmed k" "http_header_get (Some h) (Some (trim k)) = (ESP_OK, Some u)"
  shows "\<exists>h' w'. http_header_set R (Some h) (Some k) (Some v) w = Some (ESP_OK, Some h', w') \<and>
     http_header_count (Some h') = Some (int (length h) + 1) \<and>
     http_header_get (Some h') (Some (trim k)) = (ESP_OK, Some u)"
proof -
  have h': "header_put h k v = h @ [\<lparr>hi_key = trim k, hi_value = Some (trim v)\<rparr>]"
    using untrimmed_not_found[OF assms(2,3)] by (simp add: header_put_def)
  have "header_lookup g j = Some u \<Longrightarrow> header_lookup (g @ g') j = Some u" for g g' :: http_header and j
    by (induction g) (auto split: if_splits)
  with assms(4) have "header_lookup (header_put h k v) (trim k) = Some u" by (simp add: h' header_get_eq)
  then show ?thesis using header_set_ok[OF assms(1), of h k v w]
    by (auto simp: header_get_eq http_header_count_def h')
qed

theorem padded_key_shadowed_witness:
  "\<exists>h' w'. http_header_set (seq_platform (Some 1)) (Some ex_header) (Some ''Host '') (Some ''b.org'') () = Some (ESP_OK, Some h', w') \<and>
     http_header_get (Some h') (Some ''Host'') = (ESP_OK, Some ''a.org'')"
proof -
  have 1: "allocates (seq_platform (Some 1) :: unit platform)" by (simp add: allocates_def)
  have 2: "\<not> trimmed ''Host ''" "trim ''Host '' = ''Host''"
    "http_header_get (Some ex_header) (Some ''Host'') = (ESP_OK, Some ''a.org'')" by code_simp+
  from padded_key_shadowed[OF 1 ex_header_inv 2(1), unfolded 2(2), OF 2(3), of "''b.org''" "()"] show ?thesis by blast
qed




section \<open>Printing\<close>

text \<open>The text of the items from \<open>index\<close> up to \<open>ret\<close>, when the list starts at \<open>idx\<close>.\<close>

fun header_text :: "http_header \<Rightarrow> int \<Rightarrow> int \<Rightarrow> int \<Rightarrow> string" where
  "header_text [] index ret idx = []"
| "header_text (it # its) index ret idx =
     (case hi_value it of
        Some v \<Rightarrow> (if idx \<ge> index \<and> idx < ret then header_line (hi_key it) v else [])
      | None \<Rightarrow> []) @ header_text its index ret (idx + 1)"

abbreviation text_len :: "http_header \<Rightarrow> int \<Rightarrow> int \<Rightarrow> int \<Rightarrow> int" where
  "text_len h index ret idx \<equiv> int (length (header_text h index ret idx))"

lemma length_header_line: "length (header_line k v) = length k + length v + 4"
  by (simp add: header_line_def)

text \<open>The first loop computes the length of the whole text, and leaves the index alone while it fits.\<close>

lemma gen_size_step:
  assumes "idx + int (length (it # h)) \<le> n"
  obtains a where "gen_size (it # h) index bl siz idx ret =
      gen_size h index bl (siz + a) (idx + 1) (if siz + a + 1 > bl - 2 then idx else ret)"
    "text_len (it # h) index n idx = a + text_len h index n (idx + 1)"
proof (cases "hi_value it = None \<or> idx < index")
  case True
  then show ?thesis by (intro that[of 0]) (auto simp: Let_def split: option.splits)
next
  case False
  then show ?thesis using assms
    by (intro that[of "int (length (hi_key it)) + int (length (the (hi_value it))) + 4"])
      (auto simp: Let_def length_header_line algebra_simps)
qed

lemma gen_size_total:
  "idx + int (length h) \<le> n \<Longrightarrow>
   \<exists>r. gen_size h index bl siz idx ret = (siz + text_len h index n idx, idx + int (length h), r) \<and>
     (siz + text_len h index n idx + 3 \<le> bl \<longrightarrow> r = ret)"
proof (induction h arbitrary: siz idx ret)
  case (Cons it h)
  obtain a where a: "gen_size (it # h) index bl siz idx ret =
      gen_size h index bl (siz + a) (idx + 1) (if siz + a + 1 > bl - 2 then idx else ret)"
    "text_len (it # h) index n idx = a + text_len h index n (idx + 1)"
    using Cons.prems by (rule gen_size_step)
  have n: "idx + 1 + int (length h) \<le> n" using Cons.prems by simp
  from Cons.IH[OF n, of "siz + a" "if siz + a + 1 > bl - 2 then idx else ret"] show ?case
    unfolding a by (auto simp: algebra_simps)
qed simp

lemma snprintf_fits:
  assumes "0 \<le> off" "off + int (length s) < bl" "bl \<le> int (length b)" "bl < 2 ^ 31"
  shows "\<exists>b'. snprintf b off (bl - off) s = Some (int (length s), b') \<and> length b' = length b \<and>
     take (nat off + length s) b' = take (nat off) b @ s \<and> b' ! (nat off + length s) = NUL"
proof -
  have n: "uint (word_of_int (bl - off) :: u32) = bl - off" unfolding uint_word_of_int using assms by simp
  have "nat off + (length s + 1) \<le> length b" "length s \<le> nat (bl - off - 1)" using assms by linarith+
  then show ?thesis using assms(1,2) unfolding snprintf_def n Let_def
    by (simp add: nth_append)
qed

lemma gen_print_fits:
  "0 \<le> sl \<Longrightarrow> sl + text_len h index ret idx < bl \<Longrightarrow> bl \<le> int (length b) \<Longrightarrow> bl < 2 ^ 31 \<Longrightarrow>
   \<exists>b'. gen_print h index ret bl idx sl b = Some (sl + text_len h index ret idx, b') \<and> length b' = length b \<and>
     take (nat (sl + text_len h index ret idx)) b' = take (nat sl) b @ header_text h index ret idx"
proof (induction h arbitrary: idx sl b)
  case (Cons it h)
  show ?case
  proof (cases "hi_value it = None \<or> \<not> (idx \<ge> index \<and> idx < ret)")
    case True
    then show ?thesis using Cons by (auto split: option.splits)
  next
    case False
    then obtain v where v: "hi_value it = Some v" "idx \<ge> index" "idx < ret" by auto
    let ?l = "header_line (hi_key it) v"
    have "sl + int (length ?l) < bl" using Cons.prems v by simp
    from snprintf_fits[OF Cons.prems(1) this Cons.prems(3,4)] obtain b1 where
      b1: "snprintf b sl (bl - sl) ?l = Some (int (length ?l), b1)" "length b1 = length b"
        "take (nat sl + length ?l) b1 = take (nat sl) b @ ?l" by blast
    have "\<exists>b'. gen_print h index ret bl (idx + 1) (sl + int (length ?l)) b1 =
        Some (sl + int (length ?l) + text_len h index ret (idx + 1), b') \<and> length b' = length b1 \<and>
        take (nat (sl + int (length ?l) + text_len h index ret (idx + 1))) b' =
          take (nat (sl + int (length ?l))) b1 @ header_text h index ret (idx + 1)"
      by (rule Cons.IH) (use Cons.prems v b1(2) in simp_all)
    then show ?thesis using b1 v Cons.prems(1) by (auto simp: nat_add_distrib add.assoc)
  qed
qed simp

text \<open>When the whole header fits, \<open>http_header_generate_string\<close> prints every item from \<open>index\<close> on as a line,
  then the empty line that ends the header and a terminator, sets \<open>*buffer_len\<close> to the length and returns the
  number of items.\<close>

theorem generate_complete:
  assumes fits: "text_len h index (int (length h)) 0 + 3 \<le> bl" and ne: "header_text h index (int (length h)) 0 \<noteq> []"
    and bl: "bl \<le> int (length b)" "bl < 2 ^ 31"
  shows "\<exists>b'. http_header_generate_string (Some h) index b bl =
       Some (int (length h), b', text_len h index (int (length h)) 0 + 2) \<and>
     take (length (header_text h index (int (length h)) 0) + 2) b' =
       header_text h index (int (length h)) 0 @ [CHR 0x0D, CHR 0x0A] \<and>
     b' ! (length (header_text h index (int (length h)) 0) + 2) = NUL \<and> length b' = length b"
proof -
  let ?n = "int (length h)" and ?t = "header_text h index (int (length h)) 0"
  obtain r where g: "gen_size h index bl 0 0 (-1) = (int (length ?t), ?n, r)" "r = -1"
    using gen_size_total[of 0 h ?n index bl 0 "-1"] fits by auto
  obtain b1 where p: "gen_print h index ?n bl 0 0 b = Some (int (length ?t), b1)" "length b1 = length b"
    "take (length ?t) b1 = ?t"
    using gen_print_fits[of 0 h index ?n 0 bl b] fits bl by auto
  obtain b2 where s: "snprintf b1 (int (length ?t)) (bl - int (length ?t)) [CHR 0x0D, CHR 0x0A] = Some (2, b2)"
    "take (length ?t + 2) b2 = ?t @ [CHR 0x0D, CHR 0x0A]" "b2 ! (length ?t + 2) = NUL" "length b2 = length b"
    using snprintf_fits[of "int (length ?t)" "[CHR 0x0D, CHR 0x0A]" bl b1] fits bl p(2,3) by auto
  show ?thesis using g p(1) s ne by (simp add: http_header_generate_string_def Let_def)
qed

theorem generate_complete_witness:
  "\<exists>b' n. http_header_generate_string (Some ex_header) 0 (replicate 64 NUL) 64 = Some (2, b', n) \<and>
     n = 27 \<and> b' ! 27 = NUL"
proof -
  have 0: "length ex_header = 2" by code_simp
  have 1: "length (header_text ex_header 0 2 0) = 25" by code_simp
  then have "header_text ex_header 0 2 0 \<noteq> []" by auto
  with generate_complete[of ex_header 0 64 "replicate 64 NUL"] show ?thesis
    unfolding 0 by (auto simp: 1)
qed

text \<open>The first loop keeps overwriting the index once the text no longer fits, so it ends at the last item.\<close>

lemma gen_size_too_big:
  assumes "bl < siz + text_len h index n idx + 3" "idx + int (length h) \<le> n" "h \<noteq> []"
  shows "snd (snd (gen_size h index bl siz idx ret)) = idx + int (length h) - 1"
  using assms
proof (induction h arbitrary: siz idx ret)
  case (Cons it h)
  obtain a where a: "gen_size (it # h) index bl siz idx ret =
      gen_size h index bl (siz + a) (idx + 1) (if siz + a + 1 > bl - 2 then idx else ret)"
    "text_len (it # h) index n idx = a + text_len h index n (idx + 1)"
    using Cons.prems(2) by (rule gen_size_step)
  show ?case
  proof (cases "h = []")
    case True
    with Cons.prems a show ?thesis by simp
  next
    case False
    have "snd (snd (gen_size h index bl (siz + a) (idx + 1) r)) = idx + 1 + int (length h) - 1" for r
      by (rule Cons.IH) (use Cons.prems a(2) False in simp_all)
    then show ?thesis unfolding a(1) by simp
  qed
qed simp

lemma gen_print_append:
  "gen_print (h @ g) index ret bl idx sl b =
     gen_print h index ret bl idx sl b \<bind> (\<lambda>(sl, b). gen_print g index ret bl (idx + int (length h)) sl b)"
proof (induction h arbitrary: idx sl b)
  case (Cons it h)
  then show ?case by (cases "hi_value it") (auto split: bind_splits simp: algebra_simps)
qed simp

lemma snprintf_SomeD: "snprintf b off sz s = Some (n, b') \<Longrightarrow> n = int (length s) \<and> length b' = length b"
  by (auto simp: snprintf_def Let_def mem_write_def bind_eq_Some_conv split: if_splits)

lemma gen_print_SomeD:
  "gen_print h index ret bl idx sl b = Some (sl', b') \<Longrightarrow>
   sl' = sl + text_len h index ret idx \<and> length b' = length b"
proof (induction h arbitrary: idx sl b)
  case (Cons it h)
  then show ?case
    by (cases "hi_value it") (fastforce simp: bind_eq_Some_conv split: if_splits dest: snprintf_SomeD)+
qed simp

lemma snprintf_beyond:
  assumes "int (length b) < off" "off < 2 ^ 31" "0 \<le> bl" "bl \<le> int (length b)"
  shows "snprintf b off (bl - off) s = None"
proof -
  have "(bl - off) mod 2 ^ 32 = (bl - off + 2 ^ 32) mod 2 ^ 32" by (rule mod_add_self2[symmetric])
  also have "\<dots> = bl - off + 2 ^ 32" by (rule mod_pos_pos_trivial) (use assms in simp_all)
  finally have "uint (word_of_int (bl - off) :: u32) \<noteq> 0" unfolding uint_word_of_int using assms by simp
  moreover have "length b < nat off" using assms by linarith
  ultimately show ?thesis unfolding snprintf_def Let_def by (simp add: mem_write_def)
qed

text \<open>When the header does not fit, the first loop does not stop at the item that overflows: as soon as the
  lines of all items but the last two exceed the buffer, \<open>http_header_generate_string\<close> writes outside the
  buffer, because the space left, a negative difference, becomes a huge unsigned size.\<close>

theorem generate_overflows:
  assumes h: "h = g @ [x, y]" "\<forall>it \<in> set h. hi_value it \<noteq> None" and big: "int (length b) < text_len g 0 (int (length h)) 0"
    and len: "text_len h 0 (int (length h)) 0 < 2 ^ 31"
  shows "http_header_generate_string (Some h) 0 b (int (length b)) = None"
proof -
  let ?bl = "int (length b)" and ?n = "int (length h)"
  have app: "text_len (u @ v) i n j = text_len u i n j + text_len v i n (j + int (length u))" for u v i n j
    by (induction u arbitrary: j) (simp_all add: algebra_simps)
  have ret: "text_len u i (?n - 1) j = text_len u i ?n j" if "j + int (length u) < ?n" for u i j
    using that by (induction u arbitrary: j) (auto split: option.splits)
  have tot: "?bl < text_len h 0 ?n 0" using big unfolding h(1) app[of g] by simp
  then obtain r where gs: "gen_size h 0 ?bl 0 0 (-1) = (text_len h 0 ?n 0, ?n, r)"
    using gen_size_total[of 0 h ?n 0 ?bl 0 "-1"] by auto
  have r: "r = ?n - 1" using gen_size_too_big[of ?bl 0 h 0 ?n 0 "-1"] gs tot h(1) by simp
  have "gen_print h 0 (?n - 1) ?bl 0 0 b = None"
  proof (cases "gen_print g 0 (?n - 1) ?bl 0 0 b")
    case None
    then show ?thesis unfolding h(1) gen_print_append by simp
  next
    case (Some p)
    obtain sl b1 where p: "p = (sl, b1)" by (cases p)
    have sl: "sl = text_len g 0 ?n 0" "length b1 = length b"
      using gen_print_SomeD[OF Some[unfolded p]] ret[of 0 g 0] h(1) by simp_all
    then have "sl < 2 ^ 31" using len unfolding h(1) app[of g] by simp
    moreover have "?bl < sl" using big sl(1) by simp
    ultimately have "snprintf b1 sl (?bl - sl) s = None" for s by (intro snprintf_beyond) (simp_all add: sl(2))
    moreover obtain v where "hi_value x = Some v" using h by auto
    ultimately show ?thesis using Some p h(1) by (simp add: gen_print_append)
  qed
  moreover have "header_text h 0 ?n 0 \<noteq> []" using tot by auto
  ultimately show ?thesis using gs r h(1) by (simp add: http_header_generate_string_def Let_def)
qed

theorem generate_overflows_witness:
  "http_header_generate_string (Some (ex_header @ ex_header)) 0 (replicate 20 NUL) 20 = None"
proof -
  have 1: "ex_header @ ex_header = ex_header @ [ex_header ! 0, ex_header ! 1]"
    "\<forall>it \<in> set (ex_header @ ex_header). hi_value it \<noteq> None" by code_simp+
  have 2: "length (ex_header @ ex_header) = 4" "length (header_text ex_header 0 4 0) = 25"
    "length (header_text (ex_header @ ex_header) 0 4 0) = 50" by code_simp+
  from generate_overflows[OF 1, of "replicate 20 NUL", unfolded 2(1)] 2(2,3) show ?thesis by simp
qed

end
