(* ===== verification/Esp_Periph.thy ===== *)
theory Esp_Periph
  imports Audio_Element
begin

text \<open>
  The peripheral manager (\<open>components/esp_peripherals/esp_peripherals.c\<close>): a set of peripherals with one
  monitoring task, which initialises them and hands each command to the peripheral it is for. A set and a
  peripheral are objects of their stores; the event structure a peripheral points to is a member of its set, so
  the pointer is the handle of the set. The loops over the list read it again at every step, because the
  callbacks they make may register more peripherals.
\<close>

section \<open>State\<close>

datatype esp_periph_state =
    PERIPH_STATE_NULL | PERIPH_STATE_INIT | PERIPH_STATE_RUNNING | PERIPH_STATE_PAUSE
  | PERIPH_STATE_STOPPING | PERIPH_STATE_ERROR | PERIPH_STATE_STATUS_MAX

type_synonym periph_handle = addr
type_synonym periph_set_handle = addr
type_synonym timer_handle = addr

record esp_periph =
  pe_tag :: "addr option"
  pe_disabled :: bool
  pe_periph_id :: int
  pe_init :: "fnptr option"
  pe_run :: "fnptr option"
  pe_destroy :: "fnptr option"
  pe_state :: esp_periph_state
  pe_source :: addr
  pe_periph_data :: addr
  pe_on_evt :: "periph_set_handle option"
  pe_timer :: "timer_handle option"

record esp_periph_event =
  pv_user_ctx :: addr
  pv_cb :: "fnptr option"
  pv_iface :: "iface_handle option"

record esp_periph_set =
  ps_state_event_bits :: egroup
  ps_lock :: sem
  ps_task_stack :: int
  ps_task_prio :: int
  ps_task_core :: int
  ps_run :: bool
  ps_event_handle :: esp_periph_event
  ps_periph_list :: "periph_handle list"

record esp_periph_config =
  pc_task_stack :: int
  pc_task_prio :: int
  pc_task_core :: int

record pe_world = el_world +
  prs :: "periph_handle \<Rightarrow> esp_periph option"
  pss :: "periph_set_handle \<Rightarrow> esp_periph_set option"

type_synonym 'z pew = "'z pe_world_scheme"

text \<open>The services and callbacks only the peripherals use.\<close>

record 'w periph_ops =
  gpio_install_isr_service :: "'w \<Rightarrow> 'w"
  gpio_uninstall_isr_service :: "'w \<Rightarrow> 'w"
  xTimerCreate :: "tick \<Rightarrow> periph_handle \<Rightarrow> fnptr \<Rightarrow> 'w \<Rightarrow> timer_handle option \<times> 'w"
  xTimerStart :: "timer_handle \<Rightarrow> 'w \<Rightarrow> bool \<times> 'w"
  xTimerStop :: "timer_handle \<Rightarrow> 'w \<Rightarrow> 'w"
  xTimerDelete :: "timer_handle \<Rightarrow> 'w \<Rightarrow> 'w"
  create_periph_task :: "periph_set_handle \<Rightarrow> int \<Rightarrow> int \<Rightarrow> int \<Rightarrow> 'w \<Rightarrow> bool \<times> 'w"
  call_periph :: "fnptr \<Rightarrow> periph_handle \<Rightarrow> 'w \<Rightarrow> esp_err \<times> 'w"
  call_periph_run :: "fnptr \<Rightarrow> periph_handle \<Rightarrow> audio_event_iface_msg option \<Rightarrow> 'w \<Rightarrow> esp_err \<times> 'w"
  call_periph_cb :: "fnptr \<Rightarrow> audio_event_iface_msg \<Rightarrow> addr \<Rightarrow> 'w \<Rightarrow> esp_err \<times> 'w"
  gettimeofday :: "'w \<Rightarrow> (int \<times> int) \<times> 'w"

definition pe_upd :: "periph_handle \<Rightarrow> (esp_periph \<Rightarrow> esp_periph) \<Rightarrow> 'z pew \<Rightarrow> 'z pew option" where
  "pe_upd h f w = (case prs w h of None \<Rightarrow> None | Some p \<Rightarrow> Some (w\<lparr>prs := (prs w)(h \<mapsto> f p)\<rparr>))"

definition ps_upd :: "periph_set_handle \<Rightarrow> (esp_periph_set \<Rightarrow> esp_periph_set) \<Rightarrow> 'z pew \<Rightarrow> 'z pew option" where
  "ps_upd h f w = (case pss w h of None \<Rightarrow> None | Some s \<Rightarrow> Some (w\<lparr>pss := (pss w)(h \<mapsto> f s)\<rparr>))"

lemma pe_upd_Some [simp]: "prs w h = Some p \<Longrightarrow> pe_upd h f w = Some (w\<lparr>prs := (prs w)(h \<mapsto> f p)\<rparr>)"
  by (simp add: pe_upd_def)

lemma ps_upd_Some [simp]: "pss w h = Some s \<Longrightarrow> ps_upd h f w = Some (w\<lparr>pss := (pss w)(h \<mapsto> f s)\<rparr>)"
  by (simp add: ps_upd_def)

interpretation pe_store: object_store prs pe_upd
  by unfold_locales (auto simp: pe_upd_def split: option.splits)

interpretation ps_store: object_store pss ps_upd
  by unfold_locales (auto simp: ps_upd_def split: option.splits)

abbreviation PERIPH_STARTED_BIT :: u32 where "PERIPH_STARTED_BIT \<equiv> 1"
abbreviation PERIPH_STOPPED_BIT :: u32 where "PERIPH_STOPPED_BIT \<equiv> 2"

text \<open>\<open>STAILQ_FOREACH(periph, &set->periph_list, entries)\<close> from position \<open>i\<close>. A body that returns from the
  function ends the loop with \<open>Inl\<close>.\<close>

partial_function (option) for_periphs ::
  "(periph_handle \<Rightarrow> 'z pew \<Rightarrow> ('a \<times> 'z pew + 'z pew) option) \<Rightarrow> periph_set_handle \<Rightarrow> nat \<Rightarrow> 'z pew
     \<Rightarrow> ('a \<times> 'z pew + 'z pew) option" where
  "for_periphs body sh i w = do {
     s \<leftarrow> pss w sh;
     if i < length (ps_periph_list s) then do {
       r \<leftarrow> body (ps_periph_list s ! i) w;
       case r of Inl x \<Rightarrow> Some (Inl x) | Inr w \<Rightarrow> for_periphs body sh (Suc i) w
     } else Some (Inr w)
   }"

definition each_periph ::
  "(periph_handle \<Rightarrow> 'z pew \<Rightarrow> 'z pew option) \<Rightarrow> periph_set_handle \<Rightarrow> 'z pew \<Rightarrow> 'z pew option" where
  "each_periph f sh w = do {
     r \<leftarrow> for_periphs (\<lambda>h w. map_option Inr (f h w) :: (unit \<times> 'z pew + 'z pew) option) sh 0 w;
     Some (case r of Inl (_, w) \<Rightarrow> w | Inr w \<Rightarrow> w)
   }"

section \<open>Single peripherals\<close>

definition esp_periph_create ::
  "'z pew platform \<Rightarrow> int \<Rightarrow> string option \<Rightarrow> 'z pew \<Rightarrow> periph_handle option \<times> 'z pew" where
  "esp_periph_create R periph_id tag w =
     (case heap_alloc R 48 w of
        (None, w) \<Rightarrow> (None, w)
      | (Some h, w) \<Rightarrow> (case str_dup R (case tag of Some t \<Rightarrow> t | None \<Rightarrow> ''periph'') w of
          (None, w) \<Rightarrow> (None, w)
        | (Some a, w) \<Rightarrow> (Some h, w\<lparr>prs := (prs w)(h \<mapsto>
            \<lparr>pe_tag = Some a, pe_disabled = False, pe_periph_id = periph_id, pe_init = None, pe_run = None,
             pe_destroy = None, pe_state = PERIPH_STATE_INIT, pe_source = 0, pe_periph_data = 0,
             pe_on_evt = None, pe_timer = None\<rparr>)\<rparr>)))"

definition esp_periph_set_function ::
  "periph_handle \<Rightarrow> fnptr option \<Rightarrow> fnptr option \<Rightarrow> fnptr option \<Rightarrow> 'z pew \<Rightarrow> (esp_err \<times> 'z pew) option" where
  "esp_periph_set_function periph init run destroy w = do {
     w \<leftarrow> pe_upd periph (\<lambda>p. p\<lparr>pe_init := init, pe_run := run, pe_destroy := destroy\<rparr>) w;
     Some (ESP_OK, w)
   }"

definition esp_periph_register_on_events ::
  "periph_handle \<Rightarrow> periph_set_handle option \<Rightarrow> 'z pew \<Rightarrow> (esp_err \<times> 'z pew) option" where
  "esp_periph_register_on_events periph evts w = do {
     w \<leftarrow> pe_upd periph (\<lambda>p. p\<lparr>pe_on_evt := evts\<rparr>) w; Some (ESP_OK, w) }"

definition esp_periph_stop :: "periph_handle option \<Rightarrow> 'z pew \<Rightarrow> (esp_err \<times> 'z pew) option" where
  "esp_periph_stop periph w =
     (case periph of None \<Rightarrow> Some (ESP_OK, w)
      | Some h \<Rightarrow> do { w \<leftarrow> pe_upd h (\<lambda>p. p\<lparr>pe_disabled := True\<rparr>) w; Some (ESP_OK, w) })"

text \<open>The command messages leave \<open>need_free_data\<close> uninitialised: \<open>junk\<close> is the value it happens to have.\<close>

definition periph_msg :: "periph_handle \<Rightarrow> esp_periph \<Rightarrow> int \<Rightarrow> int \<Rightarrow> int \<Rightarrow> bool \<Rightarrow> audio_event_iface_msg" where
  "periph_msg h p cmd data len junk =
     \<lparr>msg_cmd = cmd, msg_data = data, msg_data_len = len, msg_source = Some h,
      msg_source_type = pe_periph_id p, msg_need_free_data = junk\<rparr>"

definition esp_periph_send_cmd ::
  "'z pew platform \<Rightarrow> bool \<Rightarrow> periph_handle \<Rightarrow> int \<Rightarrow> int \<Rightarrow> int \<Rightarrow> 'z pew \<Rightarrow> (esp_err \<times> 'z pew) option" where
  "esp_periph_send_cmd R junk periph cmd data data_len w = do {
     p \<leftarrow> prs w periph;
     case pe_on_evt p of None \<Rightarrow> Some (ESP_FAIL, w)
     | Some sh \<Rightarrow> do {
         s \<leftarrow> pss w sh;
         i \<leftarrow> pv_iface (ps_event_handle s);
         audio_event_iface_cmd R i (periph_msg periph p cmd data data_len junk) w
       }
   }"

definition esp_periph_send_cmd_from_isr ::
  "'z pew platform \<Rightarrow> bool \<Rightarrow> periph_handle \<Rightarrow> int \<Rightarrow> int \<Rightarrow> int \<Rightarrow> 'z pew \<Rightarrow> (esp_err \<times> 'z pew) option" where
  "esp_periph_send_cmd_from_isr R junk periph cmd data data_len w = do {
     p \<leftarrow> prs w periph;
     case pe_on_evt p of None \<Rightarrow> Some (ESP_FAIL, w)
     | Some sh \<Rightarrow> do {
         s \<leftarrow> pss w sh;
         i \<leftarrow> pv_iface (ps_event_handle s);
         audio_event_iface_cmd_from_isr R i (periph_msg periph p cmd data data_len junk) w
       }
   }"

definition esp_periph_send_event ::
  "'z pew platform \<Rightarrow> 'z pew periph_ops \<Rightarrow> periph_handle \<Rightarrow> int \<Rightarrow> int \<Rightarrow> int \<Rightarrow> 'z pew \<Rightarrow> (esp_err \<times> 'z pew) option" where
  "esp_periph_send_event R P periph event_id data data_len w = do {
     p \<leftarrow> prs w periph;
     case pe_on_evt p of None \<Rightarrow> Some (ESP_FAIL, w)
     | Some sh \<Rightarrow> do {
         let msg = periph_msg periph p event_id data data_len False;
         s \<leftarrow> pss w sh;
         let w = (case pv_cb (ps_event_handle s) of None \<Rightarrow> w
                  | Some cb \<Rightarrow> snd (call_periph_cb P cb msg (pv_user_ctx (ps_event_handle s)) w));
         s \<leftarrow> pss w sh;
         i \<leftarrow> pv_iface (ps_event_handle s);
         audio_event_iface_sendout R i msg w
       }
   }"

definition esp_periph_start_timer ::
  "'z pew periph_ops \<Rightarrow> periph_handle \<Rightarrow> tick \<Rightarrow> fnptr \<Rightarrow> 'z pew \<Rightarrow> (esp_err \<times> 'z pew) option" where
  "esp_periph_start_timer P periph interval_tick callback w = do {
     p \<leftarrow> prs w periph;
     if pe_timer p \<noteq> None then Some (ESP_OK, w) else do {
       let (t, w) = xTimerCreate P interval_tick periph callback w;
       w \<leftarrow> pe_upd periph (\<lambda>p. p\<lparr>pe_timer := t\<rparr>) w;
       t \<leftarrow> t;
       let (ok, w) = xTimerStart P t w;
       Some (if ok then ESP_OK else ESP_FAIL, w)
     }
   }"

definition esp_periph_stop_timer :: "'z pew periph_ops \<Rightarrow> periph_handle \<Rightarrow> 'z pew \<Rightarrow> (esp_err \<times> 'z pew) option" where
  "esp_periph_stop_timer P periph w = do {
     p \<leftarrow> prs w periph;
     case pe_timer p of None \<Rightarrow> Some (ESP_OK, w)
     | Some t \<Rightarrow> do {
         let w = xTimerDelete P t (xTimerStop P t w);
         w \<leftarrow> pe_upd periph (\<lambda>p. p\<lparr>pe_timer := None\<rparr>) w;
         Some (ESP_OK, w)
       }
   }"

definition esp_periph_set_data :: "periph_handle \<Rightarrow> addr \<Rightarrow> 'z pew \<Rightarrow> (esp_err \<times> 'z pew) option" where
  "esp_periph_set_data periph data w = do { w \<leftarrow> pe_upd periph (\<lambda>p. p\<lparr>pe_periph_data := data\<rparr>) w; Some (ESP_OK, w) }"

definition esp_periph_get_data :: "periph_handle \<Rightarrow> 'z pew \<Rightarrow> addr option" where
  "esp_periph_get_data periph w = do { p \<leftarrow> prs w periph; Some (pe_periph_data p) }"

definition esp_periph_get_state :: "periph_handle \<Rightarrow> 'z pew \<Rightarrow> esp_periph_state option" where
  "esp_periph_get_state periph w = do { p \<leftarrow> prs w periph; Some (pe_state p) }"

definition esp_periph_get_id :: "periph_handle \<Rightarrow> 'z pew \<Rightarrow> int option" where
  "esp_periph_get_id periph w = do { p \<leftarrow> prs w periph; Some (pe_periph_id p) }"

definition esp_periph_set_id :: "periph_handle \<Rightarrow> int \<Rightarrow> 'z pew \<Rightarrow> (esp_err \<times> 'z pew) option" where
  "esp_periph_set_id periph periph_id w = do {
     w \<leftarrow> pe_upd periph (\<lambda>p. p\<lparr>pe_periph_id := periph_id\<rparr>) w; Some (ESP_OK, w) }"

definition esp_periph_tick_get :: "'w periph_ops \<Rightarrow> 'w \<Rightarrow> int \<times> 'w" where
  "esp_periph_tick_get P w = (let ((sec, usec), w) = gettimeofday P w in (sec * 1000 + usec div 1000, w))"

text \<open>The callbacks of one peripheral; calling through \<open>NULL\<close> is undefined.\<close>

definition esp_periph_init :: "'z pew periph_ops \<Rightarrow> periph_handle \<Rightarrow> 'z pew \<Rightarrow> (esp_err \<times> 'z pew) option" where
  "esp_periph_init P periph w = do { p \<leftarrow> prs w periph; f \<leftarrow> pe_init p; Some (call_periph P f periph w) }"

definition esp_periph_run :: "'z pew periph_ops \<Rightarrow> periph_handle \<Rightarrow> 'z pew \<Rightarrow> (esp_err \<times> 'z pew) option" where
  "esp_periph_run P periph w = do { p \<leftarrow> prs w periph; f \<leftarrow> pe_run p; Some (call_periph_run P f periph None w) }"

definition esp_periph_destroy :: "'z pew periph_ops \<Rightarrow> periph_handle \<Rightarrow> 'z pew \<Rightarrow> (esp_err \<times> 'z pew) option" where
  "esp_periph_destroy P periph w = do { p \<leftarrow> prs w periph; f \<leftarrow> pe_destroy p; Some (call_periph P f periph w) }"

section \<open>Sets\<close>

definition esp_periph_set_get_event_iface :: "periph_set_handle \<Rightarrow> 'z pew \<Rightarrow> iface_handle option option" where
  "esp_periph_set_get_event_iface sh w = do { s \<leftarrow> pss w sh; Some (pv_iface (ps_event_handle s)) }"

definition esp_periph_set_get_queue :: "periph_set_handle \<Rightarrow> 'z pew \<Rightarrow> qhandle option option" where
  "esp_periph_set_get_queue sh w = do {
     s \<leftarrow> pss w sh; audio_event_iface_get_queue_handle (pv_iface (ps_event_handle s)) w }"

definition esp_periph_set_register_callback ::
  "periph_set_handle option \<Rightarrow> fnptr option \<Rightarrow> addr \<Rightarrow> 'z pew \<Rightarrow> (esp_err \<times> 'z pew) option" where
  "esp_periph_set_register_callback sh cb user_context w =
     (case sh of None \<Rightarrow> Some (ESP_FAIL, w)
      | Some h \<Rightarrow> do {
          w \<leftarrow> ps_upd h (\<lambda>s. s\<lparr>ps_event_handle := (ps_event_handle s)\<lparr>pv_cb := cb, pv_user_ctx := user_context\<rparr>\<rparr>) w;
          Some (ESP_OK, w)
        })"

definition esp_periph_set_stop_all :: "periph_set_handle option \<Rightarrow> 'z pew \<Rightarrow> (esp_err \<times> 'z pew) option" where
  "esp_periph_set_stop_all sh w =
     (case sh of None \<Rightarrow> Some (ESP_FAIL, w)
      | Some h \<Rightarrow> do {
          w \<leftarrow> each_periph (\<lambda>p. pe_upd p (\<lambda>p. p\<lparr>pe_disabled := True\<rparr>)) h w;
          Some (ESP_OK, w)
        })"

definition esp_periph_set_get_by_id ::
  "'z pew platform \<Rightarrow> periph_set_handle option \<Rightarrow> int \<Rightarrow> 'z pew \<Rightarrow> (periph_handle option \<times> 'z pew) option" where
  "esp_periph_set_get_by_id R sh periph_id w =
     (case sh of None \<Rightarrow> Some (None, w)
      | Some h \<Rightarrow> do {
          s \<leftarrow> pss w h;
          w \<leftarrow> mutex_lock R (ps_lock s) w;
          r \<leftarrow> for_periphs (\<lambda>x w. do {
                 p \<leftarrow> prs w x;
                 if pe_periph_id p = periph_id then do {
                   s \<leftarrow> pss w h;
                   Some (Inl (x, xSemaphoreGive R (ps_lock s) w))
                 } else Some (Inr w)
               }) h 0 w;
          case r of Inl (x, w) \<Rightarrow> Some (Some x, w)
          | Inr w \<Rightarrow> do { s \<leftarrow> pss w h; Some (None, xSemaphoreGive R (ps_lock s) w) }
        })"

definition esp_periph_wait_for_stop ::
  "'z pew platform \<Rightarrow> periph_set_handle \<Rightarrow> tick \<Rightarrow> 'z pew \<Rightarrow> (esp_err \<times> 'z pew) option" where
  "esp_periph_wait_for_stop R sh ticks_to_wait w = do {
     s \<leftarrow> pss w sh;
     let (bits, w) = xEventGroupWaitBits R (ps_state_event_bits s) PERIPH_STOPPED_BIT ticks_to_wait w;
     Some (if bits AND PERIPH_STOPPED_BIT \<noteq> 0 then ESP_OK else ESP_FAIL, w)
   }"

definition esp_periph_set_list_init ::
  "'z pew periph_ops \<Rightarrow> periph_set_handle \<Rightarrow> 'z pew \<Rightarrow> (esp_err \<times> 'z pew) option" where
  "esp_periph_set_list_init P sh w = do {
     w \<leftarrow> each_periph (\<lambda>x w. do {
            p \<leftarrow> prs w x;
            Some (case pe_init p of None \<Rightarrow> w | Some f \<Rightarrow> snd (call_periph P f x w)) }) sh w;
     Some (ESP_OK, w)
   }"

definition esp_periph_set_list_run ::
  "'z pew periph_ops \<Rightarrow> periph_set_handle \<Rightarrow> audio_event_iface_msg \<Rightarrow> 'z pew \<Rightarrow> (esp_err \<times> 'z pew) option" where
  "esp_periph_set_list_run P sh msg w = do {
     w \<leftarrow> each_periph (\<lambda>x w. do {
            p \<leftarrow> prs w x;
            Some (case pe_run p of None \<Rightarrow> w | Some f \<Rightarrow> snd (call_periph_run P f x (Some msg) w)) }) sh w;
     Some (ESP_OK, w)
   }"

definition esp_periph_set_list_destroy ::
  "'z pew periph_ops \<Rightarrow> periph_set_handle \<Rightarrow> 'z pew \<Rightarrow> (esp_err \<times> 'z pew) option" where
  "esp_periph_set_list_destroy P sh w = do {
     w \<leftarrow> each_periph (\<lambda>x w. do {
            p \<leftarrow> prs w x;
            Some (case pe_destroy p of None \<Rightarrow> w | Some f \<Rightarrow> snd (call_periph P f x w)) }) sh w;
     Some (ESP_OK, w)
   }"

section \<open>The monitoring task\<close>

text \<open>The command handler of the set's event interface. The context is the set, the source of the message the
  peripheral it is for.\<close>

definition process_peripheral_event ::
  "'z pew periph_ops \<Rightarrow> audio_event_iface_msg \<Rightarrow> periph_set_handle \<Rightarrow> 'z pew \<Rightarrow> (esp_err \<times> 'z pew) option" where
  "process_peripheral_event P msg sets w = do {
     r \<leftarrow> for_periphs (\<lambda>x w. do {
            evt \<leftarrow> msg_source msg;
            p \<leftarrow> prs w x;
            e \<leftarrow> prs w evt;
            case pe_run e of
              Some f \<Rightarrow>
                if pe_periph_id p = pe_periph_id e \<and> pe_state e = PERIPH_STATE_RUNNING \<and> \<not> pe_disabled e
                then Some (Inl (call_periph_run P f evt (Some msg) w)) else Some (Inr w)
            | None \<Rightarrow> Some (Inr w)
          }) sets 0 w;
     case r of Inl (err, w) \<Rightarrow> Some (err, w) | Inr w \<Rightarrow> Some (ESP_OK, w)
   }"

text \<open>One visit of the initialisation loop.\<close>

definition periph_task_visit :: "'z pew periph_ops \<Rightarrow> periph_handle \<Rightarrow> 'z pew \<Rightarrow> 'z pew option" where
  "periph_task_visit P x w = do {
     p \<leftarrow> prs w x;
     if pe_disabled p then Some w
     else case pe_init p of
       Some f \<Rightarrow>
         if pe_state p = PERIPH_STATE_INIT then
           (let (err, w) = call_periph P f x w in
            pe_upd x (\<lambda>p. p\<lparr>pe_state := (if err = ESP_OK then PERIPH_STATE_RUNNING else PERIPH_STATE_ERROR)\<rparr>) w)
         else Some w
     | None \<Rightarrow> Some w
   }"

text \<open>The address \<open>esp_periph_set_init\<close> stores as the handler; other handlers are the platform's.\<close>

definition process_peripheral_event_ptr :: fnptr where "process_peripheral_event_ptr = 2"

definition periph_call_cmd ::
  "'z pew platform \<Rightarrow> 'z pew periph_ops \<Rightarrow> fnptr \<Rightarrow> audio_event_iface_msg \<Rightarrow> addr \<Rightarrow> 'z pew \<Rightarrow> (esp_err \<times> 'z pew) option" where
  "periph_call_cmd R P f msg ctx w =
     (if f = process_peripheral_event_ptr then process_peripheral_event P msg ctx w
      else Some (call_cmd R f msg ctx w))"

definition periph_task_iter ::
  "'z pew platform \<Rightarrow> 'z pew periph_ops \<Rightarrow> periph_set_handle \<Rightarrow> 'z pew \<Rightarrow> 'z pew option" where
  "periph_task_iter R P sh w = do {
     s \<leftarrow> pss w sh;
     w \<leftarrow> mutex_lock R (ps_lock s) w;
     w \<leftarrow> each_periph (periph_task_visit P) sh w;
     s \<leftarrow> pss w sh;
     let w = xSemaphoreGive R (ps_lock s) w;
     i \<leftarrow> esp_periph_set_get_event_iface sh w;
     i \<leftarrow> i;
     (_, w) \<leftarrow> audio_event_iface_waiting_cmd_msg R (periph_call_cmd R P) i w;
     Some w
   }"

partial_function (option) periph_task_loop ::
  "'z pew platform \<Rightarrow> 'z pew periph_ops \<Rightarrow> periph_set_handle \<Rightarrow> 'z pew \<Rightarrow> 'z pew option" where
  "periph_task_loop R P sh w = do {
     s \<leftarrow> pss w sh;
     if ps_run s then do { w \<leftarrow> periph_task_iter R P sh w; periph_task_loop R P sh w } else Some w
   }"

definition esp_periph_task ::
  "'z pew platform \<Rightarrow> 'z pew periph_ops \<Rightarrow> periph_set_handle \<Rightarrow> 'z pew \<Rightarrow> 'z pew option" where
  "esp_periph_task R P sh w = do {
     s \<leftarrow> pss w sh;
     let w = xEventGroupSetBits R (ps_state_event_bits s) PERIPH_STARTED_BIT w;
     s \<leftarrow> pss w sh;
     let w = xEventGroupClearBits R (ps_state_event_bits s) PERIPH_STOPPED_BIT w;
     w \<leftarrow> periph_task_loop R P sh w;
     w \<leftarrow> each_periph (\<lambda>x w. do {
            (_, w) \<leftarrow> esp_periph_stop_timer P x w;
            p \<leftarrow> prs w x;
            Some (case pe_destroy p of None \<Rightarrow> w | Some f \<Rightarrow> snd (call_periph P f x w))
          }) sh w;
     s \<leftarrow> pss w sh;
     let w = xEventGroupClearBits R (ps_state_event_bits s) PERIPH_STARTED_BIT w;
     s \<leftarrow> pss w sh;
     Some (xEventGroupSetBits R (ps_state_event_bits s) PERIPH_STOPPED_BIT w)
   }"

section \<open>Creation, start and destruction\<close>

text \<open>The failure path deletes the lock and the event group whether or not they exist; deleting \<open>NULL\<close> is
  undefined.\<close>

definition esp_periph_set_init ::
  "'z pew platform \<Rightarrow> 'z pew periph_ops \<Rightarrow> esp_periph_config \<Rightarrow> 'z pew \<Rightarrow> (periph_set_handle option \<times> 'z pew) option" where
  "esp_periph_set_init R P config w =
     (case heap_alloc R 44 w of
        (None, w) \<Rightarrow> Some (None, w)
      | (Some h, w) \<Rightarrow> (case xEventGroupCreate R w of
          (None, w) \<Rightarrow> None
        | (Some g, w) \<Rightarrow> (case xSemaphoreCreateMutex R w of
            (None, w) \<Rightarrow> None
          | (Some l, w) \<Rightarrow> do {
              let w = gpio_install_isr_service P w;
              let w = xEventGroupClearBits R g PERIPH_STARTED_BIT w;
              let w = xEventGroupSetBits R g PERIPH_STOPPED_BIT w;
              (i, w) \<leftarrow> audio_event_iface_init R (AUDIO_EVENT_IFACE_DEFAULT_CFG\<lparr>ec_queue_set_size := 0,
                  ec_context := h, ec_on_cmd := Some process_peripheral_event_ptr\<rparr>) w;
              case i of
                None \<Rightarrow> Some (None, vEventGroupDelete R g (vSemaphoreDelete R l w))
              | Some iface \<Rightarrow> do {
                  (_, w) \<leftarrow> audio_event_iface_set_cmd_waiting_timeout iface (of_nat (10 div portTICK_RATE_MS R)) w;
                  Some (Some h, w\<lparr>pss := (pss w)(h \<mapsto>
                    \<lparr>ps_state_event_bits = g, ps_lock = l, ps_task_stack = pc_task_stack config,
                     ps_task_prio = pc_task_prio config, ps_task_core = pc_task_core config, ps_run = False,
                     ps_event_handle = \<lparr>pv_user_ctx = 0, pv_cb = None, pv_iface = i\<rparr>, ps_periph_list = []\<rparr>)\<rparr>)
                }
            })))"

definition esp_periph_start ::
  "'z pew platform \<Rightarrow> 'z pew periph_ops \<Rightarrow> periph_set_handle option \<Rightarrow> periph_handle \<Rightarrow> 'z pew \<Rightarrow> (esp_err \<times> 'z pew) option" where
  "esp_periph_start R P sh periph w =
     (case sh of None \<Rightarrow> Some (ESP_FAIL, w)
      | Some h \<Rightarrow> do {
          p \<leftarrow> prs w periph;
          (found, w) \<leftarrow> esp_periph_set_get_by_id R sh (pe_periph_id p) w;
          w \<leftarrow> (if found \<noteq> None then pe_upd periph (\<lambda>p. p\<lparr>pe_disabled := False\<rparr>) w
                else do {
                  (_, w) \<leftarrow> esp_periph_register_on_events periph sh w;
                  ps_upd h (\<lambda>s. s\<lparr>ps_periph_list := ps_periph_list s @ [periph]\<rparr>) w
                });
          s \<leftarrow> pss w h;
          if \<not> ps_run s \<and> 0 < ps_task_stack s then do {
            w \<leftarrow> ps_upd h (\<lambda>s. s\<lparr>ps_run := True\<rparr>) w;
            s \<leftarrow> pss w h;
            let (ok, w) = create_periph_task P h (ps_task_stack s) (ps_task_prio s) (ps_task_core s) w;
            if \<not> ok then do { w \<leftarrow> ps_upd h (\<lambda>s. s\<lparr>ps_run := False\<rparr>) w; Some (ESP_FAIL, w) }
            else Some (ESP_OK, w)
          } else Some (ESP_OK, w)
        })"

text \<open>Freeing the peripherals of the list and their tags.\<close>

fun free_periphs :: "periph_handle list \<Rightarrow> 'z pew \<Rightarrow> 'z pew option" where
  "free_periphs [] w = Some w"
| "free_periphs (x # xs) w = do {
     p \<leftarrow> prs w x;
     w \<leftarrow> str_free (pe_tag p) w;
     free_periphs xs (w\<lparr>prs := (prs w)(x := None)\<rparr>)
   }"

definition esp_periph_set_destroy ::
  "'z pew platform \<Rightarrow> 'z pew periph_ops \<Rightarrow> periph_set_handle option \<Rightarrow> 'z pew \<Rightarrow> (esp_err \<times> 'z pew) option" where
  "esp_periph_set_destroy R P sh w =
     (case sh of None \<Rightarrow> Some (ESP_FAIL, w)
      | Some h \<Rightarrow> do {
          w \<leftarrow> ps_upd h (\<lambda>s. s\<lparr>ps_run := False\<rparr>) w;
          (_, w) \<leftarrow> esp_periph_wait_for_stop R h portMAX_DELAY w;
          s \<leftarrow> pss w h;
          w \<leftarrow> free_periphs (ps_periph_list s) w;
          let w = vEventGroupDelete R (ps_state_event_bits s) (vSemaphoreDelete R (ps_lock s) w);
          let w = gpio_uninstall_isr_service P w;
          i \<leftarrow> pv_iface (ps_event_handle s);
          (_, w) \<leftarrow> audio_event_iface_destroy R i w;
          Some (ESP_OK, w\<lparr>pss := (pss w)(h := None)\<rparr>)
        })"

end
