(* ===== verification/Esp_Periph_Correct.thy ===== *)
theory Esp_Periph_Correct
  imports Esp_Periph
begin

text \<open>
  Correctness of the peripheral manager: registration keeps the identifiers of a set distinct and is found
  again by lookup, the initialisation pass moves every waiting peripheral to running or error, commands reach
  exactly the registered, running and enabled peripherals; and its flaws: restarting a second object with a
  registered identifier, a timer that failed to start, and the failure path of set creation.
\<close>

section \<open>Loops over the list\<close>

text \<open>The loop from position \<open>i\<close>, one step.\<close>

lemma for_periphs_step:
  assumes "pss w sh = Some s"
  shows "for_periphs body sh i w =
     (if i < length (ps_periph_list s) then do {
        r \<leftarrow> body (ps_periph_list s ! i) w;
        case r of Inl x \<Rightarrow> Some (Inl x) | Inr w \<Rightarrow> for_periphs body sh (Suc i) w }
      else Some (Inr w))"
  using assms by (subst for_periphs.simps) simp

text \<open>A body that either returns or leaves the state alone ends at the first element it returns for.\<close>

lemma for_periphs_search:
  assumes s: "pss w sh = Some s" and body: "\<And>x. x \<in> set (ps_periph_list s) \<Longrightarrow> body x w = Some (if P x then Inl (f x) else Inr w)"
  shows "for_periphs body sh i w = Some (case find P (drop i (ps_periph_list s)) of Some x \<Rightarrow> Inl (f x) | None \<Rightarrow> Inr w)"
proof (induction "length (ps_periph_list s) - i" arbitrary: i)
  case 0
  then show ?case using s by (simp add: for_periphs_step)
next
  case (Suc n)
  then have i: "i < length (ps_periph_list s)" "n = length (ps_periph_list s) - Suc i" by simp_all
  then have "drop i (ps_periph_list s) = ps_periph_list s ! i # drop (Suc i) (ps_periph_list s)"
    by (simp add: Cons_nth_drop_Suc)
  with Suc.hyps(1)[OF i(2)] i(1) s body[OF nth_mem[OF i(1)]] show ?case
    by (simp add: for_periphs_step)
qed

section \<open>The environment of a registration\<close>

definition keeps_periphs :: "('z pew \<Rightarrow> 'z pew) \<Rightarrow> bool" where
  "keeps_periphs f \<longleftrightarrow> (\<forall>w. prs (f w) = prs w \<and> pss (f w) = pss w)"

text \<open>The mutex is granted, and taking, giving and creating the task leave the peripherals and sets alone.\<close>

definition periph_env :: "'z pew platform \<Rightarrow> 'z pew periph_ops \<Rightarrow> bool" where
  "periph_env R P \<longleftrightarrow> (\<forall>s w. fst (xSemaphoreTake R s portMAX_DELAY w)) \<and>
     (\<forall>s. keeps_periphs (\<lambda>w. snd (xSemaphoreTake R s portMAX_DELAY w))) \<and> (\<forall>s. keeps_periphs (xSemaphoreGive R s)) \<and>
     (\<forall>h a b c. keeps_periphs (\<lambda>w. snd (create_periph_task P h a b c w)))"

lemma periph_env_lock:
  assumes "periph_env R P"
  obtains w' where "mutex_lock R l w = Some w'" "prs w' = prs w" "pss w' = pss w"
proof -
  let ?w' = "snd (xSemaphoreTake R l portMAX_DELAY w)"
  have t: "xSemaphoreTake R l portMAX_DELAY w = (True, ?w')"
    using assms by (simp add: periph_env_def prod_eq_iff)
  have "prs ?w' = prs w" "pss ?w' = pss w"
    using assms by (simp_all add: periph_env_def keeps_periphs_def)
  moreover have "mutex_lock R l w = Some ?w'" by (subst mutex_lock.simps, subst t) simp
  ultimately show ?thesis by (intro that)
qed

lemma periph_env_quiet:
  assumes "periph_env R P"
  shows "prs (xSemaphoreGive R l w) = prs w" "pss (xSemaphoreGive R l w) = pss w"
    "prs (snd (create_periph_task P h a b c w)) = prs w" "pss (snd (create_periph_task P h a b c w)) = pss w"
  using assms by (simp_all add: periph_env_def keeps_periphs_def)

text \<open>A well-formed set: its peripherals exist, with different identifiers.\<close>

definition id_of :: "'z pew \<Rightarrow> periph_handle \<Rightarrow> int option" where
  "id_of w x = map_option pe_periph_id (prs w x)"

definition set_inv :: "'z pew \<Rightarrow> periph_set_handle \<Rightarrow> bool" where
  "set_inv w h \<longleftrightarrow> (\<exists>s. pss w h = Some s \<and> (\<forall>x \<in> set (ps_periph_list s). prs w x \<noteq> None) \<and>
     distinct (map (id_of w) (ps_periph_list s)))"

lemma get_by_id_finds:
  assumes env: "periph_env R P" and s: "pss w h = Some s" "\<forall>x \<in> set (ps_periph_list s). prs w x \<noteq> None"
  obtains w' where "esp_periph_set_get_by_id R (Some h) k w = Some (find (\<lambda>x. id_of w x = Some k) (ps_periph_list s), w')"
    "prs w' = prs w" "pss w' = pss w"
proof -
  obtain w1 where 1: "mutex_lock R (ps_lock s) w = Some w1" "prs w1 = prs w" "pss w1 = pss w"
    by (rule periph_env_lock[OF env])
  let ?w2 = "xSemaphoreGive R (ps_lock s) w1"
  let ?has = "\<lambda>x. id_of w x = Some k"
  let ?body = "\<lambda>x w. do {
                 p \<leftarrow> prs w x;
                 if pe_periph_id p = k then do { s \<leftarrow> pss w h; Some (Inl (x, xSemaphoreGive R (ps_lock s) w)) }
                 else Some (Inr w) }"
  have s1: "pss w1 h = Some s" using s 1 by simp
  have b: "?body x w1 = Some (if ?has x then Inl (x, ?w2) else Inr w1)" if "x \<in> set (ps_periph_list s)" for x
    using that s(2) 1(2) s1 by (auto simp: id_of_def)
  from for_periphs_search[OF s1, where body = ?body and P = ?has and f = "\<lambda>x. (x, ?w2)" and i = 0] b
  have "for_periphs ?body h 0 w1 = Some (case find ?has (ps_periph_list s) of Some x \<Rightarrow> Inl (x, ?w2) | None \<Rightarrow> Inr w1)"
    by simp
  then have "esp_periph_set_get_by_id R (Some h) k w = Some (find ?has (ps_periph_list s), ?w2)"
    using s(1) 1 s1 by (simp add: esp_periph_set_get_by_id_def split: option.splits)
  moreover have "prs ?w2 = prs w" "pss ?w2 = pss w" using periph_env_quiet[OF env] 1 by simp_all
  ultimately show ?thesis by (rule that)
qed

section \<open>Registration\<close>

text \<open>What becomes of the task: a set whose task runs, or that is to have none, is left as it is; otherwise the flag
  \<open>run\<close> is set before the task is created, and it stays set, and the call succeeds, exactly when the creation does.\<close>

definition task_outcome :: "'z pew periph_ops \<Rightarrow> periph_set_handle \<Rightarrow> esp_periph_set \<Rightarrow> esp_err \<Rightarrow> bool \<Rightarrow> bool" where
  "task_outcome P h s err run \<longleftrightarrow>
     (if ps_run s \<or> \<not> 0 < ps_task_stack s then err = ESP_OK \<and> run = ps_run s
      else \<exists>w1. pss w1 h = Some (s\<lparr>ps_run := True\<rparr>) \<and>
        (let ok = fst (create_periph_task P h (ps_task_stack s) (ps_task_prio s) (ps_task_core s) w1)
         in run = ok \<and> err = (if ok then ESP_OK else ESP_FAIL)))"

text \<open>Starting the task, the last part of \<open>esp_periph_start\<close>, changes only the flag \<open>run\<close>.\<close>

lemma start_task_part:
  assumes env: "periph_env R P" and s: "pss w h = Some s"
  obtains err w' where
    "(if \<not> ps_run s \<and> 0 < ps_task_stack s then do {
        w \<leftarrow> ps_upd h (\<lambda>s. s\<lparr>ps_run := True\<rparr>) w;
        s \<leftarrow> pss w h;
        let (ok, w) = create_periph_task P h (ps_task_stack s) (ps_task_prio s) (ps_task_core s) w;
        if \<not> ok then do { w \<leftarrow> ps_upd h (\<lambda>s. s\<lparr>ps_run := False\<rparr>) w; Some (ESP_FAIL, w) }
        else Some (ESP_OK, w)
      } else Some (ESP_OK, w)) = Some (err, w')"
    "prs w' = prs w"
    "pss w' = (pss w)(h \<mapsto> s\<lparr>ps_run := err = ESP_OK \<and> (ps_run s \<or> 0 < ps_task_stack s)\<rparr>)"
    "task_outcome P h s err (err = ESP_OK \<and> (ps_run s \<or> 0 < ps_task_stack s))"
proof (cases "\<not> ps_run s \<and> 0 < ps_task_stack s")
  case True
  let ?w1 = "w\<lparr>pss := (pss w)(h \<mapsto> s\<lparr>ps_run := True\<rparr>)\<rparr>"
  obtain ok w2 where 2: "create_periph_task P h (ps_task_stack s) (ps_task_prio s) (ps_task_core s) ?w1 = (ok, w2)"
    by fastforce
  have q: "prs w2 = prs w" "pss w2 = pss ?w1"
    using periph_env_quiet(3,4)[OF env, of h "ps_task_stack s" "ps_task_prio s" "ps_task_core s" ?w1] 2 by simp_all
  have t: "task_outcome P h s (if ok then ESP_OK else ESP_FAIL) ok"
    unfolding task_outcome_def using True 2 by (auto intro!: exI[of _ ?w1])
  show ?thesis
  proof (cases ok)
    case True
    show ?thesis
      by (rule that[of ESP_OK w2]) (use True \<open>\<not> ps_run s \<and> 0 < ps_task_stack s\<close> 2 q s t in simp_all)
  next
    case False
    show ?thesis
      by (rule that[of ESP_FAIL "w2\<lparr>pss := (pss w2)(h \<mapsto> s\<lparr>ps_run := False\<rparr>)\<rparr>"])
        (use False \<open>\<not> ps_run s \<and> 0 < ps_task_stack s\<close> 2 q s t in simp_all)
  qed
next
  case False
  show ?thesis
    by (rule that[of ESP_OK w]) (use False s in \<open>auto simp: fun_upd_idem task_outcome_def\<close>)
qed

lemma id_of_upd: "(\<And>p. pe_periph_id (f p) = pe_periph_id p) \<Longrightarrow> prs w x = Some p \<Longrightarrow> prs w' = (prs w)(x \<mapsto> f p) \<Longrightarrow> id_of w' = id_of w"
  by (auto simp: id_of_def fun_eq_iff)

definition registered :: "'z pew \<Rightarrow> periph_handle list \<Rightarrow> int \<Rightarrow> bool" where
  "registered w xs k \<longleftrightarrow> (\<exists>y \<in> set xs. id_of w y = Some k)"

lemma find_registered: "find (\<lambda>x. id_of w x = Some k) xs \<noteq> None \<longleftrightarrow> registered w xs k"
  by (auto simp: registered_def find_None_iff)

lemma start_cases:
  assumes env: "periph_env R P" and inv: "set_inv w h" and s: "pss w h = Some s" and p: "prs w x = Some p"
  obtains err w' where "esp_periph_start R P (Some h) x w = Some (err, w')"
    "prs w' = (prs w)(x \<mapsto> if registered w (ps_periph_list s) (pe_periph_id p) then p\<lparr>pe_disabled := False\<rparr>
       else p\<lparr>pe_on_evt := Some h\<rparr>)"
    "pss w' = (pss w)(h \<mapsto> s\<lparr>
       ps_periph_list := (if registered w (ps_periph_list s) (pe_periph_id p) then ps_periph_list s else ps_periph_list s @ [x]),
       ps_run := err = ESP_OK \<and> (ps_run s \<or> 0 < ps_task_stack s)\<rparr>)"
    "task_outcome P h (s\<lparr>ps_periph_list := (if registered w (ps_periph_list s) (pe_periph_id p) then ps_periph_list s else ps_periph_list s @ [x])\<rparr>)
       err (err = ESP_OK \<and> (ps_run s \<or> 0 < ps_task_stack s))"
proof -
  let ?r = "registered w (ps_periph_list s) (pe_periph_id p)"
  have ex: "\<forall>x \<in> set (ps_periph_list s). prs w x \<noteq> None" using inv s by (auto simp: set_inv_def)
  obtain w1 where 1: "esp_periph_set_get_by_id R (Some h) (pe_periph_id p) w =
      Some (find (\<lambda>x. id_of w x = Some (pe_periph_id p)) (ps_periph_list s), w1)" "prs w1 = prs w" "pss w1 = pss w"
    by (rule get_by_id_finds[OF env s ex])
  let ?w2 = "if ?r then w1\<lparr>prs := (prs w)(x \<mapsto> p\<lparr>pe_disabled := False\<rparr>)\<rparr>
    else w1\<lparr>prs := (prs w)(x \<mapsto> p\<lparr>pe_on_evt := Some h\<rparr>), pss := (pss w)(h \<mapsto> s\<lparr>ps_periph_list := ps_periph_list s @ [x]\<rparr>)\<rparr>"
  let ?s2 = "s\<lparr>ps_periph_list := if ?r then ps_periph_list s else ps_periph_list s @ [x]\<rparr>"
  have s2: "pss ?w2 h = Some ?s2" using s 1(3) by simp
  obtain err w' where e: "(if \<not> ps_run ?s2 \<and> 0 < ps_task_stack ?s2 then do {
        w \<leftarrow> ps_upd h (\<lambda>s. s\<lparr>ps_run := True\<rparr>) ?w2;
        s \<leftarrow> pss w h;
        let (ok, w) = create_periph_task P h (ps_task_stack s) (ps_task_prio s) (ps_task_core s) w;
        if \<not> ok then do { w \<leftarrow> ps_upd h (\<lambda>s. s\<lparr>ps_run := False\<rparr>) w; Some (ESP_FAIL, w) }
        else Some (ESP_OK, w)
      } else Some (ESP_OK, ?w2)) = Some (err, w')" "prs w' = prs ?w2"
    "pss w' = (pss ?w2)(h \<mapsto> ?s2\<lparr>ps_run := err = ESP_OK \<and> (ps_run ?s2 \<or> 0 < ps_task_stack ?s2)\<rparr>)"
    "task_outcome P h ?s2 err (err = ESP_OK \<and> (ps_run ?s2 \<or> 0 < ps_task_stack ?s2))"
    by (rule start_task_part[OF env s2])
  have mid: "(if find (\<lambda>x. id_of w x = Some (pe_periph_id p)) (ps_periph_list s) \<noteq> None
        then pe_upd x (\<lambda>p. p\<lparr>pe_disabled := False\<rparr>) w1
        else do {
          (_, w) \<leftarrow> esp_periph_register_on_events x (Some h) w1;
          ps_upd h (\<lambda>s. s\<lparr>ps_periph_list := ps_periph_list s @ [x]\<rparr>) w }) = Some ?w2"
    unfolding find_registered using p s 1(2,3) by (simp add: esp_periph_register_on_events_def)
  have "esp_periph_start R P (Some h) x w = Some (err, w')"
    unfolding esp_periph_start_def option.case p bind.bind_lunit 1(1) prod.case mid s2 by (rule e(1))
  then show ?thesis by (rule that) (use e(2,3,4) 1(2,3) s in simp_all)
qed

lemma start_running_ok:
  assumes "esp_periph_start R P (Some h) x w = Some (err, w')" "ps_run s" "pss w h = Some s" "periph_env R P" "set_inv w h"
    "prs w x = Some p"
  shows "err = ESP_OK"
proof -
  have ex: "\<forall>x \<in> set (ps_periph_list s). prs w x \<noteq> None" using assms(3,5) by (auto simp: set_inv_def)
  obtain w1 where 1: "esp_periph_set_get_by_id R (Some h) (pe_periph_id p) w =
      Some (find (\<lambda>x. id_of w x = Some (pe_periph_id p)) (ps_periph_list s), w1)" "prs w1 = prs w" "pss w1 = pss w"
    by (rule get_by_id_finds[OF assms(4,3) ex])
  show ?thesis using assms(1,2,3,6) 1
    by (auto simp: esp_periph_start_def esp_periph_register_on_events_def split: if_splits)
qed

text \<open>C14. Starting a peripheral on a well-formed set returns and keeps the set well formed: the peripheral is
  appended exactly when no listed one has its identifier, and afterwards its identifier is listed. When the
  set's task runs already, or the set has no stack for one, the call succeeds and the task flag is unchanged;
  otherwise the task is created with the set's parameters, the flag afterwards tells whether that succeeded, and
  a failure is reported.\<close>

theorem start_registers:
  assumes "periph_env R P" "set_inv w h" "pss w h = Some s" "prs w x = Some p"
    and "xs = (if registered w (ps_periph_list s) (pe_periph_id p) then ps_periph_list s else ps_periph_list s @ [x])"
  shows "\<exists>err w' s'. esp_periph_start R P (Some h) x w = Some (err, w') \<and> pss w' h = Some s' \<and> set_inv w' h \<and>
     ps_periph_list s' = xs \<and> registered w' xs (pe_periph_id p) \<and>
     (if ps_run s \<or> \<not> 0 < ps_task_stack s then err = ESP_OK \<and> ps_run s' = ps_run s
      else \<exists>w1. pss w1 h = Some (s\<lparr>ps_periph_list := xs, ps_run := True\<rparr>) \<and>
        (let ok = fst (create_periph_task P h (ps_task_stack s) (ps_task_prio s) (ps_task_core s) w1)
         in ps_run s' = ok \<and> err = (if ok then ESP_OK else ESP_FAIL)))"
proof -
  let ?r = "registered w (ps_periph_list s) (pe_periph_id p)"
  obtain err w' where st: "esp_periph_start R P (Some h) x w = Some (err, w')"
    and pr: "prs w' = (prs w)(x \<mapsto> if ?r then p\<lparr>pe_disabled := False\<rparr> else p\<lparr>pe_on_evt := Some h\<rparr>)"
    and ps: "pss w' = (pss w)(h \<mapsto> s\<lparr>ps_periph_list := (if ?r then ps_periph_list s else ps_periph_list s @ [x]),
       ps_run := err = ESP_OK \<and> (ps_run s \<or> 0 < ps_task_stack s)\<rparr>)"
    and t: "task_outcome P h (s\<lparr>ps_periph_list := xs\<rparr>) err (err = ESP_OK \<and> (ps_run s \<or> 0 < ps_task_stack s))"
    unfolding assms(5) by (rule start_cases[OF assms(1-4)])
  have ids: "id_of w' = id_of w" using pr assms(4) by (auto simp: id_of_def fun_eq_iff)
  have x: "id_of w x = Some (pe_periph_id p)" using assms(4) by (simp add: id_of_def)
  have inv: "set_inv w' h" using assms(2,3) x pr unfolding set_inv_def ps ids by (auto simp: registered_def)
  have reg: "registered w' xs (pe_periph_id p)" using x by (auto simp: assms(5) registered_def ids)
  let ?s = "s\<lparr>ps_periph_list := xs, ps_run := err = ESP_OK \<and> (ps_run s \<or> 0 < ps_task_stack s)\<rparr>"
  have s': "pss w' h = Some ?s" unfolding ps assms(5) by simp
  have sel: "ps_periph_list ?s = xs" "ps_run ?s = (err = ESP_OK \<and> (ps_run s \<or> 0 < ps_task_stack s))"
    "ps_run (s\<lparr>ps_periph_list := xs\<rparr>) = ps_run s" "ps_task_stack (s\<lparr>ps_periph_list := xs\<rparr>) = ps_task_stack s"
    "ps_task_prio (s\<lparr>ps_periph_list := xs\<rparr>) = ps_task_prio s" "ps_task_core (s\<lparr>ps_periph_list := xs\<rparr>) = ps_task_core s"
    by simp_all
  show ?thesis
    by (intro exI conjI, rule st, rule s', rule inv, rule sel(1), rule reg) (use t in \<open>simp only: task_outcome_def sel\<close>)
qed

text \<open>A second object with a registered identifier: \<open>esp_periph_start\<close> enables the object it is given and
  not the listed one, so a listed peripheral that was stopped stays disabled, and the new object never enters
  the list although the call succeeds.\<close>

theorem restart_enables_wrong_object:
  assumes "periph_env R P" "set_inv w h" "pss w h = Some s" "prs w x = Some p"
    and y: "y \<in> set (ps_periph_list s)" "prs w y = Some q" "pe_periph_id q = pe_periph_id p" "pe_disabled q" "x \<notin> set (ps_periph_list s)"
    and run: "ps_run s"
  shows "\<exists>w' s'. esp_periph_start R P (Some h) x w = Some (ESP_OK, w') \<and> pss w' h = Some s' \<and> x \<notin> set (ps_periph_list s') \<and>
     prs w' y = Some q"
proof -
  let ?r = "registered w (ps_periph_list s) (pe_periph_id p)"
  have r: ?r using y(1-3) by (auto simp: registered_def id_of_def intro!: bexI[of _ y])
  obtain err w' where st: "esp_periph_start R P (Some h) x w = Some (err, w')"
    and pr: "prs w' = (prs w)(x \<mapsto> if ?r then p\<lparr>pe_disabled := False\<rparr> else p\<lparr>pe_on_evt := Some h\<rparr>)"
    and ps: "pss w' = (pss w)(h \<mapsto> s\<lparr>ps_periph_list := (if ?r then ps_periph_list s else ps_periph_list s @ [x]),
       ps_run := err = ESP_OK \<and> (ps_run s \<or> 0 < ps_task_stack s)\<rparr>)"
    by (rule start_cases[OF assms(1-4)])
  have "err = ESP_OK" by (rule start_running_ok[OF st run assms(3,1,2,4)])
  then show ?thesis using st pr ps y r by auto
qed

section \<open>Dispatch and initialisation\<close>

text \<open>A command reaches its peripheral exactly when a peripheral with its identifier is listed and the
  addressed one is running, enabled and has a run function; otherwise the handler does nothing and returns
  \<open>ESP_OK\<close>.\<close>

theorem dispatch_exactly_running:
  assumes s: "pss w h = Some s" "\<forall>x \<in> set (ps_periph_list s). prs w x \<noteq> None" and e: "msg_source m = Some v" "prs w v = Some e"
  shows "process_peripheral_event P m h w = Some
     (if registered w (ps_periph_list s) (pe_periph_id e) \<and> pe_state e = PERIPH_STATE_RUNNING \<and> \<not> pe_disabled e \<and> pe_run e \<noteq> None
      then call_periph_run P (the (pe_run e)) v (Some m) w else (ESP_OK, w))"
proof -
  let ?go = "\<lambda>x. id_of w x = Some (pe_periph_id e) \<and> pe_state e = PERIPH_STATE_RUNNING \<and> \<not> pe_disabled e \<and> pe_run e \<noteq> None"
  let ?body = "\<lambda>x w. do {
            evt \<leftarrow> msg_source m; p \<leftarrow> prs w x; e \<leftarrow> prs w evt;
            case pe_run e of
              Some f \<Rightarrow>
                if pe_periph_id p = pe_periph_id e \<and> pe_state e = PERIPH_STATE_RUNNING \<and> \<not> pe_disabled e
                then Some (Inl (call_periph_run P f evt (Some m) w)) else Some (Inr w)
            | None \<Rightarrow> Some (Inr w) }"
  have "?body x w = Some (if ?go x then Inl (call_periph_run P (the (pe_run e)) v (Some m) w) else Inr w)"
    if "x \<in> set (ps_periph_list s)" for x
    using that s(2) e by (cases "pe_run e") (auto simp: id_of_def)
  from for_periphs_search[where body = ?body and P = ?go and i = 0, OF s(1) this]
  have "process_peripheral_event P m h w = Some (case find ?go (ps_periph_list s) of
      Some x \<Rightarrow> call_periph_run P (the (pe_run e)) v (Some m) w | None \<Rightarrow> (ESP_OK, w))"
    by (simp add: process_peripheral_event_def split: option.splits prod.splits)
  moreover have "find ?go (ps_periph_list s) = None \<longleftrightarrow> \<not> (registered w (ps_periph_list s) (pe_periph_id e) \<and>
      pe_state e = PERIPH_STATE_RUNNING \<and> \<not> pe_disabled e \<and> pe_run e \<noteq> None)"
    by (auto simp: find_None_iff registered_def)
  ultimately show ?thesis by (auto split: option.splits)
qed

text \<open>A pass whose visits each update what is observed of the visited peripheral.\<close>

definition visits :: "periph_set_handle \<Rightarrow> esp_periph_set \<Rightarrow> ('z pew \<Rightarrow> periph_handle \<Rightarrow> 'o option) \<Rightarrow>
    (periph_handle \<Rightarrow> 'z pew \<Rightarrow> 'z pew option) \<Rightarrow> (periph_handle \<Rightarrow> 'o \<Rightarrow> 'o) \<Rightarrow> bool" where
  "visits h s v f g \<longleftrightarrow> (\<forall>w x o'. x \<in> set (ps_periph_list s) \<longrightarrow> pss w h = Some s \<longrightarrow> v w x = Some o' \<longrightarrow>
     (\<exists>w1. f x w = Some w1 \<and> pss w1 h = Some s \<and> v w1 = (v w)(x \<mapsto> g x o')))"

lemma visitsD:
  "visits h s v f g \<Longrightarrow> x \<in> set (ps_periph_list s) \<Longrightarrow> pss w h = Some s \<Longrightarrow> v w x = Some o' \<Longrightarrow>
   \<exists>w1. f x w = Some w1 \<and> pss w1 h = Some s \<and> v w1 = (v w)(x \<mapsto> g x o')"
  unfolding visits_def by blast

lemma for_periphs_obs:
  assumes visit: "visits h s v f g"
    and d: "distinct (ps_periph_list s)"
  shows "pss w h = Some s \<Longrightarrow> \<forall>x \<in> set (drop i (ps_periph_list s)). v w x \<noteq> None \<Longrightarrow>
     \<exists>w'. for_periphs (\<lambda>h w. map_option Inr (f h w) :: (unit \<times> 'z pew + 'z pew) option) h i w = Some (Inr w') \<and> pss w' h = Some s \<and>
       v w' = (\<lambda>x. if x \<in> set (drop i (ps_periph_list s)) then map_option (g x) (v w x) else v w x)"
proof (induction "length (ps_periph_list s) - i" arbitrary: i w)
  case 0
  then show ?case by (simp add: for_periphs_step)
next
  case (Suc n)
  let ?xs = "ps_periph_list s"
  from Suc.hyps(2) have i: "i < length ?xs" "n = length ?xs - Suc i" by simp_all
  then have dr: "drop i ?xs = ?xs ! i # drop (Suc i) ?xs" by (simp add: Cons_nth_drop_Suc)
  have nin: "?xs ! i \<notin> set (drop (Suc i) ?xs)" using d dr distinct_drop[of ?xs i] by simp
  obtain o' where o': "v w (?xs ! i) = Some o'" using Suc.prems(2) dr by auto
  from visitsD[OF visit nth_mem[OF i(1)] Suc.prems(1) o'] obtain w1 where
    w1: "f (?xs ! i) w = Some w1" "pss w1 h = Some s" "v w1 = (v w)(?xs ! i \<mapsto> g (?xs ! i) o')" by blast
  have "\<forall>x \<in> set (drop (Suc i) ?xs). v w1 x \<noteq> None" using Suc.prems(2) dr nin w1(3) by auto
  from Suc.hyps(1)[OF i(2) w1(2) this] obtain w' where
    w': "for_periphs (\<lambda>h w. map_option Inr (f h w) :: (unit \<times> 'z pew + 'z pew) option) h (Suc i) w1 = Some (Inr w')"
      "pss w' h = Some s"
      "v w' = (\<lambda>x. if x \<in> set (drop (Suc i) ?xs) then map_option (g x) (v w1 x) else v w1 x)" by blast
  have "v w' = (\<lambda>x. if x \<in> set (drop i ?xs) then map_option (g x) (v w x) else v w x)"
    unfolding w'(3) w1(3) dr using nin o' by (auto simp: fun_eq_iff)
  moreover have "for_periphs (\<lambda>h w. map_option Inr (f h w) :: (unit \<times> 'z pew + 'z pew) option) h i w = Some (Inr w')"
    using w1(1) w'(1) i(1) Suc.prems(1) by (simp add: for_periphs_step)
  ultimately show ?case using w'(2) by blast
qed

lemma each_periph_obs:
  assumes visit: "visits h s v f g"
    and d: "distinct (ps_periph_list s)" and s: "pss w h = Some s" and ex: "\<forall>x \<in> set (ps_periph_list s). v w x \<noteq> None"
  shows "\<exists>w'. each_periph f h w = Some w' \<and> pss w' h = Some s \<and>
     v w' = (\<lambda>x. if x \<in> set (ps_periph_list s) then map_option (g x) (v w x) else v w x)"
  using for_periphs_obs[OF visit d s, of 0] ex by (auto simp: each_periph_def)

lemma set_inv_distinct: "set_inv w h \<Longrightarrow> pss w h = Some s \<Longrightarrow> distinct (ps_periph_list s)"
  by (auto simp: set_inv_def distinct_map)

text \<open>What the initialisation pass looks at.\<close>

definition init_view :: "'z pew \<Rightarrow> periph_handle \<Rightarrow> (bool \<times> esp_periph_state \<times> fnptr option) option" where
  "init_view w x = map_option (\<lambda>p. (pe_disabled p, pe_state p, pe_init p)) (prs w x)"

text \<open>Init functions return \<open>r f x\<close> and leave the sets and the control fields of the peripherals alone.\<close>

definition init_env :: "'z pew periph_ops \<Rightarrow> (fnptr \<Rightarrow> periph_handle \<Rightarrow> esp_err) \<Rightarrow> bool" where
  "init_env P r \<longleftrightarrow> (\<forall>f x w. fst (call_periph P f x w) = r f x \<and> pss (snd (call_periph P f x w)) = pss w \<and>
     init_view (snd (call_periph P f x w)) = init_view w)"

definition init_result :: "(fnptr \<Rightarrow> periph_handle \<Rightarrow> esp_err) \<Rightarrow> periph_handle \<Rightarrow> bool \<times> esp_periph_state \<times> fnptr option \<Rightarrow>
    bool \<times> esp_periph_state \<times> fnptr option" where
  "init_result r x = (\<lambda>(dis, st, ini). (dis,
     if \<not> dis \<and> st = PERIPH_STATE_INIT \<and> ini \<noteq> None
     then if r (the ini) x = ESP_OK then PERIPH_STATE_RUNNING else PERIPH_STATE_ERROR else st, ini))"

lemma visit_obs:
  assumes env: "init_env P r" and w: "pss w h = Some s" "init_view w x = Some o'"
  shows "\<exists>w1. periph_task_visit P x w = Some w1 \<and> pss w1 h = Some s \<and> init_view w1 = (init_view w)(x \<mapsto> init_result r x o')"
proof -
  obtain p where p: "prs w x = Some p" "o' = (pe_disabled p, pe_state p, pe_init p)" using w(2) by (auto simp: init_view_def)
  show ?thesis
  proof (cases "\<not> pe_disabled p \<and> pe_state p = PERIPH_STATE_INIT \<and> pe_init p \<noteq> None")
    case False
    then have "periph_task_visit P x w = Some w" using p(1) by (auto simp: periph_task_visit_def split: option.splits)
    moreover have "init_result r x o' = o'" using False by (auto simp: init_result_def p(2))
    ultimately show ?thesis using w by (auto simp: fun_upd_idem)
  next
    case True
    then obtain f where f: "pe_init p = Some f" by auto
    obtain w1 where c: "call_periph P f x w = (r f x, w1)" "pss w1 = pss w" "init_view w1 = init_view w"
      using env unfolding init_env_def by (metis prod.collapse)
    obtain q where q: "prs w1 x = Some q" "(pe_disabled q, pe_state q, pe_init q) = o'"
      using fun_cong[OF c(3), of x] w(2) by (auto simp: init_view_def)
    have v: "init_view (w1\<lparr>prs := (prs w1)(x \<mapsto> q')\<rparr>) = (init_view w)(x \<mapsto> (pe_disabled q', pe_state q', pe_init q'))" for q'
      unfolding c(3)[symmetric] by (auto simp: init_view_def fun_eq_iff)
    let ?st = "if r f x = ESP_OK then PERIPH_STATE_RUNNING else PERIPH_STATE_ERROR"
    have "periph_task_visit P x w = Some (w1\<lparr>prs := (prs w1)(x \<mapsto> q\<lparr>pe_state := ?st\<rparr>)\<rparr>)"
      unfolding periph_task_visit_def p(1) using True f q(1) by (simp add: c(1))
    moreover have "(pe_disabled q, ?st, pe_init q) = init_result r x o'"
      using True f q(2) p(2) by (simp add: init_result_def)
    ultimately show ?thesis using w(1) c(2) v[of "q\<lparr>pe_state := ?st\<rparr>"] by simp
  qed
qed

text \<open>One initialisation pass of the monitoring task over a well-formed set returns, and every listed,
  enabled peripheral that waits with an init function is then running when the function returned \<open>ESP_OK\<close> and in
  the error state otherwise; every other peripheral keeps its state.\<close>

theorem init_pass_settles:
  assumes "init_env P r" "set_inv w h" "pss w h = Some s"
  shows "\<exists>w'. each_periph (periph_task_visit P) h w = Some w' \<and> pss w' h = Some s \<and>
     (\<forall>x p. prs w x = Some p \<longrightarrow> esp_periph_get_state x w' = Some
        (if x \<in> set (ps_periph_list s) \<and> \<not> pe_disabled p \<and> pe_state p = PERIPH_STATE_INIT \<and> pe_init p \<noteq> None
         then if r (the (pe_init p)) x = ESP_OK then PERIPH_STATE_RUNNING else PERIPH_STATE_ERROR
         else pe_state p))"
proof -
  have "\<forall>x \<in> set (ps_periph_list s). init_view w x \<noteq> None"
    using assms(2,3) by (auto simp: set_inv_def init_view_def)
  note ex = this
  have v: "visits h s init_view (periph_task_visit P) (init_result r)"
    unfolding visits_def using visit_obs[OF assms(1)] by blast
  from each_periph_obs[OF v set_inv_distinct[OF assms(2,3)] assms(3) ex] obtain w' where
    w': "each_periph (periph_task_visit P) h w = Some w'" "pss w' h = Some s"
      "init_view w' = (\<lambda>x. if x \<in> set (ps_periph_list s) then map_option (init_result r x) (init_view w x) else init_view w x)"
    by blast
  have "esp_periph_get_state x w' = map_option (\<lambda>(_, st, _). st) (init_view w' x)" for x
    by (cases "prs w' x") (simp_all add: esp_periph_get_state_def init_view_def)
  then have "esp_periph_get_state x w' = Some
        (if x \<in> set (ps_periph_list s) \<and> \<not> pe_disabled p \<and> pe_state p = PERIPH_STATE_INIT \<and> pe_init p \<noteq> None
         then if r (the (pe_init p)) x = ESP_OK then PERIPH_STATE_RUNNING else PERIPH_STATE_ERROR
         else pe_state p)" if "prs w x = Some p" for x p
    unfolding w'(3) using that by (auto simp: init_view_def init_result_def)
  with w'(1,2) show ?thesis by blast
qed

section \<open>Failures\<close>

text \<open>A timer that could not be started: \<open>esp_periph_start_timer\<close> returns \<open>ESP_FAIL\<close> but keeps the timer, so
  every later call returns \<open>ESP_OK\<close> without starting anything.\<close>

theorem failed_timer_sticks:
  assumes "esp_periph_start_timer P x t f w = Some (ESP_FAIL, w')" and "\<And>u w. prs (snd (xTimerStart P u w)) = prs w"
  shows "esp_periph_start_timer P x t' f' w' = Some (ESP_OK, w')"
proof -
  obtain u w1 where c: "xTimerCreate P t x f w = (u, w1)" by fastforce
  have "\<exists>p0. prs w x = Some p0 \<and> pe_timer p0 = None"
    using assms(1) by (cases "prs w x") (simp_all add: esp_periph_start_timer_def split: if_splits)
  then obtain p0 where p0: "prs w x = Some p0" "pe_timer p0 = None" by blast
  have st: "esp_periph_start_timer P x t f w = do {
      w \<leftarrow> pe_upd x (\<lambda>p. p\<lparr>pe_timer := u\<rparr>) w1; t \<leftarrow> u;
      let (ok, w) = xTimerStart P t w; Some (if ok then ESP_OK else ESP_FAIL, w) }"
    using p0 c by (simp add: esp_periph_start_timer_def)
  obtain w2 where w2: "pe_upd x (\<lambda>p. p\<lparr>pe_timer := u\<rparr>) w1 = Some w2"
    using assms(1) unfolding st by (cases "pe_upd x (\<lambda>p. p\<lparr>pe_timer := u\<rparr>) w1") simp_all
  obtain v where v: "u = Some v" using assms(1) unfolding st w2 by (cases u) simp_all
  obtain ok w3 where w3: "xTimerStart P v w2 = (ok, w3)" by fastforce
  have "w3 = w'" using assms(1) w2 w3 unfolding st v by simp
  then have 2: "xTimerStart P v w2 = (ok, w')" using w3 by simp
  from w2 v obtain p where "prs w2 x = Some p" "pe_timer p = Some v"
    by (auto simp: pe_upd_def split: option.splits)
  then show ?thesis using assms(2)[of v w2] 2 by (simp add: esp_periph_start_timer_def)
qed

text \<open>When the event group or the lock of a new set cannot be created, the failure path of
  \<open>esp_periph_set_init\<close> deletes a \<open>NULL\<close> semaphore or event group.\<close>

theorem set_init_failure_undefined:
  assumes "heap_alloc R 44 w = (Some h, w1)"
    and "xEventGroupCreate R w1 = (None, w2) \<or> xEventGroupCreate R w1 = (Some g, w2) \<and> xSemaphoreCreateMutex R w2 = (None, w3)"
  shows "esp_periph_set_init R P c w = None"
  using assms by (auto simp: esp_periph_set_init_def)

section \<open>Examples\<close>

definition seq_periph_ops :: "'w periph_ops" where
  "seq_periph_ops = \<lparr>gpio_install_isr_service = id, gpio_uninstall_isr_service = id,
     xTimerCreate = (\<lambda>t x f w. (Some 1, w)), xTimerStart = (\<lambda>t w. (False, w)), xTimerStop = (\<lambda>t w. w),
     xTimerDelete = (\<lambda>t w. w), create_periph_task = (\<lambda>h a b c w. (True, w)), call_periph = (\<lambda>f x w. (ESP_OK, w)),
     call_periph_run = (\<lambda>f x m w. (7, w)), call_periph_cb = (\<lambda>f m c w. (ESP_OK, w)), gettimeofday = (\<lambda>w. ((0, 0), w))\<rparr>"

definition ex_periph :: "int \<Rightarrow> bool \<Rightarrow> esp_periph" where
  "ex_periph k dis = \<lparr>pe_tag = None, pe_disabled = dis, pe_periph_id = k, pe_init = Some 4, pe_run = Some 5,
     pe_destroy = None, pe_state = PERIPH_STATE_INIT, pe_source = 0, pe_periph_data = 0, pe_on_evt = None, pe_timer = None\<rparr>"

definition ex_set :: esp_periph_set where
  "ex_set = \<lparr>ps_state_event_bits = 1, ps_lock = 2, ps_task_stack = 4096, ps_task_prio = 5, ps_task_core = 0, ps_run = True,
     ps_event_handle = \<lparr>pv_user_ctx = 0, pv_cb = None, pv_iface = None\<rparr>, ps_periph_list = [11, 12]\<rparr>"

definition ex_pew :: pe_world where
  "ex_pew = \<lparr>rbs = Map.empty, ifs = Map.empty, els = Map.empty, strs = Map.empty,
     prs = [11 \<mapsto> ex_periph 1 True, 12 \<mapsto> ex_periph 2 False, 13 \<mapsto> ex_periph 1 False, 14 \<mapsto> (ex_periph 2 False)\<lparr>pe_state := PERIPH_STATE_RUNNING\<rparr>],
     pss = [9 \<mapsto> ex_set]\<rparr>"

lemmas ex_pe_defs = ex_pew_def ex_set_def ex_periph_def seq_periph_ops_def

lemma ex_periph_env: "periph_env (seq_platform a) (seq_periph_ops :: 'z pew periph_ops)"
  by (simp add: periph_env_def keeps_periphs_def seq_periph_ops_def)

lemma ex_set_inv: "set_inv ex_pew 9"
  by (simp add: set_inv_def id_of_def ex_pe_defs)

text \<open>The set before its task was started, and a peripheral with a new identifier.\<close>

definition ex_idle_pew :: pe_world where
  "ex_idle_pew = ex_pew\<lparr>prs := (prs ex_pew)(15 \<mapsto> ex_periph 3 False), pss := [9 \<mapsto> ex_set\<lparr>ps_run := False\<rparr>]\<rparr>"

definition no_task_ops :: "'w periph_ops" where
  "no_task_ops = seq_periph_ops\<lparr>create_periph_task := (\<lambda>h a b c w. (False, w))\<rparr>"

lemma no_task_env: "periph_env (seq_platform a) (no_task_ops :: 'z pew periph_ops)"
  by (simp add: periph_env_def keeps_periphs_def no_task_ops_def seq_periph_ops_def)

lemma ex_idle_inv: "set_inv ex_idle_pew 9"
  by (simp add: set_inv_def id_of_def ex_idle_pew_def ex_pe_defs)

theorem start_registers_witness:
  "(\<exists>w' s'. esp_periph_start (seq_platform None) seq_periph_ops (Some 9) 15 ex_idle_pew = Some (ESP_OK, w') \<and> pss w' 9 = Some s' \<and>
      ps_periph_list s' = [11, 12, 15] \<and> ps_run s' \<and> set_inv w' 9) \<and>
   (\<exists>w' s'. esp_periph_start (seq_platform None) no_task_ops (Some 9) 15 ex_idle_pew = Some (ESP_FAIL, w') \<and> pss w' 9 = Some s' \<and>
      ps_periph_list s' = [11, 12, 15] \<and> \<not> ps_run s' \<and> set_inv w' 9) \<and>
   (\<exists>w' s'. esp_periph_start (seq_platform None) no_task_ops (Some 9) 13 ex_pew = Some (ESP_OK, w') \<and> pss w' 9 = Some s' \<and>
      ps_periph_list s' = [11, 12] \<and> ps_run s' \<and> set_inv w' 9)"
proof -
  have idle: "pss ex_idle_pew 9 = Some (ex_set\<lparr>ps_run := False\<rparr>)" "prs ex_idle_pew 15 = Some (ex_periph 3 False)"
    by (simp_all add: ex_idle_pew_def)
  have new: "[11, 12, 15] = (if registered ex_idle_pew (ps_periph_list (ex_set\<lparr>ps_run := False\<rparr>)) (pe_periph_id (ex_periph 3 False))
      then ps_periph_list (ex_set\<lparr>ps_run := False\<rparr>) else ps_periph_list (ex_set\<lparr>ps_run := False\<rparr>) @ [15])"
    by (simp add: registered_def id_of_def ex_idle_pew_def ex_pe_defs)
  have run: "pss ex_pew 9 = Some ex_set" "prs ex_pew 13 = Some (ex_periph 1 False)" by (simp_all add: ex_pe_defs)
  have old: "[11, 12] = (if registered ex_pew (ps_periph_list ex_set) (pe_periph_id (ex_periph 1 False))
      then ps_periph_list ex_set else ps_periph_list ex_set @ [13])"
    by (simp add: registered_def id_of_def ex_pe_defs)
  have c: "0 < ps_task_stack ex_set" "ps_run ex_set" by (simp_all add: ex_set_def)
  note t = seq_periph_ops_def no_task_ops_def Let_def c
  show ?thesis
    using start_registers[OF ex_periph_env[of None] ex_idle_inv idle new]
      start_registers[OF no_task_env[of None] ex_idle_inv idle new]
      start_registers[OF no_task_env[of None] ex_set_inv run old]
    by (auto simp: t)
qed

theorem restart_enables_wrong_object_witness:
  "\<exists>w' q. esp_periph_start (seq_platform None) seq_periph_ops (Some 9) 13 ex_pew = Some (ESP_OK, w') \<and>
     prs w' 11 = Some q \<and> pe_disabled q"
proof -
  have "pss ex_pew 9 = Some ex_set" "prs ex_pew 13 = Some (ex_periph 1 False)" "11 \<in> set (ps_periph_list ex_set)"
    "prs ex_pew 11 = Some (ex_periph 1 True)" "pe_periph_id (ex_periph 1 True) = pe_periph_id (ex_periph 1 False)"
    "pe_disabled (ex_periph 1 True)" "13 \<notin> set (ps_periph_list ex_set)" "ps_run ex_set" by (simp_all add: ex_pe_defs)
  from restart_enables_wrong_object[OF ex_periph_env[of None] ex_set_inv this] show ?thesis by (auto simp: ex_periph_def)
qed

theorem dispatch_exactly_running_witness:
  "process_peripheral_event seq_periph_ops (report_msg 1 0 0\<lparr>msg_source := Some 14\<rparr>) 9 ex_pew = Some (7, ex_pew)"
proof -
  have "pss ex_pew 9 = Some ex_set" "\<forall>x \<in> set (ps_periph_list ex_set). prs ex_pew x \<noteq> None"
    "msg_source (report_msg 1 0 0\<lparr>msg_source := Some 14\<rparr>) = Some 14"
    "prs ex_pew 14 = Some ((ex_periph 2 False)\<lparr>pe_state := PERIPH_STATE_RUNNING\<rparr>)" by (simp_all add: ex_pe_defs)
  from dispatch_exactly_running[OF this, of seq_periph_ops] show ?thesis
    by (simp add: registered_def id_of_def ex_pe_defs)
qed

theorem init_pass_settles_witness:
  "\<exists>w'. each_periph (periph_task_visit seq_periph_ops) 9 ex_pew = Some w' \<and>
     esp_periph_get_state 11 w' = Some PERIPH_STATE_INIT \<and> esp_periph_get_state 12 w' = Some PERIPH_STATE_RUNNING"
proof -
  have "init_env (seq_periph_ops :: pe_world periph_ops) (\<lambda>f x. ESP_OK)" by (simp add: init_env_def seq_periph_ops_def)
  moreover have "pss ex_pew 9 = Some ex_set" by (simp add: ex_pe_defs)
  ultimately obtain w' where w': "each_periph (periph_task_visit seq_periph_ops) 9 ex_pew = Some w'"
    "\<forall>x p. prs ex_pew x = Some p \<longrightarrow> esp_periph_get_state x w' = Some
        (if x \<in> set (ps_periph_list ex_set) \<and> \<not> pe_disabled p \<and> pe_state p = PERIPH_STATE_INIT \<and> pe_init p \<noteq> None
         then if ESP_OK = ESP_OK then PERIPH_STATE_RUNNING else PERIPH_STATE_ERROR else pe_state p)"
    using init_pass_settles[OF _ ex_set_inv] by blast
  have "prs ex_pew 11 = Some (ex_periph 1 True)" "prs ex_pew 12 = Some (ex_periph 2 False)" by (simp_all add: ex_pe_defs)
  with w' show ?thesis by (auto simp: ex_set_def ex_periph_def)
qed

theorem failed_timer_sticks_witness:
  "\<exists>w'. esp_periph_start_timer seq_periph_ops 12 10 3 ex_pew = Some (ESP_FAIL, w') \<and>
     esp_periph_start_timer seq_periph_ops 12 10 3 w' = Some (ESP_OK, w')"
proof -
  have "\<exists>w'. esp_periph_start_timer seq_periph_ops 12 10 3 ex_pew = Some (ESP_FAIL, w')"
    by (simp add: esp_periph_start_timer_def ex_pe_defs)
  then show ?thesis using failed_timer_sticks[of seq_periph_ops 12 10 3 ex_pew] by (auto simp: seq_periph_ops_def)
qed

theorem set_init_failure_undefined_witness:
  "esp_periph_set_init (seq_platform (Some 1)\<lparr>xEventGroupCreate := \<lambda>w. (None, w)\<rparr>) seq_periph_ops
     \<lparr>pc_task_stack = 4096, pc_task_prio = 5, pc_task_core = 0\<rparr> ex_pew = None"
  by (rule set_init_failure_undefined[of _ _ 1 ex_pew]) (simp_all add: seq_platform_def)

end
