(* ===== verification/Buttons.thy ===== *)
theory Buttons
  imports Platform
begin

text \<open>
  The detectors behind the button and touch peripherals (\<open>components/esp_peripherals/lib/button/button.c\<close> and
  \<open>lib/touch/touch.c\<close>): from levels or pad readings and a clock they derive presses, long presses and releases.
  The items of a detector are its list entries; a detector is passed and returned as a value. The drivers and the
  clock are the parameter \<open>B\<close>.
\<close>

section \<open>Drivers and the clock\<close>

record 'w pad_ops =
  time_of_day :: "'w \<Rightarrow> (int \<times> int) \<times> 'w"
  gpio_get_level :: "int \<Rightarrow> 'w \<Rightarrow> int \<times> 'w"
  gpio_config :: "u64 \<Rightarrow> 'w \<Rightarrow> 'w"
  gpio_set_intr_type :: "int \<Rightarrow> 'w \<Rightarrow> 'w"
  gpio_isr_handler_add :: "int \<Rightarrow> fnptr \<Rightarrow> addr \<Rightarrow> 'w \<Rightarrow> 'w"
  gpio_isr_handler_remove :: "int \<Rightarrow> 'w \<Rightarrow> 'w"
  gpio_intr_enable :: "int \<Rightarrow> 'w \<Rightarrow> 'w"
  gpio_intr_disable :: "int \<Rightarrow> 'w \<Rightarrow> 'w"
  touch_pad_init :: "'w \<Rightarrow> esp_err \<times> 'w"
  touch_pad_deinit :: "'w \<Rightarrow> 'w"
  touch_pad_config :: "int \<Rightarrow> u32 \<Rightarrow> 'w \<Rightarrow> 'w"
  touch_pad_set_thresh :: "int \<Rightarrow> u32 \<Rightarrow> 'w \<Rightarrow> 'w"
  touch_pad_isr_register :: "'w \<Rightarrow> 'w"
  touch_pad_isr_deregister :: "'w \<Rightarrow> 'w"
  touch_pad_intr_enable :: "'w \<Rightarrow> 'w"
  touch_pad_intr_disable :: "'w \<Rightarrow> 'w"
  touch_pad_filter_start :: "u32 \<Rightarrow> 'w \<Rightarrow> 'w"
  touch_pad_filter_delete :: "'w \<Rightarrow> 'w"
  touch_pad_clear_status :: "'w \<Rightarrow> 'w"
  touch_pad_read_filtered :: "int \<Rightarrow> 'w \<Rightarrow> (esp_err \<times> 16 word option) \<times> 'w"
  call_intr :: "fnptr \<Rightarrow> addr \<Rightarrow> 'w \<Rightarrow> 'w"

text \<open>Milliseconds of the time of day.\<close>

definition tick_get :: "'w pad_ops \<Rightarrow> 'w \<Rightarrow> int \<times> 'w" where
  "tick_get B w = (let ((sec, usec), w) = time_of_day B w in (sec * 1000 + usec div 1000, w))"

section \<open>Buttons\<close>

datatype button_status = BTN_UNCHANGE | BTN_PRESSED | BTN_RELEASE | BTN_LONG_PRESS | BTN_LONG_RELEASE

record button_result =
  press_mask :: u64
  release_mask :: u64
  long_press_mask :: u64
  long_release_mask :: u64

record button_config =
  bc_long_press_time_ms :: int
  bc_gpio_mask :: u64
  bc_button_intr_handler :: "fnptr option"
  bc_intr_context :: addr

record esp_button_item =
  bi_gpio_num :: int
  bi_last_press_tick :: int
  bi_long_pressed :: bool

record esp_button =
  eb_long_press_time_ms :: int
  eb_gpio_mask :: u64
  eb_btn_list :: "esp_button_item list"

definition DEFAULT_LONG_PRESS_TIME_MS :: int where "DEFAULT_LONG_PRESS_TIME_MS = 2 * 1000"

text \<open>The clock is read only where the conditions evaluate it.\<close>

definition button_get_state ::
  "'w pad_ops \<Rightarrow> esp_button \<Rightarrow> esp_button_item \<Rightarrow> 'w \<Rightarrow> button_status \<times> esp_button_item \<times> 'w" where
  "button_get_state B button item w =
     (let (level, w) = gpio_get_level B (bi_gpio_num item) w in
      if bi_last_press_tick item = 0 \<and> level = 0 then
        (let (t, w) = tick_get B w in
         (BTN_PRESSED, item\<lparr>bi_last_press_tick := t, bi_long_pressed := False\<rparr>, w))
      else if level = 1 \<and> bi_last_press_tick item \<noteq> 0 then
        (let (t, w) = tick_get B w;
             item' = item\<lparr>bi_last_press_tick := 0, bi_long_pressed := False\<rparr> in
         if t - bi_last_press_tick item > eb_long_press_time_ms button then (BTN_LONG_RELEASE, item', w)
         else (BTN_RELEASE, item', w))
      else if \<not> bi_long_pressed item \<and> level = 0 then
        (let (t, w) = tick_get B w in
         if t - bi_last_press_tick item > eb_long_press_time_ms button
         then (BTN_LONG_PRESS, item\<lparr>bi_long_pressed := True\<rparr>, w) else (BTN_UNCHANGE, item, w))
      else (BTN_UNCHANGE, item, w))"

definition button_destroy_items :: "'w pad_ops \<Rightarrow> esp_button_item list \<Rightarrow> 'w \<Rightarrow> 'w" where
  "button_destroy_items B items w =
     fold (\<lambda>it w. gpio_isr_handler_remove B (bi_gpio_num it) (gpio_intr_disable B (bi_gpio_num it) w)) items w"

definition button_destroy :: "'w pad_ops \<Rightarrow> esp_button \<Rightarrow> 'w \<Rightarrow> esp_err \<times> 'w" where
  "button_destroy B button w = (ESP_OK, button_destroy_items B (eb_btn_list button) w)"

lemma half_word_less: "m \<noteq> 0 \<Longrightarrow> unat (drop_bit (Suc 0) m) < unat (m :: 'a :: len word)"
  by (subst unat_drop_bit_eq, subst drop_bit_eq_div, rule div_less_dividend) (simp_all add: unat_gt_0)

text \<open>The loop over the mask: \<open>None\<close> when an item cannot be allocated.\<close>

function button_init_loop ::
  "'w platform \<Rightarrow> 'w pad_ops \<Rightarrow> button_config \<Rightarrow> u64 \<Rightarrow> int \<Rightarrow> esp_button_item list \<Rightarrow> 'w
     \<Rightarrow> (esp_button_item list option) \<times> 'w" where
  "button_init_loop R B config msk gpio_num items w =
     (if msk = 0 then (Some items, w)
      else if msk AND 1 \<noteq> 0 then
        (case heap_alloc R 24 w of
           (None, w) \<Rightarrow> (None, button_destroy_items B items w)
         | (Some _, w) \<Rightarrow>
             (let w = (case bc_button_intr_handler config of None \<Rightarrow> w
                  | Some f \<Rightarrow> gpio_intr_enable B gpio_num (gpio_isr_handler_add B gpio_num f (bc_intr_context config)
                                (gpio_set_intr_type B gpio_num w))) in
              button_init_loop R B config (drop_bit 1 msk) (gpio_num + 1)
                (items @ [\<lparr>bi_gpio_num = gpio_num, bi_last_press_tick = 0, bi_long_pressed = False\<rparr>]) w))
      else button_init_loop R B config (drop_bit 1 msk) (gpio_num + 1) items w)"
  by pat_completeness auto
termination
  by (relation "measure (\<lambda>(_, _, _, msk, _, _, _). unat msk)") (auto simp: half_word_less)

declare button_init_loop.simps [simp del]

definition button_init ::
  "'w platform \<Rightarrow> 'w pad_ops \<Rightarrow> button_config \<Rightarrow> 'w \<Rightarrow> esp_button option \<times> 'w" where
  "button_init R B config w =
     (case heap_alloc R 24 w of
        (None, w) \<Rightarrow> (None, w)
      | (Some _, w) \<Rightarrow>
          if bc_gpio_mask config \<le> 0 then (None, w)
          else (case button_init_loop R B config (bc_gpio_mask config) 0 [] (gpio_config B (bc_gpio_mask config) w) of
             (None, w) \<Rightarrow> (None, w)
           | (Some items, w) \<Rightarrow> (Some
               \<lparr>eb_long_press_time_ms = (if bc_long_press_time_ms config = 0 then DEFAULT_LONG_PRESS_TIME_MS
                                         else bc_long_press_time_ms config),
                eb_gpio_mask = bc_gpio_mask config, eb_btn_list = items\<rparr>, w)))"

text \<open>Entering a status of the button on \<open>gpio_num\<close> into the result.\<close>

definition add_status :: "button_status \<Rightarrow> int \<Rightarrow> button_result \<Rightarrow> button_result" where
  "add_status st gpio_num r =
     (let tmp = push_bit (nat gpio_num) 1 in
      case st of
        BTN_UNCHANGE \<Rightarrow> r
      | BTN_PRESSED \<Rightarrow> r\<lparr>press_mask := press_mask r OR tmp\<rparr>
      | BTN_RELEASE \<Rightarrow> r\<lparr>release_mask := release_mask r OR tmp\<rparr>
      | BTN_LONG_RELEASE \<Rightarrow> r\<lparr>long_release_mask := long_release_mask r OR tmp\<rparr>
      | BTN_LONG_PRESS \<Rightarrow> r\<lparr>long_press_mask := long_press_mask r OR tmp\<rparr>)"

fun button_read_loop ::
  "'w pad_ops \<Rightarrow> esp_button \<Rightarrow> esp_button_item list \<Rightarrow> bool \<Rightarrow> button_result \<Rightarrow> 'w
     \<Rightarrow> (bool \<times> button_result \<times> esp_button_item list) \<times> 'w" where
  "button_read_loop B button [] changed r w = ((changed, r, []), w)"
| "button_read_loop B button (it # its) changed r w =
     (let (st, it, w) = button_get_state B button it w;
          ((changed, r, its), w) = button_read_loop B button its (changed \<or> st \<noteq> BTN_UNCHANGE) (add_status st (bi_gpio_num it) r) w
      in ((changed, r, it # its), w))"

definition button_result_zero :: button_result where
  "button_result_zero = \<lparr>press_mask = 0, release_mask = 0, long_press_mask = 0, long_release_mask = 0\<rparr>"

definition button_read :: "'w pad_ops \<Rightarrow> esp_button \<Rightarrow> 'w \<Rightarrow> (bool \<times> button_result \<times> esp_button) \<times> 'w" where
  "button_read B button w =
     (let ((changed, r, items), w) = button_read_loop B button (eb_btn_list button) False button_result_zero w
      in ((changed, r, button\<lparr>eb_btn_list := items\<rparr>), w))"

section \<open>Touch pads\<close>

datatype touch_status = TOUCH_UNCHANGE | TOUCH_TAP | TOUCH_RELEASE | TOUCH_LONG_TAP | TOUCH_LONG_RELEASE

record touch_result =
  tap_mask :: u32
  t_release_mask :: u32
  long_tap_mask :: u32
  t_long_release_mask :: u32

record touch_config =
  tc_long_tap_time_ms :: int
  tc_touch_mask :: int
  tc_tap_threshold_percent :: int
  tc_touch_intr_handler :: "fnptr option"
  tc_intr_context :: addr

record esp_touch_item =
  ti_touch_num :: int
  ti_last_tap_tick :: int
  ti_update_threshold_tick :: int
  ti_last_read_tick :: int
  ti_last_read_value :: "16 word"
  ti_untouch_value :: "16 word"
  ti_threshold_value :: "16 word"
  ti_long_tapped :: bool
  ti_tapped :: bool

record esp_touch =
  et_long_tap_time_ms :: int
  et_touch_mask :: int
  et_tap_threshold_percent :: int
  et_intr_fn :: "fnptr option"
  et_intr_context :: addr
  et_touch_list :: "esp_touch_item list"

definition TOUCHPAD_READ_INTERVAL_MS :: int where "TOUCHPAD_READ_INTERVAL_MS = 30 * 4"
definition UPDATE_THRESHOLD_PERIOD_MS :: int where "UPDATE_THRESHOLD_PERIOD_MS = 200"

definition touch_pad_isr_handler :: "'w pad_ops \<Rightarrow> esp_touch \<Rightarrow> 'w \<Rightarrow> 'w" where
  "touch_pad_isr_handler B touch w =
     (let w = touch_pad_clear_status B w in
      case et_intr_fn touch of None \<Rightarrow> w | Some f \<Rightarrow> call_intr B f (et_intr_context touch) w)"

text \<open>\<open>untouch_value * percent / 100\<close> in \<open>int\<close>, with C's division towards zero, stored in 16 bits.\<close>

definition touch_threshold :: "16 word \<Rightarrow> int \<Rightarrow> 16 word" where
  "touch_threshold untouch percent =
     (let n = uint untouch * percent in word_of_int (if n < 0 then - ((- n) div 100) else n div 100))"

text \<open>\<open>untouch_value += last_read_value; untouch_value /= 2;\<close> in 16 bits.\<close>

definition touch_average :: "16 word \<Rightarrow> 16 word \<Rightarrow> 16 word" where
  "touch_average untouch read = (untouch + read) div 2"

text \<open>The reading part of \<open>touch_get_state\<close>: the item after a reading, its threshold and its tapped flag. A
  failed read may still have stored a value.\<close>

definition touch_update :: "esp_touch \<Rightarrow> int \<Rightarrow> 16 word \<Rightarrow> esp_touch_item \<Rightarrow> esp_touch_item" where
  "touch_update touch tick val item =
     (let item = item\<lparr>ti_last_read_value := val\<rparr>;
          item = (if ti_untouch_value item = 0
                  then item\<lparr>ti_untouch_value := val, ti_threshold_value := touch_threshold val (et_tap_threshold_percent touch)\<rparr>
                  else item);
          item = (if \<not> ti_tapped item \<and> val < ti_threshold_value item then item\<lparr>ti_tapped := True\<rparr>
                  else if ti_tapped item \<and> val > ti_threshold_value item then item\<lparr>ti_tapped := False\<rparr>
                  else item) in
      if tick - ti_update_threshold_tick item > UPDATE_THRESHOLD_PERIOD_MS \<and> \<not> ti_tapped item
      then (let u = touch_average (ti_untouch_value item) val in
            item\<lparr>ti_update_threshold_tick := tick, ti_untouch_value := u,
                  ti_threshold_value := touch_threshold u (et_tap_threshold_percent touch)\<rparr>)
      else item)"

text \<open>The deciding part, which reads the clock where its conditions evaluate it.\<close>

definition touch_decide :: "'w pad_ops \<Rightarrow> esp_touch \<Rightarrow> esp_touch_item \<Rightarrow> 'w \<Rightarrow> touch_status \<times> esp_touch_item \<times> 'w" where
  "touch_decide B touch item w =
     (if ti_last_tap_tick item = 0 \<and> ti_tapped item then
        (let (t, w) = tick_get B w in
         (TOUCH_TAP, item\<lparr>ti_last_tap_tick := t, ti_long_tapped := False\<rparr>, w))
      else if \<not> ti_tapped item \<and> ti_last_tap_tick item \<noteq> 0 then
        (let (t, w) = tick_get B w;
             item' = item\<lparr>ti_last_tap_tick := 0, ti_long_tapped := False\<rparr> in
         if t - ti_last_tap_tick item > et_long_tap_time_ms touch then (TOUCH_LONG_RELEASE, item', w)
         else (TOUCH_RELEASE, item', w))
      else if \<not> ti_long_tapped item \<and> ti_tapped item then
        (let (t, w) = tick_get B w in
         if t - ti_last_tap_tick item > et_long_tap_time_ms touch
         then (TOUCH_LONG_TAP, item\<lparr>ti_long_tapped := True\<rparr>, w) else (TOUCH_UNCHANGE, item, w))
      else (TOUCH_UNCHANGE, item, w))"

definition touch_get_state ::
  "'w pad_ops \<Rightarrow> esp_touch \<Rightarrow> esp_touch_item \<Rightarrow> int \<Rightarrow> 'w \<Rightarrow> touch_status \<times> esp_touch_item \<times> 'w" where
  "touch_get_state B touch item tick w =
     (if tick - ti_last_read_tick item < TOUCHPAD_READ_INTERVAL_MS then (TOUCH_UNCHANGE, item, w)
      else
        (let item = item\<lparr>ti_last_read_tick := tick\<rparr>;
             ((err, v), w) = touch_pad_read_filtered B (ti_touch_num item) w;
             val = (case v of None \<Rightarrow> ti_last_read_value item | Some v \<Rightarrow> v) in
         if err \<noteq> ESP_OK then (TOUCH_UNCHANGE, item\<lparr>ti_last_read_value := val\<rparr>, w)
         else touch_decide B touch (touch_update touch tick val item) w))"

definition add_touch_status :: "touch_status \<Rightarrow> int \<Rightarrow> touch_result \<Rightarrow> touch_result" where
  "add_touch_status st touch_num r =
     (let tmp = push_bit (nat touch_num) 1 in
      case st of
        TOUCH_UNCHANGE \<Rightarrow> r
      | TOUCH_TAP \<Rightarrow> r\<lparr>tap_mask := tap_mask r OR tmp\<rparr>
      | TOUCH_RELEASE \<Rightarrow> r\<lparr>t_release_mask := t_release_mask r OR tmp\<rparr>
      | TOUCH_LONG_RELEASE \<Rightarrow> r\<lparr>t_long_release_mask := t_long_release_mask r OR tmp\<rparr>
      | TOUCH_LONG_TAP \<Rightarrow> r\<lparr>long_tap_mask := long_tap_mask r OR tmp\<rparr>)"

fun touch_read_loop ::
  "'w pad_ops \<Rightarrow> esp_touch \<Rightarrow> int \<Rightarrow> esp_touch_item list \<Rightarrow> bool \<Rightarrow> touch_result \<Rightarrow> 'w
     \<Rightarrow> (bool \<times> touch_result \<times> esp_touch_item list) \<times> 'w" where
  "touch_read_loop B touch tick [] changed r w = ((changed, r, []), w)"
| "touch_read_loop B touch tick (it # its) changed r w =
     (let (st, it, w) = touch_get_state B touch it tick w;
          ((changed, r, its), w) =
             touch_read_loop B touch tick its (changed \<or> st \<noteq> TOUCH_UNCHANGE) (add_touch_status st (ti_touch_num it) r) w
      in ((changed, r, it # its), w))"

definition esp_touch_read :: "'w pad_ops \<Rightarrow> esp_touch \<Rightarrow> 'w \<Rightarrow> (bool \<times> touch_result \<times> esp_touch) \<times> 'w" where
  "esp_touch_read B touch w =
     (let (tick, w) = tick_get B w;
          ((changed, r, items), w) = touch_read_loop B touch tick (et_touch_list touch) False
             \<lparr>tap_mask = 0, t_release_mask = 0, long_tap_mask = 0, t_long_release_mask = 0\<rparr> w
      in ((changed, r, touch\<lparr>et_touch_list := items\<rparr>), w))"

definition esp_touch_destroy :: "'w pad_ops \<Rightarrow> 'w \<Rightarrow> esp_err \<times> 'w" where
  "esp_touch_destroy B w =
     (ESP_OK, touch_pad_deinit B (touch_pad_isr_deregister B (touch_pad_intr_disable B (touch_pad_filter_delete B w))))"

text \<open>The loop over the mask, which is positive. When an item cannot be allocated, \<open>esp_touch_destroy\<close> frees the
  detector and the caller frees it again, which is undefined.\<close>

function touch_init_loop ::
  "'w platform \<Rightarrow> 'w pad_ops \<Rightarrow> touch_config \<Rightarrow> nat \<Rightarrow> int \<Rightarrow> int \<Rightarrow> esp_touch_item list \<Rightarrow> 'w
     \<Rightarrow> (esp_touch_item list \<times> 'w) option" where
  "touch_init_loop R B config msk touch_num touch_index items w =
     (if msk = 0 then Some (items, w)
      else if odd msk then
        (case heap_alloc R 48 w of
           (None, w) \<Rightarrow> None
         | (Some _, w) \<Rightarrow>
             (let (t, w) = tick_get B w;
                  w = touch_pad_config B touch_num 0 w;
                  w = (if tc_touch_intr_handler config \<noteq> None then touch_pad_set_thresh B touch_num 100 w else w) in
              touch_init_loop R B config (msk div 2) (touch_num + 1) (touch_index + 1)
                (items @ [\<lparr>ti_touch_num = touch_num, ti_last_tap_tick = 0, ti_update_threshold_tick = 0,
                           ti_last_read_tick = t + touch_index * 10, ti_last_read_value = 0, ti_untouch_value = 0,
                           ti_threshold_value = 0, ti_long_tapped = False, ti_tapped = False\<rparr>]) w))
      else touch_init_loop R B config (msk div 2) (touch_num + 1) touch_index items w)"
  by pat_completeness auto
termination
  by (relation "measure (\<lambda>(_, _, _, msk, _, _, _, _). msk)") auto

declare touch_init_loop.simps [simp del]

definition esp_touch_init ::
  "'w platform \<Rightarrow> 'w pad_ops \<Rightarrow> touch_config \<Rightarrow> 'w \<Rightarrow> (esp_touch option \<times> 'w) option" where
  "esp_touch_init R B config w =
     (case heap_alloc R 28 w of
        (None, w) \<Rightarrow> Some (None, w)
      | (Some _, w) \<Rightarrow>
          if tc_touch_mask config \<le> 0 then Some (None, w)
          else (case touch_pad_init B w of
             (err, w) \<Rightarrow> if err \<noteq> ESP_OK then Some (None, w)
               else do {
                 (items, w) \<leftarrow> touch_init_loop R B config (nat (tc_touch_mask config)) 0 0 [] w;
                 let w = (if tc_touch_intr_handler config \<noteq> None
                          then touch_pad_intr_enable B (touch_pad_isr_register B w) else w);
                 let w = touch_pad_filter_start B 30 w;
                 Some (Some \<lparr>et_long_tap_time_ms = (if tc_long_tap_time_ms config = 0 then 2 * 1000
                                                     else tc_long_tap_time_ms config),
                   et_touch_mask = tc_touch_mask config,
                   et_tap_threshold_percent = (if tc_tap_threshold_percent config = 0 then 70
                                               else tc_tap_threshold_percent config),
                   et_intr_fn = tc_touch_intr_handler config, et_intr_context = tc_intr_context config,
                   et_touch_list = items\<rparr>, w)
               }))"

end
