(* ===== verification/Buttons_Correct.thy ===== *)
theory Buttons_Correct
  imports Buttons
begin

text \<open>
  Correctness of the button and touch detectors. Both are press detectors: whatever the readings and the clock,
  the events of one button or pad are a sequence of presses, each followed by at most one long press and then by
  one release. Further, the items a mask creates, the masks a read reports, and the moving average of a pad.
\<close>

section \<open>Press detectors\<close>

datatype press_event = Nothing | Press | Release | Long_Press | Long_Release

datatype phase = Up | Down | Held

fun next_phase :: "phase \<Rightarrow> press_event \<Rightarrow> phase option" where
  "next_phase p Nothing = Some p"
| "next_phase Up Press = Some Down"
| "next_phase Down Long_Press = Some Held"
| "next_phase Down Release = Some Up"
| "next_phase Down Long_Release = Some Up"
| "next_phase Held Release = Some Up"
| "next_phase Held Long_Release = Some Up"
| "next_phase _ _ = None"

text \<open>The phase after a sequence of events, if the events can follow each other.\<close>

fun phases :: "phase \<Rightarrow> press_event list \<Rightarrow> phase option" where
  "phases p [] = Some p"
| "phases p (e # es) = do { p \<leftarrow> next_phase p e; phases p es }"

lemma phases_append: "phases p (es @ fs) = do { q \<leftarrow> phases p es; phases q fs }"
  by (induction es arbitrary: p) (auto split: bind_splits)

text \<open>An accepted sequence has as many releases as presses, or one fewer while a press lasts, and no more long
  presses than presses.\<close>

lemma phases_counts:
  "phases Up es = Some p \<Longrightarrow>
   length (filter (\<lambda>e. e = Press) es) = length (filter (\<lambda>e. e = Release \<or> e = Long_Release) es) + (if p = Up then 0 else 1) \<and>
   length (filter (\<lambda>e. e = Long_Press) es) + (if p = Down then 1 else 0) \<le> length (filter (\<lambda>e. e = Press) es)"
proof (induction es arbitrary: p rule: rev_induct)
  case (snoc e es)
  then obtain q where q: "phases Up es = Some q" "next_phase q e = Some p"
    by (auto simp: phases_append bind_eq_Some_conv)
  with snoc.IH[OF q(1)] show ?case by (cases q; cases e) auto
qed simp

locale press_detector =
  fixes up :: "'s \<Rightarrow> bool" and long :: "'s \<Rightarrow> bool" and trans :: "'s \<Rightarrow> 'e \<Rightarrow> 's \<Rightarrow> bool" and kind :: "'e \<Rightarrow> press_event"
  assumes idle: "trans s e s' \<Longrightarrow> kind e = Nothing \<Longrightarrow> up s' = up s \<and> long s' = long s"
    and press: "trans s e s' \<Longrightarrow> kind e = Press \<Longrightarrow> up s \<and> \<not> up s' \<and> \<not> long s'"
    and release: "trans s e s' \<Longrightarrow> kind e = Release \<or> kind e = Long_Release \<Longrightarrow> \<not> up s \<and> up s'"
    and long_press: "trans s e s' \<Longrightarrow> kind e = Long_Press \<Longrightarrow> \<not> up s \<and> \<not> long s \<and> \<not> up s' \<and> long s'"
begin

inductive runs :: "'s \<Rightarrow> 'e list \<Rightarrow> 's \<Rightarrow> bool" where
  runs_Nil: "runs s [] s"
| runs_Cons: "trans s e s1 \<Longrightarrow> runs s1 es s' \<Longrightarrow> runs s (e # es) s'"

definition phase_of :: "'s \<Rightarrow> phase" where
  "phase_of s = (if up s then Up else if long s then Held else Down)"

lemma step_phase:
  assumes "trans s e s'"
  shows "next_phase (phase_of s) (kind e) = Some (phase_of s')"
proof (cases "kind e")
  case Nothing
  then have "up s' = up s" "long s' = long s" using idle[OF assms] by blast+
  then show ?thesis using Nothing by (simp add: phase_of_def)
qed (use press[OF assms] release[OF assms] long_press[OF assms] in \<open>auto simp: phase_of_def\<close>)

lemma runs_phases: "runs s es s' \<Longrightarrow> phases (phase_of s) (map kind es) = Some (phase_of s')"
  by (induction rule: runs.induct) (simp_all add: step_phase)

end

section \<open>Both detectors are press detectors\<close>

text \<open>The clock never reads zero, the value that marks a released button.\<close>

definition clock_positive :: "'w pad_ops \<Rightarrow> bool" where
  "clock_positive B \<longleftrightarrow> (\<forall>w. 0 < fst (tick_get B w))"

definition ticks :: "'w pad_ops \<Rightarrow> int \<Rightarrow> bool" where
  "ticks B t \<longleftrightarrow> (\<exists>w w'. tick_get B w = (t, w'))"

lemma clock_positiveD: "clock_positive B \<Longrightarrow> ticks B t \<Longrightarrow> 0 < t"
  unfolding clock_positive_def ticks_def by (metis fst_conv)


fun touch_kind :: "touch_status \<Rightarrow> press_event" where
  "touch_kind TOUCH_UNCHANGE = Nothing"
| "touch_kind TOUCH_TAP = Press"
| "touch_kind TOUCH_RELEASE = Release"
| "touch_kind TOUCH_LONG_TAP = Long_Press"
| "touch_kind TOUCH_LONG_RELEASE = Long_Release"


definition touch_trans :: "'w pad_ops \<Rightarrow> esp_touch_item \<Rightarrow> touch_status \<Rightarrow> esp_touch_item \<Rightarrow> bool" where
  "touch_trans B it st it' \<longleftrightarrow> clock_positive B \<and> (\<exists>tp tick w w'. touch_get_state B tp it tick w = (st, it', w'))"


lemma touch_update_keeps [simp]:
  "ti_last_tap_tick (touch_update tp tick v it) = ti_last_tap_tick it"
  "ti_long_tapped (touch_update tp tick v it) = ti_long_tapped it"
  by (simp_all add: touch_update_def Let_def)

definition pad_event :: "'w pad_ops \<Rightarrow> esp_touch_item \<Rightarrow> touch_status \<Rightarrow> esp_touch_item \<Rightarrow> bool" where
  "pad_event B it st it' \<longleftrightarrow>
    (st = TOUCH_TAP \<and> ti_last_tap_tick it = 0 \<and> \<not> ti_long_tapped it' \<and> ticks B (ti_last_tap_tick it')) \<or>
    ((st = TOUCH_RELEASE \<or> st = TOUCH_LONG_RELEASE) \<and> ti_last_tap_tick it \<noteq> 0 \<and> ti_last_tap_tick it' = 0) \<or>
    (st = TOUCH_LONG_TAP \<and> ti_last_tap_tick it \<noteq> 0 \<and> \<not> ti_long_tapped it \<and> ti_last_tap_tick it' = ti_last_tap_tick it \<and> ti_long_tapped it') \<or>
    (st = TOUCH_UNCHANGE \<and> ti_last_tap_tick it' = ti_last_tap_tick it \<and> ti_long_tapped it' = ti_long_tapped it)"

lemma decide_cases:
  assumes "touch_decide B tp it w = (st, it', w')"
  shows "pad_event B it st it'"
proof -
  obtain t w2 where t: "tick_get B w = (t, w2)" by fastforce
  then have ex: "ticks B t" unfolding ticks_def by blast
  show ?thesis using assms ex unfolding touch_decide_def Let_def t prod.case
    by (cases "ti_last_tap_tick it = 0"; cases "ti_tapped it") (auto simp: pad_event_def split: if_splits)
qed

lemma get_state_decides:
  assumes "touch_get_state B tp it tick w = (st, it', w')"
  shows "(st = TOUCH_UNCHANGE \<and> ti_last_tap_tick it' = ti_last_tap_tick it \<and> ti_long_tapped it' = ti_long_tapped it) \<or>
     (\<exists>j w1. ti_last_tap_tick j = ti_last_tap_tick it \<and> ti_long_tapped j = ti_long_tapped it \<and>
        touch_decide B tp j w1 = (st, it', w'))"
proof -
  obtain e v w1 where r: "touch_pad_read_filtered B (ti_touch_num it) w = ((e, v), w1)" by (metis prod.exhaust)
  let ?val = "case v of None \<Rightarrow> ti_last_read_value it | Some v \<Rightarrow> v"
  let ?j = "touch_update tp tick ?val (it\<lparr>ti_last_read_tick := tick\<rparr>)"
  have "touch_get_state B tp it tick w =
     (if tick - ti_last_read_tick it < TOUCHPAD_READ_INTERVAL_MS then (TOUCH_UNCHANGE, it, w)
      else if e \<noteq> ESP_OK then (TOUCH_UNCHANGE, it\<lparr>ti_last_read_tick := tick, ti_last_read_value := ?val\<rparr>, w1)
      else touch_decide B tp ?j w1)"
    by (cases v) (simp_all add: touch_get_state_def r Let_def)
  then show ?thesis using assms by (auto split: if_splits intro!: exI[of _ ?j])
qed

lemma touch_cases:
  assumes "touch_get_state B tp it tick w = (st, it', w')"
  shows "pad_event B it st it'"
  using get_state_decides[OF assms]
proof (elim disjE exE conjE)
  fix j w1
  assume j: "ti_last_tap_tick j = ti_last_tap_tick it" "ti_long_tapped j = ti_long_tapped it"
    and d: "touch_decide B tp j w1 = (st, it', w')"
  from decide_cases[OF d] show ?thesis unfolding pad_event_def j .
qed (simp add: pad_event_def)


lemma touch_transD:
  assumes "touch_trans B it st it'"
  shows "(st = TOUCH_TAP \<and> ti_last_tap_tick it = 0 \<and> \<not> ti_long_tapped it' \<and> ti_last_tap_tick it' \<noteq> 0) \<or>
    ((st = TOUCH_RELEASE \<or> st = TOUCH_LONG_RELEASE) \<and> ti_last_tap_tick it \<noteq> 0 \<and> ti_last_tap_tick it' = 0) \<or>
    (st = TOUCH_LONG_TAP \<and> ti_last_tap_tick it \<noteq> 0 \<and> \<not> ti_long_tapped it \<and> ti_last_tap_tick it' = ti_last_tap_tick it \<and> ti_long_tapped it') \<or>
    (st = TOUCH_UNCHANGE \<and> ti_last_tap_tick it' = ti_last_tap_tick it \<and> ti_long_tapped it' = ti_long_tapped it)"
proof -
  from assms obtain tp tick w w' where "clock_positive B" "touch_get_state B tp it tick w = (st, it', w')"
    unfolding touch_trans_def by blast
  from touch_cases[OF this(2)] show ?thesis
    unfolding pad_event_def by (auto dest: clock_positiveD[OF \<open>clock_positive B\<close>])
qed


interpretation pad: press_detector "\<lambda>it. ti_last_tap_tick it = 0" ti_long_tapped "touch_trans B" touch_kind for B :: "'w pad_ops"
  by unfold_locales (auto dest!: touch_transD)

section \<open>Events of one button or pad\<close>


fun pad_polls :: "'w pad_ops \<Rightarrow> esp_touch \<Rightarrow> int list \<Rightarrow> esp_touch_item \<Rightarrow> 'w \<Rightarrow> touch_status list \<times> esp_touch_item \<times> 'w" where
  "pad_polls B tp [] it w = ([], it, w)"
| "pad_polls B tp (t # ts) it w =
     (let (st, it, w) = touch_get_state B tp it t w; (sts, it, w) = pad_polls B tp ts it w in (st # sts, it, w))"


lemma pad_polls_run:
  fixes B :: "'w pad_ops"
  assumes "clock_positive B"
  shows "pad_polls B tp ts it w = (sts, it', w') \<Longrightarrow> pad.runs TYPE('w) B it sts it'"
proof (induction ts arbitrary: it w sts it' w')
  case Nil
  then show ?case by (auto intro: pad.runs.intros)
next
  case (Cons t ts)
  obtain st it1 w1 where 1: "touch_get_state B tp it t w = (st, it1, w1)" by (metis prod.exhaust)
  obtain sts2 it2 w2 where 2: "pad_polls B tp ts it1 w1 = (sts2, it2, w2)" by (metis prod.exhaust)
  have "touch_trans B it st it1" using assms 1 unfolding touch_trans_def by blast
  with Cons.IH[OF 2] Cons.prems 1 2 show ?case by (auto intro: pad.runs.intros)
qed


text \<open>The events of a touch pad alternate in the same way, whatever values it reads.\<close>

theorem touch_events_alternate:
  fixes B :: "'w pad_ops"
  assumes "clock_positive B" "ti_last_tap_tick it = 0" "pad_polls B tp ts it w = (sts, it', w')"
  shows "(\<exists>p. phases Up (map touch_kind sts) = Some p \<and> (p = Up \<longleftrightarrow> ti_last_tap_tick it' = 0)) \<and>
     length (filter (\<lambda>st. st = TOUCH_TAP) sts) =
       length (filter (\<lambda>st. st = TOUCH_RELEASE \<or> st = TOUCH_LONG_RELEASE) sts) + (if ti_last_tap_tick it' = 0 then 0 else 1)"
proof -
  have ph: "phases Up (map touch_kind sts) = Some (pad.phase_of it')"
    using pad.runs_phases[OF pad_polls_run[OF assms(1,3)]] assms(2) by (simp add: pad.phase_of_def)
  have k: "touch_kind st = Press \<longleftrightarrow> st = TOUCH_TAP"
    "touch_kind st = Release \<or> touch_kind st = Long_Release \<longleftrightarrow> st = TOUCH_RELEASE \<or> st = TOUCH_LONG_RELEASE" for st
    by (cases st; simp)+
  show ?thesis using ph phases_counts[OF ph]
    by (auto simp: filter_map comp_def k pad.phase_of_def split: if_splits)
qed

section \<open>Creating and reading a detector\<close>

text \<open>The positions of the set bits, from the lowest.\<close>

definition set_bits :: "u64 \<Rightarrow> nat list" where
  "set_bits m = filter (bit m) [0..<64]"

lemma set_bits_step: "set_bits m = (if odd m then [0] else []) @ map Suc (set_bits (drop_bit (Suc 0) m))"
proof -
  have u: "[0..<64] = 0 # map Suc [0..<63]" "[0..<64 :: nat] = [0..<63] @ [63]" by (simp_all add: upt_conv_Cons map_Suc_upt)
  have "\<not> bit m 64" by (rule impossible_bit) simp
  then have "set_bits (drop_bit (Suc 0) m) = filter (bit (drop_bit (Suc 0) m)) [0..<63]"
    unfolding set_bits_def u(2) by (simp add: bit_drop_bit_eq)
  then show ?thesis unfolding set_bits_def u(1) by (simp add: filter_map comp_def bit_drop_bit_eq bit_0)
qed

lemma set_bits_0: "set_bits 0 = []"
  by (simp add: set_bits_def)

definition fresh_button :: "int \<Rightarrow> esp_button_item" where
  "fresh_button g = \<lparr>bi_gpio_num = g, bi_last_press_tick = 0, bi_long_pressed = False\<rparr>"

lemma button_init_loop_items:
  "allocates R \<Longrightarrow> fst (button_init_loop R B c m g items w) = Some (items @ map (\<lambda>i. fresh_button (g + int i)) (set_bits m))"
proof (induction R B c m g items w rule: button_init_loop.induct)
  case (1 R B c m g items w)
  show ?case
  proof (cases "m = 0")
    case True
    then show ?thesis by (simp add: button_init_loop.simps set_bits_0)
  next
    case m: False
    show ?thesis
    proof (cases "odd m")
      case True
      then have a: "m AND 1 \<noteq> 0" by (simp add: and_one_eq mod2_eq_if)
      obtain x w1 where al: "heap_alloc R 24 w = (Some x, w1)" using allocatesD[OF "1.prems"] by blast
      show ?thesis
        using "1.IH"(1)[OF m a al[symmetric] refl refl "1.prems"] m a al True
        by (subst button_init_loop.simps) (simp add: set_bits_step[of m] fresh_button_def comp_def)
    next
      case False
      then have a: "\<not> m AND 1 \<noteq> 0" by (simp add: and_one_eq mod2_eq_if)
      show ?thesis
        using "1.IH"(2)[OF m a "1.prems"] m a False
        by (subst button_init_loop.simps) (simp add: set_bits_step[of m] comp_def add.assoc)
    qed
  qed
qed

text \<open>\<open>button_init\<close> with enough memory and a mask that is not empty creates one released button for every set bit of
  the mask, in ascending order, and applies the default of a missing long press time.\<close>

theorem button_init_items:
  assumes "allocates R" "bc_gpio_mask c \<noteq> 0"
  shows "\<exists>b w'. button_init R B c w = (Some b, w') \<and>
     eb_btn_list b = map (\<lambda>i. fresh_button (int i)) (set_bits (bc_gpio_mask c)) \<and>
     eb_long_press_time_ms b = (if bc_long_press_time_ms c = 0 then 2000 else bc_long_press_time_ms c)"
proof -
  obtain a w1 where 1: "heap_alloc R 24 w = (Some a, w1)" using allocatesD[OF assms(1)] by blast
  obtain r w2 where 2: "button_init_loop R B c (bc_gpio_mask c) 0 [] (gpio_config B (bc_gpio_mask c) w1) = (r, w2)" by fastforce
  have "r = Some (map (\<lambda>i. fresh_button (int i)) (set_bits (bc_gpio_mask c)))"
    using button_init_loop_items[OF assms(1), of B c "bc_gpio_mask c" 0 "[]" "gpio_config B (bc_gpio_mask c) w1"] 2 by simp
  with 1 2 assms(2) show ?thesis
    by (auto simp: button_init_def DEFAULT_LONG_PRESS_TIME_MS_def)
qed

text \<open>The statuses one read finds, with the numbers of the buttons.\<close>

fun read_statuses :: "'w pad_ops \<Rightarrow> esp_button \<Rightarrow> esp_button_item list \<Rightarrow> 'w \<Rightarrow> (button_status \<times> int) list" where
  "read_statuses B b [] w = []"
| "read_statuses B b (it # its) w =
     (let (st, it', w) = button_get_state B b it w in (st, bi_gpio_num it) # read_statuses B b its w)"

lemma get_state_gpio:
  assumes "button_get_state B b it w = (st, it', w')"
  shows "bi_gpio_num it' = bi_gpio_num it"
proof -
  obtain l w1 where l: "gpio_get_level B (bi_gpio_num it) w = (l, w1)" by fastforce
  obtain t w2 where t: "tick_get B w1 = (t, w2)" by fastforce
  show ?thesis using assms unfolding button_get_state_def Let_def l prod.case t
    by (auto split: if_splits)
qed

lemma button_read_loop_fold:
  "\<exists>its' w'. button_read_loop B b its ch r w =
     ((ch \<or> (\<exists>(st, g) \<in> set (read_statuses B b its w). st \<noteq> BTN_UNCHANGE),
       fold (\<lambda>(st, g). add_status st g) (read_statuses B b its w) r, its'), w')"
proof (induction its arbitrary: ch r w)
  case (Cons it its)
  obtain st it' w1 where 1: "button_get_state B b it w = (st, it', w1)" by (metis prod.exhaust)
  obtain its' w' where 2: "button_read_loop B b its (ch \<or> st \<noteq> BTN_UNCHANGE) (add_status st (bi_gpio_num it) r) w1 =
      ((ch \<or> st \<noteq> BTN_UNCHANGE \<or> (\<exists>(st, g) \<in> set (read_statuses B b its w1). st \<noteq> BTN_UNCHANGE),
       fold (\<lambda>(st, g). add_status st g) (read_statuses B b its w1) (add_status st (bi_gpio_num it) r), its'), w')"
    using Cons.IH[of "ch \<or> st \<noteq> BTN_UNCHANGE" "add_status st (bi_gpio_num it) r" w1] by auto
  show ?case using 1 2 get_state_gpio[OF 1] by auto
qed simp

lemma bit_push_one: "0 \<le> g \<Longrightarrow> i < 64 \<Longrightarrow> bit (push_bit (nat g) 1 :: u64) i \<longleftrightarrow> g = int i"
  by (auto simp: bit_exp_iff)

lemma add_status_bits:
  assumes "0 \<le> g" "g < 64" "i < 64"
  shows "bit (press_mask (add_status st g r)) i = (bit (press_mask r) i \<or> st = BTN_PRESSED \<and> g = int i)"
    "bit (release_mask (add_status st g r)) i = (bit (release_mask r) i \<or> st = BTN_RELEASE \<and> g = int i)"
    "bit (long_press_mask (add_status st g r)) i = (bit (long_press_mask r) i \<or> st = BTN_LONG_PRESS \<and> g = int i)"
    "bit (long_release_mask (add_status st g r)) i = (bit (long_release_mask r) i \<or> st = BTN_LONG_RELEASE \<and> g = int i)"
  using bit_push_one[OF assms(1,3)]
  by (cases st; simp add: add_status_def Let_def bit_or_iff)+

lemma fold_one_mask:
  fixes sel :: "button_result \<Rightarrow> u64"
  assumes "\<And>st g r. 0 \<le> g \<Longrightarrow> g < 64 \<Longrightarrow> bit (sel (add_status st g r)) i = (bit (sel r) i \<or> st = k \<and> g = int i)"
  shows "\<forall>(st, g) \<in> set xs. 0 \<le> g \<and> g < 64 \<Longrightarrow>
     bit (sel (fold (\<lambda>(st, g). add_status st g) xs r)) i = (bit (sel r) i \<or> (k, int i) \<in> set xs)"
proof (induction xs arbitrary: r)
  case (Cons x xs)
  obtain st g where x: "x = (st, g)" by (cases x)
  have "0 \<le> g" "g < 64" using Cons.prems x by auto
  from assms[OF this, of st r] Cons.IH[of "add_status st g r"] Cons.prems show ?case
    by (simp add: x) blast
qed simp

lemma fold_status_bits:
  assumes i: "i < 64" and xs: "\<forall>(st, g) \<in> set xs. 0 \<le> g \<and> g < 64"
  shows "bit (press_mask (fold (\<lambda>(st, g). add_status st g) xs r)) i = (bit (press_mask r) i \<or> (BTN_PRESSED, int i) \<in> set xs)"
    "bit (release_mask (fold (\<lambda>(st, g). add_status st g) xs r)) i = (bit (release_mask r) i \<or> (BTN_RELEASE, int i) \<in> set xs)"
    "bit (long_press_mask (fold (\<lambda>(st, g). add_status st g) xs r)) i = (bit (long_press_mask r) i \<or> (BTN_LONG_PRESS, int i) \<in> set xs)"
    "bit (long_release_mask (fold (\<lambda>(st, g). add_status st g) xs r)) i = (bit (long_release_mask r) i \<or> (BTN_LONG_RELEASE, int i) \<in> set xs)"
  by (rule fold_one_mask[OF _ xs]; rule add_status_bits[OF _ _ i]; assumption)+

lemma read_statuses_gpios: "map snd (read_statuses B b its w) = map bi_gpio_num its"
  by (induction its arbitrary: w) (simp_all add: Let_def split_beta)

lemma button_read_bits:
  assumes "\<forall>it \<in> set (eb_btn_list b). 0 \<le> bi_gpio_num it \<and> bi_gpio_num it < 64"
  shows "\<exists>r b' w'. button_read B b w = ((\<exists>(st, g) \<in> set (read_statuses B b (eb_btn_list b) w). st \<noteq> BTN_UNCHANGE, r, b'), w') \<and>
     (\<forall>i < 64. (bit (press_mask r) i \<longleftrightarrow> (BTN_PRESSED, int i) \<in> set (read_statuses B b (eb_btn_list b) w)) \<and>
       (bit (release_mask r) i \<longleftrightarrow> (BTN_RELEASE, int i) \<in> set (read_statuses B b (eb_btn_list b) w)) \<and>
       (bit (long_press_mask r) i \<longleftrightarrow> (BTN_LONG_PRESS, int i) \<in> set (read_statuses B b (eb_btn_list b) w)) \<and>
       (bit (long_release_mask r) i \<longleftrightarrow> (BTN_LONG_RELEASE, int i) \<in> set (read_statuses B b (eb_btn_list b) w)))"
proof -
  have "\<forall>(st, g) \<in> set (read_statuses B b (eb_btn_list b) w). 0 \<le> g \<and> g < 64"
    using assms arg_cong[OF read_statuses_gpios[of B b "eb_btn_list b" w], of set] by (force simp: image_iff)
  note bits = fold_status_bits[OF _ this, of _ button_result_zero]
  obtain its' w' where "button_read_loop B b (eb_btn_list b) False button_result_zero w =
      ((False \<or> (\<exists>(st, g) \<in> set (read_statuses B b (eb_btn_list b) w). st \<noteq> BTN_UNCHANGE),
        fold (\<lambda>(st, g). add_status st g) (read_statuses B b (eb_btn_list b) w) button_result_zero, its'), w')"
    using button_read_loop_fold[of B b "eb_btn_list b" False button_result_zero w] by blast
  then show ?thesis using bits
    by (intro exI[of _ "fold (\<lambda>(st, g). add_status st g) (read_statuses B b (eb_btn_list b) w) button_result_zero"]
        exI[of _ "b\<lparr>eb_btn_list := its'\<rparr>"] exI[of _ w']) (simp add: button_read_def button_result_zero_def)
qed

text \<open>\<open>button_read\<close> reports a change exactly when some button changed, and each of the four masks has exactly the
  bits of the buttons with that status.\<close>

theorem button_read_masks:
  assumes "\<forall>it \<in> set (eb_btn_list b). 0 \<le> bi_gpio_num it \<and> bi_gpio_num it < 64"
  shows "\<exists>r b' w'. button_read B b w = ((\<exists>(st, g) \<in> set (read_statuses B b (eb_btn_list b) w). st \<noteq> BTN_UNCHANGE, r, b'), w') \<and>
     (\<forall>i < 64. (bit (press_mask r) i \<longleftrightarrow> (BTN_PRESSED, int i) \<in> set (read_statuses B b (eb_btn_list b) w)) \<and>
       (bit (release_mask r) i \<longleftrightarrow> (BTN_RELEASE, int i) \<in> set (read_statuses B b (eb_btn_list b) w)) \<and>
       (bit (long_press_mask r) i \<longleftrightarrow> (BTN_LONG_PRESS, int i) \<in> set (read_statuses B b (eb_btn_list b) w)) \<and>
       (bit (long_release_mask r) i \<longleftrightarrow> (BTN_LONG_RELEASE, int i) \<in> set (read_statuses B b (eb_btn_list b) w)))"
  by (rule button_read_bits [OF assms])

section \<open>The moving average of a pad\<close>

text \<open>The untouched value of a pad is averaged in 16 bits: the new value lies between the old one and the reading
  exactly when their sum does not overflow; otherwise it drops below both.\<close>

theorem touch_average_range:
  "(min a b \<le> touch_average a b \<and> touch_average a b \<le> max a b \<longleftrightarrow> unat a + unat b < 2 ^ 16) \<and>
   (2 ^ 16 \<le> unat a + unat b \<longrightarrow> touch_average a b < min a b)"
proof -
  have u: "unat a < 65536" "unat b < 65536" using unsigned_less[of a] unsigned_less[of b] by simp_all
  have s: "unat (a + b) = (if unat a + unat b < 65536 then unat a + unat b else unat a + unat b - 65536)"
    using unat_add_lem[of a b] unat_plus_if'[of a b] by simp
  have t: "unat (touch_average a b) = unat (a + b) div 2" by (simp add: touch_average_def unat_div)
  show ?thesis using u unfolding word_le_nat_alt word_less_nat_alt min_def max_def t s by auto
qed

section \<open>Examples\<close>

text \<open>Drivers whose levels, readings and clock come from a script of inputs.\<close>

definition script_ops :: "(int \<times> int) list pad_ops" where
  "script_ops = \<lparr>time_of_day = (\<lambda>w. case w of [] \<Rightarrow> ((1, 0), w) | (_, t) # w' \<Rightarrow> ((t, 0), w)),
     gpio_get_level = (\<lambda>g w. case w of [] \<Rightarrow> (1, w) | (l, t) # w' \<Rightarrow> (l, (l, t) # w')),
     gpio_config = (\<lambda>m w. w), gpio_set_intr_type = (\<lambda>g w. w), gpio_isr_handler_add = (\<lambda>g f c w. w),
     gpio_isr_handler_remove = (\<lambda>g w. w), gpio_intr_enable = (\<lambda>g w. w), gpio_intr_disable = (\<lambda>g w. w),
     touch_pad_init = (\<lambda>w. (ESP_OK, w)), touch_pad_deinit = id, touch_pad_config = (\<lambda>n t w. w),
     touch_pad_set_thresh = (\<lambda>n t w. w), touch_pad_isr_register = id, touch_pad_isr_deregister = id,
     touch_pad_intr_enable = id, touch_pad_intr_disable = id, touch_pad_filter_start = (\<lambda>p w. w),
     touch_pad_filter_delete = id, touch_pad_clear_status = id,
     touch_pad_read_filtered = (\<lambda>n w. case w of [] \<Rightarrow> ((ESP_OK, None), w) | (l, t) # w' \<Rightarrow> ((ESP_OK, Some (word_of_int l)), (l, t) # w')),
     call_intr = (\<lambda>f c w. w)\<rparr>"

text \<open>The same drivers with a clock that stands at one second.\<close>

definition still_ops :: "(int \<times> int) list pad_ops" where
  "still_ops = script_ops\<lparr>time_of_day := (\<lambda>w. ((1, 0), w))\<rparr>"

lemma still_clock: "clock_positive still_ops"
  by (simp add: clock_positive_def still_ops_def tick_get_def)

definition ex_button :: esp_button where
  "ex_button = \<lparr>eb_long_press_time_ms = 2000, eb_gpio_mask = 5, eb_btn_list = [fresh_button 0, fresh_button 2]\<rparr>"


definition ex_pad :: esp_touch_item where
  "ex_pad = \<lparr>ti_touch_num = 3, ti_last_tap_tick = 0, ti_update_threshold_tick = 0, ti_last_read_tick = 0, ti_last_read_value = 0,
     ti_untouch_value = 1000, ti_threshold_value = 700, ti_long_tapped = False, ti_tapped = False\<rparr>"

definition ex_touch :: esp_touch where
  "ex_touch = \<lparr>et_long_tap_time_ms = 2000, et_touch_mask = 8, et_tap_threshold_percent = 70, et_intr_fn = None,
     et_intr_context = 0, et_touch_list = [ex_pad]\<rparr>"

theorem touch_events_alternate_witness:
  "\<exists>sts it' w'. pad_polls still_ops ex_touch [1000] ex_pad [(300, 1)] = (sts, it', w') \<and>
     length (filter (\<lambda>st. st = TOUCH_TAP) sts) = 1 \<and> ti_last_tap_tick it' \<noteq> 0"
proof -
  obtain sts it' w' where p: "pad_polls still_ops ex_touch [1000] ex_pad [(300, 1)] = (sts, it', w')" by (metis prod.exhaust)
  then have q: "ti_last_tap_tick it' = 1000" "sts = [TOUCH_TAP]"
    by (auto simp: touch_get_state_def touch_decide_def touch_update_def tick_get_def still_ops_def script_ops_def ex_pad_def
        TOUCHPAD_READ_INTERVAL_MS_def Let_def)
  have "ti_last_tap_tick ex_pad = 0" by (simp add: ex_pad_def)
  from touch_events_alternate[OF still_clock this p] p q show ?thesis by simp
qed

theorem button_init_items_witness:
  "\<exists>b w'. button_init (seq_platform (Some 1)) still_ops
     \<lparr>bc_long_press_time_ms = 0, bc_gpio_mask = 5, bc_button_intr_handler = None, bc_intr_context = 0\<rparr> [] = (Some b, w') \<and>
     eb_btn_list b = [fresh_button 0, fresh_button 2] \<and> eb_long_press_time_ms b = 2000"
proof -
  have "allocates (seq_platform (Some 1) :: (int \<times> int) list platform)" by (simp add: allocates_def)
  moreover have "set_bits 5 = [0, 2]" by code_simp
  ultimately show ?thesis using button_init_items[of "seq_platform (Some 1)"
      "\<lparr>bc_long_press_time_ms = 0, bc_gpio_mask = 5, bc_button_intr_handler = None, bc_intr_context = 0\<rparr>" still_ops "[]"]
    by simp
qed

theorem button_read_masks_witness:
  "\<exists>r b' w'. button_read still_ops ex_button [(0, 1)] = ((True, r, b'), w') \<and> bit (press_mask r) 2 \<and> \<not> bit (press_mask r) 1"
proof -
  have "\<forall>it \<in> set (eb_btn_list ex_button). 0 \<le> bi_gpio_num it \<and> bi_gpio_num it < 64"
    by (simp add: ex_button_def fresh_button_def)
  from button_read_masks[OF this, of still_ops "[(0, 1)]"] obtain r b' w' where
    "button_read still_ops ex_button [(0, 1)] = ((\<exists>(st, g) \<in> set (read_statuses still_ops ex_button (eb_btn_list ex_button) [(0, 1)]). st \<noteq> BTN_UNCHANGE, r, b'), w')"
    "\<forall>i < 64. bit (press_mask r) i \<longleftrightarrow> (BTN_PRESSED, int i) \<in> set (read_statuses still_ops ex_button (eb_btn_list ex_button) [(0, 1)])"
    by blast
  moreover have "read_statuses still_ops ex_button (eb_btn_list ex_button) [(0, 1)] = [(BTN_PRESSED, 0), (BTN_PRESSED, 2)]"
    by (simp add: ex_button_def fresh_button_def button_get_state_def tick_get_def still_ops_def script_ops_def)
  ultimately show ?thesis by simp
qed

theorem touch_average_range_witness:
  "touch_average 1000 3000 = 2000 \<and> touch_average 40000 40000 < min 40000 40000"
  using touch_average_range[of 40000 40000] by (simp add: touch_average_def)

end
