(* ===== verification/Adc_Button.thy ===== *)
theory Adc_Button
  imports Platform
begin

text \<open>
  Buttons on a resistor ladder (\<open>components/esp_peripherals/lib/adc_button/adc_button.c\<close>): a channel is sampled
  every 20 ms, its voltage names one of several buttons, and a task turns the sequence of voltages into press and
  long press events. A linked list of channels is a list of nodes, an array of C is a list, and an access outside
  it is undefined (\<open>None\<close>). A count of samples is an integer: it would pass 31 bits after a year of holding a button. \<open>ENABLE_ADC_VOLUME\<close> is not defined, as in the repository.
\<close>

record adc_arr =
  aa_adc_ch :: int
  aa_adc_level_step :: "int list option"
  aa_total_steps :: int
  aa_press_judge_time :: int

datatype adc_btn_state =
    ADC_BTN_STATE_IDLE | ADC_BTN_STATE_ADC | ADC_BTN_STATE_PRESSED | ADC_BTN_STATE_RELEASE
  | ADC_BTN_STATE_LONG_PRESSED | ADC_BTN_STATE_LONG_RELEASE

record btn_decription =
  bd_active_id :: int
  bd_click_cnt :: int
  bd_long_click :: int

record adc_btn_node =
  an_adc_info :: adc_arr
  an_btn_dscp :: "btn_decription list"

text \<open>The sampling driver and the callback of the task.\<close>

record 'w adc_ops =
  esp_adc_cal_get_voltage :: "int \<Rightarrow> 'w \<Rightarrow> u32 option \<times> 'w"
  adc_configure :: "int \<Rightarrow> 'w \<Rightarrow> 'w"
  call_btn_callback :: "int \<Rightarrow> int \<Rightarrow> adc_btn_state \<Rightarrow> 'w \<Rightarrow> 'w"
  adc_delay :: "'w \<Rightarrow> 'w"
  start_button_task :: "'w \<Rightarrow> 'w"
  release_block :: "'w \<Rightarrow> 'w"

abbreviation ADC_BTN_INVALID_ID :: int where "ADC_BTN_INVALID_ID \<equiv> -1"
abbreviation ADC_BTN_INVALID_ACT_ID :: int where "ADC_BTN_INVALID_ACT_ID \<equiv> -2"
abbreviation ADC_BTN_DETECT_TIME_MS :: int where "ADC_BTN_DETECT_TIME_MS \<equiv> 20"
abbreviation ADC_SAMPLES_NUM :: nat where "ADC_SAMPLES_NUM \<equiv> 10"
abbreviation USER_KEY_MAX :: int where "USER_KEY_MAX \<equiv> 7"

definition default_step_level :: "int list" where
  "default_step_level = [0, 683, 1193, 1631, 2090, 2578, 3103]"

text \<open>Reading and writing an array cell.\<close>

definition cell :: "'a list \<Rightarrow> int \<Rightarrow> 'a option" where
  "cell xs i = (if 0 \<le> i \<and> i < int (length xs) then Some (xs ! nat i) else None)"

definition cell_upd :: "'a list \<Rightarrow> int \<Rightarrow> ('a \<Rightarrow> 'a) \<Rightarrow> 'a list option" where
  "cell_upd xs i f = (if 0 \<le> i \<and> i < int (length xs) then Some (xs[nat i := f (xs ! nat i)]) else None)"

section \<open>Creating the list\<close>

text \<open>One channel. The level array is cleared before it is tested for \<open>NULL\<close>, so a failed allocation is
  undefined, as is a channel with more than seven steps, whose node is freed and used on; \<open>memcpy\<close> copies seven
  default levels whatever the size of the array, or all levels of the configured array.\<close>

definition adc_btn_new_node ::
  "'w platform \<Rightarrow> adc_arr \<Rightarrow> 'w \<Rightarrow> (adc_btn_node option \<times> 'w) option" where
  "adc_btn_new_node R conf w =
     (case heap_alloc R 24 w of
        (None, w) \<Rightarrow> Some (None, w)
      | (Some _, w) \<Rightarrow>
          if aa_total_steps conf < 0 then None
          else (let n = nat (aa_total_steps conf) in
            case heap_alloc R ((n + 1) * 4) w of
              (None, w) \<Rightarrow> None
            | (Some _, w) \<Rightarrow> do {
                levels \<leftarrow> (case aa_adc_level_step conf of
                    None \<Rightarrow> mem_write (replicate (n + 1) 0) 0 default_step_level
                  | Some xs \<Rightarrow> mem_read xs 0 (n + 1));
                if aa_total_steps conf > USER_KEY_MAX then None
                else (case heap_alloc R (12 * n) w of
                    (None, w) \<Rightarrow> None
                  | (Some _, w) \<Rightarrow> Some (Some
                      \<lparr>an_adc_info = conf\<lparr>aa_adc_level_step := Some levels\<rparr>,
                       an_btn_dscp = replicate n \<lparr>bd_active_id = 0, bd_click_cnt = 0, bd_long_click = 0\<rparr>\<rparr>, w))
              }))"

text \<open>The result \<open>None\<close> inside is the \<open>NULL\<close> of a failed call.\<close>

fun adc_btn_create_list ::
  "'w platform \<Rightarrow> adc_arr list \<Rightarrow> 'w \<Rightarrow> (adc_btn_node list option \<times> 'w) option" where
  "adc_btn_create_list R [] w = Some (Some [], w)"
| "adc_btn_create_list R (conf # confs) w = do {
     (node, w) \<leftarrow> adc_btn_new_node R conf w;
     case node of None \<Rightarrow> Some (None, w)
     | Some n \<Rightarrow> do {
         (rest, w) \<leftarrow> adc_btn_create_list R confs w;
         Some (map_option ((#) n) rest, w)
       }
   }"

text \<open>Destroying the list releases three blocks a node; the task that walks it is not told.\<close>

fun adc_btn_destroy_list :: "'w adc_ops \<Rightarrow> adc_btn_node list \<Rightarrow> 'w \<Rightarrow> esp_err \<times> 'w" where
  "adc_btn_destroy_list A [] w = (ESP_OK, w)"
| "adc_btn_destroy_list A (node # nodes) w =
     adc_btn_destroy_list A nodes (release_block A (release_block A (release_block A w)))"

section \<open>Sampling\<close>

fun get_samples :: "'w adc_ops \<Rightarrow> int \<Rightarrow> nat \<Rightarrow> 'w \<Rightarrow> u32 list \<times> 'w" where
  "get_samples A ch 0 w = ([], w)"
| "get_samples A ch (Suc n) w =
     (let (v, w) = esp_adc_cal_get_voltage A ch w; (vs, w) = get_samples A ch n w in
      ((case v of None \<Rightarrow> 0 | Some v \<Rightarrow> v) # vs, w))"

text \<open>The exchange of neighbours, the inner and the outer loop of the sort.\<close>

definition swap_at :: "nat \<Rightarrow> u32 list \<Rightarrow> u32 list" where
  "swap_at i data = (if data ! i > data ! (i + 1) then data[i := data ! (i + 1), i + 1 := data ! i] else data)"

definition bubble_pass :: "nat \<Rightarrow> u32 list \<Rightarrow> u32 list" where
  "bubble_pass m data = fold swap_at [0..<m] data"

definition bubble_sort :: "u32 list \<Rightarrow> u32 list" where
  "bubble_sort data = fold (\<lambda>j. bubble_pass (length data - j - 1)) [0..<length data - 1] data"

definition get_adc_voltage :: "'w adc_ops \<Rightarrow> int \<Rightarrow> 'w \<Rightarrow> int \<times> 'w" where
  "get_adc_voltage A channel w =
     (let (data, w) = get_samples A channel ADC_SAMPLES_NUM w;
          data = bubble_sort data;
          sum = sum_list (map (\<lambda>num. data ! num) [1..<ADC_SAMPLES_NUM - 1]) in
      (sint (sum div 8), w))"

section \<open>Detecting\<close>

text \<open>The loop of \<open>get_button_id\<close> from step \<open>i\<close>.\<close>

function button_id_from :: "int list \<Rightarrow> int \<Rightarrow> int \<Rightarrow> int \<Rightarrow> int option" where
  "button_id_from levels steps adc i =
     (if i < steps then do {
        lo \<leftarrow> cell levels i;
        if adc > lo then do {
          hi \<leftarrow> cell levels (i + 1);
          if adc \<le> hi then Some i else button_id_from levels steps adc (i + 1)
        } else button_id_from levels steps adc (i + 1)
      } else Some ADC_BTN_INVALID_ID)"
  by pat_completeness auto
termination by (relation "measure (\<lambda>(_, steps, _, i). nat (steps - i))") auto

declare button_id_from.simps [simp del]

definition get_button_id :: "adc_btn_node \<Rightarrow> int \<Rightarrow> int option" where
  "get_button_id node adc = do {
     levels \<leftarrow> aa_adc_level_step (an_adc_info node);
     button_id_from levels (aa_total_steps (an_adc_info node)) adc 0
   }"

definition reset_btn :: "btn_decription list \<Rightarrow> btn_decription list" where
  "reset_btn dscp = map (\<lambda>_. \<lparr>bd_active_id = ADC_BTN_INVALID_ID, bd_click_cnt = 0, bd_long_click = 0\<rparr>) dscp"

definition clear_btn :: "btn_decription \<Rightarrow> btn_decription" where
  "clear_btn d = d\<lparr>bd_active_id := -1, bd_long_click := 0, bd_click_cnt := 0\<rparr>"

text \<open>\<open>press_judge_time / ADC_BTN_DETECT_TIME_MS\<close>, with C's division.\<close>

definition judge_count :: "adc_arr \<Rightarrow> int" where
  "judge_count info = (let t = aa_press_judge_time info in
     if t < 0 then - ((- t) div ADC_BTN_DETECT_TIME_MS) else t div ADC_BTN_DETECT_TIME_MS)"

definition get_adc_btn_state ::
  "int \<Rightarrow> int \<Rightarrow> adc_btn_node \<Rightarrow> (adc_btn_state \<times> adc_btn_node) option" where
  "get_adc_btn_state adc_value act_id node = do {
     let info = an_adc_info node;
     let dscp = an_btn_dscp node;
     id \<leftarrow> get_button_id node adc_value;
     if id = ADC_BTN_INVALID_ID then
       if act_id = ADC_BTN_INVALID_ACT_ID then Some (ADC_BTN_STATE_IDLE, node)
       else do {
         d \<leftarrow> cell dscp act_id;
         if bd_click_cnt d \<le> 1 then Some (ADC_BTN_STATE_IDLE, node)
         else do {
           dscp \<leftarrow> cell_upd dscp act_id clear_btn;
           Some (if bd_click_cnt d < judge_count info then ADC_BTN_STATE_PRESSED else ADC_BTN_STATE_LONG_RELEASE,
                 node\<lparr>an_btn_dscp := dscp\<rparr>)
         }
       }
     else if act_id = ADC_BTN_INVALID_ACT_ID then do {
       dscp \<leftarrow> cell_upd dscp id (\<lambda>d. d\<lparr>bd_active_id := id\<rparr>);
       Some (ADC_BTN_STATE_IDLE, node\<lparr>an_btn_dscp := dscp\<rparr>)
     }
     else if id \<noteq> act_id then do {
       dscp \<leftarrow> cell_upd dscp act_id clear_btn;
       dscp \<leftarrow> cell_upd dscp id (\<lambda>d. d\<lparr>bd_active_id := id\<rparr>);
       Some (ADC_BTN_STATE_IDLE, node\<lparr>an_btn_dscp := dscp\<rparr>)
     }
     else do {
       dscp \<leftarrow> cell_upd dscp act_id (\<lambda>d. d\<lparr>bd_click_cnt := bd_click_cnt d + 1\<rparr>);
       d \<leftarrow> cell dscp act_id;
       if bd_long_click d \<noteq> 0 then Some (ADC_BTN_STATE_IDLE, node\<lparr>an_btn_dscp := dscp\<rparr>)
       else if bd_click_cnt d \<ge> judge_count info then do {
         dscp \<leftarrow> cell_upd dscp act_id (\<lambda>d. d\<lparr>bd_long_click := 1\<rparr>);
         Some (ADC_BTN_STATE_LONG_PRESSED, node\<lparr>an_btn_dscp := dscp\<rparr>)
       } else Some (ADC_BTN_STATE_IDLE, node\<lparr>an_btn_dscp := dscp\<rparr>)
     }
   }"

section \<open>The task\<close>

text \<open>The first step whose button is active.\<close>

fun find_active :: "btn_decription list \<Rightarrow> int \<Rightarrow> int" where
  "find_active [] i = ADC_BTN_INVALID_ACT_ID"
| "find_active (d # ds) i = (if bd_active_id d > ADC_BTN_INVALID_ID then i else find_active ds (i + 1))"

text \<open>The active button of a channel before a sample, and the state the sample yields.\<close>

definition adc_detect :: "int \<Rightarrow> adc_btn_node \<Rightarrow> ((adc_btn_state \<times> int) \<times> adc_btn_node) option" where
  "adc_detect adc node = do {
     let act_id = find_active (take (nat (aa_total_steps (an_adc_info node))) (an_btn_dscp node)) 0;
     (btn_st, node) \<leftarrow> get_adc_btn_state adc act_id node;
     Some ((btn_st, act_id), node)
   }"

text \<open>What the task keeps between visits: the static \<open>cur_state\<close> and \<open>cur_act_id\<close>.\<close>

record adc_task_state =
  at_cur_state :: adc_btn_state
  at_cur_act_id :: int

text \<open>The visit of one channel.\<close>

definition button_task_visit ::
  "'w adc_ops \<Rightarrow> adc_btn_node \<Rightarrow> adc_task_state \<Rightarrow> 'w \<Rightarrow> ((adc_btn_node \<times> adc_task_state) \<times> 'w) option" where
  "button_task_visit A node s w =
     (let ch = aa_adc_ch (an_adc_info node);
          report = (\<lambda>st next_st. Some ((node, s\<lparr>at_cur_state := next_st\<rparr>), call_btn_callback A ch (at_cur_act_id s) st w)) in
      case at_cur_state s of
        ADC_BTN_STATE_ADC \<Rightarrow> do {
          let (adc, w) = get_adc_voltage A ch w;
          ((btn_st, act_id), node) \<leftarrow> adc_detect adc node;
          Some ((node, if btn_st \<noteq> ADC_BTN_STATE_IDLE then \<lparr>at_cur_state = btn_st, at_cur_act_id = act_id\<rparr> else s), w)
        }
      | ADC_BTN_STATE_PRESSED \<Rightarrow> report ADC_BTN_STATE_PRESSED ADC_BTN_STATE_RELEASE
      | ADC_BTN_STATE_LONG_PRESSED \<Rightarrow> report ADC_BTN_STATE_LONG_PRESSED ADC_BTN_STATE_ADC
      | ADC_BTN_STATE_LONG_RELEASE \<Rightarrow> report ADC_BTN_STATE_LONG_RELEASE ADC_BTN_STATE_ADC
      | ADC_BTN_STATE_RELEASE \<Rightarrow> report ADC_BTN_STATE_RELEASE ADC_BTN_STATE_ADC
      | ADC_BTN_STATE_IDLE \<Rightarrow> Some ((node, s), w))"

fun button_task_pass ::
  "'w adc_ops \<Rightarrow> adc_btn_node list \<Rightarrow> adc_task_state \<Rightarrow> 'w \<Rightarrow> ((adc_btn_node list \<times> adc_task_state) \<times> 'w) option" where
  "button_task_pass A [] s w = Some (([], s), w)"
| "button_task_pass A (node # nodes) s w = do {
     ((node, s), w) \<leftarrow> button_task_visit A node s w;
     ((nodes, s), w) \<leftarrow> button_task_pass A nodes s w;
     Some ((node # nodes, s), w)
   }"

text \<open>The task: it resets every channel and then repeats passes for ever; the first \<open>n\<close> passes.\<close>

definition button_task_start :: "'w adc_ops \<Rightarrow> adc_btn_node list \<Rightarrow> 'w \<Rightarrow> adc_btn_node list \<times> 'w" where
  "button_task_start A nodes w =
     (map (\<lambda>n. n\<lparr>an_btn_dscp := reset_btn (an_btn_dscp n)\<rparr>) nodes,
      fold (\<lambda>n. adc_configure A (aa_adc_ch (an_adc_info n))) nodes w)"

fun button_task_passes ::
  "nat \<Rightarrow> 'w adc_ops \<Rightarrow> adc_btn_node list \<Rightarrow> adc_task_state \<Rightarrow> 'w \<Rightarrow> ((adc_btn_node list \<times> adc_task_state) \<times> 'w) option" where
  "button_task_passes 0 A nodes s w = Some ((nodes, s), w)"
| "button_task_passes (Suc n) A nodes s w = do {
     ((nodes, s), w) \<leftarrow> button_task_pass A nodes s w;
     button_task_passes n A nodes s (adc_delay A w)
   }"

definition button_task_first :: adc_task_state where
  "button_task_first = \<lparr>at_cur_state = ADC_BTN_STATE_ADC, at_cur_act_id = ADC_BTN_INVALID_ACT_ID\<rparr>"

definition adc_btn_init :: "'w platform \<Rightarrow> 'w adc_ops \<Rightarrow> 'w \<Rightarrow> 'w" where
  "adc_btn_init R A w = (case heap_alloc R 12 w of (None, w) \<Rightarrow> w | (Some _, w) \<Rightarrow> start_button_task A w)"

end
