(* ===== verification/Adc_Button_Correct.thy ===== *)
theory Adc_Button_Correct
  imports Adc_Button "HOL-Library.Multiset"
begin

text \<open>
  What the resistor ladder driver computes: the voltage is the mean of the samples without the lowest and the
  highest, the button is the only step whose interval holds the voltage, and the sequence of samples of a channel
  is classified by a small abstract machine. The state of the task is shared by its channels.
\<close>

section \<open>The sorted samples\<close>

lemma length_swap_at [simp]: "length (swap_at i xs) = length xs"
  by (simp add: swap_at_def)

lemma mset_swap_at: "i + 1 < length xs \<Longrightarrow> mset (swap_at i xs) = mset xs"
  by (simp add: swap_at_def mset_swap)

lemma length_bubble_pass [simp]: "length (bubble_pass m xs) = length xs"
  unfolding bubble_pass_def by (induction m) simp_all

lemma bubble_pass_Suc: "bubble_pass (Suc m) xs = swap_at m (bubble_pass m xs)"
  by (simp add: bubble_pass_def)

lemma mset_bubble_pass: "m < length xs \<Longrightarrow> mset (bubble_pass m xs) = mset xs"
proof (induction m)
  case 0 then show ?case by (simp add: bubble_pass_def)
next
  case (Suc m) then show ?case by (simp add: bubble_pass_Suc mset_swap_at)
qed

text \<open>A pass leaves what lies above it alone and moves the largest of what it visits to its end.\<close>

lemma bubble_pass_above: "\<lbrakk> m < k; k < length xs \<rbrakk> \<Longrightarrow> bubble_pass m xs ! k = xs ! k"
  by (induction m) (auto simp: bubble_pass_def swap_at_def)

lemma bubble_pass_max: "\<lbrakk> m < length xs; k \<le> m \<rbrakk> \<Longrightarrow> bubble_pass m xs ! k \<le> bubble_pass m xs ! m"
proof (induction m arbitrary: k)
  case 0 then show ?case by simp
next
  case (Suc m)
  let ?ys = "bubble_pass m xs"
  from Suc have ih: "k \<le> m \<Longrightarrow> ?ys ! k \<le> ?ys ! m" for k by simp
  from Suc.prems have len: "Suc m < length ?ys" by simp
  show ?case
  proof (cases "k = Suc m")
    case False
    with Suc.prems have "k \<le> m" by simp
    then show ?thesis using ih[of k] len
      by (cases "k = m") (auto simp: bubble_pass_Suc swap_at_def not_less)
  qed simp
qed

text \<open>What a pass visits stays among what it visits.\<close>

lemma bubble_pass_take: "m < length xs \<Longrightarrow> set (take (Suc m) (bubble_pass m xs)) = set (take (Suc m) xs)"
proof -
  assume m: "m < length xs"
  let ?ys = "bubble_pass m xs"
  have eq: "drop (Suc m) ?ys = drop (Suc m) xs"
    by (rule nth_equalityI) (auto simp: bubble_pass_above)
  have "mset (take (Suc m) ?ys) + mset (drop (Suc m) ?ys) = mset (take (Suc m) xs) + mset (drop (Suc m) xs)"
    by (metis append_take_drop_id m mset_append mset_bubble_pass)
  with eq have "mset (take (Suc m) ?ys) = mset (take (Suc m) xs)" by simp
  then show ?thesis by (rule mset_eq_setD)
qed

text \<open>The last \<open>k\<close> elements are in order and no smaller than any before them.\<close>

definition top_sorted :: "nat \<Rightarrow> u32 list \<Rightarrow> bool" where
  "top_sorted k xs \<longleftrightarrow> (\<forall>i j. i \<le> j \<longrightarrow> length xs - k \<le> j \<longrightarrow> j < length xs \<longrightarrow> xs ! i \<le> xs ! j)"

lemma top_sortedD: "\<lbrakk> top_sorted k xs; i \<le> j; length xs - k \<le> j; j < length xs \<rbrakk> \<Longrightarrow> xs ! i \<le> xs ! j"
  by (simp add: top_sorted_def)

lemma bubble_pass_top:
  assumes top: "top_sorted k xs" and k: "k + 1 \<le> length xs"
  shows "top_sorted (Suc k) (bubble_pass (length xs - k - 1) xs)"
  unfolding top_sorted_def
proof (intro allI impI)
  fix i j
  let ?m = "length xs - k - 1"
  let ?ys = "bubble_pass ?m xs"
  assume ij: "i \<le> j" and lo: "length ?ys - Suc k \<le> j" and hi: "j < length ?ys"
  from k have m: "?m < length xs" by simp
  show "?ys ! i \<le> ?ys ! j"
  proof (cases "j = ?m")
    case True with ij m show ?thesis by (simp add: bubble_pass_max)
  next
    case False
    with lo hi have j: "?m < j" "j < length xs" by auto
    then have yj: "?ys ! j = xs ! j" by (simp add: bubble_pass_above)
    show ?thesis
    proof (cases "i \<le> ?m")
      case True
      then have "i < length (take (Suc ?m) ?ys)" using m by simp
      then have "?ys ! i \<in> set (take (Suc ?m) ?ys)" using True
        by (metis length_take min_less_iff_conj nth_mem nth_take)
      then have "?ys ! i \<in> set (take (Suc ?m) xs)" by (simp only: bubble_pass_take [OF m])
      then obtain l where "l < length (take (Suc ?m) xs)" "?ys ! i = take (Suc ?m) xs ! l"
        by (metis in_set_conv_nth)
      then have "l \<le> ?m" "?ys ! i = xs ! l" by auto
      then show ?thesis using top_sortedD [OF top, of l j] j yj by simp
    next
      case False
      then have "?ys ! i = xs ! i" using j ij by (simp add: bubble_pass_above)
      then show ?thesis using top_sortedD [OF top, of i j] j ij yj by simp
    qed
  qed
qed

lemma bubble_passes:
  assumes "n \<le> length xs - 1"
  shows "length (fold (\<lambda>j. bubble_pass (length xs - j - 1)) [0..<n] xs) = length xs \<and>
         mset (fold (\<lambda>j. bubble_pass (length xs - j - 1)) [0..<n] xs) = mset xs \<and>
         top_sorted n (fold (\<lambda>j. bubble_pass (length xs - j - 1)) [0..<n] xs)"
  using assms
proof (induction n)
  case 0 then show ?case by (simp add: top_sorted_def)
next
  case (Suc n)
  let ?ys = "fold (\<lambda>j. bubble_pass (length xs - j - 1)) [0..<n] xs"
  from Suc have ih: "length ?ys = length xs" "mset ?ys = mset xs" "top_sorted n ?ys" by simp_all
  have "top_sorted (Suc n) (bubble_pass (length ?ys - n - 1) ?ys)"
    by (rule bubble_pass_top) (use ih Suc.prems in auto)
  then show ?case using ih Suc.prems by (simp add: mset_bubble_pass)
qed

text \<open>The nested exchange loops sort.\<close>

lemma bubble_sort_sort: "bubble_sort xs = sort xs"
proof (rule properties_for_sort [symmetric])
  note p = bubble_passes [of "length xs - 1" xs, folded bubble_sort_def]
  then show "mset (bubble_sort xs) = mset xs" by simp
  from p have top: "top_sorted (length xs - 1) (bubble_sort xs)" and len: "length (bubble_sort xs) = length xs"
    by simp_all
  show "sorted (bubble_sort xs)"
    unfolding sorted_iff_nth_mono
  proof (intro allI impI)
    fix i j assume "i \<le> j" "j < length (bubble_sort xs)"
    then show "bubble_sort xs ! i \<le> bubble_sort xs ! j"
      using top_sortedD [OF top, of i j] len by (cases "j = 0") auto
  qed
qed


lemma sum_list_middle: "map ((!) xs) [1..<length xs - 1] = butlast (tl xs)"
  by (rule nth_equalityI) (auto simp: nth_butlast nth_tl)

lemma unat_sum_list:
  fixes xs :: "u32 list"
  shows "sum_list (map unat xs) < 2 ^ 32 \<Longrightarrow> unat (sum_list xs) = sum_list (map unat xs)"
proof (induction xs)
  case (Cons x xs)
  then have "unat (sum_list xs) = sum_list (map unat xs)" by simp
  moreover from this Cons.prems have "unat x + unat (sum_list xs) < 2 ^ LENGTH(32)" by simp
  ultimately show ?case by (simp add: unat_add_lem [THEN iffD1])
qed simp

lemma sum_list_le_bound: "(\<And>x. x \<in> set xs \<Longrightarrow> f x \<le> (b :: nat)) \<Longrightarrow> sum_list (map f xs) \<le> length xs * b"
  by (induction xs) (auto simp: add_mono)

lemma length_get_samples: "length (fst (get_samples A ch n w)) = n"
  by (induction n arbitrary: w) (simp_all add: split_beta Let_def)

text \<open>C16. The voltage of a channel is the mean of its ten samples without the lowest and the highest one, whatever the
  order of the samples, when they are below \<open>2 ^ 28\<close> millivolts.\<close>

theorem adc_voltage_trimmed_mean:
  assumes small: "\<forall>v\<in>set (fst (get_samples A ch ADC_SAMPLES_NUM w)). unat v < 2 ^ 28"
  shows "fst (get_adc_voltage A ch w) =
           int (sum_list (butlast (tl (sort (map unat (fst (get_samples A ch ADC_SAMPLES_NUM w)))))) div 8)"
proof -
  define data where "data = fst (get_samples A ch ADC_SAMPLES_NUM w)"
  define mid where "mid = butlast (tl (sort data))"
  have len: "length data = 10" by (simp add: data_def length_get_samples)
  then have eight: "length mid = 8" by (simp add: mid_def)
  have "set mid \<subseteq> set data"
    unfolding mid_def by (metis in_set_butlastD list.set_sel(2) set_sort subsetI tl_Nil)
  with small have bound: "x \<in> set mid \<Longrightarrow> unat x \<le> 2 ^ 28 - 1" for x
    by (fastforce simp: data_def)
  then have sum: "sum_list (map unat mid) \<le> 8 * (2 ^ 28 - 1)"
    using sum_list_le_bound [of mid unat "2 ^ 28 - 1"] eight by simp
  then have unat: "unat (sum_list mid) = sum_list (map unat mid)"
    by (intro unat_sum_list) simp
  have "unat (sum_list mid div 8) = sum_list (map unat mid) div 8"
    by (simp add: unat_div_distrib unat)
  then have val: "sint (sum_list mid div 8) = int (sum_list (map unat mid) div 8)"
    using sum by (subst sint_small) simp_all
  have "map ((!) (sort data)) [1..<9] = mid"
    using sum_list_middle [of "sort data"] by (simp add: mid_def len)
  moreover have "sort (map unat data) = map unat (sort data)"
    by (rule properties_for_sort) (auto simp: sorted_map sorted_wrt_map intro!: sorted_wrt_mono_rel [OF _ sorted_sort] simp: word_le_nat_alt)
  ultimately show ?thesis
    using val by (simp add: get_adc_voltage_def split_beta Let_def bubble_sort_sort map_tl map_butlast data_def mid_def)
qed


section \<open>The button of a voltage\<close>

lemma cell_in: "\<lbrakk> 0 \<le> i; i < int (length xs) \<rbrakk> \<Longrightarrow> cell xs i = Some (xs ! nat i)"
  by (simp add: cell_def)

lemma cell_upd_in: "\<lbrakk> 0 \<le> i; i < int (length xs) \<rbrakk> \<Longrightarrow> cell_upd xs i f = Some (xs[nat i := f (xs ! nat i)])"
  by (simp add: cell_upd_def)

text \<open>The voltage lies in the interval of step \<open>i\<close>.\<close>

definition in_step :: "int list \<Rightarrow> int \<Rightarrow> int \<Rightarrow> bool" where
  "in_step levels adc i \<longleftrightarrow> levels ! nat i < adc \<and> adc \<le> levels ! nat (i + 1)"

lemma button_id_from_skip:
  assumes "0 \<le> i" "i < steps" "int (length levels) = steps + 1"
  shows "button_id_from levels steps adc i =
           (if in_step levels adc i then Some i else button_id_from levels steps adc (i + 1))"
  using assms by (subst button_id_from.simps) (auto simp: cell_in in_step_def)

lemma button_id_from_cases:
  assumes "0 \<le> i" "int (length levels) = steps + 1"
  shows "\<exists>r. button_id_from levels steps adc i = Some r \<and>
           (r = -1 \<and> (\<forall>k. i \<le> k \<longrightarrow> k < steps \<longrightarrow> \<not> in_step levels adc k) \<or>
            i \<le> r \<and> r < steps \<and> in_step levels adc r)"
  using assms
proof (induction "nat (steps - i)" arbitrary: i)
  case 0
  then have "button_id_from levels steps adc i = Some (-1)" by (subst button_id_from.simps) simp
  with 0 show ?case by auto
next
  case (Suc n)
  then have less: "i < steps" by simp
  show ?case
  proof (cases "in_step levels adc i")
    case True
    with Suc.prems less show ?thesis by (auto simp: button_id_from_skip)
  next
    case False
    then have eq: "button_id_from levels steps adc i = button_id_from levels steps adc (i + 1)"
      using Suc.prems less by (simp add: button_id_from_skip)
    have none: "(\<forall>k. i + 1 \<le> k \<longrightarrow> k < steps \<longrightarrow> \<not> in_step levels adc k) \<Longrightarrow>
                (\<forall>k. i \<le> k \<longrightarrow> k < steps \<longrightarrow> \<not> in_step levels adc k)"
      using False by (metis add1_zle_eq order_le_less)
    have "n = nat (steps - (i + 1))" using Suc.hyps(2) by simp
    from Suc.hyps(1) [OF this] Suc.prems less none eq show ?thesis by force
  qed
qed

lemma in_step_unique:
  assumes "sorted levels" "in_step levels adc i" "in_step levels adc j" "0 \<le> i" "0 \<le> j"
    "i + 1 < int (length levels)" "j + 1 < int (length levels)"
  shows "i = j"
proof (rule ccontr)
  have contra: "False" if "a < b" "in_step levels adc a" "in_step levels adc b" "0 \<le> a" "b + 1 < int (length levels)" for a b
  proof -
    have "levels ! nat (a + 1) \<le> levels ! nat b"
      using that by (intro sorted_nth_mono [OF assms(1)]) auto
    with that show False by (simp add: in_step_def)
  qed
  assume "i \<noteq> j"
  then show False using contra [of i j] contra [of j i] assms by (cases i j rule: linorder_cases) auto
qed

text \<open>A channel whose arrays have the sizes its configuration announces.\<close>

definition wf_node :: "adc_btn_node \<Rightarrow> bool" where
  "wf_node node \<longleftrightarrow> 0 \<le> aa_total_steps (an_adc_info node) \<and>
     length (an_btn_dscp node) = nat (aa_total_steps (an_adc_info node)) \<and>
     (case aa_adc_level_step (an_adc_info node) of None \<Rightarrow> False
      | Some levels \<Rightarrow> int (length levels) = aa_total_steps (an_adc_info node) + 1)"

definition levels_of :: "adc_btn_node \<Rightarrow> int list" where
  "levels_of node = the (aa_adc_level_step (an_adc_info node))"

lemma wf_nodeD:
  assumes "wf_node node"
  shows "aa_adc_level_step (an_adc_info node) = Some (levels_of node)"
    and "int (length (levels_of node)) = aa_total_steps (an_adc_info node) + 1"
    and "int (length (an_btn_dscp node)) = aa_total_steps (an_adc_info node)"
    and "0 \<le> aa_total_steps (an_adc_info node)"
  using assms by (auto simp: wf_node_def levels_of_def split: option.splits)

lemma get_button_id_cases:
  assumes "wf_node node"
  obtains "get_button_id node adc = Some (-1)"
      "\<And>k. \<lbrakk> 0 \<le> k; k < aa_total_steps (an_adc_info node) \<rbrakk> \<Longrightarrow> \<not> in_step (levels_of node) adc k"
  | r where "get_button_id node adc = Some r" "0 \<le> r" "r < aa_total_steps (an_adc_info node)"
      "in_step (levels_of node) adc r"
  using button_id_from_cases [of 0 "levels_of node" "aa_total_steps (an_adc_info node)" adc] wf_nodeD [OF assms]
  by (auto simp: get_button_id_def)

text \<open>When the levels of a channel ascend, a voltage names the only step whose interval holds it, and no button
  exactly when it lies outside all of them.\<close>

theorem button_of_voltage:
  assumes wf: "wf_node node" and asc: "sorted (levels_of node)"
    and i: "0 \<le> i" "i < aa_total_steps (an_adc_info node)"
  shows "get_button_id node adc = Some i \<longleftrightarrow>
           levels_of node ! nat i < adc \<and> adc \<le> levels_of node ! nat (i + 1)"
proof (cases rule: get_button_id_cases [OF wf, of adc])
  case 1
  with i show ?thesis by (simp add: in_step_def)
next
  case (2 r)
  then have "in_step (levels_of node) adc i \<longleftrightarrow> r = i"
    using in_step_unique [OF asc, of adc r i] i wf_nodeD(2) [OF wf] by auto
  with 2 show ?thesis by (simp add: in_step_def)
qed

section \<open>The abstract detector\<close>

text \<open>
  A channel as a machine over the buttons its samples name (\<open>-1\<close>: none): it tracks at most one button with the
  number of samples seen since the first and whether the long press was announced.
\<close>

type_synonym tracked = "(int \<times> int \<times> int) option"

fun detect :: "int \<Rightarrow> int \<Rightarrow> tracked \<Rightarrow> adc_btn_state \<times> tracked" where
  "detect J b None = (ADC_BTN_STATE_IDLE, if b = -1 then None else Some (b, 0, 0))"
| "detect J b (Some (act, cnt, long)) =
     (if b = -1 then
        if cnt \<le> 1 then (ADC_BTN_STATE_IDLE, Some (act, cnt, long))
        else (if cnt < J then ADC_BTN_STATE_PRESSED else ADC_BTN_STATE_LONG_RELEASE, None)
      else if b \<noteq> act then (ADC_BTN_STATE_IDLE, Some (b, 0, 0))
      else if long \<noteq> 0 then (ADC_BTN_STATE_IDLE, Some (act, cnt + 1, long))
      else if cnt + 1 \<ge> J then (ADC_BTN_STATE_LONG_PRESSED, Some (act, cnt + 1, 1))
      else (ADC_BTN_STATE_IDLE, Some (act, cnt + 1, long)))"

definition blank :: btn_decription where
  "blank = \<lparr>bd_active_id = -1, bd_click_cnt = 0, bd_long_click = 0\<rparr>"

text \<open>The descriptions that represent a state of the machine: all blank but the tracked button's.\<close>

definition descriptions :: "nat \<Rightarrow> tracked \<Rightarrow> btn_decription list" where
  "descriptions n a = (case a of None \<Rightarrow> replicate n blank
     | Some (act, cnt, long) \<Rightarrow> (replicate n blank)[nat act :=
         \<lparr>bd_active_id = act, bd_click_cnt = cnt, bd_long_click = long\<rparr>])"

definition tracked_ok :: "nat \<Rightarrow> tracked \<Rightarrow> bool" where
  "tracked_ok n a \<longleftrightarrow> (case a of None \<Rightarrow> True | Some (act, _, _) \<Rightarrow> 0 \<le> act \<and> act < int n)"

definition act_of :: "tracked \<Rightarrow> int" where
  "act_of a = (case a of None \<Rightarrow> ADC_BTN_INVALID_ACT_ID | Some (act, _, _) \<Rightarrow> act)"

lemma length_descriptions [simp]: "length (descriptions n a) = n"
  by (simp add: descriptions_def split: option.splits prod.splits)

lemma find_active_none: "(\<And>d. d \<in> set ds \<Longrightarrow> bd_active_id d = -1) \<Longrightarrow> find_active ds i = -2"
  by (induction ds arbitrary: i) auto

lemma find_active_at:
  "\<lbrakk> k < n; bd_active_id d \<ge> 0 \<rbrakk> \<Longrightarrow> find_active ((replicate n blank)[k := d]) i = i + int k"
proof (induction n arbitrary: k i)
  case (Suc n)
  then show ?case by (cases k) (auto simp: blank_def)
qed simp

lemma find_active_descriptions: "tracked_ok n a \<Longrightarrow> find_active (descriptions n a) 0 = act_of a"
proof (cases a)
  case None
  have "find_active (replicate n blank) 0 = -2" by (rule find_active_none) (auto simp: blank_def)
  with None show ?thesis by (simp add: descriptions_def act_of_def)
next
  case (Some t)
  then obtain act cnt long where "a = Some (act, cnt, long)" by (cases t) auto
  moreover assume "tracked_ok n a"
  ultimately show ?thesis by (auto simp: descriptions_def act_of_def tracked_ok_def find_active_at [of "nat act" n])
qed

text \<open>A node whose descriptions represent the state \<open>a\<close>.\<close>

definition with_tracked :: "adc_btn_node \<Rightarrow> tracked \<Rightarrow> adc_btn_node" where
  "with_tracked node a = node\<lparr>an_btn_dscp := descriptions (length (an_btn_dscp node)) a\<rparr>"

lemma with_tracked_simps [simp]:
  "an_adc_info (with_tracked node a) = an_adc_info node"
  "an_btn_dscp (with_tracked node a) = descriptions (length (an_btn_dscp node)) a"
  "wf_node (with_tracked node a) = wf_node node"
  "get_button_id (with_tracked node a) = get_button_id node"
  "with_tracked node a\<lparr>an_btn_dscp := descriptions (length (an_btn_dscp node)) c\<rparr> = with_tracked node c"
  by (simp_all add: with_tracked_def wf_node_def get_button_id_def fun_eq_iff split: option.splits)

lemma replicate_blank_upd: "k < n \<Longrightarrow> (replicate n blank)[k := blank] = replicate n blank"
  by (metis list_update_id nth_replicate)

lemma descriptions_upd:
  assumes "0 \<le> act" "act < int n"
  shows "descriptions n (Some (act, cnt, long)) ! nat act = \<lparr>bd_active_id = act, bd_click_cnt = cnt, bd_long_click = long\<rparr>"
    and "(descriptions n (Some (act, cnt, long)))[nat act := \<lparr>bd_active_id = act, bd_click_cnt = c, bd_long_click = l\<rparr>] =
         descriptions n (Some (act, c, l))"
    and "(descriptions n (Some (act, cnt, long)))[nat act := blank] = descriptions n None"
    and "(descriptions n None)[nat act := \<lparr>bd_active_id = act, bd_click_cnt = c, bd_long_click = l\<rparr>] = descriptions n (Some (act, c, l))"
    and "descriptions n None ! nat act = blank"
  using assms by (auto simp: descriptions_def replicate_blank_upd)

lemma clear_tracked: "clear_btn \<lparr>bd_active_id = i, bd_click_cnt = c, bd_long_click = l\<rparr> = blank"
  by (simp add: clear_btn_def blank_def)

lemma detect_ok: "\<lbrakk> tracked_ok n a; b = -1 \<or> 0 \<le> b \<and> b < int n; detect J b a = (st, a') \<rbrakk> \<Longrightarrow> tracked_ok n a'"
  by (cases a) (auto simp: tracked_ok_def split: if_splits)

lemma get_adc_btn_state_none:
  assumes wf: "wf_node node" and b: "get_button_id node adc = Some b" "b = -1 \<or> 0 \<le> b \<and> b < int (length (an_btn_dscp node))"
  shows "get_adc_btn_state adc (act_of None) (with_tracked node None) =
           (let (st, a') = detect (judge_count (an_adc_info node)) b None in Some (st, with_tracked node a'))"
proof -
  show ?thesis
  proof (cases "b = -1")
    case True with b show ?thesis by (simp add: get_adc_btn_state_def act_of_def)
  next
    case False
    with b have in_range: "0 \<le> b" "b < int (length (an_btn_dscp node))" by auto
    have "blank\<lparr>bd_active_id := b\<rparr> = \<lparr>bd_active_id = b, bd_click_cnt = 0, bd_long_click = 0\<rparr>"
      by (simp add: blank_def)
    then show ?thesis using False b(1) in_range
      by (simp add: get_adc_btn_state_def act_of_def cell_upd_in descriptions_upd [OF in_range])
  qed
qed

lemma get_adc_btn_state_some:
  assumes wf: "wf_node node" and b: "get_button_id node adc = Some b" "b = -1 \<or> 0 \<le> b \<and> b < int (length (an_btn_dscp node))"
    and a: "a = Some (act, cnt, long)" and ok: "tracked_ok (length (an_btn_dscp node)) a"
  shows "get_adc_btn_state adc (act_of a) (with_tracked node a) =
           (let (st, a') = detect (judge_count (an_adc_info node)) b a in Some (st, with_tracked node a'))"
proof -
  let ?n = "length (an_btn_dscp node)"
  have act: "0 \<le> act" "act < int ?n" using ok a by (simp_all add: tracked_ok_def)
  then have "act_of a = act" "act \<noteq> -2" using a by (simp_all add: act_of_def)
  note d = descriptions_upd [OF act] this
  consider "b = -1" | "b \<noteq> -1" "b \<noteq> act" | "b = act" by blast
  then show ?thesis
  proof cases
    case 1
    then show ?thesis using b(1) a act d
      by (simp add: get_adc_btn_state_def cell_in cell_upd_in clear_tracked)
  next
    case 2
    then have in_range: "0 \<le> b" "b < int ?n" using b by auto
    have "blank\<lparr>bd_active_id := b\<rparr> = \<lparr>bd_active_id = b, bd_click_cnt = 0, bd_long_click = 0\<rparr>"
      by (simp add: blank_def)
    then show ?thesis using 2 b(1) a act d in_range descriptions_upd [OF in_range]
      by (simp add: get_adc_btn_state_def cell_in cell_upd_in clear_tracked)
  next
    case 3
    then show ?thesis using b(1) a act d
      by (simp add: get_adc_btn_state_def cell_in cell_upd_in)
  qed
qed

text \<open>A sample of a channel is a step of the machine.\<close>

lemma get_button_id_range:
  assumes "wf_node node"
  obtains b where "get_button_id node adc = Some b" "b = -1 \<or> 0 \<le> b \<and> b < int (length (an_btn_dscp node))"
  using get_button_id_cases [OF assms, of adc] wf_nodeD(3) [OF assms] by metis

lemma adc_detect_step:
  assumes wf: "wf_node node" and ok: "tracked_ok (length (an_btn_dscp node)) a"
    and b: "get_button_id node adc = Some b" "b = -1 \<or> 0 \<le> b \<and> b < int (length (an_btn_dscp node))"
  shows "adc_detect adc (with_tracked node a) =
           (let (st, a') = detect (judge_count (an_adc_info node)) b a in Some ((st, act_of a), with_tracked node a'))"
proof -
  have "nat (aa_total_steps (an_adc_info node)) = length (an_btn_dscp node)"
    using wf by (simp add: wf_node_def)
  then have act: "find_active (take (nat (aa_total_steps (an_adc_info node))) (an_btn_dscp (with_tracked node a))) 0 = act_of a"
    using ok by (simp add: find_active_descriptions)
  have "get_adc_btn_state adc (act_of a) (with_tracked node a) =
          (let (st, a') = detect (judge_count (an_adc_info node)) b a in Some (st, with_tracked node a'))"
    using get_adc_btn_state_none [OF wf b] get_adc_btn_state_some [OF wf b _ ok]
    by (cases a) auto
  with act show ?thesis by (simp add: adc_detect_def split_beta Let_def)
qed

text \<open>A sequence of samples of one channel, with the states it yields.\<close>

fun adc_samples :: "adc_btn_node \<Rightarrow> int list \<Rightarrow> (adc_btn_state list \<times> adc_btn_node) option" where
  "adc_samples node [] = Some ([], node)"
| "adc_samples node (v # vs) = do {
     ((st, _), node) \<leftarrow> adc_detect v node;
     (sts, node) \<leftarrow> adc_samples node vs;
     Some (st # sts, node)
   }"

fun detects :: "int \<Rightarrow> int list \<Rightarrow> tracked \<Rightarrow> adc_btn_state list \<times> tracked" where
  "detects J [] a = ([], a)"
| "detects J (b # bs) a = (let (st, a) = detect J b a; (sts, a) = detects J bs a in (st # sts, a))"

lemma adc_samples_detects:
  assumes "wf_node node" "tracked_ok (length (an_btn_dscp node)) a"
  shows "adc_samples (with_tracked node a) vs =
           (let (sts, a') = detects (judge_count (an_adc_info node)) (map (\<lambda>v. the (get_button_id node v)) vs) a in
            Some (sts, with_tracked node a'))"
  using assms
proof (induction vs arbitrary: a)
  case (Cons v vs)
  obtain b where b: "get_button_id node v = Some b" "b = -1 \<or> 0 \<le> b \<and> b < int (length (an_btn_dscp node))"
    using get_button_id_range [OF Cons.prems(1)] .
  obtain st a' where st: "detect (judge_count (an_adc_info node)) b a = (st, a')" by fastforce
  have ok: "tracked_ok (length (an_btn_dscp node)) a'" using detect_ok [OF Cons.prems(2) b(2) st] .
  show ?case
    using adc_detect_step [OF Cons.prems b] Cons.IH [OF Cons.prems(1) ok]
    by (simp add: st b split_beta Let_def)
qed simp

lemma reset_tracked: "node\<lparr>an_btn_dscp := reset_btn (an_btn_dscp node)\<rparr> = with_tracked node None"
  by (simp add: with_tracked_def descriptions_def reset_btn_def blank_def map_replicate_const)

text \<open>C15. The descriptions of a channel, from its reset on, implement the abstract detector: no access leaves the
  arrays, and the states of any sequence of samples are the outputs of the machine on the buttons they name.\<close>

theorem adc_detect_refines:
  assumes "wf_node node"
  shows "adc_samples (node\<lparr>an_btn_dscp := reset_btn (an_btn_dscp node)\<rparr>) vs =
           (let (sts, a) = detects (judge_count (an_adc_info node)) (map (\<lambda>v. the (get_button_id node v)) vs) None in
            Some (sts, node\<lparr>an_btn_dscp := descriptions (length (an_btn_dscp node)) a\<rparr>))"
  unfolding reset_tracked
  using adc_samples_detects [OF assms, of None] by (simp add: tracked_ok_def with_tracked_def)

text \<open>What a machine yields while a button stays down.\<close>

lemma detects_hold_long:
  "i \<noteq> -1 \<Longrightarrow> detects J (replicate n i) (Some (i, c, 1)) = (replicate n ADC_BTN_STATE_IDLE, Some (i, c + int n, 1))"
  by (induction n arbitrary: c) (simp_all add: Let_def)

lemma detects_hold:
  "\<lbrakk> i \<noteq> -1; 0 \<le> c; c < J \<rbrakk> \<Longrightarrow> detects J (replicate n i) (Some (i, c, 0)) =
     (if c + int n < J then (replicate n ADC_BTN_STATE_IDLE, Some (i, c + int n, 0))
      else (replicate (nat (J - c - 1)) ADC_BTN_STATE_IDLE @ ADC_BTN_STATE_LONG_PRESSED #
              replicate (nat (c + int n - J)) ADC_BTN_STATE_IDLE, Some (i, c + int n, 1)))"
proof (induction n arbitrary: c)
  case (Suc n)
  show ?case
  proof (cases "c + 1 < J")
    case True
    then have "nat (J - c - 1) = Suc (nat (J - (c + 1) - 1))" using Suc.prems by simp
    then show ?thesis using Suc.IH [of "c + 1"] Suc.prems True by (simp add: Let_def add.assoc)
  next
    case False
    then have "J = c + 1" using Suc.prems by simp
    then show ?thesis using Suc.prems by (simp add: Let_def detects_hold_long)
  qed
qed simp

lemma detects_append: "detects J (xs @ ys) a =
    (let (s1, a) = detects J xs a; (s2, a) = detects J ys a in (s1 @ s2, a))"
  by (induction xs arbitrary: a) (simp_all add: split_beta Let_def)

lemma detects_press:
  assumes "i \<noteq> -1" "3 \<le> n" "1 \<le> J"
  shows "filter (\<lambda>st. st \<noteq> ADC_BTN_STATE_IDLE) (fst (detects J (replicate n i @ [-1]) None)) =
           (if int n - 1 < J then [ADC_BTN_STATE_PRESSED] else [ADC_BTN_STATE_LONG_PRESSED, ADC_BTN_STATE_LONG_RELEASE])
         \<and> snd (detects J (replicate n i @ [-1]) None) = None"
proof -
  obtain m where n: "n = Suc m" using assms(2) by (cases n) auto
  have "replicate n i @ [-1] = i # replicate m i @ [-1]" by (simp add: n)
  then show ?thesis
    using detects_hold [of i 0 J m] assms n
    by (simp add: detects_append Let_def)
qed

text \<open>Holding one button of a channel for \<open>n \<ge> 3\<close> samples and releasing it yields exactly one event, a press, when
  \<open>n - 1\<close> samples are fewer than the judge time, and otherwise exactly a long press and its release; the channel is
  back in its reset state.\<close>

theorem adc_press_classified:
  assumes wf: "wf_node node" and down: "\<forall>v\<in>set vs. get_button_id node v = Some i" and i: "i \<noteq> -1"
    and up: "get_button_id node u = Some (-1)" and n: "3 \<le> length vs" and J: "1 \<le> judge_count (an_adc_info node)"
  shows "\<exists>sts. adc_samples (node\<lparr>an_btn_dscp := reset_btn (an_btn_dscp node)\<rparr>) (vs @ [u]) =
           Some (sts, node\<lparr>an_btn_dscp := reset_btn (an_btn_dscp node)\<rparr>) \<and>
         filter (\<lambda>st. st \<noteq> ADC_BTN_STATE_IDLE) sts =
           (if int (length vs) - 1 < judge_count (an_adc_info node) then [ADC_BTN_STATE_PRESSED]
            else [ADC_BTN_STATE_LONG_PRESSED, ADC_BTN_STATE_LONG_RELEASE])"
proof -
  have "map (\<lambda>v. the (get_button_id node v)) vs = replicate (length vs) i"
    using down by (induction vs) auto
  then have ids: "map (\<lambda>v. the (get_button_id node v)) (vs @ [u]) = replicate (length vs) i @ [-1]"
    using up by simp
  show ?thesis
    unfolding reset_tracked
    using adc_samples_detects [OF wf, of None "vs @ [u]"] detects_press [OF i n J]
    by (simp add: ids tracked_ok_def split_beta Let_def del: map_append)
qed

section \<open>Creating\<close>

text \<open>A configuration whose steps fit and whose level array is long enough; the default levels need a channel of
  six or seven steps.\<close>

definition conf_ok :: "adc_arr \<Rightarrow> bool" where
  "conf_ok conf \<longleftrightarrow> 0 \<le> aa_total_steps conf \<and> aa_total_steps conf \<le> USER_KEY_MAX \<and>
     (case aa_adc_level_step conf of None \<Rightarrow> 6 \<le> aa_total_steps conf
      | Some xs \<Rightarrow> aa_total_steps conf < int (length xs))"

lemma new_node_wf:
  assumes "allocates R" "conf_ok conf"
  shows "\<exists>node w'. adc_btn_new_node R conf w = Some (Some node, w') \<and> wf_node node \<and>
           aa_adc_ch (an_adc_info node) = aa_adc_ch conf \<and> aa_total_steps (an_adc_info node) = aa_total_steps conf"
proof -
  let ?n = "nat (aa_total_steps conf)"
  obtain a1 w1 where 1: "heap_alloc R 24 w = (Some a1, w1)" using allocatesD [OF assms(1)] by blast
  obtain a2 w2 where 2: "heap_alloc R ((?n + 1) * 4) w1 = (Some a2, w2)" using allocatesD [OF assms(1)] by blast
  obtain a3 w3 where 3: "heap_alloc R (12 * ?n) w2 = (Some a3, w3)" using allocatesD [OF assms(1)] by blast
  obtain levels where levels: "(case aa_adc_level_step conf of
        None \<Rightarrow> mem_write (replicate (?n + 1) 0) 0 default_step_level
      | Some xs \<Rightarrow> mem_read xs 0 (?n + 1)) = Some levels" "length levels = ?n + 1"
    using assms(2) by (cases "aa_adc_level_step conf") (auto simp: conf_ok_def default_step_level_def)
  show ?thesis
    using assms(2) levels(2) 1 2 3
    by (simp add: adc_btn_new_node_def levels(1) conf_ok_def Let_def wf_node_def)
qed

text \<open>C38. With enough memory, creating the list of well-formed configurations succeeds, and every channel of it has
  arrays of the sizes the other functions rely on.\<close>

theorem adc_list_well_formed:
  assumes "allocates R" "\<forall>conf\<in>set confs. conf_ok conf"
  shows "\<exists>nodes w'. adc_btn_create_list R confs w = Some (Some nodes, w') \<and> (\<forall>n\<in>set nodes. wf_node n) \<and>
           map (\<lambda>n. aa_adc_ch (an_adc_info n)) nodes = map aa_adc_ch confs"
  using assms
proof (induction confs arbitrary: w)
  case (Cons conf confs)
  obtain node w1 where 1: "adc_btn_new_node R conf w = Some (Some node, w1)" "wf_node node"
      "aa_adc_ch (an_adc_info node) = aa_adc_ch conf"
    using new_node_wf [of R conf w] Cons.prems by auto
  obtain nodes w2 where "adc_btn_create_list R confs w1 = Some (Some nodes, w2)" "\<forall>n\<in>set nodes. wf_node n"
      "map (\<lambda>n. aa_adc_ch (an_adc_info n)) nodes = map aa_adc_ch confs"
    using Cons.IH [of w1] Cons.prems by auto
  with 1 show ?case by simp
qed simp

text \<open>A channel of fewer than six steps with the default levels makes \<open>memcpy\<close> write past the level array, and one
  of more than seven steps is used after it was freed.\<close>

theorem adc_create_undefined:
  assumes "allocates R"
    and "0 \<le> aa_total_steps conf \<and> aa_total_steps conf < 6 \<and> aa_adc_level_step conf = None \<or>
         7 < aa_total_steps conf"
  shows "adc_btn_create_list R (conf # confs) w = None"
proof -
  let ?n = "nat (aa_total_steps conf)"
  obtain a1 w1 where 1: "heap_alloc R 24 w = (Some a1, w1)" using allocatesD [OF assms(1)] by blast
  obtain a2 w2 where 2: "heap_alloc R ((?n + 1) * 4) w1 = (Some a2, w2)" using allocatesD [OF assms(1)] by blast
  have "adc_btn_new_node R conf w = None"
    using assms(2) 1 2
    by (auto simp: adc_btn_new_node_def Let_def mem_write_def default_step_level_def bind_eq_None_conv)
  then show ?thesis by simp
qed

section \<open>The task\<close>

text \<open>The state of the task is shared by all channels: a press found on one channel is announced in the same pass
  with the number of the next channel, which is not sampled, and with the first channel's button.\<close>

theorem adc_event_wrong_channel:
  assumes "at_cur_state s = ADC_BTN_STATE_ADC"
    and "get_adc_voltage A (aa_adc_ch (an_adc_info n1)) w = (adc, w1)"
    and "adc_detect adc n1 = Some ((ADC_BTN_STATE_PRESSED, i), n1')"
  shows "button_task_pass A [n1, n2] s w =
           Some (([n1', n2], \<lparr>at_cur_state = ADC_BTN_STATE_RELEASE, at_cur_act_id = i\<rparr>),
                 call_btn_callback A (aa_adc_ch (an_adc_info n2)) i ADC_BTN_STATE_PRESSED w1)"
  using assms by (simp add: button_task_visit_def Let_def)

section \<open>Concrete channels\<close>

text \<open>A channel with the default levels and a driver that reports one voltage and records the callbacks.\<close>

definition ex_conf :: "int \<Rightarrow> adc_arr" where
  "ex_conf ch = \<lparr>aa_adc_ch = ch, aa_adc_level_step = Some default_step_level, aa_total_steps = 6, aa_press_judge_time = 100\<rparr>"

definition ex_node :: "int \<Rightarrow> tracked \<Rightarrow> adc_btn_node" where
  "ex_node ch a = \<lparr>an_adc_info = ex_conf ch, an_btn_dscp = descriptions 6 a\<rparr>"

definition ex_adc :: "u32 \<Rightarrow> (int \<times> int \<times> adc_btn_state) list adc_ops" where
  "ex_adc v = \<lparr>esp_adc_cal_get_voltage = (\<lambda>ch w. (Some v, w)), adc_configure = (\<lambda>ch w. w),
     call_btn_callback = (\<lambda>ch i st w. w @ [(ch, i, st)]), adc_delay = (\<lambda>w. w),
     start_button_task = (\<lambda>w. w), release_block = (\<lambda>w. w)\<rparr>"

lemma ex_node_wf: "wf_node (ex_node ch a)"
  by (simp add: ex_node_def ex_conf_def wf_node_def default_step_level_def)

lemma ex_samples: "get_samples (ex_adc v) ch n w = (replicate n v, w)"
  by (induction n arbitrary: w) (simp_all add: ex_adc_def)

theorem adc_voltage_trimmed_mean_witness:
  "fst (get_adc_voltage (ex_adc 1000) 3 []) = 1000"
proof -
  have small: "\<forall>v\<in>set (fst (get_samples (ex_adc 1000) 3 ADC_SAMPLES_NUM [])). unat v < 2 ^ 28"
    by (simp add: ex_samples)
  have "sum_list (butlast (tl (sort (map unat (replicate 10 (1000 :: u32)))))) = 8000" by code_simp
  with adc_voltage_trimmed_mean [OF small] show ?thesis by (simp add: ex_samples)
qed

theorem button_of_voltage_witness: "get_button_id (ex_node 3 None) 1000 = Some 1"
proof -
  have 1: "sorted (levels_of (ex_node 3 None))"
    by (simp add: levels_of_def ex_node_def ex_conf_def default_step_level_def)
  have 2: "(0 :: int) \<le> 1" "1 < aa_total_steps (an_adc_info (ex_node 3 None))" by (simp_all add: ex_node_def ex_conf_def)
  from button_of_voltage [OF ex_node_wf 1 2, of 1000] show ?thesis
    by (simp add: levels_of_def ex_node_def ex_conf_def default_step_level_def)
qed

theorem adc_detect_refines_witness:
  "map_option fst (adc_samples ((ex_node 3 None)\<lparr>an_btn_dscp := reset_btn (an_btn_dscp (ex_node 3 None))\<rparr>)
      [1000, 1000, 1000, 0, 0]) =
   Some [ADC_BTN_STATE_IDLE, ADC_BTN_STATE_IDLE, ADC_BTN_STATE_IDLE, ADC_BTN_STATE_PRESSED, ADC_BTN_STATE_IDLE]"
proof -
  have 1: "map (\<lambda>v. the (get_button_id (ex_node 3 None) v)) [1000, 1000, 1000, 0, 0] = [1, 1, 1, -1, -1]" by code_simp
  have 2: "judge_count (an_adc_info (ex_node 3 None)) = 5" by code_simp
  show ?thesis unfolding adc_detect_refines [OF ex_node_wf] 1 2 by simp
qed

theorem adc_press_classified_witness:
  "\<exists>sts node'. adc_samples ((ex_node 3 None)\<lparr>an_btn_dscp := reset_btn (an_btn_dscp (ex_node 3 None))\<rparr>)
       ([700, 800, 900, 1000, 1000, 1000, 1100] @ [0]) = Some (sts, node') \<and>
     filter (\<lambda>st. st \<noteq> ADC_BTN_STATE_IDLE) sts = [ADC_BTN_STATE_LONG_PRESSED, ADC_BTN_STATE_LONG_RELEASE]"
proof -
  let ?vs = "[700, 800, 900, 1000, 1000, 1000, 1100] :: int list"
  have 1: "\<forall>v\<in>set ?vs. get_button_id (ex_node 3 None) v = Some 1" by code_simp
  have 2: "get_button_id (ex_node 3 None) 0 = Some (-1)" by code_simp
  have 3: "judge_count (an_adc_info (ex_node 3 None)) = 5" by code_simp
  from adc_press_classified [OF ex_node_wf 1 _ 2] show ?thesis by (auto simp: 3)
qed

theorem adc_list_well_formed_witness:
  "\<exists>nodes w'. adc_btn_create_list (seq_platform (Some 1)) [ex_conf 3, ex_conf 6] () = Some (Some nodes, w') \<and>
     (\<forall>n\<in>set nodes. wf_node n) \<and> map (\<lambda>n. aa_adc_ch (an_adc_info n)) nodes = [3, 6]"
proof -
  have 1: "allocates (seq_platform (Some 1) :: unit platform)" by (simp add: allocates_def)
  have 2: "\<forall>conf\<in>set [ex_conf 3, ex_conf 6]. conf_ok conf" by code_simp
  from adc_list_well_formed [OF 1 2, of "()"] show ?thesis by (simp add: ex_conf_def)
qed

theorem adc_create_undefined_witness:
  "adc_btn_create_list (seq_platform (Some 1)) [(ex_conf 3)\<lparr>aa_adc_level_step := None, aa_total_steps := 4\<rparr>] () = None"
proof -
  have "allocates (seq_platform (Some 1) :: unit platform)" by (simp add: allocates_def)
  then show ?thesis by (rule adc_create_undefined) simp
qed

theorem adc_event_wrong_channel_witness:
  "map_option snd (button_task_pass (ex_adc 0) [ex_node 3 (Some (2, 4, 0)), ex_node 6 None]
     \<lparr>at_cur_state = ADC_BTN_STATE_ADC, at_cur_act_id = ADC_BTN_INVALID_ACT_ID\<rparr> []) =
   Some [(6, 2, ADC_BTN_STATE_PRESSED)]"
proof -
  have 1: "get_adc_voltage (ex_adc 0) (aa_adc_ch (an_adc_info (ex_node 3 (Some (2, 4, 0))))) [] = (0, [])" by code_simp
  have 2: "adc_detect 0 (ex_node 3 (Some (2, 4, 0))) = Some ((ADC_BTN_STATE_PRESSED, 2), ex_node 3 None)" by code_simp
  show ?thesis
    by (subst adc_event_wrong_channel [OF _ 1 2]) (simp_all add: ex_adc_def ex_node_def ex_conf_def)
qed

end
