(* ===== verification/Periph_Keys.thy ===== *)
theory Periph_Keys
  imports Esp_Periph Buttons Adc_Button
begin

text \<open>
  The key peripherals (\<open>components/esp_peripherals/periph_button.c\<close>, \<open>periph_touch.c\<close>, \<open>periph_adc_button.c\<close>): they
  connect the detectors of the libraries to the peripheral manager. The data block of a peripheral is an object of
  its own store; a detector belongs to one block and is a value in it.
\<close>

abbreviation AUDIO_ELEMENT_TYPE_PERIPH :: int where "AUDIO_ELEMENT_TYPE_PERIPH \<equiv> 2 ^ 20"
abbreviation PERIPH_ID_BUTTON :: int where "PERIPH_ID_BUTTON \<equiv> AUDIO_ELEMENT_TYPE_PERIPH + 1"
abbreviation PERIPH_ID_TOUCH :: int where "PERIPH_ID_TOUCH \<equiv> AUDIO_ELEMENT_TYPE_PERIPH + 2"
abbreviation PERIPH_ID_ADC_BTN :: int where "PERIPH_ID_ADC_BTN \<equiv> AUDIO_ELEMENT_TYPE_PERIPH + 12"

record periph_button =
  pb_btn :: "esp_button option"
  pb_gpio_mask :: u64
  pb_long_press_time_ms :: int

record periph_touch =
  pt_touch :: "esp_touch option"
  pt_touch_mask :: int
  pt_long_tap_time_ms :: int
  pt_tap_threshold_percent :: int
  pt_result :: touch_result

record periph_adc_btn =
  pa_adc_channels :: int
  pa_list :: "adc_btn_node list"

record key_world = pe_world +
  pbs :: "addr \<Rightarrow> periph_button option"
  pts :: "addr \<Rightarrow> periph_touch option"
  pas :: "addr \<Rightarrow> periph_adc_btn option"

type_synonym 'z kw = "'z key_world_scheme"

text \<open>The addresses of the functions the peripherals register.\<close>

definition button_init_ptr :: fnptr where "button_init_ptr = 11"
definition button_run_ptr :: fnptr where "button_run_ptr = 12"
definition button_destroy_ptr :: fnptr where "button_destroy_ptr = 13"
definition button_intr_handler_ptr :: fnptr where "button_intr_handler_ptr = 14"
definition button_timer_handler_ptr :: fnptr where "button_timer_handler_ptr = 15"
definition touch_init_ptr :: fnptr where "touch_init_ptr = 21"
definition touch_run_ptr :: fnptr where "touch_run_ptr = 22"
definition touch_destroy_ptr :: fnptr where "touch_destroy_ptr = 23"
definition touch_timer_handler_ptr :: fnptr where "touch_timer_handler_ptr = 25"
definition adc_button_init_ptr :: fnptr where "adc_button_init_ptr = 31"
definition adc_button_destroy_ptr :: fnptr where "adc_button_destroy_ptr = 33"

section \<open>GPIO buttons\<close>

abbreviation PERIPH_BUTTON_PRESSED :: int where "PERIPH_BUTTON_PRESSED \<equiv> 1"
abbreviation PERIPH_BUTTON_RELEASE :: int where "PERIPH_BUTTON_RELEASE \<equiv> 2"
abbreviation PERIPH_BUTTON_LONG_PRESSED :: int where "PERIPH_BUTTON_LONG_PRESSED \<equiv> 3"
abbreviation PERIPH_BUTTON_LONG_RELEASE :: int where "PERIPH_BUTTON_LONG_RELEASE \<equiv> 4"

text \<open>The loop over the mask, from the button of its lowest bit on.\<close>

function button_send_from ::
  "'z kw platform \<Rightarrow> 'z kw periph_ops \<Rightarrow> periph_handle \<Rightarrow> int \<Rightarrow> u64 \<Rightarrow> int \<Rightarrow> 'z kw \<Rightarrow> 'z kw option" where
  "button_send_from R P self event_id msk gpio_num w =
     (if msk = 0 then Some w
      else do {
        w \<leftarrow> (if msk AND 1 \<noteq> 0 then do { (_, w) \<leftarrow> esp_periph_send_event R P self event_id gpio_num 0 w; Some w }
              else Some w);
        button_send_from R P self event_id (drop_bit 1 msk) (gpio_num + 1) w
      })"
  by pat_completeness auto
termination by (relation "measure (\<lambda>(_, _, _, _, msk, _, _). unat msk)") (auto simp: half_word_less)

declare button_send_from.simps [simp del]

definition button_send_event ::
  "'z kw platform \<Rightarrow> 'z kw periph_ops \<Rightarrow> periph_handle \<Rightarrow> int \<Rightarrow> u64 \<Rightarrow> 'z kw \<Rightarrow> 'z kw option" where
  "button_send_event R P self event_id msk w = button_send_from R P self event_id msk 0 w"

text \<open>\<open>_button_run\<close>: the detector is read, and then the events of the four masks are sent.\<close>

definition button_run ::
  "'z kw platform \<Rightarrow> 'z kw periph_ops \<Rightarrow> 'z kw pad_ops \<Rightarrow> periph_handle \<Rightarrow> 'z kw \<Rightarrow> (esp_err \<times> 'z kw) option" where
  "button_run R P B self w = do {
     a \<leftarrow> esp_periph_get_data self w;
     pb \<leftarrow> pbs w a;
     btn \<leftarrow> pb_btn pb;
     let ((changed, result, btn), w) = button_read B btn w;
     pb \<leftarrow> pbs w a;
     let w = w\<lparr>pbs := (pbs w)(a \<mapsto> pb\<lparr>pb_btn := Some btn\<rparr>)\<rparr>;
     w \<leftarrow> (if changed then do {
             w \<leftarrow> button_send_event R P self PERIPH_BUTTON_PRESSED (press_mask result) w;
             w \<leftarrow> button_send_event R P self PERIPH_BUTTON_RELEASE (release_mask result) w;
             w \<leftarrow> button_send_event R P self PERIPH_BUTTON_LONG_PRESSED (long_press_mask result) w;
             button_send_event R P self PERIPH_BUTTON_LONG_RELEASE (long_release_mask result) w
           } else Some w);
     Some (ESP_OK, w)
   }"

text \<open>\<open>_button_destroy\<close>; destroying a detector that was never made is undefined.\<close>

definition periph_button_destroy ::
  "'z kw pad_ops \<Rightarrow> periph_handle \<Rightarrow> 'z kw \<Rightarrow> (esp_err \<times> 'z kw) option" where
  "periph_button_destroy B self w = do {
     a \<leftarrow> esp_periph_get_data self w;
     pb \<leftarrow> pbs w a;
     btn \<leftarrow> pb_btn pb;
     let (_, w) = button_destroy B btn w;
     Some (ESP_OK, w\<lparr>pbs := (pbs w)(a := None)\<rparr>)
   }"

text \<open>The interrupt and the timer ask the task to read the detector.\<close>

definition button_intr_handler ::
  "'z kw platform \<Rightarrow> bool \<Rightarrow> periph_handle \<Rightarrow> 'z kw \<Rightarrow> 'z kw option" where
  "button_intr_handler R junk periph w = do { (_, w) \<leftarrow> esp_periph_send_cmd_from_isr R junk periph 0 0 0 w; Some w }"

definition button_timer_handler ::
  "'z kw platform \<Rightarrow> bool \<Rightarrow> periph_handle \<Rightarrow> 'z kw \<Rightarrow> 'z kw option" where
  "button_timer_handler R junk periph w = do { (_, w) \<leftarrow> esp_periph_send_cmd_from_isr R junk periph 0 0 0 w; Some w }"

text \<open>\<open>_button_init\<close>: neither a failed detector nor a failed timer is reported.\<close>

definition periph_button_start ::
  "'z kw platform \<Rightarrow> 'z kw periph_ops \<Rightarrow> 'z kw pad_ops \<Rightarrow> periph_handle \<Rightarrow> 'z kw \<Rightarrow> (esp_err \<times> 'z kw) option" where
  "periph_button_start R P B self w = do {
     id \<leftarrow> esp_periph_get_id self w;
     if id \<noteq> PERIPH_ID_BUTTON then Some (ESP_FAIL, w)
     else do {
       a \<leftarrow> esp_periph_get_data self w;
       pb \<leftarrow> pbs w a;
       let (btn, w) = button_init R B \<lparr>bc_long_press_time_ms = pb_long_press_time_ms pb, bc_gpio_mask = pb_gpio_mask pb,
             bc_button_intr_handler = Some button_intr_handler_ptr, bc_intr_context = self\<rparr> w;
       pb \<leftarrow> pbs w a;
       let w = w\<lparr>pbs := (pbs w)(a \<mapsto> pb\<lparr>pb_btn := btn\<rparr>)\<rparr>;
       (_, w) \<leftarrow> esp_periph_start_timer P self (of_nat (50 div portTICK_RATE_MS R)) button_timer_handler_ptr w;
       Some (0, w)
     }
   }"

definition periph_button_init ::
  "'z kw platform \<Rightarrow> u64 \<Rightarrow> int \<Rightarrow> 'z kw \<Rightarrow> (periph_handle option \<times> 'z kw) option" where
  "periph_button_init R gpio_mask long_press_time_ms w =
     (case esp_periph_create R PERIPH_ID_BUTTON (Some ''periph_btn'') w of
        (None, w) \<Rightarrow> Some (None, w)
      | (Some periph, w) \<Rightarrow> (case heap_alloc R 24 w of
          (None, w) \<Rightarrow> Some (None, w\<lparr>prs := (prs w)(periph := None)\<rparr>)
        | (Some a, w) \<Rightarrow> do {
            let w = w\<lparr>pbs := (pbs w)(a \<mapsto>
              \<lparr>pb_btn = None, pb_gpio_mask = gpio_mask, pb_long_press_time_ms = long_press_time_ms\<rparr>)\<rparr>;
            (_, w) \<leftarrow> esp_periph_set_data periph a w;
            (_, w) \<leftarrow> esp_periph_set_function periph (Some button_init_ptr) (Some button_run_ptr) (Some button_destroy_ptr) w;
            Some (Some periph, w)
          }))"

section \<open>Touch pads\<close>

abbreviation PERIPH_TOUCH_TAP :: int where "PERIPH_TOUCH_TAP \<equiv> 1"
abbreviation PERIPH_TOUCH_RELEASE :: int where "PERIPH_TOUCH_RELEASE \<equiv> 2"
abbreviation PERIPH_TOUCH_LONG_TAP :: int where "PERIPH_TOUCH_LONG_TAP \<equiv> 3"
abbreviation PERIPH_TOUCH_LONG_RELEASE :: int where "PERIPH_TOUCH_LONG_RELEASE \<equiv> 4"

text \<open>The mask is a signed integer: the loop on a negative one does not end.\<close>

function touch_send_from ::
  "'z kw platform \<Rightarrow> 'z kw periph_ops \<Rightarrow> periph_handle \<Rightarrow> int \<Rightarrow> u32 \<Rightarrow> int \<Rightarrow> 'z kw \<Rightarrow> 'z kw option" where
  "touch_send_from R P self event_id msk touch_num w =
     (if msk = 0 then Some w
      else if bit msk 31 then None
      else do {
        w \<leftarrow> (if msk AND 1 \<noteq> 0 then do { (_, w) \<leftarrow> esp_periph_send_event R P self event_id touch_num 0 w; Some w }
              else Some w);
        touch_send_from R P self event_id (drop_bit 1 msk) (touch_num + 1) w
      })"
  by pat_completeness auto
termination by (relation "measure (\<lambda>(_, _, _, _, msk, _, _). unat msk)") (auto simp: half_word_less)

declare touch_send_from.simps [simp del]

definition touch_send_event ::
  "'z kw platform \<Rightarrow> 'z kw periph_ops \<Rightarrow> periph_handle \<Rightarrow> int \<Rightarrow> u32 \<Rightarrow> 'z kw \<Rightarrow> 'z kw option" where
  "touch_send_event R P self event_id msk w = touch_send_from R P self event_id msk 0 w"

text \<open>\<open>_touch_run\<close> sends the events of the masks that the timer left in the block.\<close>

definition touch_run ::
  "'z kw platform \<Rightarrow> 'z kw periph_ops \<Rightarrow> periph_handle \<Rightarrow> 'z kw \<Rightarrow> (esp_err \<times> 'z kw) option" where
  "touch_run R P self w = do {
     a \<leftarrow> esp_periph_get_data self w;
     pt \<leftarrow> pts w a;
     w \<leftarrow> touch_send_event R P self PERIPH_TOUCH_TAP (tap_mask (pt_result pt)) w;
     pt \<leftarrow> pts w a;
     w \<leftarrow> touch_send_event R P self PERIPH_TOUCH_RELEASE (t_release_mask (pt_result pt)) w;
     pt \<leftarrow> pts w a;
     w \<leftarrow> touch_send_event R P self PERIPH_TOUCH_LONG_TAP (long_tap_mask (pt_result pt)) w;
     pt \<leftarrow> pts w a;
     w \<leftarrow> touch_send_event R P self PERIPH_TOUCH_LONG_RELEASE (t_long_release_mask (pt_result pt)) w;
     Some (ESP_OK, w)
   }"

definition touch_timer_handler ::
  "'z kw platform \<Rightarrow> 'z kw pad_ops \<Rightarrow> bool \<Rightarrow> periph_handle \<Rightarrow> 'z kw \<Rightarrow> 'z kw option" where
  "touch_timer_handler R B junk periph w = do {
     a \<leftarrow> esp_periph_get_data periph w;
     pt \<leftarrow> pts w a;
     touch \<leftarrow> pt_touch pt;
     let ((changed, result, touch), w) = esp_touch_read B touch w;
     pt \<leftarrow> pts w a;
     let w = w\<lparr>pts := (pts w)(a \<mapsto> pt\<lparr>pt_touch := Some touch, pt_result := result\<rparr>)\<rparr>;
     if changed then do { (_, w) \<leftarrow> esp_periph_send_cmd R junk periph 0 0 0 w; Some w } else Some w
   }"

definition periph_touch_start ::
  "'z kw platform \<Rightarrow> 'z kw periph_ops \<Rightarrow> 'z kw pad_ops \<Rightarrow> periph_handle \<Rightarrow> 'z kw \<Rightarrow> (esp_err \<times> 'z kw) option" where
  "periph_touch_start R P B self w = do {
     id \<leftarrow> esp_periph_get_id self w;
     if id \<noteq> PERIPH_ID_TOUCH then Some (ESP_FAIL, w)
     else do {
       a \<leftarrow> esp_periph_get_data self w;
       pt \<leftarrow> pts w a;
       (touch, w) \<leftarrow> esp_touch_init R B \<lparr>tc_long_tap_time_ms = pt_long_tap_time_ms pt, tc_touch_mask = pt_touch_mask pt,
             tc_tap_threshold_percent = pt_tap_threshold_percent pt, tc_touch_intr_handler = None, tc_intr_context = 0\<rparr> w;
       pt \<leftarrow> pts w a;
       let w = w\<lparr>pts := (pts w)(a \<mapsto> pt\<lparr>pt_touch := touch\<rparr>)\<rparr>;
       (_, w) \<leftarrow> esp_periph_start_timer P self (of_nat (150 div portTICK_RATE_MS R)) touch_timer_handler_ptr w;
       Some (ESP_OK, w)
     }
   }"

definition periph_touch_destroy ::
  "'z kw pad_ops \<Rightarrow> periph_handle \<Rightarrow> 'z kw \<Rightarrow> (esp_err \<times> 'z kw) option" where
  "periph_touch_destroy B self w = do {
     a \<leftarrow> esp_periph_get_data self w;
     pt \<leftarrow> pts w a;
     _ \<leftarrow> pt_touch pt;
     let (_, w) = esp_touch_destroy B w;
     Some (ESP_OK, w\<lparr>pts := (pts w)(a := None)\<rparr>)
   }"

text \<open>A peripheral whose block cannot be allocated is not freed.\<close>

definition periph_touch_init ::
  "'z kw platform \<Rightarrow> int \<Rightarrow> int \<Rightarrow> int \<Rightarrow> 'z kw \<Rightarrow> (periph_handle option \<times> 'z kw) option" where
  "periph_touch_init R touch_mask long_tap_time_ms tap_threshold_percent w =
     (case esp_periph_create R PERIPH_ID_TOUCH (Some ''periph_touch'') w of
        (None, w) \<Rightarrow> Some (None, w)
      | (Some periph, w) \<Rightarrow> (case heap_alloc R 32 w of
          (None, w) \<Rightarrow> Some (None, w)
        | (Some a, w) \<Rightarrow> do {
            let w = w\<lparr>pts := (pts w)(a \<mapsto>
              \<lparr>pt_touch = None, pt_touch_mask = touch_mask, pt_long_tap_time_ms = long_tap_time_ms,
               pt_tap_threshold_percent = tap_threshold_percent,
               pt_result = \<lparr>tap_mask = 0, t_release_mask = 0, long_tap_mask = 0, t_long_release_mask = 0\<rparr>\<rparr>)\<rparr>;
            (_, w) \<leftarrow> esp_periph_set_data periph a w;
            (_, w) \<leftarrow> esp_periph_set_function periph (Some touch_init_ptr) (Some touch_run_ptr) (Some touch_destroy_ptr) w;
            Some (Some periph, w)
          }))"

section \<open>ADC buttons\<close>

definition adc_event_id :: "adc_btn_state \<Rightarrow> int" where
  "adc_event_id state =
     (case state of ADC_BTN_STATE_PRESSED \<Rightarrow> 1 | ADC_BTN_STATE_LONG_PRESSED \<Rightarrow> 3 | ADC_BTN_STATE_RELEASE \<Rightarrow> 2
      | ADC_BTN_STATE_LONG_RELEASE \<Rightarrow> 4 | _ \<Rightarrow> 0)"

text \<open>\<open>btn_cb\<close>: the button is the data of the event and the channel its length.\<close>

definition adc_btn_cb ::
  "'z kw platform \<Rightarrow> 'z kw periph_ops \<Rightarrow> periph_handle \<Rightarrow> int \<Rightarrow> int \<Rightarrow> adc_btn_state \<Rightarrow> 'z kw \<Rightarrow> 'z kw option" where
  "adc_btn_cb R P self adc btn_id state w = do {
     (_, w) \<leftarrow> esp_periph_send_event R P self (adc_event_id state) btn_id adc w; Some w }"

definition periph_adc_button_destroy ::
  "'z kw adc_ops \<Rightarrow> periph_handle \<Rightarrow> 'z kw \<Rightarrow> (esp_err \<times> 'z kw) option" where
  "periph_adc_button_destroy A self w = do {
     a \<leftarrow> esp_periph_get_data self w;
     pa \<leftarrow> pas w a;
     let (_, w) = adc_btn_destroy_list A (pa_list pa) w;
     Some (ESP_OK, w\<lparr>pas := (pas w)(a := None)\<rparr>)
   }"

definition periph_adc_button_start ::
  "'z kw platform \<Rightarrow> 'z kw adc_ops \<Rightarrow> periph_handle \<Rightarrow> 'z kw \<Rightarrow> (esp_err \<times> 'z kw) option" where
  "periph_adc_button_start R A self w = do {
     a \<leftarrow> esp_periph_get_data self w;
     _ \<leftarrow> pas w a;
     Some (ESP_OK, adc_btn_init R A w)
   }"

text \<open>An empty configuration gives the list \<open>NULL\<close>, which is taken for a failure.\<close>

definition periph_adc_button_init ::
  "'z kw platform \<Rightarrow> adc_arr list \<Rightarrow> 'z kw \<Rightarrow> (periph_handle option \<times> 'z kw) option" where
  "periph_adc_button_init R arr w =
     (case esp_periph_create R PERIPH_ID_ADC_BTN (Some ''periph_adc_btn'') w of
        (None, w) \<Rightarrow> Some (None, w)
      | (Some periph, w) \<Rightarrow> (case heap_alloc R 8 w of
          (None, w) \<Rightarrow> Some (None, w\<lparr>prs := (prs w)(periph := None)\<rparr>)
        | (Some a, w) \<Rightarrow> do {
            (nodes, w) \<leftarrow> adc_btn_create_list R arr w;
            if nodes = None \<or> nodes = Some [] then Some (None, w\<lparr>prs := (prs w)(periph := None)\<rparr>)
            else do {
              nodes \<leftarrow> nodes;
              let w = w\<lparr>pas := (pas w)(a \<mapsto> \<lparr>pa_adc_channels = int (length arr), pa_list = nodes\<rparr>)\<rparr>;
              (_, w) \<leftarrow> esp_periph_set_data periph a w;
              (_, w) \<leftarrow> esp_periph_set_function periph (Some adc_button_init_ptr) None (Some adc_button_destroy_ptr) w;
              Some (Some periph, w)
            }
          }))"

end
