(* ===== verification/Periph_Keys_Correct.thy ===== *)
theory Periph_Keys_Correct
  imports Periph_Keys Buttons_Correct Esp_Periph_Correct
begin

text \<open>
  What the key peripherals report: a run of the button peripheral sends exactly the events its detector found, in
  the order of the event kinds and of the buttons. The touch peripheral hands its result over in a block that the
  next timer tick overwrites.
\<close>

section \<open>Events in sequence\<close>

text \<open>Sending a list of events, each with its number and its data.\<close>

fun send_all ::
  "'z kw platform \<Rightarrow> 'z kw periph_ops \<Rightarrow> periph_handle \<Rightarrow> (int \<times> int) list \<Rightarrow> 'z kw \<Rightarrow> 'z kw option" where
  "send_all R P self [] w = Some w"
| "send_all R P self ((ev, d) # evs) w = do {
     (_, w) \<leftarrow> esp_periph_send_event R P self ev d 0 w;
     send_all R P self evs w
   }"

lemma send_all_append: "send_all R P self (xs @ ys) w = do { w \<leftarrow> send_all R P self xs w; send_all R P self ys w }"
proof (induction xs arbitrary: w)
  case (Cons x xs)
  obtain ev d where "x = (ev, d)" by fastforce
  with Cons show ?case by (cases "esp_periph_send_event R P self ev d 0 w") (auto simp: split_beta)
qed simp

lemma send_bits_eq:
  "button_send_from R P self ev m g w = send_all R P self (map (\<lambda>i. (ev, g + int i)) (set_bits m)) w"
proof (induction R P self ev m g w rule: button_send_from.induct)
  case (1 R P self ev m g w)
  show ?case
  proof (cases "m = 0")
    case True
    then show ?thesis by (subst button_send_from.simps) (simp add: set_bits_0)
  next
    case m: False
    show ?thesis
    proof (cases "odd m")
      case True
      then have a: "m AND 1 \<noteq> 0" by (simp add: and_one_eq mod2_eq_if)
      show ?thesis
        by (subst button_send_from.simps, cases "esp_periph_send_event R P self ev g 0 w")
          (use 1 [OF m] m a True in \<open>auto simp: set_bits_step [of m] add.assoc comp_def\<close>)
    next
      case False
      then have a: "\<not> m AND 1 \<noteq> 0" by (simp add: and_one_eq mod2_eq_if)
      show ?thesis
        by (subst button_send_from.simps) (use 1 [OF m] m a False in \<open>auto simp: set_bits_step [of m] add.assoc comp_def\<close>)
    qed
  qed
qed

text \<open>The set bits of a mask are the numbers of the buttons with a status when those ascend.\<close>

lemma set_bits_sorted: "sorted_wrt (<) (set_bits m)"
  unfolding set_bits_def by (rule sorted_wrt_filter) simp

lemma set_bits_listing:
  assumes "\<And>i. i < 64 \<Longrightarrow> bit m i \<longleftrightarrow> int i \<in> set gs" "sorted_wrt (<) gs" "\<forall>g\<in>set gs. 0 \<le> g \<and> g < 64"
  shows "map int (set_bits m) = gs"
proof (rule sorted_distinct_set_unique)
  show "sorted (map int (set_bits m))" "distinct (map int (set_bits m))"
    using set_bits_sorted [of m] by (simp_all add: strict_sorted_iff sorted_map distinct_map sorted_wrt_map)
  show "sorted gs" "distinct gs" using assms(2) by (simp_all add: strict_sorted_iff)
  show "set (map int (set_bits m)) = set gs"
    using assms(1,3) by (auto simp: set_bits_def image_iff) (metis nat_0_le zless_nat_eq_int_zless nat_less_iff atLeastLessThan_iff nat_int int_nat_eq of_nat_numeral)
qed

section \<open>The button peripheral\<close>

text \<open>The buttons a read found with a status, and the events a run sends for a list of statuses.\<close>

definition with_status :: "button_status \<Rightarrow> (button_status \<times> int) list \<Rightarrow> int list" where
  "with_status k sts = map snd (filter (\<lambda>(st, g). st = k) sts)"

definition events_of :: "(button_status \<times> int) list \<Rightarrow> (int \<times> int) list" where
  "events_of sts = map (Pair PERIPH_BUTTON_PRESSED) (with_status BTN_PRESSED sts) @
     map (Pair PERIPH_BUTTON_RELEASE) (with_status BTN_RELEASE sts) @
     map (Pair PERIPH_BUTTON_LONG_PRESSED) (with_status BTN_LONG_PRESS sts) @
     map (Pair PERIPH_BUTTON_LONG_RELEASE) (with_status BTN_LONG_RELEASE sts)"

lemma sorted_with_status:
  assumes "sorted_wrt (<) (map snd sts)"
  shows "sorted_wrt (<) (with_status k sts)"
  using assms unfolding with_status_def sorted_wrt_map by (rule sorted_wrt_filter)

lemma set_with_status: "g \<in> set (with_status k sts) \<longleftrightarrow> (k, g) \<in> set sts"
  by (force simp: with_status_def)

lemma mask_events:
  assumes bits: "\<And>i. i < 64 \<Longrightarrow> bit m i \<longleftrightarrow> (k, int i) \<in> set sts"
    and asc: "sorted_wrt (<) (map snd sts)" and range: "\<forall>g\<in>set (map snd sts). 0 \<le> g \<and> g < 64"
  shows "button_send_event R P self ev m w = send_all R P self (map (Pair ev) (with_status k sts)) w"
proof -
  have "map int (set_bits m) = with_status k sts"
  proof (rule set_bits_listing)
    show "bit m i \<longleftrightarrow> int i \<in> set (with_status k sts)" if "i < 64" for i
      using bits [OF that] by (simp add: set_with_status)
    show "sorted_wrt (<) (with_status k sts)" using asc by (rule sorted_with_status)
    show "\<forall>g\<in>set (with_status k sts). 0 \<le> g \<and> g < 64"
      using range by (force simp: with_status_def)
  qed
  then have "map (\<lambda>i. (ev, 0 + int i)) (set_bits m) = map (Pair ev) (with_status k sts)"
    by (metis (no_types, lifting) add_0 comp_def list.map_comp map_eq_conv)
  then show ?thesis by (simp only: button_send_event_def send_bits_eq)
qed

lemma no_change_no_events: "\<forall>(st, g)\<in>set sts. st = BTN_UNCHANGE \<Longrightarrow> events_of sts = []"
  by (force simp: events_of_def with_status_def filter_empty_conv)

text \<open>C39. A run of the button peripheral polls every button once and sends exactly one event for every status a poll found,
  presses first, then releases, long presses and long releases, each in ascending order of the buttons; a run that
  finds no change sends nothing.\<close>

theorem button_run_reports:
  assumes self: "prs w self = Some p" "pbs w (pe_periph_data p) = Some pb" "pb_btn pb = Some b"
    and asc: "sorted_wrt (<) (map bi_gpio_num (eb_btn_list b))"
    and range: "\<forall>it\<in>set (eb_btn_list b). 0 \<le> bi_gpio_num it \<and> bi_gpio_num it < 64"
    and rd: "button_read B b w = ((ch, r, b'), w1)" and kept: "pbs w1 (pe_periph_data p) = Some pb1"
  shows "button_run R P B self w =
           map_option (Pair ESP_OK) (send_all R P self (events_of (read_statuses B b (eb_btn_list b) w))
             (w1\<lparr>pbs := (pbs w1)(pe_periph_data p \<mapsto> pb1\<lparr>pb_btn := Some b'\<rparr>)\<rparr>))"
proof -
  let ?sts = "read_statuses B b (eb_btn_list b) w"
  let ?w2 = "w1\<lparr>pbs := (pbs w1)(pe_periph_data p \<mapsto> pb1\<lparr>pb_btn := Some b'\<rparr>)\<rparr>"
  note gp = read_statuses_gpios [of B b "eb_btn_list b" w]
  have asc': "sorted_wrt (<) (map snd ?sts)" using asc by (simp only: gp)
  have range': "\<forall>g\<in>set (map snd ?sts). 0 \<le> g \<and> g < 64" using range unfolding gp by auto
  note bits = button_read_bits [OF range, of B w, unfolded rd]
  then have ch: "ch \<longleftrightarrow> (\<exists>(st, g)\<in>set ?sts. st \<noteq> BTN_UNCHANGE)" by auto
  have send: "do {
      w \<leftarrow> button_send_event R P self 1 (press_mask r) w';
      w \<leftarrow> button_send_event R P self 2 (release_mask r) w;
      w \<leftarrow> button_send_event R P self 3 (long_press_mask r) w;
      button_send_event R P self 4 (long_release_mask r) w } = send_all R P self (events_of ?sts) w'" for w'
    using bits
      mask_events [OF _ asc' range', of "press_mask r" BTN_PRESSED R P self]
      mask_events [OF _ asc' range', of "release_mask r" BTN_RELEASE R P self]
      mask_events [OF _ asc' range', of "long_press_mask r" BTN_LONG_PRESS R P self]
      mask_events [OF _ asc' range', of "long_release_mask r" BTN_LONG_RELEASE R P self]
    by (simp add: events_of_def send_all_append)
  have quiet: "events_of ?sts = []" if "\<not> ch"
    using that ch by (intro no_change_no_events) auto
  note run = self kept button_run_def esp_periph_get_data_def rd map_conv_bind_option
  show ?thesis
  proof (cases ch)
    case True
    then show ?thesis by (simp add: run comp_def flip: send)
  next
    case False
    then show ?thesis by (simp add: run quiet)
  qed
qed

section \<open>The touch peripheral\<close>

lemma touch_read_loop_quiet:
  "touch_read_loop B t tick its ch r w = ((False, r', its'), w') \<Longrightarrow> \<not> ch \<and> r' = r"
proof (induction its arbitrary: ch r w r' its' w')
  case (Cons it its)
  obtain st it' w1 where 1: "touch_get_state B t it tick w = (st, it', w1)" by (metis prod.exhaust)
  obtain ch2 r2 its2 w2 where 2: "touch_read_loop B t tick its (ch \<or> st \<noteq> TOUCH_UNCHANGE)
      (add_touch_status st (ti_touch_num it') r) w1 = ((ch2, r2, its2), w2)" by (metis prod.exhaust)
  with 1 Cons.prems have "ch2 = False" "r2 = r'" by simp_all
  note Cons.IH [OF 2 [unfolded this]]
  then show ?case by (auto simp: add_touch_status_def)
qed simp

lemma touch_read_quiet:
  assumes "esp_touch_read B t w = ((False, r, t'), w')"
  shows "r = \<lparr>tap_mask = 0, t_release_mask = 0, long_tap_mask = 0, t_long_release_mask = 0\<rparr>"
proof -
  obtain tick w0 where 0: "tick_get B w = (tick, w0)" by fastforce
  obtain ch r2 its w2 where 2: "touch_read_loop B t tick (et_touch_list t) False
      \<lparr>tap_mask = 0, t_release_mask = 0, long_tap_mask = 0, t_long_release_mask = 0\<rparr> w0 = ((ch, r2, its), w2)"
    by (metis prod.exhaust)
  with 0 assms have "ch = False" "r2 = r" by (simp_all add: esp_touch_read_def)
  from touch_read_loop_quiet [OF 2 [unfolded this]] show ?thesis by blast
qed

text \<open>The timer stores what it read in the block of the peripheral and only asks the task to send it: when it fires
  again before the task runs and finds no further change, a tap the first tick stored is overwritten and the run
  that was asked for sends nothing.\<close>

theorem touch_events_lost:
  assumes self: "prs w self = Some p" "pts w (pe_periph_data p) = Some pt" "pt_touch pt = Some t"
    and rd: "esp_touch_read B t w = ((False, r, t'), w1)"
    and kept: "prs w1 self = Some p" "pts w1 (pe_periph_data p) = Some pt1"
  shows "\<exists>w2. touch_timer_handler R B junk self w = Some w2 \<and> touch_run R P self w2 = Some (ESP_OK, w2)"
  using assms touch_read_quiet [OF rd]
  by (simp add: touch_timer_handler_def touch_run_def esp_periph_get_data_def touch_send_event_def touch_send_from.simps)

section \<open>Concrete peripherals\<close>

text \<open>A platform whose calls leave the state alone, a button peripheral and a touch peripheral.\<close>

definition ex_pads :: "int \<Rightarrow> key_world pad_ops" where
  "ex_pads level = \<lparr>time_of_day = (\<lambda>w. ((1, 0), w)), gpio_get_level = (\<lambda>g w. (level, w)),
     gpio_config = (\<lambda>m w. w), gpio_set_intr_type = (\<lambda>g w. w), gpio_isr_handler_add = (\<lambda>g f c w. w),
     gpio_isr_handler_remove = (\<lambda>g w. w), gpio_intr_enable = (\<lambda>g w. w), gpio_intr_disable = (\<lambda>g w. w),
     touch_pad_init = (\<lambda>w. (ESP_OK, w)), touch_pad_deinit = (\<lambda>w. w), touch_pad_config = (\<lambda>n t w. w),
     touch_pad_set_thresh = (\<lambda>n t w. w), touch_pad_isr_register = (\<lambda>w. w), touch_pad_isr_deregister = (\<lambda>w. w),
     touch_pad_intr_enable = (\<lambda>w. w), touch_pad_intr_disable = (\<lambda>w. w), touch_pad_filter_start = (\<lambda>n w. w),
     touch_pad_filter_delete = (\<lambda>w. w), touch_pad_clear_status = (\<lambda>w. w),
     touch_pad_read_filtered = (\<lambda>n w. ((ESP_OK, Some 500), w)), call_intr = (\<lambda>f c w. w)\<rparr>"

definition ex_key_periph :: "int \<Rightarrow> esp_periph" where
  "ex_key_periph i = \<lparr>pe_tag = None, pe_disabled = False, pe_periph_id = i, pe_init = None, pe_run = None,
     pe_destroy = None, pe_state = PERIPH_STATE_RUNNING, pe_source = 0, pe_periph_data = 100,
     pe_on_evt = None, pe_timer = None\<rparr>"

definition ex_detector :: esp_button where
  "ex_detector = \<lparr>eb_long_press_time_ms = 2000, eb_gpio_mask = 36, eb_btn_list = [fresh_button 2, fresh_button 5]\<rparr>"

definition ex_key_pad :: esp_touch where
  "ex_key_pad = \<lparr>et_long_tap_time_ms = 2000, et_touch_mask = 1, et_tap_threshold_percent = 70, et_intr_fn = None,
     et_intr_context = 0, et_touch_list = []\<rparr>"

definition ex_kw :: key_world where
  "ex_kw = \<lparr>rbs = Map.empty, ifs = Map.empty, els = Map.empty, strs = Map.empty,
     prs = [7 \<mapsto> ex_key_periph PERIPH_ID_BUTTON], pss = Map.empty,
     pbs = [100 \<mapsto> \<lparr>pb_btn = Some ex_detector, pb_gpio_mask = 36, pb_long_press_time_ms = 0\<rparr>],
     pts = [100 \<mapsto> \<lparr>pt_touch = Some ex_key_pad, pt_touch_mask = 1, pt_long_tap_time_ms = 0, pt_tap_threshold_percent = 0,
        pt_result = \<lparr>tap_mask = 1, t_release_mask = 0, long_tap_mask = 0, t_long_release_mask = 0\<rparr>\<rparr>], pas = Map.empty\<rparr>"

lemmas ex_key_defs = ex_kw_def ex_key_periph_def ex_detector_def ex_key_pad_def ex_pads_def fresh_button_def

theorem button_run_reports_witness:
  "\<exists>w'. button_run (seq_platform None) seq_periph_ops (ex_pads 0) 7 ex_kw =
     map_option (Pair ESP_OK) (send_all (seq_platform None) seq_periph_ops 7 [(1, 2), (1, 5)] w')"
proof -
  obtain ch r b' w1 where rd: "button_read (ex_pads 0) ex_detector ex_kw = ((ch, r, b'), w1)" by (metis prod.exhaust)
  have "w1 = ex_kw" using rd
    by (simp add: button_read_def button_get_state_def tick_get_def ex_key_defs split: if_splits)
  moreover have "read_statuses (ex_pads 0) ex_detector (eb_btn_list ex_detector) ex_kw = [(BTN_PRESSED, 2), (BTN_PRESSED, 5)]"
    by (simp add: button_get_state_def tick_get_def ex_key_defs)
  then have "events_of (read_statuses (ex_pads 0) ex_detector (eb_btn_list ex_detector) ex_kw) = [(1, 2), (1, 5)]"
    by (simp add: events_of_def with_status_def)
  ultimately show ?thesis
    using button_run_reports [OF _ _ _ _ _ rd, where self = 7 and R = "seq_platform None" and P = seq_periph_ops]
    by (force simp: ex_kw_def ex_key_periph_def ex_detector_def fresh_button_def)
qed

theorem touch_events_lost_witness:
  "\<exists>w2. touch_timer_handler (seq_platform None) (ex_pads 1) False 7 ex_kw = Some w2 \<and>
     touch_run (seq_platform None) seq_periph_ops 7 w2 = Some (ESP_OK, w2)"
proof -
  have rd: "esp_touch_read (ex_pads 1) ex_key_pad ex_kw =
      ((False, \<lparr>tap_mask = 0, t_release_mask = 0, long_tap_mask = 0, t_long_release_mask = 0\<rparr>, ex_key_pad), ex_kw)"
    by (simp add: esp_touch_read_def tick_get_def ex_pads_def ex_key_pad_def)
  have 1: "prs ex_kw 7 = Some (ex_key_periph PERIPH_ID_BUTTON)" by (simp add: ex_kw_def)
  have 2: "pts ex_kw (pe_periph_data (ex_key_periph PERIPH_ID_BUTTON)) = Some (the (pts ex_kw 100))"
    by (simp add: ex_kw_def ex_key_periph_def)
  have 3: "pt_touch (the (pts ex_kw 100)) = Some ex_key_pad" by (simp add: ex_kw_def)
  show ?thesis by (rule touch_events_lost [OF 1 2 3 rd 1 2])
qed

end
