(* ===== verification/Input_Key.thy ===== *)
theory Input_Key
  imports Periph_Keys
begin

text \<open>
  Services (\<open>components/esp_deamon/periph_service.c\<close>) and the input key service (\<open>components/input_key_service/
  input_key_service.c\<close>), whose task takes the events of the peripherals from the queue of their set, looks the key up
  in the list the application registered, and calls the application back with the key's user identifier.
\<close>

section \<open>Services\<close>

type_synonym service_handle = addr

datatype periph_service_state =
  PERIPH_SERVICE_STATE_UNKNOWN | PERIPH_SERVICE_STATE_IDLE | PERIPH_SERVICE_STATE_RUNNING | PERIPH_SERVICE_STATE_STOPED

definition service_state_num :: "periph_service_state \<Rightarrow> int" where
  "service_state_num st = (case st of PERIPH_SERVICE_STATE_UNKNOWN \<Rightarrow> 0 | PERIPH_SERVICE_STATE_IDLE \<Rightarrow> 1
     | PERIPH_SERVICE_STATE_RUNNING \<Rightarrow> 2 | PERIPH_SERVICE_STATE_STOPED \<Rightarrow> 3)"

record periph_service_event =
  se_type :: int
  se_source :: int
  se_data :: int
  se_len :: int

record periph_service_config =
  sc_task_stack :: int
  sc_task_prio :: int
  sc_task_core :: int
  sc_start :: "fnptr option"
  sc_stop :: "fnptr option"
  sc_destroy :: "fnptr option"
  sc_ioctl :: "fnptr option"
  sc_name :: "string option"
  sc_user_data :: "addr option"

record periph_service_impl =
  si_start :: "fnptr option"
  si_stop :: "fnptr option"
  si_destroy :: "fnptr option"
  si_ioctl :: "fnptr option"
  si_callback :: "fnptr option"
  si_cb_ctx :: addr
  si_name :: "addr option"
  si_user_data :: "addr option"

record input_key_info =
  ki_type :: int
  ki_user_id :: int
  ki_act_id :: int

record input_key_service =
  ik_ser_state :: periph_service_state
  ik_periph_handle :: periph_set_handle
  ik_info_list :: "input_key_info list"

record ik_world = pe_world +
  svs :: "service_handle \<Rightarrow> periph_service_impl option"
  iks :: "addr \<Rightarrow> input_key_service option"

type_synonym 'z ikw = "'z ik_world_scheme"

text \<open>The callbacks of services, and a send that waits for room.\<close>

record 'w service_ops =
  call_service_ctrl :: "fnptr \<Rightarrow> service_handle \<Rightarrow> 'w \<Rightarrow> esp_err \<times> 'w"
  call_service_io :: "fnptr \<Rightarrow> addr \<Rightarrow> int \<Rightarrow> int \<Rightarrow> 'w \<Rightarrow> esp_err \<times> 'w"
  call_service_cb :: "fnptr \<Rightarrow> service_handle \<Rightarrow> periph_service_event \<Rightarrow> addr \<Rightarrow> 'w \<Rightarrow> esp_err \<times> 'w"
  xQueueSendWait :: "qhandle \<Rightarrow> audio_event_iface_msg \<Rightarrow> 'w \<Rightarrow> bool \<times> 'w"

text \<open>The name is copied with \<open>strdup\<close>; the test after it is on the service, so a failed copy goes on with \<open>NULL\<close>.\<close>

definition periph_service_create ::
  "'z ikw platform \<Rightarrow> periph_service_config option \<Rightarrow> 'z ikw \<Rightarrow> (service_handle option \<times> 'z ikw) option" where
  "periph_service_create R config w =
     (case config of None \<Rightarrow> Some (None, w)
      | Some c \<Rightarrow> (case heap_alloc R 36 w of
          (None, w) \<Rightarrow> Some (None, w)
        | (Some h, w) \<Rightarrow> do {
            let (name, w) = (case sc_name c of None \<Rightarrow> (None, w) | Some n \<Rightarrow> str_dup R n w);
            let w = w\<lparr>svs := (svs w)(h \<mapsto>
              \<lparr>si_start = sc_start c, si_stop = sc_stop c, si_destroy = sc_destroy c, si_ioctl = sc_ioctl c,
               si_callback = None, si_cb_ctx = 0, si_name = name, si_user_data = sc_user_data c\<rparr>)\<rparr>;
            if sc_task_stack c > 0 then
              (case xTaskCreate R h (sc_task_stack c) (sc_task_prio c) (sc_task_core c) w of
                 (True, w) \<Rightarrow> Some (Some h, w)
               | (False, w) \<Rightarrow> do {
                   w \<leftarrow> str_free name w;
                   Some (None, w\<lparr>svs := (svs w)(h := None)\<rparr>)
                 })
            else Some (Some h, w)
          }))"

definition periph_service_set_callback ::
  "service_handle \<Rightarrow> fnptr option \<Rightarrow> addr \<Rightarrow> 'z ikw \<Rightarrow> (esp_err \<times> 'z ikw) option" where
  "periph_service_set_callback h cb ctx w = do {
     s \<leftarrow> svs w h;
     Some (ESP_OK, w\<lparr>svs := (svs w)(h \<mapsto> s\<lparr>si_callback := cb, si_cb_ctx := ctx\<rparr>)\<rparr>)
   }"

definition periph_service_callback ::
  "'z ikw service_ops \<Rightarrow> service_handle option \<Rightarrow> periph_service_event \<Rightarrow> 'z ikw \<Rightarrow> (esp_err \<times> 'z ikw) option" where
  "periph_service_callback S hdl evt w =
     (case hdl of None \<Rightarrow> Some (ESP_ERR_INVALID_ARG, w)
      | Some h \<Rightarrow> do {
          s \<leftarrow> svs w h;
          case si_callback s of None \<Rightarrow> Some (ESP_ERR_INVALID_ARG, w)
          | Some f \<Rightarrow> Some (call_service_cb S f h evt (si_cb_ctx s) w)
        })"

definition periph_service_set_data ::
  "service_handle option \<Rightarrow> addr option \<Rightarrow> 'z ikw \<Rightarrow> (esp_err \<times> 'z ikw) option" where
  "periph_service_set_data hdl data w =
     (case hdl of None \<Rightarrow> Some (ESP_ERR_INVALID_ARG, w)
      | Some h \<Rightarrow> do { s \<leftarrow> svs w h; Some (ESP_OK, w\<lparr>svs := (svs w)(h \<mapsto> s\<lparr>si_user_data := data\<rparr>)\<rparr>) })"

definition periph_service_get_data :: "service_handle option \<Rightarrow> 'z ikw \<Rightarrow> addr option option" where
  "periph_service_get_data hdl w =
     (case hdl of None \<Rightarrow> Some None | Some h \<Rightarrow> do { s \<leftarrow> svs w h; Some (si_user_data s) })"

definition periph_service_ioctl ::
  "'z ikw service_ops \<Rightarrow> service_handle option \<Rightarrow> addr \<Rightarrow> int \<Rightarrow> int \<Rightarrow> 'z ikw \<Rightarrow> (esp_err \<times> 'z ikw) option" where
  "periph_service_ioctl S hdl ioctl_handle cmd value w =
     (case hdl of None \<Rightarrow> Some (ESP_ERR_INVALID_ARG, w)
      | Some h \<Rightarrow> do {
          s \<leftarrow> svs w h;
          case si_ioctl s of None \<Rightarrow> Some (ESP_ERR_INVALID_ARG, w)
          | Some f \<Rightarrow> Some (call_service_io S f ioctl_handle cmd value w)
        })"

section \<open>The queue of the service\<close>

text \<open>The input key data of a service and the queue of its set of peripherals; \<open>None\<close> when a pointer on the way is
  dead or \<open>NULL\<close>.\<close>

definition input_key_queue :: "service_handle \<Rightarrow> 'z ikw \<Rightarrow> qhandle option" where
  "input_key_queue h w = do {
     a \<leftarrow> periph_service_get_data (Some h) w;
     a \<leftarrow> a;
     ik \<leftarrow> iks w a;
     q \<leftarrow> esp_periph_set_get_queue (ik_periph_handle ik) w;
     q
   }"

definition input_key_service_event_send ::
  "'z ikw service_ops \<Rightarrow> service_handle option \<Rightarrow> periph_service_state \<Rightarrow> 'z ikw \<Rightarrow> (esp_err \<times> 'z ikw) option" where
  "input_key_service_event_send S hdl state w =
     (case hdl of None \<Rightarrow> Some (ESP_ERR_INVALID_ARG, w)
      | Some h \<Rightarrow> do {
          q \<leftarrow> input_key_queue h w;
          let (ok, w) = xQueueSendWait S q
            \<lparr>msg_cmd = service_state_num state, msg_data = 0, msg_data_len = 0, msg_source = Some h,
             msg_source_type = 0, msg_need_free_data = False\<rparr> w;
          Some (if ok then ESP_OK else ESP_FAIL, w)
        })"

definition input_key_service_event_receive ::
  "'z ikw platform \<Rightarrow> service_handle option \<Rightarrow> tick \<Rightarrow> 'z ikw \<Rightarrow> ((esp_err \<times> audio_event_iface_msg option) \<times> 'z ikw) option" where
  "input_key_service_event_receive R hdl ticks w =
     (case hdl of None \<Rightarrow> Some ((ESP_ERR_INVALID_ARG, None), w)
      | Some h \<Rightarrow> do {
          q \<leftarrow> input_key_queue h w;
          case xQueueReceive R q ticks w of
            (None, w) \<Rightarrow> Some ((ESP_FAIL, None), w)
          | (Some m, w) \<Rightarrow> Some ((ESP_OK, Some m), w)
        })"

section \<open>Keys\<close>

abbreviation USER_ID_UNKNOWN :: int where "USER_ID_UNKNOWN \<equiv> -1"

fun find_user_id :: "input_key_info list \<Rightarrow> int \<Rightarrow> int \<Rightarrow> int" where
  "find_user_id [] source_type act_id = USER_ID_UNKNOWN"
| "find_user_id (k # ks) source_type act_id =
     (if ki_type k = source_type \<and> ki_act_id k = act_id then ki_user_id k else find_user_id ks source_type act_id)"

definition get_input_key_user_id :: "addr option \<Rightarrow> int \<Rightarrow> int \<Rightarrow> 'z ikw \<Rightarrow> int option" where
  "get_input_key_user_id ser source_type act_id w =
     (case ser of None \<Rightarrow> Some USER_ID_UNKNOWN
      | Some a \<Rightarrow> do { ik \<leftarrow> iks w a; Some (find_user_id (ik_info_list ik) source_type act_id) })"

text \<open>The nodes are allocated one by one and not tested.\<close>

fun add_keys :: "'z ikw platform \<Rightarrow> addr \<Rightarrow> input_key_info list \<Rightarrow> 'z ikw \<Rightarrow> 'z ikw option" where
  "add_keys R a [] w = Some w"
| "add_keys R a (k # ks) w =
     (case heap_alloc R 16 w of
        (None, w) \<Rightarrow> None
      | (Some _, w) \<Rightarrow> do {
          ik \<leftarrow> iks w a;
          add_keys R a ks (w\<lparr>iks := (iks w)(a \<mapsto> ik\<lparr>ik_info_list := ik_info_list ik @ [k]\<rparr>)\<rparr>)
        })"

definition input_key_service_add_key ::
  "'z ikw platform \<Rightarrow> service_handle option \<Rightarrow> input_key_info list option \<Rightarrow> int \<Rightarrow> 'z ikw \<Rightarrow> (esp_err \<times> 'z ikw) option" where
  "input_key_service_add_key R hdl info add_key_num w =
     (case hdl of None \<Rightarrow> Some (ESP_ERR_INVALID_ARG, w)
      | Some h \<Rightarrow> (case info of None \<Rightarrow> Some (ESP_ERR_INVALID_ARG, w)
        | Some ks \<Rightarrow>
            if add_key_num \<le> 0 then Some (ESP_FAIL, w)
            else do {
              a \<leftarrow> periph_service_get_data hdl w;
              case a of None \<Rightarrow> Some (ESP_FAIL, w)
              | Some a \<Rightarrow> do {
                  ks \<leftarrow> mem_read ks 0 (nat add_key_num);
                  w \<leftarrow> add_keys R a ks w;
                  Some (ESP_OK, w)
                }
            }))"

section \<open>The task\<close>

text \<open>What the task does with a message: the callback gets the event of a registered key, with the command of the
  message as its type.\<close>

definition key_event :: "audio_event_iface_msg \<Rightarrow> int \<Rightarrow> periph_service_event" where
  "key_event m uid = \<lparr>se_type = msg_cmd m, se_source = msg_source_type m, se_data = uid, se_len = msg_data m\<rparr>"

definition input_key_handle_msg ::
  "'z ikw service_ops \<Rightarrow> service_handle \<Rightarrow> addr \<Rightarrow> audio_event_iface_msg \<Rightarrow> 'z ikw \<Rightarrow> 'z ikw option" where
  "input_key_handle_msg S h a m w = do {
     uid \<leftarrow> get_input_key_user_id (Some a) (msg_source_type m) (msg_data m) w;
     if 0 \<le> uid then do { (_, w) \<leftarrow> periph_service_callback S (Some h) (key_event m uid) w; Some w } else Some w
   }"

definition is_stop :: "service_handle \<Rightarrow> audio_event_iface_msg \<Rightarrow> bool" where
  "is_stop h m \<longleftrightarrow> msg_source m = Some h \<and> msg_cmd m = service_state_num PERIPH_SERVICE_STATE_STOPED"

text \<open>The loop; \<open>msg\<close> is what the last successful receive left in the task's variable.\<close>

partial_function (option) input_key_task_loop ::
  "'z ikw platform \<Rightarrow> 'z ikw service_ops \<Rightarrow> service_handle \<Rightarrow> addr \<Rightarrow> audio_event_iface_msg \<Rightarrow> 'z ikw \<Rightarrow> 'z ikw option" where
  "input_key_task_loop R S h a msg w = do {
     ((err, m), w) \<leftarrow> input_key_service_event_receive R (Some h) portMAX_DELAY w;
     let msg = (case m of None \<Rightarrow> msg | Some m \<Rightarrow> m);
     w \<leftarrow> (if err = ESP_OK then input_key_handle_msg S h a msg w else Some w);
     if is_stop h msg then Some w else input_key_task_loop R S h a msg w
   }"

definition empty_msg :: audio_event_iface_msg where
  "empty_msg = \<lparr>msg_cmd = 0, msg_data = 0, msg_data_len = 0, msg_source = None, msg_source_type = 0,
     msg_need_free_data = False\<rparr>"

definition input_key_service_task ::
  "'z ikw platform \<Rightarrow> 'z ikw service_ops \<Rightarrow> service_handle \<Rightarrow> 'z ikw \<Rightarrow> 'z ikw option" where
  "input_key_service_task R S h w = do {
     a \<leftarrow> periph_service_get_data (Some h) w;
     a \<leftarrow> a;
     ik \<leftarrow> iks w a;
     let w = w\<lparr>iks := (iks w)(a \<mapsto> ik\<lparr>ik_ser_state := PERIPH_SERVICE_STATE_RUNNING\<rparr>)\<rparr>;
     w \<leftarrow> input_key_task_loop R S h a empty_msg w;
     _ \<leftarrow> iks w a;
     Some (w\<lparr>iks := (iks w)(a := None)\<rparr>)
   }"

section \<open>Starting, stopping and destroying\<close>

definition input_key_service_start :: "service_handle \<Rightarrow> 'z ikw \<Rightarrow> esp_err \<times> 'z ikw" where
  "input_key_service_start h w = (ESP_OK, w)"

definition input_key_service_stop :: "service_handle \<Rightarrow> 'z ikw \<Rightarrow> esp_err \<times> 'z ikw" where
  "input_key_service_stop h w = (ESP_OK, w)"

definition input_key_service_destroy ::
  "'z ikw service_ops \<Rightarrow> service_handle option \<Rightarrow> 'z ikw \<Rightarrow> (esp_err \<times> 'z ikw) option" where
  "input_key_service_destroy S hdl w =
     (case hdl of None \<Rightarrow> Some (ESP_ERR_INVALID_ARG, w)
      | Some h \<Rightarrow> do {
          (_, w) \<leftarrow> input_key_service_event_send S hdl PERIPH_SERVICE_STATE_STOPED w;
          Some (ESP_OK, w)
        })"

definition get_input_key_service_state :: "service_handle option \<Rightarrow> 'z ikw \<Rightarrow> periph_service_state option" where
  "get_input_key_service_state hdl w =
     (case hdl of None \<Rightarrow> Some PERIPH_SERVICE_STATE_UNKNOWN
      | Some h \<Rightarrow> do { a \<leftarrow> periph_service_get_data hdl w; a \<leftarrow> a; ik \<leftarrow> iks w a; Some (ik_ser_state ik) })"

text \<open>The control functions of a service: the input key service's own, or others.\<close>

definition input_key_start_ptr :: fnptr where "input_key_start_ptr = 41"
definition input_key_stop_ptr :: fnptr where "input_key_stop_ptr = 42"
definition input_key_destroy_ptr :: fnptr where "input_key_destroy_ptr = 43"

definition call_ctrl ::
  "'z ikw service_ops \<Rightarrow> fnptr \<Rightarrow> service_handle \<Rightarrow> 'z ikw \<Rightarrow> (esp_err \<times> 'z ikw) option" where
  "call_ctrl S f h w =
     (if f = input_key_start_ptr then Some (input_key_service_start h w)
      else if f = input_key_stop_ptr then Some (input_key_service_stop h w)
      else if f = input_key_destroy_ptr then input_key_service_destroy S (Some h) w
      else Some (call_service_ctrl S f h w))"

definition periph_service_start ::
  "'z ikw service_ops \<Rightarrow> service_handle option \<Rightarrow> 'z ikw \<Rightarrow> (esp_err \<times> 'z ikw) option" where
  "periph_service_start S hdl w =
     (case hdl of None \<Rightarrow> Some (ESP_ERR_INVALID_ARG, w)
      | Some h \<Rightarrow> do {
          s \<leftarrow> svs w h;
          case si_start s of None \<Rightarrow> Some (ESP_ERR_INVALID_ARG, w) | Some f \<Rightarrow> call_ctrl S f h w
        })"

definition periph_service_stop ::
  "'z ikw service_ops \<Rightarrow> service_handle option \<Rightarrow> 'z ikw \<Rightarrow> (esp_err \<times> 'z ikw) option" where
  "periph_service_stop S hdl w =
     (case hdl of None \<Rightarrow> Some (ESP_ERR_INVALID_ARG, w)
      | Some h \<Rightarrow> do {
          s \<leftarrow> svs w h;
          case si_stop s of None \<Rightarrow> Some (ESP_ERR_INVALID_ARG, w) | Some f \<Rightarrow> call_ctrl S f h w
        })"

definition periph_service_destroy ::
  "'z ikw service_ops \<Rightarrow> service_handle option \<Rightarrow> 'z ikw \<Rightarrow> (esp_err \<times> 'z ikw) option" where
  "periph_service_destroy S hdl w =
     (case hdl of None \<Rightarrow> Some (ESP_ERR_INVALID_ARG, w)
      | Some h \<Rightarrow> do {
          s \<leftarrow> svs w h;
          w \<leftarrow> (case si_destroy s of None \<Rightarrow> Some w
                | Some f \<Rightarrow> do { (_, w) \<leftarrow> call_ctrl S f h w; Some w });
          s \<leftarrow> svs w h;
          w \<leftarrow> str_free (si_name s) w;
          Some (ESP_OK, w\<lparr>svs := (svs w)(h := None)\<rparr>)
        })"

definition input_key_service_create ::
  "'z ikw platform \<Rightarrow> periph_set_handle option \<Rightarrow> 'z ikw \<Rightarrow> (service_handle option \<times> 'z ikw) option" where
  "input_key_service_create R periph_handle w =
     (case periph_handle of None \<Rightarrow> Some (None, w)
      | Some ph \<Rightarrow> (case heap_alloc R 16 w of
          (None, w) \<Rightarrow> Some (None, w)
        | (Some a, w) \<Rightarrow> do {
            let w = w\<lparr>iks := (iks w)(a \<mapsto> \<lparr>ik_ser_state = PERIPH_SERVICE_STATE_UNKNOWN, ik_periph_handle = ph, ik_info_list = []\<rparr>)\<rparr>;
            (h, w) \<leftarrow> periph_service_create R (Some
              \<lparr>sc_task_stack = 2 * 1024, sc_task_prio = 5, sc_task_core = 1, sc_start = Some input_key_start_ptr,
               sc_stop = Some input_key_stop_ptr, sc_destroy = Some input_key_destroy_ptr, sc_ioctl = None,
               sc_name = Some ''input_key_service'', sc_user_data = Some a\<rparr>) w;
            case h of
              None \<Rightarrow> Some (None, w\<lparr>iks := (iks w)(a := None)\<rparr>)
            | Some h \<Rightarrow> Some (Some h, w)
          }))"

end
