(* ===== verification/Input_Key_Correct.thy ===== *)
theory Input_Key_Correct
  imports Input_Key
begin

text \<open>
  What the input key service promises: it takes the events of the peripherals in order, delivers exactly those of
  registered keys, and ends when it is told to stop; what it does not: the action codes it documents, and a
  destruction while events are pending.
\<close>

section \<open>Looking keys up\<close>

text \<open>The first registered key of a peripheral and an action decides.\<close>

lemma find_user_id_first:
  "find_user_id ks t a =
     (case find (\<lambda>k. ki_type k = t \<and> ki_act_id k = a) ks of None \<Rightarrow> USER_ID_UNKNOWN | Some k \<Rightarrow> ki_user_id k)"
  by (induction ks) auto

lemma find_user_id_append:
  "find_user_id (ks @ ls) t a =
     (if \<exists>k\<in>set ks. ki_type k = t \<and> ki_act_id k = a then find_user_id ks t a else find_user_id ls t a)"
  by (induction ks) auto

definition alloc_keeps_keys :: "'z ikw platform \<Rightarrow> bool" where
  "alloc_keeps_keys R \<longleftrightarrow> allocates R \<and> (\<forall>n w. iks (snd (heap_alloc R n w)) = iks w)"

lemma add_keys_appends:
  assumes "alloc_keeps_keys R"
  shows "iks w a = Some ik \<Longrightarrow>
    \<exists>w'. add_keys R a ks w = Some w' \<and> iks w' = (iks w)(a \<mapsto> ik\<lparr>ik_info_list := ik_info_list ik @ ks\<rparr>)"
proof (induction ks arbitrary: w ik)
  case (Cons k ks)
  from assms have al: "allocates R" and keep: "\<And>n w. iks (snd (heap_alloc R n w)) = iks w"
    by (simp_all add: alloc_keeps_keys_def)
  obtain x w1 where 1: "heap_alloc R 16 w = (Some x, w1)" using allocatesD [OF al] by blast
  have "iks w1 = iks w" using keep [of 16 w] 1 by simp
  let ?ik = "ik\<lparr>ik_info_list := ik_info_list ik @ [k]\<rparr>"
  let ?w2 = "w1\<lparr>iks := (iks w)(a \<mapsto> ?ik)\<rparr>"
  have "iks ?w2 a = Some ?ik" by simp
  from Cons.IH [OF this] obtain w' where "add_keys R a ks ?w2 = Some w'"
      "iks w' = (iks ?w2)(a \<mapsto> ?ik\<lparr>ik_info_list := ik_info_list ?ik @ ks\<rparr>)" by blast
  moreover from 1 \<open>iks w1 = iks w\<close> Cons.prems have "add_keys R a (k # ks) w = add_keys R a ks ?w2" by simp
  ultimately show ?case by (auto simp: fun_eq_iff)
qed (auto simp: fun_upd_idem)

text \<open>Keys that are added are found afterwards unless a key of the same peripheral and action was registered before,
  and what was registered before is still found.\<close>

theorem added_keys_found:
  assumes "alloc_keeps_keys R" "svs w h = Some s" "si_user_data s = Some a" "iks w a = Some ik"
    and n: "0 < n" "nat n \<le> length ks"
  shows "\<exists>w'. input_key_service_add_key R (Some h) (Some ks) n w = Some (ESP_OK, w') \<and>
     (\<forall>t act. get_input_key_user_id (Some a) t act w' =
        Some (if \<exists>k\<in>set (ik_info_list ik). ki_type k = t \<and> ki_act_id k = act then find_user_id (ik_info_list ik) t act
              else find_user_id (take (nat n) ks) t act))"
proof -
  obtain w' where "add_keys R a (take (nat n) ks) w = Some w'"
      "iks w' = (iks w)(a \<mapsto> ik\<lparr>ik_info_list := ik_info_list ik @ take (nat n) ks\<rparr>)"
    using add_keys_appends [OF assms(1,4)] by blast
  then show ?thesis
    using assms by (simp add: input_key_service_add_key_def periph_service_get_data_def get_input_key_user_id_def
        find_user_id_append)
qed

section \<open>The task\<close>

text \<open>The parts of the state the service reads.\<close>

definition key_view :: "'z ikw \<Rightarrow> (iface_handle \<Rightarrow> audio_event_iface option) \<times>
    (periph_set_handle \<Rightarrow> esp_periph_set option) \<times> (service_handle \<Rightarrow> periph_service_impl option) \<times>
    (addr \<Rightarrow> input_key_service option)" where
  "key_view w = (ifs w, pss w, svs w, iks w)"

text \<open>Queues are first in, first out (\<open>qv\<close>), and the callback records its events (\<open>lg\<close>).\<close>

definition key_env ::
  "'z ikw platform \<Rightarrow> 'z ikw service_ops \<Rightarrow> ('z ikw \<Rightarrow> qhandle \<Rightarrow> audio_event_iface_msg list) \<Rightarrow>
   ('z ikw \<Rightarrow> periph_service_event list) \<Rightarrow> bool" where
  "key_env R S qv lg \<longleftrightarrow>
     (\<forall>q w m ms. qv w q = m # ms \<longrightarrow>
        (let (r, w') = xQueueReceive R q portMAX_DELAY w in
         r = Some m \<and> qv w' = (qv w)(q := ms) \<and> lg w' = lg w \<and> key_view w' = key_view w)) \<and>
     (\<forall>f h ev c w. let w' = snd (call_service_cb S f h ev c w) in
         lg w' = lg w @ [ev] \<and> qv w' = qv w \<and> key_view w' = key_view w) \<and>
     (\<forall>w x. qv (w\<lparr>iks := x\<rparr>) = qv w \<and> lg (w\<lparr>iks := x\<rparr>) = lg w)"

lemma key_env_receive:
  assumes "key_env R S qv lg" "qv w q = m # ms"
  obtains w' where "xQueueReceive R q portMAX_DELAY w = (Some m, w')" "qv w' = (qv w)(q := ms)" "lg w' = lg w"
    "key_view w' = key_view w"
proof -
  obtain r w1 where 1: "xQueueReceive R q portMAX_DELAY w = (r, w1)" by fastforce
  from assms have "let (r, w') = xQueueReceive R q portMAX_DELAY w in
      r = Some m \<and> qv w' = (qv w)(q := ms) \<and> lg w' = lg w \<and> key_view w' = key_view w"
    by (simp only: key_env_def simp_thms)
  with 1 that show ?thesis by simp
qed

lemma key_env_cb:
  assumes "key_env R S qv lg"
  obtains err w' where "call_service_cb S f h ev c w = (err, w')" "lg w' = lg w @ [ev]" "qv w' = qv w"
    "key_view w' = key_view w"
proof -
  obtain err w1 where 1: "call_service_cb S f h ev c w = (err, w1)" by fastforce
  from assms have "let w' = snd (call_service_cb S f h ev c w) in
      lg w' = lg w @ [ev] \<and> qv w' = qv w \<and> key_view w' = key_view w"
    by (simp only: key_env_def simp_thms)
  with 1 that show ?thesis by simp
qed

lemma key_queue_view: "key_view w' = key_view w \<Longrightarrow> input_key_queue h w' = input_key_queue h w"
  by (simp add: key_view_def input_key_queue_def periph_service_get_data_def esp_periph_set_get_queue_def
      audio_event_iface_get_queue_handle_def cong: option.case_cong)

text \<open>The events a message gives.\<close>

definition deliver :: "input_key_info list \<Rightarrow> audio_event_iface_msg \<Rightarrow> periph_service_event list" where
  "deliver ks m = (let uid = find_user_id ks (msg_source_type m) (msg_data m) in
     if 0 \<le> uid then [key_event m uid] else [])"

text \<open>A service that is ready to deliver.\<close>

definition key_ready :: "service_handle \<Rightarrow> addr \<Rightarrow> input_key_service \<Rightarrow> qhandle \<Rightarrow> 'z ikw \<Rightarrow> bool" where
  "key_ready h a ik q w \<longleftrightarrow> (\<exists>s f. svs w h = Some s \<and> si_callback s = Some f) \<and> iks w a = Some ik \<and>
     input_key_queue h w = Some q"

lemma key_ready_view: "key_view w' = key_view w \<Longrightarrow> key_ready h a ik q w' = key_ready h a ik q w"
  using key_queue_view [of w' w h] by (simp add: key_ready_def key_view_def)

lemma handle_msg_delivers:
  assumes env: "key_env R S qv lg" and ready: "key_ready h a ik q w"
  obtains w' where "input_key_handle_msg S h a m w = Some w'" "lg w' = lg w @ deliver (ik_info_list ik) m"
    "qv w' = qv w" "key_view w' = key_view w"
proof -
  let ?uid = "find_user_id (ik_info_list ik) (msg_source_type m) (msg_data m)"
  obtain s f where s: "svs w h = Some s" "si_callback s = Some f" "iks w a = Some ik"
    using ready by (auto simp: key_ready_def)
  obtain err w1 where "call_service_cb S f h (key_event m ?uid) (si_cb_ctx s) w = (err, w1)"
      "lg w1 = lg w @ [key_event m ?uid]" "qv w1 = qv w" "key_view w1 = key_view w"
    using key_env_cb [OF env] by blast
  with s that show ?thesis
    by (cases "0 \<le> ?uid") (auto simp: input_key_handle_msg_def get_input_key_user_id_def periph_service_callback_def
        deliver_def)
qed

lemma task_loop_turn:
  assumes env: "key_env R S qv lg" and ready: "key_ready h a ik q w" and q: "qv w q = m # ms"
  obtains w' where "input_key_task_loop R S h a msg w = (if is_stop h m then Some w' else input_key_task_loop R S h a m w')"
    "lg w' = lg w @ deliver (ik_info_list ik) m" "qv w' = (qv w)(q := ms)" "key_ready h a ik q w'" "key_view w' = key_view w"
proof -
  obtain w1 where 1: "xQueueReceive R q portMAX_DELAY w = (Some m, w1)" "qv w1 = (qv w)(q := ms)" "lg w1 = lg w"
      "key_view w1 = key_view w"
    using key_env_receive [OF env q] by blast
  then have r1: "key_ready h a ik q w1" using ready key_ready_view by blast
  obtain w2 where 2: "input_key_handle_msg S h a m w1 = Some w2" "lg w2 = lg w1 @ deliver (ik_info_list ik) m"
      "qv w2 = qv w1" "key_view w2 = key_view w1"
    using handle_msg_delivers [OF env r1] by blast
  then have r2: "key_ready h a ik q w2" using r1 key_ready_view by blast
  have rc: "input_key_service_event_receive R (Some h) portMAX_DELAY w = Some ((ESP_OK, Some m), w1)"
    using ready 1 by (simp add: input_key_service_event_receive_def key_ready_def)
  have "input_key_task_loop R S h a msg w = (if is_stop h m then Some w2 else input_key_task_loop R S h a m w2)"
    by (subst input_key_task_loop.simps) (simp add: rc 2)
  with 1 2 r2 that show ?thesis by auto
qed

lemma task_loop_delivers:
  assumes env: "key_env R S qv lg" and stop: "is_stop h m"
  shows "\<lbrakk> key_ready h a ik q w; qv w q = ms @ m # rest; \<forall>x\<in>set ms. \<not> is_stop h x \<rbrakk> \<Longrightarrow>
    \<exists>w'. input_key_task_loop R S h a msg w = Some w' \<and> qv w' q = rest \<and> key_view w' = key_view w \<and>
      lg w' = lg w @ concat (map (deliver (ik_info_list ik)) (ms @ [m]))"
proof (induction ms arbitrary: w msg)
  case Nil
  obtain w1 where "input_key_task_loop R S h a msg w = Some w1" "lg w1 = lg w @ deliver (ik_info_list ik) m"
      "qv w1 = (qv w)(q := rest)" "key_view w1 = key_view w"
    using task_loop_turn [OF env Nil(1), of m rest msg] Nil(2) stop by auto
  then show ?case by simp
next
  case (Cons x ms)
  obtain w1 where 1: "input_key_task_loop R S h a msg w = input_key_task_loop R S h a x w1"
      "lg w1 = lg w @ deliver (ik_info_list ik) x" "qv w1 = (qv w)(q := ms @ m # rest)" "key_ready h a ik q w1"
      "key_view w1 = key_view w"
    using task_loop_turn [OF env Cons.prems(1), of x "ms @ m # rest" msg] Cons.prems by auto
  from Cons.IH [OF 1(4), of x] 1 Cons.prems show ?case by auto
qed

text \<open>C40. When the queue of the peripherals holds events and then the stop message, the task of the service ends; before,
  it has called the application back once for every event of a registered key, in order, with the user identifier
  of the first key registered for that peripheral and action, and for no other event; what follows in the queue is left.\<close>

theorem input_keys_delivered:
  assumes env: "key_env R S qv lg"
    and svc: "svs w h = Some s" "si_user_data s = Some a" "si_callback s = Some f" "iks w a = Some ik"
    and q: "input_key_queue h w = Some q" "qv w q = ms @ m # rest"
    and stop: "is_stop h m" "\<forall>x\<in>set ms. \<not> is_stop h x"
  shows "\<exists>w'. input_key_service_task R S h w = Some w' \<and> qv w' q = rest \<and> iks w' a = None \<and>
    lg w' = lg w @ concat (map (deliver (ik_info_list ik)) (ms @ [m]))"
proof -
  let ?ik = "ik\<lparr>ik_ser_state := PERIPH_SERVICE_STATE_RUNNING\<rparr>"
  let ?w1 = "w\<lparr>iks := (iks w)(a \<mapsto> ?ik)\<rparr>"
  have keep: "qv (w\<lparr>iks := x\<rparr>) = qv w" "lg (w\<lparr>iks := x\<rparr>) = lg w" for w x
    using env by (auto simp: key_env_def)
  have "key_ready h a ?ik q ?w1"
    using svc q(1) by (auto simp: key_ready_def input_key_queue_def periph_service_get_data_def
        esp_periph_set_get_queue_def audio_event_iface_get_queue_handle_def cong: option.case_cong)
  from task_loop_delivers [OF env stop(1) this, of ms rest empty_msg] q(2) stop(2)
  obtain w2 where 2: "input_key_task_loop R S h a empty_msg ?w1 = Some w2" "qv w2 q = rest" "key_view w2 = key_view ?w1"
      "lg w2 = lg w @ concat (map (deliver (ik_info_list ik)) (ms @ [m]))"
    by (auto simp: keep)
  from 2(3) have "iks w2 a = Some ?ik" by (simp add: key_view_def)
  then show ?thesis
    using svc 2 by (simp add: input_key_service_task_def periph_service_get_data_def keep)
qed

section \<open>Action codes\<close>

text \<open>The actions \<open>input_key_service.h\<close> documents.\<close>

abbreviation INPUT_KEY_SERVICE_ACTION_CLICK :: int where "INPUT_KEY_SERVICE_ACTION_CLICK \<equiv> 0"
abbreviation INPUT_KEY_SERVICE_ACTION_CLICK_RELEASE :: int where "INPUT_KEY_SERVICE_ACTION_CLICK_RELEASE \<equiv> 1"
abbreviation INPUT_KEY_SERVICE_ACTION_PRESS :: int where "INPUT_KEY_SERVICE_ACTION_PRESS \<equiv> 2"
abbreviation INPUT_KEY_SERVICE_ACTION_PRESS_RELEASE :: int where "INPUT_KEY_SERVICE_ACTION_PRESS_RELEASE \<equiv> 3"

text \<open>The service hands the event number of the button peripheral through as the action, but the two numberings differ
  by one: pressing a button is announced as the release of a click, its release as a long press, a long press as the
  release of a long press, and the click action is never announced for an event of the peripheral.\<close>

theorem key_actions_shifted:
  assumes "0 \<le> find_user_id ks (pe_periph_id p) g"
  shows "map se_type (deliver ks (periph_msg h p PERIPH_BUTTON_PRESSED g n junk)) = [INPUT_KEY_SERVICE_ACTION_CLICK_RELEASE] \<and>
    map se_type (deliver ks (periph_msg h p PERIPH_BUTTON_RELEASE g n junk)) = [INPUT_KEY_SERVICE_ACTION_PRESS] \<and>
    map se_type (deliver ks (periph_msg h p PERIPH_BUTTON_LONG_PRESSED g n junk)) = [INPUT_KEY_SERVICE_ACTION_PRESS_RELEASE] \<and>
    INPUT_KEY_SERVICE_ACTION_CLICK \<notin> set (map se_type (deliver ks (periph_msg h p PERIPH_BUTTON_LONG_RELEASE g n junk)))"
  using assms by (simp add: deliver_def periph_msg_def key_event_def)

section \<open>Destruction\<close>

lemma destroy_frees:
  assumes "periph_service_destroy S (Some h) w = Some (err, w')"
  shows "svs w' h = None"
  using assms by (auto simp: periph_service_destroy_def bind_eq_Some_conv)

text \<open>\<open>periph_service_destroy\<close> queues the stop message and frees the service at once. A task that then takes an earlier
  event from the queue goes on with the freed handle, which is undefined: it either calls back through it or asks it
  for its queue.\<close>

theorem destroy_with_pending_events:
  assumes destroyed: "periph_service_destroy S (Some h) w0 = Some (err, w)" and "iks w a = Some ik" "\<not> is_stop h m"
  shows "do { w \<leftarrow> input_key_handle_msg S h a m w; input_key_task_loop R S h a m w } = None"
proof (cases "0 \<le> find_user_id (ik_info_list ik) (msg_source_type m) (msg_data m)")
  note dead = destroy_frees [OF destroyed]
  case True
  with dead assms show ?thesis
    by (simp add: input_key_handle_msg_def get_input_key_user_id_def periph_service_callback_def)
next
  case False
  have "input_key_task_loop R S h a m w = None"
    by (subst input_key_task_loop.simps)
      (simp add: input_key_service_event_receive_def input_key_queue_def periph_service_get_data_def destroy_frees [OF destroyed])
  with False assms show ?thesis by (simp add: input_key_handle_msg_def get_input_key_user_id_def)
qed

section \<open>A concrete service\<close>

record ikq_world = ik_world +
  kq :: "qhandle \<Rightarrow> audio_event_iface_msg list"
  klog :: "periph_service_event list"

definition key_platform :: "ikq_world platform" where
  "key_platform = with_queues kq (\<lambda>q. kq_update (\<lambda>_. q)) 5 (seq_platform (Some 50))"

definition key_ops :: "ikq_world service_ops" where
  "key_ops = \<lparr>call_service_ctrl = (\<lambda>f h w. (ESP_OK, w)), call_service_io = (\<lambda>f x c v w. (ESP_OK, w)),
     call_service_cb = (\<lambda>f h ev c w. (ESP_OK, w\<lparr>klog := klog w @ [ev]\<rparr>)), xQueueSendWait = (\<lambda>q m w. (True, w))\<rparr>"

lemma key_platform_env: "key_env key_platform key_ops kq klog"
  by (simp add: key_env_def key_platform_def key_ops_def key_view_def Let_def)

definition ex_keys :: "input_key_info list" where
  "ex_keys = [\<lparr>ki_type = PERIPH_ID_BUTTON, ki_user_id = 1, ki_act_id = 36\<rparr>, \<lparr>ki_type = PERIPH_ID_TOUCH, ki_user_id = 4, ki_act_id = 8\<rparr>]"

definition ex_ik :: input_key_service where
  "ex_ik = \<lparr>ik_ser_state = PERIPH_SERVICE_STATE_UNKNOWN, ik_periph_handle = 2, ik_info_list = ex_keys\<rparr>"

definition ex_impl :: periph_service_impl where
  "ex_impl = \<lparr>si_start = None, si_stop = None, si_destroy = Some input_key_destroy_ptr, si_ioctl = None, si_callback = Some 77, si_cb_ctx = 0,
     si_name = None, si_user_data = Some 6\<rparr>"

definition ex_key_msg :: "addr option \<Rightarrow> int \<Rightarrow> int \<Rightarrow> int \<Rightarrow> audio_event_iface_msg" where
  "ex_key_msg src t c d = \<lparr>msg_cmd = c, msg_data = d, msg_data_len = 0, msg_source = src, msg_source_type = t,
     msg_need_free_data = False\<rparr>"

definition ex_key_iface :: audio_event_iface where
  "ex_key_iface = \<lparr>ev_internal_queue = None, ev_external_queue = Some 3, ev_queue_set = None,
     ev_internal_queue_size = 0, ev_external_queue_size = 5, ev_queue_set_size = 0, ev_listening_queues = [],
     ev_context = 0, ev_on_cmd = None, ev_wait_time = 0, ev_type = 0\<rparr>"

definition ex_key_set :: esp_periph_set where
  "ex_key_set = \<lparr>ps_state_event_bits = 0, ps_lock = 0, ps_task_stack = 0, ps_task_prio = 0, ps_task_core = 0, ps_run = True,
     ps_event_handle = \<lparr>pv_user_ctx = 0, pv_cb = None, pv_iface = Some 1\<rparr>, ps_periph_list = []\<rparr>"

definition ex_ikw :: ikq_world where
  "ex_ikw = \<lparr>rbs = Map.empty, ifs = [1 \<mapsto> ex_key_iface], els = Map.empty, strs = Map.empty, prs = Map.empty,
     pss = [2 \<mapsto> ex_key_set], svs = [5 \<mapsto> ex_impl], iks = [6 \<mapsto> ex_ik],
     kq = (\<lambda>_. [])(3 := [ex_key_msg None PERIPH_ID_BUTTON 1 36, ex_key_msg None PERIPH_ID_BUTTON 1 99,
       ex_key_msg None PERIPH_ID_TOUCH 2 8, ex_key_msg (Some 5) 0 3 0]), klog = []\<rparr>"

lemmas ex_ik_defs = ex_ikw_def ex_impl_def ex_ik_def ex_key_set_def ex_key_iface_def ex_keys_def

theorem input_keys_delivered_witness:
  "\<exists>w'. input_key_service_task key_platform key_ops 5 ex_ikw = Some w' \<and>
     klog w' = [\<lparr>se_type = 1, se_source = PERIPH_ID_BUTTON, se_data = 1, se_len = 36\<rparr>,
                \<lparr>se_type = 2, se_source = PERIPH_ID_TOUCH, se_data = 4, se_len = 8\<rparr>]"
proof -
  have "input_key_queue 5 ex_ikw = Some 3"
    by (simp add: input_key_queue_def periph_service_get_data_def esp_periph_set_get_queue_def
        audio_event_iface_get_queue_handle_def ex_ik_defs)
  from input_keys_delivered [OF key_platform_env, where w = ex_ikw and h = 5 and s = ex_impl and a = 6 and f = 77
      and ik = ex_ik and q = 3 and m = "ex_key_msg (Some 5) 0 3 0" and rest = "[]"
      and ms = "[ex_key_msg None PERIPH_ID_BUTTON 1 36, ex_key_msg None PERIPH_ID_BUTTON 1 99, ex_key_msg None PERIPH_ID_TOUCH 2 8]"] this
  show ?thesis
    by (simp add: is_stop_def service_state_num_def ex_key_msg_def ex_ik_defs deliver_def key_event_def)
      (auto simp: ex_key_msg_def)
qed

theorem added_keys_found_witness:
  "\<exists>w'. input_key_service_add_key key_platform (Some 5) (Some [\<lparr>ki_type = 9, ki_user_id = 7, ki_act_id = 1\<rparr>]) 1 ex_ikw = Some (ESP_OK, w') \<and>
     get_input_key_user_id (Some 6) 9 1 w' = Some 7"
proof -
  have 1: "alloc_keeps_keys key_platform" by (simp add: alloc_keeps_keys_def allocates_def key_platform_def)
  have 2: "svs ex_ikw 5 = Some ex_impl" "si_user_data ex_impl = Some 6" "iks ex_ikw 6 = Some ex_ik"
    by (simp_all add: ex_ikw_def ex_impl_def)
  from added_keys_found [OF 1 2, of 1 "[\<lparr>ki_type = 9, ki_user_id = 7, ki_act_id = 1\<rparr>]"] show ?thesis
    by (fastforce simp: ex_ik_def ex_keys_def)
qed

theorem key_actions_shifted_witness:
  "map se_type (deliver ex_keys (periph_msg 1 \<lparr>pe_tag = None, pe_disabled = False, pe_periph_id = PERIPH_ID_BUTTON,
     pe_init = None, pe_run = None, pe_destroy = None, pe_state = PERIPH_STATE_RUNNING, pe_source = 0, pe_periph_data = 0,
     pe_on_evt = None, pe_timer = None\<rparr> PERIPH_BUTTON_PRESSED 36 0 False)) = [INPUT_KEY_SERVICE_ACTION_CLICK_RELEASE]"
  by (rule key_actions_shifted [THEN conjunct1]) (simp add: ex_keys_def)

theorem destroy_with_pending_events_witness:
  "do { (_, w) \<leftarrow> periph_service_destroy key_ops (Some 5) ex_ikw;
        w \<leftarrow> input_key_handle_msg key_ops 5 6 (ex_key_msg None PERIPH_ID_BUTTON 1 36) w;
        input_key_task_loop key_platform key_ops 5 6 (ex_key_msg None PERIPH_ID_BUTTON 1 36) w } = None \<and>
   periph_service_destroy key_ops (Some 5) ex_ikw \<noteq> None"
proof -
  let ?w = "ex_ikw\<lparr>svs := (svs ex_ikw)(5 := None)\<rparr>"
  have d: "periph_service_destroy key_ops (Some 5) ex_ikw = Some (ESP_OK, ?w)"
    by (simp add: periph_service_destroy_def call_ctrl_def input_key_service_destroy_def input_key_service_event_send_def
        input_key_queue_def periph_service_get_data_def esp_periph_set_get_queue_def audio_event_iface_get_queue_handle_def
        input_key_start_ptr_def input_key_stop_ptr_def input_key_destroy_ptr_def str_free_def key_ops_def ex_ik_defs)
  have 1: "iks ?w 6 = Some ex_ik" "\<not> is_stop 5 (ex_key_msg None PERIPH_ID_BUTTON 1 36)"
    by (simp_all add: ex_ikw_def is_stop_def ex_key_msg_def)
  from destroy_with_pending_events [OF d 1, of key_platform] show ?thesis by (simp add: d)
qed

end
