(* ===== verification/Http_Playlist.thy ===== *)
theory Http_Playlist
  imports Platform
begin

text \<open>
  The playlist parser of the HTTP stream (\<open>components/audio_stream/http_stream.c\<close>): lines are cut out of a buffer of
  129 bytes that is filled from the connection, and the tracks they name are kept in a bounded list. A pointer into
  the buffer is an index; the line it stands for is the C string there. \<open>None\<close> is an access outside the buffer.
\<close>

abbreviation MAX_PLAYLIST_LINE_SIZE :: nat where "MAX_PLAYLIST_LINE_SIZE \<equiv> 128"
abbreviation MAX_PLAYLIST_TRACK :: int where "MAX_PLAYLIST_TRACK \<equiv> 20"
abbreviation MAX_PLAYLIST_KEEP_TRACK :: int where "MAX_PLAYLIST_KEEP_TRACK \<equiv> 18"

abbreviation NUL :: char where "NUL \<equiv> CHR 0x00"
abbreviation CR :: char where "CR \<equiv> CHR 0x0D"
abbreviation LF :: char where "LF \<equiv> CHR 0x0A"

datatype audio_codec =
    AUDIO_CODEC_NONE | AUDIO_CODEC_RAW | AUDIO_CODEC_WAV | AUDIO_CODEC_MP3 | AUDIO_CODEC_AAC | AUDIO_CODEC_OPUS
  | AUDIO_PLAYLIST

record track =
  tr_uri :: string
  tr_is_played :: bool

record playlist =
  py_data :: string
  py_index :: nat
  py_remain :: int
  py_total_read :: int
  py_tracks :: "track list"
  py_total_tracks :: int
  py_content_length :: int

section \<open>Strings of C\<close>

text \<open>\<open>strstr\<close> and \<open>strrchr\<close> as positions.\<close>

fun strstr :: "string \<Rightarrow> string \<Rightarrow> nat option" where
  "strstr [] t = (if t = [] then Some 0 else None)"
| "strstr (c # s) t = (if take (length t) (c # s) = t then Some 0 else map_option Suc (strstr s t))"

fun strrchr :: "string \<Rightarrow> char \<Rightarrow> nat option" where
  "strrchr [] x = None"
| "strrchr (c # s) x = (case strrchr s x of Some i \<Rightarrow> Some (Suc i) | None \<Rightarrow> if c = x then Some 0 else None)"

definition cstr :: "string \<Rightarrow> nat \<Rightarrow> string" where
  "cstr data i = takeWhile (\<lambda>c. c \<noteq> NUL) (drop i data)"

section \<open>Content types\<close>

definition get_audio_type :: "string \<Rightarrow> audio_codec" where
  "get_audio_type content_type =
     (if strcaseeq content_type ''mp3'' \<or> strcaseeq content_type ''audio/mp3'' \<or> strcaseeq content_type ''audio/mpeg'' \<or>
         strcaseeq content_type ''binary/octet-stream'' \<or> strcaseeq content_type ''application/octet-stream''
      then AUDIO_CODEC_MP3
      else if strcaseeq content_type ''audio/aac'' \<or> strcaseeq content_type ''audio/x-aac'' \<or>
         strcaseeq content_type ''audio/mp4'' \<or> strcaseeq content_type ''audio/aacp'' \<or> strcaseeq content_type ''video/MP2T''
      then AUDIO_CODEC_AAC
      else if strcaseeq content_type ''audio/wav'' then AUDIO_CODEC_WAV
      else if strcaseeq content_type ''audio/opus'' then AUDIO_CODEC_OPUS
      else if strcaseeq content_type ''application/vnd.apple.mpegurl'' \<or> strcaseeq content_type ''vnd.apple.mpegURL''
      then AUDIO_PLAYLIST
      else AUDIO_CODEC_NONE)"

definition is_playlist :: "audio_codec \<Rightarrow> string \<Rightarrow> bool" where
  "is_playlist codec_fmt uri =
     (if codec_fmt = AUDIO_PLAYLIST then True
      else case strrchr uri (CHR ''.'') of None \<Rightarrow> False
      | Some i \<Rightarrow> strcaseeq (drop i uri) ''.m3u'' \<or> strcaseeq (drop i uri) ''.m3u8'')"

section \<open>Lines\<close>

text \<open>The scan of \<open>_get_line_in_buffer\<close> from \<open>idx\<close>: line ends are overwritten with \<open>NUL\<close>. It ends at the first
  character of the next line, or at the \<open>NUL\<close> after the text (\<open>None\<close> inside).\<close>

function scan_line :: "string \<Rightarrow> nat \<Rightarrow> bool \<Rightarrow> (nat option \<times> string) option" where
  "scan_line data idx is_end_of_line =
     (if \<not> idx < length data then None
      else let c = data ! idx in
        if c = NUL then Some (None, data)
        else if c = CR \<or> c = LF then scan_line (data[idx := NUL]) (Suc idx) True
        else if is_end_of_line then Some (Some idx, data)
        else scan_line data (Suc idx) is_end_of_line)"
  by pat_completeness auto
termination by (relation "measure (\<lambda>(data, idx, _). length data - idx)") auto

declare scan_line.simps [simp del]

definition get_line_in_buffer :: "playlist \<Rightarrow> (string option \<times> playlist) option" where
  "get_line_in_buffer p =
     (if py_remain p > 0 then do {
        (next_idx, data) \<leftarrow> scan_line (py_data p) (py_index p) False;
        let out = cstr data (py_index p);
        case next_idx of
          Some idx \<Rightarrow> Some (Some out, p\<lparr>py_data := data, py_remain := int idx - int (py_index p), py_index := idx\<rparr>)
        | None \<Rightarrow> Some (Some out, p\<lparr>py_data := data, py_remain := 0\<rparr>)
      }
      else Some (None, p))"

text \<open>\<open>esp_http_client_read\<close>: asked for some bytes it gives a count and that many bytes.\<close>

type_synonym 'w client_read = "nat \<Rightarrow> 'w \<Rightarrow> (int \<times> string) \<times> 'w"

definition client_read_line ::
  "'w client_read \<Rightarrow> playlist \<Rightarrow> 'w \<Rightarrow> ((string option \<times> playlist) \<times> 'w) option" where
  "client_read_line rd p w = do {
     (line, p) \<leftarrow> get_line_in_buffer p;
     if line \<noteq> None then Some ((line, p), w)
     else if py_total_read p \<ge> py_content_length p then Some ((None, p), w)
     else let need_read = int MAX_PLAYLIST_LINE_SIZE - py_remain p in
       if need_read > 0 then do {
         p \<leftarrow> (if py_remain p > 0 then do {
                 moved \<leftarrow> mem_read (py_data p) (py_index p) (nat (py_remain p));
                 data \<leftarrow> mem_write (py_data p) 0 moved;
                 Some (p\<lparr>py_data := data, py_index := 0\<rparr>)
               } else Some p);
         let ((rlen, bytes), w) = rd (nat need_read) w;
         data \<leftarrow> mem_write (py_data p) (nat (py_remain p)) bytes;
         let p = p\<lparr>py_data := data\<rparr>;
         if rlen > 0 then do {
           let remain = py_remain p + rlen;
           data \<leftarrow> mem_write (py_data p) (nat remain) [NUL];
           (line, p) \<leftarrow> get_line_in_buffer (p\<lparr>py_data := data, py_remain := remain, py_total_read := py_total_read p + rlen\<rparr>);
           Some ((line, p), w)
         } else Some ((None, p), w)
       } else Some ((None, p), w)
   }"

section \<open>Tracks\<close>

text \<open>Dropping old tracks while the counter is above the limit.\<close>

fun drop_tracks :: "track list \<Rightarrow> int \<Rightarrow> track list \<times> int" where
  "drop_tracks [] n = ([], n)"
| "drop_tracks (t # ts) n = (if n > MAX_PLAYLIST_TRACK then drop_tracks ts (n - 1) else (t # ts, n))"

text \<open>The address a track line stands for, relative to the playlist's own; \<open>None\<close> when that has no host part to
  complete it with.\<close>

definition track_address :: "string \<Rightarrow> string \<Rightarrow> string option" where
  "track_address track_uri uri =
     (if strstr track_uri ''http'' = Some 0 then Some track_uri
      else if strstr track_uri ''//'' = Some 0 then
        Some ((if strstr uri ''https'' = Some 0 then ''https:'' else ''http:'') @ track_uri)
      else if strstr track_uri ''/'' = Some 0 then do {
        host \<leftarrow> strstr uri ''//'';
        path \<leftarrow> strstr (drop (host + 2) uri) ''/'';
        Some (take (host + 2 + path) uri @ track_uri)
      }
      else do {
        pos \<leftarrow> strrchr uri (CHR ''/'');
        Some (take (Suc pos) uri @ track_uri)
      })"

text \<open>The copy of the playlist's address, made for a track without scheme and host.\<close>

definition dup_base :: "'w platform \<Rightarrow> string \<Rightarrow> string \<Rightarrow> 'w \<Rightarrow> addr option \<times> 'w" where
  "dup_base R track_uri uri w =
     (if strstr track_uri ''http'' = Some 0 \<or> strstr track_uri ''//'' = Some 0 then (Some 0, w)
      else heap_alloc R (length uri + 1) w)"

text \<open>An allocation that fails, of the track, of a copy of the address or of the result, ends the insertion.\<close>

definition insert_to_playlist ::
  "'w platform \<Rightarrow> playlist \<Rightarrow> string \<Rightarrow> string \<Rightarrow> 'w \<Rightarrow> playlist \<times> 'w" where
  "insert_to_playlist R p track_uri uri w =
     (let (ts, n) = drop_tracks (py_tracks p) (py_total_tracks p);
          p = p\<lparr>py_tracks := ts, py_total_tracks := n\<rparr> in
      case heap_alloc R 12 w of
        (None, w) \<Rightarrow> (p, w)
      | (Some _, w) \<Rightarrow>
          (case dup_base R track_uri uri w of
             (None, w) \<Rightarrow> (p, w)
           | (Some _, w) \<Rightarrow> (case track_address track_uri uri of
               None \<Rightarrow> (p, w)
             | Some a \<Rightarrow> (case heap_alloc R (length a + 1) w of
                 (None, w) \<Rightarrow> (p, w)
               | (Some _, w) \<Rightarrow>
                   if a \<in> set (map tr_uri (py_tracks p)) then (p, w)
                   else (p\<lparr>py_tracks := py_tracks p @ [\<lparr>tr_uri = a, tr_is_played = False\<rparr>],
                          py_total_tracks := py_total_tracks p + 1\<rparr>, w)))))"

definition playlist_clear :: "playlist \<Rightarrow> playlist" where
  "playlist_clear p = p\<lparr>py_tracks := []\<rparr>"

text \<open>The first track that was not played, as a position.\<close>

fun first_unplayed :: "track list \<Rightarrow> nat option" where
  "first_unplayed [] = None"
| "first_unplayed (t # ts) = (if \<not> tr_is_played t then Some 0 else map_option Suc (first_unplayed ts))"

section \<open>Parsing\<close>

text \<open>What the loop of \<open>_resolve_playlist\<close> does with one line: the two flags, whether the line is inserted, and
  whether the loop goes on.\<close>

definition playlist_line :: "bool \<Rightarrow> bool \<Rightarrow> string \<Rightarrow> (bool \<times> bool \<times> bool) option" where
  "playlist_line valid_playlist is_playlist_uri line =
     (if \<not> valid_playlist \<and> line = ''#EXTM3U'' then Some (True, is_playlist_uri, False)
      else if strstr line ''http'' = Some 0 then Some (True, is_playlist_uri, True)
      else if \<not> valid_playlist then None
      else if \<not> is_playlist_uri \<and> strstr line ''#EXTINF'' = Some 0 then Some (valid_playlist, True, False)
      else if \<not> is_playlist_uri \<and> strstr line ''#EXT-X-STREAM-INF'' = Some 0 then Some (valid_playlist, True, False)
      else if take 1 line = ''#'' then Some (valid_playlist, is_playlist_uri, False)
      else if \<not> is_playlist_uri then Some (valid_playlist, is_playlist_uri, False)
      else Some (valid_playlist, False, True))"

partial_function (option) resolve_loop ::
  "'w platform \<Rightarrow> 'w client_read \<Rightarrow> string \<Rightarrow> bool \<Rightarrow> bool \<Rightarrow> playlist \<Rightarrow> 'w \<Rightarrow> ((bool \<times> playlist) \<times> 'w) option" where
  "resolve_loop R rd uri valid_playlist is_playlist_uri p w = do {
     ((line, p), w) \<leftarrow> client_read_line rd p w;
     case line of None \<Rightarrow> Some ((valid_playlist, p), w)
     | Some line \<Rightarrow> (case playlist_line valid_playlist is_playlist_uri line of
         None \<Rightarrow> Some ((valid_playlist, p), w)
       | Some (valid, is_uri, ins) \<Rightarrow>
           (let (p, w) = (if ins then insert_to_playlist R p line uri w else (p, w)) in
            resolve_loop R rd uri valid is_uri p w))
   }"

text \<open>\<open>_resolve_playlist\<close> for a stream of the given format, size and resolved flag; a stream without a parser has no
  playlist, and resolving one with a playlist's address is undefined.\<close>

definition resolve_playlist ::
  "'w platform \<Rightarrow> 'w client_read \<Rightarrow> audio_codec \<Rightarrow> int \<Rightarrow> bool \<Rightarrow> string \<Rightarrow> playlist option \<Rightarrow> 'w
     \<Rightarrow> ((esp_err \<times> playlist option) \<times> 'w) option" where
  "resolve_playlist R rd codec_fmt total_bytes resolved uri py w =
     (if \<not> is_playlist codec_fmt uri then Some ((ESP_ERR_INVALID_STATE, py), w)
      else if resolved then Some ((ESP_ERR_INVALID_STATE, py), w)
      else do {
        p \<leftarrow> py;
        ((valid, p), w) \<leftarrow> resolve_loop R rd uri False False
           (p\<lparr>py_content_length := total_bytes, py_remain := 0, py_index := 0, py_total_read := 0\<rparr>) w;
        Some ((if valid then ESP_OK else ESP_FAIL, Some p), w)
      })"

end
