(* ===== verification/Http_Playlist_Correct.thy ===== *)
theory Http_Playlist_Correct
  imports Http_Playlist
begin

text \<open>
  What the playlist parser does: for a body that fits the buffer the tracks are those of a reference parser over its
  lines; for a longer one the lines are cut at the wrong places. The list of tracks has no duplicates and is bounded,
  until it is cleared, which does not reset its counter.
\<close>

section \<open>Lines\<close>

abbreviation is_nl :: "char \<Rightarrow> bool" where "is_nl c \<equiv> c = CR \<or> c = LF"

text \<open>The lines of a text: maximal runs without line ends, where several line ends in sequence count as one.\<close>

definition rest_lines :: "string \<Rightarrow> string" where
  "rest_lines s = dropWhile is_nl (dropWhile (\<lambda>c. \<not> is_nl c) s)"

lemma rest_lines_shorter: "s \<noteq> [] \<Longrightarrow> length (rest_lines s) < length s"
proof (cases s)
  case (Cons c s')
  have a: "length (dropWhile P xs) \<le> length xs" for P and xs :: string by (rule length_dropWhile_le)
  show ?thesis
  proof (cases "is_nl c")
    case True
    then have "rest_lines s = dropWhile is_nl s'" by (auto simp: rest_lines_def Cons)
    then show ?thesis using a [of is_nl s'] Cons by simp
  next
    case False
    then have "rest_lines s = dropWhile is_nl (dropWhile (\<lambda>c. \<not> is_nl c) s')" by (auto simp: rest_lines_def Cons)
    then show ?thesis using a [of is_nl "dropWhile (\<lambda>c. \<not> is_nl c) s'"] a [of "\<lambda>c. \<not> is_nl c" s'] Cons by simp
  qed
qed simp

function lines_of :: "string \<Rightarrow> string list" where
  "lines_of s = (if s = [] then [] else takeWhile (\<lambda>c. \<not> is_nl c) s # lines_of (rest_lines s))"
  by pat_completeness auto
termination by (relation "measure length") (auto simp: rest_lines_shorter)

declare lines_of.simps [simp del]

text \<open>The buffer holds the text \<open>s\<close> from \<open>i\<close> on.\<close>

definition holds :: "string \<Rightarrow> nat \<Rightarrow> string \<Rightarrow> bool" where
  "holds data i s \<longleftrightarrow> NUL \<notin> set s \<and> (\<exists>r. drop i data = s @ NUL # r)"

lemma drop_ConsD: "drop i xs = x # ys \<Longrightarrow> i < length xs \<and> xs ! i = x \<and> drop (Suc i) xs = ys"
  by (metis Cons_nth_drop_Suc drop_all list.discI list.inject not_le)

lemma holds_nth: "holds data i (c # s) \<Longrightarrow> i < length data \<and> data ! i = c"
  unfolding holds_def append_Cons by (blast dest: drop_ConsD)

lemma holds_Nil: "holds data i [] \<Longrightarrow> i < length data \<and> data ! i = NUL"
  unfolding holds_def append_Nil by (blast dest: drop_ConsD)

lemma holds_Cons: "holds data i (c # s) \<Longrightarrow> holds data (Suc i) s"
  unfolding holds_def append_Cons by (auto dest: drop_ConsD)

lemma holds_upd: "k < i \<Longrightarrow> holds (data[k := x]) i s = holds data i s"
  by (simp add: holds_def)

text \<open>The scan in two phases: over the line ends, and over the line.\<close>

lemma scan_ends:
  "holds data i s \<Longrightarrow> \<exists>data'. length data' = length data \<and> (\<forall>k<i. data' ! k = data ! k) \<and>
     holds data' (i + length (takeWhile is_nl s)) (dropWhile is_nl s) \<and>
     (s \<noteq> [] \<longrightarrow> is_nl (hd s) \<longrightarrow> data' ! i = NUL) \<and>
     scan_line data i True = Some (if dropWhile is_nl s = [] then None else Some (i + length (takeWhile is_nl s)), data')"
proof (induction s arbitrary: data i)
  case Nil
  then show ?case using holds_Nil [OF Nil] by (intro exI [of _ data]) (simp add: scan_line.simps Let_def)
next
  case (Cons c s)
  note c = holds_nth [OF Cons.prems] and s = holds_Cons [OF Cons.prems]
  have nz: "c \<noteq> NUL" using Cons.prems by (auto simp: holds_def)
  show ?case
  proof (cases "is_nl c")
    case True
    let ?d = "data[i := NUL]"
    have "holds ?d (Suc i) s" using s by (simp add: holds_upd)
    from Cons.IH [OF this] obtain d where d: "length d = length ?d" "\<forall>k<Suc i. d ! k = ?d ! k"
      "holds d (Suc i + length (takeWhile is_nl s)) (dropWhile is_nl s)"
      "scan_line ?d (Suc i) True = Some (if dropWhile is_nl s = [] then None else Some (Suc i + length (takeWhile is_nl s)), d)"
      by blast
    have "scan_line data i True = scan_line ?d (Suc i) True"
      using c nz True by (subst scan_line.simps) (simp add: Let_def)
    moreover have "d ! i = NUL" using d(2) c by simp
    moreover have "\<forall>k<i. d ! k = data ! k" using d(2) by simp
    moreover have "takeWhile is_nl (c # s) = c # takeWhile is_nl s" "dropWhile is_nl (c # s) = dropWhile is_nl s"
      using True by auto
    ultimately show ?thesis using d by (intro exI [of _ d]) simp
  next
    case False
    then have "takeWhile is_nl (c # s) = []" "dropWhile is_nl (c # s) = c # s" by auto
    then show ?thesis using c nz False Cons.prems by (intro exI [of _ data]) (simp add: scan_line.simps Let_def)
  qed
qed

lemma length_rest_le: "length (dropWhile P xs) \<le> length xs" "length (rest_lines s) \<le> length s"
  by (simp_all add: rest_lines_def length_dropWhile_le order.trans [OF length_dropWhile_le length_dropWhile_le])

lemma takeWhile_length_diff: "length (takeWhile P xs) = length xs - length (dropWhile P xs)"
  by (metis add_diff_cancel_right' length_append takeWhile_dropWhile_id)

text \<open>A scan from the start of a line.\<close>

lemma scan_text:
  "holds data i s \<Longrightarrow> \<exists>data'. length data' = length data \<and> (\<forall>k<i. data' ! k = data ! k) \<and>
     scan_line data i False =
       Some (if rest_lines s = [] then None else Some (i + (length s - length (rest_lines s))), data') \<and>
     holds data' (i + (length s - length (rest_lines s))) (rest_lines s) \<and> cstr data' i = takeWhile (\<lambda>c. \<not> is_nl c) s"
proof (induction s arbitrary: data i)
  case Nil
  then show ?case using holds_Nil [OF Nil]
    by (intro exI [of _ data]) (auto simp: scan_line.simps Let_def rest_lines_def cstr_def holds_def)
next
  case (Cons c s)
  note c = holds_nth [OF Cons.prems] and s = holds_Cons [OF Cons.prems]
  have nz: "c \<noteq> NUL" using Cons.prems by (auto simp: holds_def)
  show ?case
  proof (cases "is_nl c")
    case True
    let ?d = "data[i := NUL]"
    have "holds ?d (Suc i) s" using s by (simp add: holds_upd)
    from scan_ends [OF this] obtain d where d: "length d = length ?d" "\<forall>k<Suc i. d ! k = ?d ! k"
      "holds d (Suc i + length (takeWhile is_nl s)) (dropWhile is_nl s)"
      "scan_line ?d (Suc i) True = Some (if dropWhile is_nl s = [] then None else Some (Suc i + length (takeWhile is_nl s)), d)"
      by blast
    have scan: "scan_line data i False = scan_line ?d (Suc i) True"
      using c nz True by (subst scan_line.simps) (simp add: Let_def)
    have rest: "rest_lines (c # s) = dropWhile is_nl s" using True by (auto simp: rest_lines_def)
    have len: "i + (length (c # s) - length (rest_lines (c # s))) = Suc i + length (takeWhile is_nl s)"
      unfolding rest takeWhile_length_diff using length_rest_le(1) [of is_nl s] by simp
    have "d ! i = NUL" "i < length d" using d(1,2) c by simp_all
    then have "drop i d = NUL # drop (Suc i) d" by (simp flip: Cons_nth_drop_Suc)
    then have "cstr d i = []" by (simp add: cstr_def)
    show ?thesis
    proof (intro exI [of _ d] conjI)
      show "scan_line data i False = Some (if rest_lines (c # s) = [] then None
          else Some (i + (length (c # s) - length (rest_lines (c # s)))), d)"
        unfolding scan len unfolding rest by (rule d(4))
      show "holds d (i + (length (c # s) - length (rest_lines (c # s)))) (rest_lines (c # s))"
        unfolding len unfolding rest by (rule d(3))
      show "cstr d i = takeWhile (\<lambda>c. \<not> is_nl c) (c # s)" using True \<open>cstr d i = []\<close> by auto
    qed (use d in auto)
  next
    case False
    from Cons.IH [OF s] obtain d where d: "length d = length data" "\<forall>k<Suc i. d ! k = data ! k"
      "scan_line data (Suc i) False = Some (if rest_lines s = [] then None else Some (Suc i + (length s - length (rest_lines s))), d)"
      "holds d (Suc i + (length s - length (rest_lines s))) (rest_lines s)" "cstr d (Suc i) = takeWhile (\<lambda>c. \<not> is_nl c) s"
      by blast
    have scan: "scan_line data i False = scan_line data (Suc i) False"
      using c nz False by (subst scan_line.simps) (simp add: Let_def)
    have rest: "rest_lines (c # s) = rest_lines s" using False by (auto simp: rest_lines_def)
    have len: "i + (length (c # s) - length (rest_lines (c # s))) = Suc i + (length s - length (rest_lines s))"
      unfolding rest using length_rest_le(2) [of s] by simp
    have "d ! i = c" "i < length d" using d(1,2) c by simp_all
    then have "drop i d = c # drop (Suc i) d" by (simp flip: Cons_nth_drop_Suc)
    then have "cstr d i = c # cstr d (Suc i)" using nz by (simp add: cstr_def)
    show ?thesis
    proof (intro exI [of _ d] conjI)
      show "scan_line data i False = Some (if rest_lines (c # s) = [] then None
          else Some (i + (length (c # s) - length (rest_lines (c # s)))), d)"
        unfolding scan len unfolding rest by (rule d(3))
      show "holds d (i + (length (c # s) - length (rest_lines (c # s)))) (rest_lines (c # s))"
        unfolding len unfolding rest by (rule d(4))
      show "cstr d i = takeWhile (\<lambda>c. \<not> is_nl c) (c # s)"
        using False \<open>cstr d i = c # cstr d (Suc i)\<close> d(5) by auto
    qed (use d in auto)
  qed
qed

text \<open>The buffer of a playlist holds the text \<open>s\<close> that is still to be cut into lines.\<close>

definition pending :: "playlist \<Rightarrow> string \<Rightarrow> bool" where
  "pending p s \<longleftrightarrow> (if s = [] then py_remain p = 0 else 0 < py_remain p \<and> holds (py_data p) (py_index p) s)"

lemma get_line_pending:
  assumes "pending p s" "s \<noteq> []"
  shows "\<exists>data i r. get_line_in_buffer p = Some (Some (takeWhile (\<lambda>c. \<not> is_nl c) s), p\<lparr>py_data := data, py_index := i, py_remain := r\<rparr>) \<and>
    pending (p\<lparr>py_data := data, py_index := i, py_remain := r\<rparr>) (rest_lines s) \<and> length data = length (py_data p)"
proof -
  have p: "0 < py_remain p" "holds (py_data p) (py_index p) s" using assms by (simp_all add: pending_def)
  from scan_text [OF p(2)] obtain d where d: "length d = length (py_data p)"
      "scan_line (py_data p) (py_index p) False =
         Some (if rest_lines s = [] then None else Some (py_index p + (length s - length (rest_lines s))), d)"
      "holds d (py_index p + (length s - length (rest_lines s))) (rest_lines s)"
      "cstr d (py_index p) = takeWhile (\<lambda>c. \<not> is_nl c) s" by blast
  show ?thesis
  proof (cases "rest_lines s = []")
    case True
    then show ?thesis using p d
      by (intro exI [of _ d] exI [of _ "py_index p"] exI [of _ 0]) (simp add: get_line_in_buffer_def pending_def)
  next
    case False
    let ?k = "length s - length (rest_lines s)"
    have "0 < ?k" using rest_lines_shorter [OF assms(2)] by simp
    then show ?thesis using p d False
      by (intro exI [of _ d] exI [of _ "py_index p + ?k"] exI [of _ "int ?k"]) (simp add: get_line_in_buffer_def pending_def)
  qed
qed

section \<open>Parsing\<close>

text \<open>The reference parser: the lines of the whole body in order.\<close>

fun parse_lines ::
  "'w platform \<Rightarrow> string \<Rightarrow> bool \<Rightarrow> bool \<Rightarrow> string list \<Rightarrow> playlist \<Rightarrow> 'w \<Rightarrow> (bool \<times> playlist) \<times> 'w" where
  "parse_lines R uri valid is_uri [] p w = ((valid, p), w)"
| "parse_lines R uri valid is_uri (l # ls) p w =
     (case playlist_line valid is_uri l of
        None \<Rightarrow> ((valid, p), w)
      | Some (valid, is_uri, ins) \<Rightarrow>
          (let (p, w) = (if ins then insert_to_playlist R p l uri w else (p, w)) in
           parse_lines R uri valid is_uri ls p w))"

text \<open>An insertion depends on the tracks and their counter alone, and changes nothing else.\<close>

lemma insert_tracks:
  "\<exists>ts n w'. \<forall>p. py_tracks p = T \<longrightarrow> py_total_tracks p = N \<longrightarrow>
    insert_to_playlist R p l uri w = (p\<lparr>py_tracks := ts, py_total_tracks := n\<rparr>, w')"
proof -
  obtain ts0 n0 where d: "drop_tracks T N = (ts0, n0)" by fastforce
  obtain x1 w1 where 1: "heap_alloc R 12 w = (x1, w1)" by fastforce
  obtain x2 w2 where 2: "dup_base R l uri w1 = (x2, w2)" by fastforce
  show ?thesis
  proof (cases "x1 = None \<or> x2 = None \<or> track_address l uri = None")
    case True
    then show ?thesis
      by (intro exI [of _ ts0] exI [of _ n0] exI [of _ "if x1 = None then w1 else w2"])
        (auto simp: insert_to_playlist_def d 1 2 Let_def split: option.splits)
  next
    case False
    then obtain y1 y2 a where y: "x1 = Some y1" "x2 = Some y2" "track_address l uri = Some a" by auto
    obtain x3 w3 where 3: "heap_alloc R (length a + 1) w2 = (x3, w3)" by fastforce
    let ?new = "x3 \<noteq> None \<and> a \<notin> set (map tr_uri ts0)"
    show ?thesis
      by (intro exI [of _ "if ?new then ts0 @ [\<lparr>tr_uri = a, tr_is_played = False\<rparr>] else ts0"]
            exI [of _ "if ?new then n0 + 1 else n0"] exI [of _ w3])
        (use 3 in \<open>auto simp: insert_to_playlist_def d 1 2 y Let_def split: option.splits\<close>)
  qed
qed

definition same_tracks :: "playlist \<Rightarrow> playlist \<Rightarrow> bool" where
  "same_tracks p q \<longleftrightarrow> py_tracks p = py_tracks q \<and> py_total_tracks p = py_total_tracks q"

lemma insert_same:
  assumes "same_tracks p q"
  obtains ts n w' where "insert_to_playlist R p l uri w = (p\<lparr>py_tracks := ts, py_total_tracks := n\<rparr>, w')"
    "insert_to_playlist R q l uri w = (q\<lparr>py_tracks := ts, py_total_tracks := n\<rparr>, w')"
proof -
  obtain ts n w' where r: "\<forall>p'. py_tracks p' = py_tracks p \<longrightarrow> py_total_tracks p' = py_total_tracks p \<longrightarrow>
      insert_to_playlist R p' l uri w = (p'\<lparr>py_tracks := ts, py_total_tracks := n\<rparr>, w')"
    using insert_tracks [of "py_tracks p" "py_total_tracks p" R l uri w] by fast
  from r [rule_format, of p] r [rule_format, of q] assms show ?thesis by (intro that) (simp_all add: same_tracks_def)
qed

lemma pending_tracks: "pending (p\<lparr>py_tracks := ts, py_total_tracks := n\<rparr>) s = pending p s"
  by (simp add: pending_def)

lemma lines_of_Cons: "s \<noteq> [] \<Longrightarrow> lines_of s = takeWhile (\<lambda>c. \<not> is_nl c) s # lines_of (rest_lines s)"
  by (subst lines_of.simps) simp

lemma lines_of_Nil [simp]: "lines_of [] = []"
  by (subst lines_of.simps) simp

text \<open>Once all of the body was read, the loop is the reference parser on the pending lines.\<close>

lemma resolve_pending:
  "\<lbrakk> pending p s; py_content_length p \<le> py_total_read p; same_tracks p q \<rbrakk> \<Longrightarrow>
   \<exists>v p' q' w'. resolve_loop R rd uri valid is_uri p w = Some ((v, p'), w') \<and>
     parse_lines R uri valid is_uri (lines_of s) q w = ((v, q'), w') \<and> same_tracks p' q'"
proof (induction "length s" arbitrary: s p q valid is_uri w rule: less_induct)
  case less
  show ?case
  proof (cases "s = []")
    case True
    with less.prems have "client_read_line rd p w = Some ((None, p), w)"
      by (simp add: client_read_line_def get_line_in_buffer_def pending_def)
    then show ?thesis using True less.prems by (subst resolve_loop.simps) simp
  next
    case False
    define l where "l = takeWhile (\<lambda>c. \<not> is_nl c) s"
    have ls: "lines_of s = l # lines_of (rest_lines s)" by (simp only: lines_of_Cons [OF False] l_def)
    obtain d i r where g: "get_line_in_buffer p = Some (Some l, p\<lparr>py_data := d, py_index := i, py_remain := r\<rparr>)"
        "pending (p\<lparr>py_data := d, py_index := i, py_remain := r\<rparr>) (rest_lines s)"
      using get_line_pending [OF less.prems(1) False, folded l_def] by blast
    let ?p = "p\<lparr>py_data := d, py_index := i, py_remain := r\<rparr>"
    have rd: "client_read_line rd p w = Some ((Some l, ?p), w)"
      by (simp add: client_read_line_def g)
    have st: "same_tracks ?p q" using less.prems(3) by (simp add: same_tracks_def)
    show ?thesis
    proof (cases "playlist_line valid is_uri l")
      case None
      then show ?thesis using st by (subst resolve_loop.simps) (simp add: rd ls)
    next
      case (Some fl)
      obtain va iu ins where fl: "fl = (va, iu, ins)" by (cases fl) auto
      obtain ts n w1 where ins: "insert_to_playlist R ?p l uri w = (?p\<lparr>py_tracks := ts, py_total_tracks := n\<rparr>, w1)"
          "insert_to_playlist R q l uri w = (q\<lparr>py_tracks := ts, py_total_tracks := n\<rparr>, w1)"
        by (rule insert_same [OF st])
      note ih = less.hyps [OF rest_lines_shorter [OF False]]
      show ?thesis
      proof (cases ins)
        case True
        have "same_tracks (?p\<lparr>py_tracks := ts, py_total_tracks := n\<rparr>) (q\<lparr>py_tracks := ts, py_total_tracks := n\<rparr>)"
          by (simp add: same_tracks_def)
        from ih [OF _ _ this, of va iu w1] g(2) less.prems(2) show ?thesis
          by (subst resolve_loop.simps) (simp add: rd ls Some fl True ins pending_tracks)
      next
        case no: False
        from ih [OF g(2) _ st, of va iu w] less.prems(2) show ?thesis
          by (subst resolve_loop.simps) (simp add: rd ls Some fl no)
      qed
    qed
  qed
qed

lemma client_read_buffered:
  "get_line_in_buffer p = Some (Some l, p') \<Longrightarrow> client_read_line rd p w = Some ((Some l, p'), w)"
  by (simp add: client_read_line_def)

text \<open>Filling the empty buffer with a chunk; the position stays where the last line of the previous chunk began.\<close>

lemma read_chunk:
  assumes buf: "length (py_data p) = 129" "py_remain p = 0" "py_total_read p < py_content_length p"
    and body: "NUL \<notin> set body" "body \<noteq> []" "length body \<le> 128" "py_index p < length body"
    and rd: "rd 128 w = ((int (length body), body), w1)"
  shows "\<exists>data. length data = 129 \<and>
    pending (p\<lparr>py_data := data, py_remain := int (length body), py_total_read := py_total_read p + int (length body)\<rparr>)
      (drop (py_index p) body) \<and>
    client_read_line rd p w = map_option (\<lambda>r. (r, w1)) (get_line_in_buffer
      (p\<lparr>py_data := data, py_remain := int (length body), py_total_read := py_total_read p + int (length body)\<rparr>))"
proof -
  let ?rest = "drop (length body) (py_data p)"
  let ?data = "body @ NUL # tl ?rest"
  have len: "length body < length (py_data p)" using buf body by simp
  have w1': "mem_write (py_data p) 0 body = Some (body @ ?rest)" using len by simp
  have w2': "mem_write (body @ ?rest) (length body) [NUL] = Some ?data" using len by (simp add: drop_Suc tl_drop)
  have "drop (py_index p) ?data = drop (py_index p) body @ NUL # tl ?rest" using body(4) by simp
  moreover have "NUL \<notin> set (drop (py_index p) body)" using body(1) by (meson in_set_dropD)
  ultimately have h: "holds ?data (py_index p) (drop (py_index p) body)" by (auto simp: holds_def)
  show ?thesis
  proof (intro exI [of _ ?data] conjI)
    show "length ?data = 129" using len buf by simp
    show "pending (p\<lparr>py_data := ?data, py_remain := int (length body), py_total_read := py_total_read p + int (length body)\<rparr>)
        (drop (py_index p) body)"
      using h body by (simp add: pending_def)
    show "client_read_line rd p w = map_option (\<lambda>r. (r, w1)) (get_line_in_buffer
        (p\<lparr>py_data := ?data, py_remain := int (length body), py_total_read := py_total_read p + int (length body)\<rparr>))"
      using buf body rd w1' w2'
      by (simp add: client_read_line_def get_line_in_buffer_def [of p] map_conv_bind_option comp_def Let_def case_prod_beta')
  qed
qed

text \<open>Resolving a playlist whose body of up to 128 bytes arrives at once inserts exactly the tracks the reference
  parser finds in the lines of the body, in order, and succeeds exactly when it accepts the body.\<close>

theorem playlist_one_chunk:
  assumes py: "is_playlist codec uri" "length (py_data p) = 129"
    and body: "NUL \<notin> set body" "body \<noteq> []" "length body \<le> 128"
    and rd: "rd 128 w = ((int (length body), body), w1)"
  shows "\<exists>valid p' q w'. resolve_playlist R rd codec (int (length body)) False uri (Some p) w =
       Some ((if valid then ESP_OK else ESP_FAIL, Some p'), w') \<and>
     parse_lines R uri False False (lines_of body) p w1 = ((valid, q), w') \<and>
     py_tracks p' = py_tracks q \<and> py_total_tracks p' = py_total_tracks q"
proof -
  let ?p0 = "p\<lparr>py_content_length := int (length body), py_remain := 0, py_index := 0, py_total_read := 0\<rparr>"
  have "\<exists>data. length data = 129 \<and>
      pending (?p0\<lparr>py_data := data, py_remain := int (length body), py_total_read := 0 + int (length body)\<rparr>) (drop 0 body) \<and>
      client_read_line rd ?p0 w = map_option (\<lambda>r. (r, w1)) (get_line_in_buffer
        (?p0\<lparr>py_data := data, py_remain := int (length body), py_total_read := 0 + int (length body)\<rparr>))"
    using read_chunk [of ?p0 body rd w w1] py body rd by simp
  then obtain data where d: "pending (?p0\<lparr>py_data := data, py_remain := int (length body), py_total_read := int (length body)\<rparr>) body"
      "client_read_line rd ?p0 w = map_option (\<lambda>r. (r, w1)) (get_line_in_buffer
        (?p0\<lparr>py_data := data, py_remain := int (length body), py_total_read := int (length body)\<rparr>))"
    by auto
  let ?p1 = "?p0\<lparr>py_data := data, py_remain := int (length body), py_total_read := int (length body)\<rparr>"
  obtain dt i r where g: "get_line_in_buffer ?p1 = Some (Some (takeWhile (\<lambda>c. \<not> is_nl c) body),
      ?p1\<lparr>py_data := dt, py_index := i, py_remain := r\<rparr>)"
    using get_line_pending [OF d(1) body(2)] by blast
  have "client_read_line rd ?p0 w = client_read_line rd ?p1 w1"
    unfolding client_read_buffered [OF g] d(2) g by (simp only: option.map)
  then have loop: "resolve_loop R rd uri False False ?p0 w = resolve_loop R rd uri False False ?p1 w1"
    by (subst (1 2) resolve_loop.simps) simp
  have "same_tracks ?p1 p" by (simp add: same_tracks_def)
  from resolve_pending [OF d(1) _ this, of R rd uri False False w1]
  obtain v p' q w' where "resolve_loop R rd uri False False ?p1 w1 = Some ((v, p'), w')"
      "parse_lines R uri False False (lines_of body) p w1 = ((v, q), w')" "same_tracks p' q" by auto
  then show ?thesis using py(1) loop by (auto simp: resolve_playlist_def same_tracks_def)
qed

text \<open>When the body goes on after a first chunk, the position in the buffer is not reset: the next chunk is stored at
  the start of the buffer, but its first line is looked for where the last line of the previous chunk began, so the
  bytes before it are skipped.\<close>

theorem playlist_second_chunk_skips:
  assumes "length (py_data p) = 129" "py_remain p = 0" "py_total_read p < py_content_length p"
    and "NUL \<notin> set body" "length body \<le> 128" "py_index p < length body"
    and "rd 128 w = ((int (length body), body), w1)"
  shows "\<exists>p'. client_read_line rd p w = Some ((Some (takeWhile (\<lambda>c. \<not> is_nl c) (drop (py_index p) body)), p'), w1)"
proof -
  have "body \<noteq> []" using assms(6) by auto
  from read_chunk [where p = p and body = body and rd = rd and w = w and ?w1.0 = w1, OF assms(1-4) this assms(5-7)] obtain data where d:
      "pending (p\<lparr>py_data := data, py_remain := int (length body), py_total_read := py_total_read p + int (length body)\<rparr>)
        (drop (py_index p) body)"
      "client_read_line rd p w = map_option (\<lambda>r. (r, w1)) (get_line_in_buffer
        (p\<lparr>py_data := data, py_remain := int (length body), py_total_read := py_total_read p + int (length body)\<rparr>))"
    by blast
  have "drop (py_index p) body \<noteq> []" using assms(6) by simp
  from get_line_pending [OF d(1) this] show ?thesis unfolding d(2) by (auto simp del: not_less)
qed

section \<open>The list of tracks\<close>

definition tracks_ok :: "playlist \<Rightarrow> bool" where
  "tracks_ok p \<longleftrightarrow> distinct (map tr_uri (py_tracks p)) \<and> py_total_tracks p = int (length (py_tracks p)) \<and>
     length (py_tracks p) \<le> 21"

lemma drop_tracks_eq: "drop_tracks ts (int (length ts)) = (drop (length ts - 20) ts, int (min (length ts) 20))"
proof (induction ts)
  case (Cons t ts)
  show ?case
  proof (cases "length ts < 20")
    case True
    then show ?thesis by simp
  next
    case False
    then have "length (t # ts) - 20 = Suc (length ts - 20)" by simp
    with False Cons show ?thesis by simp
  qed
qed simp

text \<open>Inserting with enough memory keeps the list free of duplicates, bounded by 21 tracks and counted correctly; the
  track is at its end unless it was there, and only the oldest tracks beyond twenty make room for it.\<close>

theorem insert_track_appends:
  assumes ok: "tracks_ok p" and al: "allocates R" and a: "track_address l uri = Some a"
  shows "\<exists>p' w'. insert_to_playlist R p l uri w = (p', w') \<and> tracks_ok p' \<and>
    py_tracks p' = (let ts = drop (length (py_tracks p) - 20) (py_tracks p) in
      if a \<in> set (map tr_uri ts) then ts else ts @ [\<lparr>tr_uri = a, tr_is_played = False\<rparr>])"
proof -
  let ?ts = "drop (length (py_tracks p) - 20) (py_tracks p)"
  have d: "drop_tracks (py_tracks p) (py_total_tracks p) = (?ts, int (min (length (py_tracks p)) 20))"
    using ok by (simp only: tracks_ok_def drop_tracks_eq)
  have dist: "distinct (map tr_uri ?ts)" using ok by (simp add: tracks_ok_def drop_map [symmetric] distinct_drop)
  have len: "length ?ts = min (length (py_tracks p)) 20" by simp
  obtain x1 w1 where 1: "heap_alloc R 12 w = (Some x1, w1)" using allocatesD [OF al] by blast
  obtain x2 w2 where 2: "dup_base R l uri w1 = (Some x2, w2)"
    using allocatesD [OF al, of "length uri + 1" w1] by (cases "strstr l ''http'' = Some 0 \<or> strstr l ''//'' = Some 0") (auto simp: dup_base_def)
  obtain x3 w3 where 3: "heap_alloc R (length a + 1) w2 = (Some x3, w3)" using allocatesD [OF al] by blast
  show ?thesis
  proof (cases "a \<in> set (map tr_uri ?ts)")
    case True
    with dist len show ?thesis
      by (simp add: insert_to_playlist_def d 1 2 a 3 [simplified] tracks_ok_def Let_def)
  next
    case False
    with dist len show ?thesis
      by (simp add: insert_to_playlist_def d 1 2 a 3 [simplified] tracks_ok_def Let_def)
  qed
qed

lemma insert_new:
  assumes al: "allocates R" and a: "track_address l uri = Some a"
    and d: "drop_tracks (py_tracks p) (py_total_tracks p) = ([], n)"
  shows "\<exists>w'. insert_to_playlist R p l uri w =
    (p\<lparr>py_tracks := [\<lparr>tr_uri = a, tr_is_played = False\<rparr>], py_total_tracks := n + 1\<rparr>, w')"
proof -
  obtain x1 w1 where 1: "heap_alloc R 12 w = (Some x1, w1)" using allocatesD [OF al] by blast
  obtain x2 w2 where 2: "dup_base R l uri w1 = (Some x2, w2)"
    using allocatesD [OF al, of "length uri + 1" w1] by (cases "strstr l ''http'' = Some 0 \<or> strstr l ''//'' = Some 0") (auto simp: dup_base_def)
  obtain x3 w3 where 3: "heap_alloc R (length a + 1) w2 = (Some x3, w3)" using allocatesD [OF al] by blast
  show ?thesis by (simp add: insert_to_playlist_def d 1 2 a 3 [simplified])
qed

text \<open>Clearing the list does not reset its counter: once more than twenty tracks were counted, a cleared playlist keeps
  a single track, because every insertion drops the one before.\<close>

theorem cleared_playlist_keeps_one:
  assumes al: "allocates R" and full: "20 < py_total_tracks p"
    and a: "track_address l1 uri = Some a1" "track_address l2 uri = Some a2"
  shows "\<exists>p' w'. (let (p1, w1) = insert_to_playlist R (playlist_clear p) l1 uri w in insert_to_playlist R p1 l2 uri w1) = (p', w') \<and>
    map tr_uri (py_tracks p') = [a2]"
proof -
  obtain w1 where 1: "insert_to_playlist R (playlist_clear p) l1 uri w =
      ((playlist_clear p)\<lparr>py_tracks := [\<lparr>tr_uri = a1, tr_is_played = False\<rparr>], py_total_tracks := py_total_tracks p + 1\<rparr>, w1)"
    using insert_new [OF al a(1), of "playlist_clear p" "py_total_tracks p" w] by (auto simp: playlist_clear_def)
  let ?p1 = "(playlist_clear p)\<lparr>py_tracks := [\<lparr>tr_uri = a1, tr_is_played = False\<rparr>], py_total_tracks := py_total_tracks p + 1\<rparr>"
  have "drop_tracks (py_tracks ?p1) (py_total_tracks ?p1) = ([], py_total_tracks p)" using full by simp
  from insert_new [OF al a(2) this, of w1] show ?thesis by (auto simp: 1)
qed

section \<open>Addresses\<close>

lemma strstr_prefix: "strstr s t = Some 0 \<longleftrightarrow> take (length t) s = t"
  by (cases s) auto

lemma strstr_slashes: "CHR ''/'' \<notin> set s \<Longrightarrow> strstr (s @ ''//'' @ r) ''//'' = Some (length s)"
  by (induction s) (auto simp: strstr_prefix)

lemma strstr_slash: "CHR ''/'' \<notin> set s \<Longrightarrow> strstr (s @ CHR ''/'' # r) ''/'' = Some (length s)"
  by (induction s) auto

lemma strrchr_none: "x \<notin> set s \<Longrightarrow> strrchr s x = None"
  by (induction s) auto

lemma strrchr_last: "x \<notin> set f \<Longrightarrow> strrchr (s @ x # f) x = Some (length s)"
  by (induction s) (auto simp: strrchr_none)

text \<open>For a playlist at \<open>scheme//host/dir/file\<close>, a track line that is a relative path is taken relative to the directory, and
  one that starts with a single slash relative to the host.\<close>

theorem track_address_reference:
  assumes no_slash: "CHR ''/'' \<notin> set scheme" "CHR ''/'' \<notin> set host" "CHR ''/'' \<notin> set file"
    and uri: "uri = scheme @ ''//'' @ host @ ''/'' @ dir @ file" and dir: "dir = [] \<or> last dir = CHR ''/''"
    and rel: "take 4 rel \<noteq> ''http''" "take 1 rel \<noteq> ''/''"
  shows "track_address rel uri = Some (scheme @ ''//'' @ host @ ''/'' @ dir @ rel) \<and>
    track_address (''/'' @ rel) uri = Some (scheme @ ''//'' @ host @ ''/'' @ rel)"
proof
  have "\<exists>s. uri = s @ CHR ''/'' # file \<and> s @ ''/'' = scheme @ ''//'' @ host @ ''/'' @ dir"
  proof (cases "dir = []")
    case True
    then show ?thesis using uri by (intro exI [of _ "scheme @ ''//'' @ host"]) simp
  next
    case False
    then obtain b where "dir = b @ ''/''" using dir by (metis append_butlast_last_id)
    then show ?thesis using uri by (intro exI [of _ "scheme @ ''//'' @ host @ ''/'' @ b"]) simp
  qed
  then obtain s where s: "uri = s @ CHR ''/'' # file" "s @ ''/'' = scheme @ ''//'' @ host @ ''/'' @ dir" by blast
  have two: "take 2 rel \<noteq> ''//''" using rel(2) by (cases rel) auto
  have "strrchr uri (CHR ''/'') = Some (length s)" by (simp add: s(1) strrchr_last no_slash)
  moreover have "take (Suc (length s)) uri = s @ ''/''" by (simp add: s(1))
  ultimately show "track_address rel uri = Some (scheme @ ''//'' @ host @ ''/'' @ dir @ rel)"
    using rel two s(2) by (simp add: track_address_def strstr_prefix numeral_eq_Suc)
  have 1: "strstr uri ''//'' = Some (length scheme)" using strstr_slashes [OF no_slash(1)] by (simp add: uri)
  have "drop (length scheme + 2) uri = host @ CHR ''/'' # dir @ file" by (simp add: uri)
  then have 2: "strstr (drop (length scheme + 2) uri) ''/'' = Some (length host)" using strstr_slash [OF no_slash(2)] by simp
  have 3: "take (length scheme + 2 + length host) uri = scheme @ ''//'' @ host" by (simp add: uri)
  have "take 2 (''/'' @ rel) \<noteq> ''//''" using rel(2) by (cases rel) auto
  then show "track_address (''/'' @ rel) uri = Some (scheme @ ''//'' @ host @ ''/'' @ rel)"
    using 1 2 3 by (simp add: track_address_def strstr_prefix numeral_eq_Suc)
qed

section \<open>Concrete playlists\<close>

definition ex_body :: string where
  "ex_body = ''#EXTM3U'' @ [CR, LF] @ ''#EXTINF:9'' @ [LF] @ ''a.mp3'' @ [LF] @ ''#x'' @ [LF] @ ''http://b/c.mp3''"

definition ex_playlist :: "track list \<Rightarrow> int \<Rightarrow> playlist" where
  "ex_playlist ts n = \<lparr>py_data = replicate 129 NUL, py_index = 0, py_remain = 0, py_total_read = 0, py_tracks = ts,
     py_total_tracks = n, py_content_length = 0\<rparr>"

definition ex_read :: "unit client_read" where
  "ex_read n w = ((int (length ex_body), ex_body), ())"

lemma ex_allocates: "allocates (seq_platform (Some 1) :: unit platform)"
  by (simp add: allocates_def)

lemma ex_body_facts: "NUL \<notin> set ex_body" "ex_body \<noteq> []" "length ex_body \<le> 128" "length ex_body = 42"
  by code_simp+

theorem playlist_one_chunk_witness:
  "\<exists>p' w'. resolve_playlist (seq_platform (Some 1)) ex_read AUDIO_PLAYLIST (int (length ex_body)) False ''http://h/d/l.m3u''
       (Some (ex_playlist [] 0)) () = Some ((ESP_OK, Some p'), w') \<and>
     map tr_uri (py_tracks p') = [''http://h/d/a.mp3'', ''http://b/c.mp3'']"
proof -
  have 1: "is_playlist AUDIO_PLAYLIST ''http://h/d/l.m3u''" by (simp add: is_playlist_def)
  have 2: "length (py_data (ex_playlist [] 0)) = 129" by (simp add: ex_playlist_def)
  have 3: "ex_read 128 () = ((int (length ex_body), ex_body), ())" by (simp add: ex_read_def)
  have 4: "fst (fst (parse_lines (seq_platform (Some 1)) ''http://h/d/l.m3u'' False False (lines_of ex_body) (ex_playlist [] 0) ())) = True"
    by code_simp
  have 5: "map tr_uri (py_tracks (snd (fst (parse_lines (seq_platform (Some 1)) ''http://h/d/l.m3u'' False False (lines_of ex_body)
      (ex_playlist [] 0) ())))) = [''http://h/d/a.mp3'', ''http://b/c.mp3'']"
    by code_simp
  from playlist_one_chunk [where R = "seq_platform (Some 1)" and rd = ex_read and body = ex_body and w = "()" and ?w1.0 = "()", OF 1 2 ex_body_facts(1-3) 3] 4 5 show ?thesis by auto
qed

theorem playlist_second_chunk_skips_witness:
  "\<exists>p'. client_read_line ex_read ((ex_playlist [] 0)\<lparr>py_index := 35, py_total_read := 42, py_content_length := 84\<rparr>) () =
     Some ((Some ''b/c.mp3'', p'), ())"
proof -
  let ?p = "(ex_playlist [] 0)\<lparr>py_index := 35, py_total_read := 42, py_content_length := 84\<rparr>"
  have 1: "length (py_data ?p) = 129" "py_remain ?p = 0" "py_total_read ?p < py_content_length ?p" "py_index ?p < length ex_body"
    by (simp_all add: ex_playlist_def ex_body_facts)
  have 2: "ex_read 128 () = ((int (length ex_body), ex_body), ())" by (simp add: ex_read_def)
  have 3: "takeWhile (\<lambda>c. \<not> is_nl c) (drop 35 ex_body) = ''b/c.mp3''" by code_simp
  from playlist_second_chunk_skips [where rd = ex_read and body = ex_body and w = "()" and ?w1.0 = "()", OF 1(1-3) ex_body_facts(1,3) 1(4) 2] 3 show ?thesis
    by (simp add: ex_playlist_def)
qed

theorem insert_track_appends_witness:
  "\<exists>p' w'. insert_to_playlist (seq_platform (Some 1)) (ex_playlist [] 0) ''a.mp3'' ''http://h/l.m3u'' () = (p', w') \<and>
     tracks_ok p' \<and> map tr_uri (py_tracks p') = [''http://h/a.mp3'']"
proof -
  have 1: "tracks_ok (ex_playlist [] 0)" by (simp add: tracks_ok_def ex_playlist_def)
  have 2: "track_address ''a.mp3'' ''http://h/l.m3u'' = Some ''http://h/a.mp3''" by code_simp
  from insert_track_appends [OF 1 ex_allocates 2, of "()"] show ?thesis by (auto simp: ex_playlist_def)
qed

theorem cleared_playlist_keeps_one_witness:
  "\<exists>p' w'. (let (p1, w1) = insert_to_playlist (seq_platform (Some 1)) (playlist_clear (ex_playlist [] 21)) ''a.mp3'' ''http://h/l.m3u'' ()
       in insert_to_playlist (seq_platform (Some 1)) p1 ''b.mp3'' ''http://h/l.m3u'' w1) = (p', w') \<and>
     map tr_uri (py_tracks p') = [''http://h/b.mp3'']"
proof -
  have 1: "track_address ''a.mp3'' ''http://h/l.m3u'' = Some ''http://h/a.mp3''"
    "track_address ''b.mp3'' ''http://h/l.m3u'' = Some ''http://h/b.mp3''" by code_simp+
  show ?thesis by (rule cleared_playlist_keeps_one [OF ex_allocates _ 1]) (simp add: ex_playlist_def)
qed

theorem track_address_reference_witness:
  "track_address ''a.mp3'' ''http://h/d/l.m3u'' = Some ''http://h/d/a.mp3'' \<and>
   track_address ''/a.mp3'' ''http://h/d/l.m3u'' = Some ''http://h/a.mp3''"
  using track_address_reference [of "''http:''" "''h''" "''l.m3u''" "''http://h/d/l.m3u''" "''d/''" "''a.mp3''"] by simp

end
