(* ===== verification/Stream_Base.thy ===== *)
theory Stream_Base
  imports Audio_Element
begin

text \<open>
  What the audio streams (\<open>components/audio_stream/\<close>) share. A stream is an audio element whose callbacks read from
  or write to a file or a connection; it records in the element's info how far it got (\<open>byte_pos\<close>), so that an element
  that was paused, which closes it, goes on at that place when it is resumed, which opens it again. The locale
  \<open>resumable_stream\<close> is that contract.
\<close>

section \<open>The element's info\<close>

datatype audio_stream_type = AUDIO_STREAM_NONE | AUDIO_STREAM_READER | AUDIO_STREAM_WRITER

text \<open>\<open>audio_element_getinfo(self, &info)\<close> and \<open>audio_element_setinfo(self, &info)\<close>.\<close>

definition el_getinfo :: "'z elw platform \<Rightarrow> el_handle \<Rightarrow> 'z elw \<Rightarrow> (audio_element_info \<times> 'z elw) option" where
  "el_getinfo R self w = do {
     ((_, info), w) \<leftarrow> audio_element_getinfo R (Some self) True w;
     info \<leftarrow> info;
     Some (info, w)
   }"

definition el_setinfo ::
  "'z elw platform \<Rightarrow> el_handle \<Rightarrow> audio_element_info \<Rightarrow> 'z elw \<Rightarrow> (esp_err \<times> 'z elw) option" where
  "el_setinfo R self info w = audio_element_setinfo R (Some self) (Some info) w"

text \<open>\<open>info.byte_pos = 0\<close> when the element is not paused: the end of every close function.\<close>

definition rewind_unless_paused :: "'z elw platform \<Rightarrow> el_handle \<Rightarrow> 'z elw \<Rightarrow> 'z elw option" where
  "rewind_unless_paused R self w = do {
     s \<leftarrow> audio_element_get_state self w;
     if s \<noteq> AEL_STATE_PAUSED then do {
       (info, w) \<leftarrow> el_getinfo R self w;
       (_, w) \<leftarrow> el_setinfo R self (info\<lparr>info_byte_pos := 0\<rparr>) w;
       Some w
     } else Some w
   }"

text \<open>\<open>info.byte_pos += n\<close>.\<close>

definition advance :: "int \<Rightarrow> audio_element_info \<Rightarrow> audio_element_info" where
  "advance n info = info\<lparr>info_byte_pos := info_byte_pos info + word_of_int n\<rparr>"

text \<open>The string \<open>audio_element_get_uri\<close> points to; the outer option is a dangling pointer.\<close>

definition el_uri :: "el_handle \<Rightarrow> 'z elw \<Rightarrow> string option option" where
  "el_uri self w = do {
     p \<leftarrow> audio_element_get_uri self w;
     case p of None \<Rightarrow> Some None | Some a \<Rightarrow> map_option Some (strs w a)
   }"

text \<open>A \<open>uint64_t\<close> converted to \<open>int\<close>.\<close>

definition int_of_u64 :: "u64 \<Rightarrow> int" where
  "int_of_u64 x = sint (ucast x :: u32)"

lemma int_of_u64_of_nat: "n < 2 ^ 31 \<Longrightarrow> int_of_u64 (of_nat n) = int n"
proof -
  assume "n < 2 ^ 31"
  moreover have "(ucast (of_nat n :: u64) :: u32) = of_nat n" by (rule bit_word_eqI) (auto simp: bit_simps)
  ultimately show ?thesis by (simp add: int_of_u64_def sint_small unat_of_nat take_bit_nat_eq_self unsigned_of_nat)
qed

lemma int_of_u64_unat: "unat x < 2 ^ 31 \<Longrightarrow> int_of_u64 x = int (unat x)"
  using int_of_u64_of_nat [of "unat x"] by simp

lemma unat_advance:
  assumes "unat (info_byte_pos info) + k < 2 ^ 63"
  shows "unat (info_byte_pos (advance (int k) info)) = unat (info_byte_pos info) + k"
proof -
  have "unat (word_of_nat k :: u64) = k" using assms by (simp add: unat_of_nat take_bit_nat_eq_self unsigned_of_nat)
  then show ?thesis using assms by (simp add: advance_def unat_word_ariths)
qed

lemma advance_frame [simp]: "info_uri (advance n info) = info_uri info" "info_byte_pos (advance n info) = info_byte_pos info + word_of_int n"
  by (simp_all add: advance_def)

section \<open>Locks that are free\<close>

text \<open>No other task holds the lock of the element, so that taking it succeeds at once.\<close>

definition free_locks :: "'z elw platform \<Rightarrow> bool" where
  "free_locks R \<longleftrightarrow> (\<forall>l w. xSemaphoreTake R l portMAX_DELAY w = (True, w) \<and> xSemaphoreGive R l w = w)"

definition el_live :: "el_handle \<Rightarrow> 'z elw \<Rightarrow> bool" where
  "el_live self w \<longleftrightarrow> (\<exists>e l. els w self = Some e \<and> el_lock e = Some l)"

lemma mutex_lock_free: "free_locks R \<Longrightarrow> mutex_lock R l w = Some w"
  by (subst mutex_lock.simps) (simp add: free_locks_def)

lemma el_getinfo_free:
  assumes "free_locks R" "els w self = Some e" "el_lock e = Some l"
  shows "el_getinfo R self w = Some (el_info e, w)"
  using assms by (simp add: el_getinfo_def audio_element_getinfo_def mutex_lock_free) (simp add: free_locks_def)

lemma el_setinfo_free:
  assumes "free_locks R" "els w self = Some e" "el_lock e = Some l"
  shows "el_setinfo R self info w = Some (ESP_OK, w\<lparr>els := (els w)(self \<mapsto> e\<lparr>el_info := info\<rparr>)\<rparr>)"
  using assms by (simp add: el_setinfo_def audio_element_setinfo_def mutex_lock_free) (simp add: free_locks_def)

lemma rewind_paused:
  "els w self = Some e \<Longrightarrow> el_state e = AEL_STATE_PAUSED \<Longrightarrow> rewind_unless_paused R self w = Some w"
  by (simp add: rewind_unless_paused_def audio_element_get_state_def)

lemma rewind_running:
  assumes "free_locks R" "els w self = Some e" "el_lock e = Some l" "el_state e \<noteq> AEL_STATE_PAUSED"
  shows "rewind_unless_paused R self w =
    Some (w\<lparr>els := (els w)(self \<mapsto> e\<lparr>el_info := (el_info e)\<lparr>info_byte_pos := 0\<rparr>\<rparr>)\<rparr>)"
  using assms by (simp add: rewind_unless_paused_def audio_element_get_state_def el_getinfo_free el_setinfo_free)

lemma free_locks_seq: "free_locks (seq_platform a)"
  by (simp add: free_locks_def)

section \<open>Processing\<close>

text \<open>The process callback of a stream: what was read goes to the output.\<close>

definition stream_process ::
  "'z elw platform \<Rightarrow> bool \<Rightarrow> el_handle \<Rightarrow> int \<Rightarrow> 'z elw \<Rightarrow> (int \<times> 'z elw) option" where
  "stream_process R multi self in_len w = do {
     ((r_size, in_buffer), w) \<leftarrow> audio_element_input R self in_len w;
     if r_size > 0 then do {
       (w_size, w) \<leftarrow> audio_element_output R self in_buffer r_size w;
       w \<leftarrow> (if multi then map_option snd (audio_element_multi_output R self in_buffer r_size 0 w) else Some w);
       Some (w_size, w)
     } else Some (r_size, w)
   }"

section \<open>Sessions\<close>

text \<open>Pausing an element sets its state before the stream is closed (\<open>audio_element_on_cmd\<close>).\<close>

definition pause_close ::
  "el_handle \<Rightarrow> ('z elw \<Rightarrow> (esp_err \<times> 'z elw) option) \<Rightarrow> 'z elw \<Rightarrow> (esp_err \<times> 'z elw) option" where
  "pause_close self cl w = do { w \<leftarrow> el_upd self (\<lambda>e. e\<lparr>el_state := AEL_STATE_PAUSED\<rparr>) w; cl w }"

text \<open>What an element does with a stream between the first open and the end: reads of various sizes, and pauses,
  each a close followed by an open. The result is the data of all reads.\<close>

datatype session_op = Read nat | Pause

fun session ::
  "('w \<Rightarrow> (esp_err \<times> 'w) option) \<Rightarrow> (nat \<Rightarrow> 'w \<Rightarrow> ((int \<times> u8 list) \<times> 'w) option) \<Rightarrow> ('w \<Rightarrow> (esp_err \<times> 'w) option)
     \<Rightarrow> session_op list \<Rightarrow> 'w \<Rightarrow> (u8 list \<times> 'w) option" where
  "session op rd cl [] w = Some ([], w)"
| "session op rd cl (Read n # ops) w = do {
     ((_, data), w) \<leftarrow> rd n w;
     (out, w) \<leftarrow> session op rd cl ops w;
     Some (data @ out, w)
   }"
| "session op rd cl (Pause # ops) w = do {
     (_, w) \<leftarrow> cl w;
     (err, w) \<leftarrow> op w;
     if err = ESP_OK then session op rd cl ops w else Some ([], w)
   }"

locale resumable_stream =
  fixes op_open :: "'w \<Rightarrow> (esp_err \<times> 'w) option"
    and op_read :: "nat \<Rightarrow> 'w \<Rightarrow> ((int \<times> u8 list) \<times> 'w) option"
    and op_close :: "'w \<Rightarrow> (esp_err \<times> 'w) option"
    and pos :: "'w \<Rightarrow> nat"
    and body :: "u8 list"
    and closed :: "'w \<Rightarrow> bool"
    and opened :: "'w \<Rightarrow> bool"
  assumes open_ok: "closed w \<Longrightarrow> \<exists>w'. op_open w = Some (ESP_OK, w') \<and> opened w' \<and> pos w' = pos w"
    and read_ok: "opened w \<Longrightarrow> \<exists>k w'. op_read n w = Some ((int k, take k (drop (pos w) body)), w') \<and> opened w' \<and>
      pos w' = pos w + k \<and> k \<le> length body - pos w \<and> (0 < n \<longrightarrow> pos w < length body \<longrightarrow> 0 < k)"
    and close_ok: "opened w \<Longrightarrow> \<exists>err w'. op_close w = Some (err, w') \<and> closed w' \<and> pos w' = pos w"
begin

text \<open>Whatever the reads and pauses, the data is the part of the body from the first position to the last.\<close>

lemma session_delivers:
  assumes "opened w" "pos w \<le> length body"
  shows "\<exists>w'. session op_open op_read op_close ops w = Some (take (pos w' - pos w) (drop (pos w) body), w') \<and>
    opened w' \<and> pos w \<le> pos w' \<and> pos w' \<le> length body"
  using assms
proof (induction ops arbitrary: w)
  case (Cons a ops)
  show ?case
  proof (cases a)
    case (Read n)
    obtain k w1 where 1: "op_read n w = Some ((int k, take k (drop (pos w) body)), w1)" "opened w1" "pos w1 = pos w + k"
        "k \<le> length body - pos w"
      using read_ok [OF Cons.prems(1), of n] by blast
    then have "pos w1 \<le> length body" using Cons.prems(2) by simp
    from Cons.IH [OF 1(2) this] obtain w' where
      w': "session op_open op_read op_close ops w1 = Some (take (pos w' - pos w1) (drop (pos w1) body), w')"
        "opened w'" "pos w1 \<le> pos w'" "pos w' \<le> length body" by blast
    have "pos w' - pos w = k + (pos w' - pos w1)" using w'(3) 1(3) by simp
    then have "take (pos w' - pos w) (drop (pos w) body) =
        take k (drop (pos w) body) @ take (pos w' - pos w1) (drop (pos w1) body)"
      by (simp only: take_add drop_drop 1(3) add.commute)
    with Read 1 w' show ?thesis by (intro exI [of _ w']) simp
  next
    case Pause
    obtain err w1 where 1: "op_close w = Some (err, w1)" "closed w1" "pos w1 = pos w"
      using close_ok [OF Cons.prems(1)] by blast
    obtain w2 where 2: "op_open w1 = Some (ESP_OK, w2)" "opened w2" "pos w2 = pos w1" using open_ok [OF 1(2)] by blast
    have "pos w2 \<le> length body" using 1 2 Cons.prems(2) by simp
    from Cons.IH [OF 2(2) this] 1 2 Pause show ?thesis by auto
  qed
qed auto

text \<open>Reading often enough delivers all of it.\<close>

lemma reads_finish:
  assumes "opened w" "0 < n" "pos w \<le> length body" "length body - pos w \<le> m"
  shows "\<exists>w'. session op_open op_read op_close (replicate m (Read n)) w = Some (drop (pos w) body, w') \<and>
    pos w' = length body"
  using assms
proof (induction m arbitrary: w)
  case (Suc m)
  obtain k w1 where 1: "op_read n w = Some ((int k, take k (drop (pos w) body)), w1)" "opened w1" "pos w1 = pos w + k"
      "k \<le> length body - pos w" "pos w < length body \<longrightarrow> 0 < k"
    using read_ok [OF Suc.prems(1), of n] Suc.prems(2) by blast
  have "pos w1 \<le> length body" "length body - pos w1 \<le> m" using 1 Suc.prems by auto
  from Suc.IH [OF 1(2) Suc.prems(2) this] obtain w' where
    "session op_open op_read op_close (replicate m (Read n)) w1 = Some (drop (pos w1) body, w')" "pos w' = length body" by blast
  moreover have "take k (drop (pos w) body) @ drop (pos w1) body = drop (pos w) body"
    unfolding 1(3) by (metis append_take_drop_id drop_drop add.commute)
  ultimately show ?case using 1(1) by (intro exI [of _ w']) simp
qed simp

end

end
