(* ===== verification/File_Stream.thy ===== *)
theory File_Stream
  imports Stream_Base Http_Playlist
begin

text \<open>
  The streams over files, \<open>fatfs_stream.c\<close> for the SD card and \<open>spiffs_stream.c\<close> for the flash, and the raw stream
  (\<open>raw_stream.c\<close>), through which an application reads from or writes to a pipeline itself. The two file streams have
  the same structure and, the mount point and one test aside, the same functions. Files are byte lists, and an open
  file has a position. The medium decides which files can be opened and how much can be written, and the
  bytes of a gap that a write after the end leaves; the header of a WAV file comes from a library outside the
  repository. All these are the parameter \<open>file_ops\<close>.
\<close>

section \<open>Files\<close>

record c_file =
  fl_path :: string
  fl_pos :: nat

datatype wr_stream_type =
  STREAM_TYPE_UNKNOW | STREAM_TYPE_WAV | STREAM_TYPE_OPUS | STREAM_TYPE_AMR | STREAM_TYPE_AMRWB

text \<open>\<open>fatfs_stream_t\<close> and \<open>spiffs_stream_t\<close>.\<close>

record file_stream =
  fs_type :: audio_stream_type
  fs_block_size :: int
  fs_is_open :: bool
  fs_file :: "addr option"
  fs_w_type :: wr_stream_type

record fl_world = el_world +
  files :: "string \<Rightarrow> u8 list option"
  fps :: "addr \<Rightarrow> c_file option"
  fsts :: "addr \<Rightarrow> file_stream option"
  raws :: "addr \<Rightarrow> audio_stream_type option"

type_synonym 'z flw = "'z fl_world_scheme"

record 'w file_ops =
  fo_handle :: "string \<Rightarrow> 'w \<Rightarrow> addr option"
  fo_room :: "string \<Rightarrow> nat \<Rightarrow> 'w \<Rightarrow> nat"
  fo_gap :: "nat \<Rightarrow> u8"
  fo_wav_size :: nat
  fo_wav_head :: "int \<Rightarrow> int \<Rightarrow> int \<Rightarrow> u32 \<Rightarrow> u8 list"

definition fs_upd :: "addr \<Rightarrow> (file_stream \<Rightarrow> file_stream) \<Rightarrow> 'z flw \<Rightarrow> 'z flw option" where
  "fs_upd a f w = (case fsts w a of None \<Rightarrow> None | Some s \<Rightarrow> Some (w\<lparr>fsts := (fsts w)(a \<mapsto> f s)\<rparr>))"

lemma fs_upd_Some [simp]: "fsts w a = Some s \<Longrightarrow> fs_upd a f w = Some (w\<lparr>fsts := (fsts w)(a \<mapsto> f s)\<rparr>)"
  by (simp add: fs_upd_def)

interpretation fs_store: object_store fsts fs_upd
  by unfold_locales (auto simp: fs_upd_def split: option.splits)

text \<open>\<open>fopen\<close> in the modes \<open>r\<close> and \<open>w+\<close>, \<open>fread\<close>, \<open>fwrite\<close>, \<open>fseek\<close> from the start, \<open>fclose\<close> and the size \<open>stat\<close> reports.\<close>

definition fopen_r :: "'z flw file_ops \<Rightarrow> string \<Rightarrow> 'z flw \<Rightarrow> addr option \<times> 'z flw" where
  "fopen_r F path w =
     (case (files w path, fo_handle F path w) of
        (Some _, Some fp) \<Rightarrow> (Some fp, w\<lparr>fps := (fps w)(fp \<mapsto> \<lparr>fl_path = path, fl_pos = 0\<rparr>)\<rparr>)
      | _ \<Rightarrow> (None, w))"

definition fopen_w :: "'z flw file_ops \<Rightarrow> string \<Rightarrow> 'z flw \<Rightarrow> addr option \<times> 'z flw" where
  "fopen_w F path w =
     (case fo_handle F path w of
        Some fp \<Rightarrow> (Some fp, w\<lparr>files := (files w)(path \<mapsto> []), fps := (fps w)(fp \<mapsto> \<lparr>fl_path = path, fl_pos = 0\<rparr>)\<rparr>)
      | None \<Rightarrow> (None, w))"

definition content :: "string \<Rightarrow> 'z flw \<Rightarrow> u8 list" where
  "content path w = (case files w path of None \<Rightarrow> [] | Some c \<Rightarrow> c)"

definition fread :: "addr \<Rightarrow> nat \<Rightarrow> 'z flw \<Rightarrow> ((int \<times> u8 list) \<times> 'z flw) option" where
  "fread fp len w = do {
     f \<leftarrow> fps w fp;
     let data = take len (drop (fl_pos f) (content (fl_path f) w));
     Some ((int (length data), data), w\<lparr>fps := (fps w)(fp \<mapsto> f\<lparr>fl_pos := fl_pos f + length data\<rparr>)\<rparr>)
   }"

text \<open>\<open>overwrite gap c p bs\<close>: the bytes \<open>bs\<close> stored at position \<open>p\<close> of \<open>c\<close>.\<close>

definition overwrite :: "(nat \<Rightarrow> u8) \<Rightarrow> u8 list \<Rightarrow> nat \<Rightarrow> u8 list \<Rightarrow> u8 list" where
  "overwrite gap c p bs = (if bs = [] then c else take p (c @ map gap [length c..<p]) @ bs @ drop (p + length bs) c)"

definition fwrite :: "'z flw file_ops \<Rightarrow> addr \<Rightarrow> u8 list \<Rightarrow> 'z flw \<Rightarrow> (int \<times> 'z flw) option" where
  "fwrite F fp data w = do {
     f \<leftarrow> fps w fp;
     let bs = take (fo_room F (fl_path f) (length data) w) data;
     let c = overwrite (fo_gap F) (content (fl_path f) w) (fl_pos f) bs;
     Some (int (length bs), w\<lparr>files := (files w)(fl_path f \<mapsto> c),
                             fps := (fps w)(fp \<mapsto> f\<lparr>fl_pos := fl_pos f + length bs\<rparr>)\<rparr>)
   }"

definition fseek :: "addr \<Rightarrow> int \<Rightarrow> 'z flw \<Rightarrow> (bool \<times> 'z flw) option" where
  "fseek fp off w = do {
     f \<leftarrow> fps w fp;
     if off < 0 then Some (False, w) else Some (True, w\<lparr>fps := (fps w)(fp \<mapsto> f\<lparr>fl_pos := nat off\<rparr>)\<rparr>)
   }"

definition fclose :: "addr \<Rightarrow> 'z flw \<Rightarrow> 'z flw option" where
  "fclose fp w = do { _ \<leftarrow> fps w fp; Some (w\<lparr>fps := (fps w)(fp := None)\<rparr>) }"

section \<open>Types of files\<close>

text \<open>\<open>strncasecmp(s, t, length t) == 0\<close> for a literal \<open>t\<close>.\<close>

definition strncaseeq :: "string \<Rightarrow> string \<Rightarrow> bool" where
  "strncaseeq s t \<longleftrightarrow> strcaseeq (take (length t) s) t"

definition get_type :: "string \<Rightarrow> wr_stream_type" where
  "get_type str =
     (case strrchr str (CHR ''.'') of
        None \<Rightarrow> STREAM_TYPE_UNKNOW
      | Some i \<Rightarrow> (let relt = drop (Suc i) str in
          if strncaseeq relt ''wav'' then STREAM_TYPE_WAV
          else if strncaseeq relt ''opus'' then STREAM_TYPE_OPUS
          else if strncaseeq relt ''amr'' then STREAM_TYPE_AMR
          else if strncaseeq relt ''Wamr'' then STREAM_TYPE_AMRWB
          else STREAM_TYPE_UNKNOW))"

text \<open>What a new file starts with.\<close>

definition bytes_of :: "string \<Rightarrow> u8 list" where
  "bytes_of s = map (\<lambda>c. of_nat (of_char c)) s"

definition file_magic :: "'w file_ops \<Rightarrow> wr_stream_type \<Rightarrow> u8 list option" where
  "file_magic F ty =
     (case ty of
        STREAM_TYPE_WAV \<Rightarrow> Some (replicate (fo_wav_size F) 0)
      | STREAM_TYPE_AMR \<Rightarrow> Some (bytes_of (''#!AMR'' @ [CHR 0x0A]))
      | STREAM_TYPE_AMRWB \<Rightarrow> Some (bytes_of (''#!AMR-WB'' @ [CHR 0x0A]))
      | _ \<Rightarrow> None)"

section \<open>Opening\<close>

text \<open>The end of the open functions.\<close>

definition open_end ::
  "'z flw platform \<Rightarrow> addr \<Rightarrow> el_handle \<Rightarrow> audio_element_info \<Rightarrow> 'z flw \<Rightarrow> (esp_err \<times> 'z flw) option" where
  "open_end R a self info w = do {
     fs \<leftarrow> fsts w a;
     case fs_file fs of
       None \<Rightarrow> Some (ESP_FAIL, w)
     | Some fp \<Rightarrow> do {
         w \<leftarrow> fs_upd a (\<lambda>fs. fs\<lparr>fs_is_open := True\<rparr>) w;
         (ok, w) \<leftarrow> (if info_byte_pos info \<noteq> 0 then fseek fp (int_of_u64 (info_byte_pos info)) w else Some (True, w));
         if \<not> ok then Some (ESP_FAIL, w) else el_setinfo R self info w
       }
   }"

definition open_reader ::
  "'z flw platform \<Rightarrow> 'z flw file_ops \<Rightarrow> addr \<Rightarrow> el_handle \<Rightarrow> audio_element_info \<Rightarrow> string \<Rightarrow> 'z flw
     \<Rightarrow> (esp_err \<times> 'z flw) option" where
  "open_reader R F a self info path w = do {
     let (fp, w) = fopen_r F path w;
     w \<leftarrow> fs_upd a (\<lambda>fs. fs\<lparr>fs_file := fp\<rparr>) w;
     let info = info\<lparr>info_total_bytes := of_nat (length (content path w))\<rparr>;
     (ok, w) \<leftarrow> (case fp of
         None \<Rightarrow> Some (True, w)
       | Some fp \<Rightarrow> if info_byte_pos info > 0 then fseek fp (int_of_u64 (info_byte_pos info)) w else Some (True, w));
     if \<not> ok then Some (ESP_FAIL, w) else open_end R a self info w
   }"

definition open_writer ::
  "'z flw platform \<Rightarrow> 'z flw file_ops \<Rightarrow> addr \<Rightarrow> el_handle \<Rightarrow> audio_element_info \<Rightarrow> string \<Rightarrow> 'z flw
     \<Rightarrow> (esp_err \<times> 'z flw) option" where
  "open_writer R F a self info path w = do {
     let (fp, w) = fopen_w F path w;
     w \<leftarrow> fs_upd a (\<lambda>fs. fs\<lparr>fs_file := fp, fs_w_type := get_type path\<rparr>) w;
     w \<leftarrow> (case (fp, file_magic F (get_type path)) of
         (Some fp, Some magic) \<Rightarrow> map_option snd (fwrite F fp magic w)
       | _ \<Rightarrow> Some w);
     open_end R a self info w
   }"

text \<open>The common part, from the test of the path on: \<open>strstr(uri, mount)\<close> is the address from the first place where
  the mount point is in it.\<close>

definition open_path ::
  "'z flw platform \<Rightarrow> 'z flw file_ops \<Rightarrow> string \<Rightarrow> addr \<Rightarrow> el_handle \<Rightarrow> string \<Rightarrow> 'z flw \<Rightarrow> (esp_err \<times> 'z flw) option" where
  "open_path R F mount a self uri w = do {
     (info, w) \<leftarrow> el_getinfo R self w;
     case strstr uri mount of
       None \<Rightarrow> Some (ESP_FAIL, w)
     | Some i \<Rightarrow> do {
         let path = drop i uri;
         fs \<leftarrow> fsts w a;
         if fs_is_open fs then Some (ESP_FAIL, w)
         else case fs_type fs of
           AUDIO_STREAM_READER \<Rightarrow> open_reader R F a self info path w
         | AUDIO_STREAM_WRITER \<Rightarrow> open_writer R F a self info path w
         | AUDIO_STREAM_NONE \<Rightarrow> Some (ESP_FAIL, w)
       }
   }"

definition fatfs_open ::
  "'z flw platform \<Rightarrow> 'z flw file_ops \<Rightarrow> el_handle \<Rightarrow> 'z flw \<Rightarrow> (esp_err \<times> 'z flw) option" where
  "fatfs_open R F self w = do {
     a \<leftarrow> audio_element_getdata self w;
     uri \<leftarrow> el_uri self w;
     case uri of None \<Rightarrow> Some (ESP_FAIL, w)
     | Some uri \<Rightarrow> open_path R F ''/sdcard'' a self uri w
   }"

text \<open>The SPIFFS stream does not test whether an address is set; \<open>strstr\<close> of a null pointer is undefined.\<close>

definition spiffs_open ::
  "'z flw platform \<Rightarrow> 'z flw file_ops \<Rightarrow> el_handle \<Rightarrow> 'z flw \<Rightarrow> (esp_err \<times> 'z flw) option" where
  "spiffs_open R F self w = do {
     a \<leftarrow> audio_element_getdata self w;
     uri \<leftarrow> el_uri self w;
     uri \<leftarrow> uri;
     open_path R F ''/spiffs'' a self uri w
   }"

section \<open>Reading, writing and closing\<close>

definition file_read ::
  "'z flw platform \<Rightarrow> el_handle \<Rightarrow> nat \<Rightarrow> 'z flw \<Rightarrow> ((int \<times> u8 list) \<times> 'z flw) option" where
  "file_read R self len w = do {
     a \<leftarrow> audio_element_getdata self w;
     (info, w) \<leftarrow> el_getinfo R self w;
     fs \<leftarrow> fsts w a;
     fp \<leftarrow> fs_file fs;
     ((rlen, data), w) \<leftarrow> fread fp len w;
     w \<leftarrow> (if rlen \<le> 0 then Some w else map_option snd (el_setinfo R self (advance rlen info) w));
     Some ((rlen, data), w)
   }"

definition file_write ::
  "'z flw platform \<Rightarrow> 'z flw file_ops \<Rightarrow> el_handle \<Rightarrow> u8 list \<Rightarrow> 'z flw \<Rightarrow> (int \<times> 'z flw) option" where
  "file_write R F self buffer w = do {
     a \<leftarrow> audio_element_getdata self w;
     (info, w) \<leftarrow> el_getinfo R self w;
     fs \<leftarrow> fsts w a;
     fp \<leftarrow> fs_file fs;
     (wlen, w) \<leftarrow> fwrite F fp buffer w;
     w \<leftarrow> (if wlen > 0 then map_option snd (el_setinfo R self (advance wlen info) w) else Some w);
     Some (wlen, w)
   }"

text \<open>The header of a WAV file is written when the file is closed.\<close>

definition write_wav_head ::
  "'z flw platform \<Rightarrow> 'z flw file_ops \<Rightarrow> el_handle \<Rightarrow> addr \<Rightarrow> 'z flw \<Rightarrow> 'z flw option" where
  "write_wav_head R F self fp w = do {
     (_, w) \<leftarrow> fseek fp 0 w;
     (info, w) \<leftarrow> el_getinfo R self w;
     let head = fo_wav_head F (info_sample_rates info) (info_bits info) (info_channels info) (ucast (info_byte_pos info));
     (_, w) \<leftarrow> fwrite F fp head w;
     Some w
   }"

definition file_close ::
  "'z flw platform \<Rightarrow> 'z flw file_ops \<Rightarrow> el_handle \<Rightarrow> 'z flw \<Rightarrow> (esp_err \<times> 'z flw) option" where
  "file_close R F self w = do {
     a \<leftarrow> audio_element_getdata self w;
     fs \<leftarrow> fsts w a;
     (err, w) \<leftarrow>
      (case fs_file fs of
         Some fp \<Rightarrow>
           if fs_type fs = AUDIO_STREAM_WRITER \<and> fs_w_type fs = STREAM_TYPE_WAV then
             (case heap_alloc R (fo_wav_size F) w of
                (None, w) \<Rightarrow> Some (ESP_ERR_NO_MEM, w)
              | (Some _, w) \<Rightarrow> do { w \<leftarrow> write_wav_head R F self fp w; Some (ESP_OK, w) })
           else Some (ESP_OK, w)
       | None \<Rightarrow> Some (ESP_OK, w));
     if err \<noteq> ESP_OK then Some (err, w)
     else do {
       fs \<leftarrow> fsts w a;
       w \<leftarrow> (if fs_is_open fs then do {
               fp \<leftarrow> fs_file fs;
               w \<leftarrow> fclose fp w;
               fs_upd a (\<lambda>fs. fs\<lparr>fs_is_open := False\<rparr>) w
             } else Some w);
       w \<leftarrow> rewind_unless_paused R self w;
       Some (ESP_OK, w)
     }
   }"

definition file_process :: "'z flw platform \<Rightarrow> el_handle \<Rightarrow> int \<Rightarrow> 'z flw \<Rightarrow> (int \<times> 'z flw) option" where
  "file_process R self in_len w = stream_process R False self in_len w"

definition file_destroy :: "el_handle \<Rightarrow> 'z flw \<Rightarrow> (esp_err \<times> 'z flw) option" where
  "file_destroy self w = do {
     a \<leftarrow> audio_element_getdata self w;
     _ \<leftarrow> fsts w a;
     Some (ESP_OK, w\<lparr>fsts := (fsts w)(a := None)\<rparr>)
   }"

text \<open>The functions of the SPIFFS stream that differ in names only.\<close>

definition spiffs_read where "spiffs_read = file_read"
definition spiffs_write where "spiffs_write = file_write"
definition spiffs_close where "spiffs_close = file_close"
definition spiffs_process where "spiffs_process = file_process"
definition spiffs_destroy where "spiffs_destroy = file_destroy"

section \<open>Initialisation\<close>

record file_stream_cfg =
  fc_type :: audio_stream_type
  fc_buf_sz :: int
  fc_out_rb_size :: int
  fc_task_stack :: int
  fc_task_core :: int
  fc_task_prio :: int

text \<open>The addresses of the callbacks.\<close>

record file_callbacks =
  cb_open :: fnptr
  cb_close :: fnptr
  cb_process :: fnptr
  cb_destroy :: fnptr
  cb_read :: fnptr
  cb_write :: fnptr

abbreviation FATFS_STREAM_BUF_SIZE :: int where "FATFS_STREAM_BUF_SIZE \<equiv> 2048"
abbreviation SPIFFS_STREAM_BUF_SIZE :: int where "SPIFFS_STREAM_BUF_SIZE \<equiv> 2048"

definition file_element_cfg :: "file_callbacks \<Rightarrow> int \<Rightarrow> string \<Rightarrow> file_stream_cfg \<Rightarrow> audio_element_cfg" where
  "file_element_cfg cbs buf_size tag config =
     (let cfg = DEFAULT_AUDIO_ELEMENT_CONFIG\<lparr>cfg_open := Some (cb_open cbs), cfg_close := Some (cb_close cbs),
         cfg_process := Some (cb_process cbs), cfg_destroy := Some (cb_destroy cbs),
         cfg_task_stack := fc_task_stack config, cfg_task_prio := fc_task_prio config,
         cfg_task_core := fc_task_core config, cfg_out_rb_size := fc_out_rb_size config,
         cfg_buffer_len := (if fc_buf_sz config = 0 then buf_size else fc_buf_sz config), cfg_tag := Some tag\<rparr> in
      if fc_type config = AUDIO_STREAM_WRITER then cfg\<lparr>cfg_write := Some (cb_write cbs)\<rparr>
      else cfg\<lparr>cfg_read := Some (cb_read cbs)\<rparr>)"

definition file_stream_init ::
  "'z flw platform \<Rightarrow> file_callbacks \<Rightarrow> int \<Rightarrow> string \<Rightarrow> file_stream_cfg \<Rightarrow> 'z flw \<Rightarrow> (el_handle option \<times> 'z flw) option" where
  "file_stream_init R cbs buf_size tag config w =
     (case heap_alloc R 20 w of
        (None, w) \<Rightarrow> Some (None, w)
      | (Some a, w) \<Rightarrow> do {
          let w = w\<lparr>fsts := (fsts w)(a \<mapsto> \<lparr>fs_type = fc_type config, fs_block_size = 0, fs_is_open = False,
                     fs_file = None, fs_w_type = STREAM_TYPE_UNKNOW\<rparr>)\<rparr>;
          (el, w) \<leftarrow> audio_element_init R (file_element_cfg cbs buf_size tag config) w;
          case el of
            None \<Rightarrow> Some (None, w\<lparr>fsts := (fsts w)(a := None)\<rparr>)
          | Some el \<Rightarrow> do { (_, w) \<leftarrow> audio_element_setdata el a w; Some (Some el, w) }
        })"

definition fatfs_stream_init where
  "fatfs_stream_init R cbs config w = file_stream_init R cbs FATFS_STREAM_BUF_SIZE ''file'' config w"

definition spiffs_stream_init where
  "spiffs_stream_init R cbs config w = file_stream_init R cbs SPIFFS_STREAM_BUF_SIZE ''spiffs'' config w"

section \<open>The raw stream\<close>

definition raw_stream_read ::
  "'z flw platform \<Rightarrow> el_handle \<Rightarrow> int \<Rightarrow> 'z flw \<Rightarrow> ((int \<times> u8 list) \<times> 'z flw) option" where
  "raw_stream_read R pipeline len w = do {
     ((ret, data), w) \<leftarrow> audio_element_input R pipeline len w;
     w \<leftarrow> (if ret \<le> 0 then map_option snd (audio_element_report_status R pipeline AEL_STATUS_STATE_STOPPED w) else Some w);
     Some ((ret, data), w)
   }"

definition raw_stream_write ::
  "'z flw platform \<Rightarrow> el_handle \<Rightarrow> u8 list \<Rightarrow> int \<Rightarrow> 'z flw \<Rightarrow> (int \<times> 'z flw) option" where
  "raw_stream_write R pipeline buffer len w = do {
     (ret, w) \<leftarrow> audio_element_output R pipeline buffer len w;
     w \<leftarrow> (if ret \<le> 0 then map_option snd (audio_element_report_status R pipeline AEL_STATUS_STATE_STOPPED w) else Some w);
     Some (ret, w)
   }"

definition raw_destroy :: "el_handle \<Rightarrow> 'z flw \<Rightarrow> (esp_err \<times> 'z flw) option" where
  "raw_destroy self w = do {
     a \<leftarrow> audio_element_getdata self w;
     _ \<leftarrow> raws w a;
     Some (ESP_OK, w\<lparr>raws := (raws w)(a := None)\<rparr>)
   }"

definition raw_stream_init ::
  "'z flw platform \<Rightarrow> fnptr \<Rightarrow> audio_stream_type \<Rightarrow> int \<Rightarrow> 'z flw \<Rightarrow> (el_handle option \<times> 'z flw) option" where
  "raw_stream_init R raw_destroy_cb ty out_rb_size w =
     (case heap_alloc R 4 w of
        (None, w) \<Rightarrow> Some (None, w)
      | (Some a, w) \<Rightarrow> do {
          let w = w\<lparr>raws := (raws w)(a \<mapsto> ty)\<rparr>;
          (el, w) \<leftarrow> audio_element_init R (DEFAULT_AUDIO_ELEMENT_CONFIG\<lparr>cfg_task_stack := -1,
             cfg_destroy := Some raw_destroy_cb, cfg_tag := Some ''raw'', cfg_out_rb_size := out_rb_size\<rparr>) w;
          case el of
            None \<Rightarrow> Some (None, w\<lparr>raws := (raws w)(a := None)\<rparr>)
          | Some el \<Rightarrow> do { (_, w) \<leftarrow> audio_element_setdata el a w; Some (Some el, w) }
        })"

end
