(* ===== verification/File_Stream_Correct.thy ===== *)
theory File_Stream_Correct
  imports File_Stream
begin

text \<open>
  Correctness of the file streams. A reader is a resumable stream, so reads and pauses in any order deliver the file
  without a gap or a repetition. A writer that is opened once and closed leaves a complete WAV file; one that is paused
  and resumed does not.
\<close>

section \<open>Readers\<close>

text \<open>Files can be opened, and no other task holds the lock of the element.\<close>

definition file_env :: "'z flw platform \<Rightarrow> 'z flw file_ops \<Rightarrow> bool" where
  "file_env R F \<longleftrightarrow> free_locks R \<and> (\<forall>path w. fo_handle F path w \<noteq> None)"

text \<open>The element \<open>self\<close> is a reader of a file with the given contents below the mount point; when the stream is open,
  its file is at the position the info of the element records.\<close>

definition reads_file :: "string \<Rightarrow> el_handle \<Rightarrow> u8 list \<Rightarrow> bool \<Rightarrow> 'z flw \<Rightarrow> bool" where
  "reads_file mount self body op w \<longleftrightarrow>
     (\<exists>e l s uri i fs. els w self = Some e \<and> el_lock e = Some l \<and> info_uri (el_info e) = Some s \<and> strs w s = Some uri \<and>
        strstr uri mount = Some i \<and> files w (drop i uri) = Some body \<and> length body < 2 ^ 31 \<and>
        unat (info_byte_pos (el_info e)) \<le> length body \<and>
        fsts w (el_data e) = Some fs \<and> fs_type fs = AUDIO_STREAM_READER \<and> fs_is_open fs = op \<and>
        (op \<longrightarrow> (\<exists>fp. fs_file fs = Some fp \<and>
           fps w fp = Some \<lparr>fl_path = drop i uri, fl_pos = unat (info_byte_pos (el_info e))\<rparr>)))"

definition byte_pos :: "el_handle \<Rightarrow> 'z flw \<Rightarrow> nat" where
  "byte_pos self w = (case els w self of None \<Rightarrow> 0 | Some e \<Rightarrow> unat (info_byte_pos (el_info e)))"

lemma open_path_reader:
  assumes env: "file_env R F" and st: "reads_file mount self body False w" "els w self = Some e" "info_uri (el_info e) = Some s" "strs w s = Some uri"
  shows "\<exists>w'. open_path R F mount (el_data e) self uri w = Some (ESP_OK, w') \<and> reads_file mount self body True w' \<and>
    byte_pos self w' = byte_pos self w"
proof -
  obtain l i fs where h: "el_lock e = Some l" "strstr uri mount = Some i" "files w (drop i uri) = Some body" "length body < 2 ^ 31"
      "unat (info_byte_pos (el_info e)) \<le> length body" "fsts w (el_data e) = Some fs" "fs_type fs = AUDIO_STREAM_READER" "\<not> fs_is_open fs"
    using st unfolding reads_file_def by auto
  have lk: "free_locks R" using env by (simp add: file_env_def)
  obtain fp where fp: "fo_handle F (drop i uri) w = Some fp" using env by (auto simp: file_env_def)
  let ?p = "info_byte_pos (el_info e)"
  let ?fl = "\<lparr>fl_path = drop i uri, fl_pos = unat ?p\<rparr>"
  let ?w = "w\<lparr>fps := (fps w)(fp \<mapsto> ?fl), fsts := (fsts w)(el_data e \<mapsto> fs\<lparr>fs_file := Some fp, fs_is_open := True\<rparr>),
      els := (els w)(self \<mapsto> e\<lparr>el_info := (el_info e)\<lparr>info_total_bytes := of_nat (length body)\<rparr>\<rparr>)\<rparr>"
  have pos: "int_of_u64 ?p = int (unat ?p)" using h(4,5) by (intro int_of_u64_unat) linarith
  have "open_path R F mount (el_data e) self uri w = Some (ESP_OK, ?w)"
  proof (cases "?p = 0")
    case True
    then show ?thesis using h fp st(2)
      by (simp add: open_path_def el_getinfo_free [OF lk st(2) h(1)] open_reader_def fopen_r_def content_def open_end_def
          el_setinfo_free [OF lk _ h(1)] cong: option.case_cong)
  next
    case False
    then have "0 < ?p" by (simp add: word_gt_0)
    then show ?thesis using h fp st(2) False pos
      by (simp add: open_path_def el_getinfo_free [OF lk st(2) h(1)] open_reader_def fopen_r_def content_def open_end_def
          fseek_def el_setinfo_free [OF lk _ h(1)] cong: option.case_cong)
  qed
  moreover have "reads_file mount self body True ?w" using h st(3,4) by (simp add: reads_file_def)
  moreover have "byte_pos self ?w = byte_pos self w" by (simp add: byte_pos_def st(2))
  ultimately show ?thesis by blast
qed

lemma reads_fileE:
  assumes "reads_file mount self body op w"
  obtains e l s uri i fs where "els w self = Some e" "el_lock e = Some l" "info_uri (el_info e) = Some s" "strs w s = Some uri"
    "strstr uri mount = Some i" "files w (drop i uri) = Some body" "length body < 2 ^ 31"
    "unat (info_byte_pos (el_info e)) \<le> length body"
    "fsts w (el_data e) = Some fs" "fs_type fs = AUDIO_STREAM_READER" "fs_is_open fs = op"
    "op \<Longrightarrow> \<exists>fp. fs_file fs = Some fp \<and> fps w fp = Some \<lparr>fl_path = drop i uri, fl_pos = unat (info_byte_pos (el_info e))\<rparr>"
  using assms unfolding reads_file_def by blast

lemma fatfs_open_reader:
  assumes "file_env R F" "reads_file ''/sdcard'' self body False w"
  shows "\<exists>w'. fatfs_open R F self w = Some (ESP_OK, w') \<and> reads_file ''/sdcard'' self body True w' \<and> byte_pos self w' = byte_pos self w"
  using assms(2)
proof (rule reads_fileE)
  fix e s uri
  assume "els w self = Some e" "info_uri (el_info e) = Some s" "strs w s = Some uri"
  then show ?thesis using open_path_reader [OF assms(1,2)]
    by (simp add: fatfs_open_def audio_element_getdata_def el_uri_def audio_element_get_uri_def)
qed

lemma spiffs_open_reader:
  assumes "file_env R F" "reads_file ''/spiffs'' self body False w"
  shows "\<exists>w'. spiffs_open R F self w = Some (ESP_OK, w') \<and> reads_file ''/spiffs'' self body True w' \<and> byte_pos self w' = byte_pos self w"
  using assms(2)
proof (rule reads_fileE)
  fix e s uri
  assume "els w self = Some e" "info_uri (el_info e) = Some s" "strs w s = Some uri"
  then show ?thesis using open_path_reader [OF assms(1,2)]
    by (simp add: spiffs_open_def audio_element_getdata_def el_uri_def audio_element_get_uri_def)
qed

lemma file_read_reader:
  assumes env: "file_env R F" and st: "reads_file mount self body True w"
  shows "\<exists>k w'. file_read R self n w = Some ((int k, take k (drop (byte_pos self w) body)), w') \<and>
    reads_file mount self body True w' \<and> byte_pos self w' = byte_pos self w + k \<and>
    k \<le> length body - byte_pos self w \<and> (0 < n \<longrightarrow> byte_pos self w < length body \<longrightarrow> 0 < k)"
  using st
proof (rule reads_fileE)
  fix e l s uri i fs
  assume h: "els w self = Some e" "el_lock e = Some l" "info_uri (el_info e) = Some s" "strs w s = Some uri"
    "strstr uri mount = Some i" "files w (drop i uri) = Some body" "length body < 2 ^ 31"
    "unat (info_byte_pos (el_info e)) \<le> length body" "fsts w (el_data e) = Some fs" "fs_type fs = AUDIO_STREAM_READER" "fs_is_open fs = True"
    "True \<Longrightarrow> \<exists>fp. fs_file fs = Some fp \<and> fps w fp = Some \<lparr>fl_path = drop i uri, fl_pos = unat (info_byte_pos (el_info e))\<rparr>"
  then obtain fp where fp: "fs_file fs = Some fp" "fps w fp = Some \<lparr>fl_path = drop i uri, fl_pos = unat (info_byte_pos (el_info e))\<rparr>" by blast
  have lk: "free_locks R" using env by (simp add: file_env_def)
  let ?p = "unat (info_byte_pos (el_info e))"
  define k where "k = min n (length body - ?p)"
  have p: "byte_pos self w = ?p" by (simp add: byte_pos_def h(1))
  have data: "take n (drop ?p body) = take k (drop ?p body)" "length (take k (drop ?p body)) = k"
    by (simp_all add: k_def min_def)
  let ?w1 = "w\<lparr>fps := (fps w)(fp \<mapsto> \<lparr>fl_path = drop i uri, fl_pos = ?p + k\<rparr>)\<rparr>"
  have rd: "fread fp n w = Some ((int k, take k (drop ?p body)), ?w1)"
    using data(1) by (simp add: fread_def content_def fp(2) h(6) data(2) [simplified] k_def min.commute)
  define w' where "w' = (if k = 0 then ?w1 else ?w1\<lparr>els := (els w)(self \<mapsto> e\<lparr>el_info := advance (int k) (el_info e)\<rparr>)\<rparr>)"
  have "file_read R self n w = Some ((int k, take k (drop ?p body)), w')"
    using h(1,9) fp(1) rd
    by (simp add: file_read_def audio_element_getdata_def el_getinfo_free [OF lk h(1,2)] el_setinfo_free [OF lk _ h(2)] w'_def)
  moreover have adv: "unat (info_byte_pos (advance (int k) (el_info e))) = ?p + k"
    using h(7,8) by (intro unat_advance) (simp add: k_def)
  then have "reads_file mount self body True w'"
    using h fp by (auto simp: w'_def reads_file_def k_def advance_def [symmetric])
  moreover have "byte_pos self w' = ?p + k" using adv by (simp add: w'_def byte_pos_def h(1))
  ultimately show ?thesis unfolding p by (intro exI [of _ k] exI [of _ w']) (auto simp: k_def)
qed

lemma file_close_reader:
  assumes st: "reads_file mount self body True w"
  shows "\<exists>err w'. pause_close self (file_close R F self) w = Some (err, w') \<and> reads_file mount self body False w' \<and>
    byte_pos self w' = byte_pos self w"
  using st
proof (rule reads_fileE)
  fix e l s uri i fs
  assume h: "els w self = Some e" "el_lock e = Some l" "info_uri (el_info e) = Some s" "strs w s = Some uri"
    "strstr uri mount = Some i" "files w (drop i uri) = Some body" "length body < 2 ^ 31"
    "unat (info_byte_pos (el_info e)) \<le> length body" "fsts w (el_data e) = Some fs" "fs_type fs = AUDIO_STREAM_READER" "fs_is_open fs = True"
    "True \<Longrightarrow> \<exists>fp. fs_file fs = Some fp \<and> fps w fp = Some \<lparr>fl_path = drop i uri, fl_pos = unat (info_byte_pos (el_info e))\<rparr>"
  then obtain fp where fp: "fs_file fs = Some fp" "fps w fp = Some \<lparr>fl_path = drop i uri, fl_pos = unat (info_byte_pos (el_info e))\<rparr>" by blast
  let ?e = "e\<lparr>el_state := AEL_STATE_PAUSED\<rparr>"
  let ?w = "w\<lparr>els := (els w)(self \<mapsto> ?e), fps := (fps w)(fp := None), fsts := (fsts w)(el_data e \<mapsto> fs\<lparr>fs_is_open := False\<rparr>)\<rparr>"
  have "pause_close self (file_close R F self) w = Some (ESP_OK, ?w)"
    using h fp by (simp add: pause_close_def file_close_def audio_element_getdata_def fclose_def rewind_paused)
  moreover have "reads_file mount self body False ?w" using h by (simp add: reads_file_def)
  moreover have "byte_pos self ?w = byte_pos self w" by (simp add: byte_pos_def h(1))
  ultimately show ?thesis by blast
qed

interpretation fat: resumable_stream "fatfs_open R F self" "file_read R self" "pause_close self (file_close R F self)" "byte_pos self" body
    "\<lambda>w. file_env R F \<and> reads_file ''/sdcard'' self body False w" "\<lambda>w. file_env R F \<and> reads_file ''/sdcard'' self body True w"
  for R F self body
proof (unfold_locales, goal_cases)
  case 1
  then show ?case using fatfs_open_reader by blast
next
  case (2 w n)
  then show ?case using file_read_reader [of R F "''/sdcard''" self body w n] by auto
next
  case (3 w)
  then show ?case using file_close_reader [of "''/sdcard''" self body w R F] by auto
qed

interpretation spi: resumable_stream "spiffs_open R F self" "spiffs_read R self" "pause_close self (spiffs_close R F self)" "byte_pos self" body
    "\<lambda>w. file_env R F \<and> reads_file ''/spiffs'' self body False w" "\<lambda>w. file_env R F \<and> reads_file ''/spiffs'' self body True w"
  for R F self body
proof (unfold_locales, goal_cases)
  case 1
  then show ?case using spiffs_open_reader by blast
next
  case (2 w n)
  then show ?case using file_read_reader [of R F "''/spiffs''" self body w n] by (auto simp: spiffs_read_def)
next
  case (3 w)
  then show ?case using file_close_reader [of "''/spiffs''" self body w R F] by (auto simp: spiffs_close_def)
qed

section \<open>Writers\<close>

text \<open>The medium takes all that is written, headers have the size of their struct, and memory is available.\<close>

definition medium_ok :: "'z flw platform \<Rightarrow> 'z flw file_ops \<Rightarrow> bool" where
  "medium_ok R F \<longleftrightarrow> file_env R F \<and> (\<forall>n w. \<exists>a. heap_alloc R n w = (Some a, w)) \<and> (\<forall>path n w. n \<le> fo_room F path n w) \<and>
     (\<forall>sr b c n. length (fo_wav_head F sr b c n) = fo_wav_size F)"

definition magic_of :: "'w file_ops \<Rightarrow> string \<Rightarrow> u8 list" where
  "magic_of F path = (case file_magic F (get_type path) of None \<Rightarrow> [] | Some m \<Rightarrow> m)"

text \<open>The element \<open>self\<close> is a writer to the file \<open>path\<close>, with the info \<open>info\<close>; when it is open, its file is at a position.\<close>

definition writes_file :: "el_handle \<Rightarrow> string \<Rightarrow> audio_element_info \<Rightarrow> nat option \<Rightarrow> 'z flw \<Rightarrow> bool" where
  "writes_file self path info fpos w \<longleftrightarrow>
     (\<exists>e l s uri i fs. els w self = Some e \<and> el_lock e = Some l \<and> el_info e = info \<and> info_uri info = Some s \<and> strs w s = Some uri \<and>
        strstr uri ''/sdcard'' = Some i \<and> path = drop i uri \<and>
        fsts w (el_data e) = Some fs \<and> fs_type fs = AUDIO_STREAM_WRITER \<and> fs_is_open fs = (fpos \<noteq> None) \<and>
        (\<forall>p. fpos = Some p \<longrightarrow> (\<exists>fp. fs_file fs = Some fp \<and> fs_w_type fs = get_type path \<and>
           fps w fp = Some \<lparr>fl_path = path, fl_pos = p\<rparr>)))"

lemma writes_fileE:
  assumes "writes_file self path info fpos w"
  obtains e l s uri i fs where "els w self = Some e" "el_lock e = Some l" "el_info e = info" "info_uri info = Some s" "strs w s = Some uri"
    "strstr uri ''/sdcard'' = Some i" "path = drop i uri" "fsts w (el_data e) = Some fs" "fs_type fs = AUDIO_STREAM_WRITER"
    "fs_is_open fs = (fpos \<noteq> None)"
    "\<And>p. fpos = Some p \<Longrightarrow> \<exists>fp. fs_file fs = Some fp \<and> fs_w_type fs = get_type path \<and> fps w fp = Some \<lparr>fl_path = path, fl_pos = p\<rparr>"
  using assms unfolding writes_file_def by blast

lemma overwrite_end [simp]: "overwrite gap c (length c) bs = c @ bs"
  by (simp add: overwrite_def)

lemma overwrite_start: "length bs \<le> length c \<Longrightarrow> overwrite gap c 0 bs = bs @ drop (length bs) c"
  by (simp add: overwrite_def)

lemma fwrite_ok:
  assumes "medium_ok R F" "fps w fp = Some f"
  shows "fwrite F fp bs w = Some (int (length bs), w\<lparr>files := (files w)(fl_path f \<mapsto> overwrite (fo_gap F) (content (fl_path f) w) (fl_pos f) bs),
    fps := (fps w)(fp \<mapsto> f\<lparr>fl_pos := fl_pos f + length bs\<rparr>)\<rparr>)"
proof -
  have "take (fo_room F (fl_path f) (length bs) w) bs = bs" using assms(1) by (simp add: medium_ok_def)
  then show ?thesis by (simp add: fwrite_def assms(2) Let_def)
qed

text \<open>Opening a writer creates the file anew, whatever it held, and goes to the recorded position.\<close>

lemma open_writer_result:
  assumes med: "medium_ok R F" and st: "writes_file self path info None w" and small: "unat (info_byte_pos info) < 2 ^ 31"
  shows "\<exists>w'. fatfs_open R F self w = Some (ESP_OK, w') \<and> files w' = (files w)(path \<mapsto> magic_of F path) \<and>
    writes_file self path info (Some (if info_byte_pos info = 0 then length (magic_of F path) else unat (info_byte_pos info))) w'"
  using st
proof (rule writes_fileE)
  fix e l s uri i fs
  assume h: "els w self = Some e" "el_lock e = Some l" "el_info e = info" "info_uri info = Some s" "strs w s = Some uri"
    "strstr uri ''/sdcard'' = Some i" "path = drop i uri" "fsts w (el_data e) = Some fs" "fs_type fs = AUDIO_STREAM_WRITER"
    "fs_is_open fs = (None \<noteq> (None :: nat option))"
  have lk: "free_locks R" using med by (simp add: medium_ok_def file_env_def)
  have "fo_handle F path w \<noteq> None" using med unfolding medium_ok_def file_env_def by blast
  then obtain fp where fp: "fo_handle F path w = Some fp" by blast
  let ?m = "magic_of F path"
  let ?w1 = "w\<lparr>files := (files w)(path \<mapsto> []), fps := (fps w)(fp \<mapsto> \<lparr>fl_path = path, fl_pos = 0\<rparr>),
     fsts := (fsts w)(el_data e \<mapsto> fs\<lparr>fs_file := Some fp, fs_w_type := get_type path\<rparr>)\<rparr>"
  let ?w2 = "?w1\<lparr>files := (files w)(path \<mapsto> ?m), fps := (fps w)(fp \<mapsto> \<lparr>fl_path = path, fl_pos = length ?m\<rparr>)\<rparr>"
  have magic: "(case (Some fp, file_magic F (get_type path)) of (Some fp, Some magic) \<Rightarrow> map_option snd (fwrite F fp magic ?w1) | _ \<Rightarrow> Some ?w1) = Some ?w2"
    by (cases "file_magic F (get_type path)")
      (simp_all add: magic_of_def fwrite_ok [OF med] content_def overwrite_def)
  have step: "fatfs_open R F self w = open_end R (el_data e) self info ?w2"
    using h(1-6,8-10) fp magic
    by (simp add: fatfs_open_def audio_element_getdata_def el_uri_def audio_element_get_uri_def open_path_def
        el_getinfo_free [OF lk h(1,2)] open_writer_def fopen_w_def h(7) [symmetric] Let_def)
  let ?p = "if info_byte_pos info = 0 then length ?m else unat (info_byte_pos info)"
  let ?w3 = "?w2\<lparr>fps := (fps w)(fp \<mapsto> \<lparr>fl_path = path, fl_pos = ?p\<rparr>),
     fsts := (fsts w)(el_data e \<mapsto> fs\<lparr>fs_file := Some fp, fs_w_type := get_type path, fs_is_open := True\<rparr>),
     els := (els w)(self \<mapsto> e)\<rparr>"
  have eq: "e\<lparr>el_info := info\<rparr> = e" using h(3) by auto
  have "open_end R (el_data e) self info ?w2 = Some (ESP_OK, ?w3)"
    using h(1,3) small
    by (simp add: open_end_def fseek_def el_setinfo_free [OF lk _ h(2)] int_of_u64_unat eq)
  moreover have "writes_file self path info (Some ?p) ?w3" using h(2-9) by (simp add: writes_file_def)
  ultimately show ?thesis using step by (intro exI [of _ ?w3]) simp
qed

text \<open>Writing block after block.\<close>

fun write_blocks ::
  "'z flw platform \<Rightarrow> 'z flw file_ops \<Rightarrow> el_handle \<Rightarrow> u8 list list \<Rightarrow> 'z flw \<Rightarrow> 'z flw option" where
  "write_blocks R F self [] w = Some w"
| "write_blocks R F self (b # bs) w = do { (_, w) \<leftarrow> file_write R F self b w; write_blocks R F self bs w }"

text \<open>What an open recording keeps: the file holds its header and the data written, and the info counts the data.\<close>

definition recording :: "'z flw file_ops \<Rightarrow> el_handle \<Rightarrow> string \<Rightarrow> audio_element_info \<Rightarrow> u8 list \<Rightarrow> 'z flw \<Rightarrow> bool" where
  "recording F self path info data w \<longleftrightarrow>
     writes_file self path (info\<lparr>info_byte_pos := of_nat (length data)\<rparr>) (Some (length (magic_of F path @ data))) w \<and>
     files w path = Some (magic_of F path @ data)"

lemma file_write_records:
  assumes med: "medium_ok R F" and rec: "recording F self path info data w"
  shows "\<exists>w'. file_write R F self b w = Some (int (length b), w') \<and> recording F self path info (data @ b) w'"
proof -
  let ?i = "info\<lparr>info_byte_pos := of_nat (length data)\<rparr>"
  let ?c = "magic_of F path @ data"
  have w: "writes_file self path ?i (Some (length ?c)) w" and c: "files w path = Some ?c" using rec by (simp_all add: recording_def)
  from w show ?thesis
  proof (rule writes_fileE)
    fix e l s uri i fs
    assume h: "els w self = Some e" "el_lock e = Some l" "el_info e = ?i" "info_uri ?i = Some s" "strs w s = Some uri"
      "strstr uri ''/sdcard'' = Some i" "path = drop i uri" "fsts w (el_data e) = Some fs" "fs_type fs = AUDIO_STREAM_WRITER"
      "fs_is_open fs = (Some (length ?c) \<noteq> None)"
      "\<And>p. Some (length ?c) = Some p \<Longrightarrow>
        \<exists>fp. fs_file fs = Some fp \<and> fs_w_type fs = get_type path \<and> fps w fp = Some \<lparr>fl_path = path, fl_pos = p\<rparr>"
    obtain fp where fp: "fs_file fs = Some fp" "fs_w_type fs = get_type path" "fps w fp = Some \<lparr>fl_path = path, fl_pos = length ?c\<rparr>"
      using h(11) by blast
    have lk: "free_locks R" using med by (simp add: medium_ok_def file_env_def)
    have cont: "content path w = ?c" by (simp add: content_def c)
    have ov: "overwrite (fo_gap F) ?c (length ?c) b = ?c @ b" by (rule overwrite_end)
    let ?w1 = "w\<lparr>files := (files w)(path \<mapsto> ?c @ b), fps := (fps w)(fp \<mapsto> \<lparr>fl_path = path, fl_pos = length ?c + length b\<rparr>)\<rparr>"
    have fw: "fwrite F fp b w = Some (int (length b), ?w1)"
      unfolding fwrite_ok [OF med fp(3)] using cont ov by simp
    let ?w2 = "?w1\<lparr>els := (els w)(self \<mapsto> e\<lparr>el_info := info\<lparr>info_byte_pos := of_nat (length (data @ b))\<rparr>\<rparr>)\<rparr>"
    have adv: "advance (int (length b)) ?i = info\<lparr>info_byte_pos := of_nat (length (data @ b))\<rparr>" by (simp add: advance_def)
    have e: "e\<lparr>el_info := info\<lparr>info_byte_pos := of_nat (length data)\<rparr>\<rparr> = e" using h(3) by auto
    have "file_write R F self b w = Some (int (length b), if b = [] then ?w1 else ?w2)"
      using h(1,8) fp(1) fw
      by (simp add: file_write_def audio_element_getdata_def el_getinfo_free [OF lk h(1,2)] el_setinfo_free [OF lk _ h(2)]
          h(3) adv del: append_assoc)
    moreover have "recording F self path info (data @ b) (if b = [] then ?w1 else ?w2)"
      using h(1-10) fp by (auto simp: recording_def writes_file_def)
    ultimately show ?thesis by blast
  qed
qed

lemma write_blocks_record:
  assumes "medium_ok R F" "recording F self path info data w"
  shows "\<exists>w'. write_blocks R F self bs w = Some w' \<and> recording F self path info (data @ concat bs) w'"
  using assms(2)
proof (induction bs arbitrary: data w)
  case (Cons b bs)
  obtain w1 where "file_write R F self b w = Some (int (length b), w1)" "recording F self path info (data @ b) w1"
    using file_write_records [OF assms(1) Cons.prems] by blast
  then show ?case using Cons.IH by fastforce
qed auto

text \<open>Closing a writer writes the header of a WAV file and closes the file; the rest concerns the element's info.\<close>

lemma file_close_writer:
  assumes med: "medium_ok R F" and st: "writes_file self path info (Some p) w" and c: "files w path = Some c"
    and wav: "get_type path = STREAM_TYPE_WAV \<Longrightarrow> fo_wav_size F \<le> length c"
  shows "\<exists>w1. file_close R F self w = map_option (Pair ESP_OK) (rewind_unless_paused R self w1) \<and>
    writes_file self path info None w1 \<and> els w1 = els w \<and>
    files w1 path = Some (if get_type path = STREAM_TYPE_WAV
      then fo_wav_head F (info_sample_rates info) (info_bits info) (info_channels info) (ucast (info_byte_pos info)) @ drop (fo_wav_size F) c
      else c)"
  using st
proof (rule writes_fileE)
  fix e l s uri i fs
  assume h: "els w self = Some e" "el_lock e = Some l" "el_info e = info" "info_uri info = Some s" "strs w s = Some uri"
    "strstr uri ''/sdcard'' = Some i" "path = drop i uri" "fsts w (el_data e) = Some fs" "fs_type fs = AUDIO_STREAM_WRITER"
    "fs_is_open fs = (Some p \<noteq> None)"
    "\<And>q. Some p = Some q \<Longrightarrow> \<exists>fp. fs_file fs = Some fp \<and> fs_w_type fs = get_type path \<and> fps w fp = Some \<lparr>fl_path = path, fl_pos = q\<rparr>"
  obtain fp where fp: "fs_file fs = Some fp" "fs_w_type fs = get_type path" "fps w fp = Some \<lparr>fl_path = path, fl_pos = p\<rparr>" using h(11) by blast
  have lk: "free_locks R" using med by (simp add: medium_ok_def file_env_def)
  let ?w0 = "w\<lparr>fps := (fps w)(fp := None), fsts := (fsts w)(el_data e \<mapsto> fs\<lparr>fs_is_open := False\<rparr>)\<rparr>"
  show ?thesis
  proof (cases "get_type path = STREAM_TYPE_WAV")
    case False
    have "file_close R F self w = map_option (Pair ESP_OK) (rewind_unless_paused R self ?w0)"
      using h(1,8,10) fp False by (simp add: file_close_def audio_element_getdata_def fclose_def map_conv_bind_option comp_def)
    moreover have "writes_file self path info None ?w0" using h(1-9) by (simp add: writes_file_def)
    ultimately show ?thesis using c False by (intro exI [of _ ?w0]) simp
  next
    case True
    let ?hd = "fo_wav_head F (info_sample_rates info) (info_bits info) (info_channels info) (ucast (info_byte_pos info))"
    have len: "length ?hd = fo_wav_size F" using med by (simp add: medium_ok_def)
    obtain a where a: "heap_alloc R (fo_wav_size F) w = (Some a, w)" using med unfolding medium_ok_def by blast
    let ?f = "(files w)(path \<mapsto> ?hd @ drop (fo_wav_size F) c)"
    have wh: "write_wav_head R F self fp w =
        Some (w\<lparr>files := ?f, fps := (fps w)(fp \<mapsto> \<lparr>fl_path = path, fl_pos = fo_wav_size F\<rparr>)\<rparr>)"
      using h(1) len wav [OF True] c
      by (simp add: write_wav_head_def fseek_def fp(3) el_getinfo_free [OF lk _ h(2)] h(3) fwrite_ok [OF med] content_def overwrite_start)
    let ?w1 = "w\<lparr>files := ?f, fps := (fps w)(fp := None), fsts := (fsts w)(el_data e \<mapsto> fs\<lparr>fs_is_open := False\<rparr>)\<rparr>"
    have "file_close R F self w = map_option (Pair ESP_OK) (rewind_unless_paused R self ?w1)"
      using h(1,8,9,10) fp True a wh by (simp add: file_close_def audio_element_getdata_def fclose_def map_conv_bind_option comp_def)
    moreover have "writes_file self path info None ?w1" using h(1-9) by (simp add: writes_file_def)
    ultimately show ?thesis using True by (intro exI [of _ ?w1]) simp
  qed
qed

lemma rewind_files:
  assumes "medium_ok R F" "writes_file self path info None w"
  shows "\<exists>w'. rewind_unless_paused R self w = Some w' \<and> files w' = files w"
  using assms(2)
proof (rule writes_fileE)
  fix e l
  assume "els w self = Some e" "el_lock e = Some l"
  then show ?thesis using assms(1) rewind_paused [of w self e R] rewind_running [of R w self e l]
    by (cases "el_state e = AEL_STATE_PAUSED") (auto simp: medium_ok_def file_env_def)
qed

section \<open>What the streams do\<close>

text \<open>C19. An open reader of the SD card delivers the file from its position on, whatever reads and pauses follow: no byte is
  lost or repeated, and with enough reads the rest of the file arrives completely.\<close>

theorem file_sessions_deliver:
  assumes "file_env R F" "reads_file ''/sdcard'' self body True w"
  shows "(\<exists>w'. session (fatfs_open R F self) (file_read R self) (pause_close self (file_close R F self)) ops w =
        Some (take (byte_pos self w' - byte_pos self w) (drop (byte_pos self w) body), w') \<and> byte_pos self w \<le> byte_pos self w') \<and>
    (\<exists>w'. session (fatfs_open R F self) (file_read R self) (pause_close self (file_close R F self)) (replicate (length body) (Read (Suc n))) w =
        Some (drop (byte_pos self w) body, w'))"
proof -
  have "byte_pos self w \<le> length body" using assms(2) by (auto simp: reads_file_def byte_pos_def)
  then show ?thesis
    using fat.session_delivers [of R F self body w ops] fat.reads_finish [of R F self body w "Suc n" "length body"] assms by auto
qed

text \<open>C20. A recording that is opened at the start, filled block by block and closed is a complete WAV file: the header for the
  number of bytes written, then exactly these bytes.\<close>

theorem wav_recording_complete:
  assumes med: "medium_ok R F" and st: "writes_file self path info None w" "info_byte_pos info = 0"
    and wav: "get_type path = STREAM_TYPE_WAV"
  shows "\<exists>w'. do { (_, w) \<leftarrow> fatfs_open R F self w; w \<leftarrow> write_blocks R F self bs w; file_close R F self w } = Some (ESP_OK, w') \<and>
    files w' path = Some (fo_wav_head F (info_sample_rates info) (info_bits info) (info_channels info)
      (of_nat (length (concat bs))) @ concat bs)"
proof -
  let ?m = "magic_of F path"
  have m: "length ?m = fo_wav_size F" by (simp add: magic_of_def file_magic_def wav)
  obtain w1 where 1: "fatfs_open R F self w = Some (ESP_OK, w1)" "files w1 = (files w)(path \<mapsto> ?m)"
      "writes_file self path info (Some (length ?m)) w1"
    using open_writer_result [OF med st(1)] st(2) by auto
  have "info\<lparr>info_byte_pos := 0\<rparr> = info" using st(2) by auto
  then have "recording F self path info [] w1" using 1 by (simp add: recording_def)
  from write_blocks_record [OF med this, of bs] obtain w2 where
    2: "write_blocks R F self bs w1 = Some w2" "recording F self path info (concat bs) w2" by auto
  from 2(2) have rec: "writes_file self path (info\<lparr>info_byte_pos := of_nat (length (concat bs))\<rparr>) (Some (length (?m @ concat bs))) w2"
      "files w2 path = Some (?m @ concat bs)" by (simp_all add: recording_def)
  have uc: "ucast (word_of_nat n :: u64) = (word_of_nat n :: u32)" for n by (rule bit_word_eqI) (auto simp: bit_simps)
  obtain w3 where 3: "file_close R F self w2 = map_option (Pair ESP_OK) (rewind_unless_paused R self w3)"
      "writes_file self path (info\<lparr>info_byte_pos := of_nat (length (concat bs))\<rparr>) None w3"
      "files w3 path = Some (fo_wav_head F (info_sample_rates info) (info_bits info) (info_channels info)
      (of_nat (length (concat bs))) @ concat bs)"
    using file_close_writer [OF med rec] m wav by (auto simp: uc)
  obtain w' where "rewind_unless_paused R self w3 = Some w'" "files w' = files w3" using rewind_files [OF med 3(2)] by blast
  with 1 2 3 show ?thesis by (intro exI [of _ w']) simp
qed

text \<open>A recording that is paused loses what it holds when it is resumed: the file is created anew with nothing but the
  bytes a new file starts with, while the position goes on behind the lost data.\<close>

theorem writer_resume_truncates:
  assumes med: "medium_ok R F" and rec: "recording F self path info data w" and len: "0 < length data" "length data < 2 ^ 31"
    and paused: "map_option el_state (els w self) = Some AEL_STATE_PAUSED"
  shows "\<exists>w'. do { (_, w) \<leftarrow> file_close R F self w; fatfs_open R F self w } = Some (ESP_OK, w') \<and>
    files w' path = Some (magic_of F path) \<and>
    writes_file self path (info\<lparr>info_byte_pos := of_nat (length data)\<rparr>) (Some (length data)) w'"
proof -
  let ?i = "info\<lparr>info_byte_pos := of_nat (length data)\<rparr>"
  have st: "writes_file self path ?i (Some (length (magic_of F path @ data))) w" "files w path = Some (magic_of F path @ data)"
    using rec by (simp_all add: recording_def)
  have "get_type path = STREAM_TYPE_WAV \<Longrightarrow> fo_wav_size F \<le> length (magic_of F path @ data)"
    by (simp add: magic_of_def file_magic_def)
  from file_close_writer [OF med st this] obtain w1 where
    1: "file_close R F self w = map_option (Pair ESP_OK) (rewind_unless_paused R self w1)" "writes_file self path ?i None w1" "els w1 = els w"
    by blast
  then have 2: "rewind_unless_paused R self w1 = Some w1" using paused by (auto intro: rewind_paused)
  have n: "unat (word_of_nat (length data) :: u64) = length data"
    using len(2) by (simp add: unat_of_nat take_bit_nat_eq_self unsigned_of_nat)
  then have "word_of_nat (length data) \<noteq> (0 :: u64)" using len(1) by (metis less_irrefl unat_0)
  then show ?thesis using open_writer_result [OF med 1(2)] 1(1) 2 n len(2) by auto
qed

section \<open>A concrete file\<close>

definition demo_file_ops :: "'w file_ops" where
  "demo_file_ops = \<lparr>fo_handle = (\<lambda>path w. Some 7), fo_room = (\<lambda>path n w. n), fo_gap = (\<lambda>n. 0), fo_wav_size = 2,
     fo_wav_head = (\<lambda>sr b c n. [82, ucast n])\<rparr>"

definition demo_file_info :: "nat \<Rightarrow> audio_element_info" where
  "demo_file_info p = AUDIO_ELEMENT_INFO_DEFAULT\<lparr>info_uri := Some 5, info_byte_pos := of_nat p\<rparr>"

definition demo_file_world :: "audio_stream_type \<Rightarrow> u8 list \<Rightarrow> nat \<Rightarrow> nat option \<Rightarrow> fl_world" where
  "demo_file_world ty body p fpos = \<lparr>rbs = Map.empty, ifs = Map.empty,
     els = [1 \<mapsto> el_zero\<lparr>el_lock := Some 2, el_data := 3, el_info := demo_file_info p, el_state := AEL_STATE_PAUSED\<rparr>],
     strs = [5 \<mapsto> ''file://sdcard/a.wav''], files = [''/sdcard/a.wav'' \<mapsto> body],
     fps = (case fpos of None \<Rightarrow> Map.empty | Some q \<Rightarrow> [7 \<mapsto> \<lparr>fl_path = ''/sdcard/a.wav'', fl_pos = q\<rparr>]),
     fsts = [3 \<mapsto> \<lparr>fs_type = ty, fs_block_size = 0, fs_is_open = (fpos \<noteq> None), fs_file = map_option (\<lambda>_. 7) fpos,
                   fs_w_type = STREAM_TYPE_WAV\<rparr>],
     raws = Map.empty\<rparr>"

lemma demo_mount: "strstr ''file://sdcard/a.wav'' ''/sdcard'' = Some 6" "drop 6 ''file://sdcard/a.wav'' = ''/sdcard/a.wav''"
  by code_simp+

lemma demo_wav: "get_type ''/sdcard/a.wav'' = STREAM_TYPE_WAV"
  by code_simp

lemma demo_medium: "file_env (seq_platform (Some 9)) demo_file_ops" "medium_ok (seq_platform (Some 9)) demo_file_ops"
  by (simp_all add: medium_ok_def file_env_def free_locks_seq demo_file_ops_def)

lemma demo_reader: "reads_file ''/sdcard'' 1 [10, 20, 30] True (demo_file_world AUDIO_STREAM_READER [10, 20, 30] 1 (Some 1))"
  by (simp add: reads_file_def demo_file_world_def demo_file_info_def demo_mount)

lemma demo_writer: "writes_file 1 ''/sdcard/a.wav'' (demo_file_info p) fpos (demo_file_world AUDIO_STREAM_WRITER body p fpos)"
  by (auto simp: writes_file_def demo_file_world_def demo_file_info_def demo_mount demo_wav)

lemma file_sessions_deliver_witness:
  "\<exists>w'. session (fatfs_open (seq_platform (Some 9)) demo_file_ops 1) (file_read (seq_platform (Some 9)) 1)
      (pause_close 1 (file_close (seq_platform (Some 9)) demo_file_ops 1)) (replicate 3 (Read 1))
      (demo_file_world AUDIO_STREAM_READER [10, 20, 30] 1 (Some 1)) = Some ([20, 30], w')"
proof -
  have pos: "byte_pos 1 (demo_file_world AUDIO_STREAM_READER [10, 20, 30] 1 (Some 1)) = 1"
    by (simp add: byte_pos_def demo_file_world_def demo_file_info_def)
  have len: "length [10, 20, 30 :: u8] = 3" "Suc 0 = 1" "drop 1 [10, 20, 30 :: u8] = [20, 30]" by simp_all
  show ?thesis using file_sessions_deliver [OF demo_medium(1) demo_reader, of "[]" 0] unfolding pos len by blast
qed

lemma wav_recording_complete_witness:
  "\<exists>w'. do { (_, w) \<leftarrow> fatfs_open (seq_platform (Some 9)) demo_file_ops 1 (demo_file_world AUDIO_STREAM_WRITER [] 0 None);
      w \<leftarrow> write_blocks (seq_platform (Some 9)) demo_file_ops 1 [[1, 2], [3]] w;
      file_close (seq_platform (Some 9)) demo_file_ops 1 w } = Some (ESP_OK, w') \<and>
    files w' ''/sdcard/a.wav'' = Some [82, 3, 1, 2, 3]"
  using wav_recording_complete [OF demo_medium(2) demo_writer [of 0 None "[]"] _ demo_wav, of "[[1, 2], [3]]"]
  by (simp add: demo_file_info_def demo_file_ops_def)

lemma writer_resume_truncates_witness:
  "\<exists>w'. do { (_, w) \<leftarrow> file_close (seq_platform (Some 9)) demo_file_ops 1 (demo_file_world AUDIO_STREAM_WRITER [0, 0, 1, 2, 3] 3 (Some 5));
      fatfs_open (seq_platform (Some 9)) demo_file_ops 1 w } = Some (ESP_OK, w') \<and>
    files w' ''/sdcard/a.wav'' = Some [0, 0]"
proof -
  have m: "magic_of (demo_file_ops :: fl_world file_ops) ''/sdcard/a.wav'' = [0, 0]"
    by (simp add: magic_of_def demo_wav file_magic_def demo_file_ops_def numeral_eq_Suc)
  have "recording demo_file_ops 1 ''/sdcard/a.wav'' (demo_file_info 0) [1, 2, 3] (demo_file_world AUDIO_STREAM_WRITER [0, 0, 1, 2, 3] 3 (Some 5))"
    using demo_writer [of 3 "Some 5" "[0, 0, 1, 2, 3]"]
    by (simp add: recording_def m) (simp add: demo_file_info_def demo_file_world_def numeral_eq_Suc)
  from writer_resume_truncates [OF demo_medium(2) this] show ?thesis
    by (simp add: m) (simp add: demo_file_world_def cong: conj_cong, blast?)
qed

end
