(* ===== verification/Http_Stream.thy ===== *)
theory Http_Stream
  imports Stream_Base Http_Playlist
begin

text \<open>
  The HTTP stream (\<open>components/audio_stream/http_stream.c\<close>), its playlist parser apart: opening a connection, with
  redirects, ranges and playlists, reading, writing and closing, and the tracks of a playlist. The operations of the
  HTTP client and the hook of the application are the parameter \<open>http_ops\<close>. A string an address points to is read when
  the pointer is taken: the hook does not free the address of the connection that is being opened.
\<close>

section \<open>Types\<close>

datatype http_stream_event_id =
  HTTP_STREAM_PRE_REQUEST | HTTP_STREAM_ON_REQUEST | HTTP_STREAM_ON_RESPONSE | HTTP_STREAM_POST_REQUEST
| HTTP_STREAM_FINISH_REQUEST | HTTP_STREAM_RESOLVE_ALL_TRACKS | HTTP_STREAM_FINISH_TRACK | HTTP_STREAM_FINISH_PLAYLIST

record http_stream_event_msg =
  hm_event_id :: http_stream_event_id
  hm_http_client :: "addr option"
  hm_buffer :: "u8 list option"
  hm_buffer_len :: int
  hm_user_data :: addr
  hm_el :: el_handle

record http_stream =
  ht_type :: audio_stream_type
  ht_is_open :: bool
  ht_client :: "addr option"
  ht_hook :: "fnptr option"
  ht_stream_type :: audio_stream_type
  ht_user_data :: addr
  ht_enable_playlist_parser :: bool
  ht_is_playlist_resolved :: bool
  ht_playlist :: "playlist option"

record ht_world = el_world +
  hts :: "addr \<Rightarrow> http_stream option"

type_synonym 'z htw = "'z ht_world_scheme"

text \<open>
  The client: a connection is opened for a number of bytes to send, \<open>hc_fetch_headers\<close> gives the content length and the
  header lines, for each of which the client calls the event handler, and \<open>hc_read\<close> a count with that many bytes. The
  hook gives its result and the contents of the buffer after the call.
\<close>

record 'w http_ops =
  hc_init :: "string \<Rightarrow> 'w \<Rightarrow> addr option \<times> 'w"
  hc_set_url :: "addr \<Rightarrow> string \<Rightarrow> 'w \<Rightarrow> 'w"
  hc_set_header :: "addr \<Rightarrow> string \<Rightarrow> string \<Rightarrow> 'w \<Rightarrow> 'w"
  hc_get_post_field :: "addr \<Rightarrow> 'w \<Rightarrow> int \<times> u8 list option"
  hc_open :: "addr \<Rightarrow> int \<Rightarrow> 'w \<Rightarrow> esp_err \<times> 'w"
  hc_write :: "addr \<Rightarrow> u8 list \<Rightarrow> 'w \<Rightarrow> int \<times> 'w"
  hc_read :: "addr \<Rightarrow> nat \<Rightarrow> 'w \<Rightarrow> (int \<times> u8 list) \<times> 'w"
  hc_fetch_headers :: "addr \<Rightarrow> 'w \<Rightarrow> (int \<times> (string \<times> string) list) \<times> 'w"
  hc_get_status_code :: "addr \<Rightarrow> 'w \<Rightarrow> int"
  hc_set_redirection :: "addr \<Rightarrow> 'w \<Rightarrow> 'w"
  hc_close :: "addr \<Rightarrow> 'w \<Rightarrow> 'w"
  hc_cleanup :: "addr \<Rightarrow> 'w \<Rightarrow> 'w"
  hs_hook :: "fnptr \<Rightarrow> http_stream_event_msg \<Rightarrow> 'w \<Rightarrow> ((int \<times> u8 list option) \<times> 'w) option"

definition ht_upd :: "addr \<Rightarrow> (http_stream \<Rightarrow> http_stream) \<Rightarrow> 'z htw \<Rightarrow> 'z htw option" where
  "ht_upd a f w = (case hts w a of None \<Rightarrow> None | Some s \<Rightarrow> Some (w\<lparr>hts := (hts w)(a \<mapsto> f s)\<rparr>))"

lemma ht_upd_Some [simp]: "hts w a = Some s \<Longrightarrow> ht_upd a f w = Some (w\<lparr>hts := (hts w)(a \<mapsto> f s)\<rparr>)"
  by (simp add: ht_upd_def)

interpretation ht_store: object_store hts ht_upd
  by unfold_locales (auto simp: ht_upd_def split: option.splits)

text \<open>The stream behind an element, and its client.\<close>

definition http_of :: "el_handle \<Rightarrow> 'z htw \<Rightarrow> http_stream option" where
  "http_of self w = do { a \<leftarrow> audio_element_getdata self w; hts w a }"

definition http_upd :: "el_handle \<Rightarrow> (http_stream \<Rightarrow> http_stream) \<Rightarrow> 'z htw \<Rightarrow> 'z htw option" where
  "http_upd self f w = do { a \<leftarrow> audio_element_getdata self w; ht_upd a f w }"

definition client_of :: "el_handle \<Rightarrow> 'z htw \<Rightarrow> addr option" where
  "client_of self w = do { http \<leftarrow> http_of self w; ht_client http }"

section \<open>Events\<close>

fun codec_num :: "audio_codec \<Rightarrow> int" where
  "codec_num AUDIO_CODEC_NONE = 0"
| "codec_num AUDIO_CODEC_RAW = 1"
| "codec_num AUDIO_CODEC_WAV = 2"
| "codec_num AUDIO_CODEC_MP3 = 3"
| "codec_num AUDIO_CODEC_AAC = 4"
| "codec_num AUDIO_CODEC_OPUS = 5"
| "codec_num AUDIO_PLAYLIST = 6"

definition codec_of :: "int \<Rightarrow> audio_codec" where
  "codec_of n = (if n = 6 then AUDIO_PLAYLIST else AUDIO_CODEC_NONE)"

text \<open>The handler for a header line: a content type sets the format in the info it was given.\<close>

definition http_event_handle :: "string \<times> string \<Rightarrow> audio_element_info \<Rightarrow> audio_element_info" where
  "http_event_handle h info =
     (if strcaseeq (fst h) ''Content-Type'' then info\<lparr>info_codec_fmt := codec_num (get_audio_type (snd h))\<rparr> else info)"

text \<open>The events of all header lines. The info is a local variable of the call of \<open>_http_open\<close> that created the client;
  an event that writes it after that call returned, for a client that was kept (\<open>own\<close> is false), is undefined.\<close>

definition http_headers :: "bool \<Rightarrow> (string \<times> string) list \<Rightarrow> audio_element_info \<Rightarrow> audio_element_info option" where
  "http_headers own hs info =
     (if own then Some (fold http_event_handle hs info)
      else if \<exists>h\<in>set hs. strcaseeq (fst h) ''Content-Type'' then None
      else Some info)"

definition dispatch_hook ::
  "'z htw http_ops \<Rightarrow> el_handle \<Rightarrow> http_stream_event_id \<Rightarrow> u8 list option \<Rightarrow> int \<Rightarrow> 'z htw
     \<Rightarrow> ((int \<times> u8 list option) \<times> 'z htw) option" where
  "dispatch_hook H self ty buffer buffer_len w = do {
     http \<leftarrow> http_of self w;
     case ht_hook http of
       None \<Rightarrow> Some ((ESP_OK, buffer), w)
     | Some f \<Rightarrow> hs_hook H f \<lparr>hm_event_id = ty, hm_http_client = ht_client http, hm_buffer = buffer,
                  hm_buffer_len = buffer_len, hm_user_data = ht_user_data http, hm_el = self\<rparr> w
   }"

section \<open>Tracks\<close>

definition playlist_get_next_track :: "el_handle \<Rightarrow> 'z htw \<Rightarrow> nat option option" where
  "playlist_get_next_track self w = do {
     http \<leftarrow> http_of self w;
     if ht_enable_playlist_parser http \<and> ht_is_playlist_resolved http
     then do { p \<leftarrow> ht_playlist http; Some (first_unplayed (py_tracks p)) }
     else Some None
   }"

text \<open>\<open>_playlist_clear\<close> and the reset of the resolved flag that follows it everywhere.\<close>

definition forget_playlist :: "el_handle \<Rightarrow> 'z htw \<Rightarrow> 'z htw option" where
  "forget_playlist self w = do {
     http \<leftarrow> http_of self w;
     p \<leftarrow> ht_playlist http;
     http_upd self (\<lambda>h. h\<lparr>ht_playlist := Some (playlist_clear p), ht_is_playlist_resolved := False\<rparr>) w
   }"

text \<open>\<open>_resolve_playlist\<close> on the stream of an element.\<close>

definition resolve_read :: "'w http_ops \<Rightarrow> addr \<Rightarrow> 'w client_read" where
  "resolve_read H c n w = (let ((rlen, data), w) = hc_read H c n w in ((rlen, map (\<lambda>b. char_of (unat b)) data), w))"

definition http_resolve_playlist ::
  "'z htw platform \<Rightarrow> 'z htw http_ops \<Rightarrow> el_handle \<Rightarrow> string \<Rightarrow> 'z htw \<Rightarrow> (esp_err \<times> 'z htw) option" where
  "http_resolve_playlist R H self uri w = do {
     (info, w) \<leftarrow> el_getinfo R self w;
     http \<leftarrow> http_of self w;
     c \<leftarrow> ht_client http;
     ((err, p), w) \<leftarrow> resolve_playlist R (resolve_read H c) (codec_of (info_codec_fmt info)) (int_of_u64 (info_total_bytes info))
        (ht_is_playlist_resolved http) uri (ht_playlist http) w;
     w \<leftarrow> http_upd self (\<lambda>h. h\<lparr>ht_playlist := p\<rparr>) w;
     Some (err, w)
   }"

section \<open>Opening\<close>

definition range_header :: "u64 \<Rightarrow> string" where
  "range_header pos = take 31 (''bytes='' @ int_dec (int_of_u64 pos) @ ''-'')"

text \<open>The client for an address: a new one, or the one that was kept. The flag tells which.\<close>

definition prepare_client ::
  "'z htw http_ops \<Rightarrow> el_handle \<Rightarrow> string \<Rightarrow> 'z htw \<Rightarrow> ((bool \<times> addr option) \<times> 'z htw) option" where
  "prepare_client H self uri w = do {
     http \<leftarrow> http_of self w;
     case ht_client http of
       None \<Rightarrow> do {
         let (c, w) = hc_init H uri w;
         w \<leftarrow> http_upd self (\<lambda>h. h\<lparr>ht_client := c\<rparr>) w;
         Some ((True, c), w)
       }
     | Some c \<Rightarrow> Some ((False, Some c), hc_set_url H c uri w)
   }"

text \<open>From \<open>_stream_redirect\<close> on: a request and its answer, again for every redirection.\<close>

partial_function (option) http_request ::
  "'z htw http_ops \<Rightarrow> el_handle \<Rightarrow> bool \<Rightarrow> int \<Rightarrow> u8 list option \<Rightarrow> audio_element_info \<Rightarrow> 'z htw
     \<Rightarrow> ((esp_err + audio_element_info \<times> int) \<times> 'z htw) option" where
  "http_request H self own post_len buffer info w = do {
     c \<leftarrow> client_of self w;
     let (err, w) = hc_open H c post_len w;
     if err \<noteq> ESP_OK then Some (Inl err, w)
     else do {
       ((wrlen, buffer), w) \<leftarrow> dispatch_hook H self HTTP_STREAM_ON_REQUEST buffer post_len w;
       if wrlen < 0 then Some (Inl ESP_FAIL, w)
       else do {
         c \<leftarrow> client_of self w;
         let (sent, w) = (case buffer of
             Some b \<Rightarrow> if post_len \<noteq> 0 \<and> wrlen = 0 then hc_write H c b w else (1, w)
           | None \<Rightarrow> (1, w));
         if sent \<le> 0 then Some (Inl ESP_FAIL, w)
         else do {
           ((r, _), w) \<leftarrow> dispatch_hook H self HTTP_STREAM_POST_REQUEST None 0 w;
           c \<leftarrow> client_of self w;
           if r < 0 then Some (Inl ESP_FAIL, hc_close H c w)
           else do {
             let ((total, hs), w) = hc_fetch_headers H c w;
             info \<leftarrow> http_headers own hs info;
             let info = info\<lparr>info_total_bytes := word_of_int total\<rparr>;
             let status_code = hc_get_status_code H c w;
             if status_code = 301 \<or> status_code = 302
             then http_request H self own post_len buffer info (hc_set_redirection H c w)
             else Some (Inr (info, status_code), w)
           }
         }
       }
     }
   }"

text \<open>What follows a response: \<open>None\<close> inside means to begin again, with the info so far.\<close>

definition http_response ::
  "'z htw platform \<Rightarrow> 'z htw http_ops \<Rightarrow> el_handle \<Rightarrow> string \<Rightarrow> audio_element_info \<Rightarrow> int \<Rightarrow> 'z htw
     \<Rightarrow> (esp_err option \<times> 'z htw) option" where
  "http_response R H self uri info status_code w = do {
     http \<leftarrow> http_of self w;
     if status_code \<noteq> 200 \<and> status_code \<noteq> 206 \<and> ht_enable_playlist_parser http then do {
       w \<leftarrow> forget_playlist self w;
       Some (Some ESP_FAIL, w)
     } else do {
       (_, w) \<leftarrow> el_setinfo R self info w;
       (err, w) \<leftarrow> http_resolve_playlist R H self uri w;
       if err = ESP_OK then do {
         w \<leftarrow> http_upd self (\<lambda>h. h\<lparr>ht_is_playlist_resolved := True\<rparr>) w;
         Some (None, w)
       } else do {
         w \<leftarrow> http_upd self (\<lambda>h. h\<lparr>ht_is_open := True\<rparr>) w;
         (_, w) \<leftarrow> audio_element_report_codec_fmt R (Some self) w;
         Some (Some ESP_OK, w)
       }
     }
   }"

text \<open>One connection, from the choice of the client on.\<close>

definition http_connect ::
  "'z htw platform \<Rightarrow> 'z htw http_ops \<Rightarrow> el_handle \<Rightarrow> bool \<Rightarrow> audio_element_info \<Rightarrow> string \<Rightarrow> 'z htw
     \<Rightarrow> ((esp_err + bool \<times> audio_element_info) \<times> 'z htw) option" where
  "http_connect R H self own info uri w = do {
     ((fresh, c), w) \<leftarrow> prepare_client H self uri w;
     case c of
       None \<Rightarrow> Some (Inl ESP_ERR_NO_MEM, w)
     | Some c \<Rightarrow> do {
         let own = (own \<or> fresh);
         let w = (if info_byte_pos info \<noteq> 0 then hc_set_header H c ''Range'' (range_header (info_byte_pos info)) w else w);
         ((r, _), w) \<leftarrow> dispatch_hook H self HTTP_STREAM_PRE_REQUEST None 0 w;
         if r \<noteq> ESP_OK then Some (Inl ESP_FAIL, w)
         else do {
           http \<leftarrow> http_of self w;
           c \<leftarrow> ht_client http;
           if ht_stream_type http = AUDIO_STREAM_WRITER then do {
             let (err, w) = hc_open H c (-1) w;
             w \<leftarrow> (if err = ESP_OK then http_upd self (\<lambda>h. h\<lparr>ht_is_open := True\<rparr>) w else Some w);
             Some (Inl err, w)
           } else do {
             let (post_len, buffer) = hc_get_post_field H c w;
             (res, w) \<leftarrow> http_request H self own post_len buffer info w;
             case res of
               Inl err \<Rightarrow> Some (Inl err, w)
             | Inr (info, status_code) \<Rightarrow> do {
                 (res, w) \<leftarrow> http_response R H self uri info status_code w;
                 Some (case res of Some err \<Rightarrow> Inl err | None \<Rightarrow> Inr (own, info), w)
               }
           }
         }
       }
   }"

text \<open>From \<open>_stream_open_begin\<close> on: the next track of the playlist, or the address of the element.\<close>

partial_function (option) http_open_begin ::
  "'z htw platform \<Rightarrow> 'z htw http_ops \<Rightarrow> el_handle \<Rightarrow> bool \<Rightarrow> audio_element_info \<Rightarrow> 'z htw \<Rightarrow> (esp_err \<times> 'z htw) option" where
  "http_open_begin R H self own info w = do {
     track \<leftarrow> playlist_get_next_track self w;
     http \<leftarrow> http_of self w;
     if track = None \<and> ht_is_playlist_resolved http \<and> ht_enable_playlist_parser http then do {
       ((r, _), w) \<leftarrow> dispatch_hook H self HTTP_STREAM_FINISH_PLAYLIST None 0 w;
       if r \<noteq> ESP_OK then Some (ESP_FAIL, w) else http_open_begin R H self own info w
     } else do {
       uri \<leftarrow> (case track of
           Some i \<Rightarrow> do { p \<leftarrow> ht_playlist http; Some (Some (tr_uri (py_tracks p ! i))) }
         | None \<Rightarrow> el_uri self w);
       case uri of
         None \<Rightarrow> Some (ESP_FAIL, w)
       | Some uri \<Rightarrow> do {
           (res, w) \<leftarrow> http_connect R H self own info uri w;
           case res of
             Inl err \<Rightarrow> Some (err, w)
           | Inr (own, info) \<Rightarrow> http_open_begin R H self own info w
         }
     }
   }"

definition http_open ::
  "'z htw platform \<Rightarrow> 'z htw http_ops \<Rightarrow> el_handle \<Rightarrow> 'z htw \<Rightarrow> (esp_err \<times> 'z htw) option" where
  "http_open R H self w = do {
     (info, w) \<leftarrow> el_getinfo R self w;
     http \<leftarrow> http_of self w;
     if ht_is_open http then Some (ESP_FAIL, w) else http_open_begin R H self False info w
   }"

section \<open>Reading, writing and closing\<close>

definition http_read ::
  "'z htw platform \<Rightarrow> 'z htw http_ops \<Rightarrow> el_handle \<Rightarrow> u8 list \<Rightarrow> nat \<Rightarrow> 'z htw \<Rightarrow> ((int \<times> u8 list) \<times> 'z htw) option" where
  "http_read R H self buffer len w = do {
     (info, w) \<leftarrow> el_getinfo R self w;
     ((wrlen, buffer), w) \<leftarrow> dispatch_hook H self HTTP_STREAM_ON_RESPONSE (Some buffer) (int len) w;
     ((rlen, data), w) \<leftarrow> (if wrlen = 0 then do { c \<leftarrow> client_of self w; Some (hc_read H c len w) }
        else do { b \<leftarrow> buffer; Some ((wrlen, take (nat wrlen) b), w) });
     if rlen \<le> 0 then do {
       ((r, _), w) \<leftarrow> dispatch_hook H self HTTP_STREAM_FINISH_TRACK None 0 w;
       Some ((if r \<noteq> ESP_OK then ESP_FAIL else ESP_OK, []), w)
     } else do {
       (_, w) \<leftarrow> el_setinfo R self (advance rlen info) w;
       Some ((rlen, data), w)
     }
   }"

definition http_write ::
  "'z htw http_ops \<Rightarrow> el_handle \<Rightarrow> u8 list \<Rightarrow> 'z htw \<Rightarrow> (int \<times> 'z htw) option" where
  "http_write H self buffer w = do {
     ((wrlen, buf), w) \<leftarrow> dispatch_hook H self HTTP_STREAM_ON_REQUEST (Some buffer) (int (length buffer)) w;
     if wrlen < 0 then Some (ESP_FAIL, w)
     else if wrlen > 0 then Some (wrlen, w)
     else do { c \<leftarrow> client_of self w; b \<leftarrow> buf; Some (hc_write H c b w) }
   }"

definition http_process :: "'z htw platform \<Rightarrow> el_handle \<Rightarrow> int \<Rightarrow> 'z htw \<Rightarrow> (int \<times> 'z htw) option" where
  "http_process R self in_len w = stream_process R True self in_len w"

text \<open>The loop of \<open>_http_close\<close>, which goes round only when a hook opens the stream again.\<close>

partial_function (option) http_close_loop ::
  "'z htw http_ops \<Rightarrow> el_handle \<Rightarrow> 'z htw \<Rightarrow> 'z htw option" where
  "http_close_loop H self w = do {
     http \<leftarrow> http_of self w;
     if \<not> ht_is_open http then Some w
     else do {
       w \<leftarrow> http_upd self (\<lambda>h. h\<lparr>ht_is_open := False\<rparr>) w;
       if ht_stream_type http \<noteq> AUDIO_STREAM_WRITER then Some w
       else do {
         ((r, _), w) \<leftarrow> dispatch_hook H self HTTP_STREAM_POST_REQUEST None 0 w;
         if r < 0 then Some w
         else do {
           c \<leftarrow> client_of self w;
           let (_, w) = hc_fetch_headers H c w;
           ((r, _), w) \<leftarrow> dispatch_hook H self HTTP_STREAM_FINISH_REQUEST None 0 w;
           if r < 0 then Some w else http_close_loop H self w
         }
       }
     }
   }"

definition http_close ::
  "'z htw platform \<Rightarrow> 'z htw http_ops \<Rightarrow> el_handle \<Rightarrow> 'z htw \<Rightarrow> (esp_err \<times> 'z htw) option" where
  "http_close R H self w = do {
     w \<leftarrow> http_close_loop H self w;
     http \<leftarrow> http_of self w;
     w \<leftarrow> (if ht_enable_playlist_parser http then forget_playlist self w else Some w);
     http \<leftarrow> http_of self w;
     w \<leftarrow> (case ht_client http of
         None \<Rightarrow> Some w
       | Some c \<Rightarrow> http_upd self (\<lambda>h. h\<lparr>ht_client := None\<rparr>) (hc_cleanup H c (hc_close H c w)));
     w \<leftarrow> rewind_unless_paused R self w;
     Some (ESP_OK, w)
   }"

definition http_destroy :: "el_handle \<Rightarrow> 'z htw \<Rightarrow> (esp_err \<times> 'z htw) option" where
  "http_destroy self w = do {
     a \<leftarrow> audio_element_getdata self w;
     _ \<leftarrow> hts w a;
     Some (ESP_OK, w\<lparr>hts := (hts w)(a := None)\<rparr>)
   }"

section \<open>Initialisation\<close>

record http_stream_cfg =
  hsc_type :: audio_stream_type
  hsc_out_rb_size :: int
  hsc_task_stack :: int
  hsc_task_core :: int
  hsc_task_prio :: int
  hsc_event_handle :: "fnptr option"
  hsc_user_data :: addr
  hsc_enable_playlist_parser :: bool

record http_callbacks =
  hcb_open :: fnptr
  hcb_close :: fnptr
  hcb_process :: fnptr
  hcb_destroy :: fnptr
  hcb_read :: fnptr
  hcb_write :: fnptr

definition http_element_cfg :: "http_callbacks \<Rightarrow> http_stream_cfg \<Rightarrow> audio_element_cfg" where
  "http_element_cfg cbs config =
     (let cfg = DEFAULT_AUDIO_ELEMENT_CONFIG\<lparr>cfg_open := Some (hcb_open cbs), cfg_close := Some (hcb_close cbs),
         cfg_process := Some (hcb_process cbs), cfg_destroy := Some (hcb_destroy cbs),
         cfg_task_stack := hsc_task_stack config, cfg_task_prio := hsc_task_prio config,
         cfg_task_core := hsc_task_core config, cfg_out_rb_size := hsc_out_rb_size config,
         cfg_enable_multi_io := True, cfg_tag := Some ''http''\<rparr> in
      case hsc_type config of
        AUDIO_STREAM_READER \<Rightarrow> cfg\<lparr>cfg_read := Some (hcb_read cbs)\<rparr>
      | AUDIO_STREAM_WRITER \<Rightarrow> cfg\<lparr>cfg_write := Some (hcb_write cbs)\<rparr>
      | AUDIO_STREAM_NONE \<Rightarrow> cfg)"

text \<open>The playlist of a stream with a parser, its struct and its buffer allocated; \<open>None\<close> when that fails.\<close>

definition playlist_zero :: playlist where
  "playlist_zero = \<lparr>py_data = replicate (MAX_PLAYLIST_LINE_SIZE + 1) NUL, py_index = 0, py_remain = 0, py_total_read = 0,
     py_tracks = [], py_total_tracks = 0, py_content_length = 0\<rparr>"

definition alloc_playlist :: "'w platform \<Rightarrow> bool \<Rightarrow> 'w \<Rightarrow> playlist option option \<times> 'w" where
  "alloc_playlist R enable w =
     (if \<not> enable then (Some None, w)
      else case heap_alloc R 32 w of
        (None, w) \<Rightarrow> (None, w)
      | (Some _, w) \<Rightarrow> (case heap_alloc R (MAX_PLAYLIST_LINE_SIZE + 1) w of
          (None, w) \<Rightarrow> (None, w)
        | (Some _, w) \<Rightarrow> (Some (Some playlist_zero), w)))"

definition http_stream_init ::
  "'z htw platform \<Rightarrow> http_callbacks \<Rightarrow> http_stream_cfg \<Rightarrow> 'z htw \<Rightarrow> (el_handle option \<times> 'z htw) option" where
  "http_stream_init R cbs config w =
     (case heap_alloc R 36 w of
        (None, w) \<Rightarrow> Some (None, w)
      | (Some a, w) \<Rightarrow>
          (case alloc_playlist R (hsc_enable_playlist_parser config) w of
             (None, w) \<Rightarrow> Some (None, w)
           | (Some p, w) \<Rightarrow> do {
               let w = w\<lparr>hts := (hts w)(a \<mapsto> \<lparr>ht_type = hsc_type config, ht_is_open = False, ht_client = None,
                          ht_hook = hsc_event_handle config, ht_stream_type = hsc_type config,
                          ht_user_data = hsc_user_data config,
                          ht_enable_playlist_parser = hsc_enable_playlist_parser config,
                          ht_is_playlist_resolved = False, ht_playlist = p\<rparr>)\<rparr>;
               (el, w) \<leftarrow> audio_element_init R (http_element_cfg cbs config) w;
               case el of
                 None \<Rightarrow> Some (None, w\<lparr>hts := (hts w)(a := None)\<rparr>)
               | Some el \<Rightarrow> do { (_, w) \<leftarrow> audio_element_setdata el a w; Some (Some el, w) }
             }))"

section \<open>Moving on in a playlist\<close>

text \<open>The track that was played is marked, and removed when the list is long.\<close>

definition finish_track :: "nat \<Rightarrow> playlist \<Rightarrow> playlist" where
  "finish_track i p =
     (if py_total_tracks p > MAX_PLAYLIST_KEEP_TRACK
      then p\<lparr>py_tracks := take i (py_tracks p) @ drop (Suc i) (py_tracks p), py_total_tracks := py_total_tracks p - 1\<rparr>
      else p\<lparr>py_tracks := (py_tracks p)[i := (py_tracks p ! i)\<lparr>tr_is_played := True\<rparr>]\<rparr>)"

definition http_stream_next_track :: "'z htw platform \<Rightarrow> el_handle \<Rightarrow> 'z htw \<Rightarrow> (esp_err \<times> 'z htw) option" where
  "http_stream_next_track R el w = do {
     track \<leftarrow> playlist_get_next_track el w;
     case track of
       None \<Rightarrow> Some (ESP_OK, w)
     | Some i \<Rightarrow> do {
         w \<leftarrow> http_upd el (\<lambda>h. h\<lparr>ht_playlist := map_option (finish_track i) (ht_playlist h)\<rparr>) w;
         (_, w) \<leftarrow> audio_element_reset_state el w;
         (info, w) \<leftarrow> el_getinfo R el w;
         (_, w) \<leftarrow> el_setinfo R el (info\<lparr>info_byte_pos := 0, info_total_bytes := 0\<rparr>) w;
         w \<leftarrow> http_upd el (\<lambda>h. h\<lparr>ht_is_open := False\<rparr>) w;
         Some (ESP_OK, w)
       }
   }"

definition http_stream_restart :: "el_handle \<Rightarrow> 'z htw \<Rightarrow> (esp_err \<times> 'z htw) option" where
  "http_stream_restart el w = do {
     w \<leftarrow> http_upd el (\<lambda>h. h\<lparr>ht_is_playlist_resolved := False\<rparr>) w;
     Some (ESP_OK, w)
   }"

end
