(* ===== verification/Http_Stream_Correct.thy ===== *)
theory Http_Stream_Correct
  imports Http_Stream
begin

text \<open>
  Correctness of the HTTP stream. A reader whose server honours ranges is a resumable stream; the tracks of a playlist
  are taken in order, each once; closing leaves nothing open. The theorems at the end show where the code does not do
  what it means to: positions beyond two gigabytes, error pages, and clients that are kept for the next track.
\<close>

section \<open>Decimal numbers\<close>

definition dec_value :: "string \<Rightarrow> nat" where
  "dec_value s = foldl (\<lambda>n c. 10 * n + (of_char c - 48)) 0 s"

lemma dec_value_snoc: "dec_value (s @ [c]) = 10 * dec_value s + (of_char c - 48)"
  by (simp add: dec_value_def)

lemma of_char_digit: "n < 10 \<Longrightarrow> (of_char (char_of (48 + n) :: char) :: nat) = 48 + n"
  by simp

lemma dec_value_nat_dec: "dec_value (nat_dec n) = n"
proof (induction n rule: nat_dec.induct)
  case (1 n)
  show ?case
  proof (cases "n < 10")
    case True
    then show ?thesis by (subst nat_dec.simps) (simp add: dec_value_def)
  next
    case False
    with 1 have "dec_value (nat_dec (n div 10)) = n div 10" by blast
    with False show ?thesis by (subst nat_dec.simps) (simp add: dec_value_snoc)
  qed
qed

lemma nat_dec_digits: "c \<in> set (nat_dec n) \<Longrightarrow> 48 \<le> (of_char c :: nat) \<and> (of_char c :: nat) < 58"
proof (induction n rule: nat_dec.induct)
  case (1 n)
  show ?case using 1(2) by (subst (asm) nat_dec.simps) (auto split: if_splits dest: 1(1))
qed

lemma nat_dec_length: "n < 10 ^ Suc k \<Longrightarrow> length (nat_dec n) \<le> Suc k"
proof (induction k arbitrary: n)
  case 0
  then show ?case by (subst nat_dec.simps) simp
next
  case (Suc k)
  then have "n div 10 < 10 ^ Suc k" by (simp add: div_less_iff_less_mult)
  with Suc.IH show ?case by (subst nat_dec.simps) simp
qed

text \<open>The server's reading of a range header.\<close>

definition range_start :: "string \<Rightarrow> nat option" where
  "range_start v = (if take 6 v = ''bytes='' \<and> last v = CHR ''-'' \<and>
       list_all (\<lambda>c. 48 \<le> (of_char c :: nat) \<and> (of_char c :: nat) < 58) (butlast (drop 6 v)) \<and> 7 < length v
     then Some (dec_value (butlast (drop 6 v))) else None)"

lemma nat_dec_not_Nil [simp]: "nat_dec n \<noteq> []"
  by (subst nat_dec.simps) simp

lemma range_start_dec: "range_start (''bytes='' @ nat_dec n @ ''-'') = Some n"
  using nat_dec_digits [of _ n] by (auto simp: range_start_def dec_value_nat_dec list_all_iff butlast_append)

lemma range_header_small:
  assumes "unat p < 2 ^ 31"
  shows "range_header p = ''bytes='' @ nat_dec (unat p) @ ''-''"
proof -
  have "int_of_u64 p = int (unat p)" using int_of_u64_of_nat [of "unat p"] assms by simp
  moreover have "length (nat_dec (unat p)) \<le> Suc 9" using assms by (intro nat_dec_length) simp
  ultimately show ?thesis by (simp add: range_header_def int_dec_def)
qed

section \<open>A server that honours ranges\<close>

definition keeps :: "'z htw \<Rightarrow> 'z htw \<Rightarrow> bool" where
  "keeps w w' \<longleftrightarrow> els w' = els w \<and> strs w' = strs w \<and> hts w' = hts w"

text \<open>
  What the stream relies on: the client works, without touching the elements and streams. \<open>rng\<close> is the start of the
  range a client asks for and \<open>loc\<close> the position of its connection in the body; both are part of the state outside
  the model. The response is no playlist, and a read gives at least one byte until the body ends.
\<close>

definition http_server ::
  "'z htw http_ops \<Rightarrow> (addr \<Rightarrow> 'z htw \<Rightarrow> nat) \<Rightarrow> (addr \<Rightarrow> 'z htw \<Rightarrow> nat) \<Rightarrow> u8 list \<Rightarrow> bool" where
  "http_server H rng loc body \<longleftrightarrow>
     (\<forall>u w. \<exists>c w'. hc_init H u w = (Some c, w') \<and> keeps w w' \<and> rng c w' = 0) \<and>
     (\<forall>c v n w. range_start v = Some n \<longrightarrow> keeps w (hc_set_header H c ''Range'' v w) \<and> rng c (hc_set_header H c ''Range'' v w) = n) \<and>
     (\<forall>c w. hc_get_post_field H c w = (0, None)) \<and>
     (\<forall>c n w. \<exists>w'. hc_open H c n w = (ESP_OK, w') \<and> keeps w w' \<and> loc c w' = rng c w) \<and>
     (\<forall>c w. \<exists>n hs w'. hc_fetch_headers H c w = ((n, hs), w') \<and> keeps w w' \<and> loc c w' = loc c w \<and>
        (\<forall>h\<in>set hs. get_audio_type (snd h) \<noteq> AUDIO_PLAYLIST)) \<and>
     (\<forall>c w. hc_get_status_code H c w \<in> {200, 206}) \<and>
     (\<forall>c n w. \<exists>k w'. hc_read H c n w = ((int k, take k (drop (loc c w) body)), w') \<and> keeps w w' \<and> loc c w' = loc c w + k \<and>
        k \<le> length body - loc c w \<and> (0 < n \<longrightarrow> loc c w < length body \<longrightarrow> 0 < k)) \<and>
     (\<forall>c w. keeps w (hc_close H c w) \<and> keeps w (hc_cleanup H c w)) \<and>
     (\<forall>c w x. rng c (w\<lparr>els := x\<rparr>) = rng c w \<and> loc c (w\<lparr>els := x\<rparr>) = loc c w) \<and>
     (\<forall>c w x. rng c (w\<lparr>hts := x\<rparr>) = rng c w \<and> loc c (w\<lparr>hts := x\<rparr>) = loc c w)"

lemma http_serverD:
  assumes "http_server H rng loc body"
  shows "\<forall>u w. \<exists>c w'. hc_init H u w = (Some c, w') \<and> keeps w w' \<and> rng c w' = 0"
    and "\<forall>c v n w. range_start v = Some n \<longrightarrow> keeps w (hc_set_header H c ''Range'' v w) \<and> rng c (hc_set_header H c ''Range'' v w) = n"
    and "\<forall>c w. hc_get_post_field H c w = (0, None)"
    and "\<forall>c n w. \<exists>w'. hc_open H c n w = (ESP_OK, w') \<and> keeps w w' \<and> loc c w' = rng c w"
    and "\<forall>c w. \<exists>n hs w'. hc_fetch_headers H c w = ((n, hs), w') \<and> keeps w w' \<and> loc c w' = loc c w \<and>
        (\<forall>h\<in>set hs. get_audio_type (snd h) \<noteq> AUDIO_PLAYLIST)"
    and "\<forall>c w. hc_get_status_code H c w \<in> {200, 206}"
    and "\<forall>c n w. \<exists>k w'. hc_read H c n w = ((int k, take k (drop (loc c w) body)), w') \<and> keeps w w' \<and> loc c w' = loc c w + k \<and>
        k \<le> length body - loc c w \<and> (0 < n \<longrightarrow> loc c w < length body \<longrightarrow> 0 < k)"
    and "\<forall>c w. keeps w (hc_close H c w) \<and> keeps w (hc_cleanup H c w)"
    and "\<forall>c w x. rng c (w\<lparr>els := x\<rparr>) = rng c w \<and> loc c (w\<lparr>els := x\<rparr>) = loc c w"
    and "\<forall>c w x. rng c (w\<lparr>hts := x\<rparr>) = rng c w \<and> loc c (w\<lparr>hts := x\<rparr>) = loc c w"
  using assms unfolding http_server_def by - (elim conjE, assumption)+

definition http_env :: "'z htw platform \<Rightarrow> 'z htw http_ops \<Rightarrow> (addr \<Rightarrow> 'z htw \<Rightarrow> nat) \<Rightarrow> (addr \<Rightarrow> 'z htw \<Rightarrow> nat) \<Rightarrow> u8 list \<Rightarrow> bool" where
  "http_env R H rng loc body \<longleftrightarrow> free_locks R \<and> (\<forall>f h m x w. call_event R f h m x w = (ESP_OK, w)) \<and>
     http_server H rng loc body \<and> length body < 2 ^ 31"

text \<open>The element \<open>self\<close> is a reader without hook and without playlist parser, with an address that is no playlist, and
  its events go to a callback; an open stream has a client at the recorded position.\<close>

definition streams :: "(addr \<Rightarrow> 'z htw \<Rightarrow> nat) \<Rightarrow> el_handle \<Rightarrow> u8 list \<Rightarrow> bool \<Rightarrow> 'z htw \<Rightarrow> bool" where
  "streams loc self body op w \<longleftrightarrow>
     (\<exists>e l f s uri http. els w self = Some e \<and> el_lock e = Some l \<and> el_events_type e = Some EVENTS_TYPE_CB \<and> el_cb_event e = Some f \<and>
        info_uri (el_info e) = Some s \<and> strs w s = Some uri \<and> \<not> is_playlist AUDIO_CODEC_NONE uri \<and> info_codec_fmt (el_info e) \<noteq> 6 \<and>
        unat (info_byte_pos (el_info e)) \<le> length body \<and>
        hts w (el_data e) = Some http \<and> ht_hook http = None \<and> ht_stream_type http = AUDIO_STREAM_READER \<and>
        \<not> ht_enable_playlist_parser http \<and> ht_is_open http = op \<and>
        (if op then \<exists>c. ht_client http = Some c \<and> loc c w = unat (info_byte_pos (el_info e)) else ht_client http = None))"

definition http_pos :: "el_handle \<Rightarrow> 'z htw \<Rightarrow> nat" where
  "http_pos self w = (case els w self of None \<Rightarrow> 0 | Some e \<Rightarrow> unat (info_byte_pos (el_info e)))"

lemma codec_num_6: "codec_num x = 6 \<longleftrightarrow> x = AUDIO_PLAYLIST"
  by (cases x) simp_all

lemma headers_no_playlist:
  "\<forall>h\<in>set hs. get_audio_type (snd h) \<noteq> AUDIO_PLAYLIST \<Longrightarrow> info_codec_fmt info \<noteq> 6 \<Longrightarrow>
   info_codec_fmt (fold http_event_handle hs info) \<noteq> 6"
  by (induction hs arbitrary: info) (auto simp: http_event_handle_def codec_num_6)

lemma headers_frame [simp]:
  "info_byte_pos (fold http_event_handle hs info) = info_byte_pos info"
  "info_uri (fold http_event_handle hs info) = info_uri info"
  by (induction hs arbitrary: info) (simp_all add: http_event_handle_def)

text \<open>The fields of a stream that stays as it is while the client works.\<close>

lemma http_of_keeps: "keeps w w' \<Longrightarrow> http_of self w' = http_of self w"
  by (simp add: keeps_def http_of_def audio_element_getdata_def)

lemma client_of_keeps: "keeps w w' \<Longrightarrow> client_of self w' = client_of self w"
  by (simp add: client_of_def http_of_keeps)

lemma keeps_trans: "keeps w w' \<Longrightarrow> keeps w' w'' \<Longrightarrow> keeps w w''"
  by (simp add: keeps_def)

lemma no_hook: "http_of self w = Some http \<Longrightarrow> ht_hook http = None \<Longrightarrow> dispatch_hook H self ty b n w = Some ((ESP_OK, b), w)"
  by (simp add: dispatch_hook_def)

section \<open>One request\<close>

lemma http_request_ok:
  assumes env: "http_server H rng loc body" and h: "http_of self w = Some http" "ht_hook http = None" "ht_client http = Some c"
    and info: "info_codec_fmt info \<noteq> 6"
  shows "\<exists>n hs w' status. http_request H self True 0 None info w =
      Some (Inr ((fold http_event_handle hs info)\<lparr>info_total_bytes := word_of_int n\<rparr>, status), w') \<and> status \<in> {200, 206} \<and>
      keeps w w' \<and> loc c w' = rng c w \<and> info_codec_fmt (fold http_event_handle hs info) \<noteq> 6"
proof -
  obtain w1 where 1: "hc_open H c 0 w = (ESP_OK, w1)" "keeps w w1" "loc c w1 = rng c w"
    using http_serverD(4) [OF env] by blast
  obtain n hs w2 where 2: "hc_fetch_headers H c w1 = ((n, hs), w2)" "keeps w1 w2" "loc c w2 = loc c w1"
      "\<forall>h\<in>set hs. get_audio_type (snd h) \<noteq> AUDIO_PLAYLIST"
    using http_serverD(5) [OF env] by blast
  have st: "hc_get_status_code H c w2 \<in> {200, 206}" using http_serverD(6) [OF env] by blast
  have w1: "http_of self w1 = Some http" "client_of self w1 = Some c" "client_of self w = Some c"
    using h http_of_keeps [OF 1(2), of self] by (simp_all add: client_of_def)
  have "http_request H self True 0 None info w =
      Some (Inr ((fold http_event_handle hs info)\<lparr>info_total_bytes := word_of_int n\<rparr>, hc_get_status_code H c w2), w2)"
    using st by (subst http_request.simps) (auto simp: w1 1(1) no_hook [OF w1(1) h(2)] 2(1) http_headers_def)
  moreover have "keeps w w2" using 1(2) 2(2) by (rule keeps_trans)
  ultimately show ?thesis using st 1(3) 2(3) headers_no_playlist [OF 2(4) info] by auto
qed

section \<open>Opening, reading and closing\<close>

lemma http_of_Some: "els w self = Some e \<Longrightarrow> http_of self w = hts w (el_data e)"
  by (simp add: http_of_def audio_element_getdata_def)

lemma http_upd_Some:
  "els w self = Some e \<Longrightarrow> hts w (el_data e) = Some http \<Longrightarrow>
   http_upd self f w = Some (w\<lparr>hts := (hts w)(el_data e \<mapsto> f http)\<rparr>)"
  by (simp add: http_upd_def audio_element_getdata_def)

lemma http_response_ok:
  assumes lk: "free_locks R" and ev: "\<forall>f h m x w. call_event R f h m x w = (ESP_OK, w)"
    and e: "els w self = Some e" "el_lock e = Some l" "el_events_type e = Some EVENTS_TYPE_CB" "el_cb_event e = Some f"
    and http: "hts w (el_data e) = Some http" "ht_client http = Some c" "\<not> ht_enable_playlist_parser http"
    and uri: "\<not> is_playlist AUDIO_CODEC_NONE uri" "info_codec_fmt info \<noteq> 6"
  shows "http_response R H self uri info status w =
    Some (Some ESP_OK, w\<lparr>els := (els w)(self \<mapsto> e\<lparr>el_info := info\<rparr>), hts := (hts w)(el_data e \<mapsto> http\<lparr>ht_is_open := True\<rparr>)\<rparr>)"
proof -
  let ?e = "e\<lparr>el_info := info\<rparr>"
  let ?w1 = "w\<lparr>els := (els w)(self \<mapsto> ?e)\<rparr>"
  have e1: "els ?w1 self = Some ?e" "el_lock ?e = Some l" "hts ?w1 (el_data ?e) = Some http" using e http by simp_all
  have "http_resolve_playlist R H self uri ?w1 = Some (ESP_ERR_INVALID_STATE, ?w1\<lparr>hts := (hts w)(el_data e \<mapsto> http)\<rparr>)"
    using uri http(2) http_upd_Some [OF e1(1,3), of "\<lambda>h. h\<lparr>ht_playlist := ht_playlist http\<rparr>"]
    by (simp add: http_resolve_playlist_def el_getinfo_free [OF lk e1(1,2)] http_of_Some [OF e1(1)] http(1)
        resolve_playlist_def codec_of_def)
  moreover have "els (?w1\<lparr>hts := (hts w)(el_data e \<mapsto> http)\<rparr>) self = Some ?e"
      "hts (?w1\<lparr>hts := (hts w)(el_data e \<mapsto> http)\<rparr>) (el_data ?e) = Some http" by simp_all
  note upd = http_upd_Some [OF this, of "\<lambda>h. h\<lparr>ht_is_open := True\<rparr>"]
  ultimately show ?thesis
    using e http ev
    by (simp add: http_response_def http_of_Some [OF e(1)] el_setinfo_free [OF lk e(1,2)] upd
        audio_element_report_codec_fmt_def audio_element_msg_sendout_def)
qed

lemma http_open_streams:
  assumes env: "http_env R H rng loc body" and st: "streams loc self body False w"
  shows "\<exists>w'. http_open R H self w = Some (ESP_OK, w') \<and> streams loc self body True w' \<and> http_pos self w' = http_pos self w"
proof -
  have lk: "free_locks R" and ev: "\<forall>f h m x w. call_event R f h m x w = (ESP_OK, w)" and srv: "http_server H rng loc body"
    and small: "length body < 2 ^ 31" using env by (simp_all add: http_env_def)
  obtain e l f s uri http where e: "els w self = Some e" "el_lock e = Some l" "el_events_type e = Some EVENTS_TYPE_CB" "el_cb_event e = Some f"
      and i: "info_uri (el_info e) = Some s" "strs w s = Some uri" "\<not> is_playlist AUDIO_CODEC_NONE uri" "info_codec_fmt (el_info e) \<noteq> 6"
        "unat (info_byte_pos (el_info e)) \<le> length body"
      and h: "hts w (el_data e) = Some http" "ht_hook http = None" "ht_stream_type http = AUDIO_STREAM_READER"
        "\<not> ht_enable_playlist_parser http" "\<not> ht_is_open http" "ht_client http = None"
    using st unfolding streams_def by auto
  let ?info = "el_info e"
  let ?pos = "info_byte_pos ?info"
  obtain c w1 where 1: "hc_init H uri w = (Some c, w1)" "keeps w w1" "rng c w1 = 0" using http_serverD(1) [OF srv] by blast
  let ?http = "http\<lparr>ht_client := Some c\<rparr>"
  let ?w2 = "w1\<lparr>hts := (hts w)(el_data e \<mapsto> ?http)\<rparr>"
  have k1: "els w1 = els w" "strs w1 = strs w" "hts w1 = hts w" using 1(2) by (simp_all add: keeps_def)
  have prep: "prepare_client H self uri w = Some ((True, Some c), ?w2)"
    using h e 1(1) k1 http_upd_Some [of w1 self e http "\<lambda>h. h\<lparr>ht_client := Some c\<rparr>"]
    by (simp add: prepare_client_def http_of_Some [OF e(1)])
  define w3 where "w3 = (if ?pos \<noteq> 0 then hc_set_header H c ''Range'' (range_header ?pos) ?w2 else ?w2)"
  have "unat ?pos < 2 ^ 31" using i(5) small by linarith
  from range_header_small [OF this] have "range_start (range_header ?pos) = Some (unat ?pos)" by (simp only: range_start_dec)
  then have 3: "keeps ?w2 w3" "rng c w3 = unat ?pos"
    using http_serverD(2,10) [OF srv] 1(3) by (auto simp: w3_def keeps_def)
  then have k3: "els w3 = els w" "strs w3 = strs w" "hts w3 = (hts w)(el_data e \<mapsto> ?http)" using k1 by (simp_all add: keeps_def)
  have o3: "http_of self w3 = Some ?http" by (simp add: http_of_def audio_element_getdata_def k3 e(1))
  obtain n hs w4 status where 4: "http_request H self True 0 None ?info w3 =
        Some (Inr ((fold http_event_handle hs ?info)\<lparr>info_total_bytes := word_of_int n\<rparr>, status), w4)"
      "keeps w3 w4" "loc c w4 = unat ?pos" "info_codec_fmt (fold http_event_handle hs ?info) \<noteq> 6"
    using http_request_ok [OF srv o3 _ _ i(4)] h(2) 3(2) by auto
  let ?i = "(fold http_event_handle hs ?info)\<lparr>info_total_bytes := word_of_int n\<rparr>"
  have k4: "els w4 = els w" "strs w4 = strs w" "hts w4 = (hts w)(el_data e \<mapsto> ?http)" using 4(2) k3 by (simp_all add: keeps_def)
  let ?w5 = "w4\<lparr>els := (els w4)(self \<mapsto> e\<lparr>el_info := ?i\<rparr>), hts := (hts w4)(el_data e \<mapsto> ?http\<lparr>ht_is_open := True\<rparr>)\<rparr>"
  have 5: "http_response R H self uri ?i status w4 = Some (Some ESP_OK, ?w5)"
    using e h(4) i(3) 4(4) by (intro http_response_ok [OF lk ev _ e(2-4)]) (simp_all add: k4)
  have con: "http_connect R H self False ?info uri w = Some (Inl ESP_OK, ?w5)"
    using prep h(2,3) http_serverD(3) [OF srv] 4(1) 5
    by (simp add: http_connect_def w3_def [symmetric] no_hook [OF o3] o3 Let_def)
  have "http_open R H self w = Some (ESP_OK, ?w5)"
    using h e i con
    by (simp add: http_open_def el_getinfo_free [OF lk e(1,2)] http_of_Some [OF e(1)])
      (subst http_open_begin.simps, simp add: playlist_get_next_track_def http_of_Some [OF e(1)] el_uri_def audio_element_get_uri_def)
  moreover have "loc c ?w5 = unat ?pos" using 4(3) http_serverD(9,10) [OF srv] by simp
  then have "streams loc self body True ?w5" using e h i k4 4(4) by (simp add: streams_def)
  moreover have "http_pos self ?w5 = http_pos self w" by (simp add: http_pos_def e(1))
  ultimately show ?thesis by blast
qed

lemma http_read_streams:
  assumes env: "http_env R H rng loc body" and st: "streams loc self body True w"
  shows "\<exists>k w'. http_read R H self b n w = Some ((int k, take k (drop (http_pos self w) body)), w') \<and>
    streams loc self body True w' \<and> http_pos self w' = http_pos self w + k \<and>
    k \<le> length body - http_pos self w \<and> (0 < n \<longrightarrow> http_pos self w < length body \<longrightarrow> 0 < k)"
proof -
  have lk: "free_locks R" and srv: "http_server H rng loc body" and small: "length body < 2 ^ 31"
    using env by (simp_all add: http_env_def)
  obtain e l f s uri http c where e: "els w self = Some e" "el_lock e = Some l" "el_events_type e = Some EVENTS_TYPE_CB" "el_cb_event e = Some f"
      and i: "info_uri (el_info e) = Some s" "strs w s = Some uri" "\<not> is_playlist AUDIO_CODEC_NONE uri" "info_codec_fmt (el_info e) \<noteq> 6"
        "unat (info_byte_pos (el_info e)) \<le> length body"
      and h: "hts w (el_data e) = Some http" "ht_hook http = None" "ht_stream_type http = AUDIO_STREAM_READER"
        "\<not> ht_enable_playlist_parser http" "ht_is_open http" "ht_client http = Some c"
      and c: "loc c w = unat (info_byte_pos (el_info e))"
    using st unfolding streams_def by auto
  let ?p = "unat (info_byte_pos (el_info e))"
  have p: "http_pos self w = ?p" by (simp add: http_pos_def e(1))
  obtain k w1 where 1: "hc_read H c n w = ((int k, take k (drop ?p body)), w1)" "keeps w w1" "loc c w1 = ?p + k"
      "k \<le> length body - ?p" "0 < n \<longrightarrow> ?p < length body \<longrightarrow> 0 < k"
    using http_serverD(7) [OF srv] unfolding c [symmetric] by blast
  have k1: "els w1 = els w" "strs w1 = strs w" "hts w1 = hts w" using 1(2) by (simp_all add: keeps_def)
  have o: "http_of self w = Some http" "http_of self w1 = Some http" by (simp_all add: http_of_def audio_element_getdata_def k1 e(1) h(1))
  define w' where "w' = (if k = 0 then w1 else w1\<lparr>els := (els w)(self \<mapsto> e\<lparr>el_info := advance (int k) (el_info e)\<rparr>)\<rparr>)"
  have "http_read R H self b n w = Some ((int k, take k (drop ?p body)), w')"
    using e h 1(1) k1
    by (simp add: http_read_def el_getinfo_free [OF lk e(1,2)] no_hook [OF o(1)] no_hook [OF o(2)] client_of_def o w'_def
        el_setinfo_free [OF lk _ e(2)])
  moreover have adv: "unat (info_byte_pos (advance (int k) (el_info e))) = ?p + k"
    using i(5) small 1(4) by (intro unat_advance) simp
  have "streams loc self body True w'"
  proof (cases "k = 0")
    case True
    then show ?thesis using e h i 1(3) k1 by (simp add: w'_def streams_def)
  next
    case False
    then show ?thesis using e h i 1(3,4) k1 adv http_serverD(9) [OF srv] by (simp add: w'_def streams_def advance_def)
  qed
  moreover have "http_pos self w' = ?p + k" using adv by (simp add: w'_def http_pos_def e(1) k1)
  ultimately show ?thesis unfolding p using 1(4,5) by blast
qed

lemma http_close_streams:
  assumes env: "http_env R H rng loc body" and st: "streams loc self body True w"
  shows "\<exists>w'. pause_close self (http_close R H self) w = Some (ESP_OK, w') \<and> streams loc self body False w' \<and> http_pos self w' = http_pos self w"
proof -
  have srv: "http_server H rng loc body" using env by (simp add: http_env_def)
  obtain e l f s uri http c where e: "els w self = Some e" "el_lock e = Some l" "el_events_type e = Some EVENTS_TYPE_CB" "el_cb_event e = Some f"
      and i: "info_uri (el_info e) = Some s" "strs w s = Some uri" "\<not> is_playlist AUDIO_CODEC_NONE uri" "info_codec_fmt (el_info e) \<noteq> 6"
        "unat (info_byte_pos (el_info e)) \<le> length body"
      and h: "hts w (el_data e) = Some http" "ht_hook http = None" "ht_stream_type http = AUDIO_STREAM_READER"
        "\<not> ht_enable_playlist_parser http" "ht_is_open http" "ht_client http = Some c"
    using st unfolding streams_def by auto
  let ?e = "e\<lparr>el_state := AEL_STATE_PAUSED\<rparr>"
  let ?w1 = "w\<lparr>els := (els w)(self \<mapsto> ?e), hts := (hts w)(el_data e \<mapsto> http\<lparr>ht_is_open := False\<rparr>)\<rparr>"
  have loop: "http_close_loop H self (w\<lparr>els := (els w)(self \<mapsto> ?e)\<rparr>) = Some ?w1"
    using h by (subst http_close_loop.simps) (simp add: http_of_def audio_element_getdata_def http_upd_def)
  define w2 where "w2 = hc_cleanup H c (hc_close H c ?w1)"
  have k: "keeps ?w1 w2" using http_serverD(8) [OF srv] keeps_trans unfolding w2_def by blast
  then have k2: "els w2 = (els w)(self \<mapsto> ?e)" "strs w2 = strs w" "hts w2 = (hts w)(el_data e \<mapsto> http\<lparr>ht_is_open := False\<rparr>)"
    by (simp_all add: keeps_def)
  let ?w3 = "w2\<lparr>hts := (hts w)(el_data e \<mapsto> http\<lparr>ht_is_open := False, ht_client := None\<rparr>)\<rparr>"
  have "pause_close self (http_close R H self) w = Some (ESP_OK, ?w3)"
    using e h loop k2
    by (simp add: pause_close_def http_close_def http_of_def audio_element_getdata_def w2_def [symmetric] http_upd_def
        rewind_paused [where e = ?e])
  moreover have "streams loc self body False ?w3" using e h i k2 by (simp add: streams_def)
  moreover have "http_pos self ?w3 = http_pos self w" by (simp add: http_pos_def k2 e(1))
  ultimately show ?thesis by blast
qed

interpretation hs: resumable_stream "http_open R H self" "http_read R H self buf" "pause_close self (http_close R H self)" "http_pos self" body
    "\<lambda>w. http_env R H rng loc body \<and> streams loc self body False w" "\<lambda>w. http_env R H rng loc body \<and> streams loc self body True w"
  for R H self buf body rng loc
proof (unfold_locales, goal_cases)
  case 1
  then show ?case using http_open_streams by blast
next
  case (2 w n)
  then show ?case using http_read_streams [of R H rng loc body self w buf n] by auto
next
  case (3 w)
  then show ?case using http_close_streams [of R H rng loc body self w] by auto
qed

section \<open>What the stream does\<close>

text \<open>C18. An open HTTP reader without hook and without playlist parser, for an address that is no playlist, on a
  server that answers every request, honours ranges and has a body of less than two gigabytes, delivers the body from its
  position on, whatever reads and pauses follow, each pause closing the connection and each resumption opening a new one for
  the rest: no byte is lost or repeated, and with enough reads the rest arrives completely.\<close>

theorem http_sessions_deliver:
  assumes "http_env R H rng loc body" "streams loc self body True w"
  shows "(\<exists>w'. session (http_open R H self) (http_read R H self buf) (pause_close self (http_close R H self)) ops w =
        Some (take (http_pos self w' - http_pos self w) (drop (http_pos self w) body), w') \<and> http_pos self w \<le> http_pos self w') \<and>
    (\<exists>w'. session (http_open R H self) (http_read R H self buf) (pause_close self (http_close R H self))
        (replicate (length body) (Read (Suc n))) w = Some (drop (http_pos self w) body, w'))"
proof -
  have "http_pos self w \<le> length body" using assms(2) by (auto simp: streams_def http_pos_def)
  then show ?thesis
    using hs.session_delivers [of R H rng loc body self w buf ops] hs.reads_finish [of R H rng loc body self w "Suc n" "length body" buf] assms
    by auto
qed

text \<open>C37. The range header names the position exactly when that is below two gigabytes: it is printed as an \<open>int\<close>.\<close>

theorem range_header_exact: "range_start (range_header p) = Some (unat p) \<longleftrightarrow> unat p < 2 ^ 31"
proof
  assume r: "range_start (range_header p) = Some (unat p)"
  let ?i = "int_of_u64 p"
  have up: "?i < 2 ^ 31" "- (2 ^ 31) \<le> ?i"
    using sint_less [of "ucast p :: u32"] sint_ge [of "ucast p :: u32"] by (simp_all add: int_of_u64_def)
  have len: "length (nat_dec (nat \<bar>?i\<bar>)) \<le> Suc 9" using up by (intro nat_dec_length) simp
  show "unat p < 2 ^ 31"
  proof (cases "?i < 0")
    case True
    then have "range_header p = ''bytes='' @ CHR ''-'' # nat_dec (nat (- ?i)) @ ''-''" using len by (simp add: range_header_def int_dec_def)
    then have "range_start (range_header p) = None" by (simp add: range_start_def butlast_append)
    with r show ?thesis by simp
  next
    case False
    then have "range_header p = ''bytes='' @ nat_dec (nat ?i) @ ''-''" using len by (simp add: range_header_def int_dec_def)
    then have "range_start (range_header p) = Some (nat ?i)" by (simp only: range_start_dec)
    with r up(1) False show ?thesis by simp
  qed
qed (simp only: range_header_small range_start_dec)

section \<open>A concrete server\<close>

record demo_ht_world = ht_world +
  srv_rng :: nat
  srv_loc :: nat

definition demo_http_ops :: "u8 list \<Rightarrow> demo_ht_world http_ops" where
  "demo_http_ops body = \<lparr>hc_init = (\<lambda>u w. (Some 4, w\<lparr>srv_rng := 0\<rparr>)), hc_set_url = (\<lambda>c u w. w),
     hc_set_header = (\<lambda>c k v w. case range_start v of None \<Rightarrow> w | Some n \<Rightarrow> w\<lparr>srv_rng := n\<rparr>),
     hc_get_post_field = (\<lambda>c w. (0, None)), hc_open = (\<lambda>c n w. (ESP_OK, w\<lparr>srv_loc := srv_rng w\<rparr>)),
     hc_write = (\<lambda>c b w. (int (length b), w)),
     hc_read = (\<lambda>c n w. let d = take n (drop (srv_loc w) body) in ((int (length d), d), w\<lparr>srv_loc := srv_loc w + length d\<rparr>)),
     hc_fetch_headers = (\<lambda>c w. ((int (length body), [(''Content-Type'', ''audio/mp3'')]), w)),
     hc_get_status_code = (\<lambda>c w. 206), hc_set_redirection = (\<lambda>c w. w), hc_close = (\<lambda>c w. w), hc_cleanup = (\<lambda>c w. w),
     hs_hook = (\<lambda>f m w. Some ((0, hm_buffer m), w))\<rparr>"

definition demo_stream_world :: demo_ht_world where
  "demo_stream_world = \<lparr>rbs = Map.empty, ifs = Map.empty,
     els = [1 \<mapsto> el_zero\<lparr>el_lock := Some 2, el_data := 3, el_events_type := Some EVENTS_TYPE_CB, el_cb_event := Some 8,
                       el_info := AUDIO_ELEMENT_INFO_DEFAULT\<lparr>info_uri := Some 5, info_byte_pos := 1\<rparr>\<rparr>],
     strs = [5 \<mapsto> ''http://x/a''],
     hts = [3 \<mapsto> \<lparr>ht_type = AUDIO_STREAM_READER, ht_is_open = True, ht_client = Some 4, ht_hook = None,
       ht_stream_type = AUDIO_STREAM_READER, ht_user_data = 0, ht_enable_playlist_parser = False,
       ht_is_playlist_resolved = False, ht_playlist = None\<rparr>],
     srv_rng = 0, srv_loc = 1\<rparr>"

lemma demo_not_playlist: "\<not> is_playlist AUDIO_CODEC_NONE ''http://x/a''" "get_audio_type ''audio/mp3'' \<noteq> AUDIO_PLAYLIST"
  by code_simp+

lemma demo_read: "\<exists>k. (let d = take n (drop q body) in ((int (length d), d), f (length d))) = ((int k, take k (drop q body)), f k) \<and>
    k \<le> length body - q \<and> (0 < n \<longrightarrow> q < length body \<longrightarrow> 0 < k)"
  by (intro exI [of _ "min n (length body - q)"]) (auto simp: Let_def min_def)

lemma demo_server: "http_server (demo_http_ops body) (\<lambda>c. srv_rng) (\<lambda>c. srv_loc) body"
proof -
  have "\<exists>k w'. hc_read (demo_http_ops body) c n w = ((int k, take k (drop (srv_loc w) body)), w') \<and> keeps w w' \<and>
      srv_loc w' = srv_loc w + k \<and> k \<le> length body - srv_loc w \<and> (0 < n \<longrightarrow> srv_loc w < length body \<longrightarrow> 0 < k)" for c n w
    using demo_read [of n "srv_loc w" body "\<lambda>k. w\<lparr>srv_loc := srv_loc w + k\<rparr>"] by (auto simp: demo_http_ops_def keeps_def)
  then show ?thesis
    unfolding http_server_def by (intro conjI) (simp_all add: demo_http_ops_def keeps_def demo_not_playlist)
qed

lemma demo_streams: "http_env (seq_platform (Some 9)) (demo_http_ops [10, 20, 30]) (\<lambda>c. srv_rng) (\<lambda>c. srv_loc) [10, 20, 30]"
  "streams (\<lambda>c. srv_loc) 1 [10, 20, 30] True demo_stream_world"
  by (simp_all add: http_env_def free_locks_seq demo_server streams_def demo_stream_world_def demo_not_playlist
      AUDIO_ELEMENT_INFO_DEFAULT_def AUDIO_ELEMENT_INFO_ZERO_def)

lemma http_sessions_deliver_witness:
  "\<exists>w'. session (http_open (seq_platform (Some 9)) (demo_http_ops [10, 20, 30]) 1)
      (http_read (seq_platform (Some 9)) (demo_http_ops [10, 20, 30]) 1 [])
      (pause_close 1 (http_close (seq_platform (Some 9)) (demo_http_ops [10, 20, 30]) 1))
      (replicate 3 (Read 1)) demo_stream_world = Some ([20, 30], w')"
proof -
  have pos: "http_pos 1 demo_stream_world = 1" by (simp add: http_pos_def demo_stream_world_def)
  have len: "length [10, 20, 30 :: u8] = 3" "Suc 0 = 1" "drop 1 [10, 20, 30 :: u8] = [20, 30]" by simp_all
  show ?thesis using http_sessions_deliver [OF demo_streams, of "[]" "[]" 0] unfolding pos len by blast
qed

end
