(* ===== verification/Http_Tracks.thy ===== *)
theory Http_Tracks
  imports Http_Stream_Correct Http_Playlist_Correct
begin

text \<open>
  The tracks of a playlist in the HTTP stream, and closing it.
\<close>

section \<open>Tracks in order\<close>

abbreviation unplayed :: "playlist \<Rightarrow> track list" where
  "unplayed p \<equiv> filter (\<lambda>t. \<not> tr_is_played t) (py_tracks p)"

lemma first_unplayed_Some:
  "first_unplayed ts = Some i \<Longrightarrow> \<exists>us t vs. ts = us @ t # vs \<and> length us = i \<and> (\<forall>u\<in>set us. tr_is_played u) \<and> \<not> tr_is_played t"
proof (induction ts arbitrary: i)
  case (Cons x ts)
  show ?case
  proof (cases "tr_is_played x")
    case True
    then obtain j where j: "i = Suc j" "first_unplayed ts = Some j" using Cons.prems by auto
    from Cons.IH [OF j(2)] obtain us t vs where "ts = us @ t # vs" "length us = j" "\<forall>u\<in>set us. tr_is_played u" "\<not> tr_is_played t" by blast
    then show ?thesis using True j(1) by (intro exI [of _ "x # us"] exI [of _ t] exI [of _ vs]) simp
  next
    case False
    then show ?thesis using Cons.prems by (intro exI [of _ "[]"]) simp
  qed
qed simp

lemma first_unplayed_None: "first_unplayed ts = None \<longleftrightarrow> (\<forall>t\<in>set ts. tr_is_played t)"
  by (induction ts) auto

lemma unplayed_first: "unplayed p \<noteq> [] \<Longrightarrow> \<exists>i. first_unplayed (py_tracks p) = Some i"
  using first_unplayed_None [of "py_tracks p"] by (auto simp: filter_empty_conv)

lemma finish_track_ok:
  assumes "first_unplayed (py_tracks p) = Some i" "tracks_ok p"
  shows "unplayed p = py_tracks p ! i # unplayed (finish_track i p)" "tracks_ok (finish_track i p)"
proof -
  obtain us t vs where h: "py_tracks p = us @ t # vs" "length us = i" "\<forall>u\<in>set us. tr_is_played u" "\<not> tr_is_played t"
    using first_unplayed_Some [OF assms(1)] by blast
  have us: "filter (\<lambda>t. \<not> tr_is_played t) us = []" using h(3) by (simp add: filter_empty_conv)
  show "unplayed p = py_tracks p ! i # unplayed (finish_track i p)" using h us by (simp add: finish_track_def list_update_append nth_append)
  show "tracks_ok (finish_track i p)" using assms(2) h by (auto simp: finish_track_def tracks_ok_def list_update_append nth_append)
qed

text \<open>The element \<open>el\<close> streams the resolved playlist \<open>p\<close>.\<close>

definition plays :: "el_handle \<Rightarrow> playlist \<Rightarrow> 'z htw \<Rightarrow> bool" where
  "plays el p w \<longleftrightarrow> (\<exists>e l http. els w el = Some e \<and> el_lock e = Some l \<and> hts w (el_data e) = Some http \<and>
     ht_enable_playlist_parser http \<and> ht_is_playlist_resolved http \<and> ht_playlist http = Some p)"

lemma next_track_step:
  assumes lk: "free_locks R" and pl: "plays el p w" and i: "first_unplayed (py_tracks p) = Some i"
  shows "playlist_get_next_track el w = Some (Some i) \<and>
    (\<exists>w'. http_stream_next_track R el w = Some (ESP_OK, w') \<and> plays el (finish_track i p) w' \<and>
       (\<forall>http. http_of el w = Some http \<longrightarrow> http_of el w' = Some (http\<lparr>ht_playlist := Some (finish_track i p), ht_is_open := False\<rparr>)) \<and>
       (\<exists>e l. els w' el = Some e \<and> el_lock e = Some l \<and> info_byte_pos (el_info e) = 0))"
proof -
  obtain e l http where h: "els w el = Some e" "el_lock e = Some l" "hts w (el_data e) = Some http"
      "ht_enable_playlist_parser http" "ht_is_playlist_resolved http" "ht_playlist http = Some p"
    using pl unfolding plays_def by blast
  have g: "playlist_get_next_track el w = Some (Some i)" using h i by (simp add: playlist_get_next_track_def http_of_Some)
  let ?e = "e\<lparr>el_state := AEL_STATE_INIT, el_info := (el_info e)\<lparr>info_byte_pos := 0, info_total_bytes := 0\<rparr>\<rparr>"
  let ?http = "http\<lparr>ht_playlist := Some (finish_track i p)\<rparr>"
  let ?w1 = "w\<lparr>hts := (hts w)(el_data e \<mapsto> ?http), els := (els w)(el \<mapsto> e\<lparr>el_state := AEL_STATE_INIT\<rparr>)\<rparr>"
  let ?w = "w\<lparr>hts := (hts w)(el_data e \<mapsto> ?http\<lparr>ht_is_open := False\<rparr>), els := (els w)(el \<mapsto> ?e)\<rparr>"
  have l1: "el_getinfo R el ?w1 = Some (el_info e, ?w1)"
    "el_setinfo R el ((el_info e)\<lparr>info_byte_pos := 0, info_total_bytes := 0\<rparr>) ?w1 = Some (ESP_OK, ?w1\<lparr>els := (els w)(el \<mapsto> ?e)\<rparr>)"
    using el_getinfo_free [OF lk, of ?w1 el "e\<lparr>el_state := AEL_STATE_INIT\<rparr>" l] el_setinfo_free [OF lk, of ?w1 el "e\<lparr>el_state := AEL_STATE_INIT\<rparr>" l]
      h(2) by simp_all
  have "http_stream_next_track R el w = Some (ESP_OK, ?w)"
    using h g l1
    by (simp add: http_stream_next_track_def http_upd_Some [OF h(1,3)] audio_element_reset_state_def audio_element_force_set_state_def)
      (simp add: http_upd_def audio_element_getdata_def)
  moreover have "plays el (finish_track i p) ?w" using h by (simp add: plays_def)
  moreover have "\<forall>http. http_of el w = Some http \<longrightarrow>
      http_of el ?w = Some (http\<lparr>ht_playlist := Some (finish_track i p), ht_is_open := False\<rparr>)"
    using h by (simp add: http_of_def audio_element_getdata_def)
  moreover have "\<exists>e l. els ?w el = Some e \<and> el_lock e = Some l \<and> info_byte_pos (el_info e) = 0" using h(2) by simp
  ultimately show ?thesis using g by blast
qed

text \<open>Playing the first \<open>n\<close> tracks: the address the stream would open, then the next track.\<close>

fun play_tracks :: "'z htw platform \<Rightarrow> el_handle \<Rightarrow> nat \<Rightarrow> 'z htw \<Rightarrow> (string list \<times> 'z htw) option" where
  "play_tracks R el 0 w = Some ([], w)"
| "play_tracks R el (Suc n) w = do {
     track \<leftarrow> playlist_get_next_track el w;
     http \<leftarrow> http_of el w;
     p \<leftarrow> ht_playlist http;
     (_, w) \<leftarrow> http_stream_next_track R el w;
     (uris, w) \<leftarrow> play_tracks R el n w;
     Some ((case track of None \<Rightarrow> uris | Some i \<Rightarrow> tr_uri (py_tracks p ! i) # uris), w)
   }"

text \<open>The tracks of a resolved playlist are played in the order of the playlist, each once: after \<open>n\<close> calls of
  \<open>http_stream_next_track\<close> exactly the first \<open>n\<close> unplayed tracks were taken, and the list keeps its invariant.\<close>

theorem tracks_played_in_order:
  assumes "free_locks R" "plays el p w" "tracks_ok p" "n \<le> length (unplayed p)"
  shows "\<exists>p' w'. play_tracks R el n w = Some (map tr_uri (take n (unplayed p)), w') \<and> plays el p' w' \<and>
    unplayed p' = drop n (unplayed p) \<and> tracks_ok p'"
  using assms(2-4)
proof (induction n arbitrary: p w)
  case (Suc n)
  have "unplayed p \<noteq> []" using Suc.prems(3) by auto
  then obtain i where i: "first_unplayed (py_tracks p) = Some i" using unplayed_first by blast
  obtain w1 where w1: "playlist_get_next_track el w = Some (Some i)" "http_stream_next_track R el w = Some (ESP_OK, w1)"
      "plays el (finish_track i p) w1"
    using next_track_step [OF assms(1) Suc.prems(1) i] by blast
  note fin = finish_track_ok [OF i Suc.prems(2)]
  have "n \<le> length (unplayed (finish_track i p))" using Suc.prems(3) fin(1) by simp
  from Suc.IH [OF w1(3) fin(2) this] obtain p' w' where
    ih: "play_tracks R el n w1 = Some (map tr_uri (take n (unplayed (finish_track i p))), w')" "plays el p' w'"
      "unplayed p' = drop n (unplayed (finish_track i p))" "tracks_ok p'" by blast
  obtain http where "http_of el w = Some http" "ht_playlist http = Some p"
    using Suc.prems(1) by (auto simp: plays_def http_of_Some)
  then have "play_tracks R el (Suc n) w = Some (tr_uri (py_tracks p ! i) # map tr_uri (take n (unplayed (finish_track i p))), w')"
    using w1 ih(1) by simp
  then show ?case using ih fin(1) by auto
qed auto

section \<open>The client that is kept\<close>

text \<open>A client without hook whose operations leave the streams alone, and whose responses carry a content type.\<close>

definition typed_client :: "'z htw http_ops \<Rightarrow> bool" where
  "typed_client H \<longleftrightarrow>
     (\<forall>c u w. keeps w (hc_set_url H c u w)) \<and> (\<forall>c w. hc_get_post_field H c w = (0, None)) \<and>
     (\<forall>c n w. \<exists>w'. hc_open H c n w = (ESP_OK, w') \<and> keeps w w') \<and>
     (\<forall>c w. \<exists>n hs w'. hc_fetch_headers H c w = ((n, hs), w') \<and> (\<exists>h\<in>set hs. strcaseeq (fst h) ''Content-Type''))"

lemma typed_clientD:
  assumes "typed_client H"
  shows "\<forall>c u w. keeps w (hc_set_url H c u w)" and "\<forall>c w. hc_get_post_field H c w = (0, None)"
    and "\<forall>c n w. \<exists>w'. hc_open H c n w = (ESP_OK, w') \<and> keeps w w'"
    and "\<forall>c w. \<exists>n hs w'. hc_fetch_headers H c w = ((n, hs), w') \<and> (\<exists>h\<in>set hs. strcaseeq (fst h) ''Content-Type'')"
  using assms unfolding typed_client_def by - (elim conjE, assumption)+

lemma http_request_stale:
  assumes H: "typed_client H" and h: "http_of self w = Some http" "ht_hook http = None" "ht_client http = Some c"
  shows "http_request H self False 0 None info w = None"
proof -
  obtain w1 where 1: "hc_open H c 0 w = (ESP_OK, w1)" "keeps w w1" using typed_clientD(3) [OF H] by blast
  obtain n hs w2 where 2: "hc_fetch_headers H c w1 = ((n, hs), w2)" "\<exists>h\<in>set hs. strcaseeq (fst h) ''Content-Type''"
    using typed_clientD(4) [OF H] by blast
  have w1: "http_of self w1 = Some http" "client_of self w1 = Some c" "client_of self w = Some c"
    using h http_of_keeps [OF 1(2), of self] by (simp_all add: client_of_def)
  show ?thesis using 2(2) by (subst http_request.simps) (simp add: w1 1(1) no_hook [OF w1(1) h(2)] 2(1) http_headers_def)
qed

text \<open>Moving to the next track keeps the client, whose events go to a variable of the call that opened the first track.
  When the element opens the stream for the next track and the response names its content type, the event
  writes to that variable, which no longer exists: the call is undefined.\<close>

theorem next_track_reopens_stale:
  assumes lk: "free_locks R" and pl: "plays el p w" "2 \<le> length (unplayed p)" "tracks_ok p"
    and http: "http_of el w = Some http" "ht_hook http = None" "ht_client http = Some c" "ht_stream_type http = AUDIO_STREAM_READER"
    and H: "typed_client H"
  shows "do { (_, w) \<leftarrow> http_stream_next_track R el w; http_open R H el w } = None"
proof -
  have "unplayed p \<noteq> []" using pl(2) by auto
  then obtain i where i: "first_unplayed (py_tracks p) = Some i" using unplayed_first by blast
  let ?p = "finish_track i p"
  let ?http = "http\<lparr>ht_playlist := Some ?p, ht_is_open := False\<rparr>"
  obtain w1 e l where 1: "http_stream_next_track R el w = Some (ESP_OK, w1)" "plays el ?p w1" "http_of el w1 = Some ?http"
      "els w1 el = Some e" "el_lock e = Some l" "info_byte_pos (el_info e) = 0"
    using next_track_step [OF lk pl(1) i] http(1) by blast
  have "unplayed ?p \<noteq> []" using finish_track_ok(1) [OF i pl(3)] pl(2) by auto
  then obtain j where j: "first_unplayed (py_tracks ?p) = Some j" using unplayed_first by blast
  let ?uri = "tr_uri (py_tracks ?p ! j)"
  let ?w2 = "hc_set_url H c ?uri w1"
  have k: "keeps w1 ?w2" using typed_clientD(1) [OF H] by blast
  have o2: "http_of el ?w2 = Some ?http" using 1(3) http_of_keeps [OF k, of el] by simp
  have flags: "ht_enable_playlist_parser http" "ht_is_playlist_resolved http"
    using pl(1) http(1) by (auto simp: plays_def http_of_Some)
  have "http_request H el False 0 None (el_info e) ?w2 = None"
    using http(2,3) by (intro http_request_stale [OF H o2]) simp_all
  then have "http_connect R H el False (el_info e) ?uri w1 = None"
    using http typed_clientD(2) [OF H]
    by (simp add: http_connect_def prepare_client_def 1(3,6) no_hook [OF o2] o2)
  then have "http_open_begin R H el False (el_info e) w1 = None"
    by (subst http_open_begin.simps) (simp add: playlist_get_next_track_def 1(3) flags j)
  then have "http_open R H el w1 = None" by (simp add: http_open_def el_getinfo_free [OF lk 1(4,5)] 1(3))
  then show ?thesis by (simp add: 1(1))
qed

section \<open>Closing\<close>

text \<open>Closing an HTTP reader, in whatever state it is, leaves it closed and without a client, forgets the playlist it
  resolved, and rewinds the element unless that is paused.\<close>

theorem http_close_releases:
  assumes lk: "free_locks R" and e: "els w self = Some e" "el_lock e = Some l" "hts w (el_data e) = Some http"
    and rd: "ht_stream_type http = AUDIO_STREAM_READER" "ht_enable_playlist_parser http \<longrightarrow> ht_playlist http \<noteq> None"
    and cl: "\<forall>c w. keeps w (hc_close H c w) \<and> keeps w (hc_cleanup H c w)"
  shows "\<exists>w' http'. http_close R H self w = Some (ESP_OK, w') \<and> http_of self w' = Some http' \<and>
    \<not> ht_is_open http' \<and> ht_client http' = None \<and>
    (ht_enable_playlist_parser http \<longrightarrow> \<not> ht_is_playlist_resolved http' \<and> map_option py_tracks (ht_playlist http') = Some []) \<and>
    http_pos self w' = (if el_state e = AEL_STATE_PAUSED then http_pos self w else 0)"
proof -
  define h1 where "h1 = http\<lparr>ht_is_open := False\<rparr>"
  have eta: "http\<lparr>ht_is_open := False\<rparr> = http" if "\<not> ht_is_open http" using that by (cases http) simp
  let ?w1 = "w\<lparr>hts := (hts w)(el_data e \<mapsto> h1)\<rparr>"
  have triv: "w\<lparr>hts := (hts w)(el_data e \<mapsto> http)\<rparr> = w" using e(3) by (simp add: map_upd_triv)
  have loop: "http_close_loop H self w = Some ?w1"
  proof (cases "ht_is_open http")
    case True
    then show ?thesis using rd(1) e
      by (subst http_close_loop.simps) (simp add: http_of_def audio_element_getdata_def http_upd_def h1_def)
  next
    case False
    then show ?thesis using e triv unfolding h1_def eta [OF False]
      by (subst http_close_loop.simps) (simp add: http_of_def audio_element_getdata_def)
  qed
  define h2 where "h2 = (if ht_enable_playlist_parser http
      then h1\<lparr>ht_playlist := map_option playlist_clear (ht_playlist http), ht_is_playlist_resolved := False\<rparr> else h1)"
  let ?w2 = "w\<lparr>hts := (hts w)(el_data e \<mapsto> h2)\<rparr>"
  have fl: "(if ht_enable_playlist_parser h1 then forget_playlist self ?w1 else Some ?w1) = Some ?w2"
    using e rd(2) by (auto simp: forget_playlist_def http_of_def audio_element_getdata_def http_upd_def h1_def h2_def)
  define w3 where "w3 = (case ht_client http of None \<Rightarrow> ?w2
      | Some c \<Rightarrow> (hc_cleanup H c (hc_close H c ?w2))\<lparr>hts := (hts w)(el_data e \<mapsto> h2\<lparr>ht_client := None\<rparr>)\<rparr>)"
  have k: "els (hc_cleanup H c (hc_close H c ?w2)) = els w" "hts (hc_cleanup H c (hc_close H c ?w2)) = hts ?w2" for c
    using cl by (simp_all add: keeps_def)
  have c2: "ht_client h2 = ht_client http" by (simp add: h2_def h1_def)
  have w3: "els w3 self = Some e" "hts w3 (el_data e) = Some (h2\<lparr>ht_client := None\<rparr>)"
    using k e c2 by (auto simp: w3_def split: option.splits intro: http_stream.equality)
  have step: "http_close R H self w = map_option (Pair ESP_OK) (rewind_unless_paused R self w3)"
    using loop fl k e c2
    by (auto simp: http_close_def http_of_def audio_element_getdata_def http_upd_def w3_def map_conv_bind_option comp_def split: option.splits)
  have res: "\<not> ht_is_open (h2\<lparr>ht_client := None\<rparr>)" by (simp add: h2_def h1_def)
  have res2: "ht_enable_playlist_parser http \<longrightarrow>
      \<not> ht_is_playlist_resolved (h2\<lparr>ht_client := None\<rparr>) \<and> map_option py_tracks (ht_playlist (h2\<lparr>ht_client := None\<rparr>)) = Some []"
    using rd(2) by (auto simp: h2_def playlist_clear_def)
  show ?thesis
  proof (cases "el_state e = AEL_STATE_PAUSED")
    case True
    then show ?thesis using step w3 res res2 rewind_paused [OF w3(1) True, of R] e(1)
      by (intro exI [of _ w3] exI [of _ "h2\<lparr>ht_client := None\<rparr>"]) (simp add: http_of_def audio_element_getdata_def http_pos_def)
  next
    case False
    then show ?thesis using step w3 res res2 rewind_running [OF lk w3(1) e(2) False]
      by (intro exI [of _ "w3\<lparr>els := (els w3)(self \<mapsto> e\<lparr>el_info := (el_info e)\<lparr>info_byte_pos := 0\<rparr>\<rparr>)\<rparr>"] exI [of _ "h2\<lparr>ht_client := None\<rparr>"])
        (simp add: http_of_def audio_element_getdata_def http_pos_def)
  qed
qed

section \<open>A concrete playlist\<close>

definition demo_tracks :: playlist where
  "demo_tracks = playlist_zero\<lparr>py_tracks := [\<lparr>tr_uri = ''a'', tr_is_played = True\<rparr>, \<lparr>tr_uri = ''b'', tr_is_played = False\<rparr>,
     \<lparr>tr_uri = ''c'', tr_is_played = False\<rparr>], py_total_tracks := 3\<rparr>"

definition demo_list_http :: http_stream where
  "demo_list_http = \<lparr>ht_type = AUDIO_STREAM_READER, ht_is_open = True, ht_client = Some 4, ht_hook = None,
     ht_stream_type = AUDIO_STREAM_READER, ht_user_data = 0, ht_enable_playlist_parser = True,
     ht_is_playlist_resolved = True, ht_playlist = Some demo_tracks\<rparr>"

definition demo_list_world :: ht_world where
  "demo_list_world = \<lparr>rbs = Map.empty, ifs = Map.empty,
     els = [1 \<mapsto> el_zero\<lparr>el_lock := Some 2, el_data := 3, el_info := AUDIO_ELEMENT_INFO_DEFAULT\<lparr>info_byte_pos := 9\<rparr>\<rparr>],
     strs = Map.empty, hts = [3 \<mapsto> demo_list_http]\<rparr>"

definition idle_http_ops :: "'w http_ops" where
  "idle_http_ops = \<lparr>hc_init = (\<lambda>u w. (Some 4, w)), hc_set_url = (\<lambda>c u w. w), hc_set_header = (\<lambda>c k v w. w),
     hc_get_post_field = (\<lambda>c w. (0, None)), hc_open = (\<lambda>c n w. (ESP_OK, w)), hc_write = (\<lambda>c b w. (int (length b), w)),
     hc_read = (\<lambda>c n w. ((0, []), w)), hc_fetch_headers = (\<lambda>c w. ((0, [(''Content-Type'', ''audio/mp3'')]), w)),
     hc_get_status_code = (\<lambda>c w. 200), hc_set_redirection = (\<lambda>c w. w), hc_close = (\<lambda>c w. w), hc_cleanup = (\<lambda>c w. w),
     hs_hook = (\<lambda>f m w. Some ((0, hm_buffer m), w))\<rparr>"

lemma demo_list_facts:
  "plays 1 demo_tracks demo_list_world" "tracks_ok demo_tracks" "http_of 1 demo_list_world = Some demo_list_http"
  "map tr_uri (unplayed demo_tracks) = [''b'', ''c'']" "length (unplayed demo_tracks) = 2" "typed_client (idle_http_ops :: ht_world http_ops)"
  by (simp_all add: plays_def demo_list_world_def demo_list_http_def demo_tracks_def tracks_ok_def http_of_def
      audio_element_getdata_def typed_client_def idle_http_ops_def keeps_def strcaseeq_def)

lemma tracks_played_in_order_witness:
  "\<exists>w'. play_tracks (seq_platform (Some 9)) 1 2 demo_list_world = Some ([''b'', ''c''], w')"
  using tracks_played_in_order [OF free_locks_seq demo_list_facts(1,2), of 2] demo_list_facts(4,5)
  by (auto simp del: play_tracks.simps)

lemma next_track_reopens_stale_witness:
  "do { (_, w) \<leftarrow> http_stream_next_track (seq_platform (Some 9)) 1 demo_list_world;
        http_open (seq_platform (Some 9)) idle_http_ops 1 w } = None"
  by (rule next_track_reopens_stale [OF free_locks_seq demo_list_facts(1) _ demo_list_facts(2,3) _ _ _ demo_list_facts(6), of 4])
    (simp_all add: demo_list_facts(5) demo_list_http_def)

lemma http_close_releases_witness:
  "\<exists>w' http'. http_close (seq_platform (Some 9)) idle_http_ops 1 demo_list_world = Some (ESP_OK, w') \<and> http_of 1 w' = Some http' \<and>
    \<not> ht_is_open http' \<and> ht_client http' = None \<and> http_pos 1 w' = 0"
proof -
  let ?e = "el_zero\<lparr>el_lock := Some 2, el_data := 3, el_info := AUDIO_ELEMENT_INFO_DEFAULT\<lparr>info_byte_pos := 9\<rparr>\<rparr>"
  have "els demo_list_world 1 = Some ?e" "hts demo_list_world (el_data ?e) = Some demo_list_http"
    by (simp_all add: demo_list_world_def)
  from http_close_releases [OF free_locks_seq this(1) _ this(2), of 2 idle_http_ops "Some 9"] show ?thesis
    by (auto simp: demo_list_http_def idle_http_ops_def keeps_def el_zero_def)
qed

end
