(* ===== verification/Codec_Bus.thy ===== *)
theory Codec_Bus
  imports Platform
begin

text \<open>
  What the drivers of the codec chips share: the configuration types of \<open>audio_hal.h\<close> and \<open>es8388.h\<close>, register access
  over the I2C bus, and the laws of a chip that answers. A driver queues the steps of a bus transaction and starts it;
  the bus is the parameter \<open>hw\<close>, as are the pins of a board and the power amplifier. An enumerator is its number.
\<close>

type_synonym u16 = "16 word"

section \<open>Configurations\<close>

abbreviation (input) AUDIO_HAL_CODEC_MODE_ENCODE :: int where "AUDIO_HAL_CODEC_MODE_ENCODE \<equiv> 1"
abbreviation (input) AUDIO_HAL_CODEC_MODE_DECODE :: int where "AUDIO_HAL_CODEC_MODE_DECODE \<equiv> 2"
abbreviation (input) AUDIO_HAL_CODEC_MODE_BOTH :: int where "AUDIO_HAL_CODEC_MODE_BOTH \<equiv> 3"
abbreviation (input) AUDIO_HAL_CODEC_MODE_LINE_IN :: int where "AUDIO_HAL_CODEC_MODE_LINE_IN \<equiv> 4"
abbreviation (input) AUDIO_HAL_CTRL_STOP :: int where "AUDIO_HAL_CTRL_STOP \<equiv> 0"
abbreviation (input) AUDIO_HAL_CTRL_START :: int where "AUDIO_HAL_CTRL_START \<equiv> 1"
abbreviation (input) AUDIO_HAL_ADC_INPUT_LINE1 :: int where "AUDIO_HAL_ADC_INPUT_LINE1 \<equiv> 0"
abbreviation (input) AUDIO_HAL_ADC_INPUT_LINE2 :: int where "AUDIO_HAL_ADC_INPUT_LINE2 \<equiv> 1"
abbreviation (input) AUDIO_HAL_DAC_OUTPUT_LINE1 :: int where "AUDIO_HAL_DAC_OUTPUT_LINE1 \<equiv> 0"
abbreviation (input) AUDIO_HAL_DAC_OUTPUT_LINE2 :: int where "AUDIO_HAL_DAC_OUTPUT_LINE2 \<equiv> 1"
abbreviation (input) AUDIO_HAL_BIT_LENGTH_16BITS :: int where "AUDIO_HAL_BIT_LENGTH_16BITS \<equiv> 1"
abbreviation (input) AUDIO_HAL_BIT_LENGTH_24BITS :: int where "AUDIO_HAL_BIT_LENGTH_24BITS \<equiv> 2"
abbreviation (input) AUDIO_HAL_BIT_LENGTH_32BITS :: int where "AUDIO_HAL_BIT_LENGTH_32BITS \<equiv> 3"

record audio_hal_codec_i2s_iface =
  if_mode :: int
  if_fmt :: int
  if_samples :: int
  if_bits :: int

record audio_hal_codec_config =
  cc_adc_input :: int
  cc_dac_output :: int
  cc_codec_mode :: int
  cc_i2s_iface :: audio_hal_codec_i2s_iface

abbreviation (input) ES_MODULE_ADC :: int where "ES_MODULE_ADC \<equiv> 1"
abbreviation (input) ES_MODULE_DAC :: int where "ES_MODULE_DAC \<equiv> 2"
abbreviation (input) ES_MODULE_ADC_DAC :: int where "ES_MODULE_ADC_DAC \<equiv> 3"
abbreviation (input) ES_MODULE_LINE :: int where "ES_MODULE_LINE \<equiv> 4"

abbreviation (input) BIT_LENGTH_16BITS :: int where "BIT_LENGTH_16BITS \<equiv> 3"
abbreviation (input) BIT_LENGTH_24BITS :: int where "BIT_LENGTH_24BITS \<equiv> 0"
abbreviation (input) BIT_LENGTH_32BITS :: int where "BIT_LENGTH_32BITS \<equiv> 4"

record es_i2s_clock =
  ck_sclk_div :: int
  ck_lclk_div :: int

section \<open>The bus\<close>

datatype i2c_step = I2C_START | I2C_WRITE u8 | I2C_READ | I2C_STOP

text \<open>\<open>hw_queue\<close> appends a step to a transaction, \<open>hw_begin\<close> runs it and gives the bytes read.\<close>

record 'w hw =
  hw_queue :: "i2c_step \<Rightarrow> 'w \<Rightarrow> int \<times> 'w"
  hw_begin :: "i2c_step list \<Rightarrow> 'w \<Rightarrow> (int \<times> u8 list) \<times> 'w"
  hw_param_config :: "'w \<Rightarrow> int \<times> 'w"
  hw_driver_install :: "'w \<Rightarrow> int \<times> 'w"
  hw_gpio_config :: "u64 \<Rightarrow> 'w \<Rightarrow> 'w"
  hw_gpio_set_level :: "nat \<Rightarrow> int \<Rightarrow> 'w \<Rightarrow> 'w"
  hw_pa_gpio :: nat

text \<open>\<open>res |= f(...)\<close>.\<close>

definition or_res :: "('w \<Rightarrow> int \<times> 'w) \<Rightarrow> int \<times> 'w \<Rightarrow> int \<times> 'w" where
  "or_res f rw = (let (r, w) = f (snd rw) in (fst rw OR r, w))"

lemma or_res_Pair [simp]: "or_res f (res, w) = (res OR fst (f w), snd (f w))"
  by (simp add: or_res_def case_prod_beta)

text \<open>A transaction: every step is queued, then it is started; all results are combined.\<close>

definition i2c_transfer :: "'w hw \<Rightarrow> i2c_step list \<Rightarrow> int \<times> 'w \<Rightarrow> (int \<times> u8 list) \<times> 'w" where
  "i2c_transfer I steps rw =
     (let (res, w) = fold (\<lambda>s. or_res (hw_queue I s)) steps rw;
          ((r, bytes), w) = hw_begin I steps w
      in ((res OR r, bytes), w))"

definition es_write_reg :: "'w hw \<Rightarrow> u8 \<Rightarrow> u8 \<Rightarrow> u8 \<Rightarrow> 'w \<Rightarrow> int \<times> 'w" where
  "es_write_reg I slave_add reg_add data w =
     (let ((res, _), w) = i2c_transfer I [I2C_START, I2C_WRITE slave_add, I2C_WRITE reg_add, I2C_WRITE data, I2C_STOP] (0, w)
      in (if res \<noteq> 0 then -1 else res, w))"

text \<open>\<open>es_read_reg\<close>: on an error the variable of the caller keeps its value, here \<open>None\<close>.\<close>

definition es_read_reg :: "'w hw \<Rightarrow> u8 \<Rightarrow> u8 \<Rightarrow> 'w \<Rightarrow> (int \<times> u8 option) \<times> 'w" where
  "es_read_reg I slave_add reg_add w =
     (let ((res, _), w) = i2c_transfer I [I2C_START, I2C_WRITE slave_add, I2C_WRITE reg_add, I2C_STOP] (0, w);
          ((res, bytes), w) = i2c_transfer I [I2C_START, I2C_WRITE (slave_add OR 1), I2C_READ, I2C_STOP] (res, w)
      in if res \<noteq> 0 then ((-1, None), w)
         else ((res, case bytes of [] \<Rightarrow> None | b # _ \<Rightarrow> Some b), w))"

text \<open>A block of statements \<open>res |= es_write_reg(addr, reg, data)\<close>.\<close>

definition write_regs :: "'w hw \<Rightarrow> u8 \<Rightarrow> (u8 \<times> u8) list \<Rightarrow> int \<times> 'w \<Rightarrow> int \<times> 'w" where
  "write_regs I a rs rw = fold (\<lambda>(r, d). or_res (es_write_reg I a r d)) rs rw"

lemma write_regs_simps [simp]:
  "write_regs I a [] rw = rw"
  "write_regs I a ((r, d) # rs) rw = write_regs I a rs (or_res (es_write_reg I a r d) rw)"
  by (simp_all add: write_regs_def)

text \<open>A read into a variable that holds \<open>reg\<close>.\<close>

definition read_into :: "'w hw \<Rightarrow> u8 \<Rightarrow> u8 \<Rightarrow> u8 \<Rightarrow> 'w \<Rightarrow> (int \<times> u8) \<times> 'w" where
  "read_into I a r reg w =
     (let ((res, d), w) = es_read_reg I a r w in ((res, case d of None \<Rightarrow> reg | Some v \<Rightarrow> v), w))"

definition i2c_init :: "'w hw \<Rightarrow> 'w \<Rightarrow> int \<times> 'w" where
  "i2c_init I w =
     (let (res, w) = or_res (hw_driver_install I) (hw_param_config I w) in (if res \<noteq> 0 then -1 else res, w))"

section \<open>Bits of registers\<close>

lemma u8_eqI:
  assumes "bit (a :: u8) 0 = bit b 0" "bit a 1 = bit b 1" "bit a 2 = bit b 2" "bit a 3 = bit b 3"
    "bit a 4 = bit b 4" "bit a 5 = bit b 5" "bit a 6 = bit b 6" "bit a 7 = bit b 7"
  shows "a = b"
proof (rule bit_word_eqI)
  fix n :: nat
  assume "n < LENGTH(8)"
  then have "n \<in> {0, 1, 2, 3, 4, 5, 6, 7}" by auto
  with assms show "bit a n = bit b n" by auto
qed

lemma u16_eqI:
  assumes "bit (a :: u16) 0 = bit b 0" "bit a 1 = bit b 1" "bit a 2 = bit b 2" "bit a 3 = bit b 3"
    "bit a 4 = bit b 4" "bit a 5 = bit b 5" "bit a 6 = bit b 6" "bit a 7 = bit b 7"
    "bit a 8 = bit b 8" "bit a 9 = bit b 9" "bit a 10 = bit b 10" "bit a 11 = bit b 11"
    "bit a 12 = bit b 12" "bit a 13 = bit b 13" "bit a 14 = bit b 14" "bit a 15 = bit b 15"
  shows "a = b"
proof (rule bit_word_eqI)
  fix n :: nat
  assume "n < LENGTH(16)"
  then have "n \<in> {0, 1, 2, 3, 4, 5, 6, 7, 8, 9, 10, 11, 12, 13, 14, 15}" by simp presburger
  with assms show "bit a n = bit b n" by auto
qed

lemmas reg_bits = bit_and_iff bit_or_iff bit_drop_bit_eq

section \<open>A chip that answers\<close>

text \<open>
  The chip at an address: \<open>getr\<close> reads its registers from the state and \<open>setr\<close> stores them, \<open>setp\<close> sets the register
  pointer. A write transaction stores a register; a read is a write of the pointer and a transaction that gives
  the register there.
\<close>

definition chip_view :: "('w \<Rightarrow> u8 \<Rightarrow> u8) \<Rightarrow> ((u8 \<Rightarrow> u8) \<Rightarrow> 'w \<Rightarrow> 'w) \<Rightarrow> ('w \<Rightarrow> u8) \<Rightarrow> (u8 \<Rightarrow> 'w \<Rightarrow> 'w) \<Rightarrow> bool" where
  "chip_view getr setr getp setp \<longleftrightarrow>
     (\<forall>w r. getr (setr r w) = r) \<and> (\<forall>w p. getr (setp p w) = getr w) \<and> (\<forall>w p. getp (setp p w) = p)"

definition codec_chip ::
  "'w hw \<Rightarrow> u8 \<Rightarrow> ('w \<Rightarrow> u8 \<Rightarrow> u8) \<Rightarrow> ((u8 \<Rightarrow> u8) \<Rightarrow> 'w \<Rightarrow> 'w) \<Rightarrow> ('w \<Rightarrow> u8) \<Rightarrow> (u8 \<Rightarrow> 'w \<Rightarrow> 'w) \<Rightarrow> bool" where
  "codec_chip I a getr setr getp setp \<longleftrightarrow> chip_view getr setr getp setp \<and>
     (\<forall>s w. hw_queue I s w = (0, w)) \<and>
     (\<forall>r d w. hw_begin I [I2C_START, I2C_WRITE a, I2C_WRITE r, I2C_WRITE d, I2C_STOP] w = ((0, []), setr ((getr w)(r := d)) w)) \<and>
     (\<forall>r w. hw_begin I [I2C_START, I2C_WRITE a, I2C_WRITE r, I2C_STOP] w = ((0, []), setp r w)) \<and>
     (\<forall>w. hw_begin I [I2C_START, I2C_WRITE (a OR 1), I2C_READ, I2C_STOP] w = ((0, [getr w (getp w)]), w))"

text \<open>A bus on which no transaction succeeds.\<close>

definition dead_bus :: "'w hw \<Rightarrow> bool" where
  "dead_bus I \<longleftrightarrow> (\<forall>s w. hw_queue I s w = (0, w)) \<and> (\<forall>ss w. hw_begin I ss w = ((-1, []), w))"

lemma chip_write: "codec_chip I a getr setr getp setp \<Longrightarrow> es_write_reg I a r d w = (0, setr ((getr w)(r := d)) w)"
  by (simp add: es_write_reg_def i2c_transfer_def codec_chip_def)

lemma chip_read: "codec_chip I a getr setr getp setp \<Longrightarrow> es_read_reg I a r w = ((0, Some (getr w r)), setp r w)"
  by (simp add: es_read_reg_def i2c_transfer_def codec_chip_def chip_view_def)

lemma chip_read_into: "codec_chip I a getr setr getp setp \<Longrightarrow> read_into I a r reg w = ((0, getr w r), setp r w)"
  by (simp add: read_into_def chip_read)

lemma chip_getr:
  assumes "codec_chip I a getr setr getp setp"
  shows "getr (setr r w) = r" "getr (setp p w) = getr w"
  using assms by (simp_all add: codec_chip_def chip_view_def)

lemmas chip_simps = chip_write chip_read chip_read_into chip_getr

text \<open>A block of writes stores the last value written to each register.\<close>

lemma chip_write_regs:
  assumes "codec_chip I a getr setr getp setp"
  shows "fst (write_regs I a rs (res, w)) = res \<and>
    getr (snd (write_regs I a rs (res, w))) = fold (\<lambda>(r, d) f. f(r := d)) rs (getr w)"
proof (induction rs arbitrary: w)
  case (Cons x rs)
  then show ?case by (cases x) (simp add: chip_simps [OF assms])
qed simp

lemma dead_write: "dead_bus I \<Longrightarrow> es_write_reg I a r d w = (-1, w)"
  by (simp add: es_write_reg_def i2c_transfer_def dead_bus_def)

lemma dead_read: "dead_bus I \<Longrightarrow> es_read_reg I a r w = ((-1, None), w)"
  by (simp add: es_read_reg_def i2c_transfer_def dead_bus_def)

lemma dead_read_into: "dead_bus I \<Longrightarrow> read_into I a r reg w = ((-1, reg), w)"
  by (simp add: read_into_def dead_read)

section \<open>A concrete chip\<close>

text \<open>The state is the register file and the pointer; the chip answers at one address.\<close>

type_synonym demo_chip = "(u8 \<Rightarrow> u8) \<times> u8"

definition demo_hw :: "u8 \<Rightarrow> demo_chip hw" where
  "demo_hw a = \<lparr>hw_queue = (\<lambda>s w. (0, w)),
     hw_begin = (\<lambda>ss w. case ss of
         [I2C_START, I2C_WRITE b, I2C_WRITE r, I2C_WRITE d, I2C_STOP] \<Rightarrow> ((0, []), ((fst w)(r := d), snd w))
       | [I2C_START, I2C_WRITE b, I2C_WRITE r, I2C_STOP] \<Rightarrow> ((0, []), (fst w, r))
       | [I2C_START, I2C_WRITE b, I2C_READ, I2C_STOP] \<Rightarrow> ((0, [fst w (snd w)]), w)
       | _ \<Rightarrow> ((-1, []), w)),
     hw_param_config = (\<lambda>w. (0, w)), hw_driver_install = (\<lambda>w. (0, w)), hw_gpio_config = (\<lambda>m w. w),
     hw_gpio_set_level = (\<lambda>g l w. w), hw_pa_gpio = 21\<rparr>"

lemma demo_chip_ok: "codec_chip (demo_hw a) a fst (\<lambda>r w. (r, snd w)) snd (\<lambda>p w. (fst w, p))"
  by (simp add: codec_chip_def chip_view_def demo_hw_def)

definition dead_hw :: "demo_chip hw" where
  "dead_hw = (demo_hw 0)\<lparr>hw_begin := (\<lambda>ss w. ((-1, []), w))\<rparr>"

lemma dead_hw_dead: "dead_bus dead_hw"
  by (simp add: dead_bus_def dead_hw_def demo_hw_def)

end
