(* ===== verification/Wm8978.thy ===== *)
theory Wm8978
  imports Codec_Bus
begin

text \<open>
  The driver of the WM8978 codec (\<open>components/audio_hal/driver/wm8978/wm8978.c\<close>). The chip cannot be read, so the driver keeps
  the table \<open>WM8978_REGVAL_TAL\<close> of what it wrote; the state is that table and the bus. \<open>None\<close> is an access outside the
  table, or a conversion of a volume to \<open>uint8_t\<close> that C does not define.
\<close>

type_synonym 'w wm_state = "u16 list \<times> 'w"

section \<open>Registers\<close>

definition WM8978_REGVAL_TAL :: "u16 list" where
  "WM8978_REGVAL_TAL =
     [0x0000, 0x0000, 0x0000, 0x0000, 0x0050, 0x0000, 0x0140, 0x0000,
      0x0000, 0x0000, 0x0000, 0x00FF, 0x00FF, 0x0000, 0x0100, 0x00FF,
      0x00FF, 0x0000, 0x012C, 0x002C, 0x002C, 0x002C, 0x002C, 0x0000,
      0x0032, 0x0000, 0x0000, 0x0000, 0x0000, 0x0000, 0x0000, 0x0000,
      0x0038, 0x000B, 0x0032, 0x0000, 0x0008, 0x000C, 0x0093, 0x00E9,
      0x0000, 0x0000, 0x0000, 0x0000, 0x0003, 0x0010, 0x0010, 0x0100,
      0x0100, 0x0002, 0x0001, 0x0001, 0x0039, 0x0039, 0x0039, 0x0039,
      0x0001, 0x0001]"

text \<open>The two bytes of a write: seven bits of address and nine of data.\<close>

definition wm_buf :: "u8 \<Rightarrow> u16 \<Rightarrow> u8 \<times> u8" where
  "wm_buf reg_addr data = (ucast (drop_bit 8 (data AND 0x0100)) OR push_bit 1 reg_addr, ucast (data AND 0xff))"

text \<open>Only the results of the start condition and of the transaction count; the table takes the value even when the
  transaction failed.\<close>

definition wm8978_write_reg :: "'w hw \<Rightarrow> u8 \<Rightarrow> u16 \<Rightarrow> 'w wm_state \<Rightarrow> (int \<times> 'w wm_state) option" where
  "wm8978_write_reg I reg_addr data s =
     (let (b0, b1) = wm_buf reg_addr data;
          (res, w) = hw_queue I I2C_START (snd s);
          w = fold (\<lambda>st w. snd (hw_queue I st w)) [I2C_WRITE 0x34, I2C_WRITE b0, I2C_WRITE b1, I2C_STOP] w;
          ((r, _), w) = hw_begin I [I2C_START, I2C_WRITE 0x34, I2C_WRITE b0, I2C_WRITE b1, I2C_STOP] w;
          res = res OR r
      in if unat reg_addr < length (fst s)
         then Some (if res \<noteq> 0 then -1 else res, (fst s)[unat reg_addr := data], w) else None)"

definition wm8978_read_reg :: "u8 \<Rightarrow> 'w wm_state \<Rightarrow> u16 option" where
  "wm8978_read_reg reg_addr s = (if unat reg_addr < length (fst s) then Some (fst s ! unat reg_addr) else None)"

text \<open>A write whose result is dropped, and a read, change and write of a register.\<close>

definition wm_put :: "'w hw \<Rightarrow> u8 \<Rightarrow> u16 \<Rightarrow> 'w wm_state \<Rightarrow> 'w wm_state option" where
  "wm_put I r d s = map_option snd (wm8978_write_reg I r d s)"

definition wm_upd :: "'w hw \<Rightarrow> u8 \<Rightarrow> (u16 \<Rightarrow> u16) \<Rightarrow> 'w wm_state \<Rightarrow> 'w wm_state option" where
  "wm_upd I r f s = do { regval \<leftarrow> wm8978_read_reg r s; wm_put I r (f regval) s }"

text \<open>\<open>ret |= wm8978_write_reg(r, d)\<close> for a list of registers.\<close>

fun wm_write_regs :: "'w hw \<Rightarrow> (u8 \<times> u16) list \<Rightarrow> int \<Rightarrow> 'w wm_state \<Rightarrow> (int \<times> 'w wm_state) option" where
  "wm_write_regs I [] ret s = Some (ret, s)"
| "wm_write_regs I ((r, d) # rs) ret s = do {
     (x, s) \<leftarrow> wm8978_write_reg I r d s;
     wm_write_regs I rs (ret OR x) s }"

section \<open>Settings\<close>

definition WM8978_ADDA_Cfg :: "'w hw \<Rightarrow> u8 \<Rightarrow> u8 \<Rightarrow> 'w wm_state \<Rightarrow> 'w wm_state option" where
  "WM8978_ADDA_Cfg I dacen adcen s = do {
     s \<leftarrow> wm_upd I 3 (\<lambda>regval. if dacen \<noteq> 0 then regval OR 3 else regval AND NOT 3) s;
     wm_upd I 2 (\<lambda>regval. if adcen \<noteq> 0 then regval OR 3 else regval AND NOT 3) s }"

definition WM8978_LINEIN_Gain :: "'w hw \<Rightarrow> u8 \<Rightarrow> 'w wm_state \<Rightarrow> 'w wm_state option" where
  "WM8978_LINEIN_Gain I gain s = do {
     let gain = gain AND 0x07;
     s \<leftarrow> wm_upd I 47 (\<lambda>regval. (regval AND NOT 0x70) OR push_bit 4 (ucast gain)) s;
     wm_upd I 48 (\<lambda>regval. (regval AND NOT 0x70) OR push_bit 4 (ucast gain)) s }"

definition WM8978_AUX_Gain :: "'w hw \<Rightarrow> u8 \<Rightarrow> 'w wm_state \<Rightarrow> 'w wm_state option" where
  "WM8978_AUX_Gain I gain s = do {
     let gain = gain AND 0x07;
     s \<leftarrow> wm_upd I 47 (\<lambda>regval. (regval AND NOT 0x07) OR ucast gain) s;
     wm_upd I 48 (\<lambda>regval. (regval AND NOT 0x07) OR ucast gain) s }"

definition WM8978_Input_Cfg :: "'w hw \<Rightarrow> u8 \<Rightarrow> u8 \<Rightarrow> u8 \<Rightarrow> 'w wm_state \<Rightarrow> 'w wm_state option" where
  "WM8978_Input_Cfg I micen lineinen auxen s = do {
     s \<leftarrow> wm_upd I 2 (\<lambda>regval. if micen \<noteq> 0 then regval OR 0x0c else regval AND NOT 0x0c) s;
     s \<leftarrow> wm_upd I 44 (\<lambda>regval. if micen \<noteq> 0 then regval OR 0x33 else regval AND NOT 0x33) s;
     s \<leftarrow> WM8978_LINEIN_Gain I (if lineinen \<noteq> 0 then 5 else 0) s;
     WM8978_AUX_Gain I (if auxen \<noteq> 0 then 7 else 0) s }"

definition WM8978_Output_Cfg :: "'w hw \<Rightarrow> u8 \<Rightarrow> u8 \<Rightarrow> 'w wm_state \<Rightarrow> 'w wm_state option" where
  "WM8978_Output_Cfg I dacen bpsen s = do {
     let regval = (if dacen \<noteq> 0 then 1 else 0) OR (if bpsen \<noteq> 0 then 0x02 OR 0x14 else 0);
     s \<leftarrow> wm_put I 50 regval s;
     wm_put I 51 regval s }"

definition WM8978_MIC_Gain :: "'w hw \<Rightarrow> u8 \<Rightarrow> 'w wm_state \<Rightarrow> 'w wm_state option" where
  "WM8978_MIC_Gain I gain s = do {
     let gain = gain AND 0x3F;
     s \<leftarrow> wm_put I 45 (ucast gain) s;
     wm_put I 46 (ucast gain OR 0x100) s }"

definition WM8978_I2S_Cfg :: "'w hw \<Rightarrow> u8 \<Rightarrow> u8 \<Rightarrow> 'w wm_state \<Rightarrow> 'w wm_state option" where
  "WM8978_I2S_Cfg I fmt len s = wm_put I 4 (push_bit 3 (ucast (fmt AND 0x03)) OR push_bit 5 (ucast (len AND 0x03))) s"

text \<open>A volume of six bits; 0 is the mute bit.\<close>

definition wm_vol :: "u8 \<Rightarrow> u8" where
  "wm_vol v = (let v = v AND 0x3F in if v = 0 then v OR 0x40 else v)"

definition WM8978_HPvol_Set :: "'w hw \<Rightarrow> u8 \<Rightarrow> u8 \<Rightarrow> 'w wm_state \<Rightarrow> 'w wm_state option" where
  "WM8978_HPvol_Set I voll volr s = do {
     s \<leftarrow> wm_put I 52 (ucast (wm_vol voll)) s;
     wm_put I 53 (ucast (wm_vol volr) OR 0x100) s }"

definition WM8978_SPKvol_Set :: "'w hw \<Rightarrow> u8 \<Rightarrow> 'w wm_state \<Rightarrow> 'w wm_state option" where
  "WM8978_SPKvol_Set I volx s = do {
     s \<leftarrow> wm_put I 54 (ucast (wm_vol volx)) s;
     wm_put I 55 (ucast (wm_vol volx) OR 0x100) s }"

definition WM8978_3D_Set :: "'w hw \<Rightarrow> u8 \<Rightarrow> 'w wm_state \<Rightarrow> 'w wm_state option" where
  "WM8978_3D_Set I depth s = wm_put I 41 (ucast (depth AND 0xF)) s"

definition WM8978_EQ_3D_Dir :: "'w hw \<Rightarrow> u8 \<Rightarrow> 'w wm_state \<Rightarrow> 'w wm_state option" where
  "WM8978_EQ_3D_Dir I dir s = wm_upd I 18 (\<lambda>regval. if dir \<noteq> 0 then regval OR 0x100 else regval AND NOT 0x100) s"

text \<open>The bits of an equaliser band.\<close>

definition wm_eq :: "u8 \<Rightarrow> u8 \<Rightarrow> u16" where
  "wm_eq cfreq gain = push_bit 5 (ucast (cfreq AND 0x3)) OR ucast (24 - (if gain > 24 then 24 else gain))"

definition WM8978_EQ1_Set :: "'w hw \<Rightarrow> u8 \<Rightarrow> u8 \<Rightarrow> 'w wm_state \<Rightarrow> 'w wm_state option" where
  "WM8978_EQ1_Set I cfreq gain s = wm_upd I 18 (\<lambda>regval. (regval AND 0x100) OR wm_eq cfreq gain) s"

definition WM8978_EQ2_Set :: "'w hw \<Rightarrow> u8 \<Rightarrow> u8 \<Rightarrow> 'w wm_state \<Rightarrow> 'w wm_state option" where
  "WM8978_EQ2_Set I cfreq gain s = wm_put I 19 (wm_eq cfreq gain) s"

definition WM8978_EQ3_Set :: "'w hw \<Rightarrow> u8 \<Rightarrow> u8 \<Rightarrow> 'w wm_state \<Rightarrow> 'w wm_state option" where
  "WM8978_EQ3_Set I cfreq gain s = wm_put I 20 (wm_eq cfreq gain) s"

definition WM8978_EQ4_Set :: "'w hw \<Rightarrow> u8 \<Rightarrow> u8 \<Rightarrow> 'w wm_state \<Rightarrow> 'w wm_state option" where
  "WM8978_EQ4_Set I cfreq gain s = wm_put I 21 (wm_eq cfreq gain) s"

definition WM8978_EQ5_Set :: "'w hw \<Rightarrow> u8 \<Rightarrow> u8 \<Rightarrow> 'w wm_state \<Rightarrow> 'w wm_state option" where
  "WM8978_EQ5_Set I cfreq gain s = wm_put I 22 (wm_eq cfreq gain) s"

section \<open>The functions of the codec interface\<close>

text \<open>The table is changed first and its entry written.\<close>

definition wm_tal :: "u8 \<Rightarrow> (u16 \<Rightarrow> u16) \<Rightarrow> 'w wm_state \<Rightarrow> 'w wm_state option" where
  "wm_tal r f s = map_option (\<lambda>x. ((fst s)[unat r := f x], snd s)) (wm8978_read_reg r s)"

definition wm8979_interface :: "'w hw \<Rightarrow> 'w wm_state \<Rightarrow> 'w wm_state option" where
  "wm8979_interface I s = do {
     s \<leftarrow> wm_tal 4 (\<lambda>x. x AND NOT 0x60) s;
     s \<leftarrow> wm_upd I 4 (\<lambda>x. x) s;
     s \<leftarrow> wm_tal 6 (\<lambda>x. (((x OR 0x01) OR 0x0c) AND NOT 0xe0) AND NOT 0x100) s;
     s \<leftarrow> wm_upd I 6 (\<lambda>x. x) s;
     wm_tal 6 (\<lambda>x. x AND NOT 0x100) s }"

definition wm8978_deinit :: "'w hw \<Rightarrow> 'w wm_state \<Rightarrow> (int \<times> 'w wm_state) option" where
  "wm8978_deinit I s = wm8978_write_reg I 0 0 s"

definition wm_defaults :: "'w hw \<Rightarrow> 'w wm_state \<Rightarrow> 'w wm_state option" where
  "wm_defaults I s = do {
     s \<leftarrow> WM8978_ADDA_Cfg I 1 1 s;
     s \<leftarrow> WM8978_Input_Cfg I 1 0 0 s;
     s \<leftarrow> WM8978_Output_Cfg I 1 0 s;
     s \<leftarrow> WM8978_MIC_Gain I 25 s;
     s \<leftarrow> WM8978_AUX_Gain I 0 s;
     s \<leftarrow> WM8978_LINEIN_Gain I 0 s;
     s \<leftarrow> WM8978_SPKvol_Set I 63 s;
     s \<leftarrow> WM8978_HPvol_Set I 63 63 s;
     s \<leftarrow> WM8978_EQ_3D_Dir I 0 s;
     s \<leftarrow> WM8978_EQ1_Set I 0 24 s;
     s \<leftarrow> WM8978_EQ2_Set I 0 24 s;
     s \<leftarrow> WM8978_EQ3_Set I 0 24 s;
     s \<leftarrow> WM8978_EQ4_Set I 0 24 s;
     WM8978_EQ5_Set I 0 24 s }"

definition wm8978_init :: "'w hw \<Rightarrow> 'w wm_state \<Rightarrow> (int \<times> 'w wm_state) option" where
  "wm8978_init I s = do {
     let w = snd (i2c_init I (snd s));
     (ret, s) \<leftarrow> wm8978_write_reg I 0 0 (fst s, w);
     if ret \<noteq> 0 then Some (-1, s)
     else do {
       s \<leftarrow> wm8979_interface I s;
       (ret, s) \<leftarrow> wm_write_regs I [(1, 0x3B), (2, 0x1B0), (3, 0x6C), (43, 0x10), (47, 0x100), (48, 0x100), (49, 0x100),
                     (10, 0x08), (14, 0x08)] ret s;
       if ret \<noteq> 0 then Some (-1, s)
       else do { s \<leftarrow> wm_defaults I s; Some (ret, s) } } }"

text \<open>\<open>(uint8_t) (0.63 * (float) volume)\<close> truncates; it is defined when the truncated number is a \<open>uint8_t\<close>.\<close>

definition wm_scale :: "int \<Rightarrow> u8 option" where
  "wm_scale volume =
     (let t = sgn volume * (63 * \<bar>volume\<bar> div 100) in if 0 \<le> t \<and> t \<le> 255 then Some (word_of_int t) else None)"

definition wm8978_set_voice_volume :: "'w hw \<Rightarrow> int \<Rightarrow> 'w wm_state \<Rightarrow> (int \<times> 'w wm_state) option" where
  "wm8978_set_voice_volume I volume s = do {
     vol \<leftarrow> wm_scale volume;
     let vol = wm_vol vol;
     wm_write_regs I [(52, ucast vol), (53, ucast vol OR 0x100), (54, ucast vol), (55, ucast vol OR 0x100)] 0 s }"

text \<open>These three do nothing; \<open>*volume\<close> keeps its value.\<close>

definition wm8978_get_voice_volume :: "int \<Rightarrow> 'w wm_state \<Rightarrow> (int \<times> int) \<times> 'w wm_state" where
  "wm8978_get_voice_volume volume s = ((0, volume), s)"

definition wm8978_config_i2s :: "int \<Rightarrow> audio_hal_codec_i2s_iface \<Rightarrow> 'w wm_state \<Rightarrow> int \<times> 'w wm_state" where
  "wm8978_config_i2s mode iface s = (0, s)"

definition wm8978_ctrl_state :: "int \<Rightarrow> int \<Rightarrow> 'w wm_state \<Rightarrow> int \<times> 'w wm_state" where
  "wm8978_ctrl_state mode ctrl_state s = (0, s)"

end
