(* ===== verification/Wm8978_Correct.thy ===== *)
theory Wm8978_Correct
  imports Wm8978
begin

text \<open>
  Correctness of the WM8978 driver: what it writes decodes to the register and the nine data bits meant, and its table mirrors the
  chip, in the registers that start alike, through the initialisation and every setting, but not through a later reset.
\<close>

section \<open>The chip\<close>

definition wm_reg_of :: "u8 \<Rightarrow> u8" where "wm_reg_of b0 = drop_bit 1 b0"

definition wm_data_of :: "u8 \<Rightarrow> u8 \<Rightarrow> u16" where "wm_data_of b0 b1 = push_bit 8 (ucast (b0 AND 1)) OR ucast b1"

text \<open>The chip at the address 0x1A: a write of two bytes stores nine bits in a register; a write to register 0
  puts all registers to their defaults.\<close>

definition wm_chip :: "'w hw \<Rightarrow> ('w \<Rightarrow> u8 \<Rightarrow> u16) \<Rightarrow> ((u8 \<Rightarrow> u16) \<Rightarrow> 'w \<Rightarrow> 'w) \<Rightarrow> (u8 \<Rightarrow> u16) \<Rightarrow> bool" where
  "wm_chip I getr setr dflt \<longleftrightarrow> (\<forall>w f. getr (setr f w) = f) \<and> (\<forall>st w. hw_queue I st w = (0, w)) \<and>
     (\<forall>w. getr (snd (i2c_init I w)) = getr w) \<and>
     (\<forall>b0 b1 w. hw_begin I [I2C_START, I2C_WRITE 0x34, I2C_WRITE b0, I2C_WRITE b1, I2C_STOP] w =
        ((0, []), setr (if wm_reg_of b0 = 0 then dflt else (getr w)(wm_reg_of b0 := wm_data_of b0 b1)) w))"

lemmas wm_bits = bit_and_iff bit_or_iff bit_drop_bit_eq bit_push_bit_iff bit_unsigned_iff comp_apply

lemma wm_buf_reg: "r < 58 \<Longrightarrow> wm_reg_of (fst (wm_buf r d)) = r"
proof -
  assume "r < 58"
  then have "unat r < 58" by (simp add: word_less_nat_alt)
  then have "\<not> bit (unat r) 7" by (simp add: bit_nat_def)
  then have "\<not> bit r 7" by (simp add: bit_unsigned_iff)
  then show ?thesis
    unfolding wm_reg_of_def wm_buf_def fst_conv by (intro u8_eqI; simp only: wm_bits; simp add: bit_and_iff numeral_2_eq_2)
qed

lemma wm_buf_data: "wm_data_of (fst (wm_buf r d)) (snd (wm_buf r d)) = d AND 0x1ff"
  unfolding wm_data_of_def wm_buf_def fst_conv snd_conv by (intro u16_eqI; simp only: wm_bits; simp add: bit_and_iff)

section \<open>The table mirrors the chip\<close>

text \<open>The table and the chip agree on the registers of a set.\<close>

definition mirrors :: "u8 set \<Rightarrow> ('w \<Rightarrow> u8 \<Rightarrow> u16) \<Rightarrow> 'w wm_state \<Rightarrow> bool" where
  "mirrors A getr s \<longleftrightarrow> length (fst s) = 58 \<and> (\<forall>r\<in>A. 0 < r \<and> r < 58 \<longrightarrow> getr (snd s) r = fst s ! unat r AND 0x1ff)"

lemma wm_write_chip:
  assumes "wm_chip I getr setr dflt" and "length (fst s) = 58" and "r < 58"
  shows "wm8978_write_reg I r d s =
    Some (0, (fst s)[unat r := d], setr (if r = 0 then dflt else (getr (snd s))(r := d AND 0x1ff)) (snd s))"
proof -
  obtain b0 b1 where b: "wm_buf r d = (b0, b1)" by fastforce
  then have "wm_reg_of b0 = r" "wm_data_of b0 b1 = d AND 0x1ff"
    using wm_buf_reg [OF assms(3), of d] wm_buf_data [of r d] by simp_all
  then show ?thesis
    using assms by (simp add: wm8978_write_reg_def b wm_chip_def word_less_nat_alt)
qed

lemma chip_setr: "wm_chip I getr setr dflt \<Longrightarrow> getr (setr f w) = f"
  by (simp add: wm_chip_def)

section \<open>Invariants of the driver\<close>

text \<open>
  A property of the table and the chip that writes keep, apart from writes to register 0, which resets the chip, and to
  a register \<open>x\<close> that the initialisation does not use. Every function of the driver then keeps it, and returns without
  an error.
\<close>

locale wm_invariant =
  fixes I :: "'w hw" and P :: "'w wm_state \<Rightarrow> bool" and x :: u8
  assumes unused: "x = 0 \<or> x = 41"
    and table: "P s \<Longrightarrow> length (fst s) = 58"
    and stores: "P s \<Longrightarrow> r \<noteq> 0 \<Longrightarrow> r \<noteq> x \<Longrightarrow> r < 58 \<Longrightarrow> \<exists>s'. wm8978_write_reg I r d s = Some (0, s') \<and> P s'"
begin

definition keeps :: "('w wm_state \<Rightarrow> 'w wm_state option) \<Rightarrow> bool" where
  "keeps f \<longleftrightarrow> (\<forall>s. P s \<longrightarrow> (\<exists>s'. f s = Some s' \<and> P s'))"

lemma keepsE: "keeps f \<Longrightarrow> P s \<Longrightarrow> \<exists>s'. f s = Some s' \<and> P s'"
  unfolding keeps_def by blast

lemma put: "r \<noteq> 0 \<Longrightarrow> r \<noteq> x \<Longrightarrow> r < 58 \<Longrightarrow> keeps (wm_put I r d)"
  using stores unfolding keeps_def wm_put_def by fastforce

lemma upd: "r \<noteq> 0 \<Longrightarrow> r \<noteq> x \<Longrightarrow> r < 58 \<Longrightarrow> keeps (wm_upd I r f)"
  using put [of r] by (auto simp: keeps_def wm_upd_def wm8978_read_reg_def word_less_nat_alt dest: table)

lemma chain: "keeps f \<Longrightarrow> keeps g \<Longrightarrow> keeps (\<lambda>s. f s \<bind> g)"
  unfolding keeps_def by (metis bind.bind_lunit)

lemma tal: "r \<noteq> 0 \<Longrightarrow> r \<noteq> x \<Longrightarrow> r < 58 \<Longrightarrow> keeps (\<lambda>s. wm_tal r f s \<bind> wm_upd I r (\<lambda>x. x))"
proof -
  assume r: "r \<noteq> 0" "r \<noteq> x" "r < 58"
  have "(wm_tal r f s \<bind> wm_upd I r (\<lambda>x. x)) = wm_put I r (f (fst s ! unat r)) s" if "P s" for s
    using r(3) table [OF that]
    by (simp add: wm_tal_def wm_upd_def wm_put_def wm8978_read_reg_def wm8978_write_reg_def Let_def case_prod_beta
        word_less_nat_alt)
  then show ?thesis using put [OF r] by (simp add: keeps_def)
qed

lemma writes:
  "P s \<Longrightarrow> \<forall>(r, d) \<in> set rs. r \<noteq> 0 \<and> r \<noteq> x \<and> r < 58 \<Longrightarrow> \<exists>s'. wm_write_regs I rs ret s = Some (ret, s') \<and> P s'"
proof (induction rs arbitrary: s)
  case (Cons y rs)
  obtain r d where y: "y = (r, d)" by fastforce
  with Cons.prems obtain s' where "wm8978_write_reg I r d s = Some (0, s')" "P s'" using stores [of s r d] by auto
  with Cons y show ?case by simp
qed simp

lemma settings:
  "keeps (WM8978_ADDA_Cfg I a b)" "keeps (WM8978_LINEIN_Gain I a)" "keeps (WM8978_AUX_Gain I a)"
  "keeps (WM8978_Input_Cfg I a b c)" "keeps (WM8978_Output_Cfg I a b)" "keeps (WM8978_MIC_Gain I a)"
  "keeps (WM8978_I2S_Cfg I a b)" "keeps (WM8978_HPvol_Set I a b)" "keeps (WM8978_SPKvol_Set I a)"
  "keeps (WM8978_EQ_3D_Dir I a)" "keeps (WM8978_EQ1_Set I a b)" "keeps (WM8978_EQ2_Set I a b)"
  "keeps (WM8978_EQ3_Set I a b)" "keeps (WM8978_EQ4_Set I a b)" "keeps (WM8978_EQ5_Set I a b)"
proof -
  have lin: "keeps (WM8978_LINEIN_Gain I a)" and aux: "keeps (WM8978_AUX_Gain I a)" for a
    unfolding WM8978_LINEIN_Gain_def WM8978_AUX_Gain_def Let_def using unused by - ((intro chain put upd; auto), (intro chain put upd; auto))
  show "keeps (WM8978_LINEIN_Gain I a)" "keeps (WM8978_AUX_Gain I a)" by (rule lin aux)+
  show "keeps (WM8978_Input_Cfg I a b c)"
    unfolding WM8978_Input_Cfg_def using unused by (intro chain put upd lin aux) auto
  show "keeps (WM8978_ADDA_Cfg I a b)" "keeps (WM8978_Output_Cfg I a b)" "keeps (WM8978_MIC_Gain I a)"
    "keeps (WM8978_I2S_Cfg I a b)" "keeps (WM8978_HPvol_Set I a b)" "keeps (WM8978_SPKvol_Set I a)"
    "keeps (WM8978_EQ_3D_Dir I a)" "keeps (WM8978_EQ1_Set I a b)" "keeps (WM8978_EQ2_Set I a b)"
    "keeps (WM8978_EQ3_Set I a b)" "keeps (WM8978_EQ4_Set I a b)" "keeps (WM8978_EQ5_Set I a b)"
    unfolding WM8978_ADDA_Cfg_def WM8978_Output_Cfg_def WM8978_MIC_Gain_def WM8978_I2S_Cfg_def WM8978_HPvol_Set_def
      WM8978_SPKvol_Set_def WM8978_EQ_3D_Dir_def WM8978_EQ1_Set_def WM8978_EQ2_Set_def WM8978_EQ3_Set_def
      WM8978_EQ4_Set_def WM8978_EQ5_Set_def Let_def
    using unused by - (intro chain put upd; auto)+
qed

lemma defaults: "keeps (wm_defaults I)"
  unfolding wm_defaults_def by (intro chain settings)

lemma interface: "keeps (wm8979_interface I)"
proof -
  define f where "f = (\<lambda>x :: u16. (((x OR 0x01) OR 0x0c) AND NOT 0xe0) AND NOT 0x100)"
  have idem: "f y AND NOT 0x100 = f y" for y unfolding f_def by (simp add: ac_simps)
  have r: "4 \<noteq> x" "6 \<noteq> x" using unused by auto
  have last: "(wm_tal 6 f s \<bind> wm_upd I 6 (\<lambda>x. x) \<bind> wm_tal 6 (\<lambda>x. x AND NOT 0x100)) = (wm_tal 6 f s \<bind> wm_upd I 6 (\<lambda>x. x))"
    if "P s" for s
    using table [OF that] idem
    by (auto simp: wm_tal_def wm_upd_def wm_put_def wm8978_read_reg_def wm8978_write_reg_def Let_def case_prod_beta)
  have k: "keeps (\<lambda>s. wm_tal 4 (\<lambda>x. x AND NOT 0x60) s \<bind> wm_upd I 4 (\<lambda>x. x))"
    "keeps (\<lambda>s. wm_tal 6 f s \<bind> wm_upd I 6 (\<lambda>x. x))"
    by (rule tal; simp add: r)+
  have "\<exists>s2. wm8979_interface I s = Some s2 \<and> P s2" if s: "P s" for s
  proof -
    obtain s1 where s1: "(wm_tal 4 (\<lambda>x. x AND NOT 0x60) s \<bind> wm_upd I 4 (\<lambda>x. x)) = Some s1" "P s1"
      using keepsE [OF k(1) s] by blast
    obtain s2 where s2: "(wm_tal 6 f s1 \<bind> wm_upd I 6 (\<lambda>x. x)) = Some s2" "P s2"
      using keepsE [OF k(2) s1(2)] by blast
    have "wm8979_interface I s = ((wm_tal 4 (\<lambda>x. x AND NOT 0x60) s \<bind> wm_upd I 4 (\<lambda>x. x)) \<bind>
        (\<lambda>s. (wm_tal 6 f s \<bind> wm_upd I 6 (\<lambda>x. x)) \<bind> wm_tal 6 (\<lambda>x. x AND NOT 0x100)))"
      unfolding wm8979_interface_def f_def bind_assoc ..
    then have "wm8979_interface I s = Some s2"
      using last [OF s1(2)] unfolding s1(1) s2(1) bind.bind_lunit by (rule trans)
    with s2(2) show ?thesis by blast
  qed
  then show ?thesis unfolding keeps_def by blast
qed

text \<open>What follows the reset in \<open>wm8978_init\<close>.\<close>

lemma after_reset:
  assumes "P s"
  shows "\<exists>s'. (do { s \<leftarrow> wm8979_interface I s;
       (ret, s) \<leftarrow> wm_write_regs I [(1, 0x3B), (2, 0x1B0), (3, 0x6C), (43, 0x10), (47, 0x100), (48, 0x100), (49, 0x100),
                     (10, 0x08), (14, 0x08)] 0 s;
       if ret \<noteq> 0 then Some (-1, s)
       else do { s \<leftarrow> wm_defaults I s; Some (ret, s) } }) = Some (0, s') \<and> P s'"
proof -
  obtain s1 where s1: "wm8979_interface I s = Some s1" "P s1" using keepsE [OF interface assms] by blast
  obtain s2 where s2: "wm_write_regs I [(1, 0x3B), (2, 0x1B0), (3, 0x6C), (43, 0x10), (47, 0x100), (48, 0x100), (49, 0x100),
      (10, 0x08), (14, 0x08)] 0 s1 = Some (0, s2)" "P s2"
    using writes [OF s1(2), of "[(1, 0x3B), (2, 0x1B0), (3, 0x6C), (43, 0x10), (47, 0x100), (48, 0x100), (49, 0x100),
      (10, 0x08), (14, 0x08)]" 0] unused by auto
  obtain s3 where s3: "wm_defaults I s2 = Some s3" "P s3" using keepsE [OF defaults s2(2)] by blast
  show ?thesis unfolding s1(1) bind.bind_lunit s2(1) using s3 by auto
qed

lemma init:
  assumes "wm8978_write_reg I 0 0 (fst s, snd (i2c_init I (snd s))) = Some (0, s0)" and "P s0"
  shows "\<exists>s'. wm8978_init I s = Some (0, s') \<and> P s'"
proof -
  have "wm8978_init I s = (do { s \<leftarrow> wm8979_interface I s0;
       (ret, s) \<leftarrow> wm_write_regs I [(1, 0x3B), (2, 0x1B0), (3, 0x6C), (43, 0x10), (47, 0x100), (48, 0x100), (49, 0x100),
                     (10, 0x08), (14, 0x08)] 0 s;
       if ret \<noteq> 0 then Some (-1, s)
       else do { s \<leftarrow> wm_defaults I s; Some (ret, s) } })"
    by (simp only: wm8978_init_def Let_def assms(1) bind.bind_lunit prod.case if_False simp_thms)
  with after_reset [OF assms(2)] show ?thesis by simp
qed

lemma volume:
  assumes "P s" and "wm_scale v \<noteq> None"
  shows "\<exists>s'. wm8978_set_voice_volume I v s = Some (0, s') \<and> P s'"
proof -
  obtain vol where vol: "wm_scale v = Some vol" using assms(2) by blast
  show ?thesis unfolding wm8978_set_voice_volume_def vol bind.bind_lunit Let_def
    using unused by (intro writes [OF assms(1)]) auto
qed

end

text \<open>The two invariants: the table mirrors the chip; and a register that is not written, and its entry, keep their values.\<close>

interpretation mir: wm_invariant I "\<lambda>s. wm_chip I getr setr dflt \<and> mirrors A getr s" 0 for I getr setr dflt A
proof (unfold_locales, goal_cases)
  case (3 s r d)
  then have chip: "wm_chip I getr setr dflt" and len: "length (fst s) = 58" and "unat r < 58"
    by (simp_all add: mirrors_def word_less_nat_alt)
  then show ?case
    using 3 by (auto simp: wm_write_chip [OF chip len] mirrors_def chip_setr [OF chip] nth_list_update word_less_nat_alt
        dest: unsigned_word_eqI)
qed (simp_all add: mirrors_def)

interpretation kept: wm_invariant I
  "\<lambda>s. wm_chip I getr setr dflt \<and> length (fst s) = 58 \<and> fst s ! 41 = a \<and> getr (snd s) 41 = b" 41 for I getr setr dflt a b
proof (unfold_locales, goal_cases)
  case (3 s r d)
  then have chip: "wm_chip I getr setr dflt" and len: "length (fst s) = 58" by simp_all
  have "unat r \<noteq> unat (41 :: u8)" using 3 by (metis unsigned_word_eqI)
  then show ?case
    using 3 by (simp add: wm_write_chip [OF chip len] chip_setr [OF chip])
qed simp_all

section \<open>Sequences of calls\<close>

datatype wm_call =
    Adda u8 u8 | Linein u8 | Aux u8 | Input u8 u8 u8 | Output u8 u8 | Mic u8 | I2s u8 u8 | Hpvol u8 u8 | Spkvol u8
  | Depth3d u8 | Dir3d u8 | Eq1 u8 u8 | Eq2 u8 u8 | Eq3 u8 u8 | Eq4 u8 u8 | Eq5 u8 u8 | Volume int

primrec wm_exec :: "'w hw \<Rightarrow> wm_call \<Rightarrow> 'w wm_state \<Rightarrow> 'w wm_state option" where
  "wm_exec I (Adda a b) = WM8978_ADDA_Cfg I a b"
| "wm_exec I (Linein a) = WM8978_LINEIN_Gain I a"
| "wm_exec I (Aux a) = WM8978_AUX_Gain I a"
| "wm_exec I (Input a b c) = WM8978_Input_Cfg I a b c"
| "wm_exec I (Output a b) = WM8978_Output_Cfg I a b"
| "wm_exec I (Mic a) = WM8978_MIC_Gain I a"
| "wm_exec I (I2s a b) = WM8978_I2S_Cfg I a b"
| "wm_exec I (Hpvol a b) = WM8978_HPvol_Set I a b"
| "wm_exec I (Spkvol a) = WM8978_SPKvol_Set I a"
| "wm_exec I (Depth3d a) = WM8978_3D_Set I a"
| "wm_exec I (Dir3d a) = WM8978_EQ_3D_Dir I a"
| "wm_exec I (Eq1 a b) = WM8978_EQ1_Set I a b"
| "wm_exec I (Eq2 a b) = WM8978_EQ2_Set I a b"
| "wm_exec I (Eq3 a b) = WM8978_EQ3_Set I a b"
| "wm_exec I (Eq4 a b) = WM8978_EQ4_Set I a b"
| "wm_exec I (Eq5 a b) = WM8978_EQ5_Set I a b"
| "wm_exec I (Volume v) = (\<lambda>s. map_option snd (wm8978_set_voice_volume I v s))"

primrec wm_calls :: "'w hw \<Rightarrow> wm_call list \<Rightarrow> 'w wm_state \<Rightarrow> 'w wm_state option" where
  "wm_calls I [] s = Some s"
| "wm_calls I (c # cs) s = wm_exec I c s \<bind> wm_calls I cs"

fun volume_ok :: "wm_call \<Rightarrow> bool" where
  "volume_ok (Volume v) \<longleftrightarrow> wm_scale v \<noteq> None"
| "volume_ok _ \<longleftrightarrow> True"

lemma keeps_exec:
  assumes "volume_ok c"
  shows "mir.keeps I getr setr dflt A (wm_exec I c)"
proof (cases c)
  case (Depth3d a)
  then show ?thesis by (simp add: WM8978_3D_Set_def [abs_def] mir.put)
next
  case (Volume v)
  with assms have v: "wm_scale v \<noteq> None" by simp
  have "\<exists>s'. wm_exec I c s = Some s' \<and> wm_chip I getr setr dflt \<and> mirrors A getr s'"
    if s: "wm_chip I getr setr dflt \<and> mirrors A getr s" for s
    using mir.volume [OF s v] by (auto simp: Volume)
  then show ?thesis unfolding mir.keeps_def by blast
qed (simp_all add: mir.settings)

lemma mirrors_call:
  assumes "wm_chip I getr setr dflt" and "mirrors A getr s" and "volume_ok c"
  shows "\<exists>s'. wm_exec I c s = Some s' \<and> mirrors A getr s'"
  using mir.keepsE [OF keeps_exec [OF assms(3), where I = I and getr = getr and setr = setr and dflt = dflt and A = A]] assms(1,2) by blast

lemma mirrors_calls:
  assumes "wm_chip I getr setr dflt"
  shows "mirrors A getr s \<Longrightarrow> list_all volume_ok cs \<Longrightarrow> \<exists>s'. wm_calls I cs s = Some s' \<and> mirrors A getr s'"
proof (induction cs arbitrary: s)
  case (Cons c cs)
  then obtain s1 where "wm_exec I c s = Some s1" "mirrors A getr s1"
    using mirrors_call [OF assms, of A s c] by auto
  with Cons show ?case by simp
qed simp

lemma mirrors_reset:
  assumes "wm_chip I getr setr dflt" and "length (fst s) = 58"
    and "\<forall>r\<in>A. 0 < r \<and> r < 58 \<longrightarrow> dflt r = fst s ! unat r AND 0x1ff"
  shows "\<exists>s0. wm8978_write_reg I 0 0 (fst s, snd (i2c_init I (snd s))) = Some (0, s0) \<and> mirrors A getr s0"
proof -
  have "mirrors A getr ((fst s)[0 := 0], setr dflt (snd (i2c_init I (snd s))))"
    using assms(2,3) by (auto simp: mirrors_def chip_setr [OF assms(1)] nth_list_update word_gt_0 unat_eq_0)
  with wm_write_chip [OF assms(1), of "(fst s, snd (i2c_init I (snd s)))" 0 0] assms(2) show ?thesis by simp
qed

text \<open>C36. The driver cannot read the chip and works on its table. When the transfers to the chip succeed, \<open>wm8978_init\<close>
  succeeds, and after it and after any sequence of settings, with volumes whose scaled value is a byte, the table holds what
  the chip holds in every register whose reset value is the one the table starts with.\<close>

theorem wm8978_table_mirrors_chip:
  assumes "wm_chip I getr setr dflt" and "fst s = WM8978_REGVAL_TAL" and "list_all volume_ok cs"
  shows "\<exists>s1 s2. wm8978_init I s = Some (ESP_OK, s1) \<and> wm_calls I cs s1 = Some s2 \<and>
    (\<forall>r. 0 < r \<and> r < 58 \<and> dflt r = WM8978_REGVAL_TAL ! unat r AND 0x1ff \<longrightarrow>
       (\<exists>d. wm8978_read_reg r s2 = Some d \<and> getr (snd s2) r = d AND 0x1ff))"
proof -
  let ?A = "{r. dflt r = WM8978_REGVAL_TAL ! unat r AND 0x1ff}"
  have "length (fst s) = 58" by (simp add: assms(2) WM8978_REGVAL_TAL_def)
  from mirrors_reset [OF assms(1) this, of ?A] assms(2)
  obtain s0 where s0: "wm8978_write_reg I 0 0 (fst s, snd (i2c_init I (snd s))) = Some (0, s0)" "mirrors ?A getr s0" by auto
  obtain s1 where s1: "wm8978_init I s = Some (0, s1)" "mirrors ?A getr s1"
    using mir.init [OF s0(1)] s0(2) assms(1) by blast
  obtain s2 where s2: "wm_calls I cs s1 = Some s2" "mirrors ?A getr s2"
    using mirrors_calls [OF assms(1) s1(2) assms(3)] by blast
  have "\<forall>r. 0 < r \<and> r < 58 \<and> dflt r = WM8978_REGVAL_TAL ! unat r AND 0x1ff \<longrightarrow>
      (\<exists>d. wm8978_read_reg r s2 = Some d \<and> getr (snd s2) r = d AND 0x1ff)"
    using s2(2) by (simp add: mirrors_def wm8978_read_reg_def word_less_nat_alt)
  with s1(1) s2(1) show ?thesis by blast
qed

text \<open>A concrete chip: its registers are the state, and one of them powers up with a value that the table does not have.\<close>

definition wm_dflt :: "u8 \<Rightarrow> u16" where
  "wm_dflt r = (if r = 44 then 0x33 else WM8978_REGVAL_TAL ! unat r AND 0x1ff)"

definition wm_hw :: "(u8 \<Rightarrow> u16) hw" where
  "wm_hw = \<lparr>hw_queue = (\<lambda>s w. (0, w)),
     hw_begin = (\<lambda>ss w. case ss of
         [I2C_START, I2C_WRITE a, I2C_WRITE b0, I2C_WRITE b1, I2C_STOP] \<Rightarrow>
           ((0, []), if wm_reg_of b0 = 0 then wm_dflt else w(wm_reg_of b0 := wm_data_of b0 b1))
       | _ \<Rightarrow> ((-1, []), w)),
     hw_param_config = (\<lambda>w. (0, w)), hw_driver_install = (\<lambda>w. (0, w)), hw_gpio_config = (\<lambda>m w. w),
     hw_gpio_set_level = (\<lambda>g l w. w), hw_pa_gpio = 21\<rparr>"

lemma wm_hw_chip: "wm_chip wm_hw (\<lambda>w. w) (\<lambda>f w. f) wm_dflt"
  by (simp add: wm_chip_def wm_hw_def i2c_init_def)

theorem wm8978_table_mirrors_chip_witness:
  "\<exists>s1 s2. wm8978_init wm_hw (WM8978_REGVAL_TAL, \<lambda>_. 7) = Some (ESP_OK, s1) \<and> wm_calls wm_hw [Mic 3, Volume 80] s1 = Some s2 \<and>
    (\<forall>r. 0 < r \<and> r < 58 \<and> r \<noteq> 44 \<longrightarrow> (\<exists>d. wm8978_read_reg r s2 = Some d \<and> snd s2 r = d AND 0x1ff))"
proof -
  have "list_all volume_ok [Mic 3, Volume 80]" by (simp add: wm_scale_def)
  from wm8978_table_mirrors_chip [OF wm_hw_chip _ this, of "(WM8978_REGVAL_TAL, \<lambda>_. 7)"]
  show ?thesis by (auto simp: wm_dflt_def)
qed

section \<open>Resetting the chip\<close>

text \<open>The table does not follow a reset: after the 3D depth was set and the driver was closed and initialised again, the
  chip is back at its default depth and the table still has the old one, although both calls succeeded.
\<close>

theorem wm8978_table_stale_after_reset:
  assumes "wm_chip I getr setr dflt" and "length (fst s) = 58"
  shows "\<exists>s1 s2 s3. WM8978_3D_Set I depth s = Some s1 \<and> wm8978_deinit I s1 = Some (ESP_OK, s2) \<and>
    wm8978_init I s2 = Some (ESP_OK, s3) \<and> wm8978_read_reg 41 s3 = Some (ucast (depth AND 0xF)) \<and> getr (snd s3) 41 = dflt 41"
proof -
  note wr = wm_write_chip [OF assms(1)]
  define d :: u16 where "d = ucast (depth AND 0xF)"
  define s1 where "s1 = ((fst s)[41 := d], setr ((getr (snd s))(41 := d AND 0x1ff)) (snd s))"
  have s1: "WM8978_3D_Set I depth s = Some s1"
    using assms(2) by (simp add: WM8978_3D_Set_def wm_put_def wr s1_def d_def)
  define s2 where "s2 = ((fst s1)[0 := 0], setr dflt (snd s1))"
  have s2: "wm8978_deinit I s1 = Some (0, s2)"
    using assms(2) by (simp add: wm8978_deinit_def wr s1_def s2_def)
  define s0 where "s0 = ((fst s2)[0 := 0], setr dflt (snd (i2c_init I (snd s2))))"
  have s0: "wm8978_write_reg I 0 0 (fst s2, snd (i2c_init I (snd s2))) = Some (0, s0)"
    using assms(2) by (simp add: wr s0_def s1_def s2_def)
  have "wm_chip I getr setr dflt \<and> length (fst s0) = 58 \<and> fst s0 ! 41 = d \<and> getr (snd s0) 41 = dflt 41"
    using assms by (simp add: s0_def s1_def s2_def chip_setr [OF assms(1)])
  from kept.init [OF s0 this] obtain s3 where "wm8978_init I s2 = Some (0, s3)" "length (fst s3) = 58" "fst s3 ! 41 = d"
    "getr (snd s3) 41 = dflt 41" by blast
  moreover from this have "wm8978_read_reg 41 s3 = Some d" by (simp add: wm8978_read_reg_def)
  ultimately show ?thesis using s1 s2 unfolding d_def by blast
qed

theorem wm8978_table_stale_after_reset_witness:
  "\<exists>s1 s2 s3. WM8978_3D_Set wm_hw 5 (WM8978_REGVAL_TAL, \<lambda>_. 0) = Some s1 \<and> wm8978_deinit wm_hw s1 = Some (ESP_OK, s2) \<and>
    wm8978_init wm_hw s2 = Some (ESP_OK, s3) \<and> wm8978_read_reg 41 s3 = Some (ucast ((5 :: u8) AND 0xF)) \<and>
    snd s3 41 = WM8978_REGVAL_TAL ! unat (41 :: u8) AND 0x1ff"
  using wm8978_table_stale_after_reset [OF wm_hw_chip, of "(WM8978_REGVAL_TAL, \<lambda>_. 0)" 5]
  by (simp add: wm_dflt_def WM8978_REGVAL_TAL_def)

section \<open>Volume\<close>

lemma wm_scale_range:
  assumes "0 \<le> v" "v \<le> 100"
  shows "wm_scale v = Some (word_of_int (63 * v div 100))"
proof -
  have "sgn v * (63 * \<bar>v\<bar> div 100) = 63 * v div 100" using assms by (cases "v = 0") auto
  moreover have "0 \<le> 63 * v div 100" "63 * v div 100 \<le> 255" using assms by auto
  ultimately show ?thesis unfolding wm_scale_def Let_def by presburger
qed

lemma wm_vol_range:
  assumes "0 \<le> k" "k \<le> 63"
  shows "wm_vol (word_of_int k) = (if k = 0 then 0x40 else word_of_int k)"
proof -
  have "(word_of_int k :: u8) AND 0x3F = word_of_int k"
  proof -
    have "(word_of_int k :: u8) AND 0x3F = take_bit 6 (word_of_int k)"
      by (simp add: take_bit_eq_mask mask_eq_exp_minus_1)
    moreover have "uint (take_bit 6 (word_of_int k :: u8)) = uint (word_of_int k :: u8)"
      using assms by (simp add: unsigned_take_bit_eq unsigned_of_int take_bit_int_eq_self)
    ultimately show ?thesis by (metis unsigned_word_eqI)
  qed
  moreover have "(word_of_int k :: u8) = 0 \<longleftrightarrow> k = 0"
    using assms by (simp add: word_uint_eq_iff unsigned_of_int take_bit_int_eq_self)
  ultimately show ?thesis by (simp add: wm_vol_def)
qed

lemma wm_vol_low: "(ucast (wm_vol u) :: u16) AND 0x1ff = ucast (wm_vol u)"
  by (intro u16_eqI; simp only: wm_bits; auto dest: bit_imp_le_length)

lemma wm_volume_regs:
  assumes "wm_chip I getr setr dflt" and "length (fst s) = 58" and "wm_scale v = Some u"
  shows "\<exists>s'. wm8978_set_voice_volume I v s = Some (0, s') \<and>
    getr (snd s') 52 = ucast (wm_vol u) \<and> getr (snd s') 54 = ucast (wm_vol u)"
  using assms(2) by (simp add: wm8978_set_voice_volume_def assms(3) Let_def wm_write_chip [OF assms(1)] chip_setr [OF assms(1)]
      wm_vol_low)

text \<open>A volume of 2 to 100 percent sets the left outputs of headphone and speaker to that share of 63; 0 and 1 percent mute them. The
  scaled value is cut to six bits and not limited, so 102 percent mutes the outputs as 0 does, and a
  volume below -1 or above 406 has no defined result.
\<close>

theorem wm8978_volume_scale:
  assumes "wm_chip I getr setr dflt" and "length (fst s) = 58"
  shows "0 \<le> v \<Longrightarrow> v \<le> 100 \<Longrightarrow> \<exists>s'. wm8978_set_voice_volume I v s = Some (ESP_OK, s') \<and>
      getr (snd s') 52 = (if v \<le> 1 then 0x40 else word_of_int (63 * v div 100)) \<and> getr (snd s') 54 = getr (snd s') 52"
    and "\<exists>s' s''. wm8978_set_voice_volume I 102 s = Some (ESP_OK, s') \<and> wm8978_set_voice_volume I 0 s = Some (ESP_OK, s'') \<and>
      getr (snd s') 52 = 0x40 \<and> getr (snd s') 52 = getr (snd s'') 52"
    and "wm8978_set_voice_volume I v s = None \<longleftrightarrow> v < -1 \<or> 406 < v"
proof -
  note regs = wm_volume_regs [OF assms]
  show "\<exists>s'. wm8978_set_voice_volume I v s = Some (ESP_OK, s') \<and>
      getr (snd s') 52 = (if v \<le> 1 then 0x40 else word_of_int (63 * v div 100)) \<and> getr (snd s') 54 = getr (snd s') 52"
    if v: "0 \<le> v" "v \<le> 100"
  proof -
    have k: "0 \<le> 63 * v div 100" "63 * v div 100 \<le> 63" and k0: "63 * v div 100 = 0 \<longleftrightarrow> v \<le> 1" using v by auto
    have "(ucast (wm_vol (word_of_int (63 * v div 100))) :: u16) = (if v \<le> 1 then 0x40 else word_of_int (63 * v div 100))"
    proof (cases "v \<le> 1")
      case False
      then have "wm_vol (word_of_int (63 * v div 100)) = word_of_int (63 * v div 100)" using wm_vol_range [OF k] k0 by simp
      moreover have "(ucast (word_of_int (63 * v div 100) :: u8) :: u16) = word_of_int (63 * v div 100)"
        using k by (simp add: word_uint_eq_iff unsigned_ucast_eq unsigned_of_int take_bit_int_eq_self)
      ultimately show ?thesis using False by simp
    next
      case True
      then have "wm_vol (word_of_int (63 * v div 100)) = 0x40" using wm_vol_range [OF k] k0 by simp
      with True show ?thesis by simp
    qed
    with regs [OF wm_scale_range [OF v]] show ?thesis by auto
  qed
  have "wm_scale 102 = Some 64" "wm_scale 0 = Some 0" by (simp_all add: wm_scale_def)
  from regs [OF this(1)] regs [OF this(2)]
  show "\<exists>s' s''. wm8978_set_voice_volume I 102 s = Some (ESP_OK, s') \<and> wm8978_set_voice_volume I 0 s = Some (ESP_OK, s'') \<and>
      getr (snd s') 52 = 0x40 \<and> getr (snd s') 52 = getr (snd s'') 52"
    by (fastforce simp: wm_vol_def)
  have "wm8978_set_voice_volume I v s = None \<longleftrightarrow> wm_scale v = None"
  proof (cases "wm_scale v")
    case None
    then show ?thesis by (simp add: wm8978_set_voice_volume_def)
  next
    case (Some u)
    then show ?thesis using regs [OF Some] by auto
  qed
  also have "\<dots> \<longleftrightarrow> v < -1 \<or> 406 < v"
    by (cases "v < 0"; cases "v = 0") (auto simp: wm_scale_def Let_def)
  finally show "wm8978_set_voice_volume I v s = None \<longleftrightarrow> v < -1 \<or> 406 < v" .
qed

theorem wm8978_volume_scale_witness:
  "\<exists>s'. wm8978_set_voice_volume wm_hw 50 (WM8978_REGVAL_TAL, \<lambda>_. 0) = Some (ESP_OK, s') \<and> snd s' 52 = 31 \<and> snd s' 54 = snd s' 52"
  using wm8978_volume_scale(1) [OF wm_hw_chip, of "(WM8978_REGVAL_TAL, \<lambda>_. 0)" 50] by (simp add: WM8978_REGVAL_TAL_def)

end
