(* ===== verification/Es8388.thy ===== *)
theory Es8388
  imports Codec_Bus
begin

text \<open>
  The driver of the ES8388 codec (\<open>components/audio_hal/driver/es8388/es8388.c\<close>), without the headphone detection that
  one board adds at compile time, and without \<open>es8388_read_all\<close>, which prints the registers.
\<close>

abbreviation (input) ES8388_ADDR :: u8 where "ES8388_ADDR \<equiv> 0x20"
abbreviation (input) ES8388_CONTROL1 :: u8 where "ES8388_CONTROL1 \<equiv> 0x00"
abbreviation (input) ES8388_CONTROL2 :: u8 where "ES8388_CONTROL2 \<equiv> 0x01"
abbreviation (input) ES8388_CHIPPOWER :: u8 where "ES8388_CHIPPOWER \<equiv> 0x02"
abbreviation (input) ES8388_ADCPOWER :: u8 where "ES8388_ADCPOWER \<equiv> 0x03"
abbreviation (input) ES8388_DACPOWER :: u8 where "ES8388_DACPOWER \<equiv> 0x04"
abbreviation (input) ES8388_MASTERMODE :: u8 where "ES8388_MASTERMODE \<equiv> 0x08"
abbreviation (input) ES8388_ADCCONTROL1 :: u8 where "ES8388_ADCCONTROL1 \<equiv> 0x09"
abbreviation (input) ES8388_ADCCONTROL2 :: u8 where "ES8388_ADCCONTROL2 \<equiv> 0x0a"
abbreviation (input) ES8388_ADCCONTROL3 :: u8 where "ES8388_ADCCONTROL3 \<equiv> 0x0b"
abbreviation (input) ES8388_ADCCONTROL4 :: u8 where "ES8388_ADCCONTROL4 \<equiv> 0x0c"
abbreviation (input) ES8388_ADCCONTROL5 :: u8 where "ES8388_ADCCONTROL5 \<equiv> 0x0d"
abbreviation (input) ES8388_ADCCONTROL8 :: u8 where "ES8388_ADCCONTROL8 \<equiv> 0x10"
abbreviation (input) ES8388_ADCCONTROL9 :: u8 where "ES8388_ADCCONTROL9 \<equiv> 0x11"
abbreviation (input) ES8388_DACCONTROL1 :: u8 where "ES8388_DACCONTROL1 \<equiv> 0x17"
abbreviation (input) ES8388_DACCONTROL2 :: u8 where "ES8388_DACCONTROL2 \<equiv> 0x18"
abbreviation (input) ES8388_DACCONTROL3 :: u8 where "ES8388_DACCONTROL3 \<equiv> 0x19"
abbreviation (input) ES8388_DACCONTROL4 :: u8 where "ES8388_DACCONTROL4 \<equiv> 0x1a"
abbreviation (input) ES8388_DACCONTROL5 :: u8 where "ES8388_DACCONTROL5 \<equiv> 0x1b"
abbreviation (input) ES8388_DACCONTROL16 :: u8 where "ES8388_DACCONTROL16 \<equiv> 0x26"
abbreviation (input) ES8388_DACCONTROL17 :: u8 where "ES8388_DACCONTROL17 \<equiv> 0x27"
abbreviation (input) ES8388_DACCONTROL20 :: u8 where "ES8388_DACCONTROL20 \<equiv> 0x2a"
abbreviation (input) ES8388_DACCONTROL21 :: u8 where "ES8388_DACCONTROL21 \<equiv> 0x2b"
abbreviation (input) ES8388_DACCONTROL23 :: u8 where "ES8388_DACCONTROL23 \<equiv> 0x2d"
abbreviation (input) ES8388_DACCONTROL24 :: u8 where "ES8388_DACCONTROL24 \<equiv> 0x2e"
abbreviation (input) ES8388_DACCONTROL25 :: u8 where "ES8388_DACCONTROL25 \<equiv> 0x2f"
abbreviation (input) ES8388_DACCONTROL26 :: u8 where "ES8388_DACCONTROL26 \<equiv> 0x30"
abbreviation (input) ES8388_DACCONTROL27 :: u8 where "ES8388_DACCONTROL27 \<equiv> 0x31"

abbreviation (input) DAC_OUTPUT_LOUT1 :: u8 where "DAC_OUTPUT_LOUT1 \<equiv> 0x04"
abbreviation (input) DAC_OUTPUT_LOUT2 :: u8 where "DAC_OUTPUT_LOUT2 \<equiv> 0x08"
abbreviation (input) DAC_OUTPUT_ROUT1 :: u8 where "DAC_OUTPUT_ROUT1 \<equiv> 0x10"
abbreviation (input) DAC_OUTPUT_ROUT2 :: u8 where "DAC_OUTPUT_ROUT2 \<equiv> 0x20"
abbreviation (input) ADC_INPUT_LINPUT1_RINPUT1 :: u8 where "ADC_INPUT_LINPUT1_RINPUT1 \<equiv> 0x00"
abbreviation (input) ADC_INPUT_LINPUT2_RINPUT2 :: u8 where "ADC_INPUT_LINPUT2_RINPUT2 \<equiv> 0x50"
abbreviation (input) ADC_INPUT_DIFFERENCE :: u8 where "ADC_INPUT_DIFFERENCE \<equiv> 0xf0"

section \<open>Operations\<close>

definition es8388_write_reg :: "'w hw \<Rightarrow> u8 \<Rightarrow> u8 \<Rightarrow> 'w \<Rightarrow> int \<times> 'w" where
  "es8388_write_reg I reg_add data w = es_write_reg I ES8388_ADDR reg_add data w"

text \<open>The register value for a volume between -96 and 0 dB with half decibels, clamped.\<close>

definition adc_dac_volume :: "int \<Rightarrow> int \<Rightarrow> u8" where
  "adc_dac_volume volume dot =
     (let volume = (if volume < -96 then -96 else if volume > 0 then 0 else volume) in
      word_of_int (push_bit 1 (- volume) + (if dot \<ge> 5 then 1 else 0)))"

definition es8388_set_adc_dac_volume :: "'w hw \<Rightarrow> int \<Rightarrow> int \<Rightarrow> int \<Rightarrow> 'w \<Rightarrow> int \<times> 'w" where
  "es8388_set_adc_dac_volume I mode volume dot w =
     (let v = adc_dac_volume volume dot;
          rw = (if mode = ES_MODULE_ADC \<or> mode = ES_MODULE_ADC_DAC
                then write_regs I ES8388_ADDR [(ES8388_ADCCONTROL8, v), (ES8388_ADCCONTROL9, v)] (0, w) else (0, w))
      in if mode = ES_MODULE_DAC \<or> mode = ES_MODULE_ADC_DAC
         then write_regs I ES8388_ADDR [(ES8388_DACCONTROL5, v), (ES8388_DACCONTROL4, v)] rw else rw)"

definition es8388_set_voice_mute :: "'w hw \<Rightarrow> int \<Rightarrow> 'w \<Rightarrow> int \<times> 'w" where
  "es8388_set_voice_mute I enable w =
     (let ((res, reg), w) = read_into I ES8388_ADDR ES8388_DACCONTROL3 0 w
      in write_regs I ES8388_ADDR [(ES8388_DACCONTROL3, (reg AND 0xFB) OR word_of_int (push_bit 2 enable))] (res, w))"

definition es8388_get_voice_mute :: "'w hw \<Rightarrow> 'w \<Rightarrow> int \<times> 'w" where
  "es8388_get_voice_mute I w =
     (let ((res, reg), w) = read_into I ES8388_ADDR ES8388_DACCONTROL3 0 w
      in (if res = ESP_OK then uint (drop_bit 2 (reg AND 0x04)) else res, w))"

definition es8388_start :: "'w hw \<Rightarrow> int \<Rightarrow> 'w \<Rightarrow> int \<times> 'w" where
  "es8388_start I mode w =
     (let ((_, prev_data), w) = read_into I ES8388_ADDR ES8388_DACCONTROL21 0 w;
          (res, w) =
            (if mode = ES_MODULE_LINE
             then write_regs I ES8388_ADDR [(ES8388_DACCONTROL16, 0x09), (ES8388_DACCONTROL17, 0x50),
                    (ES8388_DACCONTROL20, 0x50), (ES8388_DACCONTROL21, 0xC0)] (0, w)
             else write_regs I ES8388_ADDR [(ES8388_DACCONTROL21, 0x80)] (0, w));
          ((_, data), w) = read_into I ES8388_ADDR ES8388_DACCONTROL21 0 w;
          rw = (if prev_data \<noteq> data
                then write_regs I ES8388_ADDR [(ES8388_CHIPPOWER, 0xF0), (ES8388_CHIPPOWER, 0x00)] (res, w) else (res, w));
          rw = (if mode = ES_MODULE_ADC \<or> mode = ES_MODULE_ADC_DAC \<or> mode = ES_MODULE_LINE
                then write_regs I ES8388_ADDR [(ES8388_ADCPOWER, 0x00)] rw else rw)
      in if mode = ES_MODULE_DAC \<or> mode = ES_MODULE_ADC_DAC \<or> mode = ES_MODULE_LINE
         then or_res (es8388_set_voice_mute I 0) (write_regs I ES8388_ADDR [(ES8388_DACPOWER, 0x3c)] rw)
         else rw)"

definition es8388_stop :: "'w hw \<Rightarrow> int \<Rightarrow> 'w \<Rightarrow> int \<times> 'w" where
  "es8388_stop I mode w =
     (if mode = ES_MODULE_LINE
      then write_regs I ES8388_ADDR [(ES8388_DACCONTROL21, 0x80), (ES8388_DACCONTROL16, 0x00),
             (ES8388_DACCONTROL17, 0x90), (ES8388_DACCONTROL20, 0x90)] (0, w)
      else
        let rw = (if mode = ES_MODULE_DAC \<or> mode = ES_MODULE_ADC_DAC
                  then or_res (es8388_set_voice_mute I 1) (write_regs I ES8388_ADDR [(ES8388_DACPOWER, 0x00)] (0, w))
                  else (0, w));
            rw = (if mode = ES_MODULE_ADC \<or> mode = ES_MODULE_ADC_DAC
                  then write_regs I ES8388_ADDR [(ES8388_ADCPOWER, 0xFF)] rw else rw)
        in if mode = ES_MODULE_ADC_DAC then write_regs I ES8388_ADDR [(ES8388_DACCONTROL21, 0x9C)] rw else rw)"

definition es8388_i2s_config_clock :: "'w hw \<Rightarrow> es_i2s_clock \<Rightarrow> 'w \<Rightarrow> int \<times> 'w" where
  "es8388_i2s_config_clock I cfg w =
     write_regs I ES8388_ADDR [(ES8388_MASTERMODE, word_of_int (ck_sclk_div cfg)),
       (ES8388_ADCCONTROL5, word_of_int (ck_lclk_div cfg)), (ES8388_DACCONTROL2, word_of_int (ck_lclk_div cfg))] (0, w)"

definition es8388_deinit :: "'w hw \<Rightarrow> 'w \<Rightarrow> int \<times> 'w" where
  "es8388_deinit I w = es_write_reg I ES8388_ADDR ES8388_CHIPPOWER 0xFF w"

definition es8388_pa_power :: "'w hw \<Rightarrow> bool \<Rightarrow> 'w \<Rightarrow> 'w" where
  "es8388_pa_power I enable w =
     hw_gpio_set_level I (hw_pa_gpio I) (if enable then 1 else 0) (hw_gpio_config I (push_bit (hw_pa_gpio I) 1) w)"

definition dac_output_bits :: "int \<Rightarrow> u8" where
  "dac_output_bits dac_output =
     (if dac_output = AUDIO_HAL_DAC_OUTPUT_LINE2 then DAC_OUTPUT_LOUT1 OR DAC_OUTPUT_ROUT1
      else if dac_output = AUDIO_HAL_DAC_OUTPUT_LINE1 then DAC_OUTPUT_LOUT2 OR DAC_OUTPUT_ROUT2
      else DAC_OUTPUT_LOUT1 OR DAC_OUTPUT_LOUT2 OR DAC_OUTPUT_ROUT1 OR DAC_OUTPUT_ROUT2)"

definition adc_input_bits :: "int \<Rightarrow> u8" where
  "adc_input_bits adc_input =
     (if adc_input = AUDIO_HAL_ADC_INPUT_LINE1 then ADC_INPUT_LINPUT1_RINPUT1
      else if adc_input = AUDIO_HAL_ADC_INPUT_LINE2 then ADC_INPUT_LINPUT2_RINPUT2
      else ADC_INPUT_DIFFERENCE)"

definition es8388_init :: "'w hw \<Rightarrow> audio_hal_codec_config \<Rightarrow> 'w \<Rightarrow> int \<times> 'w" where
  "es8388_init I cfg w =
     (let rw = i2c_init I w;
          rw = write_regs I ES8388_ADDR [(ES8388_DACCONTROL3, 0x04), (ES8388_CONTROL2, 0x50), (ES8388_CHIPPOWER, 0x00),
                 (ES8388_MASTERMODE, word_of_int (if_mode (cc_i2s_iface cfg))),
                 (ES8388_DACPOWER, 0xC0), (ES8388_CONTROL1, 0x12), (ES8388_DACCONTROL1, 0x18), (ES8388_DACCONTROL2, 0x02),
                 (ES8388_DACCONTROL16, 0x00), (ES8388_DACCONTROL17, 0x90), (ES8388_DACCONTROL20, 0x90),
                 (ES8388_DACCONTROL21, 0x80), (ES8388_DACCONTROL23, 0x00)] rw;
          rw = or_res (es8388_set_adc_dac_volume I ES_MODULE_DAC 0 0) rw;
          rw = write_regs I ES8388_ADDR [(ES8388_DACPOWER, dac_output_bits (cc_dac_output cfg)),
                 (ES8388_ADCPOWER, 0xFF), (ES8388_ADCCONTROL1, 0xbb),
                 (ES8388_ADCCONTROL2, adc_input_bits (cc_adc_input cfg)),
                 (ES8388_ADCCONTROL3, 0x02), (ES8388_ADCCONTROL4, 0x0d), (ES8388_ADCCONTROL5, 0x02)] rw;
          rw = or_res (es8388_set_adc_dac_volume I ES_MODULE_ADC 0 0) rw;
          (res, w) = write_regs I ES8388_ADDR [(ES8388_ADCPOWER, 0x09)] rw
      in (res, es8388_pa_power I True w))"

text \<open>In these two functions the read of the second register assigns to \<open>res\<close>, so an error of the first is lost.\<close>

definition es8388_config_fmt :: "'w hw \<Rightarrow> int \<Rightarrow> int \<Rightarrow> 'w \<Rightarrow> int \<times> 'w" where
  "es8388_config_fmt I mode fmt w =
     (let ((res, reg), w) =
            (if mode = ES_MODULE_ADC \<or> mode = ES_MODULE_ADC_DAC then
               let ((res, reg), w) = read_into I ES8388_ADDR ES8388_ADCCONTROL4 0 w;
                   reg = reg AND 0xfc;
                   (res, w) = write_regs I ES8388_ADDR [(ES8388_ADCCONTROL4, reg OR word_of_int fmt)] (res, w)
               in ((res, reg), w)
             else ((0, 0), w))
      in if mode = ES_MODULE_DAC \<or> mode = ES_MODULE_ADC_DAC then
           let ((res, reg), w) = read_into I ES8388_ADDR ES8388_DACCONTROL1 reg w
           in write_regs I ES8388_ADDR [(ES8388_DACCONTROL1, (reg AND 0xf9) OR word_of_int (push_bit 1 fmt))] (res, w)
         else (res, w))"

definition es8388_set_bits_per_sample :: "'w hw \<Rightarrow> int \<Rightarrow> int \<Rightarrow> 'w \<Rightarrow> int \<times> 'w" where
  "es8388_set_bits_per_sample I mode bits w =
     (let ((res, reg), w) =
            (if mode = ES_MODULE_ADC \<or> mode = ES_MODULE_ADC_DAC then
               let ((res, reg), w) = read_into I ES8388_ADDR ES8388_ADCCONTROL4 0 w;
                   reg = reg AND 0xe3;
                   (res, w) = write_regs I ES8388_ADDR [(ES8388_ADCCONTROL4, reg OR word_of_int (push_bit 2 bits))] (res, w)
               in ((res, reg), w)
             else ((0, 0), w))
      in if mode = ES_MODULE_DAC \<or> mode = ES_MODULE_ADC_DAC then
           let ((res, reg), w) = read_into I ES8388_ADDR ES8388_DACCONTROL1 reg w
           in write_regs I ES8388_ADDR [(ES8388_DACCONTROL1, (reg AND 0xc7) OR word_of_int (push_bit 3 bits))] (res, w)
         else (res, w))"

definition es8388_set_voice_volume :: "'w hw \<Rightarrow> int \<Rightarrow> 'w \<Rightarrow> int \<times> 'w" where
  "es8388_set_voice_volume I volume w =
     (let volume = (if volume < 0 then 0 else if volume > 100 then 100 else volume) div 3
      in write_regs I ES8388_ADDR [(ES8388_DACCONTROL24, word_of_int volume), (ES8388_DACCONTROL25, word_of_int volume),
           (ES8388_DACCONTROL26, 0), (ES8388_DACCONTROL27, 0)] (0, w))"

text \<open>The result and \<open>*volume\<close>.\<close>

definition es8388_get_voice_volume :: "'w hw \<Rightarrow> 'w \<Rightarrow> (int \<times> int) \<times> 'w" where
  "es8388_get_voice_volume I w =
     (let ((res, reg), w) = read_into I ES8388_ADDR ES8388_DACCONTROL24 0 w
      in if res = ESP_FAIL then ((res, 0), w)
         else ((res, if uint reg * 3 = 99 then 100 else uint reg * 3), w))"

definition es8388_config_dac_output :: "'w hw \<Rightarrow> int \<Rightarrow> 'w \<Rightarrow> int \<times> 'w" where
  "es8388_config_dac_output I output w =
     (let ((res, reg), w) = read_into I ES8388_ADDR ES8388_DACPOWER 0 w
      in write_regs I ES8388_ADDR [(ES8388_DACPOWER, (reg AND 0xc3) OR word_of_int output)] (res, w))"

definition es8388_config_adc_input :: "'w hw \<Rightarrow> int \<Rightarrow> 'w \<Rightarrow> int \<times> 'w" where
  "es8388_config_adc_input I input w =
     (let ((res, reg), w) = read_into I ES8388_ADDR ES8388_ADCCONTROL2 0 w
      in write_regs I ES8388_ADDR [(ES8388_ADCCONTROL2, (reg AND 0x0f) OR word_of_int input)] (res, w))"

text \<open>The enumerators of \<open>es_mic_gain_t\<close> are not negative, apart from a guard value.\<close>

definition es8388_set_mic_gain :: "'w hw \<Rightarrow> int \<Rightarrow> 'w \<Rightarrow> int \<times> 'w" where
  "es8388_set_mic_gain I gain w =
     es_write_reg I ES8388_ADDR ES8388_ADCCONTROL1 (word_of_int (sgn gain * (\<bar>gain\<bar> div 3))) w"

definition es_mode_of :: "int \<Rightarrow> int" where
  "es_mode_of mode =
     (if mode = AUDIO_HAL_CODEC_MODE_ENCODE then ES_MODULE_ADC
      else if mode = AUDIO_HAL_CODEC_MODE_LINE_IN then ES_MODULE_LINE
      else if mode = AUDIO_HAL_CODEC_MODE_DECODE then ES_MODULE_DAC
      else if mode = AUDIO_HAL_CODEC_MODE_BOTH then ES_MODULE_ADC_DAC
      else ES_MODULE_DAC)"

definition es8388_ctrl_state :: "'w hw \<Rightarrow> int \<Rightarrow> int \<Rightarrow> 'w \<Rightarrow> int \<times> 'w" where
  "es8388_ctrl_state I mode ctrl_state w =
     (if ctrl_state = AUDIO_HAL_CTRL_STOP then es8388_stop I (es_mode_of mode) w else es8388_start I (es_mode_of mode) w)"

definition bits_length_of :: "int \<Rightarrow> int" where
  "bits_length_of bits =
     (if bits = AUDIO_HAL_BIT_LENGTH_16BITS then BIT_LENGTH_16BITS
      else if bits = AUDIO_HAL_BIT_LENGTH_24BITS then BIT_LENGTH_24BITS
      else BIT_LENGTH_32BITS)"

definition es8388_config_i2s :: "'w hw \<Rightarrow> int \<Rightarrow> audio_hal_codec_i2s_iface \<Rightarrow> 'w \<Rightarrow> int \<times> 'w" where
  "es8388_config_i2s I mode iface w =
     or_res (es8388_set_bits_per_sample I ES_MODULE_ADC_DAC (bits_length_of (if_bits iface)))
       (or_res (es8388_config_fmt I ES_MODULE_ADC_DAC (if_fmt iface)) (0, w))"

end
