(* ===== verification/Es8374.thy ===== *)
theory Es8374
  imports Es8388
begin

text \<open>
  The driver of the ES8374 codec (\<open>components/audio_hal/driver/es8374/es8374.c\<close>), without \<open>es8374_read_all\<close>, which
  prints the registers. The source calls \<open>es8374_set_voice_volume\<close> and \<open>es8374_config_i2s\<close>, which no file defines;
  they are arguments of the functions that call them. The flag \<open>codec_init_flag\<close> is a variable of the driver, here an
  argument and a result.
\<close>

abbreviation (input) ES8374_ADDR :: u8 where "ES8374_ADDR \<equiv> 0x20"

section \<open>Registers\<close>

definition es8374_write_reg :: "'w hw \<Rightarrow> u8 \<Rightarrow> u8 \<Rightarrow> 'w \<Rightarrow> int \<times> 'w" where
  "es8374_write_reg I regAdd data w = es_write_reg I ES8374_ADDR regAdd data w"

text \<open>The result of \<open>es8374_read_reg\<close> passes through a \<open>uint8_t\<close>: a failure is 255.\<close>

definition es8374_read_reg :: "'w hw \<Rightarrow> u8 \<Rightarrow> u8 \<Rightarrow> 'w \<Rightarrow> (int \<times> u8) \<times> 'w" where
  "es8374_read_reg I regAdd regv w =
     (let ((res, d), w) = es_read_reg I ES8374_ADDR regAdd w
      in if res = 0 then ((0, case d of None \<Rightarrow> 0xFF | Some v \<Rightarrow> v), w) else ((255, regv), w))"

text \<open>Statements on the triple of \<open>res\<close>, \<open>reg\<close> and the state: \<open>res |= es8374_read_reg(r, &reg)\<close>, an assignment to
  \<open>reg\<close>, \<open>res |= es8374_write_reg(r, reg)\<close>, and blocks of writes of constants.\<close>

definition rd8374 :: "'w hw \<Rightarrow> u8 \<Rightarrow> int \<times> u8 \<times> 'w \<Rightarrow> int \<times> u8 \<times> 'w" where
  "rd8374 I r s = (case s of (res, reg, w) \<Rightarrow> let ((x, reg), w) = es8374_read_reg I r reg w in (res OR x, reg, w))"

definition set8374 :: "(u8 \<Rightarrow> u8) \<Rightarrow> int \<times> u8 \<times> 'w \<Rightarrow> int \<times> u8 \<times> 'w" where
  "set8374 f s = (case s of (res, reg, w) \<Rightarrow> (res, f reg, w))"

definition wr8374 :: "'w hw \<Rightarrow> u8 \<Rightarrow> int \<times> u8 \<times> 'w \<Rightarrow> int \<times> u8 \<times> 'w" where
  "wr8374 I r s = (case s of (res, reg, w) \<Rightarrow> let (x, w) = es8374_write_reg I r reg w in (res OR x, reg, w))"

definition wrs8374 :: "'w hw \<Rightarrow> (u8 \<times> u8) list \<Rightarrow> int \<times> u8 \<times> 'w \<Rightarrow> int \<times> u8 \<times> 'w" where
  "wrs8374 I rs s = (case s of (res, reg, w) \<Rightarrow> let (res, w) = write_regs I ES8374_ADDR rs (res, w) in (res, reg, w))"

definition call8374 :: "('w \<Rightarrow> int \<times> 'w) \<Rightarrow> int \<times> u8 \<times> 'w \<Rightarrow> int \<times> u8 \<times> 'w" where
  "call8374 f s = (case s of (res, reg, w) \<Rightarrow> let (res, w) = or_res f (res, w) in (res, reg, w))"

definition when8374 :: "bool \<Rightarrow> (int \<times> u8 \<times> 'w \<Rightarrow> int \<times> u8 \<times> 'w) list \<Rightarrow> int \<times> u8 \<times> 'w \<Rightarrow> int \<times> u8 \<times> 'w" where
  "when8374 b fs s = (if b then fold (\<lambda>f. f) fs s else s)"

definition end8374 :: "int \<times> u8 \<times> 'w \<Rightarrow> int \<times> 'w" where
  "end8374 s = (case s of (res, reg, w) \<Rightarrow> (res, w))"

text \<open>The body of a function: statements on \<open>res = 0\<close>, \<open>reg = 0\<close>.\<close>

definition body8374 :: "(int \<times> u8 \<times> 'w \<Rightarrow> int \<times> u8 \<times> 'w) list \<Rightarrow> 'w \<Rightarrow> int \<times> 'w" where
  "body8374 fs w = end8374 (fold (\<lambda>f. f) fs (0, 0, w))"

lemmas stmts8374 = rd8374_def set8374_def wr8374_def wrs8374_def call8374_def when8374_def end8374_def body8374_def

text \<open>\<open>if (res == 0) {...}\<close>.\<close>

definition ok8374 :: "(int \<times> u8 \<times> 'w \<Rightarrow> int \<times> u8 \<times> 'w) list \<Rightarrow> int \<times> u8 \<times> 'w \<Rightarrow> int \<times> u8 \<times> 'w" where
  "ok8374 fs s = (if fst s = 0 then fold (\<lambda>f. f) fs s else s)"

section \<open>Operations\<close>

definition es8374_set_voice_mute :: "'w hw \<Rightarrow> int \<Rightarrow> 'w \<Rightarrow> int \<times> 'w" where
  "es8374_set_voice_mute I enable =
     body8374 [rd8374 I 0x36, ok8374 [set8374 (\<lambda>reg. (reg AND 0xdf) OR word_of_int (push_bit 5 enable)), wr8374 I 0x36]]"

definition es8374_get_voice_mute :: "'w hw \<Rightarrow> 'w \<Rightarrow> int \<times> 'w" where
  "es8374_get_voice_mute I w =
     (let (res, reg, w) = rd8374 I 0x36 (0, 0, w) in (if res = ESP_OK then uint (reg AND 0x40) else res, w))"

definition es8374_set_bits_per_sample :: "'w hw \<Rightarrow> int \<Rightarrow> int \<Rightarrow> 'w \<Rightarrow> int \<times> 'w" where
  "es8374_set_bits_per_sample I mode bit_per_sample =
     (let bits = bit_per_sample AND 0x0f;
          upd = (\<lambda>reg. (reg AND 0xe3) OR word_of_int (push_bit 2 bits))
      in body8374 [
        when8374 (mode = ES_MODULE_ADC \<or> mode = ES_MODULE_ADC_DAC) [rd8374 I 0x10, ok8374 [set8374 upd, wr8374 I 0x10]],
        when8374 (mode = ES_MODULE_DAC \<or> mode = ES_MODULE_ADC_DAC) [rd8374 I 0x11, ok8374 [set8374 upd, wr8374 I 0x11]]])"

definition es8374_config_fmt :: "'w hw \<Rightarrow> int \<Rightarrow> int \<Rightarrow> 'w \<Rightarrow> int \<times> 'w" where
  "es8374_config_fmt I mode fmt =
     (let fmt_tmp = drop_bit 4 (fmt AND 0xf0); fmt_i2s = fmt AND 0x0f;
          upd = (\<lambda>reg. (reg AND 0xfc) OR word_of_int fmt_i2s);
          bits = call8374 (es8374_set_bits_per_sample I mode fmt_tmp)
      in body8374 [
        when8374 (mode = ES_MODULE_ADC \<or> mode = ES_MODULE_ADC_DAC) [rd8374 I 0x10, ok8374 [set8374 upd, wr8374 I 0x10, bits]],
        when8374 (mode = ES_MODULE_DAC \<or> mode = ES_MODULE_ADC_DAC) [rd8374 I 0x11, ok8374 [set8374 upd, wr8374 I 0x11, bits]]])"

definition es8374_start :: "'w hw \<Rightarrow> int \<Rightarrow> 'w \<Rightarrow> int \<times> 'w" where
  "es8374_start I mode =
     body8374 [
       when8374 (mode = ES_MODULE_LINE) [
         rd8374 I 0x1a, set8374 (\<lambda>reg. ((reg OR 0x60) OR 0x20) AND 0xf7), wr8374 I 0x1a,
         rd8374 I 0x1c, set8374 (\<lambda>reg. reg OR 0x40), wr8374 I 0x1c,
         wrs8374 I [(0x1D, 0x02), (0x1F, 0x00), (0x1E, 0xA0)]],
       when8374 (mode = ES_MODULE_ADC \<or> mode = ES_MODULE_ADC_DAC \<or> mode = ES_MODULE_LINE) [
         rd8374 I 0x21, set8374 (\<lambda>reg. reg AND 0x3f), wr8374 I 0x21,
         rd8374 I 0x10, set8374 (\<lambda>reg. reg AND 0x3f), wr8374 I 0x10],
       when8374 (mode = ES_MODULE_DAC \<or> mode = ES_MODULE_ADC_DAC \<or> mode = ES_MODULE_LINE) [
         rd8374 I 0x1a, set8374 (\<lambda>reg. reg OR 0x08), wr8374 I 0x1a, set8374 (\<lambda>reg. reg AND 0xdf), wr8374 I 0x1a,
         wrs8374 I [(0x1D, 0x12), (0x1E, 0x20)],
         rd8374 I 0x15, set8374 (\<lambda>reg. reg AND 0xdf), wr8374 I 0x15,
         rd8374 I 0x1a, set8374 (\<lambda>reg. reg OR 0x20), wr8374 I 0x1a, set8374 (\<lambda>reg. reg AND 0xf7), wr8374 I 0x1a,
         wrs8374 I [(0x1D, 0x02), (0x1E, 0xa0)],
         call8374 (es8374_set_voice_mute I 0)]]"

definition es8374_stop :: "'w hw \<Rightarrow> int \<Rightarrow> 'w \<Rightarrow> int \<times> 'w" where
  "es8374_stop I mode =
     body8374 [
       when8374 (mode = ES_MODULE_LINE) [
         rd8374 I 0x1a, set8374 (\<lambda>reg. reg OR 0x08), wr8374 I 0x1a, set8374 (\<lambda>reg. reg AND 0x9f), wr8374 I 0x1a,
         wrs8374 I [(0x1D, 0x12), (0x1E, 0x20)],
         rd8374 I 0x1c, set8374 (\<lambda>reg. reg AND 0xbf), wr8374 I 0x1c,
         wrs8374 I [(0x1F, 0x00)]],
       when8374 (mode = ES_MODULE_DAC \<or> mode = ES_MODULE_ADC_DAC) [
         call8374 (es8374_set_voice_mute I 1),
         rd8374 I 0x1a, set8374 (\<lambda>reg. reg OR 0x08), wr8374 I 0x1a, set8374 (\<lambda>reg. reg AND 0xdf), wr8374 I 0x1a,
         wrs8374 I [(0x1D, 0x12), (0x1E, 0x20)],
         rd8374 I 0x15, set8374 (\<lambda>reg. reg OR 0x20), wr8374 I 0x15],
       when8374 (mode = ES_MODULE_ADC \<or> mode = ES_MODULE_ADC_DAC) [
         rd8374 I 0x10, set8374 (\<lambda>reg. reg OR 0xc0), wr8374 I 0x10,
         rd8374 I 0x21, set8374 (\<lambda>reg. reg OR 0xc0), wr8374 I 0x21]]"

section \<open>Clocks\<close>

text \<open>The dividers the enumerators \<open>MCLK_DIV_n\<close> and \<open>LCLK_DIV_n\<close> of \<open>es8388.h\<close> stand for.\<close>

definition mclk_div :: "int \<Rightarrow> int option" where
  "mclk_div e = map_of [(1, 1), (2, 2), (3, 3), (4, 4), (5, 6), (6, 8), (7, 9), (8, 11), (9, 12), (10, 16), (11, 18), (12, 22),
     (13, 24), (14, 33), (15, 36), (16, 44), (17, 48), (18, 66), (19, 72), (20, 5), (21, 10), (22, 15), (23, 17), (24, 20),
     (25, 25), (26, 30), (27, 32), (28, 34), (29, 7), (30, 13), (31, 14)] e"

definition lclk_div :: "int \<Rightarrow> int option" where
  "lclk_div e = map_of [(0, 128), (1, 192), (2, 256), (3, 384), (4, 512), (5, 576), (6, 768), (7, 1024), (8, 1152), (9, 1408),
     (10, 1536), (11, 2112), (12, 2304), (16, 125), (17, 136), (18, 250), (19, 272), (20, 375), (21, 500), (22, 544), (23, 750),
     (24, 1000), (25, 1088), (26, 1496), (27, 1500)] e"

text \<open>The first \<open>switch\<close>: the code of a divider, 0 for a number that is no enumerator.\<close>

definition divratio :: "int \<Rightarrow> int" where
  "divratio sclk_div =
     (case map_of [(1, 1), (2, 2), (3, 3), (4, 4), (20, 5), (5, 6), (29, 7), (6, 8), (7, 9), (21, 10), (8, 11), (9, 12), (30, 13),
        (31, 14), (22, 15), (10, 16), (23, 17), (11, 18), (24, 19), (12, 20), (13, 21), (25, 22), (26, 23), (27, 24), (14, 25),
        (28, 26), (15, 27), (16, 28), (17, 29), (18, 30), (19, 31)] sclk_div of
        None \<Rightarrow> 0 | Some n \<Rightarrow> n)"

text \<open>The second \<open>switch\<close>: the two bytes of a ratio.\<close>

definition dacratio :: "int \<Rightarrow> int \<times> int" where
  "dacratio e = (case lclk_div e of None \<Rightarrow> (0, 0) | Some n \<Rightarrow> (n mod 256, n div 256))"

definition es8374_i2s_config_clock :: "'w hw \<Rightarrow> es_i2s_clock \<Rightarrow> 'w \<Rightarrow> int \<times> 'w" where
  "es8374_i2s_config_clock I cfg =
     body8374 [rd8374 I 0x0f, set8374 (\<lambda>reg. (reg AND 0xe0) OR word_of_int (divratio (ck_sclk_div cfg))), wr8374 I 0x0f,
       wrs8374 I [(0x06, word_of_int (snd (dacratio (ck_lclk_div cfg)))), (0x07, word_of_int (fst (dacratio (ck_lclk_div cfg))))]]"

section \<open>Inputs, outputs and volume\<close>

definition es8374_config_dac_output :: "'w hw \<Rightarrow> int \<Rightarrow> 'w \<Rightarrow> int \<times> 'w" where
  "es8374_config_dac_output I output =
     body8374 [set8374 (\<lambda>_. 0x1d), wrs8374 I [(0x1d, 0x02)], rd8374 I 0x1c, set8374 (\<lambda>reg. reg OR 0x80), wr8374 I 0x1c,
       wrs8374 I [(0x1D, 0x02), (0x1F, 0x00), (0x1E, 0xA0)]]"

definition es8374_config_adc_input :: "'w hw \<Rightarrow> int \<Rightarrow> 'w \<Rightarrow> int \<times> 'w" where
  "es8374_config_adc_input I input =
     body8374 [rd8374 I 0x21, ok8374 [set8374 (\<lambda>reg. (reg AND 0xcf) OR 0x14), wr8374 I 0x21]]"

definition es8374_set_mic_gain :: "'w hw \<Rightarrow> int \<Rightarrow> 'w \<Rightarrow> int \<times> 'w" where
  "es8374_set_mic_gain I gain w =
     (if gain > -1 \<and> gain < 24
      then let gain_n = gain div 3 in es8374_write_reg I 0x22 (word_of_int (gain_n OR push_bit 4 gain_n)) w
      else (-1, w))"

definition es8374_codec_set_voice_volume :: "'w hw \<Rightarrow> int \<Rightarrow> 'w \<Rightarrow> int \<times> 'w" where
  "es8374_codec_set_voice_volume I volume w =
     es8374_write_reg I 0x38 (word_of_int (if volume < 0 then 192 else if volume > 96 then 0 else 192 - volume * 2)) w"

text \<open>The result and \<open>*volume\<close>; the division of C truncates.\<close>

definition es8374_codec_get_voice_volume :: "'w hw \<Rightarrow> 'w \<Rightarrow> (int \<times> int) \<times> 'w" where
  "es8374_codec_get_voice_volume I w =
     (let ((res, reg), w) = es8374_read_reg I 0x38 0 w;
          d = 192 - uint reg;
          volume = sgn d * (\<bar>d\<bar> div 2)
      in if res = ESP_FAIL then ((res, 0), w) else ((res, if volume > 96 then 100 else volume), w))"

definition es8374_set_adc_dac_volume :: "'w hw \<Rightarrow> int \<Rightarrow> int \<Rightarrow> int \<Rightarrow> 'w \<Rightarrow> int \<times> 'w" where
  "es8374_set_adc_dac_volume I mode volume dot =
     body8374 [
       when8374 (mode = ES_MODULE_ADC \<or> mode = ES_MODULE_ADC_DAC) [wrs8374 I [(0x25, adc_dac_volume volume dot)]],
       when8374 (mode = ES_MODULE_DAC \<or> mode = ES_MODULE_ADC_DAC) [wrs8374 I [(0x38, adc_dac_volume volume dot)]]]"

definition es8374_set_d2se_pga :: "'w hw \<Rightarrow> int \<Rightarrow> 'w \<Rightarrow> int \<times> 'w" where
  "es8374_set_d2se_pga I gain w =
     (if gain > -1 \<and> gain < 2
      then let ((_, reg), w) = es8374_read_reg I 0x21 0 w
           in es8374_write_reg I 0x21 ((reg AND 0xfb) OR word_of_int (push_bit 2 gain)) w
      else (0xff, w))"

section \<open>Initialisation\<close>

text \<open>\<open>junk\<close> is what the variable \<open>reg\<close>, which has no initial value, holds.\<close>

definition es8374_init_reg ::
  "'w hw \<Rightarrow> (int \<Rightarrow> 'w \<Rightarrow> int \<times> 'w) \<Rightarrow> u8 \<Rightarrow> int \<Rightarrow> int \<Rightarrow> es_i2s_clock \<Rightarrow> int \<Rightarrow> int \<Rightarrow> 'w \<Rightarrow> int \<times> 'w" where
  "es8374_init_reg I set_voice_volume junk ms_mode fmt cfg out_channel in_channel w =
     end8374 (fold (\<lambda>f. f) [
       wrs8374 I [(0x00, 0x3F), (0x00, 0x03), (0x01, 0x7F)],
       rd8374 I 0x0F, set8374 (\<lambda>reg. (reg AND 0x7f) OR word_of_int (push_bit 7 ms_mode)), wr8374 I 0x0f,
       wrs8374 I [(0x6F, 0xA0), (0x72, 0x41), (0x09, 0x01), (0x0C, 0x22), (0x0D, 0x2E), (0x0E, 0xC6), (0x0A, 0x3A),
                  (0x0B, 0x07), (0x09, 0x41)],
       call8374 (es8374_i2s_config_clock I cfg),
       wrs8374 I [(0x24, 0x08), (0x36, 0x00), (0x12, 0x30), (0x13, 0x20)],
       call8374 (es8374_config_fmt I ES_MODULE_ADC fmt),
       call8374 (es8374_config_fmt I ES_MODULE_DAC fmt),
       wrs8374 I [(0x21, 0x50), (0x22, 0xFF), (0x21, 0x14), (0x22, 0x55), (0x08, 0x21), (0x00, 0x80)],
       call8374 (es8374_set_adc_dac_volume I ES_MODULE_ADC 0 0),
       call8374 (es8374_set_adc_dac_volume I ES_MODULE_DAC 0 0),
       wrs8374 I [(0x14, 0x8A), (0x15, 0x40), (0x1A, 0xA0), (0x1B, 0x19), (0x1C, 0x90), (0x1D, 0x01), (0x1F, 0x00),
                  (0x1E, 0x20), (0x28, 0x00), (0x25, 0x00), (0x38, 0x00), (0x37, 0x30), (0x6D, 0x60), (0x71, 0x05), (0x73, 0x70)],
       call8374 (es8374_config_dac_output I out_channel),
       call8374 (es8374_config_adc_input I in_channel),
       call8374 (set_voice_volume 0),
       wrs8374 I [(0x37, 0x00)]] (0, junk, w))"

definition es8374_codec_init ::
  "'w hw \<Rightarrow> (int \<Rightarrow> 'w \<Rightarrow> int \<times> 'w) \<Rightarrow> (int \<Rightarrow> audio_hal_codec_i2s_iface \<Rightarrow> 'w \<Rightarrow> int \<times> 'w) \<Rightarrow> u8 \<Rightarrow> audio_hal_codec_config
     \<Rightarrow> bool \<Rightarrow> 'w \<Rightarrow> (int \<times> bool) \<times> 'w" where
  "es8374_codec_init I set_voice_volume config_i2s junk cfg codec_init_flag w =
     (if codec_init_flag then ((ESP_FAIL, codec_init_flag), w)
      else
        let iface = cc_i2s_iface cfg;
            (_, w) = i2c_init I w;
            rw = or_res (es8374_stop I (cc_codec_mode cfg)) (0, w);
            rw = or_res (es8374_init_reg I set_voice_volume junk (if_mode iface) (push_bit 4 BIT_LENGTH_16BITS OR if_fmt iface)
                   \<lparr>ck_sclk_div = 4, ck_lclk_div = 2\<rparr> (cc_dac_output cfg) (cc_adc_input cfg)) rw;
            rw = or_res (es8374_set_mic_gain I 15) rw;
            rw = or_res (es8374_set_d2se_pga I 1) rw;
            rw = or_res (es8374_config_fmt I (cc_codec_mode cfg) (if_fmt iface)) rw;
            (res, w) = or_res (config_i2s (cc_codec_mode cfg) iface) rw
        in ((res, True), w))"

definition es8374_codec_deinit :: "'w hw \<Rightarrow> 'w \<Rightarrow> (int \<times> bool) \<times> 'w" where
  "es8374_codec_deinit I w = (let (res, w) = es8374_write_reg I 0x00 0x7F w in ((res, False), w))"

definition es8374_codec_config_i2s :: "'w hw \<Rightarrow> int \<Rightarrow> audio_hal_codec_i2s_iface \<Rightarrow> 'w \<Rightarrow> int \<times> 'w" where
  "es8374_codec_config_i2s I mode iface w =
     or_res (es8374_set_bits_per_sample I ES_MODULE_ADC_DAC (bits_length_of (if_bits iface)))
       (or_res (es8374_config_fmt I ES_MODULE_ADC_DAC (if_fmt iface)) (0, w))"

definition es8374_codec_ctrl_state :: "'w hw \<Rightarrow> int \<Rightarrow> int \<Rightarrow> 'w \<Rightarrow> int \<times> 'w" where
  "es8374_codec_ctrl_state I mode ctrl_state w =
     (if ctrl_state = AUDIO_HAL_CTRL_STOP then es8374_stop I (es_mode_of mode) w else es8374_start I (es_mode_of mode) w)"

end
