(* ===== verification/Codec_Correct.thy ===== *)
theory Codec_Correct
  imports Es8374
begin

text \<open>
  Correctness of the codec drivers on a chip that answers: volumes, muting and formats read back as they were set, and
  settings leave the other bits of a register alone; and what the drivers report when the bus fails.
\<close>

section \<open>Bits of registers\<close>

lemma uint_word_of_int8: "0 \<le> k \<Longrightarrow> k < 256 \<Longrightarrow> uint (word_of_int k :: u8) = k"
  by (simp add: unsigned_of_int take_bit_int_eq_self)

section \<open>The ES8388\<close>

text \<open>The volume the driver reports after a volume was set: a multiple of 3, except at the top.\<close>

definition es8388_level :: "int \<Rightarrow> int" where
  "es8388_level v = (let k = max 0 (min 100 v) div 3 in if k = 33 then 100 else 3 * k)"

lemma es8388_level_near: "\<bar>es8388_level v - max 0 (min 100 v)\<bar> \<le> 2"
  by (auto simp: es8388_level_def Let_def max_def min_def)

lemma es8388_level_mono: "u \<le> v \<Longrightarrow> es8388_level u \<le> es8388_level v"
proof -
  assume "u \<le> v"
  then have le: "max 0 (min 100 u) div 3 \<le> max 0 (min 100 v) div 3"
    by (intro zdiv_mono1 max.mono min.mono) simp_all
  have top: "max 0 (min 100 v) div 3 \<le> 100 div 3"
    by (intro zdiv_mono1) simp_all
  have "(if l = 33 then 100 else 3 * l) \<le> (if k = 33 then 100 else 3 * k)" if "l \<le> k" "k \<le> 33" for k l :: int
    using that by auto
  from this [OF le] top show ?thesis by (simp add: es8388_level_def Let_def del: max_0L)
qed

lemma es8388_set_voice_volume_chip:
  assumes "codec_chip I ES8388_ADDR getr setr getp setp"
  shows "fst (es8388_set_voice_volume I v w) = 0"
    and "getr (snd (es8388_set_voice_volume I v w)) = (getr w)(ES8388_DACCONTROL24 := word_of_int (max 0 (min 100 v) div 3),
      ES8388_DACCONTROL25 := word_of_int (max 0 (min 100 v) div 3), ES8388_DACCONTROL26 := 0, ES8388_DACCONTROL27 := 0)"
proof -
  have "(if v < 0 then 0 else if v > 100 then 100 else v) = max 0 (min 100 v)" by auto
  then show "fst (es8388_set_voice_volume I v w) = 0"
    and "getr (snd (es8388_set_voice_volume I v w)) = (getr w)(ES8388_DACCONTROL24 := word_of_int (max 0 (min 100 v) div 3),
      ES8388_DACCONTROL25 := word_of_int (max 0 (min 100 v) div 3), ES8388_DACCONTROL26 := 0, ES8388_DACCONTROL27 := 0)"
    by (simp_all add: es8388_set_voice_volume_def Let_def chip_simps [OF assms])
qed

lemma es8388_get_voice_volume_chip:
  assumes "codec_chip I ES8388_ADDR getr setr getp setp"
    and "getr w ES8388_DACCONTROL24 = word_of_int k" "0 \<le> k" "k \<le> 33"
  shows "fst (es8388_get_voice_volume I w) = (0, if k = 33 then 100 else 3 * k)"
    and "getr (snd (es8388_get_voice_volume I w)) = getr w"
  using assms by (simp_all add: es8388_get_voice_volume_def chip_simps [OF assms(1)] uint_word_of_int8)

lemma es8388_volume_read:
  assumes "codec_chip I ES8388_ADDR getr setr getp setp"
  shows "fst (es8388_get_voice_volume I (snd (es8388_set_voice_volume I v w))) = (0, es8388_level v)"
proof -
  have "max 0 (min 100 v) div 3 \<le> 33" by auto
  with es8388_get_voice_volume_chip(1) [OF assms, of _ "max 0 (min 100 v) div 3"] show ?thesis
    by (simp add: es8388_set_voice_volume_chip [OF assms] es8388_level_def Let_def)
qed

text \<open>On a chip that answers, a volume that was set reads back within 2 of its value between 0 and 100; 0 and 100 read back
  exactly, a louder setting never reads back softer, and no register but the four of the output volume changes.
\<close>

theorem es8388_volume_reads_back:
  assumes "codec_chip I ES8388_ADDR getr setr getp setp" and "0 \<le> v" "v \<le> v'" "v' \<le> 100"
  shows "fst (es8388_set_voice_volume I v w) = ESP_OK"
    and "fst (fst (es8388_get_voice_volume I (snd (es8388_set_voice_volume I v w)))) = ESP_OK"
    and "\<bar>snd (fst (es8388_get_voice_volume I (snd (es8388_set_voice_volume I v w)))) - v\<bar> \<le> 2"
    and "v \<in> {0, 100} \<Longrightarrow> snd (fst (es8388_get_voice_volume I (snd (es8388_set_voice_volume I v w)))) = v"
    and "snd (fst (es8388_get_voice_volume I (snd (es8388_set_voice_volume I v w))))
      \<le> snd (fst (es8388_get_voice_volume I (snd (es8388_set_voice_volume I v' w))))"
    and "r \<notin> {0x2e, 0x2f, 0x30, 0x31} \<Longrightarrow> getr (snd (es8388_set_voice_volume I v w)) r = getr w r"
proof -
  note set = es8388_set_voice_volume_chip [OF assms(1)] and read = es8388_volume_read [OF assms(1)]
  have c: "max 0 (min 100 v) = v" using assms by simp
  show "fst (es8388_set_voice_volume I v w) = ESP_OK" by (simp add: set)
  show "fst (fst (es8388_get_voice_volume I (snd (es8388_set_voice_volume I v w)))) = ESP_OK" by (simp add: read)
  show "\<bar>snd (fst (es8388_get_voice_volume I (snd (es8388_set_voice_volume I v w)))) - v\<bar> \<le> 2"
    using es8388_level_near [of v] by (simp add: read c)
  show "snd (fst (es8388_get_voice_volume I (snd (es8388_set_voice_volume I v w)))) = v" if "v \<in> {0, 100}"
    using that by (auto simp: read es8388_level_def)
  show "snd (fst (es8388_get_voice_volume I (snd (es8388_set_voice_volume I v w))))
      \<le> snd (fst (es8388_get_voice_volume I (snd (es8388_set_voice_volume I v' w))))"
    using es8388_level_mono [OF assms(3)] by (simp add: read)
  show "getr (snd (es8388_set_voice_volume I v w)) r = getr w r" if "r \<notin> {0x2e, 0x2f, 0x30, 0x31}"
    using that by (simp add: set)
qed

theorem es8388_volume_reads_back_witness:
  "snd (fst (es8388_get_voice_volume (demo_hw ES8388_ADDR) (snd (es8388_set_voice_volume (demo_hw ES8388_ADDR) 100 (\<lambda>_. 0, 0))))) = 100"
  by (rule es8388_volume_reads_back(4) [OF demo_chip_ok, of 100 100]) simp_all

section \<open>Muting\<close>

lemma mute_bit_set: "drop_bit 2 (((x :: u8) AND 0xFB OR word_of_int (push_bit 2 e)) AND 4) = word_of_int e"
  if "e = 0 \<or> e = 1"
  using that by (elim disjE; simp) (rule u8_eqI; simp add: bit_and_iff bit_or_iff bit_drop_bit_eq)+

lemma mute_bit_keeps: "((x :: u8) AND 0xFB OR word_of_int (push_bit 2 e)) AND 0xFB = x AND 0xFB"
  if "e = 0 \<or> e = 1"
  using that by (elim disjE; simp) (rule u8_eqI; simp add: bit_and_iff bit_or_iff bit_drop_bit_eq)+

lemma es8388_set_voice_mute_chip:
  assumes "codec_chip I ES8388_ADDR getr setr getp setp"
  shows "fst (es8388_set_voice_mute I e w) = 0"
    and "getr (snd (es8388_set_voice_mute I e w)) =
      (getr w)(ES8388_DACCONTROL3 := (getr w ES8388_DACCONTROL3 AND 0xFB) OR word_of_int (push_bit 2 e))"
  by (simp_all add: es8388_set_voice_mute_def chip_simps [OF assms])

lemma es8388_get_voice_mute_chip:
  assumes "codec_chip I ES8388_ADDR getr setr getp setp"
  shows "fst (es8388_get_voice_mute I w) = uint (drop_bit 2 (getr w ES8388_DACCONTROL3 AND 0x04))"
  by (simp add: es8388_get_voice_mute_def chip_simps [OF assms])

lemma es8388_mute_read:
  assumes "codec_chip I ES8388_ADDR getr setr getp setp" and "e = 0 \<or> e = 1"
  shows "fst (es8388_get_voice_mute I (snd (es8388_set_voice_mute I e w))) = e"
  unfolding es8388_get_voice_mute_chip [OF assms(1)] es8388_set_voice_mute_chip [OF assms(1)] fun_upd_same
    mute_bit_set [OF assms(2)]
  using assms(2) by auto

section \<open>The interface format\<close>

text \<open>The two registers of the serial interface after \<open>es8388_config_i2s\<close>.\<close>

definition adc_format :: "int \<Rightarrow> int \<Rightarrow> u8 \<Rightarrow> u8" where
  "adc_format fmt bits x = (((x AND 0xfc) OR word_of_int fmt) AND 0xe3) OR word_of_int (push_bit 2 bits)"

definition dac_format :: "int \<Rightarrow> int \<Rightarrow> u8 \<Rightarrow> u8" where
  "dac_format fmt bits x = (((x AND 0xf9) OR word_of_int (push_bit 1 fmt)) AND 0xc7) OR word_of_int (push_bit 3 bits)"

lemma es8388_config_i2s_chip:
  assumes "codec_chip I ES8388_ADDR getr setr getp setp"
  shows "fst (es8388_config_i2s I mode iface w) = 0"
    and "getr (snd (es8388_config_i2s I mode iface w)) =
      (getr w)(ES8388_ADCCONTROL4 := adc_format (if_fmt iface) (bits_length_of (if_bits iface)) (getr w ES8388_ADCCONTROL4),
        ES8388_DACCONTROL1 := dac_format (if_fmt iface) (bits_length_of (if_bits iface)) (getr w ES8388_DACCONTROL1))"
  by (simp_all add: es8388_config_i2s_def es8388_config_fmt_def es8388_set_bits_per_sample_def Let_def
      chip_simps [OF assms] adc_format_def dac_format_def fun_eq_iff)

lemma fmt_cases:
  assumes "0 \<le> fmt" "fmt \<le> (3 :: int)" "bits \<in> {0, 3, 4 :: int}"
    and "\<And>f b. f \<in> {0, 1, 2, 3} \<Longrightarrow> b \<in> {0, 3, 4} \<Longrightarrow> P f b"
  shows "P fmt bits"
  using assms(1-3) by (intro assms(4)) auto

lemma adc_format_fields:
  assumes "0 \<le> fmt" "fmt \<le> 3" "bits \<in> {0, 3, 4}"
  shows "adc_format fmt bits x AND 0x03 = word_of_int fmt \<and> drop_bit 2 (adc_format fmt bits x AND 0x1c) = word_of_int bits \<and>
    adc_format fmt bits x AND 0xe0 = x AND 0xe0"
  unfolding adc_format_def
  by (rule fmt_cases [OF assms]) (safe; simp; rule u8_eqI; simp add: reg_bits)

lemma dac_format_fields:
  assumes "0 \<le> fmt" "fmt \<le> 3" "bits \<in> {0, 3, 4}"
  shows "drop_bit 1 (dac_format fmt bits x AND 0x06) = word_of_int fmt \<and> drop_bit 3 (dac_format fmt bits x AND 0x38) = word_of_int bits \<and>
    dac_format fmt bits x AND 0xc1 = x AND 0xc1"
  unfolding dac_format_def
  by (rule fmt_cases [OF assms]) (safe; simp; rule u8_eqI; simp add: reg_bits)

lemma es8388_format_facts:
  fixes w :: 'w and mode :: int
  assumes "codec_chip I ES8388_ADDR getr setr getp setp" and "0 \<le> if_fmt iface" "if_fmt iface \<le> 3"
  defines "w' \<equiv> snd (es8388_config_i2s I mode iface w)"
  shows "fst (es8388_config_i2s I mode iface w) = ESP_OK"
    and "getr w' ES8388_ADCCONTROL4 AND 0x03 = word_of_int (if_fmt iface)"
    and "drop_bit 2 (getr w' ES8388_ADCCONTROL4 AND 0x1c) = word_of_int (bits_length_of (if_bits iface))"
    and "getr w' ES8388_ADCCONTROL4 AND 0xe0 = getr w ES8388_ADCCONTROL4 AND 0xe0"
    and "drop_bit 1 (getr w' ES8388_DACCONTROL1 AND 0x06) = word_of_int (if_fmt iface)"
    and "drop_bit 3 (getr w' ES8388_DACCONTROL1 AND 0x38) = word_of_int (bits_length_of (if_bits iface))"
    and "getr w' ES8388_DACCONTROL1 AND 0xc1 = getr w ES8388_DACCONTROL1 AND 0xc1"
    and "r \<noteq> ES8388_ADCCONTROL4 \<Longrightarrow> r \<noteq> ES8388_DACCONTROL1 \<Longrightarrow> getr w' r = getr w r"
proof -
  have b: "bits_length_of (if_bits iface) \<in> {0, 3, 4}" by (simp add: bits_length_of_def)
  note adc = adc_format_fields [OF assms(2,3) b] and dac = dac_format_fields [OF assms(2,3) b]
  have regs: "getr w' 0x0c = adc_format (if_fmt iface) (bits_length_of (if_bits iface)) (getr w 0x0c)"
    "getr w' 0x17 = dac_format (if_fmt iface) (bits_length_of (if_bits iface)) (getr w 0x17)"
    by (simp_all add: w'_def es8388_config_i2s_chip [OF assms(1)])
  show "fst (es8388_config_i2s I mode iface w) = ESP_OK"
    by (simp add: es8388_config_i2s_chip [OF assms(1)])
  show "getr w' r = getr w r" if "r \<noteq> ES8388_ADCCONTROL4" "r \<noteq> ES8388_DACCONTROL1"
    using that by (simp add: w'_def es8388_config_i2s_chip [OF assms(1)])
  show "getr w' ES8388_ADCCONTROL4 AND 0x03 = word_of_int (if_fmt iface)"
    "drop_bit 2 (getr w' ES8388_ADCCONTROL4 AND 0x1c) = word_of_int (bits_length_of (if_bits iface))"
    "getr w' ES8388_ADCCONTROL4 AND 0xe0 = getr w ES8388_ADCCONTROL4 AND 0xe0"
    unfolding regs using adc by blast+
  show "drop_bit 1 (getr w' ES8388_DACCONTROL1 AND 0x06) = word_of_int (if_fmt iface)"
    "drop_bit 3 (getr w' ES8388_DACCONTROL1 AND 0x38) = word_of_int (bits_length_of (if_bits iface))"
    "getr w' ES8388_DACCONTROL1 AND 0xc1 = getr w ES8388_DACCONTROL1 AND 0xc1"
    unfolding regs using dac by blast+
qed

text \<open>On a chip that answers, configuring the interface with one of the four formats stores the format and the sample width in the
  fields of the two registers, for the ADC and the DAC, and changes no other bit and no other register.
\<close>

theorem es8388_format_fields:
  assumes "codec_chip I ES8388_ADDR getr setr getp setp" and "0 \<le> if_fmt iface" "if_fmt iface \<le> 3"
  shows "let w' = snd (es8388_config_i2s I mode iface w) in
    fst (es8388_config_i2s I mode iface w) = ESP_OK \<and>
    getr w' ES8388_ADCCONTROL4 AND 0x03 = word_of_int (if_fmt iface) \<and>
    drop_bit 2 (getr w' ES8388_ADCCONTROL4 AND 0x1c) = word_of_int (bits_length_of (if_bits iface)) \<and>
    getr w' ES8388_ADCCONTROL4 AND 0xe0 = getr w ES8388_ADCCONTROL4 AND 0xe0 \<and>
    drop_bit 1 (getr w' ES8388_DACCONTROL1 AND 0x06) = word_of_int (if_fmt iface) \<and>
    drop_bit 3 (getr w' ES8388_DACCONTROL1 AND 0x38) = word_of_int (bits_length_of (if_bits iface)) \<and>
    getr w' ES8388_DACCONTROL1 AND 0xc1 = getr w ES8388_DACCONTROL1 AND 0xc1 \<and>
    (\<forall>r. r \<noteq> ES8388_ADCCONTROL4 \<and> r \<noteq> ES8388_DACCONTROL1 \<longrightarrow> getr w' r = getr w r)"
  unfolding Let_def using es8388_format_facts [OF assms] by blast

theorem es8388_format_fields_witness:
  "fst (snd (es8388_config_i2s (demo_hw ES8388_ADDR) 3 \<lparr>if_mode = 0, if_fmt = 1, if_samples = 6, if_bits = 1\<rparr> (\<lambda>_. 0xff, 0)))
     ES8388_ADCCONTROL4 AND 0xe0 = 0xe0"
  using es8388_format_fields [OF demo_chip_ok, of "\<lparr>if_mode = 0, if_fmt = 1, if_samples = 6, if_bits = 1\<rparr>" 3 "(\<lambda>_. 0xff, 0)"]
  by (simp add: Let_def)

text \<open>When the chip does not take the ADC half of a format, the driver still reports the result of the DAC half alone, because
  the read of the second register assigns to the result instead of adding to it.
\<close>

theorem es8388_adc_error_lost:
  assumes "es_read_reg I ES8388_ADDR ES8388_ADCCONTROL4 w = ((-1, None), w)"
    and "\<And>d. es_write_reg I ES8388_ADDR ES8388_ADCCONTROL4 d w = (-1, w)"
  shows "es8388_config_fmt I ES_MODULE_ADC_DAC fmt w = es8388_config_fmt I ES_MODULE_DAC fmt w"
    and "es8388_set_bits_per_sample I ES_MODULE_ADC_DAC bits w = es8388_set_bits_per_sample I ES_MODULE_DAC bits w"
    and "fst (es8388_config_fmt I ES_MODULE_ADC fmt w) = ESP_FAIL"
    and "fst (es8388_set_bits_per_sample I ES_MODULE_ADC bits w) = ESP_FAIL"
  by (simp_all add: es8388_config_fmt_def es8388_set_bits_per_sample_def read_into_def assms)

theorem es8388_adc_error_lost_witness:
  "es8388_config_fmt dead_hw ES_MODULE_ADC_DAC 1 (\<lambda>_. 0, 0) = es8388_config_fmt dead_hw ES_MODULE_DAC 1 (\<lambda>_. 0, 0)"
  by (rule es8388_adc_error_lost(1)) (simp_all add: dead_read [OF dead_hw_dead] dead_write [OF dead_hw_dead])

section \<open>Starting and stopping\<close>

lemma es_mode_cases:
  obtains "es_mode_of mode = ES_MODULE_ADC" | "es_mode_of mode = ES_MODULE_LINE"
    | "es_mode_of mode = ES_MODULE_DAC" | "es_mode_of mode = ES_MODULE_ADC_DAC"
  unfolding es_mode_of_def by (cases "mode = 1"; cases "mode = 4"; cases "mode = 2"; cases "mode = 3") simp_all

lemma es8388_restart_regs:
  assumes "codec_chip I ES8388_ADDR getr setr getp setp" and "getr w ES8388_CHIPPOWER = 0"
  shows "getr (snd (es8388_ctrl_state I mode 1 (snd (es8388_ctrl_state I mode 0 (snd (es8388_ctrl_state I mode 1 w))))))
    = getr (snd (es8388_ctrl_state I mode 1 w))"
proof -
  note es = es8388_ctrl_state_def es8388_start_def es8388_stop_def es8388_set_voice_mute_def Let_def
    chip_simps [OF assms(1)] assms(2) fun_eq_iff
  show ?thesis
    by (cases mode rule: es_mode_cases) (auto simp: es intro!: u8_eqI simp: reg_bits)
qed

text \<open>A bus whose set-up succeeds, with pins that are no part of the chip.\<close>

definition bus_ready :: "'w hw \<Rightarrow> ('w \<Rightarrow> u8 \<Rightarrow> u8) \<Rightarrow> bool" where
  "bus_ready I getr \<longleftrightarrow> (\<forall>w. hw_param_config I w = (0, w)) \<and> (\<forall>w. hw_driver_install I w = (0, w)) \<and>
     (\<forall>m w. getr (hw_gpio_config I m w) = getr w) \<and> (\<forall>g l w. getr (hw_gpio_set_level I g l w) = getr w)"

lemma demo_bus_ready: "bus_ready (demo_hw a) fst"
  by (simp add: bus_ready_def demo_hw_def)

lemma es8388_init_chip:
  assumes "codec_chip I ES8388_ADDR getr setr getp setp" and "bus_ready I getr"
  shows "fst (es8388_init I cfg w) = 0"
    and "getr (snd (es8388_init I cfg w)) ES8388_DACCONTROL3 = 0x04"
    and "getr (snd (es8388_init I cfg w)) ES8388_CHIPPOWER = 0"
    and "getr (snd (es8388_init I cfg w)) ES8388_DACPOWER = dac_output_bits (cc_dac_output cfg)"
    and "getr (snd (es8388_init I cfg w)) ES8388_ADCCONTROL2 = adc_input_bits (cc_adc_input cfg)"
    and "getr (snd (es8388_init I cfg w)) ES8388_MASTERMODE = word_of_int (if_mode (cc_i2s_iface cfg))"
  using assms(2)
  by (simp_all add: es8388_init_def i2c_init_def es8388_set_adc_dac_volume_def es8388_pa_power_def Let_def bus_ready_def
      chip_simps [OF assms(1)])

lemma es8388_start_stop_power:
  assumes "codec_chip I ES8388_ADDR getr setr getp setp"
  shows "fst (es8388_start I ES_MODULE_ADC_DAC w) = 0"
    and "getr (snd (es8388_start I ES_MODULE_ADC_DAC w)) ES8388_ADCPOWER = 0"
    and "getr (snd (es8388_start I ES_MODULE_ADC_DAC w)) ES8388_DACPOWER = 0x3c"
    and "getr (snd (es8388_start I ES_MODULE_ADC_DAC w)) ES8388_DACCONTROL3 = getr w ES8388_DACCONTROL3 AND 0xFB"
    and "fst (es8388_stop I ES_MODULE_ADC_DAC w) = 0"
    and "getr (snd (es8388_stop I ES_MODULE_ADC_DAC w)) ES8388_ADCPOWER = 0xFF"
    and "getr (snd (es8388_stop I ES_MODULE_ADC_DAC w)) ES8388_DACPOWER = 0"
    and "getr (snd (es8388_stop I ES_MODULE_ADC_DAC w)) ES8388_DACCONTROL3 = (getr w ES8388_DACCONTROL3 AND 0xFB) OR 4"
  by (simp_all add: es8388_start_def es8388_stop_def es8388_set_voice_mute_def Let_def chip_simps [OF assms])

lemma es8388_life:
  fixes w :: 'w and cfg :: audio_hal_codec_config
  assumes "codec_chip I ES8388_ADDR getr setr getp setp" and "bus_ready I getr"
  defines "w1 \<equiv> snd (es8388_init I cfg w)"
  defines "w2 \<equiv> snd (es8388_ctrl_state I AUDIO_HAL_CODEC_MODE_BOTH AUDIO_HAL_CTRL_START w1)"
  defines "w3 \<equiv> snd (es8388_ctrl_state I AUDIO_HAL_CODEC_MODE_BOTH AUDIO_HAL_CTRL_STOP w2)"
  shows "fst (es8388_init I cfg w) = ESP_OK" "fst (es8388_get_voice_mute I w1) = 1"
    and "getr w1 ES8388_DACPOWER = dac_output_bits (cc_dac_output cfg)"
      "getr w1 ES8388_ADCCONTROL2 = adc_input_bits (cc_adc_input cfg)"
    and "fst (es8388_ctrl_state I AUDIO_HAL_CODEC_MODE_BOTH AUDIO_HAL_CTRL_START w1) = ESP_OK"
      "fst (es8388_get_voice_mute I w2) = 0" "getr w2 ES8388_ADCPOWER = 0" "getr w2 ES8388_DACPOWER = 0x3c"
    and "fst (es8388_ctrl_state I AUDIO_HAL_CODEC_MODE_BOTH AUDIO_HAL_CTRL_STOP w2) = ESP_OK"
      "fst (es8388_get_voice_mute I w3) = 1" "getr w3 ES8388_ADCPOWER = 0xFF" "getr w3 ES8388_DACPOWER = 0"
    and "getr (snd (es8388_ctrl_state I AUDIO_HAL_CODEC_MODE_BOTH AUDIO_HAL_CTRL_START w3)) = getr w2"
proof -
  note init = es8388_init_chip [OF assms(1,2)] and power = es8388_start_stop_power [OF assms(1)]
    and mute = es8388_get_voice_mute_chip [OF assms(1)]
  have m: "es_mode_of AUDIO_HAL_CODEC_MODE_BOTH = ES_MODULE_ADC_DAC" by (simp add: es_mode_of_def)
  show "fst (es8388_init I cfg w) = ESP_OK" "fst (es8388_get_voice_mute I w1) = 1"
    "getr w1 ES8388_DACPOWER = dac_output_bits (cc_dac_output cfg)"
    "getr w1 ES8388_ADCCONTROL2 = adc_input_bits (cc_adc_input cfg)"
    by (simp_all add: w1_def mute init)
  show "fst (es8388_ctrl_state I AUDIO_HAL_CODEC_MODE_BOTH AUDIO_HAL_CTRL_START w1) = ESP_OK"
    "fst (es8388_get_voice_mute I w2) = 0" "getr w2 ES8388_ADCPOWER = 0" "getr w2 ES8388_DACPOWER = 0x3c"
    by (simp_all add: w2_def w1_def es8388_ctrl_state_def m mute init power)
  show "fst (es8388_ctrl_state I AUDIO_HAL_CODEC_MODE_BOTH AUDIO_HAL_CTRL_STOP w2) = ESP_OK"
    "fst (es8388_get_voice_mute I w3) = 1" "getr w3 ES8388_ADCPOWER = 0xFF" "getr w3 ES8388_DACPOWER = 0"
    by (simp_all add: w3_def w2_def w1_def es8388_ctrl_state_def m mute init power)
  show "getr (snd (es8388_ctrl_state I AUDIO_HAL_CODEC_MODE_BOTH AUDIO_HAL_CTRL_START w3)) = getr w2"
    unfolding w3_def w2_def by (rule es8388_restart_regs [OF assms(1)]) (simp add: w1_def init)
qed

text \<open>The life of the chip, on a bus that works: \<open>es8388_init\<close> leaves it muted with the configured input and outputs selected;
  starting playback and recording unmutes it and powers both converters up, with all four outputs on whatever outputs were
  configured; stopping mutes it again and powers both down; and a second start brings every register back to what the
  first one left.
\<close>

theorem es8388_lifecycle:
  assumes "codec_chip I ES8388_ADDR getr setr getp setp" and "bus_ready I getr"
  shows "let w1 = snd (es8388_init I cfg w);
        w2 = snd (es8388_ctrl_state I AUDIO_HAL_CODEC_MODE_BOTH AUDIO_HAL_CTRL_START w1);
        w3 = snd (es8388_ctrl_state I AUDIO_HAL_CODEC_MODE_BOTH AUDIO_HAL_CTRL_STOP w2) in
    fst (es8388_init I cfg w) = ESP_OK \<and> fst (es8388_get_voice_mute I w1) = 1 \<and>
    getr w1 ES8388_DACPOWER = dac_output_bits (cc_dac_output cfg) \<and> getr w1 ES8388_ADCCONTROL2 = adc_input_bits (cc_adc_input cfg) \<and>
    fst (es8388_ctrl_state I AUDIO_HAL_CODEC_MODE_BOTH AUDIO_HAL_CTRL_START w1) = ESP_OK \<and>
    fst (es8388_get_voice_mute I w2) = 0 \<and> getr w2 ES8388_ADCPOWER = 0 \<and> getr w2 ES8388_DACPOWER = 0x3c \<and>
    fst (es8388_ctrl_state I AUDIO_HAL_CODEC_MODE_BOTH AUDIO_HAL_CTRL_STOP w2) = ESP_OK \<and>
    fst (es8388_get_voice_mute I w3) = 1 \<and> getr w3 ES8388_ADCPOWER = 0xFF \<and> getr w3 ES8388_DACPOWER = 0 \<and>
    getr (snd (es8388_ctrl_state I AUDIO_HAL_CODEC_MODE_BOTH AUDIO_HAL_CTRL_START w3)) = getr w2"
  unfolding Let_def by (intro conjI es8388_life [OF assms])

theorem es8388_lifecycle_witness:
  "fst (es8388_get_voice_mute (demo_hw ES8388_ADDR) (snd (es8388_init (demo_hw ES8388_ADDR)
     \<lparr>cc_adc_input = 0, cc_dac_output = 1, cc_codec_mode = 3,
       cc_i2s_iface = \<lparr>if_mode = 0, if_fmt = 0, if_samples = 6, if_bits = 1\<rparr>\<rparr> (\<lambda>_. 0, 0)))) = 1"
  using es8388_lifecycle [OF demo_chip_ok demo_bus_ready, where cfg = "\<lparr>cc_adc_input = 0, cc_dac_output = 1, cc_codec_mode = 3,
       cc_i2s_iface = \<lparr>if_mode = 0, if_fmt = 0, if_samples = 6, if_bits = 1\<rparr>\<rparr>" and w = "(\<lambda>_. 0, 0)"]
  unfolding Let_def by (elim conjE)

section \<open>The ES8374\<close>

lemma chip8374:
  assumes "codec_chip I ES8374_ADDR getr setr getp setp"
  shows "es8374_read_reg I r x w = ((0, getr w r), setp r w)"
    and "es8374_write_reg I r d w = (0, setr ((getr w)(r := d)) w)"
  by (simp_all add: es8374_read_reg_def es8374_write_reg_def chip_simps [OF assms])

text \<open>A volume of 96 is the loudest: the driver keeps half decibels.\<close>

definition es8374_level :: "int \<Rightarrow> int" where
  "es8374_level v = max 0 (min 96 v)"

lemma es8374_volume_read:
  assumes "codec_chip I ES8374_ADDR getr setr getp setp"
  shows "fst (es8374_codec_set_voice_volume I v w) = 0"
    and "fst (es8374_codec_get_voice_volume I (snd (es8374_codec_set_voice_volume I v w))) = (0, es8374_level v)"
    and "r \<noteq> 0x38 \<Longrightarrow> getr (snd (es8374_codec_set_voice_volume I v w)) r = getr w r"
proof -
  define d where "d = (if v < 0 then 192 else if v > 96 then 0 else 192 - v * 2)"
  have d: "uint (word_of_int d :: u8) = d" "192 - d = 2 * es8374_level v" "0 \<le> es8374_level v" "es8374_level v \<le> 96"
    by (auto simp: d_def es8374_level_def uint_word_of_int8)
  have set: "es8374_codec_set_voice_volume I v w = (0, setr ((getr w)(0x38 := word_of_int d)) w)"
    by (simp add: es8374_codec_set_voice_volume_def d_def chip8374 [OF assms])
  show "fst (es8374_codec_set_voice_volume I v w) = 0" by (simp add: set)
  show "getr (snd (es8374_codec_set_voice_volume I v w)) r = getr w r" if "r \<noteq> 0x38"
    using that by (simp add: set chip_simps [OF assms])
  show "fst (es8374_codec_get_voice_volume I (snd (es8374_codec_set_voice_volume I v w))) = (0, es8374_level v)"
    using d(3,4) by (auto simp: es8374_codec_get_voice_volume_def set chip8374 [OF assms] chip_simps [OF assms] d(1,2) Let_def
        abs_mult sgn_mult sgn_if)
qed

text \<open>On an ES8374 that answers, a volume between 0 and 96 reads back exactly; what is below reads 0, and every volume above 96
  reads 96, so the maximum of the interface, 100, is never reported; no other register changes.
\<close>

theorem es8374_volume_reads_back:
  assumes "codec_chip I ES8374_ADDR getr setr getp setp"
  shows "fst (es8374_codec_set_voice_volume I v w) = ESP_OK"
    and "fst (es8374_codec_get_voice_volume I (snd (es8374_codec_set_voice_volume I v w)))
      = (ESP_OK, if v < 0 then 0 else if v \<le> 96 then v else 96)"
    and "r \<noteq> 0x38 \<Longrightarrow> getr (snd (es8374_codec_set_voice_volume I v w)) r = getr w r"
  by (simp_all add: es8374_volume_read [OF assms] es8374_level_def)

theorem es8374_volume_reads_back_witness:
  "fst (es8374_codec_get_voice_volume (demo_hw ES8374_ADDR) (snd (es8374_codec_set_voice_volume (demo_hw ES8374_ADDR) 42 (\<lambda>_. 0, 0))))
    = (ESP_OK, 42)"
  using es8374_volume_reads_back(2) [OF demo_chip_ok, of 42 "(\<lambda>_. 0, 0)"] by simp

lemma es8374_queries:
  assumes "codec_chip I ES8374_ADDR getr setr getp setp" and "e = 0 \<or> e = 1" and "dead_bus D"
  shows "fst (es8374_set_voice_mute I e w) = ESP_OK"
    and "bit (getr (snd (es8374_set_voice_mute I e w)) 0x36) 5 \<longleftrightarrow> e = 1"
    and "fst (es8374_get_voice_mute I (snd (es8374_set_voice_mute I e w))) = fst (es8374_get_voice_mute I w)"
    and "es8374_codec_get_voice_volume D w' = ((255, 96), w')"
proof -
  note es = es8374_set_voice_mute_def es8374_get_voice_mute_def stmts8374 ok8374_def chip8374 [OF assms(1)]
    chip_simps [OF assms(1)]
  show "fst (es8374_set_voice_mute I e w) = ESP_OK" by (simp add: es)
  show "bit (getr (snd (es8374_set_voice_mute I e w)) 0x36) 5 \<longleftrightarrow> e = 1"
    using assms(2) by (auto simp: es reg_bits)
  have "(getr w 0x36 AND 0xdf OR word_of_int (push_bit 5 e)) AND 0x40 = getr w 0x36 AND 0x40"
    using assms(2) by (elim disjE; simp) (rule u8_eqI; simp add: reg_bits)+
  then show "fst (es8374_get_voice_mute I (snd (es8374_set_voice_mute I e w))) = fst (es8374_get_voice_mute I w)"
    by (simp add: es)
  show "es8374_codec_get_voice_volume D w' = ((255, 96), w')"
    by (simp add: es8374_codec_get_voice_volume_def es8374_read_reg_def dead_read [OF assms(3)])
qed

text \<open>The ES8374 driver sets and clears bit 5 of register 0x36 to mute, but its query reads bit 6 of that register: muting and
  unmuting do not change what it reports. On a bus that fails, the volume query reports the failure as 255, not as
  \<open>ESP_FAIL\<close>, and so gives 96 instead of 0.
\<close>

theorem es8374_queries_misreport:
  assumes "codec_chip I ES8374_ADDR getr setr getp setp" and "e = 0 \<or> e = 1" and "dead_bus D"
  shows "fst (es8374_set_voice_mute I e w) = ESP_OK \<and> (bit (getr (snd (es8374_set_voice_mute I e w)) 0x36) 5 \<longleftrightarrow> e = 1) \<and>
    fst (es8374_get_voice_mute I (snd (es8374_set_voice_mute I e w))) = fst (es8374_get_voice_mute I w) \<and>
    es8374_codec_get_voice_volume D w' = ((255, 96), w')"
  by (intro conjI es8374_queries [OF assms])

theorem es8374_queries_misreport_witness:
  "fst (es8374_get_voice_mute (demo_hw ES8374_ADDR) (snd (es8374_set_voice_mute (demo_hw ES8374_ADDR) 1 (\<lambda>_. 0, 0))))
    = fst (es8374_get_voice_mute (demo_hw ES8374_ADDR) (\<lambda>_. 0, 0))"
  using es8374_queries_misreport [OF demo_chip_ok _ dead_hw_dead, of 1 "(\<lambda>_. 0, 0)"] by simp

text \<open>What starting and stopping do to the registers of each part of the chip.\<close>

definition adc_on :: "(u8 \<Rightarrow> u8) \<Rightarrow> u8 \<Rightarrow> u8" where
  "adc_on f = f(0x21 := f 0x21 AND 0x3f, 0x10 := f 0x10 AND 0x3f)"

definition adc_off :: "(u8 \<Rightarrow> u8) \<Rightarrow> u8 \<Rightarrow> u8" where
  "adc_off f = f(0x10 := f 0x10 OR 0xc0, 0x21 := f 0x21 OR 0xc0)"

definition dac_on :: "(u8 \<Rightarrow> u8) \<Rightarrow> u8 \<Rightarrow> u8" where
  "dac_on f = f(0x15 := f 0x15 AND 0xdf, 0x1a := ((((f 0x1a OR 0x08) AND 0xdf) OR 0x20) AND 0xf7), 0x1D := 0x02, 0x1E := 0xa0,
     0x36 := f 0x36 AND 0xdf)"

definition dac_off :: "(u8 \<Rightarrow> u8) \<Rightarrow> u8 \<Rightarrow> u8" where
  "dac_off f = f(0x36 := (f 0x36 AND 0xdf) OR 0x20, 0x1a := (f 0x1a OR 0x08) AND 0xdf, 0x1D := 0x12, 0x1E := 0x20,
     0x15 := f 0x15 OR 0x20)"

definition line_on :: "(u8 \<Rightarrow> u8) \<Rightarrow> u8 \<Rightarrow> u8" where
  "line_on f = f(0x1a := ((f 0x1a OR 0x60) OR 0x20) AND 0xf7, 0x1c := f 0x1c OR 0x40, 0x1D := 0x02, 0x1F := 0, 0x1E := 0xA0)"

definition line_off :: "(u8 \<Rightarrow> u8) \<Rightarrow> u8 \<Rightarrow> u8" where
  "line_off f = f(0x1a := (f 0x1a OR 0x08) AND 0x9f, 0x1D := 0x12, 0x1E := 0x20, 0x1c := f 0x1c AND 0xbf, 0x1F := 0)"

lemmas parts8374 = adc_on_def adc_off_def dac_on_def dac_off_def line_on_def line_off_def

lemma es8374_start_regs:
  assumes "codec_chip I ES8374_ADDR getr setr getp setp"
  shows "getr (snd (es8374_start I ES_MODULE_ADC w)) = adc_on (getr w)"
    and "getr (snd (es8374_start I ES_MODULE_DAC w)) = dac_on (getr w)"
    and "getr (snd (es8374_start I ES_MODULE_ADC_DAC w)) = dac_on (adc_on (getr w))"
    and "getr (snd (es8374_start I ES_MODULE_LINE w)) = dac_on (adc_on (line_on (getr w)))"
  by (simp_all add: es8374_start_def es8374_set_voice_mute_def stmts8374 ok8374_def chip8374 [OF assms] chip_simps [OF assms])
    (simp_all add: parts8374 fun_upd_twist)

lemma es8374_stop_regs:
  assumes "codec_chip I ES8374_ADDR getr setr getp setp"
  shows "getr (snd (es8374_stop I ES_MODULE_ADC w)) = adc_off (getr w)"
    and "getr (snd (es8374_stop I ES_MODULE_DAC w)) = dac_off (getr w)"
    and "getr (snd (es8374_stop I ES_MODULE_ADC_DAC w)) = adc_off (dac_off (getr w))"
    and "getr (snd (es8374_stop I ES_MODULE_LINE w)) = line_off (getr w)"
  by (simp_all add: es8374_stop_def es8374_set_voice_mute_def stmts8374 ok8374_def chip8374 [OF assms] chip_simps [OF assms])
    (simp_all add: parts8374 fun_upd_twist)

lemma restart_parts:
  "adc_on (adc_off (adc_on f)) = adc_on f"
  "dac_on (dac_off (dac_on f)) = dac_on f"
  "dac_on (adc_on (adc_off (dac_off (dac_on (adc_on f))))) = dac_on (adc_on f)"
  "dac_on (adc_on (line_on (line_off (dac_on (adc_on (line_on f)))))) = dac_on (adc_on (line_on f))"
  by (rule ext, simp add: parts8374, (intro conjI impI)?; rule u8_eqI; simp add: reg_bits)+

lemma es8374_restart_regs:
  assumes "codec_chip I ES8374_ADDR getr setr getp setp"
  shows "getr (snd (es8374_codec_ctrl_state I mode 1 (snd (es8374_codec_ctrl_state I mode 0 (snd (es8374_codec_ctrl_state I mode 1 w))))))
    = getr (snd (es8374_codec_ctrl_state I mode 1 w))"
  by (cases mode rule: es_mode_cases)
    (simp_all add: es8374_codec_ctrl_state_def es8374_start_regs [OF assms] es8374_stop_regs [OF assms] restart_parts)

text \<open>The codes of the dividers.\<close>

lemma lclk_range: "lclk_div e = Some n \<Longrightarrow> 0 \<le> n \<and> n < 65536"
  by (simp add: lclk_div_def split: if_splits)

lemma divratio_low: "(word_of_int (divratio c) :: u8) AND 0x1f = word_of_int (divratio c)"
  by (simp add: divratio_def)

lemma divratio_bits:
  "((x :: u8) AND 0xe0 OR word_of_int (divratio c)) AND 0xe0 = x AND 0xe0"
  "((x :: u8) AND 0xe0 OR word_of_int (divratio c)) AND 0x1f = word_of_int (divratio c)"
proof -
  have "\<not> bit (word_of_int (divratio c) :: u8) n" if "n \<in> {5, 6, 7}" for n
    using that by (subst divratio_low [symmetric]) (auto simp: bit_and_iff)
  then have "\<not> bit (word_of_int (divratio c) :: u8) 5" "\<not> bit (word_of_int (divratio c) :: u8) 6"
    "\<not> bit (word_of_int (divratio c) :: u8) 7" by blast+
  then show "((x :: u8) AND 0xe0 OR word_of_int (divratio c)) AND 0xe0 = x AND 0xe0"
    "((x :: u8) AND 0xe0 OR word_of_int (divratio c)) AND 0x1f = word_of_int (divratio c)"
    by - (rule u8_eqI; simp only: bit_and_iff bit_or_iff; simp)+
qed

text \<open>The code of a divider is its place in the order of all dividers.\<close>

definition mclk_dividers :: "int list" where
  "mclk_dividers = [1, 2, 3, 4, 5, 6, 7, 8, 9, 10, 11, 12, 13, 14, 15, 16, 17, 18, 20, 22, 24, 25, 30, 32, 33, 34, 36, 44, 48, 66, 72]"

lemma divratio_rank:
  "mclk_div c = Some p \<Longrightarrow> divratio c = int (length (filter (\<lambda>x. x \<le> p) mclk_dividers)) \<and> p \<in> set mclk_dividers"
  unfolding mclk_div_def mclk_dividers_def
  by (simp split: if_splits) (auto simp: divratio_def)

lemma rank_less:
  "(p :: int) < q \<Longrightarrow> q \<in> set xs \<Longrightarrow> length (filter (\<lambda>x. x \<le> p) xs) < length (filter (\<lambda>x. x \<le> q) xs)"
proof (induction xs)
  case (Cons x xs)
  have "length (filter (\<lambda>x. x \<le> p) xs) \<le> length (filter (\<lambda>x. x \<le> q) xs)"
    using Cons.prems(1) by (induction xs) auto
  with Cons show ?case by (cases "q \<in> set xs") auto
qed simp

lemma divratio_mono: "mclk_div c = Some p \<Longrightarrow> mclk_div d = Some q \<Longrightarrow> p < q \<Longrightarrow> divratio c < divratio d"
  using divratio_rank [of c p] divratio_rank [of d q] rank_less [of p q mclk_dividers] by simp

lemma es8374_clock:
  assumes "codec_chip I ES8374_ADDR getr setr getp setp" and "lclk_div (ck_lclk_div cfg) = Some n"
  shows "fst (es8374_i2s_config_clock I cfg w) = ESP_OK"
    and "256 * uint (getr (snd (es8374_i2s_config_clock I cfg w)) 0x06) + uint (getr (snd (es8374_i2s_config_clock I cfg w)) 0x07) = n"
    and "getr (snd (es8374_i2s_config_clock I cfg w)) 0x0f AND 0xe0 = getr w 0x0f AND 0xe0"
    and "getr (snd (es8374_i2s_config_clock I cfg w)) 0x0f AND 0x1f = word_of_int (divratio (ck_sclk_div cfg))"
    and "mclk_div c = Some p \<Longrightarrow> mclk_div d = Some q \<Longrightarrow> p < q \<Longrightarrow> divratio c < divratio d"
proof -
  have clock: "fst (es8374_i2s_config_clock I cfg w) = 0"
    "getr (snd (es8374_i2s_config_clock I cfg w)) 0x06 = word_of_int (n div 256)"
    "getr (snd (es8374_i2s_config_clock I cfg w)) 0x07 = word_of_int (n mod 256)"
    "getr (snd (es8374_i2s_config_clock I cfg w)) 0x0f = (getr w 0x0f AND 0xe0) OR word_of_int (divratio (ck_sclk_div cfg))"
    by (simp_all add: es8374_i2s_config_clock_def stmts8374 chip8374 [OF assms(1)] chip_simps [OF assms(1)] dacratio_def assms(2))
  show "fst (es8374_i2s_config_clock I cfg w) = ESP_OK" by (simp add: clock)
  show "256 * uint (getr (snd (es8374_i2s_config_clock I cfg w)) 0x06) + uint (getr (snd (es8374_i2s_config_clock I cfg w)) 0x07) = n"
  proof -
    have "0 \<le> n div 256" "n div 256 < 256" "0 \<le> n mod 256" "n mod 256 < 256" using lclk_range [OF assms(2)] by auto
    then show ?thesis by (simp only: clock uint_word_of_int8 mult_div_mod_eq)
  qed
  show "getr (snd (es8374_i2s_config_clock I cfg w)) 0x0f AND 0xe0 = getr w 0x0f AND 0xe0"
    "getr (snd (es8374_i2s_config_clock I cfg w)) 0x0f AND 0x1f = word_of_int (divratio (ck_sclk_div cfg))"
    unfolding clock using divratio_bits by blast+
  show "divratio c < divratio d" if "mclk_div c = Some p" "mclk_div d = Some q" "p < q"
    using that by (rule divratio_mono)
qed

text \<open>The clock of the ES8374: for every divider of the interface the two ratio registers together hold the divider's value, the
  code of the master clock divider is stored in the low five bits of register 0x0f with its high bits kept, and a greater
  master clock divider has a greater code.
\<close>

theorem es8374_clock_ratio:
  assumes "codec_chip I ES8374_ADDR getr setr getp setp" and "lclk_div (ck_lclk_div cfg) = Some n"
  shows "let w' = snd (es8374_i2s_config_clock I cfg w) in
    fst (es8374_i2s_config_clock I cfg w) = ESP_OK \<and> 256 * uint (getr w' 0x06) + uint (getr w' 0x07) = n \<and>
    getr w' 0x0f AND 0xe0 = getr w 0x0f AND 0xe0 \<and> getr w' 0x0f AND 0x1f = word_of_int (divratio (ck_sclk_div cfg)) \<and>
    (\<forall>c d p q. mclk_div c = Some p \<longrightarrow> mclk_div d = Some q \<longrightarrow> p < q \<longrightarrow> divratio c < divratio d)"
  unfolding Let_def using es8374_clock [OF assms] by blast

theorem es8374_clock_ratio_witness:
  "256 * uint (fst (snd (es8374_i2s_config_clock (demo_hw ES8374_ADDR) \<lparr>ck_sclk_div = 4, ck_lclk_div = 3\<rparr> (\<lambda>_. 0, 0))) 0x06)
    + uint (fst (snd (es8374_i2s_config_clock (demo_hw ES8374_ADDR) \<lparr>ck_sclk_div = 4, ck_lclk_div = 3\<rparr> (\<lambda>_. 0, 0))) 0x07) = 384"
  using es8374_clock_ratio [OF demo_chip_ok, of "\<lparr>ck_sclk_div = 4, ck_lclk_div = 3\<rparr>" 384 "(\<lambda>_. 0, 0)"]
  by (simp add: lclk_div_def Let_def)

end
