(* ===== verification/Audio_Hal.thy ===== *)
theory Audio_Hal
  imports Audio_Element Codec_Correct
begin

text \<open>
  The hardware abstraction of the audio codec (\<open>components/audio_hal/audio_hal.c\<close>): a handle with a lock around the functions of a
  codec driver. The driver's functions are those of the table at an address, the argument \<open>T\<close> of the model; they act on the
  codec's part of the state.
\<close>

record 'c codec_ops =
  audio_codec_initialize :: "audio_hal_codec_config \<Rightarrow> 'c \<Rightarrow> (int \<times> 'c) option"
  audio_codec_deinitialize :: "'c \<Rightarrow> (int \<times> 'c) option"
  audio_codec_ctrl :: "int \<Rightarrow> int \<Rightarrow> 'c \<Rightarrow> (int \<times> 'c) option"
  audio_codec_config_iface :: "int \<Rightarrow> audio_hal_codec_i2s_iface \<Rightarrow> 'c \<Rightarrow> (int \<times> 'c) option"
  audio_codec_set_volume :: "int \<Rightarrow> 'c \<Rightarrow> (int \<times> 'c) option"
  audio_codec_get_volume :: "'c \<Rightarrow> ((int \<times> int) \<times> 'c) option"

text \<open>A handle: the table its functions were copied from, its lock and its field \<open>handle\<close>.\<close>

record audio_hal =
  ah_func :: addr
  audio_hal_lock :: "sem option"
  ah_handle :: "addr option"

record 'c hal_world =
  hals :: "addr \<Rightarrow> audio_hal option"
  func_handle :: "addr \<Rightarrow> addr option"
  codec :: 'c

type_synonym ('c, 'z) halw = "('c, 'z) hal_world_scheme"

abbreviation (input) AUDIO_HAL_VOL_DEFAULT :: int where "AUDIO_HAL_VOL_DEFAULT \<equiv> 70"

definition ah_upd :: "addr \<Rightarrow> (audio_hal \<Rightarrow> audio_hal) \<Rightarrow> ('c, 'z) halw \<Rightarrow> ('c, 'z) halw option" where
  "ah_upd h f w = (case hals w h of None \<Rightarrow> None | Some a \<Rightarrow> Some (w\<lparr>hals := (hals w)(h \<mapsto> f a)\<rparr>))"

interpretation ah_store: object_store hals ah_upd
  by unfold_locales (auto simp: ah_upd_def split: option.splits)

definition ah_free :: "addr \<Rightarrow> ('c, 'z) halw \<Rightarrow> ('c, 'z) halw option" where
  "ah_free h w = (case hals w h of None \<Rightarrow> None | Some _ \<Rightarrow> Some (w\<lparr>hals := (hals w)(h := None)\<rparr>))"

definition codec_call :: "('c \<Rightarrow> ('r \<times> 'c) option) \<Rightarrow> ('c, 'z) halw \<Rightarrow> ('r \<times> ('c, 'z) halw) option" where
  "codec_call f w = map_option (\<lambda>(r, c). (r, w\<lparr>codec := c\<rparr>)) (f (codec w))"

section \<open>Operations\<close>

text \<open>\<open>f\<close> is the address of the table. When the driver's initialisation fails, the function returns with the lock taken.\<close>

definition audio_hal_init ::
  "(addr \<Rightarrow> 'c codec_ops) \<Rightarrow> ('c, 'z) halw platform \<Rightarrow> audio_hal_codec_config \<Rightarrow> addr \<Rightarrow> ('c, 'z) halw
     \<Rightarrow> (addr option \<times> ('c, 'z) halw) option" where
  "audio_hal_init T R conf f w =
     (case heap_alloc R 32 w of
        (None, w) \<Rightarrow> Some (None, w)
      | (Some h, w) \<Rightarrow> do {
          let w = w\<lparr>hals := (hals w)(h \<mapsto> \<lparr>ah_func = f, audio_hal_lock = None, ah_handle = func_handle w f\<rparr>)\<rparr>;
          case xSemaphoreCreateMutex R w of
            (None, w) \<Rightarrow> do { w \<leftarrow> ah_free h w; Some (None, w) }
          | (Some l, w) \<Rightarrow> do {
              w \<leftarrow> ah_upd h (\<lambda>a. a\<lparr>audio_hal_lock := Some l\<rparr>) w;
              w \<leftarrow> mutex_lock R l w;
              (ret, w) \<leftarrow> codec_call (audio_codec_initialize (T f) conf) w;
              if ret = ESP_FAIL then do { w \<leftarrow> ah_free h w; Some (func_handle w f, w) }
              else do {
                (_, w) \<leftarrow> codec_call (audio_codec_config_iface (T f) (cc_codec_mode conf) (cc_i2s_iface conf)) w;
                (_, w) \<leftarrow> codec_call (audio_codec_set_volume (T f) AUDIO_HAL_VOL_DEFAULT) w;
                w \<leftarrow> ah_upd h (\<lambda>a. a\<lparr>ah_handle := Some h\<rparr>) w;
                let w = w\<lparr>func_handle := (func_handle w)(f \<mapsto> h)\<rparr>;
                Some (Some h, xSemaphoreGive R l w) } } })"

definition audio_hal_deinit ::
  "(addr \<Rightarrow> 'c codec_ops) \<Rightarrow> ('c, 'z) halw platform \<Rightarrow> addr option \<Rightarrow> ('c, 'z) halw \<Rightarrow> (int \<times> ('c, 'z) halw) option" where
  "audio_hal_deinit T R audio_hal w =
     (case audio_hal of None \<Rightarrow> Some (-1, w)
      | Some h \<Rightarrow> do {
          a \<leftarrow> hals w h;
          l \<leftarrow> audio_hal_lock a;
          let w = vSemaphoreDelete R l w;
          (ret, w) \<leftarrow> codec_call (audio_codec_deinitialize (T (ah_func a))) w;
          w \<leftarrow> ah_upd h (\<lambda>a. a\<lparr>audio_hal_lock := None, ah_handle := None\<rparr>) w;
          w \<leftarrow> ah_free h w;
          Some (ret, w) })"

text \<open>A call of a driver's function between taking and giving the lock.\<close>

definition hal_locked ::
  "(addr \<Rightarrow> 'c codec_ops) \<Rightarrow> ('c, 'z) halw platform \<Rightarrow> addr \<Rightarrow> ('c codec_ops \<Rightarrow> 'c \<Rightarrow> ('r \<times> 'c) option) \<Rightarrow> ('c, 'z) halw
     \<Rightarrow> ('r \<times> ('c, 'z) halw) option" where
  "hal_locked T R h call w = do {
     a \<leftarrow> hals w h;
     l \<leftarrow> audio_hal_lock a;
     w \<leftarrow> mutex_lock R l w;
     (ret, w) \<leftarrow> codec_call (call (T (ah_func a))) w;
     Some (ret, xSemaphoreGive R l w) }"

definition audio_hal_ctrl_codec ::
  "(addr \<Rightarrow> 'c codec_ops) \<Rightarrow> ('c, 'z) halw platform \<Rightarrow> addr option \<Rightarrow> int \<Rightarrow> int \<Rightarrow> ('c, 'z) halw \<Rightarrow> (int \<times> ('c, 'z) halw) option" where
  "audio_hal_ctrl_codec T R audio_hal mode audio_hal_state w =
     (case audio_hal of None \<Rightarrow> Some (-1, w)
      | Some h \<Rightarrow> hal_locked T R h (\<lambda>D. audio_codec_ctrl D mode audio_hal_state) w)"

definition audio_hal_config_iface ::
  "(addr \<Rightarrow> 'c codec_ops) \<Rightarrow> ('c, 'z) halw platform \<Rightarrow> addr option \<Rightarrow> int \<Rightarrow> audio_hal_codec_i2s_iface option \<Rightarrow> ('c, 'z) halw
     \<Rightarrow> (int \<times> ('c, 'z) halw) option" where
  "audio_hal_config_iface T R audio_hal mode iface w =
     (case audio_hal of None \<Rightarrow> Some (-1, w)
      | Some h \<Rightarrow> (case iface of None \<Rightarrow> Some (-1, w)
          | Some i \<Rightarrow> hal_locked T R h (\<lambda>D. audio_codec_config_iface D mode i) w))"

definition audio_hal_set_volume ::
  "(addr \<Rightarrow> 'c codec_ops) \<Rightarrow> ('c, 'z) halw platform \<Rightarrow> addr option \<Rightarrow> int \<Rightarrow> ('c, 'z) halw \<Rightarrow> (int \<times> ('c, 'z) halw) option" where
  "audio_hal_set_volume T R audio_hal volume w =
     (case audio_hal of None \<Rightarrow> Some (-1, w)
      | Some h \<Rightarrow> hal_locked T R h (\<lambda>D. audio_codec_set_volume D volume) w)"

text \<open>\<open>volume\<close> is what \<open>*volume\<close> holds, or \<open>None\<close> for a null pointer; the result has its new value.\<close>

definition audio_hal_get_volume ::
  "(addr \<Rightarrow> 'c codec_ops) \<Rightarrow> ('c, 'z) halw platform \<Rightarrow> addr option \<Rightarrow> int option \<Rightarrow> ('c, 'z) halw
     \<Rightarrow> ((int \<times> int option) \<times> ('c, 'z) halw) option" where
  "audio_hal_get_volume T R audio_hal volume w =
     (case audio_hal of None \<Rightarrow> Some ((-1, volume), w)
      | Some h \<Rightarrow> (case volume of None \<Rightarrow> Some ((-1, None), w)
          | Some _ \<Rightarrow> map_option (\<lambda>((ret, v), w). ((ret, Some v), w)) (hal_locked T R h audio_codec_get_volume w)))"

section \<open>The drivers' tables\<close>

definition es8388_ops :: "'c hw \<Rightarrow> 'c codec_ops" where
  "es8388_ops I = \<lparr>audio_codec_initialize = (\<lambda>cfg c. Some (es8388_init I cfg c)),
     audio_codec_deinitialize = (\<lambda>c. Some (es8388_deinit I c)),
     audio_codec_ctrl = (\<lambda>m s c. Some (es8388_ctrl_state I m s c)),
     audio_codec_config_iface = (\<lambda>m i c. Some (es8388_config_i2s I m i c)),
     audio_codec_set_volume = (\<lambda>v c. Some (es8388_set_voice_volume I v c)),
     audio_codec_get_volume = (\<lambda>c. Some (es8388_get_voice_volume I c))\<rparr>"

text \<open>For the ES8374 the codec's part of the state is the bus and \<open>codec_init_flag\<close>.\<close>

definition with_flag :: "('c \<Rightarrow> 'r \<times> 'c) \<Rightarrow> bool \<times> 'c \<Rightarrow> ('r \<times> (bool \<times> 'c)) option" where
  "with_flag f s = (let (r, c) = f (snd s) in Some (r, fst s, c))"

definition es8374_ops ::
  "'c hw \<Rightarrow> (int \<Rightarrow> 'c \<Rightarrow> int \<times> 'c) \<Rightarrow> (int \<Rightarrow> audio_hal_codec_i2s_iface \<Rightarrow> 'c \<Rightarrow> int \<times> 'c) \<Rightarrow> u8 \<Rightarrow> (bool \<times> 'c) codec_ops" where
  "es8374_ops I set_voice_volume config_i2s junk =
     \<lparr>audio_codec_initialize = (\<lambda>cfg (flag, c).
        let ((r, flag), c) = es8374_codec_init I set_voice_volume config_i2s junk cfg flag c in Some (r, flag, c)),
      audio_codec_deinitialize = (\<lambda>(flag, c). let ((r, flag), c) = es8374_codec_deinit I c in Some (r, flag, c)),
      audio_codec_ctrl = (\<lambda>m s. with_flag (es8374_codec_ctrl_state I m s)),
      audio_codec_config_iface = (\<lambda>m i. with_flag (es8374_codec_config_i2s I m i)),
      audio_codec_set_volume = (\<lambda>v. with_flag (es8374_codec_set_voice_volume I v)),
      audio_codec_get_volume = with_flag (es8374_codec_get_voice_volume I)\<rparr>"

section \<open>Locks\<close>

text \<open>
  Mutexes, with no other task at work: \<open>held\<close> says which are taken. Taking a free one succeeds; a taken one is never granted;
  a new one is free; nothing else changes.
\<close>

definition hal_same :: "('c, 'z) halw \<Rightarrow> ('c, 'z) halw \<Rightarrow> bool" where
  "hal_same w w' \<longleftrightarrow> hals w' = hals w \<and> func_handle w' = func_handle w \<and> codec w' = codec w"

definition mutexes :: "('c, 'z) halw platform \<Rightarrow> (('c, 'z) halw \<Rightarrow> sem \<Rightarrow> bool) \<Rightarrow> bool" where
  "mutexes R held \<longleftrightarrow>
     (\<forall>l w. \<not> held w l \<longrightarrow> (\<exists>w'. xSemaphoreTake R l portMAX_DELAY w = (True, w') \<and> held w' = (held w)(l := True) \<and> hal_same w w')) \<and>
     (\<forall>l w. held (xSemaphoreGive R l w) = (held w)(l := False) \<and> hal_same w (xSemaphoreGive R l w)) \<and>
     (\<forall>w. held (snd (xSemaphoreCreateMutex R w)) = held w \<and> hal_same w (snd (xSemaphoreCreateMutex R w))) \<and>
     (\<forall>w l. fst (xSemaphoreCreateMutex R w) = Some l \<longrightarrow> \<not> held w l) \<and>
     (\<forall>n w. held (snd (heap_alloc R n w)) = held w \<and> hal_same w (snd (heap_alloc R n w))) \<and>
     (\<forall>l w. hal_same w (vSemaphoreDelete R l w)) \<and>
     (\<forall>w f. held (w\<lparr>hals := f\<rparr>) = held w) \<and> (\<forall>w f. held (w\<lparr>func_handle := f\<rparr>) = held w) \<and> (\<forall>w c. held (w\<lparr>codec := c\<rparr>) = held w)"

lemma mutexesD:
  assumes "mutexes R held"
  shows "\<not> held w l \<Longrightarrow> \<exists>w'. xSemaphoreTake R l portMAX_DELAY w = (True, w') \<and> held w' = (held w)(l := True) \<and> hal_same w w'"
    and "held (xSemaphoreGive R l w) = (held w)(l := False) \<and> hal_same w (xSemaphoreGive R l w)"
    and "held (snd (xSemaphoreCreateMutex R w)) = held w \<and> hal_same w (snd (xSemaphoreCreateMutex R w))"
    and "fst (xSemaphoreCreateMutex R w) = Some l \<Longrightarrow> \<not> held w l"
    and "held (snd (heap_alloc R n w)) = held w \<and> hal_same w (snd (heap_alloc R n w))"
    and "held (w\<lparr>hals := f\<rparr>) = held w" and "held (w\<lparr>func_handle := g\<rparr>) = held w" and "held (w\<lparr>codec := c\<rparr>) = held w"
    and "hal_same w (vSemaphoreDelete R l w)"
  using assms unfolding mutexes_def by blast+

lemma mutex_lock_taken:
  assumes "mutexes R held" and "\<not> held w l"
  obtains w' where "mutex_lock R l w = Some w'" "held w' = (held w)(l := True)" "hal_same w w'"
proof -
  obtain w' where w': "xSemaphoreTake R l portMAX_DELAY w = (True, w')" "held w' = (held w)(l := True)" "hal_same w w'"
    using mutexesD(1) [OF assms] by blast
  then have "mutex_lock R l w = Some w'" by (subst mutex_lock.simps) simp
  with w' that show ?thesis by blast
qed

end
