(* ===== verification/Audio_Hal_Correct.thy ===== *)
theory Audio_Hal_Correct
  imports Audio_Hal
begin

text \<open>
  Correctness of the audio HAL: the calls through a handle reach the driver and give the lock back on every path but one; volumes
  read back through the drivers of the two codecs whose volume can be read; and the path of a failed initialisation.
\<close>

section \<open>Calls through a handle\<close>

lemma hal_locked_call:
  assumes "mutexes R held" and "hals w h = Some a" "audio_hal_lock a = Some l" "\<not> held w l"
  shows "hal_locked T R h call w = None \<longleftrightarrow> call (T (ah_func a)) (codec w) = None"
    and "call (T (ah_func a)) (codec w) = Some (r, c) \<Longrightarrow> \<exists>w'. hal_locked T R h call w = Some (r, w') \<and> codec w' = c \<and>
      hals w' = hals w \<and> func_handle w' = func_handle w \<and> held w' = held w"
proof -
  obtain w1 where w1: "mutex_lock R l w = Some w1" "held w1 = (held w)(l := True)" "hal_same w w1"
    using mutex_lock_taken [OF assms(1,4)] by blast
  note give = mutexesD(2) [OF assms(1)] and frame = mutexesD(6-8) [OF assms(1)]
  have same: "codec w1 = codec w" "hals w1 = hals w" "func_handle w1 = func_handle w"
    using w1(3) by (simp_all add: hal_same_def)
  have step: "hal_locked T R h call w =
      map_option (\<lambda>(r, c). (r, xSemaphoreGive R l (w1\<lparr>codec := c\<rparr>))) (call (T (ah_func a)) (codec w))"
    by (cases "call (T (ah_func a)) (codec w)") (auto simp: hal_locked_def assms(2,3) w1(1) codec_call_def same)
  then show "hal_locked T R h call w = None \<longleftrightarrow> call (T (ah_func a)) (codec w) = None" by simp
  show "\<exists>w'. hal_locked T R h call w = Some (r, w') \<and> codec w' = c \<and> hals w' = hals w \<and> func_handle w' = func_handle w \<and>
      held w' = held w" if "call (T (ah_func a)) (codec w) = Some (r, c)"
  proof (intro exI conjI)
    let ?w = "xSemaphoreGive R l (w1\<lparr>codec := c\<rparr>)"
    have "hal_same (w1\<lparr>codec := c\<rparr>) ?w" "held ?w = (held (w1\<lparr>codec := c\<rparr>))(l := False)" using give by blast+
    then show "codec ?w = c" "hals ?w = hals w" "func_handle ?w = func_handle w" "held ?w = held w"
      using assms(4) by (auto simp: hal_same_def same frame w1(2) fun_eq_iff)
    show "hal_locked T R h call w = Some (r, ?w)" using that by (simp add: step)
  qed
qed

section \<open>Drivers whose volume can be read\<close>

text \<open>What the HAL's clients rely on: setting a volume succeeds, and it then reads as \<open>level\<close> of it, within \<open>tol\<close>.\<close>

locale codec_driver =
  fixes D :: "'c codec_ops" and chip :: bool and level :: "int \<Rightarrow> int" and tol :: int
  assumes set_get: "chip \<Longrightarrow> \<exists>c'. audio_codec_set_volume D v c = Some (ESP_OK, c') \<and>
      (\<exists>c''. audio_codec_get_volume D c' = Some ((ESP_OK, level v), c''))"
    and near: "0 \<le> v \<Longrightarrow> v \<le> 100 \<Longrightarrow> \<bar>level v - v\<bar> \<le> tol"
begin

lemma hal_set_get:
  assumes "mutexes R held" and "hals w h = Some a" "T (ah_func a) = D" "audio_hal_lock a = Some l" "\<not> held w l" and chip
    and "0 \<le> v" "v \<le> 100"
  shows "\<exists>w1 w2 g. audio_hal_set_volume T R (Some h) v w = Some (ESP_OK, w1) \<and>
    audio_hal_get_volume T R (Some h) (Some x) w1 = Some ((ESP_OK, Some g), w2) \<and> \<bar>g - v\<bar> \<le> tol \<and>
    hals w2 = hals w \<and> held w2 = held w"
proof -
  obtain c1 c2 where c: "audio_codec_set_volume D v (codec w) = Some (0, c1)" "audio_codec_get_volume D c1 = Some ((0, level v), c2)"
    using set_get [OF assms(6)] by blast
  obtain w1 where w1: "hal_locked T R h (\<lambda>D. audio_codec_set_volume D v) w = Some (0, w1)" "codec w1 = c1" "hals w1 = hals w"
    "held w1 = held w"
    using hal_locked_call(2) [OF assms(1,2,4,5), of "\<lambda>D. audio_codec_set_volume D v" T 0 c1] c(1) assms(3) by auto
  have "hals w1 h = Some a" "\<not> held w1 l" using w1 assms(2,5) by simp_all
  from hal_locked_call(2) [OF assms(1) this(1) assms(4) this(2), of audio_codec_get_volume T "(0, level v)" c2]
  obtain w2 where w2: "hal_locked T R h audio_codec_get_volume w1 = Some ((0, level v), w2)" "hals w2 = hals w" "held w2 = held w"
    using c(2) assms(3) w1 by auto
  show ?thesis
    by (rule exI [of _ w1], rule exI [of _ w2], rule exI [of _ "level v"])
      (simp add: audio_hal_set_volume_def audio_hal_get_volume_def w1 w2 near assms)
qed

end

interpretation es8388: codec_driver "es8388_ops I" "codec_chip I ES8388_ADDR getr setr getp setp" es8388_level 2
  for I getr setr getp setp
proof (unfold_locales, goal_cases)
  case (1 v c)
  then show ?case
    using es8388_volume_read [OF 1, of v c] es8388_set_voice_volume_chip(1) [OF 1, of v c]
    by (auto simp: es8388_ops_def prod_eq_iff intro!: exI)
next
  case (2 v)
  then show ?case using es8388_level_near [of v] by simp
qed

interpretation es8374: codec_driver "es8374_ops I sv ci junk" "codec_chip I ES8374_ADDR getr setr getp setp" es8374_level 4
  for I sv ci junk getr setr getp setp
proof (unfold_locales, goal_cases)
  case (1 v c)
  then show ?case
    using es8374_volume_read(1,2) [OF 1, of v "snd c"]
    by (auto simp: es8374_ops_def with_flag_def case_prod_beta prod_eq_iff intro!: exI)
next
  case (2 v)
  then show ?case by (simp add: es8374_level_def)
qed

text \<open>Through the HAL, on a codec that answers and with the lock free, a volume that is set reads back within 2 on the
  ES8388 and within 4 on the ES8374, the calls leave no lock taken, and the handle stays as it was.
\<close>

theorem hal_volume_reads_back:
  assumes "mutexes R held" "hals w h = Some a" "audio_hal_lock a = Some l" "\<not> held w l"
    and "mutexes R' held'" "hals w' h' = Some a'" "audio_hal_lock a' = Some l'" "\<not> held' w' l'"
    and "T (ah_func a) = es8388_ops I" "codec_chip I ES8388_ADDR getr setr getp setp"
    and "T' (ah_func a') = es8374_ops J sv ci junk" "codec_chip J ES8374_ADDR getr' setr' getp' setp'" and "0 \<le> v" "v \<le> 100"
  shows "(\<exists>w1 w2 g. audio_hal_set_volume T R (Some h) v w = Some (ESP_OK, w1) \<and>
      audio_hal_get_volume T R (Some h) (Some x) w1 = Some ((ESP_OK, Some g), w2) \<and> \<bar>g - v\<bar> \<le> 2 \<and>
      hals w2 = hals w \<and> held w2 = held w) \<and>
    (\<exists>w1 w2 g. audio_hal_set_volume T' R' (Some h') v w' = Some (ESP_OK, w1) \<and>
      audio_hal_get_volume T' R' (Some h') (Some x) w1 = Some ((ESP_OK, Some g), w2) \<and> \<bar>g - v\<bar> \<le> 4 \<and>
      hals w2 = hals w' \<and> held' w2 = held' w')"
  by (intro conjI es8388.hal_set_get [where T = T and a = a, OF assms(1,2,9,3,4,10,13,14)]
      es8374.hal_set_get [where T = T' and a = a', OF assms(5,6,11,7,8,12,13,14)])

text \<open>A concrete platform: the state has the locks that are taken.\<close>

type_synonym 'c hal_demo = "('c, sem \<Rightarrow> bool) halw"

definition hal_platform :: "'c hal_demo platform" where
  "hal_platform = (seq_platform (Some 5))\<lparr>
     xSemaphoreCreateMutex := (\<lambda>w. (if hal_world.more w 9 then None else Some 9, w)),
     xSemaphoreTake := (\<lambda>l t w. if hal_world.more w l then (False, w) else (True, hal_world.more_update (\<lambda>f. f(l := True)) w)),
     xSemaphoreGive := (\<lambda>l w. hal_world.more_update (\<lambda>f. f(l := False)) w)\<rparr>"

lemma hal_platform_mutexes: "mutexes hal_platform hal_world.more"
  by (simp add: mutexes_def hal_platform_def hal_same_def)

definition hal_demo :: "'c \<Rightarrow> 'c hal_demo" where
  "hal_demo c = \<lparr>hals = [5 \<mapsto> \<lparr>ah_func = 1, audio_hal_lock = Some 9, ah_handle = Some 5\<rparr>], func_handle = [1 \<mapsto> 5], codec = c, \<dots> = (\<lambda>_. False)\<rparr>"

theorem hal_volume_reads_back_witness:
  "\<exists>w1 w2 g. audio_hal_set_volume (\<lambda>_. es8388_ops (demo_hw ES8388_ADDR)) hal_platform (Some 5) 64 (hal_demo (\<lambda>_. 0, 0)) = Some (ESP_OK, w1) \<and>
      audio_hal_get_volume (\<lambda>_. es8388_ops (demo_hw ES8388_ADDR)) hal_platform (Some 5) (Some 0) w1 = Some ((ESP_OK, Some g), w2) \<and>
      \<bar>g - 64\<bar> \<le> 2 \<and> hals w2 = hals (hal_demo (\<lambda>_. 0, 0) :: demo_chip hal_demo) \<and>
      hal_world.more w2 = hal_world.more (hal_demo (\<lambda>_. 0, 0) :: demo_chip hal_demo)"
  by (rule conjunct1 [OF hal_volume_reads_back [OF hal_platform_mutexes _ _ _ hal_platform_mutexes _ _ _ _ demo_chip_ok _ demo_chip_ok,
        where a = "\<lparr>ah_func = 1, audio_hal_lock = Some 9, ah_handle = Some 5\<rparr>" and l = 9
          and a' = "\<lparr>ah_func = 1, audio_hal_lock = Some 9, ah_handle = Some 5\<rparr>" and l' = 9 and h' = 5
          and w' = "hal_demo (False, \<lambda>_. 0, 0)" and T' = "\<lambda>_. es8374_ops (demo_hw ES8374_ADDR) (\<lambda>v c. (0, c)) (\<lambda>m i c. (0, c)) 0"
          and sv = "\<lambda>v c. (0, c)" and ci = "\<lambda>m i c. (0, c)" and junk = 0]])
    (simp_all add: hal_demo_def)

section \<open>Initialisation\<close>

lemma audio_hal_init_steps:
  assumes "mutexes R held" and "heap_alloc R 32 w = (Some h, w0)"
    and "xSemaphoreCreateMutex R (w0\<lparr>hals := (hals w0)(h \<mapsto> \<lparr>ah_func = f, audio_hal_lock = None, ah_handle = func_handle w0 f\<rparr>)\<rparr>) = (Some l, w1)"
  obtains w2 where "mutex_lock R l (w1\<lparr>hals := (hals w1)(h \<mapsto> \<lparr>ah_func = f, audio_hal_lock = Some l, ah_handle = func_handle w f\<rparr>)\<rparr>) = Some w2"
    and "hals w2 = (hals w)(h \<mapsto> \<lparr>ah_func = f, audio_hal_lock = Some l, ah_handle = func_handle w f\<rparr>)"
    and "func_handle w2 = func_handle w" "codec w2 = codec w" "held w2 = (held w)(l := True)" "\<not> held w l"
    and "hals w1 h = Some \<lparr>ah_func = f, audio_hal_lock = None, ah_handle = func_handle w f\<rparr>"
proof -
  note D = mutexesD [OF assms(1)]
  let ?w0 = "w0\<lparr>hals := (hals w0)(h \<mapsto> \<lparr>ah_func = f, audio_hal_lock = None, ah_handle = func_handle w0 f\<rparr>)\<rparr>"
  have 0: "held w0 = held w" "hal_same w w0" using D(5) [of 32 w] assms(2) by simp_all
  have 1: "held w1 = held w0" "hal_same ?w0 w1" using D(3) [of ?w0] assms(3) by (simp_all add: D(6))
  have l: "\<not> held w l" using D(4) [of ?w0 l] assms(3) by (simp add: D(6) 0)
  let ?w1 = "w1\<lparr>hals := (hals w1)(h \<mapsto> \<lparr>ah_func = f, audio_hal_lock = Some l, ah_handle = func_handle w f\<rparr>)\<rparr>"
  have "\<not> held ?w1 l" using l by (simp add: D(6) 0 1)
  then obtain w2 where w2: "mutex_lock R l ?w1 = Some w2" "held w2 = (held ?w1)(l := True)" "hal_same ?w1 w2"
    using mutex_lock_taken [OF assms(1)] by blast
  show ?thesis
    using w2 0 1 l by (intro that [of w2]) (simp_all add: hal_same_def D(6))
qed

text \<open>When memory and a lock are available and the driver's initialisation succeeds, \<open>audio_hal_init\<close> gives a handle with the
  driver's functions and a free lock, which the table remembers, after configuring the interface and setting the
  volume to 70; it does so whatever these two calls report.
\<close>

theorem hal_init_ready:
  assumes "mutexes R held" and "heap_alloc R 32 w = (Some h, w0)"
    and "xSemaphoreCreateMutex R (w0\<lparr>hals := (hals w0)(h \<mapsto> \<lparr>ah_func = f, audio_hal_lock = None, ah_handle = func_handle w0 f\<rparr>)\<rparr>) = (Some l, w1)"
    and "audio_codec_initialize (T f) conf (codec w) = Some (r1, c1)" "r1 \<noteq> ESP_FAIL"
    and "audio_codec_config_iface (T f) (cc_codec_mode conf) (cc_i2s_iface conf) c1 = Some (r2, c2)"
    and "audio_codec_set_volume (T f) 70 c2 = Some (r3, c3)"
  shows "\<exists>w'. audio_hal_init T R conf f w = Some (Some h, w') \<and>
    hals w' = (hals w)(h \<mapsto> \<lparr>ah_func = f, audio_hal_lock = Some l, ah_handle = Some h\<rparr>) \<and>
    func_handle w' = (func_handle w)(f \<mapsto> h) \<and> codec w' = c3 \<and> held w' = held w \<and> \<not> held w' l"
proof -
  obtain w2 where w2: "mutex_lock R l (w1\<lparr>hals := (hals w1)(h \<mapsto> \<lparr>ah_func = f, audio_hal_lock = Some l, ah_handle = func_handle w f\<rparr>)\<rparr>) = Some w2"
    "hals w2 = (hals w)(h \<mapsto> \<lparr>ah_func = f, audio_hal_lock = Some l, ah_handle = func_handle w f\<rparr>)"
    "func_handle w2 = func_handle w" "codec w2 = codec w" "held w2 = (held w)(l := True)" "\<not> held w l"
    "hals w1 h = Some \<lparr>ah_func = f, audio_hal_lock = None, ah_handle = func_handle w f\<rparr>"
    using audio_hal_init_steps [OF assms(1-3)] by blast
  define w3 where "w3 = w2\<lparr>codec := c3, hals := (hals w2)(h \<mapsto> \<lparr>ah_func = f, audio_hal_lock = Some l, ah_handle = Some h\<rparr>),
      func_handle := (func_handle w2)(f \<mapsto> h)\<rparr>"
  have "audio_hal_init T R conf f w = Some (Some h, xSemaphoreGive R l w3)"
    using assms(4-7) w2 by (simp add: audio_hal_init_def assms(2,3) ah_upd_def codec_call_def w3_def)
  moreover have "hals w3 = (hals w)(h \<mapsto> \<lparr>ah_func = f, audio_hal_lock = Some l, ah_handle = Some h\<rparr>)"
    "func_handle w3 = (func_handle w)(f \<mapsto> h)" "codec w3 = c3" by (simp_all add: w3_def w2)
  moreover have "hal_same w3 (xSemaphoreGive R l w3)" using mutexesD(2) [OF assms(1)] by blast
  moreover have "held (xSemaphoreGive R l w3) = held w"
  proof -
    have "held w3 = (held w)(l := True)" by (simp add: w3_def mutexesD(6-8) [OF assms(1)] w2)
    then show ?thesis using mutexesD(2) [OF assms(1), of l w3] w2(6) by (simp add: fun_eq_iff)
  qed
  ultimately show ?thesis using w2(6) by (intro exI [of _ "xSemaphoreGive R l w3"]) (simp add: hal_same_def)
qed

lemma hal_demo_init:
  "heap_alloc hal_platform 32 (w :: 'c hal_demo) = (Some 5, w)"
  "\<not> hal_world.more w 9 \<Longrightarrow> xSemaphoreCreateMutex hal_platform w = (Some 9, w)"
  by (simp_all add: hal_platform_def)

definition demo_conf :: audio_hal_codec_config where
  "demo_conf = \<lparr>cc_adc_input = 0, cc_dac_output = 1, cc_codec_mode = 3,
     cc_i2s_iface = \<lparr>if_mode = 0, if_fmt = 0, if_samples = 6, if_bits = 1\<rparr>\<rparr>"

text \<open>A driver that does nothing and gives a fixed result.\<close>

definition stub_ops :: "int \<Rightarrow> unit codec_ops" where
  "stub_ops r = \<lparr>audio_codec_initialize = (\<lambda>_ c. Some (r, c)), audio_codec_deinitialize = (\<lambda>c. Some (r, c)),
     audio_codec_ctrl = (\<lambda>_ _ c. Some (r, c)), audio_codec_config_iface = (\<lambda>_ _ c. Some (r, c)),
     audio_codec_set_volume = (\<lambda>_ c. Some (r, c)), audio_codec_get_volume = (\<lambda>c. Some ((r, 0), c))\<rparr>"

definition hal_empty :: "unit hal_demo" where
  "hal_empty = \<lparr>hals = Map.empty, func_handle = Map.empty, codec = (), \<dots> = (\<lambda>_. False)\<rparr>"

theorem hal_init_ready_witness:
  "\<exists>w'. audio_hal_init (\<lambda>_. stub_ops 0) hal_platform demo_conf 1 hal_empty = Some (Some 5, w') \<and>
    hals w' = (hals hal_empty)(5 \<mapsto> \<lparr>ah_func = 1, audio_hal_lock = Some 9, ah_handle = Some 5\<rparr>) \<and>
    func_handle w' = (func_handle hal_empty)(1 \<mapsto> 5) \<and> codec w' = () \<and> hal_world.more w' = hal_world.more hal_empty \<and>
    \<not> hal_world.more w' 9"
  by (rule hal_init_ready [OF hal_platform_mutexes hal_demo_init(1) hal_demo_init(2), where ?r1.0 = 0 and ?r2.0 = 0 and ?r3.0 = 0
        and ?c1.0 = "()" and ?c2.0 = "()"])
    (simp_all add: hal_empty_def stub_ops_def)

text \<open>When the driver's initialisation fails, \<open>audio_hal_init\<close> frees the new handle but leaves its lock taken, with no
  reference to it, and returns the handle the table remembers. After \<open>audio_hal_deinit\<close> of that handle
  this is a handle to freed memory: a call through it has no defined result.
\<close>

theorem hal_init_failure:
  assumes "mutexes R held" and "heap_alloc R 32 w = (Some h, w0)"
    and "xSemaphoreCreateMutex R (w0\<lparr>hals := (hals w0)(h \<mapsto> \<lparr>ah_func = f, audio_hal_lock = None, ah_handle = func_handle w0 f\<rparr>)\<rparr>) = (Some l, w1)"
    and "audio_codec_initialize (T f) conf (codec w) = Some (ESP_FAIL, c1)"
    and "audio_hal_deinit T R (Some h0) v = Some (r, w)" "func_handle v f = Some h0"
  shows "\<exists>w'. audio_hal_init T R conf f w = Some (Some h0, w') \<and> held w' = (held w)(l := True) \<and> \<not> held w l \<and>
    hals w' = (hals w)(h := None) \<and> hals w' h0 = None \<and> audio_hal_set_volume T R (Some h0) vol w' = None"
proof -
  obtain w2 where w2: "mutex_lock R l (w1\<lparr>hals := (hals w1)(h \<mapsto> \<lparr>ah_func = f, audio_hal_lock = Some l, ah_handle = func_handle w f\<rparr>)\<rparr>) = Some w2"
    "hals w2 = (hals w)(h \<mapsto> \<lparr>ah_func = f, audio_hal_lock = Some l, ah_handle = func_handle w f\<rparr>)"
    "func_handle w2 = func_handle w" "codec w2 = codec w" "held w2 = (held w)(l := True)" "\<not> held w l"
    "hals w1 h = Some \<lparr>ah_func = f, audio_hal_lock = None, ah_handle = func_handle w f\<rparr>"
    using audio_hal_init_steps [OF assms(1-3)] by blast
  have del: "hals w h0 = None" "func_handle w f = Some h0"
    using assms(5,6) mutexesD(9) [OF assms(1)]
    by (auto simp: audio_hal_deinit_def codec_call_def ah_upd_def ah_free_def hal_same_def split: bind_splits option.splits)
  let ?w = "w2\<lparr>codec := c1, hals := (hals w2)(h := None)\<rparr>"
  have "audio_hal_init T R conf f w = Some (Some h0, ?w)"
    using assms(4) w2 del by (simp add: audio_hal_init_def assms(2,3) ah_upd_def ah_free_def codec_call_def)
  moreover have "held ?w = (held w)(l := True)" by (simp add: mutexesD(6-8) [OF assms(1)] w2)
  ultimately show ?thesis
    using w2(6) del by (intro exI) (auto simp: w2 audio_hal_set_volume_def hal_locked_def)
qed

theorem hal_init_failure_witness:
  "\<exists>w'. audio_hal_init (\<lambda>_. stub_ops (-1)) hal_platform demo_conf 1 ((hal_demo ())\<lparr>hals := Map.empty\<rparr>) = Some (Some 5, w') \<and>
    hal_world.more w' = (hal_world.more ((hal_demo () :: unit hal_demo)\<lparr>hals := Map.empty\<rparr>))(9 := True) \<and>
    \<not> hal_world.more ((hal_demo () :: unit hal_demo)\<lparr>hals := Map.empty\<rparr>) 9 \<and>
    hals w' = (hals ((hal_demo () :: unit hal_demo)\<lparr>hals := Map.empty\<rparr>))(5 := None) \<and> hals w' 5 = None \<and>
    audio_hal_set_volume (\<lambda>_. stub_ops (-1)) hal_platform (Some 5) 0 w' = None"
  by (rule hal_init_failure [OF hal_platform_mutexes hal_demo_init(1) hal_demo_init(2), where v = "hal_demo ()" and r = "-1" and ?c1.0 = "()"])
    (simp_all add: hal_demo_def stub_ops_def audio_hal_deinit_def codec_call_def ah_upd_def ah_free_def hal_platform_def)

end
