(* ===== verification/Transport.thy ===== *)
theory Transport
  imports Platform
begin

text \<open>
  The transport layer (\<open>components/tcp_transport/transport.c\<close>): lists of transports found by scheme, and the calls that
  dispatch to the functions of a transport. A transport refers to its functions by the address of a table; what the
  tables hold, the sockets and TLS underneath, is the parameter \<open>F\<close>. A read gets the buffer with its contents
  and gives the buffer it leaves.
\<close>

record ('b, 'w) transport_funcs =
  tf_connect :: "(addr \<Rightarrow> string \<Rightarrow> int \<Rightarrow> int \<Rightarrow> 'w \<Rightarrow> (int \<times> 'w) option) option"
  tf_read :: "(addr \<Rightarrow> 'b list \<Rightarrow> int \<Rightarrow> 'w \<Rightarrow> ((int \<times> 'b list) \<times> 'w) option) option"
  tf_write :: "(addr \<Rightarrow> 'b list \<Rightarrow> int \<Rightarrow> 'w \<Rightarrow> (int \<times> 'w) option) option"
  tf_close :: "(addr \<Rightarrow> 'w \<Rightarrow> (int \<times> 'w) option) option"
  tf_poll_read :: "(addr \<Rightarrow> int \<Rightarrow> 'w \<Rightarrow> (int \<times> 'w) option) option"
  tf_poll_write :: "(addr \<Rightarrow> int \<Rightarrow> 'w \<Rightarrow> (int \<times> 'w) option) option"
  tf_destroy :: "(addr \<Rightarrow> 'w \<Rightarrow> (int \<times> 'w) option) option"
  tf_connect_async :: "(addr \<Rightarrow> string \<Rightarrow> int \<Rightarrow> int \<Rightarrow> 'w \<Rightarrow> (int \<times> 'w) option) option"
  tf_parent :: "(addr \<Rightarrow> 'w \<Rightarrow> addr option option) option"

text \<open>\<open>struct esp_transport_item_t\<close>: the tables of its functions, of the asynchronous connect and of the parent transfer.\<close>

record transport_item =
  tp_port :: int
  tp_scheme :: "string option"
  tp_data :: "addr option"
  tp_funcs :: "addr option"
  tp_async :: "addr option"
  tp_parent :: "addr option"

record tp_world =
  tps :: "addr \<Rightarrow> transport_item option"
  tlists :: "addr \<Rightarrow> addr list option"

type_synonym 'z tpw = "'z tp_world_scheme"
type_synonym ('b, 'z) tfs = "addr \<Rightarrow> ('b, 'z tpw) transport_funcs"

definition tp_upd :: "addr \<Rightarrow> (transport_item \<Rightarrow> transport_item) \<Rightarrow> 'z tpw \<Rightarrow> 'z tpw option" where
  "tp_upd h f w = (case tps w h of None \<Rightarrow> None | Some t \<Rightarrow> Some (w\<lparr>tps := (tps w)(h \<mapsto> f t)\<rparr>))"

interpretation tp_store: object_store tps tp_upd
  by unfold_locales (auto simp: tp_upd_def split: option.splits)

section \<open>Items\<close>

definition esp_transport_init :: "'z tpw platform \<Rightarrow> 'z tpw \<Rightarrow> addr option \<times> 'z tpw" where
  "esp_transport_init R w =
     (case heap_alloc R 60 w of (None, w) \<Rightarrow> (None, w)
      | (Some t, w) \<Rightarrow> (Some t, w\<lparr>tps := (tps w)(t \<mapsto> \<lparr>tp_port = 0, tp_scheme = None, tp_data = None, tp_funcs = None, tp_async = None,
          tp_parent = None\<rparr>)\<rparr>))"

definition esp_transport_destroy :: "addr \<Rightarrow> 'z tpw \<Rightarrow> (esp_err \<times> 'z tpw) option" where
  "esp_transport_destroy t w = do { _ \<leftarrow> tps w t; Some (ESP_OK, w\<lparr>tps := (tps w)(t := None)\<rparr>) }"

text \<open>A function of a transport, \<open>None\<close> when it is not set.\<close>

definition tp_func :: "('b, 'z) tfs \<Rightarrow> (('b, 'z tpw) transport_funcs \<Rightarrow> 'f option) \<Rightarrow> addr \<Rightarrow> 'z tpw \<Rightarrow> 'f option option" where
  "tp_func F sel t w = do { i \<leftarrow> tps w t; Some (case tp_funcs i of None \<Rightarrow> None | Some a \<Rightarrow> sel (F a)) }"

definition esp_transport_connect ::
  "('b, 'z) tfs \<Rightarrow> addr option \<Rightarrow> string \<Rightarrow> int \<Rightarrow> int \<Rightarrow> 'z tpw \<Rightarrow> (int \<times> 'z tpw) option" where
  "esp_transport_connect F t host port timeout_ms w =
     (case t of None \<Rightarrow> Some (-1, w)
      | Some t \<Rightarrow> do { f \<leftarrow> tp_func F tf_connect t w;
          case f of None \<Rightarrow> Some (-1, w) | Some f \<Rightarrow> f t host port timeout_ms w })"

definition esp_transport_connect_async ::
  "('b, 'z) tfs \<Rightarrow> addr option \<Rightarrow> string \<Rightarrow> int \<Rightarrow> int \<Rightarrow> 'z tpw \<Rightarrow> (int \<times> 'z tpw) option" where
  "esp_transport_connect_async F t host port timeout_ms w =
     (case t of None \<Rightarrow> Some (-1, w)
      | Some t \<Rightarrow> do { i \<leftarrow> tps w t;
          case (case tp_async i of None \<Rightarrow> None | Some a \<Rightarrow> tf_connect_async (F a)) of
            None \<Rightarrow> Some (-1, w) | Some f \<Rightarrow> f t host port timeout_ms w })"

definition esp_transport_read ::
  "('b, 'z) tfs \<Rightarrow> addr option \<Rightarrow> 'b list \<Rightarrow> int \<Rightarrow> 'z tpw \<Rightarrow> ((int \<times> 'b list) \<times> 'z tpw) option" where
  "esp_transport_read F t buffer timeout_ms w =
     (case t of None \<Rightarrow> Some ((-1, buffer), w)
      | Some t \<Rightarrow> do { f \<leftarrow> tp_func F tf_read t w;
          case f of None \<Rightarrow> Some ((-1, buffer), w) | Some f \<Rightarrow> f t buffer timeout_ms w })"

definition esp_transport_write ::
  "('b, 'z) tfs \<Rightarrow> addr option \<Rightarrow> 'b list \<Rightarrow> int \<Rightarrow> 'z tpw \<Rightarrow> (int \<times> 'z tpw) option" where
  "esp_transport_write F t buffer timeout_ms w =
     (case t of None \<Rightarrow> Some (-1, w)
      | Some t \<Rightarrow> do { f \<leftarrow> tp_func F tf_write t w;
          case f of None \<Rightarrow> Some (-1, w) | Some f \<Rightarrow> f t buffer timeout_ms w })"

definition esp_transport_poll_read :: "('b, 'z) tfs \<Rightarrow> addr option \<Rightarrow> int \<Rightarrow> 'z tpw \<Rightarrow> (int \<times> 'z tpw) option" where
  "esp_transport_poll_read F t timeout_ms w =
     (case t of None \<Rightarrow> Some (-1, w)
      | Some t \<Rightarrow> do { f \<leftarrow> tp_func F tf_poll_read t w; case f of None \<Rightarrow> Some (-1, w) | Some f \<Rightarrow> f t timeout_ms w })"

definition esp_transport_poll_write :: "('b, 'z) tfs \<Rightarrow> addr option \<Rightarrow> int \<Rightarrow> 'z tpw \<Rightarrow> (int \<times> 'z tpw) option" where
  "esp_transport_poll_write F t timeout_ms w =
     (case t of None \<Rightarrow> Some (-1, w)
      | Some t \<Rightarrow> do { f \<leftarrow> tp_func F tf_poll_write t w; case f of None \<Rightarrow> Some (-1, w) | Some f \<Rightarrow> f t timeout_ms w })"

definition esp_transport_close :: "('b, 'z) tfs \<Rightarrow> addr option \<Rightarrow> 'z tpw \<Rightarrow> (int \<times> 'z tpw) option" where
  "esp_transport_close F t w =
     (case t of None \<Rightarrow> Some (0, w)
      | Some t \<Rightarrow> do { f \<leftarrow> tp_func F tf_close t w; case f of None \<Rightarrow> Some (0, w) | Some f \<Rightarrow> f t w })"

text \<open>The transport under the payload: its own by default.\<close>

definition esp_transport_get_payload_transport_handle :: "('b, 'z) tfs \<Rightarrow> addr option \<Rightarrow> 'z tpw \<Rightarrow> addr option option" where
  "esp_transport_get_payload_transport_handle F t w =
     (case t of None \<Rightarrow> Some None
      | Some t \<Rightarrow> do {
          i \<leftarrow> tps w t;
          f \<leftarrow> tp_func F tf_read t w;
          case f of None \<Rightarrow> Some None
          | Some _ \<Rightarrow> (case tp_parent i of None \<Rightarrow> Some (Some t)
              | Some a \<Rightarrow> (case tf_parent (F a) of None \<Rightarrow> None | Some g \<Rightarrow> g t w)) })"

definition esp_transport_get_context_data :: "addr option \<Rightarrow> 'z tpw \<Rightarrow> addr option option" where
  "esp_transport_get_context_data t w =
     (case t of None \<Rightarrow> Some None | Some t \<Rightarrow> do { i \<leftarrow> tps w t; Some (tp_data i) })"

definition tp_set :: "addr option \<Rightarrow> (transport_item \<Rightarrow> transport_item) \<Rightarrow> 'z tpw \<Rightarrow> (esp_err \<times> 'z tpw) option" where
  "tp_set t f w = (case t of None \<Rightarrow> Some (ESP_FAIL, w) | Some t \<Rightarrow> do { w \<leftarrow> tp_upd t f w; Some (ESP_OK, w) })"

definition esp_transport_set_context_data :: "addr option \<Rightarrow> addr option \<Rightarrow> 'z tpw \<Rightarrow> (esp_err \<times> 'z tpw) option" where
  "esp_transport_set_context_data t data = tp_set t (\<lambda>i. i\<lparr>tp_data := data\<rparr>)"

definition esp_transport_set_func :: "addr option \<Rightarrow> addr \<Rightarrow> 'z tpw \<Rightarrow> (esp_err \<times> 'z tpw) option" where
  "esp_transport_set_func t funcs = tp_set t (\<lambda>i. i\<lparr>tp_funcs := Some funcs, tp_async := None, tp_parent := None\<rparr>)"

definition esp_transport_get_default_port :: "addr option \<Rightarrow> 'z tpw \<Rightarrow> int option" where
  "esp_transport_get_default_port t w = (case t of None \<Rightarrow> Some (-1) | Some t \<Rightarrow> map_option tp_port (tps w t))"

definition esp_transport_set_default_port :: "addr option \<Rightarrow> int \<Rightarrow> 'z tpw \<Rightarrow> (esp_err \<times> 'z tpw) option" where
  "esp_transport_set_default_port t port = tp_set t (\<lambda>i. i\<lparr>tp_port := port\<rparr>)"

definition esp_transport_set_async_connect_func :: "addr option \<Rightarrow> addr \<Rightarrow> 'z tpw \<Rightarrow> (esp_err \<times> 'z tpw) option" where
  "esp_transport_set_async_connect_func t f = tp_set t (\<lambda>i. i\<lparr>tp_async := Some f\<rparr>)"

definition esp_transport_set_parent_transport_func :: "addr option \<Rightarrow> addr \<Rightarrow> 'z tpw \<Rightarrow> (esp_err \<times> 'z tpw) option" where
  "esp_transport_set_parent_transport_func t f = tp_set t (\<lambda>i. i\<lparr>tp_parent := Some f\<rparr>)"

section \<open>Lists\<close>

definition esp_transport_list_init :: "'z tpw platform \<Rightarrow> 'z tpw \<Rightarrow> addr option \<times> 'z tpw" where
  "esp_transport_list_init R w =
     (case heap_alloc R 8 w of (None, w) \<Rightarrow> (None, w) | (Some l, w) \<Rightarrow> (Some l, w\<lparr>tlists := (tlists w)(l \<mapsto> [])\<rparr>))"

definition esp_transport_list_add ::
  "'z tpw platform \<Rightarrow> addr option \<Rightarrow> addr option \<Rightarrow> string \<Rightarrow> 'z tpw \<Rightarrow> (esp_err \<times> 'z tpw) option" where
  "esp_transport_list_add R l t scheme w =
     (case (l, t) of
        (Some l, Some t) \<Rightarrow>
          (case heap_alloc R (length scheme + 1) w of
             (None, w) \<Rightarrow> do { w \<leftarrow> tp_upd t (\<lambda>i. i\<lparr>tp_scheme := None\<rparr>) w; Some (ESP_ERR_NO_MEM, w) }
           | (Some _, w) \<Rightarrow> do {
               w \<leftarrow> tp_upd t (\<lambda>i. i\<lparr>tp_scheme := Some scheme\<rparr>) w;
               ts \<leftarrow> tlists w l;
               Some (ESP_OK, w\<lparr>tlists := (tlists w)(l \<mapsto> ts @ [t])\<rparr>) })
      | _ \<Rightarrow> Some (ESP_ERR_INVALID_ARG, w))"

fun find_transport :: "addr list \<Rightarrow> string \<Rightarrow> 'z tpw \<Rightarrow> addr option option" where
  "find_transport [] scheme w = Some None"
| "find_transport (t # ts) scheme w = do {
     i \<leftarrow> tps w t;
     s \<leftarrow> tp_scheme i;
     if strcaseeq s scheme then Some (Some t) else find_transport ts scheme w }"

definition esp_transport_list_get_transport :: "addr option \<Rightarrow> string option \<Rightarrow> 'z tpw \<Rightarrow> addr option option" where
  "esp_transport_list_get_transport l scheme w =
     (case l of None \<Rightarrow> Some None
      | Some l \<Rightarrow> do {
          ts \<leftarrow> tlists w l;
          case scheme of None \<Rightarrow> Some (case ts of [] \<Rightarrow> None | t # _ \<Rightarrow> Some t)
          | Some s \<Rightarrow> find_transport ts s w })"

fun clean_transports :: "('b, 'z) tfs \<Rightarrow> addr list \<Rightarrow> 'z tpw \<Rightarrow> 'z tpw option" where
  "clean_transports F [] w = Some w"
| "clean_transports F (t # ts) w = do {
     f \<leftarrow> tp_func F tf_destroy t w;
     w \<leftarrow> (case f of None \<Rightarrow> Some w | Some f \<Rightarrow> map_option snd (f t w));
     (_, w) \<leftarrow> esp_transport_destroy t w;
     clean_transports F ts w }"

definition esp_transport_list_clean :: "('b, 'z) tfs \<Rightarrow> addr \<Rightarrow> 'z tpw \<Rightarrow> (esp_err \<times> 'z tpw) option" where
  "esp_transport_list_clean F l w = do {
     ts \<leftarrow> tlists w l;
     w \<leftarrow> clean_transports F ts w;
     Some (ESP_OK, w\<lparr>tlists := (tlists w)(l \<mapsto> [])\<rparr>) }"

definition esp_transport_list_destroy :: "('b, 'z) tfs \<Rightarrow> addr \<Rightarrow> 'z tpw \<Rightarrow> (esp_err \<times> 'z tpw) option" where
  "esp_transport_list_destroy F l w = do {
     (_, w) \<leftarrow> esp_transport_list_clean F l w;
     Some (ESP_OK, w\<lparr>tlists := (tlists w)(l := None)\<rparr>) }"

section \<open>Finding a transport\<close>

lemma find_transport_eq:
  assumes "\<forall>t \<in> set ts. \<exists>i s. tps w t = Some i \<and> tp_scheme i = Some s"
  shows "find_transport ts scheme w = Some (find (\<lambda>t. strcaseeq (the (tp_scheme (the (tps w t)))) scheme) ts)"
  using assms by (induction ts) auto

end
