(* ===== verification/Transport_Ws.thy ===== *)
theory Transport_Ws
  imports Transport Http_Header
begin

text \<open>
  The websocket transport (\<open>components/tcp_transport/transport_ws.c\<close>): the upgrade of a connection and the frames over a
  parent transport. \<open>char\<close> is unsigned on the target. The random numbers, SHA-1 and Base64 are the parameter \<open>ws_env\<close>.
\<close>

record transport_ws =
  ws_path :: string
  ws_buffer :: "u8 list"
  ws_parent :: "addr option"

record ws_world = tp_world +
  wss :: "addr \<Rightarrow> transport_ws option"

type_synonym 'z wsw = "'z ws_world_scheme"
type_synonym 'z wfs = "addr \<Rightarrow> (u8, 'z wsw) transport_funcs"

record 'w ws_env =
  we_random :: "'w \<Rightarrow> u32 \<times> 'w"
  we_sha1 :: "u8 list \<Rightarrow> u8 list"
  we_base64 :: "u8 list \<Rightarrow> string"

abbreviation (input) DEFAULT_WS_BUFFER :: nat where "DEFAULT_WS_BUFFER \<equiv> 1024"

definition str_bytes :: "string \<Rightarrow> u8 list" where "str_bytes s = map (\<lambda>c. of_nat (of_char c)) s"
definition bytes_str :: "u8 list \<Rightarrow> string" where "bytes_str bs = map (\<lambda>b. char_of (unat b)) bs"

text \<open>The text of a buffer up to its terminator; there must be one.\<close>

definition c_string :: "u8 list \<Rightarrow> string option" where
  "c_string b = (if 0 \<in> set b then Some (bytes_str (takeWhile (\<lambda>x. x \<noteq> 0) b)) else None)"

definition ws_of :: "addr \<Rightarrow> 'z wsw \<Rightarrow> (addr \<times> transport_ws) option" where
  "ws_of t w = do { d \<leftarrow> esp_transport_get_context_data (Some t) w; a \<leftarrow> d; s \<leftarrow> wss w a; Some (a, s) }"

text \<open>The bytes of a word in memory, lowest first, and \<open>getrandom\<close>.\<close>

definition word_bytes :: "u32 \<Rightarrow> u8 list" where
  "word_bytes x = [ucast x, ucast (drop_bit 8 x), ucast (drop_bit 16 x), ucast (drop_bit 24 x)]"

function getrandom :: "'w ws_env \<Rightarrow> nat \<Rightarrow> 'w \<Rightarrow> u8 list \<times> 'w" where
  "getrandom E len w =
     (if len = 0 then ([], w)
      else let (x, w) = we_random E w; (bs, w) = getrandom E (len - min 4 len) w in (take (min 4 len) (word_bytes x) @ bs, w))"
  by pat_completeness auto
termination by (relation "measure (\<lambda>(_, n, _). n)") auto

declare getrandom.simps [simp del]

definition get_http_header :: "string \<Rightarrow> string \<Rightarrow> string option" where
  "get_http_header buffer key =
     (case strstr buffer key of None \<Rightarrow> None
      | Some k \<Rightarrow>
          let found = drop (k + length key) buffer in
          (case strstr found [CHR 0x0D, CHR 0x0A] of None \<Rightarrow> None
           | Some m \<Rightarrow> Some (http_utils_trim_whitespace (take m found))))"

section \<open>The upgrade\<close>

definition ws_request :: "string \<Rightarrow> string \<Rightarrow> int \<Rightarrow> string \<Rightarrow> string" where
  "ws_request path host port client_key =
     (let crlf = [CHR 0x0D, CHR 0x0A] in
      ''GET '' @ path @ '' HTTP/1.1'' @ crlf @ ''Connection: Upgrade'' @ crlf @
      ''Host: '' @ host @ '':'' @ int_dec port @ crlf @ ''Upgrade: websocket'' @ crlf @ ''Sec-WebSocket-Version: 13'' @ crlf @
      ''Sec-WebSocket-Protocol: mqtt'' @ crlf @ ''Sec-WebSocket-Key: '' @ client_key @ crlf @
      ''User-Agent: ESP32 Websocket Client'' @ crlf @ crlf)"

definition ws_set_buffer :: "addr \<Rightarrow> u8 list \<Rightarrow> 'z wsw \<Rightarrow> 'z wsw option" where
  "ws_set_buffer a b w = (case wss w a of None \<Rightarrow> None | Some s \<Rightarrow> Some (w\<lparr>wss := (wss w)(a \<mapsto> s\<lparr>ws_buffer := b\<rparr>)\<rparr>))"

definition ws_accept_key :: "'w ws_env \<Rightarrow> string \<Rightarrow> string" where
  "ws_accept_key E client_key = take 32 (we_base64 E (we_sha1 E (str_bytes (client_key @ ''258EAFA5-E914-47DA-95CA-C5AB0DC85B11''))))"

text \<open>A parent that does not connect is only logged. \<open>snprintf\<close> writes at most the buffer, with a terminator.\<close>

definition ws_connect ::
  "'z wfs \<Rightarrow> 'z wsw ws_env \<Rightarrow> addr \<Rightarrow> string \<Rightarrow> int \<Rightarrow> int \<Rightarrow> 'z wsw \<Rightarrow> (int \<times> 'z wsw) option" where
  "ws_connect F E t host port timeout_ms w = do {
     (a, ws) \<leftarrow> ws_of t w;
     (_, w) \<leftarrow> esp_transport_connect F (ws_parent ws) host port timeout_ms w;
     let (random_key, w) = getrandom E 16 w;
     let client_key = we_base64 E random_key;
     let req = ws_request (ws_path ws) host port client_key;
     b \<leftarrow> mem_write (ws_buffer ws) 0 (str_bytes (take (DEFAULT_WS_BUFFER - 1) req) @ [0]);
     w \<leftarrow> ws_set_buffer a b w;
     let len = length req;
     if len \<ge> DEFAULT_WS_BUFFER then Some (-1, w)
     else do {
       (r, w) \<leftarrow> esp_transport_write F (ws_parent ws) (take len b) timeout_ms w;
       if r \<le> 0 then Some (-1, w)
       else do {
         ((r, b), w) \<leftarrow> esp_transport_read F (ws_parent ws) b timeout_ms w;
         w \<leftarrow> ws_set_buffer a b w;
         if r \<le> 0 then Some (-1, w)
         else do {
           text \<leftarrow> c_string b;
           case get_http_header text ''Sec-WebSocket-Accept:'' of
             None \<Rightarrow> Some (-1, w)
           | Some server_key \<Rightarrow> Some (if ws_accept_key E client_key \<noteq> server_key then -1 else 0, w) } } } }"

section \<open>Frames\<close>

definition frame_head :: "nat \<Rightarrow> u8 list" where
  "frame_head len =
     (if len > 125 then [0x82, 0xFE, of_nat (len div 256), of_nat (len mod 256)] else [0x82, of_nat len OR 0x80])"

definition mask_bytes :: "u8 list \<Rightarrow> u8 list \<Rightarrow> u8 list" where
  "mask_bytes key bs = map (\<lambda>i. (bs ! i) XOR (key ! (i mod 4))) [0..<length bs]"

text \<open>The caller's buffer is masked in place; the result has what it holds afterwards.\<close>

definition ws_write ::
  "'z wfs \<Rightarrow> 'z wsw ws_env \<Rightarrow> addr \<Rightarrow> u8 list \<Rightarrow> int \<Rightarrow> 'z wsw \<Rightarrow> ((int \<times> u8 list) \<times> 'z wsw) option" where
  "ws_write F E t buff timeout_ms w = do {
     (a, ws) \<leftarrow> ws_of t w;
     (p, w) \<leftarrow> esp_transport_poll_write F (ws_parent ws) timeout_ms w;
     if p \<le> 0 then Some ((p, buff), w)
     else do {
       let (key, w) = getrandom E 4 w;
       let ws_header = frame_head (length buff) @ key;
       let buffer = mask_bytes key buff;
       (r, w) \<leftarrow> esp_transport_write F (ws_parent ws) ws_header timeout_ms w;
       if r \<noteq> int (length ws_header) then Some ((-1, buffer), w)
       else do { (r, w) \<leftarrow> esp_transport_write F (ws_parent ws) buffer timeout_ms w; Some ((r, buffer), w) } } }"

text \<open>A byte of the buffer as an \<open>int\<close>, and four of them as one.\<close>

definition byte_at :: "u8 list \<Rightarrow> nat \<Rightarrow> int option" where
  "byte_at b i = (if i < length b then Some (uint (b ! i)) else None)"

text \<open>The length field: the payload's length, the room for it the code assumes, and the offset after the field. The constant for
  a frame that is too long becomes -1 in an \<open>int\<close>.\<close>

definition frame_len :: "u8 list \<Rightarrow> (int \<times> int \<times> nat) option" where
  "frame_len b = do {
     l \<leftarrow> byte_at b 1;
     let n = l AND 0x7F;
     if n = 126 then do { x \<leftarrow> byte_at b 2; y \<leftarrow> byte_at b 3; Some (x * 256 + y, int (length b) - 4, 4) }
     else if n = 127 then do {
       hi \<leftarrow> those (map (byte_at b) [2, 3, 4, 5]);
       lo \<leftarrow> those (map (byte_at b) [6, 7, 8, 9]);
       Some (if \<exists>x \<in> set hi. x \<noteq> 0 then -1
             else sint (word_of_int (lo ! 0 * 2 ^ 24 + lo ! 1 * 2 ^ 16 + lo ! 2 * 2 ^ 8 + lo ! 3) :: u32), int (length b) - 10, 10) }
     else Some (n, int (length b), 2) }"

text \<open>The unmasking loop: the key and the data are in the buffer that is overwritten.\<close>

fun unmask_loop :: "nat \<Rightarrow> nat \<Rightarrow> nat \<Rightarrow> u8 list \<Rightarrow> u8 list option" where
  "unmask_loop 0 i off b = Some b"
| "unmask_loop (Suc n) i off b =
     (if off + 4 + i < length b
      then unmask_loop n (Suc i) off (b[i := (b ! (off + 4 + i)) XOR (b ! (off + i mod 4))]) else None)"

definition ws_deliver :: "u8 list \<Rightarrow> (int \<times> u8 list) option" where
  "ws_deliver b = do {
     (payload_len, payload_len_buff, off) \<leftarrow> frame_len b;
     l \<leftarrow> byte_at b 1;
     let payload_len = (if payload_len > payload_len_buff then payload_len_buff else payload_len);
     if l \<ge> 128 then do { b \<leftarrow> unmask_loop (nat payload_len) 0 off b; Some (payload_len, b) }
     else if payload_len < 0 then None
     else do {
       data \<leftarrow> mem_read b off (nat payload_len);
       b \<leftarrow> mem_write b 0 data;
       Some (payload_len, b) } }"

definition ws_read ::
  "'z wfs \<Rightarrow> addr \<Rightarrow> u8 list \<Rightarrow> int \<Rightarrow> 'z wsw \<Rightarrow> ((int \<times> u8 list) \<times> 'z wsw) option" where
  "ws_read F t buffer timeout_ms w = do {
     (a, ws) \<leftarrow> ws_of t w;
     (p, w) \<leftarrow> esp_transport_poll_read F (ws_parent ws) timeout_ms w;
     if p \<le> 0 then Some ((p, buffer), w)
     else do {
       ((rlen, b), w) \<leftarrow> esp_transport_read F (ws_parent ws) buffer timeout_ms w;
       if rlen \<le> 0 then Some ((rlen, b), w)
       else do { r \<leftarrow> ws_deliver b; Some (r, w) } } }"

section \<open>The other functions\<close>

definition ws_poll_read :: "'z wfs \<Rightarrow> addr \<Rightarrow> int \<Rightarrow> 'z wsw \<Rightarrow> (int \<times> 'z wsw) option" where
  "ws_poll_read F t timeout_ms w = do { (_, ws) \<leftarrow> ws_of t w; esp_transport_poll_read F (ws_parent ws) timeout_ms w }"

definition ws_poll_write :: "'z wfs \<Rightarrow> addr \<Rightarrow> int \<Rightarrow> 'z wsw \<Rightarrow> (int \<times> 'z wsw) option" where
  "ws_poll_write F t timeout_ms w = do { (_, ws) \<leftarrow> ws_of t w; esp_transport_poll_write F (ws_parent ws) timeout_ms w }"

definition ws_close :: "'z wfs \<Rightarrow> addr \<Rightarrow> 'z wsw \<Rightarrow> (int \<times> 'z wsw) option" where
  "ws_close F t w = do { (_, ws) \<leftarrow> ws_of t w; esp_transport_close F (ws_parent ws) w }"

definition ws_destroy :: "addr \<Rightarrow> 'z wsw \<Rightarrow> (int \<times> 'z wsw) option" where
  "ws_destroy t w = do { (a, _) \<leftarrow> ws_of t w; Some (0, w\<lparr>wss := (wss w)(a := None)\<rparr>) }"

definition ws_get_payload_transport_handle :: "addr \<Rightarrow> 'z wsw \<Rightarrow> addr option option" where
  "ws_get_payload_transport_handle t w = do { (_, ws) \<leftarrow> ws_of t w; Some (ws_parent ws) }"

text \<open>\<open>realloc\<close> may fail, and the copy then goes to a null pointer.\<close>

definition esp_transport_ws_set_path :: "'z wsw platform \<Rightarrow> addr \<Rightarrow> string \<Rightarrow> 'z wsw \<Rightarrow> 'z wsw option" where
  "esp_transport_ws_set_path R t path w = do {
     (a, ws) \<leftarrow> ws_of t w;
     case heap_alloc R (length path + 1) w of (None, w) \<Rightarrow> None
     | (Some _, w) \<Rightarrow> Some (w\<lparr>wss := (wss w)(a \<mapsto> ws\<lparr>ws_path := path\<rparr>)\<rparr>) }"

text \<open>The results of the last three calls are dropped: a transport that could not be allocated is returned as null.
  \<open>funcs\<close> is the address of the table of the functions above, and \<open>fill\<close> what the new buffer holds.\<close>

definition esp_transport_ws_init ::
  "'z wsw platform \<Rightarrow> addr \<Rightarrow> u8 list \<Rightarrow> addr option \<Rightarrow> 'z wsw \<Rightarrow> (addr option \<times> 'z wsw) option" where
  "esp_transport_ws_init R funcs fill parent_handle w =
     (let (t, w) = esp_transport_init R w in
      case heap_alloc R 12 w of (None, w) \<Rightarrow> Some (None, w)
      | (Some a, w) \<Rightarrow> (case heap_alloc R 2 w of (None, w) \<Rightarrow> Some (None, w)
        | (Some _, w) \<Rightarrow> (case heap_alloc R DEFAULT_WS_BUFFER w of (None, w) \<Rightarrow> Some (None, w)
          | (Some _, w) \<Rightarrow> do {
              let w = w\<lparr>wss := (wss w)(a \<mapsto> \<lparr>ws_path = ''/'', ws_buffer = fill, ws_parent = parent_handle\<rparr>)\<rparr>;
              (_, w) \<leftarrow> esp_transport_set_func t funcs w;
              (_, w) \<leftarrow> esp_transport_set_parent_transport_func t funcs w;
              (_, w) \<leftarrow> esp_transport_set_context_data t (Some a) w;
              Some (t, w) })))"

end
