(* ===== verification/Transport_Ws_Correct.thy ===== *)
theory Transport_Ws_Correct
  imports Transport_Ws
begin

text \<open>
  The frames of the websocket transport against the protocol (RFC 6455): what is written is a masked binary frame with the data, as
  long as its length fits in 16 bits, and an unmasked frame that arrives in one piece is delivered; masked frames of more than
  four bytes are not.
\<close>

section \<open>Frames of the protocol\<close>

definition be_nat :: "u8 list \<Rightarrow> nat" where
  "be_nat bs = foldl (\<lambda>n b. n * 256 + unat b) 0 bs"

text \<open>The first byte of a frame, the payload without its mask, and nothing for a truncated frame.\<close>

definition ws_decode :: "u8 list \<Rightarrow> (u8 \<times> u8 list) option" where
  "ws_decode b =
     (case b of
        h # l # r \<Rightarrow>
          let n = unat (l AND 0x7F);
              k = (if n = 126 then 2 else if n = 127 then 8 else 0 :: nat);
              len = (if k = 0 then n else be_nat (take k r));
              m = (if bit l 7 then 4 else 0 :: nat);
              key = (if m = 4 then take 4 (drop k r) else replicate 4 0)
          in if k + m + len \<le> length r then Some (h, mask_bytes key (take len (drop (k + m) r))) else None
      | _ \<Rightarrow> None)"

text \<open>An unmasked binary frame.\<close>

definition ws_encode :: "u8 list \<Rightarrow> u8 list" where
  "ws_encode p = 0x82 # (if length p \<le> 125 then [of_nat (length p)] else [126, of_nat (length p div 256), of_nat (length p mod 256)]) @ p"

section \<open>Masks\<close>

lemma length_mask [simp]: "length (mask_bytes key bs) = length bs"
  by (simp add: mask_bytes_def)

lemma mask_mask [simp]: "mask_bytes key (mask_bytes key bs) = bs"
  by (rule nth_equalityI) (simp_all add: mask_bytes_def xor.assoc)

lemma mask_zero [simp]: "mask_bytes (replicate 4 0) bs = bs"
  by (rule nth_equalityI) (simp_all add: mask_bytes_def)

lemma take_mask: "take n (mask_bytes key bs) = mask_bytes key (take n bs)"
  by (rule nth_equalityI) (simp_all add: mask_bytes_def)

lemma unat_byte: "n < 256 \<Longrightarrow> unat (of_nat n :: u8) = n"
  by (simp add: unsigned_of_nat take_bit_nat_eq_self)

lemma len_byte: "n \<le> 125 \<Longrightarrow> unat (((of_nat n :: u8) OR 0x80) AND 0x7F) = n \<and> bit ((of_nat n :: u8) OR 0x80) 7"
proof -
  assume "n \<le> 125"
  then have "unat (of_nat n :: u8) = n" "\<not> bit n 7" by (simp_all add: unat_byte bit_nat_def)
  moreover have "bit (unat (of_nat n :: u8)) 7 = bit (of_nat n :: u8) 7" by (simp add: bit_unsigned_iff)
  ultimately have b: "\<not> bit (of_nat n :: u8) 7" by simp
  have "((of_nat n :: u8) OR 0x80) AND 0x7F = of_nat n"
    using b by (intro bit_word_eqI) (auto simp: bit_and_iff bit_or_iff less_Suc_eq numeral_eq_Suc)
  with unat_byte [of n] \<open>n \<le> 125\<close> show ?thesis by (simp add: bit_or_iff)
qed

lemma be_nat_two: "be_nat [a, b] = unat a * 256 + unat b"
  by (simp add: be_nat_def)

section \<open>Writing\<close>

text \<open>What the written bytes mean: the payload, cut to a length that fits in 16 bits.\<close>

lemma decode_written:
  assumes "length key = 4"
  shows "ws_decode (frame_head (length b) @ key @ mask_bytes key b) =
    Some (0x82, if length b \<le> 125 then b else take (length b mod 65536) b)"
proof (cases "length b \<le> 125")
  case True
  with len_byte [OF True] assms show ?thesis
    by (auto simp: ws_decode_def frame_head_def Let_def)
next
  case False
  have "unat (of_nat (length b div 256) :: u8) * 256 + unat (of_nat (length b mod 256) :: u8) = length b mod 65536"
    using mod_mult2_eq [of "length b" 256 256] by (simp add: unsigned_of_nat take_bit_eq_mod)
  with False assms show ?thesis
    by (auto simp: ws_decode_def frame_head_def Let_def be_nat_two take_mask)
qed

text \<open>A parent transport that takes everything while it is \<open>up\<close>: \<open>sent\<close> is what it got.\<close>

definition ws_link :: "'z wfs \<Rightarrow> 'z wsw ws_env \<Rightarrow> addr option \<Rightarrow> ('z wsw \<Rightarrow> bool) \<Rightarrow> ('z wsw \<Rightarrow> u8 list) \<Rightarrow> bool" where
  "ws_link F E p up sent \<longleftrightarrow>
     (\<forall>t w. up w \<longrightarrow> (\<exists>r w'. esp_transport_poll_write F p t w = Some (r, w') \<and> r > 0 \<and> sent w' = sent w \<and> up w')) \<and>
     (\<forall>w. up w \<longrightarrow> sent (snd (we_random E w)) = sent w \<and> up (snd (we_random E w))) \<and>
     (\<forall>bs t w. up w \<longrightarrow> (\<exists>w'. esp_transport_write F p bs t w = Some (int (length bs), w') \<and> sent w' = sent w @ bs \<and> up w'))"

lemma ws_linkD:
  assumes "ws_link F E p up sent" and "up w"
  shows "\<exists>r w'. esp_transport_poll_write F p t w = Some (r, w') \<and> r > 0 \<and> sent w' = sent w \<and> up w'"
    and "sent (snd (we_random E w)) = sent w \<and> up (snd (we_random E w))"
    and "\<exists>w'. esp_transport_write F p bs t w = Some (int (length bs), w') \<and> sent w' = sent w @ bs \<and> up w'"
  using assms unfolding ws_link_def by blast+

lemma getrandom_four: "getrandom E 4 w = (let (x, w) = we_random E w in (word_bytes x, w))"
  by (subst getrandom.simps) (simp add: getrandom.simps [of E 0] word_bytes_def split: prod.split)

text \<open>C24. Writing up to 65535 bytes puts one frame on the wire that decodes to a binary message with exactly the data; it leaves the
  caller's buffer masked. Of a longer block the frame announces only the length modulo 65536.\<close>

theorem ws_write_frame:
  assumes "ws_of t w = Some (a, ws)" and "ws_link F E (ws_parent ws) up sent" "up w"
  shows "\<exists>frame key w'. ws_write F E t b timeout w = Some ((int (length b), mask_bytes key b), w') \<and> sent w' = sent w @ frame \<and>
    ws_decode frame = Some (0x82, if length b \<le> 65535 then b else take (length b mod 65536) b)"
proof -
  note link = ws_linkD [OF assms(2)]
  obtain r w1 where 1: "esp_transport_poll_write F (ws_parent ws) timeout w = Some (r, w1)" "r > 0" "sent w1 = sent w" "up w1"
    using link(1) [OF assms(3)] by blast
  obtain x w2 where 2: "we_random E w1 = (x, w2)" by fastforce
  then have s2: "sent w2 = sent w" "up w2" using link(2) [OF 1(4)] 1(3) by simp_all
  let ?key = "word_bytes x"
  obtain w3 where 3: "esp_transport_write F (ws_parent ws) (frame_head (length b) @ ?key) timeout w2
      = Some (int (length (frame_head (length b) @ ?key)), w3)" "sent w3 = sent w2 @ frame_head (length b) @ ?key" "up w3"
    using link(3) [OF s2(2)] by blast
  obtain w4 where 4: "esp_transport_write F (ws_parent ws) (mask_bytes ?key b) timeout w3 = Some (int (length (mask_bytes ?key b)), w4)"
    "sent w4 = sent w3 @ mask_bytes ?key b"
    using link(3) [OF 3(3)] by blast
  have "ws_write F E t b timeout w = Some ((int (length b), mask_bytes ?key b), w4)"
    using 1 3 4(1) by (simp add: ws_write_def assms(1) getrandom_four 2 Let_def)
  moreover have "sent w4 = sent w @ frame_head (length b) @ ?key @ mask_bytes ?key b" using 3(2) 4(2) s2 by simp
  moreover have "ws_decode (frame_head (length b) @ ?key @ mask_bytes ?key b) =
      Some (0x82, if length b \<le> 65535 then b else take (length b mod 65536) b)"
    using decode_written [of ?key b] by (auto simp: word_bytes_def)
  ultimately show ?thesis by blast
qed

section \<open>Reading\<close>

lemma low_bits: "n \<le> 125 \<Longrightarrow> int n AND 0x7F = int n"
proof -
  assume "n \<le> 125"
  have "int n AND 0x7F = take_bit 7 (int n)" by (simp add: take_bit_eq_mask mask_eq_exp_minus_1)
  with \<open>n \<le> 125\<close> show ?thesis by (simp add: take_bit_int_eq_self)
qed

lemma deliver_frame:
  assumes "length p \<le> 65535"
  shows "ws_deliver (ws_encode p @ rest) = Some (int (length p), p @ drop (length p) (ws_encode p @ rest))"
proof (cases "length p \<le> 125")
  case True
  then have "uint (of_nat (length p) :: u8) = int (length p)" by (simp add: unsigned_of_nat take_bit_nat_eq_self)
  with low_bits [OF True] True show ?thesis
    by (simp add: ws_deliver_def frame_len_def byte_at_def ws_encode_def mem_write_def Let_def)
next
  case False
  have "uint (of_nat (length p div 256) :: u8) * 256 + uint (of_nat (length p mod 256) :: u8) = int (length p)"
  proof -
    have "length p div 256 < 256" "length p mod 256 < 256" using assms by simp_all
    then have "unat (of_nat (length p div 256) :: u8) * 256 + unat (of_nat (length p mod 256) :: u8) = length p"
      by (simp only: unat_byte) simp
    then show ?thesis by (metis (mono_tags) of_nat_add of_nat_mult of_nat_numeral uint_nat)
  qed
  with False show ?thesis
    by (simp add: ws_deliver_def frame_len_def byte_at_def ws_encode_def mem_write_def)
qed

lemma length_encode: "length (ws_encode p) = length p + (if length p \<le> 125 then 2 else 4)"
  by (simp add: ws_encode_def)

text \<open>C25. An unmasked binary frame of up to 65535 bytes that one read of the parent transport returns whole, into a buffer that
  holds the frame with its head, is delivered: the result is the length of the payload, and the buffer starts with it.\<close>

theorem ws_read_delivers:
  assumes "ws_of t w = Some (a, ws)" and "length p \<le> 65535" and "length (ws_encode p) \<le> length buffer"
    and "esp_transport_poll_read F (ws_parent ws) timeout w = Some (r, w1)" "r > 0"
    and "esp_transport_read F (ws_parent ws) buffer timeout w1 =
      Some ((int (length (ws_encode p)), ws_encode p @ drop (length (ws_encode p)) buffer), w2)"
  shows "\<exists>b'. ws_read F t buffer timeout w = Some ((int (length p), b'), w2) \<and> take (length p) b' = p \<and> length b' = length buffer"
  using assms deliver_frame [OF assms(2)] by (simp add: ws_read_def length_encode split: if_splits)

text \<open>A masked frame of five bytes: the loop that removes the mask overwrites the mask, and the fifth byte is wrong.\<close>

theorem ws_read_masked_corrupts:
  "ws_decode [0x82, 0x85, 1, 2, 3, 4, 0x69, 0x67, 0x6f, 0x68, 0x6e] = Some (0x82, [0x68, 0x65, 0x6c, 0x6c, 0x6f]) \<and>
   ws_deliver [0x82, 0x85, 1, 2, 3, 4, 0x69, 0x67, 0x6f, 0x68, 0x6e] =
     Some (5, [0x68, 0x65, 0x6c, 0x6c, 2, 4, 0x69, 0x67, 0x6f, 0x68, 0x6e])"
  by code_simp

section \<open>Instances\<close>

text \<open>A wire as the parent: one transport whose functions store what is written and give what was queued.\<close>

type_synonym wire = "(u8 list \<times> u8 list) wsw"

definition wire_funcs :: "(u8, wire) transport_funcs" where
  "wire_funcs = \<lparr>tf_connect = None,
     tf_read = Some (\<lambda>t b tm w. let (i, q) = ws_world.more w; r = take (length b) q in
        Some ((int (length r), r @ drop (length r) b), ws_world.more_update (\<lambda>_. (i, drop (length r) q)) w)),
     tf_write = Some (\<lambda>t b tm w. Some (int (length b), ws_world.more_update (\<lambda>(i, q). (i @ b, q)) w)),
     tf_close = None, tf_poll_read = Some (\<lambda>t tm w. Some (1, w)), tf_poll_write = Some (\<lambda>t tm w. Some (1, w)),
     tf_destroy = None, tf_connect_async = None, tf_parent = None\<rparr>"

definition wire_env :: "wire ws_env" where
  "wire_env = \<lparr>we_random = (\<lambda>w. (0x04030201, w)), we_sha1 = (\<lambda>b. b), we_base64 = bytes_str\<rparr>"

definition wire_world :: "u8 list \<Rightarrow> wire" where
  "wire_world q = \<lparr>tps = [1 \<mapsto> \<lparr>tp_port = 0, tp_scheme = None, tp_data = Some 3, tp_funcs = None, tp_async = None, tp_parent = None\<rparr>,
      2 \<mapsto> \<lparr>tp_port = 0, tp_scheme = None, tp_data = None, tp_funcs = Some 7, tp_async = None, tp_parent = None\<rparr>],
    tlists = Map.empty, wss = [3 \<mapsto> \<lparr>ws_path = ''/'', ws_buffer = [], ws_parent = Some 2\<rparr>], \<dots> = ([], q)\<rparr>"

lemma wire_ws: "ws_of 1 (wire_world q) = Some (3, \<lparr>ws_path = ''/'', ws_buffer = [], ws_parent = Some 2\<rparr>)"
  by (simp add: ws_of_def esp_transport_get_context_data_def wire_world_def)

lemma wire_link: "ws_link (\<lambda>_. wire_funcs) wire_env (Some 2) (\<lambda>w. tps w 2 = tps (wire_world []) 2) (\<lambda>w. fst (ws_world.more w))"
  by (auto simp: ws_link_def wire_world_def esp_transport_poll_write_def esp_transport_write_def tp_func_def wire_funcs_def wire_env_def
      case_prod_beta)

theorem ws_write_frame_witness:
  "\<exists>frame key w'. ws_write (\<lambda>_. wire_funcs) wire_env 1 [1, 2, 3] 0 (wire_world []) = Some ((3, mask_bytes key [1, 2, 3]), w') \<and>
    fst (ws_world.more w') = frame \<and> ws_decode frame = Some (0x82, [1, 2, 3])"
  using ws_write_frame [OF wire_ws [of "[]"], where F = "\<lambda>_. wire_funcs" and E = wire_env and sent = "\<lambda>w. fst (ws_world.more w)"
      and up = "\<lambda>w. tps w 2 = tps (wire_world []) 2" and b = "[1, 2, 3]" and timeout = 0] wire_link
  by (simp add: wire_world_def)

theorem ws_read_delivers_witness:
  "\<exists>b'. ws_read (\<lambda>_. wire_funcs) 1 [0, 0, 0, 0, 0] 0 (wire_world (ws_encode [7, 8])) = Some ((int (length [7, 8 :: u8]), b'), wire_world []) \<and>
    take (length [7, 8 :: u8]) b' = [7, 8] \<and> length b' = length [0, 0, 0, 0, 0 :: u8]"
proof -
  have 1: "esp_transport_poll_read (\<lambda>_. wire_funcs) (Some 2) 0 (wire_world q) = Some (1, wire_world q)" for q
    by (simp add: esp_transport_poll_read_def tp_func_def wire_funcs_def wire_world_def)
  have 2: "esp_transport_read (\<lambda>_. wire_funcs) (Some 2) [0, 0, 0, 0, 0] 0 (wire_world (ws_encode [7, 8])) =
      Some ((int (length (ws_encode [7, 8])), ws_encode [7, 8] @ drop (length (ws_encode [7, 8])) [0, 0, 0, 0, 0]), wire_world [])"
    by (simp add: esp_transport_read_def tp_func_def wire_funcs_def wire_world_def ws_encode_def)
  show ?thesis
    by (rule ws_read_delivers [OF wire_ws _ _ _ _ _, where r = 1 and ?w1.0 = "wire_world (ws_encode [7, 8])"])
      (simp_all only: transport_ws.simps 1 2, simp_all add: ws_encode_def)
qed

end
