(* ===== verification/Http_Auth.thy ===== *)
theory Http_Auth
  imports Http_Header
begin

text \<open>
  The authentication headers of the HTTP client (\<open>components/esp_http_client/lib/http_auth.c\<close>). MD5 and Base64 are arguments.
\<close>

text \<open>\<open>esp_http_auth_data_t\<close>.\<close>

record esp_http_auth_data =
  ad_method :: "string option"
  ad_algorithm :: "string option"
  ad_uri :: "string option"
  ad_realm :: "string option"
  ad_nonce :: "string option"
  ad_qop :: "string option"
  ad_opaque :: "string option"
  ad_cnonce :: u64
  ad_nc :: int

definition no_auth :: esp_http_auth_data where
  "no_auth = \<lparr>ad_method = None, ad_algorithm = None, ad_uri = None, ad_realm = None, ad_nonce = None, ad_qop = None, ad_opaque = None,
     ad_cnonce = 0, ad_nc = 0\<rparr>"

abbreviation colon :: string where "colon \<equiv> '':''"

definition md5_hex :: "(string \<Rightarrow> u8 list) \<Rightarrow> string \<Rightarrow> string" where
  "md5_hex md5 s = concat (map (\<lambda>b. nat_hex 2 (unat b)) (take 16 (md5 s)))"

text \<open>The digest of a text in hexadecimal, \<open>None\<close> when the text cannot be allocated.\<close>

definition md5_printf :: "'w platform \<Rightarrow> (string \<Rightarrow> u8 list) \<Rightarrow> string \<Rightarrow> 'w \<Rightarrow> string option \<times> 'w" where
  "md5_printf R md5 s w =
     (case heap_alloc R (length s + 1) w of
        (None, w) \<Rightarrow> (None, w)
      | (Some _, w) \<Rightarrow> (Some (md5_hex md5 s), w))"

text \<open>An early exit gives no string; \<open>None\<close> of the whole is a null pointer given to \<open>strcasecmp\<close> or to a format.\<close>

definition or_exit :: "'a option \<Rightarrow> 'w \<Rightarrow> ('a \<Rightarrow> (string option \<times> 'w) option) \<Rightarrow> (string option \<times> 'w) option" where
  "or_exit x w f = (case x of None \<Rightarrow> Some (None, w) | Some a \<Rightarrow> f a)"

definition auth_line :: "string \<Rightarrow> string \<Rightarrow> string \<Rightarrow> string \<Rightarrow> string \<Rightarrow> string \<Rightarrow> string \<Rightarrow> int \<Rightarrow> u64 \<Rightarrow> string" where
  "auth_line username realm nonce uri digest opaque qop nc cnonce =
     (let quoted = (\<lambda>s. CHR 0x22 # s @ [CHR 0x22]) in
      ''Digest username='' @ quoted username @ '', realm='' @ quoted realm @ '', nonce='' @ quoted nonce @ '', uri='' @ quoted uri @
      '', algorithm='' @ quoted ''MD5'' @ '', response='' @ quoted digest @ '', opaque='' @ quoted opaque @ '', qop='' @ qop @
      '', nc='' @ nat_hex 8 (unat (word_of_int nc :: u32)) @ '', cnonce='' @ quoted (nat_hex 16 (unat cnonce)))"

definition http_auth_digest ::
  "'w platform \<Rightarrow> (string \<Rightarrow> u8 list) \<Rightarrow> string option \<Rightarrow> string option \<Rightarrow> esp_http_auth_data \<Rightarrow> 'w \<Rightarrow> (string option \<times> 'w) option" where
  "http_auth_digest R md5 username password ad w =
     (case (username, password, ad_nonce ad, ad_uri ad, ad_realm ad) of
        (Some u, Some p, Some nonce, Some uri, Some realm) \<Rightarrow>
          (let (a, w) = heap_alloc R 33 w in or_exit a w (\<lambda>_.
           let (a, w) = heap_alloc R 33 w in or_exit a w (\<lambda>_.
           let (a, w) = heap_alloc R 33 w in or_exit a w (\<lambda>_.
           let (x, w) = md5_printf R md5 (u @ colon @ realm @ colon @ p) w in or_exit x w (\<lambda>ha1. do {
             algorithm \<leftarrow> ad_algorithm ad;
             let (x, w) = (if strcaseeq algorithm ''md5-sess''
                           then md5_printf R md5 (ha1 @ colon @ nonce @ colon @ nat_hex 16 (unat (ad_cnonce ad))) w else (Some ha1, w));
             or_exit x w (\<lambda>ha1. do {
               meth \<leftarrow> ad_method ad;
               let (x, w) = md5_printf R md5 (meth @ colon @ uri) w;
               or_exit x w (\<lambda>ha2.
                 let (x, w) = (if (case ad_qop ad of None \<Rightarrow> False | Some q \<Rightarrow> strcaseeq q ''auth-int'')
                               then md5_printf R md5 (ha2 @ colon @ ''entity'') w else (Some ha2, w)) in
                 or_exit x w (\<lambda>ha2.
                   let (x, w) = (case ad_qop ad of
                        Some qop \<Rightarrow> md5_printf R md5 (ha1 @ colon @ nonce @ colon @ nat_hex 8 (unat (word_of_int (ad_nc ad) :: u32)) @ colon @
                                     nat_hex 16 (unat (ad_cnonce ad)) @ colon @ qop @ colon @ ha2) w
                      | None \<Rightarrow> md5_printf R md5 (ha1 @ colon @ nonce @ colon @ ha2) w) in
                   or_exit x w (\<lambda>digest. do {
                     opaque \<leftarrow> ad_opaque ad;
                     qop \<leftarrow> ad_qop ad;
                     let line = auth_line u realm nonce uri digest opaque qop (ad_nc ad) (ad_cnonce ad);
                     let (b, w) = heap_alloc R (length line + 1) w;
                     Some (map_option (\<lambda>_. line) b, w) }))) }) })))))
      | _ \<Rightarrow> Some (None, w))"

definition http_auth_basic ::
  "'w platform \<Rightarrow> (string \<Rightarrow> string) \<Rightarrow> string option \<Rightarrow> string option \<Rightarrow> 'w \<Rightarrow> (string option \<times> 'w) option" where
  "http_auth_basic R base64 username password w = do {
     u \<leftarrow> username;
     p \<leftarrow> password;
     let info = u @ colon @ p;
     let (a, w) = heap_alloc R (length info + 1) w;
     or_exit a w (\<lambda>_.
       let out = ''Basic '' @ base64 info; (a, w) = heap_alloc R (length out + 1) w in Some (map_option (\<lambda>_. out) a, w)) }"

section \<open>The digest\<close>

text \<open>The response of RFC 2617 for a request without a body to protect, with \<open>H\<close> the hexadecimal digest.\<close>

definition rfc2617_response :: "(string \<Rightarrow> string) \<Rightarrow> string \<Rightarrow> string \<Rightarrow> esp_http_auth_data \<Rightarrow> string" where
  "rfc2617_response H u p ad =
     (let text = (\<lambda>s. case s of None \<Rightarrow> '''' | Some t \<Rightarrow> t);
          a1 = H (u @ colon @ text (ad_realm ad) @ colon @ p);
          ha1 = (if strcaseeq (text (ad_algorithm ad)) ''md5-sess''
                 then H (a1 @ colon @ text (ad_nonce ad) @ colon @ nat_hex 16 (unat (ad_cnonce ad))) else a1);
          ha2 = H (text (ad_method ad) @ colon @ text (ad_uri ad))
      in H (ha1 @ colon @ text (ad_nonce ad) @ colon @ nat_hex 8 (unat (word_of_int (ad_nc ad) :: u32)) @ colon @
            nat_hex 16 (unat (ad_cnonce ad)) @ colon @ text (ad_qop ad) @ colon @ ha2))"

lemma md5_printf_ok:
  assumes "allocates R"
  obtains w' where "md5_printf R md5 s w = (Some (md5_hex md5 s), w')"
  using allocatesD [OF assms, of "length s + 1" w] by (auto simp: md5_printf_def)

lemma auth_digest_facts:
  assumes "allocates R" and "ad_nonce ad = Some nonce" "ad_uri ad = Some uri" "ad_realm ad = Some realm" "ad_method ad = Some meth"
    and "ad_opaque ad = Some opaque" "ad_qop ad = Some qop" "\<not> strcaseeq qop ''auth-int''"
  shows "ad_algorithm ad = Some alg \<Longrightarrow> \<exists>w'. http_auth_digest R md5 (Some u) (Some p) ad w =
      Some (Some (auth_line u realm nonce uri (rfc2617_response (md5_hex md5) u p ad) opaque qop (ad_nc ad) (ad_cnonce ad)), w')"
    and "ad_algorithm ad = None \<Longrightarrow> http_auth_digest R md5 (Some u) (Some p) ad w = None"
proof -
  obtain a1 w1 where 1: "heap_alloc R 33 w = (Some a1, w1)" using allocatesD [OF assms(1)] by blast
  obtain a2 w2 where 2: "heap_alloc R 33 w1 = (Some a2, w2)" using allocatesD [OF assms(1)] by blast
  obtain a3 w3 where 3: "heap_alloc R 33 w2 = (Some a3, w3)" using allocatesD [OF assms(1)] by blast
  have md: "\<exists>w'. md5_printf R md5 s v = (Some (md5_hex md5 s), w')" for s v
    using md5_printf_ok [OF assms(1), of md5 s v] by blast
  obtain w4 where 4: "md5_printf R md5 (u @ colon @ realm @ colon @ p) w3 = (Some (md5_hex md5 (u @ colon @ realm @ colon @ p)), w4)"
    using md by blast
  show "http_auth_digest R md5 (Some u) (Some p) ad w = None" if "ad_algorithm ad = None"
    using that 4 by (simp add: http_auth_digest_def assms(2-4) 1 2 3 or_exit_def)
  show "\<exists>w'. http_auth_digest R md5 (Some u) (Some p) ad w =
      Some (Some (auth_line u realm nonce uri (rfc2617_response (md5_hex md5) u p ad) opaque qop (ad_nc ad) (ad_cnonce ad)), w')"
    if alg: "ad_algorithm ad = Some alg"
  proof -
    define ha1 where "ha1 = (if strcaseeq alg ''md5-sess'' then md5_hex md5 (md5_hex md5 (u @ colon @ realm @ colon @ p) @ colon @ nonce @ colon @
      nat_hex 16 (unat (ad_cnonce ad))) else md5_hex md5 (u @ colon @ realm @ colon @ p))"
    obtain w5 where 5: "(if strcaseeq alg ''md5-sess'' then md5_printf R md5 (md5_hex md5 (u @ colon @ realm @ colon @ p) @ colon @ nonce @ colon @
        nat_hex 16 (unat (ad_cnonce ad))) w4 else (Some (md5_hex md5 (u @ colon @ realm @ colon @ p)), w4)) = (Some ha1, w5)"
      using md by (fastforce simp: ha1_def)
    obtain w6 where 6: "md5_printf R md5 (meth @ colon @ uri) w5 = (Some (md5_hex md5 (meth @ colon @ uri)), w6)" using md by blast
    define resp where "resp = md5_hex md5 (ha1 @ colon @ nonce @ colon @ nat_hex 8 (unat (word_of_int (ad_nc ad) :: u32)) @ colon @
        nat_hex 16 (unat (ad_cnonce ad)) @ colon @ qop @ colon @ md5_hex md5 (meth @ colon @ uri))"
    obtain w7 where 7: "md5_printf R md5 (ha1 @ colon @ nonce @ colon @ nat_hex 8 (unat (word_of_int (ad_nc ad) :: u32)) @ colon @
        nat_hex 16 (unat (ad_cnonce ad)) @ colon @ qop @ colon @ md5_hex md5 (meth @ colon @ uri)) w6 = (Some resp, w7)"
      using md unfolding resp_def by blast
    have resp: "rfc2617_response (md5_hex md5) u p ad = resp"
      by (simp add: rfc2617_response_def Let_def assms(2-7) alg resp_def ha1_def)
    let ?line = "auth_line u realm nonce uri resp opaque qop (ad_nc ad) (ad_cnonce ad)"
    obtain b w8 where 8: "heap_alloc R (length ?line + 1) w7 = (Some b, w8)" using allocatesD [OF assms(1)] by blast
    have "http_auth_digest R md5 (Some u) (Some p) ad w = Some (Some ?line, w8)"
      using 4 5 6 7 8 assms(8)
      by (cases "strcaseeq alg ''md5-sess''") (simp_all add: http_auth_digest_def assms(2-7) alg 1 2 3 or_exit_def Let_def)
    then show ?thesis unfolding resp by blast
  qed
qed

text \<open>C26. With memory available, a user name and a password, a method and a URI, and a challenge with a realm, a nonce, an opaque
  value and a quality of protection other than \<open>auth-int\<close>: when the challenge names an algorithm, the header is written and
  carries the response of RFC 2617 for it; when it names none, which RFC 2617 allows, the function passes a null pointer to
  \<open>strcasecmp\<close>.\<close>

theorem auth_digest_response:
  assumes "allocates R" and "ad_nonce ad = Some nonce" "ad_uri ad = Some uri" "ad_realm ad = Some realm" "ad_method ad = Some meth"
    and "ad_opaque ad = Some opaque" "ad_qop ad = Some qop" "\<not> strcaseeq qop ''auth-int''"
  shows "case ad_algorithm ad of
      Some _ \<Rightarrow> \<exists>w'. http_auth_digest R md5 (Some u) (Some p) ad w =
        Some (Some (auth_line u realm nonce uri (rfc2617_response (md5_hex md5) u p ad) opaque qop (ad_nc ad) (ad_cnonce ad)), w')
    | None \<Rightarrow> http_auth_digest R md5 (Some u) (Some p) ad w = None"
  using auth_digest_facts [OF assms] by (simp split: option.split)

definition ex_challenge :: "string option \<Rightarrow> esp_http_auth_data" where
  "ex_challenge alg = no_auth\<lparr>ad_nonce := Some ''n'', ad_uri := Some ''/'', ad_realm := Some ''r'', ad_method := Some ''GET'',
     ad_opaque := Some ''o'', ad_qop := Some ''auth'', ad_algorithm := alg, ad_nc := 1, ad_cnonce := 255\<rparr>"

text \<open>A digest that keeps the first bytes of its input, so that the nested digests stay visible.\<close>

definition ex_md5 :: "string \<Rightarrow> u8 list" where
  "ex_md5 s = map (\<lambda>c. word_of_nat (of_char c)) (take 16 (s @ replicate 16 NUL))"

theorem auth_digest_response_witness:
  "(\<exists>w'. http_auth_digest (seq_platform (Some 1)) ex_md5 (Some ''u'') (Some ''p'') (ex_challenge (Some ''MD5'')) () =
      Some (Some (auth_line ''u'' ''r'' ''n'' ''/'' (md5_hex ex_md5 (md5_hex ex_md5 ''u:r:p'' @
        '':n:00000001:00000000000000ff:auth:'' @ md5_hex ex_md5 ''GET:/'')) ''o'' ''auth'' 1 255), w')) \<and>
   http_auth_digest (seq_platform (Some 1)) ex_md5 (Some ''u'') (Some ''p'') (ex_challenge None) () = None"
proof -
  have f: "ad_nonce (ex_challenge a) = Some ''n''" "ad_uri (ex_challenge a) = Some ''/''" "ad_realm (ex_challenge a) = Some ''r''"
    "ad_method (ex_challenge a) = Some ''GET''" "ad_opaque (ex_challenge a) = Some ''o''" "ad_qop (ex_challenge a) = Some ''auth''"
    "ad_algorithm (ex_challenge a) = a" "ad_nc (ex_challenge a) = 1" "ad_cnonce (ex_challenge a) = 255" for a
    by (simp_all add: ex_challenge_def)
  have m: "allocates (seq_platform (Some 1) :: unit platform)" by (simp add: allocates_def)
  have q: "\<not> strcaseeq ''auth'' ''auth-int''" "\<not> strcaseeq ''MD5'' ''md5-sess''" by code_simp+
  have h: "nat_hex 8 (unat (word_of_int 1 :: u32)) = ''00000001''" "nat_hex 16 (unat (255 :: u64)) = ''00000000000000ff''" by code_simp+
  have r: "rfc2617_response (md5_hex ex_md5) ''u'' ''p'' (ex_challenge (Some ''MD5'')) =
      md5_hex ex_md5 (md5_hex ex_md5 ''u:r:p'' @
        '':n:00000001:00000000000000ff:auth:'' @ md5_hex ex_md5 ''GET:/'')"
    by (simp add: rfc2617_response_def f q(2) h[simplified] Let_def)
  have c: "case ad_algorithm (ex_challenge a) of
        Some _ \<Rightarrow> \<exists>w'. http_auth_digest (seq_platform (Some 1)) ex_md5 (Some ''u'') (Some ''p'') (ex_challenge a) () =
          Some (Some (auth_line ''u'' ''r'' ''n'' ''/'' (rfc2617_response (md5_hex ex_md5) ''u'' ''p'' (ex_challenge a)) ''o'' ''auth''
            (ad_nc (ex_challenge a)) (ad_cnonce (ex_challenge a))), w')
      | None \<Rightarrow> http_auth_digest (seq_platform (Some 1)) ex_md5 (Some ''u'') (Some ''p'') (ex_challenge a) () = None" for a
    by (rule auth_digest_response [OF m f(1-6) q(1)])
  show ?thesis using c [of "Some ''MD5''"] c [of None] unfolding f r by simp
qed

end
