(* ===== verification/Transport_Tcp.thy ===== *)
theory Transport_Tcp
  imports Transport "HOL-Library.Signed_Division"
begin

text \<open>
  The TCP transport (\<open>components/tcp_transport/transport_tcp.c\<close>) and \<open>transport_utils.c\<close>. The sockets of lwIP are the parameter
  \<open>sock_env\<close>, whose functions act on the whole state. An address is the 32-bit number of IPv4. The read gives the result and
  the bytes it stores.
\<close>

record ('b, 'w) sock_env =
  se_inet_pton :: "string \<Rightarrow> u32 option"
  se_gethostbyname :: "string \<Rightarrow> 'w \<Rightarrow> u32 list option \<times> 'w"
  se_socket :: "'w \<Rightarrow> int \<times> 'w"
  se_rcvtimeo :: "int \<Rightarrow> int \<times> int \<Rightarrow> 'w \<Rightarrow> 'w"
  se_connect :: "int \<Rightarrow> u32 \<Rightarrow> 16 word \<Rightarrow> 'w \<Rightarrow> int \<times> 'w"
  se_write :: "int \<Rightarrow> 'b list \<Rightarrow> 'w \<Rightarrow> int \<times> 'w"
  se_read :: "int \<Rightarrow> nat \<Rightarrow> 'w \<Rightarrow> (int \<times> 'b list) \<times> 'w"
  se_select_read :: "int \<Rightarrow> int \<times> int \<Rightarrow> 'w \<Rightarrow> int \<times> 'w"
  se_select_write :: "int \<Rightarrow> int \<times> int \<Rightarrow> 'w \<Rightarrow> int \<times> 'w"
  se_close :: "int \<Rightarrow> 'w \<Rightarrow> int \<times> 'w"

text \<open>\<open>tcps\<close> holds the \<open>sock\<close> of each \<open>transport_tcp_t\<close>.\<close>

record tcp_world = tp_world +
  tcps :: "addr \<Rightarrow> int option"

type_synonym 'z tcpw = "'z tcp_world_scheme"
type_synonym ('b, 'z) tcfs = "addr \<Rightarrow> ('b, 'z tcpw) transport_funcs"

section \<open>Operations\<close>

definition esp_transport_utils_ms_to_timeval :: "int \<Rightarrow> int \<times> int" where
  "esp_transport_utils_ms_to_timeval timeout_ms =
     (let sec = timeout_ms sdiv 1000 in (sec, (timeout_ms - sec * 1000) * 1000))"

definition tcp_of :: "addr \<Rightarrow> 'z tcpw \<Rightarrow> (addr \<times> int) option" where
  "tcp_of t w = do { d \<leftarrow> esp_transport_get_context_data (Some t) w; a \<leftarrow> d; sock \<leftarrow> tcps w a; Some (a, sock) }"

definition set_sock :: "addr \<Rightarrow> int \<Rightarrow> 'z tcpw \<Rightarrow> 'z tcpw" where
  "set_sock a sock w = w\<lparr>tcps := (tcps w)(a \<mapsto> sock)\<rparr>"

definition resolve_dns :: "('b, 'z tcpw) sock_env \<Rightarrow> string \<Rightarrow> 'z tcpw \<Rightarrow> u32 option \<times> 'z tcpw" where
  "resolve_dns S host w = (case se_gethostbyname S host w of (Some (ip # _), w) \<Rightarrow> (Some ip, w) | (_, w) \<Rightarrow> (None, w))"

definition tcp_connect :: "('b, 'z tcpw) sock_env \<Rightarrow> addr \<Rightarrow> string \<Rightarrow> int \<Rightarrow> int \<Rightarrow> 'z tcpw \<Rightarrow> (int \<times> 'z tcpw) option" where
  "tcp_connect S t host port timeout_ms w = do {
     (a, _) \<leftarrow> tcp_of t w;
     let (ip, w) = (case se_inet_pton S host of Some ip \<Rightarrow> (Some ip, w) | None \<Rightarrow> resolve_dns S host w);
     case ip of None \<Rightarrow> Some (-1, w)
     | Some ip \<Rightarrow>
         (let (sock, w) = se_socket S w; w = set_sock a sock w in
          if sock < 0 then Some (-1, w)
          else (let w = se_rcvtimeo S sock (esp_transport_utils_ms_to_timeval timeout_ms) w;
                    (r, w) = se_connect S sock ip (word_of_int port) w in
                if r \<noteq> 0 then Some (-1, set_sock a (-1) (snd (se_close S sock w))) else Some (sock, w))) }"

text \<open>\<open>FD_SET\<close> of a negative descriptor is undefined.\<close>

definition tcp_poll_read :: "('b, 'z tcpw) sock_env \<Rightarrow> addr \<Rightarrow> int \<Rightarrow> 'z tcpw \<Rightarrow> (int \<times> 'z tcpw) option" where
  "tcp_poll_read S t timeout_ms w = do {
     (_, sock) \<leftarrow> tcp_of t w;
     if sock < 0 then None else Some (se_select_read S sock (esp_transport_utils_ms_to_timeval timeout_ms) w) }"

definition tcp_poll_write :: "('b, 'z tcpw) sock_env \<Rightarrow> addr \<Rightarrow> int \<Rightarrow> 'z tcpw \<Rightarrow> (int \<times> 'z tcpw) option" where
  "tcp_poll_write S t timeout_ms w = do {
     (_, sock) \<leftarrow> tcp_of t w;
     if sock < 0 then None else Some (se_select_write S sock (esp_transport_utils_ms_to_timeval timeout_ms) w) }"

definition tcp_write :: "('b, 'z) tcfs \<Rightarrow> ('b, 'z tcpw) sock_env \<Rightarrow> addr \<Rightarrow> 'b list \<Rightarrow> int \<Rightarrow> 'z tcpw \<Rightarrow> (int \<times> 'z tcpw) option" where
  "tcp_write F S t buffer timeout_ms w = do {
     (poll, w) \<leftarrow> esp_transport_poll_write F (Some t) timeout_ms w;
     if poll \<le> 0 then Some (poll, w)
     else do { (_, sock) \<leftarrow> tcp_of t w; Some (se_write S sock buffer w) } }"

definition tcp_read :: "('b, 'z) tcfs \<Rightarrow> ('b, 'z tcpw) sock_env \<Rightarrow> addr \<Rightarrow> 'b list \<Rightarrow> int \<Rightarrow> 'z tcpw \<Rightarrow> ((int \<times> 'b list) \<times> 'z tcpw) option" where
  "tcp_read F S t buffer timeout_ms w = do {
     (poll, w) \<leftarrow> esp_transport_poll_read F (Some t) timeout_ms w;
     if poll \<le> 0 then Some ((poll, buffer), w)
     else do {
       (_, sock) \<leftarrow> tcp_of t w;
       let ((read_len, d), w) = se_read S sock (length buffer) w;
       buffer \<leftarrow> mem_write buffer 0 d;
       Some ((if read_len = 0 then -1 else read_len, buffer), w) } }"

definition tcp_close :: "('b, 'z tcpw) sock_env \<Rightarrow> addr \<Rightarrow> 'z tcpw \<Rightarrow> (int \<times> 'z tcpw) option" where
  "tcp_close S t w = do {
     (a, sock) \<leftarrow> tcp_of t w;
     if sock \<ge> 0 then (let (r, w) = se_close S sock w in Some (r, set_sock a (-1) w)) else Some (-1, w) }"

definition tcp_destroy :: "('b, 'z) tcfs \<Rightarrow> addr \<Rightarrow> 'z tcpw \<Rightarrow> (esp_err \<times> 'z tcpw) option" where
  "tcp_destroy F t w = do {
     (a, _) \<leftarrow> tcp_of t w;
     (_, w) \<leftarrow> esp_transport_close F (Some t) w;
     Some (0, w\<lparr>tcps := (tcps w)(a := None)\<rparr>) }"

text \<open>The functions \<open>esp_transport_tcp_init\<close> registers; \<open>fs\<close> is the address of their table.\<close>

definition tcp_funcs :: "('b, 'z) tcfs \<Rightarrow> ('b, 'z tcpw) sock_env \<Rightarrow> ('b, 'z tcpw) transport_funcs" where
  "tcp_funcs F S = \<lparr>tf_connect = Some (tcp_connect S), tf_read = Some (tcp_read F S), tf_write = Some (tcp_write F S),
     tf_close = Some (tcp_close S), tf_poll_read = Some (tcp_poll_read S), tf_poll_write = Some (tcp_poll_write S),
     tf_destroy = Some (tcp_destroy F), tf_connect_async = None, tf_parent = None\<rparr>"

text \<open>When only one of the two allocations succeeds, what it gave is lost.\<close>

definition esp_transport_tcp_init :: "'z tcpw platform \<Rightarrow> addr \<Rightarrow> 'z tcpw \<Rightarrow> (addr option \<times> 'z tcpw) option" where
  "esp_transport_tcp_init R fs w =
     (let (t, w) = esp_transport_init R w in
      case heap_alloc R 4 w of (None, w) \<Rightarrow> Some (None, w)
      | (Some a, w) \<Rightarrow> do {
          let w = set_sock a (-1) w;
          (_, w) \<leftarrow> esp_transport_set_func t fs w;
          (_, w) \<leftarrow> esp_transport_set_context_data t (Some a) w;
          Some (t, w) })"

section \<open>Reading\<close>

text \<open>A transport of this kind: its item names the table, the table holds these functions, and its context a socket.\<close>

definition is_tcp :: "('b, 'z) tcfs \<Rightarrow> ('b, 'z tcpw) sock_env \<Rightarrow> addr \<Rightarrow> int \<Rightarrow> 'z tcpw \<Rightarrow> bool" where
  "is_tcp F S t sock w \<longleftrightarrow> (\<exists>i fs a. tps w t = Some i \<and> tp_funcs i = Some fs \<and> F fs = tcp_funcs F S \<and> tp_data i = Some a \<and> tcps w a = Some sock)"

lemma is_tcp_of: "is_tcp F S t sock w \<Longrightarrow> \<exists>a. tcp_of t w = Some (a, sock)"
  by (auto simp: is_tcp_def tcp_of_def esp_transport_get_context_data_def)

lemma is_tcp_func: "is_tcp F S t sock w \<Longrightarrow> tp_func F sel t w = Some (sel (tcp_funcs F S))"
  by (auto simp: is_tcp_def tp_func_def)

text \<open>What the descriptors promise: waiting and reading leave the table of transports alone, and a read stores what it reports.\<close>

definition sock_law :: "('b, 'z tcpw) sock_env \<Rightarrow> bool" where
  "sock_law S \<longleftrightarrow> (\<forall>k tv w. tps (snd (se_select_read S k tv w)) = tps w \<and> tcps (snd (se_select_read S k tv w)) = tcps w) \<and>
     (\<forall>k n w r d w'. se_read S k n w = ((r, d), w') \<longrightarrow> length d = nat r \<and> length d \<le> n)"

lemma is_tcp_cong: "tps w' = tps w \<Longrightarrow> tcps w' = tcps w \<Longrightarrow> is_tcp F S t k w' = is_tcp F S t k w"
  by (simp add: is_tcp_def)

lemma tcp_read_cases:
  assumes "is_tcp F S t sock w" "0 \<le> sock" "sock_law S" "se_select_read S sock (esp_transport_utils_ms_to_timeval ms) w = (p, w1)"
  shows "esp_transport_read F (Some t) buf ms w = (if p \<le> 0 then Some ((p, buf), w1)
     else let ((n, d), w2) = se_read S sock (length buf) w1 in Some ((if n = 0 then -1 else n, d @ drop (length d) buf), w2))"
proof -
  have 1: "is_tcp F S t sock w1"
    using assms(1,3,4) is_tcp_cong [of w1 w] unfolding sock_law_def by (metis snd_conv)
  have "length d \<le> length buf" if "se_read S sock (length buf) w1 = ((n, d), w2)" for n d w2
    using assms(3) that unfolding sock_law_def by blast
  with 1 show ?thesis using assms(1,2,4) is_tcp_of [OF assms(1)] is_tcp_of [OF 1]
    by (auto simp: esp_transport_read_def is_tcp_func tcp_funcs_def tcp_read_def esp_transport_poll_read_def tcp_poll_read_def
        split: prod.splits)
qed

end
