(* ===== verification/Http_Client.thy ===== *)
theory Http_Client
  imports Http_Auth Transport_Tcp
begin

text \<open>
  The HTTP client (\<open>components/esp_http_client/esp_http_client.c\<close>). The state is the client and the world of the transports.
  The parser for responses and addresses is a component outside the repository: \<open>hp_execute\<close> gives the callbacks it makes for a piece
  of data, in order, with positions in that piece. It, the functions of the transports, the handler of events, the random
  numbers, the hash functions, the sizes of the parser's structures and what fresh memory holds are the parameter \<open>client_env\<close>. The handler does not call the client. HTTPS is not compiled in.
  Counters are unbounded, which is right below two gigabytes.
\<close>

section \<open>Data\<close>

abbreviation (input) HTTP_STATE_UNINIT :: int where "HTTP_STATE_UNINIT \<equiv> 0"
abbreviation (input) HTTP_STATE_INIT :: int where "HTTP_STATE_INIT \<equiv> 1"
abbreviation (input) HTTP_STATE_CONNECTED :: int where "HTTP_STATE_CONNECTED \<equiv> 2"
abbreviation (input) HTTP_STATE_REQ_COMPLETE_HEADER :: int where "HTTP_STATE_REQ_COMPLETE_HEADER \<equiv> 3"
abbreviation (input) HTTP_STATE_REQ_COMPLETE_DATA :: int where "HTTP_STATE_REQ_COMPLETE_DATA \<equiv> 4"
abbreviation (input) HTTP_STATE_RES_COMPLETE_HEADER :: int where "HTTP_STATE_RES_COMPLETE_HEADER \<equiv> 5"

abbreviation (input) HTTP_METHOD_POST :: int where "HTTP_METHOD_POST \<equiv> 1"
abbreviation (input) HTTP_METHOD_HEAD :: int where "HTTP_METHOD_HEAD \<equiv> 5"
abbreviation (input) HTTP_AUTH_TYPE_NONE :: int where "HTTP_AUTH_TYPE_NONE \<equiv> 0"
abbreviation (input) HTTP_AUTH_TYPE_BASIC :: int where "HTTP_AUTH_TYPE_BASIC \<equiv> 1"
abbreviation (input) HTTP_AUTH_TYPE_DIGEST :: int where "HTTP_AUTH_TYPE_DIGEST \<equiv> 2"

abbreviation (input) ESP_ERR_HTTP_MAX_REDIRECT :: int where "ESP_ERR_HTTP_MAX_REDIRECT \<equiv> 0x7001"
abbreviation (input) ESP_ERR_HTTP_CONNECT :: int where "ESP_ERR_HTTP_CONNECT \<equiv> 0x7002"
abbreviation (input) ESP_ERR_HTTP_WRITE_DATA :: int where "ESP_ERR_HTTP_WRITE_DATA \<equiv> 0x7003"
abbreviation (input) ESP_ERR_HTTP_FETCH_HEADER :: int where "ESP_ERR_HTTP_FETCH_HEADER \<equiv> 0x7004"
abbreviation (input) ESP_ERR_HTTP_INVALID_TRANSPORT :: int where "ESP_ERR_HTTP_INVALID_TRANSPORT \<equiv> 0x7005"
abbreviation (input) ESP_ERR_HTTP_CONNECTING :: int where "ESP_ERR_HTTP_CONNECTING \<equiv> 0x7006"
abbreviation (input) ESP_ERR_HTTP_EAGAIN :: int where "ESP_ERR_HTTP_EAGAIN \<equiv> 0x7007"

definition HTTP_METHOD_MAPPING :: "string list" where
  "HTTP_METHOD_MAPPING = [''GET'', ''POST'', ''PUT'', ''PATCH'', ''DELETE'', ''HEAD'', ''NOTIFY'', ''SUBSCRIBE'', ''UNSUBSCRIBE'', ''OPTIONS'']"

record connection_info =
  ci_scheme :: "string option"
  ci_host :: "string option"
  ci_port :: int
  ci_username :: "string option"
  ci_password :: "string option"
  ci_path :: "string option"
  ci_query :: "string option"
  ci_method :: int
  ci_auth_type :: int

text \<open>The response's buffer: its memory, the offset \<open>raw_data\<close> in it and \<open>raw_len\<close>; \<open>output_ptr\<close> with the buffer of the caller it points into.\<close>

record 'p http_client =
  hc_redirect_counter :: int
  hc_max_redirection_count :: int
  hc_process_again :: bool
  hc_parser :: 'p
  hc_list :: "addr option"
  hc_transport :: "addr option"
  hc_headers :: "http_header option"
  hc_req_data :: string
  hc_res_data :: string
  hc_raw_data :: nat
  hc_raw_len :: int
  hc_output :: "(string \<times> nat) option"
  hc_status_code :: int
  hc_content_length :: int
  hc_data_offset :: int
  hc_data_process :: int
  hc_is_chunked :: bool
  hc_auth_data :: esp_http_auth_data
  hc_post_data :: "string option"
  hc_location :: "string option"
  hc_auth_header :: "string option"
  hc_key :: "string option"
  hc_value :: "string option"
  hc_post_len :: int
  hc_info :: connection_info
  hc_chunk_complete :: bool
  hc_state :: int
  hc_handler :: bool
  hc_timeout_ms :: int
  hc_buffer_size :: int
  hc_no_redirect :: bool
  hc_written_index :: int
  hc_write_left :: int
  hc_first_line_prepared :: bool
  hc_header_index :: int
  hc_is_async :: bool

datatype http_event = HTTP_EVENT_ON_CONNECTED | HTTP_EVENT_ON_HEADER string string | HTTP_EVENT_ON_DATA string | HTTP_EVENT_ON_FINISH | HTTP_EVENT_DISCONNECTED

text \<open>The callbacks of the parser; \<open>On_headers_complete\<close> has the status, the length of the header and of the content.\<close>

datatype hp_event = On_message_begin | On_url | On_status | On_header_field nat nat | On_header_value nat nat
  | On_headers_complete int int u64 | On_body nat nat | On_message_complete | On_chunk_complete

text \<open>The parts of an address, each \<open>None\<close> when it is empty.\<close>

record http_parser_url =
  pu_schema :: "string option"
  pu_host :: "string option"
  pu_port :: "int option"
  pu_userinfo :: "string option"
  pu_path :: "string option"
  pu_query :: "string option"

record ('p, 'z) client_env =
  he_platform :: "'z tpw platform"
  he_funcs :: "(char, 'z) tfs"
  hp_init :: 'p
  hp_execute :: "'p \<Rightarrow> string \<Rightarrow> hp_event list \<times> 'p"
  hp_keep_alive :: "'p \<Rightarrow> bool"
  hp_parse_url :: "string \<Rightarrow> http_parser_url option"
  hp_sizeof :: "nat \<times> nat"
  he_event :: "http_event \<Rightarrow> 'z tpw \<Rightarrow> 'z tpw"
  he_random :: "'z tpw \<Rightarrow> u32 \<times> 'z tpw"
  he_md5 :: "string \<Rightarrow> u8 list"
  he_base64 :: "string \<Rightarrow> string"
  he_errno :: "'z tpw \<Rightarrow> int"
  he_fresh :: "nat \<Rightarrow> 'z tpw \<Rightarrow> char"

abbreviation (input) EAGAIN :: int where "EAGAIN \<equiv> 11"

type_synonym ('p, 'z) hcs = "'p http_client \<times> 'z tpw"

section \<open>Callbacks of the parser\<close>

definition http_dispatch_event :: "('p, 'z) client_env \<Rightarrow> http_event \<Rightarrow> ('p, 'z) hcs \<Rightarrow> ('p, 'z) hcs" where
  "http_dispatch_event E ev s = (fst s, if hc_handler (fst s) then he_event E ev (snd s) else snd s)"

text \<open>\<open>http_utils_assign_string(&str, at, length)\<close> for a position in the data: with length 0 it takes all up to a terminator.\<close>

definition assign_at :: "('p, 'z) client_env \<Rightarrow> string option \<Rightarrow> string \<Rightarrow> nat \<Rightarrow> nat \<Rightarrow> 'z tpw \<Rightarrow> (string option \<times> 'z tpw) option" where
  "assign_at E str data off len w = do {
     s \<leftarrow> (if len = 0 then (if NUL \<in> set (drop off data) then Some (takeWhile (\<lambda>c. c \<noteq> NUL) (drop off data)) else None)
           else mem_read data off len);
     (_, str, w) \<leftarrow> http_utils_assign_string (he_platform E) str (Some s) 0 w;
     Some (str, w) }"

definition http_on_message_begin :: "('p, 'z) hcs \<Rightarrow> ('p, 'z) hcs" where
  "http_on_message_begin s = ((fst s)\<lparr>hc_is_chunked := False, hc_chunk_complete := False\<rparr>, snd s)"

definition http_on_header_field :: "('p, 'z) client_env \<Rightarrow> nat \<Rightarrow> nat \<Rightarrow> ('p, 'z) hcs \<Rightarrow> ('p, 'z) hcs option" where
  "http_on_header_field E off len s = do {
     (k, w) \<leftarrow> assign_at E (hc_key (fst s)) (hc_res_data (fst s)) off len (snd s);
     Some ((fst s)\<lparr>hc_key := k\<rparr>, w) }"

definition http_on_header_value :: "('p, 'z) client_env \<Rightarrow> nat \<Rightarrow> nat \<Rightarrow> ('p, 'z) hcs \<Rightarrow> ('p, 'z) hcs option" where
  "http_on_header_value E off len s =
     (case hc_key (fst s) of None \<Rightarrow> Some s
      | Some key \<Rightarrow> do {
          let (c, w) = s;
          let data = hc_res_data c;
          at \<leftarrow> mem_read data off len;
          (c, w) \<leftarrow> (if strcaseeq key ''Location'' then do {
                       (l, w) \<leftarrow> assign_at E (hc_location c) data off len w; Some (c\<lparr>hc_location := l\<rparr>, w) }
                     else if strcaseeq key ''Transfer-Encoding'' \<and> take len ''chunked'' = at then Some (c\<lparr>hc_is_chunked := True\<rparr>, w)
                     else if strcaseeq key ''WWW-Authenticate'' then do {
                       (a, w) \<leftarrow> assign_at E (hc_auth_header c) data off len w; Some (c\<lparr>hc_auth_header := a\<rparr>, w) }
                     else Some (c, w));
          (v, w) \<leftarrow> assign_at E (hc_value c) data off len w;
          let (c, w) = http_dispatch_event E (HTTP_EVENT_ON_HEADER key (case v of None \<Rightarrow> [] | Some t \<Rightarrow> t)) (c, w);
          Some (c\<lparr>hc_key := None, hc_value := None\<rparr>, w) })"

definition http_on_headers_complete :: "int \<Rightarrow> int \<Rightarrow> u64 \<Rightarrow> ('p, 'z) hcs \<Rightarrow> ('p, 'z) hcs" where
  "http_on_headers_complete status nread clen s =
     ((fst s)\<lparr>hc_status_code := status, hc_content_length := sint (ucast clen :: u32), hc_data_offset := nread, hc_data_process := 0,
        hc_state := HTTP_STATE_RES_COMPLETE_HEADER\<rparr>, snd s)"

definition http_on_body :: "('p, 'z) client_env \<Rightarrow> nat \<Rightarrow> nat \<Rightarrow> ('p, 'z) hcs \<Rightarrow> ('p, 'z) hcs option" where
  "http_on_body E off len s = do {
     let c = (fst s)\<lparr>hc_raw_data := off\<rparr>;
     at \<leftarrow> mem_read (hc_res_data c) off len;
     c \<leftarrow> (case hc_output c of None \<Rightarrow> Some c
           | Some (b, p) \<Rightarrow> do { b \<leftarrow> mem_write b p at; Some (c\<lparr>hc_output := Some (b, p + len)\<rparr>) });
     Some (http_dispatch_event E (HTTP_EVENT_ON_DATA at)
       (c\<lparr>hc_raw_len := hc_raw_len c + int len, hc_data_process := hc_data_process c + int len\<rparr>, snd s)) }"

definition http_on_message_complete :: "('p, 'z) hcs \<Rightarrow> ('p, 'z) hcs" where
  "http_on_message_complete s = ((fst s)\<lparr>hc_chunk_complete := True\<rparr>, snd s)"

text \<open>The settings given to the parser: the callback for each event.\<close>

definition hp_callback :: "('p, 'z) client_env \<Rightarrow> hp_event \<Rightarrow> ('p, 'z) hcs \<Rightarrow> ('p, 'z) hcs option" where
  "hp_callback E ev s = (case ev of
       On_message_begin \<Rightarrow> Some (http_on_message_begin s)
     | On_header_field off len \<Rightarrow> http_on_header_field E off len s
     | On_header_value off len \<Rightarrow> http_on_header_value E off len s
     | On_headers_complete st n l \<Rightarrow> Some (http_on_headers_complete st n l s)
     | On_body off len \<Rightarrow> http_on_body E off len s
     | On_message_complete \<Rightarrow> Some (http_on_message_complete s)
     | _ \<Rightarrow> Some s)"

fun hp_callbacks :: "('p, 'z) client_env \<Rightarrow> hp_event list \<Rightarrow> ('p, 'z) hcs \<Rightarrow> ('p, 'z) hcs option" where
  "hp_callbacks E [] s = Some s"
| "hp_callbacks E (ev # evs) s = do { s \<leftarrow> hp_callback E ev s; hp_callbacks E evs s }"

text \<open>\<open>http_parser_execute\<close> on the first \<open>n\<close> bytes of the response's buffer.\<close>

definition http_parser_execute :: "('p, 'z) client_env \<Rightarrow> int \<Rightarrow> ('p, 'z) hcs \<Rightarrow> ('p, 'z) hcs option" where
  "http_parser_execute E n s =
     (let (evs, p) = hp_execute E (hc_parser (fst s)) (take (nat n) (hc_res_data (fst s)))
      in hp_callbacks E evs ((fst s)\<lparr>hc_parser := p\<rparr>, snd s))"

section \<open>Headers, requests and responses\<close>

definition esp_http_client_set_header :: "('p, 'z) client_env \<Rightarrow> string \<Rightarrow> string option \<Rightarrow> ('p, 'z) hcs \<Rightarrow> (esp_err \<times> ('p, 'z) hcs) option" where
  "esp_http_client_set_header E key v s = do {
     (err, h, w) \<leftarrow> http_header_set (he_platform E) (hc_headers (fst s)) (Some key) v (snd s);
     Some (err, ((fst s)\<lparr>hc_headers := h\<rparr>, w)) }"

definition esp_http_client_get_header :: "string \<Rightarrow> ('p, 'z) hcs \<Rightarrow> esp_err \<times> string option" where
  "esp_http_client_get_header key s = http_header_get (hc_headers (fst s)) (Some key)"

definition esp_http_client_delete_header :: "string \<Rightarrow> ('p, 'z) hcs \<Rightarrow> esp_err \<times> ('p, 'z) hcs" where
  "esp_http_client_delete_header key s =
     (let (err, h) = http_header_delete (hc_headers (fst s)) (Some key) in (err, ((fst s)\<lparr>hc_headers := h\<rparr>, snd s)))"

definition esp_http_client_set_method :: "int \<Rightarrow> 'p http_client \<Rightarrow> 'p http_client" where
  "esp_http_client_set_method m c = c\<lparr>hc_info := (hc_info c)\<lparr>ci_method := m\<rparr>\<rparr>"

definition esp_http_client_close :: "('p, 'z) client_env \<Rightarrow> ('p, 'z) hcs \<Rightarrow> (esp_err \<times> ('p, 'z) hcs) option" where
  "esp_http_client_close E s =
     (if hc_state (fst s) \<ge> HTTP_STATE_INIT then do {
        let (c, w) = http_dispatch_event E HTTP_EVENT_DISCONNECTED s;
        let c = c\<lparr>hc_state := HTTP_STATE_INIT\<rparr>;
        (r, w) \<leftarrow> esp_transport_close (he_funcs E) (hc_transport c) w;
        Some (r, (c, w)) }
      else Some (ESP_OK, s))"

text \<open>The two random words are drawn in the order they are written. The counter moves also when no header results.\<close>

definition esp_http_client_prepare :: "('p, 'z) client_env \<Rightarrow> ('p, 'z) hcs \<Rightarrow> ('p, 'z) hcs option" where
  "esp_http_client_prepare E s = do {
     let (c, w) = s;
     let c = c\<lparr>hc_process_again := False, hc_parser := hp_init E, hc_data_process := 0, hc_first_line_prepared := False\<rparr>;
     let i = hc_info c;
     case ci_username i of None \<Rightarrow> Some (c, w)
     | Some _ \<Rightarrow> do {
         (resp, c, w) \<leftarrow>
           (if ci_auth_type i = HTTP_AUTH_TYPE_BASIC then do {
              (r, w) \<leftarrow> http_auth_basic (he_platform E) (he_base64 E) (ci_username i) (ci_password i) w; Some (r, c, w) }
            else if ci_auth_type i = HTTP_AUTH_TYPE_DIGEST then do {
              let (x, w) = he_random E w;
              let (y, w) = he_random E w;
              let ad = (hc_auth_data c)\<lparr>ad_uri := ci_path i, ad_cnonce := push_bit 32 (ucast x) + ucast y\<rparr>;
              (r, w) \<leftarrow> http_auth_digest (he_platform E) (he_md5 E) (ci_username i) (ci_password i) ad w;
              Some (r, c\<lparr>hc_auth_data := ad\<lparr>ad_nc := ad_nc ad + 1\<rparr>\<rparr>, w) }
            else Some (None, c, w));
         case resp of None \<Rightarrow> Some (c, w)
         | Some r \<Rightarrow> do { (_, s) \<leftarrow> esp_http_client_set_header E ''Authorization'' (Some r) (c, w); Some s } } }"

section \<open>Addresses\<close>

definition set_info :: "(connection_info \<Rightarrow> connection_info) \<Rightarrow> 'p http_client \<Rightarrow> 'p http_client" where
  "set_info f c = c\<lparr>hc_info := f (hc_info c)\<rparr>"

text \<open>Assigning a part of the connection; the allocation that fails does not return.\<close>

definition assign_info ::
  "('p, 'z) client_env \<Rightarrow> string option \<Rightarrow> string \<Rightarrow> ('p, 'z) hcs \<Rightarrow> (string option \<Rightarrow> connection_info \<Rightarrow> connection_info) \<Rightarrow> ('p, 'z) hcs option" where
  "assign_info E old new s f = do {
     (_, str, w) \<leftarrow> http_utils_assign_string (he_platform E) old (Some new) 0 (snd s);
     Some (set_info (f str) (fst s), w) }"

text \<open>\<open>strdup\<close>, \<open>None\<close> when it cannot allocate.\<close>

definition strdup :: "('p, 'z) client_env \<Rightarrow> string \<Rightarrow> 'z tpw \<Rightarrow> string option \<times> 'z tpw" where
  "strdup E str w = (let (a, w) = heap_alloc (he_platform E) (length str + 1) w in (map_option (\<lambda>_. str) a, w))"

text \<open>The host: the copy of the old one may fail, and then no change is seen. Result: whether to go on.\<close>

definition set_url_host :: "('p, 'z) client_env \<Rightarrow> http_parser_url \<Rightarrow> ('p, 'z) hcs \<Rightarrow> (bool \<times> ('p, 'z) hcs) option" where
  "set_url_host E purl s = do {
     let (c, w) = s;
     let (old_host, w) = (case ci_host (hc_info c) of None \<Rightarrow> (None, w) | Some h \<Rightarrow> strdup E h w);
     (c, w) \<leftarrow> (case pu_host purl of None \<Rightarrow> Some (c, w)
        | Some h \<Rightarrow> assign_info E (ci_host (hc_info c)) h (c, w) (\<lambda>v i. i\<lparr>ci_host := v\<rparr>));
     case (old_host, ci_host (hc_info c)) of
       (Some old, Some h) \<Rightarrow>
         if \<not> strcaseeq old h then do {
           (err, s) \<leftarrow> esp_http_client_set_header E ''Host'' (Some h) (c, w);
           if err \<noteq> ESP_OK then Some (False, s) else do { (_, s) \<leftarrow> esp_http_client_close E s; Some (True, s) } }
         else Some (True, (c, w))
     | _ \<Rightarrow> Some (True, (c, w)) }"

definition set_url_port :: "('p, 'z) client_env \<Rightarrow> http_parser_url \<Rightarrow> int \<Rightarrow> ('p, 'z) hcs \<Rightarrow> ('p, 'z) hcs option" where
  "set_url_port E purl old_port s = do {
     s \<leftarrow> (case pu_schema purl of None \<Rightarrow> Some s
        | Some sch \<Rightarrow> do {
            (c, w) \<leftarrow> assign_info E (ci_scheme (hc_info (fst s))) sch s (\<lambda>v i. i\<lparr>ci_scheme := v\<rparr>);
            Some (if strcaseeq sch ''http'' then set_info (\<lambda>i. i\<lparr>ci_port := 80\<rparr>) c
                  else if strcaseeq sch ''https'' then set_info (\<lambda>i. i\<lparr>ci_port := 443\<rparr>) c else c, w) });
     let c = (case pu_port purl of None \<Rightarrow> fst s | Some p \<Rightarrow> set_info (\<lambda>i. i\<lparr>ci_port := p\<rparr>) (fst s));
     if old_port \<noteq> ci_port (hc_info c) then do { (_, s) \<leftarrow> esp_http_client_close E (c, snd s); Some s } else Some (c, snd s) }"

definition set_url_user :: "('p, 'z) client_env \<Rightarrow> http_parser_url \<Rightarrow> ('p, 'z) hcs \<Rightarrow> ('p, 'z) hcs option" where
  "set_url_user E purl s =
     (case pu_userinfo purl of
        None \<Rightarrow> Some (set_info (\<lambda>i. i\<lparr>ci_username := None, ci_password := None\<rparr>) (fst s), snd s)
      | Some ui \<Rightarrow> do {
          (_, _, w) \<leftarrow> http_utils_assign_string (he_platform E) None (Some ui) 0 (snd s);
          let c = fst s;
          let user = takeWhile (\<lambda>x. x \<noteq> CHR '':'') ui;
          s \<leftarrow> (case dropWhile (\<lambda>x. x \<noteq> CHR '':'') ui of [] \<Rightarrow> Some (c, w)
             | _ # pw \<Rightarrow> assign_info E (ci_password (hc_info c)) pw (c, w) (\<lambda>v i. i\<lparr>ci_password := v\<rparr>));
          assign_info E (ci_username (hc_info (fst s))) user s (\<lambda>v i. i\<lparr>ci_username := v\<rparr>) })"

definition set_url_path :: "('p, 'z) client_env \<Rightarrow> http_parser_url \<Rightarrow> ('p, 'z) hcs \<Rightarrow> ('p, 'z) hcs option" where
  "set_url_path E purl s = do {
     s \<leftarrow> assign_info E (ci_path (hc_info (fst s))) (case pu_path purl of None \<Rightarrow> ''/'' | Some p \<Rightarrow> p) s (\<lambda>v i. i\<lparr>ci_path := v\<rparr>);
     case pu_query purl of
       None \<Rightarrow> Some (set_info (\<lambda>i. i\<lparr>ci_query := None\<rparr>) (fst s), snd s)
     | Some q \<Rightarrow> assign_info E (ci_query (hc_info (fst s))) q s (\<lambda>v i. i\<lparr>ci_query := v\<rparr>) }"

definition esp_http_client_set_url :: "('p, 'z) client_env \<Rightarrow> string option \<Rightarrow> ('p, 'z) hcs \<Rightarrow> (esp_err \<times> ('p, 'z) hcs) option" where
  "esp_http_client_set_url E url s =
     (case url of None \<Rightarrow> Some (ESP_ERR_INVALID_ARG, s)
      | Some u \<Rightarrow> (case hp_parse_url E u of None \<Rightarrow> Some (ESP_ERR_INVALID_ARG, s)
          | Some purl \<Rightarrow> do {
              let old_port = ci_port (hc_info (fst s));
              (ok, s) \<leftarrow> set_url_host E purl s;
              if \<not> ok then Some (ESP_ERR_NO_MEM, s)
              else do {
                s \<leftarrow> set_url_port E purl old_port s;
                s \<leftarrow> set_url_user E purl s;
                s \<leftarrow> set_url_path E purl s;
                Some (ESP_OK, s) } }))"

definition esp_http_client_set_redirection :: "('p, 'z) client_env \<Rightarrow> ('p, 'z) hcs \<Rightarrow> (esp_err \<times> ('p, 'z) hcs) option" where
  "esp_http_client_set_redirection E s =
     (case hc_location (fst s) of None \<Rightarrow> Some (ESP_ERR_INVALID_ARG, s) | Some l \<Rightarrow> esp_http_client_set_url E (Some l) s)"

section \<open>Creating and destroying a client\<close>

record esp_http_client_config =
  hcc_url :: "string option"
  hcc_host :: "string option"
  hcc_port :: int
  hcc_username :: "string option"
  hcc_password :: "string option"
  hcc_auth_type :: int
  hcc_path :: "string option"
  hcc_query :: "string option"
  hcc_method :: int
  hcc_timeout_ms :: int
  hcc_no_redirect :: bool
  hcc_max_redirection_count :: int
  hcc_handler :: bool
  hcc_transport_type :: int
  hcc_buffer_size :: int
  hcc_is_async :: bool

abbreviation (input) HTTP_TRANSPORT_UNKNOWN :: int where "HTTP_TRANSPORT_UNKNOWN \<equiv> 0"
abbreviation (input) HTTP_TRANSPORT_OVER_TCP :: int where "HTTP_TRANSPORT_OVER_TCP \<equiv> 1"
abbreviation (input) HTTP_TRANSPORT_OVER_SSL :: int where "HTTP_TRANSPORT_OVER_SSL \<equiv> 2"

definition no_info :: connection_info where
  "no_info = \<lparr>ci_scheme = None, ci_host = None, ci_port = 0, ci_username = None, ci_password = None, ci_path = None, ci_query = None,
     ci_method = 0, ci_auth_type = 0\<rparr>"

definition clear_connection_info :: "'p http_client \<Rightarrow> 'p http_client" where
  "clear_connection_info c = c\<lparr>hc_info := no_info\<rparr>"

definition clear_auth_data :: "'p http_client \<Rightarrow> 'p http_client" where
  "clear_auth_data c = c\<lparr>hc_auth_data := no_auth\<rparr>"

text \<open>One optional text of the configuration: \<open>clear\<close> tells whether its failure clears what was set before.\<close>

definition config_text ::
  "('p, 'z) client_env \<Rightarrow> bool \<Rightarrow> string option \<Rightarrow> (string option \<Rightarrow> connection_info \<Rightarrow> connection_info) \<Rightarrow> ('p, 'z) hcs \<Rightarrow> bool \<times> ('p, 'z) hcs" where
  "config_text E clear v f s =
     (case v of None \<Rightarrow> (True, s)
      | Some x \<Rightarrow> (case strdup E x (snd s) of
          (None, w) \<Rightarrow> (False, (if clear then clear_connection_info (fst s) else set_info (f None) (fst s), w))
        | (d, w) \<Rightarrow> (True, (set_info (f d) (fst s), w))))"

fun config_texts ::
  "('p, 'z) client_env \<Rightarrow> (bool \<times> string option \<times> (string option \<Rightarrow> connection_info \<Rightarrow> connection_info)) list \<Rightarrow> ('p, 'z) hcs \<Rightarrow> bool \<times> ('p, 'z) hcs" where
  "config_texts E [] s = (True, s)"
| "config_texts E ((clear, v, f) # xs) s =
     (let (ok, s) = config_text E clear v f s in if ok then config_texts E xs s else (False, s))"

definition set_config :: "('p, 'z) client_env \<Rightarrow> esp_http_client_config \<Rightarrow> ('p, 'z) hcs \<Rightarrow> (esp_err \<times> ('p, 'z) hcs) option" where
  "set_config E cfg s = do {
     let c = set_info (\<lambda>i. i\<lparr>ci_method := hcc_method cfg, ci_port := hcc_port cfg, ci_auth_type := hcc_auth_type cfg\<rparr>) (fst s);
     let c = c\<lparr>hc_handler := hcc_handler cfg, hc_timeout_ms := hcc_timeout_ms cfg,
        hc_max_redirection_count := (if hcc_max_redirection_count cfg = 0 then 10 else hcc_max_redirection_count cfg),
        hc_buffer_size := (if hcc_buffer_size cfg = 0 then 512 else hcc_buffer_size cfg), hc_no_redirect := hcc_no_redirect cfg\<rparr>;
     let (ok, s) = config_texts E [
        (False, Some (case hcc_path cfg of None \<Rightarrow> ''/'' | Some p \<Rightarrow> p), \<lambda>v i. i\<lparr>ci_path := v\<rparr>),
        (True, hcc_host cfg, \<lambda>v i. i\<lparr>ci_host := v\<rparr>),
        (True, hcc_query cfg, \<lambda>v i. i\<lparr>ci_query := v\<rparr>),
        (True, hcc_username cfg, \<lambda>v i. i\<lparr>ci_username := v\<rparr>),
        (True, hcc_password cfg, \<lambda>v i. i\<lparr>ci_password := v\<rparr>)] (c, snd s);
     if \<not> ok then Some (ESP_ERR_NO_MEM, s)
     else do {
       let ssl = (hcc_transport_type cfg = HTTP_TRANSPORT_OVER_SSL);
       (c, w) \<leftarrow> assign_info E (ci_scheme (hc_info (fst s))) (if ssl then ''https'' else ''http'') s (\<lambda>v i. i\<lparr>ci_scheme := v\<rparr>);
       let c = set_info (\<lambda>i. if ci_port i = 0 then i\<lparr>ci_port := (if ssl then 443 else 80)\<rparr> else i) c;
       let c = c\<lparr>hc_timeout_ms := (if hc_timeout_ms c = 0 then 5000 else hc_timeout_ms c), hc_is_async := hcc_is_async cfg \<or> hc_is_async c\<rparr>;
       Some (ESP_OK, (c, w)) } }"

text \<open>The list of transports and the header of the request are dereferenced.\<close>

definition esp_http_client_cleanup :: "('p, 'z) client_env \<Rightarrow> ('p, 'z) hcs \<Rightarrow> (esp_err \<times> 'z tpw) option" where
  "esp_http_client_cleanup E s = do {
     (_, c, w) \<leftarrow> esp_http_client_close E s;
     l \<leftarrow> hc_list c;
     (_, w) \<leftarrow> esp_transport_list_destroy (he_funcs E) l w;
     _ \<leftarrow> http_header_destroy (hc_headers c);
     Some (ESP_OK, w) }"

text \<open>A zeroed client with the header of its request and its list of transports. No data reaches the parser before it is initialised.\<close>

definition new_client :: "'p \<Rightarrow> http_header \<Rightarrow> addr \<Rightarrow> 'p http_client" where
  "new_client p h l = \<lparr>hc_redirect_counter = 0, hc_max_redirection_count = 0, hc_process_again = False, hc_parser = p, hc_list = Some l,
     hc_transport = None, hc_headers = Some h, hc_req_data = [], hc_res_data = [], hc_raw_data = 0, hc_raw_len = 0, hc_output = None,
     hc_status_code = 0, hc_content_length = 0, hc_data_offset = 0, hc_data_process = 0, hc_is_chunked = False, hc_auth_data = no_auth,
     hc_post_data = None, hc_location = None, hc_auth_header = None, hc_key = None, hc_value = None, hc_post_len = 0, hc_info = no_info,
     hc_chunk_complete = False, hc_state = HTTP_STATE_UNINIT, hc_handler = False, hc_timeout_ms = 0, hc_buffer_size = 0, hc_no_redirect = False,
     hc_written_index = 0, hc_write_left = 0, hc_first_line_prepared = False, hc_header_index = 0, hc_is_async = False\<rparr>"

fun alloc_all :: "'w platform \<Rightarrow> nat list \<Rightarrow> 'w \<Rightarrow> 'w option" where
  "alloc_all R [] w = Some w"
| "alloc_all R (n # ns) w = (case heap_alloc R n w of (None, w) \<Rightarrow> None | (Some _, w) \<Rightarrow> alloc_all R ns w)"

definition init_fails :: "('p, 'z) client_env \<Rightarrow> ('p, 'z) hcs \<Rightarrow> (('p http_client) option \<times> 'z tpw) option" where
  "init_fails E s = do { (_, w) \<leftarrow> esp_http_client_cleanup E s; Some (None, w) }"

text \<open>The buffers, and the address, agent and host the configuration gives. \<close>

definition init_buffers :: "('p, 'z) client_env \<Rightarrow> ('p, 'z) hcs \<Rightarrow> bool \<times> ('p, 'z) hcs" where
  "init_buffers E s =
     (let (c, w) = s; n = unat (word_of_int (hc_buffer_size c) :: u32);
          (a, w) = heap_alloc (he_platform E) n w in
      if a = None then (False, (c, w))
      else let c = c\<lparr>hc_req_data := map (\<lambda>i. he_fresh E i w) [0..<n]\<rparr>; (a, w) = heap_alloc (he_platform E) n w in
           if a = None then (False, (c, w)) else (True, (c\<lparr>hc_res_data := map (\<lambda>i. he_fresh E i w) [0..<n]\<rparr>, w)))"

definition init_request :: "('p, 'z) client_env \<Rightarrow> string option \<Rightarrow> ('p, 'z) hcs \<Rightarrow> (bool \<times> ('p, 'z) hcs) option" where
  "init_request E url s = do {
     (err, s) \<leftarrow> esp_http_client_set_url E url s;
     if err \<noteq> ESP_OK then Some (False, s)
     else do {
       (err, s) \<leftarrow> esp_http_client_set_header E ''User-Agent'' (Some ''ESP32 HTTP Client/1.0'') s;
       if err \<noteq> ESP_OK then Some (False, s)
       else do {
         (err, s) \<leftarrow> esp_http_client_set_header E ''Host'' (ci_host (hc_info (fst s))) s;
         Some (err = ESP_OK, s) } } }"

definition init_transports ::
  "('p, 'z tcp_world_ext) client_env \<Rightarrow> addr \<Rightarrow> addr \<Rightarrow> 'z tcpw \<Rightarrow> (bool \<times> 'z tcpw) option" where
  "init_transports E fs l w = do {
     (tcp, w) \<leftarrow> esp_transport_tcp_init (he_platform E) fs w;
     if tcp = None then Some (False, w)
     else do {
       (err, w) \<leftarrow> esp_transport_set_default_port tcp 80 w;
       if err \<noteq> ESP_OK then Some (False, w)
       else do { (err, w) \<leftarrow> esp_transport_list_add (he_platform E) (Some l) tcp ''http'' w; Some (err = ESP_OK, w) } } }"

text \<open>When an allocation before the list of transports fails, the cleanup dereferences null: the result is \<open>None\<close>. The
  response's header is created and never used. \<open>fs\<close> is the table of the TCP functions.\<close>

definition esp_http_client_init ::
  "('p, 'z tcp_world_ext) client_env \<Rightarrow> addr \<Rightarrow> esp_http_client_config \<Rightarrow> 'z tcpw \<Rightarrow> (('p http_client) option \<times> 'z tcpw) option" where
  "esp_http_client_init E fs cfg w =
     (let R = he_platform E in
      case heap_alloc R 192 w of (None, w) \<Rightarrow> Some (None, w)
      | (Some _, w) \<Rightarrow> do {
          w \<leftarrow> alloc_all R [fst (hp_sizeof E), snd (hp_sizeof E), 48, 32] w;
          let (h, w) = http_header_init R w;
          h \<leftarrow> h;
          w \<leftarrow> alloc_all R [20, 32] w;
          let (rh, w) = http_header_init R w;
          _ \<leftarrow> rh;
          w \<leftarrow> alloc_all R [20] w;
          let (l, w) = esp_transport_list_init R w;
          l \<leftarrow> l;
          let c = new_client (hp_init E) h l;
          (ok, w) \<leftarrow> init_transports E fs l w;
          if \<not> ok then init_fails E (c, w)
          else do {
            (err, s) \<leftarrow> set_config E cfg (c, w);
            if err \<noteq> ESP_OK then init_fails E s
            else (let (ok, s) = init_buffers E s in
              if \<not> ok then init_fails E s
              else do {
                (ok, s) \<leftarrow> init_request E (hcc_url cfg) s;
                if \<not> ok then init_fails E s
                else Some (Some ((fst s)\<lparr>hc_state := HTTP_STATE_INIT\<rparr>), snd s) }) } })"

section \<open>Sending the request\<close>

definition method_name :: "int \<Rightarrow> string option" where
  "method_name m = (if 0 \<le> m \<and> m < int (length HTTP_METHOD_MAPPING) then Some (HTTP_METHOD_MAPPING ! nat m) else None)"

definition esp_http_client_connect :: "('p, 'z) client_env \<Rightarrow> ('p, 'z) hcs \<Rightarrow> (esp_err \<times> ('p, 'z) hcs) option" where
  "esp_http_client_connect E s =
     (if hc_state (fst s) = HTTP_STATE_UNINIT then Some (ESP_ERR_INVALID_STATE, s)
      else do {
        (c, w) \<leftarrow> esp_http_client_prepare E s;
        if hc_state c < HTTP_STATE_CONNECTED then do {
          scheme \<leftarrow> ci_scheme (hc_info c);
          t \<leftarrow> esp_transport_list_get_transport (hc_list c) (Some scheme) w;
          let c = c\<lparr>hc_transport := t\<rparr>;
          if t = None then Some (ESP_ERR_HTTP_INVALID_TRANSPORT, (c, w))
          else do {
            host \<leftarrow> ci_host (hc_info c);
            (r, w) \<leftarrow> (if hc_is_async c then esp_transport_connect_async else esp_transport_connect)
               (he_funcs E) t host (ci_port (hc_info c)) (hc_timeout_ms c) w;
            if \<not> hc_is_async c \<and> r < 0 then Some (ESP_ERR_HTTP_CONNECT, (c, w))
            else if hc_is_async c \<and> r = -1 then
              Some (if strcaseeq scheme ''http'' then ESP_ERR_INVALID_ARG else ESP_ERR_HTTP_CONNECT, (c, w))
            else if hc_is_async c \<and> r = 0 then Some (ESP_ERR_HTTP_CONNECTING, (c, w))
            else Some (ESP_OK, http_dispatch_event E HTTP_EVENT_ON_CONNECTED (c\<lparr>hc_state := HTTP_STATE_CONNECTED\<rparr>, w)) } }
        else Some (ESP_OK, (c, w)) })"

text \<open>The three pieces of the first line; \<open>-1\<close> when the buffer is too small.\<close>

definition first_line_piece :: "string \<Rightarrow> ('p http_client \<times> int) \<Rightarrow> ('p http_client \<times> int) option" where
  "first_line_piece txt = (\<lambda>(c, n). if n < 0 then Some (c, n) else do {
     (k, d) \<leftarrow> snprintf (hc_req_data c) n (hc_buffer_size c - n) txt;
     Some (c\<lparr>hc_req_data := d\<rparr>, if n + k \<ge> hc_buffer_size c then -1 else n + k) })"

definition http_client_prepare_first_line :: "('p, 'z) client_env \<Rightarrow> int \<Rightarrow> ('p, 'z) hcs \<Rightarrow> (int \<times> ('p, 'z) hcs) option" where
  "http_client_prepare_first_line E write_len s = do {
     (c, w) \<leftarrow>
       (if write_len \<ge> 0 then do {
          let (buf, w) = strdup E (int_dec write_len) (snd s);
          (_, h, w) \<leftarrow> http_header_set_format (he_platform E) (hc_headers (fst s)) (Some ''Content-Length'') buf
             (int (length (int_dec write_len))) w;
          Some ((fst s)\<lparr>hc_headers := h\<rparr>, w) }
        else do {
          (_, c, w) \<leftarrow> esp_http_client_set_header E ''Transfer-Encoding'' (Some ''chunked'') s;
          Some (esp_http_client_set_method HTTP_METHOD_POST c, w) });
     meth \<leftarrow> method_name (ci_method (hc_info c));
     path \<leftarrow> ci_path (hc_info c);
     x \<leftarrow> first_line_piece (meth @ '' '' @ path) (c, 0);
     x \<leftarrow> (case ci_query (hc_info c) of None \<Rightarrow> Some x | Some q \<Rightarrow> first_line_piece (''?'' @ q) x);
     (c, n) \<leftarrow> first_line_piece ('' HTTP/1.1'' @ [CHR 0x0D, CHR 0x0A]) x;
     Some (n, (c, w)) }"

text \<open>The loop of \<open>esp_http_client_write\<close>, which leaves the client alone.\<close>

function client_write_loop ::
  "('p, 'z) client_env \<Rightarrow> 'p http_client \<Rightarrow> string \<Rightarrow> int \<Rightarrow> int \<Rightarrow> 'z tpw \<Rightarrow> (int \<times> 'z tpw) option" where
  "client_write_loop E c buffer len widx w =
     (if len > 0 then do {
        d \<leftarrow> mem_read buffer (nat widx) (nat len);
        (wlen, w) \<leftarrow> esp_transport_write (he_funcs E) (hc_transport c) d (hc_timeout_ms c) w;
        if hc_is_async c \<or> wlen \<le> 0 then Some (wlen, w) else client_write_loop E c buffer (len - wlen) (widx + wlen) w }
      else Some (widx, w))"
  by pat_completeness auto
termination by (relation "measure (\<lambda>(_, _, _, len, _). nat len)") auto

declare client_write_loop.simps [simp del]

definition esp_http_client_write :: "('p, 'z) client_env \<Rightarrow> string \<Rightarrow> int \<Rightarrow> ('p, 'z) hcs \<Rightarrow> (int \<times> ('p, 'z) hcs) option" where
  "esp_http_client_write E buffer len s =
     (if hc_state (fst s) < HTTP_STATE_REQ_COMPLETE_HEADER then Some (ESP_FAIL, s)
      else do { (r, w) \<leftarrow> client_write_loop E (fst s) buffer len 0 (snd s); Some (r, (fst s, w)) })"

text \<open>Writing what is left of the request's buffer; \<open>False\<close> when it fails, which closes the connection.\<close>

function request_write :: "('p, 'z) client_env \<Rightarrow> ('p, 'z) hcs \<Rightarrow> (bool \<times> ('p, 'z) hcs) option" where
  "request_write E s =
     (if hc_write_left (fst s) > 0 then do {
        let c = fst s;
        d \<leftarrow> mem_read (hc_req_data c) (nat (hc_written_index c)) (nat (hc_write_left c));
        (r, w) \<leftarrow> esp_transport_write (he_funcs E) (hc_transport c) d (hc_timeout_ms c) (snd s);
        if r \<le> 0 then do { (_, s) \<leftarrow> esp_http_client_close E (c, w); Some (False, s) }
        else request_write E (c\<lparr>hc_written_index := hc_written_index c + r, hc_write_left := hc_write_left c - r\<rparr>, w) }
      else Some (True, s))"
  by pat_completeness auto
termination by (relation "measure (\<lambda>(_, s). nat (hc_write_left (fst s)))") auto

declare request_write.simps [simp del]

text \<open>The loop over the headers, with the length of the first line still in front of them.\<close>

partial_function (option) request_headers :: "('p, 'z) client_env \<Rightarrow> int \<Rightarrow> ('p, 'z) hcs \<Rightarrow> (bool \<times> ('p, 'z) hcs) option" where
  "request_headers E first s = do {
     let c = fst s;
     (i, d, wlen) \<leftarrow> http_header_generate_string (hc_headers c) (hc_header_index c) (drop (nat first) (hc_req_data c)) (hc_buffer_size c - first);
     let c = c\<lparr>hc_req_data := take (nat first) (hc_req_data c) @ d, hc_header_index := i\<rparr>;
     if i = 0 \<or> wlen \<le> 0 then Some (True, (c, snd s))
     else do {
       let wlen = wlen + first;
       d \<leftarrow> mem_write (hc_req_data c) (nat wlen) [NUL];
       (ok, s) \<leftarrow> request_write E (c\<lparr>hc_req_data := d, hc_written_index := 0, hc_write_left := wlen\<rparr>, snd s);
       if \<not> ok then Some (False, s) else request_headers E 0 s } }"

definition esp_http_client_request_send :: "('p, 'z) client_env \<Rightarrow> ('p, 'z) hcs \<Rightarrow> (esp_err \<times> ('p, 'z) hcs) option" where
  "esp_http_client_request_send E s = do {
     (first, c, w) \<leftarrow>
       (if hc_first_line_prepared (fst s) then Some (0, s)
        else do {
          (n, c, w) \<leftarrow> http_client_prepare_first_line E (hc_post_len (fst s)) s;
          if n < 0 then Some (n, c, w)
          else Some (n, c\<lparr>hc_written_index := 0, hc_write_left := 0, hc_first_line_prepared := True, hc_header_index := 0\<rparr>, w) });
     if first < 0 then Some (first, (c, w))
     else do {
       (err, c, w) \<leftarrow>
         (if hc_write_left c > 0 then do {
            (wret, c, w) \<leftarrow> esp_http_client_write E (drop (nat (hc_written_index c)) (hc_req_data c)) (hc_write_left c) (c, w);
            if wret < 0 then Some (ESP_ERR_HTTP_WRITE_DATA, c, w)
            else do {
              let c = c\<lparr>hc_written_index := hc_written_index c + wret, hc_write_left := hc_write_left c - wret\<rparr>;
              Some (if hc_is_async c \<and> hc_write_left c > 0 then ESP_ERR_HTTP_WRITE_DATA else ESP_OK, c, w) } }
          else Some (ESP_OK, c, w));
       if err \<noteq> ESP_OK then Some (err, (c, w))
       else do {
         (ok, c, w) \<leftarrow> request_headers E first (c, w);
         if \<not> ok then Some (ESP_ERR_HTTP_WRITE_DATA, (c, w))
         else Some (ESP_OK, (c\<lparr>hc_state := HTTP_STATE_REQ_COMPLETE_HEADER, hc_written_index := 0, hc_write_left := hc_post_len c\<rparr>, w)) } } }"

definition esp_http_client_send_post_data :: "('p, 'z) client_env \<Rightarrow> ('p, 'z) hcs \<Rightarrow> (esp_err \<times> ('p, 'z) hcs) option" where
  "esp_http_client_send_post_data E s =
     (if hc_state (fst s) \<noteq> HTTP_STATE_REQ_COMPLETE_HEADER then Some (ESP_ERR_INVALID_STATE, s)
      else
        let done = (\<lambda>s. (ESP_OK, ((fst s)\<lparr>hc_state := HTTP_STATE_REQ_COMPLETE_DATA\<rparr>, snd s))) in
        case hc_post_data (fst s) of None \<Rightarrow> Some (done s)
        | Some data \<Rightarrow>
            if hc_post_len (fst s) = 0 then Some (done s)
            else do {
              (wret, c, w) \<leftarrow> esp_http_client_write E (drop (nat (hc_written_index (fst s))) data) (hc_write_left (fst s)) s;
              if wret < 0 then Some (wret, (c, w))
              else do {
                let c = c\<lparr>hc_written_index := hc_written_index c + wret, hc_write_left := hc_write_left c - wret\<rparr>;
                Some (if hc_write_left c \<le> 0 then done (c, w) else (ESP_ERR_HTTP_WRITE_DATA, (c, w))) } })"

definition esp_http_client_set_post_field :: "('p, 'z) client_env \<Rightarrow> string option \<Rightarrow> int \<Rightarrow> ('p, 'z) hcs \<Rightarrow> (esp_err \<times> ('p, 'z) hcs) option" where
  "esp_http_client_set_post_field E data len s = do {
     let s = ((fst s)\<lparr>hc_post_data := data, hc_post_len := len\<rparr>, snd s);
     if data = None then Some (ESP_OK, s)
     else do {
       let (err, v) = esp_http_client_get_header ''Content-Type'' s;
       if err \<noteq> ESP_OK then Some (err, s)
       else do {
         (err, c, w) \<leftarrow> (if v = None then esp_http_client_set_header E ''Content-Type'' (Some ''application/x-www-form-urlencoded'') s
                         else Some (err, s));
         Some (err, (esp_http_client_set_method HTTP_METHOD_POST c, w)) } } }"

definition esp_http_client_get_post_field :: "'p http_client \<Rightarrow> int \<times> string option" where
  "esp_http_client_get_post_field c = (case hc_post_data c of None \<Rightarrow> (0, None) | Some d \<Rightarrow> (hc_post_len c, Some d))"

definition esp_http_client_open :: "('p, 'z) client_env \<Rightarrow> int \<Rightarrow> ('p, 'z) hcs \<Rightarrow> (esp_err \<times> ('p, 'z) hcs) option" where
  "esp_http_client_open E write_len s = do {
     (err, s) \<leftarrow> esp_http_client_connect E s;
     if err \<noteq> ESP_OK then Some (err, s)
     else do {
       (err, s) \<leftarrow> esp_http_client_set_post_field E None write_len s;
       if err \<noteq> ESP_OK then Some (err, s) else esp_http_client_request_send E s } }"

section \<open>Receiving the response\<close>

text \<open>A read of at most \<open>n\<close> bytes to the start of the response's buffer.\<close>

definition response_read :: "('p, 'z) client_env \<Rightarrow> int \<Rightarrow> int \<Rightarrow> ('p, 'z) hcs \<Rightarrow> (int \<times> ('p, 'z) hcs) option" where
  "response_read E n timeout_ms s = do {
     let (c, w) = s;
     b \<leftarrow> mem_read (hc_res_data c) 0 (nat n);
     ((r, b), w) \<leftarrow> esp_transport_read (he_funcs E) (hc_transport c) b timeout_ms w;
     Some (r, (c\<lparr>hc_res_data := b @ drop (nat n) (hc_res_data c)\<rparr>, w)) }"

partial_function (option) fetch_loop :: "('p, 'z) client_env \<Rightarrow> ('p, 'z) hcs \<Rightarrow> (bool \<times> ('p, 'z) hcs) option" where
  "fetch_loop E s =
     (if hc_state (fst s) < HTTP_STATE_RES_COMPLETE_HEADER then do {
        (len, s) \<leftarrow> response_read E (hc_buffer_size (fst s)) (hc_timeout_ms (fst s)) s;
        if len \<le> 0 then Some (False, s) else do { s \<leftarrow> http_parser_execute E len s; fetch_loop E s } }
      else Some (True, s))"

definition esp_http_client_fetch_headers :: "('p, 'z) client_env \<Rightarrow> ('p, 'z) hcs \<Rightarrow> (int \<times> ('p, 'z) hcs) option" where
  "esp_http_client_fetch_headers E s =
     (if hc_state (fst s) < HTTP_STATE_REQ_COMPLETE_HEADER then Some (ESP_FAIL, s)
      else do {
        (ok, c, w) \<leftarrow> fetch_loop E ((fst s)\<lparr>hc_status_code := -1, hc_state := HTTP_STATE_REQ_COMPLETE_DATA\<rparr>, snd s);
        Some (if \<not> ok then (ESP_FAIL, (c, w))
              else if hc_content_length c \<le> 0 then (0, (c\<lparr>hc_is_chunked := True\<rparr>, w))
              else (hc_content_length c, (c, w))) })"

definition esp_http_client_get_data :: "('p, 'z) client_env \<Rightarrow> ('p, 'z) hcs \<Rightarrow> (int \<times> ('p, 'z) hcs) option" where
  "esp_http_client_get_data E s =
     (if hc_state (fst s) < HTTP_STATE_RES_COMPLETE_HEADER then Some (ESP_FAIL, s)
      else if ci_method (hc_info (fst s)) = HTTP_METHOD_HEAD then Some (0, s)
      else do {
        (rlen, s) \<leftarrow> response_read E (hc_buffer_size (fst s)) (hc_timeout_ms (fst s)) s;
        if rlen \<ge> 0 then do { s \<leftarrow> http_parser_execute E rlen s; Some (rlen, s) } else Some (rlen, s) })"

definition data_remains :: "'p http_client \<Rightarrow> bool" where
  "data_remains c = (if hc_is_chunked c then \<not> hc_chunk_complete c else hc_data_process c < hc_content_length c)"

partial_function (option) read_loop ::
  "('p, 'z) client_env \<Rightarrow> string \<Rightarrow> int \<Rightarrow> int \<Rightarrow> ('p, 'z) hcs \<Rightarrow> ((int \<times> string) \<times> ('p, 'z) hcs) option" where
  "read_loop E buffer need ridx s =
     (if need > 0 \<and> data_remains (fst s) then do {
        (rlen, c, w) \<leftarrow> response_read E (min need (hc_buffer_size (fst s))) 10000 s;
        if rlen \<le> 0 then Some ((ridx, buffer), (c, w))
        else do {
          (c, w) \<leftarrow> http_parser_execute E rlen (c\<lparr>hc_output := Some (buffer, nat ridx)\<rparr>, w);
          (b, _) \<leftarrow> hc_output c;
          read_loop E b (need - hc_raw_len c) (ridx + hc_raw_len c) (c\<lparr>hc_raw_len := 0, hc_output := None\<rparr>, w) } }
      else Some ((ridx, buffer), s))"

text \<open>\<open>buffer\<close> is the caller's memory.\<close>

definition esp_http_client_read ::
  "('p, 'z) client_env \<Rightarrow> string \<Rightarrow> int \<Rightarrow> ('p, 'z) hcs \<Rightarrow> ((int \<times> string) \<times> ('p, 'z) hcs) option" where
  "esp_http_client_read E buffer len s = do {
     let c = fst s;
     let remain = (if hc_raw_len c = 0 then 0 else min (hc_raw_len c) len);
     if remain < 0 then None
     else do {
       d \<leftarrow> mem_read (hc_res_data c) (hc_raw_data c) (nat remain);
       buffer \<leftarrow> mem_write buffer 0 d;
       read_loop E buffer (len - remain) remain
         (c\<lparr>hc_raw_data := hc_raw_data c + nat remain, hc_raw_len := hc_raw_len c - remain\<rparr>, snd s) } }"

definition esp_http_client_get_status_code :: "'p http_client \<Rightarrow> int" where
  "esp_http_client_get_status_code c = hc_status_code c"

definition esp_http_client_get_content_length :: "'p http_client \<Rightarrow> int" where
  "esp_http_client_get_content_length c = hc_content_length c"

definition esp_http_client_is_chunked_response :: "'p http_client \<Rightarrow> bool" where
  "esp_http_client_is_chunked_response c = hc_is_chunked c"

definition esp_http_client_get_transport_type :: "'p http_client \<Rightarrow> int option" where
  "esp_http_client_get_transport_type c = do {
     scheme \<leftarrow> ci_scheme (hc_info c);
     Some (if strcaseeq scheme ''https'' then HTTP_TRANSPORT_OVER_SSL
           else if strcaseeq scheme ''http'' then HTTP_TRANSPORT_OVER_TCP else HTTP_TRANSPORT_UNKNOWN) }"

section \<open>A whole request\<close>

text \<open>What a challenge asks for, from the trimmed header.\<close>

definition parse_challenge :: "('p, 'z) client_env \<Rightarrow> string \<Rightarrow> ('p, 'z) hcs \<Rightarrow> ('p, 'z) hcs option" where
  "parse_challenge E h s = do {
     let c = clear_auth_data (fst s);
     name \<leftarrow> method_name (ci_method (hc_info c));
     let (meth, w) = strdup E name (snd s);
     let between = http_utils_get_string_between (he_platform E) h;
     let q = [CHR 0x22];
     (realm, w) \<leftarrow> between (''realm='' @ q) q w;
     (algorithm, w) \<leftarrow> between ''algorithm='' '','' w;
     (qop, w) \<leftarrow> between (''qop='' @ q) q w;
     (nonce, w) \<leftarrow> between (''nonce='' @ q) q w;
     (opaque, w) \<leftarrow> between (''opaque='' @ q) q w;
     Some (c\<lparr>hc_process_again := True, hc_auth_data := no_auth\<lparr>ad_method := meth, ad_algorithm := algorithm, ad_realm := realm,
        ad_nonce := nonce, ad_qop := qop, ad_opaque := opaque, ad_nc := 1\<rparr>\<rparr>, w) }"

definition set_auth_type :: "int \<Rightarrow> 'p http_client \<Rightarrow> 'p http_client" where
  "set_auth_type a = set_info (\<lambda>i. i\<lparr>ci_auth_type := a\<rparr>)"

text \<open>The test of the counter comes before the test of the status.\<close>

definition esp_http_check_response :: "('p, 'z) client_env \<Rightarrow> ('p, 'z) hcs \<Rightarrow> (esp_err \<times> ('p, 'z) hcs) option" where
  "esp_http_check_response E s =
     (let (c, w) = s in
      if hc_redirect_counter c \<ge> hc_max_redirection_count c \<or> hc_no_redirect c then Some (ESP_ERR_HTTP_MAX_REDIRECT, s)
      else if hc_status_code c = 301 \<or> hc_status_code c = 302 then do {
        (_, c, w) \<leftarrow> esp_http_client_set_url E (hc_location c) s;
        Some (ESP_OK, (c\<lparr>hc_redirect_counter := hc_redirect_counter c + 1, hc_process_again := True\<rparr>, w)) }
      else if hc_status_code c = 401 then
        (case hc_auth_header c of None \<Rightarrow> Some (ESP_OK, (set_auth_type HTTP_AUTH_TYPE_NONE c, w))
         | Some a \<Rightarrow> do {
             let h = http_utils_trim_whitespace a;
             let c = c\<lparr>hc_redirect_counter := hc_redirect_counter c + 1, hc_auth_header := Some h\<rparr>;
             if http_utils_str_starts_with h ''Digest'' = 0 then do {
               s \<leftarrow> parse_challenge E h (set_auth_type HTTP_AUTH_TYPE_DIGEST c, w); Some (ESP_OK, s) }
             else if http_utils_str_starts_with h ''Basic'' = 0 then do {
               s \<leftarrow> parse_challenge E h (set_auth_type HTTP_AUTH_TYPE_BASIC c, w); Some (ESP_OK, s) }
             else Some (ESP_OK, (set_auth_type HTTP_AUTH_TYPE_NONE c, w)) })
      else Some (ESP_OK, s))"

text \<open>Reading data while \<open>go\<close> holds; the result tells whether a failed read would block.\<close>

partial_function (option) drain :: "('p, 'z) client_env \<Rightarrow> ('p http_client \<Rightarrow> bool) \<Rightarrow> ('p, 'z) hcs \<Rightarrow> (bool \<times> ('p, 'z) hcs) option" where
  "drain E go s =
     (if go (fst s) then do {
        (r, s) \<leftarrow> esp_http_client_get_data E s;
        if r \<le> 0 then Some (hc_is_async (fst s) \<and> he_errno E (snd s) = EAGAIN, s) else drain E go s }
      else Some (False, s))"

definition perform_finish :: "('p, 'z) client_env \<Rightarrow> ('p, 'z) hcs \<Rightarrow> ('p, 'z) hcs option" where
  "perform_finish E s = do {
     let (c, w) = http_dispatch_event E HTTP_EVENT_ON_FINISH s;
     if \<not> hp_keep_alive E (hc_parser c) then do { (_, s) \<leftarrow> esp_http_client_close E (c, w); Some s }
     else if hc_state c > HTTP_STATE_CONNECTED then
       Some (c\<lparr>hc_state := HTTP_STATE_CONNECTED, hc_first_line_prepared := False\<rparr>, w)
     else Some (c, w) }"

text \<open>The last stage: an error to return, or \<open>None\<close> to leave the switch.\<close>

definition perform_response :: "('p, 'z) client_env \<Rightarrow> ('p, 'z) hcs \<Rightarrow> (esp_err option \<times> ('p, 'z) hcs) option" where
  "perform_response E s = do {
     (err, s) \<leftarrow> esp_http_check_response E s;
     if err \<noteq> ESP_OK then Some (Some err, s)
     else do {
       (again, s) \<leftarrow> drain E (\<lambda>c. hc_is_chunked c \<and> \<not> hc_chunk_complete c) s;
       if again then Some (Some ESP_ERR_HTTP_EAGAIN, s)
       else do {
         (again, s) \<leftarrow> drain E (\<lambda>c. hc_data_process c < hc_content_length c) s;
         if again then Some (Some ESP_ERR_HTTP_EAGAIN, s)
         else do { s \<leftarrow> perform_finish E s; Some (None, s) } } } }"

text \<open>A stage that runs when \<open>run\<close> holds, and the rest of the switch after it.\<close>

definition stage ::
  "bool \<Rightarrow> (('p, 'z) hcs \<Rightarrow> (esp_err option \<times> ('p, 'z) hcs) option) \<Rightarrow> (('p, 'z) hcs \<Rightarrow> (esp_err option \<times> ('p, 'z) hcs) option) \<Rightarrow>
   ('p, 'z) hcs \<Rightarrow> (esp_err option \<times> ('p, 'z) hcs) option" where
  "stage run f rest s = (if run then do { (r, s) \<leftarrow> f s; if r = None then rest s else Some (r, s) } else rest s)"

definition would_block :: "('p, 'z) client_env \<Rightarrow> ('p, 'z) hcs \<Rightarrow> bool" where
  "would_block E s \<longleftrightarrow> hc_is_async (fst s) \<and> he_errno E (snd s) = EAGAIN"

definition perform_connect :: "('p, 'z) client_env \<Rightarrow> ('p, 'z) hcs \<Rightarrow> (esp_err option \<times> ('p, 'z) hcs) option" where
  "perform_connect E s = do {
     (err, s) \<leftarrow> esp_http_client_connect E s;
     Some (if err = ESP_OK then None
           else Some (if hc_is_async (fst s) \<and> err = ESP_ERR_HTTP_CONNECTING then ESP_ERR_HTTP_EAGAIN else err), s) }"

definition perform_send ::
  "('p, 'z) client_env \<Rightarrow> (('p, 'z) hcs \<Rightarrow> (esp_err \<times> ('p, 'z) hcs) option) \<Rightarrow> ('p, 'z) hcs \<Rightarrow> (esp_err option \<times> ('p, 'z) hcs) option" where
  "perform_send E send s = do {
     (err, s) \<leftarrow> send s;
     Some (if err = ESP_OK then None else Some (if would_block E s then ESP_ERR_HTTP_EAGAIN else err), s) }"

definition perform_fetch :: "('p, 'z) client_env \<Rightarrow> ('p, 'z) hcs \<Rightarrow> (esp_err option \<times> ('p, 'z) hcs) option" where
  "perform_fetch E s = do {
     (r, s) \<leftarrow> esp_http_client_fetch_headers E s;
     Some (if r \<ge> 0 then None else Some (if would_block E s then ESP_ERR_HTTP_EAGAIN else ESP_ERR_HTTP_FETCH_HEADER), s) }"

text \<open>The switch falls through from the stage of the state it starts in.\<close>

definition perform_round :: "('p, 'z) client_env \<Rightarrow> ('p, 'z) hcs \<Rightarrow> (esp_err option \<times> ('p, 'z) hcs) option" where
  "perform_round E s = do {
     s \<leftarrow> (if hc_process_again (fst s) then esp_http_client_prepare E s else Some s);
     let st = hc_state (fst s);
     if st < HTTP_STATE_INIT \<or> st > HTTP_STATE_RES_COMPLETE_HEADER then Some (None, s)
     else stage (st \<le> HTTP_STATE_INIT) (perform_connect E)
         (stage (st \<le> HTTP_STATE_CONNECTED) (perform_send E (esp_http_client_request_send E))
         (stage (st \<le> HTTP_STATE_REQ_COMPLETE_HEADER) (perform_send E (esp_http_client_send_post_data E))
         (stage (st \<le> HTTP_STATE_REQ_COMPLETE_DATA) (perform_fetch E)
         (perform_response E)))) s }"

partial_function (option) esp_http_client_perform :: "('p, 'z) client_env \<Rightarrow> ('p, 'z) hcs \<Rightarrow> (esp_err \<times> ('p, 'z) hcs) option" where
  "esp_http_client_perform E s = do {
     (r, s) \<leftarrow> perform_round E s;
     case r of Some err \<Rightarrow> Some (err, s)
     | None \<Rightarrow> if hc_process_again (fst s) then esp_http_client_perform E s else Some (ESP_OK, s) }"

end
