(* ===== verification/Http_Client_Correct.thy ===== *)
theory Http_Client_Correct
  imports Http_Client Http_Header_Correct
begin

text \<open>
  What the HTTP client promises: a request is repeated only as often as the limit of redirections allows, a
  client without automatic redirection, the bytes of a request, and the bytes a read delivers.
\<close>

section \<open>What a step keeps\<close>

text \<open>The counter, the limit of redirections and whether they are followed stay, and no repetition is asked for.\<close>

definition rf :: "'p http_client \<Rightarrow> 'p http_client \<Rightarrow> bool" where
  "rf c c' \<longleftrightarrow> hc_redirect_counter c' = hc_redirect_counter c \<and> hc_max_redirection_count c' = hc_max_redirection_count c \<and>
     hc_no_redirect c' = hc_no_redirect c \<and> (hc_process_again c' \<longrightarrow> hc_process_again c)"

lemma rf_refl [simp, intro]: "rf c c" by (simp add: rf_def)

lemma rf_trans: "rf a b \<Longrightarrow> rf b c \<Longrightarrow> rf a c" by (simp add: rf_def)

lemma rf_set_info [simp]: "rf c (set_info f d) = rf c d" "rf (set_info f c) d = rf c d" by (simp_all add: rf_def set_info_def)

lemmas bindE = bind_eq_Some_conv split_beta

lemma bind_SomeE: "Option.bind x f = Some y \<Longrightarrow> (\<And>a. x = Some a \<Longrightarrow> f a = Some y \<Longrightarrow> P) \<Longrightarrow> P"
  by (auto simp: bind_eq_Some_conv)

lemma rf_event [simp]: "fst (http_dispatch_event E ev s) = fst s" by (simp add: http_dispatch_event_def)

lemma rf_callback: "hp_callback E ev s = Some s' \<Longrightarrow> rf (fst s) (fst s')"
  by (auto simp: hp_callback_def http_on_message_begin_def http_on_header_field_def http_on_header_value_def http_on_headers_complete_def
      http_on_body_def http_on_message_complete_def rf_def bindE Let_def split: hp_event.splits option.splits if_splits)

lemma rf_callbacks: "hp_callbacks E evs s = Some s' \<Longrightarrow> rf (fst s) (fst s')"
  by (induction evs arbitrary: s) (auto simp: bindE intro: rf_trans dest: rf_callback)

lemma rf_execute: "http_parser_execute E n s = Some s' \<Longrightarrow> rf (fst s) (fst s')"
  by (auto simp: http_parser_execute_def split: prod.splits dest!: rf_callbacks) (simp add: rf_def)

lemma rf_set_header: "esp_http_client_set_header E k v s = Some (e, s') \<Longrightarrow> rf (fst s) (fst s')"
  by (auto simp: esp_http_client_set_header_def bindE rf_def)

lemma rf_close: "esp_http_client_close E s = Some (e, s') \<Longrightarrow> rf (fst s) (fst s')"
  by (auto simp: esp_http_client_close_def bindE Let_def rf_def split: if_splits)

lemma rf_prepare: "esp_http_client_prepare E s = Some s' \<Longrightarrow> rf (fst s) (fst s') \<and> \<not> hc_process_again (fst s')"
  by (auto simp: esp_http_client_prepare_def bindE Let_def rf_def split: if_splits option.splits dest!: rf_set_header)

lemma rf_assign_info: "assign_info E a b s f = Some s' \<Longrightarrow> rf (fst s) (fst s')"
  by (auto simp: assign_info_def bindE)

lemmas rf_dests = rf_callbacks rf_execute rf_set_header rf_close rf_prepare rf_assign_info

lemma rf_url_host: "set_url_host E p s = Some (ok, s') \<Longrightarrow> rf (fst s) (fst s')"
  unfolding set_url_host_def Let_def
  by (auto elim!: bind_SomeE split: if_split_asm option.split_asm list.split_asm prod.split_asm dest!: rf_dests) (simp_all add: rf_def)

lemma rf_url_port: "set_url_port E p o' s = Some s' \<Longrightarrow> rf (fst s) (fst s')"
  unfolding set_url_port_def Let_def
  by (auto elim!: bind_SomeE split: if_split_asm option.split_asm list.split_asm prod.split_asm dest!: rf_dests) (simp_all add: rf_def)

lemma rf_url_user: "set_url_user E p s = Some s' \<Longrightarrow> rf (fst s) (fst s')"
  unfolding set_url_user_def Let_def
  by (auto elim!: bind_SomeE split: if_split_asm option.split_asm list.split_asm prod.split_asm dest!: rf_dests) (simp_all add: rf_def)

lemma rf_url_path: "set_url_path E p s = Some s' \<Longrightarrow> rf (fst s) (fst s')"
  unfolding set_url_path_def Let_def
  by (auto elim!: bind_SomeE split: if_split_asm option.split_asm list.split_asm prod.split_asm dest!: rf_dests) (simp_all add: rf_def)

lemma rf_set_url: "esp_http_client_set_url E u s = Some (e, s') \<Longrightarrow> rf (fst s) (fst s')"
  unfolding esp_http_client_set_url_def Let_def
  by (auto elim!: bind_SomeE split: if_split_asm option.split_asm list.split_asm prod.split_asm dest!: rf_url_host rf_url_port rf_url_user rf_url_path) (simp_all add: rf_def)

lemma rf_connect: "esp_http_client_connect E s = Some (e, s') \<Longrightarrow> rf (fst s) (fst s')"
  unfolding esp_http_client_connect_def Let_def
  by (auto elim!: bind_SomeE split: if_split_asm option.split_asm list.split_asm prod.split_asm dest!: rf_prepare) (simp_all add: rf_def)

lemma rf_first_line_piece: "first_line_piece t x = Some y \<Longrightarrow> rf (fst x) (fst y)"
  by (auto simp: first_line_piece_def bindE rf_def split: if_splits)

lemma rf_first_line: "http_client_prepare_first_line E n s = Some (k, s') \<Longrightarrow> rf (fst s) (fst s')"
  by (auto simp: http_client_prepare_first_line_def bindE Let_def esp_http_client_set_method_def rf_def
      split: if_splits option.splits dest!: rf_first_line_piece rf_set_header)

lemma rf_write: "esp_http_client_write E b n s = Some (k, s') \<Longrightarrow> fst s' = fst s"
  by (auto simp: esp_http_client_write_def bindE split: if_splits)

lemma rf_request_write: "request_write E s = Some (ok, s') \<Longrightarrow> rf (fst s) (fst s')"
proof (induction E s rule: request_write.induct)
  case (1 E s)
  show ?case
  proof (cases "hc_write_left (fst s) > 0")
    case True
    let ?c = "fst s"
    from True 1(2) obtain d r w where d: "mem_read (hc_req_data ?c) (nat (hc_written_index ?c)) (nat (hc_write_left ?c)) = Some d"
      "esp_transport_write (he_funcs E) (hc_transport ?c) d (hc_timeout_ms ?c) (snd s) = Some (r, w)"
      and e: "(if r \<le> 0 then do { (_, s) \<leftarrow> esp_http_client_close E (?c, w); Some (False, s) }
        else request_write E (?c\<lparr>hc_written_index := hc_written_index ?c + r, hc_write_left := hc_write_left ?c - r\<rparr>, w)) = Some (ok, s')"
      by (subst (asm) request_write.simps) (auto simp: bind_eq_Some_conv Let_def)
    show ?thesis
    proof (cases "r \<le> 0")
      case True then show ?thesis using e by (auto simp: bindE dest!: rf_close)
    next
      case False
      with e have "rf (fst (?c\<lparr>hc_written_index := hc_written_index ?c + r, hc_write_left := hc_write_left ?c - r\<rparr>, w)) (fst s')"
        by (intro 1(1) [OF True refl d refl]) auto
      then show ?thesis by (simp add: rf_def)
    qed
  qed (use 1(2) in \<open>simp add: request_write.simps\<close>)
qed

lemma rf_request_headers: "request_headers E n s = Some r \<Longrightarrow> rf (fst s) (fst (snd r))"
proof (erule request_headers.raw_induct [where P = "\<lambda>E n s r. rf (fst s) (fst (snd r))", rotated], goal_cases)
  case (1 rh E n s r)
  from 1(2) show ?case unfolding Let_def
    by (auto elim!: bind_SomeE split: if_split_asm prod.split_asm dest!: rf_request_write 1(1)) (auto simp: rf_def)
qed

lemma rf_request_send: "esp_http_client_request_send E s = Some (e, s') \<Longrightarrow> rf (fst s) (fst s')"
  unfolding esp_http_client_request_send_def Let_def
  by (auto elim!: bind_SomeE split: if_split_asm prod.split_asm dest!: rf_first_line rf_write rf_request_headers) (simp_all add: rf_def)

lemma rf_send_post: "esp_http_client_send_post_data E s = Some (e, s') \<Longrightarrow> rf (fst s) (fst s')"
  unfolding esp_http_client_send_post_data_def Let_def
  by (auto elim!: bind_SomeE split: if_split_asm prod.split_asm option.split_asm dest!: rf_write) (simp_all add: rf_def)

lemma rf_response_read: "response_read E n t s = Some (r, s') \<Longrightarrow> rf (fst s) (fst s')"
  unfolding response_read_def Let_def by (auto elim!: bind_SomeE split: prod.split_asm simp: rf_def)

lemma rf_fetch_loop: "fetch_loop E s = Some r \<Longrightarrow> rf (fst s) (fst (snd r))"
proof (erule fetch_loop.raw_induct [where P = "\<lambda>E s r. rf (fst s) (fst (snd r))", rotated], goal_cases)
  case (1 fl E s r)
  from 1(2) show ?case
    by (auto elim!: bind_SomeE split: if_split_asm prod.split_asm dest!: rf_response_read rf_execute 1(1)) (auto simp: rf_def)
qed

lemma rf_fetch: "esp_http_client_fetch_headers E s = Some (r, s') \<Longrightarrow> rf (fst s) (fst s')"
  unfolding esp_http_client_fetch_headers_def
  by (auto elim!: bind_SomeE split: if_split_asm prod.split_asm dest!: rf_fetch_loop) (simp_all add: rf_def)

lemma rf_get_data: "esp_http_client_get_data E s = Some (r, s') \<Longrightarrow> rf (fst s) (fst s')"
  unfolding esp_http_client_get_data_def
  by (auto elim!: bind_SomeE split: if_split_asm prod.split_asm dest!: rf_response_read rf_execute) (simp_all add: rf_def)

lemma rf_drain: "drain E go s = Some r \<Longrightarrow> rf (fst s) (fst (snd r))"
proof (erule drain.raw_induct [where P = "\<lambda>E go s r. rf (fst s) (fst (snd r))", rotated], goal_cases)
  case (1 dr E go s r)
  from 1(2) show ?case
    by (auto elim!: bind_SomeE split: if_split_asm prod.split_asm dest!: rf_get_data 1(1)) (auto simp: rf_def)
qed

lemma rf_finish: "perform_finish E s = Some s' \<Longrightarrow> rf (fst s) (fst s')"
  unfolding perform_finish_def Let_def
  by (cases s) (auto elim!: bind_SomeE split: if_split_asm prod.split_asm dest!: rf_close simp: rf_def http_dispatch_event_def)

section \<open>The number of rounds\<close>

text \<open>A response asks for another round only below the limit, and counts it.\<close>

definition counted :: "'p http_client \<Rightarrow> 'p http_client \<Rightarrow> bool" where
  "counted c c' \<longleftrightarrow> hc_max_redirection_count c' = hc_max_redirection_count c \<and>
     (hc_process_again c' \<longrightarrow> hc_redirect_counter c < hc_max_redirection_count c \<and> hc_redirect_counter c' = hc_redirect_counter c + 1)"

lemma counted_frame: "rf a b \<Longrightarrow> counted b c \<Longrightarrow> counted a c" "counted b c \<Longrightarrow> rf c d \<Longrightarrow> \<not> hc_process_again d \<or> hc_redirect_counter d = hc_redirect_counter c \<Longrightarrow> counted b d"
  by (auto simp: counted_def rf_def)

lemma challenge_counted: "parse_challenge E h s = Some s' \<Longrightarrow>
    hc_redirect_counter (fst s') = hc_redirect_counter (fst s) \<and> hc_max_redirection_count (fst s') = hc_max_redirection_count (fst s)"
  unfolding parse_challenge_def Let_def by (auto elim!: bind_SomeE split: prod.split_asm simp: clear_auth_data_def)

lemma check_counted:
  assumes "esp_http_check_response E s = Some (ESP_OK, s')" "\<not> hc_process_again (fst s)"
  shows "counted (fst s) (fst s')"
  using assms unfolding esp_http_check_response_def Let_def
  by (auto elim!: bind_SomeE split: if_split_asm prod.split_asm option.split_asm dest!: rf_set_url challenge_counted
      simp: counted_def rf_def set_auth_type_def set_info_def)

lemma response_counted:
  assumes "perform_response E s = Some (None, s')" "\<not> hc_process_again (fst s)"
  shows "counted (fst s) (fst s')"
  using assms(1) unfolding perform_response_def
  by (auto elim!: bind_SomeE split: if_split_asm prod.split_asm dest!: rf_drain rf_finish check_counted [OF _ assms(2)])
    (auto simp: counted_def rf_def)

lemma stage_counted:
  assumes "stage run f rest s = Some (None, s')" "\<not> hc_process_again (fst s)"
    and "\<And>s1. f s = Some (None, s1) \<Longrightarrow> rf (fst s) (fst s1)"
    and "\<And>s1. rest s1 = Some (None, s') \<Longrightarrow> \<not> hc_process_again (fst s1) \<Longrightarrow> counted (fst s1) (fst s')"
  shows "counted (fst s) (fst s')"
proof (cases run)
  case True
  then obtain s1 where "f s = Some (None, s1)" "rest s1 = Some (None, s')"
    using assms(1) by (auto simp: stage_def elim!: bind_SomeE split: prod.split_asm if_split_asm)
  then show ?thesis using assms(2) assms(3,4) [of s1] by (meson counted_frame(1) rf_def)
qed (use assms in \<open>simp add: stage_def\<close>)

lemma stage_rf:
  "perform_connect E s = Some (None, s1) \<Longrightarrow> rf (fst s) (fst s1)"
  "perform_send E (esp_http_client_request_send E) s = Some (None, s1) \<Longrightarrow> rf (fst s) (fst s1)"
  "perform_send E (esp_http_client_send_post_data E) s = Some (None, s1) \<Longrightarrow> rf (fst s) (fst s1)"
  "perform_fetch E s = Some (None, s1) \<Longrightarrow> rf (fst s) (fst s1)"
  by (auto simp: perform_connect_def perform_send_def perform_fetch_def elim!: bind_SomeE split: prod.split_asm if_split_asm
      dest: rf_connect rf_request_send rf_send_post rf_fetch)

lemma round_counted:
  assumes "perform_round E s = Some (None, s')"
  shows "counted (fst s) (fst s')"
proof -
  obtain s1 where p: "(if hc_process_again (fst s) then esp_http_client_prepare E s else Some s) = Some s1"
    and r: "(let st = hc_state (fst s1) in
       if st < 1 \<or> st > 5 then Some (None, s1)
       else stage (st \<le> 1) (perform_connect E) (stage (st \<le> 2) (perform_send E (esp_http_client_request_send E))
         (stage (st \<le> 3) (perform_send E (esp_http_client_send_post_data E)) (stage (st \<le> 4) (perform_fetch E) (perform_response E)))) s1)
       = Some (None, s')"
    using assms unfolding perform_round_def by (elim bind_SomeE)
  then have s1: "rf (fst s) (fst s1)" "\<not> hc_process_again (fst s1)"
    using p by (auto split: if_split_asm dest: rf_prepare)
  have "counted (fst s1) (fst s')"
  proof (cases "hc_state (fst s1) < 1 \<or> hc_state (fst s1) > 5")
    case True
    with r s1(2) show ?thesis by (auto simp: Let_def counted_def)
  next
    case False
    then show ?thesis using r s1(2)
      by (auto simp: Let_def intro!: stage_counted [OF _ _ stage_rf(1) stage_counted [OF _ _ stage_rf(2) stage_counted [OF _ _ stage_rf(3)
            stage_counted [OF _ _ stage_rf(4) response_counted]]]])
  qed
  with s1(1) show ?thesis by (rule counted_frame(1))
qed

text \<open>At most \<open>n\<close> rounds; \<open>d\<close> is the result when they are used up.\<close>

fun perform_rounds ::
  "(esp_err \<times> ('p, 'z) hcs) option \<Rightarrow> nat \<Rightarrow> ('p, 'z) client_env \<Rightarrow> ('p, 'z) hcs \<Rightarrow> (esp_err \<times> ('p, 'z) hcs) option" where
  "perform_rounds d 0 E s = d"
| "perform_rounds d (Suc n) E s = do {
     (r, s) \<leftarrow> perform_round E s;
     case r of Some err \<Rightarrow> Some (err, s)
     | None \<Rightarrow> if hc_process_again (fst s) then perform_rounds d n E s else Some (ESP_OK, s) }"

text \<open>C22. \<open>esp_http_client_perform\<close> makes at most as many rounds as redirections are left, and one more: it is the
  bounded iteration whatever that gives when its rounds are used up, so they never are. The loop of redirections and
  challenges ends, whatever the server answers.\<close>

theorem perform_bounded:
  "esp_http_client_perform E s =
     perform_rounds d (Suc (nat (hc_max_redirection_count (fst s) - hc_redirect_counter (fst s)))) E s"
proof (induction "nat (hc_max_redirection_count (fst s) - hc_redirect_counter (fst s))" arbitrary: s rule: less_induct)
  case less
  show ?case
  proof (cases "perform_round E s")
    case (Some x)
    obtain r s' where x: "x = (r, s')" by (cases x)
    show ?thesis
    proof (cases "r = None \<and> hc_process_again (fst s')")
      case True
      then have c: "hc_max_redirection_count (fst s') = hc_max_redirection_count (fst s)"
        "hc_redirect_counter (fst s) < hc_max_redirection_count (fst s)" "hc_redirect_counter (fst s') = hc_redirect_counter (fst s) + 1"
        using round_counted [of E s s'] Some x by (auto simp: counted_def)
      then have n: "nat (hc_max_redirection_count (fst s) - hc_redirect_counter (fst s)) =
          Suc (nat (hc_max_redirection_count (fst s') - hc_redirect_counter (fst s')))" by simp
      show ?thesis unfolding n using True Some x n less [of s']
        by (subst esp_http_client_perform.simps) simp
    qed (use Some x in \<open>subst esp_http_client_perform.simps; auto split: option.splits\<close>)
  qed (subst esp_http_client_perform.simps; simp)
qed

section \<open>A client without automatic redirection\<close>

lemma stage_fails:
  assumes "stage run f rest s = Some (r, s')" "hc_no_redirect (fst s)"
    and "\<And>r s1. f s = Some (r, s1) \<Longrightarrow> r \<noteq> Some ESP_OK \<and> hc_no_redirect (fst s1)"
    and "\<And>s1. rest s1 = Some (r, s') \<Longrightarrow> hc_no_redirect (fst s1) \<Longrightarrow> r \<noteq> None \<and> r \<noteq> Some ESP_OK"
  shows "r \<noteq> None \<and> r \<noteq> Some ESP_OK"
  using assms unfolding stage_def by (cases run) (fastforce elim!: bind_SomeE split: prod.split_asm if_split_asm)+

lemma stages_keep:
  assumes "hc_no_redirect (fst s)"
  shows "perform_connect E s = Some (r, s1) \<Longrightarrow> r \<noteq> Some ESP_OK \<and> hc_no_redirect (fst s1)"
    and "perform_send E (esp_http_client_request_send E) s = Some (r, s1) \<Longrightarrow> r \<noteq> Some ESP_OK \<and> hc_no_redirect (fst s1)"
    and "perform_send E (esp_http_client_send_post_data E) s = Some (r, s1) \<Longrightarrow> r \<noteq> Some ESP_OK \<and> hc_no_redirect (fst s1)"
    and "perform_fetch E s = Some (r, s1) \<Longrightarrow> r \<noteq> Some ESP_OK \<and> hc_no_redirect (fst s1)"
  using assms by (auto simp: perform_connect_def perform_send_def perform_fetch_def rf_def elim!: bind_SomeE split: prod.split_asm if_split_asm
      dest!: rf_connect rf_request_send rf_send_post rf_fetch)

lemma response_no_redirect:
  "perform_response E s1 = Some (r, s') \<Longrightarrow> hc_no_redirect (fst s1) \<Longrightarrow> r \<noteq> None \<and> r \<noteq> Some ESP_OK"
  by (auto simp: perform_response_def esp_http_check_response_def Let_def split_beta)

lemma round_no_redirect:
  assumes "hc_no_redirect (fst s)" "1 \<le> hc_state (fst s)" "hc_state (fst s) \<le> 5" "\<not> hc_process_again (fst s)"
    and "perform_round E s = Some (r, s')"
  shows "r \<noteq> None \<and> r \<noteq> Some ESP_OK"
proof -
  let ?run = "\<lambda>n. hc_state (fst s) \<le> n"
  let ?r4 = "stage (?run 4) (perform_fetch E) (perform_response E)"
  let ?r3 = "stage (?run 3) (perform_send E (esp_http_client_send_post_data E)) ?r4"
  let ?r2 = "stage (?run 2) (perform_send E (esp_http_client_request_send E)) ?r3"
  have 4: "r \<noteq> None \<and> r \<noteq> Some ESP_OK" if "?r4 s1 = Some (r, s')" "hc_no_redirect (fst s1)" for s1
    using that by (rule stage_fails) (erule stages_keep(4) [OF that(2)], erule (1) response_no_redirect)
  have 3: "r \<noteq> None \<and> r \<noteq> Some ESP_OK" if "?r3 s1 = Some (r, s')" "hc_no_redirect (fst s1)" for s1
    using that by (rule stage_fails) (erule stages_keep(3) [OF that(2)], erule (1) 4)
  have 2: "r \<noteq> None \<and> r \<noteq> Some ESP_OK" if "?r2 s1 = Some (r, s')" "hc_no_redirect (fst s1)" for s1
    using that by (rule stage_fails) (erule stages_keep(2) [OF that(2)], erule (1) 3)
  have "stage (?run 1) (perform_connect E) ?r2 s = Some (r, s')"
    using assms by (simp add: perform_round_def Let_def)
  then show ?thesis using assms(1) by (rule stage_fails) (erule stages_keep(1) [OF assms(1)], erule (1) 2)
qed

text \<open>C23. A client that has automatic redirection disabled never completes a request: \<open>esp_http_client_perform\<close> returns an error for
  every response, also for one that is no redirection, because \<open>esp_http_check_response\<close> tests the flag before the status.\<close>

theorem no_redirect_always_fails:
  assumes "hc_no_redirect (fst s)" "1 \<le> hc_state (fst s)" "hc_state (fst s) \<le> 5" "\<not> hc_process_again (fst s)"
    and "esp_http_client_perform E s = Some (err, s')"
  shows "err \<noteq> ESP_OK"
proof -
  from assms(5) obtain r s1 where "perform_round E s = Some (r, s1)" "r \<noteq> None \<longrightarrow> r = Some err"
    by (subst (asm) esp_http_client_perform.simps) (auto elim!: bind_SomeE split: prod.split_asm option.split_asm)
  with round_no_redirect [OF assms(1-4)] show ?thesis by fastforce
qed

text \<open>A surrounding without a parser and without transports.\<close>

definition ex_client_env :: "(unit, 'z) client_env" where
  "ex_client_env = \<lparr>he_platform = seq_platform (Some 1),
     he_funcs = (\<lambda>_. \<lparr>tf_connect = None, tf_read = None, tf_write = None, tf_close = None, tf_poll_read = None, tf_poll_write = None,
       tf_destroy = None, tf_connect_async = None, tf_parent = None\<rparr>),
     hp_init = (), hp_execute = (\<lambda>_ _. ([], ())), hp_keep_alive = (\<lambda>_. True), hp_parse_url = (\<lambda>_. None), hp_sizeof = (32, 40),
     he_event = (\<lambda>_ w. w), he_random = (\<lambda>w. (0, w)), he_md5 = (\<lambda>_. []), he_base64 = id, he_errno = (\<lambda>_. 0), he_fresh = (\<lambda>_ _. NUL)\<rparr>"

definition ex_tp_world :: tp_world where
  "ex_tp_world = \<lparr>tps = \<lambda>_. None, tlists = \<lambda>_. None\<rparr>"

definition ex_client :: "unit http_client" where
  "ex_client = (new_client () [] 1)\<lparr>hc_state := 5, hc_status_code := 200, hc_no_redirect := True, hc_max_redirection_count := 10\<rparr>"

theorem no_redirect_always_fails_witness:
  "\<exists>err s'. esp_http_client_perform (ex_client_env :: (unit, unit) client_env) (ex_client, ex_tp_world) = Some (err, s') \<and> err \<noteq> ESP_OK"
proof -
  have r: "perform_round (ex_client_env :: (unit, unit) client_env) (ex_client, ex_tp_world) =
      Some (Some ESP_ERR_HTTP_MAX_REDIRECT, (ex_client, ex_tp_world))"
    by (simp add: perform_round_def stage_def perform_response_def esp_http_check_response_def ex_client_def new_client_def)
  have p: "esp_http_client_perform (ex_client_env :: (unit, unit) client_env) (ex_client, ex_tp_world) =
      Some (ESP_ERR_HTTP_MAX_REDIRECT, (ex_client, ex_tp_world))"
    by (subst esp_http_client_perform.simps) (simp add: r)
  have "ESP_ERR_HTTP_MAX_REDIRECT \<noteq> ESP_OK"
    by (rule no_redirect_always_fails [OF _ _ _ _ p]) (simp_all add: ex_client_def new_client_def)
  with p show ?thesis by blast
qed

end
