(* ===== verification/Http_Client_Io.thy ===== *)
theory Http_Client_Io
  imports Http_Client Http_Header_Correct
begin

text \<open>
  The bytes that pass through the HTTP client: what \<open>esp_http_client_read\<close> delivers and what a request puts on the
  connection. The bytes still to arrive and the bytes sent are observed by functions on the state.
\<close>

section \<open>Reading the body\<close>

text \<open>A connection \<open>t\<close>: a read stores the next bytes \<open>inp\<close>, or fails and takes none. Handlers of events leave it alone.
  The parser is inside a body of known length, of which \<open>left\<close> bytes are to come: it reports each piece once.\<close>

definition body_law ::
  "('p, 'z) client_env \<Rightarrow> addr \<Rightarrow> ('z tpw \<Rightarrow> bool) \<Rightarrow> ('z tpw \<Rightarrow> string) \<Rightarrow> ('p \<Rightarrow> nat) \<Rightarrow> bool" where
  "body_law E t ok inp left \<longleftrightarrow>
     (\<forall>w buf ms. ok w \<longrightarrow> buf \<noteq> [] \<longrightarrow> (\<exists>r b w'. esp_transport_read (he_funcs E) (Some t) buf ms w = Some ((r, b), w') \<and> ok w' \<and>
        (if r \<le> 0 then inp w' = inp w \<and> length b = length buf
         else nat r \<le> length buf \<and> nat r \<le> length (inp w) \<and> b = take (nat r) (inp w) @ drop (nat r) buf \<and> inp w' = drop (nat r) (inp w)))) \<and>
     (\<forall>ev w. ok w \<longrightarrow> ok (he_event E ev w) \<and> inp (he_event E ev w) = inp w) \<and>
     (\<forall>p d. d \<noteq> [] \<longrightarrow> length d \<le> left p \<longrightarrow> (\<exists>evs p'. hp_execute E p d = (On_body 0 (length d) # evs, p') \<and>
        evs \<in> {[], [On_message_complete]} \<and> left p' = left p - length d))"

text \<open>A read succeeds whenever there are bytes.\<close>

definition steady :: "('p, 'z) client_env \<Rightarrow> addr \<Rightarrow> ('z tpw \<Rightarrow> bool) \<Rightarrow> ('z tpw \<Rightarrow> string) \<Rightarrow> bool" where
  "steady E t ok inp \<longleftrightarrow> (\<forall>w buf ms r b w'. ok w \<longrightarrow> buf \<noteq> [] \<longrightarrow> inp w \<noteq> [] \<longrightarrow>
     esp_transport_read (he_funcs E) (Some t) buf ms w = Some ((r, b), w') \<longrightarrow> r > 0)"

text \<open>A client inside such a body, and the bytes it has taken from the connection and not delivered.\<close>

definition reading :: "addr \<Rightarrow> ('z tpw \<Rightarrow> bool) \<Rightarrow> ('z tpw \<Rightarrow> string) \<Rightarrow> ('p \<Rightarrow> nat) \<Rightarrow> ('p, 'z) hcs \<Rightarrow> bool" where
  "reading t ok inp left = (\<lambda>(c, w). ok w \<and> hc_transport c = Some t \<and> \<not> hc_is_chunked c \<and> 0 < hc_buffer_size c \<and>
     int (length (hc_res_data c)) = hc_buffer_size c \<and> hc_content_length c = hc_data_process c + int (left (hc_parser c)) \<and>
     length (inp w) \<le> left (hc_parser c) \<and> 0 \<le> hc_raw_len c \<and> hc_raw_data c + nat (hc_raw_len c) \<le> length (hc_res_data c))"

definition undelivered :: "'p http_client \<Rightarrow> string" where
  "undelivered c = take (nat (hc_raw_len c)) (drop (hc_raw_data c) (hc_res_data c))"

lemma body_lawD:
  assumes "body_law E t ok inp left"
  shows "ok w \<Longrightarrow> buf \<noteq> [] \<Longrightarrow> \<exists>r b w'. esp_transport_read (he_funcs E) (Some t) buf ms w = Some ((r, b), w') \<and> ok w' \<and>
        (if r \<le> 0 then inp w' = inp w \<and> length b = length buf
         else nat r \<le> length buf \<and> nat r \<le> length (inp w) \<and> b = take (nat r) (inp w) @ drop (nat r) buf \<and> inp w' = drop (nat r) (inp w))"
    and "ok w \<Longrightarrow> ok (he_event E ev w) \<and> inp (he_event E ev w) = inp w"
    and "d \<noteq> [] \<Longrightarrow> length d \<le> left p \<Longrightarrow> \<exists>evs p'. hp_execute E p d = (On_body 0 (length d) # evs, p') \<and>
        evs \<in> {[], [On_message_complete]} \<and> left p' = left p - length d"
  using assms unfolding body_law_def by - (elim conjE, blast)+

lemma dispatch_ok:
  assumes "body_law E t ok inp left" "ok w"
  obtains w' where "http_dispatch_event E ev (c, w) = (c, w')" "ok w'" "inp w' = inp w"
  using body_lawD(2) [OF assms] assms(2) that by (auto simp: http_dispatch_event_def)

definition after_body :: "'p \<Rightarrow> nat \<Rightarrow> string \<Rightarrow> nat \<Rightarrow> 'p http_client \<Rightarrow> 'p http_client" where
  "after_body p' n buf p c = c\<lparr>hc_parser := p', hc_raw_data := 0,
     hc_output := Some (take p buf @ take n (hc_res_data c) @ drop (p + n) buf, p + n),
     hc_raw_len := hc_raw_len c + int n, hc_data_process := hc_data_process c + int n\<rparr>"

lemma execute_body:
  assumes law: "body_law E t ok inp left" and ok: "ok w" and out: "hc_output c = Some (buf, p)"
    and n: "0 < n" "n \<le> length (hc_res_data c)" "n \<le> left (hc_parser c)" "p + n \<le> length buf"
  obtains p' w' cc where "http_parser_execute E (int n) (c, w) = Some ((after_body p' n buf p c)\<lparr>hc_chunk_complete := cc\<rparr>, w')"
    "ok w'" "inp w' = inp w" "left p' = left (hc_parser c) - n"
proof -
  let ?d = "take n (hc_res_data c)"
  have d: "?d \<noteq> []" "length ?d = n" using n by auto
  obtain evs p' where x: "hp_execute E (hc_parser c) ?d = (On_body 0 n # evs, p')" "evs \<in> {[], [On_message_complete]}"
    "left p' = left (hc_parser c) - n"
    using body_lawD(3) [OF law d(1)] d n by metis
  obtain w' where w': "http_dispatch_event E (HTTP_EVENT_ON_DATA ?d) (after_body p' n buf p c, w) = (after_body p' n buf p c, w')"
    "ok w'" "inp w' = inp w"
    using dispatch_ok [OF law ok] by metis
  have b: "hp_callback E (On_body 0 n) (c\<lparr>hc_parser := p'\<rparr>, w) = Some (after_body p' n buf p c, w')"
    using w'(1) n d out by (simp add: hp_callback_def http_on_body_def after_body_def min_absorb2)
  have cc: "(after_body p' n buf p c)\<lparr>hc_chunk_complete := hc_chunk_complete c\<rparr> = after_body p' n buf p c"
    by (simp add: after_body_def)
  show ?thesis
  proof (cases evs)
    case Nil
    then have "http_parser_execute E (int n) (c, w) = Some (after_body p' n buf p c, w')" using b x(1) by (simp add: http_parser_execute_def)
    then show ?thesis using w'(2,3) x(3) cc [symmetric] by (intro that [where p' = p' and w' = w' and cc = "hc_chunk_complete c"]) auto
  next
    case (Cons e es)
    then have "evs = [On_message_complete]" using x(2) by auto
    then show ?thesis using b x w'(2,3) that [where p' = p' and w' = w' and cc = True]
      by (simp add: http_parser_execute_def) (simp add: hp_callback_def http_on_message_complete_def)
  qed
qed

lemma read_step:
  assumes law: "body_law E t ok inp left" and rd: "reading t ok inp left (c, w)" and raw: "hc_raw_len c = 0"
    and need: "0 < need" "data_remains c" "ridx + nat need \<le> length buf"
  shows "(\<exists>c' w'. read_loop E buf need (int ridx) (c, w) = Some ((int ridx, buf), (c', w')) \<and> reading t ok inp left (c', w') \<and>
        hc_raw_len c' = 0 \<and> inp w' = inp w \<and> (steady E t ok inp \<longrightarrow> inp w = [])) \<or>
     (\<exists>n c' w'. 0 < n \<and> n \<le> nat need \<and> n \<le> length (inp w) \<and> reading t ok inp left (c', w') \<and> hc_raw_len c' = 0 \<and> inp w' = drop n (inp w) \<and>
        read_loop E buf need (int ridx) (c, w) =
        read_loop E (take ridx buf @ take n (inp w) @ drop (ridx + n) buf) (need - int n) (int (ridx + n)) (c', w'))"
proof -
  let ?k = "nat (min need (hc_buffer_size c))"
  have k: "?k \<le> length (hc_res_data c)" "take ?k (hc_res_data c) \<noteq> []" using rd need by (auto simp: reading_def)
  have lk: "length (take ?k (hc_res_data c)) = ?k" using k(1) by simp
  have okw: "ok w" using rd by (simp add: reading_def)
  obtain r b w1 where rb: "esp_transport_read (he_funcs E) (Some t) (take ?k (hc_res_data c)) 10000 w = Some ((r, b), w1)" "ok w1"
    and r: "if r \<le> 0 then inp w1 = inp w \<and> length b = ?k
         else nat r \<le> ?k \<and> nat r \<le> length (inp w) \<and> b = take (nat r) (inp w) @ drop (nat r) (take ?k (hc_res_data c)) \<and> inp w1 = drop (nat r) (inp w)"
    using body_lawD(1) [OF law okw k(2), of 10000] unfolding lk by blast
  let ?c = "c\<lparr>hc_res_data := b @ drop ?k (hc_res_data c)\<rparr>"
  have e: "response_read E (min need (hc_buffer_size c)) 10000 (c, w) = Some (r, (?c, w1))"
    using rb k(1) rd by (simp add: response_read_def reading_def)
  show ?thesis
  proof (cases "r \<le> 0")
    case True
    have "read_loop E buf need (int ridx) (c, w) = Some ((int ridx, buf), (?c, w1))"
      using True e need(1,2) by (subst read_loop.simps) simp
    moreover have "inp w = []" if "steady E t ok inp"
    proof (rule ccontr)
      assume "inp w \<noteq> []"
      with that okw k(2) rb(1) have "r > 0" unfolding steady_def by blast
      with True show False by simp
    qed
    ultimately show ?thesis using True r rb(2) rd raw k(1) by (auto simp: reading_def)
  next
    case False
    let ?n = "nat r"
    have n: "0 < ?n" "?n \<le> ?k" "?n \<le> length (inp w)" "b = take ?n (inp w) @ drop ?n (take ?k (hc_res_data c))" "inp w1 = drop ?n (inp w)"
      using False r by auto
    have len: "length b = ?k" using n(2,3,4) k(1) by simp
    have tk: "take ?n (b @ drop ?k (hc_res_data c)) = take ?n (inp w)" using n by simp
    let ?co = "?c\<lparr>hc_output := Some (buf, ridx)\<rparr>"
    have o: "hc_output ?co = Some (buf, ridx)" by simp
    have p1: "?n \<le> length (hc_res_data ?co)" using len n(2) k(1) by simp
    have "length (inp w) \<le> left (hc_parser c)" using rd by (simp add: reading_def)
    then have p2: "?n \<le> left (hc_parser ?co)" using n(3) by simp
    have p3: "ridx + ?n \<le> length buf" using n(2) need(3) by linarith
    obtain p' w2 cc where x: "http_parser_execute E (int ?n) (?co, w1) =
        Some ((after_body p' ?n buf ridx ?co)\<lparr>hc_chunk_complete := cc\<rparr>, w2)"
      "ok w2" "inp w2 = inp w1" "left p' = left (hc_parser ?co) - ?n"
      by (rule execute_body [OF law rb(2) o n(1) p1 p2 p3])
    let ?c' = "(after_body p' ?n buf ridx (?c\<lparr>hc_output := Some (buf, ridx)\<rparr>))\<lparr>hc_chunk_complete := cc, hc_raw_len := 0, hc_output := None\<rparr>"
    have "read_loop E buf need (int ridx) (c, w) =
        read_loop E (take ridx buf @ take ?n (inp w) @ drop (ridx + ?n) buf) (need - int ?n) (int (ridx + ?n)) (?c', w2)"
      using False e need(1,2) x(1) tk raw n(1) by (subst read_loop.simps) (simp add: after_body_def del: take_append)
    moreover have "reading t ok inp left (?c', w2)"
      using rd x(2-4) n(2,3,5) len k(1) by (auto simp: reading_def after_body_def diff_le_mono)
    moreover have "hc_raw_len ?c' = 0" by simp
    moreover have "inp w2 = drop ?n (inp w)" using x(3) n(5) by simp
    moreover have "?n \<le> nat need" using n(2) by linarith
    ultimately show ?thesis using n(1,3) by blast
  qed
qed

lemma read_loop_ok:
  assumes law: "body_law E t ok inp left"
  shows "reading t ok inp left (c, w) \<Longrightarrow> hc_raw_len c = 0 \<Longrightarrow> ridx + nat need \<le> length buf \<Longrightarrow>
    \<exists>k c' w'. read_loop E buf need (int ridx) (c, w) =
        Some ((int (ridx + k), take ridx buf @ take k (inp w) @ drop (ridx + k) buf), (c', w')) \<and> k \<le> nat need \<and> k \<le> length (inp w) \<and>
      reading t ok inp left (c', w') \<and> hc_raw_len c' = 0 \<and> inp w' = drop k (inp w) \<and>
      (steady E t ok inp \<longrightarrow> k = min (nat need) (length (inp w)))"
proof (induction "nat need" arbitrary: buf need ridx c w rule: less_induct)
  case less
  consider "need \<le> 0" | "0 < need" "\<not> data_remains c" | "0 < need" "data_remains c" by linarith
  then show ?case
  proof cases
    case 1
    then show ?thesis using less.prems by (subst read_loop.simps) (intro exI [of _ 0], auto)
  next
    case 2
    then have "inp w = []" using less.prems(1) by (auto simp: reading_def data_remains_def)
    then show ?thesis using 2 less.prems by (subst read_loop.simps) (intro exI [of _ 0], auto)
  next
    case 3
    from read_step [OF law less.prems(1,2) 3 less.prems(3)] show ?thesis
    proof (elim disjE exE conjE)
      fix c' w'
      assume "read_loop E buf need (int ridx) (c, w) = Some ((int ridx, buf), (c', w'))" "reading t ok inp left (c', w')"
        "hc_raw_len c' = 0" "inp w' = inp w" "steady E t ok inp \<longrightarrow> inp w = []"
      then show ?thesis by (intro exI [of _ 0] exI [of _ c'] exI [of _ w']) auto
    next
      fix n c' w'
      assume n: "0 < n" "n \<le> nat need" "n \<le> length (inp w)" and s': "reading t ok inp left (c', w')" "hc_raw_len c' = 0"
        "inp w' = drop n (inp w)"
        and e: "read_loop E buf need (int ridx) (c, w) =
          read_loop E (take ridx buf @ take n (inp w) @ drop (ridx + n) buf) (need - int n) (int (ridx + n)) (c', w')"
      let ?b = "take ridx buf @ take n (inp w) @ drop (ridx + n) buf"
      have m: "nat (need - int n) < nat need" "nat (need - int n) = nat need - n" using n by linarith+
      have l: "ridx + n + nat (need - int n) \<le> length ?b" using n less.prems(3) m(2) by simp
      obtain k c2 w2 where k: "read_loop E ?b (need - int n) (int (ridx + n)) (c', w') =
          Some ((int (ridx + n + k), take (ridx + n) ?b @ take k (inp w') @ drop (ridx + n + k) ?b), (c2, w2))"
        "k \<le> nat (need - int n)" "k \<le> length (inp w')" "reading t ok inp left (c2, w2)" "hc_raw_len c2 = 0"
        "inp w2 = drop k (inp w')" "steady E t ok inp \<longrightarrow> k = min (nat (need - int n)) (length (inp w'))"
        using less.hyps [OF m(1) s'(1,2) l] by blast
      have "take (ridx + n) ?b @ take k (inp w') @ drop (ridx + n + k) ?b = take ridx buf @ take (n + k) (inp w) @ drop (ridx + (n + k)) buf"
        using n less.prems(3) s'(3) by (simp add: take_add [of n k] add.commute [of k] add.assoc)
      with e k(1) have "read_loop E buf need (int ridx) (c, w) =
          Some ((int (ridx + (n + k)), take ridx buf @ take (n + k) (inp w) @ drop (ridx + (n + k)) buf), (c2, w2))"
        by (simp only: add.assoc)
      moreover have "n + k \<le> nat need" using k(2) m(2) n(2) by linarith
      moreover have "n + k \<le> length (inp w)" using k(3) s'(3) n(3) by simp
      moreover have "inp w2 = drop (n + k) (inp w)" using k(6) s'(3) by (simp add: add.commute)
      moreover have "steady E t ok inp \<longrightarrow> n + k = min (nat need) (length (inp w))" using k(7) m(2) s'(3) n(2,3) by (auto simp: min_def)
      ultimately show ?thesis using k(4,5) by blast
    qed
  qed
qed

text \<open>C21. Inside a body of known length that is not chunked, \<open>esp_http_client_read\<close> with room for what is asked returns, stores
  the next bytes of the body, those kept from an earlier read first, at the start of the caller's buffer and nothing after
  them, and leaves exactly the rest to the next call. It reads less than asked only when a read of the connection fails or the
  body ends.\<close>

theorem client_read_delivers:
  assumes law: "body_law E t ok inp left" and rd: "reading t ok inp left (c, w)" and len: "0 \<le> len" "nat len \<le> length buf"
  shows "\<exists>k c' w'. esp_http_client_read E buf len (c, w) =
      Some ((int k, take k (undelivered c @ inp w) @ drop k buf), (c', w')) \<and>
    k \<le> nat len \<and> k \<le> length (undelivered c @ inp w) \<and> reading t ok inp left (c', w') \<and>
    undelivered c' @ inp w' = drop k (undelivered c @ inp w) \<and>
    (steady E t ok inp \<longrightarrow> k = min (nat len) (length (undelivered c @ inp w)))"
proof -
  let ?m = "nat (min (hc_raw_len c) len)"
  let ?c = "c\<lparr>hc_raw_data := hc_raw_data c + ?m, hc_raw_len := hc_raw_len c - int ?m\<rparr>"
  let ?b = "take ?m (undelivered c) @ drop ?m buf"
  have raw: "0 \<le> hc_raw_len c" "hc_raw_data c + nat (hc_raw_len c) \<le> length (hc_res_data c)" using rd by (auto simp: reading_def)
  then have p: "length (undelivered c) = nat (hc_raw_len c)" by (simp add: undelivered_def)
  have m: "?m \<le> nat len" "?m \<le> length (undelivered c)" "int ?m = min (hc_raw_len c) len" using p raw len by auto
  have lb: "length ?b = length buf" using m len by simp
  have tk: "take ?m (drop (hc_raw_data c) (hc_res_data c)) = take ?m (undelivered c)"
    using m(2) p by (simp add: undelivered_def min_absorb1)
  have q: "nat (hc_raw_len c - int ?m) = nat (hc_raw_len c) - ?m" by linarith
  have q1: "hc_raw_data c + ?m + nat (hc_raw_len c - int ?m) \<le> length (hc_res_data c)" unfolding q using raw(2) m(2) p by linarith
  have q2: "0 \<le> hc_raw_len c - int ?m" using raw(1) by linarith
  have "undelivered ?c = take (nat (hc_raw_len c - int ?m)) (drop (hc_raw_data c + ?m) (hc_res_data c))" by (simp add: undelivered_def)
  then have pc: "undelivered ?c = drop ?m (undelivered c)" unfolding q by (simp add: undelivered_def drop_take add.commute)
  have r: "reading t ok inp left (?c, w)" using rd q1 q2 raw(1) len(1) unfolding reading_def by simp
  have mr: "mem_read (hc_res_data c) (hc_raw_data c) ?m = Some (take ?m (undelivered c))" using m(2) raw p tk by simp
  have mw: "mem_write buf 0 (take ?m (undelivered c)) = Some ?b" using m(1,2) len by (simp add: min_absorb1)
  have e: "esp_http_client_read E buf len (c, w) = read_loop E ?b (len - int ?m) (int ?m) (?c, w)"
    using mr mw raw(1) len(1) by (auto simp: esp_http_client_read_def Let_def)
  show ?thesis
  proof (cases "hc_raw_len c \<le> len")
    case True
    then have z: "hc_raw_len ?c = 0" "?m = length (undelivered c)" using m(3) p raw by auto
    have lb2: "?m + nat (len - int ?m) \<le> length ?b" unfolding lb using len m(1) by linarith
    obtain k c' w' where k: "read_loop E ?b (len - int ?m) (int ?m) (?c, w) =
        Some ((int (?m + k), take ?m ?b @ take k (inp w) @ drop (?m + k) ?b), (c', w'))" "k \<le> nat (len - int ?m)" "k \<le> length (inp w)"
      "reading t ok inp left (c', w')" "hc_raw_len c' = 0" "inp w' = drop k (inp w)"
      "steady E t ok inp \<longrightarrow> k = min (nat (len - int ?m)) (length (inp w))"
      using read_loop_ok [OF law r z(1) lb2] by blast
    have "take ?m ?b @ take k (inp w) @ drop (?m + k) ?b = take (?m + k) (undelivered c @ inp w) @ drop (?m + k) buf"
      using z(2) by (simp add: add.commute)
    with e k(1) have "esp_http_client_read E buf len (c, w) =
        Some ((int (?m + k), take (?m + k) (undelivered c @ inp w) @ drop (?m + k) buf), (c', w'))" by (simp only:)
    moreover have "undelivered c' = []" using k(5) by (simp add: undelivered_def)
    then have "undelivered c' @ inp w' = drop (?m + k) (undelivered c @ inp w)" using k(6) z(2) by simp
    moreover have nl: "nat (len - int ?m) = nat len - ?m" using m(1) len by linarith
    then have "?m + k \<le> nat len" using k(2) m(1) by linarith
    moreover have "?m + k \<le> length (undelivered c @ inp w)" using k(3) z(2) by simp
    moreover have "steady E t ok inp \<longrightarrow> ?m + k = min (nat len) (length (undelivered c @ inp w))"
    proof -
      have mm: "x + min (n - x) y = min n (x + y)" if "x \<le> n" for x n y :: nat using that by simp
      show ?thesis using k(7) unfolding nl length_append z(2) [symmetric] mm [OF m(1), symmetric] by blast
    qed
    ultimately show ?thesis using k(4) by blast
  next
    case False
    then have "nat len = ?m" "int ?m = len" using len by auto
    then have "esp_http_client_read E buf len (c, w) = Some ((int ?m, ?b), (?c, w))"
      using e by (simp add: read_loop.simps)
    moreover have "take ?m (undelivered c @ inp w) @ drop ?m buf = ?b" using m(2) by simp
    moreover have "undelivered ?c @ inp w = drop ?m (undelivered c @ inp w)" unfolding pc using m(2) by simp
    moreover have "?m \<le> length (undelivered c @ inp w)" "?m = min (nat len) (length (undelivered c @ inp w))"
      using m(2) \<open>nat len = ?m\<close> by simp_all
    ultimately show ?thesis using r m(1) by metis
  qed
qed

text \<open>A surrounding whose transport reads from a text in the state, with a parser that counts the bytes of a body.\<close>

definition ex_stream_env :: "(nat, string) client_env" where
  "ex_stream_env = \<lparr>he_platform = seq_platform (Some 1),
     he_funcs = (\<lambda>_. \<lparr>tf_connect = None,
       tf_read = Some (\<lambda>t buf ms w. let n = min (length buf) (length (tp_world.more w)) in
         if n = 0 then Some ((-1, buf), w)
         else Some ((int n, take n (tp_world.more w) @ drop n buf), tp_world.more_update (drop n) w)),
       tf_write = None, tf_close = None, tf_poll_read = None, tf_poll_write = None, tf_destroy = None, tf_connect_async = None, tf_parent = None\<rparr>),
     hp_init = 0, hp_execute = (\<lambda>p d. ([On_body 0 (length d)], p - length d)), hp_keep_alive = (\<lambda>_. True), hp_parse_url = (\<lambda>_. None),
     hp_sizeof = (32, 40), he_event = (\<lambda>_ w. w), he_random = (\<lambda>w. (0, w)), he_md5 = (\<lambda>_. []), he_base64 = id, he_errno = (\<lambda>_. 0),
     he_fresh = (\<lambda>_ _. NUL)\<rparr>"

definition ex_tp_item :: transport_item where
  "ex_tp_item = \<lparr>tp_port = 80, tp_scheme = Some ''http'', tp_data = None, tp_funcs = Some 2, tp_async = None, tp_parent = None\<rparr>"

definition ex_stream_world :: "string \<Rightarrow> string tp_world_scheme" where
  "ex_stream_world txt = \<lparr>tps = [7 \<mapsto> ex_tp_item], tlists = \<lambda>_. None, \<dots> = txt\<rparr>"

definition ex_reader :: "nat http_client" where
  "ex_reader = (new_client 4 [] 1)\<lparr>hc_transport := Some 7, hc_res_data := ''xxab'', hc_buffer_size := 4, hc_raw_data := 2, hc_raw_len := 2,
     hc_content_length := 6, hc_data_process := 2, hc_state := 5\<rparr>"

lemma ex_stream_law: "body_law ex_stream_env 7 (\<lambda>w. tps w 7 = Some ex_tp_item) tp_world.more id"
  by (auto simp: body_law_def ex_stream_env_def esp_transport_read_def tp_func_def ex_tp_item_def Let_def)

lemma ex_stream_steady: "steady ex_stream_env 7 (\<lambda>w. tps w 7 = Some ex_tp_item) tp_world.more"
  by (auto simp: steady_def ex_stream_env_def esp_transport_read_def tp_func_def ex_tp_item_def Let_def min_def split: if_split_asm)

theorem client_read_delivers_witness:
  "\<exists>c' w'. esp_http_client_read ex_stream_env ''-----'' 3 (ex_reader, ex_stream_world ''cdef'') = Some ((3, ''abc--''), (c', w')) \<and>
     undelivered c' @ tp_world.more w' = ''def''"
proof -
  have "reading 7 (\<lambda>w. tps w 7 = Some ex_tp_item) tp_world.more id (ex_reader, ex_stream_world ''cdef'')"
    by (simp add: reading_def ex_reader_def ex_stream_world_def new_client_def)
  moreover have "undelivered ex_reader = ''ab''" "tp_world.more (ex_stream_world ''cdef'') = ''cdef''"
    by (simp_all add: undelivered_def ex_reader_def ex_stream_world_def)
  ultimately show ?thesis
    using client_read_delivers [OF ex_stream_law, of ex_reader "ex_stream_world ''cdef''" 3 "''-----''"] ex_stream_steady by auto
qed

end
