(* ===== verification/Http_Client_Request.thy ===== *)
theory Http_Client_Request
  imports Http_Client_Correct
begin

text \<open>
  The bytes a request puts on the connection: the first line, every header as a line, and the empty line, whatever pieces
  the transport accepts at a time.
\<close>

section \<open>Writing\<close>

text \<open>A connection \<open>t\<close> that accepts at least one byte of every write; \<open>out\<close> is what was sent. Memory is available, and
  allocating does not disturb the connection.\<close>

definition write_law :: "('p, 'z) client_env \<Rightarrow> addr \<Rightarrow> ('z tpw \<Rightarrow> bool) \<Rightarrow> ('z tpw \<Rightarrow> string) \<Rightarrow> bool" where
  "write_law E t ok out \<longleftrightarrow> allocates (he_platform E) \<and>
     (\<forall>n w. ok w \<longrightarrow> ok (snd (heap_alloc (he_platform E) n w)) \<and> out (snd (heap_alloc (he_platform E) n w)) = out w) \<and>
     (\<forall>w d ms. ok w \<longrightarrow> d \<noteq> [] \<longrightarrow> (\<exists>r w'. esp_transport_write (he_funcs E) (Some t) d ms w = Some (int r, w') \<and>
        0 < r \<and> r \<le> length d \<and> ok w' \<and> out w' = out w @ take r d))"

lemma write_lawD:
  assumes "write_law E t ok out"
  shows "allocates (he_platform E)"
    and "ok w \<Longrightarrow> ok (snd (heap_alloc (he_platform E) n w)) \<and> out (snd (heap_alloc (he_platform E) n w)) = out w"
    and "ok w \<Longrightarrow> d \<noteq> [] \<Longrightarrow> \<exists>r w'. esp_transport_write (he_funcs E) (Some t) d ms w = Some (int r, w') \<and>
        0 < r \<and> r \<le> length d \<and> ok w' \<and> out w' = out w @ take r d"
  using assms unfolding write_law_def by - (elim conjE, blast)+

lemma request_write_ok:
  assumes law: "write_law E t ok out"
  shows "ok w \<Longrightarrow> hc_transport c = Some t \<Longrightarrow> hc_written_index c = int i \<Longrightarrow> hc_write_left c = int n \<Longrightarrow> i + n \<le> length (hc_req_data c) \<Longrightarrow>
    \<exists>w'. request_write E (c, w) = Some (True, (c\<lparr>hc_written_index := int (i + n), hc_write_left := 0\<rparr>, w')) \<and> ok w' \<and>
      out w' = out w @ take n (drop i (hc_req_data c))"
proof (induction n arbitrary: c w i rule: less_induct)
  case (less n)
  show ?case
  proof (cases "n = 0")
    case True
    then have "c\<lparr>hc_written_index := int (i + n), hc_write_left := 0\<rparr> = c" using less.prems by simp
    then show ?thesis using True less.prems by (subst request_write.simps) auto
  next
    case False
    let ?d = "take n (drop i (hc_req_data c))"
    have d: "?d \<noteq> []" "length ?d = n" using False less.prems by auto
    obtain r w1 where r: "esp_transport_write (he_funcs E) (Some t) ?d (hc_timeout_ms c) w = Some (int r, w1)" "0 < r" "r \<le> n" "ok w1"
      "out w1 = out w @ take r ?d"
      using write_lawD(3) [OF law less.prems(1) d(1)] d(2) by metis
    let ?c = "c\<lparr>hc_written_index := int (i + r), hc_write_left := int (n - r)\<rparr>"
    have "request_write E (c, w) = request_write E (?c, w1)"
      using less.prems False r by (subst request_write.simps) (simp add: of_nat_diff)
    moreover obtain w2 where "request_write E (?c, w1) = Some (True, (?c\<lparr>hc_written_index := int (i + r + (n - r)), hc_write_left := 0\<rparr>, w2))"
      "ok w2" "out w2 = out w1 @ take (n - r) (drop (i + r) (hc_req_data ?c))"
      using less.IH [of "n - r" w1 ?c "i + r"] r False less.prems by auto
    moreover have "take r ?d @ take (n - r) (drop (i + r) (hc_req_data c)) = ?d"
    proof -
      have "take r ?d = take r (drop i (hc_req_data c))" using r(3) by (simp only: take_take min_absorb1)
      then show ?thesis using r(3) take_add [of r "n - r" "drop i (hc_req_data c)"] by (simp only: drop_drop add.commute) simp
    qed
    ultimately show ?thesis using r(3,5) by auto
  qed
qed

section \<open>The first line and the headers\<close>

lemma header_set_world:
  assumes J: "\<And>n w. J w \<Longrightarrow> J (snd (heap_alloc R n w))"
    and set: "http_header_set R h k v w = Some (e, h', w')" "J w"
  shows "J w'"
proof -
  have K: "J w'" if "heap_alloc R n w = (a, w')" "J w" for n w a w' using J [OF that(2), of n] that(1) by simp
  show ?thesis using set
    unfolding http_header_set_def http_header_new_item_def http_utils_assign_string_def Let_def
    by (auto elim!: bind_SomeE split: option.split_asm prod.split_asm if_split_asm) (meson K)+
qed

text \<open>The first line for a given method.\<close>

definition first_line :: "string \<Rightarrow> connection_info \<Rightarrow> string \<Rightarrow> string" where
  "first_line meth i path = meth @ '' '' @ path @ (case ci_query i of None \<Rightarrow> [] | Some q \<Rightarrow> ''?'' @ q) @ '' HTTP/1.1'' @ [CHR 0x0D, CHR 0x0A]"

lemma first_line_piece_ok:
  assumes "0 \<le> n" "n + int (length txt) < hc_buffer_size c" "hc_buffer_size c = int (length (hc_req_data c))" "hc_buffer_size c < 2 ^ 31"
  shows "\<exists>d. first_line_piece txt (c, n) = Some (c\<lparr>hc_req_data := d\<rparr>, n + int (length txt)) \<and> length d = length (hc_req_data c) \<and>
    take (nat n + length txt) d = take (nat n) (hc_req_data c) @ txt"
  using snprintf_fits [of n "txt" "hc_buffer_size c" "hc_req_data c"] assms by (auto simp: first_line_piece_def)

lemma first_line_step:
  assumes "take (length a) d = a" "length d = N" "hc_buffer_size c = int N" "N < 2 ^ 31" "length (a @ s) < N"
  shows "\<exists>d'. first_line_piece s (c\<lparr>hc_req_data := d\<rparr>, int (length a)) = Some (c\<lparr>hc_req_data := d'\<rparr>, int (length (a @ s))) \<and>
    length d' = N \<and> take (length (a @ s)) d' = a @ s"
  using first_line_piece_ok [of "int (length a)" s "c\<lparr>hc_req_data := d\<rparr>"] assms by auto

lemma prepare_first_line_ok:
  assumes law: "write_law E t ok out" and ok: "ok w"
    and c: "0 \<le> n" "hc_headers c = Some h" "method_name (ci_method (hc_info c)) = Some meth" "ci_path (hc_info c) = Some path"
    and size: "hc_buffer_size c = int (length (hc_req_data c))" "hc_buffer_size c < 2 ^ 31"
    and fits: "length (first_line meth (hc_info c) path) < length (hc_req_data c)"
  shows "\<exists>d w'. http_client_prepare_first_line E n (c, w) = Some (int (length (first_line meth (hc_info c) path)),
        (c\<lparr>hc_headers := Some (header_put h ''Content-Length'' (int_dec n)), hc_req_data := d\<rparr>, w')) \<and>
      length d = length (hc_req_data c) \<and>
      take (length (first_line meth (hc_info c) path)) d = first_line meth (hc_info c) path \<and> ok w' \<and> out w' = out w"
proof -
  let ?R = "he_platform E" and ?v = "int_dec n" and ?crlf = "'' HTTP/1.1'' @ [CHR 0x0D, CHR 0x0A]"
  let ?h = "header_put h ''Content-Length'' ?v"
  obtain a w1 where 1: "heap_alloc ?R (length ?v + 1) w = (Some a, w1)" using allocatesD [OF write_lawD(1) [OF law]] by blast
  then have o1: "ok w1 \<and> out w1 = out w" using write_lawD(2) [OF law ok, of "length ?v + 1"] by simp
  obtain w2 where 2: "http_header_set ?R (Some h) (Some ''Content-Length'') (Some ?v) w1 = Some (ESP_OK, Some ?h, w2)"
    using header_set_ok [OF write_lawD(1) [OF law]] by blast
  have o2: "ok w2 \<and> out w2 = out w"
    by (rule header_set_world [where J = "\<lambda>w'. ok w' \<and> out w' = out w", OF _ 2 o1]) (use write_lawD(2) [OF law] in auto)
  let ?c = "c\<lparr>hc_headers := Some ?h\<rparr>" and ?q = "case ci_query (hc_info c) of None \<Rightarrow> [] | Some q \<Rightarrow> ''?'' @ q"
  have line: "first_line meth (hc_info c) path = (meth @ '' '' @ path) @ ?q @ ?crlf" by (simp add: first_line_def)
  let ?a = "meth @ '' '' @ path"
  let ?N = "length (hc_req_data c)"
  have N: "hc_buffer_size ?c = int ?N" "?N < 2 ^ 31" using size by simp_all
  have l: "length ([] @ ?a) < ?N" "length (?a @ ?q) < ?N" "length ((?a @ ?q) @ ?crlf) < ?N" using fits unfolding line by simp_all
  obtain d1 where d1: "first_line_piece ?a (?c, 0) = Some (?c\<lparr>hc_req_data := d1\<rparr>, int (length ?a))" "length d1 = ?N" "take (length ?a) d1 = ?a"
    using first_line_step [of "[]" "hc_req_data c" ?N ?c ?a] N l(1) by auto
  obtain d2 where d2: "(case ci_query (hc_info c) of None \<Rightarrow> Some (?c\<lparr>hc_req_data := d1\<rparr>, int (length ?a))
       | Some q \<Rightarrow> first_line_piece (''?'' @ q) (?c\<lparr>hc_req_data := d1\<rparr>, int (length ?a))) =
      Some (?c\<lparr>hc_req_data := d2\<rparr>, int (length (?a @ ?q)))"
    "length d2 = ?N" "take (length (?a @ ?q)) d2 = ?a @ ?q"
  proof (cases "ci_query (hc_info c)")
    case None
    then show ?thesis using that [of d1] d1 by simp
  next
    case (Some q)
    then have e: "?q = ''?'' @ q" by simp
    show ?thesis using that first_line_step [OF d1(3,2) N l(2)] unfolding e Some option.case by blast
  qed
  obtain d3 where d3: "first_line_piece ?crlf (?c\<lparr>hc_req_data := d2\<rparr>, int (length (?a @ ?q))) =
      Some (?c\<lparr>hc_req_data := d3\<rparr>, int (length ((?a @ ?q) @ ?crlf)))"
    "length d3 = ?N" "take (length ((?a @ ?q) @ ?crlf)) d3 = (?a @ ?q) @ ?crlf"
    using first_line_step [OF d2(3,2) N l(3)] by blast
  have "http_client_prepare_first_line E n (c, w) =
      Some (int (length ((?a @ ?q) @ ?crlf)), (?c\<lparr>hc_req_data := d3\<rparr>, w2))"
    using c 1 2 d1(1) d2(1) d3(1)
    by (simp add: http_client_prepare_first_line_def strdup_def http_header_set_format_def del: length_append append.simps append_assoc)
  then show ?thesis using d3(2,3) o2 unfolding line append_assoc by blast
qed

lemma header_text_put: "index \<le> idx \<Longrightarrow> idx + int (length (header_put h k v)) \<le> ret \<Longrightarrow> header_text (header_put h k v) index ret idx \<noteq> []"
proof (induction h arbitrary: idx)
  case (Cons it h)
  then show ?case by (auto simp: header_line_def split: option.splits)
qed (simp add: header_line_def)

lemma header_text_past: "idx + int (length h) \<le> index \<Longrightarrow> header_text h index ret idx = []"
  by (induction h arbitrary: idx) (auto split: option.splits)

lemma generate_past: "http_header_generate_string (Some h) (int (length h)) b bl = Some (0, b, bl)"
  using gen_size_total [of 0 h "int (length h)" "int (length h)" bl 0 "-1"] header_text_past [of 0 h "int (length h)"]
  by (auto simp: http_header_generate_string_def Let_def)

lemma request_headers_ok:
  assumes law: "write_law E t ok out" and ok: "ok w" and c: "hc_transport c = Some t" "hc_headers c = Some h" "hc_header_index c = 0"
    and size: "hc_buffer_size c = int (length (hc_req_data c))" "length (hc_req_data c) < 2 ^ 31"
    and tx: "text = header_text h 0 (int (length h)) 0" "text \<noteq> []"
    and line: "take (length line) (hc_req_data c) = line" "length line + length text + 3 \<le> length (hc_req_data c)"
  shows "\<exists>c' w'. request_headers E (int (length line)) (c, w) = Some (True, (c', w')) \<and> ok w' \<and>
      out w' = out w @ line @ text @ [CHR 0x0D, CHR 0x0A] \<and> hc_post_len c' = hc_post_len c"
proof -
  let ?n = "length line" and ?crlf = "[CHR 0x0D, CHR 0x0A]"
  let ?b = "drop ?n (hc_req_data c)"
  obtain b where g: "http_header_generate_string (Some h) 0 ?b (hc_buffer_size c - int ?n) = Some (int (length h), b, int (length text) + 2)"
    "take (length text + 2) b = text @ ?crlf" "length b = length ?b"
    using generate_complete [of h 0 "hc_buffer_size c - int ?n" ?b] tx line(2) size by auto
  have h: "h \<noteq> []" using tx by auto
  let ?wl = "length text + 2 + ?n"
  let ?d = "take ?wl (take ?n (hc_req_data c) @ b) @ [NUL] @ drop (?wl + 1) (take ?n (hc_req_data c) @ b)"
  have lb: "length b + ?n = length (hc_req_data c)" using g(3) line(2) by simp
  have w: "mem_write (take ?n (hc_req_data c) @ b) ?wl [NUL] = Some ?d" using line(2) lb by simp
  have tk: "take ?wl ?d = line @ text @ ?crlf"
  proof -
    have "take ?wl ?d = take ?wl (line @ b)" using line lb by simp
    also have "\<dots> = line @ take (length text + 2) b" by simp
    finally show ?thesis using g(2) by simp
  qed
  have ld: "length ?d = length (hc_req_data c)" using line(2) lb by simp
  let ?c1 = "c\<lparr>hc_header_index := int (length h), hc_req_data := ?d, hc_written_index := 0, hc_write_left := int ?wl\<rparr>"
  have le: "0 + ?wl \<le> length (hc_req_data ?c1)" using ld line(2) by simp
  obtain w1 where r: "request_write E (?c1, w) = Some (True, (?c1\<lparr>hc_written_index := int (0 + ?wl), hc_write_left := 0\<rparr>, w1))" "ok w1"
    "out w1 = out w @ take ?wl (drop 0 ?d)"
    using request_write_ok [OF law ok, of ?c1 0 ?wl] le c(1) by auto
  let ?c2 = "?c1\<lparr>hc_written_index := int (0 + ?wl), hc_write_left := 0\<rparr>"
  have 1: "request_headers E (int ?n) (c, w) = request_headers E 0 (?c2, w1)"
    using c g(1) h w r(1) by (subst request_headers.simps) (simp add: nat_add_distrib add_ac)
  have 2: "request_headers E 0 (?c2, w1) = Some (True, (?c2\<lparr>hc_req_data := ?d, hc_header_index := 0\<rparr>, w1))"
    using c(2) generate_past [of h ?d] by (subst request_headers.simps) simp
  show ?thesis using 1 2 r(2,3) tk by auto
qed

text \<open>C27. A new request with a known method and a path, whose first line and headers fit into the buffer together and
  whose content has a non-negative length, reaches a connection whose writes do not fail exactly: the method, the path with
  the query and the protocol, then each header, the length of the content among them, as a line of its own, then the empty
  line, in whatever pieces the transport accepts them. The client then has the length of the content left to send.\<close>

theorem request_on_the_wire:
  assumes law: "write_law E t ok out" and ok: "ok w"
    and c: "hc_transport c = Some t" "hc_headers c = Some h" "\<not> hc_first_line_prepared c" "0 \<le> hc_post_len c"
    and req: "method_name (ci_method (hc_info c)) = Some meth" "ci_path (hc_info c) = Some path"
    and size: "hc_buffer_size c = int (length (hc_req_data c))" "length (hc_req_data c) < 2 ^ 31"
    and h': "h' = header_put h ''Content-Length'' (int_dec (hc_post_len c))"
    and fits: "length (first_line meth (hc_info c) path) + length (header_text h' 0 (int (length h')) 0) + 3 \<le> length (hc_req_data c)"
  shows "\<exists>c' w'. esp_http_client_request_send E (c, w) = Some (ESP_OK, (c', w')) \<and>
    out w' = out w @ first_line meth (hc_info c) path @ header_text h' 0 (int (length h')) 0 @ [CHR 0x0D, CHR 0x0A] \<and>
    hc_state c' = HTTP_STATE_REQ_COMPLETE_HEADER \<and> hc_write_left c' = hc_post_len c \<and> ok w'"
proof -
  let ?line = "first_line meth (hc_info c) path" and ?text = "header_text h' 0 (int (length h')) 0"
  obtain d w1 where p: "http_client_prepare_first_line E (hc_post_len c) (c, w) =
      Some (int (length ?line), (c\<lparr>hc_headers := Some h', hc_req_data := d\<rparr>, w1))"
    "length d = length (hc_req_data c)" "take (length ?line) d = ?line" "ok w1" "out w1 = out w"
    using prepare_first_line_ok [OF law ok c(4,2) req size(1)] size fits unfolding h' by auto
  let ?c = "c\<lparr>hc_headers := Some h', hc_req_data := d, hc_written_index := 0, hc_write_left := 0, hc_first_line_prepared := True,
      hc_header_index := 0\<rparr>"
  have t: "?text \<noteq> []" unfolding h' by (rule header_text_put) simp_all
  obtain c' w' where r: "request_headers E (int (length ?line)) (?c, w1) = Some (True, (c', w'))" "ok w'"
    "out w' = out w1 @ ?line @ ?text @ [CHR 0x0D, CHR 0x0A]" "hc_post_len c' = hc_post_len c"
    using request_headers_ok [OF law p(4), of ?c h' "?text" ?line] c(1) size p(2,3) t fits by auto
  have "esp_http_client_request_send E (c, w) =
      Some (ESP_OK, (c'\<lparr>hc_state := HTTP_STATE_REQ_COMPLETE_HEADER, hc_written_index := 0, hc_write_left := hc_post_len c'\<rparr>, w'))"
    using c(3) p(1) r(1) by (simp add: esp_http_client_request_send_def)
  then show ?thesis using r(2-4) p(5) by simp
qed

text \<open>A transport that appends what it accepts, two bytes at most, to a text in the state.\<close>

definition ex_sink_env :: "(unit, string) client_env" where
  "ex_sink_env = \<lparr>he_platform = seq_platform (Some 1),
     he_funcs = (\<lambda>_. \<lparr>tf_connect = None, tf_read = None,
       tf_write = Some (\<lambda>t d ms w. Some (int (min 2 (length d)), tp_world.more_update (\<lambda>o1. o1 @ take (min 2 (length d)) d) w)),
       tf_close = None, tf_poll_read = None, tf_poll_write = None, tf_destroy = None, tf_connect_async = None, tf_parent = None\<rparr>),
     hp_init = (), hp_execute = (\<lambda>p d. ([], ())), hp_keep_alive = (\<lambda>_. True), hp_parse_url = (\<lambda>_. None),
     hp_sizeof = (32, 40), he_event = (\<lambda>_ w. w), he_random = (\<lambda>w. (0, w)), he_md5 = (\<lambda>_. []), he_base64 = id, he_errno = (\<lambda>_. 0),
     he_fresh = (\<lambda>_ _. NUL)\<rparr>"

definition ex_link :: transport_item where
  "ex_link = \<lparr>tp_port = 80, tp_scheme = Some ''http'', tp_data = None, tp_funcs = Some 2, tp_async = None, tp_parent = None\<rparr>"

definition ex_sink_world :: "string tp_world_scheme" where
  "ex_sink_world = \<lparr>tps = [7 \<mapsto> ex_link], tlists = \<lambda>_. None, \<dots> = []\<rparr>"

definition ex_sender :: "unit http_client" where
  "ex_sender = (new_client () [\<lparr>hi_key = ''Host'', hi_value = Some ''a''\<rparr>] 1)\<lparr>hc_transport := Some 7, hc_req_data := replicate 80 NUL,
     hc_buffer_size := 80, hc_info := no_info\<lparr>ci_path := Some ''/x''\<rparr>, hc_state := 2\<rparr>"

lemma ex_sink_law: "write_law ex_sink_env 7 (\<lambda>w. tps w 7 = Some ex_link) tp_world.more"
  by (auto simp: write_law_def ex_sink_env_def esp_transport_write_def tp_func_def ex_link_def allocates_def seq_platform_def)

theorem request_on_the_wire_witness:
  "\<exists>c' w'. esp_http_client_request_send ex_sink_env (ex_sender, ex_sink_world) = Some (ESP_OK, (c', w')) \<and>
     tp_world.more w' = ''GET /x HTTP/1.1'' @ [CHR 0x0D, CHR 0x0A] @ ''Host: a'' @ [CHR 0x0D, CHR 0x0A] @
       ''Content-Length: 0'' @ [CHR 0x0D, CHR 0x0A, CHR 0x0D, CHR 0x0A]"
proof -
  let ?h = "header_put [\<lparr>hi_key = ''Host'', hi_value = Some ''a''\<rparr>] ''Content-Length'' (int_dec 0)"
  have l: "first_line ''GET'' (no_info\<lparr>ci_path := Some ''/x''\<rparr>) ''/x'' = ''GET /x HTTP/1.1'' @ [CHR 0x0D, CHR 0x0A]" by code_simp
  have t: "header_text ?h 0 (int (length ?h)) 0 = ''Host: a'' @ [CHR 0x0D, CHR 0x0A] @ ''Content-Length: 0'' @ [CHR 0x0D, CHR 0x0A]" by code_simp
  have m: "method_name (ci_method (hc_info ex_sender)) = Some ''GET''" by code_simp
  show ?thesis
    using request_on_the_wire [OF ex_sink_law, of ex_sink_world ex_sender "[\<lparr>hi_key = ''Host'', hi_value = Some ''a''\<rparr>]" "''GET''" "''/x''" ?h] m l t
    by (simp add: ex_sender_def ex_sink_world_def new_client_def) blast
qed

end
