(* ===== verification/Periph_Console.thy ===== *)
theory Periph_Console
  imports Esp_Periph Http_Header
begin

text \<open>
  The console peripheral (\<open>components/esp_peripherals/periph_console.c\<close>): a task that edits a line typed at the serial port,
  splits it into a command and arguments, and calls the function of the command or reports it as an event. What it prints
  is left out; the serial port and the functions of the commands are the parameter \<open>console_ops\<close>. \<open>char\<close> is unsigned.
\<close>

abbreviation (input) PERIPH_ID_CONSOLE :: int where "PERIPH_ID_CONSOLE \<equiv> 2 ^ 20 + 8"
abbreviation (input) CONSOLE_BUFFER_SIZE :: nat where "CONSOLE_BUFFER_SIZE \<equiv> 128"
abbreviation (input) CONSOLE_MAX_ARGUMENTS :: nat where "CONSOLE_MAX_ARGUMENTS \<equiv> 5"
abbreviation (input) CONSOLE_STOPPED_BIT :: u32 where "CONSOLE_STOPPED_BIT \<equiv> 2"

record periph_console_cmd =
  cmd_name :: string
  cmd_id :: int
  cmd_func :: "fnptr option"

record periph_console_cfg =
  ccfg_command_num :: int
  ccfg_commands :: "periph_console_cmd list"
  ccfg_task_stack :: int
  ccfg_task_prio :: int
  ccfg_prompt_string :: "string option"

record periph_console =
  con_buffer :: "string option"
  con_total_bytes :: int
  con_run :: bool
  con_commands :: "periph_console_cmd list"
  con_command_num :: int
  con_state_event_bits :: "egroup option"
  con_task_stack :: int
  con_task_prio :: int
  con_prompt_string :: "string option"

record console_world = pe_world +
  cons :: "addr \<Rightarrow> periph_console option"

type_synonym 'z conw = "'z console_world_scheme"

record 'w console_ops =
  uart_install :: "nat \<Rightarrow> 'w \<Rightarrow> 'w"
  uart_read_byte :: "tick \<Rightarrow> 'w \<Rightarrow> char option \<times> 'w"
  uart_write_bytes :: "string \<Rightarrow> 'w \<Rightarrow> 'w"
  call_console :: "fnptr \<Rightarrow> periph_handle \<Rightarrow> string list \<Rightarrow> 'w \<Rightarrow> 'w"
  fresh_byte :: "nat \<Rightarrow> 'w \<Rightarrow> char"

section \<open>Arguments\<close>

definition blank :: "char \<Rightarrow> bool" where
  "blank c \<longleftrightarrow> c = CHR '' '' \<or> c = CHR 0x09"

text \<open>The text at an offset; without a terminator in the block reading it is undefined.\<close>

definition c_text :: "string \<Rightarrow> nat \<Rightarrow> string option" where
  "c_text b p = (if NUL \<in> set (drop p b) then Some (takeWhile (\<lambda>c. c \<noteq> NUL) (drop p b)) else None)"

text \<open>The result: the argument, the buffer in which its delimiter is a terminator, and \<open>*saveptr\<close>.\<close>

definition conslole_parse_arguments :: "string \<Rightarrow> nat option \<Rightarrow> (string option \<times> string \<times> nat option) option" where
  "conslole_parse_arguments b saveptr =
     (case saveptr of None \<Rightarrow> Some (None, b, None)
      | Some p \<Rightarrow> do {
          s \<leftarrow> c_text b p;
          let k = length (takeWhile blank s);
          let s = drop k s;
          let quoted = (s \<noteq> [] \<and> hd s = CHR 0x22);
          let r = (if quoted then tl s else s);
          let p = p + k + (if quoted then 1 else 0);
          let arg = takeWhile (\<lambda>c. if quoted then c \<noteq> CHR 0x22 else \<not> blank c) r;
          let (b, saveptr) = (if length arg < length r then (b[p + length arg := NUL], Some (p + length arg + 1)) else (b, None));
          Some (if arg \<noteq> [] then Some arg else None, b, saveptr) })"

text \<open>The loop of the task: the command and the arguments so far. With too many of them the command is dropped.\<close>

function console_arguments ::
  "string \<Rightarrow> nat option \<Rightarrow> string option \<Rightarrow> string list \<Rightarrow> (string option \<times> string list \<times> string) option" where
  "console_arguments b saveptr cmd args = do {
     (lp, b, saveptr) \<leftarrow> conslole_parse_arguments b saveptr;
     case lp of None \<Rightarrow> Some (cmd, args, b)
     | Some a \<Rightarrow> if length args \<ge> CONSOLE_MAX_ARGUMENTS then Some (None, args, b)
                 else console_arguments b saveptr cmd (args @ [a]) }"
  by pat_completeness auto
termination by (relation "measure (\<lambda>(_, _, _, args). 5 - length args)") auto

declare console_arguments.simps [simp del]

definition console_parse_line :: "string \<Rightarrow> (string option \<times> string list \<times> string) option" where
  "console_parse_line b = do {
     (cmd, b, saveptr) \<leftarrow> conslole_parse_arguments b (Some 0);
     console_arguments b saveptr cmd [] }"

section \<open>The line\<close>

definition con_upd :: "addr \<Rightarrow> (periph_console \<Rightarrow> periph_console) \<Rightarrow> 'z conw \<Rightarrow> 'z conw option" where
  "con_upd a f w = (case cons w a of None \<Rightarrow> None | Some c \<Rightarrow> Some (w\<lparr>cons := (cons w)(a \<mapsto> f c)\<rparr>))"

interpretation con_store: object_store cons con_upd
  by unfold_locales (auto simp: con_upd_def split: option.splits)

text \<open>One byte typed at the port: what is echoed, the console, and whether the line is complete.\<close>

definition console_type :: "nat \<Rightarrow> char \<Rightarrow> periph_console \<Rightarrow> (string \<times> periph_console \<times> bool) option" where
  "console_type max_size c con =
     (let n = of_char c :: nat in
      if n = 8 \<or> n = 127 then
        (if con_total_bytes con > 0 then Some ([c, CHR 0x20, c], con\<lparr>con_total_bytes := con_total_bytes con - 1\<rparr>, False)
         else Some ([], con, False))
      else if n = 10 \<or> n = 13 then do {
        b \<leftarrow> con_buffer con;
        b \<leftarrow> mem_write b (nat (con_total_bytes con)) [NUL];
        Some ([CHR 0x0D, CHR 0x0A], con\<lparr>con_buffer := Some b\<rparr>, True) }
      else if n < 0x20 then Some ([], con, False)
      else do {
        b \<leftarrow> con_buffer con;
        b \<leftarrow> mem_write b (nat (con_total_bytes con)) [c];
        let t = con_total_bytes con + 1;
        Some ([c], con\<lparr>con_buffer := Some b, con_total_bytes := (if t > int max_size then 0 else t)\<rparr>, False) })"

definition console_get_line :: "'z conw console_ops \<Rightarrow> addr \<Rightarrow> nat \<Rightarrow> tick \<Rightarrow> 'z conw \<Rightarrow> (bool \<times> 'z conw) option" where
  "console_get_line C console max_size time_to_wait w =
     (let (c, w) = uart_read_byte C time_to_wait w in
      case c of None \<Rightarrow> Some (False, w)
      | Some c \<Rightarrow> do {
          con \<leftarrow> cons w console;
          (echo, con, complete) \<leftarrow> console_type max_size c con;
          let w = w\<lparr>cons := (cons w)(console \<mapsto> con)\<rparr>;
          Some (complete, if echo = [] then w else uart_write_bytes C echo w) })"

section \<open>Commands\<close>

text \<open>The loop over the commands; a missing command is a null pointer for \<open>strcasecmp\<close>.\<close>

fun find_command :: "periph_console_cmd list \<Rightarrow> string option \<Rightarrow> nat \<Rightarrow> nat \<Rightarrow> (nat \<times> periph_console_cmd) option option" where
  "find_command cs cmd i 0 = Some None"
| "find_command [] cmd i (Suc n) = None"
| "find_command (c # cs) cmd i (Suc n) = do {
     t \<leftarrow> cmd;
     if strcaseeq t (cmd_name c) then Some (Some (i, c)) else find_command cs cmd (Suc i) n }"

text \<open>\<open>argv\<close> is the address of the array of arguments, on the stack of the task.\<close>

definition console_exec ::
  "'z conw platform \<Rightarrow> 'z conw periph_ops \<Rightarrow> 'z conw console_ops \<Rightarrow> int \<Rightarrow> periph_handle \<Rightarrow> string option \<Rightarrow> string list \<Rightarrow> 'z conw
     \<Rightarrow> (bool \<times> 'z conw) option" where
  "console_exec R P C argv self cmd args w = do {
     a \<leftarrow> esp_periph_get_data self w;
     con \<leftarrow> cons w a;
     r \<leftarrow> find_command (con_commands con) cmd 0 (nat (con_command_num con));
     case r of None \<Rightarrow> Some (False, w)
     | Some (i, c) \<Rightarrow> (case cmd_func c of
           Some f \<Rightarrow> Some (True, call_console C f self args w)
         | None \<Rightarrow> do {
             (_, w) \<leftarrow> esp_periph_send_event R P self (if cmd_id c = 0 then int i else cmd_id c) argv (int (length args)) w;
             Some (True, w) }) }"

section \<open>The task\<close>

definition console_line ::
  "'z conw platform \<Rightarrow> 'z conw periph_ops \<Rightarrow> 'z conw console_ops \<Rightarrow> int \<Rightarrow> periph_handle \<Rightarrow> addr \<Rightarrow> 'z conw \<Rightarrow> 'z conw option" where
  "console_line R P C argv self console w = do {
     con \<leftarrow> cons w console;
     b \<leftarrow> con_buffer con;
     (cmd, args, b) \<leftarrow> console_parse_line b;
     let w = w\<lparr>cons := (cons w)(console \<mapsto> con\<lparr>con_buffer := Some b\<rparr>)\<rparr>;
     if con_total_bytes con > 0 then do {
       (_, w) \<leftarrow> console_exec R P C argv self cmd args w;
       con_upd console (\<lambda>c. c\<lparr>con_total_bytes := 0\<rparr>) w }
     else Some w }"

partial_function (option) console_loop ::
  "'z conw platform \<Rightarrow> 'z conw periph_ops \<Rightarrow> 'z conw console_ops \<Rightarrow> int \<Rightarrow> periph_handle \<Rightarrow> addr \<Rightarrow> 'z conw \<Rightarrow> 'z conw option" where
  "console_loop R P C argv self console w = do {
     con \<leftarrow> cons w console;
     if \<not> con_run con then Some w
     else do {
       (complete, w) \<leftarrow> console_get_line C console CONSOLE_BUFFER_SIZE (of_nat (10 div portTICK_RATE_MS R)) w;
       w \<leftarrow> (if complete then console_line R P C argv self console w else Some w);
       console_loop R P C argv self console w } }"

definition console_task ::
  "'z conw platform \<Rightarrow> 'z conw periph_ops \<Rightarrow> 'z conw console_ops \<Rightarrow> int \<Rightarrow> periph_handle \<Rightarrow> 'z conw \<Rightarrow> 'z conw option" where
  "console_task R P C argv self w = do {
     a \<leftarrow> esp_periph_get_data self w;
     con \<leftarrow> cons w a;
     let con = con\<lparr>con_total_bytes := (if con_total_bytes con \<ge> int CONSOLE_BUFFER_SIZE then 0 else con_total_bytes con), con_run := True\<rparr>;
     let w = w\<lparr>cons := (cons w)(a \<mapsto> con)\<rparr>;
     g \<leftarrow> con_state_event_bits con;
     w \<leftarrow> console_loop R P C argv self a (xEventGroupClearBits R g CONSOLE_STOPPED_BIT w);
     con \<leftarrow> cons w a;
     g \<leftarrow> con_state_event_bits con;
     Some (xEventGroupSetBits R g CONSOLE_STOPPED_BIT w) }"

section \<open>The peripheral\<close>

definition console_init_ptr :: fnptr where "console_init_ptr = 51"
definition console_destroy_ptr :: fnptr where "console_destroy_ptr = 53"

text \<open>While the destroyer waits, the task sees the flag and stops.\<close>

definition console_destroy :: "'z conw platform \<Rightarrow> periph_handle \<Rightarrow> 'z conw \<Rightarrow> (esp_err \<times> 'z conw) option" where
  "console_destroy R self w = do {
     a \<leftarrow> esp_periph_get_data self w;
     w \<leftarrow> con_upd a (\<lambda>c. c\<lparr>con_run := False\<rparr>) w;
     con \<leftarrow> cons w a;
     g \<leftarrow> con_state_event_bits con;
     let (_, w) = xEventGroupWaitBits R g CONSOLE_STOPPED_BIT portMAX_DELAY w;
     let w = vEventGroupDelete R g w;
     Some (ESP_OK, w\<lparr>cons := (cons w)(a := None)\<rparr>) }"

definition console_init :: "'z conw platform \<Rightarrow> 'z conw console_ops \<Rightarrow> periph_handle \<Rightarrow> 'z conw \<Rightarrow> (esp_err \<times> 'z conw) option" where
  "console_init R C self w = do {
     a \<leftarrow> esp_periph_get_data self w;
     con \<leftarrow> cons w a;
     let w = uart_install C (CONSOLE_BUFFER_SIZE * 2) w;
     let (m, w) = heap_alloc R CONSOLE_BUFFER_SIZE w;
     w \<leftarrow> con_upd a (\<lambda>c. c\<lparr>con_buffer := (case m of None \<Rightarrow> None | Some _ \<Rightarrow> Some (map (\<lambda>i. fresh_byte C i w) [0..<CONSOLE_BUFFER_SIZE]))\<rparr>) w;
     if m = None then Some (ESP_ERR_NO_MEM, w)
     else do {
       let (ok, w) = xTaskCreate R self (con_task_stack con) (con_task_prio con) 0 w;
       Some (if ok then ESP_OK else ESP_FAIL, w) } }"

text \<open>When the console or its prompt cannot be allocated, the peripheral is lost. A failed event group is not noticed.\<close>

definition periph_console_init :: "'z conw platform \<Rightarrow> periph_console_cfg \<Rightarrow> 'z conw \<Rightarrow> (periph_handle option \<times> 'z conw) option" where
  "periph_console_init R cfg w =
     (case esp_periph_create R PERIPH_ID_CONSOLE (Some ''periph_console'') w of
        (None, w) \<Rightarrow> Some (None, w)
      | (Some periph, w) \<Rightarrow> (case heap_alloc R 36 w of
          (None, w) \<Rightarrow> Some (None, w)
        | (Some a, w) \<Rightarrow> do {
            let (prompt, w) = (case ccfg_prompt_string cfg of None \<Rightarrow> (Some None, w)
               | Some s \<Rightarrow> (case heap_alloc R (length s + 1) w of (None, w) \<Rightarrow> (None, w) | (Some _, w) \<Rightarrow> (Some (Some s), w)));
            case prompt of None \<Rightarrow> Some (None, w)
            | Some prompt \<Rightarrow> do {
                let (g, w) = xEventGroupCreate R w;
                let con = \<lparr>con_buffer = None, con_total_bytes = 0, con_run = False, con_commands = ccfg_commands cfg,
                  con_command_num = ccfg_command_num cfg, con_state_event_bits = g,
                  con_task_stack = (if ccfg_task_stack cfg > 0 then ccfg_task_stack cfg else 1024 * 5),
                  con_task_prio = (if ccfg_task_prio cfg \<noteq> 0 then ccfg_task_prio cfg else 5), con_prompt_string = prompt\<rparr>;
                let w = w\<lparr>cons := (cons w)(a \<mapsto> con)\<rparr>;
                (_, w) \<leftarrow> esp_periph_set_data periph a w;
                (_, w) \<leftarrow> esp_periph_set_function periph (Some console_init_ptr) None (Some console_destroy_ptr) w;
                Some (Some periph, w) } }))"

end
