(* ===== verification/Periph_Console_Correct.thy ===== *)
theory Periph_Console_Correct
  imports Periph_Console
begin

text \<open>
  The console against a reference: what is typed is edited like a line of text and split into words. And what breaks it: a
  line as long as the buffer, a blank line, too many words.
\<close>

section \<open>Words\<close>

function words :: "string \<Rightarrow> string list" where
  "words s = (case dropWhile blank s of [] \<Rightarrow> []
     | c # r \<Rightarrow> (c # takeWhile (\<lambda>c. \<not> blank c) r) # words (dropWhile (\<lambda>c. \<not> blank c) r))"
  by pat_completeness auto
termination
proof (relation "measure length", goal_cases)
  case (2 s c r)
  have "length (dropWhile blank s) \<le> length s" by (rule length_dropWhile_le)
  with 2 have "length r < length s" by simp
  with length_dropWhile_le [of "\<lambda>c. \<not> blank c" r] show ?case by (simp add: order.strict_trans1)
qed simp

declare words.simps [simp del]

lemma words_skip: "words (dropWhile blank s) = words s"
  by (subst (1 2) words.simps) simp

lemma words_blank: "blank c \<Longrightarrow> words (c # s) = words s"
  by (subst (1 2) words.simps) simp

lemma words_Nil [simp]: "words [] = []" by (simp add: words.simps)

lemma words_nonblank: "\<not> blank c \<Longrightarrow> words (c # r) = (c # takeWhile (\<lambda>c. \<not> blank c) r) # words (dropWhile (\<lambda>c. \<not> blank c) r)"
  by (subst words.simps) simp

section \<open>Splitting\<close>

text \<open>A text without quotes at an offset of the buffer.\<close>

definition plain_at :: "string \<Rightarrow> nat \<Rightarrow> string \<Rightarrow> bool" where
  "plain_at b p s \<longleftrightarrow> (\<exists>rest. drop p b = s @ NUL # rest) \<and> NUL \<notin> set s \<and> CHR 0x22 \<notin> set s"

lemma plain_text: "plain_at b p s \<Longrightarrow> c_text b p = Some s"
  by (auto simp: plain_at_def c_text_def takeWhile_append)

lemma parse_none [simp]: "conslole_parse_arguments b None = Some (None, b, None)"
  by (simp add: conslole_parse_arguments_def)

lemma parse_plain:
  assumes "plain_at b p s"
  shows "(words s = [] \<and> conslole_parse_arguments b (Some p) = Some (None, b, None)) \<or>
    (\<exists>a b' q. a \<noteq> [] \<and> conslole_parse_arguments b (Some p) = Some (Some a, b', q) \<and>
       (q = None \<and> words s = [a] \<or> (\<exists>p' s'. q = Some p' \<and> plain_at b' p' s' \<and> words s = a # words s')))"
proof -
  obtain rest where b: "drop p b = s @ NUL # rest" "NUL \<notin> set s" "CHR 0x22 \<notin> set s" using assms by (auto simp: plain_at_def)
  let ?k = "length (takeWhile blank s)"
  let ?s = "drop ?k s"
  have d: "?s = dropWhile blank s" by (simp add: dropWhile_eq_drop)
  have nq: "?s = [] \<or> hd ?s \<noteq> CHR 0x22" using b(3) by (metis hd_in_set in_set_dropD)
  show ?thesis
  proof (cases "?s")
    case Nil
    then have "dropWhile blank s = []" using d by simp
    then have "words s = []" using words_skip [of s] by (simp only: words_Nil)
    with Nil plain_text [OF assms] show ?thesis by (simp add: conslole_parse_arguments_def Let_def)
  next
    case (Cons c r)
    let ?a = "takeWhile (\<lambda>c. \<not> blank c) ?s"
    have c: "\<not> blank c" using Cons d by (metis hd_dropWhile list.discI list.sel(1))
    then have a: "?a \<noteq> []" "?a = c # takeWhile (\<lambda>c. \<not> blank c) r" using Cons by auto
    have w: "words s = ?a # words (dropWhile (\<lambda>c. \<not> blank c) ?s)"
      using words_nonblank [OF c, of r] words_skip [of s] Cons d c by simp
    show ?thesis
    proof (cases "length ?a < length ?s")
      case False
      then have "?a = ?s" by (metis length_takeWhile_le not_less_iff_gr_or_eq order.strict_iff_not takeWhile_eq_take take_all_iff)
      then have "dropWhile (\<lambda>c. \<not> blank c) ?s = []" by (metis append_self_conv takeWhile_dropWhile_id)
      with w False a nq plain_text [OF assms] Cons show ?thesis
        by (intro disjI2 exI [of _ ?a] exI [of _ b] exI [of _ None]) (auto simp: conslole_parse_arguments_def Let_def)
    next
      case True
      let ?b = "b[p + ?k + length ?a := NUL]" and ?p = "p + ?k + length ?a + 1"
      obtain e t where t: "dropWhile (\<lambda>c. \<not> blank c) ?s = e # t" "blank e"
      proof -
        have "dropWhile (\<lambda>c. \<not> blank c) ?s \<noteq> []" using True by (metis append_Nil2 less_irrefl takeWhile_dropWhile_id)
        with that show ?thesis by (metis hd_dropWhile list.exhaust_sel)
      qed
      have s: "s = take ?k s @ ?a @ e # t" using t(1) by (metis append_take_drop_id takeWhile_dropWhile_id)
      have lk: "length (take ?k s) = ?k" by (simp add: length_takeWhile_le min_absorb2)
      have "drop ?p b = drop (?k + length ?a + 1) (drop p b)" by (simp add: add_ac)
      also have "\<dots> = drop (?k + length ?a + 1) ((take ?k s @ ?a @ e # t) @ NUL # rest)" using b(1) s by metis
      also have "\<dots> = t @ NUL # rest" using lk by simp
      finally have "drop ?p ?b = t @ NUL # rest" by simp
      moreover have "set t \<subseteq> set s" using s by (metis Un_iff set_append set_subset_Cons subsetI subset_iff)
      ultimately have pl: "plain_at ?b ?p t" using b by (auto simp: plain_at_def)
      have "words s = ?a # words t" using w t words_blank by simp
      moreover have "conslole_parse_arguments b (Some p) = Some (Some ?a, ?b, Some ?p)"
        using True a nq plain_text [OF assms] Cons by (auto simp: conslole_parse_arguments_def Let_def)
      ultimately show ?thesis using a(1) pl by blast
    qed
  qed
qed

lemma arguments_none [simp]: "console_arguments b None cmd args = Some (cmd, args, b)"
  by (subst console_arguments.simps) simp

lemma arguments_plain:
  assumes "length args \<le> 5" "q = None \<and> ws = [] \<or> (\<exists>p s. q = Some p \<and> plain_at b p s \<and> ws = words s)"
  shows "\<exists>b'. console_arguments b q cmd args =
    Some (if length args + length ws \<le> 5 then cmd else None, take 5 (args @ ws), b')"
  using assms
proof (induction "5 - length args" arbitrary: args q ws b rule: less_induct)
  case less
  show ?case
  proof (cases q)
    case None
    then show ?thesis using less.prems by (subst console_arguments.simps) auto
  next
    case (Some p)
    then obtain s where s: "plain_at b p s" "ws = words s" using less.prems(2) by auto
    from parse_plain [OF s(1)] show ?thesis
    proof (elim disjE exE conjE, goal_cases)
      case 1
      then show ?case using Some s less.prems by (subst console_arguments.simps) auto
    next
      case (2 a b' q')
      then have ws: "ws = [a]" "q' = None" using s by auto
      show ?case
      proof (cases "length args \<ge> 5")
        case True
        then show ?thesis using 2 ws Some less.prems by (subst console_arguments.simps) auto
      next
        case False
        then show ?thesis using 2 ws Some by (subst console_arguments.simps) auto
      qed
    next
      case (3 a b' q' p' s')
      then have ws: "ws = a # words s'" using s by auto
      show ?case
      proof (cases "length args \<ge> 5")
        case True
        then show ?thesis using 3 ws Some less.prems by (subst console_arguments.simps) auto
      next
        case False
        have ex: "q' = None \<and> words s' = [] \<or> (\<exists>p s. q' = Some p \<and> plain_at b' p s \<and> words s' = words s)" using 3 by blast
        have lt: "5 - length (args @ [a]) < 5 - length args" "length (args @ [a]) \<le> 5" using False by auto
        from False obtain b'' where "console_arguments b' q' cmd (args @ [a]) = Some (if length (args @ [a]) + length (words s') \<le> 5 then cmd else None,
            take 5 ((args @ [a]) @ words s'), b'')"
          using less.hyps [OF lt ex] by blast
        then show ?thesis using False 3 ws Some by (subst console_arguments.simps) auto
      qed
    qed
  qed
qed

text \<open>The command and the arguments of a line: with more than five arguments there is no command.\<close>

definition split_line :: "string \<Rightarrow> string option \<times> string list" where
  "split_line s = (case words s of [] \<Rightarrow> (None, [])
     | c # as \<Rightarrow> (if length as \<le> 5 then Some c else None, take 5 as))"

lemma parse_line_plain:
  assumes "plain_at b 0 s"
  shows "\<exists>b'. console_parse_line b = Some (fst (split_line s), snd (split_line s), b')"
proof -
  from parse_plain [OF assms] show ?thesis
  proof (elim disjE exE conjE, goal_cases)
    case 1
    then show ?case by (simp add: console_parse_line_def split_line_def)
  next
    case (2 a b' q)
    then show ?case by (simp add: console_parse_line_def split_line_def)
  next
    case (3 a b' q p' s')
    then have "q = None \<and> words s' = [] \<or> (\<exists>p s. q = Some p \<and> plain_at b' p s \<and> words s' = words s)" by blast
    from arguments_plain [OF _ this, of "[]" "Some a"] obtain b'' where
      "console_arguments b' q (Some a) [] = Some (if length (words s') \<le> 5 then Some a else None, take 5 (words s'), b'')" by auto
    with 3 show ?case by (simp add: console_parse_line_def split_line_def)
  qed
qed

section \<open>Editing\<close>

text \<open>What a character typed does to the line, and a line in the console.\<close>

definition edit_char :: "string \<Rightarrow> char \<Rightarrow> string" where
  "edit_char l c = (let n = of_char c :: nat in if n = 8 \<or> n = 127 then butlast l else if n < 32 then l else l @ [c])"

definition enters :: "char \<Rightarrow> bool" where
  "enters c \<longleftrightarrow> (of_char c :: nat) = 10 \<or> (of_char c :: nat) = 13"

definition holds_line :: "periph_console \<Rightarrow> string \<Rightarrow> bool" where
  "holds_line con l \<longleftrightarrow> (\<exists>b. con_buffer con = Some b \<and> length b = CONSOLE_BUFFER_SIZE \<and> con_total_bytes con = int (length l) \<and>
     take (length l) b = l \<and> length l \<le> CONSOLE_BUFFER_SIZE)"

fun console_types :: "string \<Rightarrow> periph_console \<Rightarrow> periph_console option" where
  "console_types [] con = Some con"
| "console_types (c # cs) con = do { (_, con, _) \<leftarrow> console_type CONSOLE_BUFFER_SIZE c con; console_types cs con }"

lemma type_edits:
  assumes "holds_line con l" "\<not> enters c" "length (edit_char l c) \<le> CONSOLE_BUFFER_SIZE"
  shows "\<exists>e con'. console_type CONSOLE_BUFFER_SIZE c con = Some (e, con', False) \<and> holds_line con' (edit_char l c)"
proof -
  obtain b where b: "con_buffer con = Some b" "length b = 128" "con_total_bytes con = int (length l)" "take (length l) b = l" "length l \<le> 128"
    using assms(1) by (auto simp: holds_line_def)
  let ?n = "of_char c :: nat"
  consider "?n = 8 \<or> ?n = 127" | "?n \<noteq> 8" "?n \<noteq> 127" "?n < 32" | "?n \<noteq> 127" "?n \<ge> 32" by linarith
  then show ?thesis
  proof cases
    case 1
    have "take (length l - 1) b = butlast l" using b(4) by (metis butlast_take diff_le_self b(2,5) butlast_conv_take length_take min.absorb2 take_take)
    with 1 b show ?thesis by (cases "l = []") (auto simp: console_type_def edit_char_def holds_line_def Let_def of_nat_diff Suc_leI)
  next
    case 2
    with b assms(2) show ?thesis by (auto simp: console_type_def edit_char_def enters_def holds_line_def Let_def)
  next
    case 3
    then have l: "length l < 128" using assms(3) by (auto simp: edit_char_def)
    have "mem_write b (length l) [c] = Some (take (length l) b @ [c] @ drop (length l + 1) b)" using l b(2) by simp
    with 3 b l show ?thesis by (auto simp: console_type_def edit_char_def enters_def holds_line_def Let_def)
  qed
qed

text \<open>Every line on the way fits.\<close>

fun fits_line :: "string \<Rightarrow> string \<Rightarrow> bool" where
  "fits_line l [] = (length l < CONSOLE_BUFFER_SIZE)"
| "fits_line l (c # cs) \<longleftrightarrow> length (edit_char l c) \<le> CONSOLE_BUFFER_SIZE \<and> fits_line (edit_char l c) cs"

lemma types_edit:
  "holds_line con l \<Longrightarrow> list_all (\<lambda>c. \<not> enters c) cs \<Longrightarrow> fits_line l cs \<Longrightarrow>
   \<exists>con'. console_types cs con = Some con' \<and> holds_line con' (foldl edit_char l cs)"
proof (induction cs arbitrary: con l)
  case (Cons c cs)
  then obtain e con1 where "console_type CONSOLE_BUFFER_SIZE c con = Some (e, con1, False)" "holds_line con1 (edit_char l c)"
    using type_edits [of con l c] by auto
  with Cons show ?case by auto
qed simp

lemma edit_printable: "list_all (\<lambda>c. (of_char c :: nat) \<ge> 32) l \<Longrightarrow> list_all (\<lambda>c. (of_char c :: nat) \<ge> 32) (edit_char l c)"
  by (auto simp: edit_char_def Let_def list_all_iff dest: in_set_butlastD)

lemma edits_printable: "list_all (\<lambda>c. (of_char c :: nat) \<ge> 32) l \<Longrightarrow> list_all (\<lambda>c. (of_char c :: nat) \<ge> 32) (foldl edit_char l cs)"
  by (induction cs arbitrary: l) (simp_all add: edit_printable)

lemma console_types_keeps:
  "console_types cs con = Some con1 \<Longrightarrow> con_commands con1 = con_commands con \<and> con_command_num con1 = con_command_num con"
proof (induction cs arbitrary: con)
  case (Cons c cs)
  then obtain e con2 b where t: "console_type CONSOLE_BUFFER_SIZE c con = Some (e, con2, b)" "console_types cs con2 = Some con1"
    by (auto simp: bind_eq_Some_conv)
  from t(1) have "con_commands con2 = con_commands con \<and> con_command_num con2 = con_command_num con"
    by (auto simp: console_type_def Let_def bind_eq_Some_conv split: if_split_asm)
  with Cons.IH [OF t(2)] show ?case by simp
qed simp

lemma find_command_first:
  "i < n \<Longrightarrow> i < length cs \<Longrightarrow> strcaseeq t (cmd_name (cs ! i)) \<Longrightarrow> \<forall>j<i. \<not> strcaseeq t (cmd_name (cs ! j)) \<Longrightarrow>
   find_command cs (Some t) k n = Some (Some (k + i, cs ! i))"
proof (induction cs arbitrary: i k n)
  case (Cons c cs)
  obtain m where n: "n = Suc m" using Cons.prems(1) by (cases n) auto
  show ?case
  proof (cases i)
    case (Suc j)
    have "\<not> strcaseeq t (cmd_name c)" using Cons.prems(4) Suc by auto
    moreover have "\<forall>j'<j. \<not> strcaseeq t (cmd_name (cs ! j'))" using Cons.prems(4) Suc by auto
    ultimately show ?thesis using Cons.prems(1-3) Cons.IH [of j m "Suc k"] Suc n by simp
  qed (use Cons.prems n in simp)
qed simp

text \<open>The line after Enter, and how it is split.\<close>

lemma console_reads_line_aux:
  assumes "holds_line con []" "list_all (\<lambda>c. \<not> enters c) cs" "fits_line [] cs" "enters e"
    and "CHR 0x22 \<notin> set (foldl edit_char [] cs)"
  shows "\<exists>con1 con2 b b'. console_types cs con = Some con1 \<and>
    console_type CONSOLE_BUFFER_SIZE e con1 = Some ([CHR 0x0D, CHR 0x0A], con2, True) \<and> con_buffer con2 = Some b \<and>
    con_total_bytes con2 = int (length (foldl edit_char [] cs)) \<and>
    con_commands con2 = con_commands con \<and> con_command_num con2 = con_command_num con \<and>
    console_parse_line b = Some (fst (split_line (foldl edit_char [] cs)), snd (split_line (foldl edit_char [] cs)), b')"
proof -
  let ?l = "foldl edit_char [] cs"
  obtain con1 where 1: "console_types cs con = Some con1" "holds_line con1 ?l" using types_edit [OF assms(1-3)] by blast
  have "fits_line l cs \<Longrightarrow> length (foldl edit_char l cs) < 128" for l by (induction cs arbitrary: l) auto
  then have len: "length ?l < 128" using assms(3) by simp
  obtain b where b: "con_buffer con1 = Some b" "length b = 128" "con_total_bytes con1 = int (length ?l)" "take (length ?l) b = ?l"
    using 1(2) by (auto simp: holds_line_def)
  let ?b = "take (length ?l) b @ [NUL] @ drop (length ?l + 1) b"
  have "mem_write b (length ?l) [NUL] = Some ?b" using len b(2) by simp
  then have 2: "console_type CONSOLE_BUFFER_SIZE e con1 = Some ([CHR 0x0D, CHR 0x0A], con1\<lparr>con_buffer := Some ?b\<rparr>, True)"
    using assms(4) b by (auto simp: console_type_def enters_def)
  have "NUL \<notin> set ?l" using edits_printable [of "[]" cs] by (auto simp: list_all_iff)
  then have "plain_at ?b 0 ?l" using b(4) assms(5) by (simp add: plain_at_def)
  from parse_line_plain [OF this] show ?thesis using 1(1) 2 b(3) console_types_keeps [OF 1(1)] by auto
qed

text \<open>What the console does with its command: its function is called with the arguments, or, when it has none, an event is
  sent with its identifier, or its index when that is zero, and the number of arguments.\<close>

definition run_command ::
  "'z conw platform \<Rightarrow> 'z conw periph_ops \<Rightarrow> 'z conw console_ops \<Rightarrow> int \<Rightarrow> periph_handle \<Rightarrow> nat \<Rightarrow> periph_console_cmd \<Rightarrow>
   string list \<Rightarrow> 'z conw \<Rightarrow> 'z conw option" where
  "run_command R P C argv self i c args w = (case cmd_func c of
      Some f \<Rightarrow> Some (call_console C f self args w)
    | None \<Rightarrow> map_option snd (esp_periph_send_event R P self (if cmd_id c = 0 then int i else cmd_id c) argv (int (length args)) w))"

text \<open>C28. What is typed up to Enter reaches its command: backspace and delete take away the last character, other control
  characters are ignored, blanks separate the words, and the first registered command whose name is the first word, up to the
  case of letters, is run with the other words as its arguments; then the line is empty again. This holds for a line without
  quotes, with at most five arguments, that at no time while it is typed fills the buffer, and for a name that is registered.\<close>

theorem console_reads_line:
  assumes "holds_line con []" "list_all (\<lambda>c. \<not> enters c) cs" "fits_line [] cs" "enters e"
    and "CHR 0x22 \<notin> set (foldl edit_char [] cs)"
    and "words (foldl edit_char [] cs) = name # args" "length args \<le> 5"
    and "int i < con_command_num con" "i < length (con_commands con)" "strcaseeq name (cmd_name (con_commands con ! i))"
    and "\<forall>j<i. \<not> strcaseeq name (cmd_name (con_commands con ! j))"
  shows "\<exists>con1 con2 b'. console_types cs con = Some con1 \<and>
    console_type CONSOLE_BUFFER_SIZE e con1 = Some ([CHR 0x0D, CHR 0x0A], con2, True) \<and>
    (\<forall>w. cons w a = Some con2 \<longrightarrow> esp_periph_get_data self w = Some a \<longrightarrow>
      console_line R P C argv self a w =
        run_command R P C argv self i (con_commands con ! i) args (w\<lparr>cons := (cons w)(a \<mapsto> con2\<lparr>con_buffer := Some b'\<rparr>)\<rparr>) \<bind>
        con_upd a (\<lambda>c. c\<lparr>con_total_bytes := 0\<rparr>))"
proof -
  let ?l = "foldl edit_char [] cs"
  have sp: "split_line ?l = (Some name, args)" using assms(6,7) by (simp add: split_line_def)
  obtain con1 con2 b b' where 1: "console_types cs con = Some con1"
    "console_type CONSOLE_BUFFER_SIZE e con1 = Some ([CHR 0x0D, CHR 0x0A], con2, True)" "con_buffer con2 = Some b"
    and 2: "con_total_bytes con2 = int (length ?l)" "con_commands con2 = con_commands con" "con_command_num con2 = con_command_num con"
    "console_parse_line b = Some (Some name, args, b')"
    using console_reads_line_aux [OF assms(1-5)] unfolding sp by auto
  have "?l \<noteq> []" using assms(6) by auto
  then have pos: "con_total_bytes con2 > 0" using 2(1) by simp
  have fc: "find_command (con_commands con) (Some name) 0 (nat (con_command_num con)) = Some (Some (i, con_commands con ! i))"
    using find_command_first [of i "nat (con_command_num con)" "con_commands con" name 0] assms(8-11) by simp
  have "console_line R P C argv self a w =
      run_command R P C argv self i (con_commands con ! i) args (w\<lparr>cons := (cons w)(a \<mapsto> con2\<lparr>con_buffer := Some b'\<rparr>)\<rparr>) \<bind>
      con_upd a (\<lambda>c. c\<lparr>con_total_bytes := 0\<rparr>)"
    if w: "cons w a = Some con2" "esp_periph_get_data self w = Some a" for w
  proof -
    let ?w = "w\<lparr>cons := (cons w)(a \<mapsto> con2\<lparr>con_buffer := Some b'\<rparr>)\<rparr>"
    have d: "esp_periph_get_data self ?w = Some a" using w(2) by (simp add: esp_periph_get_data_def)
    have "console_exec R P C argv self (Some name) args ?w =
        map_option (\<lambda>w. (True, w)) (run_command R P C argv self i (con_commands con ! i) args ?w)"
      using d 2(2,3) fc by (cases "cmd_func (con_commands con ! i)")
        (auto simp: console_exec_def run_command_def map_option_case split: option.split)
    then show ?thesis using w(1) 1(3) 2(4) pos
      by (cases "run_command R P C argv self i (con_commands con ! i) args ?w") (simp_all add: console_line_def)
  qed
  with 1 show ?thesis by blast
qed

text \<open>A console with two commands and an empty line.\<close>

definition ex_console :: periph_console where
  "ex_console = \<lparr>con_buffer = Some (replicate 128 NUL), con_total_bytes = 0, con_run = True,
     con_commands = [\<lparr>cmd_name = ''play'', cmd_id = 0, cmd_func = None\<rparr>, \<lparr>cmd_name = ''stop'', cmd_id = 7, cmd_func = None\<rparr>],
     con_command_num = 2, con_state_event_bits = Some 1, con_task_stack = 5120, con_task_prio = 5, con_prompt_string = None\<rparr>"

lemma ex_console_empty: "holds_line ex_console []"
  by (simp add: holds_line_def ex_console_def)

text \<open>The same with a function for the command \<open>play\<close>.\<close>

definition ex_player :: periph_console where
  "ex_player = ex_console\<lparr>con_commands := [\<lparr>cmd_name = ''stop'', cmd_id = 7, cmd_func = None\<rparr>,
     \<lparr>cmd_name = ''play'', cmd_id = 0, cmd_func = Some 5\<rparr>]\<rparr>"

definition ex_periph_of :: "addr \<Rightarrow> esp_periph" where
  "ex_periph_of a = \<lparr>pe_tag = None, pe_disabled = False, pe_periph_id = PERIPH_ID_CONSOLE, pe_init = None, pe_run = None,
     pe_destroy = None, pe_state = PERIPH_STATE_RUNNING, pe_source = 0, pe_periph_data = a, pe_on_evt = None, pe_timer = None\<rparr>"

definition console_world_of :: "periph_console \<Rightarrow> console_world" where
  "console_world_of con = \<lparr>rbs = Map.empty, ifs = Map.empty, els = Map.empty, strs = Map.empty, prs = [7 \<mapsto> ex_periph_of 100],
     pss = Map.empty, cons = [100 \<mapsto> con]\<rparr>"

theorem console_reads_line_witness:
  "\<forall>R P C argv. \<exists>con1 con2 b'. console_types (''Plx'' @ [CHR 0x08] @ ''ay  a b'') ex_player = Some con1 \<and>
    console_type CONSOLE_BUFFER_SIZE (CHR 0x0D) con1 = Some ([CHR 0x0D, CHR 0x0A], con2, True) \<and>
    console_line R P C argv 7 100 (console_world_of con2) =
      con_upd 100 (\<lambda>c. c\<lparr>con_total_bytes := 0\<rparr>)
        (call_console C 5 7 [''a'', ''b''] (console_world_of (con2\<lparr>con_buffer := Some b'\<rparr>)))"
proof (intro allI)
  fix R :: "console_world platform" and P C argv
  let ?cs = "''Plx'' @ [CHR 0x08] @ ''ay  a b''"
  have l: "foldl edit_char [] ?cs = ''Play  a b''" by code_simp
  have 1: "holds_line ex_player []" using ex_console_empty by (simp add: ex_player_def holds_line_def)
  have 2: "list_all (\<lambda>c. \<not> enters c) ?cs" "fits_line [] ?cs" "enters (CHR 0x0D)" by code_simp+
  have 3: "words ''Play  a b'' = [''Play'', ''a'', ''b'']" by code_simp
  have 4: "strcaseeq ''Play'' ''play''" "\<not> strcaseeq ''Play'' ''stop''" by code_simp+
  have q: "CHR 0x22 \<notin> set (foldl edit_char [] ?cs)" unfolding l by simp
  have c: "con_commands ex_player ! 1 = \<lparr>cmd_name = ''play'', cmd_id = 0, cmd_func = Some 5\<rparr>"
    "cmd_name (con_commands ex_player ! 0) = ''stop''" "length (con_commands ex_player) = 2" "con_command_num ex_player = 2"
    by (simp_all add: ex_player_def ex_console_def)
  have "\<exists>con1 con2 b'. console_types ?cs ex_player = Some con1 \<and>
    console_type CONSOLE_BUFFER_SIZE (CHR 0x0D) con1 = Some ([CHR 0x0D, CHR 0x0A], con2, True) \<and>
    (\<forall>w. cons w 100 = Some con2 \<longrightarrow> esp_periph_get_data 7 w = Some 100 \<longrightarrow>
      console_line R P C argv 7 100 w =
        run_command R P C argv 7 1 (con_commands ex_player ! 1) [''a'', ''b''] (w\<lparr>cons := (cons w)(100 \<mapsto> con2\<lparr>con_buffer := Some b'\<rparr>)\<rparr>) \<bind>
        con_upd 100 (\<lambda>c. c\<lparr>con_total_bytes := 0\<rparr>))"
    by (rule console_reads_line [OF 1 2 q, where name = "''Play''"]) (use 3 4 c l in auto)
  then obtain con1 con2 b' where "console_types ?cs ex_player = Some con1"
    "console_type CONSOLE_BUFFER_SIZE (CHR 0x0D) con1 = Some ([CHR 0x0D, CHR 0x0A], con2, True)"
    and line: "\<And>w. cons w 100 = Some con2 \<Longrightarrow> esp_periph_get_data 7 w = Some 100 \<Longrightarrow>
      console_line R P C argv 7 100 w =
        run_command R P C argv 7 1 (con_commands ex_player ! 1) [''a'', ''b''] (w\<lparr>cons := (cons w)(100 \<mapsto> con2\<lparr>con_buffer := Some b'\<rparr>)\<rparr>) \<bind>
        con_upd 100 (\<lambda>c. c\<lparr>con_total_bytes := 0\<rparr>)" by blast
  moreover have "console_line R P C argv 7 100 (console_world_of con2) = con_upd 100 (\<lambda>c. c\<lparr>con_total_bytes := 0\<rparr>)
      (call_console C 5 7 [''a'', ''b''] (console_world_of (con2\<lparr>con_buffer := Some b'\<rparr>)))"
    using line [of "console_world_of con2", unfolded c(1)]
    by (simp add: console_world_of_def ex_periph_of_def esp_periph_get_data_def run_command_def)
  ultimately show "\<exists>con1 con2 b'. console_types ?cs ex_player = Some con1 \<and>
    console_type CONSOLE_BUFFER_SIZE (CHR 0x0D) con1 = Some ([CHR 0x0D, CHR 0x0A], con2, True) \<and>
    console_line R P C argv 7 100 (console_world_of con2) =
      con_upd 100 (\<lambda>c. c\<lparr>con_total_bytes := 0\<rparr>)
        (call_console C 5 7 [''a'', ''b''] (console_world_of (con2\<lparr>con_buffer := Some b'\<rparr>)))" by blast
qed

section \<open>Lines that break the console\<close>

lemma types_printable:
  assumes "list_all (\<lambda>c. 32 \<le> (of_char c :: nat) \<and> (of_char c :: nat) \<noteq> 127) cs" "length l + length cs \<le> 128" "holds_line con l"
  shows "\<exists>con'. console_types cs con = Some con' \<and> holds_line con' (l @ cs)"
  using assms
proof (induction cs arbitrary: con l)
  case (Cons c cs)
  then have c: "edit_char l c = l @ [c]" "\<not> enters c" by (auto simp: edit_char_def enters_def)
  then obtain e con1 where "console_type CONSOLE_BUFFER_SIZE c con = Some (e, con1, False)" "holds_line con1 (l @ [c])"
    using type_edits [of con l c] Cons.prems by auto
  with Cons.IH [of "l @ [c]" con1] Cons.prems show ?case by auto
qed simp

text \<open>A line of as many characters as the buffer has is accepted, and then both Enter and one more character write past the
  end of the buffer: the test of the length comes after the write, and compares with the size itself.\<close>

theorem console_line_overflows:
  assumes "holds_line con []" "length cs = CONSOLE_BUFFER_SIZE" "list_all (\<lambda>c. 32 \<le> (of_char c :: nat) \<and> (of_char c :: nat) \<noteq> 127) cs"
    and "enters c \<or> 32 \<le> (of_char c :: nat) \<and> (of_char c :: nat) \<noteq> 127"
  shows "\<exists>con1. console_types cs con = Some con1 \<and> con_total_bytes con1 = int CONSOLE_BUFFER_SIZE \<and>
    console_type CONSOLE_BUFFER_SIZE c con1 = None"
proof -
  obtain con1 where "console_types cs con = Some con1" "holds_line con1 cs"
    using types_printable [OF assms(3) _ assms(1)] assms(2) by auto
  then show ?thesis using assms(2,4) by (auto simp: holds_line_def console_type_def enters_def mem_write_def Let_def)
qed

theorem console_line_overflows_witness:
  "\<exists>con1. console_types (replicate 128 (CHR ''a'')) ex_console = Some con1 \<and> con_total_bytes con1 = 128 \<and>
    console_type CONSOLE_BUFFER_SIZE (CHR 0x0D) con1 = None"
  using console_line_overflows [OF ex_console_empty, of "replicate 128 (CHR ''a'')" "CHR 0x0D"] by (simp add: enters_def list_all_iff)

text \<open>C29. A line of blanks, and a line of more than six words, give no command, which \<open>console_exec\<close> passes to
  \<open>strcasecmp\<close>: with any command registered the console dereferences null.\<close>

theorem console_bad_line_crashes:
  assumes "plain_at b 0 s" "words s = [] \<or> length (words s) > 6" "s \<noteq> []"
    and "cons w a = Some con" "con_buffer con = Some b" "con_total_bytes con = int (length s)" "con_command_num con > 0"
    and "con_commands con \<noteq> []" "esp_periph_get_data self w = Some a"
  shows "console_line R P C argv self a w = None"
proof -
  have n: "fst (split_line s) = None" using assms(2) by (auto simp: split_line_def split: list.splits)
  obtain c cs where c: "con_commands con = c # cs" using assms(8) by (cases "con_commands con") auto
  obtain m where m: "nat (con_command_num con) = Suc m" using assms(7) by (metis gr0_implies_Suc zero_less_nat_eq)
  obtain p where p: "prs w self = Some p" "pe_periph_data p = a" using assms(9) by (auto simp: esp_periph_get_data_def bind_eq_Some_conv)
  obtain b' where "console_parse_line b = Some (None, snd (split_line s), b')" using parse_line_plain [OF assms(1)] n by auto
  then show ?thesis using assms(3-6) c m p by (simp add: console_line_def console_exec_def esp_periph_get_data_def)
qed

definition ex_console_world :: console_world where
  "ex_console_world = \<lparr>rbs = Map.empty, ifs = Map.empty, els = Map.empty, strs = Map.empty,
     prs = [7 \<mapsto> \<lparr>pe_tag = None, pe_disabled = False, pe_periph_id = PERIPH_ID_CONSOLE, pe_init = None, pe_run = None,
       pe_destroy = None, pe_state = PERIPH_STATE_RUNNING, pe_source = 0, pe_periph_data = 100, pe_on_evt = None, pe_timer = None\<rparr>],
     pss = Map.empty, cons = [100 \<mapsto> ex_console\<lparr>con_buffer := Some ('' '' @ [NUL]), con_total_bytes := 1\<rparr>]\<rparr>"

theorem console_bad_line_crashes_witness:
  "\<forall>P C. console_line (seq_platform None) P C 0 7 100 ex_console_world = None"
proof (intro allI, rule console_bad_line_crashes [where s = "'' ''"])
  show "words '' '' = [] \<or> length (words '' '') > 6" by code_simp
qed (auto simp: plain_at_def ex_console_world_def ex_console_def esp_periph_get_data_def)

end
