(* ===== verification/Periph_Led.thy ===== *)
theory Periph_Led
  imports Esp_Periph
begin

text \<open>
  The LED peripheral (\<open>components/esp_peripherals/periph_led.c\<close>): channels that a timer switches on and off a number of times.
  The PWM controller is the parameter \<open>led_ops\<close>.
\<close>

abbreviation (input) PERIPH_ID_LED :: int where "PERIPH_ID_LED \<equiv> 2 ^ 20 + 10"
abbreviation (input) MAX_LED_CHANNEL :: nat where "MAX_LED_CHANNEL \<equiv> 8"
abbreviation (input) PERIPH_LED_BLINK_FINISH :: int where "PERIPH_LED_BLINK_FINISH \<equiv> 1"

record periph_led_channel =
  lc_index :: int
  lc_pin :: int
  lc_time_on_ms :: int
  lc_time_off_ms :: int
  lc_tick :: int
  lc_loop :: int
  lc_is_off :: bool
  lc_fade :: bool

record periph_led_cfg =
  lcfg_speed_mode :: int
  lcfg_duty_resolution :: nat
  lcfg_timer_num :: int
  lcfg_freq_hz :: u32

record periph_led =
  led_speed_mode :: int
  led_duty_resolution :: nat
  led_timer_num :: int
  led_freq_hz :: u32
  led_channels :: "periph_led_channel list"

record led_world = pe_world +
  leds :: "addr \<Rightarrow> periph_led option"

type_synonym 'z ledw = "'z led_world_scheme"

record 'w led_ops =
  ledc_timer_config :: "int \<Rightarrow> int \<Rightarrow> nat \<Rightarrow> u32 \<Rightarrow> 'w \<Rightarrow> 'w"
  ledc_fade_func_install :: "'w \<Rightarrow> 'w"
  ledc_fade_func_uninstall :: "'w \<Rightarrow> 'w"
  ledc_channel_config :: "int \<Rightarrow> int \<Rightarrow> int \<Rightarrow> int \<Rightarrow> 'w \<Rightarrow> 'w"
  ledc_stop :: "int \<Rightarrow> int \<Rightarrow> 'w \<Rightarrow> 'w"
  ledc_fade :: "int \<Rightarrow> int \<Rightarrow> int \<Rightarrow> int \<Rightarrow> 'w \<Rightarrow> 'w"
  ledc_duty :: "int \<Rightarrow> int \<Rightarrow> int \<Rightarrow> 'w \<Rightarrow> 'w"

definition led_init_ptr :: fnptr where "led_init_ptr = 61"
definition led_run_ptr :: fnptr where "led_run_ptr = 62"
definition led_destroy_ptr :: fnptr where "led_destroy_ptr = 63"
definition led_timer_handler_ptr :: fnptr where "led_timer_handler_ptr = 65"

definition led_of :: "periph_handle \<Rightarrow> 'z ledw \<Rightarrow> (addr \<times> periph_led) option" where
  "led_of h w = do { a \<leftarrow> esp_periph_get_data h w; l \<leftarrow> leds w a; Some (a, l) }"

definition led_set_channel :: "addr \<Rightarrow> nat \<Rightarrow> (periph_led_channel \<Rightarrow> periph_led_channel) \<Rightarrow> 'z ledw \<Rightarrow> 'z ledw option" where
  "led_set_channel a i f w = do {
     l \<leftarrow> leds w a;
     Some (w\<lparr>leds := (leds w)(a \<mapsto> l\<lparr>led_channels := (led_channels l)[i := f (led_channels l ! i)]\<rparr>)\<rparr>) }"

section \<open>The peripheral\<close>

definition led_run :: "periph_handle \<Rightarrow> 'z ledw \<Rightarrow> esp_err \<times> 'z ledw" where
  "led_run self w = (ESP_OK, w)"

definition led_init :: "'z ledw led_ops \<Rightarrow> periph_handle \<Rightarrow> 'z ledw \<Rightarrow> (esp_err \<times> 'z ledw) option" where
  "led_init L self w = do {
     id \<leftarrow> esp_periph_get_id self w;
     if id \<noteq> PERIPH_ID_LED then Some (ESP_FAIL, w)
     else do {
       (_, l) \<leftarrow> led_of self w;
       let w = ledc_timer_config L (led_speed_mode l) (led_timer_num l) (led_duty_resolution l) (led_freq_hz l) w;
       Some (ESP_OK, ledc_fade_func_install L w) } }"

text \<open>Channels with index 0 or pin 0 are left on.\<close>

definition led_destroy :: "'z ledw led_ops \<Rightarrow> 'z ledw periph_ops \<Rightarrow> periph_handle \<Rightarrow> 'z ledw \<Rightarrow> (esp_err \<times> 'z ledw) option" where
  "led_destroy L P self w = do {
     (a, l) \<leftarrow> led_of self w;
     let w = fold (\<lambda>ch w. if lc_index ch > 0 \<and> lc_pin ch > 0 then ledc_stop L (led_speed_mode l) (lc_index ch) w else w) (led_channels l) w;
     (_, w) \<leftarrow> esp_periph_stop_timer P self w;
     let w = ledc_fade_func_uninstall L w;
     Some (ESP_OK, w\<lparr>leds := (leds w)(a := None)\<rparr>) }"

text \<open>All bytes of a channel set to \<open>0xFF\<close>.\<close>

definition free_channel :: periph_led_channel where
  "free_channel = \<lparr>lc_index = -1, lc_pin = -1, lc_time_on_ms = -1, lc_time_off_ms = -1, lc_tick = -1, lc_loop = -1, lc_is_off = True, lc_fade = True\<rparr>"

text \<open>Neither allocation is checked.\<close>

definition periph_led_init :: "'z ledw platform \<Rightarrow> periph_led_cfg \<Rightarrow> 'z ledw \<Rightarrow> (periph_handle option \<times> 'z ledw) option" where
  "periph_led_init R cfg w = do {
     let (periph, w) = esp_periph_create R PERIPH_ID_LED (Some ''periph_led'') w;
     let (a, w) = heap_alloc R 400 w;
     a \<leftarrow> a;
     periph \<leftarrow> periph;
     let w = w\<lparr>leds := (leds w)(a \<mapsto> \<lparr>led_speed_mode = lcfg_speed_mode cfg, led_duty_resolution = lcfg_duty_resolution cfg,
       led_timer_num = lcfg_timer_num cfg, led_freq_hz = (if lcfg_freq_hz cfg = 0 then 5000 else lcfg_freq_hz cfg),
       led_channels = replicate MAX_LED_CHANNEL free_channel\<rparr>)\<rparr>;
     (_, w) \<leftarrow> esp_periph_set_data periph a w;
     (_, w) \<leftarrow> esp_periph_set_function periph (Some led_init_ptr) (Some led_run_ptr) (Some led_destroy_ptr) w;
     Some (Some periph, w) }"

section \<open>Channels\<close>

text \<open>The search: the channel of the pin, else the last free one. Every candidate gets its index.\<close>

fun find_led_from :: "periph_led_channel list \<Rightarrow> int \<Rightarrow> nat \<Rightarrow> nat option \<Rightarrow> nat option \<times> periph_led_channel list" where
  "find_led_from [] gpio_num i ch = (ch, [])"
| "find_led_from (c # cs) gpio_num i ch =
     (if lc_pin c = gpio_num then (Some i, c\<lparr>lc_index := int i\<rparr> # cs)
      else if lc_pin c = -1 then (let (r, cs) = find_led_from cs gpio_num (Suc i) (Some i) in (r, c\<lparr>lc_index := int i\<rparr> # cs))
      else (let (r, cs) = find_led_from cs gpio_num (Suc i) ch in (r, c # cs)))"

definition find_led_channel :: "addr \<Rightarrow> int \<Rightarrow> 'z ledw \<Rightarrow> (nat option \<times> 'z ledw) option" where
  "find_led_channel a gpio_num w = do {
     l \<leftarrow> leds w a;
     let (ch, cs) = find_led_from (led_channels l) gpio_num 0 None;
     Some (ch, w\<lparr>leds := (leds w)(a \<mapsto> l\<lparr>led_channels := cs\<rparr>)\<rparr>) }"

text \<open>Switching a channel on or off, at once or fading.\<close>

definition led_switch :: "'z ledw led_ops \<Rightarrow> periph_led \<Rightarrow> periph_led_channel \<Rightarrow> bool \<Rightarrow> 'z ledw \<Rightarrow> 'z ledw" where
  "led_switch L l ch on w =
     (let duty = (if on then 2 ^ led_duty_resolution l - 1 else 0) in
      if lc_fade ch then ledc_fade L (led_speed_mode l) (lc_index ch) duty (if on then lc_time_on_ms ch else lc_time_off_ms ch) w
      else ledc_duty L (led_speed_mode l) (lc_index ch) duty w)"

definition led_count :: "periph_led_channel \<Rightarrow> periph_led_channel" where
  "led_count ch = (if lc_loop ch > 0 then ch\<lparr>lc_loop := lc_loop ch - 1\<rparr> else ch)"

text \<open>The clock is read for the test of an off channel, and again for the test of the other branch when that fails.\<close>

definition led_timer_channel ::
  "'z ledw platform \<Rightarrow> 'z ledw periph_ops \<Rightarrow> 'z ledw led_ops \<Rightarrow> periph_handle \<Rightarrow> addr \<Rightarrow> nat \<Rightarrow> 'z ledw \<Rightarrow> 'z ledw option" where
  "led_timer_channel R P L periph a i w = do {
     l \<leftarrow> leds w a;
     let ch = led_channels l ! i;
     if lc_pin ch < 0 then Some w
     else if lc_loop ch = 0 then do {
       let w = ledc_stop L (led_speed_mode l) (lc_index ch) w;
       (_, w) \<leftarrow> esp_periph_send_event R P periph PERIPH_LED_BLINK_FINISH (lc_pin ch) 0 w;
       led_set_channel a i (\<lambda>c. c\<lparr>lc_pin := -1\<rparr>) w }
     else do {
       let (now, w) = esp_periph_tick_get P w;
       if lc_is_off ch then
         (if now - lc_tick ch > lc_time_off_ms ch then do {
            let w = led_switch L l ch True w;
            let (t, w) = esp_periph_tick_get P w;
            led_set_channel a i (\<lambda>c. (led_count c)\<lparr>lc_is_off := (if lc_time_off_ms c > 0 then False else lc_is_off c), lc_tick := t\<rparr>) w }
          else Some w)
       else if now - lc_tick ch > lc_time_on_ms ch then do {
         let w = led_switch L l ch False w;
         let (t, w) = esp_periph_tick_get P w;
         led_set_channel a i (\<lambda>c. (led_count c)\<lparr>lc_is_off := (if lc_time_on_ms c > 0 then True else lc_is_off c), lc_tick := t\<rparr>) w }
       else Some w } }"

fun led_timer_from ::
  "'z ledw platform \<Rightarrow> 'z ledw periph_ops \<Rightarrow> 'z ledw led_ops \<Rightarrow> periph_handle \<Rightarrow> addr \<Rightarrow> nat list \<Rightarrow> 'z ledw \<Rightarrow> 'z ledw option" where
  "led_timer_from R P L periph a [] w = Some w"
| "led_timer_from R P L periph a (i # is) w = do { w \<leftarrow> led_timer_channel R P L periph a i w; led_timer_from R P L periph a is w }"

definition led_timer_handler ::
  "'z ledw platform \<Rightarrow> 'z ledw periph_ops \<Rightarrow> 'z ledw led_ops \<Rightarrow> periph_handle \<Rightarrow> 'z ledw \<Rightarrow> 'z ledw option" where
  "led_timer_handler R P L periph w = do {
     a \<leftarrow> esp_periph_get_data periph w;
     led_timer_from R P L periph a [0..<MAX_LED_CHANNEL] w }"

definition periph_led_blink ::
  "'z ledw platform \<Rightarrow> 'z ledw periph_ops \<Rightarrow> 'z ledw led_ops \<Rightarrow> periph_handle \<Rightarrow> int \<Rightarrow> int \<Rightarrow> int \<Rightarrow> bool \<Rightarrow> int \<Rightarrow> 'z ledw
     \<Rightarrow> (esp_err \<times> 'z ledw) option" where
  "periph_led_blink R P L periph gpio_num time_on_ms time_off_ms fade loop w = do {
     (a, l) \<leftarrow> led_of periph w;
     (ch, w) \<leftarrow> find_led_channel a gpio_num w;
     case ch of None \<Rightarrow> Some (ESP_FAIL, w)
     | Some i \<Rightarrow> do {
         let w = ledc_channel_config L (int i) gpio_num (led_speed_mode l) (led_timer_num l) w;
         let (t, w) = esp_periph_tick_get P w;
         w \<leftarrow> led_set_channel a i (\<lambda>c. c\<lparr>lc_pin := gpio_num, lc_time_on_ms := time_on_ms, lc_time_off_ms := time_off_ms, lc_tick := t,
                lc_loop := loop, lc_is_off := True, lc_fade := fade\<rparr>) w;
         (_, w) \<leftarrow> esp_periph_start_timer P periph (of_nat (portTICK_RATE_MS R)) led_timer_handler_ptr w;
         Some (ESP_OK, w) } }"

text \<open>Without a channel for the pin and without a free one, null is dereferenced.\<close>

definition periph_led_stop :: "'z ledw led_ops \<Rightarrow> periph_handle \<Rightarrow> int \<Rightarrow> 'z ledw \<Rightarrow> (esp_err \<times> 'z ledw) option" where
  "periph_led_stop L periph gpio_num w = do {
     (a, l) \<leftarrow> led_of periph w;
     (ch, w) \<leftarrow> find_led_channel a gpio_num w;
     i \<leftarrow> ch;
     l \<leftarrow> leds w a;
     let c = led_channels l ! i;
     if lc_pin c < 0 \<or> lc_index c < 0 then Some (ESP_OK, w)
     else do {
       let w = ledc_stop L (led_speed_mode l) (lc_index c) w;
       w \<leftarrow> led_set_channel a i (\<lambda>c. c\<lparr>lc_index := -1, lc_pin := -1\<rparr>) w;
       Some (ESP_OK, w) } }"

end
