(* ===== verification/Periph_Led_Correct.thy ===== *)
theory Periph_Led_Correct
  imports Periph_Led Esp_Periph_Correct Http_Client_Correct
begin






















end
