(* ===== verification/I2s_Stream.thy ===== *)
theory I2s_Stream
  imports Stream_Base
begin

text \<open>
  The I2S stream (\<open>components/audio_stream/i2s_stream.c\<close>): an element that plays to or records from the I2S driver of the
  SDK, which is the parameter \<open>i2s_ops\<close>. Samples are little endian in the buffers, which are byte lists.
\<close>

abbreviation (input) I2S_STREAM_BUF_SIZE :: int where "I2S_STREAM_BUF_SIZE \<equiv> 2048"
abbreviation (input) I2S_MODE_DAC_BUILT_IN :: u32 where "I2S_MODE_DAC_BUILT_IN \<equiv> 16"
abbreviation (input) I2S_CHANNEL_FMT_ONLY_RIGHT :: int where "I2S_CHANNEL_FMT_ONLY_RIGHT \<equiv> 3"

record i2s_config =
  i2s_mode :: u32
  i2s_sample_rate :: int
  i2s_bits_per_sample :: int
  i2s_channel_format :: int
  i2s_dma_buf_count :: nat
  i2s_dma_buf_len :: nat

record i2s_stream_cfg =
  ic_type :: audio_stream_type
  ic_i2s_config :: i2s_config
  ic_i2s_port :: int
  ic_out_rb_size :: int
  ic_task_stack :: int
  ic_task_core :: int
  ic_task_prio :: int

record i2s_stream =
  i2_type :: audio_stream_type
  i2_config :: i2s_stream_cfg
  i2_is_open :: bool

record i2s_world = el_world +
  i2ss :: "addr \<Rightarrow> i2s_stream option"

type_synonym 'z i2w = "'z i2s_world_scheme"

text \<open>The driver: a read replaces the bytes at the start of the buffer and tells how many, a write tells how many bytes it took.\<close>

record 'w i2s_ops =
  i2s_driver_install :: "int \<Rightarrow> i2s_config \<Rightarrow> 'w \<Rightarrow> 'w"
  i2s_set_clk :: "int \<Rightarrow> int \<Rightarrow> int \<Rightarrow> int \<Rightarrow> 'w \<Rightarrow> esp_err \<times> 'w"
  i2s_set_dac_mode :: "'w \<Rightarrow> 'w"
  i2s_set_board_pins :: "int \<Rightarrow> 'w \<Rightarrow> 'w"
  i2s_board_clock :: "int \<Rightarrow> 'w \<Rightarrow> 'w"
  i2s_read :: "int \<Rightarrow> u8 list \<Rightarrow> tick \<Rightarrow> 'w \<Rightarrow> (nat \<times> u8 list) \<times> 'w"
  i2s_write :: "int \<Rightarrow> u8 list \<Rightarrow> tick \<Rightarrow> 'w \<Rightarrow> nat \<times> 'w"

definition i2_upd :: "addr \<Rightarrow> (i2s_stream \<Rightarrow> i2s_stream) \<Rightarrow> 'z i2w \<Rightarrow> 'z i2w option" where
  "i2_upd a f w = (case i2ss w a of None \<Rightarrow> None | Some s \<Rightarrow> Some (w\<lparr>i2ss := (i2ss w)(a \<mapsto> f s)\<rparr>))"

interpretation i2s_store: object_store i2ss i2_upd
  by unfold_locales (auto simp: i2_upd_def split: option.splits)

section \<open>Samples\<close>

text \<open>Samples \<open>i\<close> and \<open>i + 1\<close> of \<open>k\<close> bytes exchanged.\<close>

definition swap_samples :: "nat \<Rightarrow> nat \<Rightarrow> u8 list \<Rightarrow> u8 list option" where
  "swap_samples k i b =
     (if (i + 2) * k \<le> length b
      then Some (take (i * k) b @ take k (drop ((i + 1) * k) b) @ take k (drop (i * k) b) @ drop ((i + 2) * k) b)
      else None)"

function swap_loop :: "nat \<Rightarrow> nat \<Rightarrow> nat \<Rightarrow> nat \<Rightarrow> u8 list \<Rightarrow> u8 list option" where
  "swap_loop k stride n i b =
     (if i < n \<and> 0 < stride then do { b \<leftarrow> swap_samples k i b; swap_loop k stride n (i + stride) b } else Some b)"
  by pat_completeness auto
termination by (relation "measure (\<lambda>(k, stride, n, i, b). n - i)") auto

declare swap_loop.simps [simp del]

definition i2s_mono_fix :: "int \<Rightarrow> u8 list \<Rightarrow> nat \<Rightarrow> (esp_err \<times> u8 list) option" where
  "i2s_mono_fix bits sbuff len =
     (if bits = 16 then map_option (Pair ESP_OK) (swap_loop 2 2 (len div 2) 0 sbuff)
      else if bits = 32 then map_option (Pair ESP_OK) (swap_loop 4 4 (len div 4) 0 sbuff)
      else Some (ESP_FAIL, sbuff))"

text \<open>The first \<open>n\<close> samples of two or four bytes, changed by a function on their values.\<close>

definition le16 :: "16 word \<Rightarrow> u8 list" where "le16 x = [ucast x, ucast (drop_bit 8 x)]"
definition le32 :: "u32 \<Rightarrow> u8 list" where "le32 x = [ucast x, ucast (drop_bit 8 x), ucast (drop_bit 16 x), ucast (drop_bit 24 x)]"

fun map_le16 :: "(16 word \<Rightarrow> 16 word) \<Rightarrow> nat \<Rightarrow> u8 list \<Rightarrow> u8 list option" where
  "map_le16 f 0 b = Some b"
| "map_le16 f (Suc n) (b0 # b1 # b) =
     map_option (\<lambda>r. le16 (f (ucast b0 OR push_bit 8 (ucast b1))) @ r) (map_le16 f n b)"
| "map_le16 f (Suc n) b = None"

fun map_le32 :: "(u32 \<Rightarrow> u32) \<Rightarrow> nat \<Rightarrow> u8 list \<Rightarrow> u8 list option" where
  "map_le32 f 0 b = Some b"
| "map_le32 f (Suc n) (b0 # b1 # b2 # b3 # b) =
     map_option (\<lambda>r. le32 (f (ucast b0 OR push_bit 8 (ucast b1) OR push_bit 16 (ucast b2) OR push_bit 24 (ucast b3))) @ r) (map_le32 f n b)"
| "map_le32 f (Suc n) b = None"

definition i2s_dac_data_scale :: "int \<Rightarrow> u8 list \<Rightarrow> nat \<Rightarrow> (int \<times> u8 list) option" where
  "i2s_dac_data_scale bits sBuff len =
     (if bits = 16 then map_option (Pair 0) (map_le16 (\<lambda>x. (x AND 0xff00) + 0x8000) (len div 2) sBuff)
      else if bits = 32 then map_option (Pair 0) (map_le32 (\<lambda>x. (x AND 0xff000000) + 0x80000000) (len div 4) sBuff)
      else Some (-1, sBuff))"

definition has_dac :: "i2s_stream \<Rightarrow> bool" where
  "has_dac s \<longleftrightarrow> i2s_mode (ic_i2s_config (i2_config s)) AND I2S_MODE_DAC_BUILT_IN \<noteq> 0"

section \<open>The callbacks\<close>

definition i2s_open :: "'z i2w platform \<Rightarrow> 'z i2w i2s_ops \<Rightarrow> el_handle \<Rightarrow> 'z i2w \<Rightarrow> (esp_err \<times> 'z i2w) option" where
  "i2s_open R I self w = do {
     a \<leftarrow> audio_element_getdata self w;
     s \<leftarrow> i2ss w a;
     if i2_is_open s then Some (ESP_OK, w)
     else do {
       (err, w) \<leftarrow> (case i2_type s of
          AUDIO_STREAM_READER \<Rightarrow> do {
            (info, w) \<leftarrow> el_getinfo R self w;
            let (r, w) = i2s_set_clk I (ic_i2s_port (i2_config s)) (info_sample_rates info) (info_bits info) (info_channels info) w;
            Some (if r = ESP_FAIL then ESP_FAIL else ESP_OK, w) }
        | AUDIO_STREAM_WRITER \<Rightarrow> do {
            (_, w) \<leftarrow> audio_element_set_input_timeout (Some self) (of_nat (10 div portTICK_RATE_MS R)) w;
            Some (ESP_OK, w) }
        | AUDIO_STREAM_NONE \<Rightarrow> Some (ESP_OK, w));
       if err \<noteq> ESP_OK then Some (ESP_FAIL, w)
       else do { w \<leftarrow> i2_upd a (\<lambda>s. s\<lparr>i2_is_open := True\<rparr>) w; Some (ESP_OK, w) } } }"

definition i2s_destroy :: "el_handle \<Rightarrow> 'z i2w \<Rightarrow> (esp_err \<times> 'z i2w) option" where
  "i2s_destroy self w = do {
     a \<leftarrow> audio_element_getdata self w;
     _ \<leftarrow> i2ss w a;
     Some (ESP_OK, w\<lparr>i2ss := (i2ss w)(a := None)\<rparr>) }"

text \<open>The buffers of the driver are filled with a byte.\<close>

definition i2s_fill :: "'z i2w i2s_ops \<Rightarrow> i2s_stream \<Rightarrow> u8 \<Rightarrow> 'z i2w \<Rightarrow> 'z i2w" where
  "i2s_fill I s x w =
     (let c = ic_i2s_config (i2_config s) in
      ((\<lambda>w. snd (i2s_write I (ic_i2s_port (i2_config s)) (replicate (i2s_dma_buf_len c * 4) x) portMAX_DELAY w)) ^^ i2s_dma_buf_count c) w)"

definition i2s_close :: "'z i2w platform \<Rightarrow> 'z i2w i2s_ops \<Rightarrow> el_handle \<Rightarrow> 'z i2w \<Rightarrow> (esp_err \<times> 'z i2w) option" where
  "i2s_close R I self w = do {
     a \<leftarrow> audio_element_getdata self w;
     s \<leftarrow> i2ss w a;
     let (m, w) = heap_alloc R (i2s_dma_buf_len (ic_i2s_config (i2_config s)) * 4) w;
     if m = None then Some (ESP_ERR_NO_MEM, w)
     else do {
       let w = i2s_fill I s (if has_dac s then 0x80 else 0) w;
       w \<leftarrow> i2_upd a (\<lambda>s. s\<lparr>i2_is_open := False\<rparr>) w;
       w \<leftarrow> rewind_unless_paused R self w;
       Some (ESP_OK, w) } }"

definition i2s_stream_read ::
  "'z i2w platform \<Rightarrow> 'z i2w i2s_ops \<Rightarrow> el_handle \<Rightarrow> u8 list \<Rightarrow> tick \<Rightarrow> 'z i2w \<Rightarrow> ((nat \<times> u8 list) \<times> 'z i2w) option" where
  "i2s_stream_read R I self buffer ticks w = do {
     a \<leftarrow> audio_element_getdata self w;
     s \<leftarrow> i2ss w a;
     let ((bytes_read, buffer), w) = i2s_read I (ic_i2s_port (i2_config s)) buffer ticks w;
     (info, w) \<leftarrow> el_getinfo R self w;
     if bytes_read > 0 then do {
       buffer \<leftarrow> (if info_channels info = 1 then map_option snd (i2s_mono_fix (info_bits info) buffer bytes_read) else Some buffer);
       (_, w) \<leftarrow> el_setinfo R self (advance (int bytes_read) info) w;
       Some ((bytes_read, buffer), w) }
     else Some ((bytes_read, buffer), w) }"

definition i2s_stream_write ::
  "'z i2w platform \<Rightarrow> 'z i2w i2s_ops \<Rightarrow> el_handle \<Rightarrow> u8 list \<Rightarrow> nat \<Rightarrow> tick \<Rightarrow> 'z i2w \<Rightarrow> ((nat \<times> u8 list) \<times> 'z i2w) option" where
  "i2s_stream_write R I self buffer len ticks w = do {
     a \<leftarrow> audio_element_getdata self w;
     s \<leftarrow> i2ss w a;
     (info, w) \<leftarrow> el_getinfo R self w;
     buffer \<leftarrow> (if info_channels info = 1 then map_option snd (i2s_mono_fix (info_bits info) buffer len) else Some buffer);
     buffer \<leftarrow> (if has_dac s then map_option snd (i2s_dac_data_scale (info_bits info) buffer len) else Some buffer);
     if len > length buffer then None
     else do {
       let (n, w) = i2s_write I (ic_i2s_port (i2_config s)) (take len buffer) ticks w;
       (_, w) \<leftarrow> el_setinfo R self (advance (int n) info) w;
       Some ((n, buffer), w) } }"

text \<open>Without data in time silence is played; at the end the buffers of the driver are filled with silence.\<close>

definition i2s_process :: "'z i2w platform \<Rightarrow> 'z i2w i2s_ops \<Rightarrow> el_handle \<Rightarrow> nat \<Rightarrow> 'z i2w \<Rightarrow> (int \<times> 'z i2w) option" where
  "i2s_process R I self in_len w = do {
     ((r_size, in_buffer), w) \<leftarrow> audio_element_input R self (int in_len) w;
     let (r_size, in_buffer) = (if r_size = AEL_IO_TIMEOUT then (int in_len, replicate in_len 0) else (r_size, in_buffer));
     if r_size > 0 then audio_element_output R self in_buffer r_size w
     else do {
       a \<leftarrow> audio_element_getdata self w;
       s \<leftarrow> i2ss w a;
       let (m, w) = heap_alloc R (i2s_dma_buf_len (ic_i2s_config (i2_config s)) * 4) w;
       if m = None then Some (ESP_FAIL, w) else Some (r_size, i2s_fill I s 0 w) } }"

section \<open>Clock and initialisation\<close>

definition i2s_stream_set_clk ::
  "'z i2w platform \<Rightarrow> 'z i2w i2s_ops \<Rightarrow> el_handle \<Rightarrow> int \<Rightarrow> int \<Rightarrow> int \<Rightarrow> 'z i2w \<Rightarrow> (esp_err \<times> 'z i2w) option" where
  "i2s_stream_set_clk R I i2s_stream rate bits ch w = do {
     a \<leftarrow> audio_element_getdata i2s_stream w;
     state \<leftarrow> audio_element_get_state i2s_stream w;
     w \<leftarrow> (if state = AEL_STATE_RUNNING then map_option snd (audio_element_pause R i2s_stream w) else Some w);
     (info, w) \<leftarrow> el_getinfo R i2s_stream w;
     (_, w) \<leftarrow> el_setinfo R i2s_stream (info\<lparr>info_bits := bits, info_channels := ch, info_sample_rates := rate\<rparr>) w;
     s \<leftarrow> i2ss w a;
     let (r, w) = i2s_set_clk I (ic_i2s_port (i2_config s)) rate bits ch w;
     w \<leftarrow> (if state = AEL_STATE_RUNNING then map_option snd (audio_element_resume R i2s_stream (f32_of_int 0) 0 w) else Some w);
     Some (if r = ESP_FAIL then ESP_FAIL else ESP_OK, w) }"

record i2s_callbacks =
  icb_open :: fnptr
  icb_close :: fnptr
  icb_process :: fnptr
  icb_destroy :: fnptr
  icb_read :: fnptr
  icb_write :: fnptr

definition i2s_element_cfg :: "i2s_callbacks \<Rightarrow> i2s_stream_cfg \<Rightarrow> audio_element_cfg" where
  "i2s_element_cfg cbs config =
     DEFAULT_AUDIO_ELEMENT_CONFIG\<lparr>cfg_open := Some (icb_open cbs), cfg_close := Some (icb_close cbs),
       cfg_process := Some (icb_process cbs), cfg_destroy := Some (icb_destroy cbs), cfg_task_stack := ic_task_stack config,
       cfg_task_prio := ic_task_prio config, cfg_task_core := ic_task_core config, cfg_out_rb_size := ic_out_rb_size config,
       cfg_tag := Some ''iis'', cfg_buffer_len := I2S_STREAM_BUF_SIZE,
       cfg_read := (if ic_type config = AUDIO_STREAM_READER then Some (icb_read cbs) else None),
       cfg_write := (if ic_type config = AUDIO_STREAM_WRITER then Some (icb_write cbs) else None)\<rparr>"

text \<open>Boards whose codec takes its clock from a pin of the processor route it there (\<open>i2s_board_clock\<close>).\<close>

definition i2s_stream_init ::
  "'z i2w platform \<Rightarrow> 'z i2w i2s_ops \<Rightarrow> i2s_callbacks \<Rightarrow> i2s_stream_cfg \<Rightarrow> 'z i2w \<Rightarrow> (el_handle option \<times> 'z i2w) option" where
  "i2s_stream_init R I cbs config w =
     (case heap_alloc R 72 w of
        (None, w) \<Rightarrow> Some (None, w)
      | (Some a, w) \<Rightarrow> do {
          let w = w\<lparr>i2ss := (i2ss w)(a \<mapsto> \<lparr>i2_type = ic_type config, i2_config = config, i2_is_open = False\<rparr>)\<rparr>;
          (el, w) \<leftarrow> audio_element_init R (i2s_element_cfg cbs config) w;
          case el of
            None \<Rightarrow> Some (None, w\<lparr>i2ss := (i2ss w)(a := None)\<rparr>)
          | Some el \<Rightarrow> do {
              (_, w) \<leftarrow> audio_element_setdata el a w;
              (info, w) \<leftarrow> el_getinfo R el w;
              let c = ic_i2s_config config;
              (_, w) \<leftarrow> el_setinfo R el (info\<lparr>info_sample_rates := i2s_sample_rate c,
                 info_channels := (if i2s_channel_format c < I2S_CHANNEL_FMT_ONLY_RIGHT then 2 else 1), info_bits := i2s_bits_per_sample c\<rparr>) w;
              let w = i2s_driver_install I (ic_i2s_port config) c w;
              let w = (if i2s_mode c AND I2S_MODE_DAC_BUILT_IN \<noteq> 0 then i2s_set_dac_mode I w else i2s_set_board_pins I (ic_i2s_port config) w);
              Some (Some el, i2s_board_clock I (ic_i2s_port config) w) }
        })"

end
