(* ===== verification/I2s_Stream_Correct.thy ===== *)
theory I2s_Stream_Correct
  imports I2s_Stream
begin

text \<open>What the I2S stream does to the samples, and what a write plays.\<close>

section \<open>Mono\<close>

lemma swap_samples_append:
  assumes "length pre = i * k" "length x = k" "length y = k"
  shows "swap_samples k i (pre @ x @ y @ post) = Some (pre @ y @ x @ post)"
proof -
  have a: "take k (drop (i * k + k) (pre @ x @ y @ post)) = y" "take k (drop (i * k) (pre @ x @ y @ post)) = x"
    "drop (i * k + (k + k)) (pre @ x @ y @ post) = post" "take (i * k) (pre @ x @ y @ post) = pre"
    using assms by simp_all
  then show ?thesis using assms by (simp add: swap_samples_def algebra_simps)
qed

lemma swap_loop_pairs:
  assumes "length pre = i * k" "\<forall>(x, y)\<in>set ps. length x = k \<and> length y = k" "n = i + 2 * length ps"
  shows "swap_loop k 2 n i (pre @ concat (map (\<lambda>(x, y). x @ y) ps) @ post) = Some (pre @ concat (map (\<lambda>(x, y). y @ x) ps) @ post)"
  using assms
proof (induction ps arbitrary: pre i)
  case Nil
  then show ?case by (simp add: swap_loop.simps)
next
  case (Cons p ps)
  obtain x y where p: "p = (x, y)" by fastforce
  have xy: "length x = k" "length y = k" using Cons.prems p by auto
  have "swap_samples k i (pre @ x @ y @ concat (map (\<lambda>(x, y). x @ y) ps) @ post) = Some (pre @ y @ x @ concat (map (\<lambda>(x, y). x @ y) ps) @ post)"
    using Cons.prems(1) xy by (rule swap_samples_append)
  moreover have "swap_loop k 2 n (i + 2) ((pre @ y @ x) @ concat (map (\<lambda>(x, y). x @ y) ps) @ post)
      = Some ((pre @ y @ x) @ concat (map (\<lambda>(x, y). y @ x) ps) @ post)"
    using Cons.prems xy by (intro Cons.IH) (auto simp: algebra_simps)
  ultimately show ?case using Cons.prems p by (subst swap_loop.simps) simp
qed

lemma swap_loop_quads:
  assumes "length pre = i * k" "\<forall>(x, y, z)\<in>set qs. length x = k \<and> length y = k \<and> length z = 2 * k" "n = i + 4 * length qs"
  shows "swap_loop k 4 n i (pre @ concat (map (\<lambda>(x, y, z). x @ y @ z) qs)) = Some (pre @ concat (map (\<lambda>(x, y, z). y @ x @ z) qs))"
  using assms
proof (induction qs arbitrary: pre i)
  case Nil
  then show ?case by (simp add: swap_loop.simps)
next
  case (Cons q qs)
  obtain x y z where q: "q = (x, y, z)" by (metis prod_cases3)
  have xyz: "length x = k" "length y = k" "length z = 2 * k" using Cons.prems q by auto
  have "swap_samples k i (pre @ x @ y @ z @ concat (map (\<lambda>(x, y, z). x @ y @ z) qs)) = Some (pre @ y @ x @ z @ concat (map (\<lambda>(x, y, z). x @ y @ z) qs))"
    using Cons.prems(1) xyz(1,2) by (rule swap_samples_append)
  moreover have "swap_loop k 4 n (i + 4) ((pre @ y @ x @ z) @ concat (map (\<lambda>(x, y, z). x @ y @ z) qs))
      = Some ((pre @ y @ x @ z) @ concat (map (\<lambda>(x, y, z). y @ x @ z) qs))"
    using Cons.prems xyz by (intro Cons.IH) (auto simp: algebra_simps)
  ultimately show ?case using Cons.prems q by (subst swap_loop.simps) simp
qed

section \<open>The converter\<close>

lemma of_le16: "(ucast (ucast x :: u8) :: 16 word) OR push_bit 8 (ucast (ucast (drop_bit 8 x) :: u8)) = x"
  by (rule bit_word_eqI) (auto simp: bit_simps)

text \<open>The sample as the converter takes it: its high byte as a number from 0, the low byte 0.\<close>

definition dac_sample :: "16 word \<Rightarrow> 16 word" where
  "dac_sample x = (x AND 0xff00) + 0x8000"

lemma map_le16_samples:
  "map_le16 f (length xs) (concat (map le16 xs) @ post) = Some (concat (map (le16 \<circ> f) xs) @ post)"
  by (induction xs) (simp_all add: le16_def of_le16)

lemma dac_sample_offset: "uint (drop_bit 8 (dac_sample x)) = sint x div 256 + 128"
proof -
  have a: "dac_sample x = word_of_int (256 * (sint x div 256) + 0x8000)"
  proof -
    have "x AND 0xff00 = word_of_int (256 * (sint x div 256))"
    proof (rule bit_word_eqI)
      fix n assume n: "n < LENGTH(16)"
      have e: "256 * (sint x div 256) = push_bit 8 (drop_bit 8 (sint x))" by (simp add: push_bit_eq_mult drop_bit_eq_div)
      have m: "bit (0xff00 :: 16 word) n \<longleftrightarrow> 8 \<le> n"
      proof -
        have "(0xff00 :: 16 word) = push_bit 8 (mask 8)" by (simp add: push_bit_eq_mult mask_numeral)
        moreover have "bit (push_bit 8 (mask 8) :: 16 word) n \<longleftrightarrow> 8 \<le> n" using n by (auto simp: bit_simps)
        ultimately show ?thesis by simp
      qed
      show "bit (x AND 0xff00) n \<longleftrightarrow> bit (word_of_int (256 * (sint x div 256)) :: 16 word) n"
        using n unfolding e bit_and_iff m by (cases "8 \<le> n") (auto simp: bit_word_of_int_iff bit_push_bit_iff bit_drop_bit_eq bit_sint_iff)
    qed
    then show ?thesis by (simp add: dac_sample_def)
  qed
  have r: "- 128 \<le> sint x div 256" "sint x div 256 < 128"
    using sint_ge [of x] sint_lt [of x] by (auto simp: div_le_mono)
  then have "uint (dac_sample x) = 256 * (sint x div 256 + 128)"
  proof -
    define k where "k = 256 * (sint x div 256) + 0x8000"
    have k: "0 \<le> k" "k < 2 ^ 16" using r by (auto simp: k_def)
    then have "take_bit LENGTH(16) k = k" by (simp add: take_bit_int_eq_self)
    then have "uint (word_of_int k :: 16 word) = k" using k(1) by (simp only: unsigned_of_int int_nat_eq if_True)
    then show ?thesis unfolding a k_def by (simp only: distrib_left)
  qed
  then have u: "unat (dac_sample x) = nat (256 * (sint x div 256 + 128))" by (metis nat_uint_eq)
  have "unat (drop_bit 8 (dac_sample x)) = unat (dac_sample x) div 256"
    unfolding unat_drop_bit_eq by (simp add: drop_bit_eq_div)
  also have "\<dots> = nat (sint x div 256 + 128)" unfolding u using r by (simp add: nat_div_distrib [symmetric] del: nat_div_distrib)
  finally have "unat (drop_bit 8 (dac_sample x)) = nat (sint x div 256 + 128)" .
  then have "int (unat (drop_bit 8 (dac_sample x))) = sint x div 256 + 128" using r by simp
  then show ?thesis by (simp only: uint_nat)
qed

section \<open>Playing\<close>

definition stereo :: "(16 word \<times> 16 word) list \<Rightarrow> u8 list" where
  "stereo ps = concat (map (\<lambda>(x, y). le16 x @ le16 y) ps)"

lemma mono_fix_16: "i2s_mono_fix 16 (stereo ps) (4 * length ps) = Some (ESP_OK, stereo (map prod.swap ps))"
proof -
  let ?ps = "map (\<lambda>(x, y). (le16 x, le16 y)) ps"
  have "swap_loop 2 2 (2 * length ps) 0 ([] @ concat (map (\<lambda>(x, y). x @ y) ?ps) @ []) = Some ([] @ concat (map (\<lambda>(x, y). y @ x) ?ps) @ [])"
    by (rule swap_loop_pairs) (auto simp: le16_def)
  then show ?thesis by (simp add: i2s_mono_fix_def stereo_def comp_def case_prod_unfold)
qed

lemma stereo_samples: "stereo ps = concat (map le16 (concat (map (\<lambda>(x, y). [x, y]) ps)))"
  by (induction ps) (auto simp: stereo_def)

lemma length_stereo: "length (stereo ps) = 4 * length ps"
  by (induction ps) (auto simp: stereo_def le16_def)

lemma dac_scale_16:
  "i2s_dac_data_scale 16 (stereo ps) (4 * length ps) = Some (0, stereo (map (map_prod dac_sample dac_sample) ps))"
proof -
  let ?xs = "concat (map (\<lambda>(x, y). [x, y]) ps)"
  have l: "length ?xs = 2 * length ps" by (induction ps) auto
  have "map_le16 dac_sample (length ?xs) (concat (map le16 ?xs) @ []) = Some (concat (map (le16 \<circ> dac_sample) ?xs) @ [])"
    by (rule map_le16_samples)
  moreover have "concat (map (le16 \<circ> dac_sample) ?xs) = stereo (map (map_prod dac_sample dac_sample) ps)"
    by (induction ps) (auto simp: stereo_def)
  ultimately show ?thesis using l by (simp add: i2s_dac_data_scale_def stereo_samples [of ps] dac_sample_def [abs_def])
qed

text \<open>C31. Writing 16-bit samples of one channel to a stream that plays through the built-in converter gives the driver the samples of
  each pair exchanged, and of each sample its high byte counted from 0, which is what the converter plays; the position of the
  element advances by the bytes the driver took.\<close>

theorem i2s_write_plays:
  assumes "free_locks R" "els w self = Some e" "el_lock e = Some l" "i2ss w (el_data e) = Some s" "has_dac s"
    and "info_channels (el_info e) = 1" "info_bits (el_info e) = 16"
    and "i2s_write I (ic_i2s_port (i2_config s)) (stereo (map (\<lambda>(x, y). (dac_sample y, dac_sample x)) ps)) ticks w = (n, w1)"
    and "els w1 self = Some e1" "el_lock e1 = Some l1"
  shows "i2s_stream_write R I self (stereo ps) (4 * length ps) ticks w =
      Some ((n, stereo (map (\<lambda>(x, y). (dac_sample y, dac_sample x)) ps)),
        w1\<lparr>els := (els w1)(self \<mapsto> e1\<lparr>el_info := advance (int n) (el_info e)\<rparr>)\<rparr>) \<and>
    (\<forall>x. uint (drop_bit 8 (dac_sample x)) = sint x div 256 + 128)"
proof -
  have m: "map (map_prod dac_sample dac_sample) (map prod.swap ps) = map (\<lambda>(x, y). (dac_sample y, dac_sample x)) ps"
    by (induction ps) auto
  have d: "i2s_dac_data_scale 16 (stereo (map prod.swap ps)) (4 * length ps) = Some (0, stereo (map (\<lambda>(x, y). (dac_sample y, dac_sample x)) ps))"
    using dac_scale_16 [of "map prod.swap ps"] unfolding m by simp
  have t: "take (4 * length ps) (stereo (map (\<lambda>(x, y). (dac_sample y, dac_sample x)) ps)) = stereo (map (\<lambda>(x, y). (dac_sample y, dac_sample x)) ps)"
    by (simp add: length_stereo)
  show ?thesis
    using assms(2,4-8) by (simp add: i2s_stream_write_def audio_element_getdata_def el_getinfo_free [OF assms(1-3)]
      mono_fix_16 d t length_stereo el_setinfo_free [OF assms(1,9,10)] dac_sample_offset)
qed

text \<open>For samples of 32 bits the exchange of the channels steps over every second pair: of each four samples the first two are
  exchanged and the last two are not.\<close>

theorem i2s_mono_32_half:
  assumes "\<forall>(x, y, z)\<in>set qs. length x = 4 \<and> length y = 4 \<and> length z = 8"
  shows "i2s_mono_fix 32 (concat (map (\<lambda>(x, y, z). x @ y @ z) qs)) (16 * length qs) = Some (ESP_OK, concat (map (\<lambda>(x, y, z). y @ x @ z) qs))"
proof -
  have "swap_loop 4 4 (4 * length qs) 0 ([] @ concat (map (\<lambda>(x, y, z). x @ y @ z) qs)) = Some ([] @ concat (map (\<lambda>(x, y, z). y @ x @ z) qs))"
    using assms by (intro swap_loop_quads) auto
  then show ?thesis by (simp add: i2s_mono_fix_def)
qed

section \<open>An instance\<close>

definition ex_i2s_ops :: "i2s_world i2s_ops" where
  "ex_i2s_ops = \<lparr>i2s_driver_install = (\<lambda>p c w. w), i2s_set_clk = (\<lambda>p r b c w. (ESP_OK, w)), i2s_set_dac_mode = id, i2s_set_board_pins = (\<lambda>p w. w),
     i2s_board_clock = (\<lambda>p w. w), i2s_read = (\<lambda>p b t w. ((0, b), w)), i2s_write = (\<lambda>p b t w. (length b, w))\<rparr>"

definition ex_i2s :: i2s_stream where
  "ex_i2s = \<lparr>i2_type = AUDIO_STREAM_WRITER, i2_config = \<lparr>ic_type = AUDIO_STREAM_WRITER, ic_i2s_config = \<lparr>i2s_mode = 21,
     i2s_sample_rate = 44100, i2s_bits_per_sample = 16, i2s_channel_format = 0, i2s_dma_buf_count = 3, i2s_dma_buf_len = 300\<rparr>,
     ic_i2s_port = 0, ic_out_rb_size = 8192, ic_task_stack = 3072, ic_task_core = 0, ic_task_prio = 23\<rparr>, i2_is_open = True\<rparr>"

definition ex_i2s_el :: audio_element where
  "ex_i2s_el = el_zero\<lparr>el_lock := Some 1, el_data := 50, el_info := AUDIO_ELEMENT_INFO_DEFAULT\<lparr>info_channels := 1\<rparr>\<rparr>"

definition ex_i2s_w :: i2s_world where
  "ex_i2s_w = \<lparr>rbs = Map.empty, ifs = Map.empty, els = [3 \<mapsto> ex_i2s_el], strs = Map.empty, i2ss = [50 \<mapsto> ex_i2s]\<rparr>"

theorem i2s_write_plays_witness:
  "\<exists>w'. i2s_stream_write (seq_platform None) ex_i2s_ops 3 (stereo [(1, 0x7FFF)]) 4 0 ex_i2s_w = Some ((4, [0, 0xFF, 0, 0x80]), w')"
proof -
  have s: "stereo [(dac_sample 0x7FFF, dac_sample 1)] = [0, 0xFF, 0, 0x80]" by code_simp
  have d: "has_dac ex_i2s" by code_simp
  show ?thesis
    using i2s_write_plays [OF free_locks_seq, of ex_i2s_w 3 ex_i2s_el 1 ex_i2s ex_i2s_ops "[(1, 0x7FFF)]" 0 4 ex_i2s_w ex_i2s_el 1 None] s d
    by (auto simp: ex_i2s_w_def ex_i2s_el_def ex_i2s_ops_def AUDIO_ELEMENT_INFO_DEFAULT_def)
qed

theorem i2s_mono_32_half_witness:
  "i2s_mono_fix 32 [1, 0, 0, 0, 2, 0, 0, 0, 3, 0, 0, 0, 4, 0, 0, 0] 16 = Some (ESP_OK, [2, 0, 0, 0, 1, 0, 0, 0, 3, 0, 0, 0, 4, 0, 0, 0])"
  using i2s_mono_32_half [of "[([1, 0, 0, 0], [2, 0, 0, 0], [3, 0, 0, 0, 4, 0, 0, 0])]"] by simp

end
