(* ===== verification/I2c_Bus.thy ===== *)
theory I2c_Bus
  imports Esp_Periph Codec_Bus
begin

text \<open>
  Shared I2C buses (\<open>components/esp_peripherals/driver/i2c_bus/i2c_bus.c\<close>): one object per port, one lock for all transfers.
  The I2C driver of the SDK is the parameter \<open>bus_ops\<close>; a transfer is a list of steps, queued and then run.
\<close>

abbreviation (input) I2C_NUM_MAX :: int where "I2C_NUM_MAX \<equiv> 2"
abbreviation (input) I2C_MODE_MASTER :: int where "I2C_MODE_MASTER \<equiv> 1"

record i2c_conf =
  i2c_mode :: int
  i2c_sda_io_num :: int
  i2c_scl_io_num :: int
  i2c_pullups :: bool
  i2c_clk_speed :: u32

record i2c_bus =
  ib_conf :: i2c_conf
  ib_port :: int

datatype bus_cmd = BUS_START | BUS_WRITE "u8 list" | BUS_READ int | BUS_STOP

record bus_world = pe_world +
  i2c_buses :: "int \<Rightarrow> addr option"
  i2c_objs :: "addr \<Rightarrow> i2c_bus option"
  bus_lock :: "sem option"

type_synonym 'z bsw = "'z bus_world_scheme"

text \<open>\<open>bus_begin\<close> gives the bytes of the reads.\<close>

record 'w bus_ops =
  bus_param_config :: "int \<Rightarrow> i2c_conf \<Rightarrow> 'w \<Rightarrow> int \<times> 'w"
  bus_driver_install :: "int \<Rightarrow> int \<Rightarrow> 'w \<Rightarrow> int \<times> 'w"
  bus_driver_delete :: "int \<Rightarrow> 'w \<Rightarrow> 'w"
  bus_queue :: "bus_cmd \<Rightarrow> 'w \<Rightarrow> int \<times> 'w"
  bus_begin :: "int \<Rightarrow> bus_cmd list \<Rightarrow> tick \<Rightarrow> 'w \<Rightarrow> (int \<times> u8 list) \<times> 'w"

section \<open>Buses\<close>

text \<open>A bus that cannot be configured is freed and stays in the table. The allocation is not checked.\<close>

definition i2c_bus_create ::
  "'z bsw platform \<Rightarrow> 'z bsw bus_ops \<Rightarrow> int \<Rightarrow> i2c_conf option \<Rightarrow> 'z bsw \<Rightarrow> (addr option \<times> 'z bsw) option" where
  "i2c_bus_create R B port conf w =
     (if port \<ge> I2C_NUM_MAX then Some (None, w)
      else case conf of None \<Rightarrow> Some (None, w)
      | Some conf \<Rightarrow>
          if port < 0 then None
          else case i2c_buses w port of Some b \<Rightarrow> Some (Some b, w)
          | None \<Rightarrow> do {
              let (b, w) = heap_alloc R 32 w;
              b \<leftarrow> b;
              let w = w\<lparr>i2c_buses := (i2c_buses w)(port := Some b), i2c_objs := (i2c_objs w)(b \<mapsto> \<lparr>ib_conf = conf, ib_port = port\<rparr>)\<rparr>;
              let (ret, w) = bus_param_config B port conf w;
              let (ret, w) = (if ret \<noteq> ESP_OK then (ret, w) else bus_driver_install B port (i2c_mode conf) w);
              if ret \<noteq> ESP_OK then Some (None, w\<lparr>i2c_objs := (i2c_objs w)(b := None)\<rparr>)
              else do {
                let w = (case bus_lock w of None \<Rightarrow> w | Some l \<Rightarrow> vSemaphoreDelete R l w);
                let (l, w) = xSemaphoreCreateMutex R w;
                Some (Some b, w\<lparr>bus_lock := l\<rparr>) } })"

text \<open>The bus is read after it was freed.\<close>

definition i2c_bus_delete :: "'z bsw platform \<Rightarrow> 'z bsw bus_ops \<Rightarrow> addr option \<Rightarrow> 'z bsw \<Rightarrow> (esp_err \<times> 'z bsw) option" where
  "i2c_bus_delete R B bus w =
     (case bus of None \<Rightarrow> Some (ESP_FAIL, w)
      | Some b \<Rightarrow> do {
          p \<leftarrow> i2c_objs w b;
          let w = bus_driver_delete B (ib_port p) w;
          let w = w\<lparr>i2c_objs := (i2c_objs w)(b := None)\<rparr>;
          p \<leftarrow> i2c_objs w b;
          let w = w\<lparr>i2c_buses := (i2c_buses w)(ib_port p := None)\<rparr>;
          l \<leftarrow> bus_lock w;
          Some (ESP_OK, (vSemaphoreDelete R l w)\<lparr>bus_lock := None\<rparr>) })"

section \<open>Transfers\<close>

definition bus_transfer ::
  "'z bsw platform \<Rightarrow> 'z bsw bus_ops \<Rightarrow> int \<Rightarrow> bus_cmd list \<Rightarrow> 'z bsw \<Rightarrow> ((int \<times> u8 list) \<times> 'z bsw) option" where
  "bus_transfer R B port cmds w = do {
     l \<leftarrow> bus_lock w;
     w \<leftarrow> mutex_lock R l w;
     let (ret, w) = fold (\<lambda>c. or_res (bus_queue B c)) cmds (ESP_OK, w);
     let ((r, bytes), w) = bus_begin B port cmds (of_nat (1000 div portTICK_RATE_MS R)) w;
     l \<leftarrow> bus_lock w;
     Some ((if ret OR r = 0 then ESP_OK else ESP_FAIL, bytes), xSemaphoreGive R l w) }"

definition i2c_bus_write_bytes ::
  "'z bsw platform \<Rightarrow> 'z bsw bus_ops \<Rightarrow> int \<Rightarrow> int \<Rightarrow> u8 list \<Rightarrow> u8 list option \<Rightarrow> 'z bsw \<Rightarrow> (esp_err \<times> 'z bsw) option" where
  "i2c_bus_write_bytes R B port address reg data w =
     (if port \<ge> I2C_NUM_MAX then Some (ESP_FAIL, w)
      else case data of None \<Rightarrow> Some (ESP_FAIL, w)
      | Some d \<Rightarrow> do {
          ((ret, _), w) \<leftarrow> bus_transfer R B port [BUS_START, BUS_WRITE [word_of_int address], BUS_WRITE reg, BUS_WRITE d, BUS_STOP] w;
          Some (ret, w) })"

definition i2c_bus_write_data ::
  "'z bsw platform \<Rightarrow> 'z bsw bus_ops \<Rightarrow> int \<Rightarrow> int \<Rightarrow> u8 list option \<Rightarrow> 'z bsw \<Rightarrow> (esp_err \<times> 'z bsw) option" where
  "i2c_bus_write_data R B port address data w =
     (if port \<ge> I2C_NUM_MAX then Some (ESP_FAIL, w)
      else case data of None \<Rightarrow> Some (ESP_FAIL, w)
      | Some d \<Rightarrow> do {
          ((ret, _), w) \<leftarrow> bus_transfer R B port [BUS_START, BUS_WRITE [word_of_int address], BUS_WRITE d, BUS_STOP] w;
          Some (ret, w) })"

text \<open>A read of \<open>len\<close> bytes, of which the last is not acknowledged; for no byte at all the one before the buffer is written.\<close>

definition i2c_bus_read_bytes ::
  "'z bsw platform \<Rightarrow> 'z bsw bus_ops \<Rightarrow> int \<Rightarrow> int \<Rightarrow> bool \<Rightarrow> nat \<Rightarrow> 'z bsw \<Rightarrow> ((esp_err \<times> u8 list) \<times> 'z bsw) option" where
  "i2c_bus_read_bytes R B port address outdata len w =
     (if port \<ge> I2C_NUM_MAX \<or> \<not> outdata then Some ((ESP_FAIL, []), w)
      else if len = 0 then None
      else bus_transfer R B port ([BUS_START, BUS_WRITE [word_of_int address]] @ replicate (len - 1) (BUS_READ 0) @ [BUS_READ 1, BUS_STOP]) w)"

definition i2c_bus_cmd_begin ::
  "'z bsw bus_ops \<Rightarrow> addr option \<Rightarrow> bus_cmd list option \<Rightarrow> tick \<Rightarrow> 'z bsw \<Rightarrow> (esp_err \<times> 'z bsw) option" where
  "i2c_bus_cmd_begin B bus cmd ticks_to_wait w =
     (case (bus, cmd) of
        (Some b, Some c) \<Rightarrow> do {
          p \<leftarrow> i2c_objs w b;
          let ((r, _), w) = bus_begin B (ib_port p) c ticks_to_wait w;
          Some (r, w) }
      | _ \<Rightarrow> Some (ESP_FAIL, w))"

end
