(* ===== verification/Is31fl3216.thy ===== *)
theory Is31fl3216
  imports I2c_Bus "HOL-Library.Signed_Division"
begin

text \<open>
  The LED controller IS31FL3216 (\<open>esp_peripherals/lib/IS31FL3216/IS31FL3216.c\<close>) and its peripheral (\<open>periph_is31fl3216.c\<close>),
  whose task plays patterns: lights on or off, all flashing, a light that moves, and levels of the sound.
\<close>

abbreviation (input) IS31FL3216_ADDRESS :: int where "IS31FL3216_ADDRESS \<equiv> 0xE8"
abbreviation (input) IS31FL3216_REG_CONFIG :: u8 where "IS31FL3216_REG_CONFIG \<equiv> 0"
abbreviation (input) IS31FL3216_REG_LED_CTRL_H :: u8 where "IS31FL3216_REG_LED_CTRL_H \<equiv> 1"
abbreviation (input) IS31FL3216_REG_LED_EFFECT :: u8 where "IS31FL3216_REG_LED_EFFECT \<equiv> 3"
abbreviation (input) IS31FL3216_REG_CH_CONFIG :: u8 where "IS31FL3216_REG_CH_CONFIG \<equiv> 4"
abbreviation (input) IS31FL3216_REG_ADC_RATE :: u8 where "IS31FL3216_REG_ADC_RATE \<equiv> 9"
abbreviation (input) IS31FL3216_REG_PWM_16 :: u8 where "IS31FL3216_REG_PWM_16 \<equiv> 0x10"
abbreviation (input) IS31FL3216_REG_FRAME1_CTRL :: u8 where "IS31FL3216_REG_FRAME1_CTRL \<equiv> 0x20"
abbreviation (input) IS31FL3216_REG_UPDATE :: u8 where "IS31FL3216_REG_UPDATE \<equiv> 0xB0"
abbreviation (input) IS31FL3216_REG_FRAME_DELAY :: u8 where "IS31FL3216_REG_FRAME_DELAY \<equiv> 0xB6"
abbreviation (input) IS31FL3216_REG_FRAME_START :: u8 where "IS31FL3216_REG_FRAME_START \<equiv> 0xB7"
abbreviation (input) IS31FL3216_CH_ALL :: u32 where "IS31FL3216_CH_ALL \<equiv> 0xFFFF"
abbreviation (input) IS31FL3216_DUTY_MAX :: int where "IS31FL3216_DUTY_MAX \<equiv> 255"

abbreviation (input) IS31FL3216_STATE_UNKNOWN :: int where "IS31FL3216_STATE_UNKNOWN \<equiv> 0"
abbreviation (input) IS31FL3216_STATE_OFF :: int where "IS31FL3216_STATE_OFF \<equiv> 1"
abbreviation (input) IS31FL3216_STATE_ON :: int where "IS31FL3216_STATE_ON \<equiv> 2"
abbreviation (input) IS31FL3216_STATE_FLASH :: int where "IS31FL3216_STATE_FLASH \<equiv> 3"
abbreviation (input) IS31FL3216_STATE_BY_AUDIO :: int where "IS31FL3216_STATE_BY_AUDIO \<equiv> 4"
abbreviation (input) IS31FL3216_STATE_SHIFT :: int where "IS31FL3216_STATE_SHIFT \<equiv> 5"
abbreviation (input) PERIPH_IS31_SHIFT_MODE_ACC :: int where "PERIPH_IS31_SHIFT_MODE_ACC \<equiv> 1"
abbreviation (input) PERIPH_IS31_SHIFT_MODE_SINGLE :: int where "PERIPH_IS31_SHIFT_MODE_SINGLE \<equiv> 2"
abbreviation (input) PERIPH_IS31_CMD_CHG_STATE :: int where "PERIPH_IS31_CMD_CHG_STATE \<equiv> 0"
abbreviation (input) PERIPH_IS31_CMD_QUIT :: int where "PERIPH_IS31_CMD_QUIT \<equiv> 1"
abbreviation (input) PERIPH_ID_IS31FL3216 :: int where "PERIPH_ID_IS31FL3216 \<equiv> 2 ^ 20 + 13"

text \<open>\<open>NO_INTERVAL\<close> is \<open>portMAX_DELAY\<close> stored in an \<open>int\<close>.\<close>

abbreviation (input) NO_INTERVAL :: int where "NO_INTERVAL \<equiv> -1"

record is31_arg =
  ia_max_light_num :: u16
  ia_light_num :: u16
  ia_light_mask :: u16
  ia_interval_time :: int
  ia_act_time :: u16
  ia_duty_step :: u8
  ia_shift_mode :: int

record periph_is31 =
  i3_arg :: is31_arg
  i3_duty :: "u8 list"
  i3_handle :: addr
  i3_cur_state :: int
  i3_evt :: qhandle

record is31_msg =
  im_type :: int
  im_data :: u32

text \<open>\<open>Is31Value\<close>, a variable of the driver, and the devices, each of which is its bus.\<close>

record is31_world = bus_world +
  is31_value :: "u8 list"
  is31_devs :: "addr \<Rightarrow> addr option option"
  is31s :: "addr \<Rightarrow> periph_is31 option"

type_synonym 'z i3w = "'z is31_world_scheme"

record 'w is31_ops =
  is31_queue_create :: "nat \<Rightarrow> 'w \<Rightarrow> qhandle option \<times> 'w"
  is31_queue_delete :: "qhandle \<Rightarrow> 'w \<Rightarrow> 'w"
  is31_queue_send :: "bool \<Rightarrow> qhandle \<Rightarrow> is31_msg \<Rightarrow> 'w \<Rightarrow> bool \<times> 'w"
  is31_queue_receive :: "qhandle \<Rightarrow> tick \<Rightarrow> 'w \<Rightarrow> is31_msg option \<times> 'w"
  is31_drive_strength :: "'w \<Rightarrow> 'w"

definition i3_upd :: "addr \<Rightarrow> (periph_is31 \<Rightarrow> periph_is31) \<Rightarrow> 'z i3w \<Rightarrow> 'z i3w option" where
  "i3_upd a f w = (case is31s w a of None \<Rightarrow> None | Some s \<Rightarrow> Some (w\<lparr>is31s := (is31s w)(a \<mapsto> f s)\<rparr>))"

interpretation is31_store: object_store is31s i3_upd
  by unfold_locales (auto simp: i3_upd_def split: option.splits)

section \<open>The chip\<close>

definition is31fl3216_write_reg :: "'z i3w platform \<Rightarrow> 'z i3w bus_ops \<Rightarrow> u8 \<Rightarrow> u8 list \<Rightarrow> 'z i3w \<Rightarrow> (esp_err \<times> 'z i3w) option" where
  "is31fl3216_write_reg R B reg data w = i2c_bus_write_bytes R B 0 IS31FL3216_ADDRESS [reg] (Some data) w"

text \<open>A register of the driver's table changed and written to the chip.\<close>

definition is31_change_reg ::
  "'z i3w platform \<Rightarrow> 'z i3w bus_ops \<Rightarrow> u8 \<Rightarrow> (u8 \<Rightarrow> u8) \<Rightarrow> 'z i3w \<Rightarrow> (esp_err \<times> 'z i3w) option" where
  "is31_change_reg R B reg f w =
     (let v = f (is31_value w ! unat reg) in
      is31fl3216_write_reg R B reg [v] (w\<lparr>is31_value := (is31_value w)[unat reg := v]\<rparr>))"

fun is31_duty_by_bits ::
  "'z i3w platform \<Rightarrow> 'z i3w bus_ops \<Rightarrow> u32 \<Rightarrow> u8 \<Rightarrow> nat list \<Rightarrow> 'z i3w \<Rightarrow> (esp_err \<times> 'z i3w) option" where
  "is31_duty_by_bits R B by_bits duty [] w = Some (ESP_OK, w)"
| "is31_duty_by_bits R B by_bits duty (i # is) w =
     (if bit by_bits i then do {
        (ret, w) \<leftarrow> is31fl3216_write_reg R B (IS31FL3216_REG_PWM_16 + of_nat (16 - i - 1)) [duty] w;
        if ret \<noteq> ESP_OK then Some (ret, w) else is31_duty_by_bits R B by_bits duty is w }
      else is31_duty_by_bits R B by_bits duty is w)"

definition is31fl3216_update_reg :: "'z i3w platform \<Rightarrow> 'z i3w bus_ops \<Rightarrow> 'z i3w \<Rightarrow> (esp_err \<times> 'z i3w) option" where
  "is31fl3216_update_reg R B w = is31fl3216_write_reg R B IS31FL3216_REG_UPDATE [0] w"

definition is31fl3216_power :: "'z i3w platform \<Rightarrow> 'z i3w bus_ops \<Rightarrow> int \<Rightarrow> 'z i3w \<Rightarrow> (esp_err \<times> 'z i3w) option" where
  "is31fl3216_power R B mode w =
     (if mode = 1 then is31_change_reg R B IS31FL3216_REG_CONFIG (\<lambda>v. (v AND NOT 0x80) OR 0x80) w
      else if mode = 0 then is31_change_reg R B IS31FL3216_REG_CONFIG (\<lambda>v. v AND NOT 0x80) w
      else Some (ESP_FAIL, w))"

definition is31fl3216_work_mode_set :: "'z i3w platform \<Rightarrow> 'z i3w bus_ops \<Rightarrow> int \<Rightarrow> 'z i3w \<Rightarrow> (esp_err \<times> 'z i3w) option" where
  "is31fl3216_work_mode_set R B mode w =
     (if mode = 0 then is31_change_reg R B IS31FL3216_REG_CONFIG (\<lambda>v. v AND NOT 0x60) w
      else if mode = 1 then is31_change_reg R B IS31FL3216_REG_CONFIG (\<lambda>v. (v AND NOT 0x60) OR 0x20) w
      else if mode = 2 then is31_change_reg R B IS31FL3216_REG_CONFIG (\<lambda>v. (v AND NOT 0x60) OR 0x40) w
      else Some (ESP_FAIL, w))"

definition is31fl3216_ch_duty_set :: "'z i3w platform \<Rightarrow> 'z i3w bus_ops \<Rightarrow> u32 \<Rightarrow> u8 \<Rightarrow> 'z i3w \<Rightarrow> (esp_err \<times> 'z i3w) option" where
  "is31fl3216_ch_duty_set R B ch_bits duty w = do {
     (ret, w) \<leftarrow> is31_duty_by_bits R B ch_bits duty [0..<16] w;
     if ret \<noteq> ESP_OK then Some (ret, w) else is31fl3216_update_reg R B w }"

text \<open>Two neighbouring registers switch the channels.\<close>

definition is31_write_ctrl :: "'z i3w platform \<Rightarrow> 'z i3w bus_ops \<Rightarrow> u8 \<Rightarrow> u8 \<Rightarrow> 'z i3w \<Rightarrow> (esp_err \<times> 'z i3w) option" where
  "is31_write_ctrl R B h l w =
     is31fl3216_write_reg R B IS31FL3216_REG_LED_CTRL_H [h, l] (w\<lparr>is31_value := (is31_value w)[1 := h, 2 := l]\<rparr>)"

definition is31fl3216_ch_enable :: "'z i3w platform \<Rightarrow> 'z i3w bus_ops \<Rightarrow> u32 \<Rightarrow> 'z i3w \<Rightarrow> (esp_err \<times> 'z i3w) option" where
  "is31fl3216_ch_enable R B ch_bits w =
     (let value = fold (\<lambda>i v. if bit ch_bits i then v OR push_bit i 1 else v) [0..<16] (0 :: u16) in
      is31_write_ctrl R B (is31_value w ! 1 OR ucast (drop_bit 8 value)) (is31_value w ! 2 OR ucast value) w)"

definition is31fl3216_ch_disable :: "'z i3w platform \<Rightarrow> 'z i3w bus_ops \<Rightarrow> u32 \<Rightarrow> 'z i3w \<Rightarrow> (esp_err \<times> 'z i3w) option" where
  "is31fl3216_ch_disable R B ch_bits w =
     (let value = push_bit 8 (ucast (is31_value w ! 1)) OR ucast (is31_value w ! 2);
          value = fold (\<lambda>i v. if bit ch_bits i then v AND NOT (push_bit i 1) else v) [0..<16] (value :: u16) in
      is31_write_ctrl R B (ucast (drop_bit 8 value)) (ucast value) w)"

definition is31fl3216_cur_mode_set :: "'z i3w platform \<Rightarrow> 'z i3w bus_ops \<Rightarrow> int \<Rightarrow> 'z i3w \<Rightarrow> (esp_err \<times> 'z i3w) option" where
  "is31fl3216_cur_mode_set R B mode w =
     (if mode = 0 then is31_change_reg R B IS31FL3216_REG_CONFIG (\<lambda>v. v AND NOT 0x10) w
      else if mode = 1 then is31_change_reg R B IS31FL3216_REG_CONFIG (\<lambda>v. (v AND NOT 0x10) OR 0x10) w
      else Some (ESP_FAIL, w))"

definition is31fl3216_cur_value_set :: "'z i3w platform \<Rightarrow> 'z i3w bus_ops \<Rightarrow> u32 \<Rightarrow> 'z i3w \<Rightarrow> (esp_err \<times> 'z i3w) option" where
  "is31fl3216_cur_value_set R B value w =
     is31_change_reg R B IS31FL3216_REG_LED_EFFECT (\<lambda>v. (v AND NOT 0x70) OR ucast (push_bit 4 value)) w"

definition is31fl3216_ags_value_set :: "'z i3w platform \<Rightarrow> 'z i3w bus_ops \<Rightarrow> u32 \<Rightarrow> 'z i3w \<Rightarrow> (esp_err \<times> 'z i3w) option" where
  "is31fl3216_ags_value_set R B value w = is31_change_reg R B IS31FL3216_REG_LED_EFFECT (\<lambda>v. (v AND NOT 7) OR ucast value) w"

definition is31fl3216_agc_cfg :: "'z i3w platform \<Rightarrow> 'z i3w bus_ops \<Rightarrow> u32 \<Rightarrow> 'z i3w \<Rightarrow> (esp_err \<times> 'z i3w) option" where
  "is31fl3216_agc_cfg R B en w = is31_change_reg R B IS31FL3216_REG_LED_EFFECT (\<lambda>v. (v AND NOT 8) OR ucast (push_bit 3 en)) w"

definition is31fl3216_cascade_mode_set :: "'z i3w platform \<Rightarrow> 'z i3w bus_ops \<Rightarrow> u32 \<Rightarrow> 'z i3w \<Rightarrow> (esp_err \<times> 'z i3w) option" where
  "is31fl3216_cascade_mode_set R B mode w =
     is31_change_reg R B IS31FL3216_REG_LED_EFFECT (\<lambda>v. (v AND NOT 0x80) OR ucast (push_bit 7 mode)) w"

definition is31fl3216_sample_rate_set :: "'z i3w platform \<Rightarrow> 'z i3w bus_ops \<Rightarrow> u32 \<Rightarrow> 'z i3w \<Rightarrow> (esp_err \<times> 'z i3w) option" where
  "is31fl3216_sample_rate_set R B value w = is31fl3216_write_reg R B IS31FL3216_REG_ADC_RATE [ucast value] w"

definition is31fl3216_frame_time_set :: "'z i3w platform \<Rightarrow> 'z i3w bus_ops \<Rightarrow> u32 \<Rightarrow> 'z i3w \<Rightarrow> (esp_err \<times> 'z i3w) option" where
  "is31fl3216_frame_time_set R B time w = is31fl3216_write_reg R B IS31FL3216_REG_FRAME_DELAY [ucast (push_bit 5 time)] w"

definition is31fl3216_first_frame_set :: "'z i3w platform \<Rightarrow> 'z i3w bus_ops \<Rightarrow> u32 \<Rightarrow> 'z i3w \<Rightarrow> (esp_err \<times> 'z i3w) option" where
  "is31fl3216_first_frame_set R B frame w = is31fl3216_write_reg R B IS31FL3216_REG_FRAME_START [ucast (push_bit 5 frame)] w"

text \<open>The length is a byte.\<close>

definition is31fl3216_frame_value_set ::
  "'z i3w platform \<Rightarrow> 'z i3w bus_ops \<Rightarrow> u32 \<Rightarrow> u8 list \<Rightarrow> nat \<Rightarrow> 'z i3w \<Rightarrow> (esp_err \<times> 'z i3w) option" where
  "is31fl3216_frame_value_set R B num data len w =
     (if len mod 256 > length data then None
      else is31fl3216_write_reg R B (ucast (0x20 + (num - 1) * 18)) (take (len mod 256) data) w)"

fun is31_duties_off :: "'z i3w platform \<Rightarrow> 'z i3w bus_ops \<Rightarrow> nat list \<Rightarrow> 'z i3w \<Rightarrow> (esp_err \<times> 'z i3w) option" where
  "is31_duties_off R B [] w = Some (ESP_OK, w)"
| "is31_duties_off R B (i # is) w = do {
     (ret, w) \<leftarrow> is31fl3216_ch_duty_set R B (push_bit i 1) 0 w;
     if ret \<noteq> ESP_OK then Some (ret, w) else is31_duties_off R B is w }"

definition is31fl3216_reset :: "'z i3w platform \<Rightarrow> 'z i3w bus_ops \<Rightarrow> 'z i3w \<Rightarrow> (esp_err \<times> 'z i3w) option" where
  "is31fl3216_reset R B w = do {
     (ret, w) \<leftarrow> is31fl3216_power R B 0 w;
     if ret \<noteq> ESP_OK then Some (ret, w) else do {
     (ret, w) \<leftarrow> is31_duties_off R B [0..<16] w;
     if ret \<noteq> ESP_OK then Some (ret, w) else do {
     (ret, w) \<leftarrow> is31fl3216_ch_enable R B IS31FL3216_CH_ALL w;
     if ret \<noteq> ESP_OK then Some (ret, w) else do {
     (ret, w) \<leftarrow> is31fl3216_write_reg R B IS31FL3216_REG_LED_EFFECT [0] w;
     if ret \<noteq> ESP_OK then Some (ret, w)
     else is31fl3216_write_reg R B IS31FL3216_REG_CH_CONFIG [0] w } } } }"

definition is31fl3216_init ::
  "'z i3w platform \<Rightarrow> 'z i3w bus_ops \<Rightarrow> 'z i3w is31_ops \<Rightarrow> 'z i3w \<Rightarrow> (addr \<times> 'z i3w) option" where
  "is31fl3216_init R B Q w = do {
     let (h, w) = heap_alloc R 8 w;
     h \<leftarrow> h;
     (bus, w) \<leftarrow> i2c_bus_create R B 0 (Some \<lparr>i2c_mode = I2C_MODE_MASTER, i2c_sda_io_num = 18, i2c_scl_io_num = 23, i2c_pullups = True,
       i2c_clk_speed = 100000\<rparr>) w;
     let w = is31_drive_strength Q (w\<lparr>is31_devs := (is31_devs w)(h \<mapsto> bus)\<rparr>);
     (_, w) \<leftarrow> is31fl3216_power R B 0 w;
     (_, w) \<leftarrow> is31fl3216_cur_mode_set R B 0 w;
     (_, w) \<leftarrow> is31fl3216_cur_value_set R B 1 w;
     Some (h, w) }"

definition is31fl3216_deinit :: "'z i3w platform \<Rightarrow> 'z i3w bus_ops \<Rightarrow> addr \<Rightarrow> 'z i3w \<Rightarrow> (esp_err \<times> 'z i3w) option" where
  "is31fl3216_deinit R B h w = do {
     bus \<leftarrow> is31_devs w h;
     w \<leftarrow> (case bus of None \<Rightarrow> Some w | Some b \<Rightarrow> map_option snd (i2c_bus_delete R B (Some b) w));
     Some (ESP_OK, w\<lparr>is31_devs := (is31_devs w)(h := None)\<rparr>) }"

section \<open>Patterns\<close>

text \<open>\<open>ret |= f(...)\<close> where \<open>f\<close> may be undefined.\<close>

definition or_ret :: "('w \<Rightarrow> (int \<times> 'w) option) \<Rightarrow> int \<times> 'w \<Rightarrow> (int \<times> 'w) option" where
  "or_ret f rw = do { (r, w) \<leftarrow> f (snd rw); Some (fst rw OR r, w) }"

fun is31_each :: "(nat \<Rightarrow> 'w \<Rightarrow> (int \<times> 'w) option) \<Rightarrow> nat list \<Rightarrow> int \<times> 'w \<Rightarrow> (int \<times> 'w) option" where
  "is31_each f [] rw = Some rw"
| "is31_each f (i # is) rw = do { rw \<leftarrow> or_ret (f i) rw; is31_each f is rw }"

definition is31_leds_ctrl :: "'z i3w platform \<Rightarrow> 'z i3w bus_ops \<Rightarrow> u16 \<Rightarrow> 'z i3w \<Rightarrow> (esp_err \<times> 'z i3w) option" where
  "is31_leds_ctrl R B leds w =
     is31_each (\<lambda>i. if bit leds i then is31fl3216_ch_enable R B (push_bit i 1) else is31fl3216_ch_disable R B (push_bit i 1)) [0..<16] (ESP_OK, w)"

definition is31_leds_duty :: "'z i3w platform \<Rightarrow> 'z i3w bus_ops \<Rightarrow> int \<Rightarrow> u16 \<Rightarrow> 'z i3w \<Rightarrow> (esp_err \<times> 'z i3w) option" where
  "is31_leds_duty R B duty leds w =
     is31_each (\<lambda>i w. if bit leds i then is31fl3216_ch_duty_set R B (push_bit i 1) (word_of_int duty) w else Some (0, w)) [0..<16] (ESP_OK, w)"

definition is31_evt_send :: "'z i3w is31_ops \<Rightarrow> qhandle \<Rightarrow> int \<Rightarrow> u32 \<Rightarrow> bool \<Rightarrow> 'z i3w \<Rightarrow> 'z i3w" where
  "is31_evt_send Q q type data front w = snd (is31_queue_send Q front q \<lparr>im_type = type, im_data = data\<rparr> w)"

text \<open>The frames for the levels of the sound: two bytes that enable the channels and sixteen duties.\<close>

definition light_audio_frames :: "u8 list" where
  "light_audio_frames = concat (map (\<lambda>on. [0xFF, 0xFF] @ map (\<lambda>i. if i \<in> set on then 0xFF else 0) [2..<18])
     [[8], [7..<10], [6..<11], [6..<12] @ [17], [6..<13] @ [16, 17], [6..<14] @ [15..<18], [6..<18], [6..<18]])"

text \<open>The change of state, after a word for the work mode when sound was shown before.\<close>

definition is31_leave_audio :: "'z i3w platform \<Rightarrow> 'z i3w bus_ops \<Rightarrow> addr \<Rightarrow> 'z i3w \<Rightarrow> (esp_err \<times> 'z i3w) option" where
  "is31_leave_audio R B a w = do {
     s \<leftarrow> is31s w a;
     if i3_cur_state s = IS31FL3216_STATE_BY_AUDIO then is31fl3216_work_mode_set R B 0 w else Some (ESP_OK, w) }"

definition is31_set_cur :: "addr \<Rightarrow> int \<Rightarrow> 'z i3w \<Rightarrow> 'z i3w option" where
  "is31_set_cur a st w = i3_upd a (\<lambda>s. s\<lparr>i3_cur_state := st\<rparr>) w"

definition is31_change_state ::
  "'z i3w platform \<Rightarrow> 'z i3w bus_ops \<Rightarrow> addr \<Rightarrow> int \<Rightarrow> is31_arg \<Rightarrow> 'z i3w \<Rightarrow> ((esp_err \<times> is31_arg) \<times> 'z i3w) option" where
  "is31_change_state R B a state arg w =
     (if state = IS31FL3216_STATE_OFF then do {
        (ret, w) \<leftarrow> is31fl3216_ch_disable R B (ucast (ia_light_mask arg)) w;
        w \<leftarrow> is31_set_cur a IS31FL3216_STATE_OFF w;
        Some ((ret, arg\<lparr>ia_interval_time := NO_INTERVAL\<rparr>), w) }
      else if state = IS31FL3216_STATE_ON then do {
        s \<leftarrow> is31s w a;
        (ret, w) \<leftarrow> is31_leave_audio R B a w;
        w \<leftarrow> (if i3_cur_state s = IS31FL3216_STATE_BY_AUDIO
              then map_option snd (is31_leds_duty R B IS31FL3216_DUTY_MAX (ia_light_mask arg) w) else Some w);
        (_, w) \<leftarrow> is31_leds_ctrl R B (ia_light_mask arg) w;
        w \<leftarrow> is31_set_cur a IS31FL3216_STATE_ON w;
        Some ((ret, arg\<lparr>ia_interval_time := NO_INTERVAL\<rparr>), w) }
      else if state = IS31FL3216_STATE_FLASH \<or> state = IS31FL3216_STATE_SHIFT then do {
        (ret, w) \<leftarrow> is31_leave_audio R B a w;
        w \<leftarrow> is31_set_cur a state w;
        Some ((ret, arg), w) }
      else if state = IS31FL3216_STATE_BY_AUDIO then do {
        (_, w) \<leftarrow> is31fl3216_reset R B w;
        (_, w) \<leftarrow> is31fl3216_work_mode_set R B 2 w;
        (_, w) \<leftarrow> is31fl3216_sample_rate_set R B 0xB4 w;
        (_, w) \<leftarrow> is31fl3216_frame_value_set R B 1 light_audio_frames 144 w;
        (_, w) \<leftarrow> is31fl3216_first_frame_set R B 0 w;
        w \<leftarrow> is31_set_cur a IS31FL3216_STATE_BY_AUDIO w;
        Some ((ESP_OK, arg\<lparr>ia_interval_time := NO_INTERVAL\<rparr>), w) }
      else Some ((ESP_OK, arg), w))"

section \<open>The task\<close>

record is31_task =
  it_arg :: is31_arg
  it_wait :: int
  it_run :: bool
  it_duty :: int
  it_sig :: int
  it_mask :: u32
  it_i :: int
  it_act :: u16

definition is31_task_start :: is31_task where
  "is31_task_start = \<lparr>it_arg = \<lparr>ia_max_light_num = 16, ia_light_num = 1, ia_light_mask = 1, ia_interval_time = 1000, ia_act_time = 0,
     ia_duty_step = 2, ia_shift_mode = 0\<rparr>, it_wait = NO_INTERVAL, it_run = True, it_duty = 0, it_sig = 2, it_mask = 0, it_i = 0, it_act = 0\<rparr>"

definition is31_cleared_arg :: is31_arg where
  "is31_cleared_arg = \<lparr>ia_max_light_num = 16, ia_light_num = 0, ia_light_mask = 0, ia_interval_time = NO_INTERVAL, ia_act_time = 0,
     ia_duty_step = 2, ia_shift_mode = 0\<rparr>"

text \<open>A message: the arguments are taken and cleared for the next pattern.\<close>

definition is31_take_msg ::
  "'z i3w platform \<Rightarrow> 'z i3w bus_ops \<Rightarrow> addr \<Rightarrow> is31_msg \<Rightarrow> is31_task \<Rightarrow> 'z i3w \<Rightarrow> (is31_task \<times> 'z i3w) option" where
  "is31_take_msg R B a msg t w =
     (if im_type msg = PERIPH_IS31_CMD_CHG_STATE then do {
        s \<leftarrow> is31s w a;
        let arg = i3_arg s;
        let wait = ia_interval_time arg;
        w \<leftarrow> i3_upd a (\<lambda>s. s\<lparr>i3_arg := is31_cleared_arg\<rparr>) w;
        ((_, arg), w) \<leftarrow> is31_change_state R B a (sint (im_data msg)) arg w;
        let t = t\<lparr>it_arg := arg, it_wait := wait\<rparr>;
        let t = (if im_data msg = 3 then t\<lparr>it_sig := uint (ia_duty_step arg)\<rparr> else t);
        Some (t\<lparr>it_act := (if ia_act_time arg \<noteq> 0 \<and> wait \<noteq> 0 then word_of_int (uint (ia_act_time arg) sdiv wait) else 0)\<rparr>, w) }
      else if im_type msg = PERIPH_IS31_CMD_QUIT then Some (t\<lparr>it_run := False\<rparr>, w)
      else Some (t, w))"

text \<open>The time a pattern is shown, counted in its steps.\<close>

definition is31_count :: "'z i3w platform \<Rightarrow> 'z i3w bus_ops \<Rightarrow> addr \<Rightarrow> is31_task \<Rightarrow> 'z i3w \<Rightarrow> (is31_task \<times> 'z i3w) option" where
  "is31_count R B a t w =
     (if ia_act_time (it_arg t) = 0 then Some (t\<lparr>it_act := 0\<rparr>, w)
      else do {
        let t = t\<lparr>it_act := it_act t - 1\<rparr>;
        if it_act t = 0 then do {
          w \<leftarrow> is31_set_cur a IS31FL3216_STATE_UNKNOWN w;
          (_, w) \<leftarrow> is31_leds_ctrl R B 0 w;
          Some (t\<lparr>it_wait := NO_INTERVAL\<rparr>, w) }
        else Some (t, w) })"

definition is31_next_duty :: "is31_task \<Rightarrow> is31_task" where
  "is31_next_duty t =
     (let d = it_duty t + it_sig t; step = uint (ia_duty_step (it_arg t)) in
      let (d, sig) = (if d > IS31FL3216_DUTY_MAX then (IS31FL3216_DUTY_MAX, - step) else (d, it_sig t)) in
      let (d, sig) = (if d < 0 then (0, step) else (d, sig)) in
      t\<lparr>it_duty := d, it_sig := sig\<rparr>)"

text \<open>Shifting a 32-bit number by its width or more is undefined.\<close>

definition shl32 :: "u32 \<Rightarrow> int \<Rightarrow> u32 option" where
  "shl32 x n = (if 0 \<le> n \<and> n < 32 then Some (push_bit (nat n) x) else None)"

definition is31_next_mask :: "is31_task \<Rightarrow> is31_task option" where
  "is31_next_mask t =
     (let g = it_arg t; light = uint (ia_light_num g); m = uint (ia_max_light_num g) in
      if ia_shift_mode g = PERIPH_IS31_SHIFT_MODE_SINGLE then do {
        x \<leftarrow> shl32 1 light;
        x \<leftarrow> shl32 (x - 1) (it_i t);
        let i = it_i t + 1;
        Some (t\<lparr>it_mask := x, it_i := (if i = m - light + 1 then 0 else i)\<rparr>) }
      else if ia_shift_mode g = PERIPH_IS31_SHIFT_MODE_ACC then do {
        x \<leftarrow> shl32 1 (light * (it_i t + 1));
        if m \<ge> 32 then None
        else if bit (x - 1) (nat m) then Some (t\<lparr>it_mask := 0, it_i := 0\<rparr>)
        else Some (t\<lparr>it_mask := x - 1, it_i := it_i t + 1\<rparr>) }
      else Some t)"

definition is31_show :: "'z i3w platform \<Rightarrow> 'z i3w bus_ops \<Rightarrow> addr \<Rightarrow> is31_task \<Rightarrow> 'z i3w \<Rightarrow> (is31_task \<times> 'z i3w) option" where
  "is31_show R B a t w = do {
     s \<leftarrow> is31s w a;
     if i3_cur_state s = IS31FL3216_STATE_FLASH then do {
       (_, w) \<leftarrow> is31_leds_duty R B (it_duty t) (ia_light_mask (it_arg t)) w;
       (_, w) \<leftarrow> is31_leds_ctrl R B (ia_light_mask (it_arg t)) w;
       is31_count R B a (is31_next_duty t) w }
     else if i3_cur_state s = IS31FL3216_STATE_SHIFT then do {
       t \<leftarrow> is31_next_mask t;
       (_, w) \<leftarrow> is31_leds_duty R B IS31FL3216_DUTY_MAX (ucast (it_mask t)) w;
       (_, w) \<leftarrow> is31_leds_ctrl R B (ucast (it_mask t)) w;
       is31_count R B a t w }
     else Some (t, w) }"

definition is31_step ::
  "'z i3w platform \<Rightarrow> 'z i3w bus_ops \<Rightarrow> 'z i3w is31_ops \<Rightarrow> addr \<Rightarrow> is31_task \<Rightarrow> 'z i3w \<Rightarrow> (is31_task \<times> 'z i3w) option" where
  "is31_step R B Q a t w = do {
     s \<leftarrow> is31s w a;
     let (m, w) = is31_queue_receive Q (i3_evt s) (word_of_int (it_wait t) div of_nat (portTICK_RATE_MS R)) w;
     (t, w) \<leftarrow> (case m of None \<Rightarrow> Some (t, w) | Some msg \<Rightarrow> is31_take_msg R B a msg t w);
     is31_show R B a t w }"

partial_function (option) is31_loop ::
  "'z i3w platform \<Rightarrow> 'z i3w bus_ops \<Rightarrow> 'z i3w is31_ops \<Rightarrow> addr \<Rightarrow> is31_task \<Rightarrow> 'z i3w \<Rightarrow> 'z i3w option" where
  "is31_loop R B Q a t w =
     (if it_run t then do { (t, w) \<leftarrow> is31_step R B Q a t w; is31_loop R B Q a t w } else Some w)"

definition is31fl3216_run_task ::
  "'z i3w platform \<Rightarrow> 'z i3w bus_ops \<Rightarrow> 'z i3w is31_ops \<Rightarrow> periph_handle \<Rightarrow> 'z i3w \<Rightarrow> 'z i3w option" where
  "is31fl3216_run_task R B Q periph w = do {
     a \<leftarrow> esp_periph_get_data periph w;
     is31_loop R B Q a is31_task_start w }"

section \<open>The peripheral\<close>

definition periph_is31fl3216_set_state :: "'z i3w is31_ops \<Rightarrow> periph_handle \<Rightarrow> int \<Rightarrow> 'z i3w \<Rightarrow> (esp_err \<times> 'z i3w) option" where
  "periph_is31fl3216_set_state Q periph state w = do {
     a \<leftarrow> esp_periph_get_data periph w;
     s \<leftarrow> is31s w a;
     Some (ESP_OK, is31_evt_send Q (i3_evt s) PERIPH_IS31_CMD_CHG_STATE (word_of_int state) False w) }"

definition is31_set_arg :: "(is31_arg \<Rightarrow> is31_arg) \<Rightarrow> periph_handle \<Rightarrow> 'z i3w \<Rightarrow> (esp_err \<times> 'z i3w) option" where
  "is31_set_arg f periph w = do {
     a \<leftarrow> esp_periph_get_data periph w;
     w \<leftarrow> i3_upd a (\<lambda>s. s\<lparr>i3_arg := f (i3_arg s)\<rparr>) w;
     Some (ESP_OK, w) }"

definition periph_is31fl3216_set_blink_pattern :: "periph_handle \<Rightarrow> u16 \<Rightarrow> 'z i3w \<Rightarrow> (esp_err \<times> 'z i3w) option" where
  "periph_is31fl3216_set_blink_pattern periph blink_pattern w = is31_set_arg (\<lambda>g. g\<lparr>ia_light_mask := blink_pattern\<rparr>) periph w"

definition periph_is31fl3216_set_duty ::
  "'z i3w platform \<Rightarrow> 'z i3w bus_ops \<Rightarrow> periph_handle \<Rightarrow> u8 \<Rightarrow> u8 \<Rightarrow> 'z i3w \<Rightarrow> (esp_err \<times> 'z i3w) option" where
  "periph_is31fl3216_set_duty R B periph index value w = do {
     a \<leftarrow> esp_periph_get_data periph w;
     s \<leftarrow> is31s w a;
     if unat index \<ge> length (i3_duty s) then None
     else do {
       w \<leftarrow> i3_upd a (\<lambda>s. s\<lparr>i3_duty := (i3_duty s)[unat index := value]\<rparr>) w;
       (_, w) \<leftarrow> is31fl3216_ch_duty_set R B (push_bit (unat index) 1) value w;
       Some (ESP_OK, w) } }"

definition periph_is31fl3216_set_duty_step :: "periph_handle \<Rightarrow> u8 \<Rightarrow> 'z i3w \<Rightarrow> (esp_err \<times> 'z i3w) option" where
  "periph_is31fl3216_set_duty_step periph step w = is31_set_arg (\<lambda>g. g\<lparr>ia_duty_step := step\<rparr>) periph w"

definition periph_is31fl3216_set_interval :: "periph_handle \<Rightarrow> u16 \<Rightarrow> 'z i3w \<Rightarrow> (esp_err \<times> 'z i3w) option" where
  "periph_is31fl3216_set_interval periph interval_ms w = is31_set_arg (\<lambda>g. g\<lparr>ia_interval_time := uint interval_ms\<rparr>) periph w"

definition periph_is31fl3216_set_shift_mode :: "periph_handle \<Rightarrow> int \<Rightarrow> 'z i3w \<Rightarrow> (esp_err \<times> 'z i3w) option" where
  "periph_is31fl3216_set_shift_mode periph mode w = is31_set_arg (\<lambda>g. g\<lparr>ia_shift_mode := mode\<rparr>) periph w"

definition periph_is31fl3216_set_light_on_num :: "periph_handle \<Rightarrow> u16 \<Rightarrow> u16 \<Rightarrow> 'z i3w \<Rightarrow> (esp_err \<times> 'z i3w) option" where
  "periph_is31fl3216_set_light_on_num periph light_on_num max_light_num w =
     is31_set_arg (\<lambda>g. g\<lparr>ia_max_light_num := max_light_num, ia_light_num := light_on_num\<rparr>) periph w"

definition periph_is31fl3216_set_act_time :: "periph_handle \<Rightarrow> u16 \<Rightarrow> 'z i3w \<Rightarrow> (esp_err \<times> 'z i3w) option" where
  "periph_is31fl3216_set_act_time periph act_ms w = is31_set_arg (\<lambda>g. g\<lparr>ia_act_time := act_ms\<rparr>) periph w"

definition is31_init_ptr :: fnptr where "is31_init_ptr = 71"
definition is31_destroy_ptr :: fnptr where "is31_destroy_ptr = 73"

text \<open>The task is not known to start.\<close>

definition periph_is31_init_fn :: "'z i3w platform \<Rightarrow> 'z i3w bus_ops \<Rightarrow> periph_handle \<Rightarrow> 'z i3w \<Rightarrow> (esp_err \<times> 'z i3w) option" where
  "periph_is31_init_fn R B self w = do {
     a \<leftarrow> esp_periph_get_data self w;
     _ \<leftarrow> is31s w a;
     (_, w) \<leftarrow> is31fl3216_ch_disable R B IS31FL3216_CH_ALL w;
     (_, w) \<leftarrow> is31_leds_duty R B 0 0xFFFF w;
     let (_, w) = xTaskCreate R self 3072 3 0 w;
     Some (ESP_OK, w) }"

text \<open>The peripheral is freed while its task runs.\<close>

definition periph_is31_destroy_fn ::
  "'z i3w platform \<Rightarrow> 'z i3w bus_ops \<Rightarrow> 'z i3w is31_ops \<Rightarrow> periph_handle \<Rightarrow> 'z i3w \<Rightarrow> (esp_err \<times> 'z i3w) option" where
  "periph_is31_destroy_fn R B Q self w = do {
     id \<leftarrow> esp_periph_get_id self w;
     if id \<noteq> PERIPH_ID_IS31FL3216 then Some (ESP_FAIL, w)
     else do {
       a \<leftarrow> esp_periph_get_data self w;
       s \<leftarrow> is31s w a;
       let w = is31_evt_send Q (i3_evt s) PERIPH_IS31_CMD_QUIT 0 False w;
       (ret, w) \<leftarrow> is31fl3216_ch_disable R B IS31FL3216_CH_ALL w;
       (ret, w) \<leftarrow> or_ret (is31fl3216_deinit R B (i3_handle s)) (ret, w);
       Some (if ret \<noteq> 0 then ESP_FAIL else ESP_OK, w\<lparr>is31s := (is31s w)(a := None)\<rparr>) } }"

text \<open>Of the configuration only the duties are used, or none.\<close>

definition periph_is31fl3216_init ::
  "'z i3w platform \<Rightarrow> 'z i3w bus_ops \<Rightarrow> 'z i3w is31_ops \<Rightarrow> u32 list \<Rightarrow> 'z i3w \<Rightarrow> (periph_handle option \<times> 'z i3w) option" where
  "periph_is31fl3216_init R B Q cfg_duty w =
     (case esp_periph_create R PERIPH_ID_IS31FL3216 (Some ''periph_is31fl3216'') w of
        (None, w) \<Rightarrow> Some (None, w)
      | (Some periph, w) \<Rightarrow> (case heap_alloc R 36 w of
          (None, w) \<Rightarrow> Some (None, w\<lparr>prs := (prs w)(periph := None)\<rparr>)
        | (Some a, w) \<Rightarrow> (case is31_queue_create Q 2 w of
            (None, w) \<Rightarrow> Some (None, w\<lparr>prs := (prs w)(periph := None)\<rparr>)
          | (Some q, w) \<Rightarrow> (case heap_alloc R 20 w of
              (None, w) \<Rightarrow> (let w = is31_queue_delete Q q w in Some (None, w\<lparr>prs := (prs w)(periph := None)\<rparr>))
            | (Some _, w) \<Rightarrow> do {
                (h, w) \<leftarrow> is31fl3216_init R B Q w;
                let w = w\<lparr>is31s := (is31s w)(a \<mapsto> \<lparr>i3_arg = \<lparr>ia_max_light_num = 16, ia_light_num = 0, ia_light_mask = 0,
                     ia_interval_time = 1000, ia_act_time = 0, ia_duty_step = 2, ia_shift_mode = PERIPH_IS31_SHIFT_MODE_ACC\<rparr>,
                   i3_duty = map (\<lambda>i. ucast (cfg_duty ! i)) [0..<16], i3_handle = h, i3_cur_state = 0, i3_evt = q\<rparr>)\<rparr>;
                (_, w) \<leftarrow> esp_periph_set_data periph a w;
                (_, w) \<leftarrow> esp_periph_set_function periph (Some is31_init_ptr) None (Some is31_destroy_ptr) w;
                Some (Some periph, w) }))))"

end
