(* ===== verification/Is31fl3216_Correct.thy ===== *)
theory Is31fl3216_Correct
  imports Is31fl3216 Stream_Base Http_Client_Correct
begin

text \<open>
  Patterns on a chip that answers: the lights follow the pattern, and two patterns in short succession. The registers of the
  chip are observed by a function on the state.
\<close>

section \<open>The chip\<close>

fun load_regs :: "(u8 \<Rightarrow> u8) \<Rightarrow> u8 \<Rightarrow> u8 list \<Rightarrow> u8 \<Rightarrow> u8" where
  "load_regs c r [] = c"
| "load_regs c r (b # bs) = load_regs (c(r := b)) (r + 1) bs"

definition is31_same :: "'z i3w \<Rightarrow> 'z i3w \<Rightarrow> bool" where
  "is31_same w w' \<longleftrightarrow> is31_value w' = is31_value w \<and> is31s w' = is31s w \<and> bus_lock w' = bus_lock w"

definition is31_chip_law :: "'z i3w platform \<Rightarrow> 'z i3w bus_ops \<Rightarrow> ('z i3w \<Rightarrow> u8 \<Rightarrow> u8) \<Rightarrow> bool" where
  "is31_chip_law R B chip \<longleftrightarrow> free_locks R \<and> (\<forall>c w. bus_queue B c w = (0, w)) \<and>
     (\<forall>r d t w. \<exists>bytes w'. bus_begin B 0 [BUS_START, BUS_WRITE [0xE8], BUS_WRITE [r], BUS_WRITE d, BUS_STOP] t w = ((0, bytes), w') \<and>
        is31_same w w' \<and> chip w' = load_regs (chip w) r d) \<and>
     (\<forall>w v. chip (w\<lparr>is31_value := v\<rparr>) = chip w) \<and> (\<forall>w v. chip (w\<lparr>is31s := v\<rparr>) = chip w)"

definition is31_ok :: "'z i3w \<Rightarrow> bool" where
  "is31_ok w \<longleftrightarrow> bus_lock w \<noteq> None \<and> length (is31_value w) = 10"

text \<open>The channels that are on, in the chip and in the driver's table.\<close>

definition leds_on :: "(u8 \<Rightarrow> u8) \<Rightarrow> u16" where
  "leds_on c = push_bit 8 (ucast (c 1)) OR ucast (c 2)"

definition table_on :: "u8 list \<Rightarrow> u16" where
  "table_on v = push_bit 8 (ucast (v ! 1)) OR ucast (v ! 2)"

lemma is31_write_reg:
  assumes L: "is31_chip_law R B chip" and ok: "is31_ok w"
  obtains w' where "is31fl3216_write_reg R B r d w = Some (0, w')" "is31_same w w'" "chip w' = load_regs (chip w) r d"
proof -
  obtain l where l: "bus_lock w = Some l" using ok by (auto simp: is31_ok_def)
  have fl: "free_locks R" and q: "bus_queue B c w = (0, w)" for c w using L by (simp_all add: is31_chip_law_def)
  obtain bytes w' where b: "bus_begin B 0 [BUS_START, BUS_WRITE [0xE8], BUS_WRITE [r], BUS_WRITE d, BUS_STOP]
      (of_nat (1000 div portTICK_RATE_MS R)) w = ((0, bytes), w')" "is31_same w w'" "chip w' = load_regs (chip w) r d"
    using L unfolding is31_chip_law_def by blast
  then have "bus_lock w' = Some l" using l by (simp add: is31_same_def)
  then have "is31fl3216_write_reg R B r d w = Some (0, w')"
    using l b(1) fl by (simp add: is31fl3216_write_reg_def i2c_bus_write_bytes_def bus_transfer_def mutex_lock_free [OF fl] q)
      (simp add: free_locks_def)
  then show ?thesis using b that by blast
qed

lemma is31_same_trans: "is31_same w w1 \<Longrightarrow> is31_same w1 w2 \<Longrightarrow> is31_same w w2"
  by (simp add: is31_same_def)

lemma is31_same_ok: "is31_same w w' \<Longrightarrow> is31_ok w \<Longrightarrow> is31_ok w'"
  by (simp add: is31_same_def is31_ok_def)

section \<open>Channels\<close>

lemma is31_write_ctrl:
  assumes L: "is31_chip_law R B chip" and ok: "is31_ok w"
  obtains w' where "is31_write_ctrl R B h l w = Some (0, w')" "is31_ok w'" "is31s w' = is31s w"
    "table_on (is31_value w') = push_bit 8 (ucast h) OR ucast l" "leds_on (chip w') = push_bit 8 (ucast h) OR ucast l"
proof -
  let ?w = "w\<lparr>is31_value := (is31_value w)[1 := h, 2 := l]\<rparr>"
  have ok': "is31_ok ?w" and len: "length (is31_value w) = 10" using ok by (simp_all add: is31_ok_def)
  obtain w' where w': "is31fl3216_write_reg R B 1 [h, l] ?w = Some (0, w')" "is31_same ?w w'" "chip w' = load_regs (chip ?w) 1 [h, l]"
    using is31_write_reg [OF L ok'] by blast
  show ?thesis
  proof
    show "is31_write_ctrl R B h l w = Some (0, w')" using w'(1) by (simp add: is31_write_ctrl_def)
    show "is31_ok w'" using w'(2) ok' by (rule is31_same_ok)
    show "is31s w' = is31s w" using w'(2) by (simp add: is31_same_def)
    show "table_on (is31_value w') = push_bit 8 (ucast h) OR ucast l" using w'(2) len by (simp add: is31_same_def table_on_def)
    show "leds_on (chip w') = push_bit 8 (ucast h) OR ucast l" using w'(3) by (simp add: leds_on_def)
  qed
qed

lemma fold_or_bits:
  "bit (fold (\<lambda>i v. if bit (c :: u32) i then v OR push_bit i 1 else v) is (v :: u16)) n \<longleftrightarrow> bit v n \<or> n < 16 \<and> n \<in> set is \<and> bit c n"
  by (induction "is" arbitrary: v) (auto simp: bit_simps)

lemma fold_and_bits:
  "bit (fold (\<lambda>i v. if bit (c :: u32) i then v AND NOT (push_bit i 1) else v) is (v :: u16)) n \<longleftrightarrow> bit v n \<and> \<not> (n \<in> set is \<and> bit c n)"
  by (induction "is" arbitrary: v) (auto simp: bit_simps dest: bit_imp_le_length)

lemma bit_halves: "bit (push_bit 8 (ucast (h :: u8)) OR ucast (l :: u8) :: u16) n \<longleftrightarrow> (if n < 8 then bit l n else n < 16 \<and> bit h (n - 8))"
  by (auto simp: bit_simps dest: bit_imp_le_length)

lemma is31_channel:
  assumes L: "is31_chip_law R B chip" and ok: "is31_ok w" and i: "i < 16"
  obtains w' where "(if on then is31fl3216_ch_enable R B (push_bit i 1) else is31fl3216_ch_disable R B (push_bit i 1)) w = Some (0, w')"
    "is31_ok w'" "is31s w' = is31s w" "leds_on (chip w') = table_on (is31_value w')"
    "\<forall>n<16. bit (table_on (is31_value w')) n \<longleftrightarrow> (if n = i then on else bit (table_on (is31_value w)) n)"
proof (cases on)
  case True
  define v where "v = fold (\<lambda>j x. if bit (push_bit i 1 :: u32) j then x OR push_bit j 1 else x) [0..<16] (0 :: u16)"
  obtain w' where w': "is31_write_ctrl R B (is31_value w ! 1 OR ucast (drop_bit 8 v)) (is31_value w ! 2 OR ucast v) w = Some (0, w')"
    "is31_ok w'" "is31s w' = is31s w"
    "table_on (is31_value w') = push_bit 8 (ucast (is31_value w ! 1 OR ucast (drop_bit 8 v))) OR ucast (is31_value w ! 2 OR ucast v)"
    "leds_on (chip w') = push_bit 8 (ucast (is31_value w ! 1 OR ucast (drop_bit 8 v))) OR ucast (is31_value w ! 2 OR ucast v)"
    using is31_write_ctrl [OF L ok] by blast
  have v: "bit v n \<longleftrightarrow> n = i" for n using i unfolding v_def fold_or_bits by (auto simp: bit_simps)
  have "\<forall>n<16. bit (table_on (is31_value w')) n \<longleftrightarrow> (if n = i then on else bit (table_on (is31_value w)) n)"
    unfolding w'(4) table_on_def [of "is31_value w"] bit_halves using i True by (auto simp: bit_or_iff bit_ucast_iff bit_drop_bit_eq v)
  then show ?thesis using w' True that by (simp add: is31fl3216_ch_enable_def Let_def v_def)
next
  case False
  define v where "v = fold (\<lambda>j x. if bit (push_bit i 1 :: u32) j then x AND NOT (push_bit j 1) else x) [0..<16] (table_on (is31_value w))"
  obtain w' where w': "is31_write_ctrl R B (ucast (drop_bit 8 v)) (ucast v) w = Some (0, w')"
    "is31_ok w'" "is31s w' = is31s w"
    "table_on (is31_value w') = push_bit 8 (ucast (ucast (drop_bit 8 v) :: u8)) OR ucast (ucast v :: u8)"
    "leds_on (chip w') = push_bit 8 (ucast (ucast (drop_bit 8 v) :: u8)) OR ucast (ucast v :: u8)"
    using is31_write_ctrl [OF L ok] by blast
  have v: "bit v n \<longleftrightarrow> bit (table_on (is31_value w)) n \<and> n \<noteq> i" for n
    using i unfolding v_def fold_and_bits by (auto simp: bit_simps dest: bit_imp_le_length)
  have "\<forall>n<16. bit (table_on (is31_value w')) n \<longleftrightarrow> (if n = i then on else bit (table_on (is31_value w)) n)"
    unfolding w'(4) bit_halves using i False by (auto simp: bit_ucast_iff bit_drop_bit_eq v)
  then show ?thesis using w' False that by (simp add: is31fl3216_ch_disable_def Let_def table_on_def v_def)
qed

lemma is31_leds_ctrl_from:
  assumes L: "is31_chip_law R B chip" and "is31_ok w" "set is \<subseteq> {..<16}" "is \<noteq> [] \<or> leds_on (chip w) = table_on (is31_value w)"
  shows "\<exists>w'. is31_each (\<lambda>i. if bit leds i then is31fl3216_ch_enable R B (push_bit i 1) else is31fl3216_ch_disable R B (push_bit i 1)) is (0, w)
      = Some (0, w') \<and> is31_ok w' \<and> is31s w' = is31s w \<and> leds_on (chip w') = table_on (is31_value w') \<and>
    (\<forall>n<16. bit (table_on (is31_value w')) n \<longleftrightarrow> (if n \<in> set is then bit leds n else bit (table_on (is31_value w)) n))"
  using assms(2-)
proof (induction "is" arbitrary: w)
  case Nil
  then show ?case by simp
next
  case (Cons i "is")
  have i: "i < 16" using Cons.prems by auto
  obtain w1 where w1: "(if bit leds i then is31fl3216_ch_enable R B (push_bit i 1) else is31fl3216_ch_disable R B (push_bit i 1)) w = Some (0, w1)"
    "is31_ok w1" "is31s w1 = is31s w" "leds_on (chip w1) = table_on (is31_value w1)"
    "\<forall>n<16. bit (table_on (is31_value w1)) n \<longleftrightarrow> (if n = i then bit leds i else bit (table_on (is31_value w)) n)"
    using is31_channel [OF L Cons.prems(1) i] by blast
  have "\<exists>w'. is31_each (\<lambda>i. if bit leds i then is31fl3216_ch_enable R B (push_bit i 1) else is31fl3216_ch_disable R B (push_bit i 1)) is (0, w1)
      = Some (0, w') \<and> is31_ok w' \<and> is31s w' = is31s w1 \<and> leds_on (chip w') = table_on (is31_value w') \<and>
    (\<forall>n<16. bit (table_on (is31_value w')) n \<longleftrightarrow> (if n \<in> set is then bit leds n else bit (table_on (is31_value w1)) n))"
    using Cons.prems w1 by (intro Cons.IH) auto
  then show ?case using w1 by (auto simp: or_ret_def)
qed

lemma is31_leds_ctrl:
  assumes "is31_chip_law R B chip" "is31_ok w"
  obtains w' where "is31_leds_ctrl R B leds w = Some (0, w')" "is31_ok w'" "is31s w' = is31s w" "leds_on (chip w') = leds"
proof -
  have ne: "[0..<16] \<noteq> []" by simp
  obtain w' where w': "is31_leds_ctrl R B leds w = Some (0, w')" "is31_ok w'" "is31s w' = is31s w"
    "leds_on (chip w') = table_on (is31_value w')"
    "\<forall>n<16. bit (table_on (is31_value w')) n \<longleftrightarrow> (if n \<in> set [0..<16] then bit leds n else bit (table_on (is31_value w)) n)"
    using is31_leds_ctrl_from [OF assms, of "[0..<16]" leds] ne unfolding is31_leds_ctrl_def by fastforce
  have "table_on (is31_value w') = leds" using w'(5) by (intro bit_word_eqI) auto
  then show ?thesis using w' that by simp
qed

section \<open>Duties\<close>

lemma is31_duty_by_bits:
  assumes L: "is31_chip_law R B chip" and "is31_ok w"
  shows "\<exists>w'. is31_duty_by_bits R B ch duty is w = Some (0, w') \<and> is31_same w w'"
  using assms(2)
proof (induction "is" arbitrary: w)
  case Nil
  then show ?case by (simp add: is31_same_def)
next
  case (Cons i "is")
  obtain w1 where w1: "is31fl3216_write_reg R B (0x10 + of_nat (16 - i - 1)) [duty] w = Some (0, w1)" "is31_same w w1"
    using is31_write_reg [OF L Cons.prems] by blast
  have "\<exists>w'. is31_duty_by_bits R B ch duty is w1 = Some (0, w') \<and> is31_same w1 w'"
    by (rule Cons.IH [OF is31_same_ok [OF w1(2) Cons.prems]])
  then show ?case using w1 Cons.IH [OF Cons.prems] is31_same_trans by (auto simp: is31_same_def)
qed

lemma is31_leds_duty:
  assumes L: "is31_chip_law R B chip" and "is31_ok w"
  shows "\<exists>w'. is31_leds_duty R B duty leds w = Some (0, w') \<and> is31_same w w'"
proof -
  have "\<exists>w'. is31_each (\<lambda>i w. if bit leds i then is31fl3216_ch_duty_set R B (push_bit i 1) (word_of_int duty) w else Some (0, w)) is (0, w)
      = Some (0, w') \<and> is31_same w w'" if "is31_ok w" for "is" w
    using that
  proof (induction "is" arbitrary: w)
    case Nil
    then show ?case by (simp add: is31_same_def)
  next
    case (Cons i "is")
    obtain w1 where w1: "is31_duty_by_bits R B (push_bit i 1) (word_of_int duty) [0..<16] w = Some (0, w1)" "is31_same w w1"
      using is31_duty_by_bits [OF L Cons.prems] by blast
    obtain w2 where w2: "is31fl3216_write_reg R B 0xB0 [0] w1 = Some (0, w2)" "is31_same w1 w2"
      using is31_write_reg [OF L is31_same_ok [OF w1(2) Cons.prems]] by blast
    have s: "is31_same w w2" using w1(2) w2(2) by (rule is31_same_trans)
    have c: "is31fl3216_ch_duty_set R B (push_bit i 1) (word_of_int duty) w = Some (0, w2)"
      using w1(1) w2(1) by (simp add: is31fl3216_ch_duty_set_def is31fl3216_update_reg_def del: upt_Suc)
    show ?case
    proof (cases "bit leds i")
      case True
      obtain w3 where "is31_each (\<lambda>i w. if bit leds i then is31fl3216_ch_duty_set R B (push_bit i 1) (word_of_int duty) w else Some (0, w)) is (0, w2)
          = Some (0, w3)" "is31_same w2 w3"
        using Cons.IH [OF is31_same_ok [OF s Cons.prems]] by blast
      then show ?thesis using True c is31_same_trans [OF s] by (simp add: or_ret_def)
    next
      case False
      then show ?thesis using Cons.IH [OF Cons.prems] by (simp add: or_ret_def)
    qed
  qed
  then show ?thesis using assms(2) by (simp add: is31_leds_duty_def)
qed

section \<open>A light that moves\<close>

fun is31_steps ::
  "'z i3w platform \<Rightarrow> 'z i3w bus_ops \<Rightarrow> 'z i3w is31_ops \<Rightarrow> addr \<Rightarrow> nat \<Rightarrow> is31_task \<Rightarrow> 'z i3w \<Rightarrow> (is31_task \<times> 'z i3w) option" where
  "is31_steps R B Q a 0 t w = Some (t, w)"
| "is31_steps R B Q a (Suc k) t w = do { (t, w) \<leftarrow> is31_steps R B Q a k t w; is31_step R B Q a t w }"

text \<open>No message arrives.\<close>

definition is31_quiet :: "'z i3w is31_ops \<Rightarrow> bool" where
  "is31_quiet Q \<longleftrightarrow> (\<forall>q t w. is31_queue_receive Q q t w = (None, w))"

definition is31_walking :: "nat \<Rightarrow> nat \<Rightarrow> is31_task \<Rightarrow> bool" where
  "is31_walking n m t \<longleftrightarrow> ia_shift_mode (it_arg t) = 2 \<and> uint (ia_light_num (it_arg t)) = int n \<and>
     uint (ia_max_light_num (it_arg t)) = int m \<and> ia_act_time (it_arg t) = 0"

lemma is31_next_mask_walking:
  assumes "is31_walking n m t" "n \<le> m" "m \<le> 16" "it_i t = int (k mod (m - n + 1))"
  shows "\<exists>t'. is31_next_mask t = Some t' \<and> is31_walking n m t' \<and> it_i t' = int (Suc k mod (m - n + 1)) \<and>
    it_mask t' = push_bit (k mod (m - n + 1)) (mask n)"
proof -
  have lt: "k mod (m - n + 1) < m - n + 1" by simp
  then have i: "0 \<le> it_i t" "it_i t < 32" using assms by linarith+
  have x: "shl32 1 (int n) = Some (push_bit n 1)" using assms by (simp add: shl32_def)
  have y: "shl32 (push_bit n 1 - 1) (it_i t) = Some (push_bit (k mod (m - n + 1)) (mask n))"
    using i assms(4) by (simp add: shl32_def mask_eq_exp_minus_1 push_bit_eq_mult)
  have z: "(if it_i t + 1 = int m - int n + 1 then 0 else it_i t + 1) = int (Suc k mod (m - n + 1))"
    using assms(2,4) by (auto simp: mod_Suc)
  show ?thesis using assms(1) x y z by (simp add: is31_next_mask_def is31_walking_def)
qed

lemma is31_step_walking:
  assumes L: "is31_chip_law R B chip" and Q: "is31_quiet Q" and ok: "is31_ok w"
    and s: "is31s w a = Some s" "i3_cur_state s = 5"
    and t: "is31_walking n m t" "n \<le> m" "m \<le> 16" "it_i t = int (k mod (m - n + 1))"
  shows "\<exists>t' w'. is31_step R B Q a t w = Some (t', w') \<and> is31_ok w' \<and> is31s w' = is31s w \<and> is31_walking n m t' \<and>
    it_i t' = int (Suc k mod (m - n + 1)) \<and> leds_on (chip w') = push_bit (k mod (m - n + 1)) (mask n)"
proof -
  obtain t1 where t1: "is31_next_mask t = Some t1" "is31_walking n m t1" "it_i t1 = int (Suc k mod (m - n + 1))"
    "it_mask t1 = push_bit (k mod (m - n + 1)) (mask n)"
    using is31_next_mask_walking [OF t] by blast
  obtain w1 where w1: "is31_leds_duty R B 255 (ucast (it_mask t1)) w = Some (0, w1)" "is31_same w w1"
    using is31_leds_duty [OF L ok] by blast
  obtain w2 where w2: "is31_leds_ctrl R B (ucast (it_mask t1)) w1 = Some (0, w2)" "is31_ok w2" "is31s w2 = is31s w1"
    "leds_on (chip w2) = ucast (it_mask t1)"
    using is31_leds_ctrl [OF L is31_same_ok [OF w1(2) ok]] by blast
  have q: "is31_queue_receive Q q d w = (None, w)" for q d using Q by (simp add: is31_quiet_def)
  have m: "(ucast (push_bit (k mod (m - n + 1)) (mask n) :: u32) :: u16) = push_bit (k mod (m - n + 1)) (mask n)"
  proof (rule bit_word_eqI)
    fix j assume "j < LENGTH(16)"
    show "bit (ucast (push_bit (k mod (m - n + 1)) (mask n) :: u32) :: u16) j \<longleftrightarrow> bit (push_bit (k mod (m - n + 1)) (mask n) :: u16) j"
      by (auto simp: bit_simps)
  qed
  have "is31_step R B Q a t w = Some (t1\<lparr>it_act := 0\<rparr>, w2)"
    using s t1 w1 w2 q t1(2) by (simp add: is31_step_def is31_show_def is31_count_def is31_walking_def)
  moreover have "is31_walking n m (t1\<lparr>it_act := 0\<rparr>)" using t1(2) by (simp add: is31_walking_def)
  ultimately show ?thesis using w1 w2 t1 m by (auto simp: is31_same_def)
qed

text \<open>C32. In the shifting pattern with single steps and without an action time, entered at position 0, on a chip whose
  transfers succeed, a light of \<open>n\<close> channels moves over the first \<open>m\<close> channels and starts again at
  the end: as long as no message arrives, after every step the chip has exactly the \<open>n\<close> channels on that begin
  at the number of the step modulo the number of places, whatever was on before.\<close>

theorem is31_light_walks:
  assumes "is31_chip_law R B chip" "is31_quiet Q" "is31_ok w" "is31s w a = Some s" "i3_cur_state s = 5"
    and "ia_shift_mode (it_arg t) = 2" "uint (ia_light_num (it_arg t)) = int n" "uint (ia_max_light_num (it_arg t)) = int m"
    and "ia_act_time (it_arg t) = 0" "n \<le> m" "m \<le> 16" "it_i t = 0"
  shows "\<exists>t' w'. is31_steps R B Q a (Suc k) t w = Some (t', w') \<and> leds_on (chip w') = push_bit (k mod (m - n + 1)) (mask n)"
proof -
  have t: "is31_walking n m t" "it_i t = int (0 mod (m - n + 1))" using assms by (simp_all add: is31_walking_def)
  have "\<exists>t' w'. is31_steps R B Q a (Suc k) t w = Some (t', w') \<and> is31_ok w' \<and> is31s w' = is31s w \<and> is31_walking n m t' \<and>
      it_i t' = int (Suc k mod (m - n + 1)) \<and> leds_on (chip w') = push_bit (k mod (m - n + 1)) (mask n)"
  proof (induction k)
    case 0
    then show ?case using is31_step_walking [OF assms(1-5) t(1) assms(10,11) t(2)] by simp
  next
    case (Suc k)
    then obtain t1 w1 where t1: "is31_steps R B Q a (Suc k) t w = Some (t1, w1)" "is31_ok w1" "is31s w1 = is31s w" "is31_walking n m t1"
      "it_i t1 = int (Suc k mod (m - n + 1))" by blast
    have "is31s w1 a = Some s" using t1(3) assms(4) by simp
    from is31_step_walking [OF assms(1,2) t1(2) this assms(5) t1(4) assms(10,11) t1(5)]
    show ?case using t1(1,3) by auto
  qed
  then show ?thesis by blast
qed

section \<open>Two patterns in succession\<close>

lemma i3_upd_Some [simp]: "is31s w a = Some s \<Longrightarrow> i3_upd a f w = Some (w\<lparr>is31s := (is31s w)(a \<mapsto> f s)\<rparr>)"
  by (simp add: i3_upd_def)

lemma is31_ok_upd [simp]: "is31_ok (w\<lparr>is31s := g\<rparr>) = is31_ok w"
  by (simp add: is31_ok_def)

definition is31_idle_arg :: "addr \<Rightarrow> 'z i3w \<Rightarrow> bool" where
  "is31_idle_arg a w \<longleftrightarrow> is31_ok w \<and> (\<exists>s. is31s w a = Some s \<and> i3_arg s = is31_cleared_arg \<and> i3_cur_state s \<noteq> 4)"

lemma is31_count_idle:
  assumes L: "is31_chip_law R B chip" and i: "is31_idle_arg a w" and r: "is31_count R B a t w = Some (t', w')"
  shows "is31_idle_arg a w'"
proof (cases "ia_act_time (it_arg t) = 0 \<or> it_act t - 1 \<noteq> 0")
  case True
  then show ?thesis using r i by (auto simp: is31_count_def Let_def split: if_split_asm)
next
  case False
  obtain s where s: "is31s w a = Some s" "i3_arg s = is31_cleared_arg" "is31_ok w" using i by (auto simp: is31_idle_arg_def)
  let ?w = "w\<lparr>is31s := (is31s w)(a \<mapsto> s\<lparr>i3_cur_state := 0\<rparr>)\<rparr>"
  obtain w1 where w1: "is31_leds_ctrl R B 0 ?w = Some (0, w1)" "is31_ok w1" "is31s w1 = is31s ?w"
    using is31_leds_ctrl [OF L, of ?w 0] s(3) by auto
  have "w' = w1" using False r s(1) w1(1) by (simp add: is31_count_def is31_set_cur_def Let_def)
  then show ?thesis using w1 s by (simp add: is31_idle_arg_def)
qed

lemma is31_show_idle:
  assumes L: "is31_chip_law R B chip" and i: "is31_idle_arg a w" and r: "is31_show R B a t w = Some (t', w')"
  shows "is31_idle_arg a w'"
proof -
  have ok: "is31_ok w" using i by (simp add: is31_idle_arg_def)
  have shown: "is31_idle_arg a w2"
    if "is31_leds_duty R B d m w = Some (e1, w1)" "is31_leds_ctrl R B m w1 = Some (e2, w2)" for d m e1 w1 e2 w2
  proof -
    have w1: "is31_same w w1" using is31_leds_duty [OF L ok, of d m] that(1) by auto
    obtain w2' where "is31_leds_ctrl R B m w1 = Some (0, w2')" "is31_ok w2'" "is31s w2' = is31s w1"
      using is31_leds_ctrl [OF L is31_same_ok [OF w1 ok]] by blast
    then show ?thesis using that(2) i w1 by (auto simp: is31_idle_arg_def is31_same_def)
  qed
  show ?thesis using r i
    by (auto simp: is31_show_def Let_def elim!: bind_SomeE split: if_split_asm dest: is31_count_idle [OF L shown])
qed

lemma is31_flash_starts:
  assumes L: "is31_chip_law R B chip" and ok: "is31_ok w" and s: "is31s w a = Some s" "i3_cur_state s \<noteq> 4" "ia_act_time (i3_arg s) = 0"
    and m: "\<And>d. is31_queue_receive Q (i3_evt s) d w = (Some \<lparr>im_type = 0, im_data = 3\<rparr>, w)"
  shows "\<exists>t1 w1 s1. is31_step R B Q a t w = Some (t1, w1) \<and> is31s w1 a = Some s1 \<and> i3_cur_state s1 = 3"
proof -
  let ?s = "s\<lparr>i3_arg := is31_cleared_arg, i3_cur_state := 3\<rparr>" and ?m = "ia_light_mask (i3_arg s)"
  let ?w = "w\<lparr>is31s := (is31s w)(a \<mapsto> ?s)\<rparr>"
  obtain w1 where w1: "is31_leds_duty R B (it_duty t) ?m ?w = Some (0, w1)" "is31_same ?w w1"
    using is31_leds_duty [OF L, of ?w] ok by auto
  obtain w2 where w2: "is31_leds_ctrl R B ?m w1 = Some (0, w2)" "is31s w2 = is31s w1"
    using is31_leds_ctrl [OF L is31_same_ok [OF w1(2)]] ok by (metis is31_ok_upd)
  have "is31s w2 a = Some ?s" using w1(2) w2(2) by (simp add: is31_same_def)
  then show ?thesis
    using s m w1 w2 by (simp add: is31_step_def is31_take_msg_def is31_change_state_def is31_leave_audio_def is31_set_cur_def
      is31_show_def is31_count_def is31_next_duty_def Let_def)
qed

text \<open>C33. The arguments of a pattern are shared by all messages and cleared when one is taken. When all lights on is
  requested while a request for flashing or shifting is still waiting, outside the audio state, the first message takes the
  arguments along, and the second switches every light off although the state is on.\<close>

theorem is31_second_pattern_dark:
  assumes L: "is31_chip_law R B chip" and ok: "is31_ok w" and s: "is31s w a = Some s" "i3_cur_state s \<noteq> 4"
    and m1: "\<And>d. is31_queue_receive Q (i3_evt s) d w = (Some \<lparr>im_type = 0, im_data = x\<rparr>, w)" "x \<in> {3, 5}"
    and r: "is31_step R B Q a t w = Some (t1, w1)"
    and m2: "\<And>d. is31_queue_receive Q (i3_evt (the (is31s w1 a))) d w1 = (Some \<lparr>im_type = 0, im_data = 2\<rparr>, w2)" "is31_same w1 w2"
  shows "\<exists>t2 w3 s3. is31_step R B Q a t1 w1 = Some (t2, w3) \<and> is31s w3 a = Some s3 \<and> i3_cur_state s3 = 2 \<and> leds_on (chip w3) = 0"
proof -
  let ?w = "w\<lparr>is31s := (is31s w)(a \<mapsto> s\<lparr>i3_arg := is31_cleared_arg, i3_cur_state := sint x\<rparr>)\<rparr>"
  have x: "sint x \<in> {3, 5}" using m1(2) by auto
  have "is31_change_state R B a (sint x) g (w\<lparr>is31s := (is31s w)(a \<mapsto> s\<lparr>i3_arg := is31_cleared_arg\<rparr>)\<rparr>) = Some ((0, g), ?w)" for g
    using s x by (auto simp: is31_change_state_def is31_leave_audio_def is31_set_cur_def)
  then obtain t0 where "is31_take_msg R B a \<lparr>im_type = 0, im_data = x\<rparr> t w = Some (t0, ?w)"
    using s by (simp add: is31_take_msg_def Let_def)
  then have "is31_show R B a t0 ?w = Some (t1, w1)" using r s m1(1) by (simp add: is31_step_def)
  moreover have "is31_idle_arg a ?w" using ok x by (auto simp: is31_idle_arg_def)
  ultimately have "is31_idle_arg a w1" by (rule is31_show_idle [OF L, rotated])
  then obtain s1 where s1: "is31s w1 a = Some s1" "i3_arg s1 = is31_cleared_arg" "i3_cur_state s1 \<noteq> 4" "is31_ok w1"
    by (auto simp: is31_idle_arg_def)
  have w2: "is31s w2 a = Some s1" "is31_ok w2" using s1 m2(2) is31_same_ok by (auto simp: is31_same_def)
  have "is31_ok (w2\<lparr>is31s := (is31s w2)(a \<mapsto> s1)\<rparr>)" using w2 by simp
  then obtain w3 where w3: "is31_leds_ctrl R B 0 (w2\<lparr>is31s := (is31s w2)(a \<mapsto> s1)\<rparr>) = Some (0, w3)" "is31s w3 = (is31s w2)(a \<mapsto> s1)" "leds_on (chip w3) = 0"
    using is31_leds_ctrl [OF L, of "w2\<lparr>is31s := (is31s w2)(a \<mapsto> s1)\<rparr>" 0] by auto
  let ?w3 = "w3\<lparr>is31s := (is31s w3)(a \<mapsto> s1\<lparr>i3_cur_state := 2\<rparr>)\<rparr>"
  have self: "s1\<lparr>i3_arg := is31_cleared_arg\<rparr> = s1" using s1(2) by (metis periph_is31.surjective periph_is31.update_convs(1))
  have m0: "ia_light_mask is31_cleared_arg = 0" by (simp add: is31_cleared_arg_def)
  have cs: "is31_change_state R B a 2 is31_cleared_arg (w2\<lparr>is31s := (is31s w2)(a \<mapsto> s1)\<rparr>) =
      Some ((0, is31_cleared_arg\<lparr>ia_interval_time := -1\<rparr>), ?w3)"
    using w3 s1(3) by (simp add: is31_change_state_def is31_leave_audio_def is31_set_cur_def m0)
  obtain t2 where "is31_take_msg R B a \<lparr>im_type = 0, im_data = 2\<rparr> t1 w2 = Some (t2, ?w3)"
    using w2 cs s1(2) by (simp add: is31_take_msg_def Let_def self)
  then have "is31_step R B Q a t1 w1 = Some (t2, ?w3)"
    using s1(1) m2(1) by (simp add: is31_step_def is31_show_def)
  moreover have "leds_on (chip ?w3) = 0" using w3(3) L by (simp add: is31_chip_law_def)
  ultimately show ?thesis by auto
qed

section \<open>An instance\<close>

text \<open>A chip that records its registers, and a queue.\<close>

record ex_is31_world = is31_world +
  x3_chip :: "u8 \<Rightarrow> u8"
  x3_queue :: "is31_msg list"

definition ex_is31_bus :: "ex_is31_world bus_ops" where
  "ex_is31_bus = \<lparr>bus_param_config = (\<lambda>p c w. (0, w)), bus_driver_install = (\<lambda>p m w. (0, w)), bus_driver_delete = (\<lambda>p w. w),
     bus_queue = (\<lambda>c w. (0, w)),
     bus_begin = (\<lambda>p cs t w. case cs of [_, _, BUS_WRITE [r], BUS_WRITE d, _] \<Rightarrow> ((0, []), w\<lparr>x3_chip := load_regs (x3_chip w) r d\<rparr>)
       | _ \<Rightarrow> ((0, []), w))\<rparr>"

definition ex_is31_ops :: "ex_is31_world is31_ops" where
  "ex_is31_ops = \<lparr>is31_queue_create = (\<lambda>n w. (None, w)), is31_queue_delete = (\<lambda>q w. w), is31_queue_send = (\<lambda>f q m w. (True, w)),
     is31_queue_receive = (\<lambda>q t w. (None, w)), is31_drive_strength = id\<rparr>"

definition ex_is31 :: periph_is31 where
  "ex_is31 = \<lparr>i3_arg = is31_cleared_arg, i3_duty = replicate 16 0, i3_handle = 60, i3_cur_state = 5, i3_evt = 61\<rparr>"

definition ex_is31_w :: ex_is31_world where
  "ex_is31_w = \<lparr>rbs = Map.empty, ifs = Map.empty, els = Map.empty, strs = Map.empty, prs = Map.empty, pss = Map.empty,
     i2c_buses = (\<lambda>_. None), i2c_objs = Map.empty, bus_lock = Some 1, is31_value = replicate 10 0, is31_devs = Map.empty,
     is31s = [62 \<mapsto> ex_is31], x3_chip = (\<lambda>_. 0), x3_queue = []\<rparr>"

lemma ex_is31_law: "is31_chip_law (seq_platform None) ex_is31_bus x3_chip"
  by (simp add: is31_chip_law_def free_locks_seq ex_is31_bus_def is31_same_def)

definition ex_is31_task :: is31_task where
  "ex_is31_task = is31_task_start\<lparr>it_arg := \<lparr>ia_max_light_num = 12, ia_light_num = 2, ia_light_mask = 0, ia_interval_time = 150,
     ia_act_time = 0, ia_duty_step = 2, ia_shift_mode = 2\<rparr>\<rparr>"

theorem is31_light_walks_witness:
  "\<exists>t' w'. is31_steps (seq_platform None) ex_is31_bus ex_is31_ops 62 12 ex_is31_task ex_is31_w = Some (t', w') \<and> leds_on (x3_chip w') = 3"
  using is31_light_walks [OF ex_is31_law, where Q = ex_is31_ops and w = ex_is31_w and a = 62 and s = ex_is31 and t = ex_is31_task
      and n = 2 and m = 12 and k = 11]
  by (simp add: is31_quiet_def ex_is31_ops_def is31_ok_def ex_is31_w_def ex_is31_def ex_is31_task_def is31_task_start_def mask_numeral)

definition ex_is31_busy :: "ex_is31_world is31_ops" where
  "ex_is31_busy = ex_is31_ops\<lparr>is31_queue_receive := (\<lambda>q t w.
     (Some \<lparr>im_type = 0, im_data = (if map_option i3_cur_state (is31s w 62) = Some 0 then 3 else 2)\<rparr>, w))\<rparr>"

definition ex_is31_w0 :: ex_is31_world where
  "ex_is31_w0 = ex_is31_w\<lparr>is31s := [62 \<mapsto> ex_is31\<lparr>i3_arg := is31_cleared_arg\<lparr>ia_light_mask := 0xFFF\<rparr>, i3_cur_state := 0\<rparr>]\<rparr>"

theorem is31_second_pattern_dark_witness:
  "\<exists>t1 w1 t2 w3 s3. is31_step (seq_platform None) ex_is31_bus ex_is31_busy 62 is31_task_start ex_is31_w0 = Some (t1, w1) \<and>
     is31_step (seq_platform None) ex_is31_bus ex_is31_busy 62 t1 w1 = Some (t2, w3) \<and> is31s w3 62 = Some s3 \<and>
     i3_cur_state s3 = 2 \<and> leds_on (x3_chip w3) = 0"
proof -
  have "\<exists>t1 w1 s1. is31_step (seq_platform None) ex_is31_bus ex_is31_busy 62 is31_task_start ex_is31_w0 = Some (t1, w1) \<and>
      is31s w1 62 = Some s1 \<and> i3_cur_state s1 = 3"
    by (rule is31_flash_starts [OF ex_is31_law, where s = "ex_is31\<lparr>i3_arg := is31_cleared_arg\<lparr>ia_light_mask := 0xFFF\<rparr>, i3_cur_state := 0\<rparr>"])
      (simp_all add: is31_ok_def ex_is31_w0_def ex_is31_w_def ex_is31_busy_def ex_is31_def is31_cleared_arg_def)
  then obtain t1 w1 s1 where 1: "is31_step (seq_platform None) ex_is31_bus ex_is31_busy 62 is31_task_start ex_is31_w0 = Some (t1, w1)"
    and s1: "is31s w1 62 = Some s1" "i3_cur_state s1 = 3" by blast
  have "\<exists>t2 w3 s3. is31_step (seq_platform None) ex_is31_bus ex_is31_busy 62 t1 w1 = Some (t2, w3) \<and> is31s w3 62 = Some s3 \<and>
     i3_cur_state s3 = 2 \<and> leds_on (x3_chip w3) = 0"
    by (rule is31_second_pattern_dark [OF ex_is31_law, where w = ex_is31_w0 and x = 3 and t = is31_task_start and Q = ex_is31_busy
        and s = "ex_is31\<lparr>i3_arg := is31_cleared_arg\<lparr>ia_light_mask := 0xFFF\<rparr>, i3_cur_state := 0\<rparr>"])
      (use 1 s1 in \<open>simp_all add: is31_ok_def ex_is31_w0_def ex_is31_w_def ex_is31_busy_def is31_same_def\<close>)
  then show ?thesis using 1 by blast
qed

end
