(* ===== verification/Display.thy ===== *)
theory Display
  imports Input_Key Periph_Led Is31fl3216
begin

text \<open>
  The display service (\<open>components/display_service/\<close>): a peripheral service whose patterns go to a single LED (\<open>led_indicator.c\<close>)
  or to a bar of LEDs behind the IS31FL3216 (\<open>led_bar_is31x.c\<close>).
\<close>

abbreviation (input) DISPLAY_PATTERN_WIFI_SETTING :: int where "DISPLAY_PATTERN_WIFI_SETTING \<equiv> 1"
abbreviation (input) DISPLAY_PATTERN_WIFI_CONNECTTING :: int where "DISPLAY_PATTERN_WIFI_CONNECTTING \<equiv> 2"
abbreviation (input) DISPLAY_PATTERN_WIFI_CONNECTED :: int where "DISPLAY_PATTERN_WIFI_CONNECTED \<equiv> 3"
abbreviation (input) DISPLAY_PATTERN_WIFI_DISCONNECTED :: int where "DISPLAY_PATTERN_WIFI_DISCONNECTED \<equiv> 4"
abbreviation (input) DISPLAY_PATTERN_WIFI_SETTING_FINISHED :: int where "DISPLAY_PATTERN_WIFI_SETTING_FINISHED \<equiv> 5"
abbreviation (input) DISPLAY_PATTERN_RECORDING_STOP :: int where "DISPLAY_PATTERN_RECORDING_STOP \<equiv> 10"
abbreviation (input) DISPLAY_PATTERN_RECOGNITION_START :: int where "DISPLAY_PATTERN_RECOGNITION_START \<equiv> 11"
abbreviation (input) DISPLAY_PATTERN_RECOGNITION_STOP :: int where "DISPLAY_PATTERN_RECOGNITION_STOP \<equiv> 12"
abbreviation (input) DISPLAY_PATTERN_WAKEUP_ON :: int where "DISPLAY_PATTERN_WAKEUP_ON \<equiv> 13"
abbreviation (input) DISPLAY_PATTERN_WAKEUP_FINISHED :: int where "DISPLAY_PATTERN_WAKEUP_FINISHED \<equiv> 14"
abbreviation (input) DISPLAY_PATTERN_MUSIC_ON :: int where "DISPLAY_PATTERN_MUSIC_ON \<equiv> 15"
abbreviation (input) DISPLAY_PATTERN_MUSIC_FINISHED :: int where "DISPLAY_PATTERN_MUSIC_FINISHED \<equiv> 16"
abbreviation (input) DISPLAY_PATTERN_TURN_ON :: int where "DISPLAY_PATTERN_TURN_ON \<equiv> 20"
abbreviation (input) DISPLAY_PATTERN_TURN_OFF :: int where "DISPLAY_PATTERN_TURN_OFF \<equiv> 21"

section \<open>One LED\<close>

record led_indicator =
  li_gpio_num :: int
  li_periph :: "periph_handle option"

record indicator_world = led_world +
  indicators :: "addr \<Rightarrow> led_indicator option"

type_synonym 'z inw = "'z indicator_world_scheme"

definition led_indicator_init ::
  "'z inw platform \<Rightarrow> 'z inw periph_ops \<Rightarrow> int \<Rightarrow> 'z inw \<Rightarrow> (addr option \<times> 'z inw) option" where
  "led_indicator_init R P num w =
     (case heap_alloc R 8 w of
        (None, w) \<Rightarrow> Some (None, w)
      | (Some h, w) \<Rightarrow> do {
          (periph, w) \<leftarrow> periph_led_init R \<lparr>lcfg_speed_mode = 1, lcfg_duty_resolution = 10, lcfg_timer_num = 0, lcfg_freq_hz = 10000\<rparr> w;
          p \<leftarrow> periph;
          (_, w) \<leftarrow> esp_periph_init P p w;
          Some (Some h, w\<lparr>indicators := (indicators w)(h \<mapsto> \<lparr>li_gpio_num = num, li_periph = periph\<rparr>)\<rparr>) })"

text \<open>How each pattern blinks: time on, time off, fading, and the number of switches.\<close>

definition indicator_blink :: "int \<Rightarrow> (int \<times> int \<times> bool \<times> int) option" where
  "indicator_blink pat =
     (if pat = DISPLAY_PATTERN_WIFI_SETTING then Some (500, 500, False, -1)
      else if pat = DISPLAY_PATTERN_WIFI_CONNECTED then Some (1000, 200, True, 10)
      else if pat = DISPLAY_PATTERN_WIFI_DISCONNECTED then Some (200, 500, False, -1)
      else if pat = DISPLAY_PATTERN_TURN_ON then Some (100, 0, False, -1)
      else if pat = DISPLAY_PATTERN_TURN_OFF then Some (0, 100, False, -1)
      else None)"

definition led_indicator_pattern ::
  "'z inw platform \<Rightarrow> 'z inw periph_ops \<Rightarrow> 'z inw led_ops \<Rightarrow> addr \<Rightarrow> int \<Rightarrow> int \<Rightarrow> 'z inw \<Rightarrow> (esp_err \<times> 'z inw) option" where
  "led_indicator_pattern R P L h pat value w = do {
     d \<leftarrow> indicators w h;
     case indicator_blink pat of None \<Rightarrow> Some (ESP_OK, w)
     | Some (on, off, fade, loop) \<Rightarrow> do {
         p \<leftarrow> li_periph d;
         (_, w) \<leftarrow> periph_led_blink R P L p (li_gpio_num d) on off fade loop w;
         Some (ESP_OK, w) } }"

definition led_indicator_deinit :: "'z inw periph_ops \<Rightarrow> addr \<Rightarrow> 'z inw \<Rightarrow> 'z inw option" where
  "led_indicator_deinit P h w = do {
     d \<leftarrow> indicators w h;
     p \<leftarrow> li_periph d;
     (_, w) \<leftarrow> esp_periph_destroy P p w;
     Some w }"

section \<open>A bar of LEDs\<close>

abbreviation (input) BLUE_LED_MAX_NUM :: nat where "BLUE_LED_MAX_NUM \<equiv> 12"

fun bar_duties ::
  "'z i3w platform \<Rightarrow> 'z i3w bus_ops \<Rightarrow> periph_handle \<Rightarrow> nat list \<Rightarrow> 'z i3w \<Rightarrow> 'z i3w option" where
  "bar_duties R B p [] w = Some w"
| "bar_duties R B p (i # is) w = do { (_, w) \<leftarrow> periph_is31fl3216_set_duty R B p (of_nat i) 255 w; bar_duties R B p is w }"

definition led_bar_is31x_init ::
  "'z i3w platform \<Rightarrow> 'z i3w periph_ops \<Rightarrow> 'z i3w bus_ops \<Rightarrow> 'z i3w is31_ops \<Rightarrow> 'z i3w \<Rightarrow> (periph_handle option \<times> 'z i3w) option" where
  "led_bar_is31x_init R P B Q w = do {
     (p, w) \<leftarrow> periph_is31fl3216_init R B Q (replicate 16 0) w;
     case p of None \<Rightarrow> Some (None, w)
     | Some h \<Rightarrow> do {
         (_, w) \<leftarrow> esp_periph_init P h w;
         w \<leftarrow> bar_duties R B h [0..<BLUE_LED_MAX_NUM] w;
         Some (Some h, w) } }"

text \<open>The calls a pattern makes, one after the other.\<close>

fun run_all :: "('w \<Rightarrow> (esp_err \<times> 'w) option) list \<Rightarrow> 'w \<Rightarrow> 'w option" where
  "run_all [] w = Some w"
| "run_all (f # fs) w = do { (_, w) \<leftarrow> f w; run_all fs w }"

definition bar_all :: u16 where "bar_all = 2 ^ BLUE_LED_MAX_NUM - 1"

definition bar_calls :: "'z i3w is31_ops \<Rightarrow> periph_handle \<Rightarrow> int \<Rightarrow> ('z i3w \<Rightarrow> (esp_err \<times> 'z i3w) option) list" where
  "bar_calls Q h pat =
     (if pat = DISPLAY_PATTERN_WIFI_SETTING \<or> pat = DISPLAY_PATTERN_WIFI_DISCONNECTED then
        [periph_is31fl3216_set_blink_pattern h bar_all, periph_is31fl3216_set_duty_step h 20, periph_is31fl3216_set_interval h 10,
         periph_is31fl3216_set_act_time h 0, periph_is31fl3216_set_state Q h IS31FL3216_STATE_FLASH]
      else if pat = DISPLAY_PATTERN_WIFI_CONNECTTING then
        [periph_is31fl3216_set_light_on_num h 1 12, periph_is31fl3216_set_interval h 100,
         periph_is31fl3216_set_shift_mode h PERIPH_IS31_SHIFT_MODE_ACC, periph_is31fl3216_set_state Q h IS31FL3216_STATE_SHIFT]
      else if pat = DISPLAY_PATTERN_WIFI_CONNECTED then
        [periph_is31fl3216_set_light_on_num h 2 12, periph_is31fl3216_set_interval h 150,
         periph_is31fl3216_set_shift_mode h PERIPH_IS31_SHIFT_MODE_SINGLE, periph_is31fl3216_set_act_time h 2500,
         periph_is31fl3216_set_state Q h IS31FL3216_STATE_SHIFT]
      else if pat = DISPLAY_PATTERN_RECOGNITION_START then
        [periph_is31fl3216_set_light_on_num h 1 12, periph_is31fl3216_set_interval h 150,
         periph_is31fl3216_set_shift_mode h PERIPH_IS31_SHIFT_MODE_SINGLE, periph_is31fl3216_set_state Q h IS31FL3216_STATE_SHIFT]
      else if pat \<in> {DISPLAY_PATTERN_WIFI_SETTING_FINISHED, DISPLAY_PATTERN_RECORDING_STOP, DISPLAY_PATTERN_RECOGNITION_STOP,
          DISPLAY_PATTERN_WAKEUP_FINISHED, DISPLAY_PATTERN_MUSIC_FINISHED, DISPLAY_PATTERN_TURN_OFF} then
        [periph_is31fl3216_set_blink_pattern h bar_all, periph_is31fl3216_set_state Q h IS31FL3216_STATE_OFF]
      else if pat \<in> {DISPLAY_PATTERN_WAKEUP_ON, DISPLAY_PATTERN_TURN_ON} then
        [periph_is31fl3216_set_blink_pattern h bar_all, periph_is31fl3216_set_state Q h IS31FL3216_STATE_ON]
      else if pat = DISPLAY_PATTERN_MUSIC_ON then
        [periph_is31fl3216_set_blink_pattern h bar_all, periph_is31fl3216_set_state Q h IS31FL3216_STATE_BY_AUDIO]
      else [])"

definition led_bar_is31x_pattern ::
  "'z i3w is31_ops \<Rightarrow> periph_handle option \<Rightarrow> int \<Rightarrow> int \<Rightarrow> 'z i3w \<Rightarrow> (esp_err \<times> 'z i3w) option" where
  "led_bar_is31x_pattern Q handle pat value w =
     (case handle of None \<Rightarrow> Some (ESP_FAIL, w) | Some h \<Rightarrow> map_option (Pair ESP_OK) (run_all (bar_calls Q h pat) w))"

definition led_bar_is31x_deinit :: "'z i3w periph_ops \<Rightarrow> periph_handle \<Rightarrow> 'z i3w \<Rightarrow> 'z i3w option" where
  "led_bar_is31x_deinit P h w = map_option snd (esp_periph_destroy P h w)"

section \<open>The service\<close>

record display_service =
  ds_based :: "service_handle option"
  ds_instance :: addr

record display_world = ik_world +
  displays :: "addr \<Rightarrow> display_service option"

type_synonym 'z dpw = "'z display_world_scheme"

definition display_service_create ::
  "'z dpw platform \<Rightarrow> (periph_service_config \<times> addr) option \<Rightarrow> 'z dpw \<Rightarrow> (addr option \<times> 'z dpw) option" where
  "display_service_create R config w =
     (case config of None \<Rightarrow> Some (None, w)
      | Some (based_cfg, inst) \<Rightarrow> (case heap_alloc R 16 w of
          (None, w) \<Rightarrow> Some (None, w)
        | (Some d, w) \<Rightarrow> do {
            (based, w) \<leftarrow> periph_service_create R (Some based_cfg) w;
            let w = w\<lparr>displays := (displays w)(d \<mapsto> \<lparr>ds_based = based, ds_instance = inst\<rparr>)\<rparr>;
            (_, w) \<leftarrow> periph_service_set_data based (Some d) w;
            Some (Some d, w) }))"

definition display_service_set_pattern ::
  "'z dpw service_ops \<Rightarrow> addr \<Rightarrow> int \<Rightarrow> int \<Rightarrow> 'z dpw \<Rightarrow> (esp_err \<times> 'z dpw) option" where
  "display_service_set_pattern S h pat value w = do {
     d \<leftarrow> displays w h;
     periph_service_ioctl S (ds_based d) (ds_instance d) pat value w }"

definition display_destroy :: "'z dpw service_ops \<Rightarrow> addr \<Rightarrow> 'z dpw \<Rightarrow> (esp_err \<times> 'z dpw) option" where
  "display_destroy S h w = do {
     d \<leftarrow> displays w h;
     (_, w) \<leftarrow> periph_service_destroy S (ds_based d) w;
     Some (ESP_OK, w\<lparr>displays := (displays w)(h := None)\<rparr>) }"

end
