(* ===== verification/Wifi_Service.thy ===== *)
theory Wifi_Service
  imports Input_Key
begin

text \<open>
  The Wi-Fi service (\<open>components/wifi_service/src/wifi_service.c\<close>), a task that connects to an access point, connects again when
  the connection is lost, and runs the settings (\<open>esp_wifi_setting.c\<close>) by which a user provides an access point. The Wi-Fi
  driver, the timers and the functions of the settings are the parameter \<open>wifi_ops\<close>. A configuration is the bytes of its \<open>sta\<close> member.
\<close>

abbreviation (input) WIFI_TASK_DESTROY_BIT :: u32 where "WIFI_TASK_DESTROY_BIT \<equiv> 1"
abbreviation (input) WIFI_SERV_EVENT_TYPE_CMD :: int where "WIFI_SERV_EVENT_TYPE_CMD \<equiv> 0"
abbreviation (input) WIFI_SERV_EVENT_TYPE_STATE :: int where "WIFI_SERV_EVENT_TYPE_STATE \<equiv> 1"
abbreviation (input) WIFI_SERV_CMD_CONNECT :: int where "WIFI_SERV_CMD_CONNECT \<equiv> 2"
abbreviation (input) WIFI_SERV_CMD_DISCONNECT :: int where "WIFI_SERV_CMD_DISCONNECT \<equiv> 3"
abbreviation (input) WIFI_SERV_CMD_SETTING_START :: int where "WIFI_SERV_CMD_SETTING_START \<equiv> 4"
abbreviation (input) WIFI_SERV_CMD_SETTING_STOP :: int where "WIFI_SERV_CMD_SETTING_STOP \<equiv> 5"
abbreviation (input) WIFI_SERV_CMD_DESTROY :: int where "WIFI_SERV_CMD_DESTROY \<equiv> 6"
abbreviation (input) WIFI_SERV_EVENT_CONNECTED :: int where "WIFI_SERV_EVENT_CONNECTED \<equiv> 2"
abbreviation (input) WIFI_SERV_EVENT_DISCONNECTED :: int where "WIFI_SERV_EVENT_DISCONNECTED \<equiv> 3"
abbreviation (input) WIFI_SERV_EVENT_SETTING_TIMEOUT :: int where "WIFI_SERV_EVENT_SETTING_TIMEOUT \<equiv> 4"
abbreviation (input) WIFI_SERV_STA_UNKNOWN :: int where "WIFI_SERV_STA_UNKNOWN \<equiv> 0"
abbreviation (input) WIFI_SERV_STA_AUTH_ERROR :: int where "WIFI_SERV_STA_AUTH_ERROR \<equiv> 1"
abbreviation (input) WIFI_SERV_STA_AP_NOT_FOUND :: int where "WIFI_SERV_STA_AP_NOT_FOUND \<equiv> 2"
abbreviation (input) WIFI_SERV_STA_BY_USER :: int where "WIFI_SERV_STA_BY_USER \<equiv> 3"

type_synonym wifi_config = "u8 list"

record wifi_setting_item =
  wt_on_handle :: "addr option"
  wt_index :: int
  wt_running :: bool

record wifi_service =
  ws_que :: qhandle
  ws_state :: int
  ws_info :: wifi_config
  ws_setting_list :: "wifi_setting_item list"
  ws_setting_index :: int
  ws_reason :: int
  ws_is_setting :: bool
  ws_retry_timer :: "addr option"
  ws_setting_timer :: "addr option"
  ws_setting_timeout_s :: int
  ws_sync_evt :: egroup
  ws_retry_times :: int
  ws_retrying :: bool

record wifi_task_msg =
  wm_msg_type :: int
  wm_type :: int
  wm_pdata :: int
  wm_len :: int

record esp_wifi_setting =
  st_start :: "fnptr option"
  st_stop :: "fnptr option"
  st_teardown :: "fnptr option"
  st_tag :: string
  st_user_data :: "addr option"
  st_notify_handle :: "service_handle option"

text \<open>The events of the driver, with the reason of a disconnection.\<close>

datatype system_event = STA_START | STA_GOT_IP | STA_DISCONNECTED int | OTHER_EVENT

record wifi_world = ik_world +
  wss :: "addr \<Rightarrow> wifi_service option"
  wsets :: "addr \<Rightarrow> esp_wifi_setting option"

type_synonym 'z wfw = "'z wifi_world_scheme"

record 'w wifi_ops =
  wifi_queue_create :: "nat \<Rightarrow> 'w \<Rightarrow> qhandle option \<times> 'w"
  wifi_queue_delete :: "qhandle \<Rightarrow> 'w \<Rightarrow> 'w"
  wifi_queue_send :: "bool \<Rightarrow> qhandle \<Rightarrow> wifi_task_msg \<Rightarrow> 'w \<Rightarrow> bool \<times> 'w"
  wifi_queue_receive :: "qhandle \<Rightarrow> 'w \<Rightarrow> wifi_task_msg option \<times> 'w"
  esp_wifi_init :: "'w \<Rightarrow> esp_err \<times> 'w"
  esp_event_loop_init :: "addr \<Rightarrow> 'w \<Rightarrow> esp_err \<times> 'w"
  esp_wifi_set_storage :: "'w \<Rightarrow> esp_err \<times> 'w"
  esp_wifi_set_mode_sta :: "'w \<Rightarrow> esp_err \<times> 'w"
  esp_wifi_set_config :: "wifi_config \<Rightarrow> 'w \<Rightarrow> esp_err \<times> 'w"
  esp_wifi_get_config :: "'w \<Rightarrow> (esp_err \<times> wifi_config) \<times> 'w"
  esp_wifi_start :: "'w \<Rightarrow> esp_err \<times> 'w"
  esp_wifi_connect :: "'w \<Rightarrow> esp_err \<times> 'w"
  esp_wifi_disconnect :: "'w \<Rightarrow> 'w"
  esp_timer_create :: "fnptr \<Rightarrow> addr \<Rightarrow> 'w \<Rightarrow> addr option \<times> 'w"
  esp_timer_start_once :: "addr option \<Rightarrow> u64 \<Rightarrow> 'w \<Rightarrow> 'w"
  esp_timer_stop :: "addr option \<Rightarrow> 'w \<Rightarrow> 'w"
  esp_timer_delete :: "addr option \<Rightarrow> 'w \<Rightarrow> 'w"
  call_setting :: "fnptr \<Rightarrow> addr \<Rightarrow> 'w \<Rightarrow> esp_err \<times> 'w"
  call_teardown :: "fnptr \<Rightarrow> addr \<Rightarrow> wifi_config option \<Rightarrow> 'w \<Rightarrow> esp_err \<times> 'w"

definition ws_upd :: "addr \<Rightarrow> (wifi_service \<Rightarrow> wifi_service) \<Rightarrow> 'z wfw \<Rightarrow> 'z wfw option" where
  "ws_upd a f w = (case wss w a of None \<Rightarrow> None | Some s \<Rightarrow> Some (w\<lparr>wss := (wss w)(a \<mapsto> f s)\<rparr>))"

interpretation wifi_store: object_store wss ws_upd
  by unfold_locales (auto simp: ws_upd_def split: option.splits)

text \<open>The data of a service; \<open>ESP_ERROR_CHECK\<close> ends the program on an error.\<close>

definition wifi_data :: "service_handle \<Rightarrow> 'z wfw \<Rightarrow> (addr \<times> wifi_service) option" where
  "wifi_data h w = do { a \<leftarrow> periph_service_get_data (Some h) w; a \<leftarrow> a; s \<leftarrow> wss w a; Some (a, s) }"

definition esp_error_check :: "esp_err \<times> 'w \<Rightarrow> 'w option" where
  "esp_error_check ew = (if fst ew = ESP_OK then Some (snd ew) else None)"

section \<open>Messages\<close>

text \<open>A message that finds the queue full is lost.\<close>

definition wifi_serv_cmd_send :: "'z wfw wifi_ops \<Rightarrow> qhandle \<Rightarrow> int \<Rightarrow> int \<Rightarrow> int \<Rightarrow> bool \<Rightarrow> 'z wfw \<Rightarrow> 'z wfw" where
  "wifi_serv_cmd_send W q type data len front w =
     snd (wifi_queue_send W front q \<lparr>wm_msg_type = WIFI_SERV_EVENT_TYPE_CMD, wm_type = type, wm_pdata = data, wm_len = len\<rparr> w)"

definition wifi_serv_state_send :: "'z wfw wifi_ops \<Rightarrow> qhandle \<Rightarrow> int \<Rightarrow> int \<Rightarrow> int \<Rightarrow> bool \<Rightarrow> 'z wfw \<Rightarrow> 'z wfw" where
  "wifi_serv_state_send W q type data len front w =
     snd (wifi_queue_send W front q \<lparr>wm_msg_type = WIFI_SERV_EVENT_TYPE_STATE, wm_type = type, wm_pdata = data, wm_len = len\<rparr> w)"

definition wifi_disconnect_reason :: "int \<Rightarrow> int option" where
  "wifi_disconnect_reason r = (if r \<in> {2, 15, 200, 202, 203, 204} then Some WIFI_SERV_STA_AUTH_ERROR
     else if r = 201 then Some WIFI_SERV_STA_AP_NOT_FOUND else None)"

text \<open>The reason is stored after the message was sent.\<close>

definition wifi_event_cb :: "'z wfw wifi_ops \<Rightarrow> service_handle \<Rightarrow> system_event \<Rightarrow> 'z wfw \<Rightarrow> (esp_err \<times> 'z wfw) option" where
  "wifi_event_cb W h event w = do {
     a \<leftarrow> periph_service_get_data (Some h) w;
     case event of
       STA_START \<Rightarrow> Some (ESP_OK, snd (esp_wifi_connect W w))
     | STA_GOT_IP \<Rightarrow> do {
         a \<leftarrow> a; s \<leftarrow> wss w a;
         Some (ESP_OK, wifi_serv_state_send W (ws_que s) WIFI_SERV_EVENT_CONNECTED 0 0 False w) }
     | STA_DISCONNECTED r \<Rightarrow> do {
         a \<leftarrow> a; s \<leftarrow> wss w a;
         let w = wifi_serv_state_send W (ws_que s) WIFI_SERV_EVENT_DISCONNECTED 0 0 False w;
         w \<leftarrow> (case wifi_disconnect_reason r of None \<Rightarrow> Some w | Some v \<Rightarrow> ws_upd a (\<lambda>s. s\<lparr>ws_reason := v\<rparr>) w);
         Some (ESP_OK, w) }
     | OTHER_EVENT \<Rightarrow> Some (ESP_OK, w) }"

definition configure_wifi_sta_mode :: "'z wfw wifi_ops \<Rightarrow> wifi_config \<Rightarrow> 'z wfw \<Rightarrow> 'z wfw option" where
  "configure_wifi_sta_mode W cfg w = do {
     w \<leftarrow> esp_error_check (esp_wifi_set_mode_sta W w);
     esp_error_check (esp_wifi_set_config W cfg w) }"

definition wifi_sta_setup :: "'z wfw wifi_ops \<Rightarrow> addr \<Rightarrow> 'z wfw \<Rightarrow> 'z wfw option" where
  "wifi_sta_setup W para w = do {
     w \<leftarrow> esp_error_check (esp_wifi_init W w);
     w \<leftarrow> esp_error_check (esp_event_loop_init W para w);
     esp_error_check (esp_wifi_set_storage W w) }"

definition setting_timeout_callback :: "'z wfw wifi_ops \<Rightarrow> service_handle \<Rightarrow> 'z wfw \<Rightarrow> 'z wfw option" where
  "setting_timeout_callback W h w = do {
     (a, s) \<leftarrow> wifi_data h w;
     Some (wifi_serv_state_send W (ws_que s) WIFI_SERV_EVENT_SETTING_TIMEOUT 0 0 False w) }"

definition wifi_service_connect :: "'z wfw wifi_ops \<Rightarrow> service_handle option \<Rightarrow> 'z wfw \<Rightarrow> (esp_err \<times> 'z wfw) option" where
  "wifi_service_connect W handle w =
     (case handle of None \<Rightarrow> Some (ESP_ERR_INVALID_ARG, w)
      | Some h \<Rightarrow> do { (a, s) \<leftarrow> wifi_data h w; Some (ESP_OK, wifi_serv_cmd_send W (ws_que s) WIFI_SERV_CMD_CONNECT 0 0 False w) })"

definition retry_timer_callback :: "'z wfw wifi_ops \<Rightarrow> service_handle \<Rightarrow> 'z wfw \<Rightarrow> 'z wfw option" where
  "retry_timer_callback W h w = map_option snd (wifi_service_connect W (Some h) w)"

section \<open>Settings\<close>

definition esp_wifi_setting_create :: "'z wfw platform \<Rightarrow> string option \<Rightarrow> 'z wfw \<Rightarrow> addr option \<times> 'z wfw" where
  "esp_wifi_setting_create R tag w =
     (case heap_alloc R 28 w of
        (None, w) \<Rightarrow> (None, w)
      | (Some h, w) \<Rightarrow> (let t = (case tag of Some t \<Rightarrow> t | None \<Rightarrow> ''wifi_setting'') in
          case heap_alloc R (length t + 1) w of
            (None, w) \<Rightarrow> (None, w)
          | (Some _, w) \<Rightarrow> (Some h, w\<lparr>wsets := (wsets w)(h \<mapsto> \<lparr>st_start = None, st_stop = None, st_teardown = None, st_tag = t,
              st_user_data = None, st_notify_handle = None\<rparr>)\<rparr>)))"

definition esp_wifi_setting_destroy :: "addr option \<Rightarrow> 'z wfw \<Rightarrow> (esp_err \<times> 'z wfw) option" where
  "esp_wifi_setting_destroy handle w =
     (case handle of None \<Rightarrow> Some (ESP_ERR_INVALID_ARG, w)
      | Some h \<Rightarrow> do { _ \<leftarrow> wsets w h; Some (ESP_OK, w\<lparr>wsets := (wsets w)(h := None)\<rparr>) })"

definition st_upd :: "addr \<Rightarrow> (esp_wifi_setting \<Rightarrow> esp_wifi_setting) \<Rightarrow> 'z wfw \<Rightarrow> (esp_err \<times> 'z wfw) option" where
  "st_upd h f w = do { s \<leftarrow> wsets w h; Some (ESP_OK, w\<lparr>wsets := (wsets w)(h \<mapsto> f s)\<rparr>) }"

definition esp_wifi_setting_register_function ::
  "addr \<Rightarrow> fnptr option \<Rightarrow> fnptr option \<Rightarrow> fnptr option \<Rightarrow> 'z wfw \<Rightarrow> (esp_err \<times> 'z wfw) option" where
  "esp_wifi_setting_register_function h start stop teardown w =
     st_upd h (\<lambda>s. s\<lparr>st_start := start, st_stop := stop, st_teardown := teardown\<rparr>) w"

definition esp_wifi_setting_regitster_notify_handle :: "addr option \<Rightarrow> service_handle option \<Rightarrow> 'z wfw \<Rightarrow> (esp_err \<times> 'z wfw) option" where
  "esp_wifi_setting_regitster_notify_handle handle on_handle w =
     (case handle of None \<Rightarrow> Some (ESP_ERR_INVALID_ARG, w) | Some h \<Rightarrow> st_upd h (\<lambda>s. s\<lparr>st_notify_handle := on_handle\<rparr>) w)"

definition wifi_service_set_sta_info ::
  "'z wfw wifi_ops \<Rightarrow> service_handle option \<Rightarrow> wifi_config \<Rightarrow> 'z wfw \<Rightarrow> (esp_err \<times> 'z wfw) option" where
  "wifi_service_set_sta_info W handle info w =
     (case handle of None \<Rightarrow> Some (ESP_ERR_INVALID_ARG, w)
      | Some h \<Rightarrow> do {
          (a, s) \<leftarrow> wifi_data h w;
          w \<leftarrow> ws_upd a (\<lambda>s. s\<lparr>ws_info := info\<rparr>) w;
          Some (ESP_OK, wifi_serv_cmd_send W (ws_que s) WIFI_SERV_CMD_CONNECT 0 0 False w) })"

definition esp_wifi_setting_info_notify ::
  "'z wfw wifi_ops \<Rightarrow> addr option \<Rightarrow> wifi_config \<Rightarrow> 'z wfw \<Rightarrow> (esp_err \<times> 'z wfw) option" where
  "esp_wifi_setting_info_notify W handle info w =
     (case handle of None \<Rightarrow> Some (ESP_ERR_INVALID_ARG, w)
      | Some h \<Rightarrow> do {
          s \<leftarrow> wsets w h;
          (_, w) \<leftarrow> wifi_service_set_sta_info W (st_notify_handle s) info w;
          Some (ESP_OK, w) })"

definition esp_wifi_setting_set_data :: "addr option \<Rightarrow> addr option \<Rightarrow> 'z wfw \<Rightarrow> (esp_err \<times> 'z wfw) option" where
  "esp_wifi_setting_set_data handle data w =
     (case handle of None \<Rightarrow> Some (ESP_ERR_INVALID_ARG, w) | Some h \<Rightarrow> st_upd h (\<lambda>s. s\<lparr>st_user_data := data\<rparr>) w)"

definition esp_wifi_setting_get_data :: "addr option \<Rightarrow> 'z wfw \<Rightarrow> addr option option" where
  "esp_wifi_setting_get_data handle w = (case handle of None \<Rightarrow> Some None | Some h \<Rightarrow> do { s \<leftarrow> wsets w h; Some (st_user_data s) })"

definition esp_wifi_setting_start :: "'z wfw wifi_ops \<Rightarrow> addr option \<Rightarrow> 'z wfw \<Rightarrow> (esp_err \<times> 'z wfw) option" where
  "esp_wifi_setting_start W handle w =
     (case handle of None \<Rightarrow> Some (ESP_ERR_INVALID_ARG, w)
      | Some h \<Rightarrow> do { s \<leftarrow> wsets w h; Some (case st_start s of None \<Rightarrow> (ESP_OK, w) | Some f \<Rightarrow> call_setting W f h w) })"

definition esp_wifi_setting_stop :: "'z wfw wifi_ops \<Rightarrow> addr option \<Rightarrow> 'z wfw \<Rightarrow> (esp_err \<times> 'z wfw) option" where
  "esp_wifi_setting_stop W handle w =
     (case handle of None \<Rightarrow> Some (ESP_ERR_INVALID_ARG, w)
      | Some h \<Rightarrow> do { s \<leftarrow> wsets w h; Some (case st_stop s of None \<Rightarrow> (ESP_OK, w) | Some f \<Rightarrow> call_setting W f h w) })"

definition esp_wifi_setting_teardown ::
  "'z wfw wifi_ops \<Rightarrow> addr option \<Rightarrow> wifi_config option \<Rightarrow> 'z wfw \<Rightarrow> (esp_err \<times> 'z wfw) option" where
  "esp_wifi_setting_teardown W handle info w =
     (case handle of None \<Rightarrow> Some (ESP_ERR_INVALID_ARG, w)
      | Some h \<Rightarrow> do { s \<leftarrow> wsets w h; Some (case st_teardown s of None \<Rightarrow> (ESP_OK, w) | Some f \<Rightarrow> call_teardown W f h info w) })"

text \<open>The walks over the registered settings read the list again at every step; the body says whether to leave.\<close>

partial_function (option) each_setting :: "addr \<Rightarrow> (wifi_setting_item \<Rightarrow> nat \<Rightarrow> 'z wfw \<Rightarrow> (bool \<times> 'z wfw) option) \<Rightarrow> nat \<Rightarrow> 'z wfw \<Rightarrow> 'z wfw option" where
  "each_setting a f i w = do {
     s \<leftarrow> wss w a;
     if i \<ge> length (ws_setting_list s) then Some w
     else do {
       (leave, w) \<leftarrow> f (ws_setting_list s ! i) i w;
       if leave then Some w else each_setting a f (Suc i) w } }"

definition set_running :: "addr \<Rightarrow> nat \<Rightarrow> bool \<Rightarrow> 'z wfw \<Rightarrow> 'z wfw option" where
  "set_running a i r w = ws_upd a (\<lambda>s. s\<lparr>ws_setting_list := (ws_setting_list s)[i := (ws_setting_list s ! i)\<lparr>wt_running := r\<rparr>]\<rparr>) w"

text \<open>The index given out is one less than the index stored.\<close>

definition wifi_service_register_setting_handle ::
  "'z wfw platform \<Rightarrow> service_handle option \<Rightarrow> addr option \<Rightarrow> 'z wfw \<Rightarrow> ((esp_err \<times> int option) \<times> 'z wfw) option" where
  "wifi_service_register_setting_handle R handle setting w =
     (case handle of None \<Rightarrow> Some ((ESP_ERR_INVALID_ARG, None), w)
      | Some h \<Rightarrow> (case heap_alloc R 16 w of
          (None, w) \<Rightarrow> Some ((ESP_FAIL, None), w)
        | (Some _, w) \<Rightarrow> do {
            (a, s) \<leftarrow> wifi_data h w;
            let out_index = ws_setting_index s;
            w \<leftarrow> ws_upd a (\<lambda>s. s\<lparr>ws_setting_index := out_index + 1, ws_setting_list := ws_setting_list s @
               [\<lparr>wt_on_handle = setting, wt_index = out_index + 1, wt_running = False\<rparr>]\<rparr>) w;
            Some ((ESP_OK, Some out_index), w) }))"

section \<open>The task\<close>

definition wifi_on_connected :: "'z wfw wifi_ops \<Rightarrow> addr \<Rightarrow> 'z wfw \<Rightarrow> 'z wfw option" where
  "wifi_on_connected W a w = do {
     w \<leftarrow> ws_upd a (\<lambda>s. s\<lparr>ws_reason := WIFI_SERV_STA_UNKNOWN, ws_retry_times := 0, ws_retrying := False\<rparr>) w;
     s \<leftarrow> wss w a;
     if ws_is_setting s then
       each_setting a (\<lambda>it i w.
         if \<not> wt_running it then Some (False, w)
         else do {
           w \<leftarrow> set_running a i False w;
           (_, w) \<leftarrow> esp_wifi_setting_teardown W (wt_on_handle it) None w;
           Some (False, w) }) 0 (esp_timer_stop W (ws_setting_timer s) w)
     else Some w }"

text \<open>After a disconnection that the user did not ask for, the connection is tried again, ten times, each time later.\<close>

definition wifi_retry :: "'z wfw wifi_ops \<Rightarrow> addr \<Rightarrow> 'z wfw \<Rightarrow> 'z wfw option" where
  "wifi_retry W a w = do {
     s \<leftarrow> wss w a;
     if ws_retry_times s < 10 then do {
       w \<leftarrow> ws_upd a (\<lambda>s. s\<lparr>ws_retry_times := ws_retry_times s + 1, ws_retrying := True\<rparr>) w;
       s \<leftarrow> wss w a;
       Some (esp_timer_start_once W (ws_retry_timer s) (word_of_int (ws_retry_times s) * 1000 * 1000 * 2) w) }
     else ws_upd a (\<lambda>s. s\<lparr>ws_retrying := False\<rparr>) w }"

definition wifi_on_state ::
  "'z wfw service_ops \<Rightarrow> 'z wfw wifi_ops \<Rightarrow> service_handle \<Rightarrow> addr \<Rightarrow> wifi_task_msg \<Rightarrow> 'z wfw \<Rightarrow> 'z wfw option" where
  "wifi_on_state S W h a msg w = do {
     w \<leftarrow> (if wm_type msg = WIFI_SERV_EVENT_SETTING_TIMEOUT then
            each_setting a (\<lambda>it i w.
              if wt_running it then do { (_, w) \<leftarrow> esp_wifi_setting_stop W (wt_on_handle it) w; Some (False, w) } else Some (False, w)) 0 w
          else if wm_type msg = WIFI_SERV_EVENT_CONNECTED then wifi_on_connected W a w
          else Some w);
     s \<leftarrow> wss w a;
     if wm_type msg = WIFI_SERV_EVENT_DISCONNECTED \<and> ws_reason s \<noteq> WIFI_SERV_STA_BY_USER \<and> ws_reason s \<noteq> WIFI_SERV_STA_UNKNOWN
     then wifi_retry W a w
     else map_option snd (periph_service_callback S (Some h)
       \<lparr>se_type = wm_type msg, se_source = int h, se_data = wm_pdata msg, se_len = wm_len msg\<rparr> w) }"

definition wifi_setting_start_cmd :: "'z wfw wifi_ops \<Rightarrow> addr \<Rightarrow> int \<Rightarrow> 'z wfw \<Rightarrow> 'z wfw option" where
  "wifi_setting_start_cmd W a idx w = do {
     w \<leftarrow> ws_upd a (\<lambda>s. s\<lparr>ws_reason := WIFI_SERV_STA_BY_USER\<rparr>) w;
     let w = esp_wifi_disconnect W w;
     s \<leftarrow> wss w a;
     let w = (if ws_retrying s then esp_timer_stop W (ws_retry_timer s) w else w);
     w \<leftarrow> each_setting a (\<lambda>it i w.
       if idx = 0 \<or> wt_index it = idx then do {
         (_, w) \<leftarrow> esp_wifi_setting_start W (wt_on_handle it) w;
         w \<leftarrow> set_running a i True w;
         Some (idx \<noteq> 0, w) }
       else Some (False, w)) 0 w;
     w \<leftarrow> ws_upd a (\<lambda>s. s\<lparr>ws_is_setting := True\<rparr>) w;
     s \<leftarrow> wss w a;
     Some (esp_timer_start_once W (ws_setting_timer s) (word_of_int (ws_setting_timeout_s s) * 1000 * 1000) w) }"

definition wifi_setting_stop_cmd :: "'z wfw wifi_ops \<Rightarrow> addr \<Rightarrow> int \<Rightarrow> 'z wfw \<Rightarrow> 'z wfw option" where
  "wifi_setting_stop_cmd W a idx w = do {
     s \<leftarrow> wss w a;
     w \<leftarrow> each_setting a (\<lambda>it i w.
       if idx = 0 \<or> wt_index it = idx then do { (_, w) \<leftarrow> esp_wifi_setting_stop W (wt_on_handle it) w; Some (idx \<noteq> 0, w) }
       else Some (False, w)) 0 (esp_timer_stop W (ws_setting_timer s) w);
     ws_upd a (\<lambda>s. s\<lparr>ws_is_setting := False\<rparr>) w }"

text \<open>The commands; the result tells whether the task goes on.\<close>

definition wifi_on_cmd :: "'z wfw wifi_ops \<Rightarrow> addr \<Rightarrow> wifi_task_msg \<Rightarrow> 'z wfw \<Rightarrow> (bool \<times> 'z wfw) option" where
  "wifi_on_cmd W a msg w =
     (if wm_type msg = WIFI_SERV_CMD_CONNECT then do {
        s \<leftarrow> wss w a;
        w \<leftarrow> configure_wifi_sta_mode W (ws_info s) w;
        w \<leftarrow> esp_error_check (esp_wifi_connect W w);
        Some (True, w) }
      else if wm_type msg = WIFI_SERV_CMD_DISCONNECT then do {
        w \<leftarrow> ws_upd a (\<lambda>s. s\<lparr>ws_reason := WIFI_SERV_STA_BY_USER\<rparr>) w;
        Some (True, esp_wifi_disconnect W w) }
      else if wm_type msg = WIFI_SERV_CMD_SETTING_START then map_option (Pair True) (wifi_setting_start_cmd W a (wm_pdata msg) w)
      else if wm_type msg = WIFI_SERV_CMD_SETTING_STOP then map_option (Pair True) (wifi_setting_stop_cmd W a (wm_pdata msg) w)
      else if wm_type msg = WIFI_SERV_CMD_DESTROY then Some (False, w)
      else Some (True, w))"

definition wifi_step ::
  "'z wfw service_ops \<Rightarrow> 'z wfw wifi_ops \<Rightarrow> service_handle \<Rightarrow> addr \<Rightarrow> wifi_task_msg \<Rightarrow> 'z wfw \<Rightarrow> (bool \<times> 'z wfw) option" where
  "wifi_step S W h a msg w =
     (if wm_msg_type msg = WIFI_SERV_EVENT_TYPE_STATE then map_option (Pair True) (wifi_on_state S W h a msg w)
      else if wm_msg_type msg = WIFI_SERV_EVENT_TYPE_CMD then wifi_on_cmd W a msg w
      else Some (True, w))"

partial_function (option) wifi_loop ::
  "'z wfw service_ops \<Rightarrow> 'z wfw wifi_ops \<Rightarrow> service_handle \<Rightarrow> addr \<Rightarrow> 'z wfw \<Rightarrow> 'z wfw option" where
  "wifi_loop S W h a w = do {
     s \<leftarrow> wss w a;
     (go, w) \<leftarrow> (case wifi_queue_receive W (ws_que s) w of (None, w) \<Rightarrow> Some (True, w) | (Some msg, w) \<Rightarrow> wifi_step S W h a msg w);
     if go then wifi_loop S W h a w else Some w }"

definition setting_timeout_ptr :: fnptr where "setting_timeout_ptr = 81"
definition retry_timer_ptr :: fnptr where "retry_timer_ptr = 82"

definition wifi_task ::
  "'z wfw platform \<Rightarrow> 'z wfw service_ops \<Rightarrow> 'z wfw wifi_ops \<Rightarrow> service_handle \<Rightarrow> 'z wfw \<Rightarrow> 'z wfw option" where
  "wifi_task R S W h w = do {
     w \<leftarrow> wifi_sta_setup W h w;
     (a, s) \<leftarrow> wifi_data h w;
     let ((err, info), w) = esp_wifi_get_config W w;
     w \<leftarrow> ws_upd a (\<lambda>s. s\<lparr>ws_info := info\<rparr>) w;
     w \<leftarrow> configure_wifi_sta_mode W info w;
     w \<leftarrow> esp_error_check (esp_wifi_start W w);
     let (t, w) = esp_timer_create W setting_timeout_ptr h w;
     w \<leftarrow> ws_upd a (\<lambda>s. s\<lparr>ws_setting_timer := t\<rparr>) w;
     let (t, w) = esp_timer_create W retry_timer_ptr h w;
     w \<leftarrow> ws_upd a (\<lambda>s. s\<lparr>ws_retry_timer := t, ws_retry_times := 0\<rparr>) w;
     w \<leftarrow> wifi_loop S W h a w;
     s \<leftarrow> wss w a;
     let w = esp_timer_delete W (ws_setting_timer s) (esp_timer_stop W (ws_setting_timer s) w);
     s \<leftarrow> wss w a;
     let w = esp_timer_delete W (ws_retry_timer s) (esp_timer_stop W (ws_retry_timer s) w);
     w \<leftarrow> ws_upd a (\<lambda>s. s\<lparr>ws_setting_timer := None, ws_retry_timer := None\<rparr>) w;
     s \<leftarrow> wss w a;
     Some (xEventGroupSetBits R (ws_sync_evt s) WIFI_TASK_DESTROY_BIT w) }"

section \<open>The service\<close>

definition wifi_service_setting_start :: "'z wfw wifi_ops \<Rightarrow> service_handle option \<Rightarrow> int \<Rightarrow> 'z wfw \<Rightarrow> (esp_err \<times> 'z wfw) option" where
  "wifi_service_setting_start W handle index w =
     (case handle of None \<Rightarrow> Some (ESP_ERR_INVALID_ARG, w)
      | Some h \<Rightarrow> do { (a, s) \<leftarrow> wifi_data h w; Some (ESP_OK, wifi_serv_cmd_send W (ws_que s) WIFI_SERV_CMD_SETTING_START index 0 False w) })"

definition wifi_service_setting_stop :: "'z wfw wifi_ops \<Rightarrow> service_handle option \<Rightarrow> int \<Rightarrow> 'z wfw \<Rightarrow> (esp_err \<times> 'z wfw) option" where
  "wifi_service_setting_stop W handle index w =
     (case handle of None \<Rightarrow> Some (ESP_ERR_INVALID_ARG, w)
      | Some h \<Rightarrow> do { (a, s) \<leftarrow> wifi_data h w; Some (ESP_OK, wifi_serv_cmd_send W (ws_que s) WIFI_SERV_CMD_SETTING_STOP index 0 False w) })"

definition wifi_service_disconnect :: "'z wfw wifi_ops \<Rightarrow> service_handle option \<Rightarrow> 'z wfw \<Rightarrow> (esp_err \<times> 'z wfw) option" where
  "wifi_service_disconnect W handle w =
     (case handle of None \<Rightarrow> Some (ESP_ERR_INVALID_ARG, w)
      | Some h \<Rightarrow> do { (a, s) \<leftarrow> wifi_data h w; Some (ESP_OK, wifi_serv_cmd_send W (ws_que s) WIFI_SERV_CMD_DISCONNECT 0 0 False w) })"

text \<open>The state is never updated.\<close>

definition wifi_service_state_get :: "service_handle option \<Rightarrow> 'z wfw \<Rightarrow> int option" where
  "wifi_service_state_get handle w =
     (case handle of None \<Rightarrow> Some ESP_ERR_INVALID_ARG | Some h \<Rightarrow> do { (_, s) \<leftarrow> wifi_data h w; Some (ws_state s) })"

definition wifi_service_disconnect_reason_get :: "service_handle option \<Rightarrow> 'z wfw \<Rightarrow> int option" where
  "wifi_service_disconnect_reason_get handle w =
     (case handle of None \<Rightarrow> Some ESP_ERR_INVALID_ARG | Some h \<Rightarrow> do { (_, s) \<leftarrow> wifi_data h w; Some (ws_reason s) })"

text \<open>The part before the base service is destroyed.\<close>

definition wifi_service_free ::
  "'z wfw platform \<Rightarrow> 'z wfw wifi_ops \<Rightarrow> service_handle \<Rightarrow> 'z wfw \<Rightarrow> (esp_err \<times> 'z wfw) option" where
  "wifi_service_free R W h w = do {
     (a, s) \<leftarrow> wifi_data h w;
     let w = xEventGroupClearBits R (ws_sync_evt s) WIFI_TASK_DESTROY_BIT w;
     let w = wifi_serv_cmd_send W (ws_que s) WIFI_SERV_CMD_DESTROY 0 0 False w;
     let (bits, w) = xEventGroupWaitBits R (ws_sync_evt s) WIFI_TASK_DESTROY_BIT portMAX_DELAY w;
     s \<leftarrow> wss w a;
     let w = vEventGroupDelete R (ws_sync_evt s) (wifi_queue_delete W (ws_que s) w);
     Some (if bits AND WIFI_TASK_DESTROY_BIT \<noteq> 0 then ESP_OK else ESP_FAIL, w\<lparr>wss := (wss w)(a := None)\<rparr>) }"

definition wifi_service_destroy ::
  "'z wfw platform \<Rightarrow> 'z wfw service_ops \<Rightarrow> 'z wfw wifi_ops \<Rightarrow> service_handle option \<Rightarrow> 'z wfw \<Rightarrow> (esp_err \<times> 'z wfw) option" where
  "wifi_service_destroy R S W handle w =
     (case handle of None \<Rightarrow> Some (ESP_ERR_INVALID_ARG, w)
      | Some h \<Rightarrow> do {
          (ret, w) \<leftarrow> wifi_service_free R W h w;
          (_, w) \<leftarrow> periph_service_destroy S (Some h) w;
          Some (ret, w) })"

definition wifi_start_ptr :: fnptr where "wifi_start_ptr = 83"
definition wifi_stop_ptr :: fnptr where "wifi_stop_ptr = 84"
definition wifi_destroy_ptr :: fnptr where "wifi_destroy_ptr = 85"

text \<open>The functions the base service calls.\<close>

definition wifi_start_fn where "wifi_start_fn = wifi_service_connect"
definition wifi_stop_fn where "wifi_stop_fn = wifi_service_disconnect"
definition wifi_destroy_fn where "wifi_destroy_fn = wifi_service_destroy"

record wifi_service_config =
  wc_task_stack :: int
  wc_task_prio :: int
  wc_task_core :: int
  wc_evt_cb :: "fnptr option"
  wc_cb_ctx :: addr
  wc_setting_timeout_s :: int

definition wifi_service_create ::
  "'z wfw platform \<Rightarrow> 'z wfw wifi_ops \<Rightarrow> wifi_service_config \<Rightarrow> 'z wfw \<Rightarrow> (service_handle option \<times> 'z wfw) option" where
  "wifi_service_create R W config w =
     (case heap_alloc R 200 w of
        (None, w) \<Rightarrow> Some (None, w)
      | (Some a, w) \<Rightarrow> (case wifi_queue_create W 3 w of
          (None, w) \<Rightarrow> Some (None, w)
        | (Some q, w) \<Rightarrow> (case xEventGroupCreate R w of
            (None, w) \<Rightarrow> Some (None, wifi_queue_delete W q w)
          | (Some g, w) \<Rightarrow> do {
              let w = w\<lparr>wss := (wss w)(a \<mapsto> \<lparr>ws_que = q, ws_state = 0, ws_info = [], ws_setting_list = [], ws_setting_index = 0,
                ws_reason = 0, ws_is_setting = False, ws_retry_timer = None, ws_setting_timer = None,
                ws_setting_timeout_s = wc_setting_timeout_s config, ws_sync_evt = g, ws_retry_times = 0, ws_retrying = False\<rparr>)\<rparr>;
              (h, w) \<leftarrow> periph_service_create R (Some
                \<lparr>sc_task_stack = wc_task_stack config, sc_task_prio = wc_task_prio config, sc_task_core = wc_task_core config,
                 sc_start = Some wifi_start_ptr, sc_stop = Some wifi_stop_ptr, sc_destroy = Some wifi_destroy_ptr, sc_ioctl = None,
                 sc_name = Some ''wifi_serv'', sc_user_data = Some a\<rparr>) w;
              case h of
                None \<Rightarrow> (let w = vEventGroupDelete R g (wifi_queue_delete W q w) in Some (None, w\<lparr>wss := (wss w)(a := None)\<rparr>))
              | Some h \<Rightarrow> do {
                  (_, w) \<leftarrow> periph_service_set_callback h (wc_evt_cb config) (wc_cb_ctx config) w;
                  Some (Some h, w) } })))"

end
