(* ===== verification/Wifi_Service_Correct.thy ===== *)
theory Wifi_Service_Correct
  imports Wifi_Service Http_Client_Correct
begin

text \<open>
  What the Wi-Fi service does after a disconnection, which settings an index starts, and what destroying it does. The
  timers and the calls of settings are observed by functions on the state.
\<close>

fun wifi_steps ::
  "'z wfw service_ops \<Rightarrow> 'z wfw wifi_ops \<Rightarrow> service_handle \<Rightarrow> addr \<Rightarrow> wifi_task_msg list \<Rightarrow> 'z wfw \<Rightarrow> (bool \<times> 'z wfw) option" where
  "wifi_steps S W h a [] w = Some (True, w)"
| "wifi_steps S W h a (m # ms) w = do {
     (go, w) \<leftarrow> wifi_step S W h a m w;
     if go then wifi_steps S W h a ms w else Some (False, w) }"

lemma ws_upd_Some [simp]: "wss w a = Some s \<Longrightarrow> ws_upd a f w = Some (w\<lparr>wss := (wss w)(a \<mapsto> f s)\<rparr>)"
  by (simp add: ws_upd_def)

section \<open>Trying again\<close>

abbreviation (input) wifi_disconnected :: wifi_task_msg where
  "wifi_disconnected \<equiv> \<lparr>wm_msg_type = 1, wm_type = 3, wm_pdata = 0, wm_len = 0\<rparr>"

definition wifi_timer_law :: "'z wfw wifi_ops \<Rightarrow> ('z wfw \<Rightarrow> (addr option \<times> u64) list) \<Rightarrow> bool" where
  "wifi_timer_law W lg \<longleftrightarrow>
     (\<forall>t d w. wss (esp_timer_start_once W t d w) = wss w \<and> lg (esp_timer_start_once W t d w) = lg w @ [(t, d)]) \<and>
     (\<forall>w g. lg (w\<lparr>wss := g\<rparr>) = lg w)"

definition retry_starts :: "addr option \<Rightarrow> nat \<Rightarrow> nat \<Rightarrow> (addr option \<times> u64) list" where
  "retry_starts t n m = map (\<lambda>i. (t, of_nat (2000000 * Suc i))) [n..<m]"

lemma retry_starts_Cons: "n < m \<Longrightarrow> retry_starts t n m = (t, of_nat (2000000 * Suc n)) # retry_starts t (Suc n) m"
  by (simp add: retry_starts_def upt_conv_Cons)

lemma wifi_retry_steps:
  assumes L: "wifi_timer_law W lg" and s: "wss w a = Some s" "ws_reason s \<in> {1, 2}" "ws_retry_times s = int n" "n \<le> 10"
  shows "\<exists>w' s'. wifi_steps S W h a (replicate k wifi_disconnected) w = Some (True, w') \<and> wss w' a = Some s' \<and>
    lg w' = lg w @ retry_starts (ws_retry_timer s) n (min (n + k) 10) \<and> ws_retry_times s' = int (min (n + k) 10) \<and>
    (0 < k \<longrightarrow> (ws_retrying s' \<longleftrightarrow> n + k \<le> 10))"
  using s
proof (induction k arbitrary: w s n)
  case 0
  then show ?case by (auto simp: retry_starts_def)
next
  case (Suc k)
  have tl: "wss (esp_timer_start_once W t d x) = wss x" "lg (esp_timer_start_once W t d x) = lg x @ [(t, d)]" "lg (x\<lparr>wss := g\<rparr>) = lg x" for t d x g
    using L by (simp_all add: wifi_timer_law_def)
  show ?case
  proof (cases "n < 10")
    case True
    let ?s = "s\<lparr>ws_retry_times := int n + 1, ws_retrying := True\<rparr>"
    let ?w = "esp_timer_start_once W (ws_retry_timer s) (word_of_int (int n + 1) * 1000 * 1000 * 2) (w\<lparr>wss := (wss w)(a \<mapsto> ?s)\<rparr>)"
    have st: "wifi_step S W h a wifi_disconnected w = Some (True, ?w)"
      using Suc.prems True by (auto simp: wifi_step_def wifi_on_state_def wifi_retry_def Let_def)
    have d: "(word_of_int (int n + 1) * 1000 * 1000 * 2 :: u64) = of_nat (2000000 * Suc n)" by simp
    have "wss ?w a = Some ?s" by (simp add: tl)
    from Suc.IH [OF this, of "Suc n"] Suc.prems True
    obtain w' s' where w': "wifi_steps S W h a (replicate k wifi_disconnected) ?w = Some (True, w')" "wss w' a = Some s'"
      "lg w' = lg ?w @ retry_starts (ws_retry_timer s) (Suc n) (min (Suc n + k) 10)" "ws_retry_times s' = int (min (Suc n + k) 10)"
      "0 < k \<longrightarrow> (ws_retrying s' \<longleftrightarrow> Suc n + k \<le> 10)" by auto
    have "retry_starts (ws_retry_timer s) n (min (n + Suc k) 10) = (ws_retry_timer s, of_nat (2000000 * Suc n)) # retry_starts (ws_retry_timer s) (Suc n) (min (Suc n + k) 10)"
      using True retry_starts_Cons [of n "min (n + Suc k) 10" "ws_retry_timer s"] by simp
    then have lgw: "lg w' = lg w @ retry_starts (ws_retry_timer s) n (min (n + Suc k) 10)" using w'(3) d by (simp add: tl)
    have "k = 0 \<Longrightarrow> w' = ?w" using w'(1) by simp
    then have "ws_retrying s' \<longleftrightarrow> n + Suc k \<le> 10" using w'(2,5) True by (cases "k = 0") (auto simp: tl)
    then show ?thesis using st w'(1,2,4) lgw by auto
  next
    case False
    let ?w = "w\<lparr>wss := (wss w)(a \<mapsto> s\<lparr>ws_retrying := False\<rparr>)\<rparr>"
    have n: "n = 10" using False Suc.prems(4) by simp
    have st: "wifi_step S W h a wifi_disconnected w = Some (True, ?w)"
      using Suc.prems n by (auto simp: wifi_step_def wifi_on_state_def wifi_retry_def Let_def)
    have "wss ?w a = Some (s\<lparr>ws_retrying := False\<rparr>)" by simp
    from Suc.IH [OF this, of 10] Suc.prems n
    obtain w' s' where w': "wifi_steps S W h a (replicate k wifi_disconnected) ?w = Some (True, w')" "wss w' a = Some s'"
      "lg w' = lg ?w @ retry_starts (ws_retry_timer s) 10 (min (10 + k) 10)" "ws_retry_times s' = int (min (10 + k) 10)"
      "0 < k \<longrightarrow> (ws_retrying s' \<longleftrightarrow> 10 + k \<le> 10)" by auto
    have "k = 0 \<Longrightarrow> w' = ?w" using w'(1) by simp
    then have "\<not> ws_retrying s'" using w'(2,5) by (cases "k = 0") auto
    then show ?thesis using st w' n by (auto simp: tl retry_starts_def)
  qed
qed

text \<open>C34. While the reason stored is that the access point refused the station or was not found, from a fresh count
  every disconnection in a row starts the timer for the next attempt, two seconds later each time, at most ten times;
  whatever the callback of the application would do, it is not called, so that after the tenth attempt the service has given
  up and the application does not know.\<close>

theorem wifi_backs_off:
  assumes "wifi_timer_law W lg" "wss w a = Some s" "ws_reason s \<in> {1, 2}" "ws_retry_times s = 0"
  shows "\<exists>w' s'. wifi_steps S W h a (replicate (Suc k) wifi_disconnected) w = Some (True, w') \<and> wss w' a = Some s' \<and>
    lg w' = lg w @ map (\<lambda>i. (ws_retry_timer s, of_nat (2000000 * Suc i))) [0..<min (Suc k) 10] \<and>
    (ws_retrying s' \<longleftrightarrow> k < 10)"
  using wifi_retry_steps [OF assms(1-3), of 0 S h "Suc k"] assms(4) by (auto simp: retry_starts_def)

section \<open>Settings\<close>

fun register_all :: "'z wfw platform \<Rightarrow> service_handle \<Rightarrow> addr list \<Rightarrow> 'z wfw \<Rightarrow> (int option list \<times> 'z wfw) option" where
  "register_all R h [] w = Some ([], w)"
| "register_all R h (x # xs) w = do {
     ((_, i), w) \<leftarrow> wifi_service_register_setting_handle R (Some h) (Some x) w;
     (is, w) \<leftarrow> register_all R h xs w;
     Some (i # is, w) }"

text \<open>The calls of settings are recorded, and nothing else moves the record.\<close>

definition wifi_setting_law :: "'z wfw platform \<Rightarrow> 'z wfw wifi_ops \<Rightarrow> ('z wfw \<Rightarrow> addr list) \<Rightarrow> bool" where
  "wifi_setting_law R W lg \<longleftrightarrow>
     (\<forall>n w. \<exists>x. heap_alloc R n w = (Some x, w)) \<and>
     (\<forall>f x w. wss (snd (call_setting W f x w)) = wss w \<and> wsets (snd (call_setting W f x w)) = wsets w \<and>
        lg (snd (call_setting W f x w)) = lg w @ [x]) \<and>
     (\<forall>w. wss (esp_wifi_disconnect W w) = wss w \<and> wsets (esp_wifi_disconnect W w) = wsets w \<and> lg (esp_wifi_disconnect W w) = lg w) \<and>
     (\<forall>t w. wss (esp_timer_stop W t w) = wss w \<and> wsets (esp_timer_stop W t w) = wsets w \<and> lg (esp_timer_stop W t w) = lg w) \<and>
     (\<forall>t d w. wss (esp_timer_start_once W t d w) = wss w \<and> lg (esp_timer_start_once W t d w) = lg w) \<and>
     (\<forall>w g. lg (w\<lparr>wss := g\<rparr>) = lg w)"

lemma wifi_setting_lawD:
  assumes "wifi_setting_law R W lg"
  shows "\<exists>x. heap_alloc R n w = (Some x, w)"
    and "wss (snd (call_setting W f x w)) = wss w" "wsets (snd (call_setting W f x w)) = wsets w" "lg (snd (call_setting W f x w)) = lg w @ [x]"
    and "wss (esp_wifi_disconnect W w) = wss w" "wsets (esp_wifi_disconnect W w) = wsets w" "lg (esp_wifi_disconnect W w) = lg w"
    and "wss (esp_timer_stop W t w) = wss w" "wsets (esp_timer_stop W t w) = wsets w" "lg (esp_timer_stop W t w) = lg w"
    and "wss (esp_timer_start_once W t d w) = wss w" "lg (esp_timer_start_once W t d w) = lg w" "lg (w\<lparr>wss := g\<rparr>) = lg w"
  using assms unfolding wifi_setting_law_def by simp_all

definition settings_are :: "addr list \<Rightarrow> wifi_setting_item list \<Rightarrow> bool" where
  "settings_are hs items \<longleftrightarrow> length items = length hs \<and>
     (\<forall>j<length hs. wt_on_handle (items ! j) = Some (hs ! j) \<and> wt_index (items ! j) = int j + 1)"

definition startable :: "addr list \<Rightarrow> 'z wfw \<Rightarrow> bool" where
  "startable hs w \<longleftrightarrow> (\<forall>x\<in>set hs. \<exists>st f. wsets w x = Some st \<and> st_start st = Some f)"

lemma register_all_settings:
  assumes L: "wifi_setting_law R W lg" and v: "svs w h = Some v" "si_user_data v = Some a"
    and s: "wss w a = Some s" "settings_are pre (ws_setting_list s)" "ws_setting_index s = int (length pre)"
  shows "\<exists>w' s'. register_all R h xs w = Some (map (\<lambda>i. Some (int i)) [length pre..<length pre + length xs], w') \<and> wss w' a = Some s' \<and>
    settings_are (pre @ xs) (ws_setting_list s') \<and> lg w' = lg w \<and> wsets w' = wsets w"
  using v s
proof (induction xs arbitrary: w s pre)
  case Nil
  then show ?case by auto
next
  case (Cons x xs)
  let ?s = "s\<lparr>ws_setting_index := int (length pre) + 1, ws_setting_list := ws_setting_list s @ [\<lparr>wt_on_handle = Some x, wt_index = int (length pre) + 1, wt_running = False\<rparr>]\<rparr>"
  let ?w = "w\<lparr>wss := (wss w)(a \<mapsto> ?s)\<rparr>"
  obtain y where "heap_alloc R 16 w = (Some y, w)" using wifi_setting_lawD(1) [OF L] by blast
  then have r: "wifi_service_register_setting_handle R (Some h) (Some x) w = Some ((0, Some (int (length pre))), ?w)"
    using Cons.prems by (simp add: wifi_service_register_setting_handle_def wifi_data_def periph_service_get_data_def Let_def)
  have "settings_are (pre @ [x]) (ws_setting_list ?s)" using Cons.prems(4) by (auto simp: settings_are_def nth_append less_Suc_eq)
  then obtain w' s' where "register_all R h xs ?w = Some (map (\<lambda>i. Some (int i)) [length (pre @ [x])..<length (pre @ [x]) + length xs], w')"
    "wss w' a = Some s'" "settings_are ((pre @ [x]) @ xs) (ws_setting_list s')" "lg w' = lg ?w" "wsets w' = wsets ?w"
    using Cons.IH [of ?w ?s "pre @ [x]"] Cons.prems(1,2) by auto
  moreover have "[length pre..<length pre + length (x # xs)] = length pre # [length (pre @ [x])..<length (pre @ [x]) + length xs]"
    by (simp add: upt_conv_Cons del: upt_Suc)
  ultimately show ?case using r by (auto simp: wifi_setting_lawD(13) [OF L] simp del: upt_Suc)
qed

lemma settings_are_running:
  assumes "settings_are hs items" "i < length items"
  shows "settings_are hs (items[i := (items ! i)\<lparr>wt_running := r\<rparr>])"
  using assms by (auto simp: settings_are_def nth_list_update)

definition start_body :: "'z wfw wifi_ops \<Rightarrow> addr \<Rightarrow> int \<Rightarrow> wifi_setting_item \<Rightarrow> nat \<Rightarrow> 'z wfw \<Rightarrow> (bool \<times> 'z wfw) option" where
  "start_body W a idx it i w = (if idx = 0 \<or> wt_index it = idx then do {
         (_, w) \<leftarrow> esp_wifi_setting_start W (wt_on_handle it) w;
         w \<leftarrow> set_running a i True w;
         Some (idx \<noteq> 0, w) }
       else Some (False, w))"

lemma start_one:
  assumes L: "wifi_setting_law R W lg" and s: "wss w a = Some s" "settings_are hs (ws_setting_list s)" "startable hs w" "j < length hs"
    and idx: "idx = 0 \<or> idx = int j + 1"
  shows "\<exists>w' s'. start_body W a idx (ws_setting_list s ! j) j w = Some (idx \<noteq> 0, w') \<and> wss w' a = Some s' \<and>
    settings_are hs (ws_setting_list s') \<and> startable hs w' \<and> lg w' = lg w @ [hs ! j]"
proof -
  have it: "wt_on_handle (ws_setting_list s ! j) = Some (hs ! j)" "wt_index (ws_setting_list s ! j) = int j + 1" "j < length (ws_setting_list s)"
    using s by (auto simp: settings_are_def)
  obtain st f where st: "wsets w (hs ! j) = Some st" "st_start st = Some f" using s(3,4) unfolding startable_def by (meson nth_mem)
  let ?w = "snd (call_setting W f (hs ! j) w)"
  have w: "wss ?w a = Some s" "startable hs ?w" using s by (simp_all add: wifi_setting_lawD(2,3) [OF L] startable_def)
  have e: "esp_wifi_setting_start W (Some (hs ! j)) w = Some (call_setting W f (hs ! j) w)" using st by (simp add: esp_wifi_setting_start_def)
  have r: "set_running a j True ?w = Some (?w\<lparr>wss := (wss ?w)(a \<mapsto> s\<lparr>ws_setting_list := (ws_setting_list s)[j := (ws_setting_list s ! j)\<lparr>wt_running := True\<rparr>]\<rparr>)\<rparr>)"
    using w(1) by (simp add: set_running_def)
  show ?thesis
    using idx it e r settings_are_running [OF s(2) it(3), of True] w(2)
    by (auto simp: start_body_def wifi_setting_lawD(4,13) [OF L] startable_def case_prod_beta)
qed

lemma each_setting_all:
  assumes L: "wifi_setting_law R W lg" and s: "wss w a = Some s" "settings_are hs (ws_setting_list s)" "startable hs w" "j \<le> length hs"
  shows "\<exists>w' s'. each_setting a (start_body W a 0) j w = Some w' \<and> wss w' a = Some s' \<and> lg w' = lg w @ drop j hs"
  using s
proof (induction "length hs - j" arbitrary: j w s)
  case 0
  then show ?case by (subst each_setting.simps) (auto simp: settings_are_def)
next
  case (Suc n)
  then have j: "j < length hs" "j < length (ws_setting_list s)" and n: "n = length hs - Suc j" by (auto simp: settings_are_def)
  obtain w1 s1 where 1: "start_body W a 0 (ws_setting_list s ! j) j w = Some (False, w1)" "wss w1 a = Some s1"
    "settings_are hs (ws_setting_list s1)" "startable hs w1" "lg w1 = lg w @ [hs ! j]"
    using start_one [OF L Suc.prems(1-3) j(1), of 0] by auto
  obtain w' s' where "each_setting a (start_body W a 0) (Suc j) w1 = Some w'" "wss w' a = Some s'" "lg w' = lg w1 @ drop (Suc j) hs"
    using Suc.hyps(1) [OF n 1(2-4)] j(1) by auto
  then show ?case using 1 j Suc.prems(1) by (subst each_setting.simps) (simp add: Cons_nth_drop_Suc)
qed

lemma each_setting_one:
  assumes L: "wifi_setting_law R W lg" and s: "wss w a = Some s" "settings_are hs (ws_setting_list s)" "startable hs w"
    and i: "j \<le> i" "i < length hs"
  shows "\<exists>w' s'. each_setting a (start_body W a (int i + 1)) j w = Some w' \<and> wss w' a = Some s' \<and> lg w' = lg w @ [hs ! i]"
  using i
proof (induction "i - j" arbitrary: j)
  case 0
  then have j: "j = i" "i < length (ws_setting_list s)" using s by (auto simp: settings_are_def)
  obtain w1 s1 where 1: "start_body W a (int i + 1) (ws_setting_list s ! i) i w = Some (True, w1)" "wss w1 a = Some s1" "lg w1 = lg w @ [hs ! i]"
    using start_one [OF L s i(2), of "int i + 1"] by auto
  then show ?case using j s(1) by (subst each_setting.simps) simp
next
  case (Suc n)
  then have j: "j < i" "j < length (ws_setting_list s)" "wt_index (ws_setting_list s ! j) = int j + 1"
    and n: "n = i - Suc j" using s by (auto simp: settings_are_def)
  obtain w' s' where "each_setting a (start_body W a (int i + 1)) (Suc j) w = Some w'" "wss w' a = Some s'" "lg w' = lg w @ [hs ! i]"
    using Suc.hyps(1) [OF n] j(1) Suc.prems by auto
  then show ?case using j s(1) by (subst each_setting.simps) (simp add: start_body_def)
qed

text \<open>C35. The index that registering a setting returns is not the one it is started by: after several settings have been registered,
  starting the first by its index starts all of them, and starting any other by its index starts the one before it.\<close>

theorem wifi_setting_index_wrong:
  assumes L: "wifi_setting_law R W lg" and "svs w h = Some v" "si_user_data v = Some a" "wss w a = Some s"
    and "ws_setting_list s = []" "ws_setting_index s = 0" and "startable hs w" "i < length hs"
  shows "\<exists>w1 w2. register_all R h hs w = Some (map (\<lambda>i. Some (int i)) [0..<length hs], w1) \<and>
    wifi_step S W h a \<lparr>wm_msg_type = 0, wm_type = 4, wm_pdata = int i, wm_len = 0\<rparr> w1 = Some (True, w2) \<and>
    lg w2 = lg w @ (if i = 0 then hs else [hs ! (i - 1)])"
proof -
  obtain w1 s1 where 1: "register_all R h hs w = Some (map (\<lambda>i. Some (int i)) [0..<length hs], w1)" "wss w1 a = Some s1"
    "settings_are hs (ws_setting_list s1)" "lg w1 = lg w" "wsets w1 = wsets w"
    using register_all_settings [OF L assms(2-4), of "[]" hs] assms(5,6) by (auto simp: settings_are_def)
  let ?s = "s1\<lparr>ws_reason := 3\<rparr>"
  define w2 where "w2 = esp_wifi_disconnect W (w1\<lparr>wss := (wss w1)(a \<mapsto> ?s)\<rparr>)"
  define w3 where "w3 = (if ws_retrying ?s then esp_timer_stop W (ws_retry_timer ?s) w2 else w2)"
  have w2: "wss w2 a = Some ?s" by (simp add: w2_def wifi_setting_lawD(5) [OF L])
  have w3: "wss w3 a = Some ?s" "settings_are hs (ws_setting_list ?s)" "startable hs w3" "lg w3 = lg w"
    using 1 assms(7) by (simp_all add: w3_def w2_def wifi_setting_lawD(5-10,13) [OF L] startable_def)
  have "\<exists>w4 s4. each_setting a (start_body W a (int i)) 0 w3 = Some w4 \<and> wss w4 a = Some s4 \<and>
      lg w4 = lg w3 @ (if i = 0 then hs else [hs ! (i - 1)])"
  proof (cases i)
    case 0
    then show ?thesis using each_setting_all [OF L w3(1-3), of 0] by simp
  next
    case (Suc j)
    then show ?thesis using each_setting_one [OF L w3(1-3), of 0 j] assms(8) by (simp add: add.commute)
  qed
  then obtain w4 s4 where w4: "each_setting a (start_body W a (int i)) 0 w3 = Some w4" "wss w4 a = Some s4"
    "lg w4 = lg w3 @ (if i = 0 then hs else [hs ! (i - 1)])" by blast
  let ?w5 = "w4\<lparr>wss := (wss w4)(a \<mapsto> s4\<lparr>ws_is_setting := True\<rparr>)\<rparr>"
  have "wifi_setting_start_cmd W a (int i) w1 = Some (esp_timer_start_once W (ws_setting_timer s4) (word_of_int (ws_setting_timeout_s s4) * 1000 * 1000) ?w5)"
    using 1(2) w2 w4(1,2) unfolding wifi_setting_start_cmd_def start_body_def [abs_def]
    by (cases "ws_retrying s1") (simp_all add: w2_def [symmetric] Let_def w3_def)
  then show ?thesis
    using 1(1) w3(4) w4(3) by (simp add: wifi_step_def wifi_on_cmd_def wifi_setting_lawD(12,13) [OF L])
qed

section \<open>Destroying\<close>

text \<open>\<open>wifi_service_destroy\<close> frees the data of the service and then destroys the base service, which calls \<open>_wifi_destroy\<close>
  and so \<open>wifi_service_destroy\<close> again, now without data.\<close>

lemma wifi_destroy_undefined:
  assumes "wifi_service_free R W h w = Some (ret, w1)" "svs w h = Some v" "svs w1 h = Some v"
  shows "wifi_destroy_fn R S W (Some h) w1 = None"
proof -
  obtain a where "si_user_data v = Some a" "wss w1 a = None"
    using assms(1,2) by (auto simp: wifi_service_free_def wifi_data_def periph_service_get_data_def Let_def elim!: bind_SomeE split: prod.split_asm)
  then show ?thesis using assms(3)
    by (simp add: wifi_destroy_fn_def wifi_service_destroy_def wifi_service_free_def wifi_data_def periph_service_get_data_def)
qed

section \<open>An instance\<close>

record ex_wifi_world = wifi_world +
  xw_timers :: "(addr option \<times> u64) list"
  xw_calls :: "addr list"

definition ex_wifi_ops :: "ex_wifi_world wifi_ops" where
  "ex_wifi_ops = \<lparr>wifi_queue_create = (\<lambda>n w. (None, w)), wifi_queue_delete = (\<lambda>q w. w), wifi_queue_send = (\<lambda>f q m w. (True, w)),
     wifi_queue_receive = (\<lambda>q w. (None, w)), esp_wifi_init = (\<lambda>w. (0, w)), esp_event_loop_init = (\<lambda>x w. (0, w)),
     esp_wifi_set_storage = (\<lambda>w. (0, w)), esp_wifi_set_mode_sta = (\<lambda>w. (0, w)), esp_wifi_set_config = (\<lambda>c w. (0, w)),
     esp_wifi_get_config = (\<lambda>w. ((0, []), w)), esp_wifi_start = (\<lambda>w. (0, w)), esp_wifi_connect = (\<lambda>w. (0, w)),
     esp_wifi_disconnect = id, esp_timer_create = (\<lambda>f x w. (None, w)),
     esp_timer_start_once = (\<lambda>t d w. w\<lparr>xw_timers := xw_timers w @ [(t, d)]\<rparr>), esp_timer_stop = (\<lambda>t w. w), esp_timer_delete = (\<lambda>t w. w),
     call_setting = (\<lambda>f x w. (0, w\<lparr>xw_calls := xw_calls w @ [x]\<rparr>)), call_teardown = (\<lambda>f x i w. (0, w))\<rparr>"

definition ex_wifi :: wifi_service where
  "ex_wifi = \<lparr>ws_que = 1, ws_state = 0, ws_info = [], ws_setting_list = [], ws_setting_index = 0, ws_reason = 1, ws_is_setting = False,
     ws_retry_timer = Some 7, ws_setting_timer = Some 8, ws_setting_timeout_s = 60, ws_sync_evt = 2, ws_retry_times = 0, ws_retrying = False\<rparr>"

definition ex_wifi_serv :: periph_service_impl where
  "ex_wifi_serv = \<lparr>si_start = None, si_stop = None, si_destroy = Some wifi_destroy_ptr, si_ioctl = None, si_callback = None, si_cb_ctx = 0,
     si_name = None, si_user_data = Some 20\<rparr>"

definition ex_setting :: esp_wifi_setting where
  "ex_setting = \<lparr>st_start = Some 5, st_stop = None, st_teardown = None, st_tag = [], st_user_data = None, st_notify_handle = None\<rparr>"

definition ex_wifi_w :: ex_wifi_world where
  "ex_wifi_w = \<lparr>rbs = Map.empty, ifs = Map.empty, els = Map.empty, strs = Map.empty, prs = Map.empty, pss = Map.empty,
     svs = [10 \<mapsto> ex_wifi_serv], iks = Map.empty, wss = [20 \<mapsto> ex_wifi], wsets = [30 \<mapsto> ex_setting, 31 \<mapsto> ex_setting, 32 \<mapsto> ex_setting],
     xw_timers = [], xw_calls = []\<rparr>"

lemmas ex_wifi_defs = ex_wifi_w_def ex_wifi_def ex_wifi_serv_def ex_setting_def

theorem wifi_backs_off_witness:
  "\<forall>S. \<exists>w' s'. wifi_steps S ex_wifi_ops 10 20 (replicate 3 wifi_disconnected) ex_wifi_w = Some (True, w') \<and> wss w' 20 = Some s' \<and>
     xw_timers w' = [(Some 7, 2000000), (Some 7, 4000000), (Some 7, 6000000)] \<and> ws_retrying s'"
proof
  fix S
  have "wifi_timer_law ex_wifi_ops xw_timers" by (simp add: wifi_timer_law_def ex_wifi_ops_def)
  then have "\<exists>w' s'. wifi_steps S ex_wifi_ops 10 20 (replicate (Suc 2) wifi_disconnected) ex_wifi_w = Some (True, w') \<and> wss w' 20 = Some s' \<and>
      xw_timers w' = xw_timers ex_wifi_w @ map (\<lambda>i. (ws_retry_timer ex_wifi, of_nat (2000000 * Suc i))) [0..<min (Suc 2) 10] \<and>
      (ws_retrying s' \<longleftrightarrow> (2 :: nat) < 10)"
    by (rule wifi_backs_off) (simp_all add: ex_wifi_defs)
  moreover have "xw_timers ex_wifi_w @ map (\<lambda>i. (ws_retry_timer ex_wifi, of_nat (2000000 * Suc i))) [0..<min (Suc 2) 10] =
      [(Some 7, 2000000), (Some 7, 4000000), (Some 7, 6000000)]"
    by (simp add: ex_wifi_defs upt_rec)
  moreover have "Suc 2 = 3" "(2 :: nat) < 10" by simp_all
  ultimately show "\<exists>w' s'. wifi_steps S ex_wifi_ops 10 20 (replicate 3 wifi_disconnected) ex_wifi_w = Some (True, w') \<and> wss w' 20 = Some s' \<and>
     xw_timers w' = [(Some 7, 2000000), (Some 7, 4000000), (Some 7, 6000000)] \<and> ws_retrying s'"
    by metis
qed

theorem wifi_setting_index_wrong_witness:
  "\<forall>S. \<exists>w1 w2. register_all (seq_platform (Some 9)) 10 [30, 31, 32] ex_wifi_w = Some ([Some 0, Some 1, Some 2], w1) \<and>
     wifi_step S ex_wifi_ops 10 20 \<lparr>wm_msg_type = 0, wm_type = 4, wm_pdata = 1, wm_len = 0\<rparr> w1 = Some (True, w2) \<and> xw_calls w2 = [30]"
proof
  fix S
  have L: "wifi_setting_law (seq_platform (Some 9)) ex_wifi_ops xw_calls"
    by (simp add: wifi_setting_law_def ex_wifi_ops_def seq_platform_def)
  have st: "startable [30, 31, 32] ex_wifi_w" by (simp add: startable_def ex_wifi_defs)
  have i: "[0..<length [30, 31, 32 :: addr]] = [0, 1, 2]" by (simp add: upt_rec)
  have c: "xw_calls ex_wifi_w = []" by (simp add: ex_wifi_defs)
  have "\<exists>w1 w2. register_all (seq_platform (Some 9)) 10 [30, 31, 32] ex_wifi_w = Some (map (\<lambda>i. Some (int i)) [0..<length [30, 31, 32 :: addr]], w1) \<and>
     wifi_step S ex_wifi_ops 10 20 \<lparr>wm_msg_type = 0, wm_type = 4, wm_pdata = int 1, wm_len = 0\<rparr> w1 = Some (True, w2) \<and>
     xw_calls w2 = xw_calls ex_wifi_w @ (if (1 :: nat) = 0 then [30, 31, 32] else [[30, 31, 32] ! (1 - 1)])"
    by (rule wifi_setting_index_wrong [OF L, where v = ex_wifi_serv and a = 20 and s = ex_wifi]) (use st in \<open>simp_all add: ex_wifi_defs\<close>)
  then show "\<exists>w1 w2. register_all (seq_platform (Some 9)) 10 [30, 31, 32] ex_wifi_w = Some ([Some 0, Some 1, Some 2], w1) \<and>
     wifi_step S ex_wifi_ops 10 20 \<lparr>wm_msg_type = 0, wm_type = 4, wm_pdata = 1, wm_len = 0\<rparr> w1 = Some (True, w2) \<and> xw_calls w2 = [30]"
    unfolding i c by (simp del: register_all.simps)
qed

end
