(* ===== verification/Audio_Service.thy ===== *)
theory Audio_Service
  imports Input_Key
begin

text \<open>
  Audio services (\<open>components/esp_deamon/audio_service.c\<close>): objects with functions to start, stop, connect and disconnect that
  the calls of an application are handed to. Their functions are reached through \<open>service_ops\<close>, like those of the peripheral services.
\<close>

datatype audio_service_state =
  SERVICE_STATE_UNKNOWN | SERVICE_STATE_IDLE | SERVICE_STATE_CONNECTING | SERVICE_STATE_CONNECTED | SERVICE_STATE_RUNNING | SERVICE_STATE_STOPED

definition audio_state_num :: "audio_service_state \<Rightarrow> int" where
  "audio_state_num st = (case st of SERVICE_STATE_UNKNOWN \<Rightarrow> 0 | SERVICE_STATE_IDLE \<Rightarrow> 1 | SERVICE_STATE_CONNECTING \<Rightarrow> 2
     | SERVICE_STATE_CONNECTED \<Rightarrow> 3 | SERVICE_STATE_RUNNING \<Rightarrow> 4 | SERVICE_STATE_STOPED \<Rightarrow> 5)"

record audio_service_config =
  asc_task_stack :: int
  asc_task_prio :: int
  asc_task_core :: int
  asc_start :: "fnptr option"
  asc_stop :: "fnptr option"
  asc_connect :: "fnptr option"
  asc_disconnect :: "fnptr option"
  asc_destroy :: "fnptr option"
  asc_name :: "string option"
  asc_user_data :: "addr option"

record audio_service_impl =
  as_start :: "fnptr option"
  as_stop :: "fnptr option"
  as_connect :: "fnptr option"
  as_disconnect :: "fnptr option"
  as_destroy :: "fnptr option"
  as_callback :: "fnptr option"
  as_cb_ctx :: addr
  as_name :: "addr option"
  as_user_data :: "addr option"

record as_world = ik_world +
  ass :: "service_handle \<Rightarrow> audio_service_impl option"

type_synonym 'z asw = "'z as_world_scheme"

text \<open>The test after the copy of the name is on the service.\<close>

definition audio_service_create ::
  "'z asw platform \<Rightarrow> audio_service_config option \<Rightarrow> 'z asw \<Rightarrow> (service_handle option \<times> 'z asw) option" where
  "audio_service_create R config w =
     (case config of None \<Rightarrow> Some (None, w)
      | Some c \<Rightarrow> (case heap_alloc R 40 w of
          (None, w) \<Rightarrow> Some (None, w)
        | (Some h, w) \<Rightarrow> do {
            let (name, w) = (case asc_name c of None \<Rightarrow> (None, w) | Some n \<Rightarrow> str_dup R n w);
            let w = w\<lparr>ass := (ass w)(h \<mapsto>
              \<lparr>as_start = asc_start c, as_stop = asc_stop c, as_connect = asc_connect c, as_disconnect = asc_disconnect c,
               as_destroy = asc_destroy c, as_callback = None, as_cb_ctx = 0, as_name = name, as_user_data = asc_user_data c\<rparr>)\<rparr>;
            if asc_task_stack c > 0 then
              (case xTaskCreate R h (asc_task_stack c) (asc_task_prio c) (asc_task_core c) w of
                 (True, w) \<Rightarrow> Some (Some h, w)
               | (False, w) \<Rightarrow> do { w \<leftarrow> str_free name w; Some (None, w\<lparr>ass := (ass w)(h := None)\<rparr>) })
            else Some (Some h, w) }))"

definition audio_service_destroy ::
  "'z asw service_ops \<Rightarrow> service_handle option \<Rightarrow> 'z asw \<Rightarrow> (esp_err \<times> 'z asw) option" where
  "audio_service_destroy S hdl w =
     (case hdl of None \<Rightarrow> Some (ESP_ERR_INVALID_ARG, w)
      | Some h \<Rightarrow> do {
          s \<leftarrow> ass w h;
          let w = (case as_destroy s of None \<Rightarrow> w | Some f \<Rightarrow> snd (call_service_ctrl S f h w));
          s \<leftarrow> ass w h;
          w \<leftarrow> str_free (as_name s) w;
          Some (ESP_OK, w\<lparr>ass := (ass w)(h := None)\<rparr>) })"

text \<open>The calls that go to a function of the service.\<close>

definition audio_service_call ::
  "'z asw service_ops \<Rightarrow> (audio_service_impl \<Rightarrow> fnptr option) \<Rightarrow> service_handle option \<Rightarrow> 'z asw \<Rightarrow> (esp_err \<times> 'z asw) option" where
  "audio_service_call S fn hdl w =
     (case hdl of None \<Rightarrow> Some (ESP_ERR_INVALID_ARG, w)
      | Some h \<Rightarrow> do {
          s \<leftarrow> ass w h;
          case fn s of None \<Rightarrow> Some (ESP_ERR_INVALID_ARG, w) | Some f \<Rightarrow> Some (call_service_ctrl S f h w) })"

definition audio_service_start where "audio_service_start S = audio_service_call S as_start"
definition audio_service_stop where "audio_service_stop S = audio_service_call S as_stop"
definition audio_service_connect where "audio_service_connect S = audio_service_call S as_connect"
definition audio_service_disconnect where "audio_service_disconnect S = audio_service_call S as_disconnect"

definition audio_service_set_callback ::
  "service_handle \<Rightarrow> fnptr option \<Rightarrow> addr \<Rightarrow> 'z asw \<Rightarrow> (esp_err \<times> 'z asw) option" where
  "audio_service_set_callback h cb ctx w = do {
     s \<leftarrow> ass w h;
     Some (ESP_OK, w\<lparr>ass := (ass w)(h \<mapsto> s\<lparr>as_callback := cb, as_cb_ctx := ctx\<rparr>)\<rparr>) }"

definition audio_service_callback ::
  "'z asw service_ops \<Rightarrow> service_handle option \<Rightarrow> periph_service_event \<Rightarrow> 'z asw \<Rightarrow> (esp_err \<times> 'z asw) option" where
  "audio_service_callback S hdl evt w =
     (case hdl of None \<Rightarrow> Some (ESP_ERR_INVALID_ARG, w)
      | Some h \<Rightarrow> do {
          s \<leftarrow> ass w h;
          case as_callback s of None \<Rightarrow> Some (ESP_ERR_INVALID_ARG, w) | Some f \<Rightarrow> Some (call_service_cb S f h evt (as_cb_ctx s) w) })"

definition audio_service_set_data :: "service_handle option \<Rightarrow> addr option \<Rightarrow> 'z asw \<Rightarrow> (esp_err \<times> 'z asw) option" where
  "audio_service_set_data hdl data w =
     (case hdl of None \<Rightarrow> Some (ESP_ERR_INVALID_ARG, w)
      | Some h \<Rightarrow> do { s \<leftarrow> ass w h; Some (ESP_OK, w\<lparr>ass := (ass w)(h \<mapsto> s\<lparr>as_user_data := data\<rparr>)\<rparr>) })"

definition audio_service_get_data :: "service_handle option \<Rightarrow> 'z asw \<Rightarrow> addr option option" where
  "audio_service_get_data hdl w = (case hdl of None \<Rightarrow> Some None | Some h \<Rightarrow> do { s \<leftarrow> ass w h; Some (as_user_data s) })"

end
