(* ===== verification/Dueros_Service.thy ===== *)
theory Dueros_Service
  imports Audio_Service Http_Client_Correct
begin

text \<open>
  The DuerOS service (\<open>components/dueros_service/dueros_service.c\<close>): an audio service whose task logs in to a voice assistant and
  sends it what the recorder delivers. The library of the assistant and the recorder are the parameter \<open>duer_ops\<close>.
\<close>

abbreviation (input) DUER_CMD_LOGIN :: int where "DUER_CMD_LOGIN \<equiv> 1"
abbreviation (input) DUER_CMD_CONNECTED :: int where "DUER_CMD_CONNECTED \<equiv> 2"
abbreviation (input) DUER_CMD_START :: int where "DUER_CMD_START \<equiv> 3"
abbreviation (input) DUER_CMD_STOP :: int where "DUER_CMD_STOP \<equiv> 4"
abbreviation (input) DUER_CMD_QUIT :: int where "DUER_CMD_QUIT \<equiv> 5"
abbreviation (input) DUER_CMD_DESTROY :: int where "DUER_CMD_DESTROY \<equiv> 6"

record dueros_service =
  du_que :: "qhandle option"
  du_state :: audio_service_state

record duer_world = as_world +
  dus :: "addr \<Rightarrow> dueros_service option"
  duer_login_success :: bool
  duer_serv_handle :: "service_handle option"

type_synonym 'z duw = "'z duer_world_scheme"

datatype duer_event = DUER_EVENT_STARTED | DUER_EVENT_STOPPED | DUER_EVENT_OTHER

text \<open>\<open>rec_engine_data_read\<close> gives its result and the block.\<close>

record 'w duer_ops =
  duer_queue_create :: "'w \<Rightarrow> qhandle option \<times> 'w"
  duer_queue_delete :: "qhandle \<Rightarrow> 'w \<Rightarrow> 'w"
  duer_queue_send :: "qhandle \<Rightarrow> int \<Rightarrow> 'w \<Rightarrow> bool \<times> 'w"
  duer_queue_receive :: "qhandle \<Rightarrow> 'w \<Rightarrow> int option \<times> 'w"
  duer_initialize :: "'w \<Rightarrow> 'w"
  duer_start :: "'w \<Rightarrow> 'w"
  duer_stop :: "'w \<Rightarrow> 'w"
  duer_dcs_init :: "'w \<Rightarrow> 'w"
  duer_report_task :: "'w \<Rightarrow> 'w"
  duer_voice_start :: "int \<Rightarrow> 'w \<Rightarrow> 'w"
  duer_dcs_on_listen_started :: "'w \<Rightarrow> 'w"
  duer_voice_stop :: "'w \<Rightarrow> 'w"
  duer_voice_send :: "u8 list \<Rightarrow> 'w \<Rightarrow> int \<times> 'w"
  rec_engine_data_read :: "'w \<Rightarrow> (int \<times> u8 list) \<times> 'w"
  duer_profile_size :: nat
  rec_block_size :: nat

definition du_set_state :: "addr \<Rightarrow> audio_service_state \<Rightarrow> 'z duw \<Rightarrow> 'z duw option" where
  "du_set_state a st w = do { s \<leftarrow> dus w a; Some (w\<lparr>dus := (dus w)(a \<mapsto> s\<lparr>du_state := st\<rparr>)\<rparr>) }"

text \<open>A message to the task of a service: its data and their queue must exist.\<close>

definition duer_send :: "'z duw duer_ops \<Rightarrow> service_handle option \<Rightarrow> int \<Rightarrow> 'z duw \<Rightarrow> (esp_err \<times> 'z duw) option" where
  "duer_send D handle cmd w = do {
     a \<leftarrow> audio_service_get_data handle w;
     a \<leftarrow> a;
     s \<leftarrow> dus w a;
     q \<leftarrow> du_que s;
     Some (ESP_OK, snd (duer_queue_send D q cmd w)) }"

definition dueros_start where "dueros_start D h = duer_send D (Some h) DUER_CMD_START"
definition dueros_stop where "dueros_stop D h = duer_send D (Some h) DUER_CMD_STOP"
definition dueros_connect where "dueros_connect D h = duer_send D (Some h) DUER_CMD_LOGIN"
definition dueros_disconnect where "dueros_disconnect D h = duer_send D (Some h) DUER_CMD_QUIT"
definition dueros_destroy where "dueros_destroy D h = duer_send D (Some h) DUER_CMD_DESTROY"

definition duer_event_hook ::
  "'z duw service_ops \<Rightarrow> 'z duw duer_ops \<Rightarrow> duer_event option \<Rightarrow> 'z duw \<Rightarrow> 'z duw option" where
  "duer_event_hook S D event w = do {
     event \<leftarrow> event;
     case event of
       DUER_EVENT_STARTED \<Rightarrow> do {
         let w = duer_dcs_init D w;
         (_, w) \<leftarrow> duer_send D (duer_serv_handle w) DUER_CMD_CONNECTED w;
         Some (duer_report_task D (w\<lparr>duer_login_success := True\<rparr>)) }
     | DUER_EVENT_STOPPED \<Rightarrow> do {
         let w = w\<lparr>duer_login_success := False\<rparr>;
         (_, w) \<leftarrow> audio_service_disconnect S (duer_serv_handle w) w;
         Some w }
     | DUER_EVENT_OTHER \<Rightarrow> Some w }"

text \<open>The copy of the profile is not checked.\<close>

definition duer_login :: "'z duw platform \<Rightarrow> 'z duw duer_ops \<Rightarrow> 'z duw \<Rightarrow> 'z duw option" where
  "duer_login R D w = do {
     let (m, w) = heap_alloc R (duer_profile_size D) w;
     _ \<leftarrow> m;
     Some (duer_start D w) }"

text \<open>Recording: blocks are read and sent until one of both fails.\<close>

partial_function (option) dueros_record :: "'z duw duer_ops \<Rightarrow> 'z duw \<Rightarrow> 'z duw option" where
  "dueros_record D w =
     (let ((ret, block), w) = rec_engine_data_read D w in
      if ret = 0 \<or> ret = -1 then Some w
      else let (ret, w) = duer_voice_send D block w in
        if ret < 0 then Some w else dueros_record D w)"

definition dueros_report :: "'z duw service_ops \<Rightarrow> service_handle \<Rightarrow> addr \<Rightarrow> 'z duw \<Rightarrow> 'z duw option" where
  "dueros_report S h a w =
     map_option snd (audio_service_callback S (Some h) \<lparr>se_type = 0, se_source = int a, se_data = int a, se_len = 0\<rparr> w)"

definition dueros_enter :: "'z duw service_ops \<Rightarrow> service_handle \<Rightarrow> addr \<Rightarrow> audio_service_state \<Rightarrow> 'z duw \<Rightarrow> 'z duw option" where
  "dueros_enter S h a st w = do { w \<leftarrow> du_set_state a st w; dueros_report S h a w }"

text \<open>One message; the result tells whether the task goes on. The command to destroy sets the flag to go on.\<close>

definition dueros_step ::
  "'z duw platform \<Rightarrow> 'z duw service_ops \<Rightarrow> 'z duw duer_ops \<Rightarrow> service_handle \<Rightarrow> addr \<Rightarrow> int \<Rightarrow> 'z duw \<Rightarrow> (bool \<times> 'z duw) option" where
  "dueros_step R S D h a msg w = do {
     s \<leftarrow> dus w a;
     if msg = DUER_CMD_LOGIN then
       (if du_state s = SERVICE_STATE_IDLE then do {
          w \<leftarrow> duer_login R D w;
          w \<leftarrow> dueros_enter S h a SERVICE_STATE_CONNECTING w;
          Some (True, w) }
        else Some (True, w))
     else if msg = DUER_CMD_CONNECTED then map_option (Pair True) (dueros_enter S h a SERVICE_STATE_CONNECTED w)
     else if msg = DUER_CMD_START then
       (if audio_state_num (du_state s) < audio_state_num SERVICE_STATE_CONNECTED then Some (True, w)
        else do {
          let w = duer_dcs_on_listen_started D (duer_voice_start D 16000 w);
          w \<leftarrow> dueros_enter S h a SERVICE_STATE_RUNNING w;
          w \<leftarrow> dueros_record D w;
          Some (True, w) })
     else if msg = DUER_CMD_STOP then do {
       let w = duer_voice_stop D w;
       w \<leftarrow> dueros_enter S h a SERVICE_STATE_STOPED w;
       Some (True, w) }
     else if msg = DUER_CMD_QUIT \<and> du_state s \<noteq> SERVICE_STATE_IDLE then do {
       let w = (if duer_login_success w then duer_stop D w else w);
       w \<leftarrow> dueros_enter S h a SERVICE_STATE_IDLE w;
       Some (True, w) }
     else if msg = DUER_CMD_DESTROY then do {
       let w = duer_voice_stop D w;
       w \<leftarrow> du_set_state a SERVICE_STATE_IDLE w;
       Some (True, w) }
     else Some (True, w) }"

partial_function (option) dueros_loop ::
  "'z duw platform \<Rightarrow> 'z duw service_ops \<Rightarrow> 'z duw duer_ops \<Rightarrow> service_handle \<Rightarrow> addr \<Rightarrow> 'z duw \<Rightarrow> 'z duw option" where
  "dueros_loop R S D h a w = do {
     s \<leftarrow> dus w a;
     q \<leftarrow> du_que s;
     (go, w) \<leftarrow> (case duer_queue_receive D q w of (None, w) \<Rightarrow> Some (True, w) | (Some msg, w) \<Rightarrow> dueros_step R S D h a msg w);
     if go then dueros_loop R S D h a w else Some w }"

definition dueros_task ::
  "'z duw platform \<Rightarrow> 'z duw service_ops \<Rightarrow> 'z duw duer_ops \<Rightarrow> service_handle \<Rightarrow> 'z duw \<Rightarrow> 'z duw option" where
  "dueros_task R S D h w = do {
     a \<leftarrow> audio_service_get_data (Some h) w;
     let w = duer_initialize D w;
     let (voiceData, w) = heap_alloc R (rec_block_size D) w;
     w \<leftarrow> (case voiceData of None \<Rightarrow> Some w
          | Some _ \<Rightarrow> do {
              a \<leftarrow> a;
              w \<leftarrow> du_set_state a SERVICE_STATE_IDLE w;
              dueros_loop R S D h a w });
     a \<leftarrow> a;
     s \<leftarrow> dus w a;
     q \<leftarrow> du_que s;
     let w = duer_queue_delete D q w;
     Some (w\<lparr>dus := (dus w)(a := None)\<rparr>) }"

definition dueros_service_state_get :: "'z duw \<Rightarrow> audio_service_state option" where
  "dueros_service_state_get w = do {
     a \<leftarrow> audio_service_get_data (duer_serv_handle w) w;
     a \<leftarrow> a;
     s \<leftarrow> dus w a;
     Some (du_state s) }"

definition duer_start_ptr :: fnptr where "duer_start_ptr = 91"
definition duer_stop_ptr :: fnptr where "duer_stop_ptr = 92"
definition duer_connect_ptr :: fnptr where "duer_connect_ptr = 93"
definition duer_disconnect_ptr :: fnptr where "duer_disconnect_ptr = 94"
definition duer_destroy_ptr :: fnptr where "duer_destroy_ptr = 95"

text \<open>The task starts before its data exist; only the allocation of these is undefined on failure.\<close>

definition dueros_service_create :: "'z duw platform \<Rightarrow> 'z duw duer_ops \<Rightarrow> 'z duw \<Rightarrow> (service_handle option \<times> 'z duw) option" where
  "dueros_service_create R D w = do {
     (duer, w) \<leftarrow> audio_service_create R (Some \<lparr>asc_task_stack = 6 * 1024, asc_task_prio = 5, asc_task_core = 1,
       asc_start = Some duer_start_ptr, asc_stop = Some duer_stop_ptr, asc_connect = Some duer_connect_ptr,
       asc_disconnect = Some duer_disconnect_ptr, asc_destroy = Some duer_destroy_ptr, asc_name = Some ''duer_serv'', asc_user_data = None\<rparr>) w;
     let (a, w) = heap_alloc R 8 w;
     a \<leftarrow> a;
     let (q, w) = duer_queue_create D w;
     let w = w\<lparr>dus := (dus w)(a \<mapsto> \<lparr>du_que = q, du_state = SERVICE_STATE_UNKNOWN\<rparr>)\<rparr>;
     (_, w) \<leftarrow> audio_service_set_data duer (Some a) w;
     Some (duer, w\<lparr>duer_serv_handle := duer\<rparr>) }"

section \<open>Properties\<close>

lemma dueros_step_goes_on: "dueros_step R S D h a msg w = Some (go, w') \<Longrightarrow> go"
  by (auto simp: dueros_step_def Let_def elim!: bind_SomeE split: if_split_asm)

lemma dueros_loop_never: "dueros_loop R S D h a w = Some w' \<Longrightarrow> False"
proof (erule dueros_loop.raw_induct [where P = "\<lambda>R S D h a w w'. False", rotated], goal_cases)
  case (1 loop R S D h a w y)
  from 1(2) show ?case
    by (auto elim!: bind_SomeE split: option.split_asm prod.split_asm if_split_asm dest: dueros_step_goes_on 1(1))
qed

text \<open>The task of the service never ends once it runs, whatever messages it takes, the command to destroy it among them: when it
  has its buffer, it does not return, so that its queue and its data are never freed.\<close>

theorem dueros_task_never_ends:
  assumes "\<And>w. fst (heap_alloc R (rec_block_size D) w) \<noteq> None"
  shows "dueros_task R S D h w = None"
proof -
  have "dueros_loop R S D h a w = None" for a w using dueros_loop_never by (metis not_Some_eq)
  then show ?thesis
    using assms [of "duer_initialize D w"] by (auto simp: dueros_task_def Let_def bind_eq_None_conv split: prod.split option.split)
qed

theorem dueros_task_never_ends_witness: "\<forall>S D h w. dueros_task (seq_platform (Some 1)) S D h w = None"
  by (intro allI, rule dueros_task_never_ends) (simp add: seq_platform_def)

end
