(* ===== verification/Spec2Isabelle.thy ===== *)
theory Spec2Isabelle
  imports Ringbuf_Tasks Event_Iface_Correct Audio_Element_Task Audio_Pipeline_Correct Http_Header_Correct
    Esp_Periph_Correct Buttons_Correct Adc_Button_Correct Periph_Keys_Correct Input_Key_Correct Http_Playlist_Correct File_Stream_Correct Http_Tracks Wm8978_Correct Audio_Hal_Correct
    Transport_Ws_Correct Http_Client_Correct Http_Client_Io Http_Client_Request Periph_Console_Correct Periph_Led_Correct
    I2s_Stream_Correct Is31fl3216_Correct Display Wifi_Service_Correct Dueros_Service
begin

text \<open>
  A verification of the core of the ESP Audio Development Framework (\<open>components/\<close> of the repository).

  \<^bold>\<open>The program.\<close> An application builds a pipeline of audio elements. Every element is a FreeRTOS task that reads
  from its input, calls the process callback of a codec or a stream, and writes to its output; neighbouring elements
  share a ring buffer; commands and status reports travel through event interfaces. Beside the pipelines runs the
  peripheral manager, one task that serves the peripherals of a board: it dispatches commands to them and sends
  what they report (keys, touch pads, cards, Wi-Fi) as events through the same interfaces. The HTTP client
  sends requests over transports, which it finds by the scheme of the address, and follows redirections and challenges.

  \<^bold>\<open>Theories.\<close> A component has a theory with its data and operations, in the order of the source, and one or two
  theories \<open>_Correct\<close>, \<open>_Tasks\<close>, \<open>_Task\<close> with its lemmas.

  \<^item> \<open>Prelude\<close>: result types, blocks of memory with checked access, the stores of live objects, strings, 32-bit
    floats as far as the pipeline uses them, and the lemmas the components share. \<open>Platform\<close>: the parameters that
    stand for FreeRTOS, the heap and the callbacks of an application.
  \<^item> \<open>Ringbuf\<close> (\<open>audio_pipeline/ringbuf.c\<close>): every function, over 32-bit words. \<open>Ringbuf_Correct\<close>: one pass of a
    read or a write implements a bounded queue of bytes. \<open>Ringbuf_Tasks\<close>: the blocking loops, and every
    interleaving of the critical sections of several tasks.
  \<^item> \<open>Event_Iface\<close>, \<open>Event_Iface_Correct\<close> (\<open>audio_event_iface.c\<close>): commands arrive in order and exactly once,
    draining ends, a listener holds what was registered.
  \<^item> \<open>Audio_Element\<close>, \<open>Audio_Element_Correct\<close>, \<open>Audio_Element_Task\<close> (\<open>audio_element.c\<close>): the element, its command
    handler and its task; the handler refines a small state machine, and the task ends after a destroy command.
  \<^item> \<open>Audio_Pipeline\<close>, \<open>Audio_Pipeline_Correct\<close> (\<open>audio_pipeline.c\<close>): registering, linking, running, relinking.
  \<^item> \<open>Http_Header\<close>, \<open>Http_Header_Correct\<close> (\<open>esp_http_client/lib/http_header.c\<close>, \<open>http_utils.c\<close>): the header list is a
    dictionary up to the case of letters, with its printer and parser.
  \<^item> \<open>Esp_Periph\<close>, \<open>Esp_Periph_Correct\<close> (\<open>esp_peripherals.c\<close>): sets of peripherals, their task and the dispatch.
  \<^item> \<open>Buttons\<close>, \<open>Buttons_Correct\<close> (\<open>esp_peripherals/lib/button/button.c\<close>, \<open>lib/touch/touch.c\<close>): the detectors of
    presses and taps. \<open>Adc_Button\<close>, \<open>Adc_Button_Correct\<close> (\<open>lib/adc_button/adc_button.c\<close>): buttons on a resistor
    ladder, their sampling, and the machine that classifies presses.
  \<^item> \<open>Periph_Keys\<close>, \<open>Periph_Keys_Correct\<close> (\<open>periph_button.c\<close>, \<open>periph_touch.c\<close>, \<open>periph_adc_button.c\<close>): the three key
    peripherals, which turn the polls of the detectors into events of the peripheral manager.
  \<^item> \<open>Input_Key\<close>, \<open>Input_Key_Correct\<close> (\<open>esp_deamon/periph_service.c\<close>, \<open>input_key_service.c\<close>): services, and the one
    that maps the events of the key peripherals to the keys an application registered.
  \<^item> \<open>Http_Playlist\<close>, \<open>Http_Playlist_Correct\<close> (\<open>audio_stream/http_stream.c\<close>): the playlist parser of the HTTP stream.
  \<^item> \<open>Stream_Base\<close>: what the streams share, among it the contract of a stream that is paused and resumed.
    \<open>File_Stream\<close>, \<open>File_Stream_Correct\<close> (\<open>audio_stream/fatfs_stream.c\<close>, \<open>spiffs_stream.c\<close>, \<open>raw_stream.c\<close>): playing and
    recording files. \<open>Http_Stream\<close>, \<open>Http_Stream_Correct\<close>, \<open>Http_Tracks\<close> (\<open>http_stream.c\<close>): opening with redirects,
    reading, resuming by range requests, and the tracks of a playlist.
  \<^item> \<open>Codec_Bus\<close>: register access over I2C and the laws of a chip that answers. \<open>Es8388\<close>, \<open>Es8374\<close>, \<open>Codec_Correct\<close>
    (\<open>audio_hal/driver/es8388\<close>, \<open>es8374\<close>): volumes, muting, formats, clocks, starting and stopping. \<open>Wm8978\<close>,
    \<open>Wm8978_Correct\<close> (\<open>driver/wm8978\<close>): the driver's table mirrors the chip it cannot read,
    in the registers where the two start alike.
  \<^item> \<open>Audio_Hal\<close>, \<open>Audio_Hal_Correct\<close> (\<open>audio_hal/audio_hal.c\<close>): handles with a lock around the functions of a driver.
  \<^item> \<open>Transport\<close> (\<open>tcp_transport/transport.c\<close>): lists of transports and the calls that dispatch to their functions. \<open>Transport_Tcp\<close>
    (\<open>transport_tcp.c\<close>): transports over sockets. \<open>Transport_Ws\<close>, \<open>Transport_Ws_Correct\<close> (\<open>transport_ws.c\<close>): websockets over
    another transport, and their frames against the protocol.
  \<^item> \<open>Http_Auth\<close> (\<open>esp_http_client/lib/http_auth.c\<close>): basic and digest authentication. \<open>Http_Client\<close> (\<open>esp_http_client.c\<close>): the
    client. \<open>Http_Client_Correct\<close>: the rounds of a request end. \<open>Http_Client_Io\<close>: the bytes a read delivers.
    \<open>Http_Client_Request\<close>: the bytes of a request.
  \<^item> \<open>Periph_Console\<close>, \<open>Periph_Console_Correct\<close> (\<open>esp_peripherals/periph_console.c\<close>): lines typed at a port, split into a command and
    its arguments, and the command run with them. \<open>Periph_Led\<close>, \<open>Periph_Led_Correct\<close> (\<open>periph_led.c\<close>): channels that blink.
  \<^item> \<open>I2s_Stream\<close>, \<open>I2s_Stream_Correct\<close> (\<open>audio_stream/i2s_stream.c\<close>): samples to and from the I2S driver.
  \<^item> \<open>I2c_Bus\<close> (\<open>esp_peripherals/driver/i2c_bus/i2c_bus.c\<close>): the transfers of the bus under its lock. \<open>Is31fl3216\<close>,
    \<open>Is31fl3216_Correct\<close> (\<open>lib/IS31FL3216/IS31FL3216.c\<close>, \<open>periph_is31fl3216.c\<close>): a chip of sixteen lights on that bus, and the task
    that shows patterns on it. \<open>Display\<close> (\<open>display_service\<close>): the patterns of the display service on lights and LEDs.
  \<^item> \<open>Audio_Service\<close> (\<open>esp_deamon/audio_service.c\<close>): services of functions. \<open>Wifi_Service\<close>, \<open>Wifi_Service_Correct\<close> (\<open>wifi_service/src\<close>):
    the service that keeps a Wi-Fi connection, and its setting methods. \<open>Dueros_Service\<close> (\<open>dueros_service/dueros_service.c\<close>): the
    service of a voice assistant.

  \<^bold>\<open>State and results.\<close> Objects the C code reaches through pointers live in stores, partial maps from handles to
  records, in extensible world records: ring buffers, then event interfaces, elements, pipelines, peripherals. A
  function that touches them takes and returns the world. \<open>None\<close> is a run with undefined behaviour (a freed or
  null handle, an access outside a block) or one that does not return; error codes are values. Code outside
  the repository is an argument: the records \<open>platform\<close>, \<open>periph_ops\<close>, \<open>pad_ops\<close>, \<open>adc_ops\<close>, \<open>service_ops\<close>, \<open>file_ops\<close>,
  \<open>http_ops\<close>, \<open>hw\<close> (the I2C bus), \<open>transport_funcs\<close>, \<open>sock_env\<close>, \<open>ws_env\<close>, \<open>client_env\<close>,
  \<open>console_ops\<close>, \<open>led_ops\<close>, \<open>i2s_ops\<close>, \<open>bus_ops\<close>, \<open>is31_ops\<close>, \<open>wifi_ops\<close> and \<open>duer_ops\<close> hold functions on the whole world, so a blocking call may let other tasks change any part of it. What a theorem needs of them is a
  named predicate among its hypotheses, and every theorem with hypotheses has an instance \<open>_witness\<close>.

  \<^bold>\<open>Loops.\<close> No definition uses fuel where the source has a loop that ends: such loops are recursions with a
  measure. The blocking loops of the ring buffer, of the element task and of the peripheral task may run for ever and
  are partial functions; that they return is proved where the source guarantees it (\<open>rb_read_returns\<close>,
  \<open>task_ends_after_destroy\<close>, \<open>discard_empties\<close>, \<open>perform_bounded\<close>, \<open>client_read_delivers\<close>). The endless task of the ladder driver is modelled by its first \<open>n\<close> passes.

  \<^bold>\<open>Interfaces.\<close> The laws one component relies on are locales, interpreted on the model: \<open>object_store\<close> (the stores
  of live objects), the byte queue behind a ring buffer, \<open>dictionary\<close> (header list), \<open>press_detector\<close> (the polls of a
  button and of a touch pad, which share the proof that presses and releases alternate), \<open>resumable_stream\<close> (the file
  streams and the HTTP stream, which share the proof that a session of reads and pauses delivers the content),
  \<open>wm_invariant\<close> (what every setting of the WM8978 driver keeps, used for its table and for an unused register) and
  \<open>codec_driver\<close> (the volume of the two codecs that can be read, used by the HAL).

  \<^bold>\<open>What the theorems say.\<close> Functional behaviour, invariants and refinements come first in each theory; the theorems
  that end it state where the code departs from what it means to do, for instance \<open>rb_read_drops_tail\<close>,
  \<open>unlink_leaves_dangling\<close>, \<open>failed_run_sticks\<close>, \<open>generate_overflows\<close> and \<open>adc_event_wrong_channel\<close>.

  \<^bold>\<open>Not modelled.\<close> Logging. \<open>transport_ssl.c\<close> and \<open>esp-tls\<close>, thin layers over mbedTLS; the
  copied \<open>http_server\<close>; the vendor library of the ZL38063 and the tables of
  boards; what the codec drivers print; the Bluetooth service, the setting methods of the Wi-Fi service and the player of
  the DuerOS service, glue over libraries outside the repository; the remaining
  peripherals, which initialise drivers; the examples. Time and scheduling appear only through the platform.
\<close>

end
